(* ===== verification/Prelude.thy ===== *)
theory Prelude
  imports Complex_Main "HOL-Library.AList" "HOL-Library.List_Lexorder"
    "HOL-Library.Char_ord"
begin

text \<open>
  The Python of the source, as far as the components share it: exceptions as values of a
  sum type, insertion-ordered dictionaries as association lists (\<open>AList.update\<close> replaces in
  place or appends, as \<open>d[k] = v\<close> does), the string methods the code calls, JSON values
  and the coercions \<open>str(..)\<close>, \<open>int(..)\<close>, \<open>float(..)\<close>, \<open>bool(..)\<close> of the
  \<open>from_dict\<close> methods. Strings are lists of characters with code points below 256 and
  compare lexicographically, as Python's do. Floats are exact rationals: rounding, infinities
  and NaN are not modelled unless a component says so.
\<close>

section \<open>Collections of hints\<close>

named_theorems transition_simps \<open>transition tables and their predicates\<close>
named_theorems enum_simps \<open>values of enumerations and their inverses\<close>
named_theorems decode_simps \<open>unfolding of encoders, decoders and field readers\<close>

section \<open>Exceptions as values\<close>

text \<open>
  The exceptions the modelled code raises. \<open>OutsideModel\<close> marks the inputs on which Python
  would compute something this development does not define (the text of a float or of a
  container, the parsing of numerals in strings); no theorem says anything about them.
\<close>

datatype pyexn =
    ValueError string
  | KeyError string
  | TypeError string
  | RuntimeError string
  | PermissionError string
  | AttributeError string
  | InvalidTransition string string
  | OutsideModel

text \<open>\<open>str(exc)\<close>: the message, and for a \<open>KeyError\<close> the quoted key.\<close>

fun exn_text :: "pyexn \<Rightarrow> string" where
  "exn_text (ValueError m) = m"
| "exn_text (KeyError k) = [CHR 0x27] @ k @ [CHR 0x27]"
| "exn_text (TypeError m) = m"
| "exn_text (RuntimeError m) = m"
| "exn_text (PermissionError m) = m"
| "exn_text (AttributeError m) = m"
| "exn_text (InvalidTransition a b) = ''Invalid transition: '' @ a @ '' -> '' @ b"
| "exn_text OutsideModel = []"

definition bindE :: "'e + 'a \<Rightarrow> ('a \<Rightarrow> 'e + 'b) \<Rightarrow> 'e + 'b" where
  "bindE m f = (case m of Inl e \<Rightarrow> Inl e | Inr a \<Rightarrow> f a)"

lemma bindE_Inl [simp]: "bindE (Inl e) f = Inl e"
  by (simp add: bindE_def)

lemma bindE_Inr [simp]: "bindE (Inr a) f = f a"
  by (simp add: bindE_def)

lemma bindE_eq_Inr: "bindE m f = Inr b \<longleftrightarrow> (\<exists>a. m = Inr a \<and> f a = Inr b)"
  by (cases m) auto

lemma bindE_eq_Inl: "bindE m f = Inl e \<longleftrightarrow> m = Inl e \<or> (\<exists>a. m = Inr a \<and> f a = Inl e)"
  by (cases m) auto

fun mapE :: "('a \<Rightarrow> 'e + 'b) \<Rightarrow> 'a list \<Rightarrow> 'e + 'b list" where
  "mapE f [] = Inr []"
| "mapE f (x # xs) = bindE (f x) (\<lambda>y. bindE (mapE f xs) (\<lambda>ys. Inr (y # ys)))"

lemma mapE_Inr_map:
  "(\<And>x. x \<in> set xs \<Longrightarrow> f (g x) = Inr (h x)) \<Longrightarrow> mapE f (map g xs) = Inr (map h xs)"
  by (induction xs) auto

lemma mapE_Inr_iff: "mapE f xs = Inr ys \<longleftrightarrow> list_all2 (\<lambda>x y. f x = Inr y) xs ys"
proof (induction xs arbitrary: ys)
  case (Cons x xs)
  then show ?case by (cases ys) (auto simp: bindE_eq_Inr)
qed auto

section \<open>Strings\<close>

text \<open>\<open>str.isspace\<close> on the modelled code points.\<close>

definition py_isspace :: "char \<Rightarrow> bool" where
  "py_isspace c \<longleftrightarrow>
     (let n = of_char c :: nat
      in (9 \<le> n \<and> n \<le> 13) \<or> (28 \<le> n \<and> n \<le> 32) \<or> n = 133 \<or> n = 160)"

definition py_strip :: "string \<Rightarrow> string" where
  "py_strip s = rev (dropWhile py_isspace (rev (dropWhile py_isspace s)))"

definition py_lower_char :: "char \<Rightarrow> char" where
  "py_lower_char c =
     (let n = of_char c :: nat
      in if (65 \<le> n \<and> n \<le> 90) \<or> (192 \<le> n \<and> n \<le> 222 \<and> n \<noteq> 215) then char_of (n + 32) else c)"

definition py_lower :: "string \<Rightarrow> string" where
  "py_lower s = map py_lower_char s"

definition startswith :: "string \<Rightarrow> string \<Rightarrow> bool" where
  "startswith s p \<longleftrightarrow> take (length p) s = p"

definition endswith :: "string \<Rightarrow> string \<Rightarrow> bool" where
  "endswith s p \<longleftrightarrow> length p \<le> length s \<and> drop (length s - length p) s = p"

fun py_contains :: "string \<Rightarrow> string \<Rightarrow> bool" where
  "py_contains p [] \<longleftrightarrow> p = []"
| "py_contains p (c # s) \<longleftrightarrow> startswith (c # s) p \<or> py_contains p s"

fun py_join :: "string \<Rightarrow> string list \<Rightarrow> string" where
  "py_join sep [] = []"
| "py_join sep [x] = x"
| "py_join sep (x # xs) = x @ sep @ py_join sep xs"

text \<open>\<open>str.split\<close> on a one-character separator: never empty.\<close>

fun py_split :: "char \<Rightarrow> string \<Rightarrow> string list" where
  "py_split c [] = [[]]"
| "py_split c (x # xs) =
     (if x = c then [] # py_split c xs
      else (case py_split c xs of [] \<Rightarrow> [[x]] | w # ws \<Rightarrow> (x # w) # ws))"

lemma py_split_nonempty [simp]: "py_split c s \<noteq> []"
  by (induction s) (auto split: list.splits)

definition digit_char :: "nat \<Rightarrow> char" where
  "digit_char d = char_of (48 + d)"

fun show_nat :: "nat \<Rightarrow> string" where
  "show_nat n = (if n < 10 then [digit_char n] else show_nat (n div 10) @ [digit_char (n mod 10)])"

declare show_nat.simps [simp del]

definition show_int :: "int \<Rightarrow> string" where
  "show_int i = (if i < 0 then ''-'' @ show_nat (nat (- i)) else show_nat (nat i))"

lemma digit_char_inj: "a < 10 \<Longrightarrow> b < 10 \<Longrightarrow> digit_char a = digit_char b \<longleftrightarrow> a = b"
  by (auto simp: digit_char_def dest!: arg_cong [where f = "of_char :: char \<Rightarrow> nat"])

lemma show_nat_nonempty [simp]: "show_nat n \<noteq> []"
  by (subst show_nat.simps) simp

lemma show_nat_inj: "show_nat m = show_nat n \<Longrightarrow> m = n"
proof (induction m arbitrary: n rule: less_induct)
  case (less m)
  note eq = less.prems [unfolded show_nat.simps [of m] show_nat.simps [of n]]
  show ?case
  proof (cases "m < 10 \<or> n < 10")
    case True
    with eq show ?thesis
      by (auto simp: digit_char_inj append_eq_Cons_conv Cons_eq_append_conv split: if_splits)
  next
    case False
    with eq have "show_nat (m div 10) = show_nat (n div 10)" and d: "m mod 10 = n mod 10"
      by (auto simp: digit_char_inj)
    moreover from False have "m div 10 < m" by simp
    ultimately have "m div 10 = n div 10" using less.IH by blast
    with d show ?thesis by (metis div_mult_mod_eq)
  qed
qed

section \<open>Slices\<close>

text \<open>\<open>xs[-m:]\<close>: the last \<open>m\<close> elements, but the whole list when \<open>m = 0\<close>, and all but the
  first \<open>-m\<close> elements when \<open>m\<close> is negative.\<close>

definition slice_last :: "int \<Rightarrow> 'a list \<Rightarrow> 'a list" where
  "slice_last m xs =
     (if m > 0 then drop (length xs - nat m) xs else if m = 0 then xs else drop (nat (- m)) xs)"

text \<open>The bounded append of the histories: \<open>xs.append(x)\<close>, then
  \<open>if len(xs) > m: xs = xs[-m:]\<close>.\<close>

definition append_trim :: "int \<Rightarrow> 'a \<Rightarrow> 'a list \<Rightarrow> 'a list" where
  "append_trim m x xs =
     (if int (length (xs @ [x])) > m then slice_last m (xs @ [x]) else xs @ [x])"

lemma length_append_trim: "0 < m \<Longrightarrow> int (length (append_trim m x xs)) \<le> m"
  by (simp add: append_trim_def slice_last_def)

lemma last_append_trim [simp]: "0 \<le> m \<Longrightarrow> last (append_trim m x xs) = x"
  by (auto simp: append_trim_def slice_last_def)

lemma append_trim_not_Nil [simp]: "0 \<le> m \<Longrightarrow> append_trim m x xs \<noteq> []"
  by (auto simp: append_trim_def slice_last_def)

lemma append_trim_zero: "append_trim 0 x xs = xs @ [x]"
  by (simp add: append_trim_def slice_last_def)

lemma append_trim_below: "int (length xs) < m \<Longrightarrow> append_trim m x xs = xs @ [x]"
  by (simp add: append_trim_def)

lemma append_trim_full: "0 < m \<Longrightarrow> int (length xs) = m \<Longrightarrow> append_trim m x xs = tl xs @ [x]"
proof -
  assume "0 < m" and "int (length xs) = m"
  then have "nat m = length xs" and "m = int (length xs)" and "xs \<noteq> []" by auto
  then show ?thesis
    by (cases xs) (simp_all add: append_trim_def slice_last_def drop_Suc Suc_diff_le)
qed

lemma set_append_trim: "set (append_trim m x xs) \<subseteq> insert x (set xs)"
  by (auto simp: append_trim_def slice_last_def dest: in_set_dropD split: if_splits)

lemma length_filter_all: "length (filter P xs) = length xs \<longleftrightarrow> (\<forall>x \<in> set xs. P x)"
proof
  show "\<forall>x \<in> set xs. P x" if "length (filter P xs) = length xs"
    using that length_filter_less [of _ xs P] by fastforce
qed simp

section \<open>Dictionaries\<close>

type_synonym ('k, 'v) dict = "('k \<times> 'v) list"

text \<open>A dictionary the program can hold: no key twice.\<close>

abbreviation wf_dict :: "('k, 'v) dict \<Rightarrow> bool" where
  "wf_dict d \<equiv> distinct (map fst d)"

definition dict_get :: "('k, 'v) dict \<Rightarrow> 'k \<Rightarrow> 'v option" where
  "dict_get d k = map_of d k"

definition dict_set :: "'k \<Rightarrow> 'v \<Rightarrow> ('k, 'v) dict \<Rightarrow> ('k, 'v) dict" where
  "dict_set k v d = AList.update k v d"

definition dict_del :: "'k \<Rightarrow> ('k, 'v) dict \<Rightarrow> ('k, 'v) dict" where
  "dict_del k d = AList.delete k d"

definition dict_get_or :: "('k, 'v) dict \<Rightarrow> 'k \<Rightarrow> 'v \<Rightarrow> 'v" where
  "dict_get_or d k v = (case dict_get d k of None \<Rightarrow> v | Some x \<Rightarrow> x)"

lemma dict_get_Nil [simp]: "dict_get [] k = None"
  by (simp add: dict_get_def)

lemma dict_get_Cons [simp]: "dict_get ((k', v) # d) k = (if k = k' then Some v else dict_get d k)"
  by (simp add: dict_get_def)

lemma dict_get_set [simp]: "dict_get (dict_set k v d) k' = (if k' = k then Some v else dict_get d k')"
  by (simp add: dict_get_def dict_set_def update_conv')

lemma dict_get_del [simp]: "dict_get (dict_del k d) k' = (if k' = k then None else dict_get d k')"
  by (simp add: dict_get_def dict_del_def delete_conv')

lemma dict_set_not_Nil [simp]: "dict_set k v d \<noteq> []"
  by (cases d) (auto simp: dict_set_def)

lemma wf_dict_set [simp]: "wf_dict d \<Longrightarrow> wf_dict (dict_set k v d)"
  unfolding dict_set_def by (rule distinct_update)

lemma wf_dict_del [simp]: "wf_dict d \<Longrightarrow> wf_dict (dict_del k d)"
  unfolding dict_del_def by (rule distinct_delete)

lemma dict_get_None_iff: "dict_get d k = None \<longleftrightarrow> k \<notin> fst ` set d"
  by (simp add: dict_get_def map_of_eq_None_iff)

lemma dict_get_in: "dict_get d k = Some v \<Longrightarrow> (k, v) \<in> set d"
  by (simp add: dict_get_def map_of_SomeD)

lemma dict_set_new: "dict_get d k = None \<Longrightarrow> dict_set k v d = d @ [(k, v)]"
  unfolding dict_set_def dict_get_def by (induction d) auto

lemma keys_dict_set:
  "map fst (dict_set k v d) = (if dict_get d k = None then map fst d @ [k] else map fst d)"
  by (simp add: dict_set_def dict_get_def update_keys map_of_eq_None_iff)

lemma in_dict_get: "wf_dict d \<Longrightarrow> (k, v) \<in> set d \<Longrightarrow> dict_get d k = Some v"
  by (simp add: dict_get_def)

lemma length_dict_del:
  "wf_dict d \<Longrightarrow> dict_get d k = Some v \<Longrightarrow> length (dict_del k d) = length d - 1"
proof (induction d)
  case (Cons p d)
  then show ?case
    by (cases d) (auto simp: dict_del_def dict_get_def AList.delete_simps split: if_splits)
qed simp

lemma set_dict_set: "wf_dict d \<Longrightarrow> set (dict_set k v d) = insert (k, v) {p \<in> set d. fst p \<noteq> k}"
  unfolding dict_set_def by (induction d) (auto simp: rev_image_eqI)

lemma set_dict_del: "set (dict_del k d) = {p \<in> set d. fst p \<noteq> k}"
  by (induction d) (auto simp: dict_del_def)

text \<open>
  The interface the components rely on where they keep a table of records by key: what a
  lookup returns after an insertion and after a removal, and that both keep the
  representation invariant.
\<close>

locale keyed_store =
  fixes lookup :: "'s \<Rightarrow> 'k \<Rightarrow> 'v option"
    and put :: "'k \<Rightarrow> 'v \<Rightarrow> 's \<Rightarrow> 's"
    and del :: "'k \<Rightarrow> 's \<Rightarrow> 's"
    and inv :: "'s \<Rightarrow> bool"
  assumes lookup_put: "inv s \<Longrightarrow> lookup (put k v s) k' = (if k' = k then Some v else lookup s k')"
    and lookup_del: "inv s \<Longrightarrow> lookup (del k s) k' = (if k' = k then None else lookup s k')"
    and inv_put: "inv s \<Longrightarrow> inv (put k v s)"
    and inv_del: "inv s \<Longrightarrow> inv (del k s)"
begin

definition defined :: "'s \<Rightarrow> 'k set" where
  "defined s = {k. lookup s k \<noteq> None}"

lemma defined_put: "inv s \<Longrightarrow> defined (put k v s) = insert k (defined s)"
  by (auto simp: defined_def lookup_put)

lemma defined_del: "inv s \<Longrightarrow> defined (del k s) = defined s - {k}"
  by (auto simp: defined_def lookup_del)

lemma put_put_lookup: "inv s \<Longrightarrow> lookup (put k v' (put k v s)) = lookup (put k v' s)"
  by (auto simp: lookup_put inv_put)

lemma del_put_lookup: "inv s \<Longrightarrow> lookup s k = None \<Longrightarrow> lookup (del k (put k v s)) = lookup s"
  by (auto simp: lookup_put lookup_del inv_put)

lemma lookup_fold_put:
  "inv s \<Longrightarrow> lookup (fold (\<lambda>(k, v). put k v) kvs s) k =
     (case map_of (rev kvs) k of None \<Rightarrow> lookup s k | Some v \<Rightarrow> Some v)"
  by (induction kvs arbitrary: s)
    (auto simp: inv_put lookup_put map_add_def split: option.splits)

end

interpretation dict: keyed_store dict_get dict_set dict_del wf_dict
  by unfold_locales simp_all

end
