(* ===== verification/Py_Json.thy ===== *)
theory Py_Json
  imports Prelude
begin

text \<open>
  The JSON-like values that the \<open>to_dict\<close> and \<open>from_dict\<close> methods exchange, Python's
  truth value of each, and the readers \<open>str(data.get(k) or d)\<close>, \<open>int(data.get(k) or d)\<close>,
  \<open>float(data.get(k) or d)\<close> and \<open>bool(data.get(k, d))\<close> that every \<open>from_dict\<close> uses.
  A reader replaces a falsy stored value by its default, which is where several of the
  round trips of the program lose information.
\<close>

datatype json =
    JNull
  | JBool bool
  | JInt int
  | JFloat rat
  | JStr string
  | JList "json list"
  | JObj "(string \<times> json) list"

type_synonym jobj = "(string, json) dict"

fun py_truthy :: "json \<Rightarrow> bool" where
  "py_truthy JNull = False"
| "py_truthy (JBool b) = b"
| "py_truthy (JInt n) = (n \<noteq> 0)"
| "py_truthy (JFloat q) = (q \<noteq> 0)"
| "py_truthy (JStr s) = (s \<noteq> [])"
| "py_truthy (JList xs) = (xs \<noteq> [])"
| "py_truthy (JObj kvs) = (kvs \<noteq> [])"

section \<open>Coercions\<close>

fun py_str :: "json \<Rightarrow> pyexn + string" where
  "py_str (JStr s) = Inr s"
| "py_str JNull = Inr ''None''"
| "py_str (JBool b) = Inr (if b then ''True'' else ''False'')"
| "py_str (JInt n) = Inr (show_int n)"
| "py_str _ = Inl OutsideModel"

fun py_int :: "json \<Rightarrow> pyexn + int" where
  "py_int (JInt n) = Inr n"
| "py_int (JBool b) = Inr (if b then 1 else 0)"
| "py_int (JFloat q) = Inr (if q < 0 then - \<lfloor>- q\<rfloor> else \<lfloor>q\<rfloor>)"
| "py_int (JStr s) = Inl OutsideModel"
| "py_int _ = Inl (TypeError ''int() argument must be a string or a real number'')"

fun py_float :: "json \<Rightarrow> pyexn + rat" where
  "py_float (JFloat q) = Inr q"
| "py_float (JInt n) = Inr (of_int n)"
| "py_float (JBool b) = Inr (if b then 1 else 0)"
| "py_float (JStr s) = Inl OutsideModel"
| "py_float _ = Inl (TypeError ''float() argument must be a string or a real number'')"

fun py_dict :: "json \<Rightarrow> pyexn + jobj" where
  "py_dict (JObj kvs) = Inr kvs"
| "py_dict (JList xs) = (if xs = [] then Inr [] else Inl OutsideModel)"
| "py_dict (JStr s) = (if s = [] then Inr [] else Inl OutsideModel)"
| "py_dict _ = Inl (TypeError ''object is not iterable'')"

text \<open>Iterating over a value: the elements of a list, the keys of a dictionary.\<close>

fun py_iter :: "json \<Rightarrow> pyexn + json list" where
  "py_iter (JList xs) = Inr xs"
| "py_iter (JObj kvs) = Inr (map (JStr \<circ> fst) kvs)"
| "py_iter (JStr s) = Inr (map (\<lambda>c. JStr [c]) s)"
| "py_iter _ = Inl (TypeError ''object is not iterable'')"

text \<open>A value on which \<open>from_dict\<close> calls \<open>.get\<close>: anything but a dictionary raises.\<close>

fun as_obj :: "json \<Rightarrow> pyexn + jobj" where
  "as_obj (JObj kvs) = Inr kvs"
| "as_obj _ = Inl (AttributeError ''get'')"

section \<open>Readers\<close>

definition get_or :: "jobj \<Rightarrow> string \<Rightarrow> json \<Rightarrow> json" where
  "get_or d k dflt = (case dict_get d k of None \<Rightarrow> dflt | Some v \<Rightarrow> if py_truthy v then v else dflt)"

definition rd_str :: "jobj \<Rightarrow> string \<Rightarrow> string \<Rightarrow> pyexn + string" where
  "rd_str d k dflt = py_str (get_or d k (JStr dflt))"

definition rd_int :: "jobj \<Rightarrow> string \<Rightarrow> int \<Rightarrow> pyexn + int" where
  "rd_int d k dflt = py_int (get_or d k (JInt dflt))"

definition rd_float :: "jobj \<Rightarrow> string \<Rightarrow> rat \<Rightarrow> pyexn + rat" where
  "rd_float d k dflt = py_float (get_or d k (JFloat dflt))"

definition rd_bool :: "jobj \<Rightarrow> string \<Rightarrow> bool \<Rightarrow> bool" where
  "rd_bool d k dflt = py_truthy (dict_get_or d k (JBool dflt))"

definition rd_dict :: "jobj \<Rightarrow> string \<Rightarrow> pyexn + jobj" where
  "rd_dict d k = py_dict (get_or d k (JObj []))"

definition rd_list :: "jobj \<Rightarrow> string \<Rightarrow> pyexn + json list" where
  "rd_list d k = py_iter (get_or d k (JList []))"

text \<open>\<open>float(data[k]) if data.get(k) is not None else None\<close> and the same with \<open>int\<close>.\<close>

definition rd_opt :: "(json \<Rightarrow> pyexn + 'a) \<Rightarrow> jobj \<Rightarrow> string \<Rightarrow> pyexn + 'a option" where
  "rd_opt f d k = (case dict_get_or d k JNull of JNull \<Rightarrow> Inr None | v \<Rightarrow> bindE (f v) (Inr \<circ> Some))"

definition j_opt :: "('a \<Rightarrow> json) \<Rightarrow> 'a option \<Rightarrow> json" where
  "j_opt f x = (case x of None \<Rightarrow> JNull | Some v \<Rightarrow> f v)"

lemma rd_str_JStr: "dict_get d k = Some (JStr s) \<Longrightarrow> rd_str d k dflt = Inr (if s = [] then dflt else s)"
  by (simp add: rd_str_def get_or_def)

lemma rd_int_JInt: "dict_get d k = Some (JInt n) \<Longrightarrow> rd_int d k dflt = Inr (if n = 0 then dflt else n)"
  by (simp add: rd_int_def get_or_def)

lemma rd_float_JFloat: "dict_get d k = Some (JFloat q) \<Longrightarrow> rd_float d k dflt = Inr (if q = 0 then dflt else q)"
  by (simp add: rd_float_def get_or_def)

lemma rd_bool_JBool: "dict_get d k = Some (JBool b) \<Longrightarrow> rd_bool d k dflt = b"
  by (simp add: rd_bool_def dict_get_or_def)

lemma rd_dict_JObj: "dict_get d k = Some (JObj m) \<Longrightarrow> rd_dict d k = Inr m"
  by (simp add: rd_dict_def get_or_def)

lemma rd_list_JList: "dict_get d k = Some (JList xs) \<Longrightarrow> rd_list d k = Inr xs"
  by (simp add: rd_list_def get_or_def)

lemma rd_str_missing: "dict_get d k = None \<Longrightarrow> rd_str d k dflt = Inr dflt"
  by (simp add: rd_str_def get_or_def)

lemma rd_int_missing: "dict_get d k = None \<Longrightarrow> rd_int d k dflt = Inr dflt"
  by (simp add: rd_int_def get_or_def)

lemma rd_float_missing: "dict_get d k = None \<Longrightarrow> rd_float d k dflt = Inr dflt"
  by (simp add: rd_float_def get_or_def)

lemma rd_opt_float: "dict_get d k = Some (j_opt JFloat q) \<Longrightarrow> rd_opt py_float d k = Inr q"
  by (cases q) (simp_all add: rd_opt_def dict_get_or_def j_opt_def)

lemma rd_opt_int: "dict_get d k = Some (j_opt JInt n) \<Longrightarrow> rd_opt py_int d k = Inr n"
  by (cases n) (simp_all add: rd_opt_def dict_get_or_def j_opt_def)

lemma if_empty_id [simp]: "(if s = [] then [] else s) = s"
  by simp

lemma if_zero_id [simp]: "(if n = 0 then 0 else n) = (n :: 'a :: zero)"
  by simp

lemmas reader_simps = rd_str_JStr rd_int_JInt rd_float_JFloat rd_bool_JBool rd_dict_JObj
  rd_list_JList rd_opt_float rd_opt_int

declare reader_simps [decode_simps]

text \<open>Lists of strings as JSON, read back element by element with \<open>str\<close>.\<close>

definition jstrs :: "string list \<Rightarrow> json" where
  "jstrs xs = JList (map JStr xs)"

lemma rd_list_jstrs: "dict_get d k = Some (jstrs xs) \<Longrightarrow> rd_list d k = Inr (map JStr xs)"
  by (simp add: rd_list_JList jstrs_def)

lemma mapE_py_str [simp]: "mapE py_str (map JStr xs) = Inr xs"
  by (induction xs) simp_all

end
