(* ===== verification/Py_Text.thy ===== *)
theory Py_Text
  imports Py_Json "HOL-Library.Sublist"
begin

text \<open>
  More of the standard library, as far as the workflow engine and the redaction of
  credentials use it: \<open>str.replace\<close>, \<open>str.casefold\<close>, the regular expressions of \<open>re\<close> (only
  whether a pattern matches is ever used, so a pattern denotes the set of places where a match
  can end), and the texts of \<open>json.dumps\<close>, with the text of a float as a parameter.
\<close>

section \<open>Strings\<close>

text \<open>\<open>s.replace(p, r)\<close> for a non-empty \<open>p\<close>: left to right, without overlaps.\<close>

function py_replace :: "string \<Rightarrow> string \<Rightarrow> string \<Rightarrow> string" where
  "py_replace p r s =
     (if s = [] \<or> p = [] then s
      else if startswith s p then r @ py_replace p r (drop (length p) s)
      else hd s # py_replace p r (tl s))"
  by pat_completeness auto
termination
  by (relation "measure (length \<circ> snd \<circ> snd)") auto

declare py_replace.simps [simp del]

lemma py_replace_Nil [simp]: "py_replace p r [] = []"
  by (subst py_replace.simps) simp

lemma startswith_contains: "startswith s p \<Longrightarrow> py_contains p s"
  by (cases s) (auto simp: startswith_def)

lemma py_replace_absent: "\<not> py_contains p s \<Longrightarrow> py_replace p r s = s"
proof (induction s)
  case (Cons c s)
  then show ?case by (subst py_replace.simps) auto
qed simp

definition py_casefold :: "string \<Rightarrow> string" where
  "py_casefold s = concat (map (\<lambda>c. if of_char c = (223 :: nat) then ''ss'' else [py_lower_char c]) s)"

text \<open>\<open>s.rstrip(c)\<close>\<close>

definition py_rstrip :: "char \<Rightarrow> string \<Rightarrow> string" where
  "py_rstrip c s = rev (dropWhile (\<lambda>x. x = c) (rev s))"

definition hex_digit :: "nat \<Rightarrow> char" where
  "hex_digit n = (if n < 10 then char_of (48 + n) else char_of (87 + n))"

text \<open>\<open>repr(s)\<close>, and \<open>repr\<close> of a list of strings\<close>

definition py_repr :: "string \<Rightarrow> string" where
  "py_repr s =
     (let q = (if CHR 0x27 \<in> set s \<and> CHR 0x22 \<notin> set s then CHR 0x22 else CHR 0x27);
          esc = (\<lambda>c. let n = of_char c :: nat in
            if c = q \<or> c = CHR 0x5C then [CHR 0x5C, c]
            else if n = 9 then [CHR 0x5C, CHR ''t''] else if n = 10 then [CHR 0x5C, CHR ''n'']
            else if n = 13 then [CHR 0x5C, CHR ''r'']
            else if n < 32 \<or> (127 \<le> n \<and> n \<le> 160) \<or> n = 173
            then [CHR 0x5C, CHR ''x'', hex_digit (n div 16), hex_digit (n mod 16)] else [c])
      in [q] @ concat (map esc s) @ [q])"

definition py_repr_list :: "string list \<Rightarrow> string" where
  "py_repr_list xs = ''['' @ py_join '', '' (map py_repr xs) @ '']''"

section \<open>Regular expressions\<close>

datatype regex =
    RChar "char \<Rightarrow> bool"
  | RBound
  | REps
  | RSeq regex regex
  | RAlt regex regex
  | RStar regex

text \<open>Word characters: letters, digits and the underscore.\<close>

definition is_word :: "char \<Rightarrow> bool" where
  "is_word c \<longleftrightarrow>
     (let n = of_char c :: nat
      in (48 \<le> n \<and> n \<le> 57) \<or> (65 \<le> n \<and> n \<le> 90) \<or> n = 95 \<or> (97 \<le> n \<and> n \<le> 122) \<or>
         n \<in> {170, 178, 179, 181, 185, 186, 188, 189, 190} \<or> (192 \<le> n \<and> n \<noteq> 215 \<and> n \<noteq> 247))"

text \<open>A place in a subject: the character before it and the text after it.\<close>

type_synonym place = "char option \<times> string"

fun rx_repeat :: "nat \<Rightarrow> (place \<Rightarrow> place list) \<Rightarrow> place \<Rightarrow> place list" where
  "rx_repeat 0 f x = [x]"
| "rx_repeat (Suc n) f x =
     x # concat (map (rx_repeat n f) (filter (\<lambda>y. length (snd y) < length (snd x)) (f x)))"

fun rx_ends :: "regex \<Rightarrow> place \<Rightarrow> place list" where
  "rx_ends (RChar p) (c, s) = (case s of [] \<Rightarrow> [] | x # xs \<Rightarrow> if p x then [(Some x, xs)] else [])"
| "rx_ends RBound (c, s) =
     (if (case c of None \<Rightarrow> False | Some x \<Rightarrow> is_word x) \<noteq> (case s of [] \<Rightarrow> False | x # _ \<Rightarrow> is_word x)
      then [(c, s)] else [])"
| "rx_ends REps x = [x]"
| "rx_ends (RSeq r q) x = concat (map (rx_ends q) (rx_ends r x))"
| "rx_ends (RAlt r q) x = rx_ends r x @ rx_ends q x"
| "rx_ends (RStar r) x = rx_repeat (length (snd x)) (rx_ends r) x"

text \<open>\<open>pattern.search(s)\<close>, scanning from the first place on.\<close>

fun rx_search_from :: "regex \<Rightarrow> char option \<Rightarrow> string \<Rightarrow> bool" where
  "rx_search_from r c [] \<longleftrightarrow> rx_ends r (c, []) \<noteq> []"
| "rx_search_from r c (x # xs) \<longleftrightarrow> rx_ends r (c, x # xs) \<noteq> [] \<or> rx_search_from r (Some x) xs"

definition rx_search :: "regex \<Rightarrow> string \<Rightarrow> bool" where
  "rx_search r s \<longleftrightarrow> rx_search_from r None s"

fun rx_seq :: "regex list \<Rightarrow> regex" where
  "rx_seq [] = REps"
| "rx_seq [r] = r"
| "rx_seq (r # rs) = RSeq r (rx_seq rs)"

fun rx_alt :: "regex list \<Rightarrow> regex" where
  "rx_alt [] = RChar (\<lambda>_. False)"
| "rx_alt [r] = r"
| "rx_alt (r # rs) = RAlt r (rx_alt rs)"

definition rx_lit :: "string \<Rightarrow> regex" where
  "rx_lit s = rx_seq (map (\<lambda>c. RChar (\<lambda>x. x = c)) s)"

text \<open>A literal under \<open>(?i)\<close>, \<open>r?\<close>, \<open>r+\<close>, \<open>r{n}\<close> and \<open>r{n,}\<close>.\<close>

definition rx_nocase :: "string \<Rightarrow> regex" where
  "rx_nocase s = rx_seq (map (\<lambda>c. RChar (\<lambda>x. py_lower_char x = py_lower_char c)) s)"

definition rx_opt :: "regex \<Rightarrow> regex" where
  "rx_opt r = RAlt r REps"

definition rx_plus :: "regex \<Rightarrow> regex" where
  "rx_plus r = RSeq r (RStar r)"

definition rx_times :: "nat \<Rightarrow> regex \<Rightarrow> regex" where
  "rx_times n r = rx_seq (replicate n r)"

definition rx_at_least :: "nat \<Rightarrow> regex \<Rightarrow> regex" where
  "rx_at_least n r = RSeq (rx_times n r) (RStar r)"

section \<open>JSON texts\<close>

definition json_char :: "bool \<Rightarrow> char \<Rightarrow> string" where
  "json_char ascii c =
     (let n = of_char c :: nat in
      if c = CHR 0x22 then [CHR 0x5C, CHR 0x22]
      else if c = CHR 0x5C then [CHR 0x5C, CHR 0x5C]
      else if n = 10 then [CHR 0x5C, CHR ''n'']
      else if n = 13 then [CHR 0x5C, CHR ''r'']
      else if n = 9 then [CHR 0x5C, CHR ''t'']
      else if n = 12 then [CHR 0x5C, CHR ''f'']
      else if n = 8 then [CHR 0x5C, CHR ''b'']
      else if n < 32 \<or> (ascii \<and> 126 < n)
      then CHR 0x5C # ''u00'' @ [hex_digit (n div 16), hex_digit (n mod 16)]
      else [c])"

definition json_string :: "bool \<Rightarrow> string \<Rightarrow> string" where
  "json_string ascii s = [CHR 0x22] @ concat (map (json_char ascii) s) @ [CHR 0x22]"

text \<open>\<open>json.dumps\<close> with its separators; \<open>fl\<close> is \<open>float.__repr__\<close>.\<close>

fun json_text :: "(rat \<Rightarrow> string) \<Rightarrow> bool \<Rightarrow> string \<Rightarrow> string \<Rightarrow> json \<Rightarrow> string" where
  "json_text fl ascii comma colon JNull = ''null''"
| "json_text fl ascii comma colon (JBool b) = (if b then ''true'' else ''false'')"
| "json_text fl ascii comma colon (JInt n) = show_int n"
| "json_text fl ascii comma colon (JFloat q) = fl q"
| "json_text fl ascii comma colon (JStr s) = json_string ascii s"
| "json_text fl ascii comma colon (JList xs) =
     ''['' @ py_join comma (map (json_text fl ascii comma colon) xs) @ '']''"
| "json_text fl ascii comma colon (JObj kvs) =
     ''{'' @ py_join comma (map (\<lambda>(k, v). json_string ascii k @ colon @ json_text fl ascii comma colon v) kvs) @ ''}''"

text \<open>\<open>sort_keys=True\<close>, at every depth.\<close>

fun json_sort :: "json \<Rightarrow> json" where
  "json_sort (JObj kvs) = JObj (sort_key fst (map (\<lambda>(k, v). (k, json_sort v)) kvs))"
| "json_sort (JList xs) = JList (map json_sort xs)"
| "json_sort v = v"

lemma map_of_sort_key: "distinct (map fst d) \<Longrightarrow> map_of (sort_key fst d) = map_of d"
  by (rule map_of_eqI) (force simp: distinct_map inj_on_def map_of_eq_Some_iff)+

lemma wf_dict_map [simp]: "wf_dict (map (\<lambda>(k, v). (k, f v)) d) = wf_dict d"
  by (simp add: comp_def case_prod_beta)

lemma dict_get_map [simp]: "dict_get (map (\<lambda>(k, v). (k, f v)) d) k = map_option f (dict_get d k)"
  by (simp add: dict_get_def map_of_map)

lemma dict_get_sort_key: "wf_dict d \<Longrightarrow> dict_get (sort_key fst d) k = dict_get d k"
  by (simp add: dict_get_def map_of_sort_key)

lemma wf_dict_sort_key [simp]: "wf_dict (sort_key fst d) = wf_dict d"
  by (simp add: distinct_map)

section \<open>A JSON text determines its strings\<close>

text \<open>A character of a JSON string is read back from its escape.\<close>

fun hex_val :: "char \<Rightarrow> nat" where
  "hex_val c = (let n = of_char c in if n < 58 then n - 48 else n - 87)"

fun read_char :: "string \<Rightarrow> (char \<times> string) option" where
  "read_char [] = None"
| "read_char (c # cs) =
     (if c \<noteq> CHR 0x5C then Some (c, cs)
      else case cs of
        [] \<Rightarrow> None
      | d # ds \<Rightarrow>
          if d = CHR ''u'' then Some (char_of (16 * hex_val (ds ! 2) + hex_val (ds ! 3)), drop 4 ds)
          else Some (if d = CHR ''n'' then char_of (10::nat) else if d = CHR ''r'' then char_of (13::nat)
            else if d = CHR ''t'' then char_of (9::nat) else if d = CHR ''f'' then char_of (12::nat)
            else if d = CHR ''b'' then char_of (8::nat) else d, ds))"

lemma of_char_eq: "of_char c = (n :: nat) \<Longrightarrow> char_of n = c"
  by (metis char_of_char)

lemma hex: "n < 16 \<Longrightarrow> hex_val (hex_digit n) = n"
  by (simp add: hex_digit_def)

lemma read_json_char: "read_char (json_char a c @ u) = Some (c, u)"
proof -
  define n where "n = (of_char c :: nat)"
  have n: "n < 256" "char_of n = c" by (simp_all add: n_def)
  have h: "char_of (16 * hex_val (hex_digit (n div 16)) + hex_val (hex_digit (n mod 16))) = c"
  proof -
    have "n div 16 < 16" using n(1) by (simp add: div_less_iff_less_mult)
    then show ?thesis using n(2) by (simp add: hex del: hex_val.simps)
  qed
  have u: "read_char (CHR 0x5C # CHR ''u'' # ds) = Some (char_of (16 * hex_val (ds ! 2) + hex_val (ds ! 3)), drop 4 ds)" for ds
    by simp
  show ?thesis
    using n(2) h by (auto simp: json_char_def Let_def n_def [symmetric] u simp del: hex_val.simps)
qed

lemma json_char_no_quote [simp]: "json_char a c \<noteq> []" "CHR 0x22 # x \<noteq> json_char a c" "json_char a c \<noteq> CHR 0x22 # x"
  by (auto simp: json_char_def Let_def)

lemma json_char_inj: "json_char a c @ u = json_char a d @ v \<Longrightarrow> c = d \<and> u = v"
  by (metis read_json_char option.inject prod.inject)

lemma json_chars_inj:
  "concat (map (json_char a) s) @ CHR 0x22 # u = concat (map (json_char a) t) @ CHR 0x22 # v \<Longrightarrow> s = t \<and> u = v"
proof (induction s arbitrary: t)
  case Nil
  then show ?case by (cases t) (auto simp: Cons_eq_append_conv)
next
  case (Cons c s)
  show ?case
  proof (cases t)
    case Nil
    then show ?thesis using Cons.prems by (auto simp: append_eq_Cons_conv)
  next
    case (Cons d t')
    then show ?thesis using Cons.prems json_char_inj [of a c _ d] Cons.IH [of t'] by auto
  qed
qed

lemma json_string_inj: "json_string a s @ u = json_string a t @ v \<longleftrightarrow> s = t \<and> u = v"
  by (auto simp: json_string_def dest: json_chars_inj)

lemma json_string_eq [simp]: "json_string a s = json_string a t \<longleftrightarrow> s = t"
  using json_string_inj [of a s "[]" t "[]"] by simp

end
