(* ===== verification/Py_Datetime.thy ===== *)
theory Py_Datetime
  imports Py_Json
begin

text \<open>
  UTC instants as the program reads and writes them. An instant is the number of microseconds
  since 0001-01-01T00:00:00, in the proleptic Gregorian calendar of Python's \<open>datetime\<close>.
  \<open>fmt_ts\<close> and \<open>parse_ts\<close> are the helpers \<open>_fmt_ts\<close> and \<open>_parse_ts\<close> of the reliability
  models: \<open>isoformat\<close> with \<open>Z\<close> for \<open>+00:00\<close>, and \<open>fromisoformat\<close> on the shape
  \<open>YYYY-MM-DDTHH:MM:SS[.ffffff]\<close> with zone \<open>Z\<close>, \<open>+00:00\<close> or none (a text of another shape
  is outside the model: Python accepts some of them and answers \<open>None\<close> for the rest).
\<close>

section \<open>The calendar\<close>

definition leap :: "nat \<Rightarrow> bool" where
  "leap y \<longleftrightarrow> y mod 4 = 0 \<and> (y mod 100 \<noteq> 0 \<or> y mod 400 = 0)"

definition year_days :: "nat \<Rightarrow> nat" where
  "year_days y = (if leap y then 366 else 365)"

definition month_lengths :: "nat \<Rightarrow> nat list" where
  "month_lengths y = [31, if leap y then 29 else 28, 31, 30, 31, 30, 31, 31, 30, 31, 30, 31]"

function split_year :: "nat \<Rightarrow> nat \<Rightarrow> nat \<times> nat" where
  "split_year y d = (if d < year_days y then (y, d) else split_year (Suc y) (d - year_days y))"
  by pat_completeness auto
termination
  by (relation "measure snd") (auto simp: year_days_def split: if_splits)

declare split_year.simps [simp del]

fun split_month :: "nat list \<Rightarrow> nat \<Rightarrow> nat \<times> nat" where
  "split_month [] d = (1, d)"
| "split_month (l # ls) d = (if d < l then (1, d) else (let (m, r) = split_month ls (d - l) in (Suc m, r)))"

text \<open>Day numbers (from 0) to year, month and day, in periods of 400 years, and back.\<close>

definition civil :: "nat \<Rightarrow> nat \<times> nat \<times> nat" where
  "civil n =
     (let (y, r) = split_year 1 (n mod 146097);
          year = 400 * (n div 146097) + y;
          (m, d) = split_month (month_lengths year) r
      in (year, m, Suc d))"

definition days_of_civil :: "nat \<Rightarrow> nat \<Rightarrow> nat \<Rightarrow> nat" where
  "days_of_civil y m d =
     146097 * ((y - 1) div 400) + sum_list (map year_days [1..<Suc ((y - 1) mod 400)]) +
     sum_list (take (m - 1) (month_lengths y)) + (d - 1)"

section \<open>Text\<close>

text \<open>Decimal numerals of a fixed width.\<close>

fun pad :: "nat \<Rightarrow> nat \<Rightarrow> string" where
  "pad 0 n = []"
| "pad (Suc w) n = pad w (n div 10) @ [digit_char (n mod 10)]"

definition digit_val :: "char \<Rightarrow> nat option" where
  "digit_val c = (let n = of_char c :: nat in if 48 \<le> n \<and> n \<le> 57 then Some (n - 48) else None)"

fun digits_val :: "nat \<Rightarrow> string \<Rightarrow> nat option" where
  "digits_val acc [] = Some acc"
| "digits_val acc (c # cs) =
     (case digit_val c of None \<Rightarrow> None | Some d \<Rightarrow> digits_val (10 * acc + d) cs)"

definition iso_text :: "int \<Rightarrow> string" where
  "iso_text t =
     (let n = nat t; us = n mod 1000000; secs = n div 1000000; sod = secs mod 86400;
          (y, m, d) = civil (secs div 86400)
      in pad 4 y @ ''-'' @ pad 2 m @ ''-'' @ pad 2 d @ ''T'' @
         pad 2 (sod div 3600) @ '':'' @ pad 2 (sod mod 3600 div 60) @ '':'' @ pad 2 (sod mod 60) @
         (if us = 0 then [] else ''.'' @ pad 6 us))"

text \<open>\<open>_fmt_ts\<close>\<close>

definition fmt_ts :: "int option \<Rightarrow> string" where
  "fmt_ts dt = (case dt of None \<Rightarrow> [] | Some t \<Rightarrow> iso_text t @ ''Z'')"

definition iso_parse :: "string \<Rightarrow> pyexn + int option" where
  "iso_parse s =
     (let num = (\<lambda>a b. digits_val 0 (take b (drop a s))); frac = drop 19 s in
      if 19 \<le> length s \<and> s ! 4 = CHR ''-'' \<and> s ! 7 = CHR ''-'' \<and> s ! 10 = CHR ''T'' \<and>
         s ! 13 = CHR '':'' \<and> s ! 16 = CHR '':'' \<and>
         (frac = [] \<or> length frac = 7 \<and> hd frac = CHR ''.'')
      then (case (num 0 4, num 5 2, num 8 2, num 11 2, num 14 2, num 17 2, digits_val 0 (tl frac)) of
              (Some y, Some mo, Some d, Some h, Some mi, Some sec, Some us) \<Rightarrow>
                Inr (if 1 \<le> y \<and> 1 \<le> mo \<and> mo \<le> 12 \<and> 1 \<le> d \<and> d \<le> month_lengths y ! (mo - 1) \<and>
                        h < 24 \<and> mi < 60 \<and> sec < 60
                     then Some (int ((days_of_civil y mo d * 86400 + h * 3600 + mi * 60 + sec) * 1000000 + us))
                     else None)
            | _ \<Rightarrow> Inl OutsideModel)
      else Inl OutsideModel)"

text \<open>\<open>_parse_ts\<close>, on JSON values\<close>

definition parse_ts :: "json \<Rightarrow> pyexn + int option" where
  "parse_ts v =
     (if v = JNull \<or> v = JStr [] then Inr None
      else bindE (py_str v) (\<lambda>txt.
        let txt = (if endswith txt ''Z'' then butlast txt @ ''+00:00'' else txt)
        in iso_parse (if endswith txt ''+00:00'' then take (length txt - 6) txt else txt)))"

text \<open>Instants \<open>datetime\<close> can represent: years 1 to 9999.\<close>

definition valid_time :: "int \<Rightarrow> bool" where
  "valid_time t \<longleftrightarrow> 0 \<le> t \<and> t < 3652059 * 86400000000"

section \<open>Calendar lemmas\<close>

lemma split_year_spec:
  "split_year y d = (y', r) \<Longrightarrow> y \<le> y' \<and> r < year_days y' \<and> d = sum_list (map year_days [y..<y']) + r"
proof (induction y d rule: split_year.induct)
  case (1 y d)
  show ?case
  proof (cases "d < year_days y")
    case True
    with "1.prems" show ?thesis by (simp add: split_year.simps [of y])
  next
    case False
    with "1.prems" have rest: "split_year (Suc y) (d - year_days y) = (y', r)"
      by (simp add: split_year.simps [of y])
    from "1.IH" [OF False rest] have IH: "Suc y \<le> y'" "r < year_days y'"
      "d - year_days y = sum_list (map year_days [Suc y..<y']) + r" by auto
    then have "[y..<y'] = y # [Suc y..<y']" by (simp add: upt_conv_Cons)
    with IH False show ?thesis by simp
  qed
qed

lemma split_month_spec:
  "split_month ls d = (m, r) \<Longrightarrow> d < sum_list ls \<Longrightarrow>
     1 \<le> m \<and> m \<le> length ls \<and> r < ls ! (m - 1) \<and> d = sum_list (take (m - 1) ls) + r"
proof (induction ls arbitrary: d m r)
  case (Cons l ls)
  show ?case
  proof (cases "d < l")
    case False
    obtain m' r' where s: "split_month ls (d - l) = (m', r')" by (cases "split_month ls (d - l)")
    with Cons.prems False have m: "m = Suc m'" "r = r'" by (auto simp: Let_def)
    from Cons.prems(2) False have "d - l < sum_list ls" by simp
    from Cons.IH [OF s this] m False show ?thesis
      by (cases m') auto
  qed (use Cons in auto)
qed simp

lemma leap_period: "leap (400 * q + y) = leap y"
proof -
  have "(400 * q + y) mod 4 = (y + 4 * (100 * q)) mod 4" "(400 * q + y) mod 100 = (y + 100 * (4 * q)) mod 100"
    "(400 * q + y) mod 400 = (y + 400 * q) mod 400"
    by (simp_all add: add.commute)
  then show ?thesis unfolding leap_def by (simp only: mod_mult_self2)
qed

lemma year_days_months: "sum_list (month_lengths y) = year_days y"
  by (simp add: month_lengths_def year_days_def)

lemma length_month_lengths [simp]: "length (month_lengths y) = 12"
  by (simp add: month_lengths_def)

lemma Suc_div_mod: "0 < k \<Longrightarrow> Suc n div k = n div k + (if Suc n mod k = 0 then 1 else 0)"
  by (simp add: div_Suc)

lemma sum_year_days: "sum_list (map year_days [1..<Suc n]) + n div 100 = 365 * n + n div 4 + n div 400"
proof (induction n)
  case (Suc n)
  have l: "leap (Suc n) \<longleftrightarrow> Suc n mod 4 = 0 \<and> (Suc n mod 100 \<noteq> 0 \<or> Suc n mod 400 = 0)"
    by (simp add: leap_def)
  have i: "Suc n mod 400 = 0 \<Longrightarrow> Suc n mod 100 = 0" "Suc n mod 100 = 0 \<Longrightarrow> Suc n mod 4 = 0"
    by presburger+
  have "sum_list (map year_days [1..<Suc (Suc n)]) = sum_list (map year_days [1..<Suc n]) + year_days (Suc n)"
    by simp
  also have "\<dots> + Suc n div 100 = 365 * Suc n + Suc n div 4 + Suc n div 400"
  proof -
    have d: "Suc n div 4 = n div 4 + (if Suc n mod 4 = 0 then 1 else 0)"
      "Suc n div 100 = n div 100 + (if Suc n mod 100 = 0 then 1 else 0)"
      "Suc n div 400 = n div 400 + (if Suc n mod 400 = 0 then 1 else 0)"
      by (rule Suc_div_mod, simp)+
    have y: "year_days (Suc n) = 365 + (if Suc n mod 4 = 0 \<and> (Suc n mod 100 \<noteq> 0 \<or> Suc n mod 400 = 0) then 1 else 0)"
      unfolding year_days_def l by simp
    have sum: "s + (365 + (if a \<and> (\<not> b \<or> c) then 1 else 0)) + (q100 + (if b then 1 else 0)) =
        365 * Suc n + (q4 + (if a then 1 else 0)) + (q400 + (if c then 1 else 0))"
      if "c \<Longrightarrow> b" "b \<Longrightarrow> a" "s + q100 = 365 * n + q4 + q400" for a b c and s q4 q100 q400 :: nat
      using that by (cases a; cases b; cases c) simp_all
    show ?thesis unfolding d y by (rule sum [OF i Suc])
  qed
  finally show ?case .
qed simp

lemma sum_year_days_400: "sum_list (map year_days [1..<401]) = 146097"
  using sum_year_days [of 400] by simp

lemma sum_year_days_399: "sum_list (map year_days [1..<400]) = 145731"
  using sum_year_days [of 399] by simp

lemma civil_spec:
  assumes "civil n = (y, m, d)"
  shows "1 \<le> y \<and> 1 \<le> m \<and> m \<le> 12 \<and> 1 \<le> d \<and> d \<le> month_lengths y ! (m - 1) \<and>
    days_of_civil y m d = n \<and> (n < 3652059 \<longrightarrow> y \<le> 9999)"
proof -
  obtain y' r where s: "split_year 1 (n mod 146097) = (y', r)" by (cases "split_year 1 (n mod 146097)")
  obtain m' d' where t: "split_month (month_lengths (400 * (n div 146097) + y')) r = (m', d')"
    by (cases "split_month (month_lengths (400 * (n div 146097) + y')) r")
  have y: "y = 400 * (n div 146097) + y'" "m = m'" "d = Suc d'"
    using assms s t by (simp_all add: civil_def)
  from split_year_spec [OF s] have ys: "1 \<le> y'" "r < year_days y'"
    "n mod 146097 = sum_list (map year_days [1..<y']) + r" by auto
  have y400: "y' \<le> 400"
  proof (rule ccontr)
    assume "\<not> y' \<le> 400"
    then have "[1..<y'] = [1..<401] @ [401..<y']" using upt_add_eq_append [of 1 401 "y' - 401"] by simp
    then have "146097 \<le> n mod 146097" using ys(3) sum_year_days_400 by simp
    then show False using mod_less_divisor [of 146097 n] by linarith
  qed
  have len: "sum_list (month_lengths y) = year_days y'"
    unfolding year_days_months y(1) year_days_def leap_period ..
  have "r < sum_list (month_lengths y)" using ys(2) len by simp
  from split_month_spec [OF t [folded y(1)] this] have ms: "1 \<le> m'" "m' \<le> 12" "d' < month_lengths y ! (m' - 1)"
    "r = sum_list (take (m' - 1) (month_lengths y)) + d'" by simp_all
  from ys(1) y400 obtain k where k: "y' = Suc k" "k < 400" by (cases y') auto
  then have "y - 1 = k + 400 * (n div 146097)" using y(1) by simp
  then have "(y - 1) div 400 = n div 146097" "(y - 1) mod 400 = y' - 1"
    using k by simp_all
  then have "days_of_civil y m d = 146097 * (n div 146097) + sum_list (map year_days [1..<y']) + r"
    unfolding days_of_civil_def using ms(4) y ys(1) by simp
  also have "\<dots> = n" using ys(3) div_mult_mod_eq [of n 146097] by linarith
  finally have dc: "days_of_civil y m d = n" .
  have "y \<le> 9999" if "n < 3652059"
  proof -
    have "n div 146097 \<le> 24" using that by simp
    show ?thesis
    proof (cases "n div 146097 = 24 \<and> y' = 400")
      case True
      then have "n = 146097 * 24 + n mod 146097" by (metis mult.commute mult_div_mod_eq)
      with that have "n mod 146097 < 145731" by simp
      then show ?thesis using ys(3) True sum_year_days_399 by simp
    next
      case False
      with \<open>n div 146097 \<le> 24\<close> y400 y(1) show ?thesis by linarith
    qed
  qed
  with ms y ys(1) dc show ?thesis by auto
qed

section \<open>Reading back what was written\<close>

lemma length_pad [simp]: "length (pad w n) = w"
  by (induction w arbitrary: n) simp_all

lemma digit_val_char: "d < 10 \<Longrightarrow> digit_val (digit_char d) = Some d"
  by (simp add: digit_val_def digit_char_def)

lemma digits_val_append:
  "digits_val acc (xs @ ys) = (case digits_val acc xs of None \<Rightarrow> None | Some a \<Rightarrow> digits_val a ys)"
  by (induction acc xs rule: digits_val.induct) (auto split: option.splits)

lemma digits_val_pad: "n < 10 ^ w \<Longrightarrow> digits_val 0 (pad w n) = Some n"
proof (induction w arbitrary: n)
  case (Suc w)
  then have "n div 10 < 10 ^ w" by (simp add: div_less_iff_less_mult mult.commute)
  from Suc.IH [OF this] show ?case
    by (simp add: digits_val_append digit_val_char)
qed simp

lemma iso_shape:
  assumes "length Y = 4" "length M = 2" "length D = 2" "length H = 2" "length I = 2" "length S = 2"
    and "F = [] \<or> length F = 7 \<and> hd F = CHR ''.''"
  shows "iso_parse (Y @ ''-'' @ M @ ''-'' @ D @ ''T'' @ H @ '':'' @ I @ '':'' @ S @ F) =
    (case (digits_val 0 Y, digits_val 0 M, digits_val 0 D, digits_val 0 H, digits_val 0 I, digits_val 0 S,
           digits_val 0 (tl F)) of
       (Some y, Some mo, Some d, Some h, Some mi, Some sec, Some us) \<Rightarrow>
         Inr (if 1 \<le> y \<and> 1 \<le> mo \<and> mo \<le> 12 \<and> 1 \<le> d \<and> d \<le> month_lengths y ! (mo - 1) \<and>
                 h < 24 \<and> mi < 60 \<and> sec < 60
              then Some (int ((days_of_civil y mo d * 86400 + h * 3600 + mi * 60 + sec) * 1000000 + us))
              else None)
     | _ \<Rightarrow> Inl OutsideModel)"
proof -
  let ?s = "Y @ ''-'' @ M @ ''-'' @ D @ ''T'' @ H @ '':'' @ I @ '':'' @ S @ F"
  have "drop 19 ?s = F" "take 4 (drop 0 ?s) = Y" "take 2 (drop 5 ?s) = M" "take 2 (drop 8 ?s) = D"
    "take 2 (drop 11 ?s) = H" "take 2 (drop 14 ?s) = I" "take 2 (drop 17 ?s) = S"
    using assms(1-6) by (simp_all add: drop_Cons')
  moreover have "?s ! 4 = CHR ''-''" "?s ! 7 = CHR ''-''" "?s ! 10 = CHR ''T''" "?s ! 13 = CHR '':''"
    "?s ! 16 = CHR '':''" "19 \<le> length ?s"
    using assms(1-6) by (simp_all add: nth_append nth_Cons')
  ultimately show ?thesis
    using assms(7) unfolding iso_parse_def Let_def by (simp only: simp_thms if_True if_False)
qed

lemma civil_time:
  assumes "valid_time t"
  obtains y m d where "civil (nat t div 1000000 div 86400) = (y, m, d)" "1 \<le> y" "y < 10000" "1 \<le> m" "m \<le> 12"
    "1 \<le> d" "d \<le> month_lengths y ! (m - 1)" "days_of_civil y m d = nat t div 1000000 div 86400" "d < 100" "m < 100"
proof -
  obtain y m d where c: "civil (nat t div 1000000 div 86400) = (y, m, d)"
    by (cases "civil (nat t div 1000000 div 86400)") auto
  have "nat t < 3652059 * 86400000000" using assms by (simp add: valid_time_def nat_less_iff)
  then have "nat t div 1000000 div 86400 < 3652059"
    by (simp add: div_mult2_eq [symmetric] div_less_iff_less_mult)
  with civil_spec [OF c] have f: "1 \<le> y" "y \<le> 9999" "1 \<le> m" "m \<le> 12" "1 \<le> d" "d \<le> month_lengths y ! (m - 1)"
    "days_of_civil y m d = nat t div 1000000 div 86400"
    by auto
  have "month_lengths y ! (m - 1) \<le> 31"
  proof -
    have "\<forall>x \<in> set (month_lengths y). x \<le> 31" by (simp add: month_lengths_def)
    moreover have "month_lengths y ! (m - 1) \<in> set (month_lengths y)" using f(3,4) by (intro nth_mem) simp
    ultimately show ?thesis by blast
  qed
  with f c show thesis by (intro that) auto
qed

lemma iso_parse_text:
  assumes "valid_time t"
  shows "iso_parse (iso_text t) = Inr (Some t)"
proof -
  let ?us = "nat t mod 1000000" and ?secs = "nat t div 1000000"
  let ?sod = "?secs mod 86400"
  obtain y m d where c: "civil (?secs div 86400) = (y, m, d)" "1 \<le> y" "y < 10000" "1 \<le> m" "m \<le> 12"
    "1 \<le> d" "d \<le> month_lengths y ! (m - 1)" "days_of_civil y m d = ?secs div 86400" "d < 100" "m < 100"
    by (rule civil_time [OF assms])
  let ?F = "if ?us = 0 then [] else ''.'' @ pad 6 ?us"
  have shown: "iso_text t = pad 4 y @ ''-'' @ pad 2 m @ ''-'' @ pad 2 d @ ''T'' @ pad 2 (?sod div 3600) @ '':'' @
      pad 2 (?sod mod 3600 div 60) @ '':'' @ pad 2 (?sod mod 60) @ ?F"
    unfolding iso_text_def Let_def c(1) by simp
  have sod: "?sod div 3600 < 24" "?sod mod 3600 div 60 < 60" "?sod mod 60 < 60"
    by (simp_all add: div_less_iff_less_mult)
  have F: "?F = [] \<or> length ?F = 7 \<and> hd ?F = CHR ''.''" by simp
  have fields: "digits_val 0 (pad 4 y) = Some y" "digits_val 0 (pad 2 m) = Some m" "digits_val 0 (pad 2 d) = Some d"
    "digits_val 0 (pad 2 (?sod div 3600)) = Some (?sod div 3600)"
    "digits_val 0 (pad 2 (?sod mod 3600 div 60)) = Some (?sod mod 3600 div 60)"
    "digits_val 0 (pad 2 (?sod mod 60)) = Some (?sod mod 60)"
    "digits_val 0 (tl ?F) = Some ?us"
  proof -
    have us: "?us < 10 ^ 6" by simp
    show "digits_val 0 (pad 4 y) = Some y" using c(3) by (intro digits_val_pad) simp
    show "digits_val 0 (pad 2 m) = Some m" using c(10) by (intro digits_val_pad) simp
    show "digits_val 0 (pad 2 d) = Some d" using c(9) by (intro digits_val_pad) simp
    show "digits_val 0 (pad 2 (?sod div 3600)) = Some (?sod div 3600)" using sod(1) by (intro digits_val_pad) simp
    show "digits_val 0 (pad 2 (?sod mod 3600 div 60)) = Some (?sod mod 3600 div 60)"
      using sod(2) by (intro digits_val_pad) simp
    show "digits_val 0 (pad 2 (?sod mod 60)) = Some (?sod mod 60)" using sod(3) by (intro digits_val_pad) simp
    show "digits_val 0 (tl ?F) = Some ?us" using digits_val_pad [OF us] by (cases "?us = 0") simp_all
  qed
  have hms: "?sod div 3600 * 3600 + ?sod mod 3600 div 60 * 60 + ?sod mod 60 = ?sod"
  proof -
    have "?sod mod 60 = ?sod mod 3600 mod 60" by (simp add: mod_mod_cancel)
    then show ?thesis
      using div_mult_mod_eq [of ?sod 3600] div_mult_mod_eq [of "?sod mod 3600" 60] by linarith
  qed
  have "days_of_civil y m d * 86400 + ?sod div 3600 * 3600 + ?sod mod 3600 div 60 * 60 + ?sod mod 60 =
      ?secs div 86400 * 86400 + (?sod div 3600 * 3600 + ?sod mod 3600 div 60 * 60 + ?sod mod 60)"
    unfolding c(8) by simp
  also have "\<dots> = ?secs" unfolding hms by (rule div_mult_mod_eq)
  finally have secs: "days_of_civil y m d * 86400 + ?sod div 3600 * 3600 + ?sod mod 3600 div 60 * 60 + ?sod mod 60 = ?secs" .
  have "?secs * 1000000 + ?us = nat t" by (rule div_mult_mod_eq)
  moreover have "0 \<le> t" using assms by (simp add: valid_time_def)
  ultimately have total: "int (?secs * 1000000 + ?us) = t" by simp
  have "iso_parse (iso_text t) = Inr (if 1 \<le> y \<and> 1 \<le> m \<and> m \<le> 12 \<and> 1 \<le> d \<and> d \<le> month_lengths y ! (m - 1) \<and>
      ?sod div 3600 < 24 \<and> ?sod mod 3600 div 60 < 60 \<and> ?sod mod 60 < 60
      then Some (int ((days_of_civil y m d * 86400 + ?sod div 3600 * 3600 + ?sod mod 3600 div 60 * 60 + ?sod mod 60)
        * 1000000 + ?us)) else None)"
    unfolding shown by (subst iso_shape) (simp_all only: length_pad F fields option.case prod.case)
  then show ?thesis
    using c(2,4-7) sod unfolding secs total by (simp only: simp_thms if_True)
qed

text \<open>Every valid instant is read back as it was written.\<close>

lemma parse_fmt_ts:
  assumes "\<And>t. x = Some t \<Longrightarrow> valid_time t"
  shows "parse_ts (JStr (fmt_ts x)) = Inr x"
proof (cases x)
  case (Some t)
  with assms have "iso_parse (iso_text t) = Inr (Some t)" by (simp add: iso_parse_text)
  moreover have "endswith (iso_text t @ ''Z'') ''Z''" "endswith (iso_text t @ ''+00:00'') ''+00:00''"
    by (simp_all add: endswith_def)
  ultimately show ?thesis using Some by (simp add: fmt_ts_def parse_ts_def)
qed (simp add: fmt_ts_def parse_ts_def)

end
