(* ===== verification/Kernel_Object.thy ===== *)
theory Kernel_Object
  imports Py_Json
begin

text \<open>
  The common object model (\<open>nous_runtime/kernel/object_model.py\<close>), the identifiers it
  generates (\<open>remote_terminal/nous_core/ids.py\<close>) and the result type of the kernel
  (\<open>nous_runtime/kernel/error_codes.py\<close>). The clock and the random suffix of an
  identifier are arguments: \<open>now\<close> is the text \<open>datetime.now(..).strftime(..)\<close> returns.
\<close>

section \<open>Identifiers\<close>

definition make_id :: "string \<Rightarrow> bool \<Rightarrow> string \<Rightarrow> string \<Rightarrow> string" where
  "make_id prefix with_random ts rand =
     (if with_random then prefix @ ''_'' @ ts @ ''_'' @ rand else prefix)"

section \<open>Phases, health, conditions\<close>

datatype phase =
    PH_PENDING | PH_ACTIVE | PH_COMPLETED | PH_FAILED | PH_CANCELLED
  | PH_REGISTERED | PH_VALIDATED | PH_ENABLED | PH_READY | PH_DISABLED
  | PH_DEPRECATED | PH_UNREGISTERED
  | PH_DISCOVERED | PH_CONNECTED | PH_AUTHENTICATED | PH_ADVERTISED
  | PH_DEGRADED | PH_DISCONNECTED
  | PH_CLAIMED | PH_RUNNING | PH_DONE
  | PH_PLANNING | PH_BUILDING | PH_EXECUTING | PH_SCHEDULED
  | PH_INSTALLED | PH_REMOVED

fun phase_value :: "phase \<Rightarrow> string" where
  "phase_value PH_PENDING = ''pending''"
| "phase_value PH_ACTIVE = ''active''"
| "phase_value PH_COMPLETED = ''completed''"
| "phase_value PH_FAILED = ''failed''"
| "phase_value PH_CANCELLED = ''cancelled''"
| "phase_value PH_REGISTERED = ''registered''"
| "phase_value PH_VALIDATED = ''validated''"
| "phase_value PH_ENABLED = ''enabled''"
| "phase_value PH_READY = ''ready''"
| "phase_value PH_DISABLED = ''disabled''"
| "phase_value PH_DEPRECATED = ''deprecated''"
| "phase_value PH_UNREGISTERED = ''unregistered''"
| "phase_value PH_DISCOVERED = ''discovered''"
| "phase_value PH_CONNECTED = ''connected''"
| "phase_value PH_AUTHENTICATED = ''authenticated''"
| "phase_value PH_ADVERTISED = ''advertised''"
| "phase_value PH_DEGRADED = ''degraded''"
| "phase_value PH_DISCONNECTED = ''disconnected''"
| "phase_value PH_CLAIMED = ''claimed''"
| "phase_value PH_RUNNING = ''running''"
| "phase_value PH_DONE = ''done''"
| "phase_value PH_PLANNING = ''planning''"
| "phase_value PH_BUILDING = ''building''"
| "phase_value PH_EXECUTING = ''executing''"
| "phase_value PH_SCHEDULED = ''scheduled''"
| "phase_value PH_INSTALLED = ''installed''"
| "phase_value PH_REMOVED = ''removed''"

datatype health = H_OK | H_DEGRADED | H_DOWN | H_UNKNOWN

fun health_value :: "health \<Rightarrow> string" where
  "health_value H_OK = ''ok''"
| "health_value H_DEGRADED = ''degraded''"
| "health_value H_DOWN = ''down''"
| "health_value H_UNKNOWN = ''unknown''"

lemma health_value_inject [simp]: "health_value a = health_value b \<longleftrightarrow> a = b"
  by (cases a; cases b) simp_all

record condition =
  cond_type :: string
  cond_status :: string
  cond_reason :: string
  cond_message :: string
  cond_last_transition :: string

definition condition_post_init :: "string \<Rightarrow> condition \<Rightarrow> condition" where
  "condition_post_init now c =
     (if cond_last_transition c = [] then c\<lparr>cond_last_transition := now\<rparr> else c)"

section \<open>Objects\<close>

record object_metadata =
  md_id :: string
  md_kind :: string
  md_api_version :: string
  md_name :: string
  md_namespace :: string
  md_owner :: string
  md_labels :: "(string, string) dict"
  md_created_at :: string
  md_updated_at :: string
  md_generation :: int

definition metadata_post_init :: "string \<Rightarrow> object_metadata \<Rightarrow> object_metadata" where
  "metadata_post_init now m =
     (let m = (if md_created_at m = [] then m\<lparr>md_created_at := now\<rparr> else m)
      in if md_updated_at m = [] then m\<lparr>md_updated_at := now\<rparr> else m)"

record nous_object =
  ob_kind :: string
  ob_api_version :: string
  ob_metadata :: object_metadata
  ob_phase :: phase
  ob_health :: health
  ob_conditions :: "condition list"
  ob_message :: string
  ob_observed_at :: string

definition kind_prefix :: "string \<Rightarrow> string" where
  "kind_prefix kind = dict_get_or
     [(''Goal'', ''goal''), (''Plan'', ''plan''), (''Task'', ''task''), (''Job'', ''job''),
      (''Capability'', ''cap''), (''Provider'', ''prov''), (''Pack'', ''pack''),
      (''Node'', ''node''), (''Policy'', ''pol'')] kind ''obj''"

definition object_post_init :: "string \<Rightarrow> string \<Rightarrow> 'a nous_object_scheme \<Rightarrow> 'a nous_object_scheme" where
  "object_post_init ts rand x =
     (if md_id (ob_metadata x) = [] then
        x\<lparr>ob_metadata := (ob_metadata x)\<lparr>
            md_id := make_id (kind_prefix (ob_kind x)) True ts rand,
            md_kind := ob_kind x,
            md_api_version := ob_api_version x\<rparr>\<rparr>
      else x)"

definition set_phase :: "string \<Rightarrow> phase \<Rightarrow> string \<Rightarrow> 'a nous_object_scheme \<Rightarrow> 'a nous_object_scheme" where
  "set_phase now ph msg x =
     x\<lparr>ob_phase := ph, ob_message := msg, ob_observed_at := now,
       ob_metadata := (ob_metadata x)\<lparr>md_updated_at := now,
         md_generation := md_generation (ob_metadata x) + 1\<rparr>\<rparr>"

definition set_health :: "string \<Rightarrow> health \<Rightarrow> string \<Rightarrow> 'a nous_object_scheme \<Rightarrow> 'a nous_object_scheme" where
  "set_health now h msg x =
     (let x = x\<lparr>ob_health := h\<rparr>;
          x = (if msg \<noteq> [] then x\<lparr>ob_message := msg\<rparr> else x)
      in x\<lparr>ob_observed_at := now\<rparr>)"

definition add_condition :: "condition \<Rightarrow> 'a nous_object_scheme \<Rightarrow> 'a nous_object_scheme" where
  "add_condition c x =
     x\<lparr>ob_conditions := filter (\<lambda>c'. cond_type c' \<noteq> cond_type c) (ob_conditions x) @ [c]\<rparr>"

definition is_ready :: "'a nous_object_scheme \<Rightarrow> bool" where
  "is_ready x \<longleftrightarrow> ob_phase x \<in> {PH_READY, PH_ACTIVE, PH_DONE}"

definition is_terminal :: "'a nous_object_scheme \<Rightarrow> bool" where
  "is_terminal x \<longleftrightarrow>
     ob_phase x \<in> {PH_COMPLETED, PH_FAILED, PH_CANCELLED, PH_UNREGISTERED, PH_REMOVED}"

definition condition_json :: "condition \<Rightarrow> json" where
  "condition_json c = JObj
     [(''type'', JStr (cond_type c)), (''status'', JStr (cond_status c)),
      (''reason'', JStr (cond_reason c)), (''message'', JStr (cond_message c)),
      (''last_transition'', JStr (cond_last_transition c))]"

definition object_to_dict :: "string \<Rightarrow> 'a nous_object_scheme \<Rightarrow> jobj" where
  "object_to_dict phase_text x =
     (let m = ob_metadata x in
      [(''metadata'', JObj
         [(''id'', JStr (md_id m)), (''kind'', JStr (ob_kind x)),
          (''api_version'', JStr (ob_api_version x)), (''name'', JStr (md_name m)),
          (''namespace'', JStr (md_namespace m)), (''owner'', JStr (md_owner m)),
          (''labels'', JObj (map (\<lambda>(k, v). (k, JStr v)) (md_labels m))),
          (''created_at'', JStr (md_created_at m)), (''updated_at'', JStr (md_updated_at m)),
          (''generation'', JInt (md_generation m))]),
       (''status'', JObj
         [(''phase'', JStr phase_text), (''health'', JStr (health_value (ob_health x))),
          (''conditions'', JList (map condition_json (ob_conditions x))),
          (''message'', JStr (ob_message x)), (''observed_at'', JStr (ob_observed_at x))])])"

text \<open>
  At most one condition per type is the invariant \<open>add_condition\<close> maintains; the last one
  added for a type is the one a reader finds.
\<close>

definition conditions_ok :: "'a nous_object_scheme \<Rightarrow> bool" where
  "conditions_ok x \<longleftrightarrow> distinct (map cond_type (ob_conditions x))"

lemma add_condition_conditions_ok: "conditions_ok x \<Longrightarrow> conditions_ok (add_condition c x)"
  by (auto simp: conditions_ok_def add_condition_def distinct_map inj_on_def)

lemma add_condition_lookup:
  "find (\<lambda>c'. cond_type c' = t) (ob_conditions (add_condition c x)) =
     (if t = cond_type c then Some c else find (\<lambda>c'. cond_type c' = t) (ob_conditions x))"
proof -
  have "find (\<lambda>c'. cond_type c' = t) (filter (\<lambda>c'. cond_type c' \<noteq> cond_type c) cs @ [c]) =
      (if t = cond_type c then Some c else find (\<lambda>c'. cond_type c' = t) cs)" for cs
    by (induction cs) auto
  then show ?thesis by (simp add: add_condition_def)
qed

section \<open>Error codes and results\<close>

datatype error_code =
    EC_OK | EC_ACCEPTED | EC_PARTIAL
  | EC_INVALID_ARGUMENT | EC_NOT_FOUND | EC_ALREADY_EXISTS | EC_PERMISSION_DENIED
  | EC_UNAUTHENTICATED | EC_QUOTA_EXCEEDED | EC_BUDGET_EXCEEDED | EC_RATE_LIMITED
  | EC_CANCELLED | EC_INVALID_STATE
  | EC_INTERNAL | EC_UNAVAILABLE | EC_TIMEOUT | EC_OVERLOADED | EC_DEGRADED | EC_CIRCUIT_OPEN
  | EC_MODEL_UNAVAILABLE | EC_MODEL_TIMEOUT | EC_MODEL_REFUSED | EC_MODEL_INVALID_OUTPUT
  | EC_MODEL_CONTEXT_OVERFLOW
  | EC_NODE_OFFLINE | EC_NODE_UNREACHABLE | EC_NODE_REVOKED | EC_NODE_DEGRADED
  | EC_CONNECTION_LOST | EC_HEARTBEAT_MISSED
  | EC_TASK_FAILED | EC_VERIFICATION_FAILED | EC_APPROVAL_DENIED | EC_APPROVAL_TIMEOUT
  | EC_RECOVERY_FAILED | EC_ROLLBACK_FAILED
  | EC_DATA_CORRUPTED | EC_MIGRATION_FAILED | EC_CHECKPOINT_CORRUPTED
  | EC_UNKNOWN

fun error_code_value :: "error_code \<Rightarrow> string" where
  "error_code_value EC_OK = ''OK''"
| "error_code_value EC_ACCEPTED = ''ACCEPTED''"
| "error_code_value EC_PARTIAL = ''PARTIAL''"
| "error_code_value EC_INVALID_ARGUMENT = ''INVALID_ARGUMENT''"
| "error_code_value EC_NOT_FOUND = ''NOT_FOUND''"
| "error_code_value EC_ALREADY_EXISTS = ''ALREADY_EXISTS''"
| "error_code_value EC_PERMISSION_DENIED = ''PERMISSION_DENIED''"
| "error_code_value EC_UNAUTHENTICATED = ''UNAUTHENTICATED''"
| "error_code_value EC_QUOTA_EXCEEDED = ''QUOTA_EXCEEDED''"
| "error_code_value EC_BUDGET_EXCEEDED = ''BUDGET_EXCEEDED''"
| "error_code_value EC_RATE_LIMITED = ''RATE_LIMITED''"
| "error_code_value EC_CANCELLED = ''CANCELLED''"
| "error_code_value EC_INVALID_STATE = ''INVALID_STATE''"
| "error_code_value EC_INTERNAL = ''INTERNAL''"
| "error_code_value EC_UNAVAILABLE = ''UNAVAILABLE''"
| "error_code_value EC_TIMEOUT = ''TIMEOUT''"
| "error_code_value EC_OVERLOADED = ''OVERLOADED''"
| "error_code_value EC_DEGRADED = ''DEGRADED''"
| "error_code_value EC_CIRCUIT_OPEN = ''CIRCUIT_OPEN''"
| "error_code_value EC_MODEL_UNAVAILABLE = ''MODEL_UNAVAILABLE''"
| "error_code_value EC_MODEL_TIMEOUT = ''MODEL_TIMEOUT''"
| "error_code_value EC_MODEL_REFUSED = ''MODEL_REFUSED''"
| "error_code_value EC_MODEL_INVALID_OUTPUT = ''MODEL_INVALID_OUTPUT''"
| "error_code_value EC_MODEL_CONTEXT_OVERFLOW = ''MODEL_CONTEXT_OVERFLOW''"
| "error_code_value EC_NODE_OFFLINE = ''NODE_OFFLINE''"
| "error_code_value EC_NODE_UNREACHABLE = ''NODE_UNREACHABLE''"
| "error_code_value EC_NODE_REVOKED = ''NODE_REVOKED''"
| "error_code_value EC_NODE_DEGRADED = ''NODE_DEGRADED''"
| "error_code_value EC_CONNECTION_LOST = ''CONNECTION_LOST''"
| "error_code_value EC_HEARTBEAT_MISSED = ''HEARTBEAT_MISSED''"
| "error_code_value EC_TASK_FAILED = ''TASK_FAILED''"
| "error_code_value EC_VERIFICATION_FAILED = ''VERIFICATION_FAILED''"
| "error_code_value EC_APPROVAL_DENIED = ''APPROVAL_DENIED''"
| "error_code_value EC_APPROVAL_TIMEOUT = ''APPROVAL_TIMEOUT''"
| "error_code_value EC_RECOVERY_FAILED = ''RECOVERY_FAILED''"
| "error_code_value EC_ROLLBACK_FAILED = ''ROLLBACK_FAILED''"
| "error_code_value EC_DATA_CORRUPTED = ''DATA_CORRUPTED''"
| "error_code_value EC_MIGRATION_FAILED = ''MIGRATION_FAILED''"
| "error_code_value EC_CHECKPOINT_CORRUPTED = ''CHECKPOINT_CORRUPTED''"
| "error_code_value EC_UNKNOWN = ''UNKNOWN''"

definition RETRYABLE_CODES :: "error_code list" where
  "RETRYABLE_CODES =
     [EC_TIMEOUT, EC_UNAVAILABLE, EC_OVERLOADED, EC_CIRCUIT_OPEN, EC_MODEL_UNAVAILABLE,
      EC_MODEL_TIMEOUT, EC_NODE_UNREACHABLE, EC_CONNECTION_LOST, EC_RATE_LIMITED]"

definition is_retryable :: "error_code \<Rightarrow> bool" where
  "is_retryable c \<longleftrightarrow> c \<in> set RETRYABLE_CODES"

definition ERROR_SEVERITY :: "(error_code, int) dict" where
  "ERROR_SEVERITY =
     [(EC_OK, 0), (EC_ACCEPTED, 0), (EC_PARTIAL, 1), (EC_CANCELLED, 0),
      (EC_INVALID_ARGUMENT, 1), (EC_NOT_FOUND, 1), (EC_ALREADY_EXISTS, 1),
      (EC_PERMISSION_DENIED, 2), (EC_UNAUTHENTICATED, 2), (EC_QUOTA_EXCEEDED, 2),
      (EC_BUDGET_EXCEEDED, 2), (EC_RATE_LIMITED, 2), (EC_INVALID_STATE, 2),
      (EC_INTERNAL, 3), (EC_UNAVAILABLE, 3), (EC_TIMEOUT, 2), (EC_OVERLOADED, 2),
      (EC_DEGRADED, 2), (EC_CIRCUIT_OPEN, 2), (EC_MODEL_UNAVAILABLE, 2),
      (EC_MODEL_TIMEOUT, 2), (EC_MODEL_REFUSED, 2), (EC_MODEL_INVALID_OUTPUT, 2),
      (EC_MODEL_CONTEXT_OVERFLOW, 2), (EC_NODE_OFFLINE, 2), (EC_NODE_UNREACHABLE, 2),
      (EC_NODE_REVOKED, 3), (EC_NODE_DEGRADED, 2), (EC_CONNECTION_LOST, 2),
      (EC_HEARTBEAT_MISSED, 1), (EC_TASK_FAILED, 2), (EC_VERIFICATION_FAILED, 2),
      (EC_APPROVAL_DENIED, 2), (EC_APPROVAL_TIMEOUT, 2), (EC_RECOVERY_FAILED, 3),
      (EC_ROLLBACK_FAILED, 3), (EC_DATA_CORRUPTED, 3), (EC_MIGRATION_FAILED, 3),
      (EC_CHECKPOINT_CORRUPTED, 3), (EC_UNKNOWN, 2)]"

definition severity :: "error_code \<Rightarrow> int" where
  "severity c = dict_get_or ERROR_SEVERITY c 2"

text \<open>
  \<open>NousResult\<close>, with the type of the value as a parameter. \<open>res_ok\<close> is the instance side of
  the \<open>ok\<close> descriptor and \<open>mk_ok\<close> its class side.
\<close>

record 'v nous_result =
  res_code :: error_code
  res_value :: "'v option"
  res_message :: string
  res_details :: jobj
  res_retry_after_ms :: int
  res_trace_id :: string

definition mk_ok :: "'v option \<Rightarrow> string \<Rightarrow> 'v nous_result" where
  "mk_ok v msg = \<lparr>res_code = EC_OK, res_value = v, res_message = msg, res_details = [],
     res_retry_after_ms = 0, res_trace_id = []\<rparr>"

text \<open>The calls of the kernel give no message.\<close>

abbreviation ok_value :: "'v option \<Rightarrow> 'v nous_result" where
  "ok_value v \<equiv> mk_ok v []"

definition mk_err :: "error_code \<Rightarrow> string \<Rightarrow> jobj \<Rightarrow> int \<Rightarrow> 'v nous_result" where
  "mk_err c msg details retry = \<lparr>res_code = c, res_value = None, res_message = msg,
     res_details = details, res_retry_after_ms = retry, res_trace_id = []\<rparr>"

definition res_ok :: "'v nous_result \<Rightarrow> bool" where
  "res_ok r \<longleftrightarrow> res_code r = EC_OK"

definition res_retryable :: "'v nous_result \<Rightarrow> bool" where
  "res_retryable r \<longleftrightarrow> is_retryable (res_code r)"

definition unwrap :: "'v nous_result \<Rightarrow> pyexn + 'v" where
  "unwrap r =
     (if \<not> res_ok r then Inl (ValueError
        (''NousResult error ['' @ error_code_value (res_code r) @ '']: '' @ res_message r))
      else case res_value r of None \<Rightarrow> Inl (ValueError ''NousResult has no value'') | Some v \<Rightarrow> Inr v)"

lemma res_ok_mk_ok [simp]: "res_ok (mk_ok v msg)"
  by (simp add: res_ok_def mk_ok_def)

lemma res_ok_mk_err [simp]: "res_ok (mk_err c msg d t) \<longleftrightarrow> c = EC_OK"
  by (simp add: res_ok_def mk_err_def)

lemma res_value_mk [simp]: "res_value (mk_ok v msg) = v" "res_value (mk_err c msg d t) = None"
  by (simp_all add: mk_ok_def mk_err_def)

lemma unwrap_mk_ok [simp]: "unwrap (mk_ok (Some v) msg) = Inr v"
  by (simp add: unwrap_def)

text \<open>Every code has an entry of its own in the table: the default of \<open>severity\<close> is never used.\<close>

lemma severity_total: "dict_get ERROR_SEVERITY c \<noteq> None"
  by (cases c) (simp_all add: ERROR_SEVERITY_def)

lemma severity_bounds: "0 \<le> severity c \<and> severity c \<le> 3"
  by (cases c) (simp_all add: severity_def ERROR_SEVERITY_def dict_get_or_def)

lemma retryable_severity: "is_retryable c \<Longrightarrow> 2 \<le> severity c"
  by (cases c) (simp_all add: is_retryable_def RETRYABLE_CODES_def severity_def ERROR_SEVERITY_def dict_get_or_def)

end
