(* ===== verification/Kernel_State_Machine.thy ===== *)
theory Kernel_State_Machine
  imports Kernel_Object
begin

text \<open>
  The generic validated state machine, the recovery checkpoints and the leases of
  \<open>nous_runtime/kernel/state_machine.py\<close>. States are any type with a text \<open>val\<close> (the
  enumeration's \<open>.value\<close>); the table of transitions is a dictionary from a state to the
  states it may move to. Identifiers and timestamps are arguments. The hook
  \<open>on_transition\<close> is represented by the list of the records it was called with.

  The locale \<open>guarded_machine\<close> is the contract every component with a table of allowed
  moves relies on: its lemmas hold for any sequence of requests, rejected ones included.
\<close>

section \<open>Guarded machines\<close>

locale guarded_machine =
  fixes step :: "'c \<Rightarrow> 's \<Rightarrow> 'c option"
    and cur :: "'c \<Rightarrow> 's"
    and allowed :: "'s \<Rightarrow> 's \<Rightarrow> bool"
    and inv :: "'c \<Rightarrow> bool"
  assumes step_cur: "inv c \<Longrightarrow> step c s = Some c' \<Longrightarrow> cur c' = s"
    and step_allowed: "inv c \<Longrightarrow> step c s = Some c' \<Longrightarrow> s = cur c \<or> allowed (cur c) s"
    and step_inv: "inv c \<Longrightarrow> step c s = Some c' \<Longrightarrow> inv c'"
begin

definition attempt :: "'c \<Rightarrow> 's \<Rightarrow> 'c" where
  "attempt c s = (case step c s of None \<Rightarrow> c | Some c' \<Rightarrow> c')"

primrec run :: "'c \<Rightarrow> 's list \<Rightarrow> 'c" where
  "run c [] = c"
| "run c (s # ss) = run (attempt c s) ss"

lemma attempt_inv: "inv c \<Longrightarrow> inv (attempt c s)"
  by (auto simp: attempt_def step_inv split: option.splits)

lemma attempt_moves: "inv c \<Longrightarrow> cur (attempt c s) = cur c \<or> allowed (cur c) (cur (attempt c s))"
  by (auto simp: attempt_def dest: step_cur step_allowed split: option.splits)

lemma run_inv: "inv c \<Longrightarrow> inv (run c ss)"
  by (induction ss arbitrary: c) (simp_all add: attempt_inv)

lemma run_path: "inv c \<Longrightarrow> allowed\<^sup>*\<^sup>* (cur c) (cur (run c ss))"
proof (induction ss arbitrary: c)
  case (Cons s ss)
  from Cons.IH [OF attempt_inv [OF Cons.prems]]
  have "allowed\<^sup>*\<^sup>* (cur (attempt c s)) (cur (run (attempt c s) ss))" .
  moreover have "allowed\<^sup>*\<^sup>* (cur c) (cur (attempt c s))"
    using attempt_moves [OF Cons.prems, of s] by auto
  ultimately show ?case by simp
qed simp

lemma run_closed:
  assumes "inv c" and "cur c \<in> S" and "\<And>a b. a \<in> S \<Longrightarrow> allowed a b \<Longrightarrow> b \<in> S"
  shows "cur (run c ss) \<in> S"
  using run_path [OF assms(1), of ss] assms(2)
  by (induction rule: rtranclp_induct) (auto intro: assms(3))

lemma run_terminal:
  assumes "inv c" and "\<And>b. \<not> allowed (cur c) b"
  shows "cur (run c ss) = cur c"
  using run_closed [where S = "{cur c}" and c = c and ss = ss] assms by auto

lemma run_unreachable:
  assumes "inv c" and "cur c \<noteq> s" and "\<And>a. \<not> allowed a s"
  shows "cur (run c ss) \<noteq> s"
  using run_closed [where S = "- {s}" and c = c and ss = ss] assms by auto

end

section \<open>Transition records and the state machine\<close>

record transition_record =
  tr_transition_id :: string
  tr_from_state :: string
  tr_to_state :: string
  tr_timestamp :: string
  tr_reason :: string
  tr_triggered_by :: string
  tr_trace_id :: string

definition transition_record_to_dict :: "transition_record \<Rightarrow> jobj" where
  "transition_record_to_dict r =
     [(''transition_id'', JStr (tr_transition_id r)), (''from_state'', JStr (tr_from_state r)),
      (''to_state'', JStr (tr_to_state r)), (''timestamp'', JStr (tr_timestamp r)),
      (''reason'', JStr (tr_reason r)), (''triggered_by'', JStr (tr_triggered_by r)),
      (''trace_id'', JStr (tr_trace_id r))]"

record 's state_machine =
  sm_transitions :: "('s, 's list) dict"
  sm_current :: "'s option"
  sm_history :: "transition_record list"
  sm_max_history :: int
  sm_on_transition :: "transition_record list option"

text \<open>\<open>s.value if hasattr(s, 'value') else str(s)\<close>, with \<open>str(None)\<close> for no state.\<close>

definition state_text :: "('s \<Rightarrow> string) \<Rightarrow> 's option \<Rightarrow> string" where
  "state_text val s = (case s of None \<Rightarrow> ''None'' | Some x \<Rightarrow> val x)"

definition sm_post_init :: "('s \<Rightarrow> string) \<Rightarrow> string \<Rightarrow> string \<Rightarrow> 's state_machine \<Rightarrow> 's state_machine" where
  "sm_post_init val tid now sm =
     (case sm_current sm of
        None \<Rightarrow> sm
      | Some c \<Rightarrow>
          if sm_history sm = [] then
            sm\<lparr>sm_history :=
              [\<lparr>tr_transition_id = tid, tr_from_state = ''(initial)'', tr_to_state = val c,
                tr_timestamp = now, tr_reason = ''Initial state'', tr_triggered_by = [],
                tr_trace_id = []\<rparr>]\<rparr>
          else sm)"

definition sm_allowed :: "'s state_machine \<Rightarrow> 's list option" where
  "sm_allowed sm =
     (case sm_current sm of None \<Rightarrow> None | Some c \<Rightarrow> dict_get (sm_transitions sm) c)"

definition sm_can_transition :: "'s state_machine \<Rightarrow> 's \<Rightarrow> bool" where
  "sm_can_transition sm to =
     (case sm_allowed sm of None \<Rightarrow> True | Some allowed \<Rightarrow> to \<in> set allowed)"

definition sm_transition ::
  "('s \<Rightarrow> string) \<Rightarrow> string \<Rightarrow> string \<Rightarrow> 's \<Rightarrow> string \<Rightarrow> string \<Rightarrow> string \<Rightarrow> 's state_machine
     \<Rightarrow> pyexn + transition_record \<times> 's state_machine" where
  "sm_transition val tid now to reason triggered_by trace_id sm =
     (let from_str = state_text val (sm_current sm);
          record = \<lparr>tr_transition_id = tid, tr_from_state = from_str, tr_to_state = val to,
            tr_timestamp = now, tr_reason = reason, tr_triggered_by = triggered_by,
            tr_trace_id = trace_id\<rparr>
      in if Some to = sm_current sm then
           Inr (record\<lparr>tr_reason := (if reason = [] then ''Idempotent transition'' else reason)\<rparr>, sm)
         else if (case sm_allowed sm of None \<Rightarrow> False | Some allowed \<Rightarrow> to \<notin> set allowed) then
           Inl (InvalidTransition from_str (val to))
         else
           Inr (record,
             sm\<lparr>sm_current := Some to,
                sm_history := append_trim (sm_max_history sm) record (sm_history sm),
                sm_on_transition := map_option (\<lambda>calls. calls @ [record]) (sm_on_transition sm)\<rparr>))"

definition sm_last_transition :: "'s state_machine \<Rightarrow> transition_record option" where
  "sm_last_transition sm = (if sm_history sm \<noteq> [] then Some (last (sm_history sm)) else None)"

definition sm_transition_count :: "'s state_machine \<Rightarrow> int" where
  "sm_transition_count sm = int (length (sm_history sm))"

subsection \<open>Properties of one transition\<close>

lemma sm_transition_ok_iff:
  "(\<exists>r sm'. sm_transition val tid now to reason by trace sm = Inr (r, sm'))
     \<longleftrightarrow> Some to = sm_current sm \<or> sm_can_transition sm to"
  by (auto simp: sm_transition_def sm_can_transition_def Let_def split: option.splits)

lemma sm_transition_current:
  "sm_transition val tid now to reason by trace sm = Inr (r, sm') \<Longrightarrow> sm_current sm' = Some to"
  by (auto simp: sm_transition_def Let_def split: if_splits option.splits)

lemma sm_transition_frame:
  "sm_transition val tid now to reason by trace sm = Inr (r, sm') \<Longrightarrow>
     sm_transitions sm' = sm_transitions sm \<and> sm_max_history sm' = sm_max_history sm"
  by (auto simp: sm_transition_def Let_def split: if_splits option.splits)

lemma sm_transition_idempotent:
  "sm_current sm = Some to \<Longrightarrow>
     \<exists>r. sm_transition val tid now to reason by trace sm = Inr (r, sm)"
  by (simp add: sm_transition_def Let_def)

lemma sm_transition_moves:
  "sm_transition val tid now to reason by trace sm = Inr (r, sm') \<Longrightarrow> Some to \<noteq> sm_current sm \<Longrightarrow>
     sm_history sm' = append_trim (sm_max_history sm) r (sm_history sm) \<and>
     tr_from_state r = state_text val (sm_current sm) \<and> tr_to_state r = val to \<and>
     sm_on_transition sm' = map_option (\<lambda>calls. calls @ [r]) (sm_on_transition sm)"
  by (auto simp: sm_transition_def Let_def split: if_splits option.splits)

lemma sm_transition_history_bound:
  assumes "sm_transition val tid now to reason by trace sm = Inr (r, sm')"
    and "0 < sm_max_history sm" and "int (length (sm_history sm)) \<le> sm_max_history sm"
  shows "int (length (sm_history sm')) \<le> sm_max_history sm'"
  using assms
  by (cases "Some to = sm_current sm")
    (auto simp: sm_transition_def Let_def length_append_trim split: if_splits option.splits)

text \<open>
  The consistency of a machine with its audit trail: the last record names the current
  state, and consecutive records chain.
\<close>

fun chained :: "transition_record list \<Rightarrow> bool" where
  "chained (a # b # rs) \<longleftrightarrow> tr_to_state a = tr_from_state b \<and> chained (b # rs)"
| "chained _ = True"

lemma chained_snoc:
  "chained (rs @ [r]) \<longleftrightarrow> chained rs \<and> (rs = [] \<or> tr_to_state (last rs) = tr_from_state r)"
  by (induction rs rule: chained.induct) auto

lemma chained_drop: "chained rs \<Longrightarrow> chained (drop n rs)"
proof (induction rs arbitrary: n rule: chained.induct)
  case (1 a b rs)
  then show ?case by (cases n) auto
qed (auto simp: drop_Cons split: nat.splits)

definition audit_ok :: "('s \<Rightarrow> string) \<Rightarrow> 's state_machine \<Rightarrow> bool" where
  "audit_ok val sm \<longleftrightarrow>
     sm_history sm \<noteq> [] \<and> chained (sm_history sm) \<and>
     tr_to_state (last (sm_history sm)) = state_text val (sm_current sm)"

lemma chained_append_trim:
  assumes "chained xs" and "xs = [] \<or> tr_to_state (last xs) = tr_from_state r"
  shows "chained (append_trim m r xs)"
proof -
  from assms have "chained (xs @ [r])" by (auto simp: chained_snoc)
  then show ?thesis by (simp add: append_trim_def slice_last_def chained_drop del: drop_append)
qed

lemma audit_ok_post_init:
  "sm_current sm = Some c \<Longrightarrow> sm_history sm = [] \<Longrightarrow> audit_ok val (sm_post_init val tid now sm)"
  by (simp add: audit_ok_def sm_post_init_def state_text_def)

lemma audit_ok_transition:
  assumes "sm_transition val tid now to reason by trace sm = Inr (r, sm')"
    and "audit_ok val sm" and "0 \<le> sm_max_history sm"
  shows "audit_ok val sm'"
proof (cases "Some to = sm_current sm")
  case True
  with assms show ?thesis by (simp add: sm_transition_def Let_def)
next
  case False
  note m = sm_transition_moves [OF assms(1) False] sm_transition_current [OF assms(1)]
  with assms(2,3) show ?thesis
    by (auto simp: audit_ok_def state_text_def intro!: chained_append_trim)
qed

section \<open>Checkpoints\<close>

record checkpoint =
  ck_checkpoint_id :: string
  ck_object_id :: string
  ck_object_kind :: string
  ck_state_snapshot :: jobj
  ck_created_at :: string
  ck_node_id :: string
  ck_sequence_number :: int

definition checkpoint_to_dict :: "checkpoint \<Rightarrow> jobj" where
  "checkpoint_to_dict c =
     [(''checkpoint_id'', JStr (ck_checkpoint_id c)), (''object_id'', JStr (ck_object_id c)),
      (''object_kind'', JStr (ck_object_kind c)), (''state_snapshot'', JObj (ck_state_snapshot c)),
      (''created_at'', JStr (ck_created_at c)), (''node_id'', JStr (ck_node_id c)),
      (''sequence_number'', JInt (ck_sequence_number c))]"

section \<open>Leases\<close>

record lease =
  le_lease_id :: string
  le_holder_id :: string
  le_resource_id :: string
  le_acquired_at :: string
  le_expires_at :: string
  le_renewed_at :: "string option"
  le_released_at :: "string option"

definition lease_post_init :: "string \<Rightarrow> lease \<Rightarrow> lease" where
  "lease_post_init now l = (if le_acquired_at l = [] then l\<lparr>le_acquired_at := now\<rparr> else l)"

definition lease_is_expired :: "string \<Rightarrow> lease \<Rightarrow> bool" where
  "lease_is_expired now l \<longleftrightarrow>
     (if le_released_at l \<noteq> None then True
      else if le_expires_at l = [] then False
      else le_expires_at l \<le> now)"

definition lease_is_active :: "string \<Rightarrow> lease \<Rightarrow> bool" where
  "lease_is_active now l \<longleftrightarrow> \<not> lease_is_expired now l"

definition lease_release :: "string \<Rightarrow> lease \<Rightarrow> lease" where
  "lease_release now l = l\<lparr>le_released_at := Some now\<rparr>"

definition lease_renew :: "string \<Rightarrow> string \<Rightarrow> lease \<Rightarrow> lease" where
  "lease_renew now new_expires_at l =
     l\<lparr>le_renewed_at := Some now, le_expires_at := new_expires_at\<rparr>"

lemma lease_expired_mono: "lease_is_expired t l \<Longrightarrow> t \<le> t' \<Longrightarrow> lease_is_expired t' l"
  by (auto simp: lease_is_expired_def split: if_splits)

lemma released_stays_expired:
  "lease_is_expired t' (lease_renew n e (lease_release n' l))"
  by (simp add: lease_is_expired_def lease_renew_def lease_release_def)

lemma lease_renew_active:
  "le_released_at l = None \<Longrightarrow> t < e \<Longrightarrow> lease_is_active t (lease_renew n e l)"
  by (auto simp: lease_is_active_def lease_is_expired_def lease_renew_def)

end
