(* ===== verification/Kernel_Task.thy ===== *)
theory Kernel_Task
  imports Kernel_State_Machine
begin

text \<open>
  The task object of \<open>nous_runtime/kernel/task.py\<close>: its phases and their table of
  transitions, the budget, the fingerprint, the execution ticket, and the operations of
  \<open>Task\<close> on the state machine that holds its phase. A task extends the record of
  \<open>Kernel_Object\<close>; the inherited field \<open>ob_phase\<close> plays the part of the entry
  \<open>_base_phase\<close>, since \<open>Task.phase\<close> is a property over the state machine.
\<close>

section \<open>Phases and transitions\<close>

datatype task_phase =
    TP_DRAFT | TP_CREATED | TP_ANALYZING | TP_QUEUED | TP_PLANNING | TP_AWAITING_APPROVAL
  | TP_PREPARING | TP_DISPATCHING | TP_RUNNING | TP_WAITING_FOR_MODEL | TP_WAITING_FOR_NODE
  | TP_WAITING_FOR_RESOURCE | TP_WAITING_FOR_INPUT | TP_VERIFYING | TP_PAUSED | TP_RECOVERING
  | TP_COMPLETED | TP_COMPLETED_WITH_WARNINGS | TP_FAILED | TP_FAILED_VERIFICATION
  | TP_CANCEL_REQUESTED | TP_CANCELLED | TP_BLOCKED

fun task_phase_value :: "task_phase \<Rightarrow> string" where
  "task_phase_value TP_DRAFT = ''draft''"
| "task_phase_value TP_CREATED = ''created''"
| "task_phase_value TP_ANALYZING = ''analyzing''"
| "task_phase_value TP_QUEUED = ''queued''"
| "task_phase_value TP_PLANNING = ''planning''"
| "task_phase_value TP_AWAITING_APPROVAL = ''awaiting_approval''"
| "task_phase_value TP_PREPARING = ''preparing''"
| "task_phase_value TP_DISPATCHING = ''dispatching''"
| "task_phase_value TP_RUNNING = ''running''"
| "task_phase_value TP_WAITING_FOR_MODEL = ''waiting_for_model''"
| "task_phase_value TP_WAITING_FOR_NODE = ''waiting_for_node''"
| "task_phase_value TP_WAITING_FOR_RESOURCE = ''waiting_for_resource''"
| "task_phase_value TP_WAITING_FOR_INPUT = ''waiting_for_input''"
| "task_phase_value TP_VERIFYING = ''verifying''"
| "task_phase_value TP_PAUSED = ''paused''"
| "task_phase_value TP_RECOVERING = ''recovering''"
| "task_phase_value TP_COMPLETED = ''completed''"
| "task_phase_value TP_COMPLETED_WITH_WARNINGS = ''completed_with_warnings''"
| "task_phase_value TP_FAILED = ''failed''"
| "task_phase_value TP_FAILED_VERIFICATION = ''failed_verification''"
| "task_phase_value TP_CANCEL_REQUESTED = ''cancel_requested''"
| "task_phase_value TP_CANCELLED = ''cancelled''"
| "task_phase_value TP_BLOCKED = ''blocked''"

definition all_task_phases :: "task_phase list" where
  "all_task_phases =
     [TP_DRAFT, TP_CREATED, TP_ANALYZING, TP_QUEUED, TP_PLANNING, TP_AWAITING_APPROVAL,
      TP_PREPARING, TP_DISPATCHING, TP_RUNNING, TP_WAITING_FOR_MODEL, TP_WAITING_FOR_NODE,
      TP_WAITING_FOR_RESOURCE, TP_WAITING_FOR_INPUT, TP_VERIFYING, TP_PAUSED, TP_RECOVERING,
      TP_COMPLETED, TP_COMPLETED_WITH_WARNINGS, TP_FAILED, TP_FAILED_VERIFICATION,
      TP_CANCEL_REQUESTED, TP_CANCELLED, TP_BLOCKED]"

text \<open>\<open>TaskPhase(raw)\<close>: the member with that value, or \<open>ValueError\<close>.\<close>

definition task_phase_of :: "string \<Rightarrow> task_phase option" where
  "task_phase_of raw = find (\<lambda>p. task_phase_value p = raw) all_task_phases"

lemma task_phase_of_value [simp]: "task_phase_of (task_phase_value p) = Some p"
  by (cases p) (simp_all add: task_phase_of_def all_task_phases_def)

lemma task_phase_of_Some: "task_phase_of raw = Some p \<Longrightarrow> task_phase_value p = raw"
  by (auto simp: task_phase_of_def find_Some_iff)

definition TASK_TRANSITIONS :: "(task_phase, task_phase list) dict" where
  "TASK_TRANSITIONS =
    [(TP_DRAFT, [TP_ANALYZING, TP_CANCELLED]),
     (TP_CREATED, [TP_ANALYZING, TP_QUEUED, TP_CANCELLED]),
     (TP_ANALYZING, [TP_PLANNING, TP_FAILED, TP_CANCELLED]),
     (TP_QUEUED, [TP_PLANNING, TP_PREPARING, TP_CANCELLED]),
     (TP_PLANNING, [TP_AWAITING_APPROVAL, TP_DISPATCHING, TP_FAILED, TP_CANCELLED]),
     (TP_AWAITING_APPROVAL, [TP_PREPARING, TP_DISPATCHING, TP_PLANNING, TP_CANCELLED]),
     (TP_PREPARING, [TP_RUNNING, TP_WAITING_FOR_RESOURCE, TP_WAITING_FOR_NODE,
        TP_WAITING_FOR_MODEL, TP_FAILED, TP_CANCELLED]),
     (TP_DISPATCHING, [TP_RUNNING, TP_WAITING_FOR_NODE, TP_WAITING_FOR_MODEL,
        TP_WAITING_FOR_RESOURCE, TP_CANCELLED]),
     (TP_RUNNING, [TP_VERIFYING, TP_PAUSED, TP_WAITING_FOR_NODE, TP_WAITING_FOR_MODEL,
        TP_WAITING_FOR_RESOURCE, TP_WAITING_FOR_INPUT, TP_RECOVERING, TP_FAILED,
        TP_CANCEL_REQUESTED, TP_CANCELLED]),
     (TP_WAITING_FOR_MODEL, [TP_DISPATCHING, TP_PREPARING, TP_RUNNING, TP_FAILED, TP_CANCELLED]),
     (TP_WAITING_FOR_NODE, [TP_DISPATCHING, TP_PREPARING, TP_RECOVERING, TP_FAILED, TP_CANCELLED]),
     (TP_WAITING_FOR_RESOURCE, [TP_RUNNING, TP_PREPARING, TP_RECOVERING, TP_FAILED, TP_CANCELLED]),
     (TP_WAITING_FOR_INPUT, [TP_RUNNING, TP_CANCELLED]),
     (TP_PAUSED, [TP_RUNNING, TP_CANCEL_REQUESTED, TP_CANCELLED]),
     (TP_RECOVERING, [TP_DISPATCHING, TP_RUNNING, TP_PREPARING, TP_VERIFYING, TP_FAILED,
        TP_CANCELLED]),
     (TP_VERIFYING, [TP_COMPLETED, TP_COMPLETED_WITH_WARNINGS, TP_FAILED_VERIFICATION,
        TP_RECOVERING]),
     (TP_CANCEL_REQUESTED, [TP_CANCELLED, TP_FAILED]),
     (TP_COMPLETED, []),
     (TP_COMPLETED_WITH_WARNINGS, []),
     (TP_FAILED, []),
     (TP_FAILED_VERIFICATION, []),
     (TP_CANCELLED, []),
     (TP_BLOCKED, [TP_RUNNING, TP_CANCELLED])]"

definition task_successors :: "task_phase \<Rightarrow> task_phase list" where
  "task_successors p = dict_get_or TASK_TRANSITIONS p []"

definition is_task_terminal :: "task_phase \<Rightarrow> bool" where
  "is_task_terminal p \<longleftrightarrow> length (dict_get_or TASK_TRANSITIONS p []) = 0"

definition is_task_active :: "task_phase \<Rightarrow> bool" where
  "is_task_active p \<longleftrightarrow> \<not> is_task_terminal p"

lemma task_successors_simps [transition_simps]:
  "task_successors TP_DRAFT = [TP_ANALYZING, TP_CANCELLED]"
  "task_successors TP_CREATED = [TP_ANALYZING, TP_QUEUED, TP_CANCELLED]"
  "task_successors TP_ANALYZING = [TP_PLANNING, TP_FAILED, TP_CANCELLED]"
  "task_successors TP_QUEUED = [TP_PLANNING, TP_PREPARING, TP_CANCELLED]"
  "task_successors TP_PLANNING = [TP_AWAITING_APPROVAL, TP_DISPATCHING, TP_FAILED, TP_CANCELLED]"
  "task_successors TP_AWAITING_APPROVAL = [TP_PREPARING, TP_DISPATCHING, TP_PLANNING, TP_CANCELLED]"
  "task_successors TP_PREPARING = [TP_RUNNING, TP_WAITING_FOR_RESOURCE, TP_WAITING_FOR_NODE,
     TP_WAITING_FOR_MODEL, TP_FAILED, TP_CANCELLED]"
  "task_successors TP_DISPATCHING = [TP_RUNNING, TP_WAITING_FOR_NODE, TP_WAITING_FOR_MODEL,
     TP_WAITING_FOR_RESOURCE, TP_CANCELLED]"
  "task_successors TP_RUNNING = [TP_VERIFYING, TP_PAUSED, TP_WAITING_FOR_NODE,
     TP_WAITING_FOR_MODEL, TP_WAITING_FOR_RESOURCE, TP_WAITING_FOR_INPUT, TP_RECOVERING,
     TP_FAILED, TP_CANCEL_REQUESTED, TP_CANCELLED]"
  "task_successors TP_WAITING_FOR_MODEL =
     [TP_DISPATCHING, TP_PREPARING, TP_RUNNING, TP_FAILED, TP_CANCELLED]"
  "task_successors TP_WAITING_FOR_NODE =
     [TP_DISPATCHING, TP_PREPARING, TP_RECOVERING, TP_FAILED, TP_CANCELLED]"
  "task_successors TP_WAITING_FOR_RESOURCE =
     [TP_RUNNING, TP_PREPARING, TP_RECOVERING, TP_FAILED, TP_CANCELLED]"
  "task_successors TP_WAITING_FOR_INPUT = [TP_RUNNING, TP_CANCELLED]"
  "task_successors TP_PAUSED = [TP_RUNNING, TP_CANCEL_REQUESTED, TP_CANCELLED]"
  "task_successors TP_RECOVERING =
     [TP_DISPATCHING, TP_RUNNING, TP_PREPARING, TP_VERIFYING, TP_FAILED, TP_CANCELLED]"
  "task_successors TP_VERIFYING =
     [TP_COMPLETED, TP_COMPLETED_WITH_WARNINGS, TP_FAILED_VERIFICATION, TP_RECOVERING]"
  "task_successors TP_CANCEL_REQUESTED = [TP_CANCELLED, TP_FAILED]"
  "task_successors TP_COMPLETED = []"
  "task_successors TP_COMPLETED_WITH_WARNINGS = []"
  "task_successors TP_FAILED = []"
  "task_successors TP_FAILED_VERIFICATION = []"
  "task_successors TP_CANCELLED = []"
  "task_successors TP_BLOCKED = [TP_RUNNING, TP_CANCELLED]"
  by (simp_all add: task_successors_def TASK_TRANSITIONS_def dict_get_or_def)

lemma TASK_TRANSITIONS_total: "dict_get TASK_TRANSITIONS p = Some (task_successors p)"
  by (cases p) (simp_all add: transition_simps TASK_TRANSITIONS_def)

lemma is_task_terminal_iff: "is_task_terminal p \<longleftrightarrow> task_successors p = []"
  by (simp add: is_task_terminal_def task_successors_def)

lemma task_never_enters_blocked: "TP_BLOCKED \<notin> set (task_successors p)"
  by (cases p) (simp_all add: transition_simps)

lemma task_completes_from_verifying:
  "q \<in> {TP_COMPLETED, TP_COMPLETED_WITH_WARNINGS, TP_FAILED_VERIFICATION} \<Longrightarrow>
     q \<in> set (task_successors p) \<Longrightarrow> p = TP_VERIFYING"
  by (cases p) (auto simp: transition_simps)

section \<open>Budget\<close>

record task_budget =
  tb_max_cost_cents :: int
  tb_max_tokens :: int
  tb_max_model_calls :: int
  tb_max_agents :: int
  tb_max_execution_seconds :: int
  tb_max_retries :: int
  tb_max_concurrent_agents :: int
  tb_cost_cents_spent :: int
  tb_tokens_spent :: int
  tb_model_calls_made :: int
  tb_agents_spawned :: int
  tb_started_at :: string
  tb_retries_used :: int

definition cost_exceeded :: "task_budget \<Rightarrow> bool" where
  "cost_exceeded b \<longleftrightarrow>
     (if tb_max_cost_cents b \<le> 0 then False else tb_cost_cents_spent b \<ge> tb_max_cost_cents b)"

definition tokens_exceeded :: "task_budget \<Rightarrow> bool" where
  "tokens_exceeded b \<longleftrightarrow>
     (if tb_max_tokens b \<le> 0 then False else tb_tokens_spent b \<ge> tb_max_tokens b)"

definition model_calls_exceeded :: "task_budget \<Rightarrow> bool" where
  "model_calls_exceeded b \<longleftrightarrow>
     (if tb_max_model_calls b \<le> 0 then False else tb_model_calls_made b \<ge> tb_max_model_calls b)"

definition any_budget_exceeded :: "task_budget \<Rightarrow> bool" where
  "any_budget_exceeded b \<longleftrightarrow> cost_exceeded b \<or> tokens_exceeded b \<or> model_calls_exceeded b"

section \<open>Fingerprint and ticket\<close>

record task_fingerprint =
  fp_fingerprint_id :: string
  fp_task_type :: string
  fp_required_capabilities :: "string list"
  fp_input_modalities :: "string list"
  fp_estimated_context_tokens :: int
  fp_privacy_level :: string
  fp_tool_requirements :: "string list"
  fp_target_node_roles :: "string list"
  fp_latency_requirement_ms :: int
  fp_risk_level :: string
  fp_requires_approval :: bool
  fp_requires_verification :: bool
  fp_is_long_running :: bool

definition fingerprint_to_dict :: "task_fingerprint \<Rightarrow> jobj" where
  "fingerprint_to_dict f =
     [(''fingerprint_id'', JStr (fp_fingerprint_id f)), (''task_type'', JStr (fp_task_type f)),
      (''required_capabilities'', jstrs (fp_required_capabilities f)),
      (''input_modalities'', jstrs (fp_input_modalities f)),
      (''estimated_context_tokens'', JInt (fp_estimated_context_tokens f)),
      (''privacy_level'', JStr (fp_privacy_level f)),
      (''tool_requirements'', jstrs (fp_tool_requirements f)),
      (''target_node_roles'', jstrs (fp_target_node_roles f)),
      (''latency_requirement_ms'', JInt (fp_latency_requirement_ms f)),
      (''risk_level'', JStr (fp_risk_level f)),
      (''requires_approval'', JBool (fp_requires_approval f)),
      (''requires_verification'', JBool (fp_requires_verification f)),
      (''is_long_running'', JBool (fp_is_long_running f))]"

record execution_ticket =
  et_ticket_id :: string
  et_plan_id :: string
  et_task_id :: string
  et_approved_by :: string
  et_approved_at :: string
  et_target_node_id :: string
  et_assigned_model_id :: string
  et_step_count :: int
  et_budget :: task_budget
  et_expires_at :: string
  et_signature :: string

definition ticket_is_expired :: "string \<Rightarrow> execution_ticket \<Rightarrow> bool" where
  "ticket_is_expired now t \<longleftrightarrow> (if et_expires_at t = [] then False else et_expires_at t \<le> now)"

section \<open>The task\<close>

record task = nous_object +
  tk_phase_sm :: "task_phase state_machine"
  tk_objective :: string
  tk_conversation_id :: string
  tk_user_id :: string
  tk_fingerprint :: task_fingerprint
  tk_target_node_id :: string
  tk_assigned_model_id :: string
  tk_ticket :: "execution_ticket option"
  tk_budget :: task_budget
  tk_current_step :: int
  tk_total_steps :: int
  tk_agent_graph_id :: string
  tk_checkpoints :: "checkpoint list"
  tk_result_summary :: string
  tk_result_artifacts :: "string list"
  tk_verification_result :: string
  tk_rollback_performed :: bool

text \<open>The default of \<open>phase_sm\<close>: the table above, starting in \<open>CREATED\<close>.\<close>

definition new_phase_sm :: "string \<Rightarrow> string \<Rightarrow> task_phase state_machine" where
  "new_phase_sm tid now = sm_post_init task_phase_value tid now
     \<lparr>sm_transitions = TASK_TRANSITIONS, sm_current = Some TP_CREATED, sm_history = [],
      sm_max_history = 100, sm_on_transition = None\<rparr>"

definition task_phase_opt :: "task \<Rightarrow> task_phase option" where
  "task_phase_opt t = sm_current (tk_phase_sm t)"

definition task_phase_setter :: "phase + task_phase \<Rightarrow> task \<Rightarrow> task" where
  "task_phase_setter v t =
     (case v of
        Inr p \<Rightarrow> t\<lparr>tk_phase_sm := (tk_phase_sm t)\<lparr>sm_current := Some p\<rparr>\<rparr>
      | Inl ph \<Rightarrow>
          (case task_phase_of (phase_value ph) of
             Some p \<Rightarrow> t\<lparr>tk_phase_sm := (tk_phase_sm t)\<lparr>sm_current := Some p\<rparr>\<rparr>
           | None \<Rightarrow> t\<lparr>ob_phase := ph\<rparr>))"

definition task_is_terminal :: "task \<Rightarrow> bool" where
  "task_is_terminal t =
     (case task_phase_opt t of None \<Rightarrow> True | Some p \<Rightarrow> is_task_terminal p)"

definition task_is_active :: "task \<Rightarrow> bool" where
  "task_is_active t \<longleftrightarrow> \<not> task_is_terminal t"

definition task_needs_approval :: "task \<Rightarrow> bool" where
  "task_needs_approval t \<longleftrightarrow> task_phase_opt t = Some TP_AWAITING_APPROVAL"

text \<open>Both \<open>set_phase\<close> and \<open>transition\<close> end with the same bookkeeping.\<close>

definition task_touch :: "string \<Rightarrow> string \<Rightarrow> task \<Rightarrow> task" where
  "task_touch now msg t =
     t\<lparr>ob_message := msg, ob_observed_at := now,
       ob_metadata := (ob_metadata t)\<lparr>md_updated_at := now,
         md_generation := md_generation (ob_metadata t) + 1\<rparr>\<rparr>"

definition task_set_phase :: "string \<Rightarrow> phase \<Rightarrow> string \<Rightarrow> task \<Rightarrow> task" where
  "task_set_phase now ph msg t = task_touch now msg t"

definition task_transition ::
  "string \<Rightarrow> string \<Rightarrow> string \<Rightarrow> task_phase \<Rightarrow> string \<Rightarrow> string \<Rightarrow> string \<Rightarrow> task
     \<Rightarrow> pyexn + transition_record \<times> task" where
  "task_transition tid stamp now to reason triggered_by trace_id t =
     bindE (sm_transition task_phase_value tid stamp to reason triggered_by trace_id (tk_phase_sm t))
       (\<lambda>(record, sm). Inr (record, task_touch now reason (t\<lparr>tk_phase_sm := sm\<rparr>)))"

definition task_create_checkpoint :: "string \<Rightarrow> string \<Rightarrow> string \<Rightarrow> task \<Rightarrow> checkpoint \<times> task" where
  "task_create_checkpoint cid now node_id t =
     (let b = tk_budget t;
          ckpt = \<lparr>ck_checkpoint_id = cid, ck_object_id = md_id (ob_metadata t),
            ck_object_kind = ''Task'',
            ck_state_snapshot =
              [(''phase'', JStr (state_text task_phase_value (task_phase_opt t))),
               (''current_step'', JInt (tk_current_step t)),
               (''total_steps'', JInt (tk_total_steps t)),
               (''budget'', JObj
                 [(''cost_cents_spent'', JInt (tb_cost_cents_spent b)),
                  (''tokens_spent'', JInt (tb_tokens_spent b)),
                  (''retries_used'', JInt (tb_retries_used b))])],
            ck_created_at = now, ck_node_id = node_id,
            ck_sequence_number = int (length (tk_checkpoints t))\<rparr>
      in (ckpt, t\<lparr>tk_checkpoints := tk_checkpoints t @ [ckpt]\<rparr>))"

text \<open>
  Restoring assigns what the snapshot holds without converting it; a field of the wrong
  type is outside the model. The result is the exception, if any, and the task as the
  assignments before it left it.
\<close>

fun j_int :: "json \<Rightarrow> pyexn + int" where
  "j_int (JInt n) = Inr n"
| "j_int _ = Inl OutsideModel"

definition restore_phase :: "jobj \<Rightarrow> task \<Rightarrow> pyexn + task" where
  "restore_phase snap t =
     (case dict_get snap ''phase'' of
        None \<Rightarrow> Inr t
      | Some (JStr raw) \<Rightarrow>
          (case task_phase_of raw of
             Some p \<Rightarrow> Inr (t\<lparr>tk_phase_sm := (tk_phase_sm t)\<lparr>sm_current := Some p\<rparr>\<rparr>)
           | None \<Rightarrow> Inl (ValueError ''not a valid TaskPhase''))
      | Some _ \<Rightarrow> Inl (ValueError ''not a valid TaskPhase''))"

definition restore_budget :: "jobj \<Rightarrow> task_budget \<Rightarrow> pyexn + task_budget" where
  "restore_budget b tb =
     bindE (j_int (dict_get_or b ''cost_cents_spent'' (JInt 0))) (\<lambda>c.
     bindE (j_int (dict_get_or b ''tokens_spent'' (JInt 0))) (\<lambda>n.
     bindE (j_int (dict_get_or b ''retries_used'' (JInt 0))) (\<lambda>r.
       Inr (tb\<lparr>tb_cost_cents_spent := c, tb_tokens_spent := n, tb_retries_used := r\<rparr>))))"

definition task_restore :: "checkpoint \<Rightarrow> task \<Rightarrow> pyexn + task" where
  "task_restore ckpt t =
     (let snap = ck_state_snapshot ckpt in
      bindE (restore_phase snap t) (\<lambda>t.
      bindE (case dict_get snap ''current_step'' of
               None \<Rightarrow> Inr t
             | Some v \<Rightarrow> bindE (j_int v) (\<lambda>n. Inr (t\<lparr>tk_current_step := n\<rparr>))) (\<lambda>t.
        case dict_get snap ''budget'' of
          None \<Rightarrow> Inr t
        | Some v \<Rightarrow> bindE (as_obj v) (\<lambda>b. bindE (restore_budget b (tk_budget t))
                      (\<lambda>tb. Inr (t\<lparr>tk_budget := tb\<rparr>))))))"

definition history_json :: "transition_record \<Rightarrow> json" where
  "history_json h = JObj
     [(''from'', JStr (tr_from_state h)), (''to'', JStr (tr_to_state h)),
      (''at'', JStr (tr_timestamp h)), (''reason'', JStr (tr_reason h))]"

definition task_to_dict :: "string \<Rightarrow> task \<Rightarrow> jobj" where
  "task_to_dict now t =
     (let ph = state_text task_phase_value (task_phase_opt t); b = tk_budget t in
      dict_set ''task'' (JObj
        [(''objective'', JStr (tk_objective t)), (''phase'', JStr ph),
         (''user_id'', JStr (tk_user_id t)), (''conversation_id'', JStr (tk_conversation_id t)),
         (''target_node_id'', JStr (tk_target_node_id t)),
         (''assigned_model_id'', JStr (tk_assigned_model_id t)),
         (''current_step'', JInt (tk_current_step t)), (''total_steps'', JInt (tk_total_steps t)),
         (''fingerprint'', JObj (fingerprint_to_dict (tk_fingerprint t))),
         (''ticket'', (case tk_ticket t of None \<Rightarrow> JNull | Some k \<Rightarrow> JObj
            [(''ticket_id'', JStr (et_ticket_id k)), (''approved_by'', JStr (et_approved_by k)),
             (''approved_at'', JStr (et_approved_at k)),
             (''is_expired'', JBool (ticket_is_expired now k))])),
         (''budget'', JObj
            [(''max_cost_cents'', JInt (tb_max_cost_cents b)),
             (''max_tokens'', JInt (tb_max_tokens b)),
             (''cost_cents_spent'', JInt (tb_cost_cents_spent b)),
             (''tokens_spent'', JInt (tb_tokens_spent b)),
             (''any_exceeded'', JBool (any_budget_exceeded b))]),
         (''result'', JObj
            [(''summary'', JStr (tk_result_summary t)),
             (''verification'', JStr (tk_verification_result t)),
             (''rollback_performed'', JBool (tk_rollback_performed t))]),
         (''transition_history'',
            JList (map history_json (slice_last 20 (sm_history (tk_phase_sm t))))),
         (''checkpoint_count'', JInt (int (length (tk_checkpoints t))))])
        (object_to_dict ph t))"

section \<open>The task as a guarded machine\<close>

text \<open>
  The invariant of a task's machine: it uses the table above, it has a phase, and its
  audit trail agrees with it.
\<close>

definition task_ok :: "task \<Rightarrow> bool" where
  "task_ok t \<longleftrightarrow>
     sm_transitions (tk_phase_sm t) = TASK_TRANSITIONS \<and>
     sm_current (tk_phase_sm t) \<noteq> None \<and>
     0 < sm_max_history (tk_phase_sm t) \<and>
     int (length (sm_history (tk_phase_sm t))) \<le> sm_max_history (tk_phase_sm t) \<and>
     audit_ok task_phase_value (tk_phase_sm t)"

lemma task_ok_new: "tk_phase_sm t = new_phase_sm tid now \<Longrightarrow> task_ok t"
  by (auto simp: task_ok_def new_phase_sm_def sm_post_init_def audit_ok_def state_text_def)

lemma task_transition_phase:
  "task_transition tid stamp now to reason by trace t = Inr (r, t') \<Longrightarrow> task_phase_opt t' = Some to"
  by (auto simp: task_transition_def bindE_eq_Inr task_phase_opt_def task_touch_def
      dest: sm_transition_current)

lemma task_transition_ok:
  assumes "task_transition tid stamp now to reason by trace t = Inr (r, t')" and "task_ok t"
  shows "task_ok t'"
proof -
  from assms(1) obtain sm where
    sm: "sm_transition task_phase_value tid stamp to reason by trace (tk_phase_sm t) = Inr (r, sm)"
    and t': "t' = task_touch now reason (t\<lparr>tk_phase_sm := sm\<rparr>)"
    by (auto simp: task_transition_def bindE_eq_Inr)
  from assms(2) sm_transition_frame [OF sm] sm_transition_current [OF sm]
    sm_transition_history_bound [OF sm] audit_ok_transition [OF sm]
  show ?thesis by (auto simp: t' task_ok_def task_touch_def)
qed

lemma task_transition_allowed:
  assumes "task_transition tid stamp now to reason by trace t = Inr (r, t')" and "task_ok t"
    and "task_phase_opt t = Some p"
  shows "to = p \<or> to \<in> set (task_successors p)"
proof -
  from assms(1) have "\<exists>r sm. sm_transition task_phase_value tid stamp to reason by trace (tk_phase_sm t)
      = Inr (r, sm)"
    by (auto simp: task_transition_def bindE_eq_Inr)
  with assms(2,3) show ?thesis
    by (auto simp: sm_transition_ok_iff sm_can_transition_def sm_allowed_def task_ok_def
        task_phase_opt_def TASK_TRANSITIONS_total)
qed

text \<open>A request is the transition with everything but the target phase fixed.\<close>

definition task_request :: "task \<Rightarrow> task_phase \<Rightarrow> task option" where
  "task_request t to =
     (case task_transition [] [] [] to [] ''system'' [] t of Inl _ \<Rightarrow> None | Inr (r, t') \<Rightarrow> Some t')"

definition task_cur :: "task \<Rightarrow> task_phase" where
  "task_cur t = (case task_phase_opt t of None \<Rightarrow> TP_DRAFT | Some p \<Rightarrow> p)"

lemma task_request_Some:
  "task_request t to = Some t' \<Longrightarrow> \<exists>r. task_transition [] [] [] to [] ''system'' [] t = Inr (r, t')"
  by (auto simp: task_request_def split: sum.splits)

lemma task_ok_cur: "task_ok t \<Longrightarrow> task_phase_opt t = Some (task_cur t)"
  by (auto simp: task_ok_def task_cur_def task_phase_opt_def)

interpretation task: guarded_machine task_request task_cur "\<lambda>p q. q \<in> set (task_successors p)" task_ok
proof unfold_locales
  fix c c' :: task and s
  assume ok: "task_ok c" and step: "task_request c s = Some c'"
  then obtain r where tr: "task_transition [] [] [] s [] ''system'' [] c = Inr (r, c')"
    using task_request_Some by blast
  show "task_cur c' = s" using task_transition_phase [OF tr] by (simp add: task_cur_def)
  show "s = task_cur c \<or> s \<in> set (task_successors (task_cur c))"
    using task_transition_allowed [OF tr ok task_ok_cur [OF ok]] by simp
  show "task_ok c'" by (rule task_transition_ok [OF tr ok])
qed

section \<open>Runs of requests\<close>

text \<open>A caller that asks for one phase after another, ignoring the rejections.\<close>

primrec task_requests :: "task \<Rightarrow> task_phase list \<Rightarrow> task" where
  "task_requests t [] = t"
| "task_requests t (p # ps) =
     task_requests (case task_request t p of None \<Rightarrow> t | Some t' \<Rightarrow> t') ps"

lemma task_requests_run: "task_requests t ps = task.run t ps"
  by (induction ps arbitrary: t) (simp_all add: task.attempt_def)

lemma task_request_same_machine:
  assumes "task_request t p = Some t'" and "task_ok t" and "task_successors (task_cur t) = []"
  shows "tk_phase_sm t' = tk_phase_sm t"
proof -
  obtain r where tr: "task_transition [] [] [] p [] ''system'' [] t = Inr (r, t')"
    using assms(1) task_request_Some by blast
  then have p: "p = task_cur t"
    using task_transition_allowed [OF tr assms(2) task_ok_cur [OF assms(2)]] assms(3) by simp
  have cur: "sm_current (tk_phase_sm t) = Some p"
    using task_ok_cur [OF assms(2)] by (simp add: task_phase_opt_def p)
  then obtain r' where
    "sm_transition task_phase_value [] [] p [] ''system'' [] (tk_phase_sm t) = Inr (r', tk_phase_sm t)"
    using sm_transition_idempotent [OF cur, of task_phase_value "[]" "[]" "[]" "''system''" "[]"]
    by blast
  with tr show ?thesis by (auto simp: task_transition_def task_touch_def)
qed

lemma task_cur_machine: "tk_phase_sm t' = tk_phase_sm t \<Longrightarrow> task_cur t' = task_cur t"
  by (simp add: task_cur_def task_phase_opt_def)

text \<open>
  Terminal phases are absorbing. Once a task is in a phase without successors, no
  sequence of requested transitions changes its state machine: phase and audit trail stay
  as they are.
\<close>

lemma task_terminal_absorbing:
  assumes "task_ok t" and "is_task_terminal (task_cur t)"
  shows "tk_phase_sm (task_requests t ps) = tk_phase_sm t"
  using assms
proof (induction ps arbitrary: t)
  case (Cons p ps)
  then have none: "task_successors (task_cur t) = []" by (simp add: is_task_terminal_iff)
  show ?case
  proof (cases "task_request t p")
    case None
    with Cons show ?thesis by simp
  next
    case (Some t')
    note same = task_request_same_machine [OF Some Cons.prems(1) none]
    from same Cons.prems have "task_ok t'" and "is_task_terminal (task_cur t')"
      by (simp_all add: task_ok_def task_cur_machine [OF same])
    then have "tk_phase_sm (task_requests t' ps) = tk_phase_sm t'" by (rule Cons.IH)
    with Some same show ?thesis by simp
  qed
qed simp

definition sample_task :: task where
  "sample_task =
     \<lparr>ob_kind = ''Task'', ob_api_version = ''v1'',
      ob_metadata = \<lparr>md_id = ''task_1'', md_kind = ''Task'', md_api_version = ''v1'', md_name = [],
        md_namespace = ''default'', md_owner = [], md_labels = [], md_created_at = ''t0'',
        md_updated_at = ''t0'', md_generation = 0\<rparr>,
      ob_phase = PH_PENDING, ob_health = H_UNKNOWN, ob_conditions = [], ob_message = [],
      ob_observed_at = [],
      tk_phase_sm = new_phase_sm ''trans_0'' ''t0'', tk_objective = ''o'', tk_conversation_id = [],
      tk_user_id = ''u'',
      tk_fingerprint = \<lparr>fp_fingerprint_id = ''fp'', fp_task_type = [], fp_required_capabilities = [],
        fp_input_modalities = [], fp_estimated_context_tokens = 0, fp_privacy_level = ''standard'',
        fp_tool_requirements = [], fp_target_node_roles = [], fp_latency_requirement_ms = 0,
        fp_risk_level = ''LOW'', fp_requires_approval = True, fp_requires_verification = True,
        fp_is_long_running = False\<rparr>,
      tk_target_node_id = [], tk_assigned_model_id = [], tk_ticket = None,
      tk_budget = \<lparr>tb_max_cost_cents = 0, tb_max_tokens = 0, tb_max_model_calls = 0,
        tb_max_agents = 0, tb_max_execution_seconds = 0, tb_max_retries = 3,
        tb_max_concurrent_agents = 1, tb_cost_cents_spent = 5, tb_tokens_spent = 7,
        tb_model_calls_made = 1, tb_agents_spawned = 0, tb_started_at = [], tb_retries_used = 1\<rparr>,
      tk_current_step = 2, tk_total_steps = 9, tk_agent_graph_id = [], tk_checkpoints = [],
      tk_result_summary = [], tk_result_artifacts = [], tk_verification_result = [],
      tk_rollback_performed = False\<rparr>"

definition in_phase :: "task_phase \<Rightarrow> task" where
  "in_phase p = sample_task\<lparr>tk_phase_sm := sm_post_init task_phase_value [] []
     \<lparr>sm_transitions = TASK_TRANSITIONS, sm_current = Some p, sm_history = [],
      sm_max_history = 100, sm_on_transition = None\<rparr>\<rparr>"

lemma in_phase_ok: "task_ok (in_phase p)"
  by (simp add: task_ok_def in_phase_def sm_post_init_def audit_ok_def state_text_def)

lemma in_phase_cur: "task_cur (in_phase p) = p"
  by (simp add: task_cur_def in_phase_def task_phase_opt_def sm_post_init_def)

lemma task_terminal_absorbing_witness:
  "tk_phase_sm (task_requests (in_phase TP_FAILED) [TP_RUNNING, TP_FAILED, TP_QUEUED])
     = tk_phase_sm (in_phase TP_FAILED)"
  using task_terminal_absorbing [OF in_phase_ok, of TP_FAILED "[TP_RUNNING, TP_FAILED, TP_QUEUED]"]
  by (simp add: in_phase_cur is_task_terminal_iff transition_simps del: task_requests.simps)

text \<open>
  Nothing completes unverified. If a run of requests takes a task from a phase before
  verification to \<open>COMPLETED\<close>, \<open>COMPLETED_WITH_WARNINGS\<close> or \<open>FAILED_VERIFICATION\<close>, then at
  some moment of the run the task was in \<open>VERIFYING\<close>.
\<close>

lemma task_completion_verified:
  assumes "task_ok t"
    and "task_cur t \<notin> {TP_COMPLETED, TP_COMPLETED_WITH_WARNINGS, TP_FAILED_VERIFICATION}"
    and "task_cur (task_requests t ps)
           \<in> {TP_COMPLETED, TP_COMPLETED_WITH_WARNINGS, TP_FAILED_VERIFICATION}"
  shows "\<exists>n \<le> length ps. task_cur (task_requests t (take n ps)) = TP_VERIFYING"
  using assms
proof (induction ps arbitrary: t)
  case (Cons p ps)
  let ?t = "task.attempt t p"
  have ok: "task_ok ?t" using Cons.prems(1) by (rule task.attempt_inv)
  have step: "task_requests t (p # qs) = task_requests ?t qs" for qs
    by (simp add: task.attempt_def)
  show ?case
  proof (cases "task_cur ?t \<in> {TP_COMPLETED, TP_COMPLETED_WITH_WARNINGS, TP_FAILED_VERIFICATION}")
    case True
    with task.attempt_moves [OF Cons.prems(1), of p] Cons.prems(2)
    have "task_cur t = TP_VERIFYING" by (auto dest: task_completes_from_verifying [rotated])
    then show ?thesis by (intro exI [of _ 0]) simp
  next
    case False
    with Cons.IH [OF ok] Cons.prems(3) step obtain n where
      "n \<le> length ps" "task_cur (task_requests ?t (take n ps)) = TP_VERIFYING" by auto
    with step show ?thesis by (intro exI [of _ "Suc n"]) simp
  qed
qed simp

lemma task_requests_in_phase_verifying:
  "task_cur (task_requests (in_phase TP_RUNNING) [TP_VERIFYING, TP_COMPLETED]) = TP_COMPLETED"
  by (simp add: in_phase_def task_request_def task_transition_def sm_transition_def
      sm_post_init_def sm_allowed_def TASK_TRANSITIONS_total transition_simps task_touch_def
      task_cur_def task_phase_opt_def Let_def)

lemma task_completion_verified_witness:
  "\<exists>n \<le> length [TP_VERIFYING, TP_COMPLETED].
     task_cur (task_requests (in_phase TP_RUNNING) (take n [TP_VERIFYING, TP_COMPLETED])) = TP_VERIFYING"
  by (rule task_completion_verified)
    (simp_all add: in_phase_ok in_phase_cur task_requests_in_phase_verifying del: task_requests.simps)

text \<open>
  \<open>BLOCKED\<close> is a dead phase. The documentation lists it as part of the lifecycle, but no
  phase has it as a successor, so no run of requested transitions ever reaches it.
\<close>

lemma task_blocked_unreachable:
  assumes "task_ok t" and "task_cur t \<noteq> TP_BLOCKED"
  shows "task_cur (task_requests t ps) \<noteq> TP_BLOCKED"
  using task.run_unreachable [OF assms] task_never_enters_blocked by (simp add: task_requests_run)

lemma task_blocked_unreachable_witness:
  "task_cur (task_requests (in_phase TP_CREATED) [TP_QUEUED, TP_BLOCKED]) \<noteq> TP_BLOCKED"
  using task_blocked_unreachable [OF in_phase_ok, of TP_CREATED]
  by (simp add: in_phase_cur del: task_requests.simps)

text \<open>
  The audit trail. From a fresh task, after any run of requests the history has between
  one and a hundred records, consecutive records chain, and the last one names the current
  phase.
\<close>

lemma task_audit_trail:
  assumes "tk_phase_sm t = new_phase_sm tid now"
  shows "let sm = tk_phase_sm (task_requests t ps) in
           sm_history sm \<noteq> [] \<and> length (sm_history sm) \<le> 100 \<and> chained (sm_history sm) \<and>
           tr_to_state (last (sm_history sm)) = task_phase_value (task_cur (task_requests t ps))"
proof -
  let ?I = "\<lambda>u. task_ok u \<and> sm_max_history (tk_phase_sm u) = 100"
  have step: "?I (task.attempt u p)" if "?I u" for u p
  proof (cases "task_request u p")
    case (Some u')
    then obtain r where "task_transition [] [] [] p [] ''system'' [] u = Inr (r, u')"
      using task_request_Some by blast
    then have "sm_max_history (tk_phase_sm u') = sm_max_history (tk_phase_sm u)"
      by (auto simp: task_transition_def bindE_eq_Inr task_touch_def dest: sm_transition_frame)
    with that task.attempt_inv [of u p] Some show ?thesis by (auto simp: task.attempt_def)
  qed (use that in \<open>simp add: task.attempt_def\<close>)
  have run: "?I (task.run u ps)" if "?I u" for u
    using that by (induction ps arbitrary: u) (simp_all add: step)
  have "?I t" using task_ok_new [OF assms] assms by (simp add: new_phase_sm_def sm_post_init_def)
  from run [OF this] show ?thesis
    by (auto simp: Let_def task_requests_run task_ok_def audit_ok_def state_text_def
        task_cur_def task_phase_opt_def)
qed

lemma task_audit_trail_witness:
  "chained (sm_history (tk_phase_sm (task_requests sample_task [TP_QUEUED, TP_PLANNING])))"
  using task_audit_trail [of sample_task "''trans_0''" "''t0''" "[TP_QUEUED, TP_PLANNING]"]
  by (simp add: sample_task_def Let_def)

text \<open>
  Checkpoint and restore. Restoring a checkpoint of \<open>t\<close> into any task \<open>u\<close> gives \<open>u\<close> the
  phase, the current step and the three spent counters of \<open>t\<close>, and changes nothing else: the
  total number of steps, although it is in the snapshot, is not restored, and the audit trail
  gets no record of the change of phase.
\<close>

lemma task_checkpoint_restore:
  assumes "task_phase_opt t = Some p"
  shows "task_restore (fst (task_create_checkpoint cid now node t)) u =
    Inr (u\<lparr>tk_phase_sm := (tk_phase_sm u)\<lparr>sm_current := Some p\<rparr>,
           tk_current_step := tk_current_step t,
           tk_budget := (tk_budget u)\<lparr>tb_cost_cents_spent := tb_cost_cents_spent (tk_budget t),
             tb_tokens_spent := tb_tokens_spent (tk_budget t),
             tb_retries_used := tb_retries_used (tk_budget t)\<rparr>\<rparr>)"
  using assms
  by (simp add: task_restore_def task_create_checkpoint_def restore_phase_def restore_budget_def
      dict_get_or_def state_text_def Let_def)

lemma task_checkpoint_restore_witness:
  "tk_total_steps sample_task = 9 \<and>
   task_restore (fst (task_create_checkpoint ''c'' ''t1'' ''n'' sample_task))
     ((in_phase TP_RUNNING)\<lparr>tk_total_steps := 4\<rparr>) =
   Inr ((in_phase TP_RUNNING)\<lparr>tk_phase_sm := (tk_phase_sm (in_phase TP_RUNNING))\<lparr>sm_current := Some TP_CREATED\<rparr>,
         tk_total_steps := 4\<rparr>)"
proof -
  have p: "task_phase_opt sample_task = Some TP_CREATED"
    by (simp add: sample_task_def task_phase_opt_def new_phase_sm_def sm_post_init_def)
  show ?thesis
    unfolding task_checkpoint_restore [OF p, of "''c''" "''t1''" "''n''"]
    by (simp add: in_phase_def sample_task_def)
qed

end
