(* ===== verification/Kernel_Registry.thy ===== *)
theory Kernel_Registry
  imports Kernel_Object
begin

text \<open>
  The registry every object registry of the kernel extends
  (\<open>nous_runtime/kernel/registry_base.py\<close>): objects by identifier, in insertion order, and a
  bounded append-only trail of events. The lock makes each method atomic, so a method is one
  step of the model. The function given to \<open>update\<close> may change the object in place, and may
  return a replacement, nothing, or raise: it yields the object as it left it and its outcome.
\<close>

record registry_event =
  re_event_id :: string
  re_action :: string
  re_object_id :: string
  re_object_kind :: string
  re_timestamp :: string
  re_trace_id :: string

definition registry_event_to_dict :: "registry_event \<Rightarrow> jobj" where
  "registry_event_to_dict e =
     [(''event_id'', JStr (re_event_id e)), (''action'', JStr (re_action e)),
      (''object_id'', JStr (re_object_id e)), (''object_kind'', JStr (re_object_kind e)),
      (''timestamp'', JStr (re_timestamp e)), (''trace_id'', JStr (re_trace_id e))]"

record 'a registry =
  rg_object_kind :: string
  rg_items :: "(string, 'a nous_object_scheme) dict"
  rg_events :: "registry_event list"
  rg_max_events :: int

text \<open>The identifier and the timestamp of the event to be recorded, if any.\<close>

type_synonym stamp = "string \<times> string"

definition record_event :: "stamp \<Rightarrow> string \<Rightarrow> string \<Rightarrow> string \<Rightarrow> 'a registry \<Rightarrow> 'a registry" where
  "record_event s action object_id trace_id r =
     r\<lparr>rg_events := append_trim (rg_max_events r)
         \<lparr>re_event_id = fst s, re_action = action, re_object_id = object_id,
          re_object_kind = rg_object_kind r, re_timestamp = snd s, re_trace_id = trace_id\<rparr>
         (rg_events r)\<rparr>"

definition missing_message :: "'a registry \<Rightarrow> string \<Rightarrow> string" where
  "missing_message r obj_id = rg_object_kind r @ '' '' @ [CHR 0x27] @ obj_id @ [CHR 0x27] @ '' not found''"

definition oid :: "'a nous_object_scheme \<Rightarrow> string" where
  "oid x = md_id (ob_metadata x)"

definition ensure_kind :: "string \<Rightarrow> 'a nous_object_scheme \<Rightarrow> 'a nous_object_scheme" where
  "ensure_kind kind x =
     (if md_kind (ob_metadata x) = [] then x\<lparr>ob_metadata := (ob_metadata x)\<lparr>md_kind := kind\<rparr>\<rparr> else x)"

definition reg_register ::
  "stamp \<Rightarrow> 'a nous_object_scheme \<Rightarrow> string \<Rightarrow> 'a registry
     \<Rightarrow> 'a nous_object_scheme nous_result \<times> 'a registry" where
  "reg_register s x trace_id r =
     (let obj_id = oid x in
      if dict_get (rg_items r) obj_id \<noteq> None then
        (mk_err EC_ALREADY_EXISTS
           (rg_object_kind r @ '' '' @ [CHR 0x27] @ obj_id @ [CHR 0x27] @ '' already registered'')
           [(''object_id'', JStr obj_id)] 0, r)
      else
        let x = ensure_kind (rg_object_kind r) x
        in (ok_value (Some x),
            record_event s ''register'' obj_id trace_id
              (r\<lparr>rg_items := dict_set obj_id x (rg_items r)\<rparr>)))"

definition reg_get :: "string \<Rightarrow> 'a registry \<Rightarrow> 'a nous_object_scheme nous_result" where
  "reg_get obj_id r =
     (case dict_get (rg_items r) obj_id of
        None \<Rightarrow> mk_err EC_NOT_FOUND (missing_message r obj_id) [] 0
      | Some x \<Rightarrow> ok_value (Some x))"

definition reg_list ::
  "('a nous_object_scheme \<Rightarrow> bool) option \<Rightarrow> 'a registry \<Rightarrow> 'a nous_object_scheme list nous_result" where
  "reg_list filter_fn r =
     (let items = map snd (rg_items r) in
      ok_value (Some (case filter_fn of None \<Rightarrow> items | Some f \<Rightarrow> filter f items)))"

definition reg_unregister :: "stamp \<Rightarrow> string \<Rightarrow> string \<Rightarrow> 'a registry \<Rightarrow> unit nous_result \<times> 'a registry" where
  "reg_unregister s obj_id trace_id r =
     (if dict_get (rg_items r) obj_id = None then
        (mk_err EC_NOT_FOUND (missing_message r obj_id) [] 0, r)
      else
        (ok_value None, record_event s ''unregister'' obj_id trace_id
           (r\<lparr>rg_items := dict_del obj_id (rg_items r)\<rparr>)))"

definition reg_update ::
  "stamp \<Rightarrow> string
     \<Rightarrow> ('a nous_object_scheme \<Rightarrow> 'a nous_object_scheme \<times> (pyexn + 'a nous_object_scheme option))
     \<Rightarrow> string \<Rightarrow> 'a registry \<Rightarrow> 'a nous_object_scheme nous_result \<times> 'a registry" where
  "reg_update s obj_id update_fn trace_id r =
     (case dict_get (rg_items r) obj_id of
        None \<Rightarrow> (mk_err EC_NOT_FOUND (missing_message r obj_id) [] 0, r)
      | Some x \<Rightarrow>
          (let (x', outcome) = update_fn x;
               r' = r\<lparr>rg_items := dict_set obj_id x' (rg_items r)\<rparr>
           in case outcome of
                Inl e \<Rightarrow> (mk_err EC_INTERNAL (''Update failed: '' @ exn_text e) [] 0, r')
              | Inr replacement \<Rightarrow>
                  (let y = (case replacement of None \<Rightarrow> x' | Some u \<Rightarrow> u);
                       r'' = r'\<lparr>rg_items := dict_set obj_id y (rg_items r')\<rparr>
                   in (ok_value (Some y), record_event s ''update'' obj_id trace_id r''))))"

definition reg_count :: "'a registry \<Rightarrow> int" where
  "reg_count r = int (length (rg_items r))"

definition count_health :: "health \<Rightarrow> 'a nous_object_scheme list \<Rightarrow> int" where
  "count_health h xs = int (length (filter (\<lambda>x. ob_health x = h) xs))"

definition aggregate_health :: "'a nous_object_scheme list \<Rightarrow> health" where
  "aggregate_health items =
     (if count_health H_DOWN items > 0 then H_DOWN
      else if count_health H_DEGRADED items > 0 then H_DEGRADED
      else if count_health H_UNKNOWN items = int (length items) then H_UNKNOWN
      else H_OK)"

definition reg_health :: "'a registry \<Rightarrow> jobj nous_result" where
  "reg_health r =
     (let items = map snd (rg_items r) in
      if items = [] then
        ok_value (Some [(''object_kind'', JStr (rg_object_kind r)), (''count'', JInt 0),
                     (''health'', JStr (health_value H_UNKNOWN))])
      else
        ok_value (Some [(''object_kind'', JStr (rg_object_kind r)),
                     (''count'', JInt (int (length items))),
                     (''health'', JStr (health_value (aggregate_health items))),
                     (''breakdown'', JObj
                        (map (\<lambda>h. (health_value h, JInt (count_health h items)))
                           [H_OK, H_DEGRADED, H_DOWN, H_UNKNOWN]))]))"

definition reg_get_events :: "int \<Rightarrow> 'a registry \<Rightarrow> jobj list" where
  "reg_get_events limit r = map registry_event_to_dict (slice_last limit (rg_events r))"

definition reg_get_event_count :: "'a registry \<Rightarrow> int" where
  "reg_get_event_count r = int (length (rg_events r))"

fun reg_register_all ::
  "(stamp \<times> 'a nous_object_scheme) list \<Rightarrow> string \<Rightarrow> 'a registry
     \<Rightarrow> 'a nous_object_scheme list \<times> 'a registry" where
  "reg_register_all [] trace_id r = ([], r)"
| "reg_register_all ((s, x) # xs) trace_id r =
     (let (result, r) = reg_register s x trace_id r;
          (registered, r') = reg_register_all xs trace_id r
      in case (res_ok result, res_value result) of
           (True, Some y) \<Rightarrow> (y # registered, r')
         | _ \<Rightarrow> (registered, r'))"

definition reg_to_dict :: "('a nous_object_scheme \<Rightarrow> jobj) \<Rightarrow> 'a registry \<Rightarrow> jobj" where
  "reg_to_dict obj_dict r =
     [(''object_kind'', JStr (rg_object_kind r)), (''count'', JInt (reg_count r)),
      (''items'', JObj (map (\<lambda>(k, x). (k, JObj (obj_dict x))) (rg_items r)))]"

definition reg_clear :: "'a registry \<Rightarrow> 'a registry" where
  "reg_clear r = r\<lparr>rg_items := [], rg_events := []\<rparr>"

section \<open>Invariant\<close>

text \<open>
  No identifier twice, every object under its own identifier, and a trail within its bound.
\<close>

definition registry_ok :: "'a registry \<Rightarrow> bool" where
  "registry_ok r \<longleftrightarrow>
     wf_dict (rg_items r) \<and> (\<forall>(k, x) \<in> set (rg_items r). oid x = k) \<and>
     0 < rg_max_events r \<and> int (length (rg_events r)) \<le> rg_max_events r"

lemma record_event_frame [simp]:
  "rg_items (record_event s a i t r) = rg_items r"
  "rg_max_events (record_event s a i t r) = rg_max_events r"
  "rg_object_kind (record_event s a i t r) = rg_object_kind r"
  by (simp_all add: record_event_def)

lemma length_record_event:
  "0 < rg_max_events r \<Longrightarrow> int (length (rg_events (record_event s a i t r))) \<le> rg_max_events r"
  by (simp add: record_event_def length_append_trim)

lemma oid_ensure_kind [simp]: "oid (ensure_kind k x) = oid x"
  by (simp add: oid_def ensure_kind_def)

lemma registry_ok_record: "registry_ok r \<Longrightarrow> registry_ok (record_event s a i t r)"
  by (simp add: registry_ok_def length_record_event)

lemma reg_register_new:
  "dict_get (rg_items r) (oid x) = None \<Longrightarrow>
     reg_register s x t r =
       (ok_value (Some (ensure_kind (rg_object_kind r) x)),
        record_event s ''register'' (oid x) t
          (r\<lparr>rg_items := rg_items r @ [(oid x, ensure_kind (rg_object_kind r) x)]\<rparr>))"
  by (simp add: reg_register_def Let_def dict_set_new)

lemma reg_register_taken:
  "dict_get (rg_items r) (oid x) \<noteq> None \<Longrightarrow>
     snd (reg_register s x t r) = r \<and> res_code (fst (reg_register s x t r)) = EC_ALREADY_EXISTS"
  by (auto simp: reg_register_def Let_def mk_err_def)

lemma registry_ok_register: "registry_ok r \<Longrightarrow> registry_ok (snd (reg_register s x t r))"
proof (cases "dict_get (rg_items r) (oid x)")
  case None
  moreover assume "registry_ok r"
  ultimately show ?thesis
    by (auto simp: reg_register_new intro!: registry_ok_record)
      (auto simp: registry_ok_def dict_get_None_iff rev_image_eqI)
qed (simp add: reg_register_taken)

lemma registry_ok_unregister: "registry_ok r \<Longrightarrow> registry_ok (snd (reg_unregister s i t r))"
  by (auto simp: reg_unregister_def intro!: registry_ok_record) (auto simp: registry_ok_def set_dict_del)

lemma registry_ok_set:
  "registry_ok r \<Longrightarrow> oid y = i \<Longrightarrow> registry_ok (r\<lparr>rg_items := dict_set i y (rg_items r)\<rparr>)"
  by (auto simp: registry_ok_def set_dict_set)

lemma registry_ok_update:
  assumes "registry_ok r"
    and "\<And>x. oid x = i \<Longrightarrow> oid (fst (f x)) = i \<and> (\<forall>y. snd (f x) = Inr (Some y) \<longrightarrow> oid y = i)"
  shows "registry_ok (snd (reg_update s i f t r))"
proof (cases "dict_get (rg_items r) i")
  case None
  with assms(1) show ?thesis by (simp add: reg_update_def)
next
  case (Some x)
  with assms(1) have "oid x = i" by (auto simp: registry_ok_def dest: dict_get_in)
  from assms(2) [OF this] obtain x' o' where f: "f x = (x', o')" and "oid x' = i"
    and y: "\<And>y. o' = Inr (Some y) \<Longrightarrow> oid y = i" by (cases "f x") auto
  let ?r = "r\<lparr>rg_items := dict_set i x' (rg_items r)\<rparr>"
  have r: "registry_ok ?r" using assms(1) \<open>oid x' = i\<close> by (rule registry_ok_set)
  have "registry_ok (?r\<lparr>rg_items := dict_set i z (rg_items ?r)\<rparr>)" if "oid z = i" for z
    using r that by (rule registry_ok_set)
  with r y \<open>oid x' = i\<close> Some f show ?thesis
    by (auto simp: reg_update_def Let_def split: sum.splits option.splits intro!: registry_ok_record)
qed

section \<open>Properties\<close>

text \<open>
  Registration is first come, first served. Registering an object whose identifier is
  free makes \<open>get\<close> return it (with its kind filled in), leaves every other object where it
  was and records one event; registering one whose identifier is taken changes nothing and
  reports \<open>ALREADY_EXISTS\<close>.
\<close>

lemma registry_register_spec:
  "(if dict_get (rg_items r) (oid x) = None then
      reg_get (oid x) (snd (reg_register s x t r)) = ok_value (Some (ensure_kind (rg_object_kind r) x)) \<and>
      (\<forall>i. i \<noteq> oid x \<longrightarrow> dict_get (rg_items (snd (reg_register s x t r))) i = dict_get (rg_items r) i) \<and>
      reg_count (snd (reg_register s x t r)) = reg_count r + 1
    else snd (reg_register s x t r) = r \<and>
      res_code (fst (reg_register s x t r)) = EC_ALREADY_EXISTS)"
  by (auto simp: reg_register_new reg_register_taken reg_get_def reg_count_def dict_get_def
      map_add_def split: option.splits)

definition sample_object :: "string \<Rightarrow> health \<Rightarrow> nous_object" where
  "sample_object i h =
     \<lparr>ob_kind = ''Node'', ob_api_version = ''v1'',
      ob_metadata = \<lparr>md_id = i, md_kind = [], md_api_version = ''v1'', md_name = [],
        md_namespace = ''default'', md_owner = [], md_labels = [], md_created_at = ''t0'',
        md_updated_at = ''t0'', md_generation = 0\<rparr>,
      ob_phase = PH_READY, ob_health = h, ob_conditions = [], ob_message = [], ob_observed_at = []\<rparr>"

definition empty_registry :: "unit registry" where
  "empty_registry = \<lparr>rg_object_kind = ''Node'', rg_items = [], rg_events = [], rg_max_events = 10000\<rparr>"

lemma registry_register_spec_witness:
  "reg_get ''n1'' (snd (reg_register (''e'', ''t'') (sample_object ''n1'' H_OK) [] empty_registry))
     = ok_value (Some (ensure_kind ''Node'' (sample_object ''n1'' H_OK)))"
  using registry_register_spec [of empty_registry "sample_object ''n1'' H_OK" "(''e'', ''t'')" "[]"]
  by (simp add: empty_registry_def sample_object_def oid_def)

text \<open>
  The registry's invariant. Registering, removing, and updating with a function that does
  not change identifiers keep every object under its own identifier, no identifier twice,
  and the event trail within its bound.
\<close>

lemma registry_invariant:
  assumes "registry_ok r"
    and "\<And>x. oid x = i \<Longrightarrow> oid (fst (f x)) = i \<and> (\<forall>y. snd (f x) = Inr (Some y) \<longrightarrow> oid y = i)"
  shows "registry_ok (snd (reg_register s x t r)) \<and> registry_ok (snd (reg_unregister s j t r)) \<and>
         registry_ok (snd (reg_update s i f t r)) \<and> registry_ok (reg_clear r)"
proof (intro conjI)
  show "registry_ok (reg_clear r)" using assms(1) by (simp add: reg_clear_def registry_ok_def)
qed (rule registry_ok_register registry_ok_unregister registry_ok_update, (rule assms)+)+

lemma registry_invariant_witness:
  "registry_ok (snd (reg_update (''e'', ''t'') ''n1'' (\<lambda>x. (x, Inr None)) []
     (snd (reg_register (''e'', ''t'') (sample_object ''n1'' H_OK) [] empty_registry))))"
proof -
  have "registry_ok (snd (reg_register (''e'', ''t'') (sample_object ''n1'' H_OK) [] empty_registry))"
    by (rule registry_ok_register) (simp add: registry_ok_def empty_registry_def)
  from registry_invariant [OF this, of "''n1''" "\<lambda>x. (x, Inr None)"] show ?thesis by simp
qed

text \<open>
  Health aggregation. The aggregate is \<open>DOWN\<close> exactly when some object is down,
  \<open>DEGRADED\<close> exactly when none is down and some is degraded, \<open>UNKNOWN\<close> exactly when every
  object is unknown, and \<open>OK\<close> otherwise; one object of each colour is enough, whatever the
  order of registration.
\<close>

lemma registry_health_aggregate:
  "(aggregate_health xs = H_DOWN \<longleftrightarrow> H_DOWN \<in> ob_health ` set xs) \<and>
   (aggregate_health xs = H_DEGRADED \<longleftrightarrow>
      H_DOWN \<notin> ob_health ` set xs \<and> H_DEGRADED \<in> ob_health ` set xs) \<and>
   (aggregate_health xs = H_UNKNOWN \<longleftrightarrow> ob_health ` set xs \<subseteq> {H_UNKNOWN}) \<and>
   (aggregate_health xs = H_OK \<longleftrightarrow>
      H_OK \<in> ob_health ` set xs \<and> ob_health ` set xs \<subseteq> {H_OK, H_UNKNOWN})"
proof -
  have pos: "count_health h xs > 0 \<longleftrightarrow> h \<in> ob_health ` set xs" for h
    by (auto simp: count_health_def filter_empty_conv)
  have all: "count_health H_UNKNOWN xs = int (length xs) \<longleftrightarrow> ob_health ` set xs \<subseteq> {H_UNKNOWN}"
    by (auto simp: count_health_def length_filter_all)
  have sub: "S \<subseteq> {H_UNKNOWN} \<longleftrightarrow> H_OK \<notin> S \<and> H_DEGRADED \<notin> S \<and> H_DOWN \<notin> S"
    "S \<subseteq> {H_OK, H_UNKNOWN} \<longleftrightarrow> H_DEGRADED \<notin> S \<and> H_DOWN \<notin> S" for S
    by (auto; metis health.exhaust)+
  show ?thesis unfolding aggregate_health_def pos all sub by auto
qed

lemma registry_health_aggregate_witness:
  "aggregate_health [sample_object ''a'' H_OK, sample_object ''b'' H_DOWN] = H_DOWN"
  using registry_health_aggregate [of "[sample_object ''a'' H_OK, sample_object ''b'' H_DOWN]"]
  by (simp add: sample_object_def)

end
