(* ===== verification/Agent_Process.thy ===== *)
theory Agent_Process
  imports Kernel_State_Machine
begin

text \<open>
  Agent processes (\<open>nous_runtime/agent/process_model.py\<close>): their lifecycle, capability sets
  that can only be narrowed, budgets, child processes, signals and checkpoints. The clock is
  an argument; costs and durations are exact rationals and \<open>float('inf')\<close> is \<open>PosInf\<close>.
  A signal handler is a function from the process to the process as the handler leaves it
  and whether it raised; the table of handlers is an argument of \<open>send_signal\<close>.
\<close>

section \<open>Lifecycle\<close>

datatype process_status =
    PS_CREATED | PS_ADMITTED | PS_PENDING | PS_RUNNING | PS_WAITING_FOR_MODEL
  | PS_WAITING_FOR_APPROVAL | PS_WAITING_FOR_RESOURCE | PS_PAUSED | PS_CHECKPOINTING
  | PS_RESTORING | PS_COMPLETED | PS_FAILED | PS_CANCELLED

datatype process_signal =
    SIG_PAUSE | SIG_RESUME | SIG_CANCEL | SIG_KILL | SIG_CHECKPOINT | SIG_RESTORE
  | SIG_BUDGET_UPDATE | SIG_CAPABILITY_NARROW | SIG_MIGRATE | SIG_TIMEOUT
  | SIG_PARENT_TERMINATED

definition PROCESS_TRANSITIONS :: "(process_status, process_status list) dict" where
  "PROCESS_TRANSITIONS =
    [(PS_CREATED, [PS_ADMITTED, PS_CANCELLED]),
     (PS_ADMITTED, [PS_PENDING, PS_FAILED]),
     (PS_PENDING, [PS_RUNNING, PS_CANCELLED]),
     (PS_RUNNING, [PS_WAITING_FOR_MODEL, PS_WAITING_FOR_APPROVAL, PS_WAITING_FOR_RESOURCE,
        PS_PAUSED, PS_CHECKPOINTING, PS_COMPLETED, PS_FAILED, PS_CANCELLED]),
     (PS_WAITING_FOR_MODEL, [PS_RUNNING, PS_FAILED, PS_CANCELLED]),
     (PS_WAITING_FOR_APPROVAL, [PS_RUNNING, PS_CANCELLED]),
     (PS_WAITING_FOR_RESOURCE, [PS_RUNNING, PS_FAILED, PS_CANCELLED]),
     (PS_PAUSED, [PS_RUNNING, PS_CANCELLED]),
     (PS_CHECKPOINTING, [PS_RUNNING, PS_PAUSED, PS_FAILED]),
     (PS_RESTORING, [PS_RUNNING, PS_FAILED]),
     (PS_COMPLETED, []),
     (PS_FAILED, [PS_PENDING]),
     (PS_CANCELLED, [])]"

definition process_successors :: "process_status \<Rightarrow> process_status list" where
  "process_successors s = dict_get_or PROCESS_TRANSITIONS s []"

lemma process_successors_simps [transition_simps]:
  "process_successors PS_CREATED = [PS_ADMITTED, PS_CANCELLED]"
  "process_successors PS_ADMITTED = [PS_PENDING, PS_FAILED]"
  "process_successors PS_PENDING = [PS_RUNNING, PS_CANCELLED]"
  "process_successors PS_RUNNING = [PS_WAITING_FOR_MODEL, PS_WAITING_FOR_APPROVAL,
     PS_WAITING_FOR_RESOURCE, PS_PAUSED, PS_CHECKPOINTING, PS_COMPLETED, PS_FAILED, PS_CANCELLED]"
  "process_successors PS_WAITING_FOR_MODEL = [PS_RUNNING, PS_FAILED, PS_CANCELLED]"
  "process_successors PS_WAITING_FOR_APPROVAL = [PS_RUNNING, PS_CANCELLED]"
  "process_successors PS_WAITING_FOR_RESOURCE = [PS_RUNNING, PS_FAILED, PS_CANCELLED]"
  "process_successors PS_PAUSED = [PS_RUNNING, PS_CANCELLED]"
  "process_successors PS_CHECKPOINTING = [PS_RUNNING, PS_PAUSED, PS_FAILED]"
  "process_successors PS_RESTORING = [PS_RUNNING, PS_FAILED]"
  "process_successors PS_COMPLETED = []"
  "process_successors PS_FAILED = [PS_PENDING]"
  "process_successors PS_CANCELLED = []"
  by (simp_all add: process_successors_def PROCESS_TRANSITIONS_def dict_get_or_def)

section \<open>Capabilities\<close>

type_synonym capability_set = "string set"

definition narrower_than :: "capability_set \<Rightarrow> capability_set \<Rightarrow> bool" where
  "narrower_than cs parent \<longleftrightarrow> cs \<subseteq> parent"

definition narrow :: "capability_set \<Rightarrow> string set \<Rightarrow> capability_set" where
  "narrow cs allowed = cs \<inter> allowed"

definition has_capability :: "capability_set \<Rightarrow> string \<Rightarrow> bool" where
  "has_capability cs c \<longleftrightarrow> c \<in> cs"

definition capability_list :: "capability_set \<Rightarrow> string list" where
  "capability_list cs = sorted_list_of_set cs"

section \<open>Budgets\<close>

datatype 'a ext = Fin 'a | PosInf

fun ext_min :: "('a :: linorder) ext \<Rightarrow> 'a ext \<Rightarrow> 'a ext" where
  "ext_min (Fin a) (Fin b) = Fin (if b < a then b else a)"
| "ext_min (Fin a) PosInf = Fin a"
| "ext_min PosInf b = b"

record process_budget =
  pb_max_tokens :: int
  pb_max_cost_usd :: rat
  pb_max_duration_seconds :: rat
  pb_tokens_used :: int
  pb_cost_used :: rat
  pb_started_at :: "rat option"

definition default_budget :: process_budget where
  "default_budget = \<lparr>pb_max_tokens = 0, pb_max_cost_usd = 0, pb_max_duration_seconds = 0,
     pb_tokens_used = 0, pb_cost_used = 0, pb_started_at = None\<rparr>"

definition tokens_remaining :: "process_budget \<Rightarrow> int ext" where
  "tokens_remaining b =
     (if pb_max_tokens b > 0 then Fin (max 0 (pb_max_tokens b - pb_tokens_used b)) else PosInf)"

definition cost_remaining :: "process_budget \<Rightarrow> rat ext" where
  "cost_remaining b =
     (if pb_max_cost_usd b > 0 then Fin (max 0 (pb_max_cost_usd b - pb_cost_used b)) else PosInf)"

definition duration_remaining :: "rat \<Rightarrow> process_budget \<Rightarrow> rat ext" where
  "duration_remaining now b =
     (case pb_started_at b of
        None \<Rightarrow> PosInf
      | Some t0 \<Rightarrow> if pb_max_duration_seconds b \<le> 0 then PosInf
                   else Fin (max 0 (pb_max_duration_seconds b - (now - t0))))"

definition exhausted :: "rat \<Rightarrow> process_budget \<Rightarrow> bool" where
  "exhausted now b \<longleftrightarrow>
     (pb_max_tokens b > 0 \<and> pb_tokens_used b \<ge> pb_max_tokens b) \<or>
     (pb_max_cost_usd b > 0 \<and> pb_cost_used b \<ge> pb_max_cost_usd b) \<or>
     (pb_max_duration_seconds b > 0 \<and>
        (case duration_remaining now b of Fin r \<Rightarrow> r \<le> 0 | PosInf \<Rightarrow> False))"

definition consume_tokens :: "int \<Rightarrow> process_budget \<Rightarrow> bool \<times> process_budget" where
  "consume_tokens count b =
     (if pb_max_tokens b > 0 \<and> pb_tokens_used b + count > pb_max_tokens b then (False, b)
      else (True, b\<lparr>pb_tokens_used := pb_tokens_used b + count\<rparr>))"

definition consume_cost :: "rat \<Rightarrow> process_budget \<Rightarrow> bool \<times> process_budget" where
  "consume_cost amount b =
     (if pb_max_cost_usd b > 0 \<and> pb_cost_used b + amount > pb_max_cost_usd b then (False, b)
      else (True, b\<lparr>pb_cost_used := pb_cost_used b + amount\<rparr>))"

section \<open>Processes\<close>

record agent_process =
  ap_process_id :: string
  ap_parent_id :: "string option"
  ap_status :: process_status
  ap_capabilities :: capability_set
  ap_budget :: process_budget
  ap_children :: "string list"
  ap_checkpoints :: "string list"
  ap_created_at :: rat
  ap_metadata :: jobj

definition transition_to :: "rat \<Rightarrow> process_status \<Rightarrow> agent_process \<Rightarrow> bool \<times> agent_process" where
  "transition_to now target p =
     (if target \<notin> set (dict_get_or PROCESS_TRANSITIONS (ap_status p) []) then (False, p)
      else
        let p = p\<lparr>ap_status := target\<rparr>
        in (True,
            if target = PS_RUNNING \<and> pb_started_at (ap_budget p) = None
            then p\<lparr>ap_budget := (ap_budget p)\<lparr>pb_started_at := Some now\<rparr>\<rparr> else p))"

definition can_transition_to :: "process_status \<Rightarrow> agent_process \<Rightarrow> bool" where
  "can_transition_to target p \<longleftrightarrow> target \<in> set (dict_get_or PROCESS_TRANSITIONS (ap_status p) [])"

definition narrow_capabilities :: "string set \<Rightarrow> agent_process \<Rightarrow> bool \<times> agent_process" where
  "narrow_capabilities allowed p =
     (let new_caps = narrow (ap_capabilities p) allowed in
      if new_caps = ap_capabilities p then (True, p)
      else (True, p\<lparr>ap_capabilities := new_caps\<rparr>))"

definition cap_tokens :: "process_budget \<Rightarrow> process_budget \<Rightarrow> process_budget" where
  "cap_tokens parent child =
     (if pb_max_tokens parent > 0 then
        (case ext_min (if pb_max_tokens child = 0 then PosInf else Fin (pb_max_tokens child))
                (tokens_remaining parent) of
           Fin n \<Rightarrow> child\<lparr>pb_max_tokens := n\<rparr>
         | PosInf \<Rightarrow> child)
      else child)"

definition cap_cost :: "process_budget \<Rightarrow> process_budget \<Rightarrow> process_budget" where
  "cap_cost parent child =
     (if pb_max_cost_usd parent > 0 then
        (case ext_min (if pb_max_cost_usd child = 0 then PosInf else Fin (pb_max_cost_usd child))
                (cost_remaining parent) of
           Fin q \<Rightarrow> child\<lparr>pb_max_cost_usd := q\<rparr>
         | PosInf \<Rightarrow> child)
      else child)"

definition spawn_child ::
  "string \<Rightarrow> rat \<Rightarrow> string set option \<Rightarrow> process_budget option \<Rightarrow> agent_process
     \<Rightarrow> pyexn + agent_process \<times> agent_process" where
  "spawn_child child_id now capabilities budget p =
     (let child_caps = (case capabilities of
            None \<Rightarrow> ap_capabilities p
          | Some cs \<Rightarrow> if cs = {} then ap_capabilities p else cs)
      in if \<not> narrower_than child_caps (ap_capabilities p) then
           Inl (ValueError ''Child cannot have capabilities the parent does not possess'')
         else
           let child_budget = (case budget of None \<Rightarrow> default_budget | Some b \<Rightarrow> b);
               child_budget = cap_cost (ap_budget p) (cap_tokens (ap_budget p) child_budget);
               child = \<lparr>ap_process_id = child_id, ap_parent_id = Some (ap_process_id p),
                 ap_status = PS_CREATED, ap_capabilities = child_caps, ap_budget = child_budget,
                 ap_children = [], ap_checkpoints = [], ap_created_at = now, ap_metadata = []\<rparr>
           in Inr (snd (transition_to now PS_ADMITTED child),
                   p\<lparr>ap_children := ap_children p @ [child_id]\<rparr>))"

section \<open>Signals\<close>

type_synonym handler_table = "(process_signal, agent_process \<Rightarrow> agent_process \<times> bool) dict"

definition register_handler ::
  "process_signal \<Rightarrow> (agent_process \<Rightarrow> agent_process \<times> bool) \<Rightarrow> handler_table \<Rightarrow> handler_table" where
  "register_handler s h hs = dict_set s h hs"

definition signal_transitions :: "(process_signal, process_status) dict" where
  "signal_transitions =
     [(SIG_PAUSE, PS_PAUSED), (SIG_RESUME, PS_RUNNING), (SIG_CANCEL, PS_CANCELLED),
      (SIG_KILL, PS_CANCELLED), (SIG_CHECKPOINT, PS_CHECKPOINTING), (SIG_TIMEOUT, PS_FAILED)]"

definition send_signal ::
  "rat \<Rightarrow> handler_table \<Rightarrow> process_signal \<Rightarrow> agent_process \<Rightarrow> bool \<times> agent_process" where
  "send_signal now handlers s p =
     (let (p, raised) = (case dict_get handlers s of None \<Rightarrow> (p, False) | Some h \<Rightarrow> h p)
      in if raised then (False, p)
         else case dict_get signal_transitions s of
                Some target \<Rightarrow> transition_to now target p
              | None \<Rightarrow> (True, p))"

section \<open>Checkpoints and consumption\<close>

definition process_checkpoint :: "rat \<Rightarrow> agent_process \<Rightarrow> string \<times> agent_process" where
  "process_checkpoint now p =
     (let checkpoint_id = ''ckpt-'' @ ap_process_id p @ ''-'' @ show_int \<lfloor>now\<rfloor>;
          p = p\<lparr>ap_checkpoints := ap_checkpoints p @ [checkpoint_id]\<rparr>;
          p = snd (transition_to now PS_CHECKPOINTING p);
          p = snd (transition_to now PS_RUNNING p)
      in (checkpoint_id, p))"

definition check_budget :: "rat \<Rightarrow> agent_process \<Rightarrow> bool \<times> agent_process" where
  "check_budget now p =
     (if exhausted now (ap_budget p) then (False, snd (transition_to now PS_FAILED p))
      else (True, p))"

definition process_consume :: "rat \<Rightarrow> int \<Rightarrow> rat \<Rightarrow> agent_process \<Rightarrow> bool \<times> agent_process" where
  "process_consume now tokens cost_usd p =
     (let (ok, b) = (if tokens > 0 then consume_tokens tokens (ap_budget p) else (True, ap_budget p));
          p = p\<lparr>ap_budget := b\<rparr>
      in if \<not> ok then (False, p)
         else
           let (ok, b) = (if cost_usd > 0 then consume_cost cost_usd (ap_budget p) else (True, ap_budget p));
               p = p\<lparr>ap_budget := b\<rparr>
           in if \<not> ok then (False, p) else check_budget now p)"

definition process_is_active :: "agent_process \<Rightarrow> bool" where
  "process_is_active p \<longleftrightarrow>
     ap_status p \<in> {PS_RUNNING, PS_WAITING_FOR_MODEL, PS_WAITING_FOR_APPROVAL, PS_WAITING_FOR_RESOURCE}"

definition process_is_terminal :: "agent_process \<Rightarrow> bool" where
  "process_is_terminal p \<longleftrightarrow> ap_status p \<in> {PS_COMPLETED, PS_FAILED, PS_CANCELLED}"

section \<open>Lemmas\<close>

lemma transition_to_status:
  "transition_to now s p = (ok, p') \<Longrightarrow>
     (if ok then s \<in> set (process_successors (ap_status p)) \<and> ap_status p' = s
      else s \<notin> set (process_successors (ap_status p)) \<and> p' = p)"
  by (auto simp: transition_to_def process_successors_def Let_def split: if_splits)

lemma transition_to_frame [simp]:
  "ap_capabilities (snd (transition_to now s p)) = ap_capabilities p"
  "ap_children (snd (transition_to now s p)) = ap_children p"
  "ap_process_id (snd (transition_to now s p)) = ap_process_id p"
  "pb_max_tokens (ap_budget (snd (transition_to now s p))) = pb_max_tokens (ap_budget p)"
  "pb_tokens_used (ap_budget (snd (transition_to now s p))) = pb_tokens_used (ap_budget p)"
  "pb_max_cost_usd (ap_budget (snd (transition_to now s p))) = pb_max_cost_usd (ap_budget p)"
  "pb_cost_used (ap_budget (snd (transition_to now s p))) = pb_cost_used (ap_budget p)"
  by (auto simp: transition_to_def Let_def)

lemma can_transition_to_iff: "can_transition_to s p \<longleftrightarrow> fst (transition_to now s p)"
  by (auto simp: can_transition_to_def transition_to_def Let_def)

definition process_request :: "rat \<Rightarrow> agent_process \<Rightarrow> process_status \<Rightarrow> agent_process option" where
  "process_request now p s = (case transition_to now s p of (ok, p') \<Rightarrow> if ok then Some p' else None)"

lemma process_request_Some: "process_request now p s = Some p' \<longleftrightarrow> transition_to now s p = (True, p')"
  by (auto simp: process_request_def split: prod.splits if_splits)

interpretation process: guarded_machine "process_request now" ap_status
    "\<lambda>s t. t \<in> set (process_successors s)" "\<lambda>_. True" for now
  by unfold_locales (auto simp: process_request_Some dest: transition_to_status)

text \<open>A caller that asks for one status after another, at the given times.\<close>

fun process_requests :: "rat \<Rightarrow> agent_process \<Rightarrow> process_status list \<Rightarrow> agent_process" where
  "process_requests now p [] = p"
| "process_requests now p (s # ss) = process_requests now (snd (transition_to now s p)) ss"

lemma process_requests_run: "process_requests now p ss = process.run now p ss"
proof (induction ss arbitrary: p)
  case (Cons s ss)
  have "process.attempt now p s = snd (transition_to now s p)"
    using transition_to_status [of now s p]
    by (auto simp: process.attempt_def process_request_def split: prod.splits)
  with Cons show ?case by simp
qed simp

lemma process_never_restoring: "PS_RESTORING \<notin> set (process_successors s)"
  by (cases s) (simp_all add: transition_simps)

lemma spawn_child_shape:
  "spawn_child cid now cs b p = Inr (c, p') \<Longrightarrow>
     ap_capabilities c \<subseteq> ap_capabilities p \<and> ap_status c = PS_ADMITTED \<and>
     ap_parent_id c = Some (ap_process_id p) \<and> ap_children p' = ap_children p @ [cid] \<and>
     ap_capabilities p' = ap_capabilities p \<and> ap_budget p' = ap_budget p \<and> ap_status p' = ap_status p \<and>
     ap_budget c = cap_cost (ap_budget p) (cap_tokens (ap_budget p) (case b of None \<Rightarrow> default_budget | Some b \<Rightarrow> b))"
  by (auto simp: spawn_child_def narrower_than_def Let_def transition_to_def PROCESS_TRANSITIONS_def
      dict_get_or_def split: if_splits)

lemma cap_cost_tokens [simp]:
  "pb_max_tokens (cap_cost p c) = pb_max_tokens c" "pb_tokens_used (cap_cost p c) = pb_tokens_used c"
  by (simp_all add: cap_cost_def split: ext.splits)

lemma cap_tokens_used [simp]: "pb_tokens_used (cap_tokens p c) = pb_tokens_used c"
  by (simp add: cap_tokens_def split: ext.splits)

section \<open>Properties\<close>

definition sample_process :: "process_status \<Rightarrow> string set \<Rightarrow> int \<Rightarrow> int \<Rightarrow> agent_process" where
  "sample_process s cs max_tokens used =
     \<lparr>ap_process_id = ''proc-1'', ap_parent_id = None, ap_status = s, ap_capabilities = cs,
      ap_budget = default_budget\<lparr>pb_max_tokens := max_tokens, pb_tokens_used := used\<rparr>,
      ap_children = [], ap_checkpoints = [], ap_created_at = 0, ap_metadata = []\<rparr>"

text \<open>
  Lifecycle. A completed or cancelled process never changes again under requested
  transitions, while a failed one can be retried; and no process that is not already there
  ever enters \<open>RESTORING\<close>, although the state is declared.
\<close>

lemma process_lifecycle:
  "(ap_status p \<in> {PS_COMPLETED, PS_CANCELLED} \<longrightarrow> process_requests now p ss = p) \<and>
   (ap_status p = PS_FAILED \<longrightarrow> ap_status (process_requests now p [PS_PENDING, PS_RUNNING]) = PS_RUNNING) \<and>
   (ap_status p \<noteq> PS_RESTORING \<longrightarrow> ap_status (process_requests now p ss) \<noteq> PS_RESTORING)"
proof (intro conjI impI)
  assume "ap_status p \<in> {PS_COMPLETED, PS_CANCELLED}"
  then have "snd (transition_to now s p) = p" for s
    by (auto simp: transition_to_def PROCESS_TRANSITIONS_def dict_get_or_def)
  then show "process_requests now p ss = p" by (induction ss) simp_all
next
  assume "ap_status p = PS_FAILED"
  then show "ap_status (process_requests now p [PS_PENDING, PS_RUNNING]) = PS_RUNNING"
    by (simp add: transition_to_def PROCESS_TRANSITIONS_def dict_get_or_def Let_def)
next
  assume "ap_status p \<noteq> PS_RESTORING"
  then show "ap_status (process_requests now p ss) \<noteq> PS_RESTORING"
    unfolding process_requests_run
    by (rule process.run_unreachable [OF TrueI]) (rule process_never_restoring)
qed

lemma process_lifecycle_witness:
  "process_requests 1 (sample_process PS_CANCELLED {} 0 0) [PS_RUNNING, PS_PENDING]
     = sample_process PS_CANCELLED {} 0 0"
  using process_lifecycle [of "sample_process PS_CANCELLED {} 0 0" 1 "[PS_RUNNING, PS_PENDING]"]
  by (simp add: sample_process_def del: process_requests.simps)

lemma narrow_capabilities_caps:
  "ap_capabilities (snd (narrow_capabilities allowed p)) = ap_capabilities p \<inter> allowed"
  by (auto simp: narrow_capabilities_def narrow_def Let_def)

lemma process_consume_caps [simp]:
  "ap_capabilities (snd (process_consume now n c p)) = ap_capabilities p"
  by (simp add: process_consume_def check_budget_def Let_def split: prod.splits)

lemma process_checkpoint_caps [simp]:
  "ap_capabilities (snd (process_checkpoint now p)) = ap_capabilities p"
  by (simp add: process_checkpoint_def Let_def)

lemma send_signal_caps [simp]:
  "ap_capabilities (snd (send_signal now [] sig p)) = ap_capabilities p"
  by (simp add: send_signal_def split: option.split)

lemma check_budget_caps [simp]: "ap_capabilities (snd (check_budget now p)) = ap_capabilities p"
  by (simp add: check_budget_def)

text \<open>
  A family of processes over time: any process in it spawns, is narrowed, moved, signalled (without
  handlers of its own), consumes or checkpoints. Every process carries the position of the process of
  the first family that it stems from, which is itself or the one that its spawners lead back to.
\<close>

datatype family_op =
    Spawn string rat "string set option" "process_budget option"
  | Narrow "string set"
  | Move rat process_status
  | Consume rat int rat
  | Check_budget rat
  | Checkpoint rat
  | Signal rat process_signal

fun acts :: "family_op \<Rightarrow> agent_process \<Rightarrow> agent_process \<times> agent_process list" where
  "acts (Spawn cid now cs b) p = (case spawn_child cid now cs b p of Inl _ \<Rightarrow> (p, []) | Inr (c, p) \<Rightarrow> (p, [c]))"
| "acts (Narrow allowed) p = (snd (narrow_capabilities allowed p), [])"
| "acts (Move now s) p = (snd (transition_to now s p), [])"
| "acts (Consume now n c) p = (snd (process_consume now n c p), [])"
| "acts (Check_budget now) p = (snd (check_budget now p), [])"
| "acts (Checkpoint now) p = (snd (process_checkpoint now p), [])"
| "acts (Signal now sig) p = (snd (send_signal now [] sig p), [])"

definition family_step :: "nat \<times> family_op \<Rightarrow> (nat \<times> agent_process) list \<Rightarrow> (nat \<times> agent_process) list" where
  "family_step = (\<lambda>(i, op) fam.
     if i < length fam
     then (case (fam ! i, acts op (snd (fam ! i))) of
        ((origin, _), p, children) \<Rightarrow> fam[i := (origin, p)] @ map (Pair origin) children)
     else fam)"

definition family_run :: "(nat \<times> family_op) list \<Rightarrow> agent_process list \<Rightarrow> (nat \<times> agent_process) list" where
  "family_run ops ps = fold family_step ops (enumerate 0 ps)"

lemma acts_caps:
  assumes "acts op p = (p', cs)"
  shows "ap_capabilities p' \<subseteq> ap_capabilities p" "c \<in> set cs \<Longrightarrow> ap_capabilities c \<subseteq> ap_capabilities p"
  using assms by (cases op; auto simp: narrow_capabilities_caps dest: spawn_child_shape split: sum.splits)+

definition bounded_by_origins :: "agent_process list \<Rightarrow> (nat \<times> agent_process) list \<Rightarrow> bool" where
  "bounded_by_origins ps fam \<longleftrightarrow>
     (\<forall>(origin, q) \<in> set fam. origin < length ps \<and> ap_capabilities q \<subseteq> ap_capabilities (ps ! origin)) \<and>
     length ps \<le> length fam \<and> (\<forall>i < length ps. fst (fam ! i) = i)"

lemma bounded_step:
  assumes "bounded_by_origins ps fam"
  shows "bounded_by_origins ps (family_step x fam)"
proof -
  obtain i op where x: "x = (i, op)" by (cases x)
  show ?thesis
  proof (cases "i < length fam")
    case True
    obtain origin q where q: "fam ! i = (origin, q)" by (cases "fam ! i")
    obtain p cs where act: "acts op q = (p, cs)" by (cases "acts op q")
    have step: "family_step x fam = fam[i := (origin, p)] @ map (Pair origin) cs"
      using True by (simp add: family_step_def x q act)
    have "(origin, q) \<in> set fam" using True q nth_mem by metis
    then have r: "origin < length ps" "ap_capabilities q \<subseteq> ap_capabilities (ps ! origin)"
      using assms by (auto simp: bounded_by_origins_def)
    have "\<forall>(origin, q) \<in> set (family_step x fam). origin < length ps \<and> ap_capabilities q \<subseteq> ap_capabilities (ps ! origin)"
    proof
      fix y assume "y \<in> set (family_step x fam)"
      then consider "y \<in> set fam" | "y = (origin, p)" | c where "y = (origin, c)" "c \<in> set cs"
        unfolding step using set_update_subset_insert [of fam i "(origin, p)"] by auto
      then show "case y of (origin, q) \<Rightarrow> origin < length ps \<and> ap_capabilities q \<subseteq> ap_capabilities (ps ! origin)"
        using assms r acts_caps [OF act] by cases (auto simp: bounded_by_origins_def)
    qed
    moreover have "fst (family_step x fam ! j) = j" if "j < length ps" for j
    proof -
      have "fst (fam[i := (origin, p)] ! j) = fst (fam ! j)" using True by (cases "j = i") (simp_all add: q)
      then show ?thesis using assms that by (auto simp: step bounded_by_origins_def nth_append)
    qed
    ultimately show ?thesis using assms by (simp add: bounded_by_origins_def step)
  qed (use assms in \<open>simp add: family_step_def x\<close>)
qed

lemma bounded_run: "bounded_by_origins ps (family_run ops ps)"
proof -
  have "bounded_by_origins ps (fold family_step ops fam)" if "bounded_by_origins ps fam" for fam
    using that by (induction ops arbitrary: fam) (auto intro: bounded_step)
  moreover have "bounded_by_origins ps (enumerate 0 ps)"
    by (auto simp: bounded_by_origins_def in_set_enumerate_eq nth_enumerate_eq)
  ultimately show ?thesis by (simp add: family_run_def)
qed

text \<open>
  Capabilities never widen. C24: take the processes there are at any time, and let them and whatever
  they spawn, directly or through others, do anything in any order. Then every process has only
  capabilities that the one it stems from had at that time; so none of the first ones gains any, and
  nobody spawned from it later has one that it had not.
\<close>

theorem capabilities_never_widen:
  "(\<forall>(origin, q) \<in> set (family_run ops ps). origin < length ps \<and> ap_capabilities q \<subseteq> ap_capabilities (ps ! origin)) \<and>
   (\<forall>i < length ps. i < length (family_run ops ps) \<and> fst (family_run ops ps ! i) = i)"
  using bounded_run [of ps ops] by (auto simp: bounded_by_origins_def)

text \<open>A grandchild, whose parent and grandparent have lost a capability in the meantime\<close>

definition family_demo :: "(nat \<times> family_op) list" where
  "family_demo = [(0, Spawn ''c'' 0 (Some {''read'', ''write''}) None), (1, Spawn ''d'' 0 None None), (0, Narrow {''read''}), (1, Narrow {})]"

lemma family_demo_runs:
  "map (\<lambda>(origin, q). (origin, ap_process_id q, ap_capabilities q)) (family_run family_demo [sample_process PS_RUNNING {''read'', ''write'', ''run''} 0 0]) =
     [(0, ''proc-1'', {''read''}), (0, ''c'', {}), (0, ''d'', {''read'', ''write''})]"
  by (auto simp: family_run_def family_demo_def family_step_def sample_process_def spawn_child_def narrower_than_def
      transition_to_def PROCESS_TRANSITIONS_def dict_get_or_def narrow_capabilities_def narrow_def Let_def)

lemma listed_process:
  "map (\<lambda>(origin, q). (origin, f q, g q)) fam = rows \<Longrightarrow> (origin, x, y) \<in> set rows \<Longrightarrow> \<exists>q. (origin, q) \<in> set fam \<and> f q = x \<and> g q = y"
  by auto

theorem capabilities_never_widen_witness:
  "\<exists>q. ap_process_id q = ''d'' \<and> (0, q) \<in> set (family_run family_demo [sample_process PS_RUNNING {''read'', ''write'', ''run''} 0 0]) \<and>
     ap_capabilities q \<subseteq> ap_capabilities (sample_process PS_RUNNING {''read'', ''write'', ''run''} 0 0)"
proof -
  let ?ps = "[sample_process PS_RUNNING {''read'', ''write'', ''run''} 0 0]"
  obtain q where q: "(0, q) \<in> set (family_run family_demo ?ps)" "ap_process_id q = ''d''"
    using listed_process [OF family_demo_runs, of 0 "''d''" "{''read'', ''write''}"] by auto
  have "\<forall>(origin, q) \<in> set (family_run family_demo ?ps). origin < length ?ps \<and> ap_capabilities q \<subseteq> ap_capabilities (?ps ! origin)"
    by (rule capabilities_never_widen [THEN conjunct1])
  from bspec [OF this q(1)] have "ap_capabilities q \<subseteq> ap_capabilities (sample_process PS_RUNNING {''read'', ''write'', ''run''} 0 0)"
    by (simp only: prod.case nth_Cons_0)
  with q show ?thesis by blast
qed

text \<open>A process that is narrowed leaves those that it spawned before as they are: they keep what it has lost.\<close>

lemma narrowing_leaves_children:
  "\<exists>p q. (0, p) \<in> set (family_run family_demo [sample_process PS_RUNNING {''read'', ''write'', ''run''} 0 0]) \<and> ap_process_id p = ''proc-1'' \<and>
     (0, q) \<in> set (family_run family_demo [sample_process PS_RUNNING {''read'', ''write'', ''run''} 0 0]) \<and> ap_process_id q = ''d'' \<and>
     ap_capabilities p = {''read''} \<and> ap_capabilities q = {''read'', ''write''}"
proof -
  let ?fam = "family_run family_demo [sample_process PS_RUNNING {''read'', ''write'', ''run''} 0 0]"
  have "\<exists>p. (0, p) \<in> set ?fam \<and> ap_process_id p = ''proc-1'' \<and> ap_capabilities p = {''read''}"
    by (rule listed_process [OF family_demo_runs]) simp
  moreover have "\<exists>q. (0, q) \<in> set ?fam \<and> ap_process_id q = ''d'' \<and> ap_capabilities q = {''read'', ''write''}"
    by (rule listed_process [OF family_demo_runs]) simp
  ultimately show ?thesis by iprover
qed

text \<open>
  An empty request is not a request for nothing. A child spawned with the empty set of
  capabilities gets every capability of its parent.
\<close>

lemma spawn_empty_capabilities_inherits_all:
  "\<exists>c p'. spawn_child cid now (Some {}) b p = Inr (c, p') \<and> ap_capabilities c = ap_capabilities p"
  by (simp add: spawn_child_def narrower_than_def Let_def)

lemma consume_tokens_bound:
  "consume_tokens n b = (ok, b') \<Longrightarrow> 0 < pb_max_tokens b \<Longrightarrow> pb_tokens_used b \<le> pb_max_tokens b \<Longrightarrow>
     pb_tokens_used b' \<le> pb_max_tokens b' \<and> pb_max_tokens b' = pb_max_tokens b"
  by (auto simp: consume_tokens_def split: if_splits)

lemma consume_cost_bound:
  "consume_cost q b = (ok, b') \<Longrightarrow> 0 < pb_max_cost_usd b \<Longrightarrow> pb_cost_used b \<le> pb_max_cost_usd b \<Longrightarrow>
     pb_cost_used b' \<le> pb_max_cost_usd b' \<and> pb_max_cost_usd b' = pb_max_cost_usd b"
  by (auto simp: consume_cost_def split: if_splits)

lemma consume_frame [simp]:
  "pb_max_tokens (snd (consume_cost q b)) = pb_max_tokens b"
  "pb_tokens_used (snd (consume_cost q b)) = pb_tokens_used b"
  "pb_max_cost_usd (snd (consume_tokens n b)) = pb_max_cost_usd b"
  "pb_cost_used (snd (consume_tokens n b)) = pb_cost_used b"
  "pb_max_tokens (snd (consume_tokens n b)) = pb_max_tokens b"
  "pb_max_cost_usd (snd (consume_cost q b)) = pb_max_cost_usd b"
  by (simp_all add: consume_cost_def consume_tokens_def)

definition within_budget :: "process_budget \<Rightarrow> bool" where
  "within_budget b \<longleftrightarrow>
     (0 < pb_max_tokens b \<longrightarrow> pb_tokens_used b \<le> pb_max_tokens b) \<and>
     (0 < pb_max_cost_usd b \<longrightarrow> pb_cost_used b \<le> pb_max_cost_usd b)"

lemma within_budget_tokens: "within_budget b \<Longrightarrow> within_budget (snd (consume_tokens n b))"
  by (auto simp: within_budget_def consume_tokens_def)

lemma within_budget_cost: "within_budget b \<Longrightarrow> within_budget (snd (consume_cost q b))"
  by (auto simp: within_budget_def consume_cost_def)

lemma check_budget_true: "check_budget now p = (True, p') \<Longrightarrow> p' = p \<and> \<not> exhausted now (ap_budget p)"
  by (simp add: check_budget_def split: if_splits)

lemma within_budget_check: "within_budget (ap_budget p) \<Longrightarrow> within_budget (ap_budget (snd (check_budget now p)))"
  by (simp add: check_budget_def within_budget_def)

text \<open>
  Consumption stays within the ceilings. No call of \<open>consume\<close> takes a budget over its
  token or cost ceiling, whether it succeeds or not; and when it returns true, every ceiling
  is still strictly above what was used.
\<close>

lemma consume_within_budget:
  assumes "within_budget (ap_budget p)" and "process_consume now n c p = (ok, p')"
  shows "within_budget (ap_budget p') \<and> (ok \<longrightarrow> \<not> exhausted now (ap_budget p'))"
proof -
  define b1 where "b1 = (if n > 0 then consume_tokens n (ap_budget p) else (True, ap_budget p))"
  define b2 where "b2 = (if c > 0 then consume_cost c (snd b1) else (True, snd b1))"
  have w1: "within_budget (snd b1)" using assms(1) within_budget_tokens by (simp add: b1_def)
  then have w2: "within_budget (snd b2)" using within_budget_cost by (simp add: b2_def)
  have eq: "process_consume now n c p =
      (if \<not> fst b1 then (False, p\<lparr>ap_budget := snd b1\<rparr>)
       else if \<not> fst b2 then (False, p\<lparr>ap_budget := snd b2\<rparr>)
       else check_budget now (p\<lparr>ap_budget := snd b2\<rparr>))"
    by (simp add: process_consume_def b1_def [symmetric] b2_def Let_def split: prod.splits)
  from assms(2) w1 w2 within_budget_check [of "p\<lparr>ap_budget := snd b2\<rparr>" now]
    check_budget_true [of now "p\<lparr>ap_budget := snd b2\<rparr>" p']
  show ?thesis unfolding eq by (auto split: if_splits)
qed

lemma consume_within_budget_witness:
  "within_budget (ap_budget (snd (process_consume 0 4 0 (sample_process PS_RUNNING {} 10 5))))"
proof -
  have w: "within_budget (ap_budget (sample_process PS_RUNNING {} 10 5))"
    by (simp add: within_budget_def sample_process_def default_budget_def)
  show ?thesis using consume_within_budget [OF w, of 0 4 0] by (simp add: prod_eq_iff)
qed

text \<open>
  Delegated budgets. A child spawned by a parent with tokens left gets a positive token
  ceiling that does not exceed what the parent has left, provided it did not ask for a
  negative one.
\<close>

lemma spawn_token_ceiling:
  assumes "spawn_child cid now cs b p = Inr (c, p')"
    and "0 < pb_max_tokens (ap_budget p)" and "pb_tokens_used (ap_budget p) < pb_max_tokens (ap_budget p)"
    and "0 \<le> pb_max_tokens (case b of None \<Rightarrow> default_budget | Some b \<Rightarrow> b)"
  shows "0 < pb_max_tokens (ap_budget c) \<and>
         pb_max_tokens (ap_budget c) \<le> pb_max_tokens (ap_budget p) - pb_tokens_used (ap_budget p)"
proof -
  from spawn_child_shape [OF assms(1)] have "pb_max_tokens (ap_budget c) =
      pb_max_tokens (cap_tokens (ap_budget p) (case b of None \<Rightarrow> default_budget | Some b \<Rightarrow> b))"
    by simp
  with assms(2-) show ?thesis by (auto simp: cap_tokens_def tokens_remaining_def)
qed

lemma spawn_token_ceiling_witness:
  "\<exists>c p'. spawn_child ''c'' 0 None None (sample_process PS_RUNNING {} 10 4) = Inr (c, p') \<and>
     0 < pb_max_tokens (ap_budget c) \<and> pb_max_tokens (ap_budget c) \<le> 6"
proof -
  obtain c p' where s: "spawn_child ''c'' 0 None None (sample_process PS_RUNNING {} 10 4) = Inr (c, p')"
    by (simp add: spawn_child_def narrower_than_def Let_def)
  with spawn_token_ceiling [OF s] show ?thesis
    by (simp add: sample_process_def default_budget_def)
qed

text \<open>
  An exhausted parent. When the parent has no tokens left, the child's ceiling is 0,
  which the budget reads as no ceiling at all: the child may consume any number of tokens.
\<close>

lemma spawn_from_exhausted_parent_unlimited:
  assumes "spawn_child cid now cs b p = Inr (c, p')"
    and "0 < pb_max_tokens (ap_budget p)" and "pb_max_tokens (ap_budget p) \<le> pb_tokens_used (ap_budget p)"
    and "0 \<le> pb_max_tokens (case b of None \<Rightarrow> default_budget | Some b \<Rightarrow> b)"
  shows "pb_max_tokens (ap_budget c) = 0 \<and> tokens_remaining (ap_budget c) = PosInf \<and>
         fst (consume_tokens n (ap_budget c))"
proof -
  from spawn_child_shape [OF assms(1)] have "pb_max_tokens (ap_budget c) =
      pb_max_tokens (cap_tokens (ap_budget p) (case b of None \<Rightarrow> default_budget | Some b \<Rightarrow> b))"
    by simp
  also have "\<dots> = 0" using assms(2-) by (auto simp: cap_tokens_def tokens_remaining_def)
  finally show ?thesis by (simp add: tokens_remaining_def consume_tokens_def)
qed

lemma spawn_from_exhausted_parent_unlimited_witness:
  "\<exists>c p'. spawn_child ''c'' 0 None None (sample_process PS_RUNNING {} 10 10) = Inr (c, p') \<and>
     fst (consume_tokens 1000000 (ap_budget c))"
proof -
  obtain c p' where s: "spawn_child ''c'' 0 None None (sample_process PS_RUNNING {} 10 10) = Inr (c, p')"
    by (simp add: spawn_child_def narrower_than_def Let_def)
  with spawn_from_exhausted_parent_unlimited [OF s] show ?thesis
    by (simp add: sample_process_def default_budget_def)
qed

text \<open>
  Checkpointing is not neutral. \<open>checkpoint\<close> leaves a process running whenever \<open>RUNNING\<close> is
  reachable in one step from where it is, so it resumes a paused or waiting process, and it
  reports a checkpoint even for a process in a final state, whose status stays as it is.
\<close>

lemma checkpoint_status:
  "ap_status (snd (process_checkpoint now p)) =
     (if ap_status p \<in> {PS_RUNNING, PS_PENDING, PS_WAITING_FOR_MODEL, PS_WAITING_FOR_APPROVAL,
          PS_WAITING_FOR_RESOURCE, PS_PAUSED, PS_CHECKPOINTING, PS_RESTORING}
      then PS_RUNNING else ap_status p) \<and>
   ap_checkpoints (snd (process_checkpoint now p)) =
     ap_checkpoints p @ [fst (process_checkpoint now p)]"
  by (cases "ap_status p")
    (simp_all add: process_checkpoint_def transition_to_def PROCESS_TRANSITIONS_def dict_get_or_def Let_def)

end
