(* ===== verification/Planner_Plan.thy ===== *)
theory Planner_Plan
  imports Kernel_Object "HOL-Library.Multiset"
begin

text \<open>
  Plans and their tasks (\<open>nous_runtime/planner/plan.py\<close>): the operations that build and
  revise a plan, the snapshot each revision keeps, and the dictionaries both are stored as.
  Generated identifiers and the text of the clock are arguments (\<open>new_task_id n\<close> is the one drawn for the
  \<open>n\<close>-th task of a decoded plan). A result or a parameter of
  a task is a JSON value.
\<close>

section \<open>Tasks\<close>

datatype task_status = TS_PENDING | TS_READY | TS_RUNNING | TS_COMPLETED | TS_FAILED | TS_SKIPPED | TS_BLOCKED

fun task_status_value :: "task_status \<Rightarrow> string" where
  "task_status_value TS_PENDING = ''pending''"
| "task_status_value TS_READY = ''ready''"
| "task_status_value TS_RUNNING = ''running''"
| "task_status_value TS_COMPLETED = ''completed''"
| "task_status_value TS_FAILED = ''failed''"
| "task_status_value TS_SKIPPED = ''skipped''"
| "task_status_value TS_BLOCKED = ''blocked''"

definition task_status_of :: "string \<Rightarrow> pyexn + task_status" where
  "task_status_of v =
     (case find (\<lambda>s. task_status_value s = v)
             [TS_PENDING, TS_READY, TS_RUNNING, TS_COMPLETED, TS_FAILED, TS_SKIPPED, TS_BLOCKED] of
        Some s \<Rightarrow> Inr s | None \<Rightarrow> Inl (ValueError ''not a valid TaskStatus''))"

lemma task_status_of_value [simp]: "task_status_of (task_status_value s) = Inr s"
  by (cases s) (simp_all add: task_status_of_def)

lemma task_status_value_not_Nil [simp]: "task_status_value s \<noteq> []"
  by (cases s) simp_all

record ptask =
  pt_description :: string
  pt_task_id :: string
  pt_capability_id :: string
  pt_params :: jobj
  pt_status :: task_status
  pt_depends_on :: "string list"
  pt_expected_output :: string
  pt_retry_count :: int
  pt_max_retries :: int
  pt_timeout_seconds :: int
  pt_result :: json
  pt_error :: string
  pt_observations :: "jobj list"
  pt_started_at :: string
  pt_completed_at :: string

definition ptask_post_init :: "string \<Rightarrow> ptask \<Rightarrow> ptask" where
  "ptask_post_init new_id t = (if pt_task_id t = [] then t\<lparr>pt_task_id := new_id\<rparr> else t)"

definition new_ptask :: "string \<Rightarrow> string \<Rightarrow> string \<Rightarrow> jobj \<Rightarrow> ptask" where
  "new_ptask new_id description capability_id params = ptask_post_init new_id
     \<lparr>pt_description = description, pt_task_id = [], pt_capability_id = capability_id,
      pt_params = params, pt_status = TS_PENDING, pt_depends_on = [], pt_expected_output = [],
      pt_retry_count = 0, pt_max_retries = 3, pt_timeout_seconds = 60, pt_result = JNull,
      pt_error = [], pt_observations = [], pt_started_at = [], pt_completed_at = []\<rparr>"

definition ptask_is_ready :: "string set \<Rightarrow> ptask \<Rightarrow> bool" where
  "ptask_is_ready completed t \<longleftrightarrow> (\<forall>d \<in> set (pt_depends_on t). d \<in> completed)"

definition observation_id :: "jobj \<Rightarrow> json" where
  "observation_id ob = dict_get_or ob ''id'' (dict_get_or ob ''observation_id'' (JStr []))"

definition ptask_to_dict :: "ptask \<Rightarrow> jobj" where
  "ptask_to_dict t =
     [(''task_id'', JStr (pt_task_id t)), (''description'', JStr (pt_description t)),
      (''capability_id'', JStr (pt_capability_id t)), (''params'', JObj (pt_params t)),
      (''status'', JStr (task_status_value (pt_status t))),
      (''depends_on'', jstrs (pt_depends_on t)),
      (''expected_output'', JStr (pt_expected_output t)),
      (''retry_count'', JInt (pt_retry_count t)), (''max_retries'', JInt (pt_max_retries t)),
      (''timeout_seconds'', JInt (pt_timeout_seconds t)), (''result'', pt_result t),
      (''error'', JStr (pt_error t)), (''observations'', JList (map JObj (pt_observations t))),
      (''started_at'', JStr (pt_started_at t)), (''completed_at'', JStr (pt_completed_at t)),
      (''observation_ids'', JList (map observation_id (pt_observations t)))]"

text \<open>\<open>[dict(item) for item in xs if isinstance(item, dict)]\<close>\<close>

fun only_objs :: "json list \<Rightarrow> jobj list" where
  "only_objs [] = []"
| "only_objs (JObj kvs # xs) = kvs # only_objs xs"
| "only_objs (_ # xs) = only_objs xs"

lemma only_objs_map_JObj [simp]: "only_objs (map JObj xs) = xs"
  by (induction xs) simp_all

definition ptask_from_dict :: "string \<Rightarrow> jobj \<Rightarrow> pyexn + ptask" where
  "ptask_from_dict new_id d =
     bindE (rd_str d ''task_id'' []) (\<lambda>tid.
     bindE (rd_str d ''description'' []) (\<lambda>description.
     bindE (rd_str d ''capability_id'' []) (\<lambda>capability_id.
     bindE (rd_dict d ''params'') (\<lambda>params.
     bindE (rd_str d ''status'' (task_status_value TS_PENDING)) (\<lambda>status_text.
     bindE (task_status_of status_text) (\<lambda>status.
     bindE (bindE (rd_list d ''depends_on'') (mapE py_str)) (\<lambda>depends_on.
     bindE (rd_str d ''expected_output'' []) (\<lambda>expected_output.
     bindE (rd_int d ''retry_count'' 0) (\<lambda>retry_count.
     bindE (rd_int d ''max_retries'' 3) (\<lambda>max_retries.
     bindE (rd_int d ''timeout_seconds'' 60) (\<lambda>timeout_seconds.
     bindE (rd_str d ''error'' []) (\<lambda>error.
     bindE (rd_list d ''observations'') (\<lambda>observations.
     bindE (rd_str d ''started_at'' []) (\<lambda>started_at.
     bindE (rd_str d ''completed_at'' []) (\<lambda>completed_at.
       Inr (ptask_post_init new_id
         \<lparr>pt_description = description, pt_task_id = tid, pt_capability_id = capability_id,
          pt_params = params, pt_status = status, pt_depends_on = depends_on,
          pt_expected_output = expected_output, pt_retry_count = retry_count,
          pt_max_retries = max_retries, pt_timeout_seconds = timeout_seconds,
          pt_result = dict_get_or d ''result'' JNull, pt_error = error,
          pt_observations = only_objs observations, pt_started_at = started_at,
          pt_completed_at = completed_at\<rparr>))))))))))))))))"

section \<open>Revisions and plans\<close>

record plan_revision =
  pr_revision :: int
  pr_reason :: string
  pr_created_at :: string
  pr_tasks :: "jobj list"

definition plan_revision_to_dict :: "plan_revision \<Rightarrow> jobj" where
  "plan_revision_to_dict r =
     [(''revision'', JInt (pr_revision r)), (''reason'', JStr (pr_reason r)),
      (''created_at'', JStr (pr_created_at r)), (''tasks'', JList (map JObj (pr_tasks r)))]"

definition plan_revision_from_dict :: "jobj \<Rightarrow> pyexn + plan_revision" where
  "plan_revision_from_dict d =
     bindE (rd_int d ''revision'' 1) (\<lambda>revision.
     bindE (rd_str d ''reason'' []) (\<lambda>reason.
     bindE (rd_str d ''created_at'' []) (\<lambda>created_at.
     bindE (rd_list d ''tasks'') (\<lambda>tasks.
       Inr \<lparr>pr_revision = revision, pr_reason = reason, pr_created_at = created_at,
            pr_tasks = only_objs tasks\<rparr>))))"

datatype plan_status = PL_BUILDING | PL_READY | PL_EXECUTING | PL_COMPLETED | PL_FAILED

fun plan_status_value :: "plan_status \<Rightarrow> string" where
  "plan_status_value PL_BUILDING = ''building''"
| "plan_status_value PL_READY = ''ready''"
| "plan_status_value PL_EXECUTING = ''executing''"
| "plan_status_value PL_COMPLETED = ''completed''"
| "plan_status_value PL_FAILED = ''failed''"

definition plan_status_of :: "string \<Rightarrow> pyexn + plan_status" where
  "plan_status_of v =
     (case find (\<lambda>s. plan_status_value s = v)
             [PL_BUILDING, PL_READY, PL_EXECUTING, PL_COMPLETED, PL_FAILED] of
        Some s \<Rightarrow> Inr s | None \<Rightarrow> Inl (ValueError ''not a valid PlanStatus''))"

lemma plan_status_of_value [simp]: "plan_status_of (plan_status_value s) = Inr s"
  by (cases s) (simp_all add: plan_status_of_def)

lemma plan_status_value_not_Nil [simp]: "plan_status_value s \<noteq> []"
  by (cases s) simp_all

record plan =
  pl_goal_id :: string
  pl_plan_id :: string
  pl_tasks :: "ptask list"
  pl_status :: plan_status
  pl_created_at :: string
  pl_revision :: int
  pl_revision_history :: "plan_revision list"
  pl_metadata :: jobj

definition plan_post_init :: "string \<Rightarrow> string \<Rightarrow> plan \<Rightarrow> plan" where
  "plan_post_init new_id now p =
     (let p = (if pl_plan_id p = [] then p\<lparr>pl_plan_id := new_id\<rparr> else p)
      in if pl_created_at p = [] then p\<lparr>pl_created_at := now\<rparr> else p)"

definition record_revision :: "string \<Rightarrow> string \<Rightarrow> plan \<Rightarrow> pyexn + plan" where
  "record_revision now reason p =
     (let txt = py_strip reason in
      if txt = [] then Inl (ValueError ''plan revision reason is required'')
      else Inr (p\<lparr>pl_revision_history := pl_revision_history p @
                  [\<lparr>pr_revision = pl_revision p, pr_reason = txt, pr_created_at = now,
                    pr_tasks = map ptask_to_dict (pl_tasks p)\<rparr>],
                pl_revision := pl_revision p + 1\<rparr>))"

definition prepare_mutation :: "string \<Rightarrow> string \<Rightarrow> plan \<Rightarrow> pyexn + plan" where
  "prepare_mutation now reason p =
     (if pl_status p \<noteq> PL_BUILDING \<or> reason \<noteq> []
      then record_revision now (if reason = [] then ''plan updated'' else reason) p
      else Inr p)"

definition add_task ::
  "string \<Rightarrow> string \<Rightarrow> string \<Rightarrow> string \<Rightarrow> string list option \<Rightarrow> string \<Rightarrow> jobj \<Rightarrow> plan
     \<Rightarrow> pyexn + ptask \<times> plan" where
  "add_task new_id now description capability_id depends_on revision_reason params p =
     bindE (prepare_mutation now revision_reason p) (\<lambda>p.
       let t = new_ptask new_id description capability_id params;
           t = (case depends_on of
                  None \<Rightarrow> t
                | Some ds \<Rightarrow> if ds = [] then t else t\<lparr>pt_depends_on := ds\<rparr>)
       in Inr (t, p\<lparr>pl_tasks := pl_tasks p @ [t]\<rparr>))"

definition mark_ready :: "plan \<Rightarrow> plan" where
  "mark_ready p = p\<lparr>pl_status := PL_READY\<rparr>"

definition note_revision :: "string \<Rightarrow> string \<Rightarrow> plan \<Rightarrow> pyexn + plan" where
  "note_revision now reason p = record_revision now reason p"

definition replace_tasks :: "string \<Rightarrow> string \<Rightarrow> ptask list \<Rightarrow> plan \<Rightarrow> pyexn + plan" where
  "replace_tasks now reason tasks p =
     bindE (record_revision now reason p) (\<lambda>p. Inr (p\<lparr>pl_tasks := tasks\<rparr>))"

text \<open>The first task with an identifier: its index, or \<open>KeyError\<close>.\<close>

fun find_index :: "('a \<Rightarrow> bool) \<Rightarrow> 'a list \<Rightarrow> nat option" where
  "find_index P [] = None"
| "find_index P (x # xs) = (if P x then Some 0 else map_option Suc (find_index P xs))"

lemma find_index_Some:
  "find_index P xs = Some i \<Longrightarrow> i < length xs \<and> P (xs ! i) \<and> (\<forall>j < i. \<not> P (xs ! j))"
proof (induction xs arbitrary: i)
  case (Cons x xs)
  then show ?case by (auto split: if_splits simp: nth_Cons split: nat.splits)
qed simp

lemma find_index_None: "find_index P xs = None \<longleftrightarrow> (\<forall>x \<in> set xs. \<not> P x)"
  by (induction xs) auto

definition task_index :: "string \<Rightarrow> plan \<Rightarrow> pyexn + nat" where
  "task_index task_id p =
     (case find_index (\<lambda>t. pt_task_id t = task_id) (pl_tasks p) of
        None \<Rightarrow> Inl (KeyError task_id) | Some i \<Rightarrow> Inr i)"

definition remove_task :: "string \<Rightarrow> string \<Rightarrow> string \<Rightarrow> plan \<Rightarrow> pyexn + ptask \<times> plan" where
  "remove_task now task_id reason p =
     bindE (task_index task_id p) (\<lambda>i.
     bindE (record_revision now reason p) (\<lambda>p.
       Inr (pl_tasks p ! i,
            p\<lparr>pl_tasks := map (\<lambda>t. t\<lparr>pt_depends_on := filter (\<lambda>d. d \<noteq> task_id) (pt_depends_on t)\<rparr>)
                            (take i (pl_tasks p) @ drop (Suc i) (pl_tasks p))\<rparr>)))"

definition replace_task :: "string \<Rightarrow> string \<Rightarrow> ptask \<Rightarrow> string \<Rightarrow> plan \<Rightarrow> pyexn + plan" where
  "replace_task now task_id replacement reason p =
     bindE (task_index task_id p) (\<lambda>i.
     bindE (record_revision now reason p) (\<lambda>p.
       Inr (p\<lparr>pl_tasks := (pl_tasks p)[i := replacement]\<rparr>)))"

definition reorder :: "string \<Rightarrow> string list \<Rightarrow> string \<Rightarrow> plan \<Rightarrow> pyexn + plan" where
  "reorder now task_ids reason p =
     (if length task_ids \<noteq> length (pl_tasks p) \<or> set task_ids \<noteq> set (map pt_task_id (pl_tasks p))
      then Inl (ValueError ''reorder must contain every task id exactly once'')
      else bindE (record_revision now reason p) (\<lambda>p.
             let by_id = map (\<lambda>t. (pt_task_id t, t)) (rev (pl_tasks p))
             in Inr (p\<lparr>pl_tasks := map (\<lambda>i. the (map_of by_id i)) task_ids\<rparr>)))"

definition mark_skipped :: "string \<Rightarrow> string \<Rightarrow> string \<Rightarrow> plan \<Rightarrow> pyexn + plan" where
  "mark_skipped now task_id reason p =
     bindE (task_index task_id p) (\<lambda>i.
     bindE (record_revision now reason p) (\<lambda>p.
       Inr (p\<lparr>pl_tasks := (pl_tasks p)[i := (pl_tasks p ! i)\<lparr>pt_status := TS_SKIPPED, pt_error := []\<rparr>]\<rparr>)))"

definition mark_blocked :: "string \<Rightarrow> string \<Rightarrow> string \<Rightarrow> plan \<Rightarrow> pyexn + plan" where
  "mark_blocked now task_id reason p =
     bindE (task_index task_id p) (\<lambda>i.
     bindE (record_revision now reason p) (\<lambda>p.
       Inr (p\<lparr>pl_tasks := (pl_tasks p)[i := (pl_tasks p ! i)\<lparr>pt_status := TS_BLOCKED, pt_error := reason\<rparr>]\<rparr>)))"

definition require_task :: "string \<Rightarrow> plan \<Rightarrow> pyexn + ptask" where
  "require_task task_id p = bindE (task_index task_id p) (\<lambda>i. Inr (pl_tasks p ! i))"

definition ready_tasks :: "string set \<Rightarrow> plan \<Rightarrow> ptask list" where
  "ready_tasks completed p =
     filter (\<lambda>t. pt_status t = TS_PENDING \<and> ptask_is_ready completed t) (pl_tasks p)"

definition plan_all_done :: "plan \<Rightarrow> bool" where
  "plan_all_done p \<longleftrightarrow> (\<forall>t \<in> set (pl_tasks p). pt_status t \<in> {TS_COMPLETED, TS_SKIPPED})"

definition plan_any_failed :: "plan \<Rightarrow> bool" where
  "plan_any_failed p \<longleftrightarrow> (\<exists>t \<in> set (pl_tasks p). pt_status t = TS_FAILED)"

definition count_status :: "task_status \<Rightarrow> ptask list \<Rightarrow> int" where
  "count_status s ts = int (length (filter (\<lambda>t. pt_status t = s) ts))"

definition plan_progress :: "plan \<Rightarrow> (string, int) dict" where
  "plan_progress p =
     (let total = int (length (pl_tasks p));
          done' = count_status TS_COMPLETED (pl_tasks p);
          failed = count_status TS_FAILED (pl_tasks p);
          skipped = count_status TS_SKIPPED (pl_tasks p);
          blocked = count_status TS_BLOCKED (pl_tasks p)
      in [(''total'', total), (''done'', done'), (''failed'', failed), (''skipped'', skipped),
          (''blocked'', blocked), (''pending'', total - done' - failed - skipped - blocked)])"

definition plan_to_dict :: "plan \<Rightarrow> jobj" where
  "plan_to_dict p =
     [(''plan_id'', JStr (pl_plan_id p)), (''goal_id'', JStr (pl_goal_id p)),
      (''tasks'', JList (map (JObj \<circ> ptask_to_dict) (pl_tasks p))),
      (''status'', JStr (plan_status_value (pl_status p))),
      (''created_at'', JStr (pl_created_at p)), (''revision'', JInt (pl_revision p)),
      (''revision_history'', JList (map (JObj \<circ> plan_revision_to_dict) (pl_revision_history p))),
      (''progress'', JObj (map (\<lambda>(k, n). (k, JInt n)) (plan_progress p))),
      (''metadata'', JObj (pl_metadata p))]"

definition plan_from_dict :: "(nat \<Rightarrow> string) \<Rightarrow> string \<Rightarrow> string \<Rightarrow> jobj \<Rightarrow> pyexn + plan" where
  "plan_from_dict new_task_id new_id now d =
     bindE (rd_str d ''plan_id'' []) (\<lambda>pid.
     bindE (rd_str d ''goal_id'' []) (\<lambda>gid.
     bindE (bindE (rd_list d ''tasks'') (\<lambda>items.
              mapE (\<lambda>(n, item). bindE (as_obj item) (ptask_from_dict (new_task_id n)))
                (enumerate 0 items))) (\<lambda>tasks.
     bindE (rd_str d ''status'' (plan_status_value PL_BUILDING)) (\<lambda>status_text.
     bindE (plan_status_of status_text) (\<lambda>status.
     bindE (rd_str d ''created_at'' []) (\<lambda>created_at.
     bindE (rd_int d ''revision'' 1) (\<lambda>revision.
     bindE (bindE (rd_list d ''revision_history'')
              (mapE (\<lambda>item. bindE (as_obj item) plan_revision_from_dict))) (\<lambda>history.
     bindE (rd_dict d ''metadata'') (\<lambda>metadata.
       Inr (plan_post_init new_id now
         \<lparr>pl_goal_id = gid, pl_plan_id = pid, pl_tasks = tasks, pl_status = status,
          pl_created_at = created_at, pl_revision = max 1 revision,
          pl_revision_history = history, pl_metadata = metadata\<rparr>))))))))))"

section \<open>Round trips\<close>

lemma dict_get_or_Cons [simp]:
  "dict_get_or ((k', v) # d) k x = (if k = k' then v else dict_get_or d k x)"
  "dict_get_or [] k x = x"
  by (simp_all add: dict_get_or_def)

text \<open>What a stored task comes back as: a stored 0 is read as the default.\<close>

definition restored_task :: "ptask \<Rightarrow> ptask" where
  "restored_task t =
     t\<lparr>pt_max_retries := (if pt_max_retries t = 0 then 3 else pt_max_retries t),
       pt_timeout_seconds := (if pt_timeout_seconds t = 0 then 60 else pt_timeout_seconds t)\<rparr>"

lemma ptask_dict_fields:
  "rd_str (ptask_to_dict t) ''task_id'' [] = Inr (pt_task_id t)"
  "rd_str (ptask_to_dict t) ''description'' [] = Inr (pt_description t)"
  "rd_str (ptask_to_dict t) ''capability_id'' [] = Inr (pt_capability_id t)"
  "rd_dict (ptask_to_dict t) ''params'' = Inr (pt_params t)"
  "rd_str (ptask_to_dict t) ''status'' x = Inr (task_status_value (pt_status t))"
  "rd_list (ptask_to_dict t) ''depends_on'' = Inr (map JStr (pt_depends_on t))"
  "rd_str (ptask_to_dict t) ''expected_output'' [] = Inr (pt_expected_output t)"
  "rd_int (ptask_to_dict t) ''retry_count'' 0 = Inr (pt_retry_count t)"
  "rd_int (ptask_to_dict t) ''max_retries'' 3 = Inr (if pt_max_retries t = 0 then 3 else pt_max_retries t)"
  "rd_int (ptask_to_dict t) ''timeout_seconds'' 60 =
     Inr (if pt_timeout_seconds t = 0 then 60 else pt_timeout_seconds t)"
  "dict_get_or (ptask_to_dict t) ''result'' JNull = pt_result t"
  "rd_str (ptask_to_dict t) ''error'' [] = Inr (pt_error t)"
  "rd_list (ptask_to_dict t) ''observations'' = Inr (map JObj (pt_observations t))"
  "rd_str (ptask_to_dict t) ''started_at'' [] = Inr (pt_started_at t)"
  "rd_str (ptask_to_dict t) ''completed_at'' [] = Inr (pt_completed_at t)"
  by (simp_all add: ptask_to_dict_def rd_str_def rd_int_def rd_dict_def rd_list_def get_or_def jstrs_def)

lemma ptask_roundtrip:
  "pt_task_id t \<noteq> [] \<Longrightarrow> ptask_from_dict new_id (ptask_to_dict t) = Inr (restored_task t)"
  unfolding ptask_from_dict_def ptask_dict_fields bindE_Inr
  by (simp add: restored_task_def ptask_post_init_def)

lemma plan_revision_roundtrip:
  "plan_revision_from_dict (plan_revision_to_dict r) =
     Inr (r\<lparr>pr_revision := (if pr_revision r = 0 then 1 else pr_revision r)\<rparr>)"
  by (simp add: plan_revision_from_dict_def plan_revision_to_dict_def rd_str_def rd_int_def
      rd_list_def get_or_def)

lemma mapE_enumerate:
  assumes "\<And>x n. x \<in> set xs \<Longrightarrow> f (n, g x) = Inr (h x)"
  shows "mapE f (enumerate k (map g xs)) = Inr (map h xs)"
  using assms by (induction xs arbitrary: k) simp_all

lemma plan_dict_fields:
  "rd_str (plan_to_dict p) ''plan_id'' [] = Inr (pl_plan_id p)"
  "rd_str (plan_to_dict p) ''goal_id'' [] = Inr (pl_goal_id p)"
  "rd_list (plan_to_dict p) ''tasks'' = Inr (map (JObj \<circ> ptask_to_dict) (pl_tasks p))"
  "rd_str (plan_to_dict p) ''status'' x = Inr (plan_status_value (pl_status p))"
  "rd_str (plan_to_dict p) ''created_at'' [] = Inr (pl_created_at p)"
  "rd_int (plan_to_dict p) ''revision'' 1 = Inr (if pl_revision p = 0 then 1 else pl_revision p)"
  "rd_list (plan_to_dict p) ''revision_history'' =
     Inr (map (JObj \<circ> plan_revision_to_dict) (pl_revision_history p))"
  "rd_dict (plan_to_dict p) ''metadata'' = Inr (pl_metadata p)"
  by (simp_all add: plan_to_dict_def rd_str_def rd_int_def rd_dict_def rd_list_def get_or_def)

section \<open>Properties\<close>

text \<open>
  The numbering of revisions, for a plan and its history: revision \<open>k\<close> of the history is
  number \<open>k\<close>, and the plan is one ahead of its history.
\<close>

definition revisions_ok :: "plan \<Rightarrow> bool" where
  "revisions_ok p \<longleftrightarrow>
     map pr_revision (pl_revision_history p) = map int [1..<Suc (length (pl_revision_history p))] \<and>
     pl_revision p = 1 + int (length (pl_revision_history p))"

lemma record_revision_Inr:
  "record_revision now reason p = Inr q \<longleftrightarrow>
     py_strip reason \<noteq> [] \<and>
     q = p\<lparr>pl_revision_history := pl_revision_history p @
            [\<lparr>pr_revision = pl_revision p, pr_reason = py_strip reason, pr_created_at = now,
              pr_tasks = map ptask_to_dict (pl_tasks p)\<rparr>],
          pl_revision := pl_revision p + 1\<rparr>"
  by (auto simp: record_revision_def Let_def)

lemma record_revision_ok: "record_revision now reason p = Inr q \<Longrightarrow> revisions_ok p \<Longrightarrow> revisions_ok q"
  by (auto simp: record_revision_Inr revisions_ok_def)

lemma revisions_ok_tasks [simp]: "revisions_ok (p\<lparr>pl_tasks := ts\<rparr>) \<longleftrightarrow> revisions_ok p"
  by (simp add: revisions_ok_def)

lemma revisions_ok_status [simp]: "revisions_ok (p\<lparr>pl_status := s\<rparr>) \<longleftrightarrow> revisions_ok p"
  by (simp add: revisions_ok_def)

text \<open>The revising operations of a plan as one type of requests.\<close>

datatype plan_op =
    Op_add string string string "string list option" string jobj
  | Op_ready
  | Op_note string
  | Op_replace_all "ptask list" string
  | Op_remove string string
  | Op_replace string ptask string
  | Op_reorder "string list" string
  | Op_skip string string
  | Op_block string string

fun plan_step :: "string \<Rightarrow> plan_op \<Rightarrow> plan \<Rightarrow> pyexn + plan" where
  "plan_step now (Op_add i d c ds r ps) p = bindE (add_task i now d c ds r ps p) (Inr \<circ> snd)"
| "plan_step now Op_ready p = Inr (mark_ready p)"
| "plan_step now (Op_note r) p = note_revision now r p"
| "plan_step now (Op_replace_all ts r) p = replace_tasks now r ts p"
| "plan_step now (Op_remove i r) p = bindE (remove_task now i r p) (Inr \<circ> snd)"
| "plan_step now (Op_replace i t r) p = replace_task now i t r p"
| "plan_step now (Op_reorder ids r) p = reorder now ids r p"
| "plan_step now (Op_skip i r) p = mark_skipped now i r p"
| "plan_step now (Op_block i r) p = mark_blocked now i r p"

text \<open>The caller's view: an operation that raises leaves the plan as it was.\<close>

fun plan_steps :: "string \<Rightarrow> plan_op list \<Rightarrow> plan \<Rightarrow> plan" where
  "plan_steps now [] p = p"
| "plan_steps now (x # xs) p =
     plan_steps now xs (case plan_step now x p of Inl _ \<Rightarrow> p | Inr q \<Rightarrow> q)"

lemma plan_step_revisions:
  assumes "plan_step now x p = Inr q"
  shows "(\<exists>rev reason. pl_revision_history q = pl_revision_history p @
            [\<lparr>pr_revision = pl_revision p, pr_reason = reason, pr_created_at = now,
              pr_tasks = map ptask_to_dict (pl_tasks p)\<rparr>] \<and> pl_revision q = pl_revision p + 1) \<or>
         (pl_revision_history q = pl_revision_history p \<and> pl_revision q = pl_revision p \<and>
          (x = Op_ready \<or> (pl_status p = PL_BUILDING \<and> (\<exists>i d c ds ps. x = Op_add i d c ds [] ps))))"
proof (cases x)
  case (Op_add i d c ds r ps)
  with assms show ?thesis
    by (auto simp: add_task_def prepare_mutation_def bindE_eq_Inr record_revision_Inr Let_def split: if_splits)
qed (use assms in \<open>auto simp: mark_ready_def note_revision_def replace_tasks_def remove_task_def
    replace_task_def reorder_def mark_skipped_def mark_blocked_def record_revision_Inr bindE_eq_Inr
    Let_def split: if_splits\<close>)

text \<open>
  The audit history of a plan. Along any sequence of operations on a plan whose
  revisions are numbered consecutively, they stay so, and no earlier revision is lost or
  rewritten: the history only grows at its end.
\<close>

lemma plan_revision_history:
  assumes "revisions_ok p"
  shows "revisions_ok (plan_steps now xs p) \<and>
         (\<exists>new. pl_revision_history (plan_steps now xs p) = pl_revision_history p @ new)"
  using assms
proof (induction xs arbitrary: p)
  case (Cons x xs)
  show ?case
  proof (cases "plan_step now x p")
    case (Inl e)
    with Cons show ?thesis by simp
  next
    case (Inr q)
    from plan_step_revisions [OF Inr] Cons.prems have "revisions_ok q"
      by (auto simp: revisions_ok_def)
    moreover from plan_step_revisions [OF Inr]
    have "\<exists>new. pl_revision_history q = pl_revision_history p @ new" by auto
    ultimately show ?thesis using Cons.IH [of q] Inr by auto
  qed
qed simp

definition sample_plan :: plan where
  "sample_plan =
     \<lparr>pl_goal_id = ''g'', pl_plan_id = ''p'',
      pl_tasks = [new_ptask ''a'' ''first'' ''c'' [], (new_ptask ''b'' ''second'' ''c'' [])\<lparr>pt_depends_on := [''a'']\<rparr>],
      pl_status = PL_BUILDING, pl_created_at = ''t0'', pl_revision = 1, pl_revision_history = [],
      pl_metadata = []\<rparr>"

lemma sample_plan_ok: "revisions_ok sample_plan"
  by (simp add: revisions_ok_def sample_plan_def)

lemma plan_revision_history_witness:
  "revisions_ok (plan_steps ''t1'' [Op_note ''why'', Op_remove ''a'' '' '', Op_skip ''b'' ''done elsewhere''] sample_plan)"
  using plan_revision_history [OF sample_plan_ok] by blast

text \<open>
  Storing and loading a task. A task with an identifier comes back as it was, except
  that no retries (0) come back as 3 and a timeout of 0 as 60.
\<close>

lemma ptask_store_load:
  assumes "pt_task_id t \<noteq> []"
  shows "ptask_from_dict new_id (ptask_to_dict t) =
    Inr (t\<lparr>pt_max_retries := (if pt_max_retries t = 0 then 3 else pt_max_retries t),
           pt_timeout_seconds := (if pt_timeout_seconds t = 0 then 60 else pt_timeout_seconds t)\<rparr>)"
  using ptask_roundtrip [OF assms] by (simp add: restored_task_def)

lemma ptask_store_load_witness:
  "ptask_from_dict ''x'' (ptask_to_dict ((new_ptask ''a'' ''d'' ''c'' [])\<lparr>pt_max_retries := 0\<rparr>))
     = Inr (new_ptask ''a'' ''d'' ''c'' [])"
  by (subst ptask_store_load) (simp_all add: new_ptask_def ptask_post_init_def)

text \<open>
  Storing and loading a plan. A plan whose tasks have identifiers, retries and timeouts
  and whose revision numbers start at 1 comes back exactly as it was, tasks, history and
  all.
\<close>

lemma plan_store_load:
  assumes "pl_plan_id p \<noteq> []" and "pl_created_at p \<noteq> []" and "revisions_ok p"
    and "\<And>t. t \<in> set (pl_tasks p) \<Longrightarrow> pt_task_id t \<noteq> [] \<and> pt_max_retries t \<noteq> 0 \<and> pt_timeout_seconds t \<noteq> 0"
  shows "plan_from_dict new_task_id new_id now (plan_to_dict p) = Inr p"
proof -
  have tasks: "mapE (\<lambda>(n, item). bindE (as_obj item) (ptask_from_dict (new_task_id n)))
      (enumerate 0 (map (JObj \<circ> ptask_to_dict) (pl_tasks p))) = Inr (map (\<lambda>t. t) (pl_tasks p))"
    by (rule mapE_enumerate) (simp add: assms(4) ptask_roundtrip restored_task_def)
  have pos: "pr_revision r \<noteq> 0" if "r \<in> set (pl_revision_history p)" for r
  proof -
    from that have "pr_revision r \<in> set (map pr_revision (pl_revision_history p))" by simp
    with assms(3) show ?thesis by (auto simp: revisions_ok_def)
  qed
  have hist: "mapE (\<lambda>item. bindE (as_obj item) plan_revision_from_dict)
      (map (JObj \<circ> plan_revision_to_dict) (pl_revision_history p)) = Inr (map (\<lambda>r. r) (pl_revision_history p))"
    by (rule mapE_Inr_map) (simp add: plan_revision_roundtrip pos)
  show ?thesis
    unfolding plan_from_dict_def plan_dict_fields bindE_Inr tasks hist plan_status_of_value
    using assms by (simp add: plan_post_init_def revisions_ok_def)
qed

lemma plan_store_load_witness:
  "plan_from_dict (\<lambda>n. ''t'') ''x'' ''t9'' (plan_to_dict sample_plan) = Inr sample_plan"
proof (rule plan_store_load [OF _ _ sample_plan_ok])
qed (auto simp: sample_plan_def new_ptask_def ptask_post_init_def)

text \<open>
  Removing a task. A successful removal returns the first task with that identifier,
  takes exactly that one out, and leaves no remaining task depending on it.
\<close>

lemma remove_task_no_dangling:
  assumes "remove_task now i reason p = Inr (t, q)"
  shows "pt_task_id t = i \<and> length (pl_tasks q) = length (pl_tasks p) - 1 \<and>
         (\<forall>u \<in> set (pl_tasks q). i \<notin> set (pt_depends_on u)) \<and>
         mset (map pt_task_id (pl_tasks p)) = add_mset i (mset (map pt_task_id (pl_tasks q)))"
proof -
  from assms obtain n where n: "find_index (\<lambda>t. pt_task_id t = i) (pl_tasks p) = Some n"
    and t: "t = pl_tasks p ! n"
    and q: "pl_tasks q = map (\<lambda>t. t\<lparr>pt_depends_on := filter (\<lambda>d. d \<noteq> i) (pt_depends_on t)\<rparr>)
        (take n (pl_tasks p) @ drop (Suc n) (pl_tasks p))"
    by (auto simp: remove_task_def task_index_def bindE_eq_Inr record_revision_Inr split: option.splits)
  note idx = find_index_Some [OF n]
  have split: "pl_tasks p = take n (pl_tasks p) @ t # drop (Suc n) (pl_tasks p)"
    using idx t by (simp add: id_take_nth_drop)
  have "mset (map pt_task_id (pl_tasks p)) =
      add_mset i (mset (map pt_task_id (take n (pl_tasks p) @ drop (Suc n) (pl_tasks p))))"
    using idx t by (subst split) simp
  also have "map pt_task_id (take n (pl_tasks p) @ drop (Suc n) (pl_tasks p)) = map pt_task_id (pl_tasks q)"
    by (simp add: q)
  finally show ?thesis using idx t by (auto simp: q)
qed

lemma remove_task_no_dangling_witness:
  "\<exists>t q. remove_task ''t1'' ''a'' ''obsolete'' sample_plan = Inr (t, q) \<and>
     (\<forall>u \<in> set (pl_tasks q). ''a'' \<notin> set (pt_depends_on u))"
proof -
  obtain t q where r: "remove_task ''t1'' ''a'' ''obsolete'' sample_plan = Inr (t, q)"
    by (simp add: remove_task_def task_index_def sample_plan_def new_ptask_def ptask_post_init_def
        record_revision_def py_strip_def py_isspace_def Let_def)
  with remove_task_no_dangling [OF r] show ?thesis by blast
qed

text \<open>
  Reordering. When no identifier is used twice, a successful \<open>reorder\<close> permutes the tasks
  into the requested order, losing and inventing none.
\<close>

lemma reorder_permutes:
  assumes "reorder now ids reason p = Inr q" and "distinct (map pt_task_id (pl_tasks p))"
  shows "map pt_task_id (pl_tasks q) = ids \<and> mset (pl_tasks q) = mset (pl_tasks p)"
proof -
  let ?ts = "pl_tasks p"
  let ?f = "\<lambda>i. the (map_of (map (\<lambda>t. (pt_task_id t, t)) (rev ?ts)) i)"
  from assms(1) have len: "length ids = length ?ts" and sets: "set ids = set (map pt_task_id ?ts)"
    and q: "pl_tasks q = map ?f ids"
    by (auto simp: reorder_def bindE_eq_Inr record_revision_Inr Let_def split: if_splits)
  have f: "?f (pt_task_id t) = t" if "t \<in> set ?ts" for t
  proof -
    have "distinct (map fst (map (\<lambda>t. (pt_task_id t, t)) (rev ?ts)))"
      using assms(2) by (simp add: comp_def rev_map [symmetric])
    moreover have "(pt_task_id t, t) \<in> set (map (\<lambda>t. (pt_task_id t, t)) (rev ?ts))" using that by auto
    ultimately show ?thesis by (simp add: map_of_is_SomeI)
  qed
  have "card (set ids) = length ids" using assms(2) len sets by (metis distinct_card length_map)
  then have "distinct ids" by (rule card_distinct)
  with assms(2) sets have m: "mset ids = mset (map pt_task_id ?ts)"
    by (metis set_eq_iff_mset_eq_distinct)
  have "mset (map ?f ids) = image_mset ?f (mset (map pt_task_id ?ts))" by (simp add: m)
  also have "\<dots> = mset (map (?f \<circ> pt_task_id) ?ts)" by (simp add: multiset.map_comp)
  also have "map (?f \<circ> pt_task_id) ?ts = ?ts" by (rule map_idI) (simp add: f)
  finally have "mset (pl_tasks q) = mset ?ts" by (simp add: q)
  moreover have "pt_task_id (?f i) = i" if "i \<in> set ids" for i using that sets f by auto
  then have "map pt_task_id (pl_tasks q) = ids" by (simp add: q map_idI)
  ultimately show ?thesis by simp
qed

lemma sample_reorder: "\<exists>q. reorder ''t1'' [''b'', ''a''] ''swap'' sample_plan = Inr q"
proof -
  have "set [''b'', ''a''] = set (map pt_task_id (pl_tasks sample_plan))"
    and "length (pl_tasks sample_plan) = 2"
    by (auto simp: sample_plan_def new_ptask_def ptask_post_init_def)
  moreover have "py_strip ''swap'' \<noteq> []" by (simp add: py_strip_def py_isspace_def)
  ultimately show ?thesis by (auto simp: reorder_def record_revision_def Let_def simp del: list.set)
qed

lemma sample_plan_distinct: "distinct (map pt_task_id (pl_tasks sample_plan))"
  by (simp add: sample_plan_def new_ptask_def ptask_post_init_def)

lemma reorder_permutes_witness:
  "\<exists>q. reorder ''t1'' [''b'', ''a''] ''swap'' sample_plan = Inr q \<and> map pt_task_id (pl_tasks q) = [''b'', ''a'']"
  using sample_reorder reorder_permutes [OF _ sample_plan_distinct] by metis

lemma count_status_partition:
  "int (length ts) = count_status TS_PENDING ts + count_status TS_READY ts + count_status TS_RUNNING ts +
     count_status TS_COMPLETED ts + count_status TS_FAILED ts + count_status TS_SKIPPED ts +
     count_status TS_BLOCKED ts"
proof (induction ts)
  case (Cons t ts)
  then show ?case by (cases "pt_status t") (simp_all add: count_status_def)
qed (simp add: count_status_def)

lemma plan_progress_pending:
  "dict_get (plan_progress p) ''pending'' =
     Some (count_status TS_PENDING (pl_tasks p) + count_status TS_READY (pl_tasks p) +
       count_status TS_RUNNING (pl_tasks p))"
  using count_status_partition [of "pl_tasks p"] by (simp add: plan_progress_def Let_def)

end
