(* ===== verification/Planner_Graph.thy ===== *)
theory Planner_Graph
  imports Planner_Plan
begin

text \<open>
  The task graph (\<open>nous_runtime/planner/graph.py\<close>): \<open>build\<close> makes one node per task, links
  every node to the tasks that depend on it, and assigns levels by repeatedly taking a node
  whose dependencies are done (Kahn's algorithm). A node's children are the identifiers of
  the nodes the source links to; the dictionary of nodes is in the order of the tasks.
\<close>

section \<open>Model\<close>

record enode =
  en_task :: ptask
  en_children :: "string list"
  en_level :: int

type_synonym task_graph = "(string, enode) dict"

definition en_task_id :: "enode \<Rightarrow> string" where
  "en_task_id n = pt_task_id (en_task n)"

definition en_is_leaf :: "enode \<Rightarrow> bool" where
  "en_is_leaf n \<longleftrightarrow> length (en_children n) = 0"

fun add_nodes :: "ptask list \<Rightarrow> task_graph \<Rightarrow> pyexn + task_graph" where
  "add_nodes [] g = Inr g"
| "add_nodes (t # ts) g =
     (if dict_get g (pt_task_id t) \<noteq> None
      then Inl (ValueError ''TaskGraph requires unique task ids'')
      else add_nodes ts (dict_set (pt_task_id t) \<lparr>en_task = t, en_children = [], en_level = 0\<rparr> g))"

text \<open>\<open>self.nodes[dep_id].children.append(self.nodes[t.task_id])\<close>, when \<open>dep_id\<close> is a node.\<close>

definition add_edge :: "string \<Rightarrow> string \<Rightarrow> task_graph \<Rightarrow> task_graph" where
  "add_edge tid dep g =
     (case dict_get g dep of
        None \<Rightarrow> g
      | Some n \<Rightarrow> dict_set dep (n\<lparr>en_children := en_children n @ [tid]\<rparr>) g)"

definition add_task_edges :: "ptask \<Rightarrow> task_graph \<Rightarrow> task_graph" where
  "add_task_edges t g = fold (add_edge (pt_task_id t)) (pt_depends_on t) g"

definition add_edges :: "ptask list \<Rightarrow> task_graph \<Rightarrow> task_graph" where
  "add_edges ts g = fold add_task_edges ts g"

text \<open>The state of the loop: the nodes, the open dependencies of each, and the queue.\<close>

type_synonym kahn_state = "task_graph \<times> (string, int) dict \<times> string list"

text \<open>The inner loop over the children of a node of level \<open>lv\<close>.\<close>

fun relax :: "int \<Rightarrow> string list \<Rightarrow> kahn_state \<Rightarrow> kahn_state" where
  "relax lv [] s = s"
| "relax lv (c # cs) (g, pending, ready) =
     (case (dict_get g c, dict_get pending c) of
        (Some child, Some k) \<Rightarrow>
          let g = dict_set c (child\<lparr>en_level := max (en_level child) (lv + 1)\<rparr>) g;
              pending = dict_set c (k - 1) pending;
              ready = (if k - 1 = 0 then ready @ [c] else ready)
          in relax lv cs (g, pending, ready)
      | _ \<Rightarrow> relax lv cs (g, pending, ready))"

definition open_count :: "(string, int) dict \<Rightarrow> nat" where
  "open_count pending = length (filter (\<lambda>(_, k). 0 < k) pending)"

lemma open_count_dec:
  "dict_get pending c = Some k \<Longrightarrow>
     open_count (dict_set c (k - 1) pending) + (if k - 1 = 0 then 1 else 0) \<le> open_count pending"
  unfolding open_count_def dict_get_def dict_set_def
  by (induction pending) (auto split: if_splits)

lemma relax_measure:
  "relax lv cs (g, pending, ready) = (g', pending', ready') \<Longrightarrow>
     open_count pending' + length ready' \<le> open_count pending + length ready"
proof (induction cs arbitrary: g pending ready)
  case (Cons c cs)
  show ?case
  proof (cases "dict_get g c")
    case None
    with Cons show ?thesis by simp
  next
    case (Some child)
    note child = Some
    show ?thesis
    proof (cases "dict_get pending c")
      case None
      with Cons child show ?thesis by simp
    next
      case (Some k)
      let ?r = "if k - 1 = 0 then ready @ [c] else ready"
      from Cons.prems child Some
      have "relax lv cs (dict_set c (child\<lparr>en_level := max (en_level child) (lv + 1)\<rparr>) g,
          dict_set c (k - 1) pending, ?r) = (g', pending', ready')"
        by (simp add: Let_def)
      from Cons.IH [OF this] open_count_dec [OF Some] show ?thesis by (auto split: if_splits)
    qed
  qed
qed simp

function kahn :: "task_graph \<Rightarrow> (string, int) dict \<Rightarrow> string list \<Rightarrow> nat \<Rightarrow> task_graph \<times> nat" where
  "kahn g pending [] visited = (g, visited)"
| "kahn g pending (x # ready) visited =
     (case dict_get g x of
        None \<Rightarrow> kahn g pending ready (Suc visited)
      | Some node \<Rightarrow>
          (case relax (en_level node) (en_children node) (g, pending, ready) of
             (g', pending', ready') \<Rightarrow> kahn g' pending' ready' (Suc visited)))"
  by pat_completeness auto
termination
  by (relation "measure (\<lambda>(g, pending, ready, visited). open_count pending + length ready)")
    (auto dest: relax_measure [OF sym])

definition graph_root_ids :: "task_graph \<Rightarrow> string list" where
  "graph_root_ids g = map fst (filter (\<lambda>(_, n). pt_depends_on (en_task n) = []) g)"

definition initial_pending :: "task_graph \<Rightarrow> (string, int) dict" where
  "initial_pending g = map (\<lambda>(k, n). (k, int (length (pt_depends_on (en_task n))))) g"

text \<open>The result is the graph and the identifiers of the roots \<open>build\<close> returns.\<close>

definition graph_build :: "ptask list \<Rightarrow> pyexn + task_graph \<times> string list" where
  "graph_build tasks =
     bindE (add_nodes tasks []) (\<lambda>g.
       let g = add_edges tasks g;
           rts = graph_root_ids g;
           (g, visited) = kahn g (initial_pending g) rts 0
       in if visited \<noteq> length g
          then Inl (ValueError ''TaskGraph contains missing or cyclic dependencies'')
          else Inr (g, rts))"

definition graph_roots :: "task_graph \<Rightarrow> enode list" where
  "graph_roots g = filter (\<lambda>n. pt_depends_on (en_task n) = []) (map snd g)"

definition graph_leaves :: "task_graph \<Rightarrow> enode list" where
  "graph_leaves g = filter en_is_leaf (map snd g)"

definition ready_nodes :: "string set \<Rightarrow> task_graph \<Rightarrow> enode list" where
  "ready_nodes completed g =
     filter (\<lambda>n. pt_status (en_task n) = TS_PENDING \<and> ptask_is_ready completed (en_task n)) (map snd g)"

definition max_level :: "task_graph \<Rightarrow> int" where
  "max_level g = (case map (en_level \<circ> snd) g of [] \<Rightarrow> 0 | l # ls \<Rightarrow> fold max ls l)"

definition level_order :: "task_graph \<Rightarrow> enode list list" where
  "level_order g =
     map (\<lambda>i. filter (\<lambda>n. en_level n = int i) (map snd g)) [0..<nat (max_level g + 1)]"

definition graph_is_complete :: "task_graph \<Rightarrow> bool" where
  "graph_is_complete g \<longleftrightarrow>
     (\<forall>n \<in> set (map snd g). pt_status (en_task n) \<in> {TS_COMPLETED, TS_SKIPPED, TS_FAILED})"

definition graph_summary :: "task_graph \<Rightarrow> jobj" where
  "graph_summary g =
     (let levels = level_order g in
      [(''total_nodes'', JInt (int (length g))),
       (''roots'', jstrs (map en_task_id (graph_roots g))),
       (''leaves'', jstrs (map en_task_id (graph_leaves g))),
       (''depth'', JInt (int (length levels))),
       (''by_level'', JList (map (\<lambda>lvl. jstrs (map en_task_id lvl)) levels))])"

definition to_mermaid :: "task_graph \<Rightarrow> string" where
  "to_mermaid g =
     py_join [CHR 0x0A] (''graph TD'' #
       concat (map (\<lambda>(_, n).
         (let tid = slice_last 8 (en_task_id n); desc = take 30 (pt_description (en_task n))
          in (''    '' @ tid @ ''['' @ [CHR 0x22] @ desc @ [CHR 0x22] @ '']'') #
             map (\<lambda>c. ''    '' @ tid @ '' --> '' @ slice_last 8 c) (en_children n))) g))"

section \<open>Views of a graph\<close>

text \<open>Dependencies, children and level of a node; the shape is what the loop never changes.\<close>

definition shape :: "task_graph \<Rightarrow> (string, ptask \<times> string list) dict" where
  "shape g = map (\<lambda>(k, n). (k, en_task n, en_children n)) g"

definition gdeps :: "task_graph \<Rightarrow> string \<Rightarrow> string list" where
  "gdeps g x = (case dict_get g x of None \<Rightarrow> [] | Some n \<Rightarrow> pt_depends_on (en_task n))"

definition gkids :: "task_graph \<Rightarrow> string \<Rightarrow> string list" where
  "gkids g x = (case dict_get g x of None \<Rightarrow> [] | Some n \<Rightarrow> en_children n)"

definition glev :: "task_graph \<Rightarrow> string \<Rightarrow> int" where
  "glev g x = (case dict_get g x of None \<Rightarrow> 0 | Some n \<Rightarrow> en_level n)"

abbreviation gkeys :: "task_graph \<Rightarrow> string set" where
  "gkeys g \<equiv> set (map fst g)"

lemma in_gkeys: "x \<in> gkeys g \<longleftrightarrow> (\<exists>n. dict_get g x = Some n)"
  using dict_get_None_iff [of g x] by auto

lemma map_fst_shape [simp]: "map fst (shape g) = map fst g"
  by (simp add: shape_def comp_def split_def)

lemma dict_get_shape: "dict_get (shape g) x = map_option (\<lambda>n. (en_task n, en_children n)) (dict_get g x)"
  by (induction g) (auto simp: shape_def)

lemma gdeps_shape: "gdeps g x = (case dict_get (shape g) x of None \<Rightarrow> [] | Some (t, cs) \<Rightarrow> pt_depends_on t)"
  by (simp add: gdeps_def dict_get_shape split: option.splits)

lemma gkids_shape: "gkids g x = (case dict_get (shape g) x of None \<Rightarrow> [] | Some (t, cs) \<Rightarrow> cs)"
  by (simp add: gkids_def dict_get_shape split: option.splits)

lemma shape_keys: "shape g' = shape g \<Longrightarrow> map fst g' = map fst g"
  by (metis map_fst_shape)

lemma shape_set_level:
  "dict_get g c = Some n \<Longrightarrow> shape (dict_set c (n\<lparr>en_level := l\<rparr>) g) = shape g"
  unfolding dict_get_def dict_set_def by (induction g) (auto simp: shape_def)

subsection \<open>The inner loop\<close>

lemma relax_effect:
  assumes "relax lv cs (g, p, r) = (g', p', r')"
    and "\<And>c. c \<in> set cs \<Longrightarrow> dict_get g c \<noteq> None"
    and "\<And>c. c \<in> set cs \<Longrightarrow> \<exists>k. dict_get p c = Some k \<and> int (count_list cs c) \<le> k"
  shows "shape g' = shape g \<and>
    (\<forall>x. glev g' x = (if x \<in> set cs then max (glev g x) (lv + 1) else glev g x)) \<and>
    (\<forall>x. dict_get p' x = map_option (\<lambda>k. k - int (count_list cs x)) (dict_get p x)) \<and>
    (\<exists>new. r' = r @ new \<and> distinct new \<and>
       set new = {c \<in> set cs. dict_get p c = Some (int (count_list cs c))})"
  using assms
proof (induction cs arbitrary: g p r)
  case (Cons c cs)
  from Cons.prems(2) [of c] obtain n where n: "dict_get g c = Some n" by auto
  from Cons.prems(3) [of c] obtain k where k: "dict_get p c = Some k" and ge: "int (count_list cs c) + 1 \<le> k"
    by auto
  define g1 where "g1 = dict_set c (n\<lparr>en_level := max (en_level n) (lv + 1)\<rparr>) g"
  define p1 where "p1 = dict_set c (k - 1) p"
  define r1 where "r1 = (if k - 1 = 0 then r @ [c] else r)"
  have run: "relax lv cs (g1, p1, r1) = (g', p', r')"
    using Cons.prems(1) n k by (simp add: g1_def p1_def r1_def Let_def)
  have dom: "\<And>x. x \<in> set cs \<Longrightarrow> dict_get g1 x \<noteq> None"
    using Cons.prems(2) by (simp add: g1_def)
  have enough: "\<exists>j. dict_get p1 x = Some j \<and> int (count_list cs x) \<le> j" if "x \<in> set cs" for x
    using Cons.prems(3) [of x] that k ge by (auto simp: p1_def split: if_splits)
  from Cons.IH [OF run dom enough] obtain new where
    sh: "shape g' = shape g1" and
    lev: "\<And>x. glev g' x = (if x \<in> set cs then max (glev g1 x) (lv + 1) else glev g1 x)" and
    pend: "\<And>x. dict_get p' x = map_option (\<lambda>k. k - int (count_list cs x)) (dict_get p1 x)" and
    new: "r' = r1 @ new" "distinct new" "set new = {c \<in> set cs. dict_get p1 c = Some (int (count_list cs c))}"
    by blast
  have lev1: "glev g1 x = (if x = c then max (glev g c) (lv + 1) else glev g x)" for x
    using n by (simp add: glev_def g1_def)
  have zero: "count_list cs c = 0 \<longleftrightarrow> c \<notin> set cs" by (simp add: count_list_0_iff)
  have p1: "dict_get p1 x = (if x = c then Some (k - 1) else dict_get p x)" for x
    by (simp add: p1_def)
  have mem: "x \<in> set new \<longleftrightarrow> x \<in> set cs \<and> dict_get p1 x = Some (int (count_list cs x))" for x
    unfolding new(3) by simp
  have q: "\<exists>new'. r' = r @ new' \<and> distinct new' \<and>
      set new' = {x \<in> set (c # cs). dict_get p x = Some (int (count_list (c # cs) x))}"
  proof (cases "k = 1")
    case True
    with ge zero have c: "c \<notin> set cs" by simp
    have "x \<in> set (c # new) \<longleftrightarrow> x \<in> set (c # cs) \<and> dict_get p x = Some (int (count_list (c # cs) x))" for x
      by (cases "x = c") (simp_all add: mem p1 k True c)
    then have "set (c # new) = {x \<in> set (c # cs). dict_get p x = Some (int (count_list (c # cs) x))}"
      by blast
    moreover have "distinct (c # new)" using new(2) c mem [of c] by simp
    moreover have "r' = r @ (c # new)" using new(1) True by (simp add: r1_def)
    ultimately show ?thesis by blast
  next
    case False
    have "x \<in> set new \<longleftrightarrow> x \<in> set (c # cs) \<and> dict_get p x = Some (int (count_list (c # cs) x))" for x
      using False zero by (cases "x = c") (auto simp: mem p1 k)
    then have "set new = {x \<in> set (c # cs). dict_get p x = Some (int (count_list (c # cs) x))}"
      by blast
    moreover have "r' = r @ new" using new(1) False by (simp add: r1_def)
    ultimately show ?thesis using new(2) by blast
  qed
  have "shape g' = shape g" using sh shape_set_level [OF n] by (simp add: g1_def)
  moreover have "glev g' x = (if x \<in> set (c # cs) then max (glev g x) (lv + 1) else glev g x)" for x
    by (auto simp: lev lev1)
  moreover have "dict_get p' x = map_option (\<lambda>j. j - int (count_list (c # cs) x)) (dict_get p x)" for x
    using k by (cases "dict_get p x") (auto simp: pend p1_def)
  ultimately show ?case using q by blast
qed (simp add: option.map_ident)

section \<open>The loop\<close>

text \<open>
  The invariant of Kahn's loop: \<open>done\<close> are the nodes taken from the queue so far. Queued
  nodes are exactly those whose dependencies are all done, the counters are the numbers of
  dependencies not done, and every level is the longest path through done dependencies.
\<close>

definition links_ok :: "task_graph \<Rightarrow> bool" where
  "links_ok g \<longleftrightarrow>
     wf_dict g \<and>
     (\<forall>y \<in> gkeys g. \<forall>c. count_list (gkids g y) c = (if c \<in> gkeys g then count_list (gdeps g c) y else 0))"

definition kahn_inv :: "task_graph \<Rightarrow> (string, int) dict \<Rightarrow> string list \<Rightarrow> string list \<Rightarrow> bool" where
  "kahn_inv g p ready done' \<longleftrightarrow>
     links_ok g \<and> distinct (done' @ ready) \<and>
     (\<forall>x. x \<in> set (done' @ ready) \<longleftrightarrow> x \<in> gkeys g \<and> set (gdeps g x) \<subseteq> set done') \<and>
     (\<forall>x \<in> gkeys g. dict_get p x = Some (int (length (filter (\<lambda>d. d \<notin> set done') (gdeps g x))))) \<and>
     (\<forall>x \<in> gkeys g. glev g x = Max (insert 0 ((\<lambda>d. glev g d + 1) ` (set (gdeps g x) \<inter> set done'))))"

lemma kahn_invD:
  assumes "kahn_inv g p ready done'"
  shows "links_ok g" "distinct (done' @ ready)"
    and "x \<in> set (done' @ ready) \<longleftrightarrow> x \<in> gkeys g \<and> set (gdeps g x) \<subseteq> set done'"
    and "x \<in> gkeys g \<Longrightarrow> glev g x = Max (insert 0 ((\<lambda>d. glev g d + 1) ` (set (gdeps g x) \<inter> set done')))"
  using assms unfolding kahn_inv_def by blast+

lemma filter_split_done:
  "x \<notin> set done' \<Longrightarrow>
     length (filter (\<lambda>d. d \<notin> set done') ds) =
       length (filter (\<lambda>d. d \<notin> set (done' @ [x])) ds) + count_list ds x"
  by (induction ds) auto

lemma count_list_pos: "0 < count_list xs x \<longleftrightarrow> x \<in> set xs"
  using count_list_0_iff [of xs x] by auto

lemma kahn_inv_step:
  assumes inv: "kahn_inv g p (x # ready) done'"
    and run: "relax (glev g x) (gkids g x) (g, p, ready) = (g', p', ready')"
  shows "kahn_inv g' p' ready' (done' @ [x])"
proof -
  let ?D = "set done'" and ?D' = "set (done' @ [x])"
  from inv have links: "links_ok g" and dist: "distinct (done' @ x # ready)"
    and queue: "\<And>y. y \<in> set (done' @ x # ready) \<longleftrightarrow> y \<in> gkeys g \<and> set (gdeps g y) \<subseteq> ?D"
    and pend: "\<And>y. y \<in> gkeys g \<Longrightarrow> dict_get p y = Some (int (length (filter (\<lambda>d. d \<notin> ?D) (gdeps g y))))"
    and lev: "\<And>y. y \<in> gkeys g \<Longrightarrow> glev g y = Max (insert 0 ((\<lambda>d. glev g d + 1) ` (set (gdeps g y) \<inter> ?D)))"
    by (auto simp: kahn_inv_def)
  from dist have xD: "x \<notin> ?D" by simp
  from queue [of x] have xK: "x \<in> gkeys g" and xdeps: "set (gdeps g x) \<subseteq> ?D" by auto
  from links xK have kids: "count_list (gkids g x) c = (if c \<in> gkeys g then count_list (gdeps g c) x else 0)" for c
    unfolding links_ok_def by blast
  have kid: "c \<in> set (gkids g x) \<longleftrightarrow> c \<in> gkeys g \<and> x \<in> set (gdeps g c)" for c
    using kids [of c] count_list_pos [of "gkids g x" c] count_list_pos [of "gdeps g c" x]
    by (auto split: if_splits)
  have dom: "dict_get g c \<noteq> None" if "c \<in> set (gkids g x)" for c
    using that kid in_gkeys by (metis option.distinct(1))
  have enough: "\<exists>k. dict_get p c = Some k \<and> int (count_list (gkids g x) c) \<le> k"
    if "c \<in> set (gkids g x)" for c
    using that kid kids [of c] pend [of c] filter_split_done [OF xD, of "gdeps g c"] by auto
  from relax_effect [OF run dom enough] obtain new where
    sh: "shape g' = shape g" and
    lev': "\<And>y. glev g' y = (if y \<in> set (gkids g x) then max (glev g y) (glev g x + 1) else glev g y)" and
    pend': "\<And>y. dict_get p' y = map_option (\<lambda>k. k - int (count_list (gkids g x) y)) (dict_get p y)" and
    new: "ready' = ready @ new" "distinct new"
      "set new = {c \<in> set (gkids g x). dict_get p c = Some (int (count_list (gkids g x) c))}"
    by blast
  have same: "gkeys g' = gkeys g" "gdeps g' = gdeps g" "gkids g' = gkids g" "wf_dict g' = wf_dict g"
    using sh shape_keys [OF sh] by (simp_all add: fun_eq_iff gdeps_shape gkids_shape)
  have pend1: "dict_get p' y = Some (int (length (filter (\<lambda>d. d \<notin> ?D') (gdeps g y))))"
    if "y \<in> gkeys g" for y
    using pend [OF that] pend' [of y] kids [of y] that filter_split_done [OF xD, of "gdeps g y"] by simp
  have newset: "set new = {c \<in> gkeys g. x \<in> set (gdeps g c) \<and> set (gdeps g c) \<subseteq> ?D'}"
  proof (rule set_eqI)
    fix c
    have "dict_get p c = Some (int (count_list (gkids g x) c)) \<longleftrightarrow> set (gdeps g c) \<subseteq> ?D'"
      if "c \<in> gkeys g"
    proof -
      have "dict_get p c = Some (int (count_list (gkids g x) c)) \<longleftrightarrow>
          length (filter (\<lambda>d. d \<notin> ?D') (gdeps g c)) = 0"
        using pend [OF that] kids [of c] that filter_split_done [OF xD, of "gdeps g c"] by simp
      also have "\<dots> \<longleftrightarrow> set (gdeps g c) \<subseteq> ?D'" by (auto simp: filter_empty_conv)
      finally show ?thesis .
    qed
    then show "c \<in> set new \<longleftrightarrow> c \<in> {c \<in> gkeys g. x \<in> set (gdeps g c) \<and> set (gdeps g c) \<subseteq> ?D'}"
      by (auto simp: new kid)
  qed
  have queue': "y \<in> set (done' @ [x] @ ready') \<longleftrightarrow> y \<in> gkeys g \<and> set (gdeps g y) \<subseteq> ?D'" for y
  proof -
    have "y \<in> set (done' @ [x] @ ready') \<longleftrightarrow> y \<in> set (done' @ x # ready) \<or> y \<in> set new"
      by (auto simp: new)
    also have "\<dots> \<longleftrightarrow> y \<in> gkeys g \<and> set (gdeps g y) \<subseteq> ?D'"
      unfolding queue newset by auto
    finally show ?thesis .
  qed
  have "set new \<inter> set (done' @ x # ready) = {}"
    using newset queue xD by auto
  with dist new have dist': "distinct ((done' @ [x]) @ ready')" by auto
  have level': "glev g' y = Max (insert 0 ((\<lambda>d. glev g' d + 1) ` (set (gdeps g y) \<inter> ?D')))"
    if y: "y \<in> gkeys g" for y
  proof -
    have stable: "glev g' d = glev g d" if "d \<in> ?D'" for d
    proof -
      have "d \<in> set (done' @ x # ready)" using that by auto
      with queue xD have "x \<notin> set (gdeps g d)" by blast
      then show ?thesis by (simp add: lev' kid)
    qed
    have im: "(\<lambda>d. glev g' d + 1) ` (set (gdeps g y) \<inter> S) = (\<lambda>d. glev g d + 1) ` (set (gdeps g y) \<inter> S)"
      if "S \<subseteq> ?D'" for S
      using that stable by (intro image_cong) auto
    show ?thesis
    proof (cases "x \<in> set (gdeps g y)")
      case True
      then have "set (gdeps g y) \<inter> ?D' = insert x (set (gdeps g y) \<inter> ?D)" by auto
      then have "insert 0 ((\<lambda>d. glev g d + 1) ` (set (gdeps g y) \<inter> ?D')) =
          insert (glev g x + 1) (insert 0 ((\<lambda>d. glev g d + 1) ` (set (gdeps g y) \<inter> ?D)))"
        by (simp add: insert_commute)
      then have "Max (insert 0 ((\<lambda>d. glev g d + 1) ` (set (gdeps g y) \<inter> ?D'))) =
          max (glev g x + 1) (glev g y)"
        by (simp only: Max_insert [OF finite_insert [THEN iffD2]] finite_imageI finite_Int finite_set
            insert_not_empty lev [OF y] simp_thms)
      moreover have "glev g' y = max (glev g y) (glev g x + 1)" using True y lev' [of y] kid [of y] by simp
      ultimately show ?thesis unfolding im [OF subset_refl] by (simp add: max.commute)
    next
      case False
      then have "set (gdeps g y) \<inter> ?D' = set (gdeps g y) \<inter> ?D" by auto
      with False lev [OF y] show ?thesis
        unfolding im [OF subset_refl] by (simp add: lev' kid)
    qed
  qed
  show ?thesis
    unfolding kahn_inv_def links_ok_def same
    using links dist' queue' pend1 level' by (auto simp: links_ok_def)
qed

lemma relax_shape:
  "relax lv cs (g, p, r) = (g', p', r') \<Longrightarrow> shape g' = shape g"
proof (induction cs arbitrary: g p r)
  case (Cons c cs)
  show ?case
  proof (cases "dict_get g c")
    case (Some n)
    note n = Some
    show ?thesis
    proof (cases "dict_get p c")
      case (Some k)
      with Cons.prems n have
        "relax lv cs (dict_set c (n\<lparr>en_level := max (en_level n) (lv + 1)\<rparr>) g, dict_set c (k - 1) p,
           if k - 1 = 0 then r @ [c] else r) = (g', p', r')"
        by (simp add: Let_def)
      from Cons.IH [OF this] shape_set_level [OF n] show ?thesis by simp
    qed (use Cons n in simp)
  qed (use Cons in simp)
qed simp

lemma kahn_final:
  assumes "kahn_inv g p ready done'" and "kahn g p ready v = (g', visited)" and "v = length done'"
  shows "\<exists>p' done''. kahn_inv g' p' [] done'' \<and> length done'' = visited \<and> shape g' = shape g"
  using assms
proof (induction g p ready v arbitrary: done' rule: kahn.induct)
  case (1 g pending)
  then show ?case by auto
next
  case (2 g pending x ready)
  from "2.prems"(1) have "x \<in> gkeys g" by (auto simp: kahn_inv_def)
  then obtain node where node: "dict_get g x = Some node" using in_gkeys by blast
  obtain g1 p1 r1 where run: "relax (en_level node) (en_children node) (g, pending, ready) = (g1, p1, r1)"
    by (cases "relax (en_level node) (en_children node) (g, pending, ready)") auto
  with node have "relax (glev g x) (gkids g x) (g, pending, ready) = (g1, p1, r1)"
    by (simp add: glev_def gkids_def)
  note step = kahn_inv_step [OF "2.prems"(1) this]
  have rest: "kahn g1 p1 r1 (Suc (length done')) = (g', visited)"
    using "2.prems"(2,3) node run by simp
  have "\<exists>p' done''. kahn_inv g' p' [] done'' \<and> length done'' = visited \<and> shape g' = shape g1"
    by (rule "2.IH"(2) [OF node run [symmetric] refl step]) (use rest "2.prems"(3) in simp_all)
  with relax_shape [OF run] show ?case by simp
qed

section \<open>The graph the loop starts from\<close>

abbreviation fresh_node :: "ptask \<Rightarrow> enode" where
  "fresh_node t \<equiv> \<lparr>en_task = t, en_children = [], en_level = 0\<rparr>"

lemma add_nodes_spec:
  "wf_dict g \<Longrightarrow> add_nodes ts g =
     (if distinct (map fst g @ map pt_task_id ts)
      then Inr (g @ map (\<lambda>t. (pt_task_id t, fresh_node t)) ts)
      else Inl (ValueError ''TaskGraph requires unique task ids''))"
proof (induction ts arbitrary: g)
  case (Cons t ts)
  show ?case
  proof (cases "dict_get g (pt_task_id t)")
    case None
    then have "wf_dict (dict_set (pt_task_id t) (fresh_node t) g)" using Cons.prems by simp
    from Cons.IH [OF this] None show ?thesis
      using dict_get_None_iff [of g "pt_task_id t"] by (auto simp: dict_set_new)
  next
    case (Some n)
    then show ?thesis
      using dict_get_None_iff [of g "pt_task_id t"] by auto
  qed
qed simp

lemma add_edge_get:
  "dict_get (add_edge tid dep g) y =
     map_option (\<lambda>n. if y = dep then n\<lparr>en_children := en_children n @ [tid]\<rparr> else n) (dict_get g y)"
  by (cases "dict_get g y") (auto simp: add_edge_def split: option.splits)

lemma add_edge_views [simp]:
  "map fst (add_edge tid dep g) = map fst g"
  "gdeps (add_edge tid dep g) = gdeps g"
  "glev (add_edge tid dep g) = glev g"
  by (auto simp: add_edge_def keys_dict_set gdeps_def glev_def fun_eq_iff split: option.splits)

lemma add_edge_kids:
  "gkids (add_edge tid dep g) y = (if y = dep \<and> dict_get g y \<noteq> None then gkids g y @ [tid] else gkids g y)"
  by (auto simp: gkids_def add_edge_get split: option.splits)

lemma add_edge_task:
  "map_option en_task (dict_get (add_edge tid dep g) y) = map_option en_task (dict_get g y)"
  by (simp add: add_edge_get option.map_comp comp_def if_distrib cong: if_cong)

lemma dict_get_add_edge_None: "dict_get (add_edge tid dep g) y = None \<longleftrightarrow> dict_get g y = None"
  by (simp add: add_edge_get)

lemma fold_edge_views:
  "map fst (fold (add_edge tid) ds g) = map fst g \<and> gdeps (fold (add_edge tid) ds g) = gdeps g \<and>
   glev (fold (add_edge tid) ds g) = glev g \<and>
   (\<forall>y. (dict_get (fold (add_edge tid) ds g) y = None) = (dict_get g y = None)) \<and>
   (\<forall>y. map_option en_task (dict_get (fold (add_edge tid) ds g) y) = map_option en_task (dict_get g y)) \<and>
   (\<forall>y c. count_list (gkids (fold (add_edge tid) ds g) y) c =
      count_list (gkids g y) c + (if dict_get g y \<noteq> None \<and> c = tid then count_list ds y else 0))"
proof (induction ds arbitrary: g)
  case (Cons d ds)
  have kids: "count_list (gkids (add_edge tid d g) y) c =
      count_list (gkids g y) c + (if dict_get g y \<noteq> None \<and> c = tid \<and> d = y then 1 else 0)" for y c
    by (auto simp: add_edge_kids)
  show ?case
    using Cons.IH [of "add_edge tid d g"] by (auto simp: kids add_edge_task dict_get_add_edge_None)
qed simp

lemma add_edges_views:
  "map fst (add_edges ts g) = map fst g \<and> gdeps (add_edges ts g) = gdeps g \<and>
   glev (add_edges ts g) = glev g \<and>
   (\<forall>y. (dict_get (add_edges ts g) y = None) = (dict_get g y = None)) \<and>
   (\<forall>y. map_option en_task (dict_get (add_edges ts g) y) = map_option en_task (dict_get g y)) \<and>
   (\<forall>y c. count_list (gkids (add_edges ts g) y) c =
      count_list (gkids g y) c +
      (if dict_get g y \<noteq> None
       then sum_list (map (\<lambda>t. if c = pt_task_id t then count_list (pt_depends_on t) y else 0) ts) else 0))"
  unfolding add_edges_def
proof (induction ts arbitrary: g)
  case (Cons t ts)
  have one: "map fst (add_task_edges t g) = map fst g" "gdeps (add_task_edges t g) = gdeps g"
    "glev (add_task_edges t g) = glev g"
    "\<And>y. (dict_get (add_task_edges t g) y = None) = (dict_get g y = None)"
    "\<And>y. map_option en_task (dict_get (add_task_edges t g) y) = map_option en_task (dict_get g y)"
    "\<And>y c. count_list (gkids (add_task_edges t g) y) c = count_list (gkids g y) c +
      (if dict_get g y \<noteq> None \<and> c = pt_task_id t then count_list (pt_depends_on t) y else 0)"
    using fold_edge_views [of "pt_task_id t" "pt_depends_on t" g] by (simp_all add: add_task_edges_def)
  show ?case
    using Cons.IH [of "add_task_edges t g"] by (auto simp: one)
qed simp

lemma sum_list_at_id:
  assumes "distinct (map pt_task_id ts)" "t \<in> set ts"
  shows "sum_list (map (\<lambda>u. if pt_task_id t = pt_task_id u then f u else (0::nat)) ts) = f t"
proof -
  have zero: "sum_list (map (\<lambda>u. if i = pt_task_id u then f u else (0::nat)) us) = 0"
    if "i \<notin> pt_task_id ` set us" for us i
    using that by (induction us) auto
  show ?thesis using assms
  proof (induction ts)
    case (Cons u us)
    show ?case
    proof (cases "pt_task_id t = pt_task_id u")
      case True
      then have "u = t" using Cons.prems by (metis distinct.simps(2) imageI list.set_map list.simps(9) set_ConsD)
      moreover have "sum_list (map (\<lambda>v. if pt_task_id t = pt_task_id v then f v else 0) us) = 0"
        by (rule zero) (use Cons.prems True in auto)
      ultimately show ?thesis by simp
    next
      case False
      with Cons show ?thesis by auto
    qed
  qed simp
qed

text \<open>The graph before the loop: nodes in task order, no levels yet, and consistent links.\<close>

definition linked_graph :: "ptask list \<Rightarrow> task_graph" where
  "linked_graph ts = add_edges ts (map (\<lambda>t. (pt_task_id t, fresh_node t)) ts)"

lemma linked_graph_views:
  assumes "distinct (map pt_task_id ts)"
  shows "map fst (linked_graph ts) = map pt_task_id ts"
    and "t \<in> set ts \<Longrightarrow> gdeps (linked_graph ts) (pt_task_id t) = pt_depends_on t"
    and "glev (linked_graph ts) y = 0"
    and "t \<in> set ts \<Longrightarrow> \<exists>n. dict_get (linked_graph ts) (pt_task_id t) = Some n \<and> en_task n = t"
    and "links_ok (linked_graph ts)"
proof -
  let ?g = "map (\<lambda>t. (pt_task_id t, fresh_node t)) ts"
  have base: "dict_get ?g (pt_task_id t) = Some (fresh_node t)" if "t \<in> set ts" for t
    using that assms by (intro in_dict_get) (auto simp: comp_def)
  have fst: "map fst ?g = map pt_task_id ts" by (simp add: comp_def)
  note views = add_edges_views [of ts ?g, folded linked_graph_def]
  from views fst show keys: "map fst (linked_graph ts) = map pt_task_id ts" by simp
  have deps: "gdeps (linked_graph ts) (pt_task_id t) = pt_depends_on t" if "t \<in> set ts" for t
    using views base [OF that] by (simp add: gdeps_def)
  then show "t \<in> set ts \<Longrightarrow> gdeps (linked_graph ts) (pt_task_id t) = pt_depends_on t" .
  have none: "dict_get ?g y = None" if "y \<notin> set (map pt_task_id ts)" for y
    using that dict_get_None_iff [of ?g y] by (simp add: image_image)
  have "glev ?g y = 0" for y
    using base none [of y] by (cases "y \<in> set (map pt_task_id ts)") (auto simp: glev_def)
  with views show "glev (linked_graph ts) y = 0" by simp
  show "\<exists>n. dict_get (linked_graph ts) (pt_task_id t) = Some n \<and> en_task n = t" if "t \<in> set ts"
  proof -
    have "map_option en_task (dict_get (linked_graph ts) (pt_task_id t)) = Some t"
      using views base [OF that] by simp
    then show ?thesis by (auto simp: map_option_eq_Some)
  qed
  have nokids: "gkids ?g y = []" for y
    using base none [of y] by (cases "y \<in> set (map pt_task_id ts)") (auto simp: gkids_def)
  show "links_ok (linked_graph ts)"
    unfolding links_ok_def
  proof (intro conjI ballI allI)
    show "wf_dict (linked_graph ts)" using keys assms by simp
    fix y c assume "y \<in> gkeys (linked_graph ts)"
    then have "dict_get ?g y \<noteq> None" using keys base by auto
    then have count: "count_list (gkids (linked_graph ts) y) c =
        sum_list (map (\<lambda>t. if c = pt_task_id t then count_list (pt_depends_on t) y else 0) ts)"
      using views nokids [of y] by simp
    show "count_list (gkids (linked_graph ts) y) c =
        (if c \<in> gkeys (linked_graph ts) then count_list (gdeps (linked_graph ts) c) y else 0)"
    proof (cases "c \<in> set (map pt_task_id ts)")
      case True
      then obtain t where t: "t \<in> set ts" "c = pt_task_id t" by auto
      have "count_list (gkids (linked_graph ts) y) c = count_list (pt_depends_on t) y"
        unfolding count unfolding t(2) by (rule sum_list_at_id [OF assms t(1)])
      then show ?thesis using deps [OF t(1)] keys t True by simp
    next
      case False
      then have "map (\<lambda>t. if c = pt_task_id t then count_list (pt_depends_on t) y else 0) ts = map (\<lambda>t. 0) ts"
        by (intro map_cong) auto
      with False count keys show ?thesis by (simp add: map_replicate_const)
    qed
  qed
qed

lemma kahn_start:
  assumes "links_ok g" and "\<And>y. glev g y = 0"
  shows "kahn_inv g (initial_pending g) (graph_root_ids g) []"
proof -
  from assms(1) have wf: "wf_dict g" by (simp add: links_ok_def)
  have roots: "x \<in> set (graph_root_ids g) \<longleftrightarrow> x \<in> gkeys g \<and> gdeps g x = []" for x
  proof -
    have "x \<in> set (graph_root_ids g) \<longleftrightarrow> (\<exists>n. (x, n) \<in> set g \<and> pt_depends_on (en_task n) = [])"
      by (force simp: graph_root_ids_def)
    also have "\<dots> \<longleftrightarrow> (\<exists>n. dict_get g x = Some n \<and> pt_depends_on (en_task n) = [])"
      using in_dict_get [OF wf] dict_get_in by metis
    also have "\<dots> \<longleftrightarrow> x \<in> gkeys g \<and> gdeps g x = []"
      unfolding in_gkeys by (auto simp: gdeps_def)
    finally show ?thesis .
  qed
  have dist: "distinct (graph_root_ids g)"
    using wf unfolding graph_root_ids_def by (rule distinct_map_filter)
  have pend: "dict_get (initial_pending g) x = map_option (\<lambda>n. int (length (pt_depends_on (en_task n)))) (dict_get g x)" for x
    by (induction g) (auto simp: initial_pending_def)
  have "dict_get (initial_pending g) x = Some (int (length (gdeps g x)))" if "x \<in> gkeys g" for x
    using that pend [of x] in_gkeys [of x g] by (auto simp: gdeps_def)
  with assms roots dist show ?thesis
    unfolding kahn_inv_def by simp
qed

section \<open>What build promises\<close>

definition dep_edges :: "ptask list \<Rightarrow> (string \<times> string) list" where
  "dep_edges ts = concat (map (\<lambda>t. map (\<lambda>d. (d, pt_task_id t)) (pt_depends_on t)) ts)"

lemma dep_edges_iff: "(d, c) \<in> set (dep_edges ts) \<longleftrightarrow> (\<exists>t \<in> set ts. c = pt_task_id t \<and> d \<in> set (pt_depends_on t))"
  by (auto simp: dep_edges_def)

lemma graph_build_unfold:
  "graph_build ts =
     (if \<not> distinct (map pt_task_id ts) then Inl (ValueError ''TaskGraph requires unique task ids'')
      else let lg = linked_graph ts; (g, visited) = kahn lg (initial_pending lg) (graph_root_ids lg) 0
           in if visited \<noteq> length ts
              then Inl (ValueError ''TaskGraph contains missing or cyclic dependencies'')
              else Inr (g, graph_root_ids lg))"
proof (cases "distinct (map pt_task_id ts)")
  case True
  obtain g v where k: "kahn (linked_graph ts) (initial_pending (linked_graph ts)) (graph_root_ids (linked_graph ts)) 0 = (g, v)"
    by (cases "kahn (linked_graph ts) (initial_pending (linked_graph ts)) (graph_root_ids (linked_graph ts)) 0") auto
  have "shape g = shape (linked_graph ts)"
    using kahn_final [OF kahn_start [OF linked_graph_views(5) [OF True] linked_graph_views(3) [OF True]] k] by auto
  then have "length g = length ts"
    using linked_graph_views(1) [OF True] by (metis length_map shape_keys)
  with k True show ?thesis
    using add_nodes_spec [of "[]" ts] by (simp add: graph_build_def linked_graph_def Let_def)
qed (simp add: graph_build_def add_nodes_spec)

lemma kahn_result:
  assumes "distinct (map pt_task_id ts)"
  obtains g v done' p where
    "kahn (linked_graph ts) (initial_pending (linked_graph ts)) (graph_root_ids (linked_graph ts)) 0 = (g, v)"
    "kahn_inv g p [] done'" "length done' = v" "shape g = shape (linked_graph ts)"
    "set done' \<subseteq> set (map pt_task_id ts)" "v = length ts \<longleftrightarrow> set done' = set (map pt_task_id ts)"
proof -
  obtain g v where k: "kahn (linked_graph ts) (initial_pending (linked_graph ts)) (graph_root_ids (linked_graph ts)) 0 = (g, v)"
    by (cases "kahn (linked_graph ts) (initial_pending (linked_graph ts)) (graph_root_ids (linked_graph ts)) 0") auto
  obtain p done' where f: "kahn_inv g p [] done'" "length done' = v" "shape g = shape (linked_graph ts)"
    using kahn_final [OF kahn_start [OF linked_graph_views(5) [OF assms] linked_graph_views(3) [OF assms]] k] by auto
  have keys: "map fst g = map pt_task_id ts"
    using f(3) linked_graph_views(1) [OF assms] by (metis shape_keys)
  have inv: "distinct done'" "\<And>x. x \<in> set done' \<Longrightarrow> x \<in> gkeys g"
    using kahn_invD(2,3) [OF f(1)] by simp_all
  then have sub: "set done' \<subseteq> set (map pt_task_id ts)" using keys by (metis subsetI)
  have "card (set done') = v" using inv f(2) by (simp add: distinct_card)
  moreover have "card (set (map pt_task_id ts)) = length ts" using assms distinct_card [OF assms] by simp
  ultimately have "v = length ts \<longleftrightarrow> set done' = set (map pt_task_id ts)"
    using card_subset_eq [OF finite_set sub] by metis
  with f show thesis by (intro that [OF k _ _ _ sub])
qed

lemma shape_linked_deps:
  assumes "distinct (map pt_task_id ts)" "shape g = shape (linked_graph ts)" "t \<in> set ts"
  shows "gdeps g (pt_task_id t) = pt_depends_on t"
  using linked_graph_views(2) [OF assms(1,3)] assms(2) by (simp add: gdeps_shape)

lemma kahn_inv_level:
  assumes "kahn_inv g p [] done'" "set done' = gkeys g" "x \<in> gkeys g"
  shows "set (gdeps g x) \<subseteq> gkeys g"
    and "glev g x = Max (insert 0 ((\<lambda>d. glev g d + 1) ` set (gdeps g x)))"
proof -
  from kahn_invD(3) [OF assms(1), of x] assms(2,3) show sub: "set (gdeps g x) \<subseteq> gkeys g" by simp
  then have "set (gdeps g x) \<inter> set done' = set (gdeps g x)" using assms(2) by auto
  with kahn_invD(4) [OF assms(1,3)] show "glev g x = Max (insert 0 ((\<lambda>d. glev g d + 1) ` set (gdeps g x)))"
    by simp
qed

lemma level_above_deps:
  assumes "kahn_inv g p [] done'" "set done' = gkeys g" "x \<in> gkeys g" "d \<in> set (gdeps g x)"
  shows "glev g d < glev g x"
proof -
  have "glev g d + 1 \<le> Max (insert 0 ((\<lambda>d. glev g d + 1) ` set (gdeps g x)))"
    using assms(4) by (intro Max_ge) auto
  then show ?thesis using kahn_inv_level(2) [OF assms(1-3)] by simp
qed

text \<open>All nodes are visited exactly when no dependency is missing and none is cyclic.\<close>

lemma kahn_complete_iff:
  assumes dist: "distinct (map pt_task_id ts)" and inv: "kahn_inv g p [] done'"
    and sh: "shape g = shape (linked_graph ts)"
  shows "set done' = set (map pt_task_id ts) \<longleftrightarrow>
    set (concat (map pt_depends_on ts)) \<subseteq> set (map pt_task_id ts) \<and> acyclic (set (dep_edges ts))"
    (is "?full \<longleftrightarrow> ?closed \<and> ?acyclic")
proof -
  have keys: "gkeys g = set (map pt_task_id ts)"
    using sh linked_graph_views(1) [OF dist] by (metis shape_keys)
  note deps = shape_linked_deps [OF dist sh]
  show ?thesis
  proof (intro iffI conjI)
    assume full: ?full
    then have all: "set done' = gkeys g" by (simp only: keys)
    show ?closed
    proof
      fix d assume "d \<in> set (concat (map pt_depends_on ts))"
      then obtain t where t: "t \<in> set ts" "d \<in> set (pt_depends_on t)" by auto
      then have "pt_task_id t \<in> gkeys g" using keys by simp
      from kahn_inv_level(1) [OF inv all this] t deps [OF t(1)] show "d \<in> set (map pt_task_id ts)"
        using keys by auto
    qed
    have "set (dep_edges ts) \<subseteq> measure (\<lambda>x. nat (glev g x + 1))"
    proof (rule subrelI)
      fix d c assume "(d, c) \<in> set (dep_edges ts)"
      then obtain t where t: "t \<in> set ts" "c = pt_task_id t" "d \<in> set (pt_depends_on t)"
        by (auto simp: dep_edges_iff)
      have c: "c \<in> gkeys g" using t keys by simp
      have d: "d \<in> set (gdeps g c)" using t deps [OF t(1)] by simp
      have "0 \<le> glev g c" using kahn_inv_level(2) [OF inv all c] by simp
      with level_above_deps [OF inv all c d] show "(d, c) \<in> measure (\<lambda>x. nat (glev g x + 1))" by simp
    qed
    then show ?acyclic using wf_acyclic wf_subset wf_measure by metis
  next
    assume "?closed \<and> ?acyclic"
    then have closed: ?closed and ac: ?acyclic by auto
    have wf: "wf (set (dep_edges ts))" by (rule finite_acyclic_wf [OF _ ac]) simp
    have "x \<in> set (map pt_task_id ts) \<longrightarrow> x \<in> set done'" for x
    proof (induction x rule: wf_induct_rule [OF wf])
      case (1 x)
      show ?case
      proof
        assume "x \<in> set (map pt_task_id ts)"
        then obtain t where t: "t \<in> set ts" "x = pt_task_id t" by auto
        have "set (gdeps g x) \<subseteq> set done'"
        proof
          fix d assume "d \<in> set (gdeps g x)"
          then have d: "d \<in> set (pt_depends_on t)" using deps [OF t(1)] t(2) by simp
          then have "d \<in> set (map pt_task_id ts)" using closed t(1) by auto
          moreover have "(d, x) \<in> set (dep_edges ts)" using d t by (auto simp: dep_edges_iff)
          ultimately show "d \<in> set done'" using "1.IH" by blast
        qed
        moreover have "x \<in> gkeys g" using t keys by simp
        ultimately show "x \<in> set done'" using kahn_invD(3) [OF inv, of x] by simp
      qed
    qed
    moreover have "set done' \<subseteq> gkeys g" using kahn_invD(3) [OF inv] by auto
    ultimately show ?full using keys by blast
  qed
qed

lemma graph_build_iff:
  "((\<exists>g roots. graph_build ts = Inr (g, roots)) \<longleftrightarrow>
      distinct (map pt_task_id ts) \<and>
      set (concat (map pt_depends_on ts)) \<subseteq> set (map pt_task_id ts) \<and>
      acyclic (set (dep_edges ts))) \<and>
   (graph_build ts = Inl (ValueError ''TaskGraph requires unique task ids'') \<longleftrightarrow>
      \<not> distinct (map pt_task_id ts)) \<and>
   graph_build ts \<in> {Inl (ValueError ''TaskGraph requires unique task ids''),
     Inl (ValueError ''TaskGraph contains missing or cyclic dependencies'')} \<union> range Inr"
proof (cases "distinct (map pt_task_id ts)")
  case True
  then obtain g v done' p where
    "kahn (linked_graph ts) (initial_pending (linked_graph ts)) (graph_root_ids (linked_graph ts)) 0 = (g, v)"
    "kahn_inv g p [] done'" "shape g = shape (linked_graph ts)"
    "v = length ts \<longleftrightarrow> set done' = set (map pt_task_id ts)"
    by (rule kahn_result)
  with True kahn_complete_iff [OF True this(2,3)] show ?thesis
    by (simp add: graph_build_unfold Let_def)
qed (simp add: graph_build_unfold)

text \<open>
  C7: \<open>TaskGraph.build\<close> succeeds exactly when the task ids are unique, every dependency names a
  task of the plan, and the dependency relation has no cycle; it refuses duplicate ids first,
  and every other refusal is the one error for missing or cyclic dependencies.
\<close>
theorem graph_build_accepts:
  "((\<exists>g roots. graph_build ts = Inr (g, roots)) \<longleftrightarrow>
      distinct (map pt_task_id ts) \<and>
      set (concat (map pt_depends_on ts)) \<subseteq> set (map pt_task_id ts) \<and>
      acyclic (set (dep_edges ts))) \<and>
   (graph_build ts = Inl (ValueError ''TaskGraph requires unique task ids'') \<longleftrightarrow>
      \<not> distinct (map pt_task_id ts)) \<and>
   graph_build ts \<in> {Inl (ValueError ''TaskGraph requires unique task ids''),
     Inl (ValueError ''TaskGraph contains missing or cyclic dependencies'')} \<union> range Inr"
  by (rule graph_build_iff)

lemma map_node_tasks:
  assumes "distinct (map pt_task_id ts)" "shape g = shape (linked_graph ts)"
  shows "map (\<lambda>(k, n). (k, en_task n)) g = map (\<lambda>t. (pt_task_id t, t)) ts"
proof -
  have keys: "map fst g = map pt_task_id ts"
    using shape_keys [OF assms(2)] linked_graph_views(1) [OF assms(1)] by simp
  then have wf: "wf_dict g" and len: "length g = length ts"
    using assms(1) map_eq_imp_length_eq by auto
  show ?thesis
  proof (rule nth_equalityI)
    fix i assume "i < length (map (\<lambda>(k, n). (k, en_task n)) g)"
    then have i: "i < length ts" using len by simp
    obtain n where gi: "g ! i = (pt_task_id (ts ! i), n)"
      using i len keys by (metis fst_conv nth_map surj_pair)
    have "(pt_task_id (ts ! i), n) \<in> set g"
      using i len gi by (metis nth_mem)
    then have "dict_get g (pt_task_id (ts ! i)) = Some n" by (rule in_dict_get [OF wf])
    moreover obtain m where "dict_get (linked_graph ts) (pt_task_id (ts ! i)) = Some m" "en_task m = ts ! i"
      using linked_graph_views(4) [OF assms(1), of "ts ! i"] i by auto
    moreover have "map_option fst (dict_get (shape h) x) = map_option en_task (dict_get h x)" for h x
      by (simp add: dict_get_shape option.map_comp comp_def)
    then have "map_option en_task (dict_get g x) = map_option en_task (dict_get (linked_graph ts) x)" for x
      using assms(2) by metis
    from this [of "pt_task_id (ts ! i)"] have
      "map_option en_task (dict_get g (pt_task_id (ts ! i))) =
       map_option en_task (dict_get (linked_graph ts) (pt_task_id (ts ! i)))" .
    ultimately have "en_task n = ts ! i" by simp
    with gi i len show "map (\<lambda>(k, n). (k, en_task n)) g ! i = map (\<lambda>t. (pt_task_id t, t)) ts ! i" by simp
  qed (simp add: len)
qed

text \<open>The facts about a built graph that the other components use.\<close>

lemma graph_build_facts:
  assumes "graph_build ts = Inr (g, rts)"
  shows "map (\<lambda>(k, n). (k, en_task n)) g = map (\<lambda>t. (pt_task_id t, t)) ts"
    and "distinct (map pt_task_id ts)"
    and "rts = map pt_task_id (filter (\<lambda>t. pt_depends_on t = []) ts)"
    and "t \<in> set ts \<Longrightarrow> set (pt_depends_on t) \<subseteq> set (map pt_task_id ts)"
    and "t \<in> set ts \<Longrightarrow> glev g (pt_task_id t) = Max (insert 0 ((\<lambda>d. glev g d + 1) ` set (pt_depends_on t)))"
    and "t \<in> set ts \<Longrightarrow> d \<in> set (pt_depends_on t) \<Longrightarrow> glev g d < glev g (pt_task_id t)"
proof -
  have dist: "distinct (map pt_task_id ts)"
    using assms by (auto simp: graph_build_unfold split: if_splits)
  let ?run = "kahn (linked_graph ts) (initial_pending (linked_graph ts)) (graph_root_ids (linked_graph ts)) 0"
  obtain g0 v done' p where k0: "?run = (g0, v)" "kahn_inv g0 p [] done'" "shape g0 = shape (linked_graph ts)"
    "v = length ts \<longleftrightarrow> set done' = set (map pt_task_id ts)"
    by (rule kahn_result [OF dist])
  then have g0: "g0 = g" "v = length ts" "rts = graph_root_ids (linked_graph ts)"
    using assms dist by (simp_all add: graph_build_unfold Let_def split: if_splits)
  note k = k0 [unfolded g0(1)]
  have keys: "gkeys g = set (map pt_task_id ts)"
    using shape_keys [OF k(3)] linked_graph_views(1) [OF dist] by simp
  have all: "set done' = gkeys g" using k(4) g0(2) keys by blast
  show nodes: "map (\<lambda>(k, n). (k, en_task n)) g = map (\<lambda>t. (pt_task_id t, t)) ts"
    by (rule map_node_tasks [OF dist k(3)])
  show "distinct (map pt_task_id ts)" by (rule dist)
  have "rts = graph_root_ids (linked_graph ts)" by (rule g0(3))
  also have "\<dots> = map fst (filter (\<lambda>(k, t). pt_depends_on t = []) (map (\<lambda>(k, n). (k, en_task n)) (linked_graph ts)))"
    by (simp add: graph_root_ids_def filter_map comp_def split_def)
  also have "\<dots> = map pt_task_id (filter (\<lambda>t. pt_depends_on t = []) ts)"
    unfolding map_node_tasks [OF dist refl] by (simp add: filter_map comp_def)
  finally show "rts = map pt_task_id (filter (\<lambda>t. pt_depends_on t = []) ts)" .
  note deps = shape_linked_deps [OF dist k(3)]
  have mem: "pt_task_id t \<in> gkeys g" if "t \<in> set ts" for t using that keys by simp
  show "set (pt_depends_on t) \<subseteq> set (map pt_task_id ts)" if "t \<in> set ts"
    using kahn_inv_level(1) [OF k(2) all mem [OF that]] deps [OF that] keys by simp
  show "glev g (pt_task_id t) = Max (insert 0 ((\<lambda>d. glev g d + 1) ` set (pt_depends_on t)))" if "t \<in> set ts"
    using kahn_inv_level(2) [OF k(2) all mem [OF that]] deps [OF that] by simp
  show "glev g d < glev g (pt_task_id t)" if "t \<in> set ts" "d \<in> set (pt_depends_on t)"
    by (rule level_above_deps [OF k(2) all mem [OF that(1)]]) (use that deps in simp)
qed

subsection \<open>Waves\<close>

lemma max_level_ge: "n \<in> set (map snd g) \<Longrightarrow> en_level n \<le> max_level g"
proof -
  have fold: "l \<le> fold max ls l \<and> (\<forall>x \<in> set ls. x \<le> fold max ls l)" for ls and l :: int
  proof (induction ls arbitrary: l)
    case (Cons a ls)
    from Cons.IH [of "max a l"] show ?case by auto
  qed simp
  assume "n \<in> set (map snd g)"
  then have "en_level n \<in> set (map (en_level \<circ> snd) g)" by auto
  then show ?thesis
    unfolding max_level_def using fold
    by (cases "map (en_level \<circ> snd) g") (auto simp del: fold.simps map_eq_Cons_conv list.set_map)
qed

lemma mset_buckets:
  "mset (concat (map (\<lambda>i. filter (\<lambda>n. f n = int i) xs) [0..<k])) = mset (filter (\<lambda>n. 0 \<le> f n \<and> f n < int k) xs)"
proof (induction k)
  case (Suc k)
  have "mset (filter (\<lambda>n. 0 \<le> f n \<and> f n < int (Suc k)) xs) =
      mset (filter (\<lambda>n. 0 \<le> f n \<and> f n < int k) xs) + mset (filter (\<lambda>n. f n = int k) xs)"
    by (induction xs) auto
  with Suc show ?case by simp
qed simp

lemma graph_build_levels:
  assumes "graph_build ts = Inr (g, rts)" "n \<in> set (map snd g)"
  shows "0 \<le> en_level n" and "en_task n \<in> set ts" and "glev g (en_task_id n) = en_level n"
proof -
  note facts = graph_build_facts [OF assms(1)]
  from assms(2) obtain k where k: "(k, n) \<in> set g" by auto
  then have "(k, en_task n) \<in> set (map (\<lambda>(k, n). (k, en_task n)) g)" by force
  then have kt: "k = en_task_id n" "en_task n \<in> set ts"
    unfolding facts(1) by (auto simp: en_task_id_def)
  have "map fst g = map fst (map (\<lambda>(k, n). (k, en_task n)) g)" by (simp add: comp_def split_def)
  also have "\<dots> = map pt_task_id ts" unfolding facts(1) by (simp add: comp_def)
  finally have "wf_dict g" using facts(2) by simp
  then have "dict_get g k = Some n" using k by (rule in_dict_get)
  then show lev: "glev g (en_task_id n) = en_level n" using kt by (simp add: glev_def)
  show "en_task n \<in> set ts" by (rule kt(2))
  have "0 \<le> glev g (pt_task_id (en_task n))" unfolding facts(5) [OF kt(2)] by (rule Max_ge) auto
  then show "0 \<le> en_level n" using lev by (simp add: en_task_id_def)
qed

lemma level_order_member:
  assumes "graph_build ts = Inr (g, rts)"
  shows "i < length (level_order g) \<Longrightarrow> n \<in> set (level_order g ! i) \<longleftrightarrow> n \<in> set (map snd g) \<and> en_level n = int i"
    and "n \<in> set (map snd g) \<Longrightarrow> nat (en_level n) < length (level_order g)"
  using max_level_ge [of n g] graph_build_levels(1) [OF assms, of n]
  by (auto simp: level_order_def simp del: set_map)

lemma graph_level_facts:
  assumes "graph_build ts = Inr (g, rts)"
  shows "map (en_task \<circ> snd) g = ts \<and>
    mset (concat (level_order g)) = mset (map snd g) \<and>
    (\<forall>i < length (level_order g). \<forall>n \<in> set (level_order g ! i).
       (\<forall>d \<in> set (pt_depends_on (en_task n)).
          \<exists>j < i. \<exists>m \<in> set (level_order g ! j). en_task_id m = d) \<and>
       (0 < i \<longrightarrow> (\<exists>d \<in> set (pt_depends_on (en_task n)).
          \<exists>m \<in> set (level_order g ! (i - 1)). en_task_id m = d)))"
proof (intro conjI allI impI ballI)
  note facts = graph_build_facts [OF assms] and levels = graph_build_levels [OF assms]
  note member = level_order_member [OF assms]
  have "map (en_task \<circ> snd) g = map snd (map (\<lambda>(k, n). (k, en_task n)) g)"
    by (simp add: comp_def split_def)
  then show tasks: "map (en_task \<circ> snd) g = ts" unfolding facts(1) by (simp add: comp_def)
  have "filter (\<lambda>n. 0 \<le> en_level n \<and> en_level n < int (nat (max_level g + 1))) (map snd g) = map snd g"
    using max_level_ge [of _ g] levels(1) by (intro filter_True) force
  then show "mset (concat (level_order g)) = mset (map snd g)"
    using mset_buckets [of en_level "map snd g" "nat (max_level g + 1)"] by (simp add: level_order_def)
  have node: "\<exists>m \<in> set (level_order g ! nat (glev g d)). en_task_id m = d \<and> nat (glev g d) < length (level_order g)
      \<and> 0 \<le> glev g d" if "t \<in> set ts" "d \<in> set (pt_depends_on t)" for t d
  proof -
    from facts(4) [OF that(1)] that(2) obtain u where u: "u \<in> set ts" "pt_task_id u = d" by auto
    then obtain m where m: "m \<in> set (map snd g)" "en_task m = u"
      using tasks by (metis (no_types, lifting) comp_apply image_iff list.set_map)
    then have "en_task_id m = d" using u by (simp add: en_task_id_def)
    with m levels [OF m(1)] member(1) [of "nat (en_level m)" m] member(2) [OF m(1)] show ?thesis by auto
  qed
  fix i n assume i: "i < length (level_order g)" and n: "n \<in> set (level_order g ! i)"
  then have n': "n \<in> set (map snd g)" "en_level n = int i" using member(1) [OF i] by auto
  note t = levels(2) [OF n'(1)] and lev = levels(3) [OF n'(1)]
  show "\<exists>j < i. \<exists>m \<in> set (level_order g ! j). en_task_id m = d" if "d \<in> set (pt_depends_on (en_task n))" for d
  proof -
    have "glev g d < int i" using facts(6) [OF t that] lev n'(2) by (simp add: en_task_id_def)
    with node [OF t that] show ?thesis by (intro exI [of _ "nat (glev g d)"]) auto
  qed
  assume "0 < i"
  have "int i = Max (insert 0 ((\<lambda>d. glev g d + 1) ` set (pt_depends_on (en_task n))))" (is "_ = Max ?L")
    using facts(5) [OF t] lev n'(2) by (simp add: en_task_id_def)
  then have "int i \<in> ?L" using Max_in [of ?L] by simp
  with \<open>0 < i\<close> obtain d where d: "d \<in> set (pt_depends_on (en_task n))" "int i = glev g d + 1" by auto
  then have "nat (glev g d) = i - 1" by simp
  with node [OF t d(1)] d(1)
  show "\<exists>d \<in> set (pt_depends_on (en_task n)). \<exists>m \<in> set (level_order g ! (i - 1)). en_task_id m = d" by auto
qed

text \<open>
  The waves of a built graph partition the plan's tasks, and every dependency of a task in
  a wave lies in an earlier wave (so a wave may run in parallel); a task is placed as early
  as its longest dependency path allows.
\<close>
lemma graph_waves:
  assumes "graph_build ts = Inr (g, rts)"
  shows "map (en_task \<circ> snd) g = ts \<and>
    mset (concat (level_order g)) = mset (map snd g) \<and>
    (\<forall>i < length (level_order g). \<forall>n \<in> set (level_order g ! i).
       (\<forall>d \<in> set (pt_depends_on (en_task n)).
          \<exists>j < i. \<exists>m \<in> set (level_order g ! j). en_task_id m = d) \<and>
       (0 < i \<longrightarrow> (\<exists>d \<in> set (pt_depends_on (en_task n)).
          \<exists>m \<in> set (level_order g ! (i - 1)). en_task_id m = d)))"
  using assms by (rule graph_level_facts)

subsection \<open>A plan with a shared descendant\<close>

definition sample_task :: "string \<Rightarrow> string list \<Rightarrow> ptask" where
  "sample_task i deps = (new_ptask i ''step'' ''cap'' [])\<lparr>pt_depends_on := deps\<rparr>"

definition diamond :: "ptask list" where
  "diamond = [sample_task ''a'' [], sample_task ''d'' [''a'', ''b'', ''c''],
     sample_task ''b'' [''a''], sample_task ''c'' [''b'']]"

lemma diamond_build:
  "(case graph_build diamond of
      Inl _ \<Rightarrow> ([], [])
    | Inr (g, roots) \<Rightarrow> (roots, map (map en_task_id) (level_order g))) =
   ([''a''], [[''a''], [''b''], [''c''], [''d'']])"
  by code_simp

lemma graph_waves_witness:
  "\<exists>g rts. graph_build diamond = Inr (g, rts) \<and>
     mset (concat (level_order g)) = mset (map snd g) \<and> length (level_order g) = 4"
proof -
  from diamond_build obtain g rts where g: "graph_build diamond = Inr (g, rts)"
    "map (map en_task_id) (level_order g) = [[''a''], [''b''], [''c''], [''d'']]"
    by (auto split: sum.splits prod.splits)
  have "length (level_order g) = 4" using arg_cong [OF g(2), of length] by simp
  with graph_waves [OF g(1)] g(1) show ?thesis by blast
qed

end
