(* ===== verification/Planner_Schedule.thy ===== *)
theory Planner_Schedule
  imports Planner_Graph
begin

text \<open>
  The scheduler (\<open>nous_runtime/planner/scheduler.py\<close>). \<open>schedule\<close> simulates a whole run of a
  plan in waves of at most \<open>max_parallel\<close> tasks, marking tasks as running as it goes: the
  tasks of the plan and of the graph are the same objects, so the plan comes back changed.
  The loop is a \<open>partial_function\<close>: \<open>None\<close> is a loop that never ends.
\<close>

section \<open>Model\<close>

text \<open>\<open>xs[:m]\<close>\<close>

definition py_take :: "int \<Rightarrow> 'a list \<Rightarrow> 'a list" where
  "py_take m xs = take (nat (if m < 0 then int (length xs) + m else m)) xs"

abbreviation running :: "ptask \<Rightarrow> ptask" where
  "running t \<equiv> t\<lparr>pt_status := TS_RUNNING\<rparr>"

text \<open>\<open>t.status = RUNNING\<close> for the tasks with these identifiers.\<close>

definition start_tasks :: "string set \<Rightarrow> task_graph \<Rightarrow> task_graph" where
  "start_tasks ids g =
     map (\<lambda>(k, n). if k \<in> ids then (k, n\<lparr>en_task := running (en_task n)\<rparr>) else (k, n)) g"

partial_function (option) schedule_loop ::
  "int \<Rightarrow> task_graph \<Rightarrow> string set \<Rightarrow> ptask list list \<Rightarrow> (task_graph \<times> ptask list list) option" where
  "schedule_loop mp g completed waves =
     (if graph_is_complete g then Some (g, waves)
      else let ready = ready_nodes completed g in
        if ready = [] then Some (g, waves)
        else let wave = map en_task (py_take mp ready); ids = set (map pt_task_id wave)
             in schedule_loop mp (start_tasks ids g) (completed \<union> ids) (waves @ [map running wave]))"

definition schedule :: "int \<Rightarrow> plan \<Rightarrow> pyexn + (ptask list list \<times> plan) option" where
  "schedule mp p =
     bindE (graph_build (pl_tasks p)) (\<lambda>(g, _).
       Inr (map_option (\<lambda>(g', waves). (waves, p\<lparr>pl_tasks := map (en_task \<circ> snd) g'\<rparr>))
              (schedule_loop mp g {} [])))"

text \<open>The next wave of a plan: \<open>None\<close> when it is done.\<close>

definition next_wave :: "int \<Rightarrow> plan \<Rightarrow> ptask list option" where
  "next_wave mp p =
     (let completed = set (map pt_task_id (filter (\<lambda>t. pt_status t = TS_COMPLETED) (pl_tasks p)));
          ready = filter (\<lambda>t. pt_status t = TS_PENDING \<and> ptask_is_ready completed t) (pl_tasks p)
      in if ready = [] \<and> plan_all_done p then None else Some (py_take mp ready))"

definition schedule_single :: "ptask \<Rightarrow> jobj \<times> ptask" where
  "schedule_single t =
     ([(''task_id'', JStr (pt_task_id t)), (''capability_id'', JStr (pt_capability_id t)),
       (''params'', JObj (pt_params t)), (''timeout_seconds'', JInt (pt_timeout_seconds t))],
      running t)"

section \<open>The loop\<close>

lemma length_py_take: "0 \<le> m \<Longrightarrow> int (length (py_take m xs)) \<le> m"
  by (simp add: py_take_def)

lemma py_take_Nil_iff: "1 \<le> m \<Longrightarrow> py_take m xs = [] \<longleftrightarrow> xs = []"
  by (simp add: py_take_def)

lemma set_py_take: "set (py_take m xs) \<subseteq> set xs"
  by (simp add: py_take_def set_take_subset)

lemma distinct_py_take: "distinct (map f xs) \<Longrightarrow> distinct (map f (py_take m xs))"
  by (simp add: py_take_def take_map [symmetric] distinct_take)

abbreviation graph_tasks :: "task_graph \<Rightarrow> ptask list" where
  "graph_tasks g \<equiv> map (en_task \<circ> snd) g"

abbreviation wave_ids :: "ptask list list \<Rightarrow> string set" where
  "wave_ids waves \<equiv> set (map pt_task_id (concat waves))"

definition started :: "string set \<Rightarrow> ptask \<Rightarrow> ptask" where
  "started ids t = (if pt_task_id t \<in> ids then running t else t)"

lemma started_fields [simp]:
  "pt_task_id (started ids t) = pt_task_id t"
  "pt_depends_on (started ids t) = pt_depends_on t"
  "pt_status (started ids t) = (if pt_task_id t \<in> ids then TS_RUNNING else pt_status t)"
  by (simp_all add: started_def)

lemma started_empty [simp]: "map (started {}) ts = ts"
  by (rule map_idI) (simp add: started_def)

lemma started_started: "started a (started b t) = started (b \<union> a) t"
  by (simp add: started_def)

lemma start_tasks_views:
  assumes "map fst g = map pt_task_id (graph_tasks g)"
  shows "map fst (start_tasks ids g) = map fst g"
    and "graph_tasks (start_tasks ids g) = map (started ids) (graph_tasks g)"
  using assms by (auto simp: start_tasks_def started_def)

lemma ready_nodes_tasks:
  "map en_task (ready_nodes completed g) =
     filter (\<lambda>t. pt_status t = TS_PENDING \<and> ptask_is_ready completed t) (graph_tasks g)"
  by (simp add: ready_nodes_def filter_map comp_def)

text \<open>The invariant over the waves emitted so far, for the tasks \<open>ts\<close> of the plan.\<close>

definition sched_inv :: "int \<Rightarrow> ptask list \<Rightarrow> task_graph \<Rightarrow> ptask list list \<Rightarrow> bool" where
  "sched_inv mp ts g waves \<longleftrightarrow>
     map fst g = map pt_task_id ts \<and>
     graph_tasks g = map (started (wave_ids waves)) ts \<and>
     distinct (map pt_task_id (concat waves)) \<and>
     set (concat waves) \<subseteq> running ` {t \<in> set ts. pt_status t = TS_PENDING} \<and>
     (\<forall>w \<in> set waves. w \<noteq> [] \<and> int (length w) \<le> mp) \<and>
     (\<forall>i < length waves. \<forall>t \<in> set (waves ! i). set (pt_depends_on t) \<subseteq> wave_ids (take i waves))"

lemma sched_inv_step:
  assumes inv: "sched_inv mp ts g waves" and dist: "distinct (map pt_task_id ts)" and mp: "1 \<le> mp"
    and ready: "ready = ready_nodes (wave_ids waves) g" "ready \<noteq> []"
    and wave: "wave = map en_task (py_take mp ready)"
  shows "sched_inv mp ts (start_tasks (set (map pt_task_id wave)) g) (waves @ [map running wave])"
proof -
  let ?C = "wave_ids waves" and ?ids = "set (map pt_task_id wave)"
  from inv have keys: "map fst g = map pt_task_id ts" and tasks: "graph_tasks g = map (started ?C) ts"
    by (simp_all only: sched_inv_def)
  have "map fst g = map pt_task_id (graph_tasks g)" using keys tasks by (simp add: comp_def)
  note start = start_tasks_views [OF this]
  let ?P = "\<lambda>t. pt_status t = TS_PENDING \<and> ptask_is_ready ?C t"
  have rd: "map en_task ready = filter ?P (map (started ?C) ts)"
    unfolding ready ready_nodes_tasks tasks ..
  have sub: "set wave \<subseteq> set (map en_task ready)"
    using set_py_take [of mp ready] by (auto simp: wave)
  have wv: "t \<in> set ts \<and> pt_status t = TS_PENDING \<and> pt_task_id t \<notin> ?C \<and> set (pt_depends_on t) \<subseteq> ?C"
    if "t \<in> set wave" for t
  proof -
    from that sub have "t \<in> set (filter ?P (map (started ?C) ts))" unfolding rd by blast
    then obtain u where u: "u \<in> set ts" "t = started ?C u" "?P t" by auto
    then have n: "pt_task_id u \<notin> ?C" by (auto split: if_splits)
    then have "t = u" using u(2) by (simp add: started_def)
    then show ?thesis using u(1,3) n by (auto simp: ptask_is_ready_def)
  qed
  have ids_running: "map pt_task_id (map running xs) = map pt_task_id xs" for xs by (simp add: comp_def)
  have C': "wave_ids (waves @ [map running wave]) = ?C \<union> ?ids"
    by (simp add: image_image)
  have "graph_tasks (start_tasks ?ids g) = map (started (wave_ids (waves @ [map running wave]))) ts"
    unfolding start(2) tasks C' by (simp add: started_started)
  moreover have "distinct (map pt_task_id (concat (waves @ [map running wave])))"
  proof -
    have "distinct (map pt_task_id (filter ?P (map (started ?C) ts)))"
      using dist by (simp add: filter_map comp_def distinct_map_filter)
    then have "distinct (map (\<lambda>n. pt_task_id (en_task n)) ready)"
      unfolding rd [symmetric] by (simp add: comp_def)
    then have "distinct (map pt_task_id wave)"
      using distinct_py_take [of "\<lambda>n. pt_task_id (en_task n)" ready mp] by (simp add: wave comp_def)
    moreover have "distinct (map pt_task_id (concat waves))" using inv by (simp only: sched_inv_def)
    moreover have "?ids \<inter> ?C = {}" using wv by auto
    ultimately show ?thesis by (auto simp: comp_def)
  qed
  moreover have "set (concat (waves @ [map running wave])) \<subseteq> running ` {t \<in> set ts. pt_status t = TS_PENDING}"
    using inv wv by (auto simp: sched_inv_def)
  moreover have "w \<noteq> [] \<and> int (length w) \<le> mp" if "w \<in> set (waves @ [map running wave])" for w
    using that inv mp ready(2) length_py_take [of mp ready] py_take_Nil_iff [OF mp, of ready]
    by (auto simp: sched_inv_def wave)
  moreover have "set (pt_depends_on t) \<subseteq> wave_ids (take i (waves @ [map running wave]))"
    if "i < length (waves @ [map running wave])" "t \<in> set ((waves @ [map running wave]) ! i)" for i t
  proof (cases "i < length waves")
    case True
    with that inv show ?thesis by (simp add: sched_inv_def nth_append)
  next
    case False
    with that have i: "i = length waves" by simp
    with that(2) obtain u where "u \<in> set wave" "t = running u" by auto
    with wv i show ?thesis by simp
  qed
  ultimately show ?thesis
    unfolding sched_inv_def using keys start(1) by simp
qed

text \<open>With at least one task per wave the loop ends: every wave starts a waiting task.\<close>

lemma schedule_loop_ends:
  assumes "sched_inv mp ts g waves" and "distinct (map pt_task_id ts)" and "1 \<le> mp"
  shows "\<exists>g' waves'. schedule_loop mp g (wave_ids waves) waves = Some (g', waves') \<and>
    sched_inv mp ts g' waves' \<and>
    (graph_is_complete g' \<or> ready_nodes (wave_ids waves') g' = [])"
  using assms(1)
proof (induction "length ts - length (concat waves)" arbitrary: g waves rule: less_induct)
  case less
  let ?ready = "ready_nodes (wave_ids waves) g"
  show ?case
  proof (cases "graph_is_complete g \<or> ?ready = []")
    case True
    then have "schedule_loop mp g (wave_ids waves) waves = Some (g, waves)"
      by (subst schedule_loop.simps) (auto simp: Let_def)
    with less.prems True show ?thesis by blast
  next
    case False
    let ?wave = "map en_task (py_take mp ?ready)"
    let ?ids = "set (map pt_task_id ?wave)"
    let ?waves = "waves @ [map running ?wave]"
    have step: "sched_inv mp ts (start_tasks ?ids g) ?waves"
      by (rule sched_inv_step [OF less.prems assms(2,3) refl _ refl]) (use False in blast)
    have bound: "length (concat ws) \<le> length ts" if "sched_inv mp ts h ws" for h ws
    proof -
      from that have d: "distinct (map pt_task_id (concat ws))"
        and s: "set (concat ws) \<subseteq> running ` {t \<in> set ts. pt_status t = TS_PENDING}"
        by (simp_all only: sched_inv_def)
      have sub: "wave_ids ws \<subseteq> set (map pt_task_id ts)"
      proof
        fix x assume "x \<in> wave_ids ws"
        then obtain t where "t \<in> set (concat ws)" "x = pt_task_id t" by auto
        with s show "x \<in> set (map pt_task_id ts)" by auto
      qed
      have "length (concat ws) = card (wave_ids ws)" using distinct_card [OF d] by simp
      also have "\<dots> \<le> card (set (map pt_task_id ts))" by (rule card_mono [OF finite_set sub])
      also have "\<dots> \<le> length ts" using card_length [of "map pt_task_id ts"] by simp
      finally show ?thesis .
    qed
    have "?wave \<noteq> []" using False py_take_Nil_iff [OF assms(3), of ?ready] by simp
    then have "length (concat waves) < length (concat ?waves)" by simp
    then have "length ts - length (concat ?waves) < length ts - length (concat waves)"
      using bound [OF step] by linarith
    from less.hyps [OF this step] have
      "\<exists>g' waves'. schedule_loop mp (start_tasks ?ids g) (wave_ids ?waves) ?waves = Some (g', waves') \<and>
        sched_inv mp ts g' waves' \<and> (graph_is_complete g' \<or> ready_nodes (wave_ids waves') g' = [])" .
    moreover have "wave_ids ?waves = wave_ids waves \<union> ?ids" by (simp add: image_image)
    moreover have "schedule_loop mp g (wave_ids waves) waves =
        schedule_loop mp (start_tasks ?ids g) (wave_ids waves \<union> ?ids) ?waves"
      using False by (subst schedule_loop.simps) (simp add: Let_def image_image comp_def)
    ultimately show ?thesis by metis
  qed
qed

lemma sched_inv_start:
  assumes "graph_build ts = Inr (g, rts)" and "1 \<le> mp"
  shows "sched_inv mp ts g []"
proof -
  note facts = graph_build_facts(1) [OF assms(1)]
  have "map fst g = map fst (map (\<lambda>(k, n). (k, en_task n)) g)" by (simp add: comp_def split_def)
  also have "\<dots> = map pt_task_id ts" unfolding facts by (simp add: comp_def)
  finally have "map fst g = map pt_task_id ts" .
  moreover have "graph_tasks g = map snd (map (\<lambda>(k, n). (k, en_task n)) g)"
    by (simp add: comp_def split_def)
  then have "graph_tasks g = ts" unfolding facts by (simp add: comp_def)
  ultimately show ?thesis by (simp add: sched_inv_def started_def)
qed

lemma schedule_result:
  assumes "graph_build (pl_tasks p) = Inr (g, rts)" and "1 \<le> mp"
  obtains g' waves where "schedule mp p = Inr (Some (waves, p\<lparr>pl_tasks := graph_tasks g'\<rparr>))"
    "sched_inv mp (pl_tasks p) g' waves"
    "graph_is_complete g' \<or> ready_nodes (wave_ids waves) g' = []"
proof -
  from schedule_loop_ends [OF sched_inv_start [OF assms] graph_build_facts(2) [OF assms(1)] assms(2)]
  obtain g' waves where r: "schedule_loop mp g (wave_ids []) [] = Some (g', waves)"
    "sched_inv mp (pl_tasks p) g' waves" "graph_is_complete g' \<or> ready_nodes (wave_ids waves) g' = []"
    by blast
  with assms(1) show thesis by (intro that [of waves g']) (simp_all add: schedule_def)
qed

text \<open>
  When the loop has stopped on a plan whose tasks all waited, no task is left out: a task
  of least level outside the waves would have been ready.
\<close>

lemma scheduled_all:
  assumes "graph_build ts = Inr (g, rts)" and "\<forall>t \<in> set ts. pt_status t = TS_PENDING"
    and "graph_tasks g' = map (started C) ts"
    and "graph_is_complete g' \<or> ready_nodes C g' = []"
    and "t \<in> set ts"
  shows "pt_task_id t \<in> C"
  using assms(5)
proof (induction "nat (glev g (pt_task_id t))" arbitrary: t rule: less_induct)
  case less
  note facts = graph_build_facts [OF assms(1)]
  have ready: "pt_task_id t \<in> C" if "set (pt_depends_on t) \<subseteq> C"
  proof (rule ccontr)
    assume n: "pt_task_id t \<notin> C"
    then have "t \<in> set (graph_tasks g')"
      unfolding assms(3) using less.prems by (force simp: started_def)
    moreover have "pt_status t = TS_PENDING" using assms(2) less.prems by blast
    ultimately have p: "\<exists>n \<in> set (map snd g'). pt_status (en_task n) = TS_PENDING" and
      r: "t \<in> set (map en_task (ready_nodes C g'))"
      unfolding ready_nodes_tasks using that by (auto simp: ptask_is_ready_def)
    from p have "\<not> graph_is_complete g'" by (force simp: graph_is_complete_def)
    moreover from r have "ready_nodes C g' \<noteq> []" by auto
    ultimately show False using assms(4) by blast
  qed
  show ?case
  proof (rule ready, rule subsetI)
    fix d assume d: "d \<in> set (pt_depends_on t)"
    then obtain u where u: "u \<in> set ts" "pt_task_id u = d" using facts(4) [OF less.prems] by auto
    have "0 \<le> glev g d" using facts(5) [OF u(1)] u(2) by simp
    then have "nat (glev g d) < nat (glev g (pt_task_id t))" using facts(6) [OF less.prems d] by simp
    with less.hyps [of u] u show "d \<in> C" by simp
  qed
qed

lemma scheduled_mset:
  assumes "distinct (map pt_task_id ts)" and "distinct (map pt_task_id xs)"
    and "set xs \<subseteq> running ` set ts" and "\<forall>t \<in> set ts. pt_task_id t \<in> pt_task_id ` set xs"
  shows "mset xs = mset (map running ts)"
proof -
  have "set (map running ts) \<subseteq> set xs"
  proof
    fix t assume "t \<in> set (map running ts)"
    then obtain u where u: "u \<in> set ts" "t = running u" by auto
    with assms(4) obtain v where v: "v \<in> set xs" "pt_task_id v = pt_task_id u" by force
    with assms(3) obtain w where w: "w \<in> set ts" "v = running w" by auto
    with v(2) have "pt_task_id w = pt_task_id u" by simp
    with assms(1) u(1) w(1) have "w = u" by (metis distinct_map inj_onD)
    with v(1) w(2) u(2) show "t \<in> set xs" by simp
  qed
  with assms(3) have "set xs = set (map running ts)" by auto
  moreover have "distinct xs" using assms(2) unfolding distinct_map by blast
  moreover have "distinct (map pt_task_id (map running ts))" using assms(1) by (simp add: comp_def)
  then have "distinct (map running ts)" unfolding distinct_map by blast
  ultimately show ?thesis by (simp only: set_eq_iff_mset_eq_distinct)
qed

lemma wave_before:
  assumes "d \<in> wave_ids (take i waves)" and "i < length waves"
  shows "\<exists>j < i. \<exists>u \<in> set (waves ! j). pt_task_id u = d"
proof -
  from assms(1) obtain w u where w: "w \<in> set (take i waves)" "u \<in> set w" "pt_task_id u = d" by auto
  from w(1) obtain j where "j < i" "w = waves ! j" using assms(2) by (auto simp: in_set_conv_nth)
  with w show ?thesis by blast
qed

section \<open>Properties\<close>

text \<open>
  C12: with at least one task per wave, scheduling a plan whose graph builds and whose tasks all
  wait returns; the waves hold every task exactly once, none is empty or too large, and every
  dependency of a task is in an earlier wave.
\<close>
theorem schedule_covers_plan:
  assumes "1 \<le> mp" and "graph_build (pl_tasks p) = Inr (g, rts)"
    and "\<forall>t \<in> set (pl_tasks p). pt_status t = TS_PENDING"
  shows "\<exists>waves. schedule mp p = Inr (Some (waves, p\<lparr>pl_tasks := map running (pl_tasks p)\<rparr>)) \<and>
    mset (concat waves) = mset (map running (pl_tasks p)) \<and>
    (\<forall>w \<in> set waves. w \<noteq> [] \<and> int (length w) \<le> mp) \<and>
    (\<forall>i < length waves. \<forall>t \<in> set (waves ! i). \<forall>d \<in> set (pt_depends_on t).
       \<exists>j < i. \<exists>u \<in> set (waves ! j). pt_task_id u = d)"
proof -
  let ?ts = "pl_tasks p"
  obtain g' waves where r: "schedule mp p = Inr (Some (waves, p\<lparr>pl_tasks := graph_tasks g'\<rparr>))"
    "sched_inv mp ?ts g' waves" "graph_is_complete g' \<or> ready_nodes (wave_ids waves) g' = []"
    by (rule schedule_result [OF assms(2,1)])
  let ?C = "wave_ids waves"
  from r(2) have tasks: "graph_tasks g' = map (started ?C) ?ts"
    and dist: "distinct (map pt_task_id (concat waves))"
    and sub: "set (concat waves) \<subseteq> running ` {t \<in> set ?ts. pt_status t = TS_PENDING}"
    and size: "\<forall>w \<in> set waves. w \<noteq> [] \<and> int (length w) \<le> mp"
    and deps: "\<forall>i < length waves. \<forall>t \<in> set (waves ! i). set (pt_depends_on t) \<subseteq> wave_ids (take i waves)"
    unfolding sched_inv_def by blast+
  have all: "\<forall>t \<in> set ?ts. pt_task_id t \<in> ?C"
    using scheduled_all [OF assms(2,3) tasks r(3)] by blast
  have run: "graph_tasks g' = map running ?ts"
    unfolding tasks using all by (simp add: started_def)
  have "mset (concat waves) = mset (map running ?ts)"
  proof (rule scheduled_mset)
    show "set (concat waves) \<subseteq> running ` set ?ts" using sub by blast
    show "\<forall>t \<in> set ?ts. pt_task_id t \<in> pt_task_id ` set (concat waves)"
      using all by (simp add: image_UN)
  qed (use dist graph_build_facts(2) [OF assms(2)] in simp_all)
  moreover have "\<exists>j < i. \<exists>u \<in> set (waves ! j). pt_task_id u = d"
    if "i < length waves" "t \<in> set (waves ! i)" "d \<in> set (pt_depends_on t)" for i t d
    using wave_before deps that by blast
  ultimately show ?thesis using r(1) size run by (intro exI [of _ waves]) auto
qed

theorem schedule_covers_plan_witness:
  "\<exists>waves p. schedule 1 p = Inr (Some (waves, p\<lparr>pl_tasks := map running (pl_tasks p)\<rparr>)) \<and>
     pl_tasks p = diamond \<and> length (concat waves) = 4"
proof -
  let ?p = "sample_plan\<lparr>pl_tasks := diamond\<rparr>"
  from diamond_build obtain g rts where "graph_build (pl_tasks ?p) = Inr (g, rts)"
    by (auto split: sum.splits prod.splits)
  moreover have "\<forall>t \<in> set (pl_tasks ?p). pt_status t = TS_PENDING"
    by (simp add: diamond_def sample_task_def new_ptask_def ptask_post_init_def)
  moreover have "(1 :: int) \<le> 1" by simp
  ultimately obtain waves where w: "schedule 1 ?p = Inr (Some (waves, ?p\<lparr>pl_tasks := map running (pl_tasks ?p)\<rparr>))"
    "mset (concat waves) = mset (map running (pl_tasks ?p))"
    using schedule_covers_plan [of 1 ?p] by blast
  from w(2) have "length (concat waves) = length (map running (pl_tasks ?p))"
    by (rule mset_eq_length)
  then have "length (concat waves) = 4" by (simp add: diamond_def)
  with w(1) show ?thesis by (intro exI [of _ waves] exI [of _ ?p]) simp
qed

text \<open>
  Finished work is not counted. A task that depends on a task that is no longer waiting
  (completed, say, by an earlier run of the plan) is in no wave, however it is scheduled.
\<close>
lemma schedule_skips_dependents_of_finished:
  assumes "1 \<le> mp" and "graph_build (pl_tasks p) = Inr (g, rts)"
    and "t \<in> set (pl_tasks p)" and "d \<in> set (pl_tasks p)" and "pt_task_id d \<in> set (pt_depends_on t)"
    and "pt_status d \<noteq> TS_PENDING"
  shows "\<exists>waves q. schedule mp p = Inr (Some (waves, q)) \<and>
    pt_task_id t \<notin> set (map pt_task_id (concat waves)) \<and>
    pt_task_id d \<notin> set (map pt_task_id (concat waves))"
proof -
  obtain g' waves where r: "schedule mp p = Inr (Some (waves, p\<lparr>pl_tasks := graph_tasks g'\<rparr>))"
    "sched_inv mp (pl_tasks p) g' waves"
    by (rule schedule_result [OF assms(2,1)])
  from r(2) have sub: "set (concat waves) \<subseteq> running ` {t \<in> set (pl_tasks p). pt_status t = TS_PENDING}"
    and deps: "\<forall>i < length waves. \<forall>t \<in> set (waves ! i). set (pt_depends_on t) \<subseteq> wave_ids (take i waves)"
    unfolding sched_inv_def by blast+
  note dist = graph_build_facts(2) [OF assms(2)]
  have unique: "u \<in> set (pl_tasks p) \<Longrightarrow> v \<in> set (pl_tasks p) \<Longrightarrow> pt_task_id u = pt_task_id v \<Longrightarrow> u = v" for u v
    using dist by (meson distinct_map inj_onD)
  have out: "\<exists>u \<in> set (pl_tasks p). u = v \<and> pt_status u = TS_PENDING \<and> running u \<in> set (concat waves)"
    if "pt_task_id v \<in> wave_ids waves" "v \<in> set (pl_tasks p)" for v
  proof -
    from that(1) obtain w where w: "w \<in> set (concat waves)" "pt_task_id w = pt_task_id v" by force
    with sub obtain u where u: "u \<in> set (pl_tasks p)" "pt_status u = TS_PENDING" "w = running u" by auto
    then have "pt_task_id u = pt_task_id v" using w(2) by simp
    with unique u(1) that(2) have "u = v" by blast
    with u w show ?thesis by blast
  qed
  have d: "pt_task_id d \<notin> wave_ids waves" using out [of d] assms(4,6) by blast
  moreover have "pt_task_id t \<notin> wave_ids waves"
  proof
    assume "pt_task_id t \<in> wave_ids waves"
    with out assms(3) have "running t \<in> set (concat waves)" by blast
    then obtain w where "w \<in> set waves" "running t \<in> set w" by auto
    then obtain i where i: "i < length waves" "running t \<in> set (waves ! i)"
      by (metis in_set_conv_nth)
    with deps have "set (pt_depends_on (running t)) \<subseteq> wave_ids (take i waves)" by blast
    moreover have "wave_ids (take i waves) \<subseteq> wave_ids waves" using set_take_subset [of i waves] by auto
    ultimately show False using d assms(5) by auto
  qed
  ultimately show ?thesis using r(1) by blast
qed

lemma schedule_skips_dependents_of_finished_witness:
  "\<exists>waves q. schedule 4 (sample_plan\<lparr>pl_tasks :=
       [(sample_task ''a'' [])\<lparr>pt_status := TS_COMPLETED\<rparr>, sample_task ''b'' [''a'']]\<rparr>) = Inr (Some (waves, q)) \<and>
     ''b'' \<notin> set (map pt_task_id (concat waves))"
proof -
  let ?a = "(sample_task ''a'' [])\<lparr>pt_status := TS_COMPLETED\<rparr>" and ?b = "sample_task ''b'' [''a'']"
  let ?p = "sample_plan\<lparr>pl_tasks := [?a, ?b]\<rparr>"
  have "(case graph_build [?a, ?b] of Inl _ \<Rightarrow> False | Inr _ \<Rightarrow> True)" by code_simp
  then obtain g rts where "graph_build (pl_tasks ?p) = Inr (g, rts)" by (auto split: sum.splits)
  moreover have "pt_task_id ?b = ''b''" "pt_task_id ?a = ''a''" "pt_depends_on ?b = [''a'']"
    by (simp_all add: sample_task_def new_ptask_def ptask_post_init_def)
  ultimately show ?thesis
    using schedule_skips_dependents_of_finished [of 4 ?p g rts ?b ?a] by simp blast
qed

text \<open>With no room for a task the loop never ends.\<close>

lemma start_tasks_empty [simp]: "start_tasks {} g = g"
  by (simp add: start_tasks_def)

lemma schedule_loop_zero:
  assumes "\<not> graph_is_complete g" and "ready_nodes completed g \<noteq> []"
  shows "schedule_loop 0 g completed waves = None"
proof (cases "schedule_loop 0 g completed waves")
  case (Some y)
  have "0 = (0 :: int) \<longrightarrow> graph_is_complete g \<or> ready_nodes completed g = []"
  proof (rule schedule_loop.raw_induct
      [where P = "\<lambda>mp g completed waves y. mp = 0 \<longrightarrow> graph_is_complete g \<or> ready_nodes completed g = []"])
    show "schedule_loop 0 g completed waves = Some y" by (rule Some)
    fix loop mp g completed waves y
    assume IH: "\<And>mp g completed waves y. loop mp g completed waves = Some y \<Longrightarrow>
        mp = (0 :: int) \<longrightarrow> graph_is_complete g \<or> ready_nodes completed g = []"
      and run: "(if graph_is_complete g then Some (g, waves)
        else let ready = ready_nodes completed g in
          if ready = [] then Some (g, waves)
          else let wave = map en_task (py_take mp ready); ids = set (map pt_task_id wave)
               in loop mp (start_tasks ids g) (completed \<union> ids) (waves @ [map running wave])) = Some y"
    show "mp = 0 \<longrightarrow> graph_is_complete g \<or> ready_nodes completed g = []"
    proof (intro impI, rule ccontr)
      assume mp: "mp = 0" and n: "\<not> (graph_is_complete g \<or> ready_nodes completed g = [])"
      with run have "loop 0 g completed (waves @ [[]]) = Some y" by (simp add: Let_def py_take_def)
      from IH [OF this] n show False by simp
    qed
  qed
  with assms show ?thesis by blast
qed

end
