(* ===== verification/Planner_Dispatch.thy ===== *)
theory Planner_Dispatch
  imports Planner_Schedule
begin

text \<open>
  Observations (\<open>nous_runtime/planner/observation.py\<close>) and the dispatcher
  (\<open>nous_runtime/planner/dispatcher.py\<close>). The capability resolver is an argument: it maps a
  capability identifier and parameters to an exception or an observation, and may answer
  differently each time (its first argument counts the dispatches). The clock, the
  measured durations and generated identifiers come from \<open>dispatch_env\<close>. Writing the experience log and
  the project memory, both wrapped in \<open>except: pass\<close>, is left out. The loop over a plan is a
  \<open>partial_function\<close>: \<open>None\<close> is a loop that never ends.
\<close>

section \<open>Observations\<close>

record observation =
  obs_schema_version :: string
  obs_id :: string
  obs_tool :: string
  obs_capability :: string
  obs_status :: string
  obs_data :: jobj
  obs_errors :: "string list"
  obs_duration_ms :: rat
  obs_started_at :: string
  obs_finished_at :: string
  obs_metadata :: jobj

definition observation_post_init :: "string \<Rightarrow> string \<Rightarrow> observation \<Rightarrow> observation" where
  "observation_post_init new_id now x =
     (let x = (if obs_id x = [] then x\<lparr>obs_id := new_id\<rparr> else x);
          x = (if obs_started_at x = [] then x\<lparr>obs_started_at := now\<rparr> else x)
      in if obs_finished_at x = [] then x\<lparr>obs_finished_at := now\<rparr> else x)"

definition observation_success ::
  "string \<Rightarrow> string \<Rightarrow> string \<Rightarrow> jobj \<Rightarrow> string \<Rightarrow> rat \<Rightarrow> jobj \<Rightarrow> observation" where
  "observation_success new_id now tool data capability duration metadata =
     observation_post_init new_id now
       \<lparr>obs_schema_version = ''1.0'', obs_id = [], obs_tool = tool,
        obs_capability = (if capability = [] then tool else capability), obs_status = ''success'',
        obs_data = data, obs_errors = [], obs_duration_ms = duration, obs_started_at = [],
        obs_finished_at = [], obs_metadata = metadata\<rparr>"

definition observation_failure ::
  "string \<Rightarrow> string \<Rightarrow> string \<Rightarrow> string list \<Rightarrow> string \<Rightarrow> rat \<Rightarrow> jobj \<Rightarrow> observation" where
  "observation_failure new_id now tool errors capability duration metadata =
     observation_post_init new_id now
       \<lparr>obs_schema_version = ''1.0'', obs_id = [], obs_tool = tool,
        obs_capability = (if capability = [] then tool else capability), obs_status = ''failed'',
        obs_data = [], obs_errors = errors, obs_duration_ms = duration, obs_started_at = [],
        obs_finished_at = [], obs_metadata = metadata\<rparr>"

definition observation_skipped :: "string \<Rightarrow> string \<Rightarrow> string \<Rightarrow> string \<Rightarrow> string \<Rightarrow> observation" where
  "observation_skipped new_id now tool reason capability =
     observation_post_init new_id now
       \<lparr>obs_schema_version = ''1.0'', obs_id = [], obs_tool = tool,
        obs_capability = (if capability = [] then tool else capability), obs_status = ''skipped'',
        obs_data = [], obs_errors = (if reason = [] then [] else [reason]), obs_duration_ms = 0,
        obs_started_at = [], obs_finished_at = [], obs_metadata = []\<rparr>"

definition observation_to_dict :: "observation \<Rightarrow> jobj" where
  "observation_to_dict x =
     [(''schema_version'', JStr (obs_schema_version x)), (''observation_id'', JStr (obs_id x)),
      (''tool'', JStr (obs_tool x)), (''capability'', JStr (obs_capability x)),
      (''status'', JStr (obs_status x)), (''data'', JObj (obs_data x)),
      (''errors'', jstrs (obs_errors x)), (''duration_ms'', JFloat (obs_duration_ms x)),
      (''started_at'', JStr (obs_started_at x)), (''finished_at'', JStr (obs_finished_at x)),
      (''metadata'', JObj (obs_metadata x))]"

definition observation_summary :: "observation \<Rightarrow> jobj" where
  "observation_summary x =
     [(''id'', JStr (obs_id x)), (''tool'', JStr (obs_tool x)), (''status'', JStr (obs_status x)),
      (''duration_ms'', JFloat (obs_duration_ms x)), (''data_keys'', jstrs (map fst (obs_data x))),
      (''error_count'', JInt (int (length (obs_errors x))))]"

subsection \<open>What a language model is shown\<close>

definition PATH_KEYS :: "string list" where
  "PATH_KEYS = [''absolute_path'', ''base_path'', ''cwd'', ''path'', ''root'', ''workspace'', ''workspace_path'']"

definition is_letter :: "char \<Rightarrow> bool" where
  "is_letter c \<longleftrightarrow> (let n = of_char c :: nat in (65 \<le> n \<and> n \<le> 90) \<or> (97 \<le> n \<and> n \<le> 122))"

text \<open>\<open>^[A-Za-z]:[\\/]\<close>\<close>

fun windows_abs :: "string \<Rightarrow> bool" where
  "windows_abs (a # b # c # _) \<longleftrightarrow> is_letter a \<and> b = CHR '':'' \<and> (c = CHR 0x5C \<or> c = CHR ''/'')"
| "windows_abs _ \<longleftrightarrow> False"

definition is_absolute_path :: "string \<Rightarrow> bool" where
  "is_absolute_path v \<longleftrightarrow> startswith v ''/'' \<or> startswith v [CHR 0x5C, CHR 0x5C] \<or> windows_abs v"

fun context_safe_data :: "string \<Rightarrow> json \<Rightarrow> json" where
  "context_safe_data key (JObj kvs) = JObj (map (\<lambda>(k, v). (k, context_safe_data k v)) kvs)"
| "context_safe_data key (JList xs) = JList (map (context_safe_data key) xs)"
| "context_safe_data key (JStr s) =
     (if py_lower key \<in> set PATH_KEYS \<and> is_absolute_path s then JStr ''<redacted-path>'' else JStr s)"
| "context_safe_data key v = v"

text \<open>\<open>dumps\<close> and \<open>fmt\<close> stand for \<open>json.dumps(.., indent=2)\<close> and \<open>f"{x:.0f}"\<close>.\<close>

definition to_context_block :: "(json \<Rightarrow> string) \<Rightarrow> (rat \<Rightarrow> string) \<Rightarrow> observation \<Rightarrow> string" where
  "to_context_block dumps fmt x =
     (let nl = [CHR 0x0A]; head = ''[Observation '' @ obs_id x @ '']'' @ nl @ ''Tool: '' @ obs_tool x @ nl in
      if obs_status x = ''success'' then
        head @ ''Status: success'' @ nl @ ''Duration: '' @ fmt (obs_duration_ms x) @ ''ms'' @ nl @
        ''Data:'' @ nl @ dumps (context_safe_data [] (JObj (obs_data x)))
      else if obs_status x = ''failed'' then
        head @ ''Status: failed'' @ nl @ ''Errors: '' @ py_join '', '' (obs_errors x)
      else head @ ''Status: skipped'')"

section \<open>The dispatcher\<close>

record dispatch_env =
  de_started :: string
  de_completed :: string
  de_now :: string
  de_obs_id :: string
  de_duration_ms :: rat

type_synonym resolver = "string \<Rightarrow> jobj \<Rightarrow> pyexn + observation"

definition metadata_of :: "ptask \<Rightarrow> observation option \<Rightarrow> jobj" where
  "metadata_of t cobs =
     [(''task_id'', JStr (pt_task_id t)), (''capability_id'', JStr (pt_capability_id t)),
      (''stage'', JStr ''task.dispatch'')] @
     (case cobs of None \<Rightarrow> [] | Some c \<Rightarrow>
        [(''capability_observation_id'', JStr (obs_id c))] @
        concat (map (\<lambda>k. (case dict_get (obs_metadata c) k of
                            None \<Rightarrow> [] | Some v \<Rightarrow> if py_truthy v then [(k, v)] else []))
          [''provider_id'', ''error_code'']))"

text \<open>The \<open>try\<close> block: the task after it and the capability's observation.\<close>

definition run_capability :: "resolver \<Rightarrow> ptask \<Rightarrow> ptask \<times> observation option" where
  "run_capability exec t =
     (let r = (if pt_capability_id t = [] then Inl (ValueError ''Task has no capability_id'')
               else exec (pt_capability_id t) (pt_params t)) in
      case r of
        Inl e \<Rightarrow> (t\<lparr>pt_status := TS_FAILED, pt_error := exn_text e\<rparr>, None)
      | Inr c \<Rightarrow>
          if obs_status c = ''success''
          then (t\<lparr>pt_status := TS_COMPLETED,
                  pt_result := dict_get_or (obs_data c) ''result'' (JObj (obs_data c))\<rparr>, Some c)
          else (t\<lparr>pt_status := TS_FAILED,
                  pt_error := (let m = py_join ''; '' (obs_errors c) in if m = [] then ''Unknown error'' else m)\<rparr>,
                Some c))"

definition dispatch_observation :: "resolver \<Rightarrow> dispatch_env \<Rightarrow> ptask \<Rightarrow> observation \<times> ptask" where
  "dispatch_observation exec env t =
     (let t = t\<lparr>pt_status := TS_RUNNING, pt_started_at := de_started env\<rparr>;
          (t, cobs) = run_capability exec t;
          t = t\<lparr>pt_completed_at := de_completed env\<rparr>;
          metadata = metadata_of t cobs;
          obs = (if pt_status t = TS_COMPLETED
                 then observation_success (de_obs_id env) (de_now env) ''task.execute''
                   [(''task_id'', JStr (pt_task_id t)), (''capability_id'', JStr (pt_capability_id t)),
                    (''result'', pt_result t),
                    (''capability_observation'',
                       JObj (case cobs of None \<Rightarrow> [] | Some c \<Rightarrow> observation_summary c))]
                   (pt_capability_id t) (de_duration_ms env) metadata
                 else observation_failure (de_obs_id env) (de_now env) ''task.execute''
                   [if pt_error t = [] then ''task execution failed'' else pt_error t]
                   (pt_capability_id t) (de_duration_ms env) metadata)
      in (obs, t\<lparr>pt_observations := pt_observations t @ [observation_summary obs]\<rparr>))"

definition dispatch :: "resolver \<Rightarrow> dispatch_env \<Rightarrow> ptask \<Rightarrow> jobj \<times> ptask" where
  "dispatch exec env t =
     (let (obs, t) = dispatch_observation exec env t
      in ([(''task_id'', JStr (pt_task_id t)), (''status'', JStr (task_status_value (pt_status t))),
           (''error'', JStr (pt_error t)), (''observation_id'', JStr (obs_id obs))], t))"

text \<open>
  \<open>next_wave\<close> returns the task objects themselves; here their indices in the plan. The wave
  size is the scheduler's default, 4.
\<close>

definition wave_indices :: "int \<Rightarrow> plan \<Rightarrow> nat list option" where
  "wave_indices mp p =
     (let completed = set (map pt_task_id (filter (\<lambda>t. pt_status t = TS_COMPLETED) (pl_tasks p)));
          ready = filter (\<lambda>i. pt_status (pl_tasks p ! i) = TS_PENDING \<and>
                    ptask_is_ready completed (pl_tasks p ! i)) [0..<length (pl_tasks p)]
      in if ready = [] \<and> plan_all_done p then None else Some (py_take mp ready))"

fun dispatch_wave ::
  "(nat \<Rightarrow> resolver) \<Rightarrow> (nat \<Rightarrow> dispatch_env) \<Rightarrow> int \<Rightarrow> nat list \<Rightarrow> nat \<times> plan \<times> jobj list \<Rightarrow> nat \<times> plan \<times> jobj list" where
  "dispatch_wave exec env w [] s = s"
| "dispatch_wave exec env w (i # is) (k, p, rs) =
     (let (r, t) = dispatch (exec k) (env k) (pl_tasks p ! i)
      in dispatch_wave exec env w is
           (Suc k, p\<lparr>pl_tasks := (pl_tasks p)[i := t]\<rparr>, rs @ [dict_set ''wave'' (JInt w) r]))"

partial_function (option) dispatch_loop ::
  "(nat \<Rightarrow> resolver) \<Rightarrow> (nat \<Rightarrow> dispatch_env) \<Rightarrow> nat \<Rightarrow> plan \<Rightarrow> jobj list \<Rightarrow> int
     \<Rightarrow> (nat \<times> plan \<times> jobj list \<times> int) option" where
  "dispatch_loop exec env k p rs w =
     (case wave_indices 4 p of
        None \<Rightarrow> Some (k, p, rs, w)
      | Some is \<Rightarrow>
          let s = dispatch_wave exec env (w + 1) is (k, p, rs)
          in if plan_any_failed (fst (snd s)) then Some (fst s, fst (snd s), snd (snd s), w + 1)
             else dispatch_loop exec env (fst s) (fst (snd s)) (snd (snd s)) (w + 1))"

definition plan_success :: "plan \<Rightarrow> bool" where
  "plan_success p \<longleftrightarrow> plan_all_done p \<and> \<not> plan_any_failed p"

definition dispatch_plan ::
  "(nat \<Rightarrow> resolver) \<Rightarrow> (nat \<Rightarrow> dispatch_env) \<Rightarrow> plan \<Rightarrow> (plan \<times> jobj) option" where
  "dispatch_plan exec env p =
     map_option (\<lambda>(k, q, rs, w). (q,
       [(''plan_id'', JStr (pl_plan_id q)), (''waves'', JInt w),
        (''results'', JList (map JObj rs)),
        (''progress'', JObj (map (\<lambda>(f, n). (f, JInt n)) (plan_progress q))),
        (''success'', JBool (plan_success q))]))
      (dispatch_loop exec env 0 p [] 0)"

text \<open>The plan-level observation; \<open>fe\<close> is the reading of the environment at its end.\<close>

definition plan_observation :: "dispatch_env \<Rightarrow> plan \<Rightarrow> jobj \<Rightarrow> observation" where
  "plan_observation fe q result =
     (let data = [(''plan_id'', JStr (pl_plan_id q)), (''waves'', dict_get_or result ''waves'' JNull),
             (''results'', dict_get_or result ''results'' JNull),
             (''progress'', dict_get_or result ''progress'' JNull),
             (''task_observations'', JList (map JObj (concat (map pt_observations (pl_tasks q)))))];
          metadata = [(''plan_id'', JStr (pl_plan_id q)), (''stage'', JStr ''plan.dispatch'')]
      in if plan_success q
         then observation_success (de_obs_id fe) (de_now fe) ''plan.execute'' data [] (de_duration_ms fe) metadata
         else (observation_failure (de_obs_id fe) (de_now fe) ''plan.execute''
                 (let es = filter (\<lambda>e. e \<noteq> [])
                    (map (\<lambda>r. case r of JObj d \<Rightarrow> (case dict_get d ''error'' of Some (JStr e) \<Rightarrow> e | _ \<Rightarrow> []) | _ \<Rightarrow> [])
                      (case dict_get result ''results'' of Some (JList rs) \<Rightarrow> rs | _ \<Rightarrow> []))
                  in if es = [] then [''plan execution failed''] else es)
                 [] (de_duration_ms fe) metadata)\<lparr>obs_data := data\<rparr>)"

definition dispatch_plan_observation ::
  "(nat \<Rightarrow> resolver) \<Rightarrow> (nat \<Rightarrow> dispatch_env) \<Rightarrow> dispatch_env \<Rightarrow> plan \<Rightarrow> (observation \<times> plan) option" where
  "dispatch_plan_observation exec env fe p =
     map_option (\<lambda>(q, result). (plan_observation fe q result, q)) (dispatch_plan exec env p)"

section \<open>Redaction\<close>

text \<open>A value that shows an absolute path under one of the path keys, at any depth.\<close>

fun shows_path :: "string \<Rightarrow> json \<Rightarrow> bool" where
  "shows_path key (JObj kvs) \<longleftrightarrow> (\<exists>(k, v) \<in> set kvs. shows_path k v)"
| "shows_path key (JList xs) \<longleftrightarrow> (\<exists>v \<in> set xs. shows_path key v)"
| "shows_path key (JStr s) \<longleftrightarrow> py_lower key \<in> set PATH_KEYS \<and> is_absolute_path s"
| "shows_path key v \<longleftrightarrow> False"

lemma context_safe_unchanged: "\<not> shows_path key v \<Longrightarrow> context_safe_data key v = v"
  by (induction key v rule: context_safe_data.induct) (force intro: map_idI)+

lemma context_safe_shows_nothing: "\<not> shows_path key (context_safe_data key v)"
  by (induction key v rule: context_safe_data.induct)
    (auto simp: is_absolute_path_def startswith_def is_letter_def)

text \<open>
  What is rendered into the context of a language model shows no absolute path under a path
  key, at any depth of the data; data without such a path is left exactly as it is, and
  redacting twice changes nothing more.
\<close>
lemma context_data_redacted:
  "\<not> shows_path key (context_safe_data key v) \<and>
   (shows_path key v \<or> context_safe_data key v = v) \<and>
   context_safe_data key (context_safe_data key v) = context_safe_data key v"
  using context_safe_shows_nothing [of key v] context_safe_unchanged by blast

section \<open>One task\<close>

lemma dispatch_task_fields:
  "pt_task_id (snd (dispatch exec env t)) = pt_task_id t"
  "pt_depends_on (snd (dispatch exec env t)) = pt_depends_on t"
  "pt_status (snd (dispatch exec env t)) \<in> {TS_COMPLETED, TS_FAILED}"
  by (simp_all add: dispatch_def dispatch_observation_def run_capability_def Let_def split_def
      split: sum.split)

lemma dispatch_result_fields:
  "dict_get (fst (dispatch exec env t)) ''task_id'' = Some (JStr (pt_task_id t))"
  "dict_get (fst (dispatch exec env t)) ''status'' =
     Some (JStr (task_status_value (pt_status (snd (dispatch exec env t)))))"
  by (simp_all add: dispatch_def dispatch_observation_def run_capability_def Let_def split_def
      split: sum.split)

section \<open>Waves\<close>

definition r_id :: "jobj \<Rightarrow> string" where
  "r_id r = (case dict_get r ''task_id'' of Some (JStr s) \<Rightarrow> s | _ \<Rightarrow> [])"

definition r_done :: "jobj \<Rightarrow> bool" where
  "r_done r \<longleftrightarrow> dict_get r ''status'' = Some (JStr (task_status_value TS_COMPLETED))"

definition r_wave :: "jobj \<Rightarrow> int" where
  "r_wave r = (case dict_get r ''wave'' of Some (JInt w) \<Rightarrow> w | _ \<Rightarrow> 0)"

lemma task_status_value_eq [simp]: "task_status_value a = task_status_value b \<longleftrightarrow> a = b"
  by (metis Inr_inject task_status_of_value)

lemma dispatched_result:
  "r_id (dict_set ''wave'' (JInt w) (fst (dispatch exec env t))) = pt_task_id t"
  "r_wave (dict_set ''wave'' (JInt w) (fst (dispatch exec env t))) = w"
  "r_done (dict_set ''wave'' (JInt w) (fst (dispatch exec env t))) \<longleftrightarrow>
     pt_status (snd (dispatch exec env t)) = TS_COMPLETED"
  by (simp_all add: r_id_def r_wave_def r_done_def dispatch_result_fields del: task_status_value.simps)

text \<open>The indices of a wave name the tasks \<open>next_wave\<close> returns.\<close>

lemma map_nth_filter: "map (nth xs) (filter (\<lambda>i. P (xs ! i)) [0..<length xs]) = filter P xs"
proof -
  have "map (nth xs) (filter (\<lambda>i. P (xs ! i)) [0..<length xs]) = filter P (map (nth xs) [0..<length xs])"
    by (simp only: filter_map comp_def)
  then show ?thesis by (simp only: map_nth)
qed

lemma map_py_take: "map f (py_take m xs) = py_take m (map f xs)"
  by (simp add: py_take_def take_map)

lemma wave_indices_next_wave:
  "map_option (map (nth (pl_tasks p))) (wave_indices mp p) = next_wave mp p"
proof -
  let ?C = "set (map pt_task_id (filter (\<lambda>t. pt_status t = TS_COMPLETED) (pl_tasks p)))"
  let ?P = "\<lambda>t. pt_status t = TS_PENDING \<and> ptask_is_ready ?C t"
  let ?is = "filter (\<lambda>i. ?P (pl_tasks p ! i)) [0..<length (pl_tasks p)]"
  have m: "map (nth (pl_tasks p)) ?is = filter ?P (pl_tasks p)" by (rule map_nth_filter)
  have e: "?is = [] \<longleftrightarrow> filter ?P (pl_tasks p) = []"
    by (rule iffI) (simp_all only: m [symmetric] map_is_Nil_conv)
  show ?thesis
    unfolding wave_indices_def next_wave_def Let_def if_distrib [of "map_option _"] option.map map_py_take m e ..
qed

lemma wave_indices_facts:
  assumes "wave_indices mp p = Some is"
  shows "distinct is"
    and "i \<in> set is \<Longrightarrow> i < length (pl_tasks p) \<and> pt_status (pl_tasks p ! i) = TS_PENDING \<and>
      set (pt_depends_on (pl_tasks p ! i)) \<subseteq> {pt_task_id t | t. t \<in> set (pl_tasks p) \<and> pt_status t = TS_COMPLETED}"
proof -
  from assms have eq: "is = py_take mp (filter (\<lambda>i. pt_status (pl_tasks p ! i) = TS_PENDING \<and>
      ptask_is_ready (set (map pt_task_id (filter (\<lambda>t. pt_status t = TS_COMPLETED) (pl_tasks p))))
        (pl_tasks p ! i)) [0..<length (pl_tasks p)])"
    by (auto simp: wave_indices_def Let_def split: if_splits)
  show "distinct is" unfolding eq py_take_def by (intro distinct_take distinct_filter) simp
  show "i \<in> set is \<Longrightarrow> i < length (pl_tasks p) \<and> pt_status (pl_tasks p ! i) = TS_PENDING \<and>
      set (pt_depends_on (pl_tasks p ! i)) \<subseteq> {pt_task_id t | t. t \<in> set (pl_tasks p) \<and> pt_status t = TS_COMPLETED}"
    unfolding eq by (drule set_py_take [THEN subsetD]) (auto simp: ptask_is_ready_def)
qed

text \<open>The effect of one wave on the tasks and on the results.\<close>

lemma dispatch_wave_effect:
  assumes "distinct is" and "\<And>i. i \<in> set is \<Longrightarrow> i < length (pl_tasks p)"
  shows "\<exists>q new. snd (dispatch_wave exec env w is (k, p, rs)) = (q, rs @ new) \<and>
    length (pl_tasks q) = length (pl_tasks p) \<and>
    (\<forall>j. j \<notin> set is \<longrightarrow> pl_tasks q ! j = pl_tasks p ! j) \<and>
    (\<forall>j < length (pl_tasks p). pt_task_id (pl_tasks q ! j) = pt_task_id (pl_tasks p ! j) \<and>
       pt_depends_on (pl_tasks q ! j) = pt_depends_on (pl_tasks p ! j)) \<and>
    (\<forall>i \<in> set is. pt_status (pl_tasks q ! i) \<in> {TS_COMPLETED, TS_FAILED}) \<and>
    map r_id new = map (\<lambda>i. pt_task_id (pl_tasks p ! i)) is \<and>
    map r_done new = map (\<lambda>i. pt_status (pl_tasks q ! i) = TS_COMPLETED) is \<and>
    (\<forall>r \<in> set new. r_wave r = w)"
  using assms
proof (induction "is" arbitrary: k p rs)
  case (Cons i "is")
  define t where "t = snd (dispatch (exec k) (env k) (pl_tasks p ! i))"
  define r where "r = dict_set ''wave'' (JInt w) (fst (dispatch (exec k) (env k) (pl_tasks p ! i)))"
  let ?p = "p\<lparr>pl_tasks := (pl_tasks p)[i := t]\<rparr>"
  have i: "i < length (pl_tasks p)" "i \<notin> set is" "distinct is" using Cons.prems by auto
  have "\<And>j. j \<in> set is \<Longrightarrow> j < length (pl_tasks ?p)" using Cons.prems(2) by simp
  from Cons.IH [OF i(3) this, of "Suc k" "rs @ [r]"] obtain q new where IH:
    "snd (dispatch_wave exec env w is (Suc k, ?p, rs @ [r])) = (q, (rs @ [r]) @ new)"
    "length (pl_tasks q) = length (pl_tasks ?p)"
    "\<And>j. j \<notin> set is \<Longrightarrow> pl_tasks q ! j = pl_tasks ?p ! j"
    "\<And>j. j < length (pl_tasks ?p) \<Longrightarrow> pt_task_id (pl_tasks q ! j) = pt_task_id (pl_tasks ?p ! j) \<and>
       pt_depends_on (pl_tasks q ! j) = pt_depends_on (pl_tasks ?p ! j)"
    "\<And>i. i \<in> set is \<Longrightarrow> pt_status (pl_tasks q ! i) \<in> {TS_COMPLETED, TS_FAILED}"
    "map r_id new = map (\<lambda>i. pt_task_id (pl_tasks ?p ! i)) is"
    "map r_done new = map (\<lambda>i. pt_status (pl_tasks q ! i) = TS_COMPLETED) is"
    "\<And>r. r \<in> set new \<Longrightarrow> r_wave r = w"
    by blast
  have t: "pt_task_id t = pt_task_id (pl_tasks p ! i)" "pt_depends_on t = pt_depends_on (pl_tasks p ! i)"
    "pt_status t \<in> {TS_COMPLETED, TS_FAILED}"
    using dispatch_task_fields unfolding t_def by blast+
  have r: "r_id r = pt_task_id (pl_tasks p ! i)" "r_wave r = w" "r_done r \<longleftrightarrow> pt_status t = TS_COMPLETED"
    using dispatched_result unfolding r_def t_def by blast+
  have qi: "pl_tasks q ! i = t" using IH(3) [of i] i by simp
  have run: "snd (dispatch_wave exec env w (i # is) (k, p, rs)) = (q, rs @ r # new)"
    using IH(1) by (simp add: t_def r_def split_def Let_def)
  have ids: "map (\<lambda>j. pt_task_id (pl_tasks ?p ! j)) is = map (\<lambda>j. pt_task_id (pl_tasks p ! j)) is"
  proof (intro map_cong refl)
    fix j assume "j \<in> set is"
    with i(2) have "i \<noteq> j" by blast
    then show "pt_task_id (pl_tasks ?p ! j) = pt_task_id (pl_tasks p ! j)" by simp
  qed
  show ?case
  proof (intro exI conjI)
    show "snd (dispatch_wave exec env w (i # is) (k, p, rs)) = (q, rs @ (r # new))" using run by simp
    show "length (pl_tasks q) = length (pl_tasks p)" using IH(2) by simp
    show "\<forall>j. j \<notin> set (i # is) \<longrightarrow> pl_tasks q ! j = pl_tasks p ! j" using IH(3) by simp
    show "\<forall>j < length (pl_tasks p). pt_task_id (pl_tasks q ! j) = pt_task_id (pl_tasks p ! j) \<and>
       pt_depends_on (pl_tasks q ! j) = pt_depends_on (pl_tasks p ! j)"
    proof (intro allI impI)
      fix j assume "j < length (pl_tasks p)"
      with IH(4) [of j] t show "pt_task_id (pl_tasks q ! j) = pt_task_id (pl_tasks p ! j) \<and>
          pt_depends_on (pl_tasks q ! j) = pt_depends_on (pl_tasks p ! j)"
        by (cases "j = i") simp_all
    qed
    show "\<forall>i \<in> set (i # is). pt_status (pl_tasks q ! i) \<in> {TS_COMPLETED, TS_FAILED}"
      using IH(5) qi t(3) by auto
    show "map r_id (r # new) = map (\<lambda>i. pt_task_id (pl_tasks p ! i)) (i # is)" using r IH(6) ids by simp
    show "map r_done (r # new) = map (\<lambda>i. pt_status (pl_tasks q ! i) = TS_COMPLETED) (i # is)"
      using r IH(7) qi by simp
    show "\<forall>r \<in> set (r # new). r_wave r = w" using r IH(8) by simp
  qed
qed auto

section \<open>A whole plan\<close>

text \<open>
  The invariant of the dispatch loop, for the tasks \<open>ts\<close> the plan started with: tasks keep their
  identity and dependencies, the results are those of the tasks that ran, and whatever ran had
  its dependencies completed in an earlier wave.
\<close>

definition disp_inv :: "ptask list \<Rightarrow> plan \<Rightarrow> jobj list \<Rightarrow> int \<Rightarrow> bool" where
  "disp_inv ts p rs w \<longleftrightarrow>
     length (pl_tasks p) = length ts \<and>
     (\<forall>j < length ts. pt_task_id (pl_tasks p ! j) = pt_task_id (ts ! j) \<and>
        pt_depends_on (pl_tasks p ! j) = pt_depends_on (ts ! j) \<and>
        pt_status (pl_tasks p ! j) \<in> {TS_PENDING, TS_COMPLETED, TS_FAILED}) \<and>
     distinct (map r_id rs) \<and>
     set (map r_id rs) = {pt_task_id (ts ! j) | j. j < length ts \<and> pt_status (pl_tasks p ! j) \<noteq> TS_PENDING} \<and>
     (\<forall>r \<in> set rs. r_wave r \<le> w) \<and>
     (\<forall>j < length ts. pt_status (pl_tasks p ! j) = TS_COMPLETED \<longrightarrow>
        (\<exists>e \<in> set rs. r_id e = pt_task_id (ts ! j) \<and> r_done e)) \<and>
     (\<forall>r \<in> set rs. \<forall>t \<in> set ts. pt_task_id t = r_id r \<longrightarrow>
        (\<forall>d \<in> set (pt_depends_on t). \<exists>e \<in> set rs. r_id e = d \<and> r_done e \<and> r_wave e < r_wave r))"

lemma disp_invD:
  assumes "disp_inv ts p rs w"
  shows "length (pl_tasks p) = length ts"
    and "j < length ts \<Longrightarrow> pt_task_id (pl_tasks p ! j) = pt_task_id (ts ! j)"
    and "j < length ts \<Longrightarrow> pt_depends_on (pl_tasks p ! j) = pt_depends_on (ts ! j)"
    and "j < length ts \<Longrightarrow> pt_status (pl_tasks p ! j) \<in> {TS_PENDING, TS_COMPLETED, TS_FAILED}"
    and "distinct (map r_id rs)"
    and "set (map r_id rs) = {pt_task_id (ts ! j) | j. j < length ts \<and> pt_status (pl_tasks p ! j) \<noteq> TS_PENDING}"
    and "r \<in> set rs \<Longrightarrow> r_wave r \<le> w"
    and "j < length ts \<Longrightarrow> pt_status (pl_tasks p ! j) = TS_COMPLETED \<Longrightarrow>
      \<exists>e \<in> set rs. r_id e = pt_task_id (ts ! j) \<and> r_done e"
    and "r \<in> set rs \<Longrightarrow> t \<in> set ts \<Longrightarrow> pt_task_id t = r_id r \<Longrightarrow> d \<in> set (pt_depends_on t) \<Longrightarrow>
      \<exists>e \<in> set rs. r_id e = d \<and> r_done e \<and> r_wave e < r_wave r"
  using assms unfolding disp_inv_def by blast+

lemma unique_index:
  "distinct (map f xs) \<Longrightarrow> i < length xs \<Longrightarrow> j < length xs \<Longrightarrow> f (xs ! i) = f (xs ! j) \<Longrightarrow> i = j"
  by (metis distinct_conv_nth length_map nth_map)

lemma disp_inv_wave:
  assumes inv: "disp_inv ts p rs w" and dist: "distinct (map pt_task_id ts)"
    and wave: "wave_indices mp p = Some is"
    and eff: "length (pl_tasks q) = length (pl_tasks p)"
      "\<And>j. j \<notin> set is \<Longrightarrow> pl_tasks q ! j = pl_tasks p ! j"
      "\<And>j. j < length (pl_tasks p) \<Longrightarrow> pt_task_id (pl_tasks q ! j) = pt_task_id (pl_tasks p ! j) \<and>
         pt_depends_on (pl_tasks q ! j) = pt_depends_on (pl_tasks p ! j)"
      "\<And>i. i \<in> set is \<Longrightarrow> pt_status (pl_tasks q ! i) \<in> {TS_COMPLETED, TS_FAILED}"
      "map r_id new = map (\<lambda>i. pt_task_id (pl_tasks p ! i)) is"
      "map r_done new = map (\<lambda>i. pt_status (pl_tasks q ! i) = TS_COMPLETED) is"
      "\<And>r. r \<in> set new \<Longrightarrow> r_wave r = w + 1"
  shows "disp_inv ts q (rs @ new) (w + 1)"
proof -
  note D = disp_invD [OF inv] and W = wave_indices_facts [OF wave]
  have lt: "i < length ts" if "i \<in> set is" for i using W(2) [OF that] D(1) by simp
  have newids: "map r_id new = map (\<lambda>i. pt_task_id (ts ! i)) is"
    unfolding eff(5) using lt D(2) by (intro map_cong) auto
  have old: "set (map r_id rs) \<inter> set (map r_id new) = {}"
  proof (rule ccontr)
    assume "set (map r_id rs) \<inter> set (map r_id new) \<noteq> {}"
    then obtain x where x: "x \<in> set (map r_id rs)" "x \<in> set (map r_id new)" by blast
    from x(1) obtain j where j: "j < length ts" "pt_status (pl_tasks p ! j) \<noteq> TS_PENDING" "x = pt_task_id (ts ! j)"
      unfolding D(6) by blast
    from x(2) obtain i where i: "i \<in> set is" "x = pt_task_id (ts ! i)" unfolding newids by auto
    with unique_index [OF dist lt [OF i(1)] j(1)] j(3) have "i = j" by simp
    with W(2) [OF i(1)] j(2) show False by simp
  qed
  have inew: "\<exists>i \<in> set is. r_id r = pt_task_id (ts ! i)" if "r \<in> set new" for r
  proof -
    from that have "r_id r \<in> set (map r_id new)" by simp
    then show ?thesis unfolding newids by auto
  qed
  have status: "pt_status (pl_tasks q ! j) \<noteq> TS_PENDING \<longleftrightarrow> pt_status (pl_tasks p ! j) \<noteq> TS_PENDING \<or> j \<in> set is" for j
    by (cases "j \<in> set is") (use W(2) [of j] eff(2) [of j] eff(4) [of j] in auto)
  have len: "length new = length is" using map_eq_imp_length_eq [OF newids] .
  show ?thesis
    unfolding disp_inv_def
  proof (intro conjI allI ballI impI)
    show "length (pl_tasks q) = length ts" using eff(1) D(1) by simp
    show "pt_task_id (pl_tasks q ! j) = pt_task_id (ts ! j)" if "j < length ts" for j
      using eff(3) [of j] D(1,2) that by simp
    show "pt_depends_on (pl_tasks q ! j) = pt_depends_on (ts ! j)" if "j < length ts" for j
      using eff(3) [of j] D(1,3) that by simp
    show "pt_status (pl_tasks q ! j) \<in> {TS_PENDING, TS_COMPLETED, TS_FAILED}" if "j < length ts" for j
      using eff(2) [of j] eff(4) [of j] D(4) [OF that] by (cases "j \<in> set is") auto
    have "distinct (map (\<lambda>i. pt_task_id (ts ! i)) is)"
      unfolding distinct_map using W(1) unique_index [OF dist lt lt] by (auto intro: inj_onI)
    then show "distinct (map r_id (rs @ new))" using D(5) old newids by simp
    show "set (map r_id (rs @ new)) =
        {pt_task_id (ts ! j) | j. j < length ts \<and> pt_status (pl_tasks q ! j) \<noteq> TS_PENDING}"
      unfolding map_append set_append D(6) newids status using lt by auto
    show "r_wave r \<le> w + 1" if "r \<in> set (rs @ new)" for r
      using that D(7) [of r] eff(7) [of r] by auto
    show "\<exists>e \<in> set (rs @ new). r_id e = pt_task_id (ts ! j) \<and> r_done e"
      if j: "j < length ts" "pt_status (pl_tasks q ! j) = TS_COMPLETED" for j
    proof (cases "j \<in> set is")
      case True
      then obtain m where m: "m < length is" "is ! m = j" by (auto simp: in_set_conv_nth)
      have "r_id (new ! m) = pt_task_id (ts ! j)"
        using arg_cong [OF newids, of "\<lambda>l. l ! m"] m len by simp
      moreover have "r_done (new ! m)"
        using arg_cong [OF eff(6), of "\<lambda>l. l ! m"] m len j(2) by simp
      ultimately show ?thesis using m len by (intro bexI [of _ "new ! m"]) auto
    next
      case False
      then have "pt_status (pl_tasks p ! j) = TS_COMPLETED" using eff(2) j(2) by simp
      from D(8) [OF j(1) this] show ?thesis by auto
    qed
    show "\<exists>e \<in> set (rs @ new). r_id e = d \<and> r_done e \<and> r_wave e < r_wave r"
      if r: "r \<in> set (rs @ new)" and t: "t \<in> set ts" "pt_task_id t = r_id r" "d \<in> set (pt_depends_on t)" for r t d
    proof (cases "r \<in> set rs")
      case True
      from D(9) [OF this t] show ?thesis by auto
    next
      case False
      then have new: "r \<in> set new" using r by simp
      from inew [OF this] obtain i where i: "i \<in> set is" "r_id r = pt_task_id (ts ! i)" by blast
      have "t = ts ! i"
        using t(1,2) i lt [OF i(1)] unique_index [OF dist] by (metis in_set_conv_nth)
      then have "d \<in> set (pt_depends_on (pl_tasks p ! i))" using t(3) D(3) [OF lt [OF i(1)]] by simp
      with W(2) [OF i(1)] obtain u where "u \<in> set (pl_tasks p)" "pt_status u = TS_COMPLETED" "d = pt_task_id u"
        by blast
      then obtain j where j: "j < length ts" "pt_status (pl_tasks p ! j) = TS_COMPLETED" "d = pt_task_id (ts ! j)"
        using D(1,2) by (metis in_set_conv_nth)
      from D(8) [OF j(1,2)] obtain e where "e \<in> set rs" "r_id e = d" "r_done e" using j(3) by blast
      then show ?thesis using D(7) [of e] eff(7) [OF new] by (intro bexI [of _ e]) auto
    qed
  qed
qed

text \<open>Unless the plan failed or is done, its next wave is not empty.\<close>

lemma wave_not_empty:
  assumes inv: "disp_inv ts p rs w" and build: "graph_build ts = Inr (g, rts)"
    and ok: "\<not> plan_any_failed p" and wave: "wave_indices 4 p = Some is"
  shows "is \<noteq> []"
proof
  assume "is = []"
  note D = disp_invD [OF inv] and facts = graph_build_facts [OF build]
  let ?C = "set (map pt_task_id (filter (\<lambda>t. pt_status t = TS_COMPLETED) (pl_tasks p)))"
  let ?ready = "filter (\<lambda>i. pt_status (pl_tasks p ! i) = TS_PENDING \<and>
      ptask_is_ready ?C (pl_tasks p ! i)) [0..<length (pl_tasks p)]"
  have w: "wave_indices 4 p = (if ?ready = [] \<and> plan_all_done p then None else Some (py_take 4 ?ready))"
    unfolding wave_indices_def Let_def ..
  with wave \<open>is = []\<close> have "py_take 4 ?ready = []" and nd: "?ready = [] \<longrightarrow> \<not> plan_all_done p"
    by (auto split: if_splits)
  then have none: "?ready = []" and nd: "\<not> plan_all_done p" by (simp_all add: py_take_Nil_iff)
  have st: "pt_status (pl_tasks p ! j) \<in> {TS_PENDING, TS_COMPLETED}" if "j < length ts" for j
  proof -
    have "pl_tasks p ! j \<in> set (pl_tasks p)" using that D(1) by simp
    then have "pt_status (pl_tasks p ! j) \<noteq> TS_FAILED" using ok unfolding plan_any_failed_def by blast
    with D(4) [OF that] show ?thesis by blast
  qed
  have done': "pt_status (pl_tasks p ! j) = TS_COMPLETED" if "j < length ts" for j
    using that
  proof (induction "nat (glev g (pt_task_id (ts ! j)))" arbitrary: j rule: less_induct)
    case less
    have "set (pt_depends_on (pl_tasks p ! j)) \<subseteq> ?C"
    proof
      fix d assume "d \<in> set (pt_depends_on (pl_tasks p ! j))"
      then have d: "d \<in> set (pt_depends_on (ts ! j))" using D(3) [OF less.prems] by simp
      have tj: "ts ! j \<in> set ts" using less.prems by simp
      from facts(4) [OF tj] d obtain u where u: "u \<in> set ts" "d = pt_task_id u" by auto
      then obtain i where i: "i < length ts" "ts ! i = u" by (auto simp: in_set_conv_nth)
      have "0 \<le> glev g d" using facts(5) [OF u(1)] u(2) by simp
      then have "nat (glev g (pt_task_id (ts ! i))) < nat (glev g (pt_task_id (ts ! j)))"
        using facts(6) [OF tj d] u i by simp
      from less.hyps [OF this i(1)] have "pt_status (pl_tasks p ! i) = TS_COMPLETED" .
      moreover have "pl_tasks p ! i \<in> set (pl_tasks p)" "pt_task_id (pl_tasks p ! i) = d"
        using i u D(1) D(2) [OF i(1)] by simp_all
      ultimately show "d \<in> ?C" by force
    qed
    then have "ptask_is_ready ?C (pl_tasks p ! j)" by (auto simp: ptask_is_ready_def)
    then have "pt_status (pl_tasks p ! j) \<noteq> TS_PENDING"
      using none less.prems D(1) by (auto simp: filter_empty_conv)
    with st [OF less.prems] show ?case by blast
  qed
  have "plan_all_done p"
    unfolding plan_all_done_def using done' D(1) by (metis in_set_conv_nth insertI1)
  with nd show False by blast
qed

lemma dispatch_loop_runs:
  assumes build: "graph_build ts = Inr (g, rts)"
    and "disp_inv ts p rs w" and "\<not> plan_any_failed p"
  shows "\<exists>k' q rs' w'. dispatch_loop exec env k p rs w = Some (k', q, rs', w') \<and>
    disp_inv ts q rs' w' \<and> (plan_any_failed q \<or> plan_all_done q)"
  using assms(2,3)
proof (induction "length ts - length rs" arbitrary: k p rs w rule: less_induct)
  case less
  note dist = graph_build_facts(2) [OF build]
  show ?case
  proof (cases "wave_indices 4 p")
    case None
    then have "dispatch_loop exec env k p rs w = Some (k, p, rs, w)"
      by (subst dispatch_loop.simps) simp
    moreover from None have "plan_all_done p" by (auto simp: wave_indices_def Let_def split: if_splits)
    ultimately show ?thesis using less.prems(1) by blast
  next
    case (Some "is")
    note W = wave_indices_facts [OF Some]
    obtain q new where eff:
      "snd (dispatch_wave exec env (w + 1) is (k, p, rs)) = (q, rs @ new)"
      "length (pl_tasks q) = length (pl_tasks p)"
      "\<And>j. j \<notin> set is \<Longrightarrow> pl_tasks q ! j = pl_tasks p ! j"
      "\<And>j. j < length (pl_tasks p) \<Longrightarrow> pt_task_id (pl_tasks q ! j) = pt_task_id (pl_tasks p ! j) \<and>
         pt_depends_on (pl_tasks q ! j) = pt_depends_on (pl_tasks p ! j)"
      "\<And>i. i \<in> set is \<Longrightarrow> pt_status (pl_tasks q ! i) \<in> {TS_COMPLETED, TS_FAILED}"
      "map r_id new = map (\<lambda>i. pt_task_id (pl_tasks p ! i)) is"
      "map r_done new = map (\<lambda>i. pt_status (pl_tasks q ! i) = TS_COMPLETED) is"
      "\<And>r. r \<in> set new \<Longrightarrow> r_wave r = w + 1"
      using dispatch_wave_effect [OF W(1), of p exec env "w + 1" k rs] W(2) by blast
    have inv: "disp_inv ts q (rs @ new) (w + 1)"
      by (rule disp_inv_wave [OF less.prems(1) dist Some eff(2-8)])
    have run: "dispatch_loop exec env k p rs w =
        (if plan_any_failed q then Some (fst (dispatch_wave exec env (w + 1) is (k, p, rs)), q, rs @ new, w + 1)
         else dispatch_loop exec env (fst (dispatch_wave exec env (w + 1) is (k, p, rs))) q (rs @ new) (w + 1))"
      by (subst dispatch_loop.simps) (simp add: Some eff(1) Let_def)
    show ?thesis
    proof (cases "plan_any_failed q")
      case True
      with run inv show ?thesis by auto
    next
      case False
      have "is \<noteq> []" by (rule wave_not_empty [OF less.prems(1) build less.prems(2) Some])
      then have "new \<noteq> []" using eff(6) by auto
      then have "length rs < length (rs @ new)" by simp
      moreover have "length (rs @ new) \<le> length ts"
      proof -
        have "length (rs @ new) = card (set (map r_id (rs @ new)))"
          using distinct_card [OF disp_invD(5) [OF inv]] by simp
        also have "\<dots> \<le> card (set (map pt_task_id ts))"
          unfolding disp_invD(6) [OF inv] by (rule card_mono) auto
        also have "\<dots> \<le> length ts" using card_length [of "map pt_task_id ts"] by simp
        finally show ?thesis .
      qed
      ultimately have "length ts - length (rs @ new) < length ts - length rs" by linarith
      from less.hyps [OF this inv False] run False show ?thesis by simp
    qed
  qed
qed

lemma disp_inv_start:
  assumes "\<forall>t \<in> set (pl_tasks p). pt_status t = TS_PENDING"
  shows "disp_inv (pl_tasks p) p [] 0"
  using assms by (simp add: disp_inv_def)

text \<open>
  C11: whatever the capabilities answer, dispatching a plan whose graph builds and whose tasks
  all wait returns. Every task runs at most once and only after all its dependencies completed in earlier
  waves; either some task failed, or all tasks ran and completed.
\<close>
theorem dispatch_plan_returns:
  assumes "graph_build (pl_tasks p) = Inr (g, rts)"
    and "\<forall>t \<in> set (pl_tasks p). pt_status t = TS_PENDING"
  shows "\<exists>k q rs w. dispatch_loop exec env 0 p [] 0 = Some (k, q, rs, w) \<and>
    dispatch_plan exec env p \<noteq> None \<and>
    distinct (map r_id rs) \<and>
    (\<forall>r \<in> set rs. \<forall>t \<in> set (pl_tasks p). pt_task_id t = r_id r \<longrightarrow>
       (\<forall>d \<in> set (pt_depends_on t). \<exists>e \<in> set rs. r_id e = d \<and> r_done e \<and> r_wave e < r_wave r)) \<and>
    (plan_any_failed q \<or> plan_success q \<and> set (map r_id rs) = set (map pt_task_id (pl_tasks p)))"
proof -
  have nf: "\<not> plan_any_failed p" using assms(2) by (auto simp: plan_any_failed_def)
  from dispatch_loop_runs [OF assms(1) disp_inv_start [OF assms(2)] nf, of exec env 0]
  obtain k q rs w where r: "dispatch_loop exec env 0 p [] 0 = Some (k, q, rs, w)"
    "disp_inv (pl_tasks p) q rs w" "plan_any_failed q \<or> plan_all_done q"
    by blast
  note D = disp_invD [OF r(2)]
  have "set (map r_id rs) = set (map pt_task_id (pl_tasks p))" if "plan_all_done q"
  proof -
    have "pt_status (pl_tasks q ! j) \<noteq> TS_PENDING" if "j < length (pl_tasks p)" for j
    proof -
      have "pl_tasks q ! j \<in> set (pl_tasks q)" using that D(1) by simp
      with \<open>plan_all_done q\<close> show ?thesis unfolding plan_all_done_def by force
    qed
    then have "set (map r_id rs) = {pt_task_id (pl_tasks p ! j) | j. j < length (pl_tasks p)}"
      unfolding D(6) by auto
    also have "\<dots> = set (map pt_task_id (pl_tasks p))" unfolding set_map set_conv_nth [of "pl_tasks p"] by auto
    finally show ?thesis .
  qed
  then have "plan_any_failed q \<or> plan_success q \<and> set (map r_id rs) = set (map pt_task_id (pl_tasks p))"
    using r(3) unfolding plan_success_def by blast
  moreover have "dispatch_plan exec env p \<noteq> None" using r(1) by (simp add: dispatch_plan_def)
  ultimately show ?thesis using r(1) D(5,9) by blast
qed

definition sample_env :: "nat \<Rightarrow> dispatch_env" where
  "sample_env k = \<lparr>de_started = ''t0'', de_completed = ''t1'', de_now = ''t1'', de_obs_id = ''o1'', de_duration_ms = 5\<rparr>"

definition sample_resolver :: "nat \<Rightarrow> resolver" where
  "sample_resolver k cap params = Inr (observation_success ''c1'' ''t1'' cap [] cap 1 [])"

theorem dispatch_plan_returns_witness:
  "\<exists>k q rs w. dispatch_loop sample_resolver sample_env 0 (sample_plan\<lparr>pl_tasks := diamond\<rparr>) [] 0 = Some (k, q, rs, w) \<and>
     distinct (map r_id rs)"
proof -
  let ?p = "sample_plan\<lparr>pl_tasks := diamond\<rparr>"
  from diamond_build obtain g rts where "graph_build (pl_tasks ?p) = Inr (g, rts)"
    by (auto split: sum.splits prod.splits)
  moreover have "\<forall>t \<in> set (pl_tasks ?p). pt_status t = TS_PENDING"
    by (simp add: diamond_def sample_task_def new_ptask_def ptask_post_init_def)
  ultimately show ?thesis
    using dispatch_plan_returns [of ?p g rts sample_resolver sample_env] by blast
qed

text \<open>An empty wave of a plan that is neither done nor failed repeats forever.\<close>

lemma dispatch_loop_spins:
  assumes "wave_indices 4 p = Some []" and "\<not> plan_any_failed p"
  shows "dispatch_loop exec env k p rs w = None"
proof (cases "dispatch_loop exec env k p rs w")
  case (Some y)
  have "wave_indices 4 p = Some [] \<longrightarrow> plan_any_failed p"
  proof (rule dispatch_loop.raw_induct
      [where P = "\<lambda>exec env k p rs w y. wave_indices 4 p = Some [] \<longrightarrow> plan_any_failed p"])
    show "dispatch_loop exec env k p rs w = Some y" by (rule Some)
    fix loop exec env k p rs w y
    assume IH: "\<And>exec env k p rs w y. loop exec env k p rs w = Some y \<Longrightarrow>
        wave_indices 4 p = Some [] \<longrightarrow> plan_any_failed p"
      and run: "(case wave_indices 4 p of
          None \<Rightarrow> Some (k, p, rs, w)
        | Some is \<Rightarrow>
            let s = dispatch_wave exec env (w + 1) is (k, p, rs)
            in if plan_any_failed (fst (snd s)) then Some (fst s, fst (snd s), snd (snd s), w + 1)
               else loop exec env (fst s) (fst (snd s)) (snd (snd s)) (w + 1)) = Some y"
    show "wave_indices 4 p = Some [] \<longrightarrow> plan_any_failed p"
    proof (intro impI, rule ccontr)
      assume w: "wave_indices 4 p = Some []" and n: "\<not> plan_any_failed p"
      with run have "loop exec env k p rs (w + 1) = Some y" by (simp add: Let_def)
      from IH [OF this] w n show False by blast
    qed
  qed
  with assms show ?thesis by blast
qed

text \<open>
  A plan with a waiting task behind a skipped (or blocked) one, and nothing failed or
  ready, is never reported: \<open>next_wave\<close> answers with an empty wave, not with \<open>None\<close>, and the
  dispatcher repeats it forever.
\<close>
lemma dispatch_stuck_plan_never_returns:
  assumes "t \<in> set (pl_tasks p)" and "pt_status t = TS_PENDING"
    and "\<forall>u \<in> set (pl_tasks p). pt_status u \<noteq> TS_FAILED \<and>
      (pt_status u = TS_PENDING \<longrightarrow> (\<exists>d \<in> set (pt_depends_on u).
         \<forall>v \<in> set (pl_tasks p). pt_task_id v = d \<longrightarrow> pt_status v \<noteq> TS_COMPLETED))"
  shows "next_wave 4 p = Some [] \<and> dispatch_plan exec env p = None"
proof -
  let ?C = "set (map pt_task_id (filter (\<lambda>t. pt_status t = TS_COMPLETED) (pl_tasks p)))"
  have "\<not> plan_all_done p" using assms(1,2) by (force simp: plan_all_done_def)
  moreover have "\<not> (pt_status u = TS_PENDING \<and> ptask_is_ready ?C u)" if u: "u \<in> set (pl_tasks p)" for u
  proof
    assume "pt_status u = TS_PENDING \<and> ptask_is_ready ?C u"
    with assms(3) u obtain d where d: "d \<in> set (pt_depends_on u)" "d \<in> ?C"
      "\<forall>v \<in> set (pl_tasks p). pt_task_id v = d \<longrightarrow> pt_status v \<noteq> TS_COMPLETED"
      unfolding ptask_is_ready_def by blast
    from d(2) obtain v where "v \<in> set (pl_tasks p)" "pt_task_id v = d" "pt_status v = TS_COMPLETED" by auto
    with d(3) show False by blast
  qed
  then have "filter (\<lambda>i. pt_status (pl_tasks p ! i) = TS_PENDING \<and> ptask_is_ready ?C (pl_tasks p ! i))
      [0..<length (pl_tasks p)] = []"
    unfolding filter_empty_conv by simp
  ultimately have w: "wave_indices 4 p = Some []"
    unfolding wave_indices_def Let_def by (simp add: py_take_def)
  moreover have "\<not> plan_any_failed p" using assms(3) by (auto simp: plan_any_failed_def)
  ultimately have "dispatch_plan exec env p = None"
    using dispatch_loop_spins by (simp add: dispatch_plan_def)
  moreover have "next_wave 4 p = Some []" using wave_indices_next_wave [of p 4] w by simp
  ultimately show ?thesis by blast
qed

lemma dispatch_stuck_plan_never_returns_witness:
  "dispatch_plan sample_resolver sample_env (sample_plan\<lparr>pl_tasks :=
     [(sample_task ''a'' [])\<lparr>pt_status := TS_SKIPPED\<rparr>, sample_task ''b'' [''a'']]\<rparr>) = None"
  using dispatch_stuck_plan_never_returns [of "sample_task ''b'' [''a'']" "sample_plan\<lparr>pl_tasks :=
     [(sample_task ''a'' [])\<lparr>pt_status := TS_SKIPPED\<rparr>, sample_task ''b'' [''a'']]\<rparr>" sample_resolver sample_env]
  by (simp add: sample_task_def new_ptask_def ptask_post_init_def)

end
