(* ===== verification/Planner_Progress.thy ===== *)
theory Planner_Progress
  imports Planner_Graph
begin

text \<open>
  The progress report of a run (\<open>nous_runtime/planner/progress.py\<close>): one step per node of the
  graph, and counts of what is finished. Keyword arguments a caller may leave out are fields
  of \<open>progress_extra\<close>, with the source's defaults in \<open>no_extra\<close>.
\<close>

datatype step_state =
    SS_PENDING | SS_READY | SS_RUNNING | SS_BLOCKED | SS_WAITING_FOR_APPROVAL
  | SS_COMPLETED | SS_FAILED | SS_SKIPPED | SS_CANCELLED

fun step_state_value :: "step_state \<Rightarrow> string" where
  "step_state_value SS_PENDING = ''PENDING''"
| "step_state_value SS_READY = ''READY''"
| "step_state_value SS_RUNNING = ''RUNNING''"
| "step_state_value SS_BLOCKED = ''BLOCKED''"
| "step_state_value SS_WAITING_FOR_APPROVAL = ''WAITING_FOR_APPROVAL''"
| "step_state_value SS_COMPLETED = ''COMPLETED''"
| "step_state_value SS_FAILED = ''FAILED''"
| "step_state_value SS_SKIPPED = ''SKIPPED''"
| "step_state_value SS_CANCELLED = ''CANCELLED''"

definition TASK_TO_STEP :: "(task_status, step_state) dict" where
  "TASK_TO_STEP =
     [(TS_PENDING, SS_PENDING), (TS_READY, SS_READY), (TS_RUNNING, SS_RUNNING),
      (TS_COMPLETED, SS_COMPLETED), (TS_FAILED, SS_FAILED), (TS_SKIPPED, SS_SKIPPED)]"

record step_info =
  si_step_id :: string
  si_description :: string
  si_state :: step_state
  si_depends_on :: "string list"
  si_agent_id :: string
  si_capability_id :: string

record progress_extra =
  px_current_step :: string
  px_elapsed_seconds :: rat
  px_last_event :: string
  px_selected_agent :: string
  px_selected_node :: string
  px_pending_approvals :: int
  px_files_changed :: int
  px_tests_completed :: int
  px_tests_total :: int
  px_artifacts_count :: int

record run_progress =
  rp_run_id :: string
  rp_task_id :: string
  rp_plan_id :: string
  rp_total_steps :: int
  rp_completed_steps :: int
  rp_failed_steps :: int
  rp_steps :: "step_info list"
  rp_current_step_index :: int
  rp_waiting_reason :: string
  rp_extra :: progress_extra

definition step_ratio :: "run_progress \<Rightarrow> int \<times> int" where
  "step_ratio r = (rp_completed_steps r, rp_total_steps r)"

definition run_progress_to_dict :: "run_progress \<Rightarrow> jobj" where
  "run_progress_to_dict r =
     [(''run_id'', JStr (rp_run_id r)), (''task_id'', JStr (rp_task_id r)),
      (''plan_id'', JStr (rp_plan_id r)), (''total_steps'', JInt (rp_total_steps r)),
      (''completed_steps'', JInt (rp_completed_steps r)), (''failed_steps'', JInt (rp_failed_steps r)),
      (''current_step'', JStr (px_current_step (rp_extra r))),
      (''current_step_index'', JInt (rp_current_step_index r)),
      (''elapsed_seconds'', JFloat (px_elapsed_seconds (rp_extra r))),
      (''last_event'', JStr (px_last_event (rp_extra r))),
      (''files_changed'', JInt (px_files_changed (rp_extra r))),
      (''tests_completed'', JInt (px_tests_completed (rp_extra r))),
      (''tests_total'', JInt (px_tests_total (rp_extra r))),
      (''waiting_reason'', JStr (rp_waiting_reason r)),
      (''selected_agent'', JStr (px_selected_agent (rp_extra r))),
      (''selected_node'', JStr (px_selected_node (rp_extra r))),
      (''pending_approvals'', JInt (px_pending_approvals (rp_extra r))),
      (''artifacts_count'', JInt (px_artifacts_count (rp_extra r))),
      (''steps'', JList (map (\<lambda>s. JObj
         [(''step_id'', JStr (si_step_id s)), (''description'', JStr (si_description s)),
          (''state'', JStr (step_state_value (si_state s))),
          (''depends_on'', jstrs (si_depends_on s))]) (rp_steps r)))]"

definition node_step :: "enode \<Rightarrow> step_info" where
  "node_step n =
     \<lparr>si_step_id = en_task_id n, si_description = pt_description (en_task n),
      si_state = dict_get_or TASK_TO_STEP (pt_status (en_task n)) SS_PENDING,
      si_depends_on = pt_depends_on (en_task n), si_agent_id = [],
      si_capability_id = pt_capability_id (en_task n)\<rparr>"

definition progress_from_graph :: "string \<Rightarrow> string \<Rightarrow> task_graph \<Rightarrow> progress_extra \<Rightarrow> run_progress" where
  "progress_from_graph run_id task_id g x =
     (let nodes = map snd g in
      \<lparr>rp_run_id = run_id, rp_task_id = task_id, rp_plan_id = [],
       rp_total_steps = int (length nodes),
       rp_completed_steps = int (length (filter (\<lambda>n. pt_status (en_task n) \<in> {TS_COMPLETED, TS_SKIPPED}) nodes)),
       rp_failed_steps = int (length (filter (\<lambda>n. pt_status (en_task n) = TS_FAILED) nodes)),
       rp_steps = map node_step nodes, rp_current_step_index = 0, rp_waiting_reason = [],
       rp_extra = x\<rparr>)"

text \<open>The argument \<open>changed_files\<close> of the source is not used by it, and tests have no total.\<close>

definition open_ended_summary :: "string \<Rightarrow> int \<Rightarrow> string \<Rightarrow> progress_extra \<Rightarrow> run_progress" where
  "open_ended_summary run_id completed_steps waiting_reason x =
     \<lparr>rp_run_id = run_id, rp_task_id = [], rp_plan_id = [], rp_total_steps = 0,
      rp_completed_steps = completed_steps, rp_failed_steps = 0, rp_steps = [],
      rp_current_step_index = 0, rp_waiting_reason = waiting_reason,
      rp_extra = x\<lparr>px_tests_total := 0, px_artifacts_count := 0\<rparr>\<rparr>"

definition no_extra :: progress_extra where
  "no_extra = \<lparr>px_current_step = [], px_elapsed_seconds = 0, px_last_event = [],
     px_selected_agent = [], px_selected_node = [], px_pending_approvals = 0,
     px_files_changed = 0, px_tests_completed = 0, px_tests_total = 0, px_artifacts_count = 0\<rparr>"

section \<open>Lemmas\<close>

lemma node_step_state:
  "si_state (node_step n) =
     (case pt_status (en_task n) of
        TS_PENDING \<Rightarrow> SS_PENDING | TS_READY \<Rightarrow> SS_READY | TS_RUNNING \<Rightarrow> SS_RUNNING
      | TS_COMPLETED \<Rightarrow> SS_COMPLETED | TS_FAILED \<Rightarrow> SS_FAILED | TS_SKIPPED \<Rightarrow> SS_SKIPPED
      | TS_BLOCKED \<Rightarrow> SS_PENDING)"
  by (cases "pt_status (en_task n)") (simp_all add: node_step_def TASK_TO_STEP_def dict_get_or_def)

text \<open>
  A report never claims more than the graph shows: finished and failed steps together are at
  most the total, the total is the number of tasks, and all are finished or failed exactly
  when the graph is complete; but a blocked task is displayed as pending.
\<close>
lemma progress_is_measured:
  "rp_completed_steps (progress_from_graph r t g x) + rp_failed_steps (progress_from_graph r t g x)
     \<le> rp_total_steps (progress_from_graph r t g x) \<and>
   rp_total_steps (progress_from_graph r t g x) = int (length (rp_steps (progress_from_graph r t g x))) \<and>
   (rp_completed_steps (progress_from_graph r t g x) + rp_failed_steps (progress_from_graph r t g x)
      = rp_total_steps (progress_from_graph r t g x) \<longleftrightarrow> graph_is_complete g) \<and>
   SS_BLOCKED \<notin> set (map si_state (rp_steps (progress_from_graph r t g x)))"
proof -
  let ?P = "\<lambda>n. pt_status (en_task n) \<in> {TS_COMPLETED, TS_SKIPPED}"
  let ?Q = "\<lambda>n. pt_status (en_task n) = TS_FAILED"
  have count: "length (filter ?P xs) + length (filter ?Q xs) = length (filter (\<lambda>n. ?P n \<or> ?Q n) xs)" for xs
    by (induction xs) auto
  have sum: "rp_completed_steps (progress_from_graph r t g x) + rp_failed_steps (progress_from_graph r t g x)
      = int (length (filter (\<lambda>n. ?P n \<or> ?Q n) (map snd g)))"
    unfolding progress_from_graph_def Let_def run_progress.select_convs of_nat_add [symmetric] count ..
  have total: "rp_total_steps (progress_from_graph r t g x) = int (length (map snd g))"
    by (simp add: progress_from_graph_def)
  have "graph_is_complete g \<longleftrightarrow> length (filter (\<lambda>n. ?P n \<or> ?Q n) (map snd g)) = length (map snd g)"
    unfolding length_filter_all graph_is_complete_def by blast
  moreover have "rp_steps (progress_from_graph r t g x) = map node_step (map snd g)"
    by (simp add: progress_from_graph_def)
  moreover have "SS_BLOCKED \<noteq> si_state (node_step n)" for n
    by (simp add: node_step_state split: task_status.split)
  then have "SS_BLOCKED \<notin> set (map si_state (map node_step (map snd g)))" by auto
  ultimately show ?thesis
    unfolding sum total using length_filter_le [of "\<lambda>n. ?P n \<or> ?Q n" "map snd g"] by simp
qed

end
