(* ===== verification/Reliability_Models.thy ===== *)
theory Reliability_Models
  imports Py_Datetime
begin

text \<open>
  The records of the reliability layer (\<open>nous_runtime/intelligence/reliability/models.py\<close>):
  the failure taxonomy, the states of a circuit and the transitions between them, and the
  immutable records with the dictionaries they are stored as. Instants are microseconds in UTC
  (\<open>Py_Datetime\<close>); \<open>now\<close> is the clock reading a decoder falls back to.
\<close>

section \<open>Failure taxonomy\<close>

datatype failure_category =
    FC_AUTHENTICATION | FC_AUTHORIZATION | FC_RATE_LIMIT | FC_TIMEOUT | FC_CONNECTION
  | FC_SERVER_ERROR | FC_MALFORMED_RESPONSE | FC_OUTPUT_VALIDATION | FC_CAPABILITY_UNSUPPORTED
  | FC_USER_INPUT | FC_POLICY_REJECTION | FC_BUDGET_EXCEEDED | FC_RUNTIME_INTERNAL
  | FC_CANCELLED | FC_UNKNOWN

fun failure_category_value :: "failure_category \<Rightarrow> string" where
  "failure_category_value FC_AUTHENTICATION = ''authentication''"
| "failure_category_value FC_AUTHORIZATION = ''authorization''"
| "failure_category_value FC_RATE_LIMIT = ''rate_limit''"
| "failure_category_value FC_TIMEOUT = ''timeout''"
| "failure_category_value FC_CONNECTION = ''connection''"
| "failure_category_value FC_SERVER_ERROR = ''server_error''"
| "failure_category_value FC_MALFORMED_RESPONSE = ''malformed_response''"
| "failure_category_value FC_OUTPUT_VALIDATION = ''output_validation''"
| "failure_category_value FC_CAPABILITY_UNSUPPORTED = ''capability_unsupported''"
| "failure_category_value FC_USER_INPUT = ''user_input''"
| "failure_category_value FC_POLICY_REJECTION = ''policy_rejection''"
| "failure_category_value FC_BUDGET_EXCEEDED = ''budget_exceeded''"
| "failure_category_value FC_RUNTIME_INTERNAL = ''runtime_internal''"
| "failure_category_value FC_CANCELLED = ''cancelled''"
| "failure_category_value FC_UNKNOWN = ''unknown''"

definition all_categories :: "failure_category list" where
  "all_categories =
     [FC_AUTHENTICATION, FC_AUTHORIZATION, FC_RATE_LIMIT, FC_TIMEOUT, FC_CONNECTION,
      FC_SERVER_ERROR, FC_MALFORMED_RESPONSE, FC_OUTPUT_VALIDATION, FC_CAPABILITY_UNSUPPORTED,
      FC_USER_INPUT, FC_POLICY_REJECTION, FC_BUDGET_EXCEEDED, FC_RUNTIME_INTERNAL,
      FC_CANCELLED, FC_UNKNOWN]"

definition failure_category_of :: "string \<Rightarrow> pyexn + failure_category" where
  "failure_category_of v =
     (case find (\<lambda>c. failure_category_value c = v) all_categories of
        Some c \<Rightarrow> Inr c | None \<Rightarrow> Inl (ValueError ''not a valid FailureCategory''))"

fun category_of_json :: "json \<Rightarrow> pyexn + failure_category" where
  "category_of_json (JStr s) = failure_category_of s"
| "category_of_json _ = Inl (ValueError ''not a valid FailureCategory'')"

definition NON_RETRYABLE_CATEGORIES :: "failure_category list" where
  "NON_RETRYABLE_CATEGORIES =
     [FC_AUTHENTICATION, FC_AUTHORIZATION, FC_USER_INPUT, FC_POLICY_REJECTION,
      FC_CAPABILITY_UNSUPPORTED, FC_BUDGET_EXCEEDED, FC_CANCELLED, FC_OUTPUT_VALIDATION]"

section \<open>Circuit states\<close>

datatype circuit_state = CS_CLOSED | CS_OPEN | CS_HALF_OPEN | CS_FORCED_OPEN | CS_DISABLED

fun circuit_state_value :: "circuit_state \<Rightarrow> string" where
  "circuit_state_value CS_CLOSED = ''closed''"
| "circuit_state_value CS_OPEN = ''open''"
| "circuit_state_value CS_HALF_OPEN = ''half_open''"
| "circuit_state_value CS_FORCED_OPEN = ''forced_open''"
| "circuit_state_value CS_DISABLED = ''disabled''"

definition circuit_state_of :: "string \<Rightarrow> pyexn + circuit_state" where
  "circuit_state_of v =
     (case find (\<lambda>c. circuit_state_value c = v)
             [CS_CLOSED, CS_OPEN, CS_HALF_OPEN, CS_FORCED_OPEN, CS_DISABLED] of
        Some c \<Rightarrow> Inr c | None \<Rightarrow> Inl (ValueError ''not a valid CircuitState''))"

definition VALID_CIRCUIT_TRANSITIONS :: "(circuit_state, circuit_state list) dict" where
  "VALID_CIRCUIT_TRANSITIONS =
     [(CS_CLOSED, [CS_OPEN, CS_FORCED_OPEN, CS_DISABLED]),
      (CS_OPEN, [CS_HALF_OPEN, CS_FORCED_OPEN, CS_DISABLED]),
      (CS_HALF_OPEN, [CS_CLOSED, CS_OPEN, CS_FORCED_OPEN, CS_DISABLED]),
      (CS_FORCED_OPEN, [CS_CLOSED, CS_DISABLED]),
      (CS_DISABLED, [CS_CLOSED, CS_OPEN, CS_HALF_OPEN, CS_FORCED_OPEN])]"

section \<open>Redaction\<close>

definition SENSITIVE_KEYS :: "string list" where
  "SENSITIVE_KEYS =
     [''api_key'', ''authorization'', ''cookie'', ''password'', ''private_key'', ''secret'', ''token'']"

definition is_sensitive :: "string \<Rightarrow> bool" where
  "is_sensitive key \<longleftrightarrow> (\<exists>part \<in> set SENSITIVE_KEYS. py_contains part (py_lower key))"

fun sanitize :: "json \<Rightarrow> json" where
  "sanitize (JObj kvs) =
     JObj (map (\<lambda>(k, v). (k, if is_sensitive k then JStr ''[redacted]'' else sanitize v)) kvs)"
| "sanitize (JList xs) = JList (map sanitize xs)"
| "sanitize v = v"

definition sanitize_obj :: "jobj \<Rightarrow> jobj" where
  "sanitize_obj kvs = map (\<lambda>(k, v). (k, if is_sensitive k then JStr ''[redacted]'' else sanitize v)) kvs"

text \<open>
  \<open>snapshot_hash\<close>: \<open>digest\<close> stands for the SHA-256 of the canonical JSON text, in hexadecimal.
\<close>

definition snapshot_hash :: "(json \<Rightarrow> string) \<Rightarrow> jobj \<Rightarrow> string" where
  "snapshot_hash digest d = take 16 (digest (JObj (sanitize_obj d)))"

section \<open>Records\<close>

definition schema_1_0 :: string where
  "schema_1_0 = ''1.0''"

definition rd_ts :: "jobj \<Rightarrow> string \<Rightarrow> pyexn + int option" where
  "rd_ts d k = parse_ts (dict_get_or d k JNull)"

definition rd_ts_or :: "int \<Rightarrow> jobj \<Rightarrow> string \<Rightarrow> pyexn + int" where
  "rd_ts_or now d k = bindE (rd_ts d k) (\<lambda>t. Inr (case t of None \<Rightarrow> now | Some u \<Rightarrow> u))"

record failure_signal =
  fs_signal_id :: string
  fs_provider_id :: string
  fs_model_id :: string
  fs_capability_id :: string
  fs_category :: failure_category
  fs_provider_attributable :: bool
  fs_model_attributable :: bool
  fs_retryable :: bool
  fs_circuit_relevant :: bool
  fs_confidence :: rat
  fs_explanation :: string
  fs_evidence :: jobj
  fs_occurred_at :: int
  fs_schema_version :: string

definition failure_signal_to_dict :: "failure_signal \<Rightarrow> jobj" where
  "failure_signal_to_dict x =
     [(''signal_id'', JStr (fs_signal_id x)),
      (''provider_id'', JStr (fs_provider_id x)),
      (''model_id'', JStr (fs_model_id x)),
      (''capability_id'', JStr (fs_capability_id x)),
      (''category'', JStr (failure_category_value (fs_category x))),
      (''provider_attributable'', JBool (fs_provider_attributable x)),
      (''model_attributable'', JBool (fs_model_attributable x)),
      (''retryable'', JBool (fs_retryable x)),
      (''circuit_relevant'', JBool (fs_circuit_relevant x)),
      (''confidence'', JFloat (fs_confidence x)),
      (''explanation'', JStr (fs_explanation x)),
      (''evidence'', JObj (sanitize_obj (fs_evidence x))),
      (''occurred_at'', JStr (fmt_ts (Some (fs_occurred_at x)))),
      (''schema_version'', JStr (fs_schema_version x))]"

definition failure_signal_from_dict :: "int \<Rightarrow> jobj \<Rightarrow> pyexn + failure_signal" where
  "failure_signal_from_dict now d =
     bindE (rd_str d ''signal_id'' []) (\<lambda>v_signal_id.
     bindE (rd_str d ''provider_id'' []) (\<lambda>v_provider_id.
     bindE (rd_str d ''model_id'' []) (\<lambda>v_model_id.
     bindE (rd_str d ''capability_id'' []) (\<lambda>v_capability_id.
     bindE (bindE (rd_str d ''category'' ''unknown'') failure_category_of) (\<lambda>v_category.
     bindE (rd_float d ''confidence'' 1) (\<lambda>v_confidence.
     bindE (rd_str d ''explanation'' []) (\<lambda>v_explanation.
     bindE (rd_dict d ''evidence'') (\<lambda>v_evidence.
     bindE (rd_ts_or now d ''occurred_at'') (\<lambda>v_occurred_at.
     bindE (rd_str d ''schema_version'' schema_1_0) (\<lambda>v_schema_version.
       Inr \<lparr>fs_signal_id = v_signal_id,
         fs_provider_id = v_provider_id,
         fs_model_id = v_model_id,
         fs_capability_id = v_capability_id,
         fs_category = v_category,
         fs_provider_attributable = rd_bool d ''provider_attributable'' True,
         fs_model_attributable = rd_bool d ''model_attributable'' False,
         fs_retryable = rd_bool d ''retryable'' False,
         fs_circuit_relevant = rd_bool d ''circuit_relevant'' True,
         fs_confidence = v_confidence,
         fs_explanation = v_explanation,
         fs_evidence = v_evidence,
         fs_occurred_at = v_occurred_at,
         fs_schema_version = v_schema_version\<rparr>))))))))))"

text \<open>\<open>FailureSignal.from_dict(data[k]) if data.get(k) else None\<close>\<close>

definition rd_signal :: "int \<Rightarrow> jobj \<Rightarrow> string \<Rightarrow> pyexn + failure_signal option" where
  "rd_signal now d k =
     (if py_truthy (dict_get_or d k JNull)
      then bindE (as_obj (dict_get_or d k JNull)) (\<lambda>o'. bindE (failure_signal_from_dict now o') (Inr \<circ> Some))
      else Inr None)"

record execution_result =
  er_execution_id :: string
  er_success :: bool
  er_provider_id :: string
  er_model_id :: string
  er_capability_id :: string
  er_failure :: "failure_signal option"
  er_latency_ms :: rat
  er_time_to_first_token_ms :: "rat option"
  er_token_usage :: jobj
  er_cost :: "rat option"
  er_provider_error_code :: string
  er_http_status :: "int option"
  er_retry_metadata :: jobj
  er_validation_result :: "bool option"
  er_response_id :: string
  er_idempotency_key :: string
  er_occurred_at :: int
  er_schema_version :: string

definition execution_result_to_dict :: "execution_result \<Rightarrow> jobj" where
  "execution_result_to_dict x =
     [(''execution_id'', JStr (er_execution_id x)),
      (''success'', JBool (er_success x)),
      (''provider_id'', JStr (er_provider_id x)),
      (''model_id'', JStr (er_model_id x)),
      (''capability_id'', JStr (er_capability_id x)),
      (''failure'', j_opt (JObj \<circ> failure_signal_to_dict) (er_failure x)),
      (''latency_ms'', JFloat (er_latency_ms x)),
      (''time_to_first_token_ms'', j_opt JFloat (er_time_to_first_token_ms x)),
      (''token_usage'', JObj (er_token_usage x)),
      (''cost'', j_opt JFloat (er_cost x)),
      (''provider_error_code'', JStr (er_provider_error_code x)),
      (''http_status'', j_opt JInt (er_http_status x)),
      (''retry_metadata'', JObj (sanitize_obj (er_retry_metadata x))),
      (''validation_result'', j_opt JBool (er_validation_result x)),
      (''response_id'', JStr (er_response_id x)),
      (''idempotency_key'', JStr (er_idempotency_key x)),
      (''occurred_at'', JStr (fmt_ts (Some (er_occurred_at x)))),
      (''schema_version'', JStr (er_schema_version x))]"

definition execution_result_from_dict :: "int \<Rightarrow> jobj \<Rightarrow> pyexn + execution_result" where
  "execution_result_from_dict now d =
     bindE (rd_str d ''execution_id'' []) (\<lambda>v_execution_id.
     bindE (rd_str d ''provider_id'' []) (\<lambda>v_provider_id.
     bindE (rd_str d ''model_id'' []) (\<lambda>v_model_id.
     bindE (rd_str d ''capability_id'' []) (\<lambda>v_capability_id.
     bindE (rd_signal now d ''failure'') (\<lambda>v_failure.
     bindE (rd_float d ''latency_ms'' 0) (\<lambda>v_latency_ms.
     bindE (rd_opt py_float d ''time_to_first_token_ms'') (\<lambda>v_time_to_first_token_ms.
     bindE (rd_dict d ''token_usage'') (\<lambda>v_token_usage.
     bindE (rd_opt py_float d ''cost'') (\<lambda>v_cost.
     bindE (rd_str d ''provider_error_code'' []) (\<lambda>v_provider_error_code.
     bindE (rd_opt py_int d ''http_status'') (\<lambda>v_http_status.
     bindE (rd_dict d ''retry_metadata'') (\<lambda>v_retry_metadata.
     bindE (rd_str d ''response_id'' []) (\<lambda>v_response_id.
     bindE (rd_str d ''idempotency_key'' []) (\<lambda>v_idempotency_key.
     bindE (rd_ts_or now d ''occurred_at'') (\<lambda>v_occurred_at.
     bindE (rd_str d ''schema_version'' schema_1_0) (\<lambda>v_schema_version.
       Inr \<lparr>er_execution_id = v_execution_id,
         er_success = rd_bool d ''success'' False,
         er_provider_id = v_provider_id,
         er_model_id = v_model_id,
         er_capability_id = v_capability_id,
         er_failure = v_failure,
         er_latency_ms = v_latency_ms,
         er_time_to_first_token_ms = v_time_to_first_token_ms,
         er_token_usage = v_token_usage,
         er_cost = v_cost,
         er_provider_error_code = v_provider_error_code,
         er_http_status = v_http_status,
         er_retry_metadata = v_retry_metadata,
         er_validation_result = (case dict_get d ''validation_result'' of Some (JBool b) \<Rightarrow> Some b | _ \<Rightarrow> None),
         er_response_id = v_response_id,
         er_idempotency_key = v_idempotency_key,
         er_occurred_at = v_occurred_at,
         er_schema_version = v_schema_version\<rparr>))))))))))))))))"

record retry_policy =
  ry_policy_id :: string
  ry_max_attempts :: int
  ry_max_cumulative_delay_ms :: rat
  ry_max_additional_cost :: rat
  ry_max_additional_tokens :: int
  ry_allowed_categories :: "failure_category list"
  ry_base_backoff_ms :: rat
  ry_max_backoff_ms :: rat
  ry_backoff_multiplier :: rat
  ry_jitter_ratio :: rat
  ry_respect_retry_after :: bool
  ry_schema_version :: string

definition retry_policy_to_dict :: "retry_policy \<Rightarrow> jobj" where
  "retry_policy_to_dict x =
     [(''policy_id'', JStr (ry_policy_id x)),
      (''max_attempts'', JInt (ry_max_attempts x)),
      (''max_cumulative_delay_ms'', JFloat (ry_max_cumulative_delay_ms x)),
      (''max_additional_cost'', JFloat (ry_max_additional_cost x)),
      (''max_additional_tokens'', JInt (ry_max_additional_tokens x)),
      (''allowed_categories'', jstrs (map failure_category_value (ry_allowed_categories x))),
      (''base_backoff_ms'', JFloat (ry_base_backoff_ms x)),
      (''max_backoff_ms'', JFloat (ry_max_backoff_ms x)),
      (''backoff_multiplier'', JFloat (ry_backoff_multiplier x)),
      (''jitter_ratio'', JFloat (ry_jitter_ratio x)),
      (''respect_retry_after'', JBool (ry_respect_retry_after x)),
      (''schema_version'', JStr (ry_schema_version x))]"

definition retry_policy_from_dict :: "jobj \<Rightarrow> pyexn + retry_policy" where
  "retry_policy_from_dict d =
     bindE (rd_str d ''policy_id'' []) (\<lambda>v_policy_id.
     bindE (rd_int d ''max_attempts'' 3) (\<lambda>v_max_attempts.
     bindE (rd_float d ''max_cumulative_delay_ms'' 60000) (\<lambda>v_max_cumulative_delay_ms.
     bindE (rd_float d ''max_additional_cost'' 0) (\<lambda>v_max_additional_cost.
     bindE (rd_int d ''max_additional_tokens'' 0) (\<lambda>v_max_additional_tokens.
     bindE (bindE (rd_list d ''allowed_categories'') (mapE category_of_json)) (\<lambda>v_allowed_categories.
     bindE (rd_float d ''base_backoff_ms'' 1000) (\<lambda>v_base_backoff_ms.
     bindE (rd_float d ''max_backoff_ms'' 30000) (\<lambda>v_max_backoff_ms.
     bindE (rd_float d ''backoff_multiplier'' 2) (\<lambda>v_backoff_multiplier.
     bindE (rd_float d ''jitter_ratio'' (1/10)) (\<lambda>v_jitter_ratio.
     bindE (rd_str d ''schema_version'' schema_1_0) (\<lambda>v_schema_version.
       Inr \<lparr>ry_policy_id = v_policy_id,
         ry_max_attempts = v_max_attempts,
         ry_max_cumulative_delay_ms = v_max_cumulative_delay_ms,
         ry_max_additional_cost = v_max_additional_cost,
         ry_max_additional_tokens = v_max_additional_tokens,
         ry_allowed_categories = v_allowed_categories,
         ry_base_backoff_ms = v_base_backoff_ms,
         ry_max_backoff_ms = v_max_backoff_ms,
         ry_backoff_multiplier = v_backoff_multiplier,
         ry_jitter_ratio = v_jitter_ratio,
         ry_respect_retry_after = rd_bool d ''respect_retry_after'' True,
         ry_schema_version = v_schema_version\<rparr>)))))))))))"

record retry_attempt =
  ra_attempt_id :: string
  ra_policy_id :: string
  ra_execution_id :: string
  ra_attempt_number :: int
  ra_delay_ms :: rat
  ra_success :: bool
  ra_failure :: "failure_signal option"
  ra_occurred_at :: int
  ra_schema_version :: string

definition retry_attempt_to_dict :: "retry_attempt \<Rightarrow> jobj" where
  "retry_attempt_to_dict x =
     [(''attempt_id'', JStr (ra_attempt_id x)),
      (''policy_id'', JStr (ra_policy_id x)),
      (''execution_id'', JStr (ra_execution_id x)),
      (''attempt_number'', JInt (ra_attempt_number x)),
      (''delay_ms'', JFloat (ra_delay_ms x)),
      (''success'', JBool (ra_success x)),
      (''failure'', j_opt (JObj \<circ> failure_signal_to_dict) (ra_failure x)),
      (''occurred_at'', JStr (fmt_ts (Some (ra_occurred_at x)))),
      (''schema_version'', JStr (ra_schema_version x))]"

definition retry_attempt_from_dict :: "int \<Rightarrow> jobj \<Rightarrow> pyexn + retry_attempt" where
  "retry_attempt_from_dict now d =
     bindE (rd_str d ''attempt_id'' []) (\<lambda>v_attempt_id.
     bindE (rd_str d ''policy_id'' []) (\<lambda>v_policy_id.
     bindE (rd_str d ''execution_id'' []) (\<lambda>v_execution_id.
     bindE (rd_int d ''attempt_number'' 0) (\<lambda>v_attempt_number.
     bindE (rd_float d ''delay_ms'' 0) (\<lambda>v_delay_ms.
     bindE (rd_signal now d ''failure'') (\<lambda>v_failure.
     bindE (rd_ts_or now d ''occurred_at'') (\<lambda>v_occurred_at.
     bindE (rd_str d ''schema_version'' schema_1_0) (\<lambda>v_schema_version.
       Inr \<lparr>ra_attempt_id = v_attempt_id,
         ra_policy_id = v_policy_id,
         ra_execution_id = v_execution_id,
         ra_attempt_number = v_attempt_number,
         ra_delay_ms = v_delay_ms,
         ra_success = rd_bool d ''success'' False,
         ra_failure = v_failure,
         ra_occurred_at = v_occurred_at,
         ra_schema_version = v_schema_version\<rparr>))))))))"

record fallback_execution =
  fe_fallback_id :: string
  fe_original_execution_id :: string
  fe_depth :: int
  fe_strategy :: string
  fe_provider_id :: string
  fe_model_id :: string
  fe_capability_id :: string
  fe_success :: bool
  fe_lost_capabilities :: "string list"
  fe_privacy_changed :: bool
  fe_locality_changed :: bool
  fe_cost_delta :: "rat option"
  fe_latency_delta_ms :: "rat option"
  fe_occurred_at :: int
  fe_schema_version :: string

definition fallback_execution_to_dict :: "fallback_execution \<Rightarrow> jobj" where
  "fallback_execution_to_dict x =
     [(''fallback_id'', JStr (fe_fallback_id x)),
      (''original_execution_id'', JStr (fe_original_execution_id x)),
      (''depth'', JInt (fe_depth x)),
      (''strategy'', JStr (fe_strategy x)),
      (''provider_id'', JStr (fe_provider_id x)),
      (''model_id'', JStr (fe_model_id x)),
      (''capability_id'', JStr (fe_capability_id x)),
      (''success'', JBool (fe_success x)),
      (''lost_capabilities'', jstrs (fe_lost_capabilities x)),
      (''privacy_changed'', JBool (fe_privacy_changed x)),
      (''locality_changed'', JBool (fe_locality_changed x)),
      (''cost_delta'', j_opt JFloat (fe_cost_delta x)),
      (''latency_delta_ms'', j_opt JFloat (fe_latency_delta_ms x)),
      (''occurred_at'', JStr (fmt_ts (Some (fe_occurred_at x)))),
      (''schema_version'', JStr (fe_schema_version x))]"

definition fallback_execution_from_dict :: "int \<Rightarrow> jobj \<Rightarrow> pyexn + fallback_execution" where
  "fallback_execution_from_dict now d =
     bindE (rd_str d ''fallback_id'' []) (\<lambda>v_fallback_id.
     bindE (rd_str d ''original_execution_id'' []) (\<lambda>v_original_execution_id.
     bindE (rd_int d ''depth'' 0) (\<lambda>v_depth.
     bindE (rd_str d ''strategy'' []) (\<lambda>v_strategy.
     bindE (rd_str d ''provider_id'' []) (\<lambda>v_provider_id.
     bindE (rd_str d ''model_id'' []) (\<lambda>v_model_id.
     bindE (rd_str d ''capability_id'' []) (\<lambda>v_capability_id.
     bindE (bindE (rd_list d ''lost_capabilities'') (mapE py_str)) (\<lambda>v_lost_capabilities.
     bindE (rd_opt py_float d ''cost_delta'') (\<lambda>v_cost_delta.
     bindE (rd_opt py_float d ''latency_delta_ms'') (\<lambda>v_latency_delta_ms.
     bindE (rd_ts_or now d ''occurred_at'') (\<lambda>v_occurred_at.
     bindE (rd_str d ''schema_version'' schema_1_0) (\<lambda>v_schema_version.
       Inr \<lparr>fe_fallback_id = v_fallback_id,
         fe_original_execution_id = v_original_execution_id,
         fe_depth = v_depth,
         fe_strategy = v_strategy,
         fe_provider_id = v_provider_id,
         fe_model_id = v_model_id,
         fe_capability_id = v_capability_id,
         fe_success = rd_bool d ''success'' False,
         fe_lost_capabilities = v_lost_capabilities,
         fe_privacy_changed = rd_bool d ''privacy_changed'' False,
         fe_locality_changed = rd_bool d ''locality_changed'' False,
         fe_cost_delta = v_cost_delta,
         fe_latency_delta_ms = v_latency_delta_ms,
         fe_occurred_at = v_occurred_at,
         fe_schema_version = v_schema_version\<rparr>))))))))))))"

record health_snapshot =
  hs_snapshot_id :: string
  hs_provider_id :: string
  hs_model_id :: string
  hs_status :: string
  hs_circuit_state :: circuit_state
  hs_failure_count :: int
  hs_success_count :: int
  hs_consecutive_failures :: int
  hs_failure_rate :: "rat option"
  hs_timeout_rate :: "rat option"
  hs_rate_limit_count :: int
  hs_latency_p50_ms :: "rat option"
  hs_latency_p95_ms :: "rat option"
  hs_window_size :: int
  hs_sample_count :: int
  hs_confidence :: rat
  hs_freshness :: rat
  hs_snapshot_at :: int
  hs_schema_version :: string

definition health_snapshot_to_dict :: "health_snapshot \<Rightarrow> jobj" where
  "health_snapshot_to_dict x =
     [(''snapshot_id'', JStr (hs_snapshot_id x)),
      (''provider_id'', JStr (hs_provider_id x)),
      (''model_id'', JStr (hs_model_id x)),
      (''status'', JStr (hs_status x)),
      (''circuit_state'', JStr (circuit_state_value (hs_circuit_state x))),
      (''failure_count'', JInt (hs_failure_count x)),
      (''success_count'', JInt (hs_success_count x)),
      (''consecutive_failures'', JInt (hs_consecutive_failures x)),
      (''failure_rate'', j_opt JFloat (hs_failure_rate x)),
      (''timeout_rate'', j_opt JFloat (hs_timeout_rate x)),
      (''rate_limit_count'', JInt (hs_rate_limit_count x)),
      (''latency_p50_ms'', j_opt JFloat (hs_latency_p50_ms x)),
      (''latency_p95_ms'', j_opt JFloat (hs_latency_p95_ms x)),
      (''window_size'', JInt (hs_window_size x)),
      (''sample_count'', JInt (hs_sample_count x)),
      (''confidence'', JFloat (hs_confidence x)),
      (''freshness'', JFloat (hs_freshness x)),
      (''snapshot_at'', JStr (fmt_ts (Some (hs_snapshot_at x)))),
      (''schema_version'', JStr (hs_schema_version x))]"

definition health_snapshot_from_dict :: "int \<Rightarrow> jobj \<Rightarrow> pyexn + health_snapshot" where
  "health_snapshot_from_dict now d =
     bindE (rd_str d ''snapshot_id'' []) (\<lambda>v_snapshot_id.
     bindE (rd_str d ''provider_id'' []) (\<lambda>v_provider_id.
     bindE (rd_str d ''model_id'' []) (\<lambda>v_model_id.
     bindE (rd_str d ''status'' ''unknown'') (\<lambda>v_status.
     bindE (bindE (rd_str d ''circuit_state'' ''closed'') circuit_state_of) (\<lambda>v_circuit_state.
     bindE (rd_int d ''failure_count'' 0) (\<lambda>v_failure_count.
     bindE (rd_int d ''success_count'' 0) (\<lambda>v_success_count.
     bindE (rd_int d ''consecutive_failures'' 0) (\<lambda>v_consecutive_failures.
     bindE (rd_opt py_float d ''failure_rate'') (\<lambda>v_failure_rate.
     bindE (rd_opt py_float d ''timeout_rate'') (\<lambda>v_timeout_rate.
     bindE (rd_int d ''rate_limit_count'' 0) (\<lambda>v_rate_limit_count.
     bindE (rd_opt py_float d ''latency_p50_ms'') (\<lambda>v_latency_p50_ms.
     bindE (rd_opt py_float d ''latency_p95_ms'') (\<lambda>v_latency_p95_ms.
     bindE (rd_int d ''window_size'' 60) (\<lambda>v_window_size.
     bindE (rd_int d ''sample_count'' 0) (\<lambda>v_sample_count.
     bindE (rd_float d ''confidence'' 0) (\<lambda>v_confidence.
     bindE (rd_float d ''freshness'' 1) (\<lambda>v_freshness.
     bindE (rd_ts_or now d ''snapshot_at'') (\<lambda>v_snapshot_at.
     bindE (rd_str d ''schema_version'' schema_1_0) (\<lambda>v_schema_version.
       Inr \<lparr>hs_snapshot_id = v_snapshot_id,
         hs_provider_id = v_provider_id,
         hs_model_id = v_model_id,
         hs_status = v_status,
         hs_circuit_state = v_circuit_state,
         hs_failure_count = v_failure_count,
         hs_success_count = v_success_count,
         hs_consecutive_failures = v_consecutive_failures,
         hs_failure_rate = v_failure_rate,
         hs_timeout_rate = v_timeout_rate,
         hs_rate_limit_count = v_rate_limit_count,
         hs_latency_p50_ms = v_latency_p50_ms,
         hs_latency_p95_ms = v_latency_p95_ms,
         hs_window_size = v_window_size,
         hs_sample_count = v_sample_count,
         hs_confidence = v_confidence,
         hs_freshness = v_freshness,
         hs_snapshot_at = v_snapshot_at,
         hs_schema_version = v_schema_version\<rparr>)))))))))))))))))))"

record circuit_config =
  cc_config_id :: string
  cc_consecutive_failure_threshold :: int
  cc_failure_rate_threshold :: rat
  cc_timeout_rate_threshold :: rat
  cc_rate_limit_threshold :: int
  cc_min_sample_count :: int
  cc_cooldown_seconds :: rat
  cc_half_open_call_limit :: int
  cc_half_open_success_threshold :: int
  cc_sliding_window_size :: int
  cc_schema_version :: string

definition circuit_config_to_dict :: "circuit_config \<Rightarrow> jobj" where
  "circuit_config_to_dict x =
     [(''config_id'', JStr (cc_config_id x)),
      (''consecutive_failure_threshold'', JInt (cc_consecutive_failure_threshold x)),
      (''failure_rate_threshold'', JFloat (cc_failure_rate_threshold x)),
      (''timeout_rate_threshold'', JFloat (cc_timeout_rate_threshold x)),
      (''rate_limit_threshold'', JInt (cc_rate_limit_threshold x)),
      (''min_sample_count'', JInt (cc_min_sample_count x)),
      (''cooldown_seconds'', JFloat (cc_cooldown_seconds x)),
      (''half_open_call_limit'', JInt (cc_half_open_call_limit x)),
      (''half_open_success_threshold'', JInt (cc_half_open_success_threshold x)),
      (''sliding_window_size'', JInt (cc_sliding_window_size x)),
      (''schema_version'', JStr (cc_schema_version x))]"

definition circuit_config_from_dict :: "jobj \<Rightarrow> pyexn + circuit_config" where
  "circuit_config_from_dict d =
     bindE (rd_str d ''config_id'' ''default'') (\<lambda>v_config_id.
     bindE (rd_int d ''consecutive_failure_threshold'' 5) (\<lambda>v_consecutive_failure_threshold.
     bindE (rd_float d ''failure_rate_threshold'' (1/2)) (\<lambda>v_failure_rate_threshold.
     bindE (rd_float d ''timeout_rate_threshold'' (3/10)) (\<lambda>v_timeout_rate_threshold.
     bindE (rd_int d ''rate_limit_threshold'' 3) (\<lambda>v_rate_limit_threshold.
     bindE (rd_int d ''min_sample_count'' 10) (\<lambda>v_min_sample_count.
     bindE (rd_float d ''cooldown_seconds'' 30) (\<lambda>v_cooldown_seconds.
     bindE (rd_int d ''half_open_call_limit'' 1) (\<lambda>v_half_open_call_limit.
     bindE (rd_int d ''half_open_success_threshold'' 2) (\<lambda>v_half_open_success_threshold.
     bindE (rd_int d ''sliding_window_size'' 60) (\<lambda>v_sliding_window_size.
     bindE (rd_str d ''schema_version'' schema_1_0) (\<lambda>v_schema_version.
       Inr \<lparr>cc_config_id = v_config_id,
         cc_consecutive_failure_threshold = v_consecutive_failure_threshold,
         cc_failure_rate_threshold = v_failure_rate_threshold,
         cc_timeout_rate_threshold = v_timeout_rate_threshold,
         cc_rate_limit_threshold = v_rate_limit_threshold,
         cc_min_sample_count = v_min_sample_count,
         cc_cooldown_seconds = v_cooldown_seconds,
         cc_half_open_call_limit = v_half_open_call_limit,
         cc_half_open_success_threshold = v_half_open_success_threshold,
         cc_sliding_window_size = v_sliding_window_size,
         cc_schema_version = v_schema_version\<rparr>)))))))))))"

record circuit_record =
  cr_record_id :: string
  cr_breaker_key :: string
  cr_state :: circuit_state
  cr_previous_state :: circuit_state
  cr_transition_reason :: string
  cr_consecutive_failures :: int
  cr_failure_count :: int
  cr_success_count :: int
  cr_opened_at :: "int option"
  cr_half_open_at :: "int option"
  cr_closed_at :: "int option"
  cr_cooldown_until :: "int option"
  cr_half_open_calls :: int
  cr_half_open_successes :: int
  cr_transitioned_at :: int
  cr_schema_version :: string

definition circuit_record_to_dict :: "circuit_record \<Rightarrow> jobj" where
  "circuit_record_to_dict x =
     [(''record_id'', JStr (cr_record_id x)),
      (''breaker_key'', JStr (cr_breaker_key x)),
      (''state'', JStr (circuit_state_value (cr_state x))),
      (''previous_state'', JStr (circuit_state_value (cr_previous_state x))),
      (''transition_reason'', JStr (cr_transition_reason x)),
      (''consecutive_failures'', JInt (cr_consecutive_failures x)),
      (''failure_count'', JInt (cr_failure_count x)),
      (''success_count'', JInt (cr_success_count x)),
      (''opened_at'', JStr (fmt_ts (cr_opened_at x))),
      (''half_open_at'', JStr (fmt_ts (cr_half_open_at x))),
      (''closed_at'', JStr (fmt_ts (cr_closed_at x))),
      (''cooldown_until'', JStr (fmt_ts (cr_cooldown_until x))),
      (''half_open_calls'', JInt (cr_half_open_calls x)),
      (''half_open_successes'', JInt (cr_half_open_successes x)),
      (''transitioned_at'', JStr (fmt_ts (Some (cr_transitioned_at x)))),
      (''schema_version'', JStr (cr_schema_version x))]"

definition circuit_record_from_dict :: "int \<Rightarrow> jobj \<Rightarrow> pyexn + circuit_record" where
  "circuit_record_from_dict now d =
     bindE (rd_str d ''record_id'' []) (\<lambda>v_record_id.
     bindE (rd_str d ''breaker_key'' []) (\<lambda>v_breaker_key.
     bindE (bindE (rd_str d ''state'' ''closed'') circuit_state_of) (\<lambda>v_state.
     bindE (bindE (rd_str d ''previous_state'' ''closed'') circuit_state_of) (\<lambda>v_previous_state.
     bindE (rd_str d ''transition_reason'' []) (\<lambda>v_transition_reason.
     bindE (rd_int d ''consecutive_failures'' 0) (\<lambda>v_consecutive_failures.
     bindE (rd_int d ''failure_count'' 0) (\<lambda>v_failure_count.
     bindE (rd_int d ''success_count'' 0) (\<lambda>v_success_count.
     bindE (rd_ts d ''opened_at'') (\<lambda>v_opened_at.
     bindE (rd_ts d ''half_open_at'') (\<lambda>v_half_open_at.
     bindE (rd_ts d ''closed_at'') (\<lambda>v_closed_at.
     bindE (rd_ts d ''cooldown_until'') (\<lambda>v_cooldown_until.
     bindE (rd_int d ''half_open_calls'' 0) (\<lambda>v_half_open_calls.
     bindE (rd_int d ''half_open_successes'' 0) (\<lambda>v_half_open_successes.
     bindE (rd_ts_or now d ''transitioned_at'') (\<lambda>v_transitioned_at.
     bindE (rd_str d ''schema_version'' schema_1_0) (\<lambda>v_schema_version.
       Inr \<lparr>cr_record_id = v_record_id,
         cr_breaker_key = v_breaker_key,
         cr_state = v_state,
         cr_previous_state = v_previous_state,
         cr_transition_reason = v_transition_reason,
         cr_consecutive_failures = v_consecutive_failures,
         cr_failure_count = v_failure_count,
         cr_success_count = v_success_count,
         cr_opened_at = v_opened_at,
         cr_half_open_at = v_half_open_at,
         cr_closed_at = v_closed_at,
         cr_cooldown_until = v_cooldown_until,
         cr_half_open_calls = v_half_open_calls,
         cr_half_open_successes = v_half_open_successes,
         cr_transitioned_at = v_transitioned_at,
         cr_schema_version = v_schema_version\<rparr>))))))))))))))))"

record reliability_window =
  rw_window_id :: string
  rw_provider_id :: string
  rw_model_id :: string
  rw_total_calls :: int
  rw_successes :: int
  rw_failures :: int
  rw_timeouts :: int
  rw_rate_limits :: int
  rw_consecutive_failures :: int
  rw_window_start :: int
  rw_window_end :: "int option"
  rw_schema_version :: string

definition reliability_window_to_dict :: "reliability_window \<Rightarrow> jobj" where
  "reliability_window_to_dict x =
     [(''window_id'', JStr (rw_window_id x)),
      (''provider_id'', JStr (rw_provider_id x)),
      (''model_id'', JStr (rw_model_id x)),
      (''total_calls'', JInt (rw_total_calls x)),
      (''successes'', JInt (rw_successes x)),
      (''failures'', JInt (rw_failures x)),
      (''timeouts'', JInt (rw_timeouts x)),
      (''rate_limits'', JInt (rw_rate_limits x)),
      (''consecutive_failures'', JInt (rw_consecutive_failures x)),
      (''window_start'', JStr (fmt_ts (Some (rw_window_start x)))),
      (''window_end'', JStr (fmt_ts (rw_window_end x))),
      (''schema_version'', JStr (rw_schema_version x))]"

definition reliability_window_from_dict :: "int \<Rightarrow> jobj \<Rightarrow> pyexn + reliability_window" where
  "reliability_window_from_dict now d =
     bindE (rd_str d ''window_id'' []) (\<lambda>v_window_id.
     bindE (rd_str d ''provider_id'' []) (\<lambda>v_provider_id.
     bindE (rd_str d ''model_id'' []) (\<lambda>v_model_id.
     bindE (rd_int d ''total_calls'' 0) (\<lambda>v_total_calls.
     bindE (rd_int d ''successes'' 0) (\<lambda>v_successes.
     bindE (rd_int d ''failures'' 0) (\<lambda>v_failures.
     bindE (rd_int d ''timeouts'' 0) (\<lambda>v_timeouts.
     bindE (rd_int d ''rate_limits'' 0) (\<lambda>v_rate_limits.
     bindE (rd_int d ''consecutive_failures'' 0) (\<lambda>v_consecutive_failures.
     bindE (rd_ts_or now d ''window_start'') (\<lambda>v_window_start.
     bindE (rd_ts d ''window_end'') (\<lambda>v_window_end.
     bindE (rd_str d ''schema_version'' schema_1_0) (\<lambda>v_schema_version.
       Inr \<lparr>rw_window_id = v_window_id,
         rw_provider_id = v_provider_id,
         rw_model_id = v_model_id,
         rw_total_calls = v_total_calls,
         rw_successes = v_successes,
         rw_failures = v_failures,
         rw_timeouts = v_timeouts,
         rw_rate_limits = v_rate_limits,
         rw_consecutive_failures = v_consecutive_failures,
         rw_window_start = v_window_start,
         rw_window_end = v_window_end,
         rw_schema_version = v_schema_version\<rparr>))))))))))))"

text \<open>Rates of a window; \<open>max(total_calls, 1)\<close> keeps the divisor positive.\<close>

definition rw_failure_rate :: "reliability_window \<Rightarrow> rat" where
  "rw_failure_rate w = of_int (rw_failures w) / of_int (max (rw_total_calls w) 1)"

definition rw_success_rate :: "reliability_window \<Rightarrow> rat" where
  "rw_success_rate w = of_int (rw_successes w) / of_int (max (rw_total_calls w) 1)"

definition DEFAULT_RETRY_POLICY :: retry_policy where
  "DEFAULT_RETRY_POLICY =
     \<lparr>ry_policy_id = ''default'', ry_max_attempts = 3, ry_max_cumulative_delay_ms = 60000,
      ry_max_additional_cost = 0, ry_max_additional_tokens = 0,
      ry_allowed_categories = [FC_TIMEOUT, FC_CONNECTION, FC_SERVER_ERROR, FC_RATE_LIMIT],
      ry_base_backoff_ms = 1000, ry_max_backoff_ms = 30000, ry_backoff_multiplier = 2,
      ry_jitter_ratio = 1/10, ry_respect_retry_after = True, ry_schema_version = schema_1_0\<rparr>"

definition DEFAULT_CIRCUIT_CONFIG :: circuit_config where
  "DEFAULT_CIRCUIT_CONFIG =
     \<lparr>cc_config_id = ''default'', cc_consecutive_failure_threshold = 5,
      cc_failure_rate_threshold = 1/2, cc_timeout_rate_threshold = 3/10, cc_rate_limit_threshold = 3,
      cc_min_sample_count = 10, cc_cooldown_seconds = 30, cc_half_open_call_limit = 1,
      cc_half_open_success_threshold = 2, cc_sliding_window_size = 60, cc_schema_version = schema_1_0\<rparr>"

section \<open>Stored and loaded\<close>

lemma failure_category_of_value [simp]: "failure_category_of (failure_category_value c) = Inr c"
  by (cases c) (simp_all add: failure_category_of_def all_categories_def)

lemma failure_category_value_not_Nil [simp]: "failure_category_value c \<noteq> []"
  by (cases c) simp_all

lemma circuit_state_of_value [simp]: "circuit_state_of (circuit_state_value c) = Inr c"
  by (cases c) (simp_all add: circuit_state_of_def)

lemma circuit_state_value_not_Nil [simp]: "circuit_state_value c \<noteq> []"
  by (cases c) simp_all

lemma mapE_categories [simp]: "mapE category_of_json (map (JStr \<circ> failure_category_value) cs) = Inr cs"
  by (induction cs) simp_all

lemma schema_1_0_not_Nil [simp]: "schema_1_0 \<noteq> []"
  by (simp add: schema_1_0_def)

lemma parse_stored:
  "valid_time t \<Longrightarrow> parse_ts (JStr (fmt_ts (Some t))) = Inr (Some t)"
  "(\<forall>t. u = Some t \<longrightarrow> valid_time t) \<Longrightarrow> parse_ts (JStr (fmt_ts u)) = Inr u"
  by (rule parse_fmt_ts, auto)+

text \<open>
  A loaded record is the stored one with sensitive values redacted and with every falsy field
  that has a default replaced by the default: \<open>or_str\<close> and \<open>or_num\<close> are \<open>v or d\<close>.
\<close>

definition or_str :: "string \<Rightarrow> string \<Rightarrow> string" where
  "or_str v d = (if v = [] then d else v)"

definition or_num :: "'a::zero \<Rightarrow> 'a \<Rightarrow> 'a" where
  "or_num v d = (if v = 0 then d else v)"

lemma or_same [simp]: "v \<noteq> 0 \<Longrightarrow> or_num v d = v" "s \<noteq> [] \<Longrightarrow> or_str s t = s"
  by (simp_all add: or_num_def or_str_def)

lemmas read_back = rd_str_def rd_int_def rd_float_def rd_bool_def rd_dict_def rd_list_def rd_opt_def
  rd_ts_def rd_ts_or_def get_or_def dict_get_or_def jstrs_def parse_stored

lemma read_opt [simp]:
  "(case j_opt JFloat q of JNull \<Rightarrow> Inr None | v \<Rightarrow> bindE (py_float v) (Inr \<circ> Some)) = Inr q"
  "(case j_opt JInt n of JNull \<Rightarrow> Inr None | v \<Rightarrow> bindE (py_int v) (Inr \<circ> Some)) = Inr n"
  "(case j_opt JBool b of JBool c \<Rightarrow> Some c | _ \<Rightarrow> None) = b"
  by (cases q; cases n; cases b; simp add: j_opt_def)+

definition loaded_failure_signal :: "failure_signal \<Rightarrow> failure_signal" where
  "loaded_failure_signal x = x\<lparr>fs_confidence := or_num (fs_confidence x) (1),
     fs_evidence := sanitize_obj (fs_evidence x),
     fs_schema_version := or_str (fs_schema_version x) schema_1_0\<rparr>"

definition failure_signal_times :: "failure_signal \<Rightarrow> bool" where
  "failure_signal_times x \<longleftrightarrow> valid_time (fs_occurred_at x)"

lemma failure_signal_keys:
  "dict_get (failure_signal_to_dict x) ''signal_id'' = Some (JStr (fs_signal_id x))"
  "dict_get (failure_signal_to_dict x) ''provider_id'' = Some (JStr (fs_provider_id x))"
  "dict_get (failure_signal_to_dict x) ''model_id'' = Some (JStr (fs_model_id x))"
  "dict_get (failure_signal_to_dict x) ''capability_id'' = Some (JStr (fs_capability_id x))"
  "dict_get (failure_signal_to_dict x) ''category'' = Some (JStr (failure_category_value (fs_category x)))"
  "dict_get (failure_signal_to_dict x) ''provider_attributable'' = Some (JBool (fs_provider_attributable x))"
  "dict_get (failure_signal_to_dict x) ''model_attributable'' = Some (JBool (fs_model_attributable x))"
  "dict_get (failure_signal_to_dict x) ''retryable'' = Some (JBool (fs_retryable x))"
  "dict_get (failure_signal_to_dict x) ''circuit_relevant'' = Some (JBool (fs_circuit_relevant x))"
  "dict_get (failure_signal_to_dict x) ''confidence'' = Some (JFloat (fs_confidence x))"
  "dict_get (failure_signal_to_dict x) ''explanation'' = Some (JStr (fs_explanation x))"
  "dict_get (failure_signal_to_dict x) ''evidence'' = Some (JObj (sanitize_obj (fs_evidence x)))"
  "dict_get (failure_signal_to_dict x) ''occurred_at'' = Some (JStr (fmt_ts (Some (fs_occurred_at x))))"
  "dict_get (failure_signal_to_dict x) ''schema_version'' = Some (JStr (fs_schema_version x))"
  by (simp_all add: failure_signal_to_dict_def)

lemma failure_signal_reads:
  "rd_str (failure_signal_to_dict x) ''signal_id'' [] = Inr (fs_signal_id x)"
  "rd_str (failure_signal_to_dict x) ''provider_id'' [] = Inr (fs_provider_id x)"
  "rd_str (failure_signal_to_dict x) ''model_id'' [] = Inr (fs_model_id x)"
  "rd_str (failure_signal_to_dict x) ''capability_id'' [] = Inr (fs_capability_id x)"
  "rd_str (failure_signal_to_dict x) ''category'' ''unknown'' = Inr (failure_category_value (fs_category x))"
  "rd_bool (failure_signal_to_dict x) ''provider_attributable'' True = fs_provider_attributable x"
  "rd_bool (failure_signal_to_dict x) ''model_attributable'' False = fs_model_attributable x"
  "rd_bool (failure_signal_to_dict x) ''retryable'' False = fs_retryable x"
  "rd_bool (failure_signal_to_dict x) ''circuit_relevant'' True = fs_circuit_relevant x"
  "rd_float (failure_signal_to_dict x) ''confidence'' 1 = Inr (or_num (fs_confidence x) 1)"
  "rd_str (failure_signal_to_dict x) ''explanation'' [] = Inr (fs_explanation x)"
  "rd_dict (failure_signal_to_dict x) ''evidence'' = Inr (sanitize_obj (fs_evidence x))"
  "valid_time (fs_occurred_at x) \<Longrightarrow> rd_ts_or now (failure_signal_to_dict x) ''occurred_at'' = Inr (fs_occurred_at x)"
  "rd_str (failure_signal_to_dict x) ''schema_version'' schema_1_0 = Inr (or_str (fs_schema_version x) schema_1_0)"
  by (simp_all add: failure_signal_keys read_back or_str_def or_num_def)

lemma failure_signal_loads:
  "failure_signal_times x \<Longrightarrow> failure_signal_from_dict now (failure_signal_to_dict x) = Inr (loaded_failure_signal x)"
  by (simp add: failure_signal_from_dict_def failure_signal_reads loaded_failure_signal_def failure_signal_times_def)

lemma rd_signal_stored:
  assumes "dict_get d k = Some (j_opt (JObj \<circ> failure_signal_to_dict) s)" and "\<And>x. s = Some x \<Longrightarrow> failure_signal_times x"
  shows "rd_signal now d k = Inr (map_option loaded_failure_signal s)"
proof (cases s)
  case (Some x)
  moreover have "failure_signal_to_dict x \<noteq> []" by (simp add: failure_signal_to_dict_def)
  ultimately show ?thesis
    using assms by (simp add: rd_signal_def dict_get_or_def j_opt_def failure_signal_loads)
qed (use assms in \<open>simp add: rd_signal_def dict_get_or_def j_opt_def\<close>)

definition loaded_execution_result :: "execution_result \<Rightarrow> execution_result" where
  "loaded_execution_result x = x\<lparr>er_failure := map_option loaded_failure_signal (er_failure x),
     er_retry_metadata := sanitize_obj (er_retry_metadata x),
     er_schema_version := or_str (er_schema_version x) schema_1_0\<rparr>"

definition execution_result_times :: "execution_result \<Rightarrow> bool" where
  "execution_result_times x \<longleftrightarrow> (\<forall>s. er_failure x = Some s \<longrightarrow> failure_signal_times s) \<and>
     valid_time (er_occurred_at x)"

lemma execution_result_keys:
  "dict_get (execution_result_to_dict x) ''execution_id'' = Some (JStr (er_execution_id x))"
  "dict_get (execution_result_to_dict x) ''success'' = Some (JBool (er_success x))"
  "dict_get (execution_result_to_dict x) ''provider_id'' = Some (JStr (er_provider_id x))"
  "dict_get (execution_result_to_dict x) ''model_id'' = Some (JStr (er_model_id x))"
  "dict_get (execution_result_to_dict x) ''capability_id'' = Some (JStr (er_capability_id x))"
  "dict_get (execution_result_to_dict x) ''failure'' = Some (j_opt (JObj \<circ> failure_signal_to_dict) (er_failure x))"
  "dict_get (execution_result_to_dict x) ''latency_ms'' = Some (JFloat (er_latency_ms x))"
  "dict_get (execution_result_to_dict x) ''time_to_first_token_ms'' = Some (j_opt JFloat (er_time_to_first_token_ms x))"
  "dict_get (execution_result_to_dict x) ''token_usage'' = Some (JObj (er_token_usage x))"
  "dict_get (execution_result_to_dict x) ''cost'' = Some (j_opt JFloat (er_cost x))"
  "dict_get (execution_result_to_dict x) ''provider_error_code'' = Some (JStr (er_provider_error_code x))"
  "dict_get (execution_result_to_dict x) ''http_status'' = Some (j_opt JInt (er_http_status x))"
  "dict_get (execution_result_to_dict x) ''retry_metadata'' = Some (JObj (sanitize_obj (er_retry_metadata x)))"
  "dict_get (execution_result_to_dict x) ''validation_result'' = Some (j_opt JBool (er_validation_result x))"
  "dict_get (execution_result_to_dict x) ''response_id'' = Some (JStr (er_response_id x))"
  "dict_get (execution_result_to_dict x) ''idempotency_key'' = Some (JStr (er_idempotency_key x))"
  "dict_get (execution_result_to_dict x) ''occurred_at'' = Some (JStr (fmt_ts (Some (er_occurred_at x))))"
  "dict_get (execution_result_to_dict x) ''schema_version'' = Some (JStr (er_schema_version x))"
  by (simp_all add: execution_result_to_dict_def)

lemma execution_result_reads:
  "rd_str (execution_result_to_dict x) ''execution_id'' [] = Inr (er_execution_id x)"
  "rd_bool (execution_result_to_dict x) ''success'' False = er_success x"
  "rd_str (execution_result_to_dict x) ''provider_id'' [] = Inr (er_provider_id x)"
  "rd_str (execution_result_to_dict x) ''model_id'' [] = Inr (er_model_id x)"
  "rd_str (execution_result_to_dict x) ''capability_id'' [] = Inr (er_capability_id x)"
  "\<forall>s. er_failure x = Some s \<longrightarrow> failure_signal_times s \<Longrightarrow> rd_signal now (execution_result_to_dict x) ''failure'' = Inr (map_option loaded_failure_signal (er_failure x))"
  "rd_float (execution_result_to_dict x) ''latency_ms'' 0 = Inr (er_latency_ms x)"
  "rd_opt py_float (execution_result_to_dict x) ''time_to_first_token_ms'' = Inr (er_time_to_first_token_ms x)"
  "rd_dict (execution_result_to_dict x) ''token_usage'' = Inr (er_token_usage x)"
  "rd_opt py_float (execution_result_to_dict x) ''cost'' = Inr (er_cost x)"
  "rd_str (execution_result_to_dict x) ''provider_error_code'' [] = Inr (er_provider_error_code x)"
  "rd_opt py_int (execution_result_to_dict x) ''http_status'' = Inr (er_http_status x)"
  "rd_dict (execution_result_to_dict x) ''retry_metadata'' = Inr (sanitize_obj (er_retry_metadata x))"
  "(case dict_get (execution_result_to_dict x) ''validation_result'' of Some (JBool b) \<Rightarrow> Some b | _ \<Rightarrow> None) = er_validation_result x"
  "rd_str (execution_result_to_dict x) ''response_id'' [] = Inr (er_response_id x)"
  "rd_str (execution_result_to_dict x) ''idempotency_key'' [] = Inr (er_idempotency_key x)"
  "valid_time (er_occurred_at x) \<Longrightarrow> rd_ts_or now (execution_result_to_dict x) ''occurred_at'' = Inr (er_occurred_at x)"
  "rd_str (execution_result_to_dict x) ''schema_version'' schema_1_0 = Inr (or_str (er_schema_version x) schema_1_0)"
  by (simp_all add: execution_result_keys read_back or_str_def or_num_def rd_signal_stored)

lemma execution_result_loads:
  "execution_result_times x \<Longrightarrow> execution_result_from_dict now (execution_result_to_dict x) = Inr (loaded_execution_result x)"
  by (simp add: execution_result_from_dict_def execution_result_reads loaded_execution_result_def execution_result_times_def)

definition loaded_retry_policy :: "retry_policy \<Rightarrow> retry_policy" where
  "loaded_retry_policy x = x\<lparr>ry_max_attempts := or_num (ry_max_attempts x) (3),
     ry_max_cumulative_delay_ms := or_num (ry_max_cumulative_delay_ms x) (60000),
     ry_base_backoff_ms := or_num (ry_base_backoff_ms x) (1000),
     ry_max_backoff_ms := or_num (ry_max_backoff_ms x) (30000),
     ry_backoff_multiplier := or_num (ry_backoff_multiplier x) (2),
     ry_jitter_ratio := or_num (ry_jitter_ratio x) (1/10),
     ry_schema_version := or_str (ry_schema_version x) schema_1_0\<rparr>"

lemma retry_policy_keys:
  "dict_get (retry_policy_to_dict x) ''policy_id'' = Some (JStr (ry_policy_id x))"
  "dict_get (retry_policy_to_dict x) ''max_attempts'' = Some (JInt (ry_max_attempts x))"
  "dict_get (retry_policy_to_dict x) ''max_cumulative_delay_ms'' = Some (JFloat (ry_max_cumulative_delay_ms x))"
  "dict_get (retry_policy_to_dict x) ''max_additional_cost'' = Some (JFloat (ry_max_additional_cost x))"
  "dict_get (retry_policy_to_dict x) ''max_additional_tokens'' = Some (JInt (ry_max_additional_tokens x))"
  "dict_get (retry_policy_to_dict x) ''allowed_categories'' = Some (jstrs (map failure_category_value (ry_allowed_categories x)))"
  "dict_get (retry_policy_to_dict x) ''base_backoff_ms'' = Some (JFloat (ry_base_backoff_ms x))"
  "dict_get (retry_policy_to_dict x) ''max_backoff_ms'' = Some (JFloat (ry_max_backoff_ms x))"
  "dict_get (retry_policy_to_dict x) ''backoff_multiplier'' = Some (JFloat (ry_backoff_multiplier x))"
  "dict_get (retry_policy_to_dict x) ''jitter_ratio'' = Some (JFloat (ry_jitter_ratio x))"
  "dict_get (retry_policy_to_dict x) ''respect_retry_after'' = Some (JBool (ry_respect_retry_after x))"
  "dict_get (retry_policy_to_dict x) ''schema_version'' = Some (JStr (ry_schema_version x))"
  by (simp_all add: retry_policy_to_dict_def)

lemma retry_policy_reads:
  "rd_str (retry_policy_to_dict x) ''policy_id'' [] = Inr (ry_policy_id x)"
  "rd_int (retry_policy_to_dict x) ''max_attempts'' 3 = Inr (or_num (ry_max_attempts x) 3)"
  "rd_float (retry_policy_to_dict x) ''max_cumulative_delay_ms'' 60000 = Inr (or_num (ry_max_cumulative_delay_ms x) 60000)"
  "rd_float (retry_policy_to_dict x) ''max_additional_cost'' 0 = Inr (ry_max_additional_cost x)"
  "rd_int (retry_policy_to_dict x) ''max_additional_tokens'' 0 = Inr (ry_max_additional_tokens x)"
  "bindE (rd_list (retry_policy_to_dict x) ''allowed_categories'') (mapE category_of_json) = Inr (ry_allowed_categories x)"
  "rd_float (retry_policy_to_dict x) ''base_backoff_ms'' 1000 = Inr (or_num (ry_base_backoff_ms x) 1000)"
  "rd_float (retry_policy_to_dict x) ''max_backoff_ms'' 30000 = Inr (or_num (ry_max_backoff_ms x) 30000)"
  "rd_float (retry_policy_to_dict x) ''backoff_multiplier'' 2 = Inr (or_num (ry_backoff_multiplier x) 2)"
  "rd_float (retry_policy_to_dict x) ''jitter_ratio'' (1/10) = Inr (or_num (ry_jitter_ratio x) (1/10))"
  "rd_bool (retry_policy_to_dict x) ''respect_retry_after'' True = ry_respect_retry_after x"
  "rd_str (retry_policy_to_dict x) ''schema_version'' schema_1_0 = Inr (or_str (ry_schema_version x) schema_1_0)"
  by (simp_all add: retry_policy_keys read_back or_str_def or_num_def)

lemma retry_policy_loads:
  "retry_policy_from_dict (retry_policy_to_dict x) = Inr (loaded_retry_policy x)"
  by (simp add: retry_policy_from_dict_def retry_policy_reads loaded_retry_policy_def)

definition loaded_retry_attempt :: "retry_attempt \<Rightarrow> retry_attempt" where
  "loaded_retry_attempt x = x\<lparr>ra_failure := map_option loaded_failure_signal (ra_failure x),
     ra_schema_version := or_str (ra_schema_version x) schema_1_0\<rparr>"

definition retry_attempt_times :: "retry_attempt \<Rightarrow> bool" where
  "retry_attempt_times x \<longleftrightarrow> (\<forall>s. ra_failure x = Some s \<longrightarrow> failure_signal_times s) \<and>
     valid_time (ra_occurred_at x)"

lemma retry_attempt_keys:
  "dict_get (retry_attempt_to_dict x) ''attempt_id'' = Some (JStr (ra_attempt_id x))"
  "dict_get (retry_attempt_to_dict x) ''policy_id'' = Some (JStr (ra_policy_id x))"
  "dict_get (retry_attempt_to_dict x) ''execution_id'' = Some (JStr (ra_execution_id x))"
  "dict_get (retry_attempt_to_dict x) ''attempt_number'' = Some (JInt (ra_attempt_number x))"
  "dict_get (retry_attempt_to_dict x) ''delay_ms'' = Some (JFloat (ra_delay_ms x))"
  "dict_get (retry_attempt_to_dict x) ''success'' = Some (JBool (ra_success x))"
  "dict_get (retry_attempt_to_dict x) ''failure'' = Some (j_opt (JObj \<circ> failure_signal_to_dict) (ra_failure x))"
  "dict_get (retry_attempt_to_dict x) ''occurred_at'' = Some (JStr (fmt_ts (Some (ra_occurred_at x))))"
  "dict_get (retry_attempt_to_dict x) ''schema_version'' = Some (JStr (ra_schema_version x))"
  by (simp_all add: retry_attempt_to_dict_def)

lemma retry_attempt_reads:
  "rd_str (retry_attempt_to_dict x) ''attempt_id'' [] = Inr (ra_attempt_id x)"
  "rd_str (retry_attempt_to_dict x) ''policy_id'' [] = Inr (ra_policy_id x)"
  "rd_str (retry_attempt_to_dict x) ''execution_id'' [] = Inr (ra_execution_id x)"
  "rd_int (retry_attempt_to_dict x) ''attempt_number'' 0 = Inr (ra_attempt_number x)"
  "rd_float (retry_attempt_to_dict x) ''delay_ms'' 0 = Inr (ra_delay_ms x)"
  "rd_bool (retry_attempt_to_dict x) ''success'' False = ra_success x"
  "\<forall>s. ra_failure x = Some s \<longrightarrow> failure_signal_times s \<Longrightarrow> rd_signal now (retry_attempt_to_dict x) ''failure'' = Inr (map_option loaded_failure_signal (ra_failure x))"
  "valid_time (ra_occurred_at x) \<Longrightarrow> rd_ts_or now (retry_attempt_to_dict x) ''occurred_at'' = Inr (ra_occurred_at x)"
  "rd_str (retry_attempt_to_dict x) ''schema_version'' schema_1_0 = Inr (or_str (ra_schema_version x) schema_1_0)"
  by (simp_all add: retry_attempt_keys read_back or_str_def or_num_def rd_signal_stored)

lemma retry_attempt_loads:
  "retry_attempt_times x \<Longrightarrow> retry_attempt_from_dict now (retry_attempt_to_dict x) = Inr (loaded_retry_attempt x)"
  by (simp add: retry_attempt_from_dict_def retry_attempt_reads loaded_retry_attempt_def retry_attempt_times_def)

definition loaded_fallback_execution :: "fallback_execution \<Rightarrow> fallback_execution" where
  "loaded_fallback_execution x = x\<lparr>fe_schema_version := or_str (fe_schema_version x) schema_1_0\<rparr>"

definition fallback_execution_times :: "fallback_execution \<Rightarrow> bool" where
  "fallback_execution_times x \<longleftrightarrow> valid_time (fe_occurred_at x)"

lemma fallback_execution_keys:
  "dict_get (fallback_execution_to_dict x) ''fallback_id'' = Some (JStr (fe_fallback_id x))"
  "dict_get (fallback_execution_to_dict x) ''original_execution_id'' = Some (JStr (fe_original_execution_id x))"
  "dict_get (fallback_execution_to_dict x) ''depth'' = Some (JInt (fe_depth x))"
  "dict_get (fallback_execution_to_dict x) ''strategy'' = Some (JStr (fe_strategy x))"
  "dict_get (fallback_execution_to_dict x) ''provider_id'' = Some (JStr (fe_provider_id x))"
  "dict_get (fallback_execution_to_dict x) ''model_id'' = Some (JStr (fe_model_id x))"
  "dict_get (fallback_execution_to_dict x) ''capability_id'' = Some (JStr (fe_capability_id x))"
  "dict_get (fallback_execution_to_dict x) ''success'' = Some (JBool (fe_success x))"
  "dict_get (fallback_execution_to_dict x) ''lost_capabilities'' = Some (jstrs (fe_lost_capabilities x))"
  "dict_get (fallback_execution_to_dict x) ''privacy_changed'' = Some (JBool (fe_privacy_changed x))"
  "dict_get (fallback_execution_to_dict x) ''locality_changed'' = Some (JBool (fe_locality_changed x))"
  "dict_get (fallback_execution_to_dict x) ''cost_delta'' = Some (j_opt JFloat (fe_cost_delta x))"
  "dict_get (fallback_execution_to_dict x) ''latency_delta_ms'' = Some (j_opt JFloat (fe_latency_delta_ms x))"
  "dict_get (fallback_execution_to_dict x) ''occurred_at'' = Some (JStr (fmt_ts (Some (fe_occurred_at x))))"
  "dict_get (fallback_execution_to_dict x) ''schema_version'' = Some (JStr (fe_schema_version x))"
  by (simp_all add: fallback_execution_to_dict_def)

lemma fallback_execution_reads:
  "rd_str (fallback_execution_to_dict x) ''fallback_id'' [] = Inr (fe_fallback_id x)"
  "rd_str (fallback_execution_to_dict x) ''original_execution_id'' [] = Inr (fe_original_execution_id x)"
  "rd_int (fallback_execution_to_dict x) ''depth'' 0 = Inr (fe_depth x)"
  "rd_str (fallback_execution_to_dict x) ''strategy'' [] = Inr (fe_strategy x)"
  "rd_str (fallback_execution_to_dict x) ''provider_id'' [] = Inr (fe_provider_id x)"
  "rd_str (fallback_execution_to_dict x) ''model_id'' [] = Inr (fe_model_id x)"
  "rd_str (fallback_execution_to_dict x) ''capability_id'' [] = Inr (fe_capability_id x)"
  "rd_bool (fallback_execution_to_dict x) ''success'' False = fe_success x"
  "bindE (rd_list (fallback_execution_to_dict x) ''lost_capabilities'') (mapE py_str) = Inr (fe_lost_capabilities x)"
  "rd_bool (fallback_execution_to_dict x) ''privacy_changed'' False = fe_privacy_changed x"
  "rd_bool (fallback_execution_to_dict x) ''locality_changed'' False = fe_locality_changed x"
  "rd_opt py_float (fallback_execution_to_dict x) ''cost_delta'' = Inr (fe_cost_delta x)"
  "rd_opt py_float (fallback_execution_to_dict x) ''latency_delta_ms'' = Inr (fe_latency_delta_ms x)"
  "valid_time (fe_occurred_at x) \<Longrightarrow> rd_ts_or now (fallback_execution_to_dict x) ''occurred_at'' = Inr (fe_occurred_at x)"
  "rd_str (fallback_execution_to_dict x) ''schema_version'' schema_1_0 = Inr (or_str (fe_schema_version x) schema_1_0)"
  by (simp_all add: fallback_execution_keys read_back or_str_def or_num_def)

lemma fallback_execution_loads:
  "fallback_execution_times x \<Longrightarrow> fallback_execution_from_dict now (fallback_execution_to_dict x) = Inr (loaded_fallback_execution x)"
  by (simp add: fallback_execution_from_dict_def fallback_execution_reads loaded_fallback_execution_def fallback_execution_times_def)

definition loaded_health_snapshot :: "health_snapshot \<Rightarrow> health_snapshot" where
  "loaded_health_snapshot x = x\<lparr>hs_status := or_str (hs_status x) ''unknown'',
     hs_window_size := or_num (hs_window_size x) (60),
     hs_freshness := or_num (hs_freshness x) (1),
     hs_schema_version := or_str (hs_schema_version x) schema_1_0\<rparr>"

definition health_snapshot_times :: "health_snapshot \<Rightarrow> bool" where
  "health_snapshot_times x \<longleftrightarrow> valid_time (hs_snapshot_at x)"

lemma health_snapshot_keys:
  "dict_get (health_snapshot_to_dict x) ''snapshot_id'' = Some (JStr (hs_snapshot_id x))"
  "dict_get (health_snapshot_to_dict x) ''provider_id'' = Some (JStr (hs_provider_id x))"
  "dict_get (health_snapshot_to_dict x) ''model_id'' = Some (JStr (hs_model_id x))"
  "dict_get (health_snapshot_to_dict x) ''status'' = Some (JStr (hs_status x))"
  "dict_get (health_snapshot_to_dict x) ''circuit_state'' = Some (JStr (circuit_state_value (hs_circuit_state x)))"
  "dict_get (health_snapshot_to_dict x) ''failure_count'' = Some (JInt (hs_failure_count x))"
  "dict_get (health_snapshot_to_dict x) ''success_count'' = Some (JInt (hs_success_count x))"
  "dict_get (health_snapshot_to_dict x) ''consecutive_failures'' = Some (JInt (hs_consecutive_failures x))"
  "dict_get (health_snapshot_to_dict x) ''failure_rate'' = Some (j_opt JFloat (hs_failure_rate x))"
  "dict_get (health_snapshot_to_dict x) ''timeout_rate'' = Some (j_opt JFloat (hs_timeout_rate x))"
  "dict_get (health_snapshot_to_dict x) ''rate_limit_count'' = Some (JInt (hs_rate_limit_count x))"
  "dict_get (health_snapshot_to_dict x) ''latency_p50_ms'' = Some (j_opt JFloat (hs_latency_p50_ms x))"
  "dict_get (health_snapshot_to_dict x) ''latency_p95_ms'' = Some (j_opt JFloat (hs_latency_p95_ms x))"
  "dict_get (health_snapshot_to_dict x) ''window_size'' = Some (JInt (hs_window_size x))"
  "dict_get (health_snapshot_to_dict x) ''sample_count'' = Some (JInt (hs_sample_count x))"
  "dict_get (health_snapshot_to_dict x) ''confidence'' = Some (JFloat (hs_confidence x))"
  "dict_get (health_snapshot_to_dict x) ''freshness'' = Some (JFloat (hs_freshness x))"
  "dict_get (health_snapshot_to_dict x) ''snapshot_at'' = Some (JStr (fmt_ts (Some (hs_snapshot_at x))))"
  "dict_get (health_snapshot_to_dict x) ''schema_version'' = Some (JStr (hs_schema_version x))"
  by (simp_all add: health_snapshot_to_dict_def)

lemma health_snapshot_reads:
  "rd_str (health_snapshot_to_dict x) ''snapshot_id'' [] = Inr (hs_snapshot_id x)"
  "rd_str (health_snapshot_to_dict x) ''provider_id'' [] = Inr (hs_provider_id x)"
  "rd_str (health_snapshot_to_dict x) ''model_id'' [] = Inr (hs_model_id x)"
  "rd_str (health_snapshot_to_dict x) ''status'' ''unknown'' = Inr (or_str (hs_status x) ''unknown'')"
  "rd_str (health_snapshot_to_dict x) ''circuit_state'' ''closed'' = Inr (circuit_state_value (hs_circuit_state x))"
  "rd_int (health_snapshot_to_dict x) ''failure_count'' 0 = Inr (hs_failure_count x)"
  "rd_int (health_snapshot_to_dict x) ''success_count'' 0 = Inr (hs_success_count x)"
  "rd_int (health_snapshot_to_dict x) ''consecutive_failures'' 0 = Inr (hs_consecutive_failures x)"
  "rd_opt py_float (health_snapshot_to_dict x) ''failure_rate'' = Inr (hs_failure_rate x)"
  "rd_opt py_float (health_snapshot_to_dict x) ''timeout_rate'' = Inr (hs_timeout_rate x)"
  "rd_int (health_snapshot_to_dict x) ''rate_limit_count'' 0 = Inr (hs_rate_limit_count x)"
  "rd_opt py_float (health_snapshot_to_dict x) ''latency_p50_ms'' = Inr (hs_latency_p50_ms x)"
  "rd_opt py_float (health_snapshot_to_dict x) ''latency_p95_ms'' = Inr (hs_latency_p95_ms x)"
  "rd_int (health_snapshot_to_dict x) ''window_size'' 60 = Inr (or_num (hs_window_size x) 60)"
  "rd_int (health_snapshot_to_dict x) ''sample_count'' 0 = Inr (hs_sample_count x)"
  "rd_float (health_snapshot_to_dict x) ''confidence'' 0 = Inr (hs_confidence x)"
  "rd_float (health_snapshot_to_dict x) ''freshness'' 1 = Inr (or_num (hs_freshness x) 1)"
  "valid_time (hs_snapshot_at x) \<Longrightarrow> rd_ts_or now (health_snapshot_to_dict x) ''snapshot_at'' = Inr (hs_snapshot_at x)"
  "rd_str (health_snapshot_to_dict x) ''schema_version'' schema_1_0 = Inr (or_str (hs_schema_version x) schema_1_0)"
  by (simp_all add: health_snapshot_keys read_back or_str_def or_num_def)

lemma health_snapshot_loads:
  "health_snapshot_times x \<Longrightarrow> health_snapshot_from_dict now (health_snapshot_to_dict x) = Inr (loaded_health_snapshot x)"
  by (simp add: health_snapshot_from_dict_def health_snapshot_reads loaded_health_snapshot_def health_snapshot_times_def)

definition loaded_circuit_config :: "circuit_config \<Rightarrow> circuit_config" where
  "loaded_circuit_config x = x\<lparr>cc_config_id := or_str (cc_config_id x) ''default'',
     cc_consecutive_failure_threshold := or_num (cc_consecutive_failure_threshold x) (5),
     cc_failure_rate_threshold := or_num (cc_failure_rate_threshold x) (1/2),
     cc_timeout_rate_threshold := or_num (cc_timeout_rate_threshold x) (3/10),
     cc_rate_limit_threshold := or_num (cc_rate_limit_threshold x) (3),
     cc_min_sample_count := or_num (cc_min_sample_count x) (10),
     cc_cooldown_seconds := or_num (cc_cooldown_seconds x) (30),
     cc_half_open_call_limit := or_num (cc_half_open_call_limit x) (1),
     cc_half_open_success_threshold := or_num (cc_half_open_success_threshold x) (2),
     cc_sliding_window_size := or_num (cc_sliding_window_size x) (60),
     cc_schema_version := or_str (cc_schema_version x) schema_1_0\<rparr>"

lemma circuit_config_keys:
  "dict_get (circuit_config_to_dict x) ''config_id'' = Some (JStr (cc_config_id x))"
  "dict_get (circuit_config_to_dict x) ''consecutive_failure_threshold'' = Some (JInt (cc_consecutive_failure_threshold x))"
  "dict_get (circuit_config_to_dict x) ''failure_rate_threshold'' = Some (JFloat (cc_failure_rate_threshold x))"
  "dict_get (circuit_config_to_dict x) ''timeout_rate_threshold'' = Some (JFloat (cc_timeout_rate_threshold x))"
  "dict_get (circuit_config_to_dict x) ''rate_limit_threshold'' = Some (JInt (cc_rate_limit_threshold x))"
  "dict_get (circuit_config_to_dict x) ''min_sample_count'' = Some (JInt (cc_min_sample_count x))"
  "dict_get (circuit_config_to_dict x) ''cooldown_seconds'' = Some (JFloat (cc_cooldown_seconds x))"
  "dict_get (circuit_config_to_dict x) ''half_open_call_limit'' = Some (JInt (cc_half_open_call_limit x))"
  "dict_get (circuit_config_to_dict x) ''half_open_success_threshold'' = Some (JInt (cc_half_open_success_threshold x))"
  "dict_get (circuit_config_to_dict x) ''sliding_window_size'' = Some (JInt (cc_sliding_window_size x))"
  "dict_get (circuit_config_to_dict x) ''schema_version'' = Some (JStr (cc_schema_version x))"
  by (simp_all add: circuit_config_to_dict_def)

lemma circuit_config_reads:
  "rd_str (circuit_config_to_dict x) ''config_id'' ''default'' = Inr (or_str (cc_config_id x) ''default'')"
  "rd_int (circuit_config_to_dict x) ''consecutive_failure_threshold'' 5 = Inr (or_num (cc_consecutive_failure_threshold x) 5)"
  "rd_float (circuit_config_to_dict x) ''failure_rate_threshold'' (1/2) = Inr (or_num (cc_failure_rate_threshold x) (1/2))"
  "rd_float (circuit_config_to_dict x) ''timeout_rate_threshold'' (3/10) = Inr (or_num (cc_timeout_rate_threshold x) (3/10))"
  "rd_int (circuit_config_to_dict x) ''rate_limit_threshold'' 3 = Inr (or_num (cc_rate_limit_threshold x) 3)"
  "rd_int (circuit_config_to_dict x) ''min_sample_count'' 10 = Inr (or_num (cc_min_sample_count x) 10)"
  "rd_float (circuit_config_to_dict x) ''cooldown_seconds'' 30 = Inr (or_num (cc_cooldown_seconds x) 30)"
  "rd_int (circuit_config_to_dict x) ''half_open_call_limit'' 1 = Inr (or_num (cc_half_open_call_limit x) 1)"
  "rd_int (circuit_config_to_dict x) ''half_open_success_threshold'' 2 = Inr (or_num (cc_half_open_success_threshold x) 2)"
  "rd_int (circuit_config_to_dict x) ''sliding_window_size'' 60 = Inr (or_num (cc_sliding_window_size x) 60)"
  "rd_str (circuit_config_to_dict x) ''schema_version'' schema_1_0 = Inr (or_str (cc_schema_version x) schema_1_0)"
  by (simp_all add: circuit_config_keys read_back or_str_def or_num_def)

lemma circuit_config_loads:
  "circuit_config_from_dict (circuit_config_to_dict x) = Inr (loaded_circuit_config x)"
  by (simp add: circuit_config_from_dict_def circuit_config_reads loaded_circuit_config_def)

definition loaded_circuit_record :: "circuit_record \<Rightarrow> circuit_record" where
  "loaded_circuit_record x = x\<lparr>cr_schema_version := or_str (cr_schema_version x) schema_1_0\<rparr>"

definition circuit_record_times :: "circuit_record \<Rightarrow> bool" where
  "circuit_record_times x \<longleftrightarrow> (\<forall>t. cr_opened_at x = Some t \<longrightarrow> valid_time t) \<and>
     (\<forall>t. cr_half_open_at x = Some t \<longrightarrow> valid_time t) \<and>
     (\<forall>t. cr_closed_at x = Some t \<longrightarrow> valid_time t) \<and>
     (\<forall>t. cr_cooldown_until x = Some t \<longrightarrow> valid_time t) \<and>
     valid_time (cr_transitioned_at x)"

lemma circuit_record_keys:
  "dict_get (circuit_record_to_dict x) ''record_id'' = Some (JStr (cr_record_id x))"
  "dict_get (circuit_record_to_dict x) ''breaker_key'' = Some (JStr (cr_breaker_key x))"
  "dict_get (circuit_record_to_dict x) ''state'' = Some (JStr (circuit_state_value (cr_state x)))"
  "dict_get (circuit_record_to_dict x) ''previous_state'' = Some (JStr (circuit_state_value (cr_previous_state x)))"
  "dict_get (circuit_record_to_dict x) ''transition_reason'' = Some (JStr (cr_transition_reason x))"
  "dict_get (circuit_record_to_dict x) ''consecutive_failures'' = Some (JInt (cr_consecutive_failures x))"
  "dict_get (circuit_record_to_dict x) ''failure_count'' = Some (JInt (cr_failure_count x))"
  "dict_get (circuit_record_to_dict x) ''success_count'' = Some (JInt (cr_success_count x))"
  "dict_get (circuit_record_to_dict x) ''opened_at'' = Some (JStr (fmt_ts (cr_opened_at x)))"
  "dict_get (circuit_record_to_dict x) ''half_open_at'' = Some (JStr (fmt_ts (cr_half_open_at x)))"
  "dict_get (circuit_record_to_dict x) ''closed_at'' = Some (JStr (fmt_ts (cr_closed_at x)))"
  "dict_get (circuit_record_to_dict x) ''cooldown_until'' = Some (JStr (fmt_ts (cr_cooldown_until x)))"
  "dict_get (circuit_record_to_dict x) ''half_open_calls'' = Some (JInt (cr_half_open_calls x))"
  "dict_get (circuit_record_to_dict x) ''half_open_successes'' = Some (JInt (cr_half_open_successes x))"
  "dict_get (circuit_record_to_dict x) ''transitioned_at'' = Some (JStr (fmt_ts (Some (cr_transitioned_at x))))"
  "dict_get (circuit_record_to_dict x) ''schema_version'' = Some (JStr (cr_schema_version x))"
  by (simp_all add: circuit_record_to_dict_def)

lemma circuit_record_reads:
  "rd_str (circuit_record_to_dict x) ''record_id'' [] = Inr (cr_record_id x)"
  "rd_str (circuit_record_to_dict x) ''breaker_key'' [] = Inr (cr_breaker_key x)"
  "rd_str (circuit_record_to_dict x) ''state'' ''closed'' = Inr (circuit_state_value (cr_state x))"
  "rd_str (circuit_record_to_dict x) ''previous_state'' ''closed'' = Inr (circuit_state_value (cr_previous_state x))"
  "rd_str (circuit_record_to_dict x) ''transition_reason'' [] = Inr (cr_transition_reason x)"
  "rd_int (circuit_record_to_dict x) ''consecutive_failures'' 0 = Inr (cr_consecutive_failures x)"
  "rd_int (circuit_record_to_dict x) ''failure_count'' 0 = Inr (cr_failure_count x)"
  "rd_int (circuit_record_to_dict x) ''success_count'' 0 = Inr (cr_success_count x)"
  "\<forall>t. cr_opened_at x = Some t \<longrightarrow> valid_time t \<Longrightarrow> rd_ts (circuit_record_to_dict x) ''opened_at'' = Inr (cr_opened_at x)"
  "\<forall>t. cr_half_open_at x = Some t \<longrightarrow> valid_time t \<Longrightarrow> rd_ts (circuit_record_to_dict x) ''half_open_at'' = Inr (cr_half_open_at x)"
  "\<forall>t. cr_closed_at x = Some t \<longrightarrow> valid_time t \<Longrightarrow> rd_ts (circuit_record_to_dict x) ''closed_at'' = Inr (cr_closed_at x)"
  "\<forall>t. cr_cooldown_until x = Some t \<longrightarrow> valid_time t \<Longrightarrow> rd_ts (circuit_record_to_dict x) ''cooldown_until'' = Inr (cr_cooldown_until x)"
  "rd_int (circuit_record_to_dict x) ''half_open_calls'' 0 = Inr (cr_half_open_calls x)"
  "rd_int (circuit_record_to_dict x) ''half_open_successes'' 0 = Inr (cr_half_open_successes x)"
  "valid_time (cr_transitioned_at x) \<Longrightarrow> rd_ts_or now (circuit_record_to_dict x) ''transitioned_at'' = Inr (cr_transitioned_at x)"
  "rd_str (circuit_record_to_dict x) ''schema_version'' schema_1_0 = Inr (or_str (cr_schema_version x) schema_1_0)"
  by (simp_all add: circuit_record_keys read_back or_str_def or_num_def)

lemma circuit_record_loads:
  "circuit_record_times x \<Longrightarrow> circuit_record_from_dict now (circuit_record_to_dict x) = Inr (loaded_circuit_record x)"
  by (simp add: circuit_record_from_dict_def circuit_record_reads loaded_circuit_record_def circuit_record_times_def)

definition loaded_reliability_window :: "reliability_window \<Rightarrow> reliability_window" where
  "loaded_reliability_window x = x\<lparr>rw_schema_version := or_str (rw_schema_version x) schema_1_0\<rparr>"

definition reliability_window_times :: "reliability_window \<Rightarrow> bool" where
  "reliability_window_times x \<longleftrightarrow> valid_time (rw_window_start x) \<and>
     (\<forall>t. rw_window_end x = Some t \<longrightarrow> valid_time t)"

lemma reliability_window_keys:
  "dict_get (reliability_window_to_dict x) ''window_id'' = Some (JStr (rw_window_id x))"
  "dict_get (reliability_window_to_dict x) ''provider_id'' = Some (JStr (rw_provider_id x))"
  "dict_get (reliability_window_to_dict x) ''model_id'' = Some (JStr (rw_model_id x))"
  "dict_get (reliability_window_to_dict x) ''total_calls'' = Some (JInt (rw_total_calls x))"
  "dict_get (reliability_window_to_dict x) ''successes'' = Some (JInt (rw_successes x))"
  "dict_get (reliability_window_to_dict x) ''failures'' = Some (JInt (rw_failures x))"
  "dict_get (reliability_window_to_dict x) ''timeouts'' = Some (JInt (rw_timeouts x))"
  "dict_get (reliability_window_to_dict x) ''rate_limits'' = Some (JInt (rw_rate_limits x))"
  "dict_get (reliability_window_to_dict x) ''consecutive_failures'' = Some (JInt (rw_consecutive_failures x))"
  "dict_get (reliability_window_to_dict x) ''window_start'' = Some (JStr (fmt_ts (Some (rw_window_start x))))"
  "dict_get (reliability_window_to_dict x) ''window_end'' = Some (JStr (fmt_ts (rw_window_end x)))"
  "dict_get (reliability_window_to_dict x) ''schema_version'' = Some (JStr (rw_schema_version x))"
  by (simp_all add: reliability_window_to_dict_def)

lemma reliability_window_reads:
  "rd_str (reliability_window_to_dict x) ''window_id'' [] = Inr (rw_window_id x)"
  "rd_str (reliability_window_to_dict x) ''provider_id'' [] = Inr (rw_provider_id x)"
  "rd_str (reliability_window_to_dict x) ''model_id'' [] = Inr (rw_model_id x)"
  "rd_int (reliability_window_to_dict x) ''total_calls'' 0 = Inr (rw_total_calls x)"
  "rd_int (reliability_window_to_dict x) ''successes'' 0 = Inr (rw_successes x)"
  "rd_int (reliability_window_to_dict x) ''failures'' 0 = Inr (rw_failures x)"
  "rd_int (reliability_window_to_dict x) ''timeouts'' 0 = Inr (rw_timeouts x)"
  "rd_int (reliability_window_to_dict x) ''rate_limits'' 0 = Inr (rw_rate_limits x)"
  "rd_int (reliability_window_to_dict x) ''consecutive_failures'' 0 = Inr (rw_consecutive_failures x)"
  "valid_time (rw_window_start x) \<Longrightarrow> rd_ts_or now (reliability_window_to_dict x) ''window_start'' = Inr (rw_window_start x)"
  "\<forall>t. rw_window_end x = Some t \<longrightarrow> valid_time t \<Longrightarrow> rd_ts (reliability_window_to_dict x) ''window_end'' = Inr (rw_window_end x)"
  "rd_str (reliability_window_to_dict x) ''schema_version'' schema_1_0 = Inr (or_str (rw_schema_version x) schema_1_0)"
  by (simp_all add: reliability_window_keys read_back or_str_def or_num_def)

lemma reliability_window_loads:
  "reliability_window_times x \<Longrightarrow> reliability_window_from_dict now (reliability_window_to_dict x) = Inr (loaded_reliability_window x)"
  by (simp add: reliability_window_from_dict_def reliability_window_reads loaded_reliability_window_def reliability_window_times_def)

section \<open>Properties\<close>

text \<open>A value under a sensitive key that is not the redaction mark, at any depth.\<close>

fun shows_secret :: "json \<Rightarrow> bool" where
  "shows_secret (JObj kvs) \<longleftrightarrow>
     (\<exists>(k, v) \<in> set kvs. if is_sensitive k then v \<noteq> JStr ''[redacted]'' else shows_secret v)"
| "shows_secret (JList xs) \<longleftrightarrow> (\<exists>v \<in> set xs. shows_secret v)"
| "shows_secret v \<longleftrightarrow> False"

lemma sanitize_shows_nothing: "\<not> shows_secret (sanitize v)"
  by (induction v rule: sanitize.induct) (auto split: if_splits)

lemma sanitize_unchanged: "\<not> shows_secret v \<Longrightarrow> sanitize v = v"
  by (induction v rule: sanitize.induct) (force intro!: map_idI split: if_splits)+

text \<open>
  Secrets do not survive storing. Whatever is sanitized shows no value under a sensitive
  key at any depth, data without secrets is kept exactly, and the evidence of a failure that was
  stored and loaded shows none either.
\<close>
lemma stored_evidence_redacted:
  assumes "valid_time (fs_occurred_at x)"
  shows "\<not> shows_secret (sanitize v) \<and> (shows_secret v \<or> sanitize v = v) \<and>
    (\<exists>y. failure_signal_from_dict now (failure_signal_to_dict x) = Inr y \<and>
       \<not> shows_secret (JObj (fs_evidence y)) \<and> fs_category y = fs_category x)"
proof -
  have "\<not> shows_secret (JObj (sanitize_obj (fs_evidence x)))"
    using sanitize_shows_nothing [of "JObj (fs_evidence x)"] by (simp add: sanitize_obj_def)
  moreover have "failure_signal_from_dict now (failure_signal_to_dict x) = Inr (loaded_failure_signal x)"
    using assms by (intro failure_signal_loads) (simp add: failure_signal_times_def)
  ultimately show ?thesis
    using sanitize_shows_nothing sanitize_unchanged by (auto simp: loaded_failure_signal_def)
qed

definition sample_signal :: "failure_category \<Rightarrow> failure_signal" where
  "sample_signal c =
     \<lparr>fs_signal_id = ''s1'', fs_provider_id = ''p'', fs_model_id = ''m'', fs_capability_id = ''c'',
      fs_category = c, fs_provider_attributable = True, fs_model_attributable = False,
      fs_retryable = True, fs_circuit_relevant = True, fs_confidence = 1, fs_explanation = [],
      fs_evidence = [(''api_key'', JStr ''k'')], fs_occurred_at = 63000000000000000,
      fs_schema_version = schema_1_0\<rparr>"

lemma stored_evidence_redacted_witness:
  "\<exists>y. failure_signal_from_dict 0 (failure_signal_to_dict (sample_signal FC_TIMEOUT)) = Inr y \<and>
     \<not> shows_secret (JObj (fs_evidence y))"
proof -
  have "valid_time (fs_occurred_at (sample_signal FC_TIMEOUT))" by (simp add: sample_signal_def valid_time_def)
  from stored_evidence_redacted [OF this, of JNull 0] show ?thesis by blast
qed

text \<open>
  Circuit records are stored faithfully. With representable instants and a schema version,
  a stored circuit record loads as it was, and so does a stored window.
\<close>
lemma circuit_record_store_load:
  assumes "circuit_record_times r" and "cr_schema_version r \<noteq> []"
    and "reliability_window_times w" and "rw_schema_version w \<noteq> []"
  shows "circuit_record_from_dict now (circuit_record_to_dict r) = Inr r \<and>
    reliability_window_from_dict now (reliability_window_to_dict w) = Inr w"
  using assms by (simp add: circuit_record_loads reliability_window_loads loaded_circuit_record_def
      loaded_reliability_window_def)

lemma circuit_record_store_load_witness:
  "\<exists>r w. circuit_record_from_dict 0 (circuit_record_to_dict r) = Inr r \<and>
     reliability_window_from_dict 0 (reliability_window_to_dict w) = Inr w \<and>
     cr_opened_at r = Some 63000000000000001 \<and> rw_failures w = 2"
proof -
  let ?r = "\<lparr>cr_record_id = ''r'', cr_breaker_key = ''p:*'', cr_state = CS_OPEN, cr_previous_state = CS_CLOSED,
    cr_transition_reason = [], cr_consecutive_failures = 5, cr_failure_count = 6, cr_success_count = 4,
    cr_opened_at = Some 63000000000000001, cr_half_open_at = None, cr_closed_at = None,
    cr_cooldown_until = Some 63000000030000001, cr_half_open_calls = 0, cr_half_open_successes = 0,
    cr_transitioned_at = 63000000000000001, cr_schema_version = schema_1_0\<rparr>"
  let ?w = "\<lparr>rw_window_id = ''w'', rw_provider_id = ''p'', rw_model_id = [], rw_total_calls = 3, rw_successes = 1,
    rw_failures = 2, rw_timeouts = 0, rw_rate_limits = 0, rw_consecutive_failures = 1,
    rw_window_start = 63000000000000001, rw_window_end = None, rw_schema_version = schema_1_0\<rparr>"
  show ?thesis
    using circuit_record_store_load [of ?r ?w 0]
    by (intro exI [of _ ?r] exI [of _ ?w])
      (simp add: circuit_record_times_def reliability_window_times_def valid_time_def)
qed

text \<open>
  Retry policies are not. A stored policy loads with every zero field that has a default
  replaced by it: a policy of 0 attempts comes back with 3, one without jitter with a tenth,
  one without a delay limit with a minute; everything else is kept.
\<close>
lemma retry_policy_store_load:
  "retry_policy_from_dict (retry_policy_to_dict p) = Inr (p\<lparr>
     ry_max_attempts := (if ry_max_attempts p = 0 then 3 else ry_max_attempts p),
     ry_max_cumulative_delay_ms := (if ry_max_cumulative_delay_ms p = 0 then 60000 else ry_max_cumulative_delay_ms p),
     ry_base_backoff_ms := (if ry_base_backoff_ms p = 0 then 1000 else ry_base_backoff_ms p),
     ry_max_backoff_ms := (if ry_max_backoff_ms p = 0 then 30000 else ry_max_backoff_ms p),
     ry_backoff_multiplier := (if ry_backoff_multiplier p = 0 then 2 else ry_backoff_multiplier p),
     ry_jitter_ratio := (if ry_jitter_ratio p = 0 then 1/10 else ry_jitter_ratio p),
     ry_schema_version := (if ry_schema_version p = [] then schema_1_0 else ry_schema_version p)\<rparr>)"
  by (simp add: retry_policy_loads loaded_retry_policy_def or_num_def or_str_def)

end
