(* ===== verification/Reliability_Circuit.thy ===== *)
theory Reliability_Circuit
  imports Reliability_Models Kernel_State_Machine
begin

text \<open>
  The circuit breaker (\<open>nous_runtime/intelligence/reliability/circuit_breaker.py\<close>). One
  operation takes one reading of each clock: \<open>rd_mono\<close> in seconds for the sliding window,
  \<open>rd_now\<close> in microseconds for the cooldown. The SHA-256 digest of \<open>snapshot_hash\<close> and the texts of
  numbers in the transition reasons are fields of \<open>circuit_texts\<close>.
\<close>

section \<open>The sliding window\<close>

type_synonym window_event = "rat \<times> bool \<times> failure_category option"

definition ev_ok :: "window_event \<Rightarrow> bool" where
  "ev_ok e = fst (snd e)"

text \<open>\<open>_prune\<close>: events older than the window leave it, oldest first.\<close>

definition win_prune :: "int \<Rightarrow> rat \<Rightarrow> window_event list \<Rightarrow> window_event list" where
  "win_prune sz tm es = dropWhile (\<lambda>e. fst e < tm - of_int sz) es"

definition win_record :: "int \<Rightarrow> rat \<Rightarrow> bool \<Rightarrow> failure_category option \<Rightarrow> window_event list \<Rightarrow> window_event list" where
  "win_record sz tm ok cat es = win_prune sz tm (es @ [(tm, ok, cat)])"

definition win_total :: "window_event list \<Rightarrow> int" where
  "win_total es = int (length es)"

definition win_successes :: "window_event list \<Rightarrow> int" where
  "win_successes es = int (length (filter ev_ok es))"

definition win_failures :: "window_event list \<Rightarrow> int" where
  "win_failures es = int (length (filter (\<lambda>e. \<not> ev_ok e) es))"

definition win_timeouts :: "window_event list \<Rightarrow> int" where
  "win_timeouts es = int (length (filter (\<lambda>e. \<not> ev_ok e \<and> snd (snd e) = Some FC_TIMEOUT) es))"

definition win_rate_limits :: "window_event list \<Rightarrow> int" where
  "win_rate_limits es = int (length (filter (\<lambda>e. \<not> ev_ok e \<and> snd (snd e) = Some FC_RATE_LIMIT) es))"

definition win_failure_rate :: "window_event list \<Rightarrow> rat" where
  "win_failure_rate es = of_int (win_failures es) / of_int (max (win_total es) 1)"

definition win_timeout_rate :: "window_event list \<Rightarrow> rat" where
  "win_timeout_rate es = of_int (win_timeouts es) / of_int (max (win_total es) 1)"

definition win_consecutive_failures :: "window_event list \<Rightarrow> int" where
  "win_consecutive_failures es = int (length (takeWhile (\<lambda>e. \<not> ev_ok e) (rev es)))"

section \<open>The breaker\<close>

record circuit_breaker =
  cb_key :: string
  cb_config :: circuit_config
  cb_state :: circuit_state
  cb_events :: "window_event list"
  cb_opened_at :: "int option"
  cb_half_open_at :: "int option"
  cb_closed_at :: "int option"
  cb_cooldown_until :: "int option"
  cb_half_open_calls :: int
  cb_half_open_successes :: int
  cb_history :: "circuit_record list"

record readings =
  rd_mono :: rat
  rd_now :: int

record circuit_texts =
  ct_digest :: "json \<Rightarrow> string"
  ct_2f :: "rat \<Rightarrow> string"
  ct_float :: "rat \<Rightarrow> string"

definition new_breaker :: "string \<Rightarrow> circuit_config option \<Rightarrow> circuit_breaker" where
  "new_breaker key config =
     \<lparr>cb_key = key, cb_config = (case config of None \<Rightarrow> DEFAULT_CIRCUIT_CONFIG | Some c \<Rightarrow> c),
      cb_state = CS_CLOSED, cb_events = [], cb_opened_at = None, cb_half_open_at = None,
      cb_closed_at = None, cb_cooldown_until = None, cb_half_open_calls = 0,
      cb_half_open_successes = 0, cb_history = []\<rparr>"

definition cb_is_open :: "circuit_breaker \<Rightarrow> bool" where
  "cb_is_open b \<longleftrightarrow> cb_state b \<in> {CS_OPEN, CS_FORCED_OPEN}"

definition allows_traffic :: "circuit_breaker \<Rightarrow> bool" where
  "allows_traffic b \<longleftrightarrow>
     (if cb_state b \<in> {CS_CLOSED, CS_DISABLED} then True
      else if cb_state b = CS_HALF_OPEN then cb_half_open_calls b < cc_half_open_call_limit (cb_config b)
      else False)"

definition cooldown_remaining_seconds :: "readings \<Rightarrow> circuit_breaker \<Rightarrow> rat" where
  "cooldown_remaining_seconds r b =
     (case cb_cooldown_until b of None \<Rightarrow> 0 | Some u \<Rightarrow> max 0 (of_int (u - rd_now r) / 1000000))"

text \<open>\<open>timedelta(seconds=q)\<close> in microseconds, ties to even.\<close>

definition timedelta_us :: "rat \<Rightarrow> int" where
  "timedelta_us q =
     (let x = q * 1000000; f = \<lfloor>x\<rfloor>; d = x - of_int f
      in if d < 1/2 \<or> d = 1/2 \<and> even f then f else f + 1)"

definition cb_window :: "readings \<Rightarrow> circuit_breaker \<Rightarrow> window_event list" where
  "cb_window r b = win_prune (cc_sliding_window_size (cb_config b)) (rd_mono r) (cb_events b)"

definition transition_record_of ::
  "circuit_texts \<Rightarrow> readings \<Rightarrow> circuit_state \<Rightarrow> string \<Rightarrow> circuit_breaker \<Rightarrow> circuit_record" where
  "transition_record_of tx r previous reason b =
     \<lparr>cr_record_id = snapshot_hash (ct_digest tx)
        [(''key'', JStr (cb_key b)), (''from'', JStr (circuit_state_value previous)),
         (''to'', JStr (circuit_state_value (cb_state b))), (''reason'', JStr reason)],
      cr_breaker_key = cb_key b, cr_state = cb_state b, cr_previous_state = previous,
      cr_transition_reason = reason,
      cr_consecutive_failures = win_consecutive_failures (cb_window r b),
      cr_failure_count = win_failures (cb_window r b), cr_success_count = win_successes (cb_window r b),
      cr_opened_at = cb_opened_at b, cr_half_open_at = cb_half_open_at b, cr_closed_at = cb_closed_at b,
      cr_cooldown_until = cb_cooldown_until b, cr_half_open_calls = cb_half_open_calls b,
      cr_half_open_successes = cb_half_open_successes b, cr_transitioned_at = rd_now r,
      cr_schema_version = schema_1_0\<rparr>"

text \<open>Reading a count of the window drops its old events for good.\<close>

definition cb_pruned :: "readings \<Rightarrow> circuit_breaker \<Rightarrow> circuit_breaker" where
  "cb_pruned r b = b\<lparr>cb_events := cb_window r b\<rparr>"

text \<open>The bookkeeping of the states entered.\<close>

definition enter_state :: "readings \<Rightarrow> circuit_state \<Rightarrow> circuit_breaker \<Rightarrow> circuit_breaker" where
  "enter_state r s b =
     (let b = b\<lparr>cb_state := s\<rparr>; now = rd_now r in
      case s of
        CS_OPEN \<Rightarrow> b\<lparr>cb_opened_at := Some now,
          cb_cooldown_until := Some (now + timedelta_us (cc_cooldown_seconds (cb_config b))),
          cb_half_open_calls := 0, cb_half_open_successes := 0\<rparr>
      | CS_HALF_OPEN \<Rightarrow> b\<lparr>cb_half_open_at := Some now, cb_half_open_calls := 0, cb_half_open_successes := 0\<rparr>
      | CS_CLOSED \<Rightarrow> b\<lparr>cb_closed_at := Some now, cb_cooldown_until := None, cb_opened_at := None,
          cb_half_open_at := None, cb_half_open_calls := 0, cb_half_open_successes := 0\<rparr>
      | _ \<Rightarrow> b)"

definition cb_transition_to ::
  "circuit_texts \<Rightarrow> readings \<Rightarrow> circuit_state \<Rightarrow> string \<Rightarrow> circuit_breaker
     \<Rightarrow> pyexn + circuit_record \<times> circuit_breaker" where
  "cb_transition_to tx r new_state reason b =
     (if new_state = cb_state b
      then Inr (transition_record_of tx r (cb_state b) reason b, cb_pruned r b)
      else if new_state \<notin> set (dict_get_or VALID_CIRCUIT_TRANSITIONS (cb_state b) [])
      then Inl (ValueError (''Illegal circuit transition: '' @ circuit_state_value (cb_state b) @ '' -> '' @
             circuit_state_value new_state))
      else let previous = cb_state b; b' = enter_state r new_state b;
               rec = transition_record_of tx r previous reason b'
           in Inr (rec, (cb_pruned r b')\<lparr>cb_history := cb_history b' @ [rec]\<rparr>))"

definition maybe_record ::
  "pyexn + circuit_record \<times> circuit_breaker \<Rightarrow> pyexn + circuit_record option \<times> circuit_breaker" where
  "maybe_record m = bindE m (\<lambda>(rec, b). Inr (Some rec, b))"

definition cb_evaluate ::
  "circuit_texts \<Rightarrow> readings \<Rightarrow> circuit_breaker \<Rightarrow> pyexn + circuit_record option \<times> circuit_breaker" where
  "cb_evaluate tx r b =
     (let w = cb_window r b; cfg = cb_config b; cf = win_consecutive_failures w in
      case cb_state b of
        CS_DISABLED \<Rightarrow> Inr (None, b)
      | CS_FORCED_OPEN \<Rightarrow> Inr (None, b)
      | CS_CLOSED \<Rightarrow>
          let b = cb_pruned r b in
          if win_total w \<ge> cc_min_sample_count cfg then
            if cf \<ge> cc_consecutive_failure_threshold cfg
            then maybe_record (cb_transition_to tx r CS_OPEN
              (''consecutive_failures='' @ show_int cf @ '' >= '' @ show_int (cc_consecutive_failure_threshold cfg)) b)
            else if win_failure_rate w \<ge> cc_failure_rate_threshold cfg
            then maybe_record (cb_transition_to tx r CS_OPEN
              (''failure_rate='' @ ct_2f tx (win_failure_rate w) @ '' >= '' @ ct_float tx (cc_failure_rate_threshold cfg)) b)
            else if win_timeout_rate w \<ge> cc_timeout_rate_threshold cfg
            then maybe_record (cb_transition_to tx r CS_OPEN
              (''timeout_rate='' @ ct_2f tx (win_timeout_rate w) @ '' >= '' @ ct_float tx (cc_timeout_rate_threshold cfg)) b)
            else if win_rate_limits w \<ge> cc_rate_limit_threshold cfg
            then maybe_record (cb_transition_to tx r CS_OPEN
              (''rate_limits='' @ show_int (win_rate_limits w) @ '' >= '' @ show_int (cc_rate_limit_threshold cfg)) b)
            else Inr (None, b)
          else Inr (None, b)
      | CS_OPEN \<Rightarrow>
          (case cb_cooldown_until b of
             None \<Rightarrow> Inr (None, b)
           | Some u \<Rightarrow> if rd_now r \<ge> u
               then maybe_record (cb_transition_to tx r CS_HALF_OPEN ''cooldown expired'' b)
               else Inr (None, b))
      | CS_HALF_OPEN \<Rightarrow>
          let b = b\<lparr>cb_half_open_calls := cb_half_open_calls b + 1\<rparr>;
              b = (if cb_events b \<noteq> [] \<and> \<not> ev_ok (last (cb_events b))
                   then b\<lparr>cb_half_open_successes := 0\<rparr>
                   else b\<lparr>cb_half_open_successes := cb_half_open_successes b + 1\<rparr>)
          in if cb_half_open_successes b \<ge> cc_half_open_success_threshold cfg
             then maybe_record (cb_transition_to tx r CS_CLOSED
               (''half_open_successes='' @ show_int (cb_half_open_successes b) @ '' >= '' @
                show_int (cc_half_open_success_threshold cfg)) b)
             else if cf \<ge> 1 then maybe_record (cb_transition_to tx r CS_OPEN ''half_open failure'' b)
             else Inr (None, cb_pruned r b))"

definition record_success ::
  "circuit_texts \<Rightarrow> readings \<Rightarrow> circuit_breaker \<Rightarrow> pyexn + circuit_record option \<times> circuit_breaker" where
  "record_success tx r b =
     (if cb_state b = CS_OPEN \<and> (case cb_cooldown_until b of None \<Rightarrow> False | Some u \<Rightarrow> rd_now r \<ge> u)
      then maybe_record (cb_transition_to tx r CS_HALF_OPEN ''cooldown expired'' b)
      else cb_evaluate tx r (b\<lparr>cb_events :=
        win_record (cc_sliding_window_size (cb_config b)) (rd_mono r) True None (cb_events b)\<rparr>))"

definition record_failure ::
  "circuit_texts \<Rightarrow> readings \<Rightarrow> failure_signal \<Rightarrow> circuit_breaker \<Rightarrow> pyexn + circuit_record option \<times> circuit_breaker" where
  "record_failure tx r sig b =
     cb_evaluate tx r
       (if fs_circuit_relevant sig
        then b\<lparr>cb_events := win_record (cc_sliding_window_size (cb_config b)) (rd_mono r) False
               (Some (fs_category sig)) (cb_events b)\<rparr>
        else b)"

definition force_open ::
  "circuit_texts \<Rightarrow> readings \<Rightarrow> string \<Rightarrow> circuit_breaker \<Rightarrow> pyexn + circuit_record \<times> circuit_breaker" where
  "force_open tx r reason b = cb_transition_to tx r CS_FORCED_OPEN reason b"

definition force_close ::
  "circuit_texts \<Rightarrow> readings \<Rightarrow> string \<Rightarrow> circuit_breaker \<Rightarrow> pyexn + circuit_record \<times> circuit_breaker" where
  "force_close tx r reason b =
     (if cb_state b \<noteq> CS_FORCED_OPEN
      then Inl (ValueError (''Cannot force_close from '' @ circuit_state_value (cb_state b) @
             ''; only FORCED_OPEN can be explicitly closed''))
      else cb_transition_to tx r CS_CLOSED reason b)"

definition disable_breaker ::
  "circuit_texts \<Rightarrow> readings \<Rightarrow> string \<Rightarrow> circuit_breaker \<Rightarrow> pyexn + circuit_record \<times> circuit_breaker" where
  "disable_breaker tx r reason b = cb_transition_to tx r CS_DISABLED reason b"

definition enable_breaker ::
  "circuit_texts \<Rightarrow> readings \<Rightarrow> string \<Rightarrow> circuit_breaker \<Rightarrow> pyexn + circuit_record \<times> circuit_breaker" where
  "enable_breaker tx r reason b =
     (if cb_state b \<noteq> CS_DISABLED
      then Inl (ValueError (''Cannot enable from '' @ circuit_state_value (cb_state b) @
             ''; only DISABLED can be enabled''))
      else cb_transition_to tx r CS_CLOSED reason b)"

definition half_open_breaker ::
  "circuit_texts \<Rightarrow> readings \<Rightarrow> string \<Rightarrow> circuit_breaker \<Rightarrow> pyexn + circuit_record \<times> circuit_breaker" where
  "half_open_breaker tx r reason b =
     (if cb_state b \<noteq> CS_OPEN
      then Inl (ValueError (''Cannot half_open from '' @ circuit_state_value (cb_state b) @
             ''; only OPEN can go to HALF_OPEN''))
      else cb_transition_to tx r CS_HALF_OPEN reason b)"

definition cb_snapshot ::
  "circuit_texts \<Rightarrow> readings \<Rightarrow> circuit_breaker \<Rightarrow> health_snapshot \<times> circuit_breaker" where
  "cb_snapshot tx r b =
     (let parts = py_split CHR '':'' (cb_key b); w = cb_window r b in
      (\<lparr>hs_snapshot_id = snapshot_hash (ct_digest tx)
         [(''breaker_key'', JStr (cb_key b)), (''ts'', JStr (iso_text (rd_now r) @ ''+00:00''))],
       hs_provider_id = hd parts,
       hs_model_id = (if length parts > 1 \<and> parts ! 1 \<noteq> ''*'' then parts ! 1 else []),
       hs_status = (if cb_state b \<in> {CS_OPEN, CS_FORCED_OPEN} then ''down''
                    else if cb_state b = CS_HALF_OPEN then ''degraded'' else ''ok''),
       hs_circuit_state = cb_state b, hs_failure_count = win_failures w, hs_success_count = win_successes w,
       hs_consecutive_failures = win_consecutive_failures w,
       hs_failure_rate = (if win_total w > 0 then Some (win_failure_rate w) else None),
       hs_timeout_rate = (if win_total w > 0 then Some (win_timeout_rate w) else None),
       hs_rate_limit_count = win_rate_limits w, hs_latency_p50_ms = None, hs_latency_p95_ms = None,
       hs_window_size = cc_sliding_window_size (cb_config b), hs_sample_count = win_total w,
       hs_confidence = min 1 (of_int (win_total w) / of_int (max (cc_min_sample_count (cb_config b)) 1)),
       hs_freshness = 1, hs_snapshot_at = rd_now r, hs_schema_version = schema_1_0\<rparr>,
       cb_pruned r b))"

text \<open>\<open>get_history(limit)\<close>: \<open>xs[-limit:]\<close>, all of it for a limit of 0.\<close>

definition get_history :: "int \<Rightarrow> circuit_breaker \<Rightarrow> circuit_record list" where
  "get_history limit b = slice_last limit (cb_history b)"

section \<open>The transition table\<close>

definition circuit_allowed :: "circuit_state \<Rightarrow> circuit_state \<Rightarrow> bool" where
  "circuit_allowed a b \<longleftrightarrow> b \<in> set (dict_get_or VALID_CIRCUIT_TRANSITIONS a [])"

lemma circuit_allowed_simps [transition_simps]:
  "circuit_allowed CS_CLOSED b \<longleftrightarrow> b \<in> {CS_OPEN, CS_FORCED_OPEN, CS_DISABLED}"
  "circuit_allowed CS_OPEN b \<longleftrightarrow> b \<in> {CS_HALF_OPEN, CS_FORCED_OPEN, CS_DISABLED}"
  "circuit_allowed CS_HALF_OPEN b \<longleftrightarrow> b \<in> {CS_CLOSED, CS_OPEN, CS_FORCED_OPEN, CS_DISABLED}"
  "circuit_allowed CS_FORCED_OPEN b \<longleftrightarrow> b \<in> {CS_CLOSED, CS_DISABLED}"
  "circuit_allowed CS_DISABLED b \<longleftrightarrow> b \<in> {CS_CLOSED, CS_OPEN, CS_HALF_OPEN, CS_FORCED_OPEN}"
  by (simp_all add: circuit_allowed_def VALID_CIRCUIT_TRANSITIONS_def dict_get_or_def)

lemma enter_state_fields [simp]:
  "cb_state (enter_state r s b) = s" "cb_events (enter_state r s b) = cb_events b"
  "cb_history (enter_state r s b) = cb_history b" "cb_config (enter_state r s b) = cb_config b"
  "cb_key (enter_state r s b) = cb_key b"
  by (cases s; simp add: enter_state_def Let_def)+

lemma cb_pruned_fields [simp]:
  "cb_state (cb_pruned r b) = cb_state b" "cb_config (cb_pruned r b) = cb_config b"
  "cb_history (cb_pruned r b) = cb_history b" "cb_cooldown_until (cb_pruned r b) = cb_cooldown_until b"
  "cb_half_open_calls (cb_pruned r b) = cb_half_open_calls b"
  "cb_half_open_successes (cb_pruned r b) = cb_half_open_successes b"
  "cb_opened_at (cb_pruned r b) = cb_opened_at b"
  by (simp_all add: cb_pruned_def)

lemma transition_record_fields [simp]:
  "cr_state (transition_record_of tx r previous reason b) = cb_state b"
  "cr_previous_state (transition_record_of tx r previous reason b) = previous"
  "cr_transition_reason (transition_record_of tx r previous reason b) = reason"
  by (simp_all add: transition_record_of_def)

lemma cb_transition_to_cases:
  "cb_transition_to tx r s reason b =
     (if s = cb_state b then Inr (transition_record_of tx r (cb_state b) reason b, cb_pruned r b)
      else if circuit_allowed (cb_state b) s
      then let b' = enter_state r s b; rec = transition_record_of tx r (cb_state b) reason b'
           in Inr (rec, (cb_pruned r b')\<lparr>cb_history := cb_history b @ [rec]\<rparr>)
      else Inl (ValueError (''Illegal circuit transition: '' @ circuit_state_value (cb_state b) @ '' -> '' @
             circuit_state_value s)))"
  by (simp add: cb_transition_to_def circuit_allowed_def Let_def)

text \<open>The guarded transition as a machine: a request is the state asked for.\<close>

definition circuit_request ::
  "circuit_texts \<Rightarrow> readings \<Rightarrow> string \<Rightarrow> circuit_breaker \<Rightarrow> circuit_state \<Rightarrow> circuit_breaker option" where
  "circuit_request tx r reason b s =
     (case cb_transition_to tx r s reason b of Inl _ \<Rightarrow> None | Inr (_, b') \<Rightarrow> Some b')"

interpretation circuit: guarded_machine "circuit_request tx r reason" cb_state circuit_allowed "\<lambda>_. True"
  for tx r reason
  by unfold_locales
    (auto simp: circuit_request_def cb_transition_to_cases Let_def split: if_splits sum.splits)

section \<open>Operations as requests\<close>

datatype cb_op =
    Op_success readings
  | Op_failure readings failure_signal
  | Op_force_open readings string
  | Op_force_close readings string
  | Op_disable readings string
  | Op_enable readings string
  | Op_half_open readings string
  | Op_snapshot readings

text \<open>The breaker after an operation; one that raises leaves it as it was.\<close>

definition after :: "circuit_breaker \<Rightarrow> pyexn + 'a \<times> circuit_breaker \<Rightarrow> circuit_breaker" where
  "after b m = (case m of Inl _ \<Rightarrow> b | Inr (_, b') \<Rightarrow> b')"

fun cb_step :: "circuit_texts \<Rightarrow> circuit_breaker \<Rightarrow> cb_op \<Rightarrow> circuit_breaker" where
  "cb_step tx b (Op_success r) = after b (record_success tx r b)"
| "cb_step tx b (Op_failure r sig) = after b (record_failure tx r sig b)"
| "cb_step tx b (Op_force_open r reason) = after b (force_open tx r reason b)"
| "cb_step tx b (Op_force_close r reason) = after b (force_close tx r reason b)"
| "cb_step tx b (Op_disable r reason) = after b (disable_breaker tx r reason b)"
| "cb_step tx b (Op_enable r reason) = after b (enable_breaker tx r reason b)"
| "cb_step tx b (Op_half_open r reason) = after b (half_open_breaker tx r reason b)"
| "cb_step tx b (Op_snapshot r) = snd (cb_snapshot tx r b)"

definition cb_run :: "circuit_texts \<Rightarrow> circuit_breaker \<Rightarrow> cb_op list \<Rightarrow> circuit_breaker" where
  "cb_run tx b ops = foldl (cb_step tx) b ops"

lemma cb_run_Nil [simp]: "cb_run tx b [] = b"
  by (simp add: cb_run_def)

lemma cb_run_Cons [simp]: "cb_run tx b (x # xs) = cb_run tx (cb_step tx b x) xs"
  by (simp add: cb_run_def)

text \<open>What an operation may do to state, configuration and history.\<close>

definition moved :: "circuit_breaker \<Rightarrow> circuit_breaker \<Rightarrow> bool" where
  "moved b b' \<longleftrightarrow> cb_config b' = cb_config b \<and>
     (cb_state b' = cb_state b \<and> cb_history b' = cb_history b \<or>
      circuit_allowed (cb_state b) (cb_state b') \<and>
      (\<exists>rec. cb_history b' = cb_history b @ [rec] \<and> cr_previous_state rec = cb_state b \<and>
         cr_state rec = cb_state b'))"

lemma moved_same: "cb_state b' = cb_state b \<Longrightarrow> cb_history b' = cb_history b \<Longrightarrow> cb_config b' = cb_config b \<Longrightarrow> moved b b'"
  by (simp add: moved_def)

lemma moved_from: "cb_state c = cb_state b \<Longrightarrow> cb_history c = cb_history b \<Longrightarrow> cb_config c = cb_config b \<Longrightarrow>
    moved c b' \<Longrightarrow> moved b b'"
  by (simp add: moved_def)

lemma moved_transition: "moved b (after b (cb_transition_to tx r s reason b))"
  by (simp add: after_def cb_transition_to_cases Let_def moved_def)

lemma moved_refl: "moved b b"
  by (simp add: moved_def)

lemma after_Inl [simp]: "after b (Inl e) = b"
  by (simp add: after_def)

lemma after_maybe: "after b (maybe_record m) = after b m"
  by (cases m) (auto simp: after_def maybe_record_def)

text \<open>The evaluation after an event: it never raises, and it says where it goes.\<close>

definition trips :: "circuit_config \<Rightarrow> window_event list \<Rightarrow> bool" where
  "trips cfg w \<longleftrightarrow>
     win_total w \<ge> cc_min_sample_count cfg \<and>
     (win_consecutive_failures w \<ge> cc_consecutive_failure_threshold cfg \<or>
      win_failure_rate w \<ge> cc_failure_rate_threshold cfg \<or>
      win_timeout_rate w \<ge> cc_timeout_rate_threshold cfg \<or>
      win_rate_limits w \<ge> cc_rate_limit_threshold cfg)"

definition last_failed :: "circuit_breaker \<Rightarrow> bool" where
  "last_failed b \<longleftrightarrow> cb_events b \<noteq> [] \<and> \<not> ev_ok (last (cb_events b))"

definition probe_successes :: "circuit_breaker \<Rightarrow> int" where
  "probe_successes b = (if last_failed b then 0 else cb_half_open_successes b + 1)"

definition evaluated_state :: "readings \<Rightarrow> circuit_breaker \<Rightarrow> circuit_state" where
  "evaluated_state r b =
     (case cb_state b of
        CS_CLOSED \<Rightarrow> if trips (cb_config b) (cb_window r b) then CS_OPEN else CS_CLOSED
      | CS_OPEN \<Rightarrow>
          if (case cb_cooldown_until b of None \<Rightarrow> False | Some u \<Rightarrow> u \<le> rd_now r) then CS_HALF_OPEN else CS_OPEN
      | CS_HALF_OPEN \<Rightarrow>
          if cc_half_open_success_threshold (cb_config b) \<le> probe_successes b then CS_CLOSED
          else if win_consecutive_failures (cb_window r b) \<ge> 1 then CS_OPEN else CS_HALF_OPEN
      | s \<Rightarrow> s)"

lemma transition_ok:
  assumes "circuit_allowed (cb_state c) s" and "s \<noteq> cb_state c"
  shows "\<exists>rec. maybe_record (cb_transition_to tx r s reason c) =
      Inr (Some rec, (cb_pruned r (enter_state r s c))\<lparr>cb_history := cb_history c @ [rec]\<rparr>) \<and>
    cr_previous_state rec = cb_state c \<and> cr_state rec = s"
  using assms by (simp add: cb_transition_to_cases maybe_record_def Let_def)

lemma evaluate_moves_to:
  assumes "circuit_allowed (cb_state b) s" and "s \<noteq> cb_state b"
    and "cb_state c = cb_state b" "cb_history c = cb_history b" "cb_config c = cb_config b"
    and "m = maybe_record (cb_transition_to tx r s reason c)"
  shows "\<exists>x b'. m = Inr (x, b') \<and> moved b b' \<and> cb_state b' = s"
proof -
  let ?c = "\<lambda>rec. (cb_pruned r (enter_state r s c))\<lparr>cb_history := cb_history c @ [rec]\<rparr>"
  obtain rec where rec: "maybe_record (cb_transition_to tx r s reason c) = Inr (Some rec, ?c rec)"
    "cr_previous_state rec = cb_state c" "cr_state rec = s"
    using transition_ok [of c s tx r reason] assms by auto
  show ?thesis
    unfolding assms(6) rec(1)
    by (intro exI [of _ "Some rec"] exI [of _ "?c rec"]) (use assms(1,3-5) rec(2,3) in \<open>simp add: moved_def\<close>)
qed

definition probed :: "circuit_breaker \<Rightarrow> circuit_breaker" where
  "probed b = b\<lparr>cb_half_open_calls := cb_half_open_calls b + 1, cb_half_open_successes := probe_successes b\<rparr>"

lemma probed_fields [simp]:
  "cb_state (probed b) = cb_state b" "cb_history (probed b) = cb_history b" "cb_config (probed b) = cb_config b"
  by (simp_all add: probed_def)

lemma evaluate_half_open:
  assumes "cb_state b = CS_HALF_OPEN"
  shows "cb_evaluate tx r b =
      (if cc_half_open_success_threshold (cb_config b) \<le> probe_successes b
       then maybe_record (cb_transition_to tx r CS_CLOSED
         (''half_open_successes='' @ show_int (probe_successes b) @ '' >= '' @
          show_int (cc_half_open_success_threshold (cb_config b))) (probed b))
       else if win_consecutive_failures (cb_window r b) \<ge> 1
       then maybe_record (cb_transition_to tx r CS_OPEN ''half_open failure'' (probed b))
       else Inr (None, cb_pruned r (probed b)))"
  using assms by (simp add: cb_evaluate_def Let_def probed_def probe_successes_def last_failed_def)

lemma evaluate_ok:
  "\<exists>x b'. cb_evaluate tx r b = Inr (x, b') \<and> moved b b' \<and> cb_state b' = evaluated_state r b"
proof (cases "cb_state b")
  case CS_CLOSED
  have w: "cb_window r (cb_pruned r b) = cb_window r b"
    by (simp add: cb_window_def cb_pruned_def win_prune_def)
  show ?thesis
  proof (cases "trips (cb_config b) (cb_window r b)")
    case True
    then obtain reason where "cb_evaluate tx r b = maybe_record (cb_transition_to tx r CS_OPEN reason (cb_pruned r b))"
      using CS_CLOSED by (simp add: cb_evaluate_def trips_def Let_def) (metis (full_types))
    from evaluate_moves_to [OF _ _ _ _ _ this, of b] CS_CLOSED True show ?thesis
      by (simp add: circuit_allowed_simps evaluated_state_def)
  next
    case False
    with CS_CLOSED show ?thesis
      by (auto simp: cb_evaluate_def trips_def Let_def evaluated_state_def moved_def)
  qed
next
  case CS_OPEN
  show ?thesis
  proof (cases "case cb_cooldown_until b of None \<Rightarrow> False | Some u \<Rightarrow> u \<le> rd_now r")
    case True
    with CS_OPEN have "cb_evaluate tx r b = maybe_record (cb_transition_to tx r CS_HALF_OPEN ''cooldown expired'' b)"
      by (auto simp: cb_evaluate_def Let_def split: option.splits)
    from evaluate_moves_to [OF _ _ _ _ _ this, of b] CS_OPEN True show ?thesis
      by (simp add: circuit_allowed_simps evaluated_state_def)
  next
    case False
    with CS_OPEN show ?thesis
      by (auto simp: cb_evaluate_def Let_def evaluated_state_def moved_def split: option.splits)
  qed
next
  case CS_HALF_OPEN
  let ?c = "probed b"
  note ev = evaluate_half_open [OF CS_HALF_OPEN, of tx r]
  show ?thesis
  proof (cases "cc_half_open_success_threshold (cb_config b) \<le> probe_successes b")
    case True
    with ev have "cb_evaluate tx r b = maybe_record (cb_transition_to tx r CS_CLOSED
         (''half_open_successes='' @ show_int (probe_successes b) @ '' >= '' @
          show_int (cc_half_open_success_threshold (cb_config b))) ?c)" by simp
    from evaluate_moves_to [OF _ _ _ _ _ this, of b] CS_HALF_OPEN True show ?thesis
      by (simp add: circuit_allowed_simps evaluated_state_def)
  next
    case low: False
    show ?thesis
    proof (cases "win_consecutive_failures (cb_window r b) \<ge> 1")
      case True
      with ev low have "cb_evaluate tx r b = maybe_record (cb_transition_to tx r CS_OPEN ''half_open failure'' ?c)"
        by simp
      from evaluate_moves_to [OF _ _ _ _ _ this, of b] CS_HALF_OPEN True low show ?thesis
        by (simp add: circuit_allowed_simps evaluated_state_def)
    next
      case False
      with ev low CS_HALF_OPEN show ?thesis by (simp add: evaluated_state_def moved_def)
    qed
  qed
qed (simp_all add: cb_evaluate_def Let_def evaluated_state_def moved_def)

lemma cb_step_moved: "moved b (cb_step tx b x)"
proof (cases x)
  case (Op_success r)
  show ?thesis
  proof (cases "cb_state b = CS_OPEN \<and> (case cb_cooldown_until b of None \<Rightarrow> False | Some u \<Rightarrow> rd_now r \<ge> u)")
    case True
    then show ?thesis
      using moved_transition by (simp add: Op_success record_success_def after_maybe)
  next
    case False
    let ?c = "b\<lparr>cb_events := win_record (cc_sliding_window_size (cb_config b)) (rd_mono r) True None (cb_events b)\<rparr>"
    have "record_success tx r b = cb_evaluate tx r ?c"
      unfolding record_success_def by (rule if_not_P) (rule False)
    moreover from evaluate_ok [of tx r ?c] obtain y b' where "cb_evaluate tx r ?c = Inr (y, b')" "moved ?c b'"
      by blast
    ultimately show ?thesis
      by (simp add: Op_success after_def moved_def)
  qed
next
  case (Op_failure r sig)
  let ?c = "if fs_circuit_relevant sig
        then b\<lparr>cb_events := win_record (cc_sliding_window_size (cb_config b)) (rd_mono r) False
               (Some (fs_category sig)) (cb_events b)\<rparr>
        else b"
  from evaluate_ok [of tx r ?c] obtain y b' where "cb_evaluate tx r ?c = Inr (y, b')" "moved ?c b'" by blast
  then show ?thesis
    by (simp add: Op_failure record_failure_def after_def moved_def split: if_splits)
next
  case (Op_snapshot r)
  then show ?thesis by (simp add: cb_snapshot_def Let_def moved_def)
qed (simp_all add: force_open_def force_close_def disable_breaker_def enable_breaker_def
    half_open_breaker_def moved_transition moved_refl)

section \<open>Properties\<close>

text \<open>Consecutive records of a history fit together and are legal transitions.\<close>

fun records_chain :: "circuit_state \<Rightarrow> circuit_record list \<Rightarrow> circuit_state \<Rightarrow> bool" where
  "records_chain a [] b \<longleftrightarrow> a = b"
| "records_chain a (rec # recs) b \<longleftrightarrow>
     cr_previous_state rec = a \<and> circuit_allowed a (cr_state rec) \<and> records_chain (cr_state rec) recs b"

lemma records_chain_snoc:
  "records_chain a (recs @ [rec]) b \<longleftrightarrow>
     records_chain a recs (cr_previous_state rec) \<and> circuit_allowed (cr_previous_state rec) (cr_state rec) \<and>
     b = cr_state rec"
  by (induction recs arbitrary: a) auto

text \<open>
  The audit trail of a breaker. Whatever sequence of operations a new breaker goes through,
  legal or not, its history is a chain of transitions of the documented table that starts at
  \<open>CLOSED\<close> and ends in the breaker's state; recording events never raises.
\<close>
lemma circuit_history_chained:
  "records_chain CS_CLOSED (cb_history (cb_run tx (new_breaker key cfg) ops))
     (cb_state (cb_run tx (new_breaker key cfg) ops)) \<and>
   (\<exists>x b'. record_success tx r (cb_run tx (new_breaker key cfg) ops) = Inr (x, b')) \<and>
   (\<exists>x b'. record_failure tx r sig (cb_run tx (new_breaker key cfg) ops) = Inr (x, b'))"
proof -
  have step: "records_chain CS_CLOSED (cb_history b') (cb_state b')"
    if "records_chain CS_CLOSED (cb_history b) (cb_state b)" "moved b b'" for b b'
    using that by (auto simp: moved_def records_chain_snoc)
  have "records_chain CS_CLOSED (cb_history (cb_run tx b ops)) (cb_state (cb_run tx b ops))"
    if "records_chain CS_CLOSED (cb_history b) (cb_state b)" for b
    using that by (induction ops arbitrary: b) (use step cb_step_moved in auto)
  then have "records_chain CS_CLOSED (cb_history (cb_run tx (new_breaker key cfg) ops))
      (cb_state (cb_run tx (new_breaker key cfg) ops))"
    by (simp add: new_breaker_def)
  moreover have "\<exists>x b'. record_failure tx r sig b = Inr (x, b')" for b
    using evaluate_ok unfolding record_failure_def by blast
  moreover have "\<exists>x b'. record_success tx r b = Inr (x, b')" for b
  proof (cases "cb_state b = CS_OPEN \<and> (case cb_cooldown_until b of None \<Rightarrow> False | Some u \<Rightarrow> rd_now r \<ge> u)")
    case True
    then show ?thesis
      using transition_ok [of b CS_HALF_OPEN tx r "''cooldown expired''"]
      by (auto simp: record_success_def circuit_allowed_simps)
  next
    case False
    then show ?thesis using evaluate_ok unfolding record_success_def if_not_P [OF False] by blast
  qed
  ultimately show ?thesis by blast
qed

lemma record_failure_result:
  "\<exists>x b'. record_failure tx r sig b = Inr (x, b') \<and> moved b b' \<and>
     cb_state b' = evaluated_state r
       (if fs_circuit_relevant sig
        then b\<lparr>cb_events := win_record (cc_sliding_window_size (cb_config b)) (rd_mono r) False
               (Some (fs_category sig)) (cb_events b)\<rparr>
        else b)"
proof -
  let ?c = "if fs_circuit_relevant sig
        then b\<lparr>cb_events := win_record (cc_sliding_window_size (cb_config b)) (rd_mono r) False
               (Some (fs_category sig)) (cb_events b)\<rparr>
        else b"
  from evaluate_ok [of tx r ?c] obtain x b' where "cb_evaluate tx r ?c = Inr (x, b')" "moved ?c b'"
    "cb_state b' = evaluated_state r ?c" by blast
  then show ?thesis by (simp add: record_failure_def moved_def split: if_splits)
qed

text \<open>
  A forced-open breaker stays open. Until it is explicitly closed or disabled, no recorded
  success or failure, no elapsed cooldown, no snapshot and no attempt to half-open, enable or
  force it open again changes its state, and it allows no traffic.
\<close>
lemma forced_open_sticks:
  assumes "cb_state b = CS_FORCED_OPEN"
    and "\<forall>x \<in> set ops. (\<forall>r reason. x \<noteq> Op_force_close r reason) \<and> (\<forall>r reason. x \<noteq> Op_disable r reason)"
  shows "cb_state (cb_run tx b ops) = CS_FORCED_OPEN \<and> \<not> allows_traffic (cb_run tx b ops) \<and>
    cb_history (cb_run tx b ops) = cb_history b"
proof -
  have step: "cb_state (cb_step tx b x) = CS_FORCED_OPEN \<and> cb_history (cb_step tx b x) = cb_history b"
    if b: "cb_state b = CS_FORCED_OPEN" and x: "\<forall>r reason. x \<noteq> Op_force_close r reason"
      "\<forall>r reason. x \<noteq> Op_disable r reason" for b x
    using b x by (cases x) (simp_all add: record_success_def record_failure_def cb_evaluate_def
        force_open_def enable_breaker_def half_open_breaker_def cb_transition_to_cases cb_snapshot_def
        after_def Let_def)
  have "cb_state (cb_run tx b ops) = CS_FORCED_OPEN \<and> cb_history (cb_run tx b ops) = cb_history b"
    using assms
  proof (induction ops arbitrary: b)
    case (Cons x ops)
    then have "cb_state (cb_step tx b x) = CS_FORCED_OPEN" "cb_history (cb_step tx b x) = cb_history b"
      using step [of b x] by simp_all
    with Cons show ?case by simp
  qed simp
  then show ?thesis by (simp add: allows_traffic_def)
qed

definition sample_texts :: circuit_texts where
  "sample_texts = \<lparr>ct_digest = (\<lambda>_. ''d''), ct_2f = (\<lambda>_. ''x''), ct_float = (\<lambda>_. ''y'')\<rparr>"

definition at_time :: "int \<Rightarrow> readings" where
  "at_time n = \<lparr>rd_mono = of_int n, rd_now = n * 1000000\<rparr>"

lemma forced_open_sticks_witness:
  "cb_state (cb_run sample_texts ((new_breaker ''p:*'' None)\<lparr>cb_state := CS_FORCED_OPEN\<rparr>)
     [Op_success (at_time 100), Op_half_open (at_time 200) []]) = CS_FORCED_OPEN"
  using forced_open_sticks [of "(new_breaker ''p:*'' None)\<lparr>cb_state := CS_FORCED_OPEN\<rparr>"
      "[Op_success (at_time 100), Op_half_open (at_time 200) []]" sample_texts]
  by simp

subsection \<open>Recovery\<close>

text \<open>
  With the default limits (one call, two successes) a half-open breaker that has counted one successful
  probe admits no further call, although it needs one more success.
\<close>
lemma one_probe_is_not_enough:
  assumes "cb_state b = CS_HALF_OPEN" "cb_half_open_calls b = 0" "cb_half_open_successes b = 0"
    and "cc_half_open_call_limit (cb_config b) = 1" "1 < cc_half_open_success_threshold (cb_config b)"
    and "cb_evaluate tx r b = Inr (None, b')"
  shows "cb_state b' = CS_HALF_OPEN \<and> \<not> allows_traffic b'"
proof -
  have low: "\<not> cc_half_open_success_threshold (cb_config b) \<le> probe_successes b"
    using assms(3,5) by (simp add: probe_successes_def)
  from evaluate_ok [of tx r b] assms(6) have b': "moved b b'" "cb_state b' = evaluated_state r b" by auto
  show ?thesis
  proof (cases "win_consecutive_failures (cb_window r b) \<ge> 1")
    case True
    with assms(6) low obtain reason where "maybe_record (cb_transition_to tx r CS_OPEN reason (probed b)) = Inr (None, b')"
      unfolding evaluate_half_open [OF assms(1)] by (auto split: if_splits)
    then show ?thesis using transition_ok [of "probed b" CS_OPEN tx r reason] assms(1) by (auto simp: circuit_allowed_simps)
  next
    case False
    with assms(6) low have "b' = cb_pruned r (probed b)"
      unfolding evaluate_half_open [OF assms(1)] by simp
    with assms show ?thesis by (simp add: probed_def allows_traffic_def)
  qed
qed

text \<open>
  Failures that do not count still close the breaker. In a half-open breaker whose window is
  empty, a failure that is not circuit relevant (a user error, a cancellation) is counted as a
  successful probe, and the last one needed closes the breaker.
\<close>
lemma irrelevant_failure_counts_as_probe:
  assumes "cb_state b = CS_HALF_OPEN" and "cb_events b = []" and "\<not> fs_circuit_relevant sig"
    and "cb_half_open_successes b + 1 = cc_half_open_success_threshold (cb_config b)"
  shows "\<exists>rec b'. record_failure tx r sig b = Inr (Some rec, b') \<and> cb_state b' = CS_CLOSED \<and> allows_traffic b'"
proof -
  have "cc_half_open_success_threshold (cb_config b) \<le> probe_successes b"
    using assms(2,4) by (simp add: probe_successes_def last_failed_def)
  then obtain reason where "record_failure tx r sig b = maybe_record (cb_transition_to tx r CS_CLOSED reason (probed b))"
    using assms(3) by (simp add: record_failure_def evaluate_half_open [OF assms(1)])
  moreover obtain rec where "maybe_record (cb_transition_to tx r CS_CLOSED reason (probed b)) =
      Inr (Some rec, (cb_pruned r (enter_state r CS_CLOSED (probed b)))\<lparr>cb_history := cb_history (probed b) @ [rec]\<rparr>)"
    using transition_ok [of "probed b" CS_CLOSED tx r reason] assms(1) by (auto simp: circuit_allowed_simps)
  ultimately show ?thesis by (simp add: allows_traffic_def)
qed

lemma irrelevant_failure_counts_as_probe_witness:
  "\<exists>rec b'. record_failure sample_texts (at_time 5) ((sample_signal FC_USER_INPUT)\<lparr>fs_circuit_relevant := False\<rparr>)
     ((new_breaker ''p:*'' None)\<lparr>cb_state := CS_HALF_OPEN, cb_half_open_successes := 1\<rparr>) = Inr (Some rec, b') \<and>
     cb_state b' = CS_CLOSED"
  using irrelevant_failure_counts_as_probe
    [of "(new_breaker ''p:*'' None)\<lparr>cb_state := CS_HALF_OPEN, cb_half_open_successes := 1\<rparr>"
      "(sample_signal FC_USER_INPUT)\<lparr>fs_circuit_relevant := False\<rparr>" sample_texts "at_time 5"]
  by (auto simp: new_breaker_def DEFAULT_CIRCUIT_CONFIG_def)

subsection \<open>Opening\<close>

definition fail_run :: "circuit_texts \<Rightarrow> circuit_breaker \<Rightarrow> (readings \<times> failure_signal) list \<Rightarrow> circuit_breaker" where
  "fail_run tx b xs = foldl (\<lambda>b (r, sig). cb_step tx b (Op_failure r sig)) b xs"

definition failure_events :: "(readings \<times> failure_signal) list \<Rightarrow> window_event list" where
  "failure_events xs = map (\<lambda>(r, sig). (rd_mono r, False, Some (fs_category sig))) xs"

text \<open>Relevant failures, each within the window of all later ones.\<close>

definition burst :: "circuit_config \<Rightarrow> (readings \<times> failure_signal) list \<Rightarrow> bool" where
  "burst cfg xs \<longleftrightarrow>
     list_all (\<lambda>(r, sig). fs_circuit_relevant sig) xs \<and>
     sorted_wrt (\<lambda>x y. rd_mono (fst y) - of_int (cc_sliding_window_size cfg) \<le> rd_mono (fst x)) xs \<and>
     0 \<le> cc_sliding_window_size cfg"

lemma win_prune_all:
  assumes "\<And>e. e \<in> set es \<Longrightarrow> t - of_int sz \<le> fst e"
  shows "win_prune sz t es = es"
proof (cases es)
  case (Cons e l)
  then have "t - of_int sz \<le> fst e" using assms by simp
  with Cons show ?thesis by (simp add: win_prune_def not_less)
qed (simp add: win_prune_def)

lemma burst_window:
  assumes "burst cfg (xs @ [(r, sig)])"
  shows "win_record (cc_sliding_window_size cfg) (rd_mono r) False (Some (fs_category sig)) (failure_events xs)
      = failure_events (xs @ [(r, sig)])"
    and "win_prune (cc_sliding_window_size cfg) (rd_mono r) (failure_events (xs @ [(r, sig)]))
      = failure_events (xs @ [(r, sig)])"
proof -
  have "rd_mono r - of_int (cc_sliding_window_size cfg) \<le> fst e" if "e \<in> set (failure_events (xs @ [(r, sig)]))" for e
    using assms that by (auto simp: burst_def failure_events_def sorted_wrt_append)
  then show keep: "win_prune (cc_sliding_window_size cfg) (rd_mono r) (failure_events (xs @ [(r, sig)]))
      = failure_events (xs @ [(r, sig)])"
    by (rule win_prune_all)
  then show "win_record (cc_sliding_window_size cfg) (rd_mono r) False (Some (fs_category sig)) (failure_events xs)
      = failure_events (xs @ [(r, sig)])"
    by (simp add: win_record_def failure_events_def)
qed

lemma fail_run_below:
  "burst cfg xs \<Longrightarrow> int (length xs) < cc_min_sample_count cfg \<Longrightarrow>
     cb_state (fail_run tx (new_breaker key (Some cfg)) xs) = CS_CLOSED \<and>
     cb_events (fail_run tx (new_breaker key (Some cfg)) xs) = failure_events xs \<and>
     cb_config (fail_run tx (new_breaker key (Some cfg)) xs) = cfg"
proof (induction xs rule: rev_induct)
  case Nil
  then show ?case by (simp add: fail_run_def new_breaker_def failure_events_def)
next
  case (snoc x xs)
  obtain r sig where x: "x = (r, sig)" by (cases x)
  let ?b = "fail_run tx (new_breaker key (Some cfg)) xs"
  have "burst cfg xs" using snoc.prems(1) by (auto simp: burst_def sorted_wrt_append)
  with snoc have b: "cb_state ?b = CS_CLOSED" "cb_events ?b = failure_events xs" "cb_config ?b = cfg" by simp_all
  note w = burst_window [OF snoc.prems(1) [unfolded x]]
  have rel: "fs_circuit_relevant sig" using snoc.prems(1) by (simp add: x burst_def)
  let ?c = "?b\<lparr>cb_events := failure_events (xs @ [(r, sig)])\<rparr>"
  have "fail_run tx (new_breaker key (Some cfg)) (xs @ [x]) = after ?b (cb_evaluate tx r ?c)"
    using b w rel by (simp add: fail_run_def x record_failure_def)
  moreover have "cb_evaluate tx r ?c = Inr (None, cb_pruned r ?c)"
    using b w snoc.prems(2) by (simp add: cb_evaluate_def Let_def cb_window_def win_total_def failure_events_def)
  ultimately show ?case
    using b w by (simp add: after_def cb_pruned_def cb_window_def x)
qed

text \<open>
  A burst of failures opens the breaker, at the configured sample count and not before. C25: if the
  threshold of the failure rate is at most 1, a new breaker that records nothing but relevant failures,
  all within one window, stays closed as long as they are fewer than the sample count, and the failure
  that completes the sample opens it: no traffic is allowed and the cooldown ends one configured
  period later.
\<close>
theorem breaker_opens_exactly:
  assumes "burst cfg (xs @ [(r, sig)])" and "int (length xs) + 1 = cc_min_sample_count cfg"
    and "cc_failure_rate_threshold cfg \<le> 1"
  shows "cb_state (fail_run tx (new_breaker key (Some cfg)) (take k xs)) = CS_CLOSED \<and>
    cb_state (fail_run tx (new_breaker key (Some cfg)) (xs @ [(r, sig)])) = CS_OPEN \<and>
    \<not> allows_traffic (fail_run tx (new_breaker key (Some cfg)) (xs @ [(r, sig)])) \<and>
    cb_cooldown_until (fail_run tx (new_breaker key (Some cfg)) (xs @ [(r, sig)])) =
      Some (rd_now r + timedelta_us (cc_cooldown_seconds cfg))"
proof -
  let ?b = "fail_run tx (new_breaker key (Some cfg)) xs"
  have burst: "burst cfg xs" using assms(1) by (auto simp: burst_def sorted_wrt_append)
  moreover have "burst cfg (take k xs)"
    using burst by (auto simp: burst_def sorted_wrt_take list_all_iff dest: in_set_takeD)
  ultimately have closed: "cb_state (fail_run tx (new_breaker key (Some cfg)) (take k xs)) = CS_CLOSED"
    and b: "cb_state ?b = CS_CLOSED" "cb_events ?b = failure_events xs" "cb_config ?b = cfg"
    using fail_run_below [of cfg "take k xs"] fail_run_below [of cfg xs] assms(2) by simp_all
  note w = burst_window [OF assms(1)]
  have rel: "fs_circuit_relevant sig" using assms(1) by (simp add: burst_def)
  let ?es = "failure_events (xs @ [(r, sig)])"
  let ?c = "?b\<lparr>cb_events := ?es\<rparr>"
  have run: "fail_run tx (new_breaker key (Some cfg)) (xs @ [(r, sig)]) = after ?b (cb_evaluate tx r ?c)"
    using b w rel by (simp add: fail_run_def record_failure_def)
  have fails: "\<forall>e \<in> set ?es. \<not> ev_ok e" by (auto simp: failure_events_def ev_ok_def)
  have "win_failure_rate ?es = 1"
    using fails by (simp add: win_failure_rate_def win_failures_def win_total_def failure_events_def)
  moreover have "win_total ?es = cc_min_sample_count cfg"
    using assms(2) by (simp add: win_total_def failure_events_def)
  ultimately have "\<exists>reason. cb_evaluate tx r ?c = maybe_record (cb_transition_to tx r CS_OPEN reason (cb_pruned r ?c))"
    using b w assms(3) by (simp add: cb_evaluate_def Let_def cb_window_def) (metis (full_types))
  then obtain reason where "cb_evaluate tx r ?c = maybe_record (cb_transition_to tx r CS_OPEN reason (cb_pruned r ?c))"
    by blast
  moreover obtain rec where "maybe_record (cb_transition_to tx r CS_OPEN reason (cb_pruned r ?c)) =
      Inr (Some rec, (cb_pruned r (enter_state r CS_OPEN (cb_pruned r ?c)))\<lparr>cb_history := cb_history (cb_pruned r ?c) @ [rec]\<rparr>)"
    using transition_ok [of "cb_pruned r ?c" CS_OPEN tx r reason] b(1) by (auto simp: circuit_allowed_simps)
  ultimately show ?thesis
    using closed b run by (simp add: after_def allows_traffic_def) (simp add: enter_state_def Let_def)
qed

theorem breaker_opens_exactly_witness:
  "cb_state (fail_run sample_texts (new_breaker ''p:*'' (Some (DEFAULT_CIRCUIT_CONFIG\<lparr>cc_min_sample_count := 2\<rparr>)))
     [(at_time 1, sample_signal FC_TIMEOUT), (at_time 2, sample_signal FC_CONNECTION)]) = CS_OPEN"
  using breaker_opens_exactly [of "DEFAULT_CIRCUIT_CONFIG\<lparr>cc_min_sample_count := 2\<rparr>"
      "[(at_time 1, sample_signal FC_TIMEOUT)]" "at_time 2" "sample_signal FC_CONNECTION" sample_texts "''p:*''"]
  by (simp add: burst_def DEFAULT_CIRCUIT_CONFIG_def sample_signal_def at_time_def)

end
