(* ===== verification/Reliability_Retry.thy ===== *)
theory Reliability_Retry
  imports Reliability_Models
begin

text \<open>
  Classification of failures (\<open>reliability/classifier.py\<close>) and bounded retries
  (\<open>reliability/retry.py\<close>). The digest of \<open>snapshot_hash\<close>, the clock, the random generator and the function that is
  retried are arguments; the last is given by its outcome on the \<open>n\<close>-th call. Sleeping between attempts is
  left out. An error code of a result that is neither a string nor missing is outside the model.
\<close>

section \<open>Classification\<close>

definition any_in :: "string list \<Rightarrow> string \<Rightarrow> bool" where
  "any_in markers s \<longleftrightarrow> (\<exists>m \<in> set markers. py_contains m s)"

text \<open>Category, provider and model attribution, as the stages of the classifier change them.\<close>

type_synonym attribution = "failure_category \<times> bool \<times> bool"

definition classify_status :: "int option \<Rightarrow> attribution \<Rightarrow> attribution" where
  "classify_status status a =
     (case (status, a) of
        (None, _) \<Rightarrow> a
      | (Some n, (c, p, m)) \<Rightarrow>
          if n = 401 then (FC_AUTHENTICATION, True, m)
          else if n = 402 then (FC_BUDGET_EXCEEDED, True, m)
          else if n = 403 then (FC_AUTHORIZATION, True, m)
          else if n = 429 then (FC_RATE_LIMIT, True, m)
          else if n = 408 then (FC_TIMEOUT, True, m)
          else if n \<in> {500, 502, 503, 504} then (FC_SERVER_ERROR, True, m)
          else if n = 400 then (FC_USER_INPUT, False, m)
          else if n = 404 then (FC_CAPABILITY_UNSUPPORTED, p, True)
          else if n = 422 then (FC_OUTPUT_VALIDATION, p, True)
          else a)"

definition classify_code :: "string \<Rightarrow> attribution \<Rightarrow> attribution" where
  "classify_code code a =
     (if code = [] then a
      else let l = py_lower code; (c, p, m) = a in
        if any_in [''balance'', ''billing'', ''budget'', ''credit'', ''payment''] l then (FC_BUDGET_EXCEEDED, p, m)
        else if any_in [''auth'', ''unauthorized'', ''key''] l then (FC_AUTHENTICATION, p, m)
        else if any_in [''rate'', ''quota'', ''limit''] l then (FC_RATE_LIMIT, p, m)
        else if any_in [''timeout''] l then (FC_TIMEOUT, p, m)
        else if any_in [''server'', ''internal''] l then (FC_SERVER_ERROR, p, m)
        else a)"

definition classify_exception :: "string \<Rightarrow> attribution \<Rightarrow> attribution" where
  "classify_exception ex a =
     (if ex = [] then a
      else let l = py_lower ex; (c, p, m) = a in
        if any_in [''timeout''] l then (if c = FC_UNKNOWN then (FC_TIMEOUT, p, m) else a)
        else if any_in [''connection'', ''dns'', ''socket''] l
        then (if c = FC_UNKNOWN then (FC_CONNECTION, p, m) else a)
        else if any_in [''value'', ''type'', ''key''] l
        then (if c = FC_UNKNOWN then (FC_USER_INPUT, False, m) else a)
        else a)"

record failure_facts =
  ff_http_status :: "int option"
  ff_provider_error_code :: string
  ff_exception_type :: string
  ff_timeout_phase :: string
  ff_response_validation :: "bool option"
  ff_operation_type :: string
  ff_retry_header :: string
  ff_provider_id :: string
  ff_model_id :: string
  ff_capability_id :: string
  ff_raw_error :: string

definition attribute_failure :: "failure_facts \<Rightarrow> attribution" where
  "attribute_failure f =
     (let a = classify_status (ff_http_status f) (FC_UNKNOWN, True, False);
          a = (if ff_timeout_phase f = [] then a else (FC_TIMEOUT, True, snd (snd a)));
          a = classify_code (ff_provider_error_code f) a;
          a = classify_exception (ff_exception_type f) a;
          a = (if ff_response_validation f = Some False \<and> fst a = FC_UNKNOWN
               then (FC_OUTPUT_VALIDATION, fst (snd a), True) else a)
      in if ff_operation_type f = ''cancellation'' then (FC_CANCELLED, False, snd (snd a)) else a)"

definition failure_evidence :: "failure_facts \<Rightarrow> jobj" where
  "failure_evidence f =
     (case ff_http_status f of None \<Rightarrow> [] | Some n \<Rightarrow> [(''http_status'', JInt n)]) @
     (if ff_timeout_phase f = [] then [] else [(''timeout_phase'', JStr (ff_timeout_phase f))]) @
     (if ff_provider_error_code f = [] then [] else [(''provider_error_code'', JStr (ff_provider_error_code f))]) @
     (if ff_exception_type f = [] then [] else [(''exception_type'', JStr (ff_exception_type f))]) @
     (if ff_response_validation f = Some False then [(''validation_failed'', JBool True)] else []) @
     (if ff_retry_header f = [] then [] else [(''retry_after'', JStr (ff_retry_header f))])"

definition build_explanation :: "failure_category \<Rightarrow> failure_facts \<Rightarrow> string" where
  "build_explanation c f =
     py_join ''; ''
       ([''Classified as '' @ failure_category_value c] @
        (case ff_http_status f of None \<Rightarrow> [] | Some n \<Rightarrow> if n = 0 then [] else [''HTTP '' @ show_int n]) @
        (if ff_provider_error_code f = [] then [] else [''code='' @ ff_provider_error_code f]) @
        (if ff_exception_type f = [] then [] else [''exception='' @ ff_exception_type f]) @
        (if ff_raw_error f = [] then [] else [take 200 (ff_raw_error f)]))"

definition classify_failure :: "(json \<Rightarrow> string) \<Rightarrow> int \<Rightarrow> failure_facts \<Rightarrow> failure_signal" where
  "classify_failure digest now f =
     (let (c, p, m) = attribute_failure f in
      \<lparr>fs_signal_id = snapshot_hash digest
         [(''category'', JStr (failure_category_value c)), (''provider'', JStr (ff_provider_id f)),
          (''model'', JStr (ff_model_id f)), (''status'', j_opt JInt (ff_http_status f)),
          (''error_code'', JStr (ff_provider_error_code f))],
       fs_provider_id = ff_provider_id f, fs_model_id = ff_model_id f,
       fs_capability_id = ff_capability_id f, fs_category = c, fs_provider_attributable = p,
       fs_model_attributable = m, fs_retryable = (c \<notin> set NON_RETRYABLE_CATEGORIES),
       fs_circuit_relevant = (c \<notin> {FC_USER_INPUT, FC_CANCELLED, FC_POLICY_REJECTION}),
       fs_confidence = (if ff_http_status f = None then 3/5 else 9/10),
       fs_explanation = build_explanation c f, fs_evidence = failure_evidence f,
       fs_occurred_at = now, fs_schema_version = schema_1_0\<rparr>)"

section \<open>Retries\<close>

record retry_budget =
  rb_max_attempts :: int
  rb_max_cumulative_delay_ms :: rat
  rb_max_additional_cost :: rat
  rb_max_additional_tokens :: int
  rb_spent_attempts :: int
  rb_spent_delay_ms :: rat
  rb_spent_cost :: rat
  rb_spent_tokens :: int

definition budget_exhausted :: "retry_budget \<Rightarrow> bool" where
  "budget_exhausted b \<longleftrightarrow>
     rb_spent_attempts b \<ge> rb_max_attempts b \<or> rb_spent_delay_ms b \<ge> rb_max_cumulative_delay_ms b \<or>
     (rb_max_additional_cost b > 0 \<and> rb_spent_cost b \<ge> rb_max_additional_cost b) \<or>
     (rb_max_additional_tokens b > 0 \<and> rb_spent_tokens b \<ge> rb_max_additional_tokens b)"

definition policy_budget :: "retry_policy \<Rightarrow> retry_budget" where
  "policy_budget p =
     \<lparr>rb_max_attempts = ry_max_attempts p, rb_max_cumulative_delay_ms = ry_max_cumulative_delay_ms p,
      rb_max_additional_cost = ry_max_additional_cost p, rb_max_additional_tokens = ry_max_additional_tokens p,
      rb_spent_attempts = 0, rb_spent_delay_ms = 0, rb_spent_cost = 0, rb_spent_tokens = 0\<rparr>"

definition should_retry :: "retry_policy \<Rightarrow> failure_signal \<Rightarrow> retry_budget \<Rightarrow> bool \<Rightarrow> bool \<Rightarrow> bool" where
  "should_retry p sig b is_idempotent has_key =
     (if budget_exhausted b then False
      else if fs_category sig \<in> set NON_RETRYABLE_CATEGORIES then False
      else if ry_allowed_categories p \<noteq> [] \<and> fs_category sig \<notin> set (ry_allowed_categories p) then False
      else if \<not> fs_retryable sig then False
      else if \<not> is_idempotent \<and> \<not> has_key
      then fs_category sig \<in> {FC_TIMEOUT, FC_CONNECTION, FC_SERVER_ERROR, FC_RATE_LIMIT}
      else True)"

text \<open>\<open>uniform a b\<close> stands for \<open>self._rng.uniform(a, b)\<close>.\<close>

definition compute_delay :: "(rat \<Rightarrow> rat \<Rightarrow> rat) \<Rightarrow> retry_policy \<Rightarrow> nat \<Rightarrow> rat option \<Rightarrow> rat" where
  "compute_delay uniform p attempt retry_after =
     (case (if ry_respect_retry_after p then retry_after else None) of
        Some s \<Rightarrow> s
      | None \<Rightarrow>
          let base = ry_base_backoff_ms p * ry_backoff_multiplier p ^ (attempt - 1);
              delay = min base (ry_max_backoff_ms p);
              range = delay * ry_jitter_ratio p;
              delay = max 0 (delay + uniform (- range) range)
          in delay / 1000)"

text \<open>The outcome of a call: an exception with its type and text, or a result.\<close>

datatype call_outcome = Raised string string | Returned json

definition no_facts :: "string \<Rightarrow> string \<Rightarrow> string \<Rightarrow> failure_facts" where
  "no_facts provider model capability =
     \<lparr>ff_http_status = None, ff_provider_error_code = [], ff_exception_type = [], ff_timeout_phase = [],
      ff_response_validation = None, ff_operation_type = [], ff_retry_header = [],
      ff_provider_id = provider, ff_model_id = model, ff_capability_id = capability, ff_raw_error = []\<rparr>"

record retry_env =
  re_digest :: "json \<Rightarrow> string"
  re_now :: "nat \<Rightarrow> int"
  re_uniform :: "nat \<Rightarrow> rat \<Rightarrow> rat \<Rightarrow> rat"
  re_call :: "nat \<Rightarrow> call_outcome"
  re_provider_id :: string
  re_model_id :: string
  re_capability_id :: string
  re_is_idempotent :: bool
  re_has_key :: bool

text \<open>The failure of the \<open>n\<close>-th call, or its result.\<close>

definition call_failure :: "retry_env \<Rightarrow> nat \<Rightarrow> pyexn + (failure_signal + json)" where
  "call_failure e n =
     (let facts = no_facts (re_provider_id e) (re_model_id e) (re_capability_id e) in
      case re_call e n of
        Raised ty msg \<Rightarrow>
          Inr (Inl (classify_failure (re_digest e) (re_now e n)
            (facts\<lparr>ff_exception_type := ty, ff_raw_error := msg\<rparr>)))
      | Returned v \<Rightarrow>
          (case v of
             JObj d \<Rightarrow>
               if \<not> py_truthy (dict_get_or d ''ok'' (JBool True))
               then (case dict_get_or d ''error'' (JStr []) of
                       JStr err \<Rightarrow> Inr (Inl (classify_failure (re_digest e) (re_now e n)
                         (facts\<lparr>ff_provider_error_code := err, ff_raw_error := err\<rparr>)))
                     | _ \<Rightarrow> Inl OutsideModel)
               else Inr (Inr v)
           | _ \<Rightarrow> Inr (Inr v)))"

definition make_attempt ::
  "retry_env \<Rightarrow> retry_policy \<Rightarrow> nat \<Rightarrow> rat \<Rightarrow> failure_signal option \<Rightarrow> retry_attempt" where
  "make_attempt e p n delay failure =
     \<lparr>ra_attempt_id = snapshot_hash (re_digest e)
        [(''exec'', JStr (re_provider_id e)), (''attempt'', JInt (int n)),
         (''ts'', JStr (iso_text (re_now e n) @ ''+00:00''))],
      ra_policy_id = ry_policy_id p, ra_execution_id = [], ra_attempt_number = int n,
      ra_delay_ms = delay, ra_success = (failure = None), ra_failure = failure,
      ra_occurred_at = re_now e n, ra_schema_version = schema_1_0\<rparr>"

text \<open>The attempts from number \<open>n\<close> on, at most \<open>left\<close> of them; \<open>result\<close> is the last result so far.\<close>

fun retry_loop ::
  "retry_env \<Rightarrow> retry_policy \<Rightarrow> nat \<Rightarrow> nat \<Rightarrow> retry_budget \<Rightarrow> json \<Rightarrow> retry_attempt list
     \<Rightarrow> pyexn + json \<times> retry_attempt list \<times> retry_budget" where
  "retry_loop e p n 0 b result done' = Inr (result, done', b)"
| "retry_loop e p n (Suc left) b result done' =
     (if budget_exhausted b then Inr (result, done', b)
      else bindE (call_failure e n) (\<lambda>r.
        case r of
          Inr v \<Rightarrow> Inr (v, done' @ [make_attempt e p n 0 None], b)
        | Inl sig \<Rightarrow>
            let delay = compute_delay (re_uniform e n) p n None * 1000;
                done' = done' @ [make_attempt e p n delay (Some sig)];
                b = b\<lparr>rb_spent_attempts := rb_spent_attempts b + 1, rb_spent_delay_ms := rb_spent_delay_ms b + delay\<rparr>;
                result = JObj [(''ok'', JBool False), (''error'', JStr (fs_explanation sig))]
            in if \<not> should_retry p sig b (re_is_idempotent e) (re_has_key e) then Inr (result, done', b)
               else retry_loop e p (Suc n) left b result done'))"

definition execute_with_retry ::
  "retry_env \<Rightarrow> retry_policy \<Rightarrow> retry_budget option \<Rightarrow> pyexn + json \<times> retry_attempt list \<times> retry_budget" where
  "execute_with_retry e p budget =
     retry_loop e p 1 (nat (ry_max_attempts p))
       (case budget of None \<Rightarrow> policy_budget p | Some b \<Rightarrow> b) JNull []"

section \<open>Attempts\<close>

text \<open>A failed attempt after which the policy permits another.\<close>

definition retryable_attempt :: "retry_policy \<Rightarrow> retry_attempt \<Rightarrow> bool" where
  "retryable_attempt p a \<longleftrightarrow>
     (\<exists>sig. ra_failure a = Some sig \<and> fs_retryable sig \<and> fs_category sig \<notin> set NON_RETRYABLE_CATEGORIES \<and>
        (ry_allowed_categories p = [] \<or> fs_category sig \<in> set (ry_allowed_categories p)))"

lemma should_retry_attempt:
  "should_retry p sig b i k \<Longrightarrow> retryable_attempt p (make_attempt e p n d (Some sig))"
  by (auto simp: should_retry_def retryable_attempt_def make_attempt_def split: if_splits)

lemma make_attempt_number [simp]: "ra_attempt_number (make_attempt e p n d f) = int n"
  by (simp add: make_attempt_def)

lemma retry_loop_attempts:
  assumes "retry_loop e p n left b res done' = Inr (v, as, b')"
    and "n = Suc (length done')" and "\<forall>a \<in> set done'. retryable_attempt p a"
    and "map ra_attempt_number done' = map int [1..<n]"
  shows "length as \<le> length done' + left \<and> map ra_attempt_number as = map int [1..<Suc (length as)] \<and>
    (\<forall>a \<in> set (butlast as). retryable_attempt p a)"
  using assms
proof (induction e p n left b res done' rule: retry_loop.induct)
  case (1 e p n b result done')
  then show ?case by (auto dest: in_set_butlastD)
next
  case (2 e p n left b result done')
  have nums: "map ra_attempt_number (done' @ [make_attempt e p n d f]) = map int [1..<Suc n]" for d f
    using "2.prems"(2,4) by simp
  show ?case
  proof (cases "budget_exhausted b")
    case True
    with "2.prems" show ?thesis by (auto dest: in_set_butlastD)
  next
    case False
    then obtain r where r: "call_failure e n = Inr r"
      using "2.prems"(1) by (cases "call_failure e n") auto
    show ?thesis
    proof (cases r)
      case (Inr w)
      then have "as = done' @ [make_attempt e p n 0 None]" using "2.prems"(1) False r by simp
      with "2.prems" nums show ?thesis by simp
    next
      case (Inl sig)
      define delay where "delay = compute_delay (re_uniform e n) p n None * 1000"
      define done2 where "done2 = done' @ [make_attempt e p n delay (Some sig)]"
      define b2 where "b2 = b\<lparr>rb_spent_attempts := rb_spent_attempts b + 1, rb_spent_delay_ms := rb_spent_delay_ms b + delay\<rparr>"
      show ?thesis
      proof (cases "should_retry p sig b2 (re_is_idempotent e) (re_has_key e)")
        case True
        have run: "retry_loop e p (Suc n) left b2 (JObj [(''ok'', JBool False), (''error'', JStr (fs_explanation sig))]) done2
            = Inr (v, as, b')"
          using "2.prems"(1) False r Inl True by (simp add: Let_def delay_def done2_def b2_def)
        have "length as \<le> length done2 + left \<and> map ra_attempt_number as = map int [1..<Suc (length as)] \<and>
            (\<forall>a \<in> set (butlast as). retryable_attempt p a)"
        proof (rule "2.IH" [OF False delay_def done2_def b2_def refl _ run])
          show "Suc n = Suc (length done2)" using "2.prems"(2) by (simp add: done2_def)
          show "\<forall>a \<in> set done2. retryable_attempt p a"
            using "2.prems"(3) should_retry_attempt [OF True] by (auto simp: done2_def)
          show "map ra_attempt_number done2 = map int [1..<Suc n]" unfolding done2_def by (rule nums)
          show "\<not> \<not> should_retry p sig b2 (re_is_idempotent e) (re_has_key e)" using True by simp
        qed
        then show ?thesis by (simp add: done2_def)
      next
        case no: False
        have "as = done2"
          using "2.prems"(1) False r Inl no by (simp add: Let_def delay_def done2_def b2_def)
        with "2.prems" nums show ?thesis by (simp add: done2_def)
      qed
    qed
  qed
qed

text \<open>
  Retries are bounded. Whatever the function does and however failures are classified, there
  are at most \<open>max_attempts\<close> calls, numbered from 1; every call but the last failed with a category the
  policy allows to be retried.
\<close>
lemma retry_attempts_bounded:
  assumes "execute_with_retry e p budget = Inr (v, attempts, b)"
  shows "int (length attempts) \<le> max 0 (ry_max_attempts p) \<and>
    map ra_attempt_number attempts = map int [1..<Suc (length attempts)] \<and>
    (\<forall>a \<in> set (butlast attempts). retryable_attempt p a)"
  using retry_loop_attempts [OF assms [unfolded execute_with_retry_def]] by auto

definition sample_retry_env :: "(nat \<Rightarrow> call_outcome) \<Rightarrow> retry_env" where
  "sample_retry_env calls =
     \<lparr>re_digest = (\<lambda>_. ''d''), re_now = (\<lambda>_. 0), re_uniform = (\<lambda>_ a b. b), re_call = calls,
      re_provider_id = ''p'', re_model_id = ''m'', re_capability_id = ''c'', re_is_idempotent = False,
      re_has_key = False\<rparr>"

definition refused :: "nat \<Rightarrow> call_outcome" where
  "refused n = Returned (JObj [(''ok'', JBool False)])"

lemma sample_run_returns:
  "\<exists>v attempts b. execute_with_retry (sample_retry_env refused) DEFAULT_RETRY_POLICY None = Inr (v, attempts, b)"
  by (simp add: execute_with_retry_def DEFAULT_RETRY_POLICY_def policy_budget_def eval_nat_numeral
      budget_exhausted_def call_failure_def sample_retry_env_def refused_def dict_get_or_def
      should_retry_def Let_def)

lemma retry_attempts_bounded_witness:
  "\<exists>v attempts b. execute_with_retry (sample_retry_env refused) DEFAULT_RETRY_POLICY None =
     Inr (v, attempts, b) \<and> int (length attempts) \<le> 3"
proof -
  obtain v as b where
    r: "execute_with_retry (sample_retry_env refused) DEFAULT_RETRY_POLICY None = Inr (v, as, b)"
    using sample_run_returns by blast
  from retry_attempts_bounded [OF r] r show ?thesis by (auto simp: DEFAULT_RETRY_POLICY_def)
qed

section \<open>Delays\<close>

definition fair_uniform :: "(rat \<Rightarrow> rat \<Rightarrow> rat) \<Rightarrow> bool" where
  "fair_uniform u \<longleftrightarrow> (\<forall>a b. a \<le> b \<longrightarrow> a \<le> u a b \<and> u a b \<le> b)"

definition sane_policy :: "retry_policy \<Rightarrow> bool" where
  "sane_policy p \<longleftrightarrow> 0 \<le> ry_base_backoff_ms p \<and> 0 \<le> ry_max_backoff_ms p \<and> 0 \<le> ry_backoff_multiplier p \<and>
     0 \<le> ry_jitter_ratio p"

lemma compute_delay_bounds:
  assumes "sane_policy p" and "fair_uniform u"
  shows "0 \<le> compute_delay u p n None \<and>
    compute_delay u p n None * 1000 \<le> ry_max_backoff_ms p * (1 + ry_jitter_ratio p)"
proof -
  define d where "d = min (ry_base_backoff_ms p * ry_backoff_multiplier p ^ (n - 1)) (ry_max_backoff_ms p)"
  define range where "range = d * ry_jitter_ratio p"
  have d: "0 \<le> d" "d \<le> ry_max_backoff_ms p" using assms(1) by (simp_all add: d_def sane_policy_def)
  have range: "0 \<le> range" "range \<le> ry_max_backoff_ms p * ry_jitter_ratio p"
    using d assms(1) by (simp_all add: range_def sane_policy_def mult_right_mono)
  have "u (- range) range \<le> range" using assms(2) range(1) by (simp add: fair_uniform_def)
  then have "max 0 (d + u (- range) range) \<le> ry_max_backoff_ms p * (1 + ry_jitter_ratio p)"
    using d range by (simp add: algebra_simps)
  moreover have "compute_delay u p n None = max 0 (d + u (- range) range) / 1000"
    by (simp add: compute_delay_def Let_def d_def range_def)
  ultimately show ?thesis by simp
qed

lemma retry_loop_delay:
  assumes "retry_loop e p n left b res done' = Inr (v, as, b')"
    and "sane_policy p" and "\<And>k. fair_uniform (re_uniform e k)"
    and "M = ry_max_backoff_ms p * (1 + ry_jitter_ratio p)"
    and "rb_spent_delay_ms b \<le> rb_max_cumulative_delay_ms b + M" and "0 \<le> rb_spent_delay_ms b"
  shows "rb_spent_delay_ms b' \<le> rb_max_cumulative_delay_ms b + M \<and> rb_spent_delay_ms b \<le> rb_spent_delay_ms b' \<and>
    (\<forall>a \<in> set as - set done'. 0 \<le> ra_delay_ms a \<and> ra_delay_ms a \<le> M)"
  using assms
proof (induction e p n left b res done' rule: retry_loop.induct)
  case (2 e p n left b result done')
  have M: "0 \<le> M"
    using "2.prems"(2,4) by (simp add: sane_policy_def)
  show ?case
  proof (cases "budget_exhausted b")
    case True
    with "2.prems" show ?thesis by auto
  next
    case False
    then have low: "rb_spent_delay_ms b < rb_max_cumulative_delay_ms b" by (simp add: budget_exhausted_def)
    obtain r where r: "call_failure e n = Inr r"
      using "2.prems"(1) False by (cases "call_failure e n") auto
    show ?thesis
    proof (cases r)
      case (Inr w)
      with "2.prems" False r M show ?thesis by (auto simp: make_attempt_def)
    next
      case (Inl sig)
      define delay where "delay = compute_delay (re_uniform e n) p n None * 1000"
      define done2 where "done2 = done' @ [make_attempt e p n delay (Some sig)]"
      define b2 where "b2 = b\<lparr>rb_spent_attempts := rb_spent_attempts b + 1, rb_spent_delay_ms := rb_spent_delay_ms b + delay\<rparr>"
      have delay: "0 \<le> delay" "delay \<le> M"
        using compute_delay_bounds [OF "2.prems"(2,3)] "2.prems"(4) by (simp_all add: delay_def)
      have att: "ra_delay_ms (make_attempt e p n delay (Some sig)) = delay" by (simp add: make_attempt_def)
      have b2: "rb_spent_delay_ms b2 = rb_spent_delay_ms b + delay"
        "rb_max_cumulative_delay_ms b2 = rb_max_cumulative_delay_ms b"
        by (simp_all add: b2_def)
      show ?thesis
      proof (cases "should_retry p sig b2 (re_is_idempotent e) (re_has_key e)")
        case True
        have run: "retry_loop e p (Suc n) left b2 (JObj [(''ok'', JBool False), (''error'', JStr (fs_explanation sig))]) done2
            = Inr (v, as, b')"
          using "2.prems"(1) False r Inl True by (simp add: Let_def delay_def done2_def b2_def)
        have nn: "\<not> \<not> should_retry p sig b2 (re_is_idempotent e) (re_has_key e)" using True by simp
        have "rb_spent_delay_ms b' \<le> rb_max_cumulative_delay_ms b2 + M \<and> rb_spent_delay_ms b2 \<le> rb_spent_delay_ms b' \<and>
            (\<forall>a \<in> set as - set done2. 0 \<le> ra_delay_ms a \<and> ra_delay_ms a \<le> M)"
          by (rule "2.IH" [OF False delay_def done2_def b2_def refl nn run "2.prems"(2,3,4)])
            (use b2 low delay "2.prems"(6) in auto)
        then show ?thesis using b2 delay att by (auto simp: done2_def)
      next
        case no: False
        have "as = done2" "b' = b2"
          using "2.prems"(1) False r Inl no by (simp_all add: Let_def delay_def done2_def b2_def)
        then show ?thesis using b2 low delay att by (auto simp: done2_def)
      qed
    qed
  qed
qed auto

text \<open>
  So is the time they wait. With non-negative policy parameters and a generator whose
  \<open>uniform\<close> stays in its interval, every delay is between 0 and the maximal backoff plus
  jitter, and all delays together exceed the cumulative limit by less than one such delay.
\<close>
lemma retry_delay_bounded:
  assumes "execute_with_retry e p None = Inr (v, attempts, b)"
    and "sane_policy p" and "\<forall>k. fair_uniform (re_uniform e k)" and "0 \<le> ry_max_cumulative_delay_ms p"
  shows "(\<forall>a \<in> set attempts. 0 \<le> ra_delay_ms a \<and> ra_delay_ms a \<le> ry_max_backoff_ms p * (1 + ry_jitter_ratio p)) \<and>
    0 \<le> rb_spent_delay_ms b \<and>
    rb_spent_delay_ms b \<le> ry_max_cumulative_delay_ms p + ry_max_backoff_ms p * (1 + ry_jitter_ratio p)"
proof -
  have "0 \<le> ry_max_backoff_ms p * (1 + ry_jitter_ratio p)" using assms(2) by (simp add: sane_policy_def)
  with retry_loop_delay [OF assms(1) [unfolded execute_with_retry_def] assms(2) _ refl] assms(3,4)
  show ?thesis by (simp add: policy_budget_def)
qed

lemma retry_delay_bounded_witness:
  "\<exists>v attempts b. execute_with_retry (sample_retry_env refused) DEFAULT_RETRY_POLICY None =
     Inr (v, attempts, b) \<and> rb_spent_delay_ms b \<le> 60000 + 33000"
proof -
  obtain v as b where
    r: "execute_with_retry (sample_retry_env refused) DEFAULT_RETRY_POLICY None = Inr (v, as, b)"
    using sample_run_returns by blast
  have "sane_policy DEFAULT_RETRY_POLICY" by (simp add: sane_policy_def DEFAULT_RETRY_POLICY_def)
  moreover have "\<forall>k. fair_uniform (re_uniform (sample_retry_env refused) k)"
    by (simp add: fair_uniform_def sample_retry_env_def)
  ultimately show ?thesis using retry_delay_bounded [OF r] r by (auto simp: DEFAULT_RETRY_POLICY_def)
qed

section \<open>Idempotency and classification\<close>

text \<open>
  Idempotency does not matter by default. The documentation says an operation with side
  effects is never retried without an idempotency key, but under the default policy the
  decision is the same with and without one: every category the policy retries at all is exempt.
\<close>
lemma default_retry_ignores_idempotency:
  "should_retry DEFAULT_RETRY_POLICY sig b False False = should_retry DEFAULT_RETRY_POLICY sig b i k"
  by (auto simp: should_retry_def DEFAULT_RETRY_POLICY_def)

definition unclassified :: "failure_category set" where
  "unclassified = {FC_MALFORMED_RESPONSE, FC_POLICY_REJECTION, FC_RUNTIME_INTERNAL}"

lemma classify_stages:
  "fst a \<notin> unclassified \<Longrightarrow> fst (classify_status s a) \<notin> unclassified"
  "fst a \<notin> unclassified \<Longrightarrow> fst (classify_code t a) \<notin> unclassified"
  "fst a \<notin> unclassified \<Longrightarrow> fst (classify_exception t a) \<notin> unclassified"
  by (cases a; cases s; simp add: classify_status_def classify_code_def classify_exception_def Let_def unclassified_def)+

lemma attribute_failure_classified: "fst (attribute_failure f) \<notin> unclassified"
proof -
  have base: "FC_UNKNOWN \<notin> unclassified" "FC_TIMEOUT \<notin> unclassified"
    "FC_OUTPUT_VALIDATION \<notin> unclassified" "FC_CANCELLED \<notin> unclassified"
    by (simp_all add: unclassified_def)
  show ?thesis
    unfolding attribute_failure_def Let_def
    by (simp add: base classify_stages)
qed

lemma cancelled_attribution: "ff_operation_type f = ''cancellation'' \<Longrightarrow> fst (attribute_failure f) = FC_CANCELLED"
  by (simp add: attribute_failure_def Let_def)

lemma classify_failure_fields:
  "fs_category (classify_failure digest now f) = fst (attribute_failure f)"
  "fs_retryable (classify_failure digest now f) \<longleftrightarrow> fst (attribute_failure f) \<notin> set NON_RETRYABLE_CATEGORIES"
  "fs_circuit_relevant (classify_failure digest now f) \<longleftrightarrow>
     fst (attribute_failure f) \<notin> {FC_USER_INPUT, FC_CANCELLED, FC_POLICY_REJECTION}"
  by (simp_all add: classify_failure_def split_def Let_def)

text \<open>
  Classification is consistent. A classified failure is retryable exactly when its category
  is, no retry follows a category that is not whatever the policy, a cancelled operation is always
  cancelled, never retryable and never counted against the circuit, and the classifier never
  answers with a malformed response, a policy rejection or an internal error.
\<close>
lemma classification_consistent:
  "(fs_retryable (classify_failure digest now f) \<longleftrightarrow>
      fs_category (classify_failure digest now f) \<notin> set NON_RETRYABLE_CATEGORIES) \<and>
   (fs_retryable (classify_failure digest now f) \<or> \<not> should_retry p (classify_failure digest now f) b i k) \<and>
   (ff_operation_type f \<noteq> ''cancellation'' \<or>
      fs_category (classify_failure digest now f) = FC_CANCELLED \<and>
      \<not> fs_circuit_relevant (classify_failure digest now f)) \<and>
   fs_category (classify_failure digest now f) \<notin>
     {FC_MALFORMED_RESPONSE, FC_POLICY_REJECTION, FC_RUNTIME_INTERNAL}"
  using attribute_failure_classified [of f] cancelled_attribution [of f]
  unfolding classify_failure_fields unclassified_def
  by (auto simp: should_retry_def classify_failure_fields)

lemma classification_consistent_witness:
  "fs_category (classify_failure (\<lambda>_. []) 0
     ((no_facts ''p'' ''m'' ''c'')\<lparr>ff_http_status := Some 503, ff_operation_type := ''cancellation''\<rparr>)) = FC_CANCELLED"
  using classification_consistent [of "\<lambda>_. []" 0
    "(no_facts ''p'' ''m'' ''c'')\<lparr>ff_http_status := Some 503, ff_operation_type := ''cancellation''\<rparr>"]
  by simp

end
