(* ===== verification/Reliability_Fallback.thy ===== *)
theory Reliability_Fallback
  imports Reliability_Models
begin

text \<open>
  Safety of falling back to another provider
  (\<open>nous_runtime/intelligence/reliability/fallback.py\<close>): the checks of
  \<open>assess_fallback_safety\<close>, in the order of the code.
\<close>

section \<open>Model\<close>

definition RISK_ORDER :: "(string, int) dict" where
  "RISK_ORDER = [(''low'', 0), (''medium'', 1), (''high'', 2), (''critical'', 3)]"

record fallback_boundary =
  bo_capability_id :: string
  bo_modality :: string
  bo_privacy_level :: string
  bo_locality :: string
  bo_output_guarantees :: "string list"
  bo_permissions :: "string list"
  bo_side_effects :: "string list"
  bo_risk_level :: string
  bo_cost_budget :: "rat option"
  bo_latency_budget_ms :: "rat option"
  bo_max_depth :: int

record fallback_candidate =
  ca_provider_id :: string
  ca_model_id :: string
  ca_capability_id :: string
  ca_modality :: string
  ca_privacy_level :: string
  ca_locality :: string
  ca_output_guarantees :: "string list"
  ca_permissions :: "string list"
  ca_side_effects :: "string list"
  ca_risk_level :: string
  ca_estimated_cost :: "rat option"
  ca_estimated_latency_ms :: "rat option"
  ca_profile_confidence :: "rat option"
  ca_circuit_state :: string
  ca_scheduler_allowed :: bool

record fallback_policy =
  fp_max_depth :: int
  fp_require_known_properties :: bool
  fp_min_profile_confidence :: rat
  fp_allow_privacy_change :: bool
  fp_allow_locality_change :: bool
  fp_allow_capability_degradation :: bool

definition default_fallback_policy :: "int \<Rightarrow> fallback_policy" where
  "default_fallback_policy depth =
     \<lparr>fp_max_depth = depth, fp_require_known_properties = True, fp_min_profile_confidence = 1/2,
      fp_allow_privacy_change = False, fp_allow_locality_change = False,
      fp_allow_capability_degradation = False\<rparr>"

record fallback_assessment =
  fa_allowed :: bool
  fa_reason_code :: string
  fa_message :: string
  fa_boundary :: "fallback_boundary option"
  fa_compatibility :: "fallback_candidate option"
  fa_metadata :: jobj

definition boundary_dict :: "fallback_boundary \<Rightarrow> jobj" where
  "boundary_dict b =
     [(''capability_id'', JStr (bo_capability_id b)), (''modality'', JStr (bo_modality b)),
      (''privacy_level'', JStr (bo_privacy_level b)), (''locality'', JStr (bo_locality b)),
      (''output_guarantees'', jstrs (bo_output_guarantees b)), (''permissions'', jstrs (bo_permissions b)),
      (''side_effects'', jstrs (bo_side_effects b)), (''risk_level'', JStr (bo_risk_level b)),
      (''cost_budget'', j_opt JFloat (bo_cost_budget b)),
      (''latency_budget_ms'', j_opt JFloat (bo_latency_budget_ms b)), (''max_depth'', JInt (bo_max_depth b))]"

definition candidate_dict :: "fallback_candidate \<Rightarrow> jobj" where
  "candidate_dict c =
     [(''candidate_provider_id'', JStr (ca_provider_id c)), (''candidate_model_id'', JStr (ca_model_id c)),
      (''capability_id'', JStr (ca_capability_id c)), (''modality'', JStr (ca_modality c)),
      (''privacy_level'', JStr (ca_privacy_level c)), (''locality'', JStr (ca_locality c)),
      (''output_guarantees'', jstrs (ca_output_guarantees c)), (''permissions'', jstrs (ca_permissions c)),
      (''side_effects'', jstrs (ca_side_effects c)), (''risk_level'', JStr (ca_risk_level c)),
      (''estimated_cost'', j_opt JFloat (ca_estimated_cost c)),
      (''estimated_latency_ms'', j_opt JFloat (ca_estimated_latency_ms c)),
      (''profile_confidence'', j_opt JFloat (ca_profile_confidence c)),
      (''circuit_state'', JStr (ca_circuit_state c)), (''scheduler_allowed'', JBool (ca_scheduler_allowed c))]"

definition assessment_to_dict :: "fallback_assessment \<Rightarrow> jobj" where
  "assessment_to_dict a =
     [(''allowed'', JBool (fa_allowed a)), (''reason_code'', JStr (fa_reason_code a)),
      (''message'', JStr (fa_message a)),
      (''boundary'', j_opt (JObj \<circ> boundary_dict) (fa_boundary a)),
      (''compatibility'', j_opt (JObj \<circ> candidate_dict) (fa_compatibility a)),
      (''metadata'', JObj (fa_metadata a))]"

definition unknown_required :: "fallback_boundary \<Rightarrow> fallback_candidate \<Rightarrow> fallback_policy \<Rightarrow> bool" where
  "unknown_required b c p \<longleftrightarrow>
     (if \<not> fp_require_known_properties p then False
      else if (\<exists>(required, actual) \<in> set [(bo_modality b, ca_modality c), (bo_privacy_level b, ca_privacy_level c),
                (bo_locality b, ca_locality c), (bo_risk_level b, ca_risk_level c)]. required \<noteq> [] \<and> actual = [])
      then True
      else ca_profile_confidence c = None)"

definition risk_rank :: "string \<Rightarrow> int" where
  "risk_rank value = dict_get_or RISK_ORDER (py_lower value) 99"

definition fb_reject :: "fallback_boundary \<Rightarrow> fallback_candidate \<Rightarrow> string \<Rightarrow> string \<Rightarrow> fallback_assessment" where
  "fb_reject b c code msg =
     \<lparr>fa_allowed = False, fa_reason_code = code, fa_message = msg, fa_boundary = Some b,
      fa_compatibility = Some c, fa_metadata = []\<rparr>"

text \<open>\<open>limit is not None and value is not None and value > limit\<close>\<close>

definition over_limit :: "rat option \<Rightarrow> rat option \<Rightarrow> bool" where
  "over_limit limit value \<longleftrightarrow> (case (limit, value) of (Some l, Some v) \<Rightarrow> v > l | _ \<Rightarrow> False)"

definition assess_fallback_safety ::
  "fallback_boundary \<Rightarrow> fallback_candidate \<Rightarrow> fallback_policy option \<Rightarrow> int \<Rightarrow> string list \<Rightarrow> fallback_assessment" where
  "assess_fallback_safety b c policy depth visited =
     (let p = (case policy of None \<Rightarrow> default_fallback_policy (bo_max_depth b) | Some p \<Rightarrow> p);
          target = ca_provider_id c @ '':'' @ ca_model_id c in
      if depth \<ge> min (fp_max_depth p) (bo_max_depth b)
      then fb_reject b c ''FALLBACK_DEPTH_LIMIT'' ''Fallback depth limit reached.''
      else if target \<in> set visited \<or> ca_provider_id c \<in> set visited
      then fb_reject b c ''FALLBACK_LOOP'' ''Fallback loop detected.''
      else if \<not> ca_scheduler_allowed c
      then fb_reject b c ''SCHEDULER_REJECTED'' ''Candidate does not pass scheduler constraints.''
      else if ca_circuit_state c \<in> set (map circuit_state_value [CS_OPEN, CS_FORCED_OPEN, CS_HALF_OPEN])
      then fb_reject b c ''CIRCUIT_BLOCKED'' ''Candidate circuit does not allow normal traffic.''
      else if ca_capability_id c \<noteq> bo_capability_id b
      then fb_reject b c ''CAPABILITY_MISMATCH'' ''Fallback candidate does not provide the same required capability.''
      else if unknown_required b c p
      then fb_reject b c ''UNKNOWN_COMPATIBILITY'' ''Required fallback compatibility property is unknown.''
      else if bo_modality b \<noteq> [] \<and> ca_modality c \<noteq> bo_modality b
      then fb_reject b c ''MODALITY_MISMATCH'' ''Fallback candidate changes required modality.''
      else if \<not> set (bo_output_guarantees b) \<subseteq> set (ca_output_guarantees c)
      then fb_reject b c ''OUTPUT_GUARANTEE_DOWNGRADE'' ''Fallback candidate reduces mandatory output guarantees.''
      else if bo_privacy_level b \<noteq> [] \<and> ca_privacy_level c \<noteq> bo_privacy_level b \<and> \<not> fp_allow_privacy_change p
      then fb_reject b c ''PRIVACY_DOWNGRADE'' ''Fallback candidate changes privacy boundary.''
      else if bo_locality b \<noteq> [] \<and> ca_locality c \<noteq> bo_locality b \<and> \<not> fp_allow_locality_change p
      then fb_reject b c ''LOCALITY_CHANGE'' ''Fallback candidate changes locality boundary.''
      else if \<not> set (ca_permissions c) \<subseteq> set (bo_permissions b)
      then fb_reject b c ''NEW_PERMISSION'' ''Fallback candidate requires additional permissions.''
      else if set (ca_side_effects c) - set (bo_side_effects b) \<noteq> {}
      then fb_reject b c ''NEW_SIDE_EFFECT'' ''Fallback candidate introduces an external side effect.''
      else if risk_rank (ca_risk_level c) > risk_rank (bo_risk_level b)
      then fb_reject b c ''RISK_INCREASE'' ''Fallback candidate increases risk level.''
      else if over_limit (bo_cost_budget b) (ca_estimated_cost c)
      then fb_reject b c ''COST_BUDGET_EXCEEDED'' ''Fallback candidate exceeds cost budget.''
      else if over_limit (bo_latency_budget_ms b) (ca_estimated_latency_ms c)
      then fb_reject b c ''LATENCY_BUDGET_EXCEEDED'' ''Fallback candidate exceeds latency budget.''
      else if (case ca_profile_confidence c of None \<Rightarrow> False | Some q \<Rightarrow> q < fp_min_profile_confidence p)
      then fb_reject b c ''PROFILE_CONFIDENCE_LOW'' ''Fallback candidate profile confidence is insufficient.''
      else \<lparr>fa_allowed = True, fa_reason_code = ''EQUIVALENT_FALLBACK'',
            fa_message = ''Fallback candidate is equivalent within the current safety envelope.'',
            fa_boundary = Some b, fa_compatibility = Some c, fa_metadata = []\<rparr>)"

section \<open>What an allowed fallback keeps\<close>

lemma fb_reject_allowed [simp]: "fa_allowed (fb_reject b c code msg) = False"
  by (simp add: fb_reject_def)

lemma risk_rank_bounds: "0 \<le> risk_rank v \<and> risk_rank v \<le> 99"
  by (simp add: risk_rank_def RISK_ORDER_def dict_get_or_def)

text \<open>
  An allowed fallback stays inside the boundary. It is not too deep and not a loop, its circuit
  is closed or disabled (or unknown), it offers the same capability and at least the guarantees asked for, it keeps
  the modality, privacy level and locality the boundary names, needs no further
  permission, has no further side effect, is not riskier, is within the budgets it has estimates for
  and known with enough confidence; and a candidate of which all of this holds is allowed.
\<close>
lemma fallback_allowed_iff:
  "fa_allowed (assess_fallback_safety b c None depth visited) \<longleftrightarrow>
     depth < bo_max_depth b \<and>
     ca_provider_id c @ '':'' @ ca_model_id c \<notin> set visited \<and> ca_provider_id c \<notin> set visited \<and>
     ca_scheduler_allowed c \<and>
     ca_circuit_state c \<notin> {''open'', ''forced_open'', ''half_open''} \<and>
     ca_capability_id c = bo_capability_id b \<and>
     set (bo_output_guarantees b) \<subseteq> set (ca_output_guarantees c) \<and>
     (bo_modality b = [] \<or> ca_modality c = bo_modality b) \<and>
     (bo_privacy_level b = [] \<or> ca_privacy_level c = bo_privacy_level b) \<and>
     (bo_locality b = [] \<or> ca_locality c = bo_locality b) \<and>
     (bo_risk_level b = [] \<or> ca_risk_level c \<noteq> []) \<and>
     set (ca_permissions c) \<subseteq> set (bo_permissions b) \<and>
     set (ca_side_effects c) \<subseteq> set (bo_side_effects b) \<and>
     risk_rank (ca_risk_level c) \<le> risk_rank (bo_risk_level b) \<and>
     \<not> over_limit (bo_cost_budget b) (ca_estimated_cost c) \<and>
     \<not> over_limit (bo_latency_budget_ms b) (ca_estimated_latency_ms c) \<and>
     (\<exists>q. ca_profile_confidence c = Some q \<and> 1/2 \<le> q)"
  by (auto simp: assess_fallback_safety_def Let_def default_fallback_policy_def unknown_required_def
      not_le not_less split: if_splits option.splits)

definition sample_boundary :: fallback_boundary where
  "sample_boundary =
     \<lparr>bo_capability_id = ''chat'', bo_modality = ''text'', bo_privacy_level = ''private'', bo_locality = [],
      bo_output_guarantees = [''json''], bo_permissions = [''net''], bo_side_effects = [],
      bo_risk_level = ''medium'', bo_cost_budget = Some 2, bo_latency_budget_ms = None, bo_max_depth = 2\<rparr>"

definition sample_candidate :: fallback_candidate where
  "sample_candidate =
     \<lparr>ca_provider_id = ''p2'', ca_model_id = ''m'', ca_capability_id = ''chat'', ca_modality = ''text'',
      ca_privacy_level = ''private'', ca_locality = ''eu'', ca_output_guarantees = [''json'', ''seeded''],
      ca_permissions = [''net''], ca_side_effects = [], ca_risk_level = ''low'',
      ca_estimated_cost = Some 1, ca_estimated_latency_ms = Some 900, ca_profile_confidence = Some 1,
      ca_circuit_state = ''closed'', ca_scheduler_allowed = True\<rparr>"

lemma fallback_allowed_iff_witness:
  "fa_allowed (assess_fallback_safety sample_boundary sample_candidate None 1 [''p1'', ''p1:m'']) \<and>
   \<not> fa_allowed (assess_fallback_safety sample_boundary (sample_candidate\<lparr>ca_risk_level := ''high''\<rparr>) None 1 [])"
  unfolding fallback_allowed_iff
  by (simp add: sample_boundary_def sample_candidate_def over_limit_def risk_rank_def RISK_ORDER_def
      dict_get_or_def py_lower_def py_lower_char_def)

text \<open>
  A boundary that names no risk level is no boundary for risk: any candidate's risk is accepted.
\<close>

lemma unnamed_risk_unbounded: "bo_risk_level b = [] \<Longrightarrow> risk_rank (ca_risk_level c) \<le> risk_rank (bo_risk_level b)"
  using risk_rank_bounds [of "ca_risk_level c"]
  by (simp add: risk_rank_def RISK_ORDER_def dict_get_or_def py_lower_def)

end
