(* ===== verification/Core_Redaction.thy ===== *)
theory Core_Redaction
  imports Py_Text
begin

text \<open>
  The shared redaction of credentials (\<open>nous_runtime/core/redaction.py\<close>): the text filter with
  the registered secrets and the secret patterns, and the recursive filter of JSON data with its
  exemptions for counters, costs and lease metadata. The registered secrets are an argument, in
  the order in which the set is iterated. Logging, streams and byte strings are not modelled.
\<close>

section \<open>Tables\<close>

definition REDACTED :: string where
  "REDACTED = ''<REDACTED>''"

definition SENSITIVE_MARKERS :: "string list" where
  "SENSITIVE_MARKERS =
     [''api_key'', ''apikey'', ''access_token'', ''auth_token'', ''authorization'', ''cookie'', ''credential'',
      ''password'', ''pairing_code'', ''private_key'', ''secret'', ''session_token'', ''signing_key'', ''token'']"

definition SAFE_REFERENCE_KEYS :: "string list" where
  "SAFE_REFERENCE_KEYS =
     [''authorization_context'', ''credential_env'', ''credential_ref'', ''token_disclosed'', ''token_length'',
      ''secret_handle'', ''secret_handles'', ''credential_lease_id'', ''credential_lease_ids'',
      ''authorization_id'', ''authorization_context_id'']"

definition USAGE_COUNTER_FIELDS :: "string list" where
  "USAGE_COUNTER_FIELDS =
     [''input_tokens'', ''output_tokens'', ''cached_input_tokens'', ''cache_miss_input_tokens'',
      ''reasoning_tokens'', ''total_tokens'', ''cache_creation_input_tokens'']"

definition USAGE_MEASUREMENTS :: "string list" where
  "USAGE_MEASUREMENTS = [''reported'', ''derived'', ''estimated'', ''unknown'']"

definition CREDENTIAL_LEASE_METADATA_FIELDS :: "string list" where
  "CREDENTIAL_LEASE_METADATA_FIELDS =
     [''lease_id'', ''authorization_id'', ''authorization_context_id'', ''handle_id'', ''subject_id'', ''work_id'',
      ''operation_id'', ''node_id'', ''capability_id'', ''resource_id'', ''expires_at'', ''status'',
      ''effective_status'']"

definition in_range :: "char \<Rightarrow> nat \<Rightarrow> nat \<Rightarrow> bool" where
  "in_range c a b \<longleftrightarrow> a \<le> of_char c \<and> of_char c \<le> b"

definition is_alnum_ascii :: "char \<Rightarrow> bool" where
  "is_alnum_ascii c \<longleftrightarrow> in_range c 48 57 \<or> in_range c 65 90 \<or> in_range c 97 122"

text \<open>The patterns, in the order of the source.\<close>

definition quoted_secret_pattern :: regex where
  "quoted_secret_pattern =
     (let quote = RChar (\<lambda>c. c = CHR 0x22 \<or> c = CHR 0x27);
          other = RChar (\<lambda>c. c \<noteq> CHR 0x22 \<and> c \<noteq> CHR 0x27)
      in rx_seq [quote, rx_alt (map rx_nocase [''access_token'', ''refresh_token'', ''id_token'', ''authorization'',
             ''password'', ''pairing_code'', ''api_key'', ''client_secret'']),
           quote, RStar (RChar py_isspace), rx_lit '':'', RStar (RChar py_isspace), quote, rx_plus other, quote])"

definition SECRET_VALUE_PATTERNS :: "regex list" where
  "SECRET_VALUE_PATTERNS =
     (let b64 = RChar (\<lambda>c. is_alnum_ascii c \<or> c = CHR ''_'' \<or> c = CHR ''-'') in
      [quoted_secret_pattern,
       rx_seq [RBound, rx_lit ''sk-'', rx_at_least 20 b64, RBound],
       rx_seq [RBound, rx_lit ''AKIA'', rx_times 16 (RChar (\<lambda>c. in_range c 65 90 \<or> in_range c 48 57)), RBound],
       rx_seq [RBound, rx_nocase ''Bearer'', rx_plus (RChar py_isspace),
         rx_at_least 16 (RChar (\<lambda>c. is_alnum_ascii c \<or> c \<in> set ''._~+/-'')), RBound],
       rx_seq [RBound, rx_lit ''eyJ'', rx_plus b64, rx_lit ''.eyJ'', rx_plus b64, rx_lit ''.'', rx_plus b64, RBound],
       rx_seq [rx_alt
           [rx_seq [rx_nocase ''api'', rx_opt (RChar (\<lambda>c. c \<in> set ''_-'')), rx_nocase ''key''],
            rx_seq [rx_nocase ''access'', rx_opt (RChar (\<lambda>c. c \<in> set ''_-'')), rx_nocase ''token''],
            rx_nocase ''password'', rx_nocase ''secret''],
         rx_lit ''='', rx_at_least 8 (RChar (\<lambda>c. c \<noteq> CHR ''&'' \<and> \<not> py_isspace c))]])"

section \<open>Redaction\<close>

definition matches_secret :: "string \<Rightarrow> bool" where
  "matches_secret s \<longleftrightarrow> (\<exists>r \<in> set SECRET_VALUE_PATTERNS. rx_search r s)"

text \<open>\<open>sorted(_known_values, key=len, reverse=True)\<close> is stable.\<close>

definition by_length :: "string list \<Rightarrow> string list" where
  "by_length known = rev (sort_key length (rev known))"

definition redact_sensitive_text :: "string list \<Rightarrow> string \<Rightarrow> string" where
  "redact_sensitive_text known value =
     (let value = fold (\<lambda>secret v. py_replace secret REDACTED v) (by_length known) value
      in if matches_secret value then REDACTED else value)"

definition contains_sensitive_value :: "string list \<Rightarrow> string \<Rightarrow> bool" where
  "contains_sensitive_value known value \<longleftrightarrow> (\<exists>secret \<in> set known. py_contains secret value)"

definition float_max :: rat where
  "float_max = 2 ^ 1024 - 2 ^ 971"

text \<open>A key that never shows its value: one with a marker, unless one of the exemptions applies.\<close>

definition valid_measurements :: "json \<Rightarrow> bool" where
  "valid_measurements item \<longleftrightarrow>
     (case item of
        JObj kvs \<Rightarrow> (\<forall>(k, v) \<in> set kvs. k \<in> set USAGE_COUNTER_FIELDS \<and>
          (case v of JStr l \<Rightarrow> l \<in> set USAGE_MEASUREMENTS | _ \<Rightarrow> False))
      | _ \<Rightarrow> False)"

definition is_number :: "json \<Rightarrow> bool" where
  "is_number v \<longleftrightarrow> (case v of JBool _ \<Rightarrow> True | JInt _ \<Rightarrow> True | JFloat _ \<Rightarrow> True | _ \<Rightarrow> False)"

definition exempt :: "string \<Rightarrow> json \<Rightarrow> bool" where
  "exempt normalized item \<longleftrightarrow>
     (normalized = ''credential_leases'' \<and>
        (case item of
           JList leases \<Rightarrow> (\<forall>lease \<in> set leases. case lease of
               JObj kvs \<Rightarrow> set (map fst kvs) \<subseteq> set CREDENTIAL_LEASE_METADATA_FIELDS | _ \<Rightarrow> False)
         | _ \<Rightarrow> False)) \<or>
     normalized \<in> set SAFE_REFERENCE_KEYS \<or>
     ((normalized = ''tokens'' \<or> endswith normalized ''_tokens'') \<and> is_number item) \<or>
     (normalized \<in> set USAGE_COUNTER_FIELDS \<and> item = JNull) \<or>
     (normalized = ''tokens_used'' \<and>
        (case item of JNull \<Rightarrow> True | JInt n \<Rightarrow> 0 \<le> n | _ \<Rightarrow> False)) \<or>
     (normalized = ''cost_per_1k_tokens_usd'' \<and>
        (case item of
           JNull \<Rightarrow> True
         | JInt n \<Rightarrow> 0 \<le> n \<and> of_int n \<le> float_max
         | JFloat q \<Rightarrow> 0 \<le> q \<and> q \<le> float_max
         | _ \<Rightarrow> False))"

definition marked :: "string \<Rightarrow> bool" where
  "marked normalized \<longleftrightarrow> (\<exists>m \<in> set SENSITIVE_MARKERS. py_contains m normalized)"

text \<open>What the entry \<open>safe_key: item\<close> becomes; \<open>redacted\<close> is the redacted item.\<close>

definition redact_entry :: "string list \<Rightarrow> string \<Rightarrow> json \<Rightarrow> json \<Rightarrow> json" where
  "redact_entry known safe_key item redacted =
     (let normalized = py_casefold safe_key in
      if normalized = ''counter_measurements'' then
        if valid_measurements item then
          (case item of
             JObj kvs \<Rightarrow> JObj (map (\<lambda>(k, v).
               (k, case v of JStr l \<Rightarrow> JStr (redact_sensitive_text known l) | _ \<Rightarrow> v)) kvs)
           | _ \<Rightarrow> item)
        else JStr REDACTED
      else if \<not> exempt normalized item \<and> marked normalized then JStr REDACTED
      else redacted)"

fun redact_sensitive_data :: "string list \<Rightarrow> json \<Rightarrow> json" where
  "redact_sensitive_data known (JObj kvs) =
     JObj (fold (\<lambda>(k, v) acc. dict_set k v acc)
       (map (\<lambda>(k, v). let safe_key = redact_sensitive_text known k
                      in (safe_key, redact_entry known safe_key v (redact_sensitive_data known v))) kvs) [])"
| "redact_sensitive_data known (JList xs) = JList (map (redact_sensitive_data known) xs)"
| "redact_sensitive_data known (JStr s) = JStr (redact_sensitive_text known s)"
| "redact_sensitive_data known v = v"

section \<open>What a pattern needs\<close>

text \<open>
  \<open>rx_needs P r\<close>: every match of \<open>r\<close> contains a character with \<open>P\<close>. A text without such
  characters is never taken for a secret.
\<close>

fun rx_needs :: "(char \<Rightarrow> bool) \<Rightarrow> regex \<Rightarrow> bool" where
  "rx_needs P (RChar p) \<longleftrightarrow> (\<forall>x. p x \<longrightarrow> P x)"
| "rx_needs P (RSeq r q) \<longleftrightarrow> rx_needs P r \<or> rx_needs P q"
| "rx_needs P (RAlt r q) \<longleftrightarrow> rx_needs P r \<and> rx_needs P q"
| "rx_needs P _ \<longleftrightarrow> False"

lemma rx_repeat_suffix:
  assumes "\<And>x y. y \<in> set (f x) \<Longrightarrow> \<exists>pre. snd x = pre @ snd y"
  shows "y \<in> set (rx_repeat n f x) \<Longrightarrow> \<exists>pre. snd x = pre @ snd y"
proof (induction n arbitrary: x)
  case (Suc n)
  then consider "y = x" | z where "z \<in> set (f x)" "y \<in> set (rx_repeat n f z)" by auto
  then show ?case
  proof cases
    case 2
    with assms Suc.IH [of z] obtain p q where "snd x = p @ snd z" "snd z = q @ snd y" by blast
    then show ?thesis by simp
  qed simp
qed simp

lemma rx_ends_suffix: "y \<in> set (rx_ends r x) \<Longrightarrow> \<exists>pre. snd x = pre @ snd y"
proof (induction r x arbitrary: y rule: rx_ends.induct)
  case (4 r q x)
  then obtain z where z: "z \<in> set (rx_ends r x)" "y \<in> set (rx_ends q z)" by auto
  from 4(1) [OF z(1)] 4(2) [OF z] obtain p q where "snd x = p @ snd z" "snd z = q @ snd y" by blast
  then show ?case by simp
next
  case (6 r x)
  from 6(2) have "y \<in> set (rx_repeat (length (snd x)) (rx_ends r) x)" by simp
  then show ?case by (rule rx_repeat_suffix [rotated]) (rule 6(1))
qed (auto split: list.splits if_splits)

lemma rx_ends_needs:
  "y \<in> set (rx_ends r x) \<Longrightarrow> rx_needs P r \<Longrightarrow> \<exists>pre. snd x = pre @ snd y \<and> (\<exists>c \<in> set pre. P c)"
proof (induction r x arbitrary: y rule: rx_ends.induct)
  case (4 r q x)
  from 4(3) obtain z where z: "z \<in> set (rx_ends r x)" "y \<in> set (rx_ends q z)" by auto
  from rx_ends_suffix [OF z(1)] rx_ends_suffix [OF z(2)]
  obtain p p' where p: "snd x = p @ snd z" "snd z = p' @ snd y" by blast
  from 4(4) consider "rx_needs P r" | "rx_needs P q" by auto
  then show ?case
  proof cases
    case 1
    with 4(1) [OF z(1)] p have "\<exists>c \<in> set p. P c" by auto
    with p show ?thesis by auto
  next
    case 2
    with 4(2) [OF z(1) z(2)] p have "\<exists>c \<in> set p'. P c" by auto
    with p show ?thesis by auto
  qed
qed (auto split: list.splits if_splits)

lemma rx_search_from_needs: "rx_search_from r c s \<Longrightarrow> rx_needs P r \<Longrightarrow> \<exists>x \<in> set s. P x"
proof (induction s arbitrary: c)
  case Nil
  then have "hd (rx_ends r (c, [])) \<in> set (rx_ends r (c, []))" by simp
  from rx_ends_needs [OF this Nil.prems(2)] show ?case by auto
next
  case (Cons x s)
  show ?case
  proof (cases "rx_ends r (c, x # s) = []")
    case True
    with Cons show ?thesis by auto
  next
    case False
    then have "hd (rx_ends r (c, x # s)) \<in> set (rx_ends r (c, x # s))" by simp
    from rx_ends_needs [OF this Cons.prems(2)] obtain pre rest where
      "x # s = pre @ rest" "\<exists>c \<in> set pre. P c" by auto
    then show ?thesis by (metis Un_iff set_append)
  qed
qed

lemma rx_needs_seq: "rx_needs P (rx_seq rs) \<longleftrightarrow> (\<exists>r \<in> set rs. rx_needs P r)"
  by (induction rs rule: rx_seq.induct) auto

lemma rx_needs_alt: "rs \<noteq> [] \<Longrightarrow> rx_needs P (rx_alt rs) \<longleftrightarrow> (\<forall>r \<in> set rs. rx_needs P r)"
  by (induction rs rule: rx_alt.induct) auto

text \<open>Letters, digits and the other characters of which no pattern can be built.\<close>

definition plain_char :: "char \<Rightarrow> bool" where
  "plain_char c \<longleftrightarrow> \<not> py_isspace c \<and> c \<noteq> CHR 0x22 \<and> c \<noteq> CHR 0x27 \<and> c \<notin> set ''-K.=''"

definition plain :: "string \<Rightarrow> bool" where
  "plain s \<longleftrightarrow> (\<forall>c \<in> set s. plain_char c)"

lemma secret_patterns_need: "r \<in> set SECRET_VALUE_PATTERNS \<Longrightarrow> rx_needs (\<lambda>c. \<not> plain_char c) r"
  by (auto simp: SECRET_VALUE_PATTERNS_def quoted_secret_pattern_def Let_def rx_needs_seq rx_plus_def
      rx_lit_def plain_char_def)

lemma plain_no_secret: "plain s \<Longrightarrow> \<not> matches_secret s"
  using rx_search_from_needs [OF _ secret_patterns_need]
  by (fastforce simp: plain_def matches_secret_def rx_search_def)

lemma plain_REDACTED [simp]: "plain REDACTED"
  by (simp add: plain_def REDACTED_def plain_char_def py_isspace_def)

lemma plain_counters: "\<forall>k \<in> set (USAGE_COUNTER_FIELDS @ USAGE_MEASUREMENTS @ CREDENTIAL_LEASE_METADATA_FIELDS). plain k"
  by (simp add: USAGE_COUNTER_FIELDS_def USAGE_MEASUREMENTS_def CREDENTIAL_LEASE_METADATA_FIELDS_def
      plain_def plain_char_def py_isspace_def)

section \<open>Registered secrets\<close>

text \<open>
  A secret the text filter can hide: not empty, and not confused with the replacement text or
  with the names of the usage counters, which are kept as they are.
\<close>

definition hideable :: "string \<Rightarrow> bool" where
  "hideable secret \<longleftrightarrow> secret \<noteq> [] \<and> CHR ''<'' \<notin> set secret \<and> CHR ''>'' \<notin> set secret \<and>
     \<not> py_contains secret REDACTED \<and> (\<forall>k \<in> set USAGE_COUNTER_FIELDS. \<not> py_contains secret k)"

lemma startswith_iff: "startswith s p \<longleftrightarrow> prefix p s"
  by (auto simp: startswith_def prefix_def) (metis append_take_drop_id)

lemma py_contains_iff: "py_contains p s \<longleftrightarrow> sublist p s"
  by (induction s) (auto simp: startswith_iff sublist_Cons_right)

lemma REDACTED_ends: "suffix xs REDACTED \<Longrightarrow> CHR ''>'' \<notin> set xs \<Longrightarrow> xs = []"
  by (auto simp: suffix_def REDACTED_def append_eq_Cons_conv Cons_eq_append_conv)

lemma replaced_prefix:
  "prefix q (py_replace p REDACTED s) \<Longrightarrow> CHR ''<'' \<notin> set q \<Longrightarrow> prefix q s"
proof (induction p REDACTED s arbitrary: q rule: py_replace.induct)
  case (1 p s)
  show ?case
  proof (cases "s = [] \<or> p = []")
    case True
    with 1(3) show ?thesis by (subst (asm) py_replace.simps) simp
  next
    case False
    then obtain c s' where s: "s = c # s'" by (cases s) auto
    show ?thesis
    proof (cases "startswith s p")
      case True
      with False 1(3,4) show ?thesis
        by (subst (asm) py_replace.simps) (cases q; auto simp: REDACTED_def)
    next
      case no: False
      with False 1(3) have "prefix q (c # py_replace p REDACTED s')"
        by (subst (asm) py_replace.simps) (simp add: s)
      with 1(2) [OF False no] 1(4) show ?thesis unfolding s by (cases q) auto
    qed
  qed
qed

lemma hideable_split:
  assumes "sublist q (REDACTED @ t)" and "hideable q"
  shows "sublist q t"
proof -
  from assms consider "sublist q REDACTED" | "sublist q t"
    | a b where "q = a @ b" "suffix a REDACTED" "prefix b t"
    by (auto simp: sublist_append)
  then show ?thesis
  proof cases
    case 3
    with assms(2) have "a = []" by (intro REDACTED_ends) (auto simp: hideable_def)
    with 3 show ?thesis by (simp add: prefix_imp_sublist)
  qed (use assms(2) in \<open>auto simp: hideable_def py_contains_iff\<close>)
qed

lemma replaced_contains:
  "sublist q (py_replace p REDACTED s) \<Longrightarrow> hideable q \<Longrightarrow> sublist q s"
proof (induction p REDACTED s rule: py_replace.induct)
  case (1 p s)
  show ?case
  proof (cases "s = [] \<or> p = []")
    case True
    with 1(3) show ?thesis by (subst (asm) py_replace.simps) simp
  next
    case False
    then obtain c s' where s: "s = c # s'" by (cases s) auto
    show ?thesis
    proof (cases "startswith s p")
      case True
      with False 1(3) have "sublist q (REDACTED @ py_replace p REDACTED (drop (length p) s))"
        by (subst (asm) py_replace.simps) simp
      then have "sublist q (drop (length p) s)" using 1(1) [OF False True] hideable_split 1(4) by blast
      then show ?thesis by (metis sublist_drop sublist_order.order_trans)
    next
      case no: False
      with False 1(3) have "sublist q (c # py_replace p REDACTED s')"
        by (subst (asm) py_replace.simps) (simp add: s)
      then consider "prefix q (c # py_replace p REDACTED s')" | "sublist q (py_replace p REDACTED s')"
        by (auto simp: sublist_Cons_right)
      then show ?thesis
      proof cases
        case 1
        then have "prefix q (c # s')"
          using replaced_prefix \<open>hideable q\<close> by (cases q) (auto simp: hideable_def)
        then show ?thesis unfolding s by (rule prefix_imp_sublist)
      next
        case 2
        with 1(2) [OF False no] 1(4) have "sublist q (tl s)" unfolding s by simp
        then show ?thesis unfolding s by (simp add: sublist_Cons_right)
      qed
    qed
  qed
qed

lemma replaced_absent: "hideable p \<Longrightarrow> \<not> sublist p (py_replace p REDACTED s)"
proof (induction p REDACTED s rule: py_replace.induct)
  case (1 p s)
  have p: "p \<noteq> []" using 1(3) by (simp add: hideable_def)
  show ?case
  proof (cases s)
    case (Cons c s')
    have ne: "\<not> (s = [] \<or> p = [])" using p Cons by simp
    show ?thesis
    proof (cases "startswith s p")
      case True
      with 1(1) [OF ne True 1(3)] hideable_split [OF _ 1(3)] ne show ?thesis
        by (subst py_replace.simps) auto
    next
      case False
      have "\<not> prefix p (c # py_replace p REDACTED s')"
      proof
        assume "prefix p (c # py_replace p REDACTED s')"
        then have "prefix p (c # s')"
          using replaced_prefix 1(3) by (cases p) (auto simp: hideable_def)
        with False show False by (simp add: startswith_iff Cons)
      qed
      with 1(2) [OF ne False 1(3)] False ne show ?thesis
        by (subst py_replace.simps) (auto simp: Cons sublist_Cons_right)
    qed
  qed (use p in \<open>simp\<close>)
qed

lemma fold_replace_absent:
  assumes "\<forall>q \<in> set ps. hideable q"
  shows "p \<in> set ps \<or> hideable p \<and> \<not> sublist p v \<Longrightarrow> \<not> sublist p (fold (\<lambda>q v. py_replace q REDACTED v) ps v)"
  using assms
proof (induction ps arbitrary: v)
  case (Cons q ps)
  consider "p \<in> set ps" | "p = q" | "hideable p" "\<not> sublist p v" using Cons.prems(1) by auto
  then show ?case
  proof cases
    case 1
    then show ?thesis using Cons by simp
  next
    case 2
    then show ?thesis using Cons replaced_absent by simp
  next
    case 3
    then have "\<not> sublist p (py_replace q REDACTED v)" using replaced_contains by blast
    with 3 Cons show ?thesis by simp
  qed
qed simp

lemma set_by_length [simp]: "set (by_length known) = set known"
  by (simp add: by_length_def)

definition text_discloses :: "string list \<Rightarrow> string \<Rightarrow> bool" where
  "text_discloses known s \<longleftrightarrow> matches_secret s \<or> contains_sensitive_value known s"

lemma redacted_text_hides:
  "\<forall>q \<in> set known. hideable q \<Longrightarrow> \<not> text_discloses known (redact_sensitive_text known s)"
  using fold_replace_absent [of "by_length known" _ s] plain_no_secret [OF plain_REDACTED]
  by (auto simp: text_discloses_def redact_sensitive_text_def contains_sensitive_value_def
      py_contains_iff hideable_def Let_def)

text \<open>
  What may stand under a key with a marker, by the shape of the value: the replacement text, a
  number under the name of a counter, nothing under the counters that may be absent, a cost or a
  count that is not negative, a list of leases without other fields than those of their metadata;
  and any value under the names of references.
\<close>

definition shows_lease :: "string list \<Rightarrow> json \<Rightarrow> bool" where
  "shows_lease known lease \<longleftrightarrow>
     (case lease of
        JObj kvs \<Rightarrow> set (map fst kvs) \<subseteq> redact_sensitive_text known ` set CREDENTIAL_LEASE_METADATA_FIELDS
      | _ \<Rightarrow> False)"

fun shows_safely :: "string list \<Rightarrow> string \<Rightarrow> json \<Rightarrow> bool" where
  "shows_safely known n (JStr s) \<longleftrightarrow> s = REDACTED \<or> n \<in> set SAFE_REFERENCE_KEYS"
| "shows_safely known n JNull \<longleftrightarrow>
     n \<in> set (SAFE_REFERENCE_KEYS @ USAGE_COUNTER_FIELDS @ [''tokens_used'', ''cost_per_1k_tokens_usd''])"
| "shows_safely known n (JBool b) \<longleftrightarrow>
     n \<in> set SAFE_REFERENCE_KEYS \<or> n = ''tokens'' \<or> endswith n ''_tokens''"
| "shows_safely known n (JInt i) \<longleftrightarrow>
     n \<in> set SAFE_REFERENCE_KEYS \<or> n = ''tokens'' \<or> endswith n ''_tokens'' \<or>
     n \<in> {''tokens_used'', ''cost_per_1k_tokens_usd''} \<and> 0 \<le> i"
| "shows_safely known n (JFloat q) \<longleftrightarrow>
     n \<in> set SAFE_REFERENCE_KEYS \<or> n = ''tokens'' \<or> endswith n ''_tokens'' \<or>
     n = ''cost_per_1k_tokens_usd'' \<and> 0 \<le> q"
| "shows_safely known n (JList xs) \<longleftrightarrow>
     n \<in> set SAFE_REFERENCE_KEYS \<or>
     n = ''credential_leases'' \<and> list_all (shows_lease known) xs"
| "shows_safely known n (JObj kvs) \<longleftrightarrow> n \<in> set SAFE_REFERENCE_KEYS"

text \<open>What may stand under \<open>counter_measurements\<close>: labels of counters.\<close>

definition only_labels :: "string list \<Rightarrow> json \<Rightarrow> bool" where
  "only_labels known v \<longleftrightarrow>
     (case v of
        JObj kvs \<Rightarrow> (\<forall>(k, w) \<in> set kvs. k \<in> set USAGE_COUNTER_FIELDS \<and> \<not> text_discloses known k \<and>
          (case w of
             JStr l \<Rightarrow> l \<in> redact_sensitive_text known ` set USAGE_MEASUREMENTS \<and> \<not> text_discloses known l
           | _ \<Rightarrow> False))
      | _ \<Rightarrow> False)"

text \<open>An entry; \<open>inner\<close> says whether its value discloses something in itself.\<close>

definition entry_discloses :: "string list \<Rightarrow> string \<Rightarrow> json \<Rightarrow> bool \<Rightarrow> bool" where
  "entry_discloses known k v inner \<longleftrightarrow>
     text_discloses known k \<or>
     (if py_casefold k = ''counter_measurements'' then v \<noteq> JStr REDACTED \<and> \<not> only_labels known v
      else inner \<or> marked (py_casefold k) \<and> \<not> shows_safely known (py_casefold k) v)"

text \<open>
  Data discloses a secret when a text or a key in it does, or when a key with a marker has a value
  of a shape that may not be shown.
\<close>

fun discloses :: "string list \<Rightarrow> json \<Rightarrow> bool" where
  "discloses known (JStr s) \<longleftrightarrow> text_discloses known s"
| "discloses known (JList xs) \<longleftrightarrow> (\<exists>x \<in> set xs. discloses known x)"
| "discloses known (JObj kvs) \<longleftrightarrow> (\<exists>(k, v) \<in> set kvs. entry_discloses known k v (discloses known v))"
| "discloses known v \<longleftrightarrow> False"

lemma set_fold_dict_set: "set (fold (\<lambda>(k, v). dict_set k v) xs d) \<subseteq> set d \<union> set xs"
proof (induction xs arbitrary: d)
  case (Cons x xs)
  have "set (dict_set k v e) \<subseteq> insert (k, v) (set e)" for k :: 'a and v :: 'b and e
    unfolding dict_set_def by (induction e) auto
  with Cons [of "dict_set (fst x) (snd x) d"] show ?case by (cases x) fastforce
qed simp

lemma counter_text: "k \<in> set USAGE_COUNTER_FIELDS \<Longrightarrow> \<forall>q \<in> set known. hideable q \<Longrightarrow> \<not> text_discloses known k"
  using plain_no_secret plain_counters
  by (auto simp: text_discloses_def contains_sensitive_value_def hideable_def)

lemma REDACTED_not_disclosed: "\<forall>q \<in> set known. hideable q \<Longrightarrow> \<not> text_discloses known REDACTED"
  using plain_no_secret [OF plain_REDACTED]
  by (auto simp: text_discloses_def contains_sensitive_value_def hideable_def)

lemma redacted_lease_fields:
  assumes "redact_sensitive_data known (JObj kvs) = JObj ys"
  shows "set (map fst ys) \<subseteq> redact_sensitive_text known ` set (map fst kvs)"
proof -
  let ?e = "\<lambda>(k, v). let safe_key = redact_sensitive_text known k
    in (safe_key, redact_entry known safe_key v (redact_sensitive_data known v))"
  from assms have "ys = fold (\<lambda>(k, v). dict_set k v) (map ?e kvs) []" by simp
  with set_fold_dict_set [of "map ?e kvs" "[]"] have "set ys \<subseteq> ?e ` set kvs" by simp
  then show ?thesis by (force simp: Let_def)
qed

definition lease_ok :: "json \<Rightarrow> bool" where
  "lease_ok lease \<longleftrightarrow>
     (case lease of JObj kvs \<Rightarrow> set (map fst kvs) \<subseteq> set CREDENTIAL_LEASE_METADATA_FIELDS | _ \<Rightarrow> False)"

lemma exempt_JList:
  "exempt n (JList xs) \<longleftrightarrow> n = ''credential_leases'' \<and> (\<forall>x \<in> set xs. lease_ok x) \<or> n \<in> set SAFE_REFERENCE_KEYS"
  by (simp add: exempt_def lease_ok_def is_number_def)

lemma lease_shown:
  assumes "lease_ok x"
  shows "shows_lease known (redact_sensitive_data known x)"
proof -
  from assms obtain kvs where x: "x = JObj kvs" "set (map fst kvs) \<subseteq> set CREDENTIAL_LEASE_METADATA_FIELDS"
    by (cases x) (auto simp: lease_ok_def)
  obtain ys where ys: "redact_sensitive_data known (JObj kvs) = JObj ys" by simp
  have "set (map fst ys) \<subseteq> redact_sensitive_text known ` set CREDENTIAL_LEASE_METADATA_FIELDS"
    by (rule order_trans [OF redacted_lease_fields [OF ys] image_mono [OF x(2)]])
  then show ?thesis unfolding x(1) ys by (simp add: shows_lease_def)
qed

lemma exempt_shows_safely:
  assumes "exempt n v"
  shows "shows_safely known n (redact_sensitive_data known v)"
proof (cases v)
  case (JList xs)
  with assms lease_shown [of _ known] show ?thesis
    by (auto simp: exempt_JList list_all_iff simp del: redact_sensitive_data.simps(1))
qed (use assms in \<open>auto simp: exempt_def is_number_def\<close>)

lemma valid_measurements_labels:
  assumes "\<forall>q \<in> set known. hideable q" and "valid_measurements v"
  shows "only_labels known (case v of
      JObj kvs \<Rightarrow> JObj (map (\<lambda>(k, v).
        (k, case v of JStr l \<Rightarrow> JStr (redact_sensitive_text known l) | _ \<Rightarrow> v)) kvs)
    | _ \<Rightarrow> v)"
proof (cases v)
  case (JObj kvs)
  have "\<exists>l. w = JStr l \<and> k \<in> set USAGE_COUNTER_FIELDS \<and> l \<in> set USAGE_MEASUREMENTS" if "(k, w) \<in> set kvs" for k w
  proof -
    from assms(2) that have "k \<in> set USAGE_COUNTER_FIELDS \<and> (case w of JStr l \<Rightarrow> l \<in> set USAGE_MEASUREMENTS | _ \<Rightarrow> False)"
      by (fastforce simp: valid_measurements_def JObj)
    then show ?thesis by (cases w) simp_all
  qed
  then show ?thesis
    using redacted_text_hides [OF assms(1)] counter_text [OF _ assms(1)]
    by (fastforce simp: JObj only_labels_def)
qed (use assms(2) in \<open>auto simp: valid_measurements_def\<close>)

lemma redact_entry_hides:
  assumes "\<forall>q \<in> set known. hideable q" and "\<not> text_discloses known k"
    and "\<not> discloses known (redact_sensitive_data known v)"
  shows "\<not> entry_discloses known k (redact_entry known k v (redact_sensitive_data known v))
    (discloses known (redact_entry known k v (redact_sensitive_data known v)))"
proof -
  let ?n = "py_casefold k"
  have r: "\<not> discloses known (JStr REDACTED)" using REDACTED_not_disclosed [OF assms(1)] by simp
  consider "?n = ''counter_measurements''" "valid_measurements v" | "?n = ''counter_measurements''" "\<not> valid_measurements v"
    | "?n \<noteq> ''counter_measurements''" "\<not> exempt ?n v" "marked ?n"
    | "?n \<noteq> ''counter_measurements''" "exempt ?n v" | "?n \<noteq> ''counter_measurements''" "\<not> marked ?n" by blast
  then show ?thesis
  proof cases
    case 1
    with valid_measurements_labels [OF assms(1) 1(2)] assms(2) show ?thesis
      by (simp add: entry_discloses_def redact_entry_def)
  next
    case 4
    with exempt_shows_safely [OF 4(2), of known] assms(2,3) show ?thesis
      by (simp add: entry_discloses_def redact_entry_def)
  qed (use r assms(2,3) in \<open>simp_all add: entry_discloses_def redact_entry_def\<close>)
qed

section \<open>Redacting twice\<close>

lemma redact_text_none: "redact_sensitive_text [] s = (if matches_secret s then REDACTED else s)"
  by (simp add: redact_sensitive_text_def by_length_def Let_def)

lemma redact_text_plain: "plain s \<Longrightarrow> redact_sensitive_text [] s = s"
  by (simp add: redact_text_none plain_no_secret)

lemma redact_text_again [simp]:
  "redact_sensitive_text [] (redact_sensitive_text [] s) = redact_sensitive_text [] s"
  by (simp add: redact_text_none plain_no_secret)

lemma wf_fold_dict_set: "wf_dict d \<Longrightarrow> wf_dict (fold (\<lambda>(k, v). dict_set k v) xs d)"
  by (induction xs arbitrary: d) auto

lemma fold_dict_set_id: "wf_dict (d @ xs) \<Longrightarrow> fold (\<lambda>(k, v). dict_set k v) xs d = d @ xs"
proof (induction xs arbitrary: d)
  case (Cons x xs)
  obtain k v where x: "x = (k, v)" by (cases x)
  from Cons.prems x have "dict_get d k = None" by (force simp: dict_get_None_iff)
  then have "dict_set k v d = d @ [(k, v)]" by (rule dict_set_new)
  with Cons.IH [of "d @ [(k, v)]"] Cons.prems x show ?case by simp
qed simp

lemma fold_dict_set_Nil: "wf_dict xs \<Longrightarrow> fold (\<lambda>(k, v). dict_set k v) xs [] = xs"
  using fold_dict_set_id [of "[]" xs] by simp

lemma redact_fields_known:
  assumes "wf_dict kvs"
    and "\<And>k. k \<in> set (map fst kvs) \<Longrightarrow> redact_sensitive_text K k = k \<and> \<not> marked (py_casefold k) \<and> py_casefold k \<noteq> ''counter_measurements''"
  shows "redact_sensitive_data K (JObj kvs) = JObj (map (\<lambda>(k, v). (k, redact_sensitive_data K v)) kvs)"
proof -
  let ?red = "redact_sensitive_data K"
  let ?e = "\<lambda>(k, v). let safe_key = redact_sensitive_text K k in (safe_key, redact_entry K safe_key v (?red v))"
  have "?e p = (\<lambda>(k, v). (k, ?red v)) p" if "p \<in> set kvs" for p
  proof -
    obtain k v where kv: "p = (k, v)" by (cases p)
    with assms(2) [of k] that have "redact_sensitive_text K k = k" "\<not> marked (py_casefold k)" "py_casefold k \<noteq> ''counter_measurements''"
      by force+
    then show ?thesis by (simp add: kv redact_entry_def)
  qed
  then have "map ?e kvs = map (\<lambda>(k, v). (k, ?red v)) kvs" by (intro map_cong refl)
  moreover have "wf_dict (map (\<lambda>(k, v). (k, ?red v)) kvs)" using assms(1) by (simp only: wf_dict_map)
  then have "fold (\<lambda>(k, v). dict_set k v) (map (\<lambda>(k, v). (k, ?red v)) kvs) [] = map (\<lambda>(k, v). (k, ?red v)) kvs"
    by (rule fold_dict_set_Nil)
  ultimately show ?thesis by (simp only: redact_sensitive_data.simps)
qed

text \<open>Keys that redaction leaves alone when no secret is registered\<close>

definition ordinary_key :: "string \<Rightarrow> bool" where
  "ordinary_key k \<longleftrightarrow> plain k \<and> \<not> marked (py_casefold k) \<and> py_casefold k \<noteq> ''counter_measurements''"

lemma redact_plain_dict:
  assumes "wf_dict kvs" and "list_all ordinary_key (map fst kvs)"
  shows "redact_sensitive_data [] (JObj kvs) = JObj (map (\<lambda>(k, v). (k, redact_sensitive_data [] v)) kvs)"
  using assms by (intro redact_fields_known) (auto simp: redact_text_plain list_all_iff ordinary_key_def)

lemma lease_ok_redacted:
  assumes "lease_ok v"
  shows "lease_ok (redact_sensitive_data [] v)"
proof -
  from assms obtain kvs where v: "v = JObj kvs" "set (map fst kvs) \<subseteq> set CREDENTIAL_LEASE_METADATA_FIELDS"
    by (cases v) (auto simp: lease_ok_def)
  define entry where "entry = (\<lambda>(k, v). let safe_key = redact_sensitive_text [] k
    in (safe_key, redact_entry [] safe_key v (redact_sensitive_data [] v)))"
  have "redact_sensitive_text [] k = k" if "k \<in> set CREDENTIAL_LEASE_METADATA_FIELDS" for k
    using plain_counters that by (simp add: redact_text_plain)
  with v(2) have "fst ` entry ` set kvs \<subseteq> set CREDENTIAL_LEASE_METADATA_FIELDS"
    by (fastforce simp: entry_def Let_def)
  moreover have "set (fold (\<lambda>(k, v). dict_set k v) (map entry kvs) []) \<subseteq> entry ` set kvs"
    using set_fold_dict_set [of "map entry kvs" "[]"] by simp
  ultimately have "fst ` set (fold (\<lambda>(k, v). dict_set k v) (map entry kvs) []) \<subseteq> set CREDENTIAL_LEASE_METADATA_FIELDS"
    by blast
  moreover have "redact_sensitive_data [] v = JObj (fold (\<lambda>(k, v). dict_set k v) (map entry kvs) [])"
    by (simp add: v(1) entry_def)
  ultimately show ?thesis by (simp add: lease_ok_def)
qed

lemma exempt_text: "exempt n (JStr s) \<longleftrightarrow> n \<in> set SAFE_REFERENCE_KEYS"
  by (simp add: exempt_def is_number_def)

lemma exempt_JObj: "exempt n (JObj kvs) \<longleftrightarrow> n \<in> set SAFE_REFERENCE_KEYS"
  by (simp add: exempt_def is_number_def)

lemma exempt_redacted: "exempt n v \<Longrightarrow> exempt n (redact_sensitive_data [] v)"
  by (cases v) (auto simp: exempt_JList exempt_text exempt_JObj lease_ok_redacted)

lemma redact_entry_again:
  fixes k :: string and v :: json
  assumes "redact_sensitive_data [] (redact_sensitive_data [] v) = redact_sensitive_data [] v"
  defines "e \<equiv> redact_entry [] k v (redact_sensitive_data [] v)"
  shows "redact_entry [] k e (redact_sensitive_data [] e) = e"
proof -
  let ?n = "py_casefold k"
  consider "?n = ''counter_measurements''" "valid_measurements v"
    | "?n = ''counter_measurements''" "\<not> valid_measurements v"
    | "?n \<noteq> ''counter_measurements''" "\<not> exempt ?n v" "marked ?n"
    | "?n \<noteq> ''counter_measurements''" "exempt ?n v \<or> \<not> marked ?n" by blast
  then show ?thesis
  proof cases
    case 1
    then obtain kvs where v: "v = JObj kvs" by (cases v) (auto simp: valid_measurements_def)
    have "(case w of JStr l \<Rightarrow> JStr (redact_sensitive_text [] l) | _ \<Rightarrow> w) = w" if "(c, w) \<in> set kvs" for c w
    proof -
      from 1(2) that have "case w of JStr l \<Rightarrow> l \<in> set USAGE_MEASUREMENTS | _ \<Rightarrow> False"
        by (fastforce simp: valid_measurements_def v)
      then show ?thesis using plain_counters by (cases w) (auto simp: redact_text_plain)
    qed
    then have "map (\<lambda>(k, v). (k, case v of JStr l \<Rightarrow> JStr (redact_sensitive_text [] l) | _ \<Rightarrow> v)) kvs = kvs"
      by (intro map_idI) auto
    with 1 have all: "redact_entry [] k v w = v" for w by (simp add: redact_entry_def v)
    then have "e = v" by (simp add: e_def)
    with all show ?thesis by simp
  next
    case 2
    then have "e = JStr REDACTED" by (simp add: e_def redact_entry_def)
    with 2(1) show ?thesis by (simp add: redact_entry_def valid_measurements_def)
  next
    case 3
    then have "e = JStr REDACTED" by (simp add: e_def redact_entry_def)
    moreover have "\<not> exempt ?n (JStr REDACTED)"
      using 3(2) unfolding exempt_text by (simp add: exempt_def)
    ultimately show ?thesis using 3 by (simp add: redact_entry_def)
  next
    case 4
    then have "e = redact_sensitive_data [] v" by (auto simp: e_def redact_entry_def Let_def)
    with 4 assms(1) exempt_redacted show ?thesis by (auto simp: redact_entry_def Let_def)
  qed
qed

lemma redact_again:
  "redact_sensitive_data [] (redact_sensitive_data [] v) = redact_sensitive_data [] v"
proof (induction "[] :: string list" v rule: redact_sensitive_data.induct)
  case (1 kvs)
  define entry where "entry = (\<lambda>(k, v). (redact_sensitive_text [] k,
    redact_entry [] (redact_sensitive_text [] k) v (redact_sensitive_data [] v)))"
  define d where "d = fold (\<lambda>(k, v). dict_set k v) (map entry kvs) []"
  have red: "redact_sensitive_data [] (JObj xs) = JObj (fold (\<lambda>(k, v). dict_set k v) (map entry xs) [])" for xs
    by (simp add: entry_def Let_def)
  have sub: "set d \<subseteq> entry ` set kvs"
    using set_fold_dict_set [of "map entry kvs" "[]"] by (simp add: d_def)
  have "entry p = p" if "p \<in> set d" for p
  proof -
    from that sub obtain k v where kv: "(k, v) \<in> set kvs" "p = entry (k, v)" by auto
    then show ?thesis using redact_entry_again [OF 1 [OF kv(1) refl refl]] by (simp add: entry_def)
  qed
  then have "map entry d = d" by (simp add: map_idI)
  moreover have "wf_dict d" unfolding d_def by (rule wf_fold_dict_set) simp
  then have "fold (\<lambda>(k, v). dict_set k v) d [] = d" by (rule fold_dict_set_Nil)
  ultimately show ?case unfolding red d_def [symmetric] by simp
qed simp_all

section \<open>Properties\<close>

text \<open>
  Nothing is disclosed. C23: provided every registered secret can be hidden (it is not empty, has no
  angle bracket and is a part neither of the replacement text nor of the name of a usage counter), in redacted data no text and no key
  matches a secret pattern or contains a registered secret, and what stands under a key with a
  sensitive marker has, at any depth, a shape that may be shown: the replacement text, a number under
  the name of a counter, nothing under a counter that may be absent, a count or cost that is not
  negative, a list of leases with the fields of their metadata only, or labels of counters; any value under the names of references.
\<close>
theorem redaction_discloses_nothing:
  assumes "\<forall>q \<in> set known. hideable q"
  shows "\<not> discloses known (redact_sensitive_data known v)"
  using assms
proof (induction known v rule: redact_sensitive_data.induct)
  case (1 known kvs)
  define safe where "safe = redact_sensitive_text known"
  define entry where "entry = (\<lambda>(k, v). (safe k, redact_entry known (safe k) v (redact_sensitive_data known v)))"
  have ok: "\<not> entry_discloses known (fst (entry p)) (snd (entry p)) (discloses known (snd (entry p)))"
    if "p \<in> set kvs" for p
  proof -
    obtain k v where kv: "p = (k, v)" by (cases p)
    with that have "\<not> discloses known (redact_sensitive_data known v)" using 1 by blast
    with redact_entry_hides [OF 1(2)] redacted_text_hides [OF 1(2)] show ?thesis
      by (simp add: kv entry_def safe_def)
  qed
  have red: "redact_sensitive_data known (JObj kvs) = JObj (fold (\<lambda>(k, v). dict_set k v) (map entry kvs) [])"
    by (simp add: entry_def safe_def Let_def)
  have "set (fold (\<lambda>(k, v). dict_set k v) (map entry kvs) []) \<subseteq> entry ` set kvs"
    using set_fold_dict_set [of "map entry kvs" "[]"] by simp
  then have "\<not> entry_discloses known (fst p) (snd p) (discloses known (snd p))"
    if "p \<in> set (fold (\<lambda>(k, v). dict_set k v) (map entry kvs) [])" for p
    using ok that by blast
  then show ?case unfolding red by (force simp: case_prod_beta)
qed (use redacted_text_hides in auto)

theorem redaction_discloses_nothing_witness:
  "\<not> discloses [''hunter2''] (redact_sensitive_data [''hunter2'']
     (JObj [(''note'', JStr ''use hunter2''), (''Api_Key'', JInt 7), (''input_tokens'', JStr ''hunter2''),
       (''tokens'', JInt 3), (''credential_leases'', JList [JObj [(''lease_id'', JStr ''l''), (''value'', JStr ''x'')]])]))"
  by (rule redaction_discloses_nothing)
    (simp add: hideable_def REDACTED_def USAGE_COUNTER_FIELDS_def startswith_def)

text \<open>
  As long as no secret is registered, redacted data is left alone by a second redaction, so what a
  store has written is accepted by its own check for credentials.
\<close>
lemma redaction_stable:
  "redact_sensitive_data [] (redact_sensitive_data [] v) = redact_sensitive_data [] v"
  by (rule redact_again)

end
