(* ===== verification/Capability_Contract.thy ===== *)
theory Capability_Contract
  imports Kernel_Object
begin

text \<open>
  The formal contract of a capability and the registry of contracts
  (\<open>nous_runtime/capability/contract.py\<close>). The time stamp of a new contract is an argument.
\<close>

section \<open>Enumerations\<close>

datatype retry_mode = RM_NONE | RM_LINEAR | RM_EXPONENTIAL | RM_ADAPTIVE

fun retry_mode_value :: "retry_mode \<Rightarrow> string" where
  "retry_mode_value RM_NONE = ''none''"
| "retry_mode_value RM_LINEAR = ''linear''"
| "retry_mode_value RM_EXPONENTIAL = ''exponential''"
| "retry_mode_value RM_ADAPTIVE = ''adaptive''"

datatype idempotency_class = IC_IDEMPOTENT | IC_CONDITIONAL | IC_NOT_IDEMPOTENT

fun idempotency_value :: "idempotency_class \<Rightarrow> string" where
  "idempotency_value IC_IDEMPOTENT = ''idempotent''"
| "idempotency_value IC_CONDITIONAL = ''conditional''"
| "idempotency_value IC_NOT_IDEMPOTENT = ''not_idempotent''"

datatype verification_method =
    VM_NONE | VM_ASSERTION | VM_SCRIPT | VM_LLM_REVIEW | VM_TEST_RERUN | VM_DIFF_CHECK | VM_MANUAL

fun verification_value :: "verification_method \<Rightarrow> string" where
  "verification_value VM_NONE = ''none''"
| "verification_value VM_ASSERTION = ''assertion''"
| "verification_value VM_SCRIPT = ''script''"
| "verification_value VM_LLM_REVIEW = ''llm_review''"
| "verification_value VM_TEST_RERUN = ''test_rerun''"
| "verification_value VM_DIFF_CHECK = ''diff_check''"
| "verification_value VM_MANUAL = ''manual''"

lemma retry_mode_value_inject [simp]: "retry_mode_value a = retry_mode_value b \<longleftrightarrow> a = b"
  by (cases a; cases b) simp_all

lemma idempotency_value_inject [simp]: "idempotency_value a = idempotency_value b \<longleftrightarrow> a = b"
  by (cases a; cases b) simp_all

section \<open>Contracts\<close>

record capability_contract =
  cc_capability_id :: string
  cc_name :: string
  cc_description :: string
  cc_version :: string
  cc_input_schema :: jobj
  cc_output_schema :: jobj
  cc_risk_level :: string
  cc_side_effect_class :: string
  cc_required_permissions :: "string list"
  cc_allowed_nodes :: "string list"
  cc_denied_nodes :: "string list"
  cc_timeout_seconds :: int
  cc_max_output_bytes :: int
  cc_retry_strategy :: retry_mode
  cc_max_retries :: int
  cc_retry_delay_ms :: int
  cc_retryable_errors :: "string list"
  cc_idempotency :: idempotency_class
  cc_rollback_capability_id :: string
  cc_rollback_timeout_seconds :: int
  cc_observation_method :: string
  cc_verification_method :: verification_method
  cc_verification_script :: string
  cc_verification_timeout_seconds :: int
  cc_audit_level :: string
  cc_audit_retention_days :: int
  cc_created_at :: string
  cc_updated_at :: string

text \<open>\<open>CapabilityContract()\<close>: the declared defaults.\<close>

definition default_contract :: "string \<Rightarrow> capability_contract" where
  "default_contract now =
     \<lparr>cc_capability_id = [], cc_name = [], cc_description = [], cc_version = ''1.0.0'',
      cc_input_schema = [], cc_output_schema = [], cc_risk_level = ''MEDIUM'', cc_side_effect_class = [],
      cc_required_permissions = [], cc_allowed_nodes = [], cc_denied_nodes = [], cc_timeout_seconds = 30,
      cc_max_output_bytes = 1000000, cc_retry_strategy = RM_EXPONENTIAL, cc_max_retries = 3,
      cc_retry_delay_ms = 1000,
      cc_retryable_errors = [''TIMEOUT'', ''UNAVAILABLE'', ''OVERLOADED'', ''CIRCUIT_OPEN''],
      cc_idempotency = IC_CONDITIONAL, cc_rollback_capability_id = [], cc_rollback_timeout_seconds = 30,
      cc_observation_method = [], cc_verification_method = VM_NONE, cc_verification_script = [],
      cc_verification_timeout_seconds = 60, cc_audit_level = ''standard'', cc_audit_retention_days = 90,
      cc_created_at = now, cc_updated_at = []\<rparr>"

definition contract_to_dict :: "capability_contract \<Rightarrow> jobj" where
  "contract_to_dict c =
     [(''capability_id'', JStr (cc_capability_id c)), (''name'', JStr (cc_name c)),
      (''description'', JStr (cc_description c)), (''version'', JStr (cc_version c)),
      (''input_schema'', JObj (cc_input_schema c)), (''output_schema'', JObj (cc_output_schema c)),
      (''risk_level'', JStr (cc_risk_level c)), (''risk'', JStr (cc_risk_level c)),
      (''side_effect_class'', JStr (cc_side_effect_class c)),
      (''required_permissions'', jstrs (cc_required_permissions c)),
      (''allowed_nodes'', jstrs (cc_allowed_nodes c)), (''timeout_seconds'', JInt (cc_timeout_seconds c)),
      (''retry_strategy'', JStr (retry_mode_value (cc_retry_strategy c))),
      (''max_retries'', JInt (cc_max_retries c)),
      (''idempotency'', JStr (idempotency_value (cc_idempotency c))),
      (''rollback_capability_id'', JStr (cc_rollback_capability_id c)),
      (''observation_method'', JStr (cc_observation_method c)),
      (''verification_method'', JStr (verification_value (cc_verification_method c))),
      (''audit_level'', JStr (cc_audit_level c))]"

definition contract_risk :: "capability_contract \<Rightarrow> string" where
  "contract_risk c = cc_risk_level c"

definition is_retryable_error :: "capability_contract \<Rightarrow> string \<Rightarrow> bool" where
  "is_retryable_error c error_code \<longleftrightarrow> error_code \<in> set (cc_retryable_errors c)"

definition is_allowed_node :: "capability_contract \<Rightarrow> string \<Rightarrow> bool" where
  "is_allowed_node c node_id =
     (if cc_denied_nodes c \<noteq> [] \<and> node_id \<in> set (cc_denied_nodes c) then False
      else if cc_allowed_nodes c \<noteq> [] then node_id \<in> set (cc_allowed_nodes c)
      else True)"

section \<open>The registry\<close>

type_synonym contract_registry = "(string, capability_contract) dict"

definition contract_register ::
  "capability_contract \<Rightarrow> contract_registry \<Rightarrow> capability_contract nous_result \<times> contract_registry" where
  "contract_register c reg =
     (if cc_capability_id c = [] then (mk_err EC_INVALID_ARGUMENT ''capability_id required'' [] 0, reg)
      else (mk_ok (Some c) [], dict_set (cc_capability_id c) c reg))"

definition contract_get :: "contract_registry \<Rightarrow> string \<Rightarrow> capability_contract nous_result" where
  "contract_get reg cid =
     (case dict_get reg cid of
        None \<Rightarrow> mk_err EC_NOT_FOUND (''No contract for '' @ [CHR 0x27] @ cid @ [CHR 0x27]) [] 0
      | Some c \<Rightarrow> mk_ok (Some c) [])"

definition contract_list_all :: "contract_registry \<Rightarrow> capability_contract list" where
  "contract_list_all reg = map snd reg"

definition get_risk_level :: "contract_registry \<Rightarrow> string \<Rightarrow> string" where
  "get_risk_level reg cid = (case dict_get reg cid of Some c \<Rightarrow> cc_risk_level c | None \<Rightarrow> ''MEDIUM'')"

definition default_contracts :: "string \<Rightarrow> capability_contract list" where
  "default_contracts now =
     (let c = default_contract now in
      [c\<lparr>cc_capability_id := ''device.state.read'', cc_risk_level := ''low'', cc_side_effect_class := ''read_only'',
         cc_idempotency := IC_IDEMPOTENT, cc_retry_strategy := RM_NONE, cc_max_retries := 0,
         cc_verification_method := VM_ASSERTION\<rparr>,
       c\<lparr>cc_capability_id := ''device.state.set'', cc_risk_level := ''low'', cc_side_effect_class := ''external_write'',
         cc_idempotency := IC_CONDITIONAL, cc_retry_strategy := RM_NONE, cc_max_retries := 0,
         cc_verification_method := VM_ASSERTION, cc_observation_method := ''device.state.read''\<rparr>,
       c\<lparr>cc_capability_id := ''device.firmware.update'', cc_risk_level := ''high'',
         cc_side_effect_class := ''external_write'', cc_idempotency := IC_CONDITIONAL, cc_retry_strategy := RM_NONE,
         cc_max_retries := 0, cc_verification_method := VM_ASSERTION, cc_observation_method := ''device.state.read''\<rparr>,
       c\<lparr>cc_capability_id := ''project.read_file'', cc_name := ''Read File'',
         cc_description := ''Read contents of a file in the workspace'', cc_risk_level := ''read_only'',
         cc_retry_strategy := RM_NONE, cc_idempotency := IC_IDEMPOTENT, cc_verification_method := VM_NONE\<rparr>,
       c\<lparr>cc_capability_id := ''project.write_file'', cc_name := ''Write File'',
         cc_description := ''Write or overwrite a file in the workspace'', cc_risk_level := ''medium'',
         cc_side_effect_class := ''local_write'', cc_observation_method := ''workspace.file_sha256'',
         cc_timeout_seconds := 60, cc_retry_strategy := RM_NONE, cc_max_retries := 0,
         cc_rollback_capability_id := ''project.restore_file'', cc_idempotency := IC_CONDITIONAL,
         cc_verification_method := VM_DIFF_CHECK\<rparr>,
       c\<lparr>cc_capability_id := ''project.run_tests'', cc_name := ''Run Tests'',
         cc_description := ''Execute the project test suite'', cc_risk_level := ''low'', cc_timeout_seconds := 300,
         cc_max_output_bytes := 5000000, cc_retry_strategy := RM_EXPONENTIAL, cc_max_retries := 2,
         cc_verification_method := VM_TEST_RERUN\<rparr>,
       c\<lparr>cc_capability_id := ''network.fetch'', cc_name := ''Governed Network Fetch'',
         cc_description := ''Fetch a public HTTP resource through the Runtime Network Gateway'',
         cc_risk_level := ''high'', cc_required_permissions := [''network''], cc_timeout_seconds := 120,
         cc_max_output_bytes := 5242880, cc_retry_strategy := RM_NONE, cc_max_retries := 0,
         cc_idempotency := IC_IDEMPOTENT, cc_verification_method := VM_ASSERTION, cc_audit_level := ''detailed''\<rparr>,
       c\<lparr>cc_capability_id := ''git.commit'', cc_name := ''Git Commit'',
         cc_description := ''Create a git commit with changes'', cc_risk_level := ''medium'',
         cc_rollback_capability_id := ''git.reset'', cc_verification_method := VM_DIFF_CHECK\<rparr>,
       c\<lparr>cc_capability_id := ''git.push'', cc_name := ''Git Push'', cc_description := ''Push commits to remote'',
         cc_risk_level := ''high'', cc_required_permissions := [''git.push''],
         cc_rollback_capability_id := ''git.revert_push'', cc_verification_method := VM_NONE,
         cc_audit_level := ''detailed''\<rparr>,
       c\<lparr>cc_capability_id := ''shell.execute_sandboxed'', cc_name := ''Sandboxed Shell'',
         cc_description := ''Execute command in a sandboxed environment'', cc_risk_level := ''medium'',
         cc_timeout_seconds := 120, cc_retry_strategy := RM_EXPONENTIAL, cc_max_retries := 1,
         cc_idempotency := IC_NOT_IDEMPOTENT, cc_verification_method := VM_ASSERTION,
         cc_required_permissions := [''shell.sandboxed'']\<rparr>,
       c\<lparr>cc_capability_id := ''model.run_inference'', cc_name := ''Model Inference'',
         cc_description := ''Run a model inference request'', cc_risk_level := ''low'', cc_timeout_seconds := 300,
         cc_retry_strategy := RM_EXPONENTIAL, cc_max_retries := 3\<rparr>])"

definition new_contract_registry :: "string \<Rightarrow> contract_registry" where
  "new_contract_registry now = fold (\<lambda>c reg. snd (contract_register c reg)) (default_contracts now) []"

section \<open>Policies of workflow handlers\<close>

text \<open>\<open>WorkflowHandlerPolicy\<close> (\<open>nous_runtime/workflow/models.py\<close>).\<close>

record handler_policy =
  hp_contract :: "capability_contract option"
  hp_reconcile_started :: bool

definition default_policy :: handler_policy where
  "default_policy = \<lparr>hp_contract = None, hp_reconcile_started = False\<rparr>"

end
