(* ===== verification/Workflow_Models.thy ===== *)
theory Workflow_Models
  imports Core_Redaction
begin

text \<open>
  The contracts of the workflow engine (\<open>nous_runtime/workflow/models.py\<close>): triggers, step
  types, run states, steps, definitions, runs, and the canonical dictionary of a definition in
  both directions. The field \<open>data_bindings\<close>, which the program takes from JSON unchecked, is
  a JSON value here; \<open>JNull\<close> is \<open>None\<close>. Time-outs are finite numbers.
\<close>

section \<open>Enumerations\<close>

datatype trigger_type = TR_MANUAL | TR_SCHEDULE | TR_EVENT | TR_WEBHOOK

fun trigger_type_value :: "trigger_type \<Rightarrow> string" where
  "trigger_type_value TR_MANUAL = ''manual''"
| "trigger_type_value TR_SCHEDULE = ''schedule''"
| "trigger_type_value TR_EVENT = ''event''"
| "trigger_type_value TR_WEBHOOK = ''webhook''"

datatype step_type =
    ST_AGENT | ST_CAPABILITY | ST_CONNECTOR | ST_COMMAND | ST_APPROVAL | ST_CONDITION | ST_WAIT | ST_TRANSFORM

fun step_type_value :: "step_type \<Rightarrow> string" where
  "step_type_value ST_AGENT = ''agent''"
| "step_type_value ST_CAPABILITY = ''capability''"
| "step_type_value ST_CONNECTOR = ''connector''"
| "step_type_value ST_COMMAND = ''command''"
| "step_type_value ST_APPROVAL = ''approval''"
| "step_type_value ST_CONDITION = ''condition''"
| "step_type_value ST_WAIT = ''wait''"
| "step_type_value ST_TRANSFORM = ''transform''"

datatype workflow_state =
    WS_PENDING | WS_RUNNING | WS_WAITING_APPROVAL | WS_COMPLETED | WS_FAILED | WS_UNKNOWN
  | WS_CANCELLED | WS_COMPENSATION_FAILED

fun workflow_state_value :: "workflow_state \<Rightarrow> string" where
  "workflow_state_value WS_PENDING = ''pending''"
| "workflow_state_value WS_RUNNING = ''running''"
| "workflow_state_value WS_WAITING_APPROVAL = ''waiting_approval''"
| "workflow_state_value WS_COMPLETED = ''completed''"
| "workflow_state_value WS_FAILED = ''failed''"
| "workflow_state_value WS_UNKNOWN = ''unknown''"
| "workflow_state_value WS_CANCELLED = ''cancelled''"
| "workflow_state_value WS_COMPENSATION_FAILED = ''compensation_failed''"

definition all_triggers :: "trigger_type list" where
  "all_triggers = [TR_MANUAL, TR_SCHEDULE, TR_EVENT, TR_WEBHOOK]"

definition all_step_types :: "step_type list" where
  "all_step_types =
     [ST_AGENT, ST_CAPABILITY, ST_CONNECTOR, ST_COMMAND, ST_APPROVAL, ST_CONDITION, ST_WAIT, ST_TRANSFORM]"

definition all_workflow_states :: "workflow_state list" where
  "all_workflow_states =
     [WS_PENDING, WS_RUNNING, WS_WAITING_APPROVAL, WS_COMPLETED, WS_FAILED, WS_UNKNOWN, WS_CANCELLED,
      WS_COMPENSATION_FAILED]"

text \<open>\<open>TriggerType(s)\<close> and the like: the member with that value, or a \<open>ValueError\<close>.\<close>

definition enum_of :: "('a \<Rightarrow> string) \<Rightarrow> 'a list \<Rightarrow> string \<Rightarrow> string \<Rightarrow> pyexn + 'a" where
  "enum_of value members name s =
     (case filter (\<lambda>x. value x = s) members of
        x # _ \<Rightarrow> Inr x
      | [] \<Rightarrow> Inl (ValueError ([CHR 0x27] @ s @ [CHR 0x27] @ '' is not a valid '' @ name)))"

definition trigger_type_of :: "string \<Rightarrow> pyexn + trigger_type" where
  "trigger_type_of = enum_of trigger_type_value all_triggers ''TriggerType''"

definition step_type_of :: "string \<Rightarrow> pyexn + step_type" where
  "step_type_of = enum_of step_type_value all_step_types ''StepType''"

definition workflow_state_of :: "string \<Rightarrow> pyexn + workflow_state" where
  "workflow_state_of = enum_of workflow_state_value all_workflow_states ''WorkflowState''"

lemma trigger_type_of_value [enum_simps, simp]: "trigger_type_of (trigger_type_value t) = Inr t"
  by (cases t) (simp_all add: trigger_type_of_def enum_of_def all_triggers_def)

lemma step_type_of_value [enum_simps, simp]: "step_type_of (step_type_value t) = Inr t"
  by (cases t) (simp_all add: step_type_of_def enum_of_def all_step_types_def)

lemma workflow_state_of_value [enum_simps, simp]: "workflow_state_of (workflow_state_value s) = Inr s"
  by (cases s) (simp_all add: workflow_state_of_def enum_of_def all_workflow_states_def)

lemma workflow_state_value_inject [simp]: "workflow_state_value a = workflow_state_value b \<longleftrightarrow> a = b"
  by (cases a; cases b) simp_all

lemma enum_values_not_Nil [simp]:
  "trigger_type_value t \<noteq> []" "step_type_value s \<noteq> []" "workflow_state_value w \<noteq> []"
  by (cases t, simp_all) (cases s, simp_all, cases w, simp_all)

section \<open>Errors\<close>

text \<open>
  The error classes of the compiler and of the store, the uniqueness errors of the database,
  and every other exception.
\<close>

datatype wf_exn =
    WorkflowValidationError string
  | WorkflowBindingError string
  | WorkflowConflictError string
  | IntegrityError string
  | PyExn pyexn

fun wf_exn_text :: "wf_exn \<Rightarrow> string" where
  "wf_exn_text (WorkflowValidationError m) = m"
| "wf_exn_text (WorkflowBindingError m) = m"
| "wf_exn_text (WorkflowConflictError m) = m"
| "wf_exn_text (IntegrityError m) = m"
| "wf_exn_text (PyExn e) = exn_text e"

text \<open>A plain Python step inside a workflow operation.\<close>

definition lift_py :: "pyexn + 'a \<Rightarrow> wf_exn + 'a" where
  "lift_py m = (case m of Inl e \<Rightarrow> Inl (PyExn e) | Inr a \<Rightarrow> Inr a)"

lemma lift_py_simps [simp]: "lift_py (Inl e) = Inl (PyExn e)" "lift_py (Inr a) = Inr a"
  by (simp_all add: lift_py_def)

lemma lift_py_Inr [simp]: "lift_py m = Inr a \<longleftrightarrow> m = Inr a"
  by (cases m) simp_all

section \<open>Records\<close>

record workflow_step =
  ws_step_id :: string
  ws_step_type :: step_type
  ws_action :: string
  ws_depends_on :: "string list"
  ws_condition :: string
  ws_retries :: int
  ws_timeout_seconds :: rat
  ws_approval_required :: bool
  ws_compensation :: string
  ws_params :: jobj
  ws_data_bindings :: json

record workflow_definition =
  wd_workflow_id :: string
  wd_version :: string
  wd_trigger :: trigger_type
  wd_steps :: "workflow_step list"
  wd_inputs_schema :: jobj
  wd_outputs_schema :: jobj
  wd_audit_metadata :: jobj

record workflow_run =
  wr_workflow_id :: string
  wr_workflow_version :: string
  wr_inputs :: jobj
  wr_run_id :: string
  wr_state :: workflow_state
  wr_step_states :: jobj
  wr_outputs :: jobj
  wr_error :: string
  wr_idempotency_key :: string
  wr_cancellation_requested :: bool
  wr_definition_digest :: string
  wr_inputs_digest :: string
  wr_revision :: int

text \<open>\<open>WorkflowRun(workflow_id, version, inputs, idempotency_key=..)\<close> with its defaults.\<close>

definition new_run :: "string \<Rightarrow> string \<Rightarrow> string \<Rightarrow> jobj \<Rightarrow> string \<Rightarrow> workflow_run" where
  "new_run run_id workflow_id version inputs key =
     \<lparr>wr_workflow_id = workflow_id, wr_workflow_version = version, wr_inputs = inputs,
      wr_run_id = run_id, wr_state = WS_PENDING, wr_step_states = [], wr_outputs = [], wr_error = [],
      wr_idempotency_key = key, wr_cancellation_requested = False, wr_definition_digest = [],
      wr_inputs_digest = [], wr_revision = 0\<rparr>"

section \<open>Dictionaries\<close>

definition workflow_step_to_dict :: "workflow_step \<Rightarrow> jobj" where
  "workflow_step_to_dict s =
     [(''step_id'', JStr (ws_step_id s)), (''step_type'', JStr (step_type_value (ws_step_type s))),
      (''action'', JStr (ws_action s)), (''depends_on'', jstrs (ws_depends_on s)),
      (''condition'', JStr (ws_condition s)), (''retries'', JInt (ws_retries s)),
      (''timeout_seconds'', JFloat (ws_timeout_seconds s)),
      (''approval_required'', JBool (ws_approval_required s)),
      (''compensation'', JStr (ws_compensation s)), (''params'', JObj (ws_params s))] @
     (if ws_data_bindings s = JNull then [] else [(''data_bindings'', ws_data_bindings s)])"

definition definition_to_dict :: "workflow_definition \<Rightarrow> jobj" where
  "definition_to_dict d =
     [(''workflow_id'', JStr (wd_workflow_id d)), (''version'', JStr (wd_version d)),
      (''trigger'', JStr (trigger_type_value (wd_trigger d))),
      (''steps'', JList (map (JObj \<circ> workflow_step_to_dict) (wd_steps d))),
      (''inputs_schema'', JObj (wd_inputs_schema d)), (''outputs_schema'', JObj (wd_outputs_schema d)),
      (''audit_metadata'', JObj (wd_audit_metadata d))]"

text \<open>\<open>data[key]\<close>\<close>

definition rd_item :: "jobj \<Rightarrow> string \<Rightarrow> pyexn + json" where
  "rd_item d k = (case dict_get d k of None \<Rightarrow> Inl (KeyError k) | Some v \<Rightarrow> Inr v)"

text \<open>Step identifiers in \<open>depends_on\<close>, which the program does not coerce.\<close>

definition as_text :: "json \<Rightarrow> pyexn + string" where
  "as_text v = (case v of JStr s \<Rightarrow> Inr s | _ \<Rightarrow> Inl OutsideModel)"

definition workflow_step_from_dict :: "jobj \<Rightarrow> pyexn + workflow_step" where
  "workflow_step_from_dict item =
     bindE (bindE (rd_item item ''step_id'') py_str) (\<lambda>step_id.
     bindE (bindE (bindE (rd_item item ''step_type'') py_str) step_type_of) (\<lambda>step_type.
     bindE (rd_str item ''action'' []) (\<lambda>action.
     bindE (bindE (rd_list item ''depends_on'') (mapE as_text)) (\<lambda>depends_on.
     bindE (rd_str item ''condition'' []) (\<lambda>condition.
     bindE (rd_int item ''retries'' 0) (\<lambda>retries.
     bindE (py_float (dict_get_or item ''timeout_seconds'' (JInt 60))) (\<lambda>timeout_seconds.
     bindE (rd_str item ''compensation'' []) (\<lambda>compensation.
     bindE (rd_dict item ''params'') (\<lambda>params.
       Inr \<lparr>ws_step_id = step_id, ws_step_type = step_type, ws_action = action,
         ws_depends_on = depends_on, ws_condition = condition, ws_retries = retries,
         ws_timeout_seconds = timeout_seconds, ws_approval_required = rd_bool item ''approval_required'' False,
         ws_compensation = compensation, ws_params = params,
         ws_data_bindings = dict_get_or item ''data_bindings'' JNull\<rparr>)))))))))"

definition definition_from_dict :: "jobj \<Rightarrow> pyexn + workflow_definition" where
  "definition_from_dict data =
     bindE (bindE (rd_item data ''workflow_id'') py_str) (\<lambda>workflow_id.
     bindE (bindE (rd_item data ''version'') py_str) (\<lambda>version.
     bindE (bindE (rd_str data ''trigger'' ''manual'') trigger_type_of) (\<lambda>trigger.
     bindE (bindE (rd_list data ''steps'') (mapE (\<lambda>v. bindE (as_obj v) workflow_step_from_dict))) (\<lambda>steps.
     bindE (rd_dict data ''inputs_schema'') (\<lambda>inputs_schema.
     bindE (rd_dict data ''outputs_schema'') (\<lambda>outputs_schema.
     bindE (rd_dict data ''audit_metadata'') (\<lambda>audit_metadata.
       Inr \<lparr>wd_workflow_id = workflow_id, wd_version = version, wd_trigger = trigger,
         wd_steps = steps, wd_inputs_schema = inputs_schema, wd_outputs_schema = outputs_schema,
         wd_audit_metadata = audit_metadata\<rparr>)))))))"

section \<open>Loading\<close>

lemma mapE_as_text [simp]: "mapE as_text (map JStr xs) = Inr xs"
  by (induction xs) (simp_all add: as_text_def)

lemma dict_get_append: "dict_get (xs @ ys) k = (case dict_get xs k of None \<Rightarrow> dict_get ys k | v \<Rightarrow> v)"
  by (simp add: dict_get_def map_add_def split: option.splits)

lemma rd_item_Some: "dict_get d k = Some v \<Longrightarrow> rd_item d k = Inr v"
  by (simp add: rd_item_def)

lemma dict_get_or_Some: "dict_get d k = Some v \<Longrightarrow> dict_get_or d k x = v"
  by (simp add: dict_get_or_def)

text \<open>
  A step loads from any dictionary with the same entries, in whatever order a store has put
  them.
\<close>

lemma workflow_step_loads:
  assumes "\<And>k. dict_get d k = dict_get (workflow_step_to_dict s) k"
  shows "workflow_step_from_dict d = Inr s"
proof -
  note f = assms [of "''step_id''"] assms [of "''step_type''"] assms [of "''action''"]
    assms [of "''depends_on''"] assms [of "''condition''"] assms [of "''retries''"]
    assms [of "''timeout_seconds''"] assms [of "''approval_required''"] assms [of "''compensation''"]
    assms [of "''params''"] assms [of "''data_bindings''"]
  have "dict_get_or d ''data_bindings'' JNull = ws_data_bindings s"
    using f by (simp add: dict_get_or_def workflow_step_to_dict_def dict_get_append)
  moreover have "dict_get d ''timeout_seconds'' = Some (JFloat (ws_timeout_seconds s))"
    using f by (simp add: workflow_step_to_dict_def dict_get_append)
  ultimately show ?thesis
    using f
    by (simp add: workflow_step_from_dict_def workflow_step_to_dict_def dict_get_append rd_item_Some
        dict_get_or_Some decode_simps rd_list_jstrs)
qed

lemma definition_loads:
  assumes "\<And>k. k \<noteq> ''steps'' \<Longrightarrow> dict_get data k = dict_get (definition_to_dict d) k"
    and "dict_get data ''steps'' = Some (JList (map JObj items))"
    and "list_all2 (\<lambda>item s. \<forall>k. dict_get item k = dict_get (workflow_step_to_dict s) k) items (wd_steps d)"
  shows "definition_from_dict data = Inr d"
proof -
  note f = assms(1) [of "''workflow_id''"] assms(1) [of "''version''"] assms(1) [of "''trigger''"]
    assms(1) [of "''inputs_schema''"] assms(1) [of "''outputs_schema''"] assms(1) [of "''audit_metadata''"]
  have "list_all2 (\<lambda>x y. bindE (as_obj x) workflow_step_from_dict = Inr y) (map JObj items) (wd_steps d)"
    unfolding list_all2_map1 by (rule list_all2_mono [OF assms(3)]) (simp add: workflow_step_loads)
  then have "mapE (\<lambda>v. bindE (as_obj v) workflow_step_from_dict) (map JObj items) = Inr (wd_steps d)"
    unfolding mapE_Inr_iff .
  with f assms(2) show ?thesis
    by (simp add: definition_from_dict_def definition_to_dict_def rd_item_Some decode_simps)
qed

lemma definition_reads: "definition_from_dict (definition_to_dict d) = Inr d"
  by (rule definition_loads [where items = "map workflow_step_to_dict (wd_steps d)"])
    (simp_all add: definition_to_dict_def list_all2_map1 list_all2_same)

section \<open>Properties\<close>

text \<open>
  The canonical dictionary of a definition is decoded to the definition itself, without
  any condition, and two definitions with the same dictionary are the same: nothing that
  matters to a run escapes the digest of the dictionary.
\<close>
lemma definition_roundtrip:
  "definition_from_dict (definition_to_dict d) = Inr d \<and>
   (definition_to_dict d = definition_to_dict e \<longleftrightarrow> d = e)"
  using definition_reads by (metis sum.inject(2))

end
