(* ===== verification/Workflow_Compiler.thy ===== *)
theory Workflow_Compiler
  imports Workflow_Models Planner_Graph
begin

text \<open>
  The workflow compiler (\<open>nous_runtime/workflow/compiler.py\<close>): validation of definitions, with
  the depth-first search for cycles, data bindings (pointers, their validation and their
  resolution), the walk over JSON schemas, and the compilation to the task graph of the
  planner. The package \<open>jsonschema\<close> is an argument: its dialects, its check of a schema and its
  validation of an instance; so are the text of a float and SHA-256.
\<close>

section \<open>The library\<close>

datatype verdict = Valid | Violates string | Unresolved

record wf_lib =
  wl_dialects :: "string list"
  wl_default_dialect :: string
  wl_check_schema :: "string \<Rightarrow> json \<Rightarrow> bool"
  wl_validate :: "string \<Rightarrow> json \<Rightarrow> json \<Rightarrow> verdict"
  wl_float :: "rat \<Rightarrow> string"
  wl_sha256 :: "string \<Rightarrow> string"
  wl_known :: "string list"

definition invalid :: "string \<Rightarrow> wf_exn + 'a" where
  "invalid msg = Inl (WorkflowValidationError msg)"

lemma invalid_neq [simp]: "invalid msg \<noteq> Inr x" "Inr x \<noteq> invalid msg"
  by (simp_all add: invalid_def)

definition guard :: "bool \<Rightarrow> string \<Rightarrow> wf_exn + unit" where
  "guard ok msg = (if ok then Inr () else invalid msg)"

lemma guard_Inr [simp]: "guard ok msg = Inr u \<longleftrightarrow> ok"
  by (simp add: guard_def invalid_def)

fun for_each :: "('a \<Rightarrow> 'e + unit) \<Rightarrow> 'a list \<Rightarrow> 'e + unit" where
  "for_each f [] = Inr ()"
| "for_each f (x # xs) = bindE (f x) (\<lambda>_. for_each f xs)"

lemma for_each_Inr [simp]: "for_each f xs = Inr u \<longleftrightarrow> (\<forall>x \<in> set xs. f x = Inr ())"
  by (induction xs) (auto simp: bindE_eq_Inr)

section \<open>Schemas\<close>

definition external_reference :: "jobj \<Rightarrow> bool" where
  "external_reference item \<longleftrightarrow>
     (\<exists>keyword \<in> set [''$ref'', ''$dynamicRef'', ''$recursiveRef''].
        case dict_get item keyword of Some (JStr r) \<Rightarrow> \<not> startswith r ''#'' | _ \<Rightarrow> False)"

definition unsupported_dialect :: "wf_lib \<Rightarrow> jobj \<Rightarrow> bool" where
  "unsupported_dialect L item \<longleftrightarrow>
     (case dict_get_or item ''$schema'' JNull of
        JNull \<Rightarrow> False
      | JStr u \<Rightarrow> py_rstrip CHR ''#'' u \<notin> set (wl_dialects L)
      | _ \<Rightarrow> True)"

text \<open>The stack \<open>pending\<close>, its top first.\<close>

function schema_walk :: "wf_lib \<Rightarrow> string \<Rightarrow> (json \<times> nat) list \<Rightarrow> wf_exn + unit" where
  "schema_walk L label [] = Inr ()"
| "schema_walk L label ((item, depth) # pending) =
     (if 32 < depth then invalid (''Workflow '' @ label @ '' schema is too deeply nested'')
      else case item of
        JObj kvs \<Rightarrow>
          if unsupported_dialect L kvs
          then invalid (''Unsupported Workflow '' @ label @ '' schema dialect'')
          else if external_reference kvs
          then invalid (''External Workflow '' @ label @ '' schema references are not allowed'')
          else schema_walk L label (rev (map (\<lambda>(k, v). (v, Suc depth)) kvs) @ pending)
      | JList xs \<Rightarrow> schema_walk L label (rev (map (\<lambda>v. (v, Suc depth)) xs) @ pending)
      | _ \<Rightarrow> schema_walk L label pending)"
  by pat_completeness auto

lemma size_list_sum: "size_list f xs = sum_list (map f xs) + length xs"
  by (induction xs) simp_all

termination schema_walk
proof (relation "measure (\<lambda>(L, label, pending). sum_list (map (\<lambda>(v, d). Suc (size v)) pending))")
  fix L :: wf_lib and label :: string and item :: json and depth :: nat and pending and kvs :: jobj
  assume "item = JObj kvs"
  have "sum_list (map (\<lambda>(v, d). Suc (size v)) (rev (map (\<lambda>(k, v). (v, Suc depth)) kvs))) < Suc (size (JObj kvs))"
    by (induction kvs) (auto simp: size_list_sum)
  then show "((L, label, rev (map (\<lambda>(k, v). (v, Suc depth)) kvs) @ pending), (L, label, (item, depth) # pending))
      \<in> measure (\<lambda>(L, label, pending). sum_list (map (\<lambda>(v, d). Suc (size v)) pending))"
    using \<open>item = JObj kvs\<close> by simp
next
  fix L :: wf_lib and label :: string and item :: json and depth :: nat and pending and xs :: "json list"
  assume "item = JList xs"
  have "sum_list (map (\<lambda>(v, d). Suc (size v)) (rev (map (\<lambda>v. (v, Suc depth)) xs))) < Suc (size (JList xs))"
    by (induction xs) (auto simp: size_list_sum)
  then show "((L, label, rev (map (\<lambda>v. (v, Suc depth)) xs) @ pending), (L, label, (item, depth) # pending))
      \<in> measure (\<lambda>(L, label, pending). sum_list (map (\<lambda>(v, d). Suc (size v)) pending))"
    using \<open>item = JList xs\<close> by simp
qed auto

text \<open>\<open>_schema_validator\<close>: no validator for an empty schema.\<close>

definition schema_validator :: "wf_lib \<Rightarrow> json \<Rightarrow> string \<Rightarrow> wf_exn + (string \<times> json) option" where
  "schema_validator L schema label =
     (case schema of
        JObj kvs \<Rightarrow>
          if kvs = [] then Inr None
          else bindE (schema_walk L label [(schema, 0)]) (\<lambda>_.
            case dict_get_or kvs ''$schema'' (JStr []) of
              JStr u \<Rightarrow>
                let u = py_rstrip CHR ''#'' u;
                    dialect = (if u \<in> set (wl_dialects L) then u else wl_default_dialect L)
                in if wl_check_schema L dialect schema then Inr (Some (dialect, schema))
                   else invalid (''Invalid Workflow '' @ label @ '' schema'')
            | _ \<Rightarrow> Inl (PyExn (AttributeError ''rstrip'')))
      | _ \<Rightarrow> invalid (''Workflow '' @ label @ '' schema must be an object''))"

text \<open>The end that \<open>validate_data\<close> and \<open>validate_step_data\<close> share.\<close>

definition check_instance :: "wf_lib \<Rightarrow> (string \<times> json) option \<Rightarrow> string \<Rightarrow> json \<Rightarrow> wf_exn + unit" where
  "check_instance L validator label v =
     (case validator of
        None \<Rightarrow> Inr ()
      | Some (dialect, schema) \<Rightarrow>
          (case wl_validate L dialect schema v of
             Valid \<Rightarrow> Inr ()
           | Violates keyword \<Rightarrow> invalid (''Workflow '' @ label @ '' violate schema ('' @ keyword @ '')'')
           | Unresolved \<Rightarrow> invalid (''Workflow '' @ label @ '' could not be validated'')))"

definition validate_data :: "wf_lib \<Rightarrow> workflow_definition \<Rightarrow> json \<Rightarrow> bool \<Rightarrow> wf_exn + unit" where
  "validate_data L d v outputs =
     (let label = (if outputs then ''outputs'' else ''inputs'');
          schema = (if outputs then wd_outputs_schema d else wd_inputs_schema d)
      in bindE (schema_validator L (JObj schema) label) (\<lambda>validator.
         case v of
           JObj _ \<Rightarrow> check_instance L validator label v
         | _ \<Rightarrow> invalid (''Workflow '' @ label @ '' must be an object'')))"

definition validate_step_data :: "wf_lib \<Rightarrow> workflow_step \<Rightarrow> json \<Rightarrow> bool \<Rightarrow> wf_exn + unit" where
  "validate_step_data L s v outputs =
     (case ws_data_bindings s of
        JNull \<Rightarrow> Inr ()
      | JObj contract \<Rightarrow>
          (let label = (if outputs then ''step outputs'' else ''step inputs'');
               schema = dict_get_or contract (if outputs then ''outputs_schema'' else ''inputs_schema'') (JObj [])
           in bindE (schema_validator L schema label) (\<lambda>validator.
              if 96 * 1024 < int (length (json_text (wl_float L) True '', '' '': '' v))
              then invalid (''Workflow '' @ label @ '' exceed 96 KiB'')
              else check_instance L validator label v))
      | _ \<Rightarrow> Inl (PyExn (AttributeError ''get'')))"

section \<open>Pointers\<close>

text \<open>\<open>re.search(r"~(?![01])", s)\<close>\<close>

fun bad_escape :: "string \<Rightarrow> bool" where
  "bad_escape [] \<longleftrightarrow> False"
| "bad_escape (c # s) \<longleftrightarrow>
     c = CHR ''~'' \<and> (case s of [] \<Rightarrow> True | x # _ \<Rightarrow> x \<noteq> CHR ''0'' \<and> x \<noteq> CHR ''1'') \<or> bad_escape s"

definition unescape :: "string \<Rightarrow> string" where
  "unescape part = py_replace ''~0'' ''~'' (py_replace ''~1'' ''/'' part)"

definition pointer_parts :: "json \<Rightarrow> wf_exn + string list" where
  "pointer_parts pointer =
     (case pointer of
        JStr p \<Rightarrow>
          if 1024 < int (length p) \<or> (p \<noteq> [] \<and> \<not> startswith p ''/'') \<or> bad_escape p
          then invalid ''Invalid Workflow data pointer''
          else let parts = (if p = [] then [] else map unescape (py_split CHR ''/'' (tl p)))
               in if 32 < int (length parts) \<or> (\<exists>part \<in> set parts. startswith part ''_'')
                  then invalid ''Reserved or excessive Workflow data path''
                  else Inr parts
      | _ \<Rightarrow> invalid ''Invalid Workflow data pointer'')"

section \<open>Data bindings\<close>

text \<open>\<open>[A-Za-z][A-Za-z0-9_.-]{0,127}\<close>\<close>

definition target_name :: "string \<Rightarrow> bool" where
  "target_name t \<longleftrightarrow>
     (case t of
        [] \<Rightarrow> False
      | c # s \<Rightarrow> (in_range c 65 90 \<or> in_range c 97 122) \<and> length s \<le> 127 \<and>
          (\<forall>x \<in> set s. is_alnum_ascii x \<or> x \<in> set ''_.-''))"

definition validate_reference :: "workflow_step \<Rightarrow> string \<times> json \<Rightarrow> wf_exn + unit" where
  "validate_reference s = (\<lambda>(target, source).
     case source of
       JObj ref \<Rightarrow>
         bindE (guard (target_name target \<and> target \<notin> set (map fst (ws_params s)) \<and>
                 dict_get ref ''source'' \<in> {Some (JStr ''inputs''), Some (JStr ''step'')})
           ''Invalid or conflicting Workflow data target'') (\<lambda>_.
         bindE (guard (dict_get ref ''source'' = Some (JStr ''inputs'') \<or>
                 dict_get ref ''step_id'' \<in> Some ` JStr ` set (ws_depends_on s))
           ''Workflow data source must be a declared dependency'') (\<lambda>_.
         bindE (guard (set (map fst ref) \<subseteq> {''source'', ''pointer''} \<union>
                 (if dict_get ref ''source'' = Some (JStr ''step'') then {''step_id''} else {}))
           ''Unknown Workflow data source field'') (\<lambda>_.
         bindE (pointer_parts (dict_get_or ref ''pointer'' (JStr []))) (\<lambda>_. Inr ()))))
     | _ \<Rightarrow> invalid ''Invalid or conflicting Workflow data target'')"

definition validate_step_bindings :: "wf_lib \<Rightarrow> workflow_step \<Rightarrow> wf_exn + unit" where
  "validate_step_bindings L s =
     (case ws_data_bindings s of
        JNull \<Rightarrow> Inr ()
      | JObj contract \<Rightarrow>
          bindE (guard (set (map fst contract) \<subseteq> {''schema_version'', ''inputs'', ''inputs_schema'', ''outputs_schema''} \<and>
                  dict_get contract ''schema_version'' = Some (JInt 1))
            ''Unsupported Workflow data binding contract'') (\<lambda>_.
          bindE (case dict_get_or contract ''inputs'' (JObj []) of
              JObj bindings \<Rightarrow>
                if 64 < int (length bindings) then invalid ''Workflow data bindings require at most 64 targets''
                else for_each (validate_reference s) bindings
            | _ \<Rightarrow> invalid ''Workflow data bindings require at most 64 targets'') (\<lambda>_.
          for_each (\<lambda>key. bindE (schema_validator L (dict_get_or contract key (JObj [])) (''step '' @ key)) (\<lambda>_. Inr ()))
            [''inputs_schema'', ''outputs_schema'']))
      | _ \<Rightarrow> invalid ''Unsupported Workflow data binding contract'')"

text \<open>A list index: \<open>0|[1-9][0-9]*\<close>, at most nine digits.\<close>

definition list_index :: "string \<Rightarrow> nat option" where
  "list_index part =
     (if part \<noteq> [] \<and> (\<forall>c \<in> set part. in_range c 48 57) \<and> (part = ''0'' \<or> hd part \<noteq> CHR ''0'') \<and> length part < 10
      then Some (foldl (\<lambda>n c. 10 * n + (of_char c - 48)) 0 part) else None)"

definition unavailable :: "wf_exn + 'a" where
  "unavailable = invalid ''Workflow data source path is unavailable''"

definition follow_part :: "json \<Rightarrow> string \<Rightarrow> wf_exn + json" where
  "follow_part v part =
     (case v of
        JObj kvs \<Rightarrow> (case dict_get kvs part of Some w \<Rightarrow> Inr w | None \<Rightarrow> unavailable)
      | JList xs \<Rightarrow>
          (case list_index part of Some i \<Rightarrow> if i < length xs then Inr (xs ! i) else unavailable | None \<Rightarrow> unavailable)
      | _ \<Rightarrow> unavailable)"

fun follow :: "json \<Rightarrow> string list \<Rightarrow> wf_exn + json" where
  "follow v [] = Inr v"
| "follow v (part # parts) = bindE (follow_part v part) (\<lambda>w. follow w parts)"

text \<open>\<open>d[k]\<close> on JSON, where the code has checked neither the type nor the key.\<close>

definition json_item :: "json \<Rightarrow> string \<Rightarrow> wf_exn + json" where
  "json_item v k = lift_py (bindE (as_obj v) (\<lambda>d. rd_item d k))"

definition resolve_reference :: "jobj \<Rightarrow> jobj \<Rightarrow> json \<Rightarrow> wf_exn + json" where
  "resolve_reference inputs outputs ref =
     bindE (json_item ref ''source'') (\<lambda>source.
     bindE (if source = JStr ''inputs'' then Inr (JObj inputs)
            else bindE (json_item ref ''step_id'') (\<lambda>sid.
              bindE (lift_py (as_text sid)) (\<lambda>sid. lift_py (rd_item outputs sid)))) (\<lambda>value.
     bindE (lift_py (as_obj ref)) (\<lambda>r.
     bindE (pointer_parts (dict_get_or r ''pointer'' (JStr []))) (\<lambda>parts. follow value parts))))"

fun resolve_targets :: "jobj \<Rightarrow> jobj \<Rightarrow> jobj \<Rightarrow> jobj \<Rightarrow> wf_exn + jobj" where
  "resolve_targets inputs outputs [] params = Inr params"
| "resolve_targets inputs outputs ((target, ref) # bindings) params =
     bindE (resolve_reference inputs outputs ref) (\<lambda>value.
       resolve_targets inputs outputs bindings (dict_set target value params))"

text \<open>The \<open>inputs\<close> table of a contract that has been validated.\<close>

definition contract_inputs :: "workflow_step \<Rightarrow> jobj" where
  "contract_inputs s =
     (case ws_data_bindings s of
        JObj contract \<Rightarrow> (case dict_get_or contract ''inputs'' (JObj []) of JObj b \<Rightarrow> b | _ \<Rightarrow> [])
      | _ \<Rightarrow> [])"

definition resolve_step_bindings :: "wf_lib \<Rightarrow> workflow_step \<Rightarrow> jobj \<Rightarrow> jobj \<Rightarrow> wf_exn + jobj" where
  "resolve_step_bindings L s inputs outputs =
     bindE (validate_step_bindings L s) (\<lambda>_.
       if ws_data_bindings s = JNull then Inr (ws_params s)
       else bindE (resolve_targets inputs outputs (contract_inputs s) (ws_params s)) (\<lambda>params.
         bindE (validate_step_data L s (JObj params) False) (\<lambda>_. Inr params)))"

section \<open>Validation\<close>

text \<open>
  \<open>visit\<close>: the sets \<open>visiting\<close> and \<open>visited\<close> are passed along. The depth of the recursion is bounded by
  the first argument; it is enough when it exceeds the number of steps, since \<open>visiting\<close> grows on
  the way down. Python's own limit on the recursion is not modelled.
\<close>

fun fold_steps :: "('a \<Rightarrow> 's \<Rightarrow> 'e + 's) \<Rightarrow> 'a list \<Rightarrow> 's \<Rightarrow> 'e + 's" where
  "fold_steps f [] s = Inr s"
| "fold_steps f (x # xs) s = bindE (f x s) (fold_steps f xs)"

definition cycle_error :: wf_exn where
  "cycle_error = WorkflowValidationError ''workflow contains a cycle''"

fun visit :: "nat \<Rightarrow> (string, string list) dict \<Rightarrow> string set \<Rightarrow> string \<Rightarrow> string set \<Rightarrow> wf_exn + string set" where
  "visit 0 edges visiting step_id visited = Inl (PyExn OutsideModel)"
| "visit (Suc depth) edges visiting step_id visited =
     (if step_id \<in> visiting then Inl cycle_error
      else if step_id \<in> visited then Inr visited
      else case dict_get edges step_id of
          None \<Rightarrow> Inl (PyExn (KeyError step_id))
        | Some deps \<Rightarrow>
            bindE (fold_steps (visit depth edges (insert step_id visiting)) deps visited)
              (\<lambda>visited. Inr (insert step_id visited)))"

definition step_edges :: "workflow_step list \<Rightarrow> (string, string list) dict" where
  "step_edges steps = map (\<lambda>s. (ws_step_id s, ws_depends_on s)) steps"

definition check_cycles :: "workflow_step list \<Rightarrow> wf_exn + string set" where
  "check_cycles steps =
     fold_steps (visit (Suc (length steps)) (step_edges steps) {}) (map ws_step_id steps) {}"

definition check_step :: "wf_lib \<Rightarrow> string set \<Rightarrow> workflow_step \<Rightarrow> wf_exn + unit" where
  "check_step L known s =
     bindE (guard (ws_step_type s \<noteq> ST_CAPABILITY \<or> ws_action s \<noteq> []) ''capability steps require an action'') (\<lambda>_.
     bindE (let missing = sort (remdups (filter (\<lambda>d. d \<notin> known) (ws_depends_on s))) in
            guard (missing = []) (''unknown dependencies for '' @ ws_step_id s @ '': '' @ py_repr_list missing)) (\<lambda>_.
     bindE (guard (ws_step_id s \<notin> set (ws_depends_on s)) (''self dependency: '' @ ws_step_id s)) (\<lambda>_.
     bindE (validate_step_bindings L s) (\<lambda>_.
     bindE (guard (0 \<le> ws_retries s \<and> ws_retries s \<le> 10) ''workflow retries must be between 0 and 10'') (\<lambda>_.
       guard (0 < ws_timeout_seconds s) ''workflow timeout must be finite and positive'')))))"

definition validate :: "wf_lib \<Rightarrow> workflow_definition \<Rightarrow> wf_exn + unit" where
  "validate L d =
     bindE (guard (wd_workflow_id d \<noteq> [] \<and> wd_version d \<noteq> []) ''workflow_id and version are required'') (\<lambda>_.
     bindE (schema_validator L (JObj (wd_inputs_schema d)) ''inputs'') (\<lambda>_.
     bindE (schema_validator L (JObj (wd_outputs_schema d)) ''outputs'') (\<lambda>_.
     let ids = map ws_step_id (wd_steps d) in
     bindE (guard (distinct ids \<and> [] \<notin> set ids) ''workflow step ids must be unique and non-empty'') (\<lambda>_.
     bindE (for_each (check_step L (set ids)) (wd_steps d)) (\<lambda>_.
     bindE (check_cycles (wd_steps d)) (\<lambda>_. Inr ()))))))"

section \<open>Compilation\<close>

definition default_capability :: "(step_type, string) dict" where
  "default_capability =
     [(ST_AGENT, ''agent.execute''), (ST_CONNECTOR, ''connector.execute''), (ST_COMMAND, ''device.pc.exec''),
      (ST_APPROVAL, ''governance.approval''), (ST_CONDITION, ''workflow.condition''),
      (ST_WAIT, ''workflow.wait''), (ST_TRANSFORM, ''workflow.transform'')]"

definition wf_capability :: "step_type \<Rightarrow> string \<Rightarrow> wf_exn + string" where
  "wf_capability st action =
     (if st = ST_CAPABILITY \<and> action \<noteq> [] then Inr action
      else case dict_get default_capability st of
          Some c \<Rightarrow> Inr c
        | None \<Rightarrow> Inl (PyExn (KeyError (step_type_value st))))"

definition step_task :: "workflow_step \<Rightarrow> string \<Rightarrow> ptask" where
  "step_task s capability =
     \<lparr>pt_description = ''Workflow step '' @ ws_step_id s, pt_task_id = ws_step_id s,
      pt_capability_id = capability,
      pt_params = fold (\<lambda>(k, v). dict_set k v) (ws_params s)
        [(''workflow_step'', JStr (ws_step_id s)), (''action'', JStr (ws_action s))],
      pt_status = TS_PENDING, pt_depends_on = ws_depends_on s, pt_expected_output = [],
      pt_retry_count = 0, pt_max_retries = ws_retries s,
      pt_timeout_seconds = max 1 \<lfloor>ws_timeout_seconds s\<rfloor>, pt_result = JNull, pt_error = [],
      pt_observations = [], pt_started_at = [], pt_completed_at = []\<rparr>"

definition compile_tasks :: "workflow_step list \<Rightarrow> wf_exn + ptask list" where
  "compile_tasks steps =
     mapE (\<lambda>s. bindE (wf_capability (ws_step_type s) (ws_action s)) (\<lambda>c. Inr (step_task s c))) steps"

definition compile :: "wf_lib \<Rightarrow> workflow_definition \<Rightarrow> wf_exn + task_graph" where
  "compile L d =
     bindE (validate L d) (\<lambda>_.
     bindE (compile_tasks (wd_steps d)) (\<lambda>tasks.
     bindE (lift_py (graph_build tasks)) (\<lambda>(g, _). Inr g)))"

section \<open>The search for cycles\<close>

definition requires :: "(string, string list) dict \<Rightarrow> (string \<times> string) set" where
  "requires edges = {(s, d). \<exists>deps. dict_get edges s = Some deps \<and> d \<in> set deps}"

definition edges_closed :: "(string, string list) dict \<Rightarrow> bool" where
  "edges_closed edges \<longleftrightarrow> (\<forall>(s, deps) \<in> set edges. set deps \<subseteq> set (map fst edges))"

text \<open>Steps that are done: closed under requirements, and on no cycle.\<close>

definition settled :: "(string, string list) dict \<Rightarrow> string set \<Rightarrow> bool" where
  "settled edges vs \<longleftrightarrow>
     (\<forall>x \<in> vs. \<forall>d. (x, d) \<in> requires edges \<longrightarrow> d \<in> vs) \<and> (\<forall>x \<in> vs. (x, x) \<notin> (requires edges)\<^sup>+)"

lemma settled_reach: "settled edges vs \<Longrightarrow> (x, y) \<in> (requires edges)\<^sup>+ \<Longrightarrow> x \<in> vs \<Longrightarrow> y \<in> vs"
  by (erule trancl_induct) (auto simp: settled_def)

lemma settled_insert:
  assumes "settled edges vs" and "x \<notin> vs" and "\<forall>d. (x, d) \<in> requires edges \<longrightarrow> d \<in> vs"
  shows "settled edges (insert x vs)"
proof -
  have "(x, x) \<notin> (requires edges)\<^sup>+"
  proof
    assume "(x, x) \<in> (requires edges)\<^sup>+"
    then obtain d where d: "(x, d) \<in> requires edges" "d = x \<or> (d, x) \<in> (requires edges)\<^sup>+"
      by (metis tranclD rtranclD)
    with assms settled_reach [OF assms(1), of d x] show False by blast
  qed
  with assms show ?thesis by (auto simp: settled_def)
qed

definition visit_ok :: "(string, string list) dict \<Rightarrow> string set \<Rightarrow> string set \<Rightarrow> bool" where
  "visit_ok edges visiting vs \<longleftrightarrow> settled edges vs \<and> vs \<inter> visiting = {}"

text \<open>What a visit of \<open>targets\<close> answers, from \<open>vs\<close>.\<close>

definition visit_answer ::
  "(string, string list) dict \<Rightarrow> string set \<Rightarrow> string set \<Rightarrow> string set \<Rightarrow> wf_exn + string set \<Rightarrow> bool" where
  "visit_answer edges visiting targets vs r \<longleftrightarrow>
     (case r of
        Inl e \<Rightarrow> e = cycle_error \<and> (\<exists>x. (x, x) \<in> (requires edges)\<^sup>+)
      | Inr vs' \<Rightarrow> vs \<subseteq> vs' \<and> targets \<subseteq> vs' \<and> visit_ok edges visiting vs')"

lemma fold_visit_answer:
  assumes "\<And>x vs. x \<in> set xs \<Longrightarrow> visit_ok edges visiting vs \<Longrightarrow> visit_answer edges visiting {x} vs (f x vs)"
    and "visit_ok edges visiting vs"
  shows "visit_answer edges visiting (set xs) vs (fold_steps f xs vs)"
  using assms
proof (induction xs arbitrary: vs)
  case (Cons x xs)
  have a: "visit_answer edges visiting {x} vs (f x vs)" using Cons.prems by simp
  show ?case
  proof (cases "f x vs")
    case (Inr vs')
    with a have v: "vs \<subseteq> vs'" "x \<in> vs'" "visit_ok edges visiting vs'" by (auto simp: visit_answer_def)
    from Cons.IH [OF Cons.prems(1) v(3)] have "visit_answer edges visiting (set xs) vs' (fold_steps f xs vs')" by simp
    with v Inr show ?thesis by (auto simp: visit_answer_def split: sum.splits)
  qed (use a in \<open>simp add: visit_answer_def\<close>)
qed (simp add: visit_answer_def)

lemma visit_answers:
  assumes "edges_closed edges" and "x \<in> set (map fst edges)" and "visiting \<subseteq> set (map fst edges)"
    and "card (set (map fst edges) - visiting) < n"
    and "\<forall>v \<in> visiting. (v, x) \<in> (requires edges)\<^sup>+" and "visit_ok edges visiting vs"
  shows "visit_answer edges visiting {x} vs (visit n edges visiting x vs)"
  using assms
proof (induction n arbitrary: visiting x vs)
  case (Suc n)
  let ?K = "set (map fst edges)"
  from Suc.prems(2) obtain deps where deps: "dict_get edges x = Some deps"
    using dict_get_None_iff [of edges x] by auto
  consider "x \<in> visiting" | "x \<notin> visiting" "x \<in> vs" | "x \<notin> visiting" "x \<notin> vs" by blast
  then show ?case
  proof cases
    case 1
    with Suc.prems(5) show ?thesis by (auto simp: visit_answer_def)
  next
    case 2
    with Suc.prems(6) show ?thesis by (simp add: visit_answer_def)
  next
    case 3
    let ?f = "visit n edges (insert x visiting)"
    have sub: "set deps \<subseteq> ?K"
      using Suc.prems(1) dict_get_in [OF deps] by (auto simp: edges_closed_def)
    have "card (?K - insert x visiting) < card (?K - visiting)"
      using 3(1) Suc.prems(2) by (intro psubset_card_mono) auto
    then have card: "card (?K - insert x visiting) < n" using Suc.prems(4) by simp
    have step: "visit_answer edges (insert x visiting) {d} vs' (?f d vs')"
      if "d \<in> set deps" "visit_ok edges (insert x visiting) vs'" for d vs'
    proof (rule Suc.IH [OF Suc.prems(1) _ _ card _ that(2)])
      have xd: "(x, d) \<in> requires edges" using deps that(1) by (auto simp: requires_def)
      with Suc.prems(5) show "\<forall>v \<in> insert x visiting. (v, d) \<in> (requires edges)\<^sup>+"
        by (auto intro: trancl_into_trancl)
    qed (use sub that(1) Suc.prems(2,3) in auto)
    have "visit_ok edges (insert x visiting) vs" using Suc.prems(6) 3(2) by (simp add: visit_ok_def)
    from fold_visit_answer [OF step this]
    have a: "visit_answer edges (insert x visiting) (set deps) vs (fold_steps ?f deps vs)" by simp
    show ?thesis
    proof (cases "fold_steps ?f deps vs")
      case (Inl e)
      with a 3 deps show ?thesis by (simp add: visit_answer_def)
    next
      case (Inr vs')
      with a have v: "vs \<subseteq> vs'" "set deps \<subseteq> vs'" "settled edges vs'" "x \<notin> vs'" "vs' \<inter> visiting = {}"
        by (auto simp: visit_answer_def visit_ok_def)
      have "settled edges (insert x vs')"
        using v deps by (intro settled_insert) (auto simp: requires_def)
      with v 3(1) show ?thesis using 3 deps Inr by (auto simp: visit_answer_def visit_ok_def)
    qed
  qed
qed simp

text \<open>The dependency relation of a list of steps.\<close>

definition depends :: "workflow_step list \<Rightarrow> (string \<times> string) set" where
  "depends steps = {(a, b). \<exists>s \<in> set steps. a = ws_step_id s \<and> b \<in> set (ws_depends_on s)}"

lemma requires_step_edges:
  assumes "distinct (map ws_step_id steps)"
  shows "requires (step_edges steps) = depends steps"
proof -
  have "wf_dict (step_edges steps)" using assms by (simp add: step_edges_def comp_def)
  then have "dict_get (step_edges steps) a = Some ds \<longleftrightarrow> (a, ds) \<in> set (step_edges steps)" for a ds
    by (auto intro: in_dict_get dest: dict_get_in)
  then show ?thesis by (auto simp: requires_def depends_def step_edges_def)
qed

lemma check_cycles_answer:
  assumes "distinct (map ws_step_id steps)"
    and "\<forall>s \<in> set steps. set (ws_depends_on s) \<subseteq> set (map ws_step_id steps)"
  shows "(\<exists>vs. check_cycles steps = Inr vs \<and> acyclic (depends steps)) \<or>
    (check_cycles steps = Inl cycle_error \<and> \<not> acyclic (depends steps))"
proof -
  let ?E = "step_edges steps" and ?ids = "map ws_step_id steps"
  have keys: "map fst ?E = ?ids" by (simp add: step_edges_def comp_def)
  have closed: "edges_closed ?E"
    using assms(2) unfolding edges_closed_def keys by (auto simp: step_edges_def)
  have "card (set ?ids - {}) < Suc (length steps)"
    using card_length [of ?ids] by simp
  then have "visit_answer ?E {} {x} vs (visit (Suc (length steps)) ?E {} x vs)"
    if "x \<in> set ?ids" "visit_ok ?E {} vs" for x vs
    using that closed by (intro visit_answers) (simp_all only: keys, auto)
  then have "visit_answer ?E {} (set ?ids) {} (check_cycles steps)"
    unfolding check_cycles_def by (intro fold_visit_answer) (auto simp: visit_ok_def settled_def)
  note answer = this [unfolded visit_answer_def requires_step_edges [OF assms(1)]]
  show ?thesis
  proof (cases "check_cycles steps")
    case (Inl e)
    with answer show ?thesis by (auto simp: acyclic_def)
  next
    case (Inr vs)
    have "(x, x) \<notin> (depends steps)\<^sup>+" for x
    proof
      assume x: "(x, x) \<in> (depends steps)\<^sup>+"
      then have "x \<in> set ?ids" by (auto dest!: tranclD simp: depends_def)
      with answer Inr x show False
        by (auto simp: visit_ok_def settled_def requires_step_edges [OF assms(1)])
    qed
    with Inr show ?thesis by (auto simp: acyclic_def)
  qed
qed

text \<open>What a valid step looks like.\<close>

definition step_valid :: "wf_lib \<Rightarrow> string set \<Rightarrow> workflow_step \<Rightarrow> bool" where
  "step_valid L known s \<longleftrightarrow>
     (ws_step_type s \<noteq> ST_CAPABILITY \<or> ws_action s \<noteq> []) \<and> set (ws_depends_on s) \<subseteq> known \<and>
     ws_step_id s \<notin> set (ws_depends_on s) \<and> validate_step_bindings L s = Inr () \<and>
     0 \<le> ws_retries s \<and> ws_retries s \<le> 10 \<and> 0 < ws_timeout_seconds s"

lemma check_step_Inr: "check_step L known s = Inr () \<longleftrightarrow> step_valid L known s"
proof -
  have "sort (remdups (filter (\<lambda>d. d \<notin> known) (ws_depends_on s))) = [] \<longleftrightarrow> set (ws_depends_on s) \<subseteq> known"
    by (metis (mono_tags) filter_empty_conv remdups_eq_nil_iff set_empty set_sort subsetI subset_iff)
  then show ?thesis
    by (auto simp: check_step_def step_valid_def bindE_eq_Inr Let_def)
qed

lemma validate_iff:
  "validate L d = Inr () \<longleftrightarrow>
     wd_workflow_id d \<noteq> [] \<and> wd_version d \<noteq> [] \<and>
     schema_validator L (JObj (wd_inputs_schema d)) ''inputs'' \<in> range Inr \<and>
     schema_validator L (JObj (wd_outputs_schema d)) ''outputs'' \<in> range Inr \<and>
     distinct (map ws_step_id (wd_steps d)) \<and> [] \<notin> set (map ws_step_id (wd_steps d)) \<and>
     (\<forall>s \<in> set (wd_steps d). step_valid L (set (map ws_step_id (wd_steps d))) s) \<and>
     acyclic (depends (wd_steps d))"
proof -
  have "(\<exists>vs. check_cycles (wd_steps d) = Inr vs) \<longleftrightarrow> acyclic (depends (wd_steps d))"
    if "distinct (map ws_step_id (wd_steps d))"
      and "\<forall>s \<in> set (wd_steps d). step_valid L (set (map ws_step_id (wd_steps d))) s"
    using check_cycles_answer [OF that(1)] that(2) unfolding step_valid_def by fastforce
  then show ?thesis
    by (auto simp: validate_def bindE_eq_Inr Let_def check_step_Inr image_iff Bex_def)
qed

lemma validD:
  assumes "validate L d = Inr ()"
  shows "distinct (map ws_step_id (wd_steps d))"
    and "s \<in> set (wd_steps d) \<Longrightarrow> step_valid L (set (map ws_step_id (wd_steps d))) s"
    and "acyclic (depends (wd_steps d))"
  using assms unfolding validate_iff by blast+

section \<open>Compiling valid definitions\<close>

lemma wf_capability_total: "st \<noteq> ST_CAPABILITY \<or> action \<noteq> [] \<Longrightarrow> \<exists>c. wf_capability st action = Inr c"
  by (cases st) (auto simp: wf_capability_def default_capability_def)

lemma compile_tasks_valid:
  assumes "\<forall>s \<in> set steps. ws_step_type s \<noteq> ST_CAPABILITY \<or> ws_action s \<noteq> []"
  obtains tasks where "compile_tasks steps = Inr tasks"
    and "list_all2 (\<lambda>s t. \<exists>c. t = step_task s c) steps tasks"
  using assms
proof (induction steps arbitrary: thesis)
  case (Cons s steps)
  from Cons.prems(2) wf_capability_total obtain c where "wf_capability (ws_step_type s) (ws_action s) = Inr c"
    by fastforce
  moreover obtain tasks where "compile_tasks steps = Inr tasks"
    and "list_all2 (\<lambda>s t. \<exists>c. t = step_task s c) steps tasks"
    using Cons.IH Cons.prems(2) by auto
  ultimately show ?case
    by (intro Cons.prems(1) [of "step_task s c # tasks"]) (auto simp: compile_tasks_def)
qed (simp add: compile_tasks_def)

lemma step_task_fields [simp]:
  "pt_task_id (step_task s c) = ws_step_id s" "pt_depends_on (step_task s c) = ws_depends_on s"
  "pt_status (step_task s c) = TS_PENDING"
  by (simp_all add: step_task_def)

lemma compiled_fields:
  assumes "list_all2 (\<lambda>s t. \<exists>c. t = step_task s c) steps tasks"
  shows "map pt_task_id tasks = map ws_step_id steps" and "map pt_depends_on tasks = map ws_depends_on steps"
    and "set (dep_edges tasks) = (depends steps)\<inverse>"
proof -
  show "map pt_task_id tasks = map ws_step_id steps" "map pt_depends_on tasks = map ws_depends_on steps"
    using assms by (induction rule: list_all2_induct) auto
  show "set (dep_edges tasks) = (depends steps)\<inverse>"
    using assms by (induction rule: list_all2_induct) (auto simp: dep_edges_def depends_def)
qed

text \<open>A valid definition compiles, to the graph of its tasks.\<close>

lemma compile_valid:
  assumes "validate L d = Inr ()"
  obtains g rts tasks where "compile L d = Inr g" and "graph_build tasks = Inr (g, rts)"
    and "list_all2 (\<lambda>s t. \<exists>c. t = step_task s c) (wd_steps d) tasks"
proof -
  note valid = validD [OF assms]
  from valid(2) have "\<forall>s \<in> set (wd_steps d). ws_step_type s \<noteq> ST_CAPABILITY \<or> ws_action s \<noteq> []"
    by (auto simp: step_valid_def)
  then obtain tasks where t: "compile_tasks (wd_steps d) = Inr tasks"
    "list_all2 (\<lambda>s t. \<exists>c. t = step_task s c) (wd_steps d) tasks"
    by (rule compile_tasks_valid)
  note f = compiled_fields [OF t(2)]
  have "distinct (map pt_task_id tasks)" unfolding f(1) by (rule valid(1))
  moreover have "set (concat (map pt_depends_on tasks)) \<subseteq> set (map pt_task_id tasks)"
    unfolding f using valid(2) by (auto simp: step_valid_def)
  moreover have "acyclic (set (dep_edges tasks))" using valid(3) by (simp add: f(3))
  ultimately obtain g rts where g: "graph_build tasks = Inr (g, rts)"
    using graph_build_iff [of tasks] by blast
  with assms t(1) have "compile L d = Inr g" by (simp add: compile_def)
  with g t(2) show ?thesis by (intro that)
qed

text \<open>The waves of a compiled definition, as step identifiers.\<close>

definition waves_of :: "task_graph \<Rightarrow> string list list" where
  "waves_of g = map (map en_task_id) (level_order g)"

lemma compile_waves:
  assumes "validate L d = Inr ()" and "compile L d = Inr g"
  shows "mset (concat (waves_of g)) = mset (map ws_step_id (wd_steps d))"
    and "i < length (waves_of g) \<Longrightarrow> s \<in> set (wd_steps d) \<Longrightarrow> ws_step_id s \<in> set (waves_of g ! i) \<Longrightarrow>
      b \<in> set (ws_depends_on s) \<Longrightarrow> \<exists>j < i. b \<in> set (waves_of g ! j)"
proof -
  obtain rts tasks where g: "graph_build tasks = Inr (g, rts)"
    and t: "list_all2 (\<lambda>s t. \<exists>c. t = step_task s c) (wd_steps d) tasks"
    using compile_valid [OF assms(1)] assms(2) by (metis sum.inject(2))
  note f = compiled_fields [OF t] and levels = graph_level_facts [OF g]
  have tasks: "map (en_task \<circ> snd) g = tasks" using levels by blast
  have ids: "map en_task_id (map snd g) = map ws_step_id (wd_steps d)"
    using arg_cong [OF tasks, of "map pt_task_id"] by (simp add: f(1) en_task_id_def comp_def)
  have "mset (concat (level_order g)) = mset (map snd g)" using levels by blast
  then have "mset (map en_task_id (concat (level_order g))) = mset (map en_task_id (map snd g))"
    by (metis mset_map)
  then show m: "mset (concat (waves_of g)) = mset (map ws_step_id (wd_steps d))"
    unfolding ids by (simp add: waves_of_def map_concat)
  assume i: "i < length (waves_of g)" and s: "s \<in> set (wd_steps d)" "ws_step_id s \<in> set (waves_of g ! i)"
    and b: "b \<in> set (ws_depends_on s)"
  then obtain n where n: "n \<in> set (level_order g ! i)" "en_task_id n = ws_step_id s"
    by (auto simp: waves_of_def)
  have "set (concat (level_order g)) = set (map snd g)"
    using levels by (metis mset_eq_setD)
  then have "n \<in> set (map snd g)" using n(1) i by (auto simp: waves_of_def)
  then have "en_task n \<in> set tasks" unfolding tasks [symmetric] by auto
  then obtain s' where s': "s' \<in> set (wd_steps d)" "pt_task_id (en_task n) = ws_step_id s'"
    "pt_depends_on (en_task n) = ws_depends_on s'"
    using t by (auto simp: list_all2_conv_all_nth in_set_conv_nth) (metis step_task_fields(1,2))
  with n(2) have "ws_step_id s' = ws_step_id s" by (simp add: en_task_id_def)
  then have "s' = s" using validD(1) [OF assms(1)] s(1) s'(1) by (metis distinct_map inj_onD)
  then have "b \<in> set (pt_depends_on (en_task n))" using b s'(3) by simp
  with levels n(1) i obtain j m where "j < i" "m \<in> set (level_order g ! j)" "en_task_id m = b"
    unfolding waves_of_def by (metis length_map)
  then show "\<exists>j < i. b \<in> set (waves_of g ! j)" using i by (auto simp: waves_of_def intro!: exI [of _ j])
qed

section \<open>Pointers and bindings\<close>

text \<open>The escaping of the pointer syntax: \<open>~\<close> as \<open>~0\<close>, \<open>/\<close> as \<open>~1\<close>.\<close>

definition escape_char :: "char \<Rightarrow> string" where
  "escape_char c = (if c = CHR ''~'' then ''~0'' else if c = CHR ''/'' then ''~1'' else [c])"

definition pointer_text :: "string list \<Rightarrow> string" where
  "pointer_text parts = concat (map (\<lambda>p. CHR ''/'' # concat (map escape_char p)) parts)"

lemma replace_slash:
  "py_replace ''~1'' ''/'' (concat (map escape_char p)) = concat (map (\<lambda>c. if c = CHR ''~'' then ''~0'' else [c]) p)"
proof (induction p)
  case (Cons c p)
  have skip: "x \<noteq> CHR ''~'' \<Longrightarrow> py_replace ''~1'' ''/'' (x # s) = x # py_replace ''~1'' ''/'' s" for x s
    by (subst py_replace.simps) (simp add: startswith_def)
  show ?case
    by (cases "c = CHR ''~'' \<or> c = CHR ''/''")
      (use Cons skip in \<open>auto simp: escape_char_def py_replace.simps [of _ _ "CHR ''~'' # _"] startswith_def\<close>)
qed simp

lemma replace_tilde:
  "py_replace ''~0'' ''~'' (concat (map (\<lambda>c. if c = CHR ''~'' then ''~0'' else [c]) p)) = p"
  by (induction p) (simp, subst py_replace.simps, auto simp: startswith_def)

lemma unescape_escape: "unescape (concat (map escape_char p)) = p"
  by (simp add: unescape_def replace_slash replace_tilde)

lemma split_escaped:
  "py_split CHR ''/'' (concat (map escape_char p) @ pointer_text ps) =
     concat (map escape_char p) # (if ps = [] then [] else py_split CHR ''/'' (tl (pointer_text ps)))"
proof (induction p)
  case Nil
  then show ?case by (cases ps) (simp_all add: pointer_text_def)
qed (auto simp: escape_char_def)

lemma split_pointer:
  "ps \<noteq> [] \<Longrightarrow> py_split CHR ''/'' (tl (pointer_text ps)) = map (\<lambda>p. concat (map escape_char p)) ps"
proof (induction ps)
  case (Cons p ps)
  have "tl (pointer_text (p # ps)) = concat (map escape_char p) @ pointer_text ps"
    by (simp add: pointer_text_def)
  with Cons.IH show ?case by (simp only: split_escaped) simp
qed simp

lemma bad_escape_escaped: "bad_escape (concat (map escape_char p) @ s) = bad_escape s"
  by (induction p) (auto simp: escape_char_def)

lemma bad_escape_pointer: "\<not> bad_escape (pointer_text ps)"
  by (induction ps) (auto simp: pointer_text_def bad_escape_escaped)

lemma pointer_text_Nil [simp]: "pointer_text ps = [] \<longleftrightarrow> ps = []"
  by (cases ps) (simp_all add: pointer_text_def)

lemma pointer_parts_text:
  assumes "length (pointer_text ps) \<le> 1024" and "length ps \<le> 32" and "\<forall>p \<in> set ps. \<not> startswith p ''_''"
  shows "pointer_parts (JStr (pointer_text ps)) = Inr ps"
proof -
  have "startswith (pointer_text ps) ''/''" if "ps \<noteq> []"
    using that by (cases ps) (simp_all add: pointer_text_def startswith_def)
  moreover have "(if pointer_text ps = [] then []
      else map unescape (py_split CHR ''/'' (tl (pointer_text ps)))) = ps"
    using split_pointer [of ps] by (simp add: unescape_escape comp_def)
  ultimately show ?thesis
    using assms bad_escape_pointer [of ps] unfolding pointer_parts_def json.case Let_def
    by (cases "ps = []") simp_all
qed

lemma validated_references:
  assumes "validate_step_bindings L s = Inr ()" and "(target, ref) \<in> set (contract_inputs s)"
  shows "validate_reference s (target, ref) = Inr ()"
  using assms
  by (auto simp: validate_step_bindings_def contract_inputs_def bindE_eq_Inr split: json.splits if_splits)

lemma valid_reference_target:
  "validate_reference s (target, ref) = Inr () \<Longrightarrow> target \<notin> set (map fst (ws_params s))"
  by (auto simp: validate_reference_def bindE_eq_Inr invalid_def split: json.splits)

lemma valid_reference_reads:
  assumes "validate_reference s (target, ref) = Inr ()"
    and "\<forall>b \<in> set (ws_depends_on s). dict_get outputs' b = dict_get outputs b"
  shows "resolve_reference inputs outputs' ref = resolve_reference inputs outputs ref"
proof -
  from assms(1) obtain r where r: "ref = JObj r"
    "dict_get r ''source'' = Some (JStr ''inputs'') \<or> dict_get r ''source'' = Some (JStr ''step'')"
    "dict_get r ''source'' = Some (JStr ''inputs'') \<or> dict_get r ''step_id'' \<in> Some ` JStr ` set (ws_depends_on s)"
    by (cases ref) (auto simp: validate_reference_def bindE_eq_Inr invalid_def)
  then show ?thesis
    using assms(2) by (auto simp: resolve_reference_def json_item_def rd_item_def as_text_def)
qed

lemma resolve_targets_result:
  assumes "resolve_targets inputs outputs bs params = Inr r" and "wf_dict bs"
  shows "k \<notin> set (map fst bs) \<Longrightarrow> dict_get r k = dict_get params k"
    and "(target, ref) \<in> set bs \<Longrightarrow>
      \<exists>v. resolve_reference inputs outputs ref = Inr v \<and> dict_get r target = Some v"
proof -
  have "(k \<notin> set (map fst bs) \<longrightarrow> dict_get r k = dict_get params k) \<and>
      ((target, ref) \<in> set bs \<longrightarrow> (\<exists>v. resolve_reference inputs outputs ref = Inr v \<and> dict_get r target = Some v))"
    for k target ref
    using assms
  proof (induction inputs outputs bs params arbitrary: k target ref rule: resolve_targets.induct)
    case (2 inputs outputs t rf bindings params)
    from 2(2) obtain v where v: "resolve_reference inputs outputs rf = Inr v"
      "resolve_targets inputs outputs bindings (dict_set t v params) = Inr r"
      by (auto simp: bindE_eq_Inr)
    have wf: "wf_dict bindings" "t \<notin> set (map fst bindings)" using 2(3) by auto
    note IH = 2(1) [OF v(2) wf(1)]
    have "dict_get r t = Some v" using IH [of t] wf(2) by simp
    with v(1) IH [of k target ref] show ?case by auto
  qed simp
  then show "k \<notin> set (map fst bs) \<Longrightarrow> dict_get r k = dict_get params k"
    and "(target, ref) \<in> set bs \<Longrightarrow>
      \<exists>v. resolve_reference inputs outputs ref = Inr v \<and> dict_get r target = Some v" by blast+
qed

lemma resolve_targets_reads:
  "(\<And>target ref. (target, ref) \<in> set bs \<Longrightarrow> resolve_reference inputs outputs' ref = resolve_reference inputs outputs ref) \<Longrightarrow>
     resolve_targets inputs outputs' bs params = resolve_targets inputs outputs bs params"
proof (induction bs arbitrary: params)
  case (Cons b bs)
  obtain t rf where b: "b = (t, rf)" by (cases b)
  have "resolve_reference inputs outputs' rf = resolve_reference inputs outputs rf"
    using Cons.prems [of t rf] b by simp
  moreover have "resolve_targets inputs outputs' bs = resolve_targets inputs outputs bs"
    using Cons.IH Cons.prems by (intro ext) auto
  ultimately show ?case by (simp add: b)
qed simp

section \<open>Samples\<close>

definition sample_lib :: wf_lib where
  "sample_lib = \<lparr>wl_dialects = [], wl_default_dialect = ''d'', wl_check_schema = (\<lambda>_ _. True),
     wl_validate = (\<lambda>_ _ _. Valid), wl_float = (\<lambda>_. ''0.0''), wl_sha256 = (\<lambda>t. t), wl_known = []\<rparr>"

definition sample_step :: "string \<Rightarrow> step_type \<Rightarrow> string list \<Rightarrow> workflow_step" where
  "sample_step i st deps =
     \<lparr>ws_step_id = i, ws_step_type = st, ws_action = [], ws_depends_on = deps, ws_condition = [],
      ws_retries = 1, ws_timeout_seconds = 5/2, ws_approval_required = False, ws_compensation = [],
      ws_params = [], ws_data_bindings = JNull\<rparr>"

definition sample_workflow :: workflow_definition where
  "sample_workflow =
     \<lparr>wd_workflow_id = ''w'', wd_version = ''1'', wd_trigger = TR_MANUAL,
      wd_steps = [sample_step ''b'' ST_WAIT [''a''], sample_step ''a'' ST_AGENT [], sample_step ''c'' ST_WAIT [''a'', ''b'']],
      wd_inputs_schema = [], wd_outputs_schema = [], wd_audit_metadata = []\<rparr>"

lemma sample_workflow_valid: "validate sample_lib sample_workflow = Inr ()"
  by code_simp

section \<open>Properties\<close>

text \<open>
  What is accepted. C10: a definition is valid exactly when it has an identifier and a version,
  usable schemas, steps with different non-empty identifiers, each of them well formed with its
  dependencies among the steps, and no cycle of dependencies. In particular the depth-first search
  refuses cycles and nothing else.
\<close>
theorem workflow_validation:
  "validate L d = Inr () \<longleftrightarrow>
     wd_workflow_id d \<noteq> [] \<and> wd_version d \<noteq> [] \<and>
     schema_validator L (JObj (wd_inputs_schema d)) ''inputs'' \<in> range Inr \<and>
     schema_validator L (JObj (wd_outputs_schema d)) ''outputs'' \<in> range Inr \<and>
     distinct (map ws_step_id (wd_steps d)) \<and> [] \<notin> set (map ws_step_id (wd_steps d)) \<and>
     list_all (step_valid L (set (map ws_step_id (wd_steps d)))) (wd_steps d) \<and>
     acyclic {(a, b). list_ex (\<lambda>s. a = ws_step_id s \<and> b \<in> set (ws_depends_on s)) (wd_steps d)}"
  unfolding validate_iff depends_def list_all_iff list_ex_iff by blast

text \<open>
  Compilation never fails on its own. A valid definition compiles (its graph has no cycle and
  no missing node, its capabilities are all known), an invalid one is refused with the error of the
  validation; the waves of the compiled graph hold every step exactly once, and every step in a
  later wave than all it depends on.
\<close>
lemma workflow_compiles:
  assumes "validate L d = Inr ()"
  shows "\<exists>g. compile L d = Inr g \<and>
    mset (concat (waves_of g)) = mset (map ws_step_id (wd_steps d)) \<and>
    (\<forall>i < length (waves_of g). \<forall>s \<in> set (wd_steps d). ws_step_id s \<in> set (waves_of g ! i) \<longrightarrow>
       (\<forall>b \<in> set (ws_depends_on s). \<exists>j < i. b \<in> set (waves_of g ! j)))"
proof -
  obtain g where "compile L d = Inr g" using compile_valid [OF assms] by metis
  with compile_waves [OF assms this] show ?thesis by blast
qed

lemma workflow_compiles_witness:
  "\<exists>g. compile sample_lib sample_workflow = Inr g \<and>
     mset (concat (waves_of g)) = {#''a'', ''b'', ''c''#}"
proof -
  from workflow_compiles [OF sample_workflow_valid] obtain g where
    "compile sample_lib sample_workflow = Inr g"
    "mset (concat (waves_of g)) = mset (map ws_step_id (wd_steps sample_workflow))" by blast
  then show ?thesis by (simp add: sample_workflow_def sample_step_def add_mset_commute)
qed

text \<open>
  Pointers. Decoding the escaped text of a path gives the path back, for every path the
  limits allow; and no accepted pointer ever leads into a reserved (underscore) name or is
  deeper than 32 parts.
\<close>
lemma pointer_roundtrip:
  assumes "length (pointer_text ps) \<le> 1024" and "length ps \<le> 32" and "\<forall>p \<in> set ps. \<not> startswith p ''_''"
  shows "pointer_parts (JStr (pointer_text ps)) = Inr ps \<and>
    (\<forall>v qs. pointer_parts v = Inr qs \<longrightarrow> length qs \<le> 32 \<and> (\<forall>q \<in> set qs. \<not> startswith q ''_''))"
  using pointer_parts_text [OF assms]
  by (auto simp: pointer_parts_def invalid_def Let_def split: json.splits if_splits)

lemma pointer_roundtrip_witness:
  "pointer_parts (JStr ''/a~1b/~0/3'') = Inr [''a/b'', ''~'', ''3'']"
  using pointer_roundtrip [of "[''a/b'', ''~'', ''3'']"]
  by (simp add: pointer_text_def escape_char_def startswith_def)

text \<open>
  Bindings resolve data only. Resolved parameters keep every declared parameter, give
  each bound target the value its reference points to, and depend on nothing but the inputs
  of the run and the outputs of declared dependencies: other outputs may be anything.
\<close>
lemma bindings_resolve:
  assumes "resolve_step_bindings L s inputs outputs = Inr params" and "wf_dict (contract_inputs s)"
  shows "(\<forall>k \<in> set (map fst (ws_params s)). dict_get params k = dict_get (ws_params s) k) \<and>
    (\<forall>(target, ref) \<in> set (contract_inputs s).
       \<exists>v. resolve_reference inputs outputs ref = Inr v \<and> dict_get params target = Some v) \<and>
    (\<forall>outputs'. (\<forall>b \<in> set (ws_depends_on s). dict_get outputs' b = dict_get outputs b) \<longrightarrow>
       resolve_step_bindings L s inputs outputs' = Inr params)"
proof (cases "ws_data_bindings s = JNull")
  case True
  with assms(1) show ?thesis by (auto simp: resolve_step_bindings_def bindE_eq_Inr contract_inputs_def)
next
  case False
  with assms(1) have v: "validate_step_bindings L s = Inr ()"
    and r: "resolve_targets inputs outputs (contract_inputs s) (ws_params s) = Inr params"
    by (auto simp: resolve_step_bindings_def bindE_eq_Inr)
  note result = resolve_targets_result [OF r assms(2)] and ref = validated_references [OF v]
  have reads: "resolve_targets inputs outputs' (contract_inputs s) (ws_params s) =
      resolve_targets inputs outputs (contract_inputs s) (ws_params s)"
    if "\<forall>b \<in> set (ws_depends_on s). dict_get outputs' b = dict_get outputs b" for outputs'
    using valid_reference_reads [OF ref that] by (intro resolve_targets_reads)
  have new: "k \<notin> set (map fst (contract_inputs s))" if "k \<in> set (map fst (ws_params s))" for k
  proof
    assume "k \<in> set (map fst (contract_inputs s))"
    then obtain rf where "(k, rf) \<in> set (contract_inputs s)" by auto
    then have "k \<notin> set (map fst (ws_params s))" by (intro valid_reference_target ref)
    with that show False by blast
  qed
  show ?thesis
  proof (intro conjI ballI allI impI)
    show "dict_get params k = dict_get (ws_params s) k" if "k \<in> set (map fst (ws_params s))" for k
      using result(1) new [OF that] .
    show "case b of (target, ref) \<Rightarrow>
        \<exists>v. resolve_reference inputs outputs ref = Inr v \<and> dict_get params target = Some v"
      if "b \<in> set (contract_inputs s)" for b
      using result(2) that by (cases b) simp
    show "resolve_step_bindings L s inputs outputs' = Inr params"
      if "\<forall>b \<in> set (ws_depends_on s). dict_get outputs' b = dict_get outputs b" for outputs'
      using assms(1) unfolding resolve_step_bindings_def reads [OF that] .
  qed
qed

definition bound_step :: workflow_step where
  "bound_step = (sample_step ''b'' ST_AGENT [''a''])\<lparr>ws_params := [(''mode'', JStr ''fast'')],
     ws_data_bindings := JObj [(''schema_version'', JInt 1),
       (''inputs'', JObj [(''item'', JObj [(''source'', JStr ''step''), (''step_id'', JStr ''a''),
         (''pointer'', JStr ''/list/1'')])])]\<rparr>"

lemma bound_step_resolves:
  "resolve_step_bindings sample_lib bound_step [] [(''a'', JObj [(''list'', JList [JInt 4, JInt 5])])] =
     Inr [(''mode'', JStr ''fast''), (''item'', JInt 5)]"
  by code_simp

lemma bindings_resolve_witness:
  "resolve_step_bindings sample_lib bound_step []
     [(''z'', JNull), (''a'', JObj [(''list'', JList [JInt 4, JInt 5])])] =
     Inr [(''mode'', JStr ''fast''), (''item'', JInt 5)]"
  using bindings_resolve [OF bound_step_resolves]
  by (simp add: bound_step_def sample_step_def contract_inputs_def dict_get_or_def)

end
