(* ===== verification/Workflow_Store.thy ===== *)
theory Workflow_Store
  imports Workflow_Compiler
begin

text \<open>
  Persistence of workflows (\<open>nous_runtime/workflow/store.py\<close>): the five tables as lists of rows
  in the order of their row ids, one function per transaction. A transaction that raises is
  rolled back, so an error carries no state. JSON columns hold the value that \<open>json.loads\<close> gives
  back for the text \<open>_safe_json\<close> writes: redacted, with sorted keys. SHA-256 is the parameter
  \<open>wl_sha256\<close>; run identifiers, which the program draws at random, are arguments, and so is the
  outcome of the callback \<open>before_publish\<close>. File locks are not part of the model.
\<close>

section \<open>Values\<close>

definition safe_json :: "wf_lib \<Rightarrow> json \<Rightarrow> json" where
  "safe_json L v = json_sort (redact_sensitive_data (wl_known L) v)"

definition binding_digest :: "wf_lib \<Rightarrow> json \<Rightarrow> string" where
  "binding_digest L v = wl_sha256 L (json_text (wl_float L) False '','' '':'' (json_sort v))"

definition binding_error :: "string \<Rightarrow> wf_exn + 'a" where
  "binding_error msg = Inl (WorkflowBindingError msg)"

lemma binding_error_neq [simp]: "binding_error msg \<noteq> Inr x" "Inr x \<noteq> binding_error msg"
  by (simp_all add: binding_error_def)

definition require_unredacted :: "wf_lib \<Rightarrow> json \<Rightarrow> wf_exn + unit" where
  "require_unredacted L v =
     (if redact_sensitive_data (wl_known L) v \<noteq> v
      then binding_error ''Credential material cannot enter Workflow bindings'' else Inr ())"

definition definition_digest :: "wf_lib \<Rightarrow> workflow_definition \<Rightarrow> string" where
  "definition_digest L d = binding_digest L (JObj (definition_to_dict d))"

definition inputs_digest :: "wf_lib \<Rightarrow> jobj \<Rightarrow> string" where
  "inputs_digest L inputs = binding_digest L (JObj (filter (\<lambda>(k, v). k \<noteq> ''_approved_steps'') inputs))"

definition run_dict :: "workflow_run \<Rightarrow> jobj" where
  "run_dict r =
     [(''workflow_id'', JStr (wr_workflow_id r)), (''workflow_version'', JStr (wr_workflow_version r)),
      (''inputs'', JObj (wr_inputs r)), (''run_id'', JStr (wr_run_id r)),
      (''state'', JStr (workflow_state_value (wr_state r))), (''step_states'', JObj (wr_step_states r)),
      (''outputs'', JObj (wr_outputs r)), (''error'', JStr (wr_error r)),
      (''idempotency_key'', JStr (wr_idempotency_key r)),
      (''cancellation_requested'', JBool (wr_cancellation_requested r)),
      (''definition_digest'', JStr (wr_definition_digest r)),
      (''inputs_digest'', JStr (wr_inputs_digest r)), (''revision'', JInt (wr_revision r))]"

definition run_from_dict :: "jobj \<Rightarrow> pyexn + workflow_run" where
  "run_from_dict data =
     bindE (bindE (rd_item data ''workflow_id'') py_str) (\<lambda>workflow_id.
     bindE (bindE (rd_item data ''workflow_version'') py_str) (\<lambda>version.
     bindE (rd_dict data ''inputs'') (\<lambda>inputs.
     bindE (bindE (rd_item data ''run_id'') py_str) (\<lambda>run_id.
     bindE (bindE (rd_str data ''state'' ''pending'') workflow_state_of) (\<lambda>state.
     bindE (rd_dict data ''step_states'') (\<lambda>step_states.
     bindE (rd_dict data ''outputs'') (\<lambda>outputs.
     bindE (rd_str data ''error'' []) (\<lambda>error.
     bindE (rd_str data ''idempotency_key'' []) (\<lambda>key.
     bindE (rd_str data ''definition_digest'' []) (\<lambda>definition_digest.
     bindE (rd_str data ''inputs_digest'' []) (\<lambda>inputs_digest.
     bindE (rd_int data ''revision'' 0) (\<lambda>revision.
       Inr \<lparr>wr_workflow_id = workflow_id, wr_workflow_version = version, wr_inputs = inputs,
         wr_run_id = run_id, wr_state = state, wr_step_states = step_states, wr_outputs = outputs,
         wr_error = error, wr_idempotency_key = key,
         wr_cancellation_requested = rd_bool data ''cancellation_requested'' False,
         wr_definition_digest = definition_digest, wr_inputs_digest = inputs_digest,
         wr_revision = revision\<rparr>))))))))))))"

section \<open>Tables\<close>

record run_row =
  rr_run_id :: string
  rr_workflow_id :: string
  rr_version :: string
  rr_state :: string
  rr_json :: json
  rr_key :: "string option"

record automation_row =
  au_id :: string
  au_json :: json
  au_digest :: string
  au_enabled :: int

record trigger_row =
  tg_automation :: string
  tg_key :: string
  tg_run :: string

record wf_db =
  db_definitions :: "(string \<times> string, json) dict"
  db_runs :: "run_row list"
  db_checkpoints :: "(string \<times> string, json) dict"
  db_automations :: "automation_row list"
  db_triggers :: "trigger_row list"

definition empty_db :: wf_db where
  "empty_db = \<lparr>db_definitions = [], db_runs = [], db_checkpoints = [], db_automations = [], db_triggers = []\<rparr>"

text \<open>The first row that matches.\<close>

definition find_row :: "('a \<Rightarrow> bool) \<Rightarrow> 'a list \<Rightarrow> 'a option" where
  "find_row P rows = (case filter P rows of [] \<Rightarrow> None | row # _ \<Rightarrow> Some row)"

section \<open>Definitions\<close>

definition put_definition :: "wf_lib \<Rightarrow> workflow_definition \<Rightarrow> wf_db \<Rightarrow> wf_exn + unit \<times> wf_db" where
  "put_definition L d db =
     (let value = JObj (definition_to_dict d) in
      bindE (require_unredacted L value) (\<lambda>_.
        case dict_get (db_definitions db) (wd_workflow_id d, wd_version d) of
          Some previous \<Rightarrow>
            if binding_digest L previous \<noteq> binding_digest L value
            then binding_error ''immutable Workflow definition changed'' else Inr ((), db)
        | None \<Rightarrow>
            Inr ((), db\<lparr>db_definitions := db_definitions db @ [((wd_workflow_id d, wd_version d), safe_json L value)]\<rparr>)))"

definition decode_definition :: "json \<Rightarrow> wf_exn + workflow_definition" where
  "decode_definition v = lift_py (bindE (as_obj v) definition_from_dict)"

definition get_definition :: "wf_db \<Rightarrow> string \<Rightarrow> string \<Rightarrow> wf_exn + workflow_definition option" where
  "get_definition db wid version =
     (case dict_get (db_definitions db) (wid, version) of
        None \<Rightarrow> Inr None
      | Some v \<Rightarrow> bindE (decode_definition v) (\<lambda>d. Inr (Some d)))"

text \<open>\<open>ORDER BY workflow_id, version\<close>, with its bound of at most 100 rows.\<close>

definition list_definitions :: "wf_db \<Rightarrow> ((string \<times> string) \<times> json) list" where
  "list_definitions db = sort_key (fst \<circ> fst) (sort_key (snd \<circ> fst) (db_definitions db))"

definition clamp :: "int \<Rightarrow> int \<Rightarrow> nat" where
  "clamp limit bound = nat (max 1 (min limit bound))"

definition list_definition_summaries :: "int \<Rightarrow> wf_db \<Rightarrow> (string \<times> string) list" where
  "list_definition_summaries limit db = map fst (take (clamp limit 100) (list_definitions db))"

definition definition_for_run :: "wf_db \<Rightarrow> workflow_run \<Rightarrow> wf_exn + workflow_definition" where
  "definition_for_run db r =
     (case dict_get (db_definitions db) (wr_workflow_id r, wr_workflow_version r) of
        None \<Rightarrow> binding_error ''Workflow run definition is unavailable''
      | Some v \<Rightarrow> decode_definition v)"

section \<open>Runs\<close>

definition decode_run :: "json \<Rightarrow> wf_exn + workflow_run" where
  "decode_run v = lift_py (bindE (as_obj v) run_from_dict)"

definition validate_run :: "wf_lib \<Rightarrow> workflow_run \<Rightarrow> workflow_definition \<Rightarrow> wf_exn + unit" where
  "validate_run L r d =
     (if wr_workflow_id r \<noteq> wd_workflow_id d \<or> wr_workflow_version r \<noteq> wd_version d \<or>
         (wr_definition_digest r \<noteq> [] \<and> wr_definition_digest r \<noteq> definition_digest L d) \<or>
         (wr_inputs_digest r \<noteq> [] \<and> wr_inputs_digest r \<noteq> inputs_digest L (wr_inputs r))
      then binding_error ''Workflow run binding changed'' else Inr ())"

definition validate_bound :: "wf_lib \<Rightarrow> wf_db \<Rightarrow> workflow_run \<Rightarrow> wf_exn + unit" where
  "validate_bound L db r = bindE (definition_for_run db r) (validate_run L r)"

definition row_of :: "wf_db \<Rightarrow> string \<Rightarrow> run_row option" where
  "row_of db run_id = find_row (\<lambda>row. rr_run_id row = run_id) (db_runs db)"

definition require_run :: "wf_db \<Rightarrow> string \<Rightarrow> wf_exn + workflow_run" where
  "require_run db run_id =
     (case row_of db run_id of
        None \<Rightarrow> Inl (PyExn (KeyError run_id))
      | Some row \<Rightarrow>
          bindE (decode_run (rr_json row)) (\<lambda>r.
            if wr_run_id r \<noteq> rr_run_id row \<or> wr_workflow_id r \<noteq> rr_workflow_id row \<or>
               wr_workflow_version r \<noteq> rr_version row \<or> workflow_state_value (wr_state r) \<noteq> rr_state row
            then binding_error ''Workflow persisted identity changed'' else Inr r))"

definition write_run :: "wf_lib \<Rightarrow> workflow_run \<Rightarrow> wf_db \<Rightarrow> workflow_run \<times> wf_db" where
  "write_run L r db =
     (let r = r\<lparr>wr_revision := wr_revision r + 1\<rparr> in
      (r, db\<lparr>db_runs := map (\<lambda>row. if rr_run_id row = wr_run_id r
            then row\<lparr>rr_state := workflow_state_value (wr_state r), rr_json := safe_json L (JObj (run_dict r))\<rparr>
            else row) (db_runs db)\<rparr>))"

text \<open>The primary key and the uniqueness of (workflow, key); \<open>NULLIF(key, '')\<close>.\<close>

definition insert_run :: "wf_lib \<Rightarrow> workflow_run \<Rightarrow> wf_db \<Rightarrow> wf_exn + wf_db" where
  "insert_run L r db =
     (let key = (if wr_idempotency_key r = [] then None else Some (wr_idempotency_key r));
          row = \<lparr>rr_run_id = wr_run_id r, rr_workflow_id = wr_workflow_id r, rr_version = wr_workflow_version r,
            rr_state = workflow_state_value (wr_state r), rr_json = safe_json L (JObj (run_dict r)), rr_key = key\<rparr>
      in if \<exists>x \<in> set (db_runs db). rr_run_id x = wr_run_id r
         then Inl (IntegrityError ''UNIQUE constraint failed: workflow_runs.run_id'')
         else if \<exists>x \<in> set (db_runs db). key \<noteq> None \<and> rr_workflow_id x = wr_workflow_id r \<and> rr_key x = key
         then Inl (IntegrityError ''UNIQUE constraint failed: workflow_runs.workflow_id, workflow_runs.idempotency_key'')
         else Inr (db\<lparr>db_runs := db_runs db @ [row]\<rparr>))"

definition create_run_in :: "wf_lib \<Rightarrow> workflow_run \<Rightarrow> wf_db \<Rightarrow> wf_exn + workflow_run \<times> wf_db" where
  "create_run_in L r db =
     bindE (definition_for_run db r) (\<lambda>d.
     let r = r\<lparr>wr_definition_digest := definition_digest L d, wr_inputs_digest := inputs_digest L (wr_inputs r)\<rparr> in
     case (if wr_idempotency_key r = [] then None
           else find_row (\<lambda>row. rr_workflow_id row = wr_workflow_id r \<and> rr_key row = Some (wr_idempotency_key r))
                  (db_runs db)) of
       Some row \<Rightarrow>
         bindE (decode_run (rr_json row)) (\<lambda>previous.
         bindE (validate_bound L db previous) (\<lambda>_.
           if wr_workflow_version previous \<noteq> wr_workflow_version r \<or>
              inputs_digest L (wr_inputs previous) \<noteq> wr_inputs_digest r \<or>
              (wr_definition_digest previous \<noteq> [] \<and> wr_definition_digest previous \<noteq> wr_definition_digest r)
           then binding_error ''Workflow idempotency binding changed'' else Inr (previous, db)))
     | None \<Rightarrow> bindE (insert_run L r db) (\<lambda>db. Inr (r, db)))"

definition create_run :: "wf_lib \<Rightarrow> workflow_run \<Rightarrow> wf_db \<Rightarrow> wf_exn + workflow_run \<times> wf_db" where
  "create_run L r db =
     bindE (require_unredacted L (JObj (wr_inputs r))) (\<lambda>_. create_run_in L r db)"

section \<open>Checkpoints\<close>

definition checkpoint_of :: "wf_db \<Rightarrow> string \<Rightarrow> string \<Rightarrow> wf_exn + jobj" where
  "checkpoint_of db run_id step_id =
     (case dict_get (db_checkpoints db) (run_id, step_id) of
        None \<Rightarrow> Inr []
      | Some v \<Rightarrow> lift_py (as_obj v))"

definition put_checkpoint :: "wf_lib \<Rightarrow> string \<Rightarrow> string \<Rightarrow> jobj \<Rightarrow> wf_db \<Rightarrow> wf_db" where
  "put_checkpoint L run_id step_id data db =
     db\<lparr>db_checkpoints := dict_set (run_id, step_id) (safe_json L (JObj data)) (db_checkpoints db)\<rparr>"

definition run_checkpoints :: "wf_db \<Rightarrow> string \<Rightarrow> jobj" where
  "run_checkpoints db run_id =
     map (\<lambda>((_, step_id), v). (step_id, v)) (filter (\<lambda>((r, _), _). r = run_id) (db_checkpoints db))"

definition validate_checkpoint :: "jobj \<Rightarrow> json \<Rightarrow> wf_exn + unit" where
  "validate_checkpoint checkpoint digest =
     (let bound = dict_get_or checkpoint ''binding_digest'' JNull in
      if py_truthy bound \<and> bound \<noteq> digest then binding_error ''Workflow step binding changed'' else Inr ())"

text \<open>A checkpoint whose effect may have happened.\<close>

definition uncertain_checkpoint :: "json \<Rightarrow> bool" where
  "uncertain_checkpoint v \<longleftrightarrow>
     (case v of
        JObj c \<Rightarrow> dict_get c ''status'' \<in> {Some (JStr ''started''), Some (JStr ''unknown'')}
      | _ \<Rightarrow> False)"

definition preserve_cancellation :: "wf_db \<Rightarrow> workflow_run \<Rightarrow> workflow_run \<Rightarrow> workflow_run" where
  "preserve_cancellation db previous r =
     (if \<not> wr_cancellation_requested previous then r
      else
        let r = r\<lparr>wr_cancellation_requested := True\<rparr> in
        if \<exists>v \<in> snd ` set (run_checkpoints db (wr_run_id r)). uncertain_checkpoint v
        then r\<lparr>wr_state := WS_UNKNOWN,
               wr_error := (if wr_error r = []
                 then ''Cancelled admission; started effects require reconciliation'' else wr_error r)\<rparr>
        else r\<lparr>wr_state := WS_CANCELLED\<rparr>)"

section \<open>Updates of a run\<close>

definition save_run :: "wf_lib \<Rightarrow> workflow_run \<Rightarrow> wf_db \<Rightarrow> wf_exn + workflow_run \<times> wf_db" where
  "save_run L r db =
     bindE (require_run db (wr_run_id r)) (\<lambda>previous.
       if wr_revision previous \<noteq> wr_revision r
       then Inl (WorkflowConflictError ''Workflow revision changed'')
       else if wr_workflow_id previous \<noteq> wr_workflow_id r \<or>
          wr_workflow_version previous \<noteq> wr_workflow_version r \<or>
          wr_idempotency_key previous \<noteq> wr_idempotency_key r \<or>
          inputs_digest L (wr_inputs previous) \<noteq> inputs_digest L (wr_inputs r) \<or>
          wr_definition_digest previous \<noteq> wr_definition_digest r \<or>
          wr_inputs_digest previous \<noteq> wr_inputs_digest r
       then binding_error ''Workflow run binding changed''
       else bindE (validate_bound L db r) (\<lambda>_.
         Inr (write_run L (preserve_cancellation db previous r) db)))"

definition bind_run :: "wf_lib \<Rightarrow> string \<Rightarrow> workflow_definition \<Rightarrow> wf_db \<Rightarrow> wf_exn + workflow_run \<times> wf_db" where
  "bind_run L run_id d db =
     bindE (require_run db run_id) (\<lambda>r.
     bindE (validate_run L r d) (\<lambda>_.
       Inr (write_run L (r\<lparr>wr_definition_digest := definition_digest L d,
         wr_inputs_digest := inputs_digest L (wr_inputs r)\<rparr>) db)))"

definition add_approvals :: "string list \<Rightarrow> workflow_run \<Rightarrow> wf_exn + workflow_run" where
  "add_approvals approved r =
     (if approved = [] then Inr r
      else bindE (lift_py (bindE (rd_list (wr_inputs r) ''_approved_steps'') (mapE as_text))) (\<lambda>old.
        Inr (r\<lparr>wr_inputs := dict_set ''_approved_steps'' (jstrs (sort (remdups (old @ approved)))) (wr_inputs r)\<rparr>)))"

definition update_run ::
  "wf_lib \<Rightarrow> string \<Rightarrow> workflow_state option \<Rightarrow> string option \<Rightarrow> string list \<Rightarrow> bool \<Rightarrow> wf_db
     \<Rightarrow> wf_exn + workflow_run \<times> wf_db" where
  "update_run L run_id state error approved cancel db =
     bindE (require_run db run_id) (\<lambda>r.
     bindE (validate_bound L db r) (\<lambda>_.
     let r = (case state of None \<Rightarrow> r | Some s \<Rightarrow> r\<lparr>wr_state := s\<rparr>);
         r = (case error of None \<Rightarrow> r | Some e \<Rightarrow> r\<lparr>wr_error := e\<rparr>) in
     bindE (add_approvals approved r) (\<lambda>r.
     let r = (if cancel then r\<lparr>wr_cancellation_requested := True\<rparr> else r)
     in Inr (write_run L (preserve_cancellation db r r) db))))"

definition mark_unknown :: "wf_lib \<Rightarrow> string \<Rightarrow> string \<Rightarrow> wf_db \<Rightarrow> wf_exn + workflow_run \<times> wf_db" where
  "mark_unknown L run_id error db =
     bindE (require_run db run_id) (\<lambda>r.
       Inr (write_run L (r\<lparr>wr_state := WS_UNKNOWN, wr_error := error\<rparr>) db))"

section \<open>Steps\<close>

definition admit_step ::
  "wf_lib \<Rightarrow> string \<Rightarrow> string \<Rightarrow> jobj \<Rightarrow> int \<Rightarrow> wf_db \<Rightarrow> wf_exn + bool \<times> wf_db" where
  "admit_step L run_id step_id checkpoint expected db =
     bindE (require_run db run_id) (\<lambda>r.
     bindE (validate_bound L db r) (\<lambda>_.
       if wr_cancellation_requested r then Inr (False, db)
       else
         bindE (checkpoint_of db run_id step_id) (\<lambda>previous.
         bindE (lift_py (rd_item checkpoint ''binding_digest'')) (\<lambda>digest.
         bindE (validate_checkpoint previous digest) (\<lambda>_.
         bindE (lift_py (rd_int previous ''attempts'' 0)) (\<lambda>attempts.
           if attempts \<noteq> expected then Inl (WorkflowConflictError ''Workflow step attempts changed'')
           else if dict_get previous ''status'' \<in> {Some (JStr ''completed''), Some (JStr ''skipped'')}
           then Inr (False, db)
           else
             let db = put_checkpoint L run_id step_id checkpoint db;
                 r = r\<lparr>wr_step_states := dict_set step_id (JStr ''started'') (wr_step_states r)\<rparr>
             in Inr (True, snd (write_run L r db))))))))"

definition finish_step ::
  "wf_lib \<Rightarrow> string \<Rightarrow> string \<Rightarrow> jobj \<Rightarrow> wf_db \<Rightarrow> wf_exn + workflow_run \<times> wf_db" where
  "finish_step L run_id step_id checkpoint db =
     bindE (require_run db run_id) (\<lambda>r.
     bindE (validate_bound L db r) (\<lambda>_.
     bindE (checkpoint_of db run_id step_id) (\<lambda>previous.
     bindE (lift_py (rd_item checkpoint ''binding_digest'')) (\<lambda>digest.
     bindE (validate_checkpoint previous digest) (\<lambda>_.
     bindE (lift_py (bindE (rd_item checkpoint ''status'') py_str)) (\<lambda>status.
     let db = put_checkpoint L run_id step_id checkpoint db;
         r = r\<lparr>wr_step_states := dict_set step_id (JStr status) (wr_step_states r)\<rparr>;
         output = dict_get_or checkpoint ''output'' JNull;
         r = (if py_truthy output then r\<lparr>wr_outputs := dict_set step_id output (wr_outputs r)\<rparr> else r)
     in Inr (write_run L (preserve_cancellation db r r) db)))))))"

section \<open>Listings\<close>

definition get_run :: "wf_db \<Rightarrow> string \<Rightarrow> wf_exn + workflow_run option" where
  "get_run db run_id =
     (case row_of db run_id of
        None \<Rightarrow> Inr None
      | Some _ \<Rightarrow> bindE (require_run db run_id) (\<lambda>r. Inr (Some r)))"

definition run_history :: "string \<Rightarrow> int \<Rightarrow> wf_db \<Rightarrow> wf_exn + workflow_run list" where
  "run_history workflow_id limit db =
     mapE (decode_run \<circ> rr_json)
       (take (clamp limit 500) (rev (filter (\<lambda>row. rr_workflow_id row = workflow_id) (db_runs db))))"

definition list_runs :: "int \<Rightarrow> wf_db \<Rightarrow> wf_exn + workflow_run list" where
  "list_runs limit db = mapE (decode_run \<circ> rr_json) (take (clamp limit 500) (rev (db_runs db)))"

definition COUNTED_STATES :: "string list" where
  "COUNTED_STATES =
     [''completed'', ''skipped'', ''failed'', ''unknown'', ''waiting_approval'', ''started'', ''running'',
      ''pending'', ''cancelled'']"

definition step_counts :: "workflow_definition \<Rightarrow> workflow_run \<Rightarrow> jobj" where
  "step_counts d r =
     (let states = map (\<lambda>s. dict_get_or (wr_step_states r) (ws_step_id s) (JStr ''pending'')) (wd_steps d) in
      map (\<lambda>state. (state, JInt (int (count_list states (JStr state))))) COUNTED_STATES @
      [(''total'', JInt (int (length (wd_steps d))))])"

definition run_summary :: "wf_lib \<Rightarrow> wf_db \<Rightarrow> run_row \<Rightarrow> wf_exn + jobj" where
  "run_summary L db row =
     bindE (require_run db (rr_run_id row)) (\<lambda>r.
     bindE (definition_for_run db r) (\<lambda>d.
     bindE (validate_run L r d) (\<lambda>_.
       Inr [(''run_id'', JStr (wr_run_id r)), (''workflow_id'', JStr (wr_workflow_id r)),
         (''workflow_version'', JStr (wr_workflow_version r)),
         (''state'', JStr (workflow_state_value (wr_state r))), (''step_counts'', JObj (step_counts d r))])))"

definition list_run_summaries :: "wf_lib \<Rightarrow> int \<Rightarrow> wf_db \<Rightarrow> wf_exn + jobj list" where
  "list_run_summaries L limit db = mapE (run_summary L db) (take (clamp limit 100) (rev (db_runs db)))"

section \<open>Automations\<close>

definition automation_of :: "wf_lib \<Rightarrow> automation_row \<Rightarrow> wf_exn + jobj" where
  "automation_of L row =
     bindE (lift_py (as_obj (au_json row))) (\<lambda>value.
       if dict_get value ''id'' \<noteq> Some (JStr (au_id row)) \<or> binding_digest L (au_json row) \<noteq> au_digest row \<or>
          au_enabled row \<notin> {0, 1}
       then binding_error ''Automation persisted binding changed''
       else Inr (dict_set ''enabled'' (JBool (au_enabled row \<noteq> 0)) value))"

definition automation_row_of :: "wf_db \<Rightarrow> string \<Rightarrow> wf_exn + automation_row" where
  "automation_row_of db aid =
     (case find_row (\<lambda>row. au_id row = aid) (db_automations db) of
        None \<Rightarrow> Inl (PyExn (KeyError aid))
      | Some row \<Rightarrow> Inr row)"

definition get_automation :: "wf_lib \<Rightarrow> wf_db \<Rightarrow> string \<Rightarrow> wf_exn + jobj" where
  "get_automation L db aid = bindE (automation_row_of db aid) (automation_of L)"

definition list_automations :: "wf_lib \<Rightarrow> wf_db \<Rightarrow> wf_exn + jobj list" where
  "list_automations L db = mapE (automation_of L) (take 500 (rev (db_automations db)))"

text \<open>\<open>binding[key]\<close>, where the model needs a text.\<close>

definition text_item :: "jobj \<Rightarrow> string \<Rightarrow> wf_exn + string" where
  "text_item d k = lift_py (bindE (rd_item d k) as_text)"

definition validate_automation_definition :: "wf_lib \<Rightarrow> wf_db \<Rightarrow> jobj \<Rightarrow> wf_exn + unit" where
  "validate_automation_definition L db binding =
     bindE (text_item binding ''workflow_id'') (\<lambda>wid.
     bindE (text_item binding ''version'') (\<lambda>version.
     bindE (definition_for_run db (new_run [] wid version [] [])) (\<lambda>d.
     bindE (lift_py (rd_item binding ''definition_digest'')) (\<lambda>digest.
       if JStr (definition_digest L d) \<noteq> digest
       then binding_error ''Automation Workflow definition changed'' else Inr ()))))"

definition put_automation ::
  "wf_lib \<Rightarrow> jobj \<Rightarrow> wf_exn + unit \<Rightarrow> wf_db \<Rightarrow> wf_exn + jobj \<times> wf_db" where
  "put_automation L binding before db =
     bindE (require_unredacted L (JObj binding)) (\<lambda>_.
     bindE (validate_automation_definition L db binding) (\<lambda>_.
     bindE (text_item binding ''id'') (\<lambda>aid.
     let previous = find_row (\<lambda>row. au_id row = aid) (db_automations db) in
     if (case previous of Some row \<Rightarrow> au_digest row \<noteq> binding_digest L (JObj binding) | None \<Rightarrow> False)
     then binding_error ''Automation binding changed''
     else bindE before (\<lambda>_.
       case previous of
         Some row \<Rightarrow> bindE (automation_of L row) (\<lambda>v. Inr (v, db))
       | None \<Rightarrow>
           Inr (dict_set ''enabled'' (JBool True) binding,
             db\<lparr>db_automations := db_automations db @
               [\<lparr>au_id = aid, au_json = safe_json L (JObj binding), au_digest = binding_digest L (JObj binding),
                 au_enabled = 1\<rparr>]\<rparr>)))))"

definition set_automation_enabled ::
  "wf_lib \<Rightarrow> string \<Rightarrow> bool \<Rightarrow> wf_exn + unit \<Rightarrow> wf_db \<Rightarrow> wf_exn + jobj \<times> wf_db" where
  "set_automation_enabled L aid enabled before db =
     bindE (get_automation L db aid) (\<lambda>binding.
     bindE (validate_automation_definition L db binding) (\<lambda>_.
     bindE before (\<lambda>_.
     let db = db\<lparr>db_automations := map (\<lambda>row. if au_id row = aid then row\<lparr>au_enabled := of_bool enabled\<rparr> else row)
           (db_automations db)\<rparr>
     in bindE (get_automation L db aid) (\<lambda>v. Inr (v, db)))))"

text \<open>The inputs and the idempotency key of an automated run; \<open>as_mapping\<close> is \<open>{**v, ..}\<close>.\<close>

definition as_mapping :: "json \<Rightarrow> pyexn + jobj" where
  "as_mapping v = (case v of JObj m \<Rightarrow> Inr m | _ \<Rightarrow> Inl (TypeError ''argument is not a mapping''))"

definition automation_inputs :: "string \<Rightarrow> jobj \<Rightarrow> wf_exn + jobj" where
  "automation_inputs aid binding =
     lift_py (bindE (bindE (rd_item binding ''inputs'') as_mapping) (\<lambda>inputs.
       bindE (rd_item binding ''plan_id'') (\<lambda>plan_id.
       bindE (rd_item binding ''workflow_id'') (\<lambda>workflow_id.
         Inr (fold (\<lambda>(k, v). dict_set k v)
           [(''_automation_id'', JStr aid), (''_agent_id'', JStr (''automation:'' @ aid)),
            (''_plan_id'', plan_id), (''_workflow_id'', workflow_id)] inputs)))))"

definition automation_key :: "wf_lib \<Rightarrow> string \<Rightarrow> string \<Rightarrow> string" where
  "automation_key L aid trigger_key = ''automation:'' @ aid @ '':'' @ binding_digest L (JStr trigger_key)"

definition claim_automation_run ::
  "wf_lib \<Rightarrow> string \<Rightarrow> string \<Rightarrow> string \<Rightarrow> wf_exn + unit \<Rightarrow> wf_db \<Rightarrow> wf_exn + workflow_run \<times> wf_db" where
  "claim_automation_run L new_id aid trigger_key before db =
     bindE (get_automation L db aid) (\<lambda>binding.
     bindE (validate_automation_definition L db binding) (\<lambda>_.
     bindE (automation_inputs aid binding) (\<lambda>inputs.
     bindE (text_item binding ''workflow_id'') (\<lambda>workflow_id.
     bindE (text_item binding ''version'') (\<lambda>version.
     case find_row (\<lambda>t. tg_automation t = aid \<and> tg_key t = trigger_key) (db_triggers db) of
       Some t \<Rightarrow>
         bindE (require_run db (tg_run t)) (\<lambda>r.
         bindE (validate_bound L db r) (\<lambda>_.
         bindE (lift_py (rd_item binding ''definition_digest'')) (\<lambda>digest.
           if wr_workflow_id r \<noteq> workflow_id \<or> wr_workflow_version r \<noteq> version \<or>
              inputs_digest L inputs \<noteq> inputs_digest L (wr_inputs r) \<or>
              wr_idempotency_key r \<noteq> automation_key L aid trigger_key \<or>
              JStr (wr_definition_digest r) \<noteq> digest \<or> wr_inputs_digest r \<noteq> inputs_digest L inputs
           then binding_error ''Automation original run binding changed'' else Inr (r, db))))
     | None \<Rightarrow>
         if dict_get binding ''enabled'' \<noteq> Some (JBool True)
         then Inl (PyExn (ValueError ''Automation is disabled''))
         else bindE before (\<lambda>_.
           bindE (require_unredacted L (JObj inputs)) (\<lambda>_.
           bindE (create_run_in L (new_run new_id workflow_id version inputs (automation_key L aid trigger_key)) db) (\<lambda>(r, db).
             if \<exists>t \<in> set (db_triggers db). tg_run t = wr_run_id r
             then Inl (IntegrityError ''UNIQUE constraint failed: workflow_automation_triggers.run_id'')
             else Inr (r, db\<lparr>db_triggers := db_triggers db @
               [\<lparr>tg_automation = aid, tg_key = trigger_key, tg_run = wr_run_id r\<rparr>]\<rparr>)))))))))"

definition automation_history :: "wf_lib \<Rightarrow> string \<Rightarrow> int \<Rightarrow> wf_db \<Rightarrow> wf_exn + (string \<times> workflow_run) list" where
  "automation_history L aid limit db =
     bindE (get_automation L db aid) (\<lambda>_.
       mapE (\<lambda>t. bindE (require_run db (tg_run t)) (\<lambda>r. Inr (tg_key t, r)))
         (take (clamp limit 500) (rev (filter (\<lambda>t. tg_automation t = aid) (db_triggers db)))))"

definition automation_run :: "wf_lib \<Rightarrow> string \<Rightarrow> string \<Rightarrow> wf_db \<Rightarrow> wf_exn + workflow_run \<times> wf_db" where
  "automation_run L aid run_id db =
     (case find_row (\<lambda>t. tg_automation t = aid \<and> tg_run t = run_id) (db_triggers db) of
        None \<Rightarrow> binding_error ''Run is not the original Automation trigger''
      | Some t \<Rightarrow> claim_automation_run L [] aid (tg_key t) (Inr ()) db)"

end
