(* ===== verification/Workflow_Store_Proofs.thy ===== *)
theory Workflow_Store_Proofs
  imports Workflow_Store
begin

text \<open>
  What the workflow store promises: rows are only appended and keep their identity, definitions are
  immutable, runs are created once per idempotency key, a save with a stale revision is refused,
  cancellation sticks, and only one of two executors is admitted to a step. Updates of a run refine
  a versioned register.
\<close>

section \<open>Operations as steps\<close>

datatype store_op =
    Put_definition workflow_definition
  | Create_run workflow_run
  | Save_run workflow_run
  | Bind_run string workflow_definition
  | Update_run string "workflow_state option" "string option" "string list" bool
  | Mark_unknown string string
  | Admit_step string string jobj int
  | Finish_step string string jobj
  | Save_checkpoint string string jobj
  | Put_automation jobj "wf_exn + unit"
  | Enable_automation string bool "wf_exn + unit"
  | Claim_run string string string "wf_exn + unit"

text \<open>The state after a transaction: an error has been rolled back.\<close>

definition committed :: "wf_db \<Rightarrow> wf_exn + 'a \<times> wf_db \<Rightarrow> wf_db" where
  "committed db m = (case m of Inl _ \<Rightarrow> db | Inr (_, db') \<Rightarrow> db')"

lemma committed_simps [simp]:
  "committed db (Inl e) = db" "committed db (Inr p) = snd p" "committed db (binding_error msg) = db"
  by (simp_all add: committed_def binding_error_def split: prod.splits)

lemma committed_if [simp]: "committed db (if P then a else b) = (if P then committed db a else committed db b)"
  by simp

lemma committed_bind: "committed db (bindE m f) = (case m of Inl e \<Rightarrow> db | Inr x \<Rightarrow> committed db (f x))"
  by (cases m) simp_all

fun store_step :: "wf_lib \<Rightarrow> wf_db \<Rightarrow> store_op \<Rightarrow> wf_db" where
  "store_step L db (Put_definition d) = committed db (put_definition L d db)"
| "store_step L db (Create_run r) = committed db (create_run L r db)"
| "store_step L db (Save_run r) = committed db (save_run L r db)"
| "store_step L db (Bind_run i d) = committed db (bind_run L i d db)"
| "store_step L db (Update_run i s e a c) = committed db (update_run L i s e a c db)"
| "store_step L db (Mark_unknown i e) = committed db (mark_unknown L i e db)"
| "store_step L db (Admit_step i s c n) = committed db (admit_step L i s c n db)"
| "store_step L db (Finish_step i s c) = committed db (finish_step L i s c db)"
| "store_step L db (Save_checkpoint i s c) = put_checkpoint L i s c db"
| "store_step L db (Put_automation b f) = committed db (put_automation L b f db)"
| "store_step L db (Enable_automation a b f) = committed db (set_automation_enabled L a b f db)"
| "store_step L db (Claim_run i a k f) = committed db (claim_automation_run L i a k f db)"

definition store_run :: "wf_lib \<Rightarrow> wf_db \<Rightarrow> store_op list \<Rightarrow> wf_db" where
  "store_run L = foldl (store_step L)"

lemma store_run_simps [simp]:
  "store_run L db [] = db" "store_run L db (x # xs) = store_run L (store_step L db x) xs"
  by (simp_all add: store_run_def)

section \<open>Append only\<close>

definition row_identity :: "run_row \<Rightarrow> string \<times> string \<times> string \<times> string option" where
  "row_identity row = (rr_run_id row, rr_workflow_id row, rr_version row, rr_key row)"

definition extends :: "wf_db \<Rightarrow> wf_db \<Rightarrow> bool" where
  "extends db db' \<longleftrightarrow>
     (\<exists>new. db_definitions db' = db_definitions db @ new \<and> fst ` set new \<inter> fst ` set (db_definitions db) = {}) \<and>
     (\<exists>f new. (\<forall>row. row_identity (f row) = row_identity row) \<and> db_runs db' = map f (db_runs db) @ new)"

lemma extends_refl [simp, intro]: "extends db db"
  unfolding extends_def by (auto intro: exI [of _ id])

lemma extends_trans:
  assumes "extends a b" and "extends b c"
  shows "extends a c"
proof -
  from assms obtain n m f g p q where
    "db_definitions b = db_definitions a @ n" "fst ` set n \<inter> fst ` set (db_definitions a) = {}"
    "db_definitions c = db_definitions b @ m" "fst ` set m \<inter> fst ` set (db_definitions b) = {}"
    "\<forall>row. row_identity (f row) = row_identity row" "db_runs b = map f (db_runs a) @ p"
    "\<forall>row. row_identity (g row) = row_identity row" "db_runs c = map g (db_runs b) @ q"
    unfolding extends_def by auto
  then show ?thesis
    unfolding extends_def
    by (intro conjI exI [of _ "n @ m"] exI [of _ "g \<circ> f"] exI [of _ "map g p @ q"]) auto
qed

lemma extends_same:
  "db_definitions db' = db_definitions db \<Longrightarrow> db_runs db' = db_runs db \<Longrightarrow> extends db db'"
  unfolding extends_def by (auto intro: exI [of _ id])

lemma extends_write_run: "extends db (snd (write_run L r db))"
proof -
  let ?f = "\<lambda>row. if rr_run_id row = wr_run_id r
    then row\<lparr>rr_state := workflow_state_value (wr_state r),
      rr_json := safe_json L (JObj (run_dict (r\<lparr>wr_revision := wr_revision r + 1\<rparr>)))\<rparr> else row"
  have "db_definitions (snd (write_run L r db)) = db_definitions db"
    "db_runs (snd (write_run L r db)) = map ?f (db_runs db) @ []"
    by (simp_all add: write_run_def Let_def)
  moreover have "\<forall>row. row_identity (?f row) = row_identity row" by (simp add: row_identity_def)
  ultimately show ?thesis
    unfolding extends_def by (intro conjI exI [of _ "[]"] exI [of _ ?f]) simp_all
qed

lemma extends_put_checkpoint: "extends db (put_checkpoint L i s c db)"
  by (rule extends_same) (simp_all add: put_checkpoint_def)

lemma extends_insert_run: "insert_run L r db = Inr db' \<Longrightarrow> extends db db'"
  unfolding extends_def by (auto simp: insert_run_def Let_def split: if_splits intro: exI [of _ id])

lemma extends_create_run_in: "create_run_in L r db = Inr (x, db') \<Longrightarrow> extends db db'"
  by (auto simp: create_run_in_def bindE_eq_Inr Let_def split: option.splits if_splits dest: extends_insert_run)

lemmas update_defs = save_run_def bind_run_def update_run_def mark_unknown_def

lemma extends_bind:
  "(\<And>x. m = Inr x \<Longrightarrow> extends db (committed db (f x))) \<Longrightarrow> extends db (committed db (bindE m f))"
  by (cases m) simp_all

lemma extends_writes:
  "extends db (committed db (save_run L r db))"
  "extends db (committed db (bind_run L i d db))"
  "extends db (committed db (update_run L i s e a c db))"
  "extends db (committed db (mark_unknown L i e' db))"
  unfolding update_defs Let_def by (auto intro!: extends_bind simp: extends_write_run)

lemma extends_steps:
  "extends db (committed db (admit_step L i s c n db))"
  "extends db (committed db (finish_step L i s c db))"
proof -
  have w: "extends db (snd (write_run L r (put_checkpoint L i s c db)))" for r
    using extends_trans extends_put_checkpoint extends_write_run by blast
  show "extends db (committed db (admit_step L i s c n db))"
    unfolding admit_step_def Let_def
    by (auto intro!: extends_bind simp: w)
  show "extends db (committed db (finish_step L i s c db))"
    unfolding finish_step_def Let_def by (auto intro!: extends_bind simp: w)
qed

lemma extends_automations:
  "extends db (committed db (put_automation L b f db))"
  "extends db (committed db (set_automation_enabled L a e f db))"
  by (auto simp: put_automation_def set_automation_enabled_def committed_bind Let_def
      split: sum.splits option.splits intro!: extends_same)

lemma extends_claim: "extends db (committed db (claim_automation_run L i a k f db))"
proof -
  have "extends db (db'\<lparr>db_triggers := ts\<rparr>)" if "create_run_in L r db = Inr (x, db')" for r x db' ts
    using extends_create_run_in [OF that] by (simp add: extends_def)
  then show ?thesis
    by (auto simp: claim_automation_run_def committed_bind Let_def split: sum.splits option.splits)
qed

lemma extends_put_definition: "extends db (committed db (put_definition L d db))"
proof (cases "dict_get (db_definitions db) (wd_workflow_id d, wd_version d)")
  case None
  then have "(wd_workflow_id d, wd_version d) \<notin> fst ` set (db_definitions db)"
    by (simp add: dict_get_None_iff)
  then show ?thesis
    using None
    by (auto simp: put_definition_def committed_bind Let_def extends_def split: sum.splits intro: exI [of _ id])
next
  case (Some v)
  then show ?thesis
    by (auto simp: put_definition_def committed_bind Let_def binding_error_def split: sum.splits)
qed

lemma store_step_extends: "extends db (store_step L db op)"
proof (cases op)
  case (Create_run r)
  then show ?thesis
    by (cases "create_run L r db") (auto simp: create_run_def bindE_eq_Inr dest: extends_create_run_in)
qed (auto simp: extends_writes extends_steps extends_automations extends_claim extends_put_definition
    extends_put_checkpoint)

lemma store_run_extends: "extends db (store_run L db ops)"
  by (induction ops arbitrary: db) (auto intro: extends_trans store_step_extends)

section \<open>What a stored run decodes to\<close>

definition RUN_FIELDS :: "string list" where
  "RUN_FIELDS =
     [''workflow_id'', ''workflow_version'', ''inputs'', ''run_id'', ''state'', ''step_states'', ''outputs'', ''error'',
      ''idempotency_key'', ''cancellation_requested'', ''definition_digest'', ''inputs_digest'', ''revision'']"

definition DEFINITION_FIELDS :: "string list" where
  "DEFINITION_FIELDS =
     [''workflow_id'', ''version'', ''trigger'', ''steps'', ''inputs_schema'', ''outputs_schema'', ''audit_metadata'']"

text \<open>Texts that redaction leaves alone.\<close>

definition kept :: "wf_lib \<Rightarrow> string \<Rightarrow> bool" where
  "kept L s \<longleftrightarrow> redact_sensitive_text (wl_known L) s = s"

text \<open>
  No registered secret is part of the names of the fields or of the states: without it, the store
  could not read back what it writes. It holds when no secret is registered.
\<close>

definition quiet :: "wf_lib \<Rightarrow> bool" where
  "quiet L \<longleftrightarrow> (\<forall>n \<in> set (RUN_FIELDS @ DEFINITION_FIELDS @ map workflow_state_value all_workflow_states). kept L n)"

lemma quiet_without_secrets: "wl_known L = [] \<Longrightarrow> quiet L"
  unfolding quiet_def kept_def
  by (auto simp: RUN_FIELDS_def DEFINITION_FIELDS_def all_workflow_states_def plain_def plain_char_def py_isspace_def
      intro!: redact_text_plain)

lemma quiet_state: "quiet L \<Longrightarrow> kept L (workflow_state_value s)"
  by (cases s) (auto simp: quiet_def all_workflow_states_def)

lemma run_fields_unmarked:
  "n \<in> set (RUN_FIELDS @ DEFINITION_FIELDS) \<Longrightarrow> \<not> marked (py_casefold n) \<and> py_casefold n \<noteq> ''counter_measurements''"
  by (auto simp: RUN_FIELDS_def DEFINITION_FIELDS_def marked_def SENSITIVE_MARKERS_def py_casefold_def py_lower_char_def startswith_def)

lemma redact_fields:
  assumes "wf_dict kvs"
    and "\<And>k. k \<in> set (map fst kvs) \<Longrightarrow> kept L k \<and> \<not> marked (py_casefold k) \<and> py_casefold k \<noteq> ''counter_measurements''"
  shows "redact_sensitive_data (wl_known L) (JObj kvs) =
    JObj (map (\<lambda>(k, v). (k, redact_sensitive_data (wl_known L) v)) kvs)"
  using assms by (intro redact_fields_known) (auto simp: kept_def)

lemma run_dict_keys [simp]: "map fst (run_dict r) = RUN_FIELDS"
  by (simp add: run_dict_def RUN_FIELDS_def)

lemma wf_run_dict [simp]: "wf_dict (run_dict r)"
  by (simp add: RUN_FIELDS_def)

definition obj_of :: "json \<Rightarrow> jobj" where
  "obj_of v = (case v of JObj m \<Rightarrow> m | _ \<Rightarrow> [])"

definition stored_obj :: "wf_lib \<Rightarrow> jobj \<Rightarrow> jobj" where
  "stored_obj L m = obj_of (safe_json L (JObj m))"

lemma safe_json_JObj: "safe_json L (JObj m) = JObj (stored_obj L m)"
  by (simp add: stored_obj_def safe_json_def obj_of_def)

definition stored_text :: "wf_lib \<Rightarrow> string \<Rightarrow> string" where
  "stored_text L s = redact_sensitive_text (wl_known L) s"

text \<open>The run that is read back.\<close>

definition stored_run :: "wf_lib \<Rightarrow> workflow_run \<Rightarrow> workflow_run" where
  "stored_run L r =
     \<lparr>wr_workflow_id = stored_text L (wr_workflow_id r),
      wr_workflow_version = stored_text L (wr_workflow_version r),
      wr_inputs = stored_obj L (wr_inputs r), wr_run_id = stored_text L (wr_run_id r),
      wr_state = wr_state r, wr_step_states = stored_obj L (wr_step_states r),
      wr_outputs = stored_obj L (wr_outputs r), wr_error = stored_text L (wr_error r),
      wr_idempotency_key = stored_text L (wr_idempotency_key r),
      wr_cancellation_requested = wr_cancellation_requested r,
      wr_definition_digest = stored_text L (wr_definition_digest r),
      wr_inputs_digest = stored_text L (wr_inputs_digest r), wr_revision = wr_revision r\<rparr>"

lemma stored_run_fields [simp]:
  "wr_state (stored_run L r) = wr_state r" "wr_revision (stored_run L r) = wr_revision r"
  "wr_cancellation_requested (stored_run L r) = wr_cancellation_requested r"
  "wr_run_id (stored_run L r) = stored_text L (wr_run_id r)"
  "wr_workflow_id (stored_run L r) = stored_text L (wr_workflow_id r)"
  "wr_workflow_version (stored_run L r) = stored_text L (wr_workflow_version r)"
  by (simp_all add: stored_run_def)

lemma stored_obj_get:
  assumes "wf_dict m"
    and "\<And>k. k \<in> set (map fst m) \<Longrightarrow> kept L k \<and> \<not> marked (py_casefold k) \<and> py_casefold k \<noteq> ''counter_measurements''"
  shows "dict_get (stored_obj L m) k = map_option (safe_json L) (dict_get m k)"
proof -
  have "redact_sensitive_data (wl_known L) (JObj m) =
      JObj (map (\<lambda>(k, v). (k, redact_sensitive_data (wl_known L) v)) m)"
    using assms by (rule redact_fields)
  then have "stored_obj L m = sort_key fst (map (\<lambda>(k, v). (k, json_sort v))
      (map (\<lambda>(k, v). (k, redact_sensitive_data (wl_known L) v)) m))"
    by (simp only: stored_obj_def safe_json_def obj_of_def json_sort.simps json.case)
  moreover have "dict_get (sort_key fst (map (\<lambda>(k, v). (k, json_sort v))
      (map (\<lambda>(k, v). (k, redact_sensitive_data (wl_known L) v)) m))) k =
    map_option json_sort (map_option (redact_sensitive_data (wl_known L)) (dict_get m k))"
    using assms(1) by (subst dict_get_sort_key) (simp_all only: wf_dict_map dict_get_map)
  ultimately have "dict_get (stored_obj L m) k =
      map_option json_sort (map_option (redact_sensitive_data (wl_known L)) (dict_get m k))" by simp
  then show ?thesis by (cases "dict_get m k") (simp_all add: safe_json_def)
qed

lemma stored_run_get:
  assumes "quiet L"
  shows "dict_get (stored_obj L (run_dict r)) k = map_option (safe_json L) (dict_get (run_dict r) k)"
proof (rule stored_obj_get [OF wf_run_dict])
  fix k assume "k \<in> set (map fst (run_dict r))"
  then have "k \<in> set RUN_FIELDS" by (simp only: run_dict_keys)
  with assms run_fields_unmarked
  show "kept L k \<and> \<not> marked (py_casefold k) \<and> py_casefold k \<noteq> ''counter_measurements''"
    by (simp add: quiet_def)
qed

lemma decode_stored_run:
  assumes "quiet L"
  shows "decode_run (safe_json L (JObj (run_dict r))) = Inr (stored_run L r)"
proof -
  define m where "m = stored_obj L (run_dict r)"
  have s: "safe_json L (JStr s) = JStr (stored_text L s)" "safe_json L (JBool b) = JBool b"
    "safe_json L (JInt n) = JInt n" for s b n
    by (simp_all add: safe_json_def stored_text_def)
  have st: "stored_text L (workflow_state_value (wr_state r)) = workflow_state_value (wr_state r)"
    using quiet_state [OF assms] by (simp add: kept_def stored_text_def)
  have f: "dict_get m k = map_option (safe_json L) (dict_get (run_dict r) k)" for k
    unfolding m_def by (rule stored_run_get [OF assms])
  have g: "dict_get m ''workflow_id'' = Some (JStr (stored_text L (wr_workflow_id r)))"
    "dict_get m ''workflow_version'' = Some (JStr (stored_text L (wr_workflow_version r)))"
    "dict_get m ''inputs'' = Some (JObj (stored_obj L (wr_inputs r)))"
    "dict_get m ''run_id'' = Some (JStr (stored_text L (wr_run_id r)))"
    "dict_get m ''state'' = Some (JStr (workflow_state_value (wr_state r)))"
    "dict_get m ''step_states'' = Some (JObj (stored_obj L (wr_step_states r)))"
    "dict_get m ''outputs'' = Some (JObj (stored_obj L (wr_outputs r)))"
    "dict_get m ''error'' = Some (JStr (stored_text L (wr_error r)))"
    "dict_get m ''idempotency_key'' = Some (JStr (stored_text L (wr_idempotency_key r)))"
    "dict_get m ''cancellation_requested'' = Some (JBool (wr_cancellation_requested r))"
    "dict_get m ''definition_digest'' = Some (JStr (stored_text L (wr_definition_digest r)))"
    "dict_get m ''inputs_digest'' = Some (JStr (stored_text L (wr_inputs_digest r)))"
    "dict_get m ''revision'' = Some (JInt (wr_revision r))"
    unfolding f by (simp_all add: run_dict_def s safe_json_JObj st)
  have "run_from_dict m = Inr (stored_run L r)"
    by (simp add: run_from_dict_def rd_item_def g decode_simps stored_run_def)
  then show ?thesis by (simp add: decode_run_def safe_json_JObj m_def)
qed

section \<open>The invariant\<close>

text \<open>The row holds the text of the run.\<close>

definition row_stores :: "wf_lib \<Rightarrow> workflow_run \<Rightarrow> run_row \<Rightarrow> bool" where
  "row_stores L r row \<longleftrightarrow>
     rr_json row = safe_json L (JObj (run_dict r)) \<and> rr_run_id row = wr_run_id r \<and>
     rr_workflow_id row = wr_workflow_id r \<and> rr_version row = wr_workflow_version r \<and>
     rr_state row = workflow_state_value (wr_state r)"

definition row_ok :: "wf_lib \<Rightarrow> run_row \<Rightarrow> bool" where
  "row_ok L row \<longleftrightarrow>
     (\<exists>r. row_stores L r row) \<and> kept L (rr_run_id row) \<and> kept L (rr_workflow_id row) \<and> kept L (rr_version row)"

definition keyed :: "run_row list \<Rightarrow> (string \<times> string option) list" where
  "keyed rows = map (\<lambda>row. (rr_workflow_id row, rr_key row)) (filter (\<lambda>row. rr_key row \<noteq> None) rows)"

definition db_ok :: "wf_lib \<Rightarrow> wf_db \<Rightarrow> bool" where
  "db_ok L db \<longleftrightarrow>
     distinct (map rr_run_id (db_runs db)) \<and> distinct (keyed (db_runs db)) \<and>
     list_all (row_ok L) (db_runs db) \<and>
     list_all (\<lambda>k. kept L (fst k) \<and> kept L (snd k)) (map fst (db_definitions db))"

lemma db_ok_empty: "db_ok L empty_db"
  by (simp add: db_ok_def empty_db_def keyed_def)

lemma find_row_simps [simp]:
  "find_row P [] = None" "find_row P (x # xs) = (if P x then Some x else find_row P xs)"
  by (simp_all add: find_row_def)

lemma find_row_Some: "find_row P rows = Some row \<Longrightarrow> row \<in> set rows \<and> P row"
  by (induction rows) (auto split: if_splits)

lemma find_row_None: "find_row P rows = None \<longleftrightarrow> (\<forall>row \<in> set rows. \<not> P row)"
  by (induction rows) auto

lemma find_row_map: "(\<And>row. P (f row) = P row) \<Longrightarrow> find_row P (map f rows) = map_option f (find_row P rows)"
  by (induction rows) simp_all

lemma find_row_append:
  "find_row P (xs @ ys) = (case find_row P xs of None \<Rightarrow> find_row P ys | Some row \<Rightarrow> Some row)"
  by (induction xs) simp_all

lemma row_of_Some: "row_of db i = Some row \<Longrightarrow> row \<in> set (db_runs db) \<and> rr_run_id row = i"
  by (auto simp: row_of_def dest: find_row_Some)

lemma row_of_ok: "db_ok L db \<Longrightarrow> row_of db i = Some row \<Longrightarrow> row_ok L row \<and> rr_run_id row = i"
  by (auto simp: db_ok_def list_all_iff dest: row_of_Some)

lemma row_of_unique:
  assumes "db_ok L db" and "row \<in> set (db_runs db)"
  shows "row_of db (rr_run_id row) = Some row"
proof (cases "row_of db (rr_run_id row)")
  case None
  with assms(2) show ?thesis by (auto simp: row_of_def find_row_None)
next
  case (Some row')
  then have "row' \<in> set (db_runs db)" "rr_run_id row' = rr_run_id row" by (auto dest: row_of_Some)
  moreover have "inj_on rr_run_id (set (db_runs db))" using assms(1) by (simp add: db_ok_def distinct_map)
  ultimately have "row' = row" using assms(2) by (auto dest: inj_onD)
  with Some show ?thesis by simp
qed

text \<open>A row reads back as the run that was written to it.\<close>

lemma require_run_stores:
  assumes "quiet L" and "row_ok L row" and "row_of db i = Some row" and "row_stores L r row"
  shows "require_run db i = Inr (stored_run L r)"
  using assms
  by (simp add: require_run_def row_stores_def row_ok_def kept_def stored_text_def decode_stored_run)

text \<open>What the store returned as a run.\<close>

definition reads :: "wf_lib \<Rightarrow> wf_db \<Rightarrow> string \<Rightarrow> run_row \<Rightarrow> workflow_run \<Rightarrow> bool" where
  "reads L db i row p \<longleftrightarrow>
     row_of db i = Some row \<and> row_ok L row \<and> wr_run_id p = i \<and> rr_run_id row = i \<and>
     wr_workflow_id p = rr_workflow_id row \<and> wr_workflow_version p = rr_version row"

lemma require_run_reads:
  assumes "quiet L" and "db_ok L db" and "require_run db i = Inr p"
  obtains row where "reads L db i row p"
proof -
  from assms(3) obtain row where row: "row_of db i = Some row"
    by (auto simp: require_run_def split: option.splits)
  with assms(2) have ok: "row_ok L row" "rr_run_id row = i" by (auto dest: row_of_ok)
  then obtain r where r: "row_stores L r row" by (auto simp: row_ok_def)
  from require_run_stores [OF assms(1) ok(1) row r] assms(3) have "p = stored_run L r" by simp
  with row ok r have "reads L db i row p"
    by (simp add: reads_def row_ok_def row_stores_def stored_text_def kept_def)
  then show ?thesis by (rule that)
qed

section \<open>Writing a run\<close>

definition bump :: "workflow_run \<Rightarrow> workflow_run" where
  "bump r = r\<lparr>wr_revision := wr_revision r + 1\<rparr>"

lemma bump_simps [simp]:
  "wr_run_id (bump r) = wr_run_id r" "wr_workflow_id (bump r) = wr_workflow_id r"
  "wr_workflow_version (bump r) = wr_workflow_version r" "wr_state (bump r) = wr_state r"
  "wr_revision (bump r) = wr_revision r + 1"
  "wr_cancellation_requested (bump r) = wr_cancellation_requested r"
  by (simp_all add: bump_def)

definition written_row :: "wf_lib \<Rightarrow> workflow_run \<Rightarrow> run_row \<Rightarrow> run_row" where
  "written_row L r row = (if rr_run_id row = wr_run_id r
     then row\<lparr>rr_state := workflow_state_value (wr_state r), rr_json := safe_json L (JObj (run_dict (bump r)))\<rparr>
     else row)"

lemma written_row_simps [simp]:
  "rr_run_id (written_row L r row) = rr_run_id row" "rr_workflow_id (written_row L r row) = rr_workflow_id row"
  "rr_version (written_row L r row) = rr_version row" "rr_key (written_row L r row) = rr_key row"
  by (simp_all add: written_row_def)

lemma write_run_simps [simp]:
  "fst (write_run L r db) = bump r"
  "db_runs (snd (write_run L r db)) = map (written_row L r) (db_runs db)"
  "db_definitions (snd (write_run L r db)) = db_definitions db"
  "db_checkpoints (snd (write_run L r db)) = db_checkpoints db"
  "db_automations (snd (write_run L r db)) = db_automations db"
  "db_triggers (snd (write_run L r db)) = db_triggers db"
  by (simp_all add: write_run_def Let_def bump_def written_row_def fun_eq_iff)

lemma row_of_write: "row_of (snd (write_run L r db)) i = map_option (written_row L r) (row_of db i)"
  by (simp add: row_of_def find_row_map)

lemma keyed_map [simp]: "keyed (map (written_row L r) rows) = keyed rows"
  by (induction rows) (simp_all add: keyed_def)

lemma written_row_ok:
  assumes "row_ok L row" and "rr_run_id row = wr_run_id r \<Longrightarrow>
    rr_workflow_id row = wr_workflow_id r \<and> rr_version row = wr_workflow_version r"
  shows "row_ok L (written_row L r row)"
proof (cases "rr_run_id row = wr_run_id r")
  case True
  with assms(2) have "row_stores L (bump r) (written_row L r row)"
    by (simp add: row_stores_def) (simp add: written_row_def)
  with assms(1) show ?thesis by (auto simp: row_ok_def)
next
  case False
  with assms(1) show ?thesis by (simp add: written_row_def)
qed

lemma write_run_ok:
  assumes "db_ok L db" and "reads L db (wr_run_id r) row p"
    and "wr_workflow_id r = wr_workflow_id p" and "wr_workflow_version r = wr_workflow_version p"
  shows "db_ok L (snd (write_run L r db))"
proof -
  have "row_ok L (written_row L r x)" if "x \<in> set (db_runs db)" for x
  proof (rule written_row_ok)
    show "row_ok L x" using that assms(1) by (simp add: db_ok_def list_all_iff)
    assume "rr_run_id x = wr_run_id r"
    with row_of_unique [OF assms(1) that] assms(2) have "x = row" by (simp add: reads_def)
    with assms show "rr_workflow_id x = wr_workflow_id r \<and> rr_version x = wr_workflow_version r"
      by (simp add: reads_def)
  qed
  then have "list_all (row_ok L) (map (written_row L r) (db_runs db))" by (simp add: list_all_iff)
  moreover have "map rr_run_id (map (written_row L r) (db_runs db)) = map rr_run_id (db_runs db)"
    by (simp only: map_map comp_def written_row_simps)
  ultimately show ?thesis
    using assms(1) unfolding db_ok_def by (simp only: write_run_simps keyed_map)
qed

lemma require_run_written:
  assumes "quiet L" and "reads L db (wr_run_id r) row p"
    and "wr_workflow_id r = wr_workflow_id p" and "wr_workflow_version r = wr_workflow_version p"
  shows "require_run (snd (write_run L r db)) (wr_run_id r) = Inr (stored_run L (bump r))"
proof -
  have s: "row_stores L (bump r) (written_row L r row)"
    using assms(2-4) by (simp add: row_stores_def reads_def) (simp add: written_row_def)
  moreover have "row_of (snd (write_run L r db)) (wr_run_id r) = Some (written_row L r row)"
    using assms(2) by (simp add: row_of_write reads_def)
  moreover have "row_ok L (written_row L r row)"
    using s assms(2) by (auto simp: row_ok_def reads_def)
  ultimately show ?thesis using assms(1) by (intro require_run_stores)
qed

lemma require_run_other:
  "i \<noteq> wr_run_id r \<Longrightarrow> require_run (snd (write_run L r db)) i = require_run db i"
  by (cases "row_of db i") (auto simp: require_run_def row_of_write written_row_def dest: row_of_Some)

text \<open>One transaction on a run, seen from the run that was read and the one that was written.\<close>

definition halted :: "workflow_run \<Rightarrow> bool" where
  "halted r \<longleftrightarrow> wr_cancellation_requested r \<and> wr_state r \<in> {WS_CANCELLED, WS_UNKNOWN}"

definition follows :: "workflow_run \<Rightarrow> workflow_run \<Rightarrow> bool" where
  "follows p r \<longleftrightarrow>
     wr_run_id r = wr_run_id p \<and> wr_workflow_id r = wr_workflow_id p \<and>
     wr_workflow_version r = wr_workflow_version p \<and> wr_revision r = wr_revision p \<and>
     (halted p \<longrightarrow> halted r)"

inductive writes :: "wf_lib \<Rightarrow> wf_db \<Rightarrow> wf_db \<Rightarrow> bool" for L db where
  writes_nothing: "writes L db db"
| writes_run: "require_run db (wr_run_id p) = Inr p \<Longrightarrow> follows p r \<Longrightarrow> writes L db (snd (write_run L r db))"
| writes_step: "require_run db (wr_run_id p) = Inr p \<Longrightarrow> follows p r \<Longrightarrow>
    writes L db (snd (write_run L r (put_checkpoint L i s c db)))"

lemma require_run_id: "quiet L \<Longrightarrow> db_ok L db \<Longrightarrow> require_run db i = Inr p \<Longrightarrow> wr_run_id p = i"
  by (erule (2) require_run_reads) (simp add: reads_def)

lemma preserve_fields [simp]:
  "wr_run_id (preserve_cancellation db p r) = wr_run_id r"
  "wr_workflow_id (preserve_cancellation db p r) = wr_workflow_id r"
  "wr_workflow_version (preserve_cancellation db p r) = wr_workflow_version r"
  "wr_revision (preserve_cancellation db p r) = wr_revision r"
  by (simp_all add: preserve_cancellation_def Let_def)

lemma preserve_halted: "wr_cancellation_requested p \<Longrightarrow> halted (preserve_cancellation db p r)"
  by (simp add: preserve_cancellation_def halted_def Let_def)

lemma preserve_follows:
  "wr_run_id r = wr_run_id p \<Longrightarrow> wr_workflow_id r = wr_workflow_id p \<Longrightarrow>
   wr_workflow_version r = wr_workflow_version p \<Longrightarrow> wr_revision r = wr_revision p \<Longrightarrow>
   (wr_cancellation_requested p \<Longrightarrow> wr_cancellation_requested q) \<Longrightarrow>
   follows p (preserve_cancellation db q r)"
  using preserve_halted [of q db r] by (auto simp: follows_def halted_def)

lemma add_approvals_fields:
  "add_approvals a r = Inr r' \<Longrightarrow> wr_run_id r' = wr_run_id r \<and> wr_workflow_id r' = wr_workflow_id r \<and>
     wr_workflow_version r' = wr_workflow_version r \<and> wr_revision r' = wr_revision r \<and>
     wr_cancellation_requested r' = wr_cancellation_requested r"
  by (auto simp: add_approvals_def bindE_eq_Inr split: if_splits)

lemma writes_bind:
  "(\<And>x. m = Inr x \<Longrightarrow> writes L db (committed db (f x))) \<Longrightarrow> writes L db (committed db (bindE m f))"
  by (cases m) (simp_all add: writes_nothing)

lemma writes_save:
  assumes "quiet L" and "db_ok L db"
  shows "writes L db (committed db (save_run L r db))"
proof (cases "save_run L r db")
  case (Inr x)
  then obtain p where p: "require_run db (wr_run_id r) = Inr p" and x: "x = write_run L (preserve_cancellation db p r) db"
    and eq: "wr_revision p = wr_revision r" "wr_workflow_id p = wr_workflow_id r"
      "wr_workflow_version p = wr_workflow_version r"
    by (auto simp: save_run_def bindE_eq_Inr split: if_splits)
  have "wr_run_id p = wr_run_id r" by (rule require_run_id [OF assms p])
  with p have "require_run db (wr_run_id p) = Inr p" by simp
  moreover have "follows p (preserve_cancellation db p r)"
    using eq \<open>wr_run_id p = wr_run_id r\<close> by (intro preserve_follows) simp_all
  ultimately show ?thesis using Inr x by (auto intro: writes_run)
qed (simp add: writes_nothing)

lemma writes_bound:
  assumes "quiet L" and "db_ok L db"
  shows "writes L db (committed db (bind_run L i d db))"
    and "writes L db (committed db (mark_unknown L i e db))"
proof -
  have "require_run db (wr_run_id p) = Inr p" if "require_run db i = Inr p" for p
    using require_run_id [OF assms that] that by simp
  then show "writes L db (committed db (bind_run L i d db))"
    and "writes L db (committed db (mark_unknown L i e db))"
    unfolding bind_run_def mark_unknown_def
    by (auto intro!: writes_bind writes_run simp: follows_def halted_def)
qed

lemma writes_update:
  assumes "quiet L" and "db_ok L db"
  shows "writes L db (committed db (update_run L i s e a c db))"
proof (cases "update_run L i s e a c db")
  case (Inr x)
  define w where "w = (\<lambda>p :: workflow_run. let p = (case s of None \<Rightarrow> p | Some s \<Rightarrow> p\<lparr>wr_state := s\<rparr>)
    in case e of None \<Rightarrow> p | Some e \<Rightarrow> p\<lparr>wr_error := e\<rparr>)"
  define u where "u = (\<lambda>r :: workflow_run. if c then r\<lparr>wr_cancellation_requested := True\<rparr> else r)"
  from Inr obtain p r where p: "require_run db i = Inr p" "add_approvals a (w p) = Inr r"
    and x: "x = write_run L (preserve_cancellation db (u r) (u r)) db"
    by (auto simp: update_run_def bindE_eq_Inr Let_def w_def u_def)
  have w: "wr_run_id (w p) = wr_run_id p" "wr_workflow_id (w p) = wr_workflow_id p"
    "wr_workflow_version (w p) = wr_workflow_version p" "wr_revision (w p) = wr_revision p"
    "wr_cancellation_requested (w p) = wr_cancellation_requested p"
    by (simp_all add: w_def Let_def split: option.splits)
  have "follows p (preserve_cancellation db (u r) (u r))"
    using add_approvals_fields [OF p(2)] w by (intro preserve_follows) (auto simp: u_def)
  moreover have "require_run db (wr_run_id p) = Inr p" using require_run_id [OF assms p(1)] p(1) by simp
  ultimately show ?thesis using Inr x by (auto intro: writes_run)
qed (simp add: writes_nothing)

lemma writes_admit:
  assumes "quiet L" and "db_ok L db"
  shows "writes L db (committed db (admit_step L i s c n db))"
proof -
  have "writes L db (snd (write_run L (p\<lparr>wr_step_states := st\<rparr>) (put_checkpoint L i s c db)))"
    if "require_run db i = Inr p" for p st
    using require_run_id [OF assms that] that by (auto intro!: writes_step simp: follows_def halted_def)
  then show ?thesis
    unfolding admit_step_def Let_def by (auto intro!: writes_bind writes_nothing)
qed

lemma writes_finish:
  assumes "quiet L" and "db_ok L db"
  shows "writes L db (committed db (finish_step L i s c db))"
proof (cases "finish_step L i s c db")
  case (Inr x)
  then obtain p st where p: "require_run db i = Inr p"
    and x: "x = (let r = p\<lparr>wr_step_states := dict_set s (JStr st) (wr_step_states p)\<rparr>;
        output = dict_get_or c ''output'' JNull;
        r = (if py_truthy output then r\<lparr>wr_outputs := dict_set s output (wr_outputs r)\<rparr> else r);
        db = put_checkpoint L i s c db
      in write_run L (preserve_cancellation db r r) db)"
    by (auto simp: finish_step_def bindE_eq_Inr Let_def)
  have "follows p (preserve_cancellation db' r r)" if "wr_run_id r = wr_run_id p"
    "wr_workflow_id r = wr_workflow_id p" "wr_workflow_version r = wr_workflow_version p"
    "wr_revision r = wr_revision p" "wr_cancellation_requested r = wr_cancellation_requested p" for r db'
    using that by (intro preserve_follows) simp_all
  moreover have "require_run db (wr_run_id p) = Inr p" using require_run_id [OF assms p] p by simp
  ultimately show ?thesis
    using Inr x by (auto simp: Let_def intro!: writes_step)
qed (simp add: writes_nothing)

end
