(* ===== verification/Workflow_Store_Safety.thy ===== *)
theory Workflow_Store_Safety
  imports Workflow_Store_Proofs
begin

text \<open>
  The properties of the workflow store over every sequence of its transactions: its invariant, the
  versioned register that updates of a run implement, immutable definitions, one run per
  idempotency key, and cancellation that is never undone.
\<close>

section \<open>The invariant is kept\<close>

text \<open>The identifiers the environment draws for new runs contain no registered secret.\<close>

fun op_ok :: "wf_lib \<Rightarrow> store_op \<Rightarrow> bool" where
  "op_ok L (Create_run r) = kept L (wr_run_id r)"
| "op_ok L (Claim_run new_id a k f) = kept L new_id"
| "op_ok L _ = True"

lemma put_checkpoint_simps [simp]:
  "db_runs (put_checkpoint L i s c db) = db_runs db"
  "db_definitions (put_checkpoint L i s c db) = db_definitions db"
  "db_triggers (put_checkpoint L i s c db) = db_triggers db"
  by (simp_all add: put_checkpoint_def)

lemma require_run_cong: "db_runs db' = db_runs db \<Longrightarrow> require_run db' i = require_run db i"
  by (simp add: require_run_def row_of_def)

lemma db_ok_cong: "db_runs db' = db_runs db \<Longrightarrow> db_definitions db' = db_definitions db \<Longrightarrow> db_ok L db' = db_ok L db"
  by (simp add: db_ok_def)

lemma reads_cong: "db_runs db' = db_runs db \<Longrightarrow> reads L db' i row p = reads L db i row p"
  by (simp add: reads_def row_of_def)

definition advances :: "workflow_run \<Rightarrow> workflow_run \<Rightarrow> bool" where
  "advances p q \<longleftrightarrow>
     wr_run_id q = wr_run_id p \<and> wr_workflow_id q = wr_workflow_id p \<and>
     wr_workflow_version q = wr_workflow_version p \<and>
     (q = p \<or> wr_revision p < wr_revision q) \<and> (halted p \<longrightarrow> halted q)"

lemma advances_refl [simp]: "advances p p"
  by (simp add: advances_def)

lemma advances_trans: "advances p q \<Longrightarrow> advances q r \<Longrightarrow> advances p r"
  by (auto simp: advances_def)

lemma stored_follows:
  assumes "reads L db (wr_run_id p) row p" and "follows p r"
  shows "advances p (stored_run L (bump r))"
  using assms
  by (auto simp: reads_def row_ok_def follows_def advances_def stored_text_def kept_def halted_def)

text \<open>What a write does to the run it writes and to the others.\<close>

lemma write_advances:
  assumes "quiet L" and "db_ok L db" and "require_run db (wr_run_id p) = Inr p" and "follows p r"
  shows "db_ok L (snd (write_run L r db))"
    and "require_run db j = Inr x \<Longrightarrow> \<exists>q. require_run (snd (write_run L r db)) j = Inr q \<and> advances x q"
proof -
  obtain row where row: "reads L db (wr_run_id p) row p" by (rule require_run_reads [OF assms(1-3)])
  have f: "wr_run_id r = wr_run_id p" "wr_workflow_id r = wr_workflow_id p"
    "wr_workflow_version r = wr_workflow_version p"
    using assms(4) by (simp_all add: follows_def)
  with row have row': "reads L db (wr_run_id r) row p" by simp
  show "db_ok L (snd (write_run L r db))" by (rule write_run_ok [OF assms(2) row' f(2,3)])
  assume x: "require_run db j = Inr x"
  show "\<exists>q. require_run (snd (write_run L r db)) j = Inr q \<and> advances x q"
  proof (cases "j = wr_run_id r")
    case True
    with x assms(3) f have "x = p" by simp
    with True require_run_written [OF assms(1) row' f(2,3)] stored_follows [OF row assms(4)]
    show ?thesis by simp
  next
    case False
    with x show ?thesis by (simp add: require_run_other)
  qed
qed

lemma writes_advances:
  assumes "quiet L" and "db_ok L db" and "writes L db db'"
  shows "db_ok L db'"
    and "require_run db j = Inr x \<Longrightarrow> \<exists>q. require_run db' j = Inr q \<and> advances x q"
proof -
  have "db_ok L db' \<and> (require_run db j = Inr x \<longrightarrow> (\<exists>q. require_run db' j = Inr q \<and> advances x q))"
    using assms(3)
  proof cases
    case writes_nothing
    with assms(2) show ?thesis by simp
  next
    case (writes_run p r)
    with write_advances [OF assms(1,2)] show ?thesis by blast
  next
    case (writes_step p r i s c)
    let ?db = "put_checkpoint L i s c db"
    have "db_ok L ?db" "require_run ?db (wr_run_id p) = Inr p" "require_run ?db j = require_run db j"
      using assms(2) writes_step by (simp_all add: db_ok_cong [of ?db db] require_run_cong [of ?db db])
    with write_advances [OF assms(1)] writes_step show ?thesis by metis
  qed
  then show "db_ok L db'"
    and "require_run db j = Inr x \<Longrightarrow> \<exists>q. require_run db' j = Inr q \<and> advances x q"
    by simp_all
qed

text \<open>New rows leave the old ones alone.\<close>

lemma require_run_append:
  "require_run db i = Inr p \<Longrightarrow> db_runs db' = db_runs db @ new \<Longrightarrow> require_run db' i = Inr p"
  by (auto simp: require_run_def row_of_def find_row_append split: option.splits)

definition new_row :: "wf_lib \<Rightarrow> workflow_run \<Rightarrow> run_row" where
  "new_row L r = \<lparr>rr_run_id = wr_run_id r, rr_workflow_id = wr_workflow_id r, rr_version = wr_workflow_version r,
     rr_state = workflow_state_value (wr_state r), rr_json = safe_json L (JObj (run_dict r)),
     rr_key = (if wr_idempotency_key r = [] then None else Some (wr_idempotency_key r))\<rparr>"

lemma new_row_stores: "row_stores L r (new_row L r)"
  by (simp add: row_stores_def new_row_def)

lemma in_keyed: "(w, Some k) \<in> set (keyed rows) \<longleftrightarrow> (\<exists>x \<in> set rows. rr_workflow_id x = w \<and> rr_key x = Some k)"
  by (force simp: keyed_def)

lemma insert_run_Inr:
  "insert_run L r db = Inr db' \<longleftrightarrow>
     db' = db\<lparr>db_runs := db_runs db @ [new_row L r]\<rparr> \<and>
     \<not> (\<exists>x \<in> set (db_runs db). rr_run_id x = wr_run_id r) \<and>
     (wr_idempotency_key r \<noteq> [] \<longrightarrow>
       \<not> (\<exists>x \<in> set (db_runs db). rr_workflow_id x = wr_workflow_id r \<and> rr_key x = Some (wr_idempotency_key r)))"
  by (simp add: insert_run_def new_row_def Let_def split del: if_split) (auto split: if_splits)

lemma definition_for_run_kept:
  assumes "db_ok L db" and "definition_for_run db r = Inr d"
  shows "kept L (wr_workflow_id r)" and "kept L (wr_workflow_version r)"
proof -
  obtain v where "dict_get (db_definitions db) (wr_workflow_id r, wr_workflow_version r) = Some v"
    using assms(2) by (auto simp: definition_for_run_def split: option.splits)
  then have "(wr_workflow_id r, wr_workflow_version r) \<in> set (map fst (db_definitions db))"
    by (force dest: dict_get_in)
  with assms(1) show "kept L (wr_workflow_id r)" "kept L (wr_workflow_version r)"
    by (auto simp: db_ok_def list_all_iff)
qed

lemma insert_run_ok:
  assumes "db_ok L db" and "insert_run L r db = Inr db'" and "kept L (wr_run_id r)"
    and "kept L (wr_workflow_id r)" and "kept L (wr_workflow_version r)"
  shows "db_ok L db'"
proof -
  note ins = assms(2) [unfolded insert_run_Inr]
  have "row_ok L (new_row L r)"
    using assms(3-5) new_row_stores [of L r] by (auto simp: row_ok_def row_stores_def)
  moreover have "distinct (keyed (db_runs db @ [new_row L r]))"
    using assms(1) ins in_keyed [of "wr_workflow_id r" "wr_idempotency_key r" "db_runs db"]
    by (auto simp: db_ok_def keyed_def new_row_def)
  moreover have "distinct (map rr_run_id (db_runs db @ [new_row L r]))"
    using assms(1) ins by (auto simp: db_ok_def new_row_def)
  ultimately show ?thesis using assms(1) ins by (simp add: db_ok_def)
qed

text \<open>Creation of a run: the run already made for the key, or a new row.\<close>

lemma create_run_in_cases:
  assumes "create_run_in L r db = Inr (p, db')"
  obtains (found) row where "db' = db" and "wr_idempotency_key r \<noteq> []"
      and "row \<in> set (db_runs db)" and "rr_workflow_id row = wr_workflow_id r"
      and "rr_key row = Some (wr_idempotency_key r)" and "decode_run (rr_json row) = Inr p"
  | (added) d where "definition_for_run db r = Inr d" and "insert_run L p db = Inr db'"
      and "wr_run_id p = wr_run_id r" and "wr_workflow_id p = wr_workflow_id r"
      and "wr_workflow_version p = wr_workflow_version r" and "wr_idempotency_key p = wr_idempotency_key r"
proof -
  let ?find = "find_row (\<lambda>row. rr_workflow_id row = wr_workflow_id r \<and> rr_key row = Some (wr_idempotency_key r)) (db_runs db)"
  obtain d where d: "definition_for_run db r = Inr d"
    using assms by (auto simp: create_run_in_def bindE_eq_Inr)
  let ?r = "r\<lparr>wr_definition_digest := definition_digest L d, wr_inputs_digest := inputs_digest L (wr_inputs r)\<rparr>"
  consider "wr_idempotency_key r = []" | "wr_idempotency_key r \<noteq> []" "?find = None"
    | row where "wr_idempotency_key r \<noteq> []" "?find = Some row" by (cases ?find) auto
  then show ?thesis
  proof cases
    case 1
    then have "insert_run L p db = Inr db'" "p = ?r"
      using assms d by (auto simp: create_run_in_def bindE_eq_Inr Let_def)
    with d show ?thesis by (intro added) simp_all
  next
    case 2
    then have "insert_run L p db = Inr db'" "p = ?r"
      using assms d by (auto simp: create_run_in_def bindE_eq_Inr Let_def)
    with d show ?thesis by (intro added) simp_all
  next
    case (3 row)
    then have "row \<in> set (db_runs db)" "rr_workflow_id row = wr_workflow_id r"
      "rr_key row = Some (wr_idempotency_key r)"
      by (auto dest!: find_row_Some)
    moreover have "decode_run (rr_json row) = Inr p" "db' = db"
      using assms d 3 by (auto simp: create_run_in_def bindE_eq_Inr Let_def split: if_splits)
    ultimately show ?thesis using 3 by (intro found)
  qed
qed

lemma create_run_in_ok:
  assumes "db_ok L db" and "create_run_in L r db = Inr (p, db')" and "kept L (wr_run_id r)"
  shows "db_ok L db'" and "\<exists>new. db_runs db' = db_runs db @ new"
proof -
  have "db_ok L db' \<and> (\<exists>new. db_runs db' = db_runs db @ new)"
    using assms(2)
  proof (cases rule: create_run_in_cases)
    case (found row)
    with assms(1) show ?thesis by simp
  next
    case (added d)
    then have "db_ok L db'"
      using assms(3) definition_for_run_kept [OF assms(1) added(1)] by (intro insert_run_ok [OF assms(1) added(2)]) simp_all
    then show ?thesis using added(2) by (simp add: insert_run_Inr)
  qed
  then show "db_ok L db'" and "\<exists>new. db_runs db' = db_runs db @ new" by simp_all
qed

lemma definition_fields:
  "map fst (definition_to_dict d) = DEFINITION_FIELDS" "wf_dict (definition_to_dict d)"
  by (simp_all add: definition_to_dict_def DEFINITION_FIELDS_def)

lemma unredacted_definition:
  assumes "quiet L" and "require_unredacted L (JObj (definition_to_dict d)) = Inr u"
  shows "kept L (wd_workflow_id d)" and "kept L (wd_version d)"
proof -
  have "redact_sensitive_data (wl_known L) (JObj (definition_to_dict d)) =
      JObj (map (\<lambda>(k, v). (k, redact_sensitive_data (wl_known L) v)) (definition_to_dict d))"
  proof (rule redact_fields)
    fix k assume "k \<in> set (map fst (definition_to_dict d))"
    then have "k \<in> set DEFINITION_FIELDS" by (simp only: definition_fields)
    with assms(1) run_fields_unmarked
    show "kept L k \<and> \<not> marked (py_casefold k) \<and> py_casefold k \<noteq> ''counter_measurements''"
      by (simp add: quiet_def)
  qed (rule definition_fields)
  with assms(2) have "map (\<lambda>(k, v). (k, redact_sensitive_data (wl_known L) v)) (definition_to_dict d) = definition_to_dict d"
    by (simp add: require_unredacted_def del: redact_sensitive_data.simps split: if_splits)
  then show "kept L (wd_workflow_id d)" and "kept L (wd_version d)"
    by (simp_all add: definition_to_dict_def kept_def)
qed

lemma put_definition_ok:
  assumes "quiet L" and "db_ok L db"
  shows "db_ok L (committed db (put_definition L d db))" and "db_runs (committed db (put_definition L d db)) = db_runs db"
proof -
  have "db_ok L (committed db (put_definition L d db)) \<and> db_runs (committed db (put_definition L d db)) = db_runs db"
  proof (cases "require_unredacted L (JObj (definition_to_dict d))")
    case (Inr u)
    with unredacted_definition [OF assms(1)] assms(2) show ?thesis
      by (auto simp: put_definition_def Let_def db_ok_def split: option.splits)
  qed (use assms in \<open>simp add: put_definition_def Let_def\<close>)
  then show "db_ok L (committed db (put_definition L d db))"
    and "db_runs (committed db (put_definition L d db)) = db_runs db" by simp_all
qed

lemma automations_keep:
  "db_runs (committed db (put_automation L b f db)) = db_runs db"
  "db_definitions (committed db (put_automation L b f db)) = db_definitions db"
  "db_runs (committed db (set_automation_enabled L a e f db)) = db_runs db"
  "db_definitions (committed db (set_automation_enabled L a e f db)) = db_definitions db"
  by (auto simp: put_automation_def set_automation_enabled_def committed_bind Let_def split: sum.splits option.splits)

text \<open>A claim of an automation either creates its run or leaves the runs alone.\<close>

lemma claim_keeps:
  assumes "claim_automation_run L i a k f db = Inr (p, db')"
  shows "db_runs db' = db_runs db \<and> db_definitions db' = db_definitions db \<or>
    (\<exists>r db1. wr_run_id r = i \<and> create_run_in L r db = Inr (p, db1) \<and>
       db_runs db' = db_runs db1 \<and> db_definitions db' = db_definitions db1)"
proof (cases "find_row (\<lambda>t. tg_automation t = a \<and> tg_key t = k) (db_triggers db)")
  case None
  then obtain w v inp key db1 where c: "create_run_in L (new_run i w v inp key) db = Inr (p, db1)"
    and db': "db_runs db' = db_runs db1" "db_definitions db' = db_definitions db1"
    using assms by (auto simp: claim_automation_run_def bindE_eq_Inr Let_def split: if_splits)
  have "wr_run_id (new_run i w v inp key) = i" by (simp add: new_run_def)
  with c db' show ?thesis by blast
next
  case (Some t)
  then show ?thesis
    using assms by (auto simp: claim_automation_run_def bindE_eq_Inr Let_def split: if_splits)
qed

section \<open>Every transaction\<close>

lemma store_step_safe:
  assumes "quiet L" and "db_ok L db" and "op_ok L op"
  shows "db_ok L (store_step L db op) \<and>
    (writes L db (store_step L db op) \<or> (\<exists>new. db_runs (store_step L db op) = db_runs db @ new))"
proof -
  note wr = writes_save [OF assms(1,2)] writes_bound [OF assms(1,2)] writes_update [OF assms(1,2)]
    writes_admit [OF assms(1,2)] writes_finish [OF assms(1,2)]
  note ok = wr [THEN writes_advances(1) [OF assms(1,2)]]
  show ?thesis
  proof (cases op)
    case (Create_run r)
    show ?thesis
    proof (cases "create_run L r db")
      case (Inr x)
      then obtain p db' where "create_run_in L r db = Inr (p, db')" "x = (p, db')"
        by (cases x) (auto simp: create_run_def bindE_eq_Inr)
      with create_run_in_ok [OF assms(2), of r p db'] assms(3) Inr Create_run show ?thesis by simp
    qed (use assms Create_run in simp)
  next
    case (Claim_run i a k f)
    show ?thesis
    proof (cases "claim_automation_run L i a k f db")
      case (Inr x)
      obtain p db' where x: "x = (p, db')" by (cases x)
      from claim_keeps [OF Inr [unfolded x]] show ?thesis
      proof
        assume "db_runs db' = db_runs db \<and> db_definitions db' = db_definitions db"
        with assms(2) Claim_run Inr x show ?thesis by (simp add: db_ok_def)
      next
        assume "\<exists>r db1. wr_run_id r = i \<and> create_run_in L r db = Inr (p, db1) \<and>
          db_runs db' = db_runs db1 \<and> db_definitions db' = db_definitions db1"
        then obtain r db1 where r: "wr_run_id r = i" "create_run_in L r db = Inr (p, db1)"
          and same: "db_runs db' = db_runs db1" "db_definitions db' = db_definitions db1" by auto
        with create_run_in_ok [OF assms(2) r(2)] assms(3) Claim_run Inr x show ?thesis
          by (simp add: db_ok_cong [OF same])
      qed
    qed (use assms Claim_run in simp)
  next
    case (Put_definition d)
    with put_definition_ok [OF assms(1,2)] show ?thesis by simp
  next
    case (Put_automation b f)
    with assms(2) automations_keep show ?thesis by (simp add: db_ok_def)
  next
    case (Enable_automation a b f)
    with assms(2) automations_keep show ?thesis by (simp add: db_ok_def)
  next
    case (Save_checkpoint i s c)
    with assms(2) show ?thesis by (simp add: db_ok_def)
  qed (simp_all add: wr ok)
qed

lemma store_step_reads:
  assumes "quiet L" and "db_ok L db" and "op_ok L op" and "require_run db j = Inr p"
  shows "\<exists>q. require_run (store_step L db op) j = Inr q \<and> advances p q"
  using store_step_safe [OF assms(1-3)]
proof (elim conjE disjE)
  assume "writes L db (store_step L db op)"
  from writes_advances(2) [OF assms(1,2) this assms(4)] show ?thesis .
next
  assume "\<exists>new. db_runs (store_step L db op) = db_runs db @ new"
  with require_run_append [OF assms(4)] show ?thesis by auto
qed

lemma store_run_safe:
  assumes "quiet L" and "db_ok L db" and "list_all (op_ok L) ops"
  shows "db_ok L (store_run L db ops)"
    and "require_run db j = Inr p \<Longrightarrow> \<exists>q. require_run (store_run L db ops) j = Inr q \<and> advances p q"
proof -
  have "db_ok L (store_run L db ops) \<and>
      (require_run db j = Inr p \<longrightarrow> (\<exists>q. require_run (store_run L db ops) j = Inr q \<and> advances p q))"
    using assms(2,3)
  proof (induction ops arbitrary: db p)
    case (Cons op ops)
    then have "db_ok L (store_step L db op)" using store_step_safe [OF assms(1)] by simp
    with Cons store_step_reads [OF assms(1), of db op j p] show ?case
      by simp (metis advances_trans)
  qed simp
  then show "db_ok L (store_run L db ops)"
    and "require_run db j = Inr p \<Longrightarrow> \<exists>q. require_run (store_run L db ops) j = Inr q \<and> advances p q"
    by simp_all
qed

lemma keyed_unique:
  assumes "db_ok L db" and "x \<in> set (db_runs db)" and "y \<in> set (db_runs db)"
    and "rr_key x = Some k" and "rr_key y = Some k" and "rr_workflow_id x = rr_workflow_id y"
  shows "x = y"
proof -
  have "inj_on (\<lambda>row. (rr_workflow_id row, rr_key row)) (set (filter (\<lambda>row. rr_key row \<noteq> None) (db_runs db)))"
    using assms(1) by (simp add: db_ok_def keyed_def distinct_map)
  then show ?thesis using assms(2-6) by (auto dest!: inj_onD [where x = x and y = y])
qed

section \<open>Versioned registers\<close>

text \<open>
  The abstract store: one register per run identifier. A step does nothing, makes a new register,
  or replaces the value \<open>p\<close> of a register by a successor of \<open>p\<close> whose revision is one higher;
  \<open>f\<close> is what persistence does to a value.
\<close>

definition runs_of :: "wf_db \<Rightarrow> string \<Rightarrow> workflow_run option" where
  "runs_of db i = (case require_run db i of Inl _ \<Rightarrow> None | Inr p \<Rightarrow> Some p)"

inductive reg_step ::
  "(workflow_run \<Rightarrow> workflow_run) \<Rightarrow> (string \<Rightarrow> workflow_run option) \<Rightarrow> (string \<Rightarrow> workflow_run option) \<Rightarrow> bool"
  for f m where
  reg_idle: "reg_step f m m"
| reg_create: "m (wr_run_id r) = None \<Longrightarrow> reg_step f m (m(wr_run_id r \<mapsto> f r))"
| reg_write: "m (wr_run_id r) = Some p \<Longrightarrow> follows p r \<Longrightarrow> reg_step f m (m(wr_run_id r \<mapsto> f (bump r)))"

lemma runs_of_write:
  assumes "quiet L" and "db_ok L db" and "require_run db (wr_run_id p) = Inr p" and "follows p r"
  shows "runs_of (snd (write_run L r db)) = (runs_of db)(wr_run_id r \<mapsto> stored_run L (bump r))"
proof
  fix i
  obtain row where "reads L db (wr_run_id p) row p" by (rule require_run_reads [OF assms(1-3)])
  then have row: "reads L db (wr_run_id r) row p" "wr_workflow_id r = wr_workflow_id p"
    "wr_workflow_version r = wr_workflow_version p"
    using assms(4) by (simp_all add: follows_def)
  show "runs_of (snd (write_run L r db)) i = ((runs_of db)(wr_run_id r \<mapsto> stored_run L (bump r))) i"
    using require_run_written [OF assms(1) row] by (cases "i = wr_run_id r") (simp_all add: runs_of_def require_run_other)
qed

lemma runs_of_cong: "db_runs db' = db_runs db \<Longrightarrow> runs_of db' = runs_of db"
  by (rule ext) (simp add: runs_of_def require_run_cong [of db' db])

lemma writes_reg_step:
  assumes "quiet L" and "db_ok L db" and "writes L db db'"
  shows "reg_step (stored_run L) (runs_of db) (runs_of db')"
  using assms(3)
proof cases
  case (writes_run p r)
  then have "runs_of db (wr_run_id r) = Some p" by (simp add: runs_of_def follows_def)
  with writes_run runs_of_write [OF assms(1,2)] show ?thesis by (simp add: reg_write)
next
  case (writes_step p r i s c)
  let ?db = "put_checkpoint L i s c db"
  have ok: "db_ok L ?db" "require_run ?db (wr_run_id p) = Inr p" "runs_of ?db = runs_of db"
    using assms(2) writes_step by (simp_all add: db_ok_cong [of ?db db] require_run_cong [of ?db db] runs_of_cong [of ?db db])
  then have "runs_of db (wr_run_id r) = Some p" using writes_step by (simp add: runs_of_def follows_def)
  with writes_step runs_of_write [OF assms(1) ok(1,2)] ok(3) show ?thesis by (simp add: reg_write)
qed (simp add: reg_idle)

lemma insert_reg_step:
  assumes "quiet L" and "db_ok L db'" and "insert_run L r db = Inr db'"
  shows "reg_step (stored_run L) (runs_of db) (runs_of db')"
proof -
  note ins = assms(3) [unfolded insert_run_Inr]
  have none: "row_of db (wr_run_id r) = None" using ins by (auto simp: row_of_def find_row_None)
  then have new: "row_of db' (wr_run_id r) = Some (new_row L r)"
    using ins by (simp add: row_of_def find_row_append) (simp add: new_row_def)
  have "row_of db' i = row_of db i" if "i \<noteq> wr_run_id r" for i
    using ins that by (simp add: row_of_def find_row_append new_row_def split: option.splits)
  then have "require_run db' i = require_run db i" if "i \<noteq> wr_run_id r" for i
    using that by (simp add: require_run_def)
  moreover have "require_run db' (wr_run_id r) = Inr (stored_run L r)"
    using require_run_stores [OF assms(1) _ new new_row_stores] row_of_ok [OF assms(2) new] by simp
  moreover have "require_run db (wr_run_id r) = Inl (PyExn (KeyError (wr_run_id r)))"
    using none by (simp add: require_run_def)
  ultimately have "runs_of db' = (runs_of db)(wr_run_id r \<mapsto> stored_run L r)" "runs_of db (wr_run_id r) = None"
    by (simp_all add: runs_of_def fun_eq_iff)
  then show ?thesis by (simp add: reg_create)
qed

lemma create_reg_step:
  assumes "quiet L" and "db_ok L db" and "create_run_in L r db = Inr (p, db')" and "kept L (wr_run_id r)"
  shows "reg_step (stored_run L) (runs_of db) (runs_of db')"
  using assms(3)
proof (cases rule: create_run_in_cases)
  case (added d)
  with insert_reg_step [OF assms(1) create_run_in_ok(1) [OF assms(2,3,4)] added(2)] show ?thesis by simp
qed (simp add: reg_idle)

lemma store_step_refines:
  assumes "quiet L" and "db_ok L db" and "op_ok L op"
  shows "reg_step (stored_run L) (runs_of db) (runs_of (store_step L db op))"
proof -
  note wr = writes_save [OF assms(1,2)] writes_bound [OF assms(1,2)] writes_update [OF assms(1,2)]
    writes_admit [OF assms(1,2)] writes_finish [OF assms(1,2)]
  have same: "reg_step (stored_run L) (runs_of db) (runs_of db')" if "db_runs db' = db_runs db" for db'
    using runs_of_cong [OF that] by (simp add: reg_idle)
  show ?thesis
  proof (cases op)
    case (Create_run r)
    show ?thesis
    proof (cases "create_run L r db")
      case (Inr x)
      then obtain p db' where "create_run_in L r db = Inr (p, db')" "x = (p, db')"
        by (cases x) (auto simp: create_run_def bindE_eq_Inr)
      with create_reg_step [OF assms(1,2), of r p db'] assms(3) Inr Create_run show ?thesis by simp
    qed (use Create_run in \<open>simp add: reg_idle\<close>)
  next
    case (Claim_run i a k f)
    show ?thesis
    proof (cases "claim_automation_run L i a k f db")
      case (Inr x)
      obtain p db' where x: "x = (p, db')" by (cases x)
      from claim_keeps [OF Inr [unfolded x]] show ?thesis
      proof
        assume "db_runs db' = db_runs db \<and> db_definitions db' = db_definitions db"
        with Claim_run Inr x same show ?thesis by simp
      next
        assume "\<exists>r db1. wr_run_id r = i \<and> create_run_in L r db = Inr (p, db1) \<and>
          db_runs db' = db_runs db1 \<and> db_definitions db' = db_definitions db1"
        then obtain r db1 where r: "wr_run_id r = i" "create_run_in L r db = Inr (p, db1)" "db_runs db' = db_runs db1"
          by auto
        with create_reg_step [OF assms(1,2) r(2)] assms(3) Claim_run Inr x runs_of_cong [OF r(3)] show ?thesis by simp
      qed
    qed (use Claim_run in \<open>simp add: reg_idle\<close>)
  qed (simp_all add: wr [THEN writes_reg_step [OF assms(1,2)]] same put_definition_ok [OF assms(1,2)] automations_keep)
qed

section \<open>A store with one run\<close>

definition one_run :: "bool \<Rightarrow> workflow_state \<Rightarrow> workflow_run" where
  "one_run cancelled state =
     (new_run ''r'' ''w'' ''1'' [] ''k'')\<lparr>wr_cancellation_requested := cancelled, wr_state := state, wr_revision := 4\<rparr>"

definition one_run_db :: "workflow_run \<Rightarrow> wf_db" where
  "one_run_db r = empty_db\<lparr>
     db_definitions := [((''w'', ''1''), JObj (definition_to_dict sample_workflow))],
     db_runs := [new_row sample_lib r]\<rparr>"

lemma one_run_fields [simp]:
  "wr_run_id (one_run c s) = ''r''" "wr_workflow_id (one_run c s) = ''w''"
  "wr_workflow_version (one_run c s) = ''1''" "wr_cancellation_requested (one_run c s) = c"
  "wr_state (one_run c s) = s" "wr_revision (one_run c s) = 4" "wr_idempotency_key (one_run c s) = ''k''"
  "wr_inputs (one_run c s) = []" "wr_definition_digest (one_run c s) = []" "wr_inputs_digest (one_run c s) = []"
  by (simp_all add: one_run_def new_run_def)

lemma sample_kept: "plain s \<Longrightarrow> kept sample_lib s"
  by (simp add: kept_def sample_lib_def redact_text_plain)

lemma sample_quiet: "quiet sample_lib"
  by (simp add: quiet_without_secrets sample_lib_def)

lemma one_run_ids: "kept sample_lib ''r''" "kept sample_lib ''w''" "kept sample_lib ''1''"
  "kept sample_lib ''k''" "kept sample_lib []"
  by (rule sample_kept, simp add: plain_def plain_char_def py_isspace_def)+

lemma one_run_db_ok: "db_ok sample_lib (one_run_db (one_run c s))"
  using one_run_ids new_row_stores [of sample_lib "one_run c s"]
  by (auto simp: db_ok_def one_run_db_def empty_db_def keyed_def row_ok_def new_row_def)

lemma stored_one_run: "stored_run sample_lib (one_run c s) = one_run c s"
  using one_run_ids
  by (simp add: stored_run_def one_run_def new_run_def stored_text_def kept_def stored_obj_def safe_json_def obj_of_def)

lemma one_run_reads: "require_run (one_run_db (one_run c s)) ''r'' = Inr (one_run c s)"
proof -
  have "row_of (one_run_db (one_run c s)) ''r'' = Some (new_row sample_lib (one_run c s))"
    by (simp add: row_of_def one_run_db_def new_row_def)
  moreover have "row_ok sample_lib (new_row sample_lib (one_run c s))"
    using one_run_ids new_row_stores [of sample_lib "one_run c s"] by (auto simp: row_ok_def new_row_def)
  ultimately show ?thesis
    using require_run_stores [OF sample_quiet _ _ new_row_stores] by (simp add: stored_one_run)
qed

section \<open>Properties\<close>

text \<open>
  Nothing is lost. In a store reached from the empty one by any transactions, successful or
  not, run identifiers and idempotency keys are unique and every row reads back as a run with the
  identity of the row: no sequence of operations makes a run unreadable.
\<close>
lemma store_stays_readable:
  assumes "quiet L" and "list_all (op_ok L) ops"
  shows "distinct (map rr_run_id (db_runs (store_run L empty_db ops))) \<and>
    distinct (keyed (db_runs (store_run L empty_db ops))) \<and>
    (\<forall>row \<in> set (db_runs (store_run L empty_db ops)).
       \<exists>p. require_run (store_run L empty_db ops) (rr_run_id row) = Inr p \<and>
         wr_run_id p = rr_run_id row \<and> wr_workflow_id p = rr_workflow_id row)"
proof -
  let ?db = "store_run L empty_db ops"
  have ok: "db_ok L ?db" by (rule store_run_safe(1) [OF assms(1) db_ok_empty assms(2)])
  have "\<exists>p. require_run ?db (rr_run_id row) = Inr p \<and> wr_run_id p = rr_run_id row \<and> wr_workflow_id p = rr_workflow_id row"
    if "row \<in> set (db_runs ?db)" for row
  proof -
    have row: "row_of ?db (rr_run_id row) = Some row" by (rule row_of_unique [OF ok that])
    then have "row_ok L row" using row_of_ok [OF ok] by blast
    then obtain r where "row_stores L r row" by (auto simp: row_ok_def)
    with require_run_stores [OF assms(1) \<open>row_ok L row\<close> row] \<open>row_ok L row\<close> show ?thesis
      by (auto simp: row_ok_def row_stores_def stored_text_def kept_def)
  qed
  with ok show ?thesis by (simp add: db_ok_def)
qed

text \<open>
  The history is immutable. Whatever transactions run, a stored definition is never changed or
  removed, and the rows of runs keep their place, identifier, workflow, version and key; new
  rows come after them.
\<close>
lemma store_appends_only:
  "(\<forall>k v. dict_get (db_definitions db) k = Some v \<longrightarrow>
      dict_get (db_definitions (store_run L db ops)) k = Some v) \<and>
   take (length (db_runs db)) (map row_identity (db_runs (store_run L db ops))) = map row_identity (db_runs db)"
proof -
  obtain f new new' where "db_definitions (store_run L db ops) = db_definitions db @ new'"
    "\<forall>row. row_identity (f row) = row_identity row" "db_runs (store_run L db ops) = map f (db_runs db) @ new"
    using store_run_extends [of db L ops] unfolding extends_def by auto
  then show ?thesis by (simp add: dict_get_append comp_def)
qed

text \<open>
  Cancellation is final. C6: once a run is cancelled (or cancelled with effects to reconcile), no
  later transaction of any executor, successful or not, reopens it, moves it to another
  state or renames it, and no step of it is ever admitted again.
\<close>
theorem cancellation_is_final:
  assumes "quiet L" and "db_ok L db" and "list_all (op_ok L) ops"
    and "require_run db i = Inr p" and "wr_cancellation_requested p" and "wr_state p \<in> {WS_CANCELLED, WS_UNKNOWN}"
  shows "\<exists>q. require_run (store_run L db ops) i = Inr q \<and> wr_workflow_id q = wr_workflow_id p \<and>
      wr_cancellation_requested q \<and> wr_state q \<in> {WS_CANCELLED, WS_UNKNOWN} \<and>
      (\<forall>s c n x. admit_step L i s c n (store_run L db ops) = Inr x \<longrightarrow> x = (False, store_run L db ops))"
proof -
  obtain q where "require_run (store_run L db ops) i = Inr q" "advances p q"
    using store_run_safe(2) [OF assms(1-4)] by auto
  with assms(5,6) show ?thesis
    by (auto simp: advances_def halted_def admit_step_def bindE_eq_Inr)
qed

theorem cancellation_is_final_witness:
  "\<exists>q. require_run (store_run sample_lib (one_run_db (one_run True WS_CANCELLED))
        [Update_run ''r'' (Some WS_RUNNING) None [] False, Save_run (one_run False WS_COMPLETED)]) ''r'' = Inr q \<and>
     wr_state q \<in> {WS_CANCELLED, WS_UNKNOWN}"
  using cancellation_is_final [OF sample_quiet one_run_db_ok [of True WS_CANCELLED],
      of "[Update_run ''r'' (Some WS_RUNNING) None [] False, Save_run (one_run False WS_COMPLETED)]" "''r''"]
    one_run_reads [of True WS_CANCELLED] by fastforce

text \<open>
  Refinement. C13: every transaction of the store, with its guards, errors and roll-backs, is a step
  of the abstract store of versioned registers: at most one run changes, its new value follows
  the value that was stored (same run, workflow and version, never un-cancelled), and its
  revision is one higher.
\<close>
theorem store_refines_registers:
  assumes "quiet L" and "list_all (op_ok L) (ops @ [op])"
  shows "reg_step (stored_run L) (runs_of (store_run L empty_db ops)) (runs_of (store_run L empty_db (ops @ [op])))"
proof -
  have ops: "list_all (op_ok L) ops" "op_ok L op" using assms(2) by simp_all
  have "store_run L empty_db (ops @ [op]) = store_step L (store_run L empty_db ops) op"
    by (simp add: store_run_def)
  then show ?thesis
    using store_step_refines [OF assms(1) store_run_safe(1) [OF assms(1) db_ok_empty ops(1)] ops(2)] by simp
qed

theorem store_refines_registers_witness:
  "reg_step (stored_run sample_lib)
     (runs_of (store_run sample_lib empty_db [Put_definition sample_workflow, Create_run (one_run False WS_PENDING)]))
     (runs_of (store_run sample_lib empty_db ([Put_definition sample_workflow, Create_run (one_run False WS_PENDING)] @
        [Update_run ''r'' None None [] True])))"
  by (rule store_refines_registers [OF sample_quiet]) (simp add: one_run_ids)

text \<open>
  No lost update. C9: a save that succeeds was made on the revision that is stored; it stores the
  run given (the cancellation of the stored run kept) under the next revision and touches no
  other run; and every save that is still based on that or an older revision is refused as a
  conflict, however many other transactions came between.
\<close>
theorem no_lost_update:
  assumes "quiet L" and "db_ok L db" and "save_run L r db = Inr (r', db')"
  shows "(\<exists>p. require_run db (wr_run_id r) = Inr p \<and> wr_revision p = wr_revision r \<and>
      r' = bump (preserve_cancellation db p r)) \<and>
    require_run db' (wr_run_id r) = Inr (stored_run L r') \<and>
    (\<forall>i. i \<noteq> wr_run_id r \<longrightarrow> require_run db' i = require_run db i) \<and>
    (\<forall>ops x. list_all (op_ok L) ops \<and> wr_run_id x = wr_run_id r \<and> wr_revision x \<le> wr_revision r \<longrightarrow>
      save_run L x (store_run L db' ops) = Inl (WorkflowConflictError ''Workflow revision changed''))"
proof -
  obtain p where p: "require_run db (wr_run_id r) = Inr p" "wr_revision p = wr_revision r"
    and w: "(r', db') = write_run L (preserve_cancellation db p r) db"
    and eq: "wr_workflow_id p = wr_workflow_id r" "wr_workflow_version p = wr_workflow_version r"
    using assms(3) by (auto simp: save_run_def bindE_eq_Inr split: if_splits)
  let ?r = "preserve_cancellation db p r"
  have r': "r' = bump ?r" "db' = snd (write_run L ?r db)" using arg_cong [OF w, of fst] arg_cong [OF w, of snd] by simp_all
  obtain row where row: "reads L db (wr_run_id r) row p" by (rule require_run_reads [OF assms(1,2) p(1)])
  have stored: "require_run db' (wr_run_id r) = Inr (stored_run L r')"
    using require_run_written [OF assms(1), of db ?r row p] row eq r' by simp
  have ok: "db_ok L db'" using write_run_ok [OF assms(2), of ?r row p] row eq r' by simp
  have "save_run L x (store_run L db' ops) = Inl (WorkflowConflictError ''Workflow revision changed'')"
    if x: "list_all (op_ok L) ops" "wr_run_id x = wr_run_id r" "wr_revision x \<le> wr_revision r" for ops x
  proof -
    obtain q where "require_run (store_run L db' ops) (wr_run_id r) = Inr q" "advances (stored_run L r') q"
      using store_run_safe(2) [OF assms(1) ok x(1) stored] by auto
    then show ?thesis using x(2,3) r' by (auto simp: save_run_def advances_def)
  qed
  with p stored r' show ?thesis by (auto simp: require_run_other)
qed

lemma one_run_saved:
  "save_run sample_lib (one_run False WS_RUNNING) (one_run_db (one_run False WS_PENDING)) =
     Inr (write_run sample_lib (one_run False WS_RUNNING) (one_run_db (one_run False WS_PENDING)))"
proof -
  have "definition_for_run (one_run_db (one_run False WS_PENDING)) (one_run False WS_RUNNING) = Inr sample_workflow"
    by (simp add: definition_for_run_def one_run_db_def decode_definition_def definition_reads)
  then have "validate_bound sample_lib (one_run_db (one_run False WS_PENDING)) (one_run False WS_RUNNING) = Inr ()"
    by (simp add: validate_bound_def validate_run_def) (simp add: sample_workflow_def)
  then show ?thesis
    by (simp add: save_run_def one_run_reads preserve_cancellation_def)
qed

theorem no_lost_update_witness:
  "\<exists>r' db'. save_run sample_lib (one_run False WS_RUNNING) (one_run_db (one_run False WS_PENDING)) = Inr (r', db') \<and>
     require_run db' ''r'' = Inr (stored_run sample_lib r') \<and>
     save_run sample_lib (one_run False WS_COMPLETED) (store_run sample_lib db' [Mark_unknown ''r'' ''lost'']) =
       Inl (WorkflowConflictError ''Workflow revision changed'')"
proof -
  obtain r' db' where w: "write_run sample_lib (one_run False WS_RUNNING) (one_run_db (one_run False WS_PENDING)) = (r', db')"
    by fastforce
  note saved = one_run_saved [unfolded w]
  have "list_all (op_ok sample_lib) [Mark_unknown ''r'' ''lost'']" by simp
  with no_lost_update [OF sample_quiet one_run_db_ok saved] saved show ?thesis
    by (metis one_run_fields(1,6) order_refl)
qed

text \<open>
  One run per key. Once a run exists for a workflow and a non-empty idempotency key, every later
  creation with the same workflow and key, after any other transactions, either returns that very
  run and changes nothing, or is refused; a second run never appears.
\<close>
lemma one_run_per_key:
  assumes "quiet L" and "db_ok L db" and "list_all (op_ok L) ops"
    and "row \<in> set (db_runs db)" and "rr_key row = Some key" and "key \<noteq> []"
    and "wr_workflow_id r = rr_workflow_id row" and "wr_idempotency_key r = key"
    and "create_run L r (store_run L db ops) = Inr (p, db')"
  shows "wr_run_id p = rr_run_id row \<and> db' = store_run L db ops \<and> require_run db' (rr_run_id row) = Inr p"
proof -
  let ?db = "store_run L db ops"
  have c: "create_run_in L r ?db = Inr (p, db')" using assms(9) by (auto simp: create_run_def bindE_eq_Inr)
  have ok: "db_ok L ?db" by (rule store_run_safe(1) [OF assms(1-3)])
  obtain row1 where row1: "row1 \<in> set (db_runs ?db)" "row_identity row1 = row_identity row"
    using store_run_extends [of db L ops] assms(4) unfolding extends_def by force
  show "wr_run_id p = rr_run_id row \<and> db' = ?db \<and> require_run db' (rr_run_id row) = Inr p"
    using c
  proof (cases rule: create_run_in_cases)
    case (found row2)
    have "row2 = row1"
      by (rule keyed_unique [OF ok found(3) row1(1)]) (use found row1(2) assms(5-8) in \<open>simp_all add: row_identity_def\<close>)
    then have row2: "rr_run_id row2 = rr_run_id row" using row1(2) by (simp add: row_identity_def)
    have at: "row_of ?db (rr_run_id row2) = Some row2" by (rule row_of_unique [OF ok found(3)])
    then have "row_ok L row2" using row_of_ok [OF ok] by blast
    moreover from this obtain r2 where r2: "row_stores L r2 row2" by (auto simp: row_ok_def)
    ultimately have "require_run ?db (rr_run_id row2) = Inr (stored_run L r2)"
      by (intro require_run_stores [OF assms(1) _ at])
    moreover have "p = stored_run L r2"
      using found(6) r2 by (simp add: row_stores_def decode_stored_run [OF assms(1)])
    ultimately have p: "require_run ?db (rr_run_id row) = Inr p" using row2 by simp
    with require_run_id [OF assms(1) ok p] found(1) show ?thesis by simp
  next
    case (added d)
    then show ?thesis
      using row1 assms(5-8) by (auto simp: insert_run_Inr row_identity_def)
  qed
qed

lemma one_run_per_key_witness:
  "create_run sample_lib (one_run True WS_FAILED) (one_run_db (one_run False WS_RUNNING)) =
     Inr (one_run False WS_RUNNING, one_run_db (one_run False WS_RUNNING)) \<and>
   wr_run_id (one_run False WS_RUNNING) = ''r''"
proof -
  let ?db = "one_run_db (one_run False WS_RUNNING)"
  let ?row = "new_row sample_lib (one_run False WS_RUNNING)"
  have d: "definition_for_run ?db r = Inr sample_workflow" if "wr_workflow_id r = ''w''" "wr_workflow_version r = ''1''" for r
    using that by (simp add: definition_for_run_def one_run_db_def decode_definition_def definition_reads)
  have v: "validate_bound sample_lib ?db (one_run False WS_RUNNING) = Inr ()"
    by (simp add: validate_bound_def validate_run_def d) (simp add: sample_workflow_def)
  have row: "decode_run (rr_json ?row) = Inr (one_run False WS_RUNNING)" "db_runs ?db = [?row]"
    "rr_workflow_id ?row = ''w''" "rr_key ?row = Some ''k''" "rr_run_id ?row = ''r''"
    by (simp_all add: new_row_def decode_stored_run [OF sample_quiet] stored_one_run one_run_db_def)
  have c: "create_run sample_lib (one_run True WS_FAILED) (store_run sample_lib ?db []) = Inr (one_run False WS_RUNNING, ?db)"
    by (simp add: create_run_def create_run_in_def require_unredacted_def d v row)
  show ?thesis
    using one_run_per_key [OF sample_quiet one_run_db_ok _ _ row(4) _ _ _ c] c row by simp
qed

lemma store_stays_readable_witness:
  "distinct (map rr_run_id (db_runs (store_run sample_lib empty_db
     [Put_definition sample_workflow, Create_run (one_run False WS_PENDING), Create_run (one_run True WS_PENDING)])))"
proof -
  let ?ops = "[Put_definition sample_workflow, Create_run (one_run False WS_PENDING), Create_run (one_run True WS_PENDING)]"
  have "list_all (op_ok sample_lib) ?ops" by (simp add: one_run_ids)
  from store_stays_readable [OF sample_quiet this] show ?thesis by (rule conjunct1)
qed

lemma store_appends_only_witness:
  "dict_get (db_definitions (store_run sample_lib (one_run_db (one_run False WS_PENDING))
     [Put_definition (sample_workflow\<lparr>wd_trigger := TR_EVENT\<rparr>)])) (''w'', ''1'') = Some (JObj (definition_to_dict sample_workflow))"
proof -
  have "dict_get (db_definitions (one_run_db (one_run False WS_PENDING))) (''w'', ''1'') = Some (JObj (definition_to_dict sample_workflow))"
    by (simp add: one_run_db_def)
  with store_appends_only show ?thesis by blast
qed

end
