(* ===== verification/Workflow_Runtime.thy ===== *)
theory Workflow_Runtime
  imports Workflow_Store_Safety Capability_Contract
begin

text \<open>
  Execution of workflows (\<open>nous_runtime/workflow/runtime.py\<close>). An operation is a function on the
  world: the database, the handlers called so far and the events emitted. It may fail, and what it
  has committed stays. Every read and every transaction is one tick; before it, the transactions
  of everybody else (cancellations, other steps of the wave, other executors) that the
  environment \<open>ht_others\<close> puts there are run. What a handler answers is given by \<open>ht_answer\<close>, whether it is too
  late by \<open>ht_late\<close>; \<open>Died\<close> is the end of the process. The steps of a wave run one after
  another, as with \<open>max_parallel = 1\<close>.
\<close>

section \<open>The host\<close>

datatype answer =
    Returned json
  | NeedsApproval jobj
  | OutcomeUnknown string
  | Raised string jobj
  | Died

datatype handler_ref = Registered string | Builtin

record handler_call =
  hc_handler :: handler_ref
  hc_step :: workflow_step
  hc_context :: jobj

record world =
  w_db :: wf_db
  w_tick :: nat
  w_calls :: "handler_call list"
  w_events :: "(string \<times> jobj) list"

record host =
  ht_handlers :: "string list"
  ht_policies :: "(string, handler_policy) dict"
  ht_answer :: "nat \<Rightarrow> string \<Rightarrow> workflow_step \<Rightarrow> jobj \<Rightarrow> answer"
  ht_late :: "nat \<Rightarrow> bool"
  ht_others :: "nat \<Rightarrow> store_op list"

text \<open>The policies of the constructor: those given, then those the handlers carry themselves.\<close>

definition init_policies ::
  "(string \<times> handler_policy option) list \<Rightarrow> (string, handler_policy) dict \<Rightarrow> (string, handler_policy) dict" where
  "init_policies handlers given =
     fold (\<lambda>(key, own) ps.
       case own of
         Some p \<Rightarrow> if dict_get ps key = None then dict_set key p ps else ps
       | None \<Rightarrow> ps) handlers given"

section \<open>Operations\<close>

datatype rt_exn = Failed wf_exn | Process_died

type_synonym 'a rt = "world \<Rightarrow> (rt_exn + 'a) \<times> world"

definition ret :: "'a \<Rightarrow> 'a rt" where
  "ret x = (\<lambda>w. (Inr x, w))"

definition fail :: "wf_exn \<Rightarrow> 'a rt" where
  "fail e = (\<lambda>w. (Inl (Failed e), w))"

definition rbind :: "'a rt \<Rightarrow> ('a \<Rightarrow> 'b rt) \<Rightarrow> 'b rt" where
  "rbind m f = (\<lambda>w. case m w of (Inl e, w) \<Rightarrow> (Inl e, w) | (Inr x, w) \<Rightarrow> f x w)"

text \<open>\<open>try\<close>: the handler sees the exception, and \<open>None\<close> means that it is raised again.\<close>

definition attempt :: "'a rt \<Rightarrow> (wf_exn \<Rightarrow> 'b rt option) \<Rightarrow> ('a \<Rightarrow> 'b rt) \<Rightarrow> 'b rt" where
  "attempt m h f = (\<lambda>w.
     case m w of
       (Inr x, w) \<Rightarrow> f x w
     | (Inl (Failed e), w) \<Rightarrow> (case h e of Some r \<Rightarrow> r w | None \<Rightarrow> (Inl (Failed e), w))
     | (Inl Process_died, w) \<Rightarrow> (Inl Process_died, w))"

definition lift :: "wf_exn + 'a \<Rightarrow> 'a rt" where
  "lift m = (case m of Inl e \<Rightarrow> fail e | Inr x \<Rightarrow> ret x)"

definition tx :: "host \<Rightarrow> wf_lib \<Rightarrow> (wf_db \<Rightarrow> wf_exn + 'a \<times> wf_db) \<Rightarrow> 'a rt" where
  "tx H L f = (\<lambda>w.
     let w = w\<lparr>w_db := store_run L (w_db w) (ht_others H (w_tick w)), w_tick := Suc (w_tick w)\<rparr> in
     case f (w_db w) of
       Inl e \<Rightarrow> (Inl (Failed e), w)
     | Inr (x, db) \<Rightarrow> (Inr x, w\<lparr>w_db := db\<rparr>))"

definition query :: "host \<Rightarrow> wf_lib \<Rightarrow> (wf_db \<Rightarrow> wf_exn + 'a) \<Rightarrow> 'a rt" where
  "query H L f = tx H L (\<lambda>db. bindE (f db) (\<lambda>x. Inr (x, db)))"

definition require :: "host \<Rightarrow> wf_lib \<Rightarrow> string \<Rightarrow> workflow_run rt" where
  "require H L run_id =
     query H L (\<lambda>db. bindE (get_run db run_id) (\<lambda>r.
       case r of None \<Rightarrow> Inl (PyExn (KeyError run_id)) | Some r \<Rightarrow> Inr r))"

definition checkpoints :: "host \<Rightarrow> wf_lib \<Rightarrow> string \<Rightarrow> jobj rt" where
  "checkpoints H L run_id = query H L (\<lambda>db. Inr (run_checkpoints db run_id))"

text \<open>\<open>checkpoints.get(key) or {}\<close>\<close>

definition cp_get :: "jobj \<Rightarrow> string \<Rightarrow> jobj rt" where
  "cp_get cps key = lift (lift_py (as_obj (get_or cps key (JObj []))))"

section \<open>Events\<close>

fun event_state :: "workflow_state \<Rightarrow> string" where
  "event_state WS_PENDING = ''CREATED''"
| "event_state WS_RUNNING = ''RUNNING''"
| "event_state WS_WAITING_APPROVAL = ''WAITING_FOR_APPROVAL''"
| "event_state WS_UNKNOWN = ''RECOVERY_REQUIRED''"
| "event_state WS_COMPLETED = ''COMPLETED''"
| "event_state WS_FAILED = ''FAILED''"
| "event_state WS_CANCELLED = ''CANCELLED''"
| "event_state WS_COMPENSATION_FAILED = ''FAILED''"

definition emit :: "workflow_run \<Rightarrow> string \<Rightarrow> jobj \<Rightarrow> unit rt" where
  "emit run event_type payload = (\<lambda>w.
     (Inr (), w\<lparr>w_events := w_events w @ [(event_type,
        fold (\<lambda>(k, v). dict_set k v) payload
          [(''run_id'', JStr (wr_run_id run)), (''state'', JStr (event_state (wr_state run)))])]\<rparr>))"

definition finish :: "host \<Rightarrow> wf_lib \<Rightarrow> string \<Rightarrow> workflow_state \<Rightarrow> string \<Rightarrow> jobj \<Rightarrow> workflow_run rt" where
  "finish H L run_id state error payload =
     rbind (tx H L (update_run L run_id (Some state) (Some error) [] False)) (\<lambda>run.
     rbind (emit run (''workflow.'' @ workflow_state_value (wr_state run))
       (fold (\<lambda>(k, v). dict_set k v) payload [(''error'', JStr (wr_error run))])) (\<lambda>_. ret run))"

definition binding_failure :: "host \<Rightarrow> wf_lib \<Rightarrow> workflow_run \<Rightarrow> string \<Rightarrow> workflow_run rt" where
  "binding_failure H L run msg =
     rbind (tx H L (mark_unknown L (wr_run_id run) msg)) (\<lambda>run.
     rbind (emit run ''workflow.unknown'' [(''error'', JStr (wr_error run))]) (\<lambda>_. ret run))"

section \<open>Handlers\<close>

definition SUPPORTED_EFFECTS :: "string list" where
  "SUPPORTED_EFFECTS = [''none'', ''read_only'', ''local_write'', ''external_write'']"

definition PURE_EFFECTS :: "string list" where
  "PURE_EFFECTS = [''none'', ''read_only'']"

definition builtin_contract :: "step_type \<Rightarrow> capability_contract" where
  "builtin_contract st =
     (default_contract [])\<lparr>cc_capability_id := ''workflow.'' @ step_type_value st, cc_side_effect_class := ''none'',
       cc_idempotency := IC_IDEMPOTENT, cc_retry_strategy := RM_LINEAR, cc_max_retries := 10\<rparr>"

definition handler_of :: "host \<Rightarrow> workflow_step \<Rightarrow> wf_exn + handler_ref option \<times> handler_policy" where
  "handler_of H step =
     (let key = (if ws_action step \<in> set (ht_handlers H) then ws_action step else step_type_value (ws_step_type step)) in
      if key \<in> set (ht_handlers H) then
        let policy = dict_get_or (ht_policies H) key default_policy in
        bindE (if ws_action step \<noteq> [] then Inr (ws_action step) else wf_capability (ws_step_type step) (ws_action step))
          (\<lambda>capability.
            if (case hp_contract policy of Some c \<Rightarrow> cc_capability_id c \<noteq> capability | None \<Rightarrow> False)
            then binding_error ''Workflow handler contract capability binding changed''
            else Inr (Some (Registered key), policy))
      else if ws_step_type step \<in> {ST_TRANSFORM, ST_WAIT, ST_CONDITION, ST_APPROVAL} \<and> ws_condition step = [] then
        bindE (wf_capability (ws_step_type step) []) (\<lambda>capability.
          if ws_action step \<in> {[], capability}
          then Inr (Some Builtin, \<lparr>hp_contract = Some (builtin_contract (ws_step_type step)), hp_reconcile_started = False\<rparr>)
          else Inr (None, default_policy))
      else Inr (None, default_policy))"

definition policy_snapshot :: "handler_policy \<Rightarrow> jobj" where
  "policy_snapshot p =
     (let c = hp_contract p in
      [(''reconcile_started'', JBool (hp_reconcile_started p)),
       (''capability_id'', JStr (case c of Some c \<Rightarrow> cc_capability_id c | None \<Rightarrow> [])),
       (''side_effect_class'', JStr (case c of Some c \<Rightarrow> cc_side_effect_class c | None \<Rightarrow> ''unknown'')),
       (''idempotency'', JStr (idempotency_value (case c of Some c \<Rightarrow> cc_idempotency c | None \<Rightarrow> IC_NOT_IDEMPOTENT))),
       (''retry_strategy'', JStr (retry_mode_value (case c of Some c \<Rightarrow> cc_retry_strategy c | None \<Rightarrow> RM_NONE))),
       (''max_retries'', JInt (case c of Some c \<Rightarrow> cc_max_retries c | None \<Rightarrow> 0))])"

definition effect_in :: "string list \<Rightarrow> jobj \<Rightarrow> bool" where
  "effect_in effects snapshot \<longleftrightarrow> dict_get snapshot ''side_effect_class'' \<in> Some ` JStr ` set effects"

definition retry_limit :: "workflow_step \<Rightarrow> jobj \<Rightarrow> int" where
  "retry_limit step snapshot =
     (case dict_get snapshot ''max_retries'' of
        Some (JInt n) \<Rightarrow>
          if effect_in SUPPORTED_EFFECTS snapshot \<and>
             dict_get snapshot ''idempotency'' = Some (JStr (idempotency_value IC_IDEMPOTENT)) \<and>
             dict_get snapshot ''retry_strategy'' \<noteq> Some (JStr (retry_mode_value RM_NONE)) \<and> 0 \<le> n \<and> n \<le> 10
          then min (ws_retries step) n else 0
      | _ \<Rightarrow> 0)"

definition builtin_handler :: "workflow_step \<Rightarrow> jobj \<Rightarrow> answer" where
  "builtin_handler step context =
     (case ws_step_type step of
        ST_TRANSFORM \<Rightarrow>
          Returned (JObj [(''value'', dict_get_or (ws_params step) ''value'' JNull),
            (''inputs'', dict_get_or context ''inputs'' JNull)])
      | ST_WAIT \<Rightarrow> Returned (JObj [(''waited'', JBool True)])
      | ST_CONDITION \<Rightarrow> Returned (JObj [(''matched'', JBool True)])
      | ST_APPROVAL \<Rightarrow> Returned (JObj [(''approved'', JBool True)])
      | _ \<Rightarrow> Raised (''no workflow handler registered for '' @ step_type_value (ws_step_type step) @ '':'' @ ws_action step) [])"

text \<open>A call is recorded with its context; the answer depends on how many calls there were before.\<close>

definition call_handler :: "host \<Rightarrow> handler_ref \<Rightarrow> workflow_step \<Rightarrow> jobj \<Rightarrow> answer rt" where
  "call_handler H ref step context = (\<lambda>w.
     let n = length (w_calls w);
         w = w\<lparr>w_calls := w_calls w @ [\<lparr>hc_handler = ref, hc_step = step, hc_context = context\<rparr>]\<rparr>;
         a = (case ref of Registered key \<Rightarrow> ht_answer H n key step context | Builtin \<Rightarrow> builtin_handler step context)
     in (if a = Died then Inl Process_died else Inr a, w))"

text \<open>With a time-out: \<open>None\<close> when the answer comes too late.\<close>

definition call_in_time :: "host \<Rightarrow> handler_ref \<Rightarrow> workflow_step \<Rightarrow> jobj \<Rightarrow> answer option rt" where
  "call_in_time H ref step context = (\<lambda>w.
     case call_handler H ref step context w of
       (Inl e, w') \<Rightarrow> (Inl e, w')
     | (Inr a, w') \<Rightarrow> (Inr (if ht_late H (length (w_calls w)) then None else Some a), w'))"

section \<open>Bindings of a step\<close>

definition step_binding :: "host \<Rightarrow> wf_lib \<Rightarrow> workflow_run \<Rightarrow> workflow_step \<Rightarrow> string rt" where
  "step_binding H L run step =
     rbind (if ws_data_bindings step = JNull
            then ret (map (\<lambda>key. (key, dict_get_or (wr_outputs run) key JNull)) (ws_depends_on step))
            else rbind (checkpoints H L (wr_run_id run)) (\<lambda>cps.
              lift (mapE (\<lambda>key. bindE (lift_py (as_obj (get_or cps key (JObj [])))) (\<lambda>cp.
                Inr (key, dict_get_or cp ''output'' JNull))) (ws_depends_on step))))
       (\<lambda>dependencies.
       ret (binding_digest L (JObj
         [(''run_id'', JStr (wr_run_id run)), (''definition_digest'', JStr (wr_definition_digest run)),
          (''inputs_digest'', JStr (wr_inputs_digest run)), (''step_id'', JStr (ws_step_id step)),
          (''params'', JObj (ws_params step)),
          (''dependencies'', JObj (fold (\<lambda>(k, v). dict_set k v) dependencies []))])))"

definition finished_status :: "jobj \<Rightarrow> bool" where
  "finished_status cp \<longleftrightarrow> dict_get cp ''status'' \<in> {Some (JStr ''completed''), Some (JStr ''skipped'')}"

text \<open>The sources of the data of a step: outputs of completed steps, with intact evidence.\<close>

definition resolve_source ::
  "host \<Rightarrow> wf_lib \<Rightarrow> workflow_run \<Rightarrow> workflow_step list \<Rightarrow> jobj \<Rightarrow> json \<Rightarrow> jobj \<Rightarrow> jobj rt" where
  "resolve_source H L run steps cps reference sources =
     rbind (lift (json_item reference ''source'')) (\<lambda>source.
       if source \<noteq> JStr ''step'' then ret sources
       else
         rbind (lift (bindE (json_item reference ''step_id'') (\<lambda>v. lift_py (as_text v)))) (\<lambda>source_id.
         rbind (cp_get cps source_id) (\<lambda>cp.
           if dict_get cp ''status'' \<noteq> Some (JStr ''completed'')
           then lift (invalid ''Workflow data source has no completed result'')
           else case find_row (\<lambda>s. ws_step_id s = source_id) (rev steps) of
               None \<Rightarrow> fail (PyExn (KeyError source_id))
             | Some declared \<Rightarrow>
                 rbind (step_binding H L run declared) (\<lambda>binding.
                 rbind (lift (validate_checkpoint cp (JStr binding))) (\<lambda>_.
                 let output = dict_get_or cp ''output'' JNull in
                 if \<not> py_truthy (dict_get_or cp ''binding_digest'' JNull) \<or>
                    (case output of JObj _ \<Rightarrow> False | _ \<Rightarrow> True) \<or>
                    dict_get cp ''output_digest'' \<noteq> Some (JStr (binding_digest L output)) \<or>
                    output \<noteq> dict_get_or (wr_outputs run) source_id (JObj [])
                 then lift (binding_error ''Workflow data source evidence changed'')
                 else ret (dict_set source_id output sources))))))"

fun resolve_sources ::
  "host \<Rightarrow> wf_lib \<Rightarrow> workflow_run \<Rightarrow> workflow_step list \<Rightarrow> jobj \<Rightarrow> json list \<Rightarrow> jobj \<Rightarrow> jobj rt" where
  "resolve_sources H L run steps cps [] sources = ret sources"
| "resolve_sources H L run steps cps (reference # references) sources =
     rbind (resolve_source H L run steps cps reference sources)
       (resolve_sources H L run steps cps references)"

definition public_inputs :: "workflow_run \<Rightarrow> jobj" where
  "public_inputs run = filter (\<lambda>(key, _). \<not> startswith key ''_'') (wr_inputs run)"

definition source_metadata :: "wf_lib \<Rightarrow> jobj \<Rightarrow> jobj \<Rightarrow> json \<Rightarrow> wf_exn + json" where
  "source_metadata L inputs sources reference =
     bindE (json_item reference ''source'') (\<lambda>source.
     bindE (if source = JStr ''inputs'' then Inr (JObj inputs)
            else bindE (json_item reference ''step_id'') (\<lambda>sid.
              bindE (lift_py (as_text sid)) (\<lambda>sid. lift_py (rd_item sources sid)))) (\<lambda>value.
     bindE (lift_py (as_obj reference)) (\<lambda>r.
       Inr (JObj (dict_set ''source_digest'' (JStr (binding_digest L value)) r)))))"

text \<open>The resolved step and the metadata, which is \<open>JNull\<close> without a contract.\<close>

definition resolve_step_data :: "host \<Rightarrow> wf_lib \<Rightarrow> workflow_run \<Rightarrow> workflow_step \<Rightarrow> (workflow_step \<times> json) rt" where
  "resolve_step_data H L run step =
     (if ws_data_bindings step = JNull then ret (step, JNull)
      else
        rbind (checkpoints H L (wr_run_id run)) (\<lambda>cps.
        rbind (query H L (\<lambda>db. get_definition db (wr_workflow_id run) (wr_workflow_version run))) (\<lambda>d.
        case d of
          None \<Rightarrow> lift (binding_error ''Workflow data definition is unavailable'')
        | Some d \<Rightarrow>
            rbind (resolve_sources H L run (wd_steps d) cps (map snd (contract_inputs step)) []) (\<lambda>sources.
            rbind (lift (resolve_step_bindings L step (public_inputs run) sources)) (\<lambda>params.
            rbind (lift (mapE (\<lambda>(target, reference).
                bindE (source_metadata L (public_inputs run) sources reference) (\<lambda>v. Inr (target, v)))
                (contract_inputs step))) (\<lambda>metadata.
              ret (step\<lparr>ws_params := params\<rparr>,
                JObj [(''schema_version'', JInt 1), (''params_digest'', JStr (binding_digest L (JObj params))),
                  (''sources'', JObj metadata)])))))))"

definition check_checkpoint :: "host \<Rightarrow> wf_lib \<Rightarrow> workflow_run \<Rightarrow> workflow_step \<Rightarrow> jobj \<Rightarrow> unit rt" where
  "check_checkpoint H L run step cp =
     (if finished_status cp \<and>
         (\<not> py_truthy (dict_get_or cp ''binding_digest'' JNull) \<or> \<not> py_truthy (dict_get_or cp ''output_digest'' JNull) \<or>
          (case dict_get cp ''output'' of Some (JObj _) \<Rightarrow> False | _ \<Rightarrow> True))
      then lift (binding_error ''Completed Workflow checkpoint has incomplete evidence bindings'')
      else
        rbind (step_binding H L run step) (\<lambda>binding.
        rbind (lift (validate_checkpoint cp (JStr binding))) (\<lambda>_.
          if py_truthy (dict_get_or cp ''output_digest'' JNull) \<and>
             dict_get cp ''output_digest'' \<noteq> Some (JStr (binding_digest L (get_or cp ''output'' (JObj []))))
          then lift (binding_error ''Workflow checkpoint output binding changed'')
          else if ws_data_bindings step \<noteq> JNull \<and> finished_status cp then
            attempt
              (rbind (resolve_step_data H L run step) (\<lambda>(_, metadata).
                 if dict_get_or cp ''data_binding'' JNull \<noteq> metadata
                 then lift (binding_error ''Workflow checkpoint data binding changed'')
                 else if dict_get cp ''status'' = Some (JStr ''completed'')
                 then lift (validate_step_data L step (get_or cp ''output'' (JObj [])) True)
                 else ret ()))
              (\<lambda>e. case e of
                 WorkflowValidationError _ \<Rightarrow>
                   Some (lift (binding_error ''Workflow checkpoint data contract is no longer valid''))
               | _ \<Rightarrow> None)
              ret
          else ret ())))"

section \<open>Execution of a step\<close>

type_synonym step_result = "string \<times> json \<times> string"

text \<open>What a step record is about: the run, the step, its binding, its policy and its data.\<close>

record step_ctx =
  sc_run :: workflow_run
  sc_step :: workflow_step
  sc_binding :: string
  sc_policy :: jobj
  sc_data :: json

definition record_step ::
  "host \<Rightarrow> wf_lib \<Rightarrow> step_ctx \<Rightarrow> int \<Rightarrow> string \<Rightarrow> json \<Rightarrow> string \<Rightarrow> bool \<Rightarrow> step_result rt" where
  "record_step H L c attempts status output error data_validation_failed =
     (let output = redact_sensitive_data (wl_known L) output;
          error = redact_sensitive_text (wl_known L) error
      in rbind (tx H L (finish_step L (wr_run_id (sc_run c)) (ws_step_id (sc_step c))
          ([(''status'', JStr status), (''output'', output), (''output_digest'', JStr (binding_digest L output)),
            (''error'', JStr error), (''attempts'', JInt attempts), (''binding_digest'', JStr (sc_binding c)),
            (''handler_policy'', JObj (sc_policy c))] @
           (if sc_data c \<noteq> JNull then [(''data_binding'', sc_data c)] else []) @
           (if data_validation_failed then [(''data_validation_failed'', JBool True)] else []))))
        (\<lambda>_. ret (status, output, error)))"

text \<open>
  What one answer means. \<open>Final\<close> is recorded and returned; \<open>Tried\<close> is recorded and may be tried
  again. The flag \<open>reconcile\<close> is that of the policy.
\<close>

datatype settled = Final int string json string bool | Tried string json string

definition unsure :: "jobj \<Rightarrow> bool \<Rightarrow> string" where
  "unsure snapshot reconcile = (if effect_in PURE_EFFECTS snapshot \<or> reconcile then ''failed'' else ''unknown'')"

definition settle ::
  "wf_lib \<Rightarrow> workflow_step \<Rightarrow> jobj \<Rightarrow> bool \<Rightarrow> int \<Rightarrow> answer option \<Rightarrow> wf_exn + settled" where
  "settle L step snapshot reconcile attempts answer =
     (case answer of
        None \<Rightarrow> Inr (Tried (unsure snapshot False) (JObj [])
          (''step timed out after '' @ wl_float L (ws_timeout_seconds step) @ '' seconds''))
      | Some (NeedsApproval output) \<Rightarrow>
          Inr (Final (attempts - 1) ''waiting_approval'' (JObj output) ''Operation requires human approval'' False)
      | Some (OutcomeUnknown msg) \<Rightarrow> Inr (Tried ''unknown'' (JObj []) (redact_sensitive_text (wl_known L) msg))
      | Some (Raised msg output) \<Rightarrow>
          Inr (Tried (unsure snapshot reconcile) (JObj output) (redact_sensitive_text (wl_known L) msg))
      | Some Died \<Rightarrow> Inr (Tried ''unknown'' (JObj []) [])
      | Some (Returned result) \<Rightarrow>
          (case py_dict (if py_truthy result then result else JObj []) of
             Inl e \<Rightarrow>
               if ws_data_bindings step \<noteq> JNull
               then Inr (Final attempts (unsure snapshot False) (JObj [])
                 ''Workflow result cannot be recorded; original output unavailable'' True)
               else Inr (Tried (unsure snapshot reconcile) (JObj []) (redact_sensitive_text (wl_known L) (exn_text e)))
           | Inr m \<Rightarrow>
               let output = redact_sensitive_data (wl_known L) (JObj m) in
               (case validate_step_data L step output True of
                  Inl (WorkflowValidationError msg) \<Rightarrow> Inr (Final attempts (unsure snapshot False) output msg True)
                | Inl e \<Rightarrow> Inl e
                | Inr _ \<Rightarrow> Inr (Final attempts ''completed'' output [] False))))"

text \<open>One turn of the loop; the flag says whether the result is final.\<close>

definition one_attempt ::
  "host \<Rightarrow> wf_lib \<Rightarrow> step_ctx \<Rightarrow> handler_ref \<Rightarrow> bool \<Rightarrow> workflow_step \<Rightarrow> jobj \<Rightarrow> int \<Rightarrow> (bool \<times> step_result) rt" where
  "one_attempt H L c ref reconcile resolved context attempts =
     rbind (tx H L (admit_step L (wr_run_id (sc_run c)) (ws_step_id (sc_step c))
         ([(''status'', JStr ''started''), (''attempts'', JInt attempts), (''binding_digest'', JStr (sc_binding c)),
           (''handler_policy'', JObj (sc_policy c))] @
          (if sc_data c \<noteq> JNull then [(''data_binding'', sc_data c)] else []))
         (attempts - 1))) (\<lambda>admitted.
       if \<not> admitted then ret (True, (''cancelled'', JObj [], []))
       else
         rbind (call_in_time H ref resolved context) (\<lambda>answer.
         rbind (lift (settle L (sc_step c) (sc_policy c) reconcile attempts answer)) (\<lambda>s.
         case s of
           Final n status output error bad \<Rightarrow>
             rbind (record_step H L c n status output error bad) (\<lambda>r. ret (True, r))
         | Tried status output error \<Rightarrow>
             rbind (record_step H L c attempts status output error False) (\<lambda>_. ret (False, (status, output, error))))))"

lemma rbind_cong [fundef_cong]:
  "m = m' \<Longrightarrow> (\<And>x. f x = f' x) \<Longrightarrow> rbind m f = rbind m' f'"
  by presburger

text \<open>\<open>while True\<close>: at most \<open>1 + limit\<close> attempts in all.\<close>

function attempts_loop ::
  "host \<Rightarrow> wf_lib \<Rightarrow> step_ctx \<Rightarrow> handler_ref \<Rightarrow> bool \<Rightarrow> workflow_step \<Rightarrow> jobj \<Rightarrow> int \<Rightarrow> int \<Rightarrow> step_result rt" where
  "attempts_loop H L c ref reconcile resolved context limit attempts =
     rbind (one_attempt H L c ref reconcile resolved context (attempts + 1)) (\<lambda>(final, result).
       if final then ret result
       else rbind (require H L (wr_run_id (sc_run c))) (\<lambda>run.
         if wr_cancellation_requested run \<or> reconcile \<or> attempts + 1 \<ge> 1 + limit then ret result
         else attempts_loop H L c ref reconcile resolved context limit (attempts + 1)))"
  by pat_completeness auto
termination by (relation "measure (\<lambda>(H, L, c, ref, reconcile, resolved, context, limit, attempts). nat (limit - attempts))") auto

declare attempts_loop.simps [simp del]

definition step_state :: "workflow_run \<Rightarrow> workflow_step \<Rightarrow> json" where
  "step_state run step = dict_get_or (wr_step_states run) (ws_step_id step) JNull"

text \<open>Approval, conditions and, past them, the loop over the handler.\<close>

definition dispatch_step ::
  "host \<Rightarrow> wf_lib \<Rightarrow> step_ctx \<Rightarrow> handler_ref option \<Rightarrow> bool \<Rightarrow> workflow_step \<Rightarrow> jobj \<Rightarrow> int \<Rightarrow> int \<Rightarrow> step_result rt" where
  "dispatch_step H L c handler reconcile resolved context limit attempts =
     (let run = sc_run c; step = sc_step c in
      if wr_cancellation_requested run then ret (''cancelled'', JObj [], [])
      else case handler of
        None \<Rightarrow>
          record_step H L c attempts ''failed'' (JObj [])
            (''no workflow handler registered for '' @ step_type_value (ws_step_type step) @ '':'' @ ws_action step) False
      | Some ref \<Rightarrow>
          rbind (if ws_approval_required step \<or> ws_step_type step = ST_APPROVAL
                 then rbind (lift (lift_py (rd_list (wr_inputs run) ''_approved_steps''))) (\<lambda>approved.
                   ret (JStr (ws_step_id step) \<in> set approved))
                 else ret True) (\<lambda>approved.
            if \<not> approved then record_step H L c attempts ''waiting_approval'' (JObj []) ''human approval required'' False
            else
              rbind (if ws_step_type step = ST_CONDITION
                     then rbind (lift (lift_py (rd_str (ws_params resolved) ''input'' []))) (\<lambda>key.
                       ret (key = [] \<or> dict_get_or (wr_inputs run) key JNull = dict_get_or (ws_params resolved) ''equals'' JNull))
                     else ret True) (\<lambda>holds.
                if \<not> holds then record_step H L c attempts ''skipped'' (JObj []) [] False
                else attempts_loop H L c ref reconcile resolved context limit attempts)))"

text \<open>
  The guard against a blind replay: a step that was started before is not run again unless its
  handler reconciles, or its contract allows one more attempt.
\<close>

definition replay_guard ::
  "host \<Rightarrow> wf_lib \<Rightarrow> step_ctx \<Rightarrow> jobj \<Rightarrow> bool \<Rightarrow> bool \<Rightarrow> int \<Rightarrow> int \<Rightarrow> step_result rt \<Rightarrow> step_result rt" where
  "replay_guard H L c cp prior_started reconcile limit attempts go_on =
     (if \<not> prior_started then go_on
      else if py_truthy (dict_get_or cp ''handler_policy'' JNull) \<and> dict_get cp ''handler_policy'' \<noteq> Some (JObj (sc_policy c))
      then ret (''unknown'', get_or cp ''output'' (JObj []), ''Workflow handler policy changed after dispatch'')
      else if \<not> reconcile \<and> (limit = 0 \<or> attempts \<ge> 1 + limit) then
        if effect_in PURE_EFFECTS (sc_policy c) \<and> dict_get cp ''status'' = Some (JStr ''failed'')
        then rbind (lift (lift_py (rd_str cp ''error'' ''Workflow retry budget exhausted''))) (\<lambda>error.
          ret (''failed'', get_or cp ''output'' (JObj []), error))
        else record_step H L c (max 1 attempts) ''unknown'' (get_or cp ''output'' (JObj []))
          ''Started Workflow step requires reconciliation; replay blocked'' False
      else go_on)"

definition was_started :: "workflow_run \<Rightarrow> workflow_step \<Rightarrow> jobj \<Rightarrow> int \<Rightarrow> bool \<Rightarrow> bool" where
  "was_started run step cp attempts legacy_started \<longleftrightarrow>
     dict_get cp ''status'' \<in> {Some (JStr ''started''), Some (JStr ''unknown'')} \<or> attempts > 0 \<or> legacy_started \<or>
     (\<not> py_truthy (dict_get_or cp ''binding_digest'' JNull) \<and>
      (dict_get cp ''status'' = Some (JStr ''failed'') \<or> step_state run step = JStr ''failed'')) \<or>
     step_state run step \<in> {JStr ''started'', JStr ''running'', JStr ''unknown''}"

text \<open>The part of \<open>_execute_step\<close> behind the check of the stored checkpoint.\<close>

definition execute_checked ::
  "host \<Rightarrow> wf_lib \<Rightarrow> step_ctx \<Rightarrow> jobj \<Rightarrow> handler_ref option \<Rightarrow> bool \<Rightarrow> bool \<Rightarrow> int \<Rightarrow> jobj \<Rightarrow> int \<Rightarrow> step_result rt" where
  "execute_checked H L c cp handler reconcile prior_started limit context attempts =
     (let run = sc_run c; step = sc_step c in
      if py_truthy (dict_get_or cp ''data_validation_failed'' JNull) then
        rbind (lift (lift_py (bindE (rd_item cp ''status'') as_text))) (\<lambda>status.
        rbind (lift (lift_py (rd_str cp ''error'' ''Workflow data validation failed''))) (\<lambda>error.
          ret (status, get_or cp ''output'' (JObj []), error)))
      else
        attempt
          (rbind (resolve_step_data H L run step) (\<lambda>(resolved, data).
             if ws_data_bindings step \<noteq> JNull \<and> (cp \<noteq> [] \<or> dict_get (wr_step_states run) (ws_step_id step) \<noteq> None) \<and>
                dict_get_or cp ''data_binding'' JNull \<noteq> data
             then lift (binding_error ''Workflow data changed after step admission'')
             else ret (resolved, data)))
          (\<lambda>e. case e of
             WorkflowBindingError msg \<Rightarrow> Some (ret (''unknown'', JObj [], msg))
           | WorkflowValidationError msg \<Rightarrow>
               Some (if prior_started then ret (''unknown'', JObj [], ''Original Workflow data cannot be reconciled'')
                     else record_step H L c attempts ''failed'' (JObj []) msg True)
           | _ \<Rightarrow> None)
          (\<lambda>(resolved, data).
             replay_guard H L (c\<lparr>sc_data := data\<rparr>) cp prior_started reconcile limit attempts
               (dispatch_step H L (c\<lparr>sc_data := data\<rparr>) handler reconcile resolved context limit attempts)))"

definition execute_step ::
  "host \<Rightarrow> wf_lib \<Rightarrow> workflow_run \<Rightarrow> workflow_step \<Rightarrow> bool \<Rightarrow> step_result rt" where
  "execute_step H L run step legacy_started =
     rbind (require H L (wr_run_id run)) (\<lambda>run.
     rbind (step_binding H L run step) (\<lambda>binding.
     rbind (rbind (checkpoints H L (wr_run_id run)) (\<lambda>cps. cp_get cps (ws_step_id step))) (\<lambda>cp.
     rbind (lift (handler_of H step)) (\<lambda>(handler, policy).
     rbind (lift (lift_py (rd_int cp ''attempts'' 0))) (\<lambda>attempts.
     let snapshot = policy_snapshot policy;
         context = [(''run_id'', JStr (wr_run_id run)), (''inputs'', JObj (wr_inputs run)), (''outputs'', JObj (wr_outputs run))];
         c = \<lparr>sc_run = run, sc_step = step, sc_binding = binding, sc_policy = snapshot, sc_data = JNull\<rparr>
     in
     attempt (check_checkpoint H L run step cp)
       (\<lambda>e. case e of WorkflowBindingError msg \<Rightarrow> Some (ret (''unknown'', JObj [], msg)) | _ \<Rightarrow> None)
       (\<lambda>_. execute_checked H L c cp handler (hp_reconcile_started policy)
              (was_started run step cp attempts legacy_started) (retry_limit step snapshot) context attempts))))))"

section \<open>Compensation\<close>

definition compensation_key :: "string \<Rightarrow> string" where
  "compensation_key step_id = ''compensate:'' @ step_id"

definition put_status :: "host \<Rightarrow> wf_lib \<Rightarrow> string \<Rightarrow> string \<Rightarrow> jobj \<Rightarrow> unit rt" where
  "put_status H L run_id key data = tx H L (\<lambda>db. Inr ((), put_checkpoint L run_id key data db))"

text \<open>The text of the exception with which a compensation handler failed, if it failed.\<close>

fun answer_error :: "answer \<Rightarrow> string option" where
  "answer_error (Returned _) = None"
| "answer_error (NeedsApproval _) = Some ''Operation requires human approval''"
| "answer_error (OutcomeUnknown msg) = Some msg"
| "answer_error (Raised msg _) = Some msg"
| "answer_error Died = Some []"

fun compensate ::
  "host \<Rightarrow> wf_lib \<Rightarrow> workflow_run \<Rightarrow> workflow_step list \<Rightarrow> bool \<Rightarrow> workflow_state rt" where
  "compensate H L run [] failed = ret (if failed then WS_COMPENSATION_FAILED else WS_FAILED)"
| "compensate H L run (step # steps) failed =
     (if ws_compensation step = [] then compensate H L run steps failed
      else if ws_compensation step \<notin> set (ht_handlers H) then compensate H L run steps True
      else
        let key = compensation_key (ws_step_id step) in
        rbind (rbind (checkpoints H L (wr_run_id run)) (\<lambda>cps. cp_get cps key)) (\<lambda>previous.
          if dict_get previous ''status'' = Some (JStr ''completed'') then compensate H L run steps failed
          else if dict_get previous ''status'' \<in> {Some (JStr ''started''), Some (JStr ''unknown'')} then ret WS_UNKNOWN
          else
            rbind (put_status H L (wr_run_id run) key [(''status'', JStr ''started'')]) (\<lambda>_.
            rbind (call_handler H (Registered (ws_compensation step)) step
              [(''run_id'', JStr (wr_run_id run)), (''inputs'', JObj (wr_inputs run)), (''outputs'', JObj (wr_outputs run)),
               (''compensation'', JBool True)]) (\<lambda>answer.
            case answer_error answer of
              None \<Rightarrow>
                rbind (put_status H L (wr_run_id run) key [(''status'', JStr ''completed'')]) (\<lambda>_.
                  compensate H L run steps failed)
            | Some msg \<Rightarrow>
                let policy = dict_get_or (ht_policies H) (ws_compensation step) default_policy;
                    status = (if effect_in PURE_EFFECTS (policy_snapshot policy) then ''failed'' else ''unknown'')
                in rbind (put_status H L (wr_run_id run) key [(''status'', JStr status), (''error'', JStr msg)]) (\<lambda>_.
                  if status = ''unknown'' then ret WS_UNKNOWN else compensate H L run steps True)))))"

section \<open>Execution of a run\<close>

text \<open>The recheck of the completed steps; \<open>Inl\<close> is the run with which execution ends early.\<close>

fun recheck_steps ::
  "host \<Rightarrow> wf_lib \<Rightarrow> jobj \<Rightarrow> workflow_step list \<Rightarrow> workflow_run \<Rightarrow> (workflow_run + workflow_run) rt" where
  "recheck_steps H L cps [] run = ret (Inr run)"
| "recheck_steps H L cps (step # steps) run =
     rbind (cp_get cps (ws_step_id step)) (\<lambda>cp.
       if step_state run step \<in> {JStr ''completed'', JStr ''skipped''} \<and> \<not> finished_status cp
       then rbind (binding_failure H L run ''Completed Workflow step has no bound checkpoint'') (\<lambda>r. ret (Inl r))
       else if \<not> finished_status cp then recheck_steps H L cps steps run
       else
         rbind (lift (mapE (\<lambda>d. bindE (lift_py (as_obj (get_or cps d (JObj [])))) (Inr \<circ> finished_status)) (ws_depends_on step)))
           (\<lambda>deps.
           if False \<in> set deps
           then rbind (binding_failure H L run ''Completed Workflow step has unfinished dependencies'') (\<lambda>r. ret (Inl r))
           else
             attempt (check_checkpoint H L run step cp)
               (\<lambda>e. case e of
                  WorkflowBindingError msg \<Rightarrow> Some (rbind (binding_failure H L run msg) (\<lambda>r. ret (Inl r)))
                | _ \<Rightarrow> None)
               (\<lambda>_.
               let run = run\<lparr>wr_step_states := dict_set (ws_step_id step) (dict_get_or cp ''status'' JNull) (wr_step_states run)\<rparr>
               in if py_truthy (dict_get_or cp ''output'' JNull) \<or> dict_get (wr_outputs run) (ws_step_id step) \<noteq> None
                  then rbind (lift (lift_py (rd_item cp ''output''))) (\<lambda>output.
                    recheck_steps H L cps steps (run\<lparr>wr_outputs := dict_set (ws_step_id step) output (wr_outputs run)\<rparr>))
                  else recheck_steps H L cps steps run)))"

text \<open>One wave: every pending step is run, whatever becomes of the others, and its result emitted.\<close>

fun run_wave ::
  "host \<Rightarrow> wf_lib \<Rightarrow> workflow_run \<Rightarrow> bool \<Rightarrow> workflow_step list \<Rightarrow> (workflow_step \<times> string \<times> string) list rt" where
  "run_wave H L run legacy_started [] = ret []"
| "run_wave H L run legacy_started (step # steps) =
     rbind (attempt (execute_step H L run step legacy_started)
       (\<lambda>e. Some (ret (''unknown'', JObj [], redact_sensitive_text (wl_known L) (wf_exn_text e)))) ret) (\<lambda>(status, _, error).
     rbind (require H L (wr_run_id run)) (\<lambda>current.
     rbind (emit current (''workflow.step.'' @ status) [(''step_id'', JStr (ws_step_id step)), (''error'', JStr error)]) (\<lambda>_.
     rbind (run_wave H L run legacy_started steps) (\<lambda>results. ret ((step, status, error) # results)))))"

definition first_with :: "string \<Rightarrow> (workflow_step \<times> string \<times> string) list \<Rightarrow> (workflow_step \<times> string) option" where
  "first_with status results =
     map_option (\<lambda>(step, _, error). (step, error)) (find_row (\<lambda>(_, s, _). s = status) results)"

definition step_payload :: "workflow_step \<Rightarrow> jobj" where
  "step_payload step = [(''step_id'', JStr (ws_step_id step))]"

text \<open>What follows a wave; \<open>None\<close> is the next wave.\<close>

definition after_wave ::
  "host \<Rightarrow> wf_lib \<Rightarrow> workflow_definition \<Rightarrow> string \<Rightarrow> (workflow_step \<times> string \<times> string) list \<Rightarrow> workflow_run option rt" where
  "after_wave H L d run_id results =
     rbind (require H L run_id) (\<lambda>run.
       case first_with ''unknown'' results of
         Some (step, error) \<Rightarrow> rbind (finish H L run_id WS_UNKNOWN error (step_payload step)) (ret \<circ> Some)
       | None \<Rightarrow>
           if wr_cancellation_requested run then ret (Some run)
           else case first_with ''failed'' results of
             Some (step, error) \<Rightarrow>
               rbind (rbind (checkpoints H L run_id) (\<lambda>cps.
                   lift (lift_py (as_obj (dict_get_or cps (ws_step_id step) (JObj [])))))) (\<lambda>cp.
                 if py_truthy (dict_get_or cp ''data_validation_failed'' JNull)
                 then rbind (finish H L run_id WS_FAILED error (step_payload step)) (ret \<circ> Some)
                 else
                   rbind (compensate H L run
                       (rev (filter (\<lambda>s. step_state run s = JStr ''completed'') (wd_steps d))) False) (\<lambda>state.
                   rbind (finish H L run_id state error (step_payload step)) (ret \<circ> Some)))
           | None \<Rightarrow>
               (case first_with ''waiting_approval'' results of
                  Some (step, error) \<Rightarrow>
                    rbind (finish H L run_id WS_WAITING_APPROVAL error (step_payload step)) (ret \<circ> Some)
                | None \<Rightarrow> ret None))"

definition steps_of :: "workflow_definition \<Rightarrow> string list \<Rightarrow> workflow_step list" where
  "steps_of d ids = List.map_filter (\<lambda>i. find_row (\<lambda>s. ws_step_id s = i) (rev (wd_steps d))) ids"

fun run_waves ::
  "host \<Rightarrow> wf_lib \<Rightarrow> workflow_definition \<Rightarrow> bool \<Rightarrow> string \<Rightarrow> string list list \<Rightarrow> workflow_run option rt" where
  "run_waves H L d legacy_started run_id [] = ret None"
| "run_waves H L d legacy_started run_id (wave # waves) =
     rbind (require H L run_id) (\<lambda>run.
       if wr_cancellation_requested run then ret (Some run)
       else
         let pending = steps_of d (filter (\<lambda>i. dict_get_or (wr_step_states run) i JNull \<notin> {JStr ''completed'', JStr ''skipped''}) wave)
         in if pending = [] then run_waves H L d legacy_started run_id waves
            else
              rbind (run_wave H L run legacy_started pending) (\<lambda>results.
              rbind (after_wave H L d run_id results) (\<lambda>ended.
                case ended of
                  Some r \<Rightarrow> ret (Some r)
                | None \<Rightarrow> run_waves H L d legacy_started run_id waves)))"

definition complete_run :: "host \<Rightarrow> wf_lib \<Rightarrow> workflow_definition \<Rightarrow> string \<Rightarrow> workflow_run rt" where
  "complete_run H L d run_id =
     attempt (rbind (require H L run_id) (\<lambda>run. lift (validate_data L d (JObj (wr_outputs run)) True)))
       (\<lambda>e. case e of WorkflowValidationError msg \<Rightarrow> Some (finish H L run_id WS_FAILED msg []) | _ \<Rightarrow> None)
       (\<lambda>_. rbind (require H L run_id) (\<lambda>run.
         finish H L run_id WS_COMPLETED [] [(''outputs'', JObj (wr_outputs run))]))"

text \<open>The run once it has been bound and rechecked: from \<open>save_run\<close> to the end of \<open>_execute\<close>.\<close>

definition run_bound ::
  "host \<Rightarrow> wf_lib \<Rightarrow> workflow_definition \<Rightarrow> bool \<Rightarrow> string list \<Rightarrow> workflow_run \<Rightarrow> workflow_run rt" where
  "run_bound H L d legacy_started approved run =
     attempt (tx H L (save_run L run))
       (\<lambda>e. case e of
          WorkflowConflictError msg \<Rightarrow>
            Some (rbind (require H L (wr_run_id run)) (\<lambda>current.
              if wr_cancellation_requested current then ret current else fail e))
        | _ \<Rightarrow> None)
       (\<lambda>_.
       rbind (tx H L (update_run L (wr_run_id run) (Some WS_RUNNING) (Some []) approved False)) (\<lambda>run.
         if wr_cancellation_requested run then ret run
         else
           rbind (emit run ''workflow.started'' []) (\<lambda>_.
           rbind (lift (compile L d)) (\<lambda>g.
           rbind (run_waves H L d legacy_started (wr_run_id run) (waves_of g)) (\<lambda>ended.
             case ended of
               Some r \<Rightarrow> ret r
             | None \<Rightarrow> complete_run H L d (wr_run_id run))))))"

definition execute ::
  "host \<Rightarrow> wf_lib \<Rightarrow> workflow_definition \<Rightarrow> workflow_run \<Rightarrow> string list \<Rightarrow> workflow_run rt" where
  "execute H L d run approved =
     (let legacy_started = (wr_definition_digest run = [] \<and> wr_state run = WS_RUNNING) in
      attempt (tx H L (bind_run L (wr_run_id run) d))
        (\<lambda>e. case e of WorkflowBindingError msg \<Rightarrow> Some (binding_failure H L run msg) | _ \<Rightarrow> None)
        (\<lambda>run.
        attempt (lift (validate_data L d (JObj (filter (\<lambda>(k, v). k \<noteq> ''_approved_steps'') (wr_inputs run))) False))
          (\<lambda>e. case e of WorkflowValidationError msg \<Rightarrow> Some (binding_failure H L run msg) | _ \<Rightarrow> None)
          (\<lambda>_.
          rbind (checkpoints H L (wr_run_id run)) (\<lambda>cps.
          rbind (recheck_steps H L cps (wd_steps d) run) (\<lambda>checked.
            case checked of
              Inl ended \<Rightarrow> ret ended
            | Inr run \<Rightarrow> run_bound H L d legacy_started approved run)))))"

section \<open>The operations of the runtime\<close>

definition workflow_missing :: "string \<Rightarrow> string \<Rightarrow> wf_exn" where
  "workflow_missing wid version = PyExn (KeyError (''workflow not found: '' @ wid @ ''@'' @ version))"

definition wr_register :: "host \<Rightarrow> wf_lib \<Rightarrow> workflow_definition \<Rightarrow> unit rt" where
  "wr_register H L d = rbind (lift (validate L d)) (\<lambda>_. tx H L (put_definition L d))"

definition find_definition :: "host \<Rightarrow> wf_lib \<Rightarrow> string \<Rightarrow> string \<Rightarrow> workflow_definition rt" where
  "find_definition H L wid version =
     rbind (query H L (\<lambda>db. get_definition db wid version)) (\<lambda>d.
       case d of
         None \<Rightarrow> fail (workflow_missing wid version)
       | Some d \<Rightarrow> rbind (lift (validate L d)) (\<lambda>_. ret d))"

definition wr_start :: "host \<Rightarrow> wf_lib \<Rightarrow> string \<Rightarrow> string \<Rightarrow> string \<Rightarrow> jobj \<Rightarrow> string \<Rightarrow> workflow_run rt" where
  "wr_start H L new_id wid version inputs key =
     rbind (find_definition H L wid version) (\<lambda>d.
     rbind (lift (validate_data L d (JObj inputs) False)) (\<lambda>_.
     rbind (tx H L (create_run L (new_run new_id wid version inputs key))) (\<lambda>run.
     rbind (require H L (wr_run_id run)) (\<lambda>current.
       if wr_state current \<noteq> WS_PENDING \<or> wr_cancellation_requested current then ret current
       else execute H L d current []))))"

definition wr_resume :: "host \<Rightarrow> wf_lib \<Rightarrow> string \<Rightarrow> string list \<Rightarrow> workflow_run rt" where
  "wr_resume H L run_id approved =
     rbind (require H L run_id) (\<lambda>run.
       if wr_cancellation_requested run \<or> wr_state run \<notin> {WS_WAITING_APPROVAL, WS_RUNNING, WS_FAILED, WS_UNKNOWN}
       then ret run
       else rbind (find_definition H L (wr_workflow_id run) (wr_workflow_version run)) (\<lambda>d. execute H L d run approved))"

definition wr_cancel :: "host \<Rightarrow> wf_lib \<Rightarrow> string \<Rightarrow> workflow_run rt" where
  "wr_cancel H L run_id =
     rbind (require H L run_id) (\<lambda>run.
       if wr_state run \<in> {WS_COMPLETED, WS_FAILED, WS_COMPENSATION_FAILED, WS_CANCELLED} then ret run
       else rbind (tx H L (update_run L run_id (Some WS_CANCELLED) None [] True)) (\<lambda>run.
         rbind (emit run ''workflow.cancelled'' []) (\<lambda>_. ret run)))"

end
