(* ===== verification/Workflow_Runtime_Proofs.thy ===== *)
theory Workflow_Runtime_Proofs
  imports Workflow_Runtime "HOL-Library.Sublist"
begin

text \<open>
  The handler calls of the workflow runtime: a small logic on the calls that an operation adds to
  the log, with rules for every operation of the runtime. It gives the bound of the loop over a
  handler, the order of the compensations and the order of the calls of a run.
\<close>

named_theorems silent_intros \<open>operations that call no handler\<close>

section \<open>The calls an operation adds\<close>

definition traces :: "(handler_call list \<Rightarrow> bool) \<Rightarrow> 'a rt \<Rightarrow> bool" where
  "traces P m \<longleftrightarrow> (\<forall>w. \<exists>new. w_calls (snd (m w)) = w_calls w @ new \<and> P new)"

definition silent :: "'a rt \<Rightarrow> bool" where
  "silent m \<longleftrightarrow> (\<forall>w. w_calls (snd (m w)) = w_calls w)"

text \<open>The results an operation can have.\<close>

definition answers :: "'a rt \<Rightarrow> 'a \<Rightarrow> bool" where
  "answers m x \<longleftrightarrow> (\<exists>w w'. m w = (Inr x, w'))"

lemma silent_traces: "silent m \<Longrightarrow> P [] \<Longrightarrow> traces P m"
  by (auto simp: silent_def traces_def)

lemma traces_ret: "P [] \<Longrightarrow> traces P (ret x)"
  by (simp add: traces_def ret_def)

lemma traces_mono: "traces P m \<Longrightarrow> (\<And>new. P new \<Longrightarrow> Q new) \<Longrightarrow> traces Q m"
  unfolding traces_def by blast

lemma silent_basic [silent_intros]:
  "silent (ret x)" "silent (fail e)" "silent (lift m)" "silent (emit run t p)" "silent (tx H L f)" "silent (query H L g)"
  by (auto simp: silent_def ret_def fail_def lift_def emit_def tx_def query_def Let_def split: sum.splits prod.splits)

lemma silent_rbind [silent_intros]: "silent m \<Longrightarrow> (\<And>x. silent (f x)) \<Longrightarrow> silent (rbind m f)"
  by (auto simp: silent_def rbind_def split: sum.splits prod.splits) (metis prod.exhaust_sel snd_conv)+

lemma attempt_cases:
  obtains (ok) x w' where "m w = (Inr x, w')" and "attempt m h f w = f x w'"
  | (caught) e r w' where "m w = (Inl (Failed e), w')" and "h e = Some r" and "attempt m h f w = r w'"
  | (thrown) e w' where "m w = (Inl e, w')" and "attempt m h f w = (Inl e, w')"
proof (cases "m w")
  case (Pair r w')
  show ?thesis
  proof (cases r)
    case (Inl e)
    show ?thesis
    proof (cases e)
      case (Failed x)
      with Inl Pair show ?thesis
        by (cases "h x") (auto simp: attempt_def intro: thrown caught)
    qed (use Inl Pair thrown in \<open>auto simp: attempt_def\<close>)
  next
    case (Inr x)
    with Pair ok show ?thesis by (simp add: attempt_def)
  qed
qed

lemma traces_attempt:
  assumes "traces P m" and "\<And>x. answers m x \<Longrightarrow> traces Q (f x)" and "\<And>e r. h e = Some r \<Longrightarrow> traces Q r"
    and "\<And>a. P a \<Longrightarrow> R a" and "\<And>a b. P a \<Longrightarrow> Q b \<Longrightarrow> R (a @ b)"
  shows "traces R (attempt m h f)"
  unfolding traces_def
proof
  fix w
  obtain a where a: "w_calls (snd (m w)) = w_calls w @ a" "P a" using assms(1) by (auto simp: traces_def)
  show "\<exists>new. w_calls (snd (attempt m h f w)) = w_calls w @ new \<and> R new"
  proof (cases rule: attempt_cases [of m w h f])
    case (ok x w')
    obtain b where "w_calls (snd (f x w')) = w_calls w' @ b" "Q b"
      using assms(2) [of x] ok(1) unfolding traces_def answers_def by blast
    with ok a assms(5) show ?thesis by auto
  next
    case (caught e r w')
    obtain b where "w_calls (snd (r w')) = w_calls w' @ b" "Q b" using assms(3) [OF caught(2)] by (auto simp: traces_def)
    with caught a assms(5) show ?thesis by auto
  next
    case (thrown e w')
    with a assms(4) show ?thesis by auto
  qed
qed

lemma silent_attempt [silent_intros]:
  assumes "silent m" and "\<And>x. silent (f x)" and "\<And>e r. h e = Some r \<Longrightarrow> silent r"
  shows "silent (attempt m h f)"
proof -
  have eq: "silent m = traces (\<lambda>new. new = []) m" for m :: "'c rt" by (auto simp: silent_def traces_def)
  have "silent m = traces (\<lambda>new. new = []) m" for m :: "'a rt" by (auto simp: silent_def traces_def)
  with assms show ?thesis
    unfolding eq by (intro traces_attempt [where P = "\<lambda>n. n = []" and Q = "\<lambda>n. n = []"]) (auto simp: silent_def traces_def)
qed

lemma traces_attempt_silent:
  assumes "silent m" and "\<And>x. answers m x \<Longrightarrow> traces Q (f x)" and "\<And>e r. h e = Some r \<Longrightarrow> traces Q r" and "Q []"
  shows "traces Q (attempt m h f)"
  by (rule traces_attempt [where P = "\<lambda>n. n = []" and Q = Q]) (use assms in \<open>auto intro: silent_traces\<close>)

lemma rbind_attempt: "rbind m f = attempt m (\<lambda>_. None) f"
proof
  fix w
  show "rbind m f w = attempt m (\<lambda>_. None) f w"
    by (cases "m w"; cases "fst (m w)") (auto simp: rbind_def attempt_def split: rt_exn.splits)
qed

lemma traces_rbind:
  assumes "traces P m" and "\<And>x. answers m x \<Longrightarrow> traces Q (f x)"
    and "\<And>a. P a \<Longrightarrow> R a" and "\<And>a b. P a \<Longrightarrow> Q b \<Longrightarrow> R (a @ b)"
  shows "traces R (rbind m f)"
  unfolding rbind_attempt by (rule traces_attempt [where P = P and Q = Q]) (use assms in auto)

lemma traces_rbind_silent:
  "silent m \<Longrightarrow> (\<And>x. answers m x \<Longrightarrow> traces Q (f x)) \<Longrightarrow> Q [] \<Longrightarrow> traces Q (rbind m f)"
  unfolding rbind_attempt by (rule traces_attempt_silent) auto

lemma traces_rbind_after:
  "traces Q m \<Longrightarrow> (\<And>x. silent (f x)) \<Longrightarrow> traces Q (rbind m f)"
  by (rule traces_rbind [where P = Q and Q = "\<lambda>n. n = []"]) (auto intro: silent_traces)

section \<open>Operations that call no handler\<close>

lemma silent_if [silent_intros]: "(P \<Longrightarrow> silent a) \<Longrightarrow> (\<not> P \<Longrightarrow> silent b) \<Longrightarrow> silent (if P then a else b)"
  by simp

lemma silent_option [silent_intros]:
  "(x = None \<Longrightarrow> silent a) \<Longrightarrow> (\<And>y. x = Some y \<Longrightarrow> silent (b y)) \<Longrightarrow> silent (case x of None \<Rightarrow> a | Some y \<Rightarrow> b y)"
  by (cases x) simp_all

lemma silent_prod [silent_intros]: "(\<And>a b. x = (a, b) \<Longrightarrow> silent (f a b)) \<Longrightarrow> silent (case x of (a, b) \<Rightarrow> f a b)"
  by (cases x) simp

lemma silent_require [silent_intros]: "silent (require H L i)"
  unfolding require_def by (rule silent_basic)

lemma silent_checkpoints [silent_intros]: "silent (checkpoints H L i)" "silent (cp_get cps k)"
  unfolding checkpoints_def cp_get_def by (rule silent_basic)+

lemma silent_finish [silent_intros]: "silent (finish H L i s e p)" "silent (binding_failure H L run msg)"
  unfolding finish_def binding_failure_def by (intro silent_intros)+

lemma silent_step_binding [silent_intros]: "silent (step_binding H L run step)"
  unfolding step_binding_def by (intro silent_intros)

lemma silent_resolve_source [silent_intros]: "silent (resolve_source H L run steps cps reference sources)"
  unfolding resolve_source_def Let_def by (intro silent_intros)

lemma silent_resolve_sources [silent_intros]: "silent (resolve_sources H L run steps cps references sources)"
  by (induction references arbitrary: sources) (simp_all add: silent_intros)

lemma silent_resolve_step_data [silent_intros]: "silent (resolve_step_data H L run step)"
  unfolding resolve_step_data_def by (intro silent_intros)

lemma silent_check_checkpoint [silent_intros]: "silent (check_checkpoint H L run step cp)"
  unfolding check_checkpoint_def
  by (intro silent_intros) (auto intro: silent_intros split: wf_exn.splits)

lemma silent_record_step [silent_intros]: "silent (record_step H L c n status output error bad)"
  unfolding record_step_def Let_def by (intro silent_intros)

lemma silent_put_status [silent_intros]: "silent (put_status H L i k d)"
  unfolding put_status_def by (rule silent_basic)

section \<open>Results\<close>

lemma answers_ret [simp]: "answers (ret x) y \<longleftrightarrow> y = x"
  by (auto simp: answers_def ret_def)

lemma answers_fail [simp]: "\<not> answers (fail e) y"
  by (simp add: answers_def fail_def)

lemma answers_lift [simp]: "answers (lift m) y \<longleftrightarrow> m = Inr y"
  by (cases m) (auto simp: lift_def)

lemma answers_rbind: "answers (rbind m f) y \<Longrightarrow> \<exists>x. answers m x \<and> answers (f x) y"
proof -
  assume "answers (rbind m f) y"
  then obtain w w' where w: "rbind m f w = (Inr y, w')" by (auto simp: answers_def)
  then obtain x w1 where "m w = (Inr x, w1)" by (cases "m w"; cases "fst (m w)") (auto simp: rbind_def)
  moreover from this w have "f x w1 = (Inr y, w')" by (simp add: rbind_def)
  ultimately show ?thesis by (auto simp: answers_def)
qed

lemma answers_attempt:
  assumes "answers (attempt m h f) y"
  shows "(\<exists>x. answers m x \<and> answers (f x) y) \<or> (\<exists>e r. h e = Some r \<and> answers r y)"
proof -
  obtain w w' where w: "attempt m h f w = (Inr y, w')" using assms by (auto simp: answers_def)
  show ?thesis
  proof (cases rule: attempt_cases [of m w h f])
    case (ok x w1)
    with w have "answers m x" "answers (f x) y" by (auto simp: answers_def)
    then show ?thesis by blast
  next
    case (caught e r w1)
    with w have "answers r y" by (auto simp: answers_def)
    with caught(2) show ?thesis by blast
  next
    case (thrown e w1)
    with w show ?thesis by simp
  qed
qed

definition yields :: "('a \<Rightarrow> bool) \<Rightarrow> 'a rt \<Rightarrow> bool" where
  "yields R m \<longleftrightarrow> (\<forall>y. answers m y \<longrightarrow> R y)"

lemma yields_rbind: "(\<And>x. yields R (f x)) \<Longrightarrow> yields R (rbind m f)"
  unfolding yields_def by (blast dest: answers_rbind)

lemma yields_if: "yields R a \<Longrightarrow> yields R b \<Longrightarrow> yields R (if P then a else b)"
  by simp

lemma yields_option: "yields R a \<Longrightarrow> (\<And>y. yields R (b y)) \<Longrightarrow> yields R (case x of None \<Rightarrow> a | Some y \<Rightarrow> b y)"
  by (cases x) simp_all

text \<open>The resolution of the data of a step changes its parameters only.\<close>

lemma answers_resolve:
  assumes "answers (resolve_step_data H L run step) (resolved, data)"
  shows "ws_step_id resolved = ws_step_id step \<and> ws_depends_on resolved = ws_depends_on step"
proof -
  let ?R = "\<lambda>(resolved, data). ws_step_id resolved = ws_step_id step \<and> ws_depends_on resolved = ws_depends_on step"
  have "yields ?R (resolve_step_data H L run step)"
    unfolding resolve_step_data_def
    by (intro yields_if yields_rbind yields_option) (simp_all add: yields_def binding_error_def)
  with assms show ?thesis by (auto simp: yields_def)
qed

section \<open>The calls of a step\<close>

lemma traces_if: "(P \<Longrightarrow> traces Q a) \<Longrightarrow> (\<not> P \<Longrightarrow> traces Q b) \<Longrightarrow> traces Q (if P then a else b)"
  by simp

lemma traces_call: "traces (\<lambda>new. length new \<le> 1 \<and> list_all (\<lambda>c. c = \<lparr>hc_handler = ref, hc_step = step, hc_context = ctx\<rparr>) new)
    (call_in_time H ref step ctx)"
  by (auto simp: traces_def call_in_time_def call_handler_def Let_def split: sum.splits)

lemma traces_one_attempt:
  "traces (\<lambda>new. length new \<le> 1 \<and> list_all (\<lambda>c. c = \<lparr>hc_handler = ref, hc_step = step, hc_context = ctx\<rparr>) new)
     (one_attempt H L c ref reconcile step ctx n)"
  unfolding one_attempt_def
proof (rule traces_rbind_silent, rule silent_basic, rule traces_if)
  fix admitted
  assume "\<not> \<not> admitted"
  have "silent (case s of Final n status output error bad \<Rightarrow> rbind (record_step H L c n status output error bad) (\<lambda>r. ret (True, r))
     | Tried status output error \<Rightarrow> rbind (record_step H L c n status output error False) (\<lambda>_. ret (False, (status, output, error))))" for s
    by (cases s) (auto intro: silent_intros)
  then show "traces (\<lambda>new. length new \<le> 1 \<and> list_all (\<lambda>c. c = \<lparr>hc_handler = ref, hc_step = step, hc_context = ctx\<rparr>) new)
    (rbind (call_in_time H ref step ctx) (\<lambda>answer. rbind (lift (settle L (sc_step c) (sc_policy c) reconcile n answer)) (\<lambda>s.
      case s of Final n status output error bad \<Rightarrow> rbind (record_step H L c n status output error bad) (\<lambda>r. ret (True, r))
     | Tried status output error \<Rightarrow> rbind (record_step H L c n status output error False) (\<lambda>_. ret (False, (status, output, error))))))"
    by (intro traces_rbind_after [OF traces_call] silent_intros)
qed (auto intro!: silent_traces silent_intros)

definition loop_bound :: "bool \<Rightarrow> int \<Rightarrow> int \<Rightarrow> int" where
  "loop_bound reconcile limit attempts = (if reconcile then 1 else max 1 (1 + limit - attempts))"

definition own_calls ::
  "int \<Rightarrow> handler_ref \<Rightarrow> workflow_step \<Rightarrow> jobj \<Rightarrow> handler_call list \<Rightarrow> bool" where
  "own_calls n ref step ctx new \<longleftrightarrow>
     int (length new) \<le> n \<and> list_all (\<lambda>c. c = \<lparr>hc_handler = ref, hc_step = step, hc_context = ctx\<rparr>) new"

lemma own_calls_Nil: "0 \<le> n \<Longrightarrow> own_calls n ref step ctx []"
  by (simp add: own_calls_def)

lemma loop_bound_pos: "1 \<le> loop_bound reconcile limit attempts"
  by (simp add: loop_bound_def)

lemma traces_attempts_loop:
  "traces (own_calls (loop_bound reconcile limit attempts) ref step ctx) (attempts_loop H L c ref reconcile step ctx limit attempts)"
proof (induction H L c ref reconcile step ctx limit attempts rule: attempts_loop.induct)
  case (1 H L c ref reconcile step ctx limit attempts)
  let ?go = "\<lambda>(run :: workflow_run) result. if wr_cancellation_requested run \<or> reconcile \<or> attempts + 1 \<ge> 1 + limit then ret result
     else attempts_loop H L c ref reconcile step ctx limit (attempts + 1)"
  let ?more = "own_calls (loop_bound reconcile limit attempts - 1) ref step ctx"
  have not_false: "\<not> False" by simp
  have nil: "?more []" using loop_bound_pos [of reconcile limit attempts] by (simp add: own_calls_def)
  have go: "traces ?more (?go run result)" for run result
  proof (rule traces_if)
    assume stop: "\<not> (wr_cancellation_requested run \<or> reconcile \<or> attempts + 1 \<ge> 1 + limit)"
    have "traces (own_calls (loop_bound reconcile limit (attempts + 1)) ref step ctx)
      (attempts_loop H L c ref reconcile step ctx limit (attempts + 1))"
      by (rule 1 [OF refl not_false stop])
    then show "traces ?more (attempts_loop H L c ref reconcile step ctx limit (attempts + 1))"
      by (rule traces_mono) (use stop in \<open>auto simp: own_calls_def loop_bound_def\<close>)
  qed (rule traces_ret, rule nil)
  show ?case
  proof (subst attempts_loop.simps, rule traces_rbind [OF traces_one_attempt, where Q = ?more])
    fix x :: "bool \<times> step_result"
    obtain final result where x: "x = (final, result)" by (cases x)
    have "traces ?more (if final then ret result else rbind (require H L (wr_run_id (sc_run c))) (\<lambda>run. ?go run result))"
      by (rule traces_if, rule traces_ret, rule nil, rule traces_rbind_silent, rule silent_require, rule go, rule nil)
    then show "traces ?more (case x of (final, result) \<Rightarrow>
        if final then ret result else rbind (require H L (wr_run_id (sc_run c))) (\<lambda>run. ?go run result))"
      by (simp add: x)
  qed (use loop_bound_pos [of reconcile limit attempts] in \<open>auto simp: own_calls_def\<close>)
qed

text \<open>Every way through a step ends in the loop over the handler or calls nothing.\<close>

lemma traces_option: "(x = None \<Longrightarrow> traces Q a) \<Longrightarrow> (\<And>y. x = Some y \<Longrightarrow> traces Q (b y)) \<Longrightarrow>
    traces Q (case x of None \<Rightarrow> a | Some y \<Rightarrow> b y)"
  by (cases x) simp_all

lemma traces_dispatch:
  assumes "Q []" and "\<And>ref. handler = Some ref \<Longrightarrow> traces Q (attempts_loop H L c ref reconcile resolved ctx limit attempts)"
  shows "traces Q (dispatch_step H L c handler reconcile resolved ctx limit attempts)"
  unfolding dispatch_step_def Let_def
  by (intro traces_if traces_option traces_rbind_silent assms silent_traces silent_intros) 

text \<open>When the guard lets a step through.\<close>

definition may_run :: "bool \<Rightarrow> bool \<Rightarrow> int \<Rightarrow> int \<Rightarrow> bool" where
  "may_run prior reconcile limit attempts \<longleftrightarrow> \<not> prior \<or> reconcile \<or> (limit \<noteq> 0 \<and> attempts < 1 + limit)"

lemma traces_guard:
  "(may_run prior reconcile limit attempts \<Longrightarrow> traces Q go_on) \<Longrightarrow> Q [] \<Longrightarrow>
     traces Q (replay_guard H L c cp prior reconcile limit attempts go_on)"
proof -
  assume go: "may_run prior reconcile limit attempts \<Longrightarrow> traces Q go_on" and nil: "Q []"
  have first: "\<not> prior \<Longrightarrow> traces Q go_on" using go by (simp add: may_run_def)
  have last: "\<not> (\<not> reconcile \<and> (limit = 0 \<or> attempts \<ge> 1 + limit)) \<Longrightarrow> traces Q go_on"
    using go by (auto simp: may_run_def)
  show ?thesis
    unfolding replay_guard_def
    by (rule traces_if, erule first, rule traces_if, rule traces_ret, rule nil, rule traces_if)
      (rule silent_traces, intro silent_intros, rule nil, erule last)
qed

lemma traces_checked:
  assumes "Q []" and "\<And>ref (resolved :: workflow_step) data. handler = Some ref \<Longrightarrow> ws_step_id resolved = ws_step_id (sc_step c) \<Longrightarrow>
      ws_depends_on resolved = ws_depends_on (sc_step c) \<Longrightarrow> may_run prior reconcile limit attempts \<Longrightarrow>
      traces Q (attempts_loop H L (c\<lparr>sc_data := data\<rparr>) ref reconcile resolved ctx limit attempts)"
  shows "traces Q (execute_checked H L c cp handler reconcile prior limit ctx attempts)"
proof -
  let ?resolve = "rbind (resolve_step_data H L (sc_run c) (sc_step c)) (\<lambda>(resolved, data).
      if ws_data_bindings (sc_step c) \<noteq> JNull \<and>
         (cp \<noteq> [] \<or> dict_get (wr_step_states (sc_run c)) (ws_step_id (sc_step c)) \<noteq> None) \<and>
         dict_get_or cp ''data_binding'' JNull \<noteq> data
      then lift (binding_error ''Workflow data changed after step admission'') else ret (resolved, data))"
  have same: "ws_step_id resolved = ws_step_id (sc_step c) \<and> ws_depends_on resolved = ws_depends_on (sc_step c)"
    if "answers ?resolve (resolved, data)" for resolved data
    using that by (auto dest!: answers_rbind dest: answers_resolve simp: binding_error_def split: if_splits)
  have go: "traces Q (case x of (resolved, data) \<Rightarrow>
      replay_guard H L (c\<lparr>sc_data := data\<rparr>) cp prior reconcile limit attempts
        (dispatch_step H L (c\<lparr>sc_data := data\<rparr>) handler reconcile resolved ctx limit attempts))"
    if "answers ?resolve x" for x
    using that same by (cases x) (auto intro!: traces_guard traces_dispatch assms)
  have quiet: "silent ?resolve" by (intro silent_intros)
  show ?thesis
    unfolding execute_checked_def Let_def
    by (intro traces_if traces_rbind_silent traces_attempt_silent silent_traces assms(1) go quiet)
      (auto intro!: silent_intros silent_traces assms(1) split: wf_exn.splits)
qed

lemma traces_step:
  assumes "Q []" and "\<And>ref c (run :: workflow_run) reconcile (resolved :: workflow_step) limit attempts. ws_step_id resolved = ws_step_id step \<Longrightarrow>
      ws_depends_on resolved = ws_depends_on step \<Longrightarrow>
      traces Q (attempts_loop H L c ref reconcile resolved
        [(''run_id'', JStr (wr_run_id run)), (''inputs'', JObj (wr_inputs run)), (''outputs'', JObj (wr_outputs run))] limit attempts)"
  shows "traces Q (execute_step H L run step legacy)"
proof -
  have "traces Q (attempt (check_checkpoint H L run step cp)
      (\<lambda>e. case e of WorkflowBindingError msg \<Rightarrow> Some (ret (''unknown'', JObj [], msg)) | _ \<Rightarrow> None)
      (\<lambda>_. execute_checked H L \<lparr>sc_run = run, sc_step = step, sc_binding = binding, sc_policy = snapshot, sc_data = JNull\<rparr>
        cp handler reconcile prior limit
        [(''run_id'', JStr (wr_run_id run)), (''inputs'', JObj (wr_inputs run)), (''outputs'', JObj (wr_outputs run))] attempts))"
    for run :: workflow_run and cp binding snapshot handler reconcile prior limit attempts
  proof (rule traces_attempt_silent [OF silent_check_checkpoint])
    show "traces Q r" if "(case e of WorkflowBindingError msg \<Rightarrow> Some (ret (''unknown'', JObj [], msg)) | _ \<Rightarrow> None) = Some r"
      for e and r :: "step_result rt"
      using that by (cases e) (auto intro: traces_ret assms(1))
  qed (rule traces_checked, rule assms(1), rule assms(2), simp_all add: assms(1))
  then have "traces Q (case x of (handler, policy) \<Rightarrow> rbind (lift (lift_py (rd_int cp ''attempts'' 0))) (\<lambda>attempts.
      attempt (check_checkpoint H L run step cp)
        (\<lambda>e. case e of WorkflowBindingError msg \<Rightarrow> Some (ret (''unknown'', JObj [], msg)) | _ \<Rightarrow> None)
        (\<lambda>_. execute_checked H L \<lparr>sc_run = run, sc_step = step, sc_binding = binding, sc_policy = policy_snapshot policy, sc_data = JNull\<rparr>
          cp handler (hp_reconcile_started policy) (was_started run step cp attempts legacy)
          (retry_limit step (policy_snapshot policy))
          [(''run_id'', JStr (wr_run_id run)), (''inputs'', JObj (wr_inputs run)), (''outputs'', JObj (wr_outputs run))] attempts)))"
    for x and run :: workflow_run and cp binding
    by (cases x) (auto intro!: traces_rbind_silent silent_intros assms(1))
  then show ?thesis
    unfolding execute_step_def Let_def
    by (intro traces_rbind_silent silent_intros assms(1))
qed

text \<open>The calls of a step are its own, and none of them compensates.\<close>

definition step_calls :: "workflow_step \<Rightarrow> handler_call list \<Rightarrow> bool" where
  "step_calls step new \<longleftrightarrow>
     list_all (\<lambda>c. ws_step_id (hc_step c) = ws_step_id step \<and> ws_depends_on (hc_step c) = ws_depends_on step \<and>
       dict_get (hc_context c) ''compensation'' = None) new"

lemma step_calls_Nil [simp]: "step_calls step []"
  by (simp add: step_calls_def)

lemma traces_execute_step: "traces (step_calls step) (execute_step H L run step legacy)"
proof (rule traces_step, rule step_calls_Nil)
  fix ref c and run :: workflow_run and reconcile and resolved :: workflow_step and limit attempts
  assume "ws_step_id resolved = ws_step_id step" "ws_depends_on resolved = ws_depends_on step"
  then show "traces (step_calls step) (attempts_loop H L c ref reconcile resolved
      [(''run_id'', JStr (wr_run_id run)), (''inputs'', JObj (wr_inputs run)), (''outputs'', JObj (wr_outputs run))] limit attempts)"
    by (intro traces_mono [OF traces_attempts_loop]) (auto simp: own_calls_def step_calls_def list_all_iff)
qed

section \<open>The calls of a compensation\<close>

definition compensates :: "handler_call \<Rightarrow> bool" where
  "compensates c \<longleftrightarrow> dict_get (hc_context c) ''compensation'' \<noteq> None"

definition undo_steps :: "host \<Rightarrow> workflow_step list \<Rightarrow> workflow_step list" where
  "undo_steps H steps = filter (\<lambda>s. ws_compensation s \<noteq> [] \<and> ws_compensation s \<in> set (ht_handlers H)) steps"

definition undo_calls :: "host \<Rightarrow> workflow_step list \<Rightarrow> handler_call list \<Rightarrow> bool" where
  "undo_calls H steps new \<longleftrightarrow>
     subseq (map hc_step new) (undo_steps H steps) \<and>
     list_all (\<lambda>c. hc_handler c = Registered (ws_compensation (hc_step c)) \<and> compensates c) new"

lemma undo_calls_Nil [simp]: "undo_calls H steps []"
  by (simp add: undo_calls_def)

lemma undo_calls_skip: "undo_calls H steps new \<Longrightarrow> undo_calls H (step # steps) new"
  by (auto simp: undo_calls_def undo_steps_def)

lemma undo_calls_Cons:
  "undo_calls H steps new \<Longrightarrow> ws_compensation step \<noteq> [] \<Longrightarrow> ws_compensation step \<in> set (ht_handlers H) \<Longrightarrow>
   hc_step c = step \<Longrightarrow> hc_handler c = Registered (ws_compensation step) \<Longrightarrow> compensates c \<Longrightarrow>
   undo_calls H (step # steps) (c # new)"
  by (auto simp: undo_calls_def undo_steps_def)

lemma traces_call_handler:
  "traces (\<lambda>new. new = [\<lparr>hc_handler = ref, hc_step = step, hc_context = ctx\<rparr>]) (call_handler H ref step ctx)"
  by (simp add: traces_def call_handler_def Let_def)

lemma traces_compensate: "traces (undo_calls H steps) (compensate H L run steps failed)"
proof (induction steps arbitrary: failed)
  case Nil
  then show ?case by (simp add: traces_ret)
next
  case (Cons step steps)
  let ?Q = "undo_calls H (step # steps)"
  let ?ctx = "[(''run_id'', JStr (wr_run_id run)), (''inputs'', JObj (wr_inputs run)), (''outputs'', JObj (wr_outputs run)),
    (''compensation'', JBool True)]"
  have rest: "traces ?Q (compensate H L run steps failed)" for failed
    using Cons.IH by (rule traces_mono) (rule undo_calls_skip)
  show ?case
  proof (cases "ws_compensation step = [] \<or> ws_compensation step \<notin> set (ht_handlers H)")
    case True
    with rest show ?thesis by auto
  next
    case False
    have after: "traces (undo_calls H steps) (case answer_error a of
          None \<Rightarrow> rbind (put_status H L i k x) (\<lambda>_. compensate H L run steps failed)
        | Some msg \<Rightarrow> rbind (put_status H L i k (y msg)) (\<lambda>_. if q then ret WS_UNKNOWN else compensate H L run steps True))"
      for a i k x y q
      by (intro traces_option traces_rbind_silent traces_if silent_intros traces_ret Cons.IH undo_calls_Nil)
    have call: "traces ?Q (rbind (call_handler H (Registered (ws_compensation step)) step ?ctx) (\<lambda>a. case answer_error a of
          None \<Rightarrow> rbind (put_status H L i k x) (\<lambda>_. compensate H L run steps failed)
        | Some msg \<Rightarrow> rbind (put_status H L i k (y msg)) (\<lambda>_. if q then ret WS_UNKNOWN else compensate H L run steps True)))"
      for i k x y q
      by (rule traces_rbind [OF traces_call_handler after])
        (use False in \<open>auto intro!: undo_calls_Cons simp: compensates_def\<close>)
    show ?thesis
      unfolding compensate.simps Let_def
      by (intro traces_rbind_silent traces_if silent_intros traces_ret rest undo_calls_Nil call)
  qed
qed

section \<open>The calls of a run\<close>

text \<open>The calls that do not compensate.\<close>

definition forward :: "handler_call list \<Rightarrow> handler_call list" where
  "forward new = filter (\<lambda>c. \<not> compensates c) new"

lemma forward_append [simp]: "forward (a @ b) = forward a @ forward b" "forward [] = []"
  by (simp_all add: forward_def)

lemma forward_undo: "undo_calls H steps new \<Longrightarrow> forward new = []"
  by (auto simp: undo_calls_def forward_def list_all_iff filter_empty_conv)

definition call_id :: "handler_call \<Rightarrow> string" where
  "call_id c = ws_step_id (hc_step c)"

definition call_deps :: "handler_call \<Rightarrow> string list" where
  "call_deps c = ws_depends_on (hc_step c)"

text \<open>Calls of steps of the definition, by a rank that does not decrease from \<open>n\<close> on.\<close>

definition ranked :: "workflow_definition \<Rightarrow> (string \<Rightarrow> nat) \<Rightarrow> nat \<Rightarrow> handler_call list \<Rightarrow> bool" where
  "ranked d rank n new \<longleftrightarrow>
     sorted_wrt (\<lambda>a b. rank (call_id a) \<le> rank (call_id b)) (forward new) \<and>
     (\<forall>c \<in> set (forward new). n \<le> rank (call_id c) \<and>
        (\<exists>s \<in> set (wd_steps d). ws_step_id s = call_id c \<and> ws_depends_on s = call_deps c))"

lemma ranked_Nil [simp]: "ranked d rank n []"
  by (simp add: ranked_def)

lemma ranked_undo: "undo_calls H steps new \<Longrightarrow> ranked d rank n new"
  by (simp add: ranked_def forward_undo)

lemma ranked_append:
  "ranked d rank n a \<Longrightarrow> \<forall>c \<in> set (forward a). rank (call_id c) \<le> m \<Longrightarrow> ranked d rank m b \<Longrightarrow> n \<le> m \<Longrightarrow>
     ranked d rank n (a @ b)"
  by (force simp: ranked_def sorted_wrt_append)

definition wave_calls :: "workflow_step list \<Rightarrow> handler_call list \<Rightarrow> bool" where
  "wave_calls steps new \<longleftrightarrow>
     list_all (\<lambda>c. \<exists>s \<in> set steps. ws_step_id s = call_id c \<and> ws_depends_on s = call_deps c) new"

lemma traces_run_wave: "traces (wave_calls steps) (run_wave H L run legacy steps)"
proof (induction steps)
  case Nil
  then show ?case by (simp add: traces_ret wave_calls_def)
next
  case (Cons step steps)
  let ?Q = "wave_calls (step # steps)"
  have nil: "?Q []" by (simp add: wave_calls_def)
  have rest: "traces ?Q (run_wave H L run legacy steps)"
    using Cons.IH by (rule traces_mono) (auto simp: wave_calls_def list_all_iff)
  have own: "traces ?Q (attempt (execute_step H L run step legacy)
      (\<lambda>e. Some (ret (''unknown'', JObj [], redact_sensitive_text (wl_known L) (wf_exn_text e)))) ret)"
    by (rule traces_attempt [OF traces_execute_step, where Q = "\<lambda>n. n = []"])
      (auto simp: step_calls_def wave_calls_def list_all_iff call_id_def call_deps_def intro!: traces_ret)
  have join: "?Q (a @ b)" if "?Q a" "?Q b" for a b using that by (simp add: wave_calls_def)
  have next_steps: "traces ?Q (case x of (status, _, error) \<Rightarrow> rbind (require H L i) (\<lambda>current.
      rbind (emit current (t status) (p error)) (\<lambda>_.
      rbind (run_wave H L run legacy steps) (\<lambda>results. ret (g status error # results)))))"
    for x :: step_result and i t p and g :: "string \<Rightarrow> string \<Rightarrow> workflow_step \<times> string \<times> string"
  proof -
    obtain status result error where "x = (status, result, error)" by (cases x)
    then show ?thesis by (auto intro!: traces_rbind_silent silent_intros nil traces_rbind_after [OF rest])
  qed
  show ?case
    unfolding run_wave.simps by (rule traces_rbind [OF own next_steps]) (simp_all add: join)
qed

lemma traces_after_wave: "traces (ranked d rank n) (after_wave H L d run_id results)"
proof -
  have silent_end: "silent (rbind (finish H L run_id s e p) (ret \<circ> Some))" for s e p
    by (intro silent_intros) (simp add: silent_basic)
  have undo: "traces (ranked d rank n) (rbind (compensate H L run steps failed)
      (\<lambda>state. rbind (finish H L run_id state e p) (ret \<circ> Some)))" for run steps failed e p
    by (rule traces_rbind_after [OF traces_mono [OF traces_compensate] silent_end]) (rule ranked_undo)
  show ?thesis
    unfolding after_wave_def
    by (intro traces_rbind_silent traces_option traces_if silent_intros ranked_Nil traces_ret undo
        silent_traces [OF silent_end]; (split prod.splits)?; (intro allI impI)?)
      (intro traces_rbind_silent traces_option traces_if silent_intros ranked_Nil traces_ret undo
        silent_traces [OF silent_end])+
qed

lemma steps_of_set: "s \<in> set (steps_of d ids) \<Longrightarrow> s \<in> set (wd_steps d) \<and> ws_step_id s \<in> set ids"
  by (induction ids) (auto simp: steps_of_def List.map_filter_simps dest: find_row_Some split: option.splits)

lemma traces_run_waves:
  assumes "\<And>k i. k < length waves \<Longrightarrow> i \<in> set (waves ! k) \<Longrightarrow> rank i = n + k"
  shows "traces (ranked d rank n) (run_waves H L d legacy run_id waves)"
  using assms
proof (induction waves arbitrary: n)
  case Nil
  then show ?case by (simp add: traces_ret)
next
  case (Cons wave waves)
  have here: "rank i = n" if "i \<in> set wave" for i using Cons.prems [of 0 i] that by simp
  have later: "rank i = Suc n + k" if "k < length waves" "i \<in> set (waves ! k)" for i k
    using Cons.prems [of "Suc k" i] that by simp
  have IH: "traces (ranked d rank (Suc n)) (run_waves H L d legacy run_id waves)"
    using later by (rule Cons.IH)
  have weaken: "ranked d rank n a" if "ranked d rank (Suc n) a" for a
    using that by (auto simp: ranked_def)
  have steps: "traces (\<lambda>new. ranked d rank n new \<and> (\<forall>c \<in> set (forward new). rank (call_id c) = n))
      (run_wave H L run legacy (steps_of d (filter P wave)))" for run P
  proof (rule traces_mono [OF traces_run_wave])
    fix new assume "wave_calls (steps_of d (filter P wave)) new"
    then have c: "\<exists>s \<in> set (wd_steps d). ws_step_id s = call_id c \<and> ws_depends_on s = call_deps c \<and> rank (call_id c) = n"
      if "c \<in> set new" for c
      using that here by (fastforce simp: wave_calls_def list_all_iff dest!: steps_of_set)
    then have "rank (call_id c) = n" if "c \<in> set (forward new)" for c using that by (force simp: forward_def)
    moreover from this have "sorted_wrt (\<lambda>a b. rank (call_id a) \<le> rank (call_id b)) (forward new)"
      by (simp add: sorted_wrt_iff_nth_less)
    moreover have "set (forward new) \<subseteq> set new" by (auto simp: forward_def)
    ultimately show "ranked d rank n new \<and> (\<forall>c \<in> set (forward new). rank (call_id c) = n)"
      using c unfolding ranked_def by blast
  qed
  have rest: "traces (ranked d rank (Suc n)) (rbind (after_wave H L d run_id results) (\<lambda>ended.
      case ended of Some r \<Rightarrow> ret (Some r) | None \<Rightarrow> run_waves H L d legacy run_id waves))" for results
  proof (rule traces_rbind [where P = "\<lambda>a. forward a = []" and Q = "ranked d rank (Suc n)"])
    show "traces (\<lambda>a. forward a = []) (after_wave H L d run_id results)"
      using traces_after_wave [of d "\<lambda>_. 0" 1 H L run_id results] by (rule traces_mono) (auto simp: ranked_def)
  qed (auto intro!: traces_option traces_ret IH simp: ranked_def)
  have wave: "traces (ranked d rank n) (rbind (run_wave H L run legacy (steps_of d (filter P wave)))
      (\<lambda>results. rbind (after_wave H L d run_id results) (\<lambda>ended.
        case ended of Some r \<Rightarrow> ret (Some r) | None \<Rightarrow> run_waves H L d legacy run_id waves)))" for run P
    by (rule traces_rbind [OF steps rest]) (auto intro!: ranked_append [where m = "Suc n"])
  show ?case
    unfolding run_waves.simps Let_def
    by (intro traces_rbind_silent traces_if silent_intros traces_ret ranked_Nil wave traces_mono [OF IH weaken])
qed

lemma wave_rank: "distinct (concat waves) \<Longrightarrow> \<exists>rank. \<forall>k < length waves. \<forall>i \<in> set (waves ! k). rank i = k"
proof (induction waves)
  case (Cons w waves)
  then obtain rank where rank: "\<forall>k < length waves. \<forall>i \<in> set (waves ! k). rank i = k" by auto
  define r where "r i = (if i \<in> set w then 0 else Suc (rank i))" for i
  have "r i = k" if "k < length (w # waves)" "i \<in> set ((w # waves) ! k)" for k i
  proof (cases k)
    case (Suc m)
    with that have m: "m < length waves" "i \<in> set (waves ! m)" by simp_all
    then have "i \<in> set (concat waves)" unfolding set_concat using nth_mem by blast
    then have "i \<notin> set w" using Cons.prems by auto
    moreover have "rank i = m" using rank m by blast
    ultimately show ?thesis by (simp add: r_def Suc)
  qed (use that in \<open>simp add: r_def\<close>)
  then have "\<forall>k < length (w # waves). \<forall>i \<in> set ((w # waves) ! k). r i = k" by (intro allI impI ballI)
  then show ?case by (intro exI [of _ r])
qed simp

lemma silent_complete_run [silent_intros]: "silent (complete_run H L d run_id)"
proof -
  have "silent r" if "(case e of WorkflowValidationError msg \<Rightarrow> Some (finish H L run_id WS_FAILED msg []) | _ \<Rightarrow> None) = Some r"
    for e and r :: "workflow_run rt"
    using that by (cases e) (auto intro: silent_intros)
  then show ?thesis unfolding complete_run_def by (intro silent_intros)
qed

text \<open>The calls follow the dependencies: none is made before a call of one of its dependencies.\<close>

definition in_order :: "workflow_definition \<Rightarrow> handler_call list \<Rightarrow> bool" where
  "in_order d new \<longleftrightarrow>
     sorted_wrt (\<lambda>a b. call_id b \<notin> set (call_deps a)) (forward new) \<and>
     (\<forall>c \<in> set (forward new). \<exists>s \<in> set (wd_steps d). ws_step_id s = call_id c \<and> ws_depends_on s = call_deps c)"

lemma in_order_Nil [simp]: "in_order d []"
  by (simp add: in_order_def)

lemma compile_validates: "compile L d = Inr g \<Longrightarrow> validate L d = Inr ()"
  by (auto simp: compile_def bindE_eq_Inr)

lemma ranked_in_order:
  assumes "ranked d rank 0 new"
    and "\<And>s b. s \<in> set (wd_steps d) \<Longrightarrow> b \<in> set (ws_depends_on s) \<Longrightarrow> rank b < rank (ws_step_id s)"
  shows "in_order d new"
proof -
  have own: "\<exists>s \<in> set (wd_steps d). ws_step_id s = call_id c \<and> ws_depends_on s = call_deps c" if "c \<in> set (forward new)" for c
    using assms(1) that by (simp add: ranked_def)
  have "sorted_wrt (\<lambda>a b. rank (call_id a) \<le> rank (call_id b)) (forward new)" using assms(1) by (simp add: ranked_def)
  then have "sorted_wrt (\<lambda>a b. call_id b \<notin> set (call_deps a)) (forward new)"
  proof (rule sorted_wrt_mono_rel [rotated])
    fix a b assume "a \<in> set (forward new)" and le: "rank (call_id a) \<le> rank (call_id b)"
    with own obtain s where "s \<in> set (wd_steps d)" "ws_step_id s = call_id a" "ws_depends_on s = call_deps a" by blast
    with assms(2) le show "call_id b \<notin> set (call_deps a)" by (metis leD)
  qed
  with own show ?thesis by (simp add: in_order_def)
qed

lemma traces_waves_of:
  assumes "compile L d = Inr g"
  shows "traces (in_order d) (run_waves H L d legacy run_id (waves_of g))"
proof -
  note valid = compile_validates [OF assms]
  note waves = compile_waves [OF valid assms]
  have "distinct (concat (waves_of g))"
    using waves(1) validD(1) [OF valid] by (metis mset_eq_imp_distinct_iff)
  then obtain rank where rank: "\<forall>k < length (waves_of g). \<forall>i \<in> set (waves_of g ! k). rank i = k"
    using wave_rank by blast
  have less: "rank b < rank (ws_step_id s)" if s: "s \<in> set (wd_steps d)" "b \<in> set (ws_depends_on s)" for s b
  proof -
    have "ws_step_id s \<in> set (concat (waves_of g))"
      using s(1) waves(1) by (metis image_eqI list.set_map mset_eq_setD)
    then obtain w where "w \<in> set (waves_of g)" "ws_step_id s \<in> set w" by auto
    then obtain i where i: "i < length (waves_of g)" "ws_step_id s \<in> set (waves_of g ! i)"
      by (metis in_set_conv_nth)
    then obtain j where j: "j < i" "b \<in> set (waves_of g ! j)" using waves(2) s by blast
    with i have "j < length (waves_of g)" by simp
    with rank i j have "rank b = j" "rank (ws_step_id s) = i" by blast+
    with j show ?thesis by simp
  qed
  have "traces (ranked d rank 0) (run_waves H L d legacy run_id (waves_of g))"
    using rank by (intro traces_run_waves) simp
  then show ?thesis by (rule traces_mono) (rule ranked_in_order [where rank = rank, OF _ less])
qed

lemma traces_run_bound: "traces (in_order d) (run_bound H L d legacy approved run)"
proof -
  have conflict: "silent r" if "(case e of WorkflowConflictError msg \<Rightarrow>
      Some (rbind (require H L (wr_run_id run)) (\<lambda>current.
        if wr_cancellation_requested current then ret current else fail e)) | _ \<Rightarrow> None) = Some r"
    for e and r :: "workflow_run rt"
    using that by (cases e) (auto intro!: silent_intros)
  have go: "traces (in_order d) (rbind (run_waves H L d legacy i (waves_of g)) (\<lambda>ended.
      case ended of Some r \<Rightarrow> ret r | None \<Rightarrow> complete_run H L d i))" if "compile L d = Inr g" for g i
    by (rule traces_rbind_after [OF traces_waves_of [OF that]]) (intro silent_intros)
  have compiled: "traces (in_order d) (rbind (lift (compile L d)) (\<lambda>g. rbind (run_waves H L d legacy i (waves_of g)) (\<lambda>ended.
      case ended of Some r \<Rightarrow> ret r | None \<Rightarrow> complete_run H L d i)))" for i
    by (rule traces_rbind_silent) (auto intro: go silent_intros)
  show ?thesis
    unfolding run_bound_def
    by (intro compiled traces_attempt_silent traces_rbind_silent traces_if silent_intros traces_ret in_order_Nil)
      (erule silent_traces [OF conflict], rule in_order_Nil)
qed

lemma silent_recheck [silent_intros]: "silent (recheck_steps H L cps steps run)"
proof (induction steps arbitrary: run)
  case Nil
  then show ?case by (simp add: silent_intros)
next
  case (Cons step steps)
  have bad: "silent r" if "(case e of WorkflowBindingError msg \<Rightarrow> Some (rbind (binding_failure H L run msg) (\<lambda>r. ret (Inl r)))
      | _ \<Rightarrow> None) = Some r" for e and r :: "(workflow_run + workflow_run) rt"
    using that by (cases e) (auto intro!: silent_intros)
  show ?case
    unfolding recheck_steps.simps Let_def by (intro silent_intros Cons.IH) (rule bad)
qed

lemma traces_execute: "traces (in_order d) (execute H L d run approved)"
proof -
  have bad: "traces (in_order d) r" if "(case e of WorkflowBindingError msg \<Rightarrow> Some (binding_failure H L run msg) | _ \<Rightarrow> None) = Some r"
    for e run and r :: "workflow_run rt"
    using that by (cases e) (auto intro!: silent_traces silent_intros)
  have invalid: "traces (in_order d) r"
    if "(case e of WorkflowValidationError msg \<Rightarrow> Some (binding_failure H L run msg) | _ \<Rightarrow> None) = Some r"
    for e run and r :: "workflow_run rt"
    using that by (cases e) (auto intro!: silent_traces silent_intros)
  have go: "traces (in_order d) (case x of Inl ended \<Rightarrow> ret ended | Inr run \<Rightarrow> run_bound H L d legacy approved run)"
    for x and legacy
    by (cases x) (simp_all add: traces_ret traces_run_bound)
  show ?thesis
    unfolding execute_def Let_def
    by (intro traces_attempt_silent traces_rbind_silent silent_intros in_order_Nil go) (erule bad invalid)+
qed

end
