(* ===== verification/Workflow_Runtime_Safety.thy ===== *)
theory Workflow_Runtime_Safety
  imports Workflow_Runtime_Proofs
begin

text \<open>
  What the workflow runtime promises about the handlers it calls: how often, in which order, and
  never after a cancellation or blindly after a crash; and that a run stays bound to the
  definition it was started with.
\<close>

named_theorems dying_intros \<open>operations during which the process ends only in a given state\<close>

section \<open>Cancelled runs\<close>

text \<open>The environment: its transactions draw identifiers without secrets.\<close>

definition fair_host :: "host \<Rightarrow> wf_lib \<Rightarrow> bool" where
  "fair_host H L \<longleftrightarrow> (\<forall>n. list_all (op_ok L) (ht_others H n))"

lemma silent_dispatch_cancelled:
  "wr_cancellation_requested (sc_run c) \<Longrightarrow> silent (dispatch_step H L c handler reconcile resolved ctx limit attempts)"
  by (simp add: dispatch_step_def Let_def silent_basic)

lemma silent_guard:
  "silent go_on \<Longrightarrow> silent (replay_guard H L c cp prior reconcile limit attempts go_on)"
  unfolding replay_guard_def by (intro silent_intros)

lemma silent_checked_cancelled:
  assumes "wr_cancellation_requested (sc_run c)"
  shows "silent (execute_checked H L c cp handler reconcile prior limit ctx attempts)"
proof -
  have go: "silent (case x of (resolved, data) \<Rightarrow>
      replay_guard H L (c\<lparr>sc_data := data\<rparr>) cp prior reconcile limit attempts
        (dispatch_step H L (c\<lparr>sc_data := data\<rparr>) handler reconcile resolved ctx limit attempts))" for x
    using assms by (cases x) (simp add: silent_guard silent_dispatch_cancelled)
  show ?thesis
    unfolding execute_checked_def Let_def
    by (intro go silent_intros) (auto intro!: silent_intros split: wf_exn.splits)
qed

text \<open>The rest of a step, once the run has been read.\<close>

definition step_rest :: "host \<Rightarrow> wf_lib \<Rightarrow> workflow_step \<Rightarrow> bool \<Rightarrow> workflow_run \<Rightarrow> step_result rt" where
  "step_rest H L step legacy run = rbind (step_binding H L run step) (\<lambda>binding.
     rbind (rbind (checkpoints H L (wr_run_id run)) (\<lambda>cps. cp_get cps (ws_step_id step))) (\<lambda>cp.
     rbind (lift (handler_of H step)) (\<lambda>(handler, policy).
     rbind (lift (lift_py (rd_int cp ''attempts'' 0))) (\<lambda>attempts.
     let snapshot = policy_snapshot policy;
         context = [(''run_id'', JStr (wr_run_id run)), (''inputs'', JObj (wr_inputs run)), (''outputs'', JObj (wr_outputs run))];
         c = \<lparr>sc_run = run, sc_step = step, sc_binding = binding, sc_policy = snapshot, sc_data = JNull\<rparr>
     in
     attempt (check_checkpoint H L run step cp)
       (\<lambda>e. case e of WorkflowBindingError msg \<Rightarrow> Some (ret (''unknown'', JObj [], msg)) | _ \<Rightarrow> None)
       (\<lambda>_. execute_checked H L c cp handler (hp_reconcile_started policy)
              (was_started run step cp attempts legacy) (retry_limit step snapshot) context attempts)))))"

lemma execute_step_rest: "execute_step H L run step legacy = rbind (require H L (wr_run_id run)) (step_rest H L step legacy)"
  by (simp add: execute_step_def step_rest_def [abs_def])

lemma silent_rest_cancelled:
  assumes "wr_cancellation_requested run"
  shows "silent (step_rest H L step legacy run)"
proof -
  have bad: "silent r" if "(case e of WorkflowBindingError msg \<Rightarrow> Some (ret (''unknown'', JObj [], msg)) | _ \<Rightarrow> None) = Some r"
    for e and r :: "step_result rt"
    using that by (cases e) (auto intro: silent_intros)
  show ?thesis
    unfolding step_rest_def Let_def
    by (intro silent_intros silent_checked_cancelled) (auto intro: bad simp: assms)
qed

lemma get_run_Some: "require_run db i = Inr p \<Longrightarrow> get_run db i = Inr (Some p)"
  by (auto simp: get_run_def require_run_def split: option.splits)

lemma get_run_required: "get_run db i = Inr (Some p) \<Longrightarrow> require_run db i = Inr p"
  by (auto simp: get_run_def bindE_eq_Inr split: option.splits)

lemma tx_fst_snd:
  "tx H L f w = (let db = store_run L (w_db w) (ht_others H (w_tick w)) in
     case f db of
       Inl e \<Rightarrow> (Inl (Failed e), w\<lparr>w_db := db, w_tick := Suc (w_tick w)\<rparr>)
     | Inr (x, db') \<Rightarrow> (Inr x, w\<lparr>w_db := db', w_tick := Suc (w_tick w)\<rparr>))"
  by (simp add: tx_def Let_def split: sum.splits)

text \<open>A halted run stays halted whatever the environment does before the next tick.\<close>

lemma halted_next:
  assumes "quiet L" and "fair_host H L" and "db_ok L (w_db w)"
    and "require_run (w_db w) i = Inr p" and "halted p"
  obtains q where "require_run (store_run L (w_db w) (ht_others H (w_tick w))) i = Inr q"
    and "wr_cancellation_requested q"
  using store_run_safe(2) [OF assms(1,3) _ assms(4)] assms(2,5)
  by (force simp: fair_host_def advances_def halted_def)

lemma halted_step_silent:
  assumes "quiet L" and "fair_host H L" and "db_ok L (w_db w)"
    and "require_run (w_db w) (wr_run_id run) = Inr p" and "halted p"
  shows "w_calls (snd (execute_step H L run step legacy w)) = w_calls w"
proof -
  obtain q where q: "require_run (store_run L (w_db w) (ht_others H (w_tick w))) (wr_run_id run) = Inr q"
    "wr_cancellation_requested q"
    by (rule halted_next [OF assms])
  obtain w1 where w1: "require H L (wr_run_id run) w = (Inr q, w1)" "w_calls w1 = w_calls w"
    using q(1) by (simp add: require_def query_def tx_fst_snd Let_def get_run_Some)
  have "w_calls (snd (step_rest H L step legacy q w1)) = w_calls w1"
    using silent_rest_cancelled [OF q(2)] by (simp add: silent_def)
  with w1 show ?thesis by (simp add: execute_step_rest rbind_def)
qed

lemma halted_loop_silent:
  assumes "quiet L" and "fair_host H L" and "db_ok L (w_db w)"
    and "require_run (w_db w) (wr_run_id (sc_run c)) = Inr p" and "halted p"
  shows "w_calls (snd (attempts_loop H L c ref reconcile resolved ctx limit attempts w)) = w_calls w"
proof -
  obtain q where q: "require_run (store_run L (w_db w) (ht_others H (w_tick w))) (wr_run_id (sc_run c)) = Inr q"
    "wr_cancellation_requested q"
    by (rule halted_next [OF assms])
  have admit: "case admit_step L (wr_run_id (sc_run c)) s cp n (store_run L (w_db w) (ht_others H (w_tick w))) of
      Inl e \<Rightarrow> True | Inr (b, db) \<Rightarrow> \<not> b" for s cp n
    using q by (simp add: admit_step_def) (cases "validate_bound L (store_run L (w_db w) (ht_others H (w_tick w))) q"; simp)
  have one: "case one_attempt H L c ref reconcile resolved ctx n w of
      (Inl e, w') \<Rightarrow> w_calls w' = w_calls w | (Inr (final, r), w') \<Rightarrow> final \<and> w_calls w' = w_calls w" for n
  proof -
    let ?db = "store_run L (w_db w) (ht_others H (w_tick w))"
    define cp where "cp = [(''status'', JStr ''started''), (''attempts'', JInt n), (''binding_digest'', JStr (sc_binding c)),
        (''handler_policy'', JObj (sc_policy c))] @ (if sc_data c \<noteq> JNull then [(''data_binding'', sc_data c)] else [])"
    have "case tx H L (admit_step L (wr_run_id (sc_run c)) (ws_step_id (sc_step c)) cp (n - 1)) w of
        (Inl e, w') \<Rightarrow> w_calls w' = w_calls w | (Inr b, w') \<Rightarrow> \<not> b \<and> w_calls w' = w_calls w"
      using admit [of "ws_step_id (sc_step c)" cp "n - 1"] by (auto simp: tx_fst_snd Let_def split: sum.splits)
    then show ?thesis
      unfolding one_attempt_def cp_def [symmetric] rbind_def by (auto simp: ret_def split: sum.splits prod.splits)
  qed
  obtain r w1 where w1: "one_attempt H L c ref reconcile resolved ctx (attempts + 1) w = (r, w1)" by fastforce
  show ?thesis
  proof (cases r)
    case (Inl e)
    with w1 one [of "attempts + 1"] show ?thesis by (subst attempts_loop.simps) (simp add: rbind_def)
  next
    case (Inr x)
    moreover obtain final result where "x = (final, result)" by (cases x)
    ultimately show ?thesis
      using w1 one [of "attempts + 1"] by (subst attempts_loop.simps) (simp add: rbind_def ret_def)
  qed
qed

section \<open>A step with a checkpoint\<close>

text \<open>A host alone: nobody else writes to the store.\<close>

definition alone :: "host \<Rightarrow> bool" where
  "alone H \<longleftrightarrow> ht_others H = (\<lambda>_. [])"

definition frozen :: "'a rt \<Rightarrow> bool" where
  "frozen m \<longleftrightarrow> (\<forall>w. w_db (snd (m w)) = w_db w)"

lemma frozen_basic: "frozen (ret x)" "frozen (lift m)"
  by (auto simp: frozen_def ret_def lift_def fail_def split: sum.splits)

lemma frozen_query: "alone H \<Longrightarrow> frozen (query H L f)"
  by (auto simp: frozen_def alone_def query_def tx_fst_snd Let_def bindE_def split: sum.splits)

lemma frozen_rbind: "frozen m \<Longrightarrow> (\<And>x. frozen (f x)) \<Longrightarrow> frozen (rbind m f)"
  by (auto simp: frozen_def rbind_def split: sum.splits prod.splits) (metis snd_conv)+

lemma frozen_step_binding: "alone H \<Longrightarrow> frozen (step_binding H L run step)"
  unfolding step_binding_def checkpoints_def
  by (cases "ws_data_bindings step = JNull") (simp_all add: frozen_rbind frozen_basic frozen_query)

lemma require_alone:
  "alone H \<Longrightarrow> require H L i w = (Inr r, w1) \<Longrightarrow> require_run (w_db w) i = Inr r \<and> w_db w1 = w_db w \<and> w_calls w1 = w_calls w"
  by (auto simp: alone_def require_def query_def tx_fst_snd Let_def bindE_def dest: get_run_required split: sum.splits option.splits)

lemma require_run_own_id: "require_run db i = Inr r \<Longrightarrow> wr_run_id r = i"
  by (auto simp: require_run_def bindE_eq_Inr split: option.splits if_splits dest: row_of_Some)

text \<open>
  The step runs on the checkpoint \<open>cp\<close> of the store: every way through it that calls a handler
  goes through the loop, with the attempts that \<open>cp\<close> records and past the guard.
\<close>

lemma step_with_checkpoint:
  assumes "alone H" and "dict_get (run_checkpoints (w_db w) (wr_run_id run)) (ws_step_id step) = Some (JObj cp)"
    and "handler_of H step = Inr (handler, policy)" and "Q []"
    and "\<And>(r :: workflow_run) attempts ref c (resolved :: workflow_step) ctx.
      rd_int cp ''attempts'' 0 = Inr attempts \<Longrightarrow> handler = Some ref \<Longrightarrow>
      may_run (was_started r step cp attempts legacy) (hp_reconcile_started policy)
        (retry_limit step (policy_snapshot policy)) attempts \<Longrightarrow>
      traces Q (attempts_loop H L c ref (hp_reconcile_started policy) resolved ctx
        (retry_limit step (policy_snapshot policy)) attempts)"
  shows "\<exists>new. w_calls (snd (execute_step H L run step legacy w)) = w_calls w @ new \<and> Q new"
proof (cases "require H L (wr_run_id run) w")
  case (Pair x w1)
  show ?thesis
  proof (cases x)
    case (Inl e)
    have "w_calls w1 = w_calls w" using silent_require [of H L "wr_run_id run"] Pair by (metis silent_def snd_conv)
    with Inl Pair assms(4) show ?thesis by (simp add: execute_step_rest rbind_def)
  next
    case (Inr r)
    with Pair require_alone [OF assms(1)] have r: "require_run (w_db w) (wr_run_id run) = Inr r"
      "w_db w1 = w_db w" "w_calls w1 = w_calls w" by blast+
    let ?cps = "run_checkpoints (w_db w) (wr_run_id run)"
    let ?tail = "\<lambda>binding cp. rbind (lift (handler_of H step)) (\<lambda>(handler, policy).
      rbind (lift (lift_py (rd_int cp ''attempts'' 0))) (\<lambda>attempts.
        let snapshot = policy_snapshot policy;
            context = [(''run_id'', JStr (wr_run_id r)), (''inputs'', JObj (wr_inputs r)), (''outputs'', JObj (wr_outputs r))];
            c = \<lparr>sc_run = r, sc_step = step, sc_binding = binding, sc_policy = snapshot, sc_data = JNull\<rparr>
        in attempt (check_checkpoint H L r step cp)
          (\<lambda>e. case e of WorkflowBindingError msg \<Rightarrow> Some (ret (''unknown'', JObj [], msg)) | _ \<Rightarrow> None)
          (\<lambda>_. execute_checked H L c cp handler (hp_reconcile_started policy)
            (was_started r step cp attempts legacy) (retry_limit step snapshot) context attempts)))"
    have bad: "traces Q m" if "(case e of WorkflowBindingError msg \<Rightarrow> Some (ret (''unknown'', JObj [], msg)) | _ \<Rightarrow> None) = Some m"
      for e and m :: "step_result rt"
      using that by (cases e) (auto intro: traces_ret assms(4))
    have body: "traces Q (attempt (check_checkpoint H L r step cp)
          (\<lambda>e. case e of WorkflowBindingError msg \<Rightarrow> Some (ret (''unknown'', JObj [], msg)) | _ \<Rightarrow> None)
          (\<lambda>_. execute_checked H L \<lparr>sc_run = r, sc_step = step, sc_binding = binding,
              sc_policy = policy_snapshot policy, sc_data = JNull\<rparr> cp handler (hp_reconcile_started policy)
            (was_started r step cp attempts legacy) (retry_limit step (policy_snapshot policy)) ctx attempts))"
      if "rd_int cp ''attempts'' 0 = Inr attempts" for binding attempts ctx
      by (rule traces_attempt_silent [OF silent_check_checkpoint traces_checked bad assms(4)])
        (use assms(4) assms(5) [OF that] in simp_all)
    have tail: "traces Q (?tail binding cp)" for binding
      unfolding assms(3) Let_def
      by (rule traces_rbind_silent, intro silent_intros)
        (auto intro!: traces_rbind_silent silent_basic assms(4) body)
    have read: "cp_get ?cps (ws_step_id step) w' = (Inr cp, w')" for w'
      using assms(2) by (cases cp) (simp_all add: cp_get_def get_or_def lift_def ret_def)
    obtain y w2 where w2: "step_binding H L r step w1 = (y, w2)" by fastforce
    then have w2_db: "w_db w2 = w_db w" and w2_calls: "w_calls w2 = w_calls w"
      using frozen_step_binding [OF assms(1), of L r step] silent_step_binding [of H L r step] r
      by (metis frozen_def snd_conv, metis silent_def snd_conv)
    show ?thesis
    proof (cases y)
      case (Inl e)
      with w2 w2_calls Pair Inr assms(4) show ?thesis by (simp add: execute_step_rest step_rest_def rbind_def)
    next
      case (Inr binding)
      obtain w3 where w3: "checkpoints H L (wr_run_id r) w2 = (Inr ?cps, w3)" "w_calls w3 = w_calls w"
        using w2_db w2_calls assms(1) require_run_own_id [OF r(1)]
        by (simp add: checkpoints_def query_def tx_fst_snd alone_def Let_def)
      from tail obtain new where "w_calls (snd (?tail binding cp w3)) = w_calls w3 @ new" "Q new"
        unfolding traces_def by blast
      moreover have "execute_step H L run step legacy w = ?tail binding cp w3"
        using Pair \<open>x = Inr r\<close> w2 Inr w3 read
        by (simp add: execute_step_rest step_rest_def rbind_def)
      ultimately show ?thesis using w3 by auto
    qed
  qed
qed

section \<open>The end of the process\<close>

text \<open>Whenever the process ends during \<open>m\<close>, the state it leaves behind satisfies \<open>G\<close>.\<close>

definition dying :: "(world \<Rightarrow> bool) \<Rightarrow> 'a rt \<Rightarrow> bool" where
  "dying G m \<longleftrightarrow> (\<forall>w w'. m w = (Inl Process_died, w') \<longrightarrow> G w')"

lemma dying_basic [dying_intros]:
  "dying G (ret x)" "dying G (fail e)" "dying G (lift m)" "dying G (tx H L f)" "dying G (query H L g)"
  by (auto simp: dying_def ret_def fail_def lift_def query_def tx_fst_snd Let_def split: sum.splits)

lemma dying_attempt [dying_intros]:
  assumes "dying G m" and "\<And>x. dying G (f x)" and "\<And>e r. h e = Some r \<Longrightarrow> dying G r"
  shows "dying G (attempt m h f)"
  unfolding dying_def
proof (intro allI impI)
  fix w w' assume w: "attempt m h f w = (Inl Process_died, w')"
  show "G w'"
  proof (cases rule: attempt_cases [of m w h f])
    case (ok x w1)
    with w assms(2) show ?thesis by (simp add: dying_def)
  next
    case (caught e r w1)
    with w assms(3) [OF caught(2)] show ?thesis by (simp add: dying_def)
  next
    case (thrown e w1)
    with w assms(1) show ?thesis by (simp add: dying_def)
  qed
qed

lemma dying_rbind [dying_intros]: "dying G m \<Longrightarrow> (\<And>x. dying G (f x)) \<Longrightarrow> dying G (rbind m f)"
  unfolding rbind_attempt by (rule dying_attempt) auto

lemma dying_cases [dying_intros]:
  "(P \<Longrightarrow> dying G a) \<Longrightarrow> (\<not> P \<Longrightarrow> dying G b) \<Longrightarrow> dying G (if P then a else b)"
  "(x = None \<Longrightarrow> dying G a) \<Longrightarrow> (\<And>y. x = Some y \<Longrightarrow> dying G (c y)) \<Longrightarrow> dying G (case x of None \<Rightarrow> a | Some y \<Rightarrow> c y)"
  "(\<And>a b. p = (a, b) \<Longrightarrow> dying G (d a b)) \<Longrightarrow> dying G (case p of (a, b) \<Rightarrow> d a b)"
  by simp (cases x, simp_all, cases p, simp)

lemma dying_reads [dying_intros]:
  "dying G (require H L i)" "dying G (checkpoints H L i)" "dying G (cp_get cps k)"
  unfolding require_def checkpoints_def cp_get_def by (rule dying_basic)+

lemma dying_record_step [dying_intros]: "dying G (record_step H L c n status output error bad)"
  unfolding record_step_def Let_def by (intro dying_intros)

lemma dying_step_binding [dying_intros]: "dying G (step_binding H L run step)"
  unfolding step_binding_def by (intro dying_intros)

lemma dying_resolve_sources [dying_intros]: "dying G (resolve_sources H L run steps cps references sources)"
  by (induction references arbitrary: sources) (simp_all add: resolve_source_def Let_def dying_intros)

lemma dying_resolve_step_data [dying_intros]: "dying G (resolve_step_data H L run step)"
  unfolding resolve_step_data_def by (intro dying_intros)

lemma dying_check_checkpoint [dying_intros]: "dying G (check_checkpoint H L run step cp)"
  unfolding check_checkpoint_def
  by (intro dying_intros) (auto intro: dying_intros split: wf_exn.splits)

text \<open>The write-ahead record: the checkpoint of the step says that it was started.\<close>

definition records_start :: "string \<Rightarrow> string \<Rightarrow> world \<Rightarrow> bool" where
  "records_start run_id step_id w \<longleftrightarrow>
     (\<exists>cp. dict_get (run_checkpoints (w_db w) run_id) step_id = Some (JObj cp) \<and>
        dict_get cp ''status'' = Some (JStr ''started''))"

definition CHECKPOINT_NAMES :: "string list" where
  "CHECKPOINT_NAMES = [''status'', ''attempts'', ''binding_digest'', ''handler_policy'', ''data_binding'', ''started'']"

text \<open>No registered secret is part of the names in a checkpoint.\<close>

definition quiet_steps :: "wf_lib \<Rightarrow> bool" where
  "quiet_steps L \<longleftrightarrow> list_all (kept L) CHECKPOINT_NAMES"

lemma names_unmarked:
  "k \<in> set CHECKPOINT_NAMES \<Longrightarrow> \<not> marked (py_casefold k) \<and> py_casefold k \<noteq> ''counter_measurements''"
  by (auto simp: CHECKPOINT_NAMES_def marked_def SENSITIVE_MARKERS_def py_casefold_def py_lower_char_def startswith_def)

lemma run_checkpoints_get: "dict_get (run_checkpoints db i) s = dict_get (db_checkpoints db) (i, s)"
proof -
  have "dict_get (map (\<lambda>((_, step_id), v). (step_id, v)) (filter (\<lambda>((r, _), _). r = i) cps)) s = dict_get cps (i, s)"
    for cps :: "(string \<times> string, json) dict"
    by (induction cps) auto
  then show ?thesis by (simp add: run_checkpoints_def)
qed

lemma put_checkpoint_get:
  "dict_get (db_checkpoints (put_checkpoint L i s cp db)) (i, s) = Some (JObj (stored_obj L cp))"
  by (simp add: put_checkpoint_def safe_json_JObj)

lemma started_is_stored:
  assumes "quiet_steps L" and "set (map fst cp) \<subseteq> set CHECKPOINT_NAMES" and "wf_dict cp"
    and "dict_get cp ''status'' = Some (JStr ''started'')"
  shows "dict_get (stored_obj L cp) ''status'' = Some (JStr ''started'')"
proof -
  have "dict_get (stored_obj L cp) ''status'' = map_option (safe_json L) (dict_get cp ''status'')"
    using assms(1,2) names_unmarked by (intro stored_obj_get [OF assms(3)]) (auto simp: quiet_steps_def list_all_iff)
  with assms(1,4) show ?thesis
    by (simp add: safe_json_def quiet_steps_def CHECKPOINT_NAMES_def kept_def)
qed

lemma admitted_is_stored:
  assumes "admit_step L i s cp n db = Inr (True, db')"
  shows "dict_get (db_checkpoints db') (i, s) = Some (JObj (stored_obj L cp))"
  using assms
  by (auto simp: admit_step_def bindE_eq_Inr Let_def put_checkpoint_get split: if_splits)

lemma dying_one_attempt:
  assumes "quiet_steps L"
  shows "dying (records_start (wr_run_id (sc_run c)) (ws_step_id (sc_step c)))
    (one_attempt H L c ref reconcile resolved ctx n)"
  unfolding dying_def
proof (intro allI impI)
  fix w w'
  let ?i = "wr_run_id (sc_run c)" and ?s = "ws_step_id (sc_step c)"
  define cp where "cp = [(''status'', JStr ''started''), (''attempts'', JInt n), (''binding_digest'', JStr (sc_binding c)),
      (''handler_policy'', JObj (sc_policy c))] @ (if sc_data c \<noteq> JNull then [(''data_binding'', sc_data c)] else [])"
  have cp: "dict_get (stored_obj L cp) ''status'' = Some (JStr ''started'')"
    by (rule started_is_stored [OF assms]) (auto simp: cp_def CHECKPOINT_NAMES_def)
  define after where "after = (\<lambda>answer. rbind (lift (settle L (sc_step c) (sc_policy c) reconcile n answer)) (\<lambda>s.
       case s of
         Final n status output error bad \<Rightarrow> rbind (record_step H L c n status output error bad) (\<lambda>r. ret (True, r))
       | Tried status output error \<Rightarrow>
           rbind (record_step H L c n status output error False) (\<lambda>_. ret (False, (status, output, error)))))"
  let ?go = "\<lambda>admitted. if \<not> admitted then ret (True, (''cancelled'', JObj [], []))
     else rbind (call_in_time H ref resolved ctx) after"
  have after: "dying (\<lambda>_. False) (after answer)" for answer
    unfolding after_def by (intro dying_intros) (auto intro!: dying_intros split: settled.splits)
  assume "one_attempt H L c ref reconcile resolved ctx n w = (Inl Process_died, w')"
  then have died: "rbind (tx H L (admit_step L ?i ?s cp (n - 1))) ?go w = (Inl Process_died, w')"
    by (simp only: one_attempt_def cp_def after_def)
  obtain x w1 where w1: "tx H L (admit_step L ?i ?s cp (n - 1)) w = (x, w1)" by fastforce
  show "records_start ?i ?s w'"
  proof (cases x)
    case (Inl e)
    with died w1 dying_basic(4) [of "\<lambda>_. False" H L "admit_step L ?i ?s cp (n - 1)"] show ?thesis
      by (auto simp: rbind_def dying_def)
  next
    case (Inr admitted)
    with died w1 have go: "?go admitted w1 = (Inl Process_died, w')" by (simp add: rbind_def)
    then have admitted by (cases admitted) (simp_all add: ret_def)
    with w1 Inr have "dict_get (db_checkpoints (w_db w1)) (?i, ?s) = Some (JObj (stored_obj L cp))"
      by (auto simp: tx_fst_snd Let_def dest: admitted_is_stored split: sum.splits)
    then have start: "records_start ?i ?s w1" using cp by (simp add: records_start_def run_checkpoints_get)
    obtain y w2 where w2: "call_in_time H ref resolved ctx w1 = (y, w2)" by fastforce
    then have "w_db w2 = w_db w1"
      by (auto simp: call_in_time_def call_handler_def Let_def split: sum.splits if_splits)
    moreover have "w' = w2"
      using go \<open>admitted\<close> w2 after by (cases y) (simp_all add: rbind_def dying_def)
    ultimately show ?thesis using start by (simp add: records_start_def)
  qed
qed

lemma dying_attempts_loop:
  assumes "quiet_steps L"
  shows "dying (records_start (wr_run_id (sc_run c)) (ws_step_id (sc_step c)))
    (attempts_loop H L c ref reconcile resolved ctx limit attempts)"
  using assms
proof (induction H L c ref reconcile resolved ctx limit attempts rule: attempts_loop.induct)
  case (1 H L c ref reconcile resolved ctx limit attempts)
  let ?G = "records_start (wr_run_id (sc_run c)) (ws_step_id (sc_step c))"
  have not_false: "\<not> False" by simp
  have go: "dying ?G (if wr_cancellation_requested run \<or> reconcile \<or> attempts + 1 \<ge> 1 + limit then ret result
      else attempts_loop H L c ref reconcile resolved ctx limit (attempts + 1))" for run :: workflow_run and result
  proof (rule dying_cases(1))
    assume stop: "\<not> (wr_cancellation_requested run \<or> reconcile \<or> attempts + 1 \<ge> 1 + limit)"
    show "dying ?G (attempts_loop H L c ref reconcile resolved ctx limit (attempts + 1))"
      by (rule "1.IH" [OF refl not_false stop "1.prems"])
  qed (rule dying_basic)
  have "dying ?G (case x of (final, result) \<Rightarrow> if final then ret result else rbind (require H L (wr_run_id (sc_run c))) (\<lambda>run.
      if wr_cancellation_requested run \<or> reconcile \<or> attempts + 1 \<ge> 1 + limit then ret result
      else attempts_loop H L c ref reconcile resolved ctx limit (attempts + 1)))" for x
    by (intro dying_cases dying_basic dying_rbind dying_reads go)
  then show ?case
    by (subst attempts_loop.simps) (rule dying_rbind [OF dying_one_attempt [OF "1.prems"]])
qed

lemma dying_dispatch:
  assumes "quiet_steps L"
  shows "dying (records_start (wr_run_id (sc_run c)) (ws_step_id (sc_step c)))
    (dispatch_step H L c handler reconcile resolved ctx limit attempts)"
  unfolding dispatch_step_def Let_def by (intro dying_intros dying_attempts_loop [OF assms])

lemma dying_guard: "dying G go_on \<Longrightarrow> dying G (replay_guard H L c cp prior reconcile limit attempts go_on)"
  unfolding replay_guard_def by (intro dying_intros)

lemma dying_checked:
  assumes "quiet_steps L"
  shows "dying (records_start (wr_run_id (sc_run c)) (ws_step_id (sc_step c)))
    (execute_checked H L c cp handler reconcile prior limit ctx attempts)"
proof -
  let ?G = "records_start (wr_run_id (sc_run c)) (ws_step_id (sc_step c))"
  have go: "dying ?G (case x of (resolved, data) \<Rightarrow>
      replay_guard H L (c\<lparr>sc_data := data\<rparr>) cp prior reconcile limit attempts
        (dispatch_step H L (c\<lparr>sc_data := data\<rparr>) handler reconcile resolved ctx limit attempts))" for x
    using dying_guard [OF dying_dispatch [OF assms, of "c\<lparr>sc_data := snd x\<rparr>"]] by (cases x) simp
  show ?thesis
    unfolding execute_checked_def Let_def
    by (intro go dying_intros) (auto intro!: dying_intros split: wf_exn.splits)
qed

lemma step_death_recorded:
  assumes "quiet_steps L" and "execute_step H L run step legacy w = (Inl Process_died, w')"
  shows "records_start (wr_run_id run) (ws_step_id step) w'"
proof -
  obtain x w1 where w1: "require H L (wr_run_id run) w = (x, w1)" by fastforce
  have bad: "dying G m" if "(case e of WorkflowBindingError msg \<Rightarrow> Some (ret (''unknown'', JObj [], msg)) | _ \<Rightarrow> None) = Some m"
    for G e and m :: "step_result rt"
    using that by (cases e) (auto intro: dying_intros)
  have rest: "dying (records_start (wr_run_id r) (ws_step_id step)) (step_rest H L step legacy r)" for r
    unfolding step_rest_def Let_def
    using dying_checked [OF assms(1), where c = "\<lparr>sc_run = r, sc_step = step, sc_binding = b, sc_policy = q, sc_data = JNull\<rparr>" for b q]
    by (intro dying_intros) (auto intro: bad)
  show ?thesis
  proof (cases x)
    case (Inl e)
    with assms(2) w1 dying_reads(1) [of "\<lambda>_. False" H L "wr_run_id run"] show ?thesis
      by (auto simp: execute_step_rest rbind_def dying_def)
  next
    case (Inr r)
    with w1 have "require_run (store_run L (w_db w) (ht_others H (w_tick w))) (wr_run_id run) = Inr r"
      by (auto simp: require_def query_def tx_fst_snd Let_def bindE_def dest: get_run_required split: sum.splits option.splits)
    then have "wr_run_id r = wr_run_id run" by (rule require_run_own_id)
    with rest [of r] Inr w1 assms(2) show ?thesis by (auto simp: execute_step_rest rbind_def dying_def)
  qed
qed

section \<open>Compensation after a wave\<close>

lemma traces_after_wave_undo:
  "traces (\<lambda>new. subseq (map hc_step new) (rev (filter (\<lambda>s. ws_compensation s \<in> set (ht_handlers H)) (wd_steps d))) \<and>
     list_all (\<lambda>c. hc_handler c = Registered (ws_compensation (hc_step c)) \<and> compensates c) new)
   (after_wave H L d run_id results)"
proof -
  let ?Q = "\<lambda>new. subseq (map hc_step new) (rev (filter (\<lambda>s. ws_compensation s \<in> set (ht_handlers H)) (wd_steps d))) \<and>
     list_all (\<lambda>c. hc_handler c = Registered (ws_compensation (hc_step c)) \<and> compensates c) new"
  have sub: "subseq (undo_steps H (rev (filter P (wd_steps d))))
      (rev (filter (\<lambda>s. ws_compensation s \<in> set (ht_handlers H)) (wd_steps d)))" for P
  proof -
    have "undo_steps H (rev (filter P (wd_steps d))) =
        filter (\<lambda>s. ws_compensation s \<noteq> [] \<and> P s) (rev (filter (\<lambda>s. ws_compensation s \<in> set (ht_handlers H)) (wd_steps d)))"
      by (simp add: undo_steps_def rev_filter filter_filter conj_ac)
    then show ?thesis by (simp add: subseq_filter_left)
  qed
  have nil: "?Q []" by simp
  have silent_end: "silent (rbind (finish H L run_id s e p) (ret \<circ> Some))" for s e p
    by (intro silent_intros) (simp add: silent_basic)
  have undo: "traces ?Q (rbind (compensate H L run (rev (filter P (wd_steps d))) failed)
      (\<lambda>state. rbind (finish H L run_id state e p) (ret \<circ> Some)))" for run P failed e p
    by (rule traces_rbind_after [OF traces_mono [OF traces_compensate] silent_end])
      (auto simp: undo_calls_def intro: subseq_order.trans [OF _ sub])
  show ?thesis
    unfolding after_wave_def
    by (intro traces_rbind_silent traces_option traces_if silent_intros nil traces_ret undo
        silent_traces [OF silent_end]; (split prod.splits)?; (intro allI impI)?)
      (intro traces_rbind_silent traces_option traces_if silent_intros nil traces_ret undo
        silent_traces [OF silent_end])+
qed

section \<open>Samples\<close>

definition sample_contract :: capability_contract where
  "sample_contract = (default_contract [])\<lparr>cc_capability_id := ''agent.execute'',
     cc_side_effect_class := ''external_write'', cc_idempotency := IC_IDEMPOTENT\<rparr>"

definition sample_host :: "capability_contract option \<Rightarrow> answer \<Rightarrow> host" where
  "sample_host contract a =
     \<lparr>ht_handlers = [''agent''], ht_policies = [(''agent'', \<lparr>hp_contract = contract, hp_reconcile_started = False\<rparr>)],
      ht_answer = (\<lambda>_ _ _ _. a), ht_late = (\<lambda>_. False), ht_others = (\<lambda>_. [])\<rparr>"

definition sample_world :: "wf_db \<Rightarrow> world" where
  "sample_world db = \<lparr>w_db = db, w_tick = 0, w_calls = [], w_events = []\<rparr>"

definition agent_step :: workflow_step where
  "agent_step = sample_step ''a'' ST_AGENT []"

definition bound_run :: workflow_run where
  "bound_run = (one_run False WS_RUNNING)\<lparr>wr_definition_digest := ''old''\<rparr>"

lemma sample_host_alone: "alone (sample_host contract a)"
  by (simp add: alone_def sample_host_def)

lemma sample_handler:
  "handler_of (sample_host None a) agent_step = Inr (Some (Registered ''agent''), \<lparr>hp_contract = None, hp_reconcile_started = False\<rparr>)"
  "handler_of (sample_host (Some sample_contract) a) agent_step =
     Inr (Some (Registered ''agent''), \<lparr>hp_contract = Some sample_contract, hp_reconcile_started = False\<rparr>)"
  by (simp_all add: handler_of_def sample_host_def agent_step_def sample_step_def dict_get_or_def wf_capability_def
      default_capability_def sample_contract_def default_contract_def)

lemma sample_quiet_steps: "quiet_steps sample_lib"
  by (simp add: quiet_steps_def CHECKPOINT_NAMES_def sample_kept plain_def plain_char_def py_isspace_def)

lemma one_run_bound: "validate_bound sample_lib (one_run_db r) (one_run c s) = Inr ()"
proof -
  have "definition_for_run (one_run_db r) (one_run c s) = Inr sample_workflow"
    by (simp add: definition_for_run_def one_run_db_def decode_definition_def definition_reads)
  then show ?thesis by (simp add: validate_bound_def validate_run_def) (simp add: sample_workflow_def)
qed

lemma sample_step_dies:
  "\<exists>w1. execute_step (sample_host None Died) sample_lib (one_run False WS_RUNNING) agent_step False
     (sample_world (one_run_db (one_run False WS_RUNNING))) = (Inl Process_died, w1)"
proof -
  have step: "ws_data_bindings agent_step = JNull" "ws_depends_on agent_step = []" "ws_step_id agent_step = ''a''"
    "ws_approval_required agent_step = False" "ws_step_type agent_step = ST_AGENT"
    by (simp_all add: agent_step_def sample_step_def)
  have cps: "run_checkpoints (one_run_db r) i = []" "db_checkpoints (one_run_db r) = []" for r i
    by (simp_all add: run_checkpoints_def one_run_db_def empty_db_def)
  have states: "wr_step_states (one_run c s) = []" for c s by (simp add: one_run_def new_run_def)
  have others: "ht_others (sample_host None Died) = (\<lambda>_. [])" by (simp add: sample_host_def)
  note run = one_run_reads one_run_bound get_run_Some [OF one_run_reads]
  show ?thesis
    by (simp add: execute_step_def rbind_def require_def query_def tx_fst_snd others sample_world_def run step cps states
        step_binding_def ret_def checkpoints_def cp_get_def get_or_def lift_def sample_handler rd_int_def Let_def
        attempt_def check_checkpoint_def finished_status_def validate_checkpoint_def dict_get_or_def
        execute_checked_def resolve_step_data_def replay_guard_def was_started_def step_state_def dispatch_step_def
        attempts_loop.simps [of "sample_host None Died"] one_attempt_def admit_step_def checkpoint_of_def rd_item_def
        call_in_time_def call_handler_def)
      (simp add: sample_host_def)
qed

section \<open>Properties\<close>

text \<open>
  The retry budget spans restarts. C22: a step whose checkpoint records that attempts were made (by
  this or by an earlier process) is given at most the attempts that are left of its budget, one
  plus the retries that both the step and the contract of the handler allow; with a contract that
  does not allow retries, or none, that is no further call at all.
\<close>
theorem retry_budget_spans_restarts:
  assumes "alone H" and "dict_get (run_checkpoints (w_db w) (wr_run_id run)) (ws_step_id step) = Some (JObj cp)"
    and "handler_of H step = Inr (handler, policy)" and "\<not> hp_reconcile_started policy"
    and "rd_int cp ''attempts'' 0 = Inr n" and "0 < n"
  shows "\<exists>new. w_calls (snd (execute_step H L run step legacy w)) = w_calls w @ new \<and>
    int (length new) \<le> max 0 (1 + retry_limit step (policy_snapshot policy) - n)"
proof (rule step_with_checkpoint [OF assms(1-3)])
  fix r :: workflow_run and attempts ref c and resolved :: workflow_step and ctx
  let ?limit = "retry_limit step (policy_snapshot policy)"
  assume "rd_int cp ''attempts'' 0 = Inr attempts"
  then have n: "attempts = n" using assms(5) by simp
  assume "may_run (was_started r step cp attempts legacy) (hp_reconcile_started policy) ?limit attempts"
  then have "n < 1 + ?limit" using n assms(4,6) by (auto simp: may_run_def was_started_def)
  then show "traces (\<lambda>new. int (length new) \<le> max 0 (1 + ?limit - n))
      (attempts_loop H L c ref (hp_reconcile_started policy) resolved ctx ?limit attempts)"
    using traces_attempts_loop [of "hp_reconcile_started policy" ?limit attempts ref resolved ctx H L c] assms(4) n
    by (auto simp: own_calls_def loop_bound_def elim!: traces_mono)
qed simp

theorem retry_budget_spans_restarts_witness:
  "w_calls (snd (execute_step (sample_host (Some sample_contract) (Raised ''e'' [])) sample_lib (one_run False WS_RUNNING) agent_step False
     (sample_world ((one_run_db (one_run False WS_RUNNING))
        \<lparr>db_checkpoints := [((''r'', ''a''), JObj [(''status'', JStr ''failed''), (''attempts'', JInt 2)])]\<rparr>)))) = []"
proof -
  let ?w = "sample_world ((one_run_db (one_run False WS_RUNNING))
        \<lparr>db_checkpoints := [((''r'', ''a''), JObj [(''status'', JStr ''failed''), (''attempts'', JInt 2)])]\<rparr>)"
  let ?p = "\<lparr>hp_contract = Some sample_contract, hp_reconcile_started = False\<rparr>"
  have "dict_get (run_checkpoints (w_db ?w) (wr_run_id (one_run False WS_RUNNING))) (ws_step_id agent_step) =
      Some (JObj [(''status'', JStr ''failed''), (''attempts'', JInt 2)])"
    by (simp add: run_checkpoints_get sample_world_def agent_step_def sample_step_def)
  moreover have "retry_limit agent_step (policy_snapshot ?p) \<le> 1"
    by (simp add: retry_limit_def agent_step_def sample_step_def split: option.splits json.splits)
  moreover have "rd_int [(''status'', JStr ''failed''), (''attempts'', JInt 2)] ''attempts'' 0 = Inr 2"
    by (simp add: rd_int_def get_or_def)
  ultimately show ?thesis
    using retry_budget_spans_restarts [OF sample_host_alone _ sample_handler(2), where w = ?w and run = "one_run False WS_RUNNING"
        and cp = "[(''status'', JStr ''failed''), (''attempts'', JInt 2)]" and n = 2 and L = sample_lib and legacy = False]
    by (auto simp: sample_world_def)
qed

text \<open>
  At most once across a crash. C5: if the process ends during the call of a handler for a step, the stored
  checkpoint of the step says that it was started; and a later process that finds the store as it was
  left and works on it alone calls no handler for the step, whatever its handlers would answer, if the handler
  registered there does not reconcile and the limit of retries, from the step and the contract of the
  handler, is 0. (\<open>quiet_steps\<close>: no registered secret is part of the names in a checkpoint. A process that
  ends after the handler has returned and before the next transaction leaves the same store.)
\<close>
theorem crash_is_never_replayed:
  assumes "quiet_steps L" and "execute_step H L run step legacy w = (Inl Process_died, w1)"
    and "alone H2" and "w_db w2 = w_db w1" and "wr_run_id run2 = wr_run_id run"
    and "handler_of H2 step = Inr (handler, policy)" and "\<not> hp_reconcile_started policy"
    and "retry_limit step (policy_snapshot policy) = 0"
  shows "(\<exists>cp. dict_get (run_checkpoints (w_db w1) (wr_run_id run)) (ws_step_id step) = Some (JObj cp) \<and>
      dict_get cp ''status'' = Some (JStr ''started'')) \<and>
    w_calls (snd (execute_step H2 L run2 step legacy2 w2)) = w_calls w2"
proof -
  obtain cp where cp: "dict_get (run_checkpoints (w_db w2) (wr_run_id run2)) (ws_step_id step) = Some (JObj cp)"
    "dict_get cp ''status'' = Some (JStr ''started'')"
    using step_death_recorded [OF assms(1,2)] assms(4,5) by (auto simp: records_start_def)
  have "\<exists>new. w_calls (snd (execute_step H2 L run2 step legacy2 w2)) = w_calls w2 @ new \<and> new = []"
    by (rule step_with_checkpoint [OF assms(3) cp(1) assms(6)])
      (use cp(2) assms(7,8) in \<open>simp_all add: may_run_def was_started_def\<close>)
  with cp assms(4,5) show ?thesis by simp
qed

theorem crash_is_never_replayed_witness:
  "\<exists>w1. execute_step (sample_host None Died) sample_lib (one_run False WS_RUNNING) agent_step False
        (sample_world (one_run_db (one_run False WS_RUNNING))) = (Inl Process_died, w1) \<and>
     (\<exists>cp. dict_get (run_checkpoints (w_db w1) ''r'') ''a'' = Some (JObj cp) \<and> dict_get cp ''status'' = Some (JStr ''started'')) \<and>
     w_calls (snd (execute_step (sample_host None (Returned JNull)) sample_lib (one_run False WS_RUNNING) agent_step False
       (sample_world (w_db w1)))) = []"
proof -
  obtain w1 where w1: "execute_step (sample_host None Died) sample_lib (one_run False WS_RUNNING) agent_step False
      (sample_world (one_run_db (one_run False WS_RUNNING))) = (Inl Process_died, w1)"
    using sample_step_dies by blast
  have "w_db (sample_world (w_db w1)) = w_db w1" by (simp add: sample_world_def)
  moreover have "retry_limit agent_step (policy_snapshot \<lparr>hp_contract = None, hp_reconcile_started = False\<rparr>) = 0"
    by (simp add: retry_limit_def policy_snapshot_def effect_in_def SUPPORTED_EFFECTS_def)
  ultimately show ?thesis
    using crash_is_never_replayed [OF sample_quiet_steps w1 sample_host_alone _ refl sample_handler(1), of "sample_world (w_db w1)" "Returned JNull" False] w1
    by (auto simp: sample_world_def one_run_def new_run_def agent_step_def sample_step_def)
qed

text \<open>
  Cancellation stops handlers. Once a run is cancelled in the store, executing one of its steps calls no
  handler, and neither does a retry loop that was already under way: whatever other executors
  commit in the meantime.
\<close>
lemma cancelled_run_calls_nothing:
  assumes "quiet L" and "fair_host H L" and "db_ok L (w_db w)"
    and "require_run (w_db w) i = Inr p" and "wr_cancellation_requested p" and "wr_state p \<in> {WS_CANCELLED, WS_UNKNOWN}"
    and "wr_run_id run = i" and "wr_run_id (sc_run c) = i"
  shows "w_calls (snd (execute_step H L run step legacy w)) = w_calls w \<and>
    w_calls (snd (attempts_loop H L c ref reconcile resolved ctx limit attempts w)) = w_calls w"
  using halted_step_silent [OF assms(1-3), of run p] halted_loop_silent [OF assms(1-3), of c p] assms(4-8)
  by (simp add: halted_def)

lemma cancelled_run_calls_nothing_witness:
  "w_calls (snd (execute_step ((sample_host None (Returned JNull))\<lparr>ht_others := \<lambda>_. [Update_run ''r'' (Some WS_RUNNING) None [] False]\<rparr>)
     sample_lib (one_run False WS_RUNNING) agent_step False (sample_world (one_run_db (one_run True WS_CANCELLED))))) = []"
proof -
  let ?H = "(sample_host None (Returned JNull))\<lparr>ht_others := \<lambda>_. [Update_run ''r'' (Some WS_RUNNING) None [] False]\<rparr>"
  let ?w = "sample_world (one_run_db (one_run True WS_CANCELLED))"
  let ?c = "\<lparr>sc_run = one_run False WS_RUNNING, sc_step = agent_step, sc_binding = [], sc_policy = [], sc_data = JNull\<rparr>"
  have "fair_host ?H sample_lib" by (simp add: fair_host_def)
  moreover have "db_ok sample_lib (w_db ?w)" "require_run (w_db ?w) ''r'' = Inr (one_run True WS_CANCELLED)"
    by (simp_all add: sample_world_def one_run_db_ok one_run_reads)
  ultimately show ?thesis
    using cancelled_run_calls_nothing [OF sample_quiet, of ?H ?w "''r''" "one_run True WS_CANCELLED" "one_run False WS_RUNNING" ?c]
    by (simp add: sample_world_def)
qed

text \<open>
  Order of the calls. C8: whatever the handlers answer and whatever other executors commit in the
  meantime, the execution of a run calls handlers for steps of its definition only, and never calls
  one before (or between) the calls of a step that it depends on; compensations aside.
\<close>
theorem calls_follow_dependencies:
  "\<exists>new. w_calls (snd (execute H L d run approved w)) = w_calls w @ new \<and>
     sorted_wrt (\<lambda>a b. call_id b \<notin> set (call_deps a)) (forward new) \<and>
     call_id ` set (forward new) \<subseteq> ws_step_id ` set (wd_steps d)"
proof -
  obtain new where "w_calls (snd (execute H L d run approved w)) = w_calls w @ new" "in_order d new"
    using traces_execute [of d H L run approved] unfolding traces_def by blast
  then show ?thesis by (force simp: in_order_def)
qed

text \<open>
  Compensation. After a wave of steps the runtime calls nothing but compensations: each the
  registered handler that its step names, in the reverse of the order of the definition and at most
  once per step, whatever the answers and the store.
\<close>
lemma compensation_in_reverse:
  "\<exists>new. w_calls (snd (after_wave H L d run_id results w)) = w_calls w @ new \<and>
     subseq (map hc_step new) (rev (filter (\<lambda>s. ws_compensation s \<in> set (ht_handlers H)) (wd_steps d))) \<and>
     list_all (\<lambda>c. hc_handler c = Registered (ws_compensation (hc_step c)) \<and> compensates c) new"
  using traces_after_wave_undo [of H d L run_id results] by (auto simp: traces_def)

text \<open>
  A run stays bound to its definition. Executing a run with a definition other than the one
  recorded when it was started ends with the state \<open>unknown\<close>, which is also what is stored, and
  with no handler called.
\<close>
lemma changed_definition_runs_nothing:
  assumes "quiet L" and "alone H" and "db_ok L (w_db w)" and "require_run (w_db w) (wr_run_id run) = Inr p"
    and "wr_definition_digest p \<noteq> []" and "wr_definition_digest p \<noteq> definition_digest L d"
  shows "\<exists>r w'. execute H L d run approved w = (Inr r, w') \<and> wr_state r = WS_UNKNOWN \<and>
    w_calls w' = w_calls w \<and> require_run (w_db w') (wr_run_id run) = Inr (stored_run L r)"
proof -
  let ?i = "wr_run_id run"
  let ?r = "p\<lparr>wr_state := WS_UNKNOWN, wr_error := ''Workflow run binding changed''\<rparr>"
  have "wr_run_id p = ?i" using assms(4) by (rule require_run_own_id)
  obtain row where row: "reads L (w_db w) ?i row p" by (rule require_run_reads [OF assms(1,3,4)])
  have "bind_run L ?i d (w_db w) = Inl (WorkflowBindingError ''Workflow run binding changed'')"
    using assms(4-6) by (simp add: bind_run_def validate_run_def binding_error_def)
  then have "execute H L d run approved w = binding_failure H L run ''Workflow run binding changed''
      (w\<lparr>w_tick := Suc (w_tick w)\<rparr>)"
    using assms(2) by (simp add: execute_def Let_def attempt_def tx_fst_snd alone_def)
  moreover have "mark_unknown L ?i ''Workflow run binding changed'' (w_db w) = Inr (write_run L ?r (w_db w))"
    using assms(4) by (simp add: mark_unknown_def)
  moreover have "require_run (snd (write_run L ?r (w_db w))) ?i = Inr (stored_run L (bump ?r))"
    using require_run_written [OF assms(1), of "w_db w" ?r row p] row \<open>wr_run_id p = ?i\<close> by simp
  ultimately show ?thesis
    using assms(2)
    by (cases "write_run L ?r (w_db w)")
      (auto simp: binding_failure_def rbind_def tx_fst_snd alone_def emit_def ret_def Let_def write_run_def bump_def)
qed

lemma changed_definition_runs_nothing_witness:
  "\<exists>r w'. execute (sample_host None (Returned JNull)) sample_lib sample_workflow bound_run [] (sample_world (one_run_db bound_run)) = (Inr r, w') \<and>
     wr_state r = WS_UNKNOWN \<and> w_calls w' = []"
proof -
  let ?p = "stored_run sample_lib bound_run"
  have row: "row_of (one_run_db bound_run) ''r'' = Some (new_row sample_lib bound_run)"
    by (simp add: row_of_def one_run_db_def new_row_def bound_run_def)
  have "row_ok sample_lib (new_row sample_lib bound_run)"
    using one_run_ids new_row_stores [of sample_lib bound_run] by (auto simp: row_ok_def new_row_def bound_run_def)
  then have read: "require_run (one_run_db bound_run) ''r'' = Inr ?p"
    and ok: "db_ok sample_lib (one_run_db bound_run)"
    using require_run_stores [OF sample_quiet _ row new_row_stores] one_run_ids
    by (simp_all add: db_ok_def one_run_db_def empty_db_def keyed_def)
  have digest: "wr_definition_digest ?p = ''old''"
    using sample_kept [of "''old''"]
    by (simp add: stored_run_def stored_text_def kept_def bound_run_def plain_def plain_char_def py_isspace_def)
  have "definition_digest sample_lib sample_workflow \<noteq> ''old''"
    by (simp add: definition_digest_def binding_digest_def sample_lib_def)
  with digest have d: "wr_definition_digest ?p \<noteq> definition_digest sample_lib sample_workflow" by simp
  have "wr_run_id bound_run = ''r''" by (simp add: bound_run_def)
  with read ok have w: "db_ok sample_lib (w_db (sample_world (one_run_db bound_run)))"
    "require_run (w_db (sample_world (one_run_db bound_run))) (wr_run_id bound_run) = Inr ?p"
    by (simp_all add: sample_world_def)
  from digest have "wr_definition_digest ?p \<noteq> []" by simp
  from changed_definition_runs_nothing [OF sample_quiet sample_host_alone w this d] show ?thesis
    by (fastforce simp: sample_world_def)
qed

text \<open>
  None of the contracts the registry is seeded with lets the runtime run a step again by
  itself, whatever the step asks for.
\<close>
lemma seeded_contracts_never_retry:
  "list_all (\<lambda>c. retry_limit step (policy_snapshot \<lparr>hp_contract = Some c, hp_reconcile_started = reconcile\<rparr>) = 0)
     (default_contracts now)"
  by (simp add: default_contracts_def Let_def default_contract_def retry_limit_def policy_snapshot_def effect_in_def
      SUPPORTED_EFFECTS_def)

end
