(* ===== verification/Governance_Contracts.thy ===== *)
theory Governance_Contracts
  imports Core_Redaction
begin

text \<open>
  The contracts of the governance layer (\<open>nous_runtime/governance/contracts.py\<close>): contexts, action
  proposals with their digest, approval scopes and the order on them, risk envelopes, decisions,
  approvals, leases, delegations, revocations, and the dictionaries they are stored as. SHA-256,
  the text of a float, \<open>str\<close> of a nested list and the resolution of paths by the file system are
  fields of \<open>gov_lib\<close>. Time stamps are texts, as in the program.
\<close>

section \<open>The library\<close>

record gov_lib =
  gl_sha256 :: "string \<Rightarrow> string"
  gl_float :: "rat \<Rightarrow> string"
  gl_str :: "json \<Rightarrow> string"
  gl_known :: "string list"
  gl_resolve :: "string \<Rightarrow> string list option"

definition SCHEMA_VERSION :: string where
  "SCHEMA_VERSION = ''1.0.0''"

section \<open>Readers\<close>

text \<open>\<open>d.get(k, default)\<close> where the program expects a text, and the other shapes it reads.\<close>

definition get_text :: "jobj \<Rightarrow> string \<Rightarrow> string \<Rightarrow> pyexn + string" where
  "get_text d k dflt = (case dict_get_or d k (JStr dflt) of JStr s \<Rightarrow> Inr s | _ \<Rightarrow> Inl OutsideModel)"

definition get_float :: "jobj \<Rightarrow> string \<Rightarrow> rat \<Rightarrow> pyexn + rat" where
  "get_float d k dflt = py_float (dict_get_or d k (JFloat dflt))"

definition get_int :: "jobj \<Rightarrow> string \<Rightarrow> int \<Rightarrow> pyexn + int" where
  "get_int d k dflt = py_int (dict_get_or d k (JInt dflt))"

text \<open>\<open>tuple(d.get(k) or ())\<close>\<close>

definition get_values :: "jobj \<Rightarrow> string \<Rightarrow> pyexn + json list" where
  "get_values d k = py_iter (get_or d k (JList []))"

fun as_string :: "json \<Rightarrow> pyexn + string" where
  "as_string (JStr s) = Inr s"
| "as_string _ = Inl OutsideModel"

definition get_texts :: "jobj \<Rightarrow> string \<Rightarrow> pyexn + string list" where
  "get_texts d k = bindE (get_values d k) (mapE as_string)"

text \<open>A dimension of a risk: a float or \<open>None\<close>.\<close>

definition get_dim :: "jobj \<Rightarrow> string \<Rightarrow> pyexn + rat option" where
  "get_dim d k =
     (case dict_get_or d k JNull of JNull \<Rightarrow> Inr None | JFloat q \<Rightarrow> Inr (Some q) | _ \<Rightarrow> Inl OutsideModel)"

text \<open>\<open>cls.from_dict(d[k]) if d.get(k) else None\<close>\<close>

definition get_nested :: "(jobj \<Rightarrow> pyexn + 'a) \<Rightarrow> jobj \<Rightarrow> string \<Rightarrow> pyexn + 'a option" where
  "get_nested f d k =
     (let v = dict_get_or d k JNull in
      if py_truthy v then bindE (as_obj v) (\<lambda>kvs. bindE (f kvs) (Inr \<circ> Some)) else Inr None)"

lemma mapE_as_string [simp]: "mapE as_string (map JStr xs) = Inr xs"
  by (induction xs) simp_all

lemma mapE_as_obj:
  "(\<And>x. x \<in> set xs \<Longrightarrow> f (g x) = Inr x) \<Longrightarrow>
   mapE (\<lambda>v. bindE (as_obj v) f) (map (JObj \<circ> g) xs) = Inr xs"
  by (induction xs) auto

lemma get_values_JList: "dict_get d k = Some (JList xs) \<Longrightarrow> get_values d k = Inr xs"
  by (simp add: get_values_def get_or_def)

lemma get_readers:
  "dict_get d k = Some (JStr s) \<Longrightarrow> get_text d k dflt = Inr s"
  "dict_get d k = Some (JFloat q) \<Longrightarrow> get_float d k r = Inr q"
  "dict_get d k = Some (JInt n) \<Longrightarrow> get_int d k m = Inr n"
  "dict_get d k = Some (jstrs xs) \<Longrightarrow> get_texts d k = Inr xs"
  "dict_get d k = Some (j_opt JFloat x) \<Longrightarrow> get_dim d k = Inr x"
  by (simp_all add: get_text_def get_float_def get_int_def get_texts_def get_values_JList get_dim_def dict_get_or_def
      jstrs_def j_opt_def split: option.splits)

lemma get_nested_stored:
  "dict_get d k = Some (j_opt (JObj \<circ> g) x) \<Longrightarrow> (\<And>y. f (g y) = Inr y) \<Longrightarrow> (\<And>y. g y \<noteq> []) \<Longrightarrow>
   get_nested f d k = Inr x"
  by (simp add: get_nested_def dict_get_or_def j_opt_def split: option.splits)

lemmas stored_readers = get_readers get_values_JList rd_bool_JBool

section \<open>Canonical JSON and digests\<close>

text \<open>\<open>round(q, n)\<close>: to the nearest, halves to even.\<close>

definition py_round :: "nat \<Rightarrow> rat \<Rightarrow> rat" where
  "py_round n q =
     (let x = q * 10 ^ n; f = \<lfloor>x\<rfloor>; r = x - of_int f;
          k = (if r < 1 / 2 then f else if r > 1 / 2 then f + 1 else if even f then f else f + 1)
      in of_int k / 10 ^ n)"

definition deterministic_json :: "gov_lib \<Rightarrow> json \<Rightarrow> string" where
  "deterministic_json L v = json_text (gl_float L) False '','' '':'' (json_sort v)"

text \<open>
  \<open>_normalize_params\<close> and \<open>_normalize_scalar\<close>; the flag says that the value is an element of a
  list, where a nested list becomes its \<open>str\<close>.
\<close>

fun normalize :: "gov_lib \<Rightarrow> bool \<Rightarrow> json \<Rightarrow> json" where
  "normalize L nested (JFloat q) = JFloat (py_round 6 q)"
| "normalize L nested (JStr s) = JStr (py_strip s)"
| "normalize L nested (JList xs) =
     (if nested then JStr (gl_str L (JList xs)) else JList (map (normalize L True) xs))"
| "normalize L nested (JObj kvs) =
     JObj (filter (\<lambda>p. \<not> startswith (fst p) ''_'') (sort_key fst (map (\<lambda>(k, v). (k, normalize L False v)) kvs)))"
| "normalize L nested v = v"

definition params_hash :: "gov_lib \<Rightarrow> jobj \<Rightarrow> string" where
  "params_hash L params = gl_sha256 L (deterministic_json L (normalize L False (JObj params)))"

section \<open>Contexts\<close>

record authz_context =
  cx_context_id :: string
  cx_subject_type :: string
  cx_subject_id :: string
  cx_subject_claims :: "json list"
  cx_authn_method :: string
  cx_authn_confidence :: rat
  cx_session_id :: string
  cx_session_started :: string
  cx_session_device :: string
  cx_session_locality :: string
  cx_request_id :: string
  cx_requested_at :: string
  cx_schema_version :: string
  cx_runtime_version :: string

definition authz_context_to_dict :: "authz_context \<Rightarrow> jobj" where
  "authz_context_to_dict x =
    [(''context_id'', JStr (cx_context_id x)), (''subject_type'', JStr (cx_subject_type x)), (''subject_id'', JStr (cx_subject_id x)),
     (''subject_claims'', JList (cx_subject_claims x)), (''authn_method'', JStr (cx_authn_method x)),
     (''authn_confidence'', JFloat (cx_authn_confidence x)), (''session_id'', JStr (cx_session_id x)), (''session_started'', JStr (cx_session_started x)),
     (''session_device'', JStr (cx_session_device x)), (''session_locality'', JStr (cx_session_locality x)), (''request_id'', JStr (cx_request_id x)),
     (''requested_at'', JStr (cx_requested_at x)), (''schema_version'', JStr (cx_schema_version x)), (''runtime_version'', JStr (cx_runtime_version x))]"

definition authz_context_from_dict :: "jobj \<Rightarrow> pyexn + authz_context" where
  "authz_context_from_dict d =
     bindE (get_text d ''context_id'' []) (\<lambda>context_id.
     bindE (get_text d ''subject_type'' []) (\<lambda>subject_type.
     bindE (get_text d ''subject_id'' []) (\<lambda>subject_id.
     bindE (get_values d ''subject_claims'') (\<lambda>subject_claims.
     bindE (get_text d ''authn_method'' []) (\<lambda>authn_method.
     bindE (get_float d ''authn_confidence'' 0) (\<lambda>authn_confidence.
     bindE (get_text d ''session_id'' []) (\<lambda>session_id.
     bindE (get_text d ''session_started'' []) (\<lambda>session_started.
     bindE (get_text d ''session_device'' []) (\<lambda>session_device.
     bindE (get_text d ''session_locality'' ''local'') (\<lambda>session_locality.
     bindE (get_text d ''request_id'' []) (\<lambda>request_id.
     bindE (get_text d ''requested_at'' []) (\<lambda>requested_at.
     bindE (get_text d ''schema_version'' SCHEMA_VERSION) (\<lambda>schema_version.
     bindE (get_text d ''runtime_version'' []) (\<lambda>runtime_version.
     Inr \<lparr>cx_context_id = context_id, cx_subject_type = subject_type, cx_subject_id = subject_id, cx_subject_claims = subject_claims,
       cx_authn_method = authn_method, cx_authn_confidence = authn_confidence, cx_session_id = session_id, cx_session_started = session_started,
       cx_session_device = session_device, cx_session_locality = session_locality, cx_request_id = request_id, cx_requested_at = requested_at,
       cx_schema_version = schema_version, cx_runtime_version = runtime_version\<rparr>))))))))))))))"

section \<open>Proposals\<close>

record action_proposal =
  pp_proposal_id :: string
  pp_proposal_hash :: string
  pp_action_id :: string
  pp_action_type :: string
  pp_capability_id :: string
  pp_provider_id :: string
  pp_model_id :: string
  pp_agent_id :: string
  pp_deployment_channel :: string
  pp_locality :: string
  pp_parameter_hash :: string
  pp_parameter_summary :: string
  pp_params :: jobj
  pp_target_node :: string
  pp_target_workspace :: string
  pp_target_project :: string
  pp_target_work_item :: string
  pp_affected_resources :: "string list"
  pp_data_classification :: string
  pp_external_recipients :: "string list"
  pp_estimated_cost_usd :: rat
  pp_estimated_duration_ms :: int
  pp_side_effect_class :: string
  pp_reversibility :: string
  pp_retry_behavior :: string
  pp_required_permissions :: "string list"
  pp_evidence_references :: "string list"
  pp_created_at :: string
  pp_expires_at :: string
  pp_schema_version :: string

text \<open>The digest of the parameters: the one the proposal carries, or the one of its parameters.\<close>

definition bound_hash :: "gov_lib \<Rightarrow> action_proposal \<Rightarrow> string" where
  "bound_hash L x = (if pp_parameter_hash x \<noteq> [] then pp_parameter_hash x else params_hash L (pp_params x))"

definition compute_hash :: "gov_lib \<Rightarrow> action_proposal \<Rightarrow> string" where
  "compute_hash L x = gl_sha256 L (deterministic_json L (JObj
    [(''action_type'', JStr (pp_action_type x)), (''capability_id'', JStr (pp_capability_id x)), (''provider_id'', JStr (pp_provider_id x)),
     (''model_id'', JStr (pp_model_id x)), (''agent_id'', JStr (pp_agent_id x)), (''deployment_channel'', JStr (pp_deployment_channel x)),
     (''locality'', JStr (pp_locality x)), (''parameter_hash'', JStr (bound_hash L x)), (''target_node'', JStr (pp_target_node x)),
     (''target_workspace'', JStr (pp_target_workspace x)), (''target_project'', JStr (pp_target_project x)),
     (''target_work_item'', JStr (pp_target_work_item x)), (''affected_resources'', jstrs (sort (pp_affected_resources x))),
     (''data_classification'', JStr (pp_data_classification x)), (''external_recipients'', jstrs (sort (pp_external_recipients x))),
     (''estimated_cost_usd'', JFloat (py_round 6 (pp_estimated_cost_usd x))), (''estimated_duration_ms'', JInt (pp_estimated_duration_ms x)),
     (''side_effect_class'', JStr (pp_side_effect_class x)), (''reversibility'', JStr (pp_reversibility x)),
     (''retry_behavior'', JStr (pp_retry_behavior x)), (''required_permissions'', jstrs (sort (pp_required_permissions x))),
     (''created_at'', JStr (pp_created_at x)), (''expires_at'', JStr (pp_expires_at x)), (''schema_version'', JStr (pp_schema_version x))]))"

definition proposal_post_init :: "gov_lib \<Rightarrow> action_proposal \<Rightarrow> action_proposal" where
  "proposal_post_init L x = (if pp_proposal_hash x = [] then x\<lparr>pp_proposal_hash := compute_hash L x\<rparr> else x)"

definition action_proposal_to_dict :: "gov_lib \<Rightarrow> action_proposal \<Rightarrow> jobj" where
  "action_proposal_to_dict L x =
    [(''proposal_id'', JStr (pp_proposal_id x)), (''proposal_hash'', JStr (pp_proposal_hash x)), (''action_id'', JStr (pp_action_id x)),
     (''action_type'', JStr (pp_action_type x)), (''capability_id'', JStr (pp_capability_id x)), (''provider_id'', JStr (pp_provider_id x)),
     (''model_id'', JStr (pp_model_id x)), (''agent_id'', JStr (pp_agent_id x)), (''deployment_channel'', JStr (pp_deployment_channel x)),
     (''locality'', JStr (pp_locality x)), (''parameter_hash'', JStr (bound_hash L x)), (''parameter_summary'', JStr (pp_parameter_summary x)),
     (''target_node'', JStr (pp_target_node x)), (''target_workspace'', JStr (pp_target_workspace x)), (''target_project'', JStr (pp_target_project x)),
     (''target_work_item'', JStr (pp_target_work_item x)), (''affected_resources'', jstrs (pp_affected_resources x)),
     (''data_classification'', JStr (pp_data_classification x)), (''external_recipients'', jstrs (pp_external_recipients x)),
     (''estimated_cost_usd'', JFloat (pp_estimated_cost_usd x)), (''estimated_duration_ms'', JInt (pp_estimated_duration_ms x)),
     (''side_effect_class'', JStr (pp_side_effect_class x)), (''reversibility'', JStr (pp_reversibility x)),
     (''retry_behavior'', JStr (pp_retry_behavior x)), (''required_permissions'', jstrs (pp_required_permissions x)),
     (''evidence_references'', jstrs (pp_evidence_references x)), (''created_at'', JStr (pp_created_at x)), (''expires_at'', JStr (pp_expires_at x)),
     (''schema_version'', JStr (pp_schema_version x))]"

definition action_proposal_from_dict :: "gov_lib \<Rightarrow> jobj \<Rightarrow> pyexn + action_proposal" where
  "action_proposal_from_dict L d =
     bindE (get_text d ''proposal_id'' []) (\<lambda>proposal_id.
     bindE (get_text d ''proposal_hash'' []) (\<lambda>proposal_hash.
     bindE (get_text d ''action_id'' []) (\<lambda>action_id.
     bindE (get_text d ''action_type'' []) (\<lambda>action_type.
     bindE (get_text d ''capability_id'' []) (\<lambda>capability_id.
     bindE (get_text d ''provider_id'' []) (\<lambda>provider_id.
     bindE (get_text d ''model_id'' []) (\<lambda>model_id.
     bindE (get_text d ''agent_id'' []) (\<lambda>agent_id.
     bindE (get_text d ''deployment_channel'' []) (\<lambda>deployment_channel.
     bindE (get_text d ''locality'' []) (\<lambda>locality.
     bindE (get_text d ''parameter_hash'' []) (\<lambda>parameter_hash.
     bindE (get_text d ''parameter_summary'' []) (\<lambda>parameter_summary.
     bindE (get_text d ''target_node'' []) (\<lambda>target_node.
     bindE (get_text d ''target_workspace'' []) (\<lambda>target_workspace.
     bindE (get_text d ''target_project'' []) (\<lambda>target_project.
     bindE (get_text d ''target_work_item'' []) (\<lambda>target_work_item.
     bindE (get_texts d ''affected_resources'') (\<lambda>affected_resources.
     bindE (get_text d ''data_classification'' ''internal'') (\<lambda>data_classification.
     bindE (get_texts d ''external_recipients'') (\<lambda>external_recipients.
     bindE (get_float d ''estimated_cost_usd'' 0) (\<lambda>estimated_cost_usd.
     bindE (get_int d ''estimated_duration_ms'' 0) (\<lambda>estimated_duration_ms.
     bindE (get_text d ''side_effect_class'' ''unknown'') (\<lambda>side_effect_class.
     bindE (get_text d ''reversibility'' ''unknown'') (\<lambda>reversibility.
     bindE (get_text d ''retry_behavior'' ''unknown'') (\<lambda>retry_behavior.
     bindE (get_texts d ''required_permissions'') (\<lambda>required_permissions.
     bindE (get_texts d ''evidence_references'') (\<lambda>evidence_references.
     bindE (get_text d ''created_at'' []) (\<lambda>created_at.
     bindE (get_text d ''expires_at'' []) (\<lambda>expires_at.
     bindE (get_text d ''schema_version'' SCHEMA_VERSION) (\<lambda>schema_version.
     Inr (proposal_post_init L \<lparr>pp_proposal_id = proposal_id, pp_proposal_hash = proposal_hash, pp_action_id = action_id, pp_action_type = action_type,
       pp_capability_id = capability_id, pp_provider_id = provider_id, pp_model_id = model_id, pp_agent_id = agent_id,
       pp_deployment_channel = deployment_channel, pp_locality = locality, pp_parameter_hash = parameter_hash, pp_parameter_summary = parameter_summary,
       pp_params = [], pp_target_node = target_node, pp_target_workspace = target_workspace, pp_target_project = target_project,
       pp_target_work_item = target_work_item, pp_affected_resources = affected_resources, pp_data_classification = data_classification,
       pp_external_recipients = external_recipients, pp_estimated_cost_usd = estimated_cost_usd, pp_estimated_duration_ms = estimated_duration_ms,
       pp_side_effect_class = side_effect_class, pp_reversibility = reversibility, pp_retry_behavior = retry_behavior,
       pp_required_permissions = required_permissions, pp_evidence_references = evidence_references, pp_created_at = created_at, pp_expires_at = expires_at,
       pp_schema_version = schema_version\<rparr>))))))))))))))))))))))))))))))"

section \<open>Scopes\<close>

record approval_scope =
  sk_action_id :: string
  sk_proposal_hash :: string
  sk_project_id :: string
  sk_milestone_id :: string
  sk_work_item_id :: string
  sk_task_id :: string
  sk_capability_id :: string
  sk_allowed_capabilities :: "string list"
  sk_provider_id :: string
  sk_allowed_providers :: "string list"
  sk_model_id :: string
  sk_allowed_models :: "string list"
  sk_agent_id :: string
  sk_node_id :: string
  sk_workspace_path :: string
  sk_allowed_files :: "string list"
  sk_allowed_directories :: "string list"
  sk_denied_files :: "string list"
  sk_denied_directories :: "string list"
  sk_data_classification :: string
  sk_external_recipients :: "string list"
  sk_cost_ceiling_usd :: rat
  sk_token_ceiling :: int
  sk_execution_time_ceiling_ms :: int
  sk_max_attempts :: int
  sk_max_uses :: int
  sk_valid_from :: string
  sk_valid_until :: string
  sk_allowed_side_effect_classes :: "string list"
  sk_deployment_channel :: string

definition approval_scope_to_dict :: "approval_scope \<Rightarrow> jobj" where
  "approval_scope_to_dict x =
    [(''action_id'', JStr (sk_action_id x)), (''proposal_hash'', JStr (sk_proposal_hash x)), (''project_id'', JStr (sk_project_id x)),
     (''milestone_id'', JStr (sk_milestone_id x)), (''work_item_id'', JStr (sk_work_item_id x)), (''task_id'', JStr (sk_task_id x)),
     (''capability_id'', JStr (sk_capability_id x)), (''allowed_capabilities'', jstrs (sk_allowed_capabilities x)),
     (''provider_id'', JStr (sk_provider_id x)), (''allowed_providers'', jstrs (sk_allowed_providers x)), (''model_id'', JStr (sk_model_id x)),
     (''allowed_models'', jstrs (sk_allowed_models x)), (''agent_id'', JStr (sk_agent_id x)), (''node_id'', JStr (sk_node_id x)),
     (''workspace_path'', JStr (sk_workspace_path x)), (''allowed_files'', jstrs (sk_allowed_files x)),
     (''allowed_directories'', jstrs (sk_allowed_directories x)), (''denied_files'', jstrs (sk_denied_files x)),
     (''denied_directories'', jstrs (sk_denied_directories x)), (''data_classification'', JStr (sk_data_classification x)),
     (''external_recipients'', jstrs (sk_external_recipients x)), (''cost_ceiling_usd'', JFloat (sk_cost_ceiling_usd x)),
     (''token_ceiling'', JInt (sk_token_ceiling x)), (''execution_time_ceiling_ms'', JInt (sk_execution_time_ceiling_ms x)),
     (''max_attempts'', JInt (sk_max_attempts x)), (''max_uses'', JInt (sk_max_uses x)), (''valid_from'', JStr (sk_valid_from x)),
     (''valid_until'', JStr (sk_valid_until x)), (''allowed_side_effect_classes'', jstrs (sk_allowed_side_effect_classes x)),
     (''deployment_channel'', JStr (sk_deployment_channel x))]"

definition approval_scope_from_dict :: "jobj \<Rightarrow> pyexn + approval_scope" where
  "approval_scope_from_dict d =
     bindE (get_text d ''action_id'' []) (\<lambda>action_id.
     bindE (get_text d ''proposal_hash'' []) (\<lambda>proposal_hash.
     bindE (get_text d ''project_id'' []) (\<lambda>project_id.
     bindE (get_text d ''milestone_id'' []) (\<lambda>milestone_id.
     bindE (get_text d ''work_item_id'' []) (\<lambda>work_item_id.
     bindE (get_text d ''task_id'' []) (\<lambda>task_id.
     bindE (get_text d ''capability_id'' []) (\<lambda>capability_id.
     bindE (get_texts d ''allowed_capabilities'') (\<lambda>allowed_capabilities.
     bindE (get_text d ''provider_id'' []) (\<lambda>provider_id.
     bindE (get_texts d ''allowed_providers'') (\<lambda>allowed_providers.
     bindE (get_text d ''model_id'' []) (\<lambda>model_id.
     bindE (get_texts d ''allowed_models'') (\<lambda>allowed_models.
     bindE (get_text d ''agent_id'' []) (\<lambda>agent_id.
     bindE (get_text d ''node_id'' []) (\<lambda>node_id.
     bindE (get_text d ''workspace_path'' []) (\<lambda>workspace_path.
     bindE (get_texts d ''allowed_files'') (\<lambda>allowed_files.
     bindE (get_texts d ''allowed_directories'') (\<lambda>allowed_directories.
     bindE (get_texts d ''denied_files'') (\<lambda>denied_files.
     bindE (get_texts d ''denied_directories'') (\<lambda>denied_directories.
     bindE (get_text d ''data_classification'' []) (\<lambda>data_classification.
     bindE (get_texts d ''external_recipients'') (\<lambda>external_recipients.
     bindE (get_float d ''cost_ceiling_usd'' 0) (\<lambda>cost_ceiling_usd.
     bindE (get_int d ''token_ceiling'' 0) (\<lambda>token_ceiling.
     bindE (get_int d ''execution_time_ceiling_ms'' 0) (\<lambda>execution_time_ceiling_ms.
     bindE (get_int d ''max_attempts'' 1) (\<lambda>max_attempts.
     bindE (get_int d ''max_uses'' 1) (\<lambda>max_uses.
     bindE (get_text d ''valid_from'' []) (\<lambda>valid_from.
     bindE (get_text d ''valid_until'' []) (\<lambda>valid_until.
     bindE (get_texts d ''allowed_side_effect_classes'') (\<lambda>allowed_side_effect_classes.
     bindE (get_text d ''deployment_channel'' []) (\<lambda>deployment_channel.
     Inr \<lparr>sk_action_id = action_id, sk_proposal_hash = proposal_hash, sk_project_id = project_id, sk_milestone_id = milestone_id, sk_work_item_id = work_item_id,
       sk_task_id = task_id, sk_capability_id = capability_id, sk_allowed_capabilities = allowed_capabilities, sk_provider_id = provider_id,
       sk_allowed_providers = allowed_providers, sk_model_id = model_id, sk_allowed_models = allowed_models, sk_agent_id = agent_id, sk_node_id = node_id,
       sk_workspace_path = workspace_path, sk_allowed_files = allowed_files, sk_allowed_directories = allowed_directories, sk_denied_files = denied_files,
       sk_denied_directories = denied_directories, sk_data_classification = data_classification, sk_external_recipients = external_recipients,
       sk_cost_ceiling_usd = cost_ceiling_usd, sk_token_ceiling = token_ceiling, sk_execution_time_ceiling_ms = execution_time_ceiling_ms,
       sk_max_attempts = max_attempts, sk_max_uses = max_uses, sk_valid_from = valid_from, sk_valid_until = valid_until,
       sk_allowed_side_effect_classes = allowed_side_effect_classes, sk_deployment_channel = deployment_channel\<rparr>))))))))))))))))))))))))))))))"

definition scope_default :: approval_scope where
  "scope_default = \<lparr>sk_action_id = [], sk_proposal_hash = [], sk_project_id = [], sk_milestone_id = [], sk_work_item_id = [], sk_task_id = [],
     sk_capability_id = [], sk_allowed_capabilities = [], sk_provider_id = [], sk_allowed_providers = [], sk_model_id = [], sk_allowed_models = [],
     sk_agent_id = [], sk_node_id = [], sk_workspace_path = [], sk_allowed_files = [], sk_allowed_directories = [], sk_denied_files = [],
     sk_denied_directories = [], sk_data_classification = [], sk_external_recipients = [], sk_cost_ceiling_usd = 0, sk_token_ceiling = 0,
     sk_execution_time_ceiling_ms = 0, sk_max_attempts = 1, sk_max_uses = 1, sk_valid_from = [], sk_valid_until = [],
     sk_allowed_side_effect_classes = [], sk_deployment_channel = []\<rparr>"

definition scope_from_proposal :: "action_proposal \<Rightarrow> approval_scope" where
  "scope_from_proposal x = scope_default\<lparr>sk_action_id := pp_action_id x, sk_proposal_hash := pp_proposal_hash x,
     sk_project_id := pp_target_project x, sk_work_item_id := pp_target_work_item x, sk_capability_id := pp_capability_id x,
     sk_workspace_path := pp_target_workspace x, sk_node_id := pp_target_node x, sk_allowed_files := pp_affected_resources x,
     sk_data_classification := pp_data_classification x, sk_external_recipients := pp_external_recipients x,
     sk_cost_ceiling_usd := pp_estimated_cost_usd x, sk_execution_time_ceiling_ms := pp_estimated_duration_ms x,
     sk_max_uses := 1, sk_allowed_side_effect_classes := (if pp_side_effect_class x \<noteq> [] then [pp_side_effect_class x] else [])\<rparr>"

definition str_subset :: "string \<Rightarrow> string \<Rightarrow> bool" where
  "str_subset a b \<longleftrightarrow> a = [] \<or> a = b"

definition tuple_subset :: "string list \<Rightarrow> string list \<Rightarrow> bool" where
  "tuple_subset a b \<longleftrightarrow> a = [] \<or> b \<noteq> [] \<and> list_all (\<lambda>x. x \<in> set b) a"

text \<open>\<open>posixpath.normpath\<close>\<close>

definition norm_comp :: "bool \<Rightarrow> string \<Rightarrow> string list \<Rightarrow> string list" where
  "norm_comp rooted c cs =
     (if c = [] \<or> c = ''.'' then cs
      else if c \<noteq> ''..'' \<or> \<not> rooted \<and> cs = [] \<or> cs \<noteq> [] \<and> last cs = ''..'' then cs @ [c]
      else butlast cs)"

definition py_normpath :: "string \<Rightarrow> string" where
  "py_normpath p =
     (let slashes = (if \<not> startswith p ''/'' then [] else if startswith p ''//'' \<and> \<not> startswith p ''///'' then ''//'' else ''/'');
          r = slashes @ py_join ''/'' (fold (norm_comp (slashes \<noteq> [])) (py_split (CHR ''/'') p) [])
      in if p = [] \<or> r = [] then ''.'' else r)"

text \<open>On POSIX; a path resolves to the list of its components, or the file system raises.\<close>

definition path_subset :: "gov_lib \<Rightarrow> string \<Rightarrow> string \<Rightarrow> bool" where
  "path_subset L a b \<longleftrightarrow>
     (if a = [] then True else if b = [] then False
      else case (gl_resolve L a, gl_resolve L b) of
          (Some pa, Some pb) \<Rightarrow> prefix pb pa
        | _ \<Rightarrow> (let na = py_normpath a; nb = py_normpath b in
             na = nb \<or> startswith na (rev (dropWhile (\<lambda>c. c = CHR 0x5C \<or> c = CHR ''/'') (rev nb)) @ ''/'')))"

definition class_order :: "string \<Rightarrow> int" where
  "class_order c = dict_get_or [(''public'', 0), (''internal'', 1), (''confidential'', 2), (''restricted'', 3)] c 99"

definition class_subset :: "string \<Rightarrow> string \<Rightarrow> bool" where
  "class_subset a b \<longleftrightarrow> a = [] \<or> b \<noteq> [] \<and> class_order a \<le> class_order b"

definition is_subset_of :: "gov_lib \<Rightarrow> approval_scope \<Rightarrow> approval_scope \<Rightarrow> bool" where
  "is_subset_of L x y \<longleftrightarrow>
     str_subset (sk_action_id x) (sk_action_id y) \<and> str_subset (sk_proposal_hash x) (sk_proposal_hash y) \<and>
     str_subset (sk_project_id x) (sk_project_id y) \<and> str_subset (sk_capability_id x) (sk_capability_id y) \<and>
     tuple_subset (sk_allowed_capabilities x) (sk_allowed_capabilities y) \<and> str_subset (sk_provider_id x) (sk_provider_id y) \<and>
     tuple_subset (sk_allowed_providers x) (sk_allowed_providers y) \<and> str_subset (sk_model_id x) (sk_model_id y) \<and>
     tuple_subset (sk_allowed_models x) (sk_allowed_models y) \<and> str_subset (sk_node_id x) (sk_node_id y) \<and>
     path_subset L (sk_workspace_path x) (sk_workspace_path y) \<and> tuple_subset (sk_allowed_files x) (sk_allowed_files y) \<and>
     tuple_subset (sk_allowed_directories x) (sk_allowed_directories y) \<and>
     class_subset (sk_data_classification x) (sk_data_classification y) \<and>
     tuple_subset (sk_external_recipients x) (sk_external_recipients y) \<and>
     sk_cost_ceiling_usd x \<le> sk_cost_ceiling_usd y \<and> sk_token_ceiling x \<le> sk_token_ceiling y \<and>
     sk_execution_time_ceiling_ms x \<le> sk_execution_time_ceiling_ms y \<and> sk_max_attempts x \<le> sk_max_attempts y \<and>
     sk_max_uses x \<le> sk_max_uses y \<and>
     tuple_subset (sk_allowed_side_effect_classes x) (sk_allowed_side_effect_classes y) \<and>
     str_subset (sk_deployment_channel x) (sk_deployment_channel y)"

section \<open>Risk and decisions\<close>

record risk_envelope =
  re_envelope_id :: string
  re_proposal_hash :: string
  re_data_sensitivity :: "rat option"
  re_execution_risk :: "rat option"
  re_external_side_effect_risk :: "rat option"
  re_financial_risk :: "rat option"
  re_privilege_risk :: "rat option"
  re_availability_risk :: "rat option"
  re_irreversibility :: "rat option"
  re_scope_breadth :: "rat option"
  re_model_uncertainty :: "rat option"
  re_provider_uncertainty :: "rat option"
  re_recovery_difficulty :: "rat option"
  re_privacy_exposure :: "rat option"
  re_locality_change :: "rat option"
  re_credential_impact :: "rat option"
  re_deployment_impact :: "rat option"
  re_evidence_sources :: "string list"
  re_unknown_dimensions :: "string list"
  re_assessed_at :: string
  re_assessed_by :: string
  re_aggregate_risk_class :: string
  re_max_dimension :: string
  re_max_dimension_value :: rat
  re_schema_version :: string

definition risk_envelope_to_dict :: "risk_envelope \<Rightarrow> jobj" where
  "risk_envelope_to_dict x =
    [(''envelope_id'', JStr (re_envelope_id x)), (''proposal_hash'', JStr (re_proposal_hash x)),
     (''data_sensitivity'', j_opt JFloat (re_data_sensitivity x)), (''execution_risk'', j_opt JFloat (re_execution_risk x)),
     (''external_side_effect_risk'', j_opt JFloat (re_external_side_effect_risk x)), (''financial_risk'', j_opt JFloat (re_financial_risk x)),
     (''privilege_risk'', j_opt JFloat (re_privilege_risk x)), (''availability_risk'', j_opt JFloat (re_availability_risk x)),
     (''irreversibility'', j_opt JFloat (re_irreversibility x)), (''scope_breadth'', j_opt JFloat (re_scope_breadth x)),
     (''model_uncertainty'', j_opt JFloat (re_model_uncertainty x)), (''provider_uncertainty'', j_opt JFloat (re_provider_uncertainty x)),
     (''recovery_difficulty'', j_opt JFloat (re_recovery_difficulty x)), (''privacy_exposure'', j_opt JFloat (re_privacy_exposure x)),
     (''locality_change'', j_opt JFloat (re_locality_change x)), (''credential_impact'', j_opt JFloat (re_credential_impact x)),
     (''deployment_impact'', j_opt JFloat (re_deployment_impact x)), (''evidence_sources'', jstrs (re_evidence_sources x)),
     (''unknown_dimensions'', jstrs (re_unknown_dimensions x)), (''assessed_at'', JStr (re_assessed_at x)), (''assessed_by'', JStr (re_assessed_by x)),
     (''aggregate_risk_class'', JStr (re_aggregate_risk_class x)), (''max_dimension'', JStr (re_max_dimension x)),
     (''max_dimension_value'', JFloat (re_max_dimension_value x)), (''schema_version'', JStr (re_schema_version x))]"

definition risk_envelope_from_dict :: "jobj \<Rightarrow> pyexn + risk_envelope" where
  "risk_envelope_from_dict d =
     bindE (get_text d ''envelope_id'' []) (\<lambda>envelope_id.
     bindE (get_text d ''proposal_hash'' []) (\<lambda>proposal_hash.
     bindE (get_dim d ''data_sensitivity'') (\<lambda>data_sensitivity.
     bindE (get_dim d ''execution_risk'') (\<lambda>execution_risk.
     bindE (get_dim d ''external_side_effect_risk'') (\<lambda>external_side_effect_risk.
     bindE (get_dim d ''financial_risk'') (\<lambda>financial_risk.
     bindE (get_dim d ''privilege_risk'') (\<lambda>privilege_risk.
     bindE (get_dim d ''availability_risk'') (\<lambda>availability_risk.
     bindE (get_dim d ''irreversibility'') (\<lambda>irreversibility.
     bindE (get_dim d ''scope_breadth'') (\<lambda>scope_breadth.
     bindE (get_dim d ''model_uncertainty'') (\<lambda>model_uncertainty.
     bindE (get_dim d ''provider_uncertainty'') (\<lambda>provider_uncertainty.
     bindE (get_dim d ''recovery_difficulty'') (\<lambda>recovery_difficulty.
     bindE (get_dim d ''privacy_exposure'') (\<lambda>privacy_exposure.
     bindE (get_dim d ''locality_change'') (\<lambda>locality_change.
     bindE (get_dim d ''credential_impact'') (\<lambda>credential_impact.
     bindE (get_dim d ''deployment_impact'') (\<lambda>deployment_impact.
     bindE (get_texts d ''evidence_sources'') (\<lambda>evidence_sources.
     bindE (get_texts d ''unknown_dimensions'') (\<lambda>unknown_dimensions.
     bindE (get_text d ''assessed_at'' []) (\<lambda>assessed_at.
     bindE (get_text d ''assessed_by'' ''risk_engine'') (\<lambda>assessed_by.
     bindE (get_text d ''aggregate_risk_class'' ''medium'') (\<lambda>aggregate_risk_class.
     bindE (get_text d ''max_dimension'' []) (\<lambda>max_dimension.
     bindE (get_float d ''max_dimension_value'' 0) (\<lambda>max_dimension_value.
     bindE (get_text d ''schema_version'' SCHEMA_VERSION) (\<lambda>schema_version.
     Inr \<lparr>re_envelope_id = envelope_id, re_proposal_hash = proposal_hash, re_data_sensitivity = data_sensitivity, re_execution_risk = execution_risk,
       re_external_side_effect_risk = external_side_effect_risk, re_financial_risk = financial_risk, re_privilege_risk = privilege_risk,
       re_availability_risk = availability_risk, re_irreversibility = irreversibility, re_scope_breadth = scope_breadth,
       re_model_uncertainty = model_uncertainty, re_provider_uncertainty = provider_uncertainty, re_recovery_difficulty = recovery_difficulty,
       re_privacy_exposure = privacy_exposure, re_locality_change = locality_change, re_credential_impact = credential_impact,
       re_deployment_impact = deployment_impact, re_evidence_sources = evidence_sources, re_unknown_dimensions = unknown_dimensions,
       re_assessed_at = assessed_at, re_assessed_by = assessed_by, re_aggregate_risk_class = aggregate_risk_class, re_max_dimension = max_dimension,
       re_max_dimension_value = max_dimension_value, re_schema_version = schema_version\<rparr>)))))))))))))))))))))))))"

record authz_decision =
  ad_decision_id :: string
  ad_proposal_hash :: string
  ad_context_id :: string
  ad_action_mode :: string
  ad_allowed :: bool
  ad_reason_code :: string
  ad_reason_message :: string
  ad_rule_class :: string
  ad_policy_id :: string
  ad_constitution_rule :: string
  ad_risk_envelope :: "risk_envelope option"
  ad_lease_id :: string
  ad_delegation_id :: string
  ad_decided_at :: string
  ad_decision_ttl :: int
  ad_schema_version :: string

definition authz_decision_to_dict :: "authz_decision \<Rightarrow> jobj" where
  "authz_decision_to_dict x =
    [(''decision_id'', JStr (ad_decision_id x)), (''proposal_hash'', JStr (ad_proposal_hash x)), (''context_id'', JStr (ad_context_id x)),
     (''action_mode'', JStr (ad_action_mode x)), (''allowed'', JBool (ad_allowed x)), (''reason_code'', JStr (ad_reason_code x)),
     (''reason_message'', JStr (ad_reason_message x)), (''rule_class'', JStr (ad_rule_class x)), (''policy_id'', JStr (ad_policy_id x)),
     (''constitution_rule'', JStr (ad_constitution_rule x)), (''risk_envelope'', j_opt (JObj \<circ> risk_envelope_to_dict) (ad_risk_envelope x)),
     (''lease_id'', JStr (ad_lease_id x)), (''delegation_id'', JStr (ad_delegation_id x)), (''decided_at'', JStr (ad_decided_at x)),
     (''decision_ttl'', JInt (ad_decision_ttl x)), (''schema_version'', JStr (ad_schema_version x))]"

definition authz_decision_from_dict :: "jobj \<Rightarrow> pyexn + authz_decision" where
  "authz_decision_from_dict d =
     bindE (get_text d ''decision_id'' []) (\<lambda>decision_id.
     bindE (get_text d ''proposal_hash'' []) (\<lambda>proposal_hash.
     bindE (get_text d ''context_id'' []) (\<lambda>context_id.
     bindE (get_text d ''action_mode'' ''DENY'') (\<lambda>action_mode.
     bindE (Inr (rd_bool d ''allowed'' False)) (\<lambda>allowed.
     bindE (get_text d ''reason_code'' []) (\<lambda>reason_code.
     bindE (get_text d ''reason_message'' []) (\<lambda>reason_message.
     bindE (get_text d ''rule_class'' []) (\<lambda>rule_class.
     bindE (get_text d ''policy_id'' []) (\<lambda>policy_id.
     bindE (get_text d ''constitution_rule'' []) (\<lambda>constitution_rule.
     bindE (get_nested risk_envelope_from_dict d ''risk_envelope'') (\<lambda>risk_envelope.
     bindE (get_text d ''lease_id'' []) (\<lambda>lease_id.
     bindE (get_text d ''delegation_id'' []) (\<lambda>delegation_id.
     bindE (get_text d ''decided_at'' []) (\<lambda>decided_at.
     bindE (get_int d ''decision_ttl'' 60) (\<lambda>decision_ttl.
     bindE (get_text d ''schema_version'' SCHEMA_VERSION) (\<lambda>schema_version.
     Inr \<lparr>ad_decision_id = decision_id, ad_proposal_hash = proposal_hash, ad_context_id = context_id, ad_action_mode = action_mode, ad_allowed = allowed,
       ad_reason_code = reason_code, ad_reason_message = reason_message, ad_rule_class = rule_class, ad_policy_id = policy_id,
       ad_constitution_rule = constitution_rule, ad_risk_envelope = risk_envelope, ad_lease_id = lease_id, ad_delegation_id = delegation_id,
       ad_decided_at = decided_at, ad_decision_ttl = decision_ttl, ad_schema_version = schema_version\<rparr>))))))))))))))))"

section \<open>Approvals and leases\<close>

record approval_request =
  aq_request_id :: string
  aq_proposal_hash :: string
  aq_summary :: string
  aq_risk_summary :: string
  aq_scope_summary :: string
  aq_status :: string
  aq_requested_by :: string
  aq_requested_at :: string
  aq_expires_at :: string
  aq_priority :: string
  aq_schema_version :: string

definition approval_request_to_dict :: "approval_request \<Rightarrow> jobj" where
  "approval_request_to_dict x =
    [(''request_id'', JStr (aq_request_id x)), (''proposal_hash'', JStr (aq_proposal_hash x)), (''summary'', JStr (aq_summary x)),
     (''risk_summary'', JStr (aq_risk_summary x)), (''scope_summary'', JStr (aq_scope_summary x)), (''status'', JStr (aq_status x)),
     (''requested_by'', JStr (aq_requested_by x)), (''requested_at'', JStr (aq_requested_at x)), (''expires_at'', JStr (aq_expires_at x)),
     (''priority'', JStr (aq_priority x)), (''schema_version'', JStr (aq_schema_version x))]"

definition approval_request_from_dict :: "jobj \<Rightarrow> pyexn + approval_request" where
  "approval_request_from_dict d =
     bindE (get_text d ''request_id'' []) (\<lambda>request_id.
     bindE (get_text d ''proposal_hash'' []) (\<lambda>proposal_hash.
     bindE (get_text d ''summary'' []) (\<lambda>summary.
     bindE (get_text d ''risk_summary'' []) (\<lambda>risk_summary.
     bindE (get_text d ''scope_summary'' []) (\<lambda>scope_summary.
     bindE (get_text d ''status'' ''CREATED'') (\<lambda>status.
     bindE (get_text d ''requested_by'' []) (\<lambda>requested_by.
     bindE (get_text d ''requested_at'' []) (\<lambda>requested_at.
     bindE (get_text d ''expires_at'' []) (\<lambda>expires_at.
     bindE (get_text d ''priority'' ''normal'') (\<lambda>priority.
     bindE (get_text d ''schema_version'' SCHEMA_VERSION) (\<lambda>schema_version.
     Inr \<lparr>aq_request_id = request_id, aq_proposal_hash = proposal_hash, aq_summary = summary, aq_risk_summary = risk_summary, aq_scope_summary = scope_summary,
       aq_status = status, aq_requested_by = requested_by, aq_requested_at = requested_at, aq_expires_at = expires_at, aq_priority = priority,
       aq_schema_version = schema_version\<rparr>)))))))))))"

record approval_response =
  ar_response_id :: string
  ar_request_id :: string
  ar_proposal_hash :: string
  ar_decision :: string
  ar_scope :: "approval_scope option"
  ar_approver_id :: string
  ar_approver_method :: string
  ar_reason :: string
  ar_responded_at :: string
  ar_schema_version :: string

definition approval_response_to_dict :: "approval_response \<Rightarrow> jobj" where
  "approval_response_to_dict x =
    [(''response_id'', JStr (ar_response_id x)), (''request_id'', JStr (ar_request_id x)), (''proposal_hash'', JStr (ar_proposal_hash x)),
     (''decision'', JStr (ar_decision x)), (''scope'', j_opt (JObj \<circ> approval_scope_to_dict) (ar_scope x)),
     (''approver_id'', JStr (ar_approver_id x)), (''approver_method'', JStr (ar_approver_method x)), (''reason'', JStr (ar_reason x)),
     (''responded_at'', JStr (ar_responded_at x)), (''schema_version'', JStr (ar_schema_version x))]"

definition approval_response_from_dict :: "jobj \<Rightarrow> pyexn + approval_response" where
  "approval_response_from_dict d =
     bindE (get_text d ''response_id'' []) (\<lambda>response_id.
     bindE (get_text d ''request_id'' []) (\<lambda>request_id.
     bindE (get_text d ''proposal_hash'' []) (\<lambda>proposal_hash.
     bindE (get_text d ''decision'' []) (\<lambda>decision.
     bindE (get_nested approval_scope_from_dict d ''scope'') (\<lambda>scp.
     bindE (get_text d ''approver_id'' []) (\<lambda>approver_id.
     bindE (get_text d ''approver_method'' ''cli'') (\<lambda>approver_method.
     bindE (get_text d ''reason'' []) (\<lambda>reason.
     bindE (get_text d ''responded_at'' []) (\<lambda>responded_at.
     bindE (get_text d ''schema_version'' SCHEMA_VERSION) (\<lambda>schema_version.
     Inr \<lparr>ar_response_id = response_id, ar_request_id = request_id, ar_proposal_hash = proposal_hash, ar_decision = decision, ar_scope = scp,
       ar_approver_id = approver_id, ar_approver_method = approver_method, ar_reason = reason, ar_responded_at = responded_at,
       ar_schema_version = schema_version\<rparr>))))))))))"

record authz_lease =
  al_lease_id :: string
  al_proposal_hash :: string
  al_approval_id :: string
  al_subject_id :: string
  al_scope :: "approval_scope option"
  al_max_uses :: int
  al_remaining_uses :: int
  al_issued_at :: string
  al_expires_at :: string
  al_status :: string
  al_schema_version :: string

definition authz_lease_to_dict :: "authz_lease \<Rightarrow> jobj" where
  "authz_lease_to_dict x =
    [(''lease_id'', JStr (al_lease_id x)), (''proposal_hash'', JStr (al_proposal_hash x)), (''approval_id'', JStr (al_approval_id x)),
     (''subject_id'', JStr (al_subject_id x)), (''scope'', j_opt (JObj \<circ> approval_scope_to_dict) (al_scope x)), (''max_uses'', JInt (al_max_uses x)),
     (''remaining_uses'', JInt (al_remaining_uses x)), (''issued_at'', JStr (al_issued_at x)), (''expires_at'', JStr (al_expires_at x)),
     (''status'', JStr (al_status x)), (''schema_version'', JStr (al_schema_version x))]"

definition authz_lease_from_dict :: "jobj \<Rightarrow> pyexn + authz_lease" where
  "authz_lease_from_dict d =
     bindE (get_text d ''lease_id'' []) (\<lambda>lease_id.
     bindE (get_text d ''proposal_hash'' []) (\<lambda>proposal_hash.
     bindE (get_text d ''approval_id'' []) (\<lambda>approval_id.
     bindE (get_text d ''subject_id'' []) (\<lambda>subject_id.
     bindE (get_nested approval_scope_from_dict d ''scope'') (\<lambda>scp.
     bindE (get_int d ''max_uses'' 1) (\<lambda>max_uses.
     bindE (get_int d ''remaining_uses'' 1) (\<lambda>remaining_uses.
     bindE (get_text d ''issued_at'' []) (\<lambda>issued.
     bindE (get_text d ''expires_at'' []) (\<lambda>expires_at.
     bindE (get_text d ''status'' ''ACTIVE'') (\<lambda>status.
     bindE (get_text d ''schema_version'' SCHEMA_VERSION) (\<lambda>schema_version.
     Inr \<lparr>al_lease_id = lease_id, al_proposal_hash = proposal_hash, al_approval_id = approval_id, al_subject_id = subject_id, al_scope = scp,
       al_max_uses = max_uses, al_remaining_uses = remaining_uses, al_issued_at = issued, al_expires_at = expires_at, al_status = status,
       al_schema_version = schema_version\<rparr>)))))))))))"

section \<open>Delegations\<close>

record delegation_constraint =
  dc_constraint_type :: string
  dc_operator :: string
  dc_value :: json
  dc_unit :: string

definition delegation_constraint_to_dict :: "delegation_constraint \<Rightarrow> jobj" where
  "delegation_constraint_to_dict x =
    [(''constraint_type'', JStr (dc_constraint_type x)), (''operator'', JStr (dc_operator x)), (''value'', dc_value x), (''unit'', JStr (dc_unit x))]"

definition delegation_constraint_from_dict :: "jobj \<Rightarrow> pyexn + delegation_constraint" where
  "delegation_constraint_from_dict d =
     bindE (get_text d ''constraint_type'' []) (\<lambda>constraint_type.
     bindE (get_text d ''operator'' ''lte'') (\<lambda>op.
     bindE (Inr (dict_get_or d ''value'' JNull)) (\<lambda>v.
     bindE (get_text d ''unit'' []) (\<lambda>un.
     Inr \<lparr>dc_constraint_type = constraint_type, dc_operator = op, dc_value = v, dc_unit = un\<rparr>))))"

record delegation_grant =
  dg_grant_id :: string
  dg_issuer_id :: string
  dg_subject_id :: string
  dg_scope :: "approval_scope option"
  dg_permitted_capabilities :: "string list"
  dg_denied_capabilities :: "string list"
  dg_constraints :: "delegation_constraint list"
  dg_max_uses :: int
  dg_used_count :: int
  dg_issued_at :: string
  dg_expires_at :: string
  dg_allow_sub_delegation :: bool
  dg_max_sub_delegation_depth :: int
  dg_status :: string
  dg_schema_version :: string

definition delegation_grant_to_dict :: "delegation_grant \<Rightarrow> jobj" where
  "delegation_grant_to_dict x =
    [(''grant_id'', JStr (dg_grant_id x)), (''issuer_id'', JStr (dg_issuer_id x)), (''subject_id'', JStr (dg_subject_id x)),
     (''scope'', j_opt (JObj \<circ> approval_scope_to_dict) (dg_scope x)), (''permitted_capabilities'', jstrs (dg_permitted_capabilities x)),
     (''denied_capabilities'', jstrs (dg_denied_capabilities x)),
     (''constraints'', JList (map (JObj \<circ> delegation_constraint_to_dict) (dg_constraints x))), (''max_uses'', JInt (dg_max_uses x)),
     (''used_count'', JInt (dg_used_count x)), (''issued_at'', JStr (dg_issued_at x)), (''expires_at'', JStr (dg_expires_at x)),
     (''allow_sub_delegation'', JBool (dg_allow_sub_delegation x)), (''max_sub_delegation_depth'', JInt (dg_max_sub_delegation_depth x)),
     (''status'', JStr (dg_status x)), (''schema_version'', JStr (dg_schema_version x))]"

definition delegation_grant_from_dict :: "jobj \<Rightarrow> pyexn + delegation_grant" where
  "delegation_grant_from_dict d =
     bindE (get_text d ''grant_id'' []) (\<lambda>grant_id.
     bindE (get_text d ''issuer_id'' []) (\<lambda>issuer_id.
     bindE (get_text d ''subject_id'' []) (\<lambda>subject_id.
     bindE (get_nested approval_scope_from_dict d ''scope'') (\<lambda>scp.
     bindE (get_texts d ''permitted_capabilities'') (\<lambda>permitted_capabilities.
     bindE (get_texts d ''denied_capabilities'') (\<lambda>denied_capabilities.
     bindE (bindE (get_values d ''constraints'') (mapE (\<lambda>v. bindE (as_obj v) delegation_constraint_from_dict))) (\<lambda>cs.
     bindE (get_int d ''max_uses'' 1) (\<lambda>max_uses.
     bindE (get_int d ''used_count'' 0) (\<lambda>used_count.
     bindE (get_text d ''issued_at'' []) (\<lambda>issued.
     bindE (get_text d ''expires_at'' []) (\<lambda>expires_at.
     bindE (Inr (rd_bool d ''allow_sub_delegation'' False)) (\<lambda>allow_sub_delegation.
     bindE (get_int d ''max_sub_delegation_depth'' 0) (\<lambda>max_sub_delegation_depth.
     bindE (get_text d ''status'' ''DRAFT'') (\<lambda>status.
     bindE (get_text d ''schema_version'' SCHEMA_VERSION) (\<lambda>schema_version.
     Inr \<lparr>dg_grant_id = grant_id, dg_issuer_id = issuer_id, dg_subject_id = subject_id, dg_scope = scp, dg_permitted_capabilities = permitted_capabilities,
       dg_denied_capabilities = denied_capabilities, dg_constraints = cs, dg_max_uses = max_uses, dg_used_count = used_count, dg_issued_at = issued,
       dg_expires_at = expires_at, dg_allow_sub_delegation = allow_sub_delegation, dg_max_sub_delegation_depth = max_sub_delegation_depth, dg_status = status,
       dg_schema_version = schema_version\<rparr>)))))))))))))))"

section \<open>Revocations, escalations, assessments\<close>

record revocation_record =
  rv_revocation_id :: string
  rv_target_type :: string
  rv_target_id :: string
  rv_revoked_by :: string
  rv_reason :: string
  rv_revoked_at :: string
  rv_cascaded_from :: string
  rv_schema_version :: string

definition revocation_record_to_dict :: "revocation_record \<Rightarrow> jobj" where
  "revocation_record_to_dict x =
    [(''revocation_id'', JStr (rv_revocation_id x)), (''target_type'', JStr (rv_target_type x)), (''target_id'', JStr (rv_target_id x)),
     (''revoked_by'', JStr (rv_revoked_by x)), (''reason'', JStr (rv_reason x)), (''revoked_at'', JStr (rv_revoked_at x)),
     (''cascaded_from'', JStr (rv_cascaded_from x)), (''schema_version'', JStr (rv_schema_version x))]"

definition revocation_record_from_dict :: "jobj \<Rightarrow> pyexn + revocation_record" where
  "revocation_record_from_dict d =
     bindE (get_text d ''revocation_id'' []) (\<lambda>revocation_id.
     bindE (get_text d ''target_type'' []) (\<lambda>target_type.
     bindE (get_text d ''target_id'' []) (\<lambda>target_id.
     bindE (get_text d ''revoked_by'' []) (\<lambda>revoked_by.
     bindE (get_text d ''reason'' []) (\<lambda>reason.
     bindE (get_text d ''revoked_at'' []) (\<lambda>revoked_at.
     bindE (get_text d ''cascaded_from'' []) (\<lambda>cascaded_from.
     bindE (get_text d ''schema_version'' SCHEMA_VERSION) (\<lambda>schema_version.
     Inr \<lparr>rv_revocation_id = revocation_id, rv_target_type = target_type, rv_target_id = target_id, rv_revoked_by = revoked_by, rv_reason = reason,
       rv_revoked_at = revoked_at, rv_cascaded_from = cascaded_from, rv_schema_version = schema_version\<rparr>))))))))"

record escalation_record =
  es_escalation_id :: string
  es_proposal_hash :: string
  es_reason_code :: string
  es_reason_message :: string
  es_escalated_at :: string
  es_resolved_by :: string
  es_resolution :: string
  es_resolved_at :: string
  es_schema_version :: string

definition escalation_record_to_dict :: "escalation_record \<Rightarrow> jobj" where
  "escalation_record_to_dict x =
    [(''escalation_id'', JStr (es_escalation_id x)), (''proposal_hash'', JStr (es_proposal_hash x)), (''reason_code'', JStr (es_reason_code x)),
     (''reason_message'', JStr (es_reason_message x)), (''escalated_at'', JStr (es_escalated_at x)), (''resolved_by'', JStr (es_resolved_by x)),
     (''resolution'', JStr (es_resolution x)), (''resolved_at'', JStr (es_resolved_at x)), (''schema_version'', JStr (es_schema_version x))]"

definition escalation_record_from_dict :: "jobj \<Rightarrow> pyexn + escalation_record" where
  "escalation_record_from_dict d =
     bindE (get_text d ''escalation_id'' []) (\<lambda>escalation_id.
     bindE (get_text d ''proposal_hash'' []) (\<lambda>proposal_hash.
     bindE (get_text d ''reason_code'' []) (\<lambda>reason_code.
     bindE (get_text d ''reason_message'' []) (\<lambda>reason_message.
     bindE (get_text d ''escalated_at'' []) (\<lambda>escalated_at.
     bindE (get_text d ''resolved_by'' []) (\<lambda>resolved_by.
     bindE (get_text d ''resolution'' []) (\<lambda>resolution.
     bindE (get_text d ''resolved_at'' []) (\<lambda>resolved_at.
     bindE (get_text d ''schema_version'' SCHEMA_VERSION) (\<lambda>schema_version.
     Inr \<lparr>es_escalation_id = escalation_id, es_proposal_hash = proposal_hash, es_reason_code = reason_code, es_reason_message = reason_message,
       es_escalated_at = escalated_at, es_resolved_by = resolved_by, es_resolution = resolution, es_resolved_at = resolved_at,
       es_schema_version = schema_version\<rparr>)))))))))"

record risk_assessment =
  ra_assessment_id :: string
  ra_proposal_hash :: string
  ra_envelope :: "risk_envelope option"
  ra_assessed_at :: string
  ra_assessed_by :: string
  ra_schema_version :: string

definition risk_assessment_to_dict :: "risk_assessment \<Rightarrow> jobj" where
  "risk_assessment_to_dict x =
    [(''assessment_id'', JStr (ra_assessment_id x)), (''proposal_hash'', JStr (ra_proposal_hash x)),
     (''envelope'', j_opt (JObj \<circ> risk_envelope_to_dict) (ra_envelope x)), (''assessed_at'', JStr (ra_assessed_at x)),
     (''assessed_by'', JStr (ra_assessed_by x)), (''schema_version'', JStr (ra_schema_version x))]"

definition risk_assessment_from_dict :: "jobj \<Rightarrow> pyexn + risk_assessment" where
  "risk_assessment_from_dict d =
     bindE (get_text d ''assessment_id'' []) (\<lambda>assessment_id.
     bindE (get_text d ''proposal_hash'' []) (\<lambda>proposal_hash.
     bindE (get_nested risk_envelope_from_dict d ''envelope'') (\<lambda>envelope.
     bindE (get_text d ''assessed_at'' []) (\<lambda>assessed_at.
     bindE (get_text d ''assessed_by'' ''risk_engine'') (\<lambda>assessed_by.
     bindE (get_text d ''schema_version'' SCHEMA_VERSION) (\<lambda>schema_version.
     Inr \<lparr>ra_assessment_id = assessment_id, ra_proposal_hash = proposal_hash, ra_envelope = envelope, ra_assessed_at = assessed_at, ra_assessed_by = assessed_by,
       ra_schema_version = schema_version\<rparr>))))))"

section \<open>Evidence\<close>

record evidence_bundle =
  eb_bundle_id :: string
  eb_decision_id :: string
  eb_proposal_hash :: string
  eb_event_type :: string
  eb_evidence :: jobj
  eb_recorded_at :: string
  eb_previous_audit_hash :: string
  eb_schema_version :: string

definition evidence_bundle_to_dict :: "gov_lib \<Rightarrow> evidence_bundle \<Rightarrow> jobj" where
  "evidence_bundle_to_dict L x =
     (case redact_sensitive_data (gl_known L) (JObj
        [(''bundle_id'', JStr (eb_bundle_id x)), (''decision_id'', JStr (eb_decision_id x)), (''proposal_hash'', JStr (eb_proposal_hash x)),
         (''event_type'', JStr (eb_event_type x)), (''evidence'', JObj (eb_evidence x)), (''recorded_at'', JStr (eb_recorded_at x)),
         (''previous_audit_hash'', JStr (eb_previous_audit_hash x)), (''schema_version'', JStr (eb_schema_version x))]) of
        JObj kvs \<Rightarrow> kvs | _ \<Rightarrow> [])"

definition evidence_bundle_from_dict :: "jobj \<Rightarrow> pyexn + evidence_bundle" where
  "evidence_bundle_from_dict d =
     bindE (get_text d ''bundle_id'' []) (\<lambda>bundle_id.
     bindE (get_text d ''decision_id'' []) (\<lambda>decision_id.
     bindE (get_text d ''proposal_hash'' []) (\<lambda>proposal_hash.
     bindE (get_text d ''event_type'' ''authorization_decision'') (\<lambda>event_type.
     bindE (as_obj (get_or d ''evidence'' (JObj []))) (\<lambda>evidence.
     bindE (get_text d ''recorded_at'' []) (\<lambda>recorded_at.
     bindE (get_text d ''previous_audit_hash'' []) (\<lambda>previous_audit_hash.
     bindE (get_text d ''schema_version'' SCHEMA_VERSION) (\<lambda>schema_version.
     Inr \<lparr>eb_bundle_id = bundle_id, eb_decision_id = decision_id, eb_proposal_hash = proposal_hash, eb_event_type = event_type,
       eb_evidence = evidence, eb_recorded_at = recorded_at, eb_previous_audit_hash = previous_audit_hash,
       eb_schema_version = schema_version\<rparr>))))))))"

section \<open>What is stored is loaded\<close>

lemma authz_context_loads [simp]: "authz_context_from_dict (authz_context_to_dict x) = Inr x"
  unfolding authz_context_from_dict_def
  by (simp add: authz_context_to_dict_def stored_readers dict_get_or_def)

lemma approval_scope_not_Nil [simp]: "approval_scope_to_dict x \<noteq> []"
  by (simp add: approval_scope_to_dict_def)

lemma approval_scope_loads [simp]: "approval_scope_from_dict (approval_scope_to_dict x) = Inr x"
  unfolding approval_scope_from_dict_def
  by (simp add: approval_scope_to_dict_def stored_readers dict_get_or_def)

lemma risk_envelope_not_Nil [simp]: "risk_envelope_to_dict x \<noteq> []"
  by (simp add: risk_envelope_to_dict_def)

lemma risk_envelope_loads [simp]: "risk_envelope_from_dict (risk_envelope_to_dict x) = Inr x"
  unfolding risk_envelope_from_dict_def
  by (simp add: risk_envelope_to_dict_def stored_readers dict_get_or_def)

lemma authz_decision_loads [simp]: "authz_decision_from_dict (authz_decision_to_dict x) = Inr x"
  unfolding authz_decision_from_dict_def
  by (simp add: authz_decision_to_dict_def stored_readers dict_get_or_def get_nested_stored [OF _ risk_envelope_loads risk_envelope_not_Nil])

lemma approval_request_loads [simp]: "approval_request_from_dict (approval_request_to_dict x) = Inr x"
  unfolding approval_request_from_dict_def
  by (simp add: approval_request_to_dict_def stored_readers dict_get_or_def)

lemma approval_response_loads [simp]: "approval_response_from_dict (approval_response_to_dict x) = Inr x"
  unfolding approval_response_from_dict_def
  by (simp add: approval_response_to_dict_def stored_readers dict_get_or_def get_nested_stored [OF _ approval_scope_loads approval_scope_not_Nil])

lemma authz_lease_loads [simp]: "authz_lease_from_dict (authz_lease_to_dict x) = Inr x"
  unfolding authz_lease_from_dict_def
  by (simp add: authz_lease_to_dict_def stored_readers dict_get_or_def get_nested_stored [OF _ approval_scope_loads approval_scope_not_Nil])

lemma delegation_constraint_loads [simp]: "delegation_constraint_from_dict (delegation_constraint_to_dict x) = Inr x"
  unfolding delegation_constraint_from_dict_def
  by (simp add: delegation_constraint_to_dict_def stored_readers dict_get_or_def)

lemma delegation_grant_loads [simp]: "delegation_grant_from_dict (delegation_grant_to_dict x) = Inr x"
  unfolding delegation_grant_from_dict_def
  by (simp add: delegation_grant_to_dict_def stored_readers dict_get_or_def mapE_as_obj get_nested_stored [OF _ approval_scope_loads approval_scope_not_Nil])

lemma revocation_record_loads [simp]: "revocation_record_from_dict (revocation_record_to_dict x) = Inr x"
  unfolding revocation_record_from_dict_def
  by (simp add: revocation_record_to_dict_def stored_readers dict_get_or_def)

lemma escalation_record_loads [simp]: "escalation_record_from_dict (escalation_record_to_dict x) = Inr x"
  unfolding escalation_record_from_dict_def
  by (simp add: escalation_record_to_dict_def stored_readers dict_get_or_def)

lemma risk_assessment_loads [simp]: "risk_assessment_from_dict (risk_assessment_to_dict x) = Inr x"
  unfolding risk_assessment_from_dict_def
  by (simp add: risk_assessment_to_dict_def stored_readers dict_get_or_def get_nested_stored [OF _ risk_envelope_loads risk_envelope_not_Nil])

text \<open>
  A proposal is stored without its parameters, but with their digest, so the digest of the whole
  does not change.
\<close>

lemma bound_hash_not_Nil: "(\<And>s. gl_sha256 L s \<noteq> []) \<Longrightarrow> bound_hash L x \<noteq> []"
  by (simp add: bound_hash_def params_hash_def)

lemma action_proposal_loads:
  "action_proposal_from_dict L (action_proposal_to_dict L x) =
   Inr (proposal_post_init L (x\<lparr>pp_params := [], pp_parameter_hash := bound_hash L x\<rparr>))"
  unfolding action_proposal_from_dict_def
  by (cases x) (simp add: action_proposal_to_dict_def stored_readers)

lemma bound_hash_stored:
  "bound_hash L x \<noteq> [] \<Longrightarrow> bound_hash L (x\<lparr>pp_params := [], pp_parameter_hash := bound_hash L x\<rparr>) = bound_hash L x"
  by (simp add: bound_hash_def)

lemma compute_hash_stored:
  assumes "bound_hash L x \<noteq> []"
  shows "compute_hash L (x\<lparr>pp_params := [], pp_parameter_hash := bound_hash L x\<rparr>) = compute_hash L x"
  by (simp add: compute_hash_def bound_hash_stored [OF assms])

lemma compute_hash_own [simp]: "compute_hash L (x\<lparr>pp_proposal_hash := h\<rparr>) = compute_hash L x"
  by (simp add: compute_hash_def bound_hash_def)

section \<open>The order of scopes\<close>

lemma tuple_subset_iff: "tuple_subset a b \<longleftrightarrow> set a \<subseteq> set b"
  by (cases a) (auto simp: tuple_subset_def list_all_iff)

lemma path_subset_refl: "path_subset L a a"
  by (simp add: path_subset_def Let_def split: option.splits)

lemma class_subset_trans: "class_subset a b \<Longrightarrow> class_subset b c \<Longrightarrow> class_subset a c"
  by (auto simp: class_subset_def)

lemma is_subset_of_refl: "is_subset_of L x x"
  by (auto simp: is_subset_of_def str_subset_def tuple_subset_iff path_subset_refl class_subset_def)

text \<open>
  The scope without any entry restricts nothing, but it is below every other one, because a
  missing entry counts as narrower.
\<close>

lemma scope_default_below:
  "0 \<le> sk_cost_ceiling_usd y \<Longrightarrow> 0 \<le> sk_token_ceiling y \<Longrightarrow> 0 \<le> sk_execution_time_ceiling_ms y \<Longrightarrow>
   1 \<le> sk_max_attempts y \<Longrightarrow> 1 \<le> sk_max_uses y \<Longrightarrow> is_subset_of L scope_default y"
  by (simp add: is_subset_of_def scope_default_def str_subset_def tuple_subset_def path_subset_def class_subset_def)

end
