(* ===== verification/Governance_Policy.thy ===== *)
theory Governance_Policy
  imports Governance_Contracts Py_Datetime
begin

text \<open>
  The policies of the governance layer: permissions with \<open>fnmatch\<close> patterns
  (\<open>nous_runtime/governance/permission.py\<close>), the constitution (\<open>constitution.py\<close>), the assessment of
  risk (\<open>risk_engine.py\<close>) and the runtime mode (\<open>runtime_mode.py\<close>). What the process finds outside
  (clock, environment variables, file system, capability registry) is the record \<open>gov_env\<close>.
\<close>

section \<open>Patterns\<close>

declare conj_cong [fundef_cong]

text \<open>
  The members of a bracket expression: single characters, and ranges where a hyphen stands
  between two characters.
\<close>

function bracket_has :: "string \<Rightarrow> char \<Rightarrow> bool" where
  "bracket_has s c \<longleftrightarrow>
     s \<noteq> [] \<and>
     (if 3 \<le> length s \<and> s ! 1 = CHR ''-'' then (s ! 0 \<le> c \<and> c \<le> s ! 2) \<or> bracket_has (drop 3 s) c
      else hd s = c \<or> bracket_has (tl s) c)"
  by pat_completeness auto
termination by (relation "measure (length \<circ> fst)") auto

declare bracket_has.simps [simp del]

definition bracket_matches :: "string \<Rightarrow> char \<Rightarrow> bool" where
  "bracket_matches s c = (if startswith s ''!'' then \<not> bracket_has (tl s) c else bracket_has s c)"

text \<open>
  The text between brackets and what follows it; a closing bracket in first place, or after a
  leading \<open>!\<close>, is a member. Without a closing bracket the opening one is literal.
\<close>

fun until_bracket :: "string \<Rightarrow> (string \<times> string) option" where
  "until_bracket [] = None"
| "until_bracket (c # s) =
     (if c = CHR '']'' then Some ([], s) else map_option (\<lambda>(a, b). (c # a, b)) (until_bracket s))"

definition split_bracket :: "string \<Rightarrow> (string \<times> string) option" where
  "split_bracket s =
     (let pre = (if startswith s ''!'' then ''!'' else []); s = drop (length pre) s;
          pre = (if startswith s '']'' then pre @ '']'' else pre); s = (if startswith s '']'' then tl s else s)
      in map_option (\<lambda>(a, b). (pre @ a, b)) (until_bracket s))"

lemma until_bracket_length: "until_bracket s = Some (a, b) \<Longrightarrow> length b < length s"
  by (induction s arbitrary: a) (auto split: if_splits)

lemma split_bracket_length: "split_bracket s = Some (a, b) \<Longrightarrow> length b < Suc (length s)"
  unfolding split_bracket_def Let_def
  by (auto dest!: until_bracket_length split: if_splits)

text \<open>\<open>fnmatch.fnmatchcase(s, p)\<close>\<close>

function fnmatch :: "string \<Rightarrow> string \<Rightarrow> bool" where
  "fnmatch p s \<longleftrightarrow>
     (case p of
        [] \<Rightarrow> s = []
      | c # q \<Rightarrow>
          if c = CHR ''*'' then fnmatch q s \<or> (s \<noteq> [] \<and> fnmatch p (tl s))
          else if c = CHR ''?'' then s \<noteq> [] \<and> fnmatch q (tl s)
          else case (if c = CHR ''['' then split_bracket q else None) of
              Some (members, rest) \<Rightarrow> s \<noteq> [] \<and> bracket_matches members (hd s) \<and> fnmatch rest (tl s)
            | None \<Rightarrow> s \<noteq> [] \<and> hd s = c \<and> fnmatch q (tl s))"
  by pat_completeness auto
termination
  by (relation "measure (\<lambda>(p, s). length p + length s)")
    (auto dest: split_bracket_length split: if_splits)

declare fnmatch.simps [simp del]

section \<open>Permissions\<close>

record permission_request =
  prq_subject :: string
  prq_action :: string
  prq_resource :: string
  prq_context :: jobj

record permission_rule =
  prl_subject :: string
  prl_action :: string
  prl_resource :: string
  prl_effect :: string
  prl_context_equals :: jobj

text \<open>Conditions are scalars: the same type and the same value.\<close>

definition rule_matches :: "permission_rule \<Rightarrow> permission_request \<Rightarrow> bool" where
  "rule_matches r q \<longleftrightarrow>
     fnmatch (prl_subject r) (prq_subject q) \<and> fnmatch (prl_action r) (prq_action q) \<and>
     fnmatch (prl_resource r) (prq_resource q) \<and>
     list_all (\<lambda>(k, v). dict_get (prq_context q) k = Some v) (prl_context_equals r)"

record permission_decision =
  pd_allowed :: bool
  pd_reason :: string
  pd_matched_rule :: "permission_rule option"

text \<open>
  What reading the policy file gives: nothing, bytes that are not JSON, or a value with the digest
  of the bytes.
\<close>

datatype owner_file = Unreadable string | Malformed | Contents json string

record permission_engine =
  pe_rules :: "permission_rule list"
  pe_policy_path :: "string option"

text \<open>An object that uses a key twice is refused while it is parsed.\<close>

fun unique_keys :: "json \<Rightarrow> bool" where
  "unique_keys (JObj kvs) \<longleftrightarrow> wf_dict kvs \<and> list_all (\<lambda>(k, v). unique_keys v) kvs"
| "unique_keys (JList xs) \<longleftrightarrow> list_all unique_keys xs"
| "unique_keys _ \<longleftrightarrow> True"

definition policy_invalid :: "pyexn + 'a" where
  "policy_invalid = Inl (PermissionError ''Owner permission policy is invalid or expired'')"

text \<open>The deadline of a policy; \<open>None\<close> is a text without an offset, or no date.\<close>

definition policy_deadline :: "string \<Rightarrow> pyexn + int option" where
  "policy_deadline s =
     (let t = py_replace ''Z'' ''+00:00'' s in
      if endswith t ''+00:00'' then iso_parse (take (length t - 6) t)
      else bindE (iso_parse t) (\<lambda>_. Inr None))"

definition rule_name_ok :: "json option \<Rightarrow> bool" where
  "rule_name_ok v =
     (case v of Some (JStr s) \<Rightarrow> 0 < length s \<and> length s \<le> 1024 \<and> list_all (\<lambda>c. 32 \<le> (of_char c :: nat)) s | _ \<Rightarrow> False)"

definition condition_ok :: "string \<times> json \<Rightarrow> bool" where
  "condition_ok = (\<lambda>(k, v). 0 < length k \<and> length k \<le> 128 \<and>
     (case v of JStr _ \<Rightarrow> True | JBool _ \<Rightarrow> True | JInt _ \<Rightarrow> True | _ \<Rightarrow> False))"

definition rule_of_json :: "json \<Rightarrow> pyexn + permission_rule" where
  "rule_of_json v =
     (case v of
        JObj kvs \<Rightarrow>
          if \<not> fst ` set kvs \<subseteq> {''subject'', ''action'', ''resource'', ''effect'', ''context_equals''} \<or>
             \<not> list_all (\<lambda>k. rule_name_ok (dict_get kvs k)) [''subject'', ''action'', ''resource''] \<or>
             dict_get_or kvs ''effect'' (JStr ''allow'') \<notin> {JStr ''allow'', JStr ''deny''}
          then policy_invalid
          else (case dict_get_or kvs ''context_equals'' (JObj []) of
              JObj conds \<Rightarrow>
                if 32 < length conds \<or> \<not> list_all condition_ok conds then policy_invalid
                else bindE (get_text kvs ''subject'' []) (\<lambda>s.
                     bindE (get_text kvs ''action'' []) (\<lambda>a.
                     bindE (get_text kvs ''resource'' []) (\<lambda>r.
                     bindE (get_text kvs ''effect'' ''allow'') (\<lambda>e.
                       Inr \<lparr>prl_subject = s, prl_action = a, prl_resource = r, prl_effect = e, prl_context_equals = conds\<rparr>))))
            | _ \<Rightarrow> policy_invalid)
      | _ \<Rightarrow> policy_invalid)"

definition owner_rules ::
  "string list \<Rightarrow> int \<Rightarrow> owner_file \<Rightarrow> permission_engine \<Rightarrow> pyexn + permission_rule list \<times> string" where
  "owner_rules known now file e =
     (case pe_policy_path e of
        None \<Rightarrow> Inr (pe_rules e, [])
      | Some _ \<Rightarrow>
          (case file of
             Unreadable msg \<Rightarrow> Inl (PermissionError msg)
           | Malformed \<Rightarrow> policy_invalid
           | Contents v digest \<Rightarrow>
               (case v of
                  JObj kvs \<Rightarrow>
                    (case (dict_get kvs ''rules'', dict_get_or kvs ''expires_at'' (JStr [])) of
                       (Some (JList items), JStr expires) \<Rightarrow>
                         if \<not> unique_keys v \<or> \<not> fst ` set kvs \<subseteq> {''rules'', ''expires_at''} \<or> 128 < length items
                         then policy_invalid
                         else bindE (if expires = [] then Inr True
                                     else bindE (policy_deadline expires) (\<lambda>t. Inr (case t of None \<Rightarrow> False | Some t \<Rightarrow> now < t))) (\<lambda>alive.
                           if \<not> alive \<or> redact_sensitive_data known v \<noteq> v then policy_invalid
                           else bindE (mapE rule_of_json items) (\<lambda>rules. Inr (rules, digest)))
                     | _ \<Rightarrow> policy_invalid)
                | _ \<Rightarrow> policy_invalid)))"

definition pe_add :: "permission_rule \<Rightarrow> permission_engine \<Rightarrow> pyexn + permission_engine" where
  "pe_add r e =
     (if pe_policy_path e \<noteq> None then Inl (PermissionError ''File-backed rules are changed only by their trusted owner'')
      else Inr (e\<lparr>pe_rules := pe_rules e @ [r]\<rparr>))"

definition effect_is :: "string \<Rightarrow> permission_rule \<Rightarrow> bool" where
  "effect_is s r \<longleftrightarrow> py_lower (py_strip (prl_effect r)) = s"

text \<open>The decision over the rules at hand.\<close>

definition decide :: "permission_rule list \<Rightarrow> permission_request \<Rightarrow> permission_decision" where
  "decide rules q =
     (let matches = filter (\<lambda>r. rule_matches r q) rules in
      case find (effect_is ''deny'') matches of
        Some r \<Rightarrow> \<lparr>pd_allowed = False, pd_reason = ''explicit deny'', pd_matched_rule = Some r\<rparr>
      | None \<Rightarrow>
          (case find (effect_is ''allow'') matches of
             Some r \<Rightarrow> \<lparr>pd_allowed = True, pd_reason = ''explicit allow'', pd_matched_rule = Some r\<rparr>
           | None \<Rightarrow> \<lparr>pd_allowed = False, pd_reason = ''no matching permission rule'', pd_matched_rule = None\<rparr>))"

definition pe_check ::
  "string list \<Rightarrow> int \<Rightarrow> owner_file \<Rightarrow> permission_engine \<Rightarrow> permission_request \<Rightarrow> permission_decision" where
  "pe_check known now file e q =
     (case owner_rules known now file e of
        Inl _ \<Rightarrow> \<lparr>pd_allowed = False, pd_reason = ''permission policy unavailable'', pd_matched_rule = None\<rparr>
      | Inr (rules, _) \<Rightarrow> decide rules q)"

section \<open>The environment\<close>

text \<open>
  \<open>ge_clock\<close> is the time in microseconds; \<open>ge_real\<close> is \<open>os.path.realpath\<close> of a path that exists, and the
  path itself otherwise; \<open>ge_capability\<close> is what the capability registry answers, \<open>None\<close> also when
  it raises; \<open>ge_loads\<close> is \<open>json.loads\<close>, \<open>None\<close> when it raises; \<open>ge_id\<close> draws identifiers, by their
  prefix and a number that tells the draws of one operation apart;
  \<open>ge_up\<close> tells whether SQLite carries a call of the store out.
\<close>

record gov_env =
  ge_clock :: int
  ge_vars :: "string \<Rightarrow> string option"
  ge_real :: "string \<Rightarrow> string"
  ge_capability :: "string \<Rightarrow> jobj option"
  ge_loads :: "string \<Rightarrow> json option"
  ge_id :: "string \<Rightarrow> nat \<Rightarrow> string"
  ge_up :: "string \<Rightarrow> bool"
  ge_policy_file :: owner_file

text \<open>\<open>_utc_now()\<close>, and an instant some seconds later, as texts to the second\<close>

definition utc_text :: "int \<Rightarrow> string" where
  "utc_text t = iso_text (t - t mod 1000000) @ ''Z''"

definition ge_now :: "gov_env \<Rightarrow> string" where
  "ge_now E = utc_text (ge_clock E)"

definition ge_later :: "gov_env \<Rightarrow> int \<Rightarrow> string" where
  "ge_later E seconds = utc_text (ge_clock E + seconds * 1000000)"

section \<open>The constitution\<close>

record constitution_violation =
  cv_rule_id :: string
  cv_message :: string
  cv_detail :: string

definition violation :: "string \<Rightarrow> string \<Rightarrow> string \<Rightarrow> constitution_violation" where
  "violation r m d = \<lparr>cv_rule_id = r, cv_message = m, cv_detail = d\<rparr>"

definition py_repr_tuple :: "string list \<Rightarrow> string" where
  "py_repr_tuple xs = ''('' @ (if length xs = 1 then py_repr (hd xs) @ '','' else py_join '', '' (map py_repr xs)) @ '')''"

definition outside_workspace :: "gov_env \<Rightarrow> string \<Rightarrow> bool" where
  "outside_workspace E r \<longleftrightarrow>
     py_contains ''..'' r \<or> (\<exists>p \<in> set [''/etc/'', ''/var/run/'', ''/sys/'', ''/proc/'']. startswith (ge_real E r) p)"

definition when_violated :: "bool \<Rightarrow> constitution_violation \<Rightarrow> constitution_violation list" where
  "when_violated b v = (if b then [v] else [])"

definition evaluate_constitution ::
  "gov_lib \<Rightarrow> gov_env \<Rightarrow> action_proposal \<Rightarrow> authz_context \<Rightarrow> constitution_violation list" where
  "evaluate_constitution L E p c =
     (let act = pp_action_type p; cap = pp_capability_id p; perms = pp_required_permissions p;
          subject = cx_subject_type c; shown = '', required_permissions='' @ py_repr_tuple perms
      in
      when_violated (subject = ''model'')
        (violation ''N1'' ''Model self-approval is prohibited'' (''subject_type='' @ subject)) @
      when_violated (act \<in> {''audit.delete'', ''audit.modify'', ''audit.purge''})
        (violation ''N2'' ''Audit deletion or alteration is prohibited'' (''action_type='' @ act)) @
      when_violated (act \<in> {''approval.scope.expand'', ''authorization.scope.expand''} \<or> ''scope.expand'' \<in> set perms)
        (violation ''N3'' ''Implicit approval-scope expansion is prohibited'' (''action_type='' @ act @ shown)) @
      when_violated (pp_expires_at p \<noteq> [] \<and> pp_expires_at p < ge_now E)
        (violation ''N4'' ''Expired proposal cannot authorize execution''
          (''expires_at='' @ pp_expires_at p @ '', now='' @ ge_now E)) @
      when_violated (act = ''authorization.reuse_revoked'' \<or> ''authorization.revoked'' \<in> set perms)
        (violation ''N5'' ''Revoked authorization reuse is prohibited'' (''action_type='' @ act @ shown)) @
      when_violated (''sandbox.bypass'' \<in> set perms \<or> ''sandbox.disable'' \<in> set perms)
        (violation ''N6'' ''Sandbox bypass is prohibited'' (''required_permissions='' @ py_repr_tuple perms)) @
      (case find (outside_workspace E) (pp_affected_resources p) of
         None \<Rightarrow> []
       | Some r \<Rightarrow> [violation ''N7'' ''Workspace boundary bypass detected'' (''resource='' @ r @ '', resolved='' @ ge_real E r)]) @
      when_violated (cap = ''node.manifest.bypass'' \<or> ''node.manifest.bypass'' \<in> set perms)
        (violation ''N8'' ''Node manifest bypass is prohibited'' (''capability='' @ cap @ shown)) @
      when_violated (cap \<in> {''device.pc.shell'', ''device.pc.exec'', ''tool.sudo'', ''credential.bypass''} \<and>
          cx_authn_confidence c < 9 / 10)
        (violation ''N9'' ''Privileged execution requires high-confidence authentication''
          (''capability='' @ cap @ '', confidence='' @ gl_float L (cx_authn_confidence c))) @
      when_violated (act = ''deployment.promote'' \<and> pp_deployment_channel p \<in> {''production'', ''stable''})
        (violation ''N10'' ''Automatic stable promotion is prohibited'' (''deployment_channel='' @ pp_deployment_channel p)) @
      when_violated (subject = ''model'' \<and>
          act \<in> {''policy.modify'', ''policy.create'', ''policy.delete'', ''constitution.modify'', ''threshold.modify''})
        (violation ''N11'' ''Model-controlled governance modification is prohibited''
          (''subject_type='' @ subject @ '', action_type='' @ act)) @
      when_violated (cap \<in> {''reliability.fault_injection'', ''test.fault_injection''} \<and> ge_vars E ''NOUS_ENV'' = Some ''production'')
        (violation ''N12'' ''Fault injection activation in production is prohibited'' ''NOUS_ENV=production'') @
      when_violated (act = ''gate.bypass'' \<or> cap = ''gate.bypass'')
        (violation ''N13'' ''Gate bypass is prohibited'' (''action_type='' @ act)))"

section \<open>Risk\<close>

definition data_sensitivity :: "string \<Rightarrow> rat option" where
  "data_sensitivity c =
     dict_get [(''public'', 0), (''internal'', 3 / 10), (''confidential'', 6 / 10), (''restricted'', 9 / 10)] (py_lower c)"

definition SIDE_EFFECT_RISK :: "(string, rat) dict" where
  "SIDE_EFFECT_RISK = [(''none'', 0), (''read_only'', 1 / 10), (''local_write'', 4 / 10), (''external_write'', 7 / 10), (''destructive'', 95 / 100)]"

text \<open>\<open>str(v).lower()\<close> looked up in a table of texts; a value without a text is in no table.\<close>

definition lookup_text :: "(string, rat) dict \<Rightarrow> json \<Rightarrow> rat option" where
  "lookup_text m v = (case py_str v of Inr s \<Rightarrow> dict_get m (py_lower s) | Inl _ \<Rightarrow> None)"

definition manifest_value :: "jobj option \<Rightarrow> string \<Rightarrow> json" where
  "manifest_value m k = (case m of None \<Rightarrow> JNull | Some kvs \<Rightarrow> dict_get_or kvs k JNull)"

definition execution_risk :: "action_proposal \<Rightarrow> jobj option \<Rightarrow> rat option" where
  "execution_risk p m =
     (if py_truthy (manifest_value m ''risk_level'')
      then lookup_text [(''low'', 1 / 10), (''medium'', 4 / 10), (''high'', 7 / 10), (''critical'', 95 / 100)] (manifest_value m ''risk_level'')
      else if pp_side_effect_class p \<noteq> [] then dict_get SIDE_EFFECT_RISK (pp_side_effect_class p)
      else if py_contains ''shell'' (pp_capability_id p) \<or> py_contains ''exec'' (pp_capability_id p) then Some (85 / 100)
      else if py_contains ''file_write'' (pp_capability_id p) then Some (5 / 10)
      else if py_contains ''file_read'' (pp_capability_id p) \<or> py_contains ''echo'' (pp_capability_id p) then Some (1 / 10)
      else None)"

definition side_effect_risk :: "action_proposal \<Rightarrow> rat option" where
  "side_effect_risk p = dict_get SIDE_EFFECT_RISK (pp_side_effect_class p)"

definition financial_risk :: "action_proposal \<Rightarrow> rat option" where
  "financial_risk p =
     (let c = pp_estimated_cost_usd p in
      if c \<le> 0 then Some 0 else if c < 1 / 100 then Some (1 / 10) else if c < 1 then Some (3 / 10)
      else if c < 100 then Some (6 / 10) else Some (9 / 10))"

definition manifest_privileged :: "gov_env \<Rightarrow> jobj \<Rightarrow> bool" where
  "manifest_privileged E m =
     (if py_truthy (dict_get_or m ''privileged'' JNull) then True
      else case dict_get_or m ''metadata'' JNull of
          JStr s \<Rightarrow>
            if py_strip s \<noteq> []
            then (case ge_loads E s of Some (JObj kvs) \<Rightarrow> py_truthy (dict_get_or kvs ''privileged'' JNull) | _ \<Rightarrow> False)
            else False
        | JObj kvs \<Rightarrow> py_truthy (dict_get_or kvs ''privileged'' JNull)
        | _ \<Rightarrow> False)"

definition privilege_risk :: "gov_env \<Rightarrow> action_proposal \<Rightarrow> jobj option \<Rightarrow> rat option" where
  "privilege_risk E p m =
     (if ''sudo'' \<in> set (pp_required_permissions p) \<or> ''admin'' \<in> set (pp_required_permissions p) then Some (9 / 10)
      else if ''root'' \<in> set (pp_required_permissions p) then Some 1
      else if (case m of None \<Rightarrow> False | Some kvs \<Rightarrow> kvs \<noteq> [] \<and> manifest_privileged E kvs) then Some (7 / 10)
      else if py_truthy (manifest_value m ''required_privilege'')
      then lookup_text [(''user'', 1 / 10), (''elevated'', 5 / 10), (''admin'', 9 / 10)] (manifest_value m ''required_privilege'')
      else Some (1 / 10))"

definition availability_risk :: "action_proposal \<Rightarrow> rat option" where
  "availability_risk p =
     (if pp_capability_id p \<in> {''system.shutdown'', ''system.restart'', ''service.stop''} then Some (9 / 10)
      else if pp_side_effect_class p = ''destructive'' then Some (5 / 10) else Some 0)"

definition irreversibility :: "action_proposal \<Rightarrow> rat option" where
  "irreversibility p =
     dict_get [(''reversible'', 0), (''partially_reversible'', 5 / 10), (''irreversible'', 95 / 100)] (pp_reversibility p)"

definition scope_breadth :: "action_proposal \<Rightarrow> rat option" where
  "scope_breadth p =
     (let n = length (pp_affected_resources p) in
      if n = 0 then Some 0 else if n = 1 then Some (1 / 10) else if n \<le> 5 then Some (3 / 10)
      else if n \<le> 50 then Some (6 / 10) else Some (9 / 10))"

definition capability_registered :: "gov_env \<Rightarrow> string \<Rightarrow> bool" where
  "capability_registered E cap = (case ge_capability E cap of None \<Rightarrow> False | Some kvs \<Rightarrow> kvs \<noteq> [])"

definition get_capability_uncertainty :: "gov_env \<Rightarrow> string \<Rightarrow> rat option" where
  "get_capability_uncertainty E cap =
     (case ge_capability E cap of
        None \<Rightarrow> None
      | Some kvs \<Rightarrow>
          (case dict_get_or kvs ''metadata'' (JObj []) of
             JObj meta \<Rightarrow>
               (case dict_get meta ''model_uncertainty'' of
                  None \<Rightarrow> None
                | Some v \<Rightarrow> (case py_float v of Inr q \<Rightarrow> Some q | Inl _ \<Rightarrow> None))
           | _ \<Rightarrow> None))"

definition get_capability_category :: "gov_env \<Rightarrow> string \<Rightarrow> string" where
  "get_capability_category E cap =
     (case ge_capability E cap of
        None \<Rightarrow> []
      | Some kvs \<Rightarrow> (case py_str (dict_get_or kvs ''category'' (JStr [])) of Inr s \<Rightarrow> s | Inl _ \<Rightarrow> []))"

definition model_uncertainty :: "gov_env \<Rightarrow> action_proposal \<Rightarrow> rat option" where
  "model_uncertainty E p =
     (case get_capability_uncertainty E (pp_capability_id p) of
        Some q \<Rightarrow> Some q
      | None \<Rightarrow>
          (case dict_get [(''model'', 5 / 10), (''rag'', 3 / 10), (''agent'', 6 / 10), (''device'', 0), (''software'', 0), (''tool'', 1 / 10),
              (''notification'', 0), (''automation'', 0), (''connector'', 3 / 10)] (get_capability_category E (pp_capability_id p)) of
             Some q \<Rightarrow> Some q
           | None \<Rightarrow> if capability_registered E (pp_capability_id p) then Some 0 else None))"

definition provider_uncertainty :: "authz_context \<Rightarrow> rat option" where
  "provider_uncertainty c =
     (if cx_session_locality c = ''local'' then Some (1 / 10)
      else if cx_session_locality c = ''remote'' then Some (5 / 10) else None)"

definition recovery_difficulty :: "action_proposal \<Rightarrow> rat option" where
  "recovery_difficulty p =
     (if pp_reversibility p = ''reversible'' then Some 0
      else if pp_reversibility p = ''partially_reversible'' then Some (5 / 10)
      else if pp_reversibility p = ''irreversible'' then Some (95 / 100) else None)"

definition privacy_exposure :: "action_proposal \<Rightarrow> rat option" where
  "privacy_exposure p =
     dict_get [(''public'', 0), (''internal'', 2 / 10), (''confidential'', 6 / 10), (''restricted'', 95 / 100)] (pp_data_classification p)"

definition locality_change :: "action_proposal \<Rightarrow> authz_context \<Rightarrow> rat option" where
  "locality_change p c =
     (if pp_target_node p = [] then Some 0 else if cx_session_locality c = ''local'' then Some (3 / 10) else Some (7 / 10))"

definition credential_impact :: "action_proposal \<Rightarrow> rat option" where
  "credential_impact p =
     (if ''credential'' \<in> set (pp_required_permissions p) \<or> ''secret'' \<in> set (pp_required_permissions p) then Some (8 / 10)
      else if startswith (pp_capability_id p) ''credential.'' then Some (9 / 10) else Some 0)"

definition deployment_impact :: "action_proposal \<Rightarrow> rat option" where
  "deployment_impact p =
     (let channel = pp_deployment_channel p in
      if channel = ''production'' then Some (95 / 100) else if channel = ''staging'' then Some (5 / 10)
      else if channel = ''test'' then Some (1 / 10) else Some 0)"

definition build_sources :: "jobj option \<Rightarrow> string list" where
  "build_sources m = ''action_proposal'' # (case m of None \<Rightarrow> [] | Some kvs \<Rightarrow> if kvs \<noteq> [] then [''capability_manifest''] else [])"

definition risk_dims :: "gov_env \<Rightarrow> action_proposal \<Rightarrow> authz_context \<Rightarrow> jobj option \<Rightarrow> (string \<times> rat option) list" where
  "risk_dims E p c m =
     [(''data_sensitivity'', data_sensitivity (pp_data_classification p)), (''execution_risk'', execution_risk p m),
      (''external_side_effect_risk'', side_effect_risk p), (''financial_risk'', financial_risk p),
      (''privilege_risk'', privilege_risk E p m), (''availability_risk'', availability_risk p),
      (''irreversibility'', irreversibility p), (''scope_breadth'', scope_breadth p), (''model_uncertainty'', model_uncertainty E p),
      (''provider_uncertainty'', provider_uncertainty c), (''recovery_difficulty'', recovery_difficulty p),
      (''privacy_exposure'', privacy_exposure p), (''locality_change'', locality_change p c),
      (''credential_impact'', credential_impact p), (''deployment_impact'', deployment_impact p)]"

definition known_dims :: "(string \<times> rat option) list \<Rightarrow> (string \<times> rat) list" where
  "known_dims dims = List.map_filter (\<lambda>(n, v). map_option (Pair n) v) dims"

definition unknown_dims :: "(string \<times> rat option) list \<Rightarrow> string list" where
  "unknown_dims dims = map fst (filter (\<lambda>(n, v). v = None) dims)"

text \<open>\<open>max(known, key=...)\<close>: the first of the largest.\<close>

definition first_max :: "(string \<times> rat) \<Rightarrow> (string \<times> rat) list \<Rightarrow> string \<times> rat" where
  "first_max x xs = foldl (\<lambda>a b. if snd a < snd b then b else a) x xs"

text \<open>\<open>_aggregate\<close>: a ceiling over the values and over the number of unknown dimensions.\<close>

definition risk_aggregate :: "rat list \<Rightarrow> nat \<Rightarrow> string" where
  "risk_aggregate values unknown =
     (if values = [] then ''critical''
      else let m = foldl max (hd values) (tl values) in
        if m \<ge> 9 / 10 \<or> unknown \<ge> 3 then ''critical''
        else if m \<ge> 7 / 10 \<or> unknown \<ge> 2 then ''high''
        else if m \<ge> 4 / 10 \<or> unknown \<ge> 1 then ''medium''
        else ''low'')"

definition assess_risk :: "gov_env \<Rightarrow> action_proposal \<Rightarrow> authz_context \<Rightarrow> jobj option \<Rightarrow> risk_envelope" where
  "assess_risk E p c m =
     (let dims = risk_dims E p c m; known = known_dims dims; unknown = unknown_dims dims;
          (max_dim, max_val) = (case known of [] \<Rightarrow> (''unknown'', 1) | x # xs \<Rightarrow> first_max x xs);
          dim = (\<lambda>k. dict_get_or dims k None)
      in \<lparr>re_envelope_id = ge_id E ''re'' 0, re_proposal_hash = pp_proposal_hash p,
          re_data_sensitivity = dim ''data_sensitivity'', re_execution_risk = dim ''execution_risk'',
          re_external_side_effect_risk = dim ''external_side_effect_risk'', re_financial_risk = dim ''financial_risk'',
          re_privilege_risk = dim ''privilege_risk'', re_availability_risk = dim ''availability_risk'',
          re_irreversibility = dim ''irreversibility'', re_scope_breadth = dim ''scope_breadth'',
          re_model_uncertainty = dim ''model_uncertainty'', re_provider_uncertainty = dim ''provider_uncertainty'',
          re_recovery_difficulty = dim ''recovery_difficulty'', re_privacy_exposure = dim ''privacy_exposure'',
          re_locality_change = dim ''locality_change'', re_credential_impact = dim ''credential_impact'',
          re_deployment_impact = dim ''deployment_impact'', re_evidence_sources = build_sources m,
          re_unknown_dimensions = unknown, re_assessed_at = ge_now E, re_assessed_by = ''risk_engine'',
          re_aggregate_risk_class = risk_aggregate (map snd known) (length unknown),
          re_max_dimension = max_dim, re_max_dimension_value = max_val, re_schema_version = SCHEMA_VERSION\<rparr>)"

section \<open>The runtime mode\<close>

datatype runtime_mode = GM_DEVELOPMENT | GM_TEST | GM_COMPATIBILITY | GM_STRICT | GM_PRODUCTION

fun runtime_mode_value :: "runtime_mode \<Rightarrow> string" where
  "runtime_mode_value GM_DEVELOPMENT = ''development''"
| "runtime_mode_value GM_TEST = ''test''"
| "runtime_mode_value GM_COMPATIBILITY = ''compatibility''"
| "runtime_mode_value GM_STRICT = ''strict''"
| "runtime_mode_value GM_PRODUCTION = ''production''"

record mode_policy =
  mp_mode :: runtime_mode
  mp_fail_closed :: bool
  mp_compatibility_bypass_allowed :: bool
  mp_audit_required :: bool

definition parse_runtime_mode :: "string option \<Rightarrow> pyexn + runtime_mode option" where
  "parse_runtime_mode v =
     (case v of
        None \<Rightarrow> Inr None
      | Some s \<Rightarrow>
          let n = py_replace ''-'' ''_'' (py_lower (py_strip s));
              n = dict_get_or [(''dev'', ''development''), (''prod'', ''production''), (''compat'', ''compatibility'')] n n
          in case find (\<lambda>m. runtime_mode_value m = n) [GM_DEVELOPMENT, GM_TEST, GM_COMPATIBILITY, GM_STRICT, GM_PRODUCTION] of
            Some m \<Rightarrow> Inr (Some m)
          | None \<Rightarrow> Inl (ValueError (''Unknown governance runtime mode: '' @ s)))"

definition resolve_runtime_mode :: "gov_env \<Rightarrow> string \<Rightarrow> pyexn + runtime_mode" where
  "resolve_runtime_mode E surface =
     bindE (parse_runtime_mode (ge_vars E ''NOUS_RUNTIME_MODE'')) (\<lambda>explicit.
       Inr (case explicit of
          Some m \<Rightarrow> m
        | None \<Rightarrow>
            let var = py_lower (py_strip (case ge_vars E ''NOUS_ENV'' of None \<Rightarrow> [] | Some s \<Rightarrow> s)) in
            if var = ''production'' then GM_PRODUCTION
            else if var = ''test'' then GM_TEST
            else if surface \<in> {''server'', ''api'', ''control_plane'', ''work_harness''} then GM_PRODUCTION
            else GM_DEVELOPMENT))"

definition mode_policy_of :: "gov_env \<Rightarrow> string option \<Rightarrow> string \<Rightarrow> pyexn + mode_policy" where
  "mode_policy_of E mode surface =
     bindE (parse_runtime_mode mode) (\<lambda>m.
     bindE (case m of Some m \<Rightarrow> Inr m | None \<Rightarrow> resolve_runtime_mode E surface) (\<lambda>resolved.
       Inr \<lparr>mp_mode = resolved, mp_fail_closed = resolved \<in> {GM_STRICT, GM_PRODUCTION},
            mp_compatibility_bypass_allowed = resolved \<in> {GM_DEVELOPMENT, GM_TEST, GM_COMPATIBILITY},
            mp_audit_required = resolved \<in> {GM_COMPATIBILITY, GM_STRICT, GM_PRODUCTION}\<rparr>))"

definition should_fail_closed :: "gov_env \<Rightarrow> string option \<Rightarrow> string \<Rightarrow> pyexn + bool" where
  "should_fail_closed E mode surface = bindE (mode_policy_of E mode surface) (\<lambda>p. Inr (mp_fail_closed p))"

end
