(* ===== verification/Governance_Store.thy ===== *)
theory Governance_Store
  imports Governance_Policy
begin

text \<open>
  Persistence of the governance layer (\<open>nous_runtime/governance/store.py\<close>): the tables as lists of
  rows in the order of their row ids, one function per method. Columns that repeat fields of the
  JSON of a row are kept only where a query reads them. A method catches every exception, also
  those of SQLite; \<open>ge_up\<close> tells which calls SQLite carries out, and a call that fails changes
  nothing. Where a query has \<open>LIMIT 1\<close> without an order the first row is taken.
\<close>

section \<open>Tables\<close>

record operation_row =
  ow_authorization_id :: string
  ow_operation_id :: string
  ow_request :: jobj

record proposal_row =
  pw_id :: string
  pw_hash :: string
  pw_json :: jobj

record decision_row =
  dw_id :: string
  dw_json :: jobj

record request_row =
  qw_id :: string
  qw_hash :: string
  qw_status :: string
  qw_requested_by :: string
  qw_requested_at :: string
  qw_expires_at :: string
  qw_json :: jobj

record response_row =
  sw_id :: string
  sw_request_id :: string
  sw_hash :: string
  sw_decision :: string
  sw_approver_id :: string
  sw_json :: jobj

record lease_row =
  lr_lease_id :: string
  lr_proposal_hash :: string
  lr_approval_id :: string
  lr_subject_id :: string
  lr_max_uses :: int
  lr_remaining_uses :: int
  lr_issued_at :: string
  lr_expires_at :: string
  lr_status :: string
  lr_json :: jobj

record use_row =
  uw_log_id :: string
  uw_lease_id :: string
  uw_execution_id :: string
  uw_consumed_at :: string
  uw_remaining_after :: int

record delegation_row =
  gw_id :: string
  gw_subject_id :: string
  gw_issued_at :: string
  gw_status :: string
  gw_json :: jobj

record revocation_row =
  vw_id :: string
  vw_target_type :: string
  vw_target_id :: string
  vw_json :: jobj

record audit_row =
  aw_id :: string
  aw_event_type :: string
  aw_decision_id :: string
  aw_proposal_hash :: string
  aw_evidence :: json
  aw_recorded_at :: string
  aw_previous_hash :: string

record policy_row =
  yw_policy_id :: string
  yw_agent_id :: string
  yw_capability_id :: string
  yw_json :: jobj

record gov_db =
  gd_operations :: "operation_row list"
  gd_proposals :: "proposal_row list"
  gd_decisions :: "decision_row list"
  gd_requests :: "request_row list"
  gd_responses :: "response_row list"
  gd_leases :: "lease_row list"
  gd_uses :: "use_row list"
  gd_delegations :: "delegation_row list"
  gd_revocations :: "revocation_row list"
  gd_audit :: "audit_row list"
  gd_policies :: "policy_row list"

definition gov_empty :: gov_db where
  "gov_empty = \<lparr>gd_operations = [], gd_proposals = [], gd_decisions = [], gd_requests = [], gd_responses = [], gd_leases = [],
     gd_uses = [], gd_delegations = [], gd_revocations = [], gd_audit = [], gd_policies = []\<rparr>"

section \<open>Rows from dictionaries\<close>

text \<open>\<open>d[k]\<close> where a text is expected\<close>

definition item_text :: "jobj \<Rightarrow> string \<Rightarrow> pyexn + string" where
  "item_text d k = (case dict_get d k of None \<Rightarrow> Inl (KeyError k) | Some (JStr s) \<Rightarrow> Inr s | _ \<Rightarrow> Inl OutsideModel)"

definition proposal_row_of :: "jobj \<Rightarrow> pyexn + proposal_row" where
  "proposal_row_of d =
     bindE (item_text d ''proposal_id'') (\<lambda>i. bindE (item_text d ''proposal_hash'') (\<lambda>h.
       Inr \<lparr>pw_id = i, pw_hash = h, pw_json = d\<rparr>))"

definition decision_row_of :: "jobj \<Rightarrow> pyexn + decision_row" where
  "decision_row_of d = bindE (item_text d ''decision_id'') (\<lambda>i. bindE (item_text d ''proposal_hash'') (\<lambda>_.
     Inr \<lparr>dw_id = i, dw_json = d\<rparr>))"

definition request_row_of :: "jobj \<Rightarrow> pyexn + request_row" where
  "request_row_of d =
     bindE (item_text d ''request_id'') (\<lambda>i. bindE (item_text d ''proposal_hash'') (\<lambda>h.
     bindE (get_text d ''status'' ''CREATED'') (\<lambda>st. bindE (get_text d ''requested_by'' []) (\<lambda>by'.
     bindE (get_text d ''requested_at'' []) (\<lambda>at'. bindE (get_text d ''expires_at'' []) (\<lambda>ex.
       Inr \<lparr>qw_id = i, qw_hash = h, qw_status = st, qw_requested_by = by', qw_requested_at = at', qw_expires_at = ex, qw_json = d\<rparr>))))))"

definition response_row_of :: "jobj \<Rightarrow> pyexn + response_row" where
  "response_row_of d =
     bindE (item_text d ''response_id'') (\<lambda>i. bindE (item_text d ''request_id'') (\<lambda>q.
     bindE (item_text d ''proposal_hash'') (\<lambda>h. bindE (item_text d ''decision'') (\<lambda>dec.
     bindE (get_text d ''approver_id'' []) (\<lambda>by'.
       Inr \<lparr>sw_id = i, sw_request_id = q, sw_hash = h, sw_decision = dec, sw_approver_id = by', sw_json = d\<rparr>)))))"

definition lease_row_of :: "jobj \<Rightarrow> pyexn + lease_row" where
  "lease_row_of d =
     bindE (item_text d ''lease_id'') (\<lambda>i. bindE (item_text d ''proposal_hash'') (\<lambda>h.
     bindE (get_text d ''approval_id'' []) (\<lambda>ap. bindE (get_text d ''subject_id'' []) (\<lambda>sub.
     bindE (get_int d ''max_uses'' 1) (\<lambda>mx. bindE (get_int d ''remaining_uses'' 1) (\<lambda>rem.
     bindE (get_text d ''issued_at'' []) (\<lambda>is'. bindE (get_text d ''expires_at'' []) (\<lambda>ex.
     bindE (get_text d ''status'' ''ACTIVE'') (\<lambda>st.
       Inr \<lparr>lr_lease_id = i, lr_proposal_hash = h, lr_approval_id = ap, lr_subject_id = sub, lr_max_uses = mx,
            lr_remaining_uses = rem, lr_issued_at = is', lr_expires_at = ex, lr_status = st, lr_json = d\<rparr>)))))))))"

definition delegation_row_of :: "jobj \<Rightarrow> pyexn + delegation_row" where
  "delegation_row_of d =
     bindE (item_text d ''grant_id'') (\<lambda>i. bindE (get_text d ''subject_id'' []) (\<lambda>sub.
     bindE (get_text d ''issued_at'' []) (\<lambda>at'. bindE (get_text d ''status'' ''DRAFT'') (\<lambda>st.
       Inr \<lparr>gw_id = i, gw_subject_id = sub, gw_issued_at = at', gw_status = st, gw_json = d\<rparr>))))"

definition revocation_row_of :: "jobj \<Rightarrow> pyexn + revocation_row" where
  "revocation_row_of d =
     bindE (item_text d ''revocation_id'') (\<lambda>i. bindE (get_text d ''target_type'' []) (\<lambda>ty.
     bindE (item_text d ''target_id'') (\<lambda>tg.
       Inr \<lparr>vw_id = i, vw_target_type = ty, vw_target_id = tg, vw_json = d\<rparr>)))"

text \<open>A method that answers whether its transaction went through.\<close>

definition carried_out :: "bool \<Rightarrow> pyexn + gov_db \<Rightarrow> gov_db \<Rightarrow> bool \<times> gov_db" where
  "carried_out up r db = (case r of Inr db' \<Rightarrow> if up then (True, db') else (False, db) | Inl _ \<Rightarrow> (False, db))"

section \<open>The audit chain\<close>

definition audit_row_hash :: "gov_lib \<Rightarrow> audit_row \<Rightarrow> string" where
  "audit_row_hash L r =
     gl_sha256 L (json_text (gl_float L) False '', '' '': '' (json_sort (JObj
       [(''audit_id'', JStr (aw_id r)), (''event_type'', JStr (aw_event_type r)), (''decision_id'', JStr (aw_decision_id r)),
        (''proposal_hash'', JStr (aw_proposal_hash r)),
        (''evidence_json'', JStr (json_text (gl_float L) True '', '' '': '' (aw_evidence r))),
        (''recorded_at'', JStr (aw_recorded_at r)), (''previous_audit_hash'', JStr (aw_previous_hash r))])))"

definition last_audit_hash :: "gov_lib \<Rightarrow> gov_db \<Rightarrow> string" where
  "last_audit_hash L db = (if gd_audit db = [] then [] else audit_row_hash L (last (gd_audit db)))"

definition audit_append :: "gov_lib \<Rightarrow> audit_row \<Rightarrow> gov_db \<Rightarrow> gov_db" where
  "audit_append L r db = db\<lparr>gd_audit := gd_audit db @ [r\<lparr>aw_previous_hash := last_audit_hash L db\<rparr>]\<rparr>"

text \<open>\<open>_insert_audit\<close>: a bundle id that is taken violates the primary key.\<close>

definition insert_audit :: "gov_lib \<Rightarrow> jobj \<Rightarrow> gov_db \<Rightarrow> pyexn + gov_db" where
  "insert_audit L d db =
     bindE (item_text d ''bundle_id'') (\<lambda>i. bindE (get_text d ''event_type'' []) (\<lambda>ev.
     bindE (get_text d ''decision_id'' []) (\<lambda>dec. bindE (get_text d ''proposal_hash'' []) (\<lambda>h.
     bindE (get_text d ''recorded_at'' []) (\<lambda>at'.
       if \<exists>r \<in> set (gd_audit db). aw_id r = i
       then Inl (RuntimeError ''UNIQUE constraint failed: governance_audit.audit_id'')
       else Inr (audit_append L \<lparr>aw_id = i, aw_event_type = ev, aw_decision_id = dec, aw_proposal_hash = h,
         aw_evidence = redact_sensitive_data (gl_known L) (dict_get_or d ''evidence'' (JObj [])),
         aw_recorded_at = at', aw_previous_hash = []\<rparr> db))))))"

text \<open>\<open>append_operation_audit\<close>, in the transaction of the caller; an identifier that is taken raises.\<close>

definition append_operation_audit :: "gov_lib \<Rightarrow> gov_env \<Rightarrow> string \<Rightarrow> jobj \<Rightarrow> gov_db \<Rightarrow> pyexn + gov_db" where
  "append_operation_audit L E ev evidence db =
     (let i = ge_id E ''aud'' (length (gd_audit db));
          a = (case dict_get_or evidence ''authorization_id'' (JStr []) of JStr s \<Rightarrow> s | _ \<Rightarrow> []) in
      if \<exists>r \<in> set (gd_audit db). aw_id r = i
      then Inl (RuntimeError ''UNIQUE constraint failed: governance_audit.audit_id'')
      else Inr (audit_append L \<lparr>aw_id = i, aw_event_type = ev, aw_decision_id = a, aw_proposal_hash = a,
        aw_evidence = json_sort (redact_sensitive_data (gl_known L) (JObj evidence)), aw_recorded_at = ge_now E,
        aw_previous_hash = []\<rparr> db))"

fun chain_from :: "gov_lib \<Rightarrow> string \<Rightarrow> audit_row list \<Rightarrow> bool" where
  "chain_from L expected [] \<longleftrightarrow> True"
| "chain_from L expected (r # rs) \<longleftrightarrow> aw_previous_hash r = expected \<and> chain_from L (audit_row_hash L r) rs"

definition verify_audit_chain :: "gov_lib \<Rightarrow> gov_env \<Rightarrow> gov_db \<Rightarrow> bool" where
  "verify_audit_chain L E db \<longleftrightarrow> ge_up E ''verify_audit_chain'' \<and> chain_from L [] (gd_audit db)"

definition save_audit :: "gov_lib \<Rightarrow> gov_env \<Rightarrow> jobj \<Rightarrow> gov_db \<Rightarrow> bool \<times> gov_db" where
  "save_audit L E d db = carried_out (ge_up E ''save_audit'') (insert_audit L d db) db"

definition get_audit_for_decision :: "gov_env \<Rightarrow> string \<Rightarrow> gov_db \<Rightarrow> jobj option" where
  "get_audit_for_decision E i db =
     (if \<not> ge_up E ''get_audit_for_decision'' then None
      else map_option (\<lambda>r. [(''evidence'', aw_evidence r), (''recorded_at'', JStr (aw_recorded_at r)),
          (''previous_audit_hash'', JStr (aw_previous_hash r))])
        (find (\<lambda>r. aw_decision_id r = i) (gd_audit db)))"

section \<open>Proposals and decisions\<close>

definition insert_proposal :: "jobj \<Rightarrow> gov_db \<Rightarrow> pyexn + gov_db" where
  "insert_proposal d db =
     bindE (proposal_row_of d) (\<lambda>r.
       Inr (if \<exists>x \<in> set (gd_proposals db). pw_id x = pw_id r \<or> pw_hash x = pw_hash r then db
            else db\<lparr>gd_proposals := gd_proposals db @ [r]\<rparr>))"

definition insert_decision :: "jobj \<Rightarrow> gov_db \<Rightarrow> pyexn + gov_db" where
  "insert_decision d db =
     bindE (decision_row_of d) (\<lambda>r.
       Inr (if \<exists>x \<in> set (gd_decisions db). dw_id x = dw_id r then db
            else db\<lparr>gd_decisions := gd_decisions db @ [r]\<rparr>))"

definition save_proposal :: "gov_env \<Rightarrow> jobj \<Rightarrow> gov_db \<Rightarrow> bool \<times> gov_db" where
  "save_proposal E d db = carried_out (ge_up E ''save_proposal'') (insert_proposal d db) db"

definition save_decision :: "gov_env \<Rightarrow> jobj \<Rightarrow> gov_db \<Rightarrow> bool \<times> gov_db" where
  "save_decision E d db = carried_out (ge_up E ''save_decision'') (insert_decision d db) db"

definition get_proposal :: "gov_env \<Rightarrow> string \<Rightarrow> gov_db \<Rightarrow> jobj option" where
  "get_proposal E h db =
     (if ge_up E ''get_proposal'' then map_option pw_json (find (\<lambda>r. pw_hash r = h) (gd_proposals db)) else None)"

definition get_decision :: "gov_env \<Rightarrow> string \<Rightarrow> gov_db \<Rightarrow> jobj option" where
  "get_decision E i db =
     (if ge_up E ''get_decision'' then map_option dw_json (find (\<lambda>r. dw_id r = i) (gd_decisions db)) else None)"

text \<open>
  \<open>save_authorization\<close>: one transaction with three stages and the commit; the answer is empty, or
  names the stage that failed.
\<close>

definition at_stage :: "gov_env \<Rightarrow> string \<Rightarrow> pyexn + gov_db \<Rightarrow> string + gov_db" where
  "at_stage E stage r =
     (case r of Inr db \<Rightarrow> if ge_up E stage then Inr db else Inl (stage @ ''_STORE_UNAVAILABLE'')
      | Inl _ \<Rightarrow> Inl (stage @ ''_STORE_UNAVAILABLE''))"

definition save_authorization ::
  "gov_lib \<Rightarrow> gov_env \<Rightarrow> jobj option \<Rightarrow> jobj \<Rightarrow> jobj \<Rightarrow> gov_db \<Rightarrow> string \<times> gov_db" where
  "save_authorization L E proposal decision audit db =
     (case bindE (case proposal of None \<Rightarrow> Inr db | Some d \<Rightarrow> at_stage E ''PROPOSAL'' (insert_proposal d db)) (\<lambda>db1.
           bindE (at_stage E ''DECISION'' (insert_decision decision db1)) (\<lambda>db2.
           bindE (at_stage E ''AUDIT'' (insert_audit L audit db2)) (\<lambda>db3.
             at_stage E ''AUTHORIZATION'' (Inr db3)))) of
        Inr db' \<Rightarrow> ([], db')
      | Inl code \<Rightarrow> (code, db))"

section \<open>Approvals\<close>

definition save_approval_request :: "gov_env \<Rightarrow> jobj \<Rightarrow> gov_db \<Rightarrow> bool \<times> gov_db" where
  "save_approval_request E d db = carried_out (ge_up E ''save_approval_request'')
     (bindE (request_row_of d) (\<lambda>r.
        Inr (db\<lparr>gd_requests := filter (\<lambda>x. qw_id x \<noteq> qw_id r) (gd_requests db) @ [r]\<rparr>))) db"

definition request_of :: "gov_db \<Rightarrow> string \<Rightarrow> request_row option" where
  "request_of db i = find (\<lambda>r. qw_id r = i) (gd_requests db)"

definition get_approval_request :: "gov_env \<Rightarrow> string \<Rightarrow> gov_db \<Rightarrow> jobj option" where
  "get_approval_request E i db =
     (if ge_up E ''get_approval_request''
      then map_option (\<lambda>r. dict_set ''status'' (JStr (qw_status r)) (qw_json r)) (request_of db i) else None)"

definition set_request_status :: "(request_row \<Rightarrow> bool) \<Rightarrow> string \<Rightarrow> gov_db \<Rightarrow> gov_db" where
  "set_request_status P st db = db\<lparr>gd_requests := map (\<lambda>r. if P r then r\<lparr>qw_status := st\<rparr> else r) (gd_requests db)\<rparr>"

definition update_approval_status :: "gov_env \<Rightarrow> string \<Rightarrow> string \<Rightarrow> gov_db \<Rightarrow> bool \<times> gov_db" where
  "update_approval_status E i st db =
     carried_out (ge_up E ''update_approval_status'') (Inr (set_request_status (\<lambda>r. qw_id r = i) st db)) db"

definition expire_approval :: "gov_env \<Rightarrow> string \<Rightarrow> gov_db \<Rightarrow> bool \<times> gov_db" where
  "expire_approval E i db =
     (let P = (\<lambda>r. qw_id r = i \<and> qw_status r = ''PENDING'') in
      if ge_up E ''expire_approval''
      then (length (filter P (gd_requests db)) = 1, set_request_status P ''EXPIRED'' db)
      else (False, db))"

definition insert_response :: "jobj \<Rightarrow> gov_db \<Rightarrow> pyexn + gov_db" where
  "insert_response d db =
     bindE (response_row_of d) (\<lambda>r.
       if \<exists>x \<in> set (gd_responses db). sw_id x = sw_id r
       then Inl (RuntimeError ''UNIQUE constraint failed: governance_approval_responses.response_id'')
       else Inr (db\<lparr>gd_responses := gd_responses db @ [r]\<rparr>))"

definition insert_lease :: "jobj \<Rightarrow> gov_db \<Rightarrow> pyexn + gov_db" where
  "insert_lease d db =
     bindE (lease_row_of d) (\<lambda>r.
       if \<exists>x \<in> set (gd_leases db). lr_lease_id x = lr_lease_id r
       then Inl (RuntimeError ''UNIQUE constraint failed: governance_leases.lease_id'')
       else Inr (db\<lparr>gd_leases := gd_leases db @ [r]\<rparr>))"

text \<open>
  \<open>resolve_approval\<close>: one transaction. The admission check of the caller runs in it and may raise;
  like every exception this rolls back and answers \<open>False\<close>.
\<close>

definition resolve_approval ::
  "gov_env \<Rightarrow> string \<Rightarrow> string \<Rightarrow> string \<Rightarrow> jobj \<Rightarrow> jobj option \<Rightarrow> (gov_db \<Rightarrow> pyexn + gov_db) option \<Rightarrow>
   gov_db \<Rightarrow> bool \<times> gov_db" where
  "resolve_approval E i expected new_status response lease check db =
     carried_out (ge_up E ''resolve_approval'')
      (bindE (case check of None \<Rightarrow> Inr db | Some f \<Rightarrow> f db) (\<lambda>db.
         let P = (\<lambda>r. qw_id r = i \<and> qw_status r = expected) in
         if length (filter P (gd_requests db)) \<noteq> 1 then Inl (RuntimeError ''ROLLBACK'')
         else bindE (insert_response response (set_request_status P new_status db)) (\<lambda>db.
           case lease of None \<Rightarrow> Inr db | Some d \<Rightarrow> insert_lease d db))) db"

text \<open>\<open>ORDER BY ... DESC\<close>, equal keys in the order of the rows\<close>

definition newest_first :: "('a \<Rightarrow> string) \<Rightarrow> 'a list \<Rightarrow> 'a list" where
  "newest_first f xs = rev (sort_key f (rev xs))"

definition list_pending_approvals :: "gov_env \<Rightarrow> string \<Rightarrow> gov_db \<Rightarrow> jobj list" where
  "list_pending_approvals E subject db =
     (if ge_up E ''list_pending_approvals''
      then map qw_json (newest_first qw_requested_at (filter (\<lambda>r. qw_status r = ''PENDING'' \<and>
        (subject = [] \<or> qw_requested_by r = subject)) (gd_requests db)))
      else [])"

definition save_approval_response :: "gov_env \<Rightarrow> jobj \<Rightarrow> gov_db \<Rightarrow> bool \<times> gov_db" where
  "save_approval_response E d db = carried_out (ge_up E ''save_approval_response'')
     (bindE (response_row_of d) (\<lambda>r.
        Inr (if \<exists>x \<in> set (gd_responses db). sw_id x = sw_id r then db
             else db\<lparr>gd_responses := gd_responses db @ [r]\<rparr>))) db"

section \<open>Leases\<close>

definition save_lease :: "gov_env \<Rightarrow> jobj \<Rightarrow> gov_db \<Rightarrow> bool \<times> gov_db" where
  "save_lease E d db = carried_out (ge_up E ''save_lease'')
     (bindE (lease_row_of d) (\<lambda>r.
        Inr (db\<lparr>gd_leases := filter (\<lambda>x. lr_lease_id x \<noteq> lr_lease_id r) (gd_leases db) @ [r]\<rparr>))) db"

definition lease_of :: "gov_db \<Rightarrow> string \<Rightarrow> lease_row option" where
  "lease_of db l = find (\<lambda>r. lr_lease_id r = l) (gd_leases db)"

definition lease_view :: "lease_row \<Rightarrow> jobj" where
  "lease_view r = dict_set ''status'' (JStr (lr_status r)) (dict_set ''remaining_uses'' (JInt (lr_remaining_uses r)) (lr_json r))"

definition get_lease :: "gov_env \<Rightarrow> string \<Rightarrow> gov_db \<Rightarrow> jobj option" where
  "get_lease E l db = (if ge_up E ''get_lease'' then map_option lease_view (lease_of db l) else None)"

definition active_lease_row :: "gov_db \<Rightarrow> string \<Rightarrow> string \<Rightarrow> lease_row option" where
  "active_lease_row db h subject =
     find (\<lambda>r. lr_proposal_hash r = h \<and> lr_subject_id r = subject \<and> lr_status r = ''ACTIVE'' \<and> 0 < lr_remaining_uses r) (gd_leases db)"

definition get_active_lease_for_proposal :: "gov_env \<Rightarrow> string \<Rightarrow> string \<Rightarrow> gov_db \<Rightarrow> jobj option" where
  "get_active_lease_for_proposal E h subject db =
     (if ge_up E ''get_active_lease'' then map_option lease_view (active_lease_row db h subject) else None)"

definition set_lease :: "string \<Rightarrow> (lease_row \<Rightarrow> lease_row) \<Rightarrow> gov_db \<Rightarrow> gov_db" where
  "set_lease l f db = db\<lparr>gd_leases := map (\<lambda>r. if lr_lease_id r = l then f r else r) (gd_leases db)\<rparr>"

definition update_lease_status :: "gov_env \<Rightarrow> string \<Rightarrow> string \<Rightarrow> gov_db \<Rightarrow> bool \<times> gov_db" where
  "update_lease_status E l st db =
     carried_out (ge_up E ''update_lease_status'') (Inr (set_lease l (\<lambda>r. r\<lparr>lr_status := st\<rparr>) db)) db"

definition prior_use :: "gov_db \<Rightarrow> string \<Rightarrow> string \<Rightarrow> use_row option" where
  "prior_use db l x = find (\<lambda>u. uw_lease_id u = l \<and> uw_execution_id u = x) (gd_uses db)"

text \<open>The part of \<open>consume_lease\<close> that takes one use; a log id that is taken is ignored.\<close>

definition take_use :: "gov_env \<Rightarrow> string \<Rightarrow> string \<Rightarrow> string \<Rightarrow> lease_row \<Rightarrow> gov_db \<Rightarrow> gov_db" where
  "take_use E log_id l x r db =
     (let n = lr_remaining_uses r - 1;
          db = set_lease l (\<lambda>r. r\<lparr>lr_remaining_uses := n, lr_status := (if n = 0 then ''EXHAUSTED'' else ''ACTIVE'')\<rparr>) db
      in if \<exists>u \<in> set (gd_uses db). uw_log_id u = log_id then db
         else db\<lparr>gd_uses := gd_uses db @ [\<lparr>uw_log_id = log_id, uw_lease_id = l, uw_execution_id = x, uw_consumed_at = ge_now E,
           uw_remaining_after = n\<rparr>]\<rparr>)"

definition consume_lease :: "gov_env \<Rightarrow> string \<Rightarrow> string \<Rightarrow> gov_db \<Rightarrow> (bool \<times> int) \<times> gov_db" where
  "consume_lease E l x db =
     (if \<not> ge_up E ''consume_lease'' then ((False, 0), db)
      else case prior_use db l x of
          Some u \<Rightarrow> ((True, uw_remaining_after u), db)
        | None \<Rightarrow>
            (case lease_of db l of
               None \<Rightarrow> ((False, 0), db)
             | Some r \<Rightarrow>
                 if lr_status r \<noteq> ''ACTIVE'' \<or> lr_remaining_uses r \<le> 0 then ((False, lr_remaining_uses r), db)
                 else if lr_expires_at r \<noteq> [] \<and> lr_expires_at r \<le> ge_now E
                 then ((False, lr_remaining_uses r), set_lease l (\<lambda>r. r\<lparr>lr_status := ''EXPIRED''\<rparr>) db)
                 else ((True, lr_remaining_uses r - 1), take_use E (ge_id E ''lcl'' 0) l x r db)))"

definition list_active_leases :: "gov_env \<Rightarrow> string \<Rightarrow> gov_db \<Rightarrow> jobj list" where
  "list_active_leases E subject db =
     (if ge_up E ''list_active_leases''
      then map lr_json (newest_first lr_issued_at (filter (\<lambda>r. lr_status r = ''ACTIVE'' \<and>
        (subject = [] \<or> lr_subject_id r = subject)) (gd_leases db)))
      else [])"

section \<open>Delegations and revocations\<close>

definition save_delegation :: "gov_env \<Rightarrow> jobj \<Rightarrow> gov_db \<Rightarrow> bool \<times> gov_db" where
  "save_delegation E d db = carried_out (ge_up E ''save_delegation'')
     (bindE (delegation_row_of d) (\<lambda>r.
        Inr (db\<lparr>gd_delegations := filter (\<lambda>x. gw_id x \<noteq> gw_id r) (gd_delegations db) @ [r]\<rparr>))) db"

text \<open>\<open>get_delegation\<close> gives the JSON as it was saved.\<close>

definition get_delegation :: "gov_env \<Rightarrow> string \<Rightarrow> gov_db \<Rightarrow> jobj option" where
  "get_delegation E g db =
     (if ge_up E ''get_delegation'' then map_option gw_json (find (\<lambda>r. gw_id r = g) (gd_delegations db)) else None)"

definition list_active_delegations :: "gov_env \<Rightarrow> string \<Rightarrow> gov_db \<Rightarrow> jobj list" where
  "list_active_delegations E subject db =
     (if ge_up E ''list_active_delegations''
      then map gw_json (newest_first gw_issued_at (filter (\<lambda>r. gw_status r = ''ACTIVE'' \<and>
        (subject = [] \<or> gw_subject_id r = subject)) (gd_delegations db)))
      else [])"

definition update_delegation_status :: "gov_env \<Rightarrow> string \<Rightarrow> string \<Rightarrow> gov_db \<Rightarrow> bool \<times> gov_db" where
  "update_delegation_status E g st db = carried_out (ge_up E ''update_delegation_status'')
     (Inr (db\<lparr>gd_delegations := map (\<lambda>r. if gw_id r = g then r\<lparr>gw_status := st\<rparr> else r) (gd_delegations db)\<rparr>)) db"

definition save_revocation :: "gov_env \<Rightarrow> jobj \<Rightarrow> gov_db \<Rightarrow> bool \<times> gov_db" where
  "save_revocation E d db = carried_out (ge_up E ''save_revocation'')
     (bindE (revocation_row_of d) (\<lambda>r.
        Inr (if \<exists>x \<in> set (gd_revocations db). vw_id x = vw_id r then db
             else db\<lparr>gd_revocations := gd_revocations db @ [r]\<rparr>))) db"

section \<open>Approval policies\<close>

definition save_approval_policy :: "gov_env \<Rightarrow> jobj \<Rightarrow> gov_db \<Rightarrow> bool \<times> gov_db" where
  "save_approval_policy E d db = carried_out (ge_up E ''save_approval_policy'')
     (bindE (item_text d ''policy_id'') (\<lambda>i. bindE (get_text d ''agent_id'' []) (\<lambda>a. bindE (get_text d ''capability_id'' []) (\<lambda>c.
        Inr (db\<lparr>gd_policies := filter (\<lambda>x. yw_policy_id x \<noteq> i) (gd_policies db) @
          [\<lparr>yw_policy_id = i, yw_agent_id = a, yw_capability_id = c, yw_json = d\<rparr>]\<rparr>))))) db"

definition get_approval_policy :: "gov_env \<Rightarrow> string \<Rightarrow> string \<Rightarrow> gov_db \<Rightarrow> jobj option" where
  "get_approval_policy E a c db =
     (if ge_up E ''get_approval_policy''
      then map_option yw_json (find (\<lambda>r. yw_agent_id r = a \<and> yw_capability_id r = c) (gd_policies db)) else None)"

end
