(* ===== verification/Governance_Gate.thy ===== *)
theory Governance_Gate
  imports Governance_Store
begin

text \<open>
  The authorization gate (\<open>nous_runtime/governance/gate.py\<close>) and the managers of approvals
  (\<open>approval.py\<close>), leases (\<open>lease.py\<close>) and delegations (\<open>delegation.py\<close>). An operation is a function on
  the database that answers a value or raises; what it has stored before it raises stays. Logging
  is left out.
\<close>

type_synonym 'a gov = "gov_db \<Rightarrow> (pyexn + 'a) \<times> gov_db"

section \<open>The managers\<close>

text \<open>\<open>format(q, '.4f')\<close>\<close>

definition py_fixed :: "nat \<Rightarrow> rat \<Rightarrow> string" where
  "py_fixed n q =
     (let k = nat \<lfloor>py_round n \<bar>q\<bar> * 10 ^ n\<rfloor>
      in (if q < 0 then ''-'' else []) @ show_nat (k div 10 ^ n) @ ''.'' @ pad n (k mod 10 ^ n))"

definition create_request :: "gov_env \<Rightarrow> action_proposal \<Rightarrow> authz_context \<Rightarrow> string \<Rightarrow> int \<Rightarrow> approval_request gov" where
  "create_request E p c risk_summary hours = (\<lambda>db.
     let q = \<lparr>aq_request_id = ge_id E ''apr'' 0, aq_proposal_hash = pp_proposal_hash p,
        aq_summary = pp_action_type p @ '': '' @ pp_capability_id p,
        aq_risk_summary = (if risk_summary = [] then pp_side_effect_class p else risk_summary),
        aq_scope_summary = ''Workspace: '' @ pp_target_workspace p @ '', Resources: '' @
          show_int (int (length (pp_affected_resources p))) @ '', Cost: $'' @ py_fixed 4 (pp_estimated_cost_usd p),
        aq_status = ''PENDING'', aq_requested_by = cx_subject_id c, aq_requested_at = ge_now E,
        aq_expires_at = ge_later E (hours * 3600), aq_priority = ''normal'', aq_schema_version = SCHEMA_VERSION\<rparr>
     in (Inr q, snd (save_approval_request E (approval_request_to_dict q) db)))"

text \<open>What \<open>approve\<close> and \<open>deny\<close> of the manager check first.\<close>

definition pending_request :: "gov_env \<Rightarrow> string \<Rightarrow> gov_db \<Rightarrow> pyexn + jobj" where
  "pending_request E i db =
     (case get_approval_request E i db of
        None \<Rightarrow> Inl (ValueError (''Approval request '' @ i @ '' not found''))
      | Some q \<Rightarrow>
          if q \<noteq> [] \<and> py_truthy (dict_get_or q ''operation_governance'' JNull)
          then Inl (PermissionError ''Use the authenticated Operation ApprovalBroker'')
          else if q = [] then Inl (ValueError (''Approval request '' @ i @ '' not found''))
          else bindE (item_text q ''status'') (\<lambda>st.
            if st \<noteq> ''PENDING''
            then Inl (ValueError (''Approval request '' @ i @ '' is not PENDING (status='' @ st @ '')''))
            else Inr q))"

definition manager_respond ::
  "gov_env \<Rightarrow> string \<Rightarrow> string \<Rightarrow> string \<Rightarrow> approval_scope option \<Rightarrow> string \<Rightarrow> approval_response gov" where
  "manager_respond E decision i approver scope reason = (\<lambda>db.
     case bindE (pending_request E i db) (\<lambda>q. item_text q ''proposal_hash'') of
       Inl e \<Rightarrow> (Inl e, db)
     | Inr h \<Rightarrow>
         let r = \<lparr>ar_response_id = ge_id E ''aprsp'' 0, ar_request_id = i, ar_proposal_hash = h, ar_decision = decision,
               ar_scope = scope, ar_approver_id = approver, ar_approver_method = ''cli'', ar_reason = reason,
               ar_responded_at = ge_now E, ar_schema_version = SCHEMA_VERSION\<rparr>;
             (done, db) = resolve_approval E i ''PENDING'' decision (approval_response_to_dict r) None None db
         in if done then (Inr r, db)
            else (Inl (ValueError (''Approval request '' @ i @ '' is no longer PENDING'')), db))"

definition manager_approve :: "gov_env \<Rightarrow> string \<Rightarrow> string \<Rightarrow> approval_scope option \<Rightarrow> string \<Rightarrow> approval_response gov" where
  "manager_approve E i approver scope reason = manager_respond E ''APPROVED'' i approver scope reason"

definition manager_deny :: "gov_env \<Rightarrow> string \<Rightarrow> string \<Rightarrow> string \<Rightarrow> approval_response gov" where
  "manager_deny E i approver reason = manager_respond E ''DENIED'' i approver None reason"

definition lease_issue ::
  "gov_env \<Rightarrow> action_proposal \<Rightarrow> approval_response \<Rightarrow> string \<Rightarrow> int \<Rightarrow> int \<Rightarrow> authz_lease gov" where
  "lease_issue E p r subject max_uses hours = (\<lambda>db.
     let l = \<lparr>al_lease_id = ge_id E ''al'' 0, al_proposal_hash = pp_proposal_hash p, al_approval_id = ar_response_id r,
        al_subject_id = (if subject = [] then ar_approver_id r else subject),
        al_scope = Some (case ar_scope r of None \<Rightarrow> scope_from_proposal p | Some s \<Rightarrow> s),
        al_max_uses = max_uses, al_remaining_uses = max_uses, al_issued_at = ge_now E,
        al_expires_at = ge_later E (hours * 3600), al_status = ''ACTIVE'', al_schema_version = SCHEMA_VERSION\<rparr>
     in (Inr l, snd (save_lease E (authz_lease_to_dict l) db)))"

definition lease_consume :: "gov_env \<Rightarrow> string \<Rightarrow> string \<Rightarrow> gov_db \<Rightarrow> (bool \<times> int) \<times> gov_db" where
  "lease_consume E l x = consume_lease E l x"

definition revocation_of :: "gov_env \<Rightarrow> string \<Rightarrow> string \<Rightarrow> string \<Rightarrow> string \<Rightarrow> revocation_record" where
  "revocation_of E kind target by' reason =
     \<lparr>rv_revocation_id = ge_id E ''rev'' 0, rv_target_type = kind, rv_target_id = target, rv_revoked_by = by', rv_reason = reason,
      rv_revoked_at = ge_now E, rv_cascaded_from = [], rv_schema_version = SCHEMA_VERSION\<rparr>"

definition lease_revoke :: "gov_env \<Rightarrow> string \<Rightarrow> string \<Rightarrow> string \<Rightarrow> revocation_record gov" where
  "lease_revoke E l by' reason = (\<lambda>db.
     case get_lease E l db of
       None \<Rightarrow> (Inl (ValueError (''Lease '' @ l @ '' not found'')), db)
     | Some _ \<Rightarrow>
         let db = snd (update_lease_status E l ''REVOKED'' db); v = revocation_of E ''lease'' l by' reason
         in (Inr v, snd (save_revocation E (revocation_record_to_dict v) db)))"

definition create_grant ::
  "gov_env \<Rightarrow> string \<Rightarrow> string \<Rightarrow> approval_scope \<Rightarrow> string list \<Rightarrow> string list \<Rightarrow> delegation_constraint list \<Rightarrow> int \<Rightarrow> int \<Rightarrow>
   bool \<Rightarrow> delegation_grant gov" where
  "create_grant E issuer subject scope permitted denied constraints max_uses hours sub = (\<lambda>db.
     let g = \<lparr>dg_grant_id = ge_id E ''dg'' 0, dg_issuer_id = issuer, dg_subject_id = subject, dg_scope = Some scope,
        dg_permitted_capabilities = permitted, dg_denied_capabilities = denied, dg_constraints = constraints,
        dg_max_uses = max_uses, dg_used_count = 0, dg_issued_at = ge_now E, dg_expires_at = ge_later E (hours * 3600),
        dg_allow_sub_delegation = sub, dg_max_sub_delegation_depth = 0, dg_status = ''ACTIVE'', dg_schema_version = SCHEMA_VERSION\<rparr>
     in (Inr g, snd (save_delegation E (delegation_grant_to_dict g) db)))"

text \<open>What the scope of a grant lets through.\<close>

definition scope_covers :: "gov_lib \<Rightarrow> approval_scope \<Rightarrow> action_proposal \<Rightarrow> bool" where
  "scope_covers L s p \<longleftrightarrow>
     (sk_capability_id s \<noteq> [] \<longrightarrow> sk_capability_id s = pp_capability_id p) \<and>
     (sk_allowed_capabilities s \<noteq> [] \<longrightarrow> pp_capability_id p \<in> set (sk_allowed_capabilities s)) \<and>
     (sk_workspace_path s \<noteq> [] \<longrightarrow>
        is_subset_of L (scope_default\<lparr>sk_workspace_path := sk_workspace_path (scope_from_proposal p)\<rparr>)
          (scope_default\<lparr>sk_workspace_path := sk_workspace_path s\<rparr>)) \<and>
     (sk_allowed_files s \<noteq> [] \<longrightarrow> set (pp_affected_resources p) \<subseteq> set (sk_allowed_files s)) \<and>
     (sk_cost_ceiling_usd s \<noteq> 0 \<longrightarrow> pp_estimated_cost_usd p \<le> sk_cost_ceiling_usd s) \<and>
     (sk_allowed_side_effect_classes s \<noteq> [] \<longrightarrow> pp_side_effect_class p \<in> set (sk_allowed_side_effect_classes s))"

definition constraint_allows :: "action_proposal \<Rightarrow> json \<Rightarrow> pyexn + bool" where
  "constraint_allows p v =
     bindE (as_obj v) (\<lambda>d. bindE (delegation_constraint_from_dict d) (\<lambda>c.
       if dc_constraint_type c = ''cost'' \<and> pp_estimated_cost_usd p \<noteq> 0 \<and> dc_operator c = ''lte''
       then bindE (py_float (if py_truthy (dc_value c) then dc_value c else JInt 0)) (\<lambda>ceiling. Inr (pp_estimated_cost_usd p \<le> ceiling))
       else Inr True))"

fun all_allow :: "('a \<Rightarrow> pyexn + bool) \<Rightarrow> 'a list \<Rightarrow> pyexn + bool" where
  "all_allow f [] = Inr True"
| "all_allow f (x # xs) = bindE (f x) (\<lambda>b. if b then all_allow f xs else Inr False)"

text \<open>\<open>validate_for_proposal\<close>, from the check of the denied capabilities on\<close>

definition grant_covers :: "gov_lib \<Rightarrow> jobj \<Rightarrow> action_proposal \<Rightarrow> pyexn + bool" where
  "grant_covers L g p =
     bindE (get_texts g ''denied_capabilities'') (\<lambda>denied.
     if pp_capability_id p \<in> set denied then Inr False
     else bindE (get_texts g ''permitted_capabilities'') (\<lambda>permitted.
     if ''*'' \<notin> set permitted \<and> pp_capability_id p \<notin> set permitted then Inr False
     else bindE (get_nested approval_scope_from_dict g ''scope'') (\<lambda>scope.
     if (case scope of None \<Rightarrow> False | Some s \<Rightarrow> \<not> scope_covers L s p) then Inr False
     else bindE (get_values g ''constraints'') (all_allow (constraint_allows p)))))"

definition validate_for_proposal :: "gov_lib \<Rightarrow> gov_env \<Rightarrow> string \<Rightarrow> action_proposal \<Rightarrow> bool gov" where
  "validate_for_proposal L E grant_id p = (\<lambda>db.
     case get_delegation E grant_id db of
       None \<Rightarrow> (Inr False, db)
     | Some g \<Rightarrow>
         if g = [] then (Inr False, db)
         else case bindE (item_text g ''status'') (\<lambda>st. bindE (case dict_get g ''used_count'' of None \<Rightarrow> Inl (KeyError ''used_count'') | Some v \<Rightarrow> py_int v) (\<lambda>used.
                bindE (get_int g ''max_uses'' 0) (\<lambda>m. bindE (get_text g ''expires_at'' []) (\<lambda>ex. Inr (st, used, m, ex))))) of
             Inl e \<Rightarrow> (Inl e, db)
           | Inr (st, used, m, ex) \<Rightarrow>
               if st \<noteq> ''ACTIVE'' \<or> used \<ge> m then (Inr False, db)
               else if ex < ge_now E then (Inr False, snd (update_delegation_status E grant_id ''EXPIRED'' db))
               else (grant_covers L g p, db))"

definition delegation_revoke :: "gov_env \<Rightarrow> string \<Rightarrow> string \<Rightarrow> string \<Rightarrow> revocation_record gov" where
  "delegation_revoke E g by' reason = (\<lambda>db.
     case get_delegation E g db of
       None \<Rightarrow> (Inl (ValueError (''Delegation '' @ g @ '' not found'')), db)
     | Some kvs \<Rightarrow>
         if kvs = [] then (Inl (ValueError (''Delegation '' @ g @ '' not found'')), db)
         else
           let db = snd (update_delegation_status E g ''REVOKED'' db); v = revocation_of E ''delegation'' g by' reason
           in (Inr v, snd (save_revocation E (revocation_record_to_dict v) db)))"

section \<open>The gate\<close>

text \<open>\<open>_lookup_capability\<close>\<close>

definition lookup_capability :: "gov_env \<Rightarrow> string \<Rightarrow> jobj" where
  "lookup_capability E cap =
     (case ge_capability E cap of
        Some (kv # kvs) \<Rightarrow>
          (let d = kv # kvs in
           dict_set ''disabled'' (JBool (py_truthy (dict_get_or d ''disabled''
             (JBool (\<not> py_truthy (dict_get_or d ''enabled'' (JBool True)))))))
          (dict_set ''requires_approval'' (JBool (py_truthy (dict_get_or d ''requires_approval''
             (dict_get_or d ''requires_auth'' (JBool False)))))
          (dict_set ''risk_level'' (dict_get_or d ''risk_level'' (dict_get_or d ''risk'' (JStr ''unknown''))) d)))
      | _ \<Rightarrow> [(''name'', JStr cap), (''risk_level'', JStr ''high''), (''requires_approval'', JBool True), (''unregistered'', JBool True)])"

definition decision_with ::
  "gov_env \<Rightarrow> nat \<Rightarrow> action_proposal \<Rightarrow> authz_context \<Rightarrow> string \<Rightarrow> bool \<Rightarrow> string \<Rightarrow> string \<Rightarrow> string \<Rightarrow> string \<Rightarrow> risk_envelope option \<Rightarrow>
   string \<Rightarrow> authz_decision" where
  "decision_with E n p c mode allowed code msg rule_class rule risk lease =
     \<lparr>ad_decision_id = ge_id E ''ad'' n, ad_proposal_hash = pp_proposal_hash p, ad_context_id = cx_context_id c, ad_action_mode = mode,
      ad_allowed = allowed, ad_reason_code = code, ad_reason_message = msg, ad_rule_class = rule_class, ad_policy_id = [],
      ad_constitution_rule = rule, ad_risk_envelope = risk, ad_lease_id = lease, ad_delegation_id = [], ad_decided_at = ge_now E,
      ad_decision_ttl = 60, ad_schema_version = SCHEMA_VERSION\<rparr>"

definition gate_execute :: "gov_env \<Rightarrow> action_proposal \<Rightarrow> authz_context \<Rightarrow> risk_envelope \<Rightarrow> string \<Rightarrow> string \<Rightarrow> authz_decision" where
  "gate_execute E p c risk lease reason =
     decision_with E 0 p c ''EXECUTE'' True ''AUTHORIZED'' reason ''AUTONOMOUS_ALLOWED'' [] (Some risk) lease"

definition gate_ask_approval :: "gov_env \<Rightarrow> action_proposal \<Rightarrow> authz_context \<Rightarrow> risk_envelope \<Rightarrow> authz_decision" where
  "gate_ask_approval E p c risk =
     decision_with E 0 p c ''ASK_APPROVAL'' False ''APPROVAL_REQUIRED''
       (''Risk class '' @ re_aggregate_risk_class risk @ '' requires explicit approval'') ''USER_APPROVABLE'' [] (Some risk) []"

definition gate_deny :: "gov_env \<Rightarrow> nat \<Rightarrow> action_proposal \<Rightarrow> authz_context \<Rightarrow> string \<Rightarrow> string \<Rightarrow> string \<Rightarrow> authz_decision" where
  "gate_deny E n p c code msg rule =
     decision_with E n p c ''DENY'' False code msg
       (if py_contains ''CONSTITUTION'' code then ''NON_OVERRIDABLE'' else ''ADMIN_OVERRIDABLE'') rule None []"

definition gate_escalate :: "gov_env \<Rightarrow> action_proposal \<Rightarrow> authz_context \<Rightarrow> risk_envelope \<Rightarrow> string \<Rightarrow> authz_decision" where
  "gate_escalate E p c risk reason =
     decision_with E 0 p c ''ESCALATE'' False ''ESCALATED'' reason ''ADMIN_OVERRIDABLE'' [] (Some risk) []"

definition audit_bundle :: "gov_env \<Rightarrow> authz_decision \<Rightarrow> action_proposal \<Rightarrow> authz_context \<Rightarrow> evidence_bundle" where
  "audit_bundle E d p c =
     \<lparr>eb_bundle_id = ge_id E ''aeb'' 0, eb_decision_id = ad_decision_id d, eb_proposal_hash = pp_proposal_hash p,
      eb_event_type = ''authorization_decision'',
      eb_evidence = [(''action_mode'', JStr (ad_action_mode d)), (''reason_code'', JStr (ad_reason_code d)),
        (''capability_id'', JStr (pp_capability_id p)), (''subject_id'', JStr (cx_subject_id c)), (''subject_type'', JStr (cx_subject_type c))],
      eb_recorded_at = ge_now E, eb_previous_audit_hash = [], eb_schema_version = SCHEMA_VERSION\<rparr>"

text \<open>\<open>_store_unavailable\<close>: both modes deny; only the message differs.\<close>

definition store_unavailable :: "gov_env \<Rightarrow> action_proposal \<Rightarrow> authz_context \<Rightarrow> string \<Rightarrow> pyexn + authz_decision" where
  "store_unavailable E p c code =
     bindE (should_fail_closed E None ''server'') (\<lambda>closed.
       Inr (gate_deny E 1 p c code
         (if closed then ''Governance persistence or audit store is unavailable'' else ''Governance store unavailable'') []))"

definition finalize_decision ::
  "gov_lib \<Rightarrow> gov_env \<Rightarrow> action_proposal \<Rightarrow> authz_context \<Rightarrow> bool \<Rightarrow> authz_decision \<Rightarrow> authz_decision gov" where
  "finalize_decision L E p c persist d = (\<lambda>db.
     let (failure, db) = save_authorization L E (if persist then Some (action_proposal_to_dict L p) else None)
           (authz_decision_to_dict d) (evidence_bundle_to_dict L (audit_bundle E d p c)) db
     in if failure \<noteq> [] then (store_unavailable E p c failure, db) else (Inr d, db))"

text \<open>The permissions that the gate asks for, in its order.\<close>

definition permission_requests :: "action_proposal \<Rightarrow> authz_context \<Rightarrow> permission_request list" where
  "permission_requests p c =
     (let resources = (if pp_affected_resources p \<noteq> [] then pp_affected_resources p else [pp_capability_id p]);
          ctx = [(''subject_type'', JStr (cx_subject_type c)), (''locality'', JStr (cx_session_locality c)),
            (''device'', JStr (cx_session_device c)), (''action_type'', JStr (pp_action_type p))]
      in concat (map (\<lambda>a. map (\<lambda>r. \<lparr>prq_subject = cx_subject_id c, prq_action = a, prq_resource = r, prq_context = ctx\<rparr>) resources)
           (pp_required_permissions p)))"

definition denied_permission ::
  "gov_lib \<Rightarrow> gov_env \<Rightarrow> permission_engine option \<Rightarrow> action_proposal \<Rightarrow> authz_context \<Rightarrow> permission_request option" where
  "denied_permission L E engine p c =
     (case engine of
        None \<Rightarrow> None
      | Some e \<Rightarrow> find (\<lambda>q. \<not> pd_allowed (pe_check (gl_known L) (ge_clock E) (ge_policy_file E) e q)) (permission_requests p c))"

text \<open>Steps 1 to 8: the first refusal as the code, the message and the rule of the constitution.\<close>

definition refusal ::
  "gov_lib \<Rightarrow> gov_env \<Rightarrow> permission_engine option \<Rightarrow> action_proposal \<Rightarrow> authz_context \<Rightarrow> (string \<times> string \<times> string) option" where
  "refusal L E engine p c =
     (let violations = evaluate_constitution L E p c; rules = py_join '', '' (map cv_rule_id violations) in
      if pp_proposal_hash p = [] \<or> pp_capability_id p = [] then Some (''PROPOSAL_INVALID'', ''Proposal is missing required fields'', [])
      else if compute_hash L p \<noteq> pp_proposal_hash p
      then Some (''PROPOSAL_TAMPERED'', ''Proposal hash does not match computed hash'', [])
      else if pp_expires_at p \<noteq> [] \<and> pp_expires_at p < ge_now E then Some (''PROPOSAL_STALE'', ''Proposal has expired'', [])
      else if violations \<noteq> [] then Some (''CONSTITUTION_VIOLATION:'' @ rules, py_join ''; '' (map cv_message violations), rules)
      else if cx_subject_id c = [] then Some (''IDENTITY_MISSING'', ''No subject identity in authorization context'', [])
      else if cx_authn_confidence c < 1 / 2
      then Some (''IDENTITY_LOW_CONFIDENCE'', ''Authentication confidence too low: '' @ gl_float L (cx_authn_confidence c), [])
      else if py_truthy (dict_get_or (lookup_capability E (pp_capability_id p)) ''disabled'' JNull)
      then Some (''CAPABILITY_DISABLED'', ''Capability '' @ [CHR 0x27] @ pp_capability_id p @ [CHR 0x27] @ '' is disabled'', [])
      else case denied_permission L E engine p c of
          Some q \<Rightarrow>
            (let e = (case engine of None \<Rightarrow> \<lparr>pe_rules = [], pe_policy_path = None\<rparr> | Some e \<Rightarrow> e) in
             Some (''PERMISSION_DENIED'', ''Permission '' @ [CHR 0x27] @ prq_action q @ [CHR 0x27] @ '' denied for resource '' @ [CHR 0x27] @
               prq_resource q @ [CHR 0x27] @ '': '' @ pd_reason (pe_check (gl_known L) (ge_clock E) (ge_policy_file E) e q), []))
        | None \<Rightarrow>
            (case find (py_contains ''..'') (pp_affected_resources p) of
               Some r \<Rightarrow> Some (''RESOURCE_PATH_TRAVERSAL'', ''Path traversal detected in resource: '' @ r, [])
             | None \<Rightarrow> None))"

text \<open>Step 10: the lease that pays for the execution, if any.\<close>

definition match_lease :: "gov_env \<Rightarrow> action_proposal \<Rightarrow> authz_context \<Rightarrow> string gov" where
  "match_lease E p c = (\<lambda>db.
     case get_active_lease_for_proposal E (pp_proposal_hash p) (cx_subject_id c) db of
       None \<Rightarrow> (Inr [], db)
     | Some l \<Rightarrow>
         (case bindE (get_text l ''expires_at'' []) (\<lambda>ex. bindE (item_text l ''lease_id'') (\<lambda>i.
                bindE (get_int l ''remaining_uses'' 0) (\<lambda>n. Inr (ex, i, n)))) of
            Inl e \<Rightarrow> (Inl e, db)
          | Inr (ex, i, n) \<Rightarrow>
              if ex \<noteq> [] \<and> ex < ge_now E then (Inr [], snd (update_lease_status E i ''EXPIRED'' db))
              else if n > 0
              then (let x = (if cx_request_id c = [] then ge_id E ''exec'' 0 else cx_request_id c);
                        ((consumed, _), db) = consume_lease E i x db
                    in (Inr (if consumed then i else []), db))
              else (Inr [], db)))"

definition resolve_action_mode :: "risk_envelope \<Rightarrow> jobj \<Rightarrow> bool \<Rightarrow> string" where
  "resolve_action_mode risk cap has_lease =
     (let agg = re_aggregate_risk_class risk; unknown = length (re_unknown_dimensions risk);
          needs_approval = cap \<noteq> [] \<and> py_truthy (dict_get_or cap ''requires_approval'' JNull)
      in
      if has_lease \<and> cap \<noteq> [] \<and> dict_get cap ''lease_level'' = Some (JStr ''system'') then ''EXECUTE''
      else if has_lease then ''EXECUTE''
      else if unknown \<ge> 5 then ''DENY''
      else if unknown \<ge> 3 then ''ESCALATE''
      else if agg = ''critical'' then ''ASK_APPROVAL''
      else if agg = ''high'' then ''ASK_APPROVAL''
      else if needs_approval \<and> agg \<noteq> ''low'' then ''ASK_APPROVAL''
      else if agg \<in> {''low'', ''medium''} then (if needs_approval then ''ASK_APPROVAL'' else ''EXECUTE'')
      else ''ASK_APPROVAL'')"

text \<open>Steps 12 and 13\<close>

definition decision_for ::
  "gov_env \<Rightarrow> action_proposal \<Rightarrow> authz_context \<Rightarrow> risk_envelope \<Rightarrow> string \<Rightarrow> string \<Rightarrow> authz_decision" where
  "decision_for E p c risk lease mode =
     (if mode = ''EXECUTE''
      then gate_execute E p c risk lease
        (if lease \<noteq> [] then ''Active lease covers this proposal'' else ''Within autonomous authorization bounds'')
      else if mode = ''ASK_APPROVAL'' then gate_ask_approval E p c risk
      else if mode = ''DENY'' then gate_deny E 0 p c ''POLICY_DENIED'' ''Policy evaluation resulted in denial'' []
      else gate_escalate E p c risk ''Policy evaluation requires escalation'')"

definition gate_evaluate ::
  "gov_lib \<Rightarrow> gov_env \<Rightarrow> permission_engine option \<Rightarrow> action_proposal \<Rightarrow> authz_context \<Rightarrow> authz_decision gov" where
  "gate_evaluate L E engine p c = (\<lambda>db.
     case refusal L E engine p c of
       Some (code, msg, rule) \<Rightarrow>
         finalize_decision L E p c (code \<noteq> ''PROPOSAL_INVALID'') (gate_deny E 0 p c code msg rule) db
     | None \<Rightarrow>
         let cap = lookup_capability E (pp_capability_id p); risk = assess_risk E p c (Some cap) in
         case match_lease E p c db of
           (Inl e, db) \<Rightarrow> (Inl e, db)
         | (Inr lease, db) \<Rightarrow>
             finalize_decision L E p c True
               (decision_for E p c risk lease (resolve_action_mode risk cap (lease \<noteq> []))) db)"

end
