(* ===== verification/Governance_Broker.thy ===== *)
theory Governance_Broker
  imports Governance_Gate
begin

text \<open>
  The approval broker (\<open>nous_runtime/governance/broker.py\<close>): policies of automatic approval, and the
  life of an approval request from its creation to its only answer. The broker keeps the requests
  it created in memory; \<open>bk_events\<close> is what it has told its listeners.
\<close>

section \<open>Evidence and policies\<close>

record approval_evidence =
  ev_command_preview :: string
  ev_affected_files :: "string list"
  ev_workspace_path :: string
  ev_capability_request :: string
  ev_risk_envelope :: jobj

definition approval_evidence_to_dict :: "approval_evidence \<Rightarrow> jobj" where
  "approval_evidence_to_dict x =
    [(''command_preview'', JStr (ev_command_preview x)), (''affected_files'', jstrs (ev_affected_files x)),
     (''workspace_path'', JStr (ev_workspace_path x)), (''capability_request'', JStr (ev_capability_request x)),
     (''risk_envelope'', JObj (ev_risk_envelope x))]"

definition approval_evidence_from_dict :: "jobj \<Rightarrow> pyexn + approval_evidence" where
  "approval_evidence_from_dict d =
     bindE (rd_str d ''command_preview'' []) (\<lambda>cmd. bindE (get_texts d ''affected_files'') (\<lambda>files.
     bindE (rd_str d ''workspace_path'' []) (\<lambda>ws. bindE (rd_str d ''capability_request'' []) (\<lambda>cap.
     bindE (rd_dict d ''risk_envelope'') (\<lambda>risk.
       Inr \<lparr>ev_command_preview = cmd, ev_affected_files = files, ev_workspace_path = ws, ev_capability_request = cap,
            ev_risk_envelope = risk\<rparr>)))))"

record approval_policy =
  ay_policy_id :: string
  ay_agent_id :: string
  ay_capability_id :: string
  ay_scope :: string
  ay_max_auto_approve_risk :: string
  ay_auto_approve_read_only :: bool
  ay_auto_approve_tests :: bool
  ay_max_daily_approvals :: int
  ay_require_confirmation :: bool
  ay_created_at :: string
  ay_updated_at :: string

text \<open>\<open>__init__\<close> fills an empty identifier and empty times.\<close>

definition approval_policy_init :: "gov_env \<Rightarrow> approval_policy \<Rightarrow> approval_policy" where
  "approval_policy_init E p =
     (let p = (if ay_policy_id p = [] then p\<lparr>ay_policy_id := ge_id E ''pol'' 0\<rparr> else p);
          p = (if ay_created_at p = [] then p\<lparr>ay_created_at := ge_now E\<rparr> else p)
      in if ay_updated_at p = [] then p\<lparr>ay_updated_at := ay_created_at p\<rparr> else p)"

definition approval_policy_to_dict :: "approval_policy \<Rightarrow> jobj" where
  "approval_policy_to_dict x =
    [(''policy_id'', JStr (ay_policy_id x)), (''agent_id'', JStr (ay_agent_id x)), (''capability_id'', JStr (ay_capability_id x)),
     (''scope'', JStr (ay_scope x)), (''max_auto_approve_risk'', JStr (ay_max_auto_approve_risk x)),
     (''auto_approve_read_only'', JBool (ay_auto_approve_read_only x)), (''auto_approve_tests'', JBool (ay_auto_approve_tests x)),
     (''max_daily_approvals'', JInt (ay_max_daily_approvals x)),
     (''require_confirmation_for_policy_change'', JBool (ay_require_confirmation x)),
     (''created_at'', JStr (ay_created_at x)), (''updated_at'', JStr (ay_updated_at x))]"

definition approval_policy_from_dict :: "gov_env \<Rightarrow> jobj \<Rightarrow> pyexn + approval_policy" where
  "approval_policy_from_dict E d =
     bindE (rd_str d ''policy_id'' []) (\<lambda>i. bindE (rd_str d ''agent_id'' []) (\<lambda>a. bindE (rd_str d ''capability_id'' []) (\<lambda>c.
     bindE (rd_str d ''scope'' ''ask_per_command'') (\<lambda>s. bindE (rd_str d ''max_auto_approve_risk'' ''low'') (\<lambda>m.
     bindE (rd_int d ''max_daily_approvals'' 50) (\<lambda>n. bindE (rd_str d ''created_at'' []) (\<lambda>cr. bindE (rd_str d ''updated_at'' []) (\<lambda>up.
       Inr (approval_policy_init E \<lparr>ay_policy_id = i, ay_agent_id = a, ay_capability_id = c, ay_scope = s, ay_max_auto_approve_risk = m,
         ay_auto_approve_read_only = rd_bool d ''auto_approve_read_only'' False,
         ay_auto_approve_tests = rd_bool d ''auto_approve_tests'' False, ay_max_daily_approvals = n,
         ay_require_confirmation = rd_bool d ''require_confirmation_for_policy_change'' True,
         ay_created_at = cr, ay_updated_at = up\<rparr>)))))))))"

text \<open>\<open>evaluate\<close>: \<open>True\<close> is \<open>allow\<close>.\<close>

definition policy_allows :: "approval_policy \<Rightarrow> string \<Rightarrow> bool \<Rightarrow> bool \<Rightarrow> bool" where
  "policy_allows p risk is_read_only is_test \<longleftrightarrow>
     (if risk = ''critical'' then False
      else if ay_scope p = ''always_allow'' then True
      else if ay_scope p = ''always_ask'' then False
      else if ay_max_auto_approve_risk p = ''high'' then True
      else if ay_max_auto_approve_risk p = ''medium'' \<and> risk \<in> {''low'', ''medium''} then True
      else if ay_max_auto_approve_risk p = ''low'' \<and> risk = ''low'' then True
      else if is_read_only \<and> ay_auto_approve_read_only p then True
      else if is_test \<and> ay_auto_approve_tests p then True
      else False)"

section \<open>The broker\<close>

record broker =
  bk_pending :: "(string, approval_request) dict"
  bk_policies :: "(string, approval_policy) dict"
  bk_events :: "(string \<times> jobj) list"

type_synonym 'a brokered = "broker \<Rightarrow> gov_db \<Rightarrow> (pyexn + 'a) \<times> broker \<times> gov_db"

definition broker_emit :: "string \<Rightarrow> jobj \<Rightarrow> broker \<Rightarrow> broker" where
  "broker_emit ev data b = b\<lparr>bk_events := bk_events b @ [(ev, data)]\<rparr>"

definition forget :: "string \<Rightarrow> broker \<Rightarrow> broker" where
  "forget i b = b\<lparr>bk_pending := dict_del i (bk_pending b)\<rparr>"

definition request_approval ::
  "gov_env \<Rightarrow> string \<Rightarrow> string \<Rightarrow> action_proposal \<Rightarrow> authz_context \<Rightarrow> approval_evidence option \<Rightarrow> string \<Rightarrow> int \<Rightarrow>
   approval_request brokered" where
  "request_approval E run_id task_id p c evidence requester ttl = (\<lambda>b db.
     let risk = assess_risk E p c None;
         q = \<lparr>aq_request_id = ge_id E ''apr'' 0, aq_proposal_hash = pp_proposal_hash p,
           aq_summary = pp_action_type p @ '': '' @ pp_capability_id p, aq_risk_summary = ''Risk: '' @ re_aggregate_risk_class risk,
           aq_scope_summary = ''Workspace: '' @ pp_target_workspace p @ '', Resources: '' @ show_int (int (length (pp_affected_resources p))),
           aq_status = ''PENDING'', aq_requested_by = (if requester = [] then cx_subject_id c else requester), aq_requested_at = ge_now E,
           aq_expires_at = (if ttl = 0 then [] else ge_later E (ttl * 3600)), aq_priority = ''normal'', aq_schema_version = SCHEMA_VERSION\<rparr>;
         (saved, db) = save_approval_request E (approval_request_to_dict q @ [(''run_id'', JStr run_id), (''task_id'', JStr task_id)]) db
     in if \<not> saved then (Inl (RuntimeError ''Failed to persist approval request''), forget (aq_request_id q) b, db)
        else (Inr q, broker_emit ''approval.requested''
          [(''request_id'', JStr (aq_request_id q)), (''run_id'', JStr run_id), (''task_id'', JStr task_id), (''summary'', JStr (aq_summary q)),
           (''risk_summary'', JStr (aq_risk_summary q)), (''scope_summary'', JStr (aq_scope_summary q)),
           (''evidence'', JObj (case evidence of None \<Rightarrow> [] | Some e \<Rightarrow> approval_evidence_to_dict e))]
          (b\<lparr>bk_pending := dict_set (aq_request_id q) q (bk_pending b)\<rparr>), db))"

text \<open>The request that \<open>approve\<close> and \<open>deny\<close> answer: the one in memory, or the stored one.\<close>

definition broker_request :: "gov_env \<Rightarrow> string \<Rightarrow> string \<Rightarrow> broker \<Rightarrow> gov_db \<Rightarrow> pyexn + approval_request" where
  "broker_request E msg i b db =
     bindE (case get_approval_request E i db of
          Some q \<Rightarrow> if py_truthy (dict_get_or q ''operation_governance'' JNull) then Inl (PermissionError msg) else Inr ()
        | None \<Rightarrow> Inr ()) (\<lambda>_.
     bindE (case dict_get (bk_pending b) i of
          Some q \<Rightarrow> Inr q
        | None \<Rightarrow>
            (case get_approval_request E i db of
               Some q \<Rightarrow> approval_request_from_dict q
             | None \<Rightarrow> Inl (ValueError (''Approval request '' @ i @ '' not found'')))) (\<lambda>q.
       if aq_status q \<noteq> ''PENDING''
       then Inl (ValueError (''Approval request '' @ i @ '' is not PENDING (status='' @ aq_status q @ '')''))
       else Inr q))"

definition broker_response ::
  "gov_env \<Rightarrow> string \<Rightarrow> approval_request \<Rightarrow> string \<Rightarrow> approval_scope option \<Rightarrow> string \<Rightarrow> string \<Rightarrow> approval_response" where
  "broker_response E i q decision scope approver reason =
     \<lparr>ar_response_id = ge_id E ''aprsp'' 0, ar_request_id = i, ar_proposal_hash = aq_proposal_hash q, ar_decision = decision,
      ar_scope = scope, ar_approver_id = approver, ar_approver_method = ''broker'', ar_reason = reason,
      ar_responded_at = ge_now E, ar_schema_version = SCHEMA_VERSION\<rparr>"

definition no_longer_pending :: "string \<Rightarrow> pyexn" where
  "no_longer_pending i = ValueError (''Approval request '' @ i @ '' is no longer PENDING'')"

type_synonym admission = "(gov_db \<Rightarrow> pyexn + gov_db) option"

definition broker_deny ::
  "gov_env \<Rightarrow> string \<Rightarrow> string \<Rightarrow> string \<Rightarrow> admission \<Rightarrow> approval_response brokered" where
  "broker_deny E i approver reason check = (\<lambda>b db.
     case broker_request E ''Operation denial requires authenticated human authority'' i b db of
       Inl e \<Rightarrow> (Inl e, b, db)
     | Inr q \<Rightarrow>
         let r = broker_response E i q ''DENIED'' None approver reason;
             (done, db) = resolve_approval E i ''PENDING'' ''DENIED'' (approval_response_to_dict r) None check db
         in if \<not> done then (Inl (no_longer_pending i), b, db)
            else (Inr r, broker_emit ''approval.denied''
              [(''request_id'', JStr i), (''approver_id'', JStr approver), (''reason'', JStr reason)] (forget i b), db))"

definition broker_approve ::
  "gov_env \<Rightarrow> string \<Rightarrow> string \<Rightarrow> string \<Rightarrow> string \<Rightarrow> bool \<Rightarrow> string \<Rightarrow> admission \<Rightarrow> approval_response brokered" where
  "broker_approve E i approver scope reason prevent_self requester check = (\<lambda>b db.
     case broker_request E ''Operation approval requires authenticated Approve Once'' i b db of
       Inl e \<Rightarrow> (Inl e, b, db)
     | Inr q \<Rightarrow>
         if aq_expires_at q \<noteq> [] \<and> aq_expires_at q \<le> ge_now E
         then let (expired, db) = expire_approval E i db in
           if \<not> expired then (Inl (no_longer_pending i), b, db)
           else (Inl (ValueError (''Approval request '' @ i @ '' has expired'')),
             broker_emit ''approval.expired'' [(''request_id'', JStr i)] (forget i b), db)
         else if prevent_self \<and> approver \<noteq> [] \<and> approver = (if aq_requested_by q = [] then requester else aq_requested_by q)
         then broker_deny E i approver ''Self-approval is not permitted'' None b db
         else
           let s = scope_default\<lparr>sk_proposal_hash := aq_proposal_hash q, sk_max_uses := (if scope = ''once'' then 1 else 0),
                 sk_valid_until := aq_expires_at q\<rparr>;
               r = broker_response E i q ''APPROVED'' (Some s) approver reason;
               l = \<lparr>al_lease_id = ge_id E ''al'' 0, al_proposal_hash = aq_proposal_hash q, al_approval_id = ar_response_id r,
                 al_subject_id = aq_requested_by q, al_scope = Some s, al_max_uses = 1, al_remaining_uses = 1,
                 al_issued_at = ge_now E, al_expires_at = aq_expires_at q, al_status = ''ACTIVE'',
                 al_schema_version = SCHEMA_VERSION\<rparr>;
               (done, db) = resolve_approval E i ''PENDING'' ''APPROVED'' (approval_response_to_dict r) (Some (authz_lease_to_dict l)) check db
           in if \<not> done then (Inl (no_longer_pending i), b, db)
              else (Inr r, broker_emit ''approval.granted''
                [(''request_id'', JStr i), (''approver_id'', JStr approver), (''scope'', JStr scope), (''reason'', JStr reason)] (forget i b), db))"

definition get_pending_for_run :: "gov_env \<Rightarrow> string \<Rightarrow> gov_db \<Rightarrow> jobj list" where
  "get_pending_for_run E run_id db =
     filter (\<lambda>a. dict_get_or a ''run_id'' JNull = JStr run_id) (list_pending_approvals E [] db)"

text \<open>
  \<open>expire_old\<close> looks at the requests in memory, and overwrites the stored status of those that are
  past their time, whatever it is by now.
\<close>

definition overdue :: "gov_env \<Rightarrow> approval_request \<Rightarrow> bool" where
  "overdue E q \<longleftrightarrow> aq_expires_at q \<noteq> [] \<and> aq_expires_at q \<le> ge_now E"

definition expire_old :: "gov_env \<Rightarrow> broker \<Rightarrow> gov_db \<Rightarrow> int \<times> broker \<times> gov_db" where
  "expire_old E b db =
     (let old = filter (\<lambda>(i, q). overdue E q) (bk_pending b) in
      (int (length old), b\<lparr>bk_pending := filter (\<lambda>(i, q). \<not> overdue E q) (bk_pending b)\<rparr>,
       fold (\<lambda>(i, q) db. snd (update_approval_status E i ''EXPIRED'' db)) old db))"

definition policy_key :: "string \<Rightarrow> string \<Rightarrow> string" where
  "policy_key a c = a @ '':'' @ c"

definition set_policy :: "gov_env \<Rightarrow> approval_policy \<Rightarrow> broker \<Rightarrow> gov_db \<Rightarrow> broker \<times> gov_db" where
  "set_policy E p b db =
     (b\<lparr>bk_policies := dict_set (policy_key (ay_agent_id p) (ay_capability_id p)) p (bk_policies b)\<rparr>,
      snd (save_approval_policy E (approval_policy_to_dict p) db))"

definition get_policy :: "broker \<Rightarrow> string \<Rightarrow> string \<Rightarrow> approval_policy option" where
  "get_policy b a c = dict_get (bk_policies b) (policy_key a c)"

definition should_auto_approve :: "broker \<Rightarrow> string \<Rightarrow> string \<Rightarrow> string \<Rightarrow> bool \<Rightarrow> bool \<Rightarrow> bool" where
  "should_auto_approve b a c risk is_read_only is_test \<longleftrightarrow>
     (case (case get_policy b a c of Some p \<Rightarrow> Some p | None \<Rightarrow> get_policy b a []) of
        None \<Rightarrow> False
      | Some p \<Rightarrow> policy_allows p risk is_read_only is_test)"

end
