(* ===== verification/Governance_Operation.thy ===== *)
theory Governance_Operation
  imports Governance_Broker Capability_Contract
begin

text \<open>
  Governance of single operations (\<open>nous_runtime/governance/operation_contracts.py\<close> and
  \<open>operation_gate.py\<close>): requests bound by their digest, grants, human authority, revocation, and
  the admission of an operation at the boundary of its effect. Who is the local owner, which
  contexts belong to authenticated sessions and what those permit is the record \<open>human_env\<close>; the
  external policy provider and the check of the resource are arguments.
\<close>

section \<open>Requests and grants\<close>

datatype verdict_kind = GV_ALLOW | GV_DENY | GV_REQUIRE_APPROVAL | GV_UNKNOWN

fun verdict_value :: "verdict_kind \<Rightarrow> string" where
  "verdict_value GV_ALLOW = ''ALLOW''"
| "verdict_value GV_DENY = ''DENY''"
| "verdict_value GV_REQUIRE_APPROVAL = ''REQUIRE_APPROVAL''"
| "verdict_value GV_UNKNOWN = ''UNKNOWN''"

definition GRANT_SCOPES :: "string list" where
  "GRANT_SCOPES = [''ONCE'', ''WORK'', ''SESSION'', ''RESOURCE'', ''CAPABILITY'']"

record gov_request =
  gq_operation_id :: string
  gq_work_id :: string
  gq_capability_id :: string
  gq_resource_id :: string
  gq_subject_id :: string
  gq_agent_session_id :: string
  gq_workflow_run_id :: string
  gq_plan_id :: string
  gq_node_id :: string
  gq_input_artifacts :: "string list"
  gq_expected_effect :: jobj
  gq_capability_inputs :: jobj
  gq_secret_handles :: "string list"

definition gov_request_to_dict :: "gov_request \<Rightarrow> jobj" where
  "gov_request_to_dict x =
    [(''operation_id'', JStr (gq_operation_id x)), (''work_id'', JStr (gq_work_id x)), (''capability_id'', JStr (gq_capability_id x)),
     (''resource_id'', JStr (gq_resource_id x)), (''subject_id'', JStr (gq_subject_id x)),
     (''agent_session_id'', JStr (gq_agent_session_id x)), (''workflow_run_id'', JStr (gq_workflow_run_id x)),
     (''plan_id'', JStr (gq_plan_id x)), (''node_id'', JStr (gq_node_id x)), (''input_artifacts'', jstrs (gq_input_artifacts x)),
     (''expected_effect'', JObj (gq_expected_effect x)), (''capability_inputs'', JObj (gq_capability_inputs x))] @
    (if gq_secret_handles x \<noteq> [] then [(''secret_handles'', jstrs (gq_secret_handles x))] else [])"

definition authorization_id :: "gov_lib \<Rightarrow> gov_request \<Rightarrow> string" where
  "authorization_id L x =
     ''gov_'' @ gl_sha256 L (json_text (gl_float L) True '','' '':'' (json_sort (JObj (gov_request_to_dict x))))"

definition argument :: "jobj \<Rightarrow> string \<Rightarrow> pyexn + string" where
  "argument d k = (if dict_get d k = None then Inl (TypeError (''missing argument '' @ k)) else item_text d k)"

definition gov_request_from_dict :: "jobj \<Rightarrow> pyexn + gov_request" where
  "gov_request_from_dict d =
     (if \<not> fst ` set d \<subseteq> {''operation_id'', ''work_id'', ''capability_id'', ''resource_id'', ''subject_id'', ''agent_session_id'',
           ''workflow_run_id'', ''plan_id'', ''node_id'', ''input_artifacts'', ''expected_effect'', ''capability_inputs'', ''secret_handles''}
      then Inl (TypeError ''unexpected argument'')
      else
     bindE (argument d ''operation_id'') (\<lambda>op. bindE (argument d ''work_id'') (\<lambda>work.
     bindE (argument d ''capability_id'') (\<lambda>cap. bindE (argument d ''resource_id'') (\<lambda>res.
     bindE (argument d ''subject_id'') (\<lambda>sub. bindE (get_text d ''agent_session_id'' []) (\<lambda>ses.
     bindE (get_text d ''workflow_run_id'' []) (\<lambda>run. bindE (get_text d ''plan_id'' []) (\<lambda>plan.
     bindE (get_text d ''node_id'' []) (\<lambda>node. bindE (get_texts d ''input_artifacts'') (\<lambda>arts.
     bindE (as_obj (dict_get_or d ''expected_effect'' (JObj []))) (\<lambda>eff.
     bindE (as_obj (dict_get_or d ''capability_inputs'' (JObj []))) (\<lambda>inp.
     bindE (get_texts d ''secret_handles'') (\<lambda>handles.
       Inr \<lparr>gq_operation_id = op, gq_work_id = work, gq_capability_id = cap, gq_resource_id = res, gq_subject_id = sub,
         gq_agent_session_id = ses, gq_workflow_run_id = run, gq_plan_id = plan, gq_node_id = node, gq_input_artifacts = arts,
         gq_expected_effect = eff, gq_capability_inputs = inp, gq_secret_handles = handles\<rparr>))))))))))))))"

record capability_grant = authz_lease +
  cg_scope_kind :: string
  cg_capability_id :: string
  cg_resource_id :: string
  cg_work_id :: string
  cg_agent_session_id :: string
  cg_node_id :: string
  cg_authorized_by :: string
  cg_operation_governance :: bool

definition capability_grant_to_dict :: "capability_grant \<Rightarrow> jobj" where
  "capability_grant_to_dict g = authz_lease_to_dict (authz_lease.truncate g) @
    [(''scope_kind'', JStr (cg_scope_kind g)), (''capability_id'', JStr (cg_capability_id g)), (''resource_id'', JStr (cg_resource_id g)),
     (''work_id'', JStr (cg_work_id g)), (''agent_session_id'', JStr (cg_agent_session_id g)), (''node_id'', JStr (cg_node_id g)),
     (''authorized_by'', JStr (cg_authorized_by g)), (''operation_governance'', JBool (cg_operation_governance g))]"

section \<open>The gate of operations\<close>

text \<open>What an external policy provider does: it raises, or it answers, possibly nonsense.\<close>

datatype provider_answer = Provider_raises | Provider_says verdict_kind | Provider_nonsense

record op_gate =
  og_contracts :: contract_registry
  og_permissions :: "permission_engine option"
  og_policy :: "approval_policy option"
  og_provider :: "(gov_request \<Rightarrow> provider_answer) option"
  og_provider_type :: string

record human_env =
  hm_owner :: string
  hm_is_local :: "authz_context \<Rightarrow> bool"
  hm_session :: "authz_context \<Rightarrow> bool"
  hm_permission :: "authz_context \<Rightarrow> string \<Rightarrow> string \<Rightarrow> bool"

definition py_upper :: "string \<Rightarrow> string" where
  "py_upper s = concat (map (\<lambda>c. let n = of_char c :: nat in
     if n = 223 then ''SS'' else if (97 \<le> n \<and> n \<le> 122) \<or> (224 \<le> n \<and> n \<le> 254 \<and> n \<noteq> 247) then [char_of (n - 32)] else [c]) s)"

text \<open>The contract with the identifier that is registered last counts.\<close>

definition op_capability_inputs :: "op_gate \<Rightarrow> string \<Rightarrow> jobj" where
  "op_capability_inputs G cap =
     (case find (\<lambda>c. cc_capability_id c = cap) (rev (contract_list_all (og_contracts G))) of
        None \<Rightarrow> []
      | Some c \<Rightarrow>
          [(''risk'', JStr (py_upper (cc_risk_level c))), (''side_effect_class'', JStr (cc_side_effect_class c)),
           (''idempotency'', JStr (idempotency_value (cc_idempotency c))),
           (''verification_method'', JStr (verification_value (cc_verification_method c))),
           (''observation_method'', JStr (cc_observation_method c)), (''required_permissions'', jstrs (cc_required_permissions c))])"

definition op_required :: "op_gate \<Rightarrow> string \<Rightarrow> string list" where
  "op_required G cap =
     (case find (\<lambda>c. cc_capability_id c = cap) (rev (contract_list_all (og_contracts G))) of
        None \<Rightarrow> [] | Some c \<Rightarrow> cc_required_permissions c)"

text \<open>\<open>validate_secret_handles\<close>: distinct, each \<open>secret_\<close> and 32 hexadecimal digits\<close>

definition handle_ok :: "string \<Rightarrow> bool" where
  "handle_ok s \<longleftrightarrow> startswith s ''secret_'' \<and> length s = 39 \<and>
     list_all (\<lambda>c. let n = of_char c :: nat in (48 \<le> n \<and> n \<le> 57) \<or> (97 \<le> n \<and> n \<le> 102)) (drop 7 s)"

definition validate_secret_handles :: "string list \<Rightarrow> pyexn + string list" where
  "validate_secret_handles hs =
     (if \<not> list_all handle_ok hs \<or> \<not> distinct hs
      then Inl (ValueError ''SecretHandle references must be unique opaque identifiers'') else Inr hs)"

definition register_operation :: "gov_lib \<Rightarrow> gov_request \<Rightarrow> string gov" where
  "register_operation L q = (\<lambda>db.
     case bindE (if gq_secret_handles q \<noteq> [] then validate_secret_handles (gq_secret_handles q) else Inr []) (\<lambda>_.
       if redact_sensitive_data (gl_known L) (JObj (gov_request_to_dict q)) \<noteq> JObj (gov_request_to_dict q)
       then Inl (ValueError ''Credential material is not an Operation input'')
       else if [] \<in> {gq_operation_id q, gq_work_id q, gq_subject_id q, gq_capability_id q, gq_resource_id q}
       then Inl (ValueError ''Operation governance binding is incomplete'')
       else if gq_operation_id q \<noteq> gq_work_id q then Inl (ValueError ''Operation and Work identity differ'')
       else if (case find (\<lambda>r. ow_operation_id r = gq_operation_id q) (gd_operations db) of
           None \<Rightarrow> False | Some r \<Rightarrow> ow_authorization_id r \<noteq> authorization_id L q)
       then Inl (PermissionError ''Operation authorization binding changed'')
       else Inr ()) of
       Inl e \<Rightarrow> (Inl e, db)
     | Inr _ \<Rightarrow>
         (Inr (authorization_id L q),
          if \<exists>r \<in> set (gd_operations db). ow_authorization_id r = authorization_id L q \<or> ow_operation_id r = gq_operation_id q then db
          else db\<lparr>gd_operations := gd_operations db @
            [\<lparr>ow_authorization_id = authorization_id L q, ow_operation_id = gq_operation_id q,
              ow_request = (case json_sort (JObj (gov_request_to_dict q)) of JObj kvs \<Rightarrow> kvs | _ \<Rightarrow> [])\<rparr>]\<rparr>))"

definition get_operation_request :: "gov_lib \<Rightarrow> string \<Rightarrow> gov_db \<Rightarrow> pyexn + gov_request" where
  "get_operation_request L a db =
     (case find (\<lambda>r. ow_authorization_id r = a) (gd_operations db) of
        None \<Rightarrow> Inl (PermissionError ''Unknown Operation authorization'')
      | Some r \<Rightarrow> bindE (gov_request_from_dict (ow_request r)) (\<lambda>q.
          if authorization_id L q \<noteq> a then Inl (PermissionError ''Operation authorization was altered'') else Inr q))"

definition op_evidence :: "gov_lib \<Rightarrow> gov_request \<Rightarrow> jobj \<Rightarrow> jobj" where
  "op_evidence L q extra =
     fold (\<lambda>(k, v). dict_set k v) extra (dict_set ''authorization_id'' (JStr (authorization_id L q)) (gov_request_to_dict q))"

definition revoked :: "gov_db \<Rightarrow> string \<Rightarrow> bool" where
  "revoked db target \<longleftrightarrow> (\<exists>r \<in> set (gd_revocations db). vw_target_id r = target)"

definition says :: "jobj \<Rightarrow> string \<Rightarrow> string \<Rightarrow> bool" where
  "says g k s \<longleftrightarrow> dict_get g k = Some (JStr s)"

text \<open>A grant that fits the request: alive, of its capability and node, and in scope.\<close>

definition grant_alive :: "gov_env \<Rightarrow> gov_db \<Rightarrow> gov_request \<Rightarrow> bool \<Rightarrow> lease_row \<Rightarrow> bool" where
  "grant_alive E db q admitted r \<longleftrightarrow>
     lr_status r \<in> (if admitted then {''ACTIVE'', ''EXHAUSTED''} else {''ACTIVE''}) \<and>
     lr_expires_at r \<noteq> [] \<and> ge_now E < lr_expires_at r \<and> \<not> revoked db (lr_lease_id r) \<and>
     says (lr_json r) ''capability_id'' (gq_capability_id q) \<and>
     (\<not> py_truthy (dict_get_or (lr_json r) ''node_id'' JNull) \<or> says (lr_json r) ''node_id'' (gq_node_id q))"

definition scope_fits :: "gov_lib \<Rightarrow> gov_request \<Rightarrow> lease_row \<Rightarrow> bool" where
  "scope_fits L q r \<longleftrightarrow>
     (let g = lr_json r; here = says g ''resource_id'' (gq_resource_id q) in
      if says g ''scope_kind'' ''ONCE'' then lr_proposal_hash r = authorization_id L q \<and> here
      else if says g ''scope_kind'' ''WORK'' then says g ''work_id'' (gq_work_id q) \<and> here
      else if says g ''scope_kind'' ''SESSION''
      then gq_agent_session_id q \<noteq> [] \<and> says g ''agent_session_id'' (gq_agent_session_id q) \<and> here
      else if says g ''scope_kind'' ''RESOURCE'' then here
      else says g ''scope_kind'' ''CAPABILITY'')"

definition matching_grant :: "gov_lib \<Rightarrow> gov_env \<Rightarrow> gov_db \<Rightarrow> gov_request \<Rightarrow> bool \<Rightarrow> lease_row option" where
  "matching_grant L E db q admitted =
     find (\<lambda>r. lr_subject_id r = gq_subject_id q \<and> py_truthy (dict_get_or (lr_json r) ''operation_governance'' JNull) \<and>
         grant_alive E db q admitted r \<and> scope_fits L q r \<and>
         (if admitted then prior_use db (lr_lease_id r) (authorization_id L q) \<noteq> None else 0 < lr_remaining_uses r))
       (gd_leases db)"

text \<open>The proposal and the context over which the constitution is evaluated.\<close>

definition op_proposal :: "gov_lib \<Rightarrow> gov_env \<Rightarrow> gov_request \<Rightarrow> string \<Rightarrow> action_proposal" where
  "op_proposal L E q side_effect = proposal_post_init L
     \<lparr>pp_proposal_id = ge_id E ''ap'' 0, pp_proposal_hash = [], pp_action_id = ge_id E ''act'' 0, pp_action_type = ''capability.execute'',
      pp_capability_id = gq_capability_id q, pp_provider_id = [], pp_model_id = [], pp_agent_id = gq_subject_id q,
      pp_deployment_channel = [], pp_locality = [], pp_parameter_hash = [], pp_parameter_summary = [], pp_params = [], pp_target_node = [],
      pp_target_workspace = [], pp_target_project = [], pp_target_work_item = gq_work_id q, pp_affected_resources = [gq_resource_id q],
      pp_data_classification = ''internal'', pp_external_recipients = [], pp_estimated_cost_usd = 0, pp_estimated_duration_ms = 0,
      pp_side_effect_class = side_effect, pp_reversibility = ''unknown'', pp_retry_behavior = ''unknown'', pp_required_permissions = [],
      pp_evidence_references = [], pp_created_at = ge_now E, pp_expires_at = [], pp_schema_version = SCHEMA_VERSION\<rparr>"

definition op_context :: "gov_env \<Rightarrow> gov_request \<Rightarrow> authz_context" where
  "op_context E q =
     \<lparr>cx_context_id = ge_id E ''ctx'' 0, cx_subject_type = ''agent'', cx_subject_id = gq_subject_id q, cx_subject_claims = [],
      cx_authn_method = [], cx_authn_confidence = 0, cx_session_id = [], cx_session_started = [], cx_session_device = [],
      cx_session_locality = ''local'', cx_request_id = ge_id E ''req'' 0, cx_requested_at = ge_now E,
      cx_schema_version = SCHEMA_VERSION, cx_runtime_version = []\<rparr>"

definition jtext :: "jobj \<Rightarrow> string \<Rightarrow> string" where
  "jtext d k = (case dict_get d k of Some (JStr s) \<Rightarrow> s | _ \<Rightarrow> [])"

definition op_permitted :: "gov_lib \<Rightarrow> gov_env \<Rightarrow> op_gate \<Rightarrow> gov_request \<Rightarrow> string list \<Rightarrow> bool" where
  "op_permitted L E G q required \<longleftrightarrow>
     (case og_permissions G of
        None \<Rightarrow> True
      | Some e \<Rightarrow> list_all (\<lambda>a. pd_allowed (pe_check (gl_known L) (ge_clock E) (ge_policy_file E) e
          \<lparr>prq_subject = gq_subject_id q, prq_action = a, prq_resource = gq_resource_id q,
            prq_context = [(''subject_type'', JStr ''agent''), (''capability_id'', JStr (gq_capability_id q))]\<rparr>))
          (''capability.execute'' # required))"

definition approval_id_of :: "string \<Rightarrow> string" where
  "approval_id_of a = ''apr_'' @ drop 4 a"

text \<open>
  The checks of \<open>_evaluate_operation\<close> up to the external provider: the verdict that ends it, if any.
\<close>

definition op_refused :: "gov_lib \<Rightarrow> gov_env \<Rightarrow> op_gate \<Rightarrow> gov_request \<Rightarrow> gov_db \<Rightarrow> verdict_kind option" where
  "op_refused L E G q db =
     (let current = op_capability_inputs G (gq_capability_id q); side = jtext current ''side_effect_class'';
          required = op_required G (gq_capability_id q);
          approval = request_of db (approval_id_of (authorization_id L q))
      in
      if evaluate_constitution L E (op_proposal L E q (if current = [] then ''unknown'' else side)) (op_context E q) \<noteq> []
      then Some GV_DENY
      else if current = [] \<or> jtext current ''risk'' \<notin> {''LOW'', ''READ_ONLY'', ''MEDIUM'', ''HIGH'', ''CRITICAL''} then Some GV_DENY
      else if json_sort (JObj current) \<noteq> json_sort (JObj (gq_capability_inputs q)) then Some GV_UNKNOWN
      else if required \<noteq> [] \<and> og_permissions G = None then Some GV_UNKNOWN
      else if \<not> op_permitted L E G q required then Some GV_DENY
      else if jtext current ''risk'' = ''CRITICAL'' \<or> side \<notin> {''none'', ''read_only'', ''local_write'', ''external_write''}
      then Some GV_DENY
      else if revoked db (gq_resource_id q) \<or> revoked db (authorization_id L q) then Some GV_DENY
      else case approval of
          None \<Rightarrow> None
        | Some r \<Rightarrow>
            if qw_expires_at r \<le> ge_now E then Some GV_DENY
            else if qw_status r \<in> {''DENIED'', ''EXPIRED'', ''CANCELLED''} then Some GV_DENY
            else None)"

definition provider_verdict :: "op_gate \<Rightarrow> gov_request \<Rightarrow> verdict_kind" where
  "provider_verdict G q =
     (case og_provider G of
        None \<Rightarrow> GV_ALLOW
      | Some f \<Rightarrow> (case f q of Provider_says v \<Rightarrow> v | _ \<Rightarrow> GV_UNKNOWN))"

text \<open>The rest of \<open>_evaluate_operation\<close>, from the policy of the workspace to the grant\<close>

definition op_verdict ::
  "gov_lib \<Rightarrow> gov_env \<Rightarrow> op_gate \<Rightarrow> gov_request \<Rightarrow> bool \<Rightarrow> gov_db \<Rightarrow> verdict_kind \<times> lease_row option" where
  "op_verdict L E G q admitted db =
     (let external = provider_verdict G q;
          current = op_capability_inputs G (gq_capability_id q); side = jtext current ''side_effect_class'';
          grant = matching_grant L E db q admitted;
          approved = (case request_of db (approval_id_of (authorization_id L q)) of None \<Rightarrow> False | Some r \<Rightarrow> qw_status r = ''APPROVED'')
      in
      if external \<in> {GV_DENY, GV_UNKNOWN} then (external, None)
      else if external = GV_ALLOW \<and>
        (case og_policy G of None \<Rightarrow> False | Some p \<Rightarrow> ay_capability_id p = gq_capability_id q \<and> ay_auto_approve_read_only p \<and>
           ay_scope p = ''policy_controlled'') \<and>
        jtext current ''risk'' \<in> {''LOW'', ''READ_ONLY''} \<and> side \<in> {''none'', ''read_only''} \<and>
        jtext current ''idempotency'' = ''idempotent''
      then (GV_ALLOW, None)
      else if side \<notin> {''none'', ''read_only''} \<and>
        (jtext current ''observation_method'' = [] \<or> jtext current ''verification_method'' = ''none'')
      then (GV_UNKNOWN, None)
      else if approved \<and> grant = None then (GV_DENY, None)
      else (if grant = None then GV_REQUIRE_APPROVAL else GV_ALLOW, grant))"

definition evaluate_operation_in ::
  "gov_lib \<Rightarrow> gov_env \<Rightarrow> op_gate \<Rightarrow> gov_request \<Rightarrow> bool \<Rightarrow> gov_db \<Rightarrow> pyexn + (verdict_kind \<times> lease_row option) \<times> gov_db" where
  "evaluate_operation_in L E G q admitted db =
     (case op_refused L E G q db of
        Some v \<Rightarrow> Inr ((v, None), db)
      | None \<Rightarrow>
          bindE (if og_provider G = None then Inr db
            else append_operation_audit L E ''provider.policy.evaluated'' (op_evidence L q
              [(''verdict'', JStr (verdict_value (provider_verdict G q))), (''policy_provider_type'', JStr (og_provider_type G))]) db)
          (\<lambda>db. Inr (op_verdict L E G q admitted db, db)))"

definition grant_id_of :: "lease_row option \<Rightarrow> string" where
  "grant_id_of g = (case g of None \<Rightarrow> [] | Some r \<Rightarrow> lr_lease_id r)"

text \<open>
  A transaction: an exception in it rolls it back, while a refusal that is committed and then raised
  is a result.
\<close>

definition in_transaction :: "(gov_db \<Rightarrow> pyexn + (pyexn + 'a) \<times> gov_db) \<Rightarrow> 'a gov" where
  "in_transaction f = (\<lambda>db. case f db of Inl e \<Rightarrow> (Inl e, db) | Inr r \<Rightarrow> r)"

text \<open>Every exception of the program becomes \<open>UNKNOWN\<close>.\<close>

definition evaluate_operation :: "gov_lib \<Rightarrow> gov_env \<Rightarrow> op_gate \<Rightarrow> string \<Rightarrow> gov_db \<Rightarrow> verdict_kind \<times> gov_db" where
  "evaluate_operation L E G a db =
     (case get_operation_request L a db of
        Inl _ \<Rightarrow> (GV_UNKNOWN, db)
      | Inr q \<Rightarrow>
          if \<not> ge_up E ''evaluate_operation'' then (GV_UNKNOWN, db)
          else
            (case bindE (evaluate_operation_in L E G q False db) (\<lambda>((v, g), db).
               let ev = op_evidence L q [(''verdict'', JStr (verdict_value v)), (''grant_id'', JStr (grant_id_of g)),
                   (''policy_id'', JStr (case og_policy G of None \<Rightarrow> [] | Some p \<Rightarrow> ay_policy_id p))]
               in bindE (append_operation_audit L E ''policy.evaluated'' ev db) (\<lambda>db.
                  bindE (append_operation_audit L E ''authorization.decided'' ev db) (\<lambda>db. Inr (v, db)))) of
               Inl _ \<Rightarrow> (GV_UNKNOWN, db)
             | Inr r \<Rightarrow> r))"

section \<open>Human authority\<close>

definition human_valid :: "gov_lib \<Rightarrow> gov_env \<Rightarrow> human_env \<Rightarrow> op_gate \<Rightarrow> authz_context \<Rightarrow> gov_request \<Rightarrow> bool" where
  "human_valid L E U G c q \<longleftrightarrow>
     cx_subject_type c = ''user'' \<and> cx_subject_id c \<noteq> gq_subject_id q \<and> 8 / 10 \<le> cx_authn_confidence c \<and>
     (hm_session U c \<and> hm_permission U c ''governance.approve'' (gq_resource_id q) \<or>
      hm_is_local U c \<and> cx_subject_id c = hm_owner U \<and> cx_authn_method c = ''cli_os_user'' \<and> cx_session_locality c = ''local'') \<and>
     (case og_permissions G of
        None \<Rightarrow> True
      | Some e \<Rightarrow> pd_allowed (pe_check (gl_known L) (ge_clock E) (ge_policy_file E) e
          \<lparr>prq_subject = cx_subject_id c, prq_action = ''governance.approve'', prq_resource = gq_resource_id q,
            prq_context = [(''subject_type'', JStr (cx_subject_type c))]\<rparr>))"

text \<open>A refusal is on record, and it is committed although the caller raises.\<close>

definition require_human :: "gov_lib \<Rightarrow> gov_env \<Rightarrow> human_env \<Rightarrow> op_gate \<Rightarrow> authz_context \<Rightarrow> gov_request \<Rightarrow> unit gov" where
  "require_human L E U G c q = in_transaction (\<lambda>db.
     if human_valid L E U G c q then Inr (Inr (), db)
     else bindE (append_operation_audit L E ''authority.rejected'' (op_evidence L q
         [(''actor_id'', JStr (cx_subject_id c)), (''actor_type'', JStr (cx_subject_type c)),
          (''authorization_context_id'', JStr (cx_context_id c))]) db)
       (\<lambda>db. Inr (Inl (PermissionError ''Only an authenticated enrolled human can grant authority''), db)))"

text \<open>What the operations of a human share: the request, the authority, and then the transaction.\<close>

definition as_human ::
  "gov_lib \<Rightarrow> gov_env \<Rightarrow> human_env \<Rightarrow> op_gate \<Rightarrow> string \<Rightarrow> authz_context \<Rightarrow> (gov_request \<Rightarrow> gov_db \<Rightarrow> pyexn + 'a \<times> gov_db) \<Rightarrow> 'a gov" where
  "as_human L E U G a c act = (\<lambda>db.
     case get_operation_request L a db of
       Inl e \<Rightarrow> (Inl e, db)
     | Inr q \<Rightarrow>
         (case require_human L E U G c q db of
            (Inl e, db) \<Rightarrow> (Inl e, db)
          | (Inr _, db) \<Rightarrow> (case act q db of Inl e \<Rightarrow> (Inl e, db) | Inr (x, db') \<Rightarrow> (Inr x, db'))))"

definition human_evidence :: "authz_context \<Rightarrow> jobj" where
  "human_evidence c = [(''actor_id'', JStr (cx_subject_id c)), (''authorization_context_id'', JStr (cx_context_id c)),
     (''human_session_id'', JStr (cx_session_id c))]"

definition insert_grant :: "capability_grant \<Rightarrow> gov_db \<Rightarrow> pyexn + gov_db" where
  "insert_grant g db = insert_lease (capability_grant_to_dict g) db"

definition grant_for ::
  "gov_lib \<Rightarrow> gov_env \<Rightarrow> gov_request \<Rightarrow> authz_context \<Rightarrow> string \<Rightarrow> string \<Rightarrow> approval_scope \<Rightarrow> int \<Rightarrow> string \<Rightarrow> capability_grant" where
  "grant_for L E q c approval kind scope uses expires =
     \<lparr>al_lease_id = ge_id E ''al'' 0, al_proposal_hash = authorization_id L q, al_approval_id = approval, al_subject_id = gq_subject_id q,
      al_scope = Some scope, al_max_uses = uses, al_remaining_uses = uses, al_issued_at = ge_now E, al_expires_at = expires,
      al_status = ''ACTIVE'', al_schema_version = SCHEMA_VERSION, cg_scope_kind = kind, cg_capability_id = gq_capability_id q,
      cg_resource_id = gq_resource_id q, cg_work_id = gq_work_id q, cg_agent_session_id = gq_agent_session_id q,
      cg_node_id = gq_node_id q, cg_authorized_by = cx_subject_id c, cg_operation_governance = True\<rparr>"

definition issue_operation_grant ::
  "gov_lib \<Rightarrow> gov_env \<Rightarrow> human_env \<Rightarrow> op_gate \<Rightarrow> string \<Rightarrow> authz_context \<Rightarrow> string \<Rightarrow> int \<Rightarrow> int \<Rightarrow> capability_grant gov" where
  "issue_operation_grant L E U G a c kind uses seconds = as_human L E U G a c (\<lambda>q db.
     if kind \<notin> set GRANT_SCOPES then Inl (ValueError (''not a valid GrantScope: '' @ kind))
     else if \<not> (0 < seconds \<and> seconds \<le> 86400) \<or> \<not> (0 < uses \<and> uses \<le> 1000)
     then Inl (ValueError ''Grant duration and uses must be explicitly bounded'')
     else if kind = ''ONCE'' \<and> uses \<noteq> 1 then Inl (ValueError ''ONCE grants have exactly one use'')
     else if revoked db (gq_resource_id q) \<or> revoked db (authorization_id L q) then Inl (PermissionError ''Resource remains revoked'')
     else
       let g = grant_for L E q c [] kind
             (scope_default\<lparr>sk_proposal_hash := a, sk_capability_id := gq_capability_id q\<rparr>) uses (ge_later E seconds)
       in bindE (insert_grant g db) (\<lambda>db.
          bindE (append_operation_audit L E ''grant.issued'' (op_evidence L q
            ([(''grant_id'', JStr (al_lease_id g)), (''scope'', JStr kind)] @ human_evidence c)) db) (\<lambda>db. Inr (g, db))))"

section \<open>Approval of operations\<close>

definition request_operation_approval :: "gov_lib \<Rightarrow> gov_env \<Rightarrow> string \<Rightarrow> approval_request gov" where
  "request_operation_approval L E a = in_transaction (\<lambda>db.
     bindE (get_operation_request L a db) (\<lambda>q.
         (case request_of db (approval_id_of a) of
            Some r \<Rightarrow> Inr (approval_request_from_dict (qw_json r), db)
          | None \<Rightarrow>
              let p = \<lparr>aq_request_id = approval_id_of a, aq_proposal_hash = a, aq_summary = gq_capability_id q @ '': '' @ gq_resource_id q,
                    aq_risk_summary = (case dict_get_or (gq_capability_inputs q) ''risk'' (JStr ''UNKNOWN'') of JStr s \<Rightarrow> s | _ \<Rightarrow> []),
                    aq_scope_summary = ''Approve Once for the exact original Operation'', aq_status = ''PENDING'',
                    aq_requested_by = gq_subject_id q, aq_requested_at = ge_now E, aq_expires_at = ge_later E 3600,
                    aq_priority = ''normal'', aq_schema_version = SCHEMA_VERSION\<rparr>;
                  value = approval_request_to_dict p @ [(''operation_governance'', JBool True), (''governance_request_id'', JStr a),
                    (''run_id'', JStr (gq_workflow_run_id q)), (''task_id'', JStr (gq_work_id q)), (''bindings'', JObj (op_evidence L q []))];
                  row = \<lparr>qw_id = approval_id_of a, qw_hash = a, qw_status = ''PENDING'', qw_requested_by = gq_subject_id q,
                    qw_requested_at = ge_now E, qw_expires_at = aq_expires_at p, qw_json = value\<rparr>
              in bindE (append_operation_audit L E ''approval.requested''
                   (op_evidence L q [(''approval_id'', JStr (approval_id_of a))]) (db\<lparr>gd_requests := gd_requests db @ [row]\<rparr>))
                 (\<lambda>db. Inr (Inr p, db)))))"

text \<open>The transaction of \<open>respond_operation_approval\<close>; \<open>rec'\<close> is the request as it was read before.\<close>

definition answer_operation ::
  "gov_lib \<Rightarrow> gov_env \<Rightarrow> string \<Rightarrow> jobj \<Rightarrow> authz_context \<Rightarrow> bool \<Rightarrow> gov_request \<Rightarrow> gov_db \<Rightarrow> pyexn + approval_response \<times> gov_db" where
  "answer_operation L E i rec' c approve q db =
     (case request_of db i of
        None \<Rightarrow> Inl (TypeError ''NoneType'')
      | Some row \<Rightarrow>
          if qw_status row \<noteq> ''PENDING'' \<or> qw_expires_at row \<le> ge_now E
          then Inl (PermissionError ''Approval is no longer pending or has expired'')
          else if revoked db (gq_resource_id q) \<or> revoked db (authorization_id L q)
          then Inl (PermissionError ''Resource remains revoked'')
          else
            let decision = (if approve then ''APPROVED'' else ''DENIED'');
                s = scope_default\<lparr>sk_proposal_hash := authorization_id L q, sk_max_uses := 1\<rparr>;
                r = \<lparr>ar_response_id = ge_id E ''aprsp'' 0, ar_request_id = i, ar_proposal_hash = authorization_id L q,
                  ar_decision = decision, ar_scope = Some s, ar_approver_id = cx_subject_id c,
                  ar_approver_method = cx_authn_method c, ar_reason = [], ar_responded_at = ge_now E,
                  ar_schema_version = SCHEMA_VERSION\<rparr>;
                g = grant_for L E q c (ar_response_id r) ''ONCE'' s 1 (qw_expires_at row)
            in bindE (if approve
                 then bindE (insert_grant g db) (append_operation_audit L E ''grant.issued'' (op_evidence L q
                   ([(''grant_id'', JStr (al_lease_id g)), (''scope'', JStr ''ONCE'')] @ human_evidence c)))
                 else Inr db) (\<lambda>db.
               bindE (insert_response (approval_response_to_dict r)
                 (db\<lparr>gd_requests := map (\<lambda>x. if qw_id x = i
                    then x\<lparr>qw_status := decision, qw_json := dict_set ''status'' (JStr decision) rec'\<rparr> else x) (gd_requests db)\<rparr>)) (\<lambda>db.
               bindE (append_operation_audit L E ''approval.decided'' (op_evidence L q
                 ([(''approval_id'', JStr i), (''decision'', JStr decision)] @ human_evidence c)) db) (\<lambda>db. Inr (r, db)))))"

definition respond_operation_approval ::
  "gov_lib \<Rightarrow> gov_env \<Rightarrow> human_env \<Rightarrow> op_gate \<Rightarrow> string \<Rightarrow> authz_context \<Rightarrow> bool \<Rightarrow> approval_response gov" where
  "respond_operation_approval L E U G i c approve = (\<lambda>db.
     case get_approval_request E i db of
       None \<Rightarrow> (Inl (ValueError ''Not an Operation approval request''), db)
     | Some rec' \<Rightarrow>
         if \<not> py_truthy (dict_get_or rec' ''operation_governance'' JNull)
         then (Inl (ValueError ''Not an Operation approval request''), db)
         else case item_text rec' ''governance_request_id'' of
             Inl e \<Rightarrow> (Inl e, db)
           | Inr a \<Rightarrow> as_human L E U G a c (answer_operation L E i rec' c approve) db)"

text \<open>
  \<open>respond_legacy\<close> of the broker: an answer to a stored approval by an authenticated human, who is
  checked for every resource of the proposal before and inside the transaction. Broker and gate
  share one store.
\<close>

definition legacy_requests :: "string \<Rightarrow> jobj \<Rightarrow> action_proposal \<Rightarrow> gov_request list" where
  "legacy_requests i rec' p =
     map (\<lambda>r. \<lparr>gq_operation_id = i, gq_work_id = [], gq_capability_id = pp_capability_id p, gq_resource_id = r,
         gq_subject_id = jtext rec' ''requested_by'', gq_agent_session_id = [], gq_workflow_run_id = [], gq_plan_id = [],
         gq_node_id = [], gq_input_artifacts = [], gq_expected_effect = [], gq_capability_inputs = [], gq_secret_handles = []\<rparr>)
       (if pp_affected_resources p \<noteq> [] then pp_affected_resources p
        else [if pp_target_workspace p \<noteq> [] then pp_target_workspace p else ''proposal:'' @ pp_proposal_hash p])"

fun legacy_human ::
  "gov_lib \<Rightarrow> gov_env \<Rightarrow> human_env \<Rightarrow> op_gate \<Rightarrow> string \<Rightarrow> authz_context \<Rightarrow> gov_request list \<Rightarrow> unit gov" where
  "legacy_human L E U G action c [] db = (Inr (), db)"
| "legacy_human L E U G action c (q # qs) db =
     (case require_human L E U G c q db of
        (Inl e, db) \<Rightarrow> (Inl e, db)
      | (Inr _, db) \<Rightarrow>
          if hm_session U c \<and>
             \<not> hm_permission U c (if action = ''approve'' then ''control.approve_once'' else ''control.deny'') (gq_resource_id q)
          then (Inl (PermissionError ''Human approval permission denied''), db)
          else legacy_human L E U G action c qs db)"

definition legacy_admit ::
  "gov_lib \<Rightarrow> gov_env \<Rightarrow> human_env \<Rightarrow> op_gate \<Rightarrow> string \<Rightarrow> string \<Rightarrow> authz_context \<Rightarrow> jobj \<Rightarrow> jobj \<Rightarrow> action_proposal \<Rightarrow>
   gov_request list \<Rightarrow> gov_db \<Rightarrow> pyexn + gov_db" where
  "legacy_admit L E U G i action c rec' raw p qs db =
     (case request_of db i of
        None \<Rightarrow> Inl (PermissionError ''Original approval is no longer pending or differs'')
      | Some row \<Rightarrow>
          if qw_status row \<noteq> ''PENDING'' \<or> \<not> says rec' ''proposal_hash'' (qw_hash row) \<or>
             \<not> says rec' ''requested_by'' (qw_requested_by row) \<or> \<not> says rec' ''expires_at'' (qw_expires_at row)
          then Inl (PermissionError ''Original approval is no longer pending or differs'')
          else case policy_deadline (qw_expires_at row) of
              Inl _ \<Rightarrow> Inl (PermissionError ''Approval lifetime is invalid or unbounded'')
            | Inr None \<Rightarrow> Inl (PermissionError ''Approval is expired or unbounded'')
            | Inr (Some t) \<Rightarrow>
                if t \<le> ge_clock E then Inl (PermissionError ''Approval is expired or unbounded'')
                else if qw_json row \<noteq> rec' \<or>
                  map_option pw_json (find (\<lambda>r. pw_hash r = pp_proposal_hash p) (gd_proposals db)) \<noteq> Some raw
                then Inl (PermissionError ''Original approval evidence changed before admission'')
                else case legacy_human L E U G action c qs db of
                    (Inl e, _) \<Rightarrow> Inl e
                  | (Inr _, db) \<Rightarrow> append_operation_audit L E ''approval.legacy.decision.admitted''
                      [(''request_id'', JStr i), (''proposal_hash'', JStr (pp_proposal_hash p)),
                       (''run_id'', dict_get_or rec' ''run_id'' (JStr [])), (''task_id'', dict_get_or rec' ''task_id'' (JStr [])),
                       (''capability_id'', JStr (pp_capability_id p)), (''resources'', jstrs (map gq_resource_id qs)),
                       (''action'', JStr action), (''actor_id'', JStr (cx_subject_id c)),
                       (''human_session_id'', JStr (cx_session_id c)), (''authorization_context_id'', JStr (cx_context_id c))] db)"

definition respond_legacy ::
  "gov_lib \<Rightarrow> gov_env \<Rightarrow> human_env \<Rightarrow> op_gate \<Rightarrow> string \<Rightarrow> string \<Rightarrow> authz_context \<Rightarrow> string \<Rightarrow> approval_response brokered" where
  "respond_legacy L E U G i action c reason = (\<lambda>b db.
     if action \<notin> {''approve'', ''deny''} then (Inl (ValueError ''Approval supports only Approve Once and Deny''), b, db)
     else
       case bindE (case get_approval_request E i db of
           None \<Rightarrow> Inl (PermissionError ''Original legacy approval binding is unavailable'')
         | Some rec' \<Rightarrow>
             if rec' = [] \<or> py_truthy (dict_get_or rec' ''operation_governance'' JNull)
             then Inl (PermissionError ''Original legacy approval binding is unavailable'')
             else bindE (item_text rec' ''proposal_hash'') (\<lambda>h. bindE (item_text rec' ''requested_by'') (\<lambda>_.
               case get_proposal E h db of
                 None \<Rightarrow> Inl (PermissionError ''Original proposal evidence is unavailable'')
               | Some raw \<Rightarrow>
                   if raw = [] then Inl (PermissionError ''Original proposal evidence is unavailable'')
                   else bindE (action_proposal_from_dict L raw) (\<lambda>p.
                     if pp_proposal_hash p \<noteq> h \<or> compute_hash L p \<noteq> h then Inl (PermissionError ''Original proposal digest differs'')
                     else Inr (rec', raw, p))))) Inr of
         Inl e \<Rightarrow> (Inl e, b, db)
       | Inr (rec', raw, p) \<Rightarrow>
           let qs = legacy_requests i rec' p in
           case legacy_human L E U G action c qs db of
             (Inl e, db) \<Rightarrow> (Inl e, b, db)
           | (Inr _, db) \<Rightarrow>
               let check = Some (legacy_admit L E U G i action c rec' raw p qs) in
               if action = ''approve''
               then broker_approve E i (cx_subject_id c) ''once''
                 (if reason = [] then ''Authenticated human approved the original proposal'' else reason) True [] check b db
               else broker_deny E i (cx_subject_id c)
                 (if reason = [] then ''Authenticated human denied the original proposal'' else reason) check b db)"

section \<open>Revocation\<close>

definition add_revocation :: "gov_env \<Rightarrow> string \<Rightarrow> string \<Rightarrow> authz_context \<Rightarrow> gov_db \<Rightarrow> pyexn + gov_db" where
  "add_revocation E kind target c db =
     (let v = revocation_of E kind target (cx_subject_id c) [] in
      if \<exists>x \<in> set (gd_revocations db). vw_id x = rv_revocation_id v
      then Inl (RuntimeError ''UNIQUE constraint failed: governance_revocations.revocation_id'')
      else Inr (db\<lparr>gd_revocations := gd_revocations db @ [\<lparr>vw_id = rv_revocation_id v, vw_target_type = kind, vw_target_id = target,
        vw_json = revocation_record_to_dict v\<rparr>]\<rparr>))"

definition revoke_operation_authority ::
  "gov_lib \<Rightarrow> gov_env \<Rightarrow> human_env \<Rightarrow> op_gate \<Rightarrow> string \<Rightarrow> authz_context \<Rightarrow> string \<Rightarrow> bool \<Rightarrow> unit gov" where
  "revoke_operation_authority L E U G a c grant_id resource = as_human L E U G a c (\<lambda>q db.
     let target = (if resource then gq_resource_id q else grant_id) in
     if target = [] then Inl (ValueError ''Revocation target required'')
     else
       let db = (if resource then db else set_lease target (\<lambda>r. r\<lparr>lr_status := ''REVOKED''\<rparr>) db) in
       bindE (add_revocation E (if resource then ''resource'' else ''lease'') target c db) (\<lambda>db.
       bindE (append_operation_audit L E (if resource then ''resource.revoked'' else ''grant.revoked'') (op_evidence L q
           ((''target_id'', JStr target) # human_evidence c)) db) (\<lambda>db. Inr ((), db))))"

definition interrupt_operation ::
  "gov_lib \<Rightarrow> gov_env \<Rightarrow> human_env \<Rightarrow> op_gate \<Rightarrow> string \<Rightarrow> authz_context \<Rightarrow> jobj gov" where
  "interrupt_operation L E U G a c = as_human L E U G a c (\<lambda>q db.
     bindE (if revoked db a then Inr db else add_revocation E ''operation'' a c db) (\<lambda>db.
     bindE (append_operation_audit L E ''operation.interrupted'' (op_evidence L q
           (human_evidence c @ [(''effect_stopped'', JBool False)])) db) (\<lambda>db.
       Inr ([(''authorization_id'', JStr a), (''future_admission_revoked'', JBool True), (''effect_stopped'', JBool False)], db))))"

definition record_operation_evidence :: "gov_lib \<Rightarrow> gov_env \<Rightarrow> string \<Rightarrow> string \<Rightarrow> jobj \<Rightarrow> unit gov" where
  "record_operation_evidence L E a ev extra = in_transaction (\<lambda>db.
     bindE (get_operation_request L a db) (\<lambda>q.
     bindE (append_operation_audit L E ev (op_evidence L q extra) db) (\<lambda>db. Inr (Inr (), db))))"

section \<open>Admission\<close>

text \<open>
  One use of the grant of an admission. The lease keeps its own row; the JSON is rewritten too.
\<close>

definition spend_grant :: "gov_env \<Rightarrow> string \<Rightarrow> lease_row \<Rightarrow> gov_db \<Rightarrow> pyexn + gov_db" where
  "spend_grant E a g db =
     (let n = lr_remaining_uses g - 1; st = (if n \<noteq> 0 then ''ACTIVE'' else ''EXHAUSTED'');
          json = dict_set ''status'' (JStr st) (dict_set ''remaining_uses'' (JInt n) (lr_json g));
          db = set_lease (lr_lease_id g) (\<lambda>r. r\<lparr>lr_remaining_uses := n, lr_status := st, lr_json := json\<rparr>) db
      in if \<exists>u \<in> set (gd_uses db). uw_log_id u = ge_id E ''use'' 0 \<or> uw_lease_id u = lr_lease_id g \<and> uw_execution_id u = a
         then Inl (RuntimeError ''UNIQUE constraint failed: governance_lease_consumption'')
         else Inr (db\<lparr>gd_uses := gd_uses db @ [\<lparr>uw_log_id = ge_id E ''use'' 0, uw_lease_id = lr_lease_id g, uw_execution_id = a,
           uw_consumed_at = ge_now E, uw_remaining_after = n\<rparr>]\<rparr>))"

text \<open>The first transaction of \<open>admit_operation\<close>; \<open>resource_check\<close> is what the callback answers.\<close>

definition admit_operation ::
  "gov_lib \<Rightarrow> gov_env \<Rightarrow> op_gate \<Rightarrow> bool \<Rightarrow> bool \<Rightarrow> string \<Rightarrow> gov_request gov" where
  "admit_operation L E G node_context resource_check a = in_transaction (\<lambda>db.
     bindE (get_operation_request L a db) (\<lambda>q.
       if gq_secret_handles q \<noteq> [] \<and> \<not> node_context
       then Inl (PermissionError ''Credential Operation requires authenticated Node execution'')
       else
         bindE (evaluate_operation_in L E G q False db) (\<lambda>((v, grant), db).
           if \<exists>u \<in> set (gd_uses db). uw_execution_id u = a
           then Inl (PermissionError ''An admitted Operation cannot execute again'')
           else if v \<noteq> GV_ALLOW \<or> \<not> resource_check
           then bindE (append_operation_audit L E ''execution.denied'' (op_evidence L q [(''verdict'', JStr (verdict_value v))]) db)
             (\<lambda>db. Inr (Inl (PermissionError ''Operation execution is not authorized''), db))
           else
             bindE (case grant of None \<Rightarrow> Inr db | Some g \<Rightarrow> spend_grant E a g db) (\<lambda>db.
             bindE (append_operation_audit L E ''execution.admitted'' (op_evidence L q [(''grant_id'', JStr (grant_id_of grant))]) db)
               (\<lambda>db. Inr (Inr q, db))))))"

text \<open>\<open>revalidate\<close>, called immediately before the effect in the second transaction\<close>

definition revalidate :: "gov_lib \<Rightarrow> gov_env \<Rightarrow> op_gate \<Rightarrow> bool \<Rightarrow> gov_request \<Rightarrow> unit gov" where
  "revalidate L E G resource_check q = in_transaction (\<lambda>db.
     bindE (evaluate_operation_in L E G q True db) (\<lambda>((v, _), db).
       if v \<noteq> GV_ALLOW \<or> \<not> resource_check
       then bindE (append_operation_audit L E ''execution.denied'' (op_evidence L q
           [(''verdict'', JStr (verdict_value v)), (''phase'', JStr ''before_effect'')]) db)
         (\<lambda>db. Inr (Inl (PermissionError ''Authorization changed immediately before effect''), db))
       else Inr (Inr (), db)))"

end
