(* ===== verification/Governance_Proofs.thy ===== *)
theory Governance_Proofs
  imports Governance_Operation
begin

text \<open>
  What the operations of the governance layer do to its tables. Every operation is a sequence of
  eight kinds of primitive changes (\<open>change\<close>); what is to hold of all operations is shown for these
  by rule induction: the tables stay well formed, a request has at most one answer, the books of
  the leases balance, a closed lease stays closed, and the audit chain verifies.
\<close>

declare if_image_distrib [simp del]

section \<open>Primitive changes\<close>

text \<open>The primary and unique keys of the tables that \<open>others_same\<close> is about\<close>

definition other_keys :: "gov_db \<Rightarrow> bool" where
  "other_keys db \<longleftrightarrow>
     distinct (map ow_authorization_id (gd_operations db)) \<and> distinct (map ow_operation_id (gd_operations db)) \<and>
     distinct (map pw_id (gd_proposals db)) \<and> distinct (map pw_hash (gd_proposals db)) \<and>
     distinct (map dw_id (gd_decisions db)) \<and> distinct (map gw_id (gd_delegations db)) \<and>
     distinct (map vw_id (gd_revocations db)) \<and> distinct (map yw_policy_id (gd_policies db))"

definition others_same :: "gov_db \<Rightarrow> gov_db \<Rightarrow> bool" where
  "others_same db db' \<longleftrightarrow>
     gd_requests db' = gd_requests db \<and> gd_responses db' = gd_responses db \<and> gd_leases db' = gd_leases db \<and>
     gd_uses db' = gd_uses db \<and> gd_audit db' = gd_audit db \<and> (\<exists>vs. gd_revocations db' = gd_revocations db @ vs) \<and>
     (other_keys db \<longrightarrow> other_keys db')"

inductive change :: "gov_lib \<Rightarrow> gov_db \<Rightarrow> gov_db \<Rightarrow> bool" for L db where
  audit: "aw_id r \<notin> aw_id ` set (gd_audit db) \<Longrightarrow> change L db (audit_append L r db)"
| other: "others_same db db' \<Longrightarrow> change L db db'"
| request: "qw_id q \<notin> qw_id ` set (gd_requests db) \<Longrightarrow> change L db (db\<lparr>gd_requests := gd_requests db @ [q]\<rparr>)"
| expire: "st \<noteq> ''PENDING'' \<Longrightarrow> change L db (set_request_status P st db)"
| answer: "\<lbrakk>q \<in> set (gd_requests db); qw_id q = i; qw_status q = ''PENDING''; \<And>x. qw_id (f x) = qw_id x; \<And>x. qw_status (f x) = st;
     st \<noteq> ''PENDING''; sw_request_id s = i; sw_id s \<notin> sw_id ` set (gd_responses db)\<rbrakk> \<Longrightarrow>
   change L db (db\<lparr>gd_requests := map (\<lambda>x. if qw_id x = i \<and> qw_status x = ''PENDING'' then f x else x) (gd_requests db),
     gd_responses := gd_responses db @ [s]\<rparr>)"
| lease: "\<lbrakk>lr_lease_id r \<notin> lr_lease_id ` set (gd_leases db); lr_remaining_uses r \<le> lr_max_uses r\<rbrakk> \<Longrightarrow>
   change L db (db\<lparr>gd_leases := gd_leases db @ [r]\<rparr>)"
| close: "st \<noteq> ''ACTIVE'' \<Longrightarrow> change L db (set_lease l (\<lambda>r. r\<lparr>lr_status := st\<rparr>) db)"
| spend: "\<lbrakk>r \<in> set (gd_leases db); lr_lease_id r = l; lr_status r = ''ACTIVE''; 0 < lr_remaining_uses r; prior_use db l x = None;
     \<And>y. lr_lease_id (f y) = lr_lease_id y; \<And>y. lr_max_uses (f y) = lr_max_uses y;
     \<And>y. lr_remaining_uses (f y) = lr_remaining_uses r - 1; \<And>y. lr_status (f y) = (if lr_remaining_uses r = 1 then ''EXHAUSTED'' else ''ACTIVE'');
     us = [] \<or> (\<exists>u. us = [u] \<and> uw_lease_id u = l \<and> uw_execution_id u = x \<and> uw_log_id u \<notin> set (map uw_log_id (gd_uses db)))\<rbrakk> \<Longrightarrow>
   change L db ((set_lease l f db)\<lparr>gd_uses := gd_uses db @ us\<rparr>)"

inductive_cases changeE: "change L db db'"

abbreviation changes :: "gov_lib \<Rightarrow> gov_db \<Rightarrow> gov_db \<Rightarrow> bool" where
  "changes L \<equiv> (change L)\<^sup>*\<^sup>*"

lemma changes_trans: "changes L a b \<Longrightarrow> changes L b c \<Longrightarrow> changes L a c"
  by (rule rtranclp_trans)

lemma changes_one: "change L a b \<Longrightarrow> changes L a b"
  by (rule r_into_rtranclp)

section \<open>Well-formed tables\<close>

definition uses_of :: "gov_db \<Rightarrow> string \<Rightarrow> use_row list" where
  "uses_of db l = filter (\<lambda>u. uw_lease_id u = l) (gd_uses db)"

definition answers_of :: "gov_db \<Rightarrow> string \<Rightarrow> response_row list" where
  "answers_of db i = filter (\<lambda>s. sw_request_id s = i) (gd_responses db)"

definition keys_ok :: "string list \<Rightarrow> string list \<Rightarrow> string list \<Rightarrow> (string \<times> string) list \<Rightarrow> bool" where
  "keys_ok requests leases answered used \<longleftrightarrow>
     distinct requests \<and> distinct leases \<and> set answered \<subseteq> set requests \<and> fst ` set used \<subseteq> set leases \<and> distinct used"

definition use_key :: "use_row \<Rightarrow> string \<times> string" where
  "use_key u = (uw_lease_id u, uw_execution_id u)"

definition gov_ok :: "gov_db \<Rightarrow> bool" where
  "gov_ok db \<longleftrightarrow> keys_ok (map qw_id (gd_requests db)) (map lr_lease_id (gd_leases db))
     (map sw_request_id (gd_responses db)) (map use_key (gd_uses db)) \<and>
     distinct (map sw_id (gd_responses db)) \<and> distinct (map uw_log_id (gd_uses db)) \<and> distinct (map aw_id (gd_audit db)) \<and>
     other_keys db"

text \<open>A pending request has no answer, any other at most one.\<close>

definition answered_once :: "gov_db \<Rightarrow> bool" where
  "answered_once db \<longleftrightarrow>
     (\<forall>q \<in> set (gd_requests db). length (answers_of db (qw_id q)) \<le> (if qw_status q = ''PENDING'' then 0 else 1))"

text \<open>What has been used of a lease and what remains never exceeds what was granted.\<close>

definition books_balance :: "gov_db \<Rightarrow> bool" where
  "books_balance db \<longleftrightarrow>
     (\<forall>r \<in> set (gd_leases db). int (length (uses_of db (lr_lease_id r))) + lr_remaining_uses r \<le> lr_max_uses r \<and>
        (uses_of db (lr_lease_id r) \<noteq> [] \<longrightarrow> 0 \<le> lr_remaining_uses r))"

lemma answers_of_none: "i \<notin> sw_request_id ` set (gd_responses db) \<Longrightarrow> answers_of db i = []"
  by (auto simp: answers_of_def filter_empty_conv)

lemma uses_of_none: "l \<notin> uw_lease_id ` set (gd_uses db) \<Longrightarrow> uses_of db l = []"
  by (auto simp: uses_of_def filter_empty_conv)

lemma unique_by: "distinct (map f xs) \<Longrightarrow> a \<in> set xs \<Longrightarrow> b \<in> set xs \<Longrightarrow> f a = f b \<Longrightarrow> a = b"
  by (auto simp: distinct_map dest: inj_onD)

lemma prior_use_None: "prior_use db l x = None \<longleftrightarrow> (l, x) \<notin> set (map use_key (gd_uses db))"
  by (auto simp: prior_use_def find_None_iff use_key_def)

lemma keys_if: "(\<And>x. k (f x) = k x) \<Longrightarrow> map k (map (\<lambda>x. if P x then f x else x) xs) = map k xs"
  by auto

lemma set_lease_simps [simp]:
  "gd_requests (set_lease l f db) = gd_requests db" "gd_responses (set_lease l f db) = gd_responses db"
  "gd_uses (set_lease l f db) = gd_uses db" "gd_audit (set_lease l f db) = gd_audit db"
  "gd_revocations (set_lease l f db) = gd_revocations db" "gd_operations (set_lease l f db) = gd_operations db"
  "gd_leases (set_lease l f db) = map (\<lambda>r. if lr_lease_id r = l then f r else r) (gd_leases db)"
  by (simp_all add: set_lease_def)

lemma set_request_status_simps [simp]:
  "gd_responses (set_request_status P st db) = gd_responses db" "gd_leases (set_request_status P st db) = gd_leases db"
  "gd_uses (set_request_status P st db) = gd_uses db" "gd_audit (set_request_status P st db) = gd_audit db"
  "gd_revocations (set_request_status P st db) = gd_revocations db"
  "gd_requests (set_request_status P st db) = map (\<lambda>r. if P r then r\<lparr>qw_status := st\<rparr> else r) (gd_requests db)"
  by (simp_all add: set_request_status_def)

lemma audit_append_simps [simp]:
  "gd_requests (audit_append L r db) = gd_requests db" "gd_responses (audit_append L r db) = gd_responses db"
  "gd_leases (audit_append L r db) = gd_leases db" "gd_uses (audit_append L r db) = gd_uses db"
  "gd_revocations (audit_append L r db) = gd_revocations db" "gd_operations (audit_append L r db) = gd_operations db"
  by (simp_all add: audit_append_def)

lemma audit_ids: "map aw_id (gd_audit (audit_append L r db)) = map aw_id (gd_audit db) @ [aw_id r]"
  by (simp add: audit_append_def)

lemma operation_audit_Inr:
  assumes "append_operation_audit L E ev x db = Inr db'"
  obtains r where "db' = audit_append L r db" "aw_id r \<notin> aw_id ` set (gd_audit db)" "aw_id r = ge_id E ''aud'' (length (gd_audit db))"
proof -
  from assms obtain r where "db' = audit_append L r db" "\<not> (\<exists>y \<in> set (gd_audit db). aw_id y = aw_id r)"
      "aw_id r = ge_id E ''aud'' (length (gd_audit db))"
    by (auto simp: append_operation_audit_def Let_def split: if_split_asm)
  then show thesis by (intro that [of r]) auto
qed

lemma operation_audit_frame:
  assumes "append_operation_audit L E ev x db = Inr db'"
  shows "gd_uses db' = gd_uses db" "gd_leases db' = gd_leases db" "gd_revocations db' = gd_revocations db"
    "gd_requests db' = gd_requests db" "gd_operations db' = gd_operations db" "gd_responses db' = gd_responses db"
  using assms by (auto elim: operation_audit_Inr)

lemma other_keys_frame [simp]:
  "other_keys (audit_append L r db) = other_keys db" "other_keys (set_lease l f db) = other_keys db"
  "other_keys (db\<lparr>gd_requests := qs\<rparr>) = other_keys db" "other_keys (db\<lparr>gd_responses := ss\<rparr>) = other_keys db"
  "other_keys (db\<lparr>gd_leases := ls\<rparr>) = other_keys db" "other_keys (db\<lparr>gd_uses := us\<rparr>) = other_keys db"
  "other_keys (set_request_status P st db) = other_keys db"
  by (simp_all add: other_keys_def audit_append_def set_lease_def set_request_status_def)

lemma gov_okD:
  assumes "gov_ok db"
  shows "distinct (map qw_id (gd_requests db))" "distinct (map lr_lease_id (gd_leases db))"
    "s \<in> set (gd_responses db) \<Longrightarrow> sw_request_id s \<in> qw_id ` set (gd_requests db)"
    "u \<in> set (gd_uses db) \<Longrightarrow> uw_lease_id u \<in> lr_lease_id ` set (gd_leases db)"
  using assms by (force simp: gov_ok_def keys_ok_def use_key_def image_image)+

lemma change_ok: "change L db db' \<Longrightarrow> gov_ok db \<Longrightarrow> gov_ok db'"
proof (induction rule: change.induct)
  case (audit r)
  then show ?case by (simp add: gov_ok_def audit_ids)
next
  case (expire st P)
  then show ?case by (simp add: gov_ok_def keys_if del: map_map)
next
  case (answer q i f st s)
  then have "i \<in> set (map qw_id (gd_requests db))" "sw_id s \<notin> set (map sw_id (gd_responses db))" by auto
  with answer show ?case by (simp add: gov_ok_def keys_if keys_ok_def del: map_map set_map)
next
  case (close st l)
  then show ?case by (simp add: gov_ok_def keys_if del: map_map)
next
  case (spend r l x f us)
  then have "l \<in> set (map lr_lease_id (gd_leases db))" by auto
  with spend show ?case
    by (auto simp add: gov_ok_def keys_if prior_use_None keys_ok_def use_key_def simp del: map_map set_map)
next
  case (lease r)
  then show ?case by (simp add: gov_ok_def keys_ok_def subset_insertI2 del: image_image)
qed (auto simp: gov_ok_def others_same_def keys_ok_def)

section \<open>What every change keeps\<close>

text \<open>The answers of a request\<close>

lemma answers_snoc [simp]:
  "answers_of (db\<lparr>gd_requests := qs, gd_responses := gd_responses db @ [s]\<rparr>) i =
     answers_of db i @ (if sw_request_id s = i then [s] else [])"
  by (simp add: answers_of_def)

lemma new_request_unanswered: "gov_ok db \<Longrightarrow> i \<notin> qw_id ` set (gd_requests db) \<Longrightarrow> answers_of db i = []"
  by (rule answers_of_none) (auto dest: gov_okD(3))

lemma change_answered: "change L db db' \<Longrightarrow> gov_ok db \<Longrightarrow> answered_once db \<Longrightarrow> answered_once db'"
proof (induction rule: change.induct)
  case (other db')
  then show ?case by (simp add: answered_once_def others_same_def answers_of_def)
next
  case (request q)
  then show ?case by (auto simp: answered_once_def answers_of_def new_request_unanswered [unfolded answers_of_def])
next
  case (expire st P)
  have "length (answers_of db (qw_id q)) \<le> 1" if "q \<in> set (gd_requests db)" for q
    using bspec [OF expire(3) [unfolded answered_once_def] that] by (simp split: if_splits)
  note le1 = this
  have "length (answers_of db (qw_id y)) \<le> (if qw_status y = ''PENDING'' then 0 else 1)"
    if y: "y \<in> set (gd_requests (set_request_status P st db))" for y
  proof -
    obtain q where q: "q \<in> set (gd_requests db)" "y = (if P q then q\<lparr>qw_status := st\<rparr> else q)"
      using y by auto
    show ?thesis
    proof (cases "P q")
      case True
      with q le1 [OF q(1)] expire(1) show ?thesis by simp
    next
      case False
      with q expire(3) show ?thesis by (simp add: answered_once_def)
    qed
  qed
  then show ?case by (simp add: answered_once_def answers_of_def)
next
  case (answer q i f st s)
  have "length (answers_of db i @ [s]) \<le> 1" using answer by (force simp: answered_once_def)
  with answer show ?case by (auto simp: answered_once_def split: if_splits)
qed (simp_all add: answered_once_def answers_of_def)

text \<open>The books of a lease\<close>

lemma change_books:
  assumes "change L db db'" "gov_ok db" "books_balance db"
  shows "books_balance db'"
  using assms
proof (induction rule: change.induct)
  case (lease r)
  have "uses_of db (lr_lease_id r) = []" using lease by (intro uses_of_none) (auto dest: gov_okD(4))
  with lease show ?case by (auto simp: books_balance_def uses_of_def)
next
  case (close st l)
  then show ?case by (auto simp: books_balance_def uses_of_def)
next
  case (spend r l x f us)
  have one: "int (length (uses_of db l)) + lr_remaining_uses r \<le> lr_max_uses r"
    using spend by (auto simp: books_balance_def)
  have row: "y = r" if "y \<in> set (gd_leases db)" "lr_lease_id y = l" for y
    using unique_by [of lr_lease_id "gd_leases db" y r] that spend by (simp add: gov_ok_def keys_ok_def)
  let ?db' = "(set_lease l f db)\<lparr>gd_uses := gd_uses db @ us\<rparr>"
  have same: "uses_of ?db' k = uses_of db k" if "k \<noteq> l" for k using spend(10) that by (auto simp: uses_of_def)
  have count: "length (uses_of ?db' l) \<le> length (uses_of db l) + 1" using spend(10) by (auto simp: uses_of_def)
  have "int (length (uses_of ?db' (lr_lease_id y))) + lr_remaining_uses y \<le> lr_max_uses y \<and>
      (uses_of ?db' (lr_lease_id y) \<noteq> [] \<longrightarrow> 0 \<le> lr_remaining_uses y)" if y: "y \<in> set (gd_leases ?db')" for y
  proof -
    obtain z where z: "z \<in> set (gd_leases db)" "y = (if lr_lease_id z = l then f z else z)" using y by auto
    show ?thesis
    proof (cases "lr_lease_id z = l")
      case True
      have "z = r" using z(1) True by (rule row)
      with z True count one spend(4,6,7,8) show ?thesis by simp
    next
      case False
      with z same [OF False] bspec [OF spend(12) [unfolded books_balance_def] z(1)] show ?thesis by simp
    qed
  qed
  then show ?case by (simp add: books_balance_def)
qed (simp_all add: books_balance_def uses_of_def others_same_def)

text \<open>The audit chain\<close>

lemma chain_from_append:
  "chain_from L h (rs @ [r]) \<longleftrightarrow> chain_from L h rs \<and> aw_previous_hash r = (if rs = [] then h else audit_row_hash L (last rs))"
  by (induction rs arbitrary: h) auto

lemma audit_append_chain: "chain_from L [] (gd_audit db) \<Longrightarrow> chain_from L [] (gd_audit (audit_append L r db))"
  by (simp add: audit_append_def chain_from_append last_audit_hash_def)

lemma change_chain: "change L db db' \<Longrightarrow> chain_from L [] (gd_audit db) \<Longrightarrow> chain_from L [] (gd_audit db')"
  by (induction rule: change.induct) (simp_all add: audit_append_chain others_same_def)

text \<open>Nothing is taken out of the tables that record what happened.\<close>

definition grows :: "gov_db \<Rightarrow> gov_db \<Rightarrow> bool" where
  "grows db db' \<longleftrightarrow> prefix (gd_audit db) (gd_audit db') \<and> prefix (gd_uses db) (gd_uses db') \<and>
     prefix (gd_responses db) (gd_responses db') \<and> prefix (gd_revocations db) (gd_revocations db')"

lemma grows_refl [simp]: "grows db db"
  by (simp add: grows_def)

lemma grows_trans: "grows a b \<Longrightarrow> grows b c \<Longrightarrow> grows a c"
  unfolding grows_def by (meson prefix_order.trans)

lemma change_grows: "change L db db' \<Longrightarrow> grows db db'"
  by (induction rule: change.induct) (auto simp: grows_def audit_append_def others_same_def)

text \<open>A lease that is closed\<close>

definition closed :: "string \<Rightarrow> gov_db \<Rightarrow> bool" where
  "closed l db \<longleftrightarrow> (\<exists>r \<in> set (gd_leases db). lr_lease_id r = l \<and> lr_status r \<noteq> ''ACTIVE'')"

lemma closed_unique: "gov_ok db \<Longrightarrow> closed l db \<Longrightarrow> r \<in> set (gd_leases db) \<Longrightarrow> lr_lease_id r = l \<Longrightarrow> lr_status r \<noteq> ''ACTIVE''"
  unfolding closed_def by (metis gov_okD(2) unique_by)

lemma change_closed: "change L db db' \<Longrightarrow> gov_ok db \<Longrightarrow> closed l db \<Longrightarrow> closed l db' \<and> uses_of db' l = uses_of db l"
proof (induction rule: change.induct)
  case (close st k)
  then show ?case by (fastforce simp: closed_def uses_of_def)
next
  case (spend r k x f us)
  have "k \<noteq> l" using closed_unique [OF spend(11,12), of r] spend(1-3) by auto
  moreover obtain z where "z \<in> set (gd_leases db)" "lr_lease_id z = l" "lr_status z \<noteq> ''ACTIVE''" using spend(12) by (auto simp: closed_def)
  ultimately have "closed l ((set_lease k f db)\<lparr>gd_uses := gd_uses db @ us\<rparr>)" by (auto simp: closed_def intro!: bexI [of _ z])
  with \<open>k \<noteq> l\<close> spend(10) show ?case by (auto simp: uses_of_def)
qed (auto simp: closed_def uses_of_def others_same_def)

section \<open>Sequences of changes\<close>

lemma changes_inv:
  assumes "changes L a b" "I a" "\<And>x y. change L x y \<Longrightarrow> I x \<Longrightarrow> I y"
  shows "I b"
  using assms(1,2) by (induction rule: rtranclp_induct) (auto intro: assms(3))

lemma changes_ok: "changes L a b \<Longrightarrow> gov_ok a \<Longrightarrow> gov_ok b"
  by (erule changes_inv) (auto intro: change_ok)

text \<open>What is kept by every change of well-formed tables is kept by all operations.\<close>

locale governed =
  fixes L :: gov_lib and kept :: "gov_db \<Rightarrow> bool"
  assumes change_keeps: "change L x y \<Longrightarrow> gov_ok x \<Longrightarrow> kept x \<Longrightarrow> kept y"
begin

lemma changes_keep:
  assumes "changes L x y" "gov_ok x" "kept x"
  shows "kept y"
proof -
  have "gov_ok y \<and> kept y"
    using assms(1) by (rule changes_inv) (use assms(2,3) change_keeps change_ok in auto)
  then show ?thesis by simp
qed

end

interpretation answers: governed L answered_once for L
  by unfold_locales (rule change_answered)

interpretation books: governed L books_balance for L
  by unfold_locales (rule change_books)

interpretation chain: governed L "\<lambda>db. chain_from L [] (gd_audit db)" for L
  by unfold_locales (rule change_chain)

interpretation growth: governed L "grows db" for L db
  by unfold_locales (blast intro: grows_trans change_grows)

interpretation closing: governed L "\<lambda>db. closed l db \<and> uses_of db l = us" for L l us
  by unfold_locales (use change_closed in blast)

end
