(* ===== verification/Governance_Steps.thy ===== *)
theory Governance_Steps
  imports Governance_Proofs
begin

text \<open>
  Every operation of the governance layer is a sequence of the changes of \<open>Governance_Proofs\<close>: first
  the methods of the store, then the managers and the broker, then the operations.
\<close>

named_theorems changes_intros

section \<open>The store\<close>

lemma changes_refl [changes_intros]: "changes L db db"
  by simp

lemma changes_audit: "append_operation_audit L E ev x a = Inr b \<Longrightarrow> changes L a b"
  by (erule operation_audit_Inr) (simp add: changes_one change.audit)

lemma changes_after_audit: "append_operation_audit L E ev x b = Inr c \<Longrightarrow> changes L a b \<Longrightarrow> changes L a c"
  by (rule changes_trans [OF _ changes_audit])

text \<open>A transaction that is rolled back changes nothing.\<close>

lemma changes_in_transaction:
  "(\<And>r b. f db = Inr (r, b) \<Longrightarrow> changes L db b) \<Longrightarrow> changes L db (snd (in_transaction f db))"
  by (auto simp: in_transaction_def split: sum.split)

lemma changes_other: "others_same a b \<Longrightarrow> changes L a b"
  by (rule changes_one, rule change.other)

lemma changes_expire [changes_intros]: "st \<noteq> ''PENDING'' \<Longrightarrow> changes L db (set_request_status P st db)"
  by (rule changes_one, rule change.expire)

lemma changes_close [changes_intros]: "st \<noteq> ''ACTIVE'' \<Longrightarrow> changes L db (set_lease l (\<lambda>r. r\<lparr>lr_status := st\<rparr>) db)"
  by (rule changes_one, rule change.close)

text \<open>The tables without a rule of their own: a row is added under keys that are free, or replaces the one with its key.\<close>

lemma others_same_refl [simp]: "others_same db db"
  by (simp add: others_same_def)

lemma others_same_added:
  "\<lbrakk>ow_authorization_id o' \<notin> set (map ow_authorization_id (gd_operations db)); ow_operation_id o' \<notin> set (map ow_operation_id (gd_operations db))\<rbrakk> \<Longrightarrow>
     others_same db (db\<lparr>gd_operations := gd_operations db @ [o']\<rparr>)"
  "\<lbrakk>pw_id p \<notin> set (map pw_id (gd_proposals db)); pw_hash p \<notin> set (map pw_hash (gd_proposals db))\<rbrakk> \<Longrightarrow>
     others_same db (db\<lparr>gd_proposals := gd_proposals db @ [p]\<rparr>)"
  "dw_id d \<notin> set (map dw_id (gd_decisions db)) \<Longrightarrow> others_same db (db\<lparr>gd_decisions := gd_decisions db @ [d]\<rparr>)"
  "vw_id v \<notin> set (map vw_id (gd_revocations db)) \<Longrightarrow> others_same db (db\<lparr>gd_revocations := gd_revocations db @ [v]\<rparr>)"
  by (simp_all add: others_same_def other_keys_def del: set_map)

lemma others_same_replaced:
  "others_same db (db\<lparr>gd_delegations := filter (\<lambda>x. gw_id x \<noteq> gw_id g) (gd_delegations db) @ [g]\<rparr>)"
  "yw_policy_id y = i \<Longrightarrow> others_same db (db\<lparr>gd_policies := filter (\<lambda>x. yw_policy_id x \<noteq> i) (gd_policies db) @ [y]\<rparr>)"
  "others_same db (db\<lparr>gd_delegations := map (\<lambda>r. if gw_id r = i then r\<lparr>gw_status := st\<rparr> else r) (gd_delegations db)\<rparr>)"
  by (auto simp: others_same_def other_keys_def distinct_map_filter keys_if simp del: map_map)

lemma changes_carried_out [changes_intros]:
  "(\<And>b. r = Inr b \<Longrightarrow> changes L db b) \<Longrightarrow> changes L db (snd (carried_out up r db))"
  by (auto simp: carried_out_def split: sum.split)

lemma changes_insert_audit: "insert_audit L d a = Inr b \<Longrightarrow> changes L a b"
  by (auto simp: insert_audit_def bindE_eq_Inr intro!: changes_one change.audit split: if_splits)

lemma changes_insert_proposal: "insert_proposal d a = Inr b \<Longrightarrow> changes L a b"
  by (force simp: insert_proposal_def bindE_eq_Inr intro!: changes_other others_same_added split: if_splits)

lemma changes_insert_decision: "insert_decision d a = Inr b \<Longrightarrow> changes L a b"
  by (force simp: insert_decision_def bindE_eq_Inr intro!: changes_other others_same_added split: if_splits)

lemma at_stage_Inr: "at_stage E st r = Inr b \<longleftrightarrow> r = Inr b \<and> ge_up E st"
  by (auto simp: at_stage_def split: sum.split)

lemma changes_save_authorization [changes_intros]: "changes L db (snd (save_authorization L E p d a db))"
  unfolding save_authorization_def
  by (auto simp: bindE_eq_Inr at_stage_Inr split: sum.split option.split
      dest!: changes_insert_audit changes_insert_proposal [of _ _ _ L] changes_insert_decision [of _ _ _ L] intro: changes_trans)

lemma changes_update_status [changes_intros]: "st \<noteq> ''PENDING'' \<Longrightarrow> changes L db (snd (update_approval_status E i st db))"
  unfolding update_approval_status_def by (auto intro!: changes_intros)

lemma changes_expire_approval [changes_intros]: "changes L db (snd (expire_approval E i db))"
  by (auto simp: expire_approval_def Let_def intro!: changes_expire)

lemma changes_update_lease [changes_intros]: "st \<noteq> ''ACTIVE'' \<Longrightarrow> changes L db (snd (update_lease_status E l st db))"
  unfolding update_lease_status_def by (auto intro!: changes_intros)

lemma changes_save_revocation [changes_intros]: "changes L db (snd (save_revocation E d db))"
  unfolding save_revocation_def by (rule changes_carried_out) (force simp: bindE_eq_Inr intro!: changes_other others_same_added split: if_splits)

lemma changes_save_delegation [changes_intros]: "changes L db (snd (save_delegation E d db))"
  unfolding save_delegation_def by (rule changes_carried_out) (auto simp: bindE_eq_Inr intro!: changes_other others_same_replaced)

lemma changes_update_delegation [changes_intros]: "changes L db (snd (update_delegation_status E g st db))"
  unfolding update_delegation_status_def by (rule changes_carried_out) (auto intro!: changes_other others_same_replaced)

lemma changes_save_policy [changes_intros]: "changes L db (snd (save_approval_policy E d db))"
  unfolding save_approval_policy_def by (rule changes_carried_out) (auto simp: bindE_eq_Inr intro!: changes_other others_same_replaced)

lemma filter_fresh: "k r \<notin> k ` set xs \<Longrightarrow> filter (\<lambda>x. k x \<noteq> k r) xs = xs"
  by (rule filter_True) (metis image_eqI)

lemma changes_save_request:
  assumes "\<And>r. request_row_of d = Inr r \<Longrightarrow> qw_id r \<notin> qw_id ` set (gd_requests db)"
  shows "changes L db (snd (save_approval_request E d db))"
  unfolding save_approval_request_def
  by (rule changes_carried_out) (use assms in \<open>auto simp: bindE_eq_Inr filter_fresh intro!: changes_one change.request simp del: image_iff\<close>)

lemma changes_save_lease:
  assumes "\<And>r. lease_row_of d = Inr r \<Longrightarrow> lr_lease_id r \<notin> lr_lease_id ` set (gd_leases db) \<and> lr_remaining_uses r \<le> lr_max_uses r"
  shows "changes L db (snd (save_lease E d db))"
  unfolding save_lease_def
  by (rule changes_carried_out) (use assms in \<open>auto simp: bindE_eq_Inr filter_fresh intro!: changes_one change.lease simp del: image_iff\<close>)

lemma changes_insert_lease:
  assumes "insert_lease d a = Inr b" "\<And>r. lease_row_of d = Inr r \<Longrightarrow> lr_remaining_uses r \<le> lr_max_uses r"
  shows "changes L a b"
proof -
  obtain r where r: "lease_row_of d = Inr r" "lr_lease_id r \<notin> lr_lease_id ` set (gd_leases a)" "b = a\<lparr>gd_leases := gd_leases a @ [r]\<rparr>"
    using assms(1) by (auto simp: insert_lease_def bindE_eq_Inr image_iff split: if_splits) metis
  then show ?thesis using change.lease [OF r(2) assms(2) [OF r(1)]] by (auto intro: changes_one)
qed

lemma changes_answer:
  assumes "insert_response d (db\<lparr>gd_requests := map (\<lambda>x. if qw_id x = i \<and> qw_status x = ''PENDING'' then f x else x) (gd_requests db)\<rparr>) = Inr b"
    and "q \<in> set (gd_requests db)" "qw_id q = i" "qw_status q = ''PENDING''" "st \<noteq> ''PENDING''"
    and "\<And>x. qw_id (f x) = qw_id x" "\<And>x. qw_status (f x) = st"
    and "\<And>s. response_row_of d = Inr s \<Longrightarrow> sw_request_id s = i"
  shows "changes L db b"
proof -
  obtain s where s: "response_row_of d = Inr s" "sw_id s \<notin> sw_id ` set (gd_responses db)"
    "b = db\<lparr>gd_requests := map (\<lambda>x. if qw_id x = i \<and> qw_status x = ''PENDING'' then f x else x) (gd_requests db),
      gd_responses := gd_responses db @ [s]\<rparr>"
    using assms(1) by (auto simp: insert_response_def bindE_eq_Inr image_iff split: if_splits) metis
  then show ?thesis using assms(2-8) change.answer [of q db i f st s L] by (auto intro: changes_one)
qed

lemma filter_one: "length (filter P xs) = 1 \<Longrightarrow> \<exists>x \<in> set xs. P x"
  by (metis filter_False list.size(3) zero_neq_one)

lemma changes_resolve [changes_intros]:
  assumes st: "st \<noteq> ''PENDING''"
    and response: "\<And>s. response_row_of d = Inr s \<Longrightarrow> sw_request_id s = i"
    and lease: "\<And>x r. lease = Some x \<Longrightarrow> lease_row_of x = Inr r \<Longrightarrow> lr_remaining_uses r \<le> lr_max_uses r"
    and check: "\<And>f a b. check = Some f \<Longrightarrow> f a = Inr b \<Longrightarrow> changes L a b"
  shows "changes L db (snd (resolve_approval E i ''PENDING'' st d lease check db))"
  unfolding resolve_approval_def
proof (rule changes_carried_out, goal_cases)
  case (1 b)
  let ?P = "\<lambda>r. qw_id r = i \<and> qw_status r = ''PENDING''"
  from 1 obtain db1 db2 where
    a: "(case check of None \<Rightarrow> Inr db | Some f \<Rightarrow> f db) = Inr db1" and
    one: "length (filter ?P (gd_requests db1)) = 1" and
    b: "insert_response d (set_request_status ?P st db1) = Inr db2" and
    c: "(case lease of None \<Rightarrow> Inr db2 | Some x \<Rightarrow> insert_lease x db2) = Inr b"
    by (auto simp: bindE_eq_Inr Let_def split: if_splits)
  have "changes L db db1" using a check by (auto split: option.splits)
  also have "changes L db1 db2"
    using filter_one [OF one] changes_answer [OF b [unfolded set_request_status_def] _ _ _ st _ _ response] by auto
  also have "changes L db2 b" using c lease by (auto split: option.splits intro: changes_insert_lease)
  finally (changes_trans) show ?case .
qed

section \<open>The rows of the records\<close>

lemma request_row_of_request [simp]:
  "request_row_of (approval_request_to_dict q @ extra) =
     Inr \<lparr>qw_id = aq_request_id q, qw_hash = aq_proposal_hash q, qw_status = aq_status q, qw_requested_by = aq_requested_by q,
       qw_requested_at = aq_requested_at q, qw_expires_at = aq_expires_at q, qw_json = approval_request_to_dict q @ extra\<rparr>"
  by (simp add: request_row_of_def approval_request_to_dict_def item_text_def get_text_def dict_get_or_def)

lemma response_row_of_response [simp]:
  "response_row_of (approval_response_to_dict r) =
     Inr \<lparr>sw_id = ar_response_id r, sw_request_id = ar_request_id r, sw_hash = ar_proposal_hash r, sw_decision = ar_decision r,
       sw_approver_id = ar_approver_id r, sw_json = approval_response_to_dict r\<rparr>"
  by (simp add: response_row_of_def approval_response_to_dict_def item_text_def get_text_def dict_get_or_def)

lemma lease_row_of_lease [simp]:
  "lease_row_of (authz_lease_to_dict l @ extra) =
     Inr \<lparr>lr_lease_id = al_lease_id l, lr_proposal_hash = al_proposal_hash l, lr_approval_id = al_approval_id l,
       lr_subject_id = al_subject_id l, lr_max_uses = al_max_uses l, lr_remaining_uses = al_remaining_uses l,
       lr_issued_at = al_issued_at l, lr_expires_at = al_expires_at l, lr_status = al_status l, lr_json = authz_lease_to_dict l @ extra\<rparr>"
  by (simp add: lease_row_of_def authz_lease_to_dict_def item_text_def get_text_def get_int_def dict_get_or_def)

lemmas request_row_of_request_alone [simp] = request_row_of_request [of _ "[]", simplified]
lemmas lease_row_of_lease_alone [simp] = lease_row_of_lease [of _ "[]", simplified]

lemma lease_row_of_grant [simp]:
  "lease_row_of (capability_grant_to_dict g) =
     Inr \<lparr>lr_lease_id = al_lease_id g, lr_proposal_hash = al_proposal_hash g, lr_approval_id = al_approval_id g,
       lr_subject_id = al_subject_id g, lr_max_uses = al_max_uses g, lr_remaining_uses = al_remaining_uses g,
       lr_issued_at = al_issued_at g, lr_expires_at = al_expires_at g, lr_status = al_status g, lr_json = capability_grant_to_dict g\<rparr>"
  by (simp add: capability_grant_to_dict_def authz_lease.truncate_def)

section \<open>The managers and the gate\<close>

lemma changes_create_request:
  "ge_id E ''apr'' 0 \<notin> qw_id ` set (gd_requests db) \<Longrightarrow> changes L db (snd (create_request E p c risk hours db))"
  by (auto simp: create_request_def Let_def intro!: changes_save_request)

lemma changes_respond [changes_intros]: "st \<noteq> ''PENDING'' \<Longrightarrow> changes L db (snd (manager_respond E st i approver scope reason db))"
  by (auto simp: manager_respond_def Let_def case_prod_beta split: sum.split intro!: changes_resolve)

lemma changes_lease_issue:
  "ge_id E ''al'' 0 \<notin> lr_lease_id ` set (gd_leases db) \<Longrightarrow> changes L db (snd (lease_issue E p r subject n hours db))"
  by (auto simp: lease_issue_def Let_def intro!: changes_save_lease)

lemma find_Some_in: "find P xs = Some x \<Longrightarrow> x \<in> set xs \<and> P x"
  by (auto simp: find_Some_iff)

lemma changes_take_use:
  assumes "r \<in> set (gd_leases db)" "lr_lease_id r = l" "lr_status r = ''ACTIVE''" "0 < lr_remaining_uses r" "prior_use db l x = None"
  shows "changes L db (take_use E log_id l x r db)"
proof -
  let ?f = "\<lambda>y. y\<lparr>lr_remaining_uses := lr_remaining_uses r - 1,
    lr_status := (if lr_remaining_uses r - 1 = 0 then ''EXHAUSTED'' else ''ACTIVE'')\<rparr>"
  let ?u = "\<lparr>uw_log_id = log_id, uw_lease_id = l, uw_execution_id = x, uw_consumed_at = ge_now E,
           uw_remaining_after = lr_remaining_uses r - 1\<rparr>"
  let ?us = "if \<exists>u \<in> set (gd_uses db). uw_log_id u = log_id then [] else [?u]"
  have "change L db ((set_lease l ?f db)\<lparr>gd_uses := gd_uses db @ ?us\<rparr>)"
    by (rule change.spend [OF assms]) auto
  moreover have "take_use E log_id l x r db = (set_lease l ?f db)\<lparr>gd_uses := gd_uses db @ ?us\<rparr>"
    by (simp add: take_use_def Let_def set_lease_def del: if_split split del: if_split cong: if_cong) (simp split: if_split)
  ultimately show ?thesis by (metis changes_one)
qed

lemma changes_consume [changes_intros]: "changes L db (snd (consume_lease E l x db))"
  by (auto simp: consume_lease_def lease_of_def dest!: find_Some_in split: option.split intro!: changes_take_use changes_close)

lemma changes_lease_revoke [changes_intros]: "changes L db (snd (lease_revoke E l by' reason db))"
  by (auto simp: lease_revoke_def Let_def split: option.split intro!: changes_trans [OF changes_update_lease changes_save_revocation])

lemma changes_create_grant [changes_intros]: "changes L db (snd (create_grant E issuer subject scope permitted denied cs n hours sub db))"
  by (auto simp: create_grant_def Let_def intro!: changes_intros)

lemma changes_validate [changes_intros]: "changes L db (snd (validate_for_proposal L' E g p db))"
  by (auto simp: validate_for_proposal_def split: option.split sum.split intro!: changes_intros)

lemma changes_delegation_revoke [changes_intros]: "changes L db (snd (delegation_revoke E g by' reason db))"
  by (auto simp: delegation_revoke_def Let_def split: option.split intro: changes_trans [OF changes_update_delegation changes_save_revocation])

lemma changes_finalize [changes_intros]: "changes L db (snd (finalize_decision L E p c persist d db))"
  by (auto simp: finalize_decision_def Let_def case_prod_beta intro!: changes_intros)

lemma changes_match_lease [changes_intros]: "changes L db (snd (match_lease E p c db))"
  by (auto simp: match_lease_def Let_def case_prod_beta split: option.split sum.split intro!: changes_intros)

lemma changes_gate [changes_intros]: "changes L db (snd (gate_evaluate L E engine p c db))"
  using changes_match_lease [of L db E p c]
  by (auto simp: gate_evaluate_def Let_def split: option.split sum.split prod.split intro!: changes_finalize intro: changes_trans [OF _ changes_finalize])

section \<open>The broker\<close>

abbreviation after :: "'a \<times> broker \<times> gov_db \<Rightarrow> gov_db" where
  "after r \<equiv> snd (snd r)"

lemma changes_request_approval:
  "ge_id E ''apr'' 0 \<notin> qw_id ` set (gd_requests db) \<Longrightarrow> changes L db (after (request_approval E run task p c ev who ttl b db))"
  by (auto simp: request_approval_def Let_def case_prod_beta intro!: changes_save_request)

text \<open>The check of an admission may write to the audit log.\<close>

definition check_changes :: "gov_lib \<Rightarrow> admission \<Rightarrow> bool" where
  "check_changes L check \<longleftrightarrow> (\<forall>f a b. check = Some f \<longrightarrow> f a = Inr b \<longrightarrow> changes L a b)"

lemma check_changes_None [simp]: "check_changes L None"
  by (simp add: check_changes_def)

lemma broker_response_simps [simp]:
  "ar_request_id (broker_response E i q st s who why) = i" "ar_response_id (broker_response E i q st s who why) = ge_id E ''aprsp'' 0"
  "ar_decision (broker_response E i q st s who why) = st" "ar_approver_id (broker_response E i q st s who why) = who"
  by (simp_all add: broker_response_def)

lemma changes_deny [changes_intros]: "check_changes L check \<Longrightarrow> changes L db (after (broker_deny E i who why check b db))"
  by (auto simp: broker_deny_def Let_def case_prod_beta check_changes_def split: sum.split intro!: changes_resolve)

lemma after_if: "(b \<Longrightarrow> changes L db (after x)) \<Longrightarrow> (\<not> b \<Longrightarrow> changes L db (after y)) \<Longrightarrow> changes L db (after (if b then x else y))"
  by simp

lemma changes_approve [changes_intros]:
  assumes "check_changes L check"
  shows "changes L db (after (broker_approve E i who scope why prevent requester check b db))"
proof (cases "broker_request E ''Operation approval requires authenticated Approve Once'' i b db")
  case (Inr q)
  have resolved: "changes L db (snd (resolve_approval E i ''PENDING'' ''APPROVED''
      (approval_response_to_dict (broker_response E i q ''APPROVED'' s who why)) (Some (authz_lease_to_dict
        \<lparr>al_lease_id = li, al_proposal_hash = h, al_approval_id = ai, al_subject_id = su, al_scope = s, al_max_uses = 1,
         al_remaining_uses = 1, al_issued_at = t, al_expires_at = x, al_status = st, al_schema_version = v\<rparr>)) check db))"
    for s li h ai su t x st v
    using assms by (intro changes_resolve) (auto simp: check_changes_def)
  show ?thesis
    unfolding broker_approve_def Inr sum.case Let_def case_prod_beta
    by (intro after_if) (simp_all add: changes_expire_approval changes_deny resolved)
qed (simp add: broker_approve_def)

lemma changes_expire_old [changes_intros]: "changes L db (after (expire_old E b db))"
proof -
  have "changes L db (fold (\<lambda>(i, q) db. snd (update_approval_status E i ''EXPIRED'' db)) xs db)" for xs
  proof (induction xs arbitrary: db)
    case (Cons x xs)
    have "changes L db (snd (update_approval_status E (fst x) ''EXPIRED'' db))" by (rule changes_update_status) simp
    with Cons show ?case by (auto simp: case_prod_beta intro: changes_trans)
  qed simp
  then show ?thesis by (simp add: expire_old_def Let_def)
qed

lemma changes_set_policy [changes_intros]: "changes L db (snd (set_policy E p b db))"
  by (auto simp: set_policy_def intro!: changes_intros)

section \<open>The gate of operations\<close>

lemma changes_case_sum:
  "(\<And>e. changes L db (snd (f e))) \<Longrightarrow> (\<And>x. changes L db (snd (g x))) \<Longrightarrow> changes L db (snd (case r of Inl e \<Rightarrow> f e | Inr x \<Rightarrow> g x))"
  by (cases r) simp_all

lemma changes_register [changes_intros]: "changes L db (snd (register_operation L q db))"
  unfolding register_operation_def by (rule changes_case_sum) (auto intro!: changes_other others_same_added, metis+)

text \<open>The evaluation leaves the tables it reads alone: at most it appends to the audit.\<close>

lemma evaluate_in_same:
  assumes "evaluate_operation_in L E G q admitted db = Inr (r, db')"
  shows "gd_leases db' = gd_leases db" "gd_uses db' = gd_uses db" "gd_revocations db' = gd_revocations db"
    "gd_requests db' = gd_requests db" "changes L db db'"
  using assms
  by (auto simp: evaluate_operation_in_def bindE_eq_Inr operation_audit_frame split: option.splits if_splits dest: changes_audit)

lemma changes_evaluate [changes_intros]: "changes L db (snd (evaluate_operation L E G a db))"
  by (auto simp: evaluate_operation_def Let_def bindE_eq_Inr split: sum.split)
    (elim changes_after_audit, erule evaluate_in_same(5))

lemma changes_require_human [changes_intros]: "changes L db (snd (require_human L E U G c q db))"
  unfolding require_human_def
  by (rule changes_in_transaction) (auto simp: bindE_eq_Inr intro: changes_audit split: if_splits)

lemma changes_as_human:
  assumes "\<And>q a x b. changes L db a \<Longrightarrow> act q a = Inr (x, b) \<Longrightarrow> changes L a b"
  shows "changes L db (snd (as_human L E U G a c act db))"
proof (cases "get_operation_request L a db")
  case (Inr q)
  obtain r db1 where h: "require_human L E U G c q db = (r, db1)" by fastforce
  have "changes L db db1" using changes_require_human [of L db E U G c q] h by simp
  then show ?thesis using Inr h assms by (auto simp: as_human_def split: sum.split intro: changes_trans)
qed (simp add: as_human_def)

lemma changes_insert_grant: "insert_grant g a = Inr b \<Longrightarrow> al_remaining_uses g \<le> al_max_uses g \<Longrightarrow> changes L a b"
  unfolding insert_grant_def by (rule changes_insert_lease) auto

lemma grant_for_simps [simp]:
  "al_lease_id (grant_for L E q c ap kind s n t) = ge_id E ''al'' 0" "al_max_uses (grant_for L E q c ap kind s n t) = n"
  "al_remaining_uses (grant_for L E q c ap kind s n t) = n" "al_status (grant_for L E q c ap kind s n t) = ''ACTIVE''"
  "al_subject_id (grant_for L E q c ap kind s n t) = gq_subject_id q" "al_expires_at (grant_for L E q c ap kind s n t) = t"
  by (simp_all add: grant_for_def)

lemma changes_grant_for: "insert_grant (grant_for L' E q c ap kind s n t) a = Inr b \<Longrightarrow> changes L a b"
  by (erule changes_insert_grant) simp

lemma changes_issue_grant [changes_intros]: "changes L db (snd (issue_operation_grant L E U G a c kind n secs db))"
  unfolding issue_operation_grant_def
  by (rule changes_as_human)
    (auto simp: Let_def bindE_eq_Inr split: if_splits intro: changes_after_audit dest!: changes_grant_for [where L = L])

lemma request_of_None: "request_of db i = None \<Longrightarrow> i \<notin> qw_id ` set (gd_requests db)"
  by (auto simp: request_of_def find_None_iff)

lemma changes_request_operation [changes_intros]: "changes L db (snd (request_operation_approval L E a db))"
proof -
  have step: "changes L db b" if "request_of db (qw_id r) = None"
    "append_operation_audit L E ev x (db\<lparr>gd_requests := gd_requests db @ [r]\<rparr>) = Inr b" for ev x r b
    by (rule changes_after_audit [OF that(2) changes_one [OF change.request [OF request_of_None [OF that(1)]]]])
  show ?thesis
    unfolding request_operation_approval_def
    by (intro changes_in_transaction, cases "request_of db (approval_id_of a)")
      (auto simp: Let_def bindE_eq_Inr, erule step [rotated], simp)
qed

text \<open>The answer to the approval of an operation rewrites all rows with its id; ids are unique.\<close>

lemma rewrite_pending:
  assumes "distinct (map qw_id qs)" "r \<in> set qs" "qw_id r = i" "qw_status r = ''PENDING''"
  shows "map (\<lambda>x. if qw_id x = i then f x else x) qs = map (\<lambda>x. if qw_id x = i \<and> qw_status x = ''PENDING'' then f x else x) qs"
proof -
  have "qw_status x = ''PENDING''" if "x \<in> set qs" "qw_id x = i" for x
    using unique_by [OF assms(1) that(1) assms(2)] that(2) assms(3,4) by simp
  then show ?thesis by simp
qed

lemma same_requests_ok:
  assumes "gov_ok db" "gd_requests a = gd_requests db"
  shows "distinct (map qw_id (gd_requests a))"
  using assms gov_okD(1) by simp

lemma requests_kept [simp]: "insert_grant g a = Inr b \<Longrightarrow> gd_requests b = gd_requests a"
  by (auto simp: insert_grant_def insert_lease_def bindE_eq_Inr split: if_splits)

lemma changes_answer_all:
  assumes "insert_response d (db\<lparr>gd_requests := map (\<lambda>x. if qw_id x = i then f x else x) (gd_requests a)\<rparr>) = Inr b"
    and "distinct (map qw_id (gd_requests a))" "request_of a i = Some row" "qw_status row = ''PENDING''"
    and "changes L a db" "gd_requests db = gd_requests a" "st \<noteq> ''PENDING''"
    and "\<And>x. qw_id (f x) = qw_id x" "\<And>x. qw_status (f x) = st"
    and "\<And>s. response_row_of d = Inr s \<Longrightarrow> sw_request_id s = i"
  shows "changes L a b"
proof -
  have r: "row \<in> set (gd_requests db)" "qw_id row = i" using assms(3,6) find_Some_in [of _ "gd_requests a" row]
    by (auto simp: request_of_def)
  have "distinct (map qw_id (gd_requests db))" using assms(2,6) by simp
  from assms(1) [folded assms(6), unfolded rewrite_pending [OF this r assms(4)]]
  have "changes L db b" using r assms(4,7-10) by (rule changes_answer)
  with assms(5) show ?thesis by (rule changes_trans)
qed

lemma answer_operation_cases:
  assumes "answer_operation L E i rec' c approve q a = Inr (x, b)"
  obtains row st d db db2 ev y where "request_of a i = Some row" "qw_status row = ''PENDING''" "st \<noteq> ''PENDING''"
    "changes L a db" "gd_requests db = gd_requests a"
    "insert_response d (db\<lparr>gd_requests := map (\<lambda>x. if qw_id x = i
       then x\<lparr>qw_status := st, qw_json := dict_set ''status'' (JStr st) rec'\<rparr> else x) (gd_requests a)\<rparr>) = Inr db2"
    "\<And>s. response_row_of d = Inr s \<Longrightarrow> sw_request_id s = i" "append_operation_audit L E ev y db2 = Inr b"
proof -
  obtain row where row: "request_of a i = Some row" "qw_status row = ''PENDING''"
    using assms by (auto simp: answer_operation_def split: option.splits if_splits)
  show thesis
  proof (cases approve)
    case True
    from assms row True obtain g g2 db2 ev y ev' y' where
      "insert_grant (grant_for L E q c (ge_id E ''aprsp'' 0) ''ONCE''
         (scope_default\<lparr>sk_proposal_hash := authorization_id L q, sk_max_uses := 1\<rparr>) 1 (qw_expires_at row)) a = Inr g"
      "append_operation_audit L E ev y g = Inr g2"
      "insert_response (approval_response_to_dict x) (g2
         \<lparr>gd_requests := map (\<lambda>x. if qw_id x = i then x\<lparr>qw_status := ''APPROVED'', qw_json := dict_set ''status'' (JStr ''APPROVED'') rec'\<rparr> else x)
           (gd_requests g2)\<rparr>) = Inr db2"
      "ar_request_id x = i" "append_operation_audit L E ev' y' db2 = Inr b"
      by (auto simp: answer_operation_def Let_def bindE_eq_Inr split: if_splits)
    moreover from this have "gd_requests g2 = gd_requests a" by (simp add: operation_audit_frame(4))
    ultimately show thesis using row
      by (intro that [of row "''APPROVED''" g2])
        (auto simp: operation_audit_frame intro: changes_after_audit changes_grant_for)
  next
    case False
    from assms row False obtain db2 ev' y' where
      "insert_response (approval_response_to_dict x) (a
         \<lparr>gd_requests := map (\<lambda>x. if qw_id x = i then x\<lparr>qw_status := ''DENIED'', qw_json := dict_set ''status'' (JStr ''DENIED'') rec'\<rparr> else x)
           (gd_requests a)\<rparr>) = Inr db2"
      "ar_request_id x = i" "append_operation_audit L E ev' y' db2 = Inr b"
      by (auto simp: answer_operation_def Let_def bindE_eq_Inr split: if_splits)
    with row show thesis by (intro that [of row "''DENIED''" a]) auto
  qed
qed

lemma changes_answer_operation:
  assumes "distinct (map qw_id (gd_requests a))" "answer_operation L E i rec' c approve q a = Inr (x, b)"
  shows "changes L a b"
proof -
  show ?thesis
    using assms(2)
  proof (rule answer_operation_cases)
    fix row st d db db2 ev y
    assume *: "request_of a i = Some row" "qw_status row = ''PENDING''" "st \<noteq> ''PENDING''"
      "changes L a db" "gd_requests db = gd_requests a"
      "insert_response d (db\<lparr>gd_requests := map (\<lambda>x. if qw_id x = i
         then x\<lparr>qw_status := st, qw_json := dict_set ''status'' (JStr st) rec'\<rparr> else x) (gd_requests a)\<rparr>) = Inr db2"
      "\<And>s. response_row_of d = Inr s \<Longrightarrow> sw_request_id s = i" "append_operation_audit L E ev y db2 = Inr b"
    have "changes L a db2" by (rule changes_answer_all [OF *(6) assms(1) *(1,2,4,5,3)]) (auto dest: *(7))
    with *(8) show ?thesis by (rule changes_after_audit)
  qed
qed

lemma changes_respond_operation:
  assumes "gov_ok db"
  shows "changes L db (snd (respond_operation_approval L E U G i c approve db))"
proof -
  have "changes L db (snd (as_human L E U G a c (answer_operation L E i rec' c approve) db))" for a rec'
    by (rule changes_as_human, erule changes_answer_operation [rotated]) (rule gov_okD(1), erule changes_ok, rule assms)
  then show ?thesis
    unfolding respond_operation_approval_def by (auto split: option.split sum.split)
qed

lemma changes_legacy_human: "changes L db (snd (legacy_human L E U G action c qs db))"
proof (induction qs arbitrary: db)
  case (Cons q qs)
  obtain r db1 where h: "require_human L E U G c q db = (r, db1)" by fastforce
  have "changes L db db1" using changes_require_human [of L db E U G c q] h by simp
  moreover note Cons [of db1]
  ultimately show ?case using h by (auto split: sum.split intro: changes_trans)
qed simp

lemma legacy_admit_changes:
  assumes "legacy_admit L E U G i action c rec' raw p qs a = Inr b"
  shows "changes L a b"
proof -
  obtain d ev y where h: "legacy_human L E U G action c qs a = (Inr (), d)" "append_operation_audit L E ev y d = Inr b"
    using assms by (auto simp: legacy_admit_def split: option.splits sum.splits if_splits prod.splits)
  then show ?thesis using changes_legacy_human [of L a E U G action c qs] by (auto intro: changes_after_audit)
qed

lemma changes_legacy [changes_intros]: "changes L db (after (respond_legacy L E U G i action c reason b db))"
proof -
  have check: "check_changes L (Some (legacy_admit L E U G i action c rec' raw p qs))" for rec' raw p qs
    by (auto simp: check_changes_def intro: legacy_admit_changes)
  have step: "changes L db (after (case legacy_human L E U G action c qs db of (Inl e, db) \<Rightarrow> (Inl e, b, db)
      | (Inr _, db) \<Rightarrow> if test then broker_approve E i who scope why prevent req (Some (legacy_admit L E U G i action c rec' raw p qs)) b db
        else broker_deny E i who' why' (Some (legacy_admit L E U G i action c rec' raw p qs)) b db))"
    for qs rec' raw p test who scope why prevent req who' why'
  proof -
    obtain r db1 where h: "legacy_human L E U G action c qs db = (r, db1)" by fastforce
    have "changes L db db1" using changes_legacy_human [of L db E U G action c qs] h by simp
    then show ?thesis using h by (auto split: sum.split intro: changes_trans changes_approve [OF check] changes_deny [OF check])
  qed
  have split: "changes L db (after (case r of Inl e \<Rightarrow> (Inl e, b, db) | Inr (x, y, z) \<Rightarrow> f x y z))"
    if "\<And>x y z. changes L db (after (f x y z))" for r and f :: "jobj \<Rightarrow> jobj \<Rightarrow> action_proposal \<Rightarrow> (pyexn + approval_response) \<times> broker \<times> gov_db"
    using that by (auto split: sum.split)
  show ?thesis
    unfolding respond_legacy_def Let_def by (intro after_if split step) simp
qed

lemma add_revocation_changes: "add_revocation E kind target c a = Inr b \<Longrightarrow> changes L a b"
  by (force simp: add_revocation_def Let_def intro!: changes_other others_same_added split: if_splits)

lemma close_revocation_changes:
  assumes "add_revocation E kind target c (set_lease l (\<lambda>r. r\<lparr>lr_status := ''REVOKED''\<rparr>) a) = Inr b"
  shows "changes L a b"
  by (rule changes_trans [OF changes_close add_revocation_changes [OF assms]]) simp

lemma changes_revoke [changes_intros]: "changes L db (snd (revoke_operation_authority L E U G a c grant_id resource db))"
  unfolding revoke_operation_authority_def
  by (rule changes_as_human)
    (auto simp: Let_def bindE_eq_Inr split: if_splits
      intro: changes_after_audit add_revocation_changes close_revocation_changes)

lemma changes_interrupt [changes_intros]: "changes L db (snd (interrupt_operation L E U G a c db))"
  unfolding interrupt_operation_def
  by (rule changes_as_human)
    (auto simp: bindE_eq_Inr split: if_splits intro: changes_audit changes_after_audit add_revocation_changes)

lemma changes_record [changes_intros]: "changes L db (snd (record_operation_evidence L E a ev x db))"
  unfolding record_operation_evidence_def
  by (rule changes_in_transaction) (auto simp: bindE_eq_Inr intro: changes_audit)

lemma get_operation_request_id: "get_operation_request L a db = Inr q \<Longrightarrow> authorization_id L q = a"
  by (auto simp: get_operation_request_def bindE_eq_Inr split: option.splits if_splits)

lemma evaluate_in_grant:
  assumes "evaluate_operation_in L E G q admitted db = Inr ((v, Some g), db')"
  shows "matching_grant L E db' q admitted = Some g"
  using assms by (auto simp: evaluate_operation_in_def op_verdict_def Let_def bindE_eq_Inr split: option.splits if_splits)

lemma matching_grantD:
  assumes "matching_grant L E db q admitted = Some r"
  shows "r \<in> set (gd_leases db)" "lr_subject_id r = gq_subject_id q" "grant_alive E db q admitted r" "scope_fits L q r"
    "\<not> admitted \<Longrightarrow> 0 < lr_remaining_uses r" "\<not> admitted \<Longrightarrow> lr_status r = ''ACTIVE''"
    "admitted \<Longrightarrow> prior_use db (lr_lease_id r) (authorization_id L q) \<noteq> None"
  using assms by (auto simp: matching_grant_def grant_alive_def dest!: find_Some_in split: if_splits)

lemma spend_grant_Inr:
  assumes "spend_grant E a r db = Inr db'"
  obtains f u where "db' = (set_lease (lr_lease_id r) f db)\<lparr>gd_uses := gd_uses db @ [u]\<rparr>"
    "uw_lease_id u = lr_lease_id r" "uw_execution_id u = a" "uw_log_id u \<notin> set (map uw_log_id (gd_uses db))"
    "prior_use db (lr_lease_id r) a = None" "\<And>y. lr_lease_id (f y) = lr_lease_id y" "\<And>y. lr_max_uses (f y) = lr_max_uses y"
    "\<And>y. lr_remaining_uses (f y) = lr_remaining_uses r - 1"
    "\<And>y. lr_status (f y) = (if lr_remaining_uses r = 1 then ''EXHAUSTED'' else ''ACTIVE'')"
proof -
  let ?n = "lr_remaining_uses r - 1" and ?st = "if lr_remaining_uses r - 1 \<noteq> 0 then ''ACTIVE'' else ''EXHAUSTED''"
  let ?f = "\<lambda>y. y\<lparr>lr_remaining_uses := ?n, lr_status := ?st,
    lr_json := dict_set ''status'' (JStr ?st) (dict_set ''remaining_uses'' (JInt ?n) (lr_json r))\<rparr>"
  let ?u = "\<lparr>uw_log_id = ge_id E ''use'' 0, uw_lease_id = lr_lease_id r, uw_execution_id = a, uw_consumed_at = ge_now E,
    uw_remaining_after = ?n\<rparr>"
  have unused: "\<not> (\<exists>u \<in> set (gd_uses db). uw_log_id u = ge_id E ''use'' 0 \<or> uw_lease_id u = lr_lease_id r \<and> uw_execution_id u = a)"
  proof
    assume "\<exists>u \<in> set (gd_uses db). uw_log_id u = ge_id E ''use'' 0 \<or> uw_lease_id u = lr_lease_id r \<and> uw_execution_id u = a"
    with assms show False by (simp only: spend_grant_def Let_def set_lease_simps if_True sum.distinct)
  qed
  then have db': "db' = (set_lease (lr_lease_id r) ?f db)\<lparr>gd_uses := gd_uses db @ [?u]\<rparr>"
    using assms by (simp only: spend_grant_def Let_def set_lease_simps if_False sum.inject)
  from unused have free: "prior_use db (lr_lease_id r) a = None" "uw_log_id ?u \<notin> set (map uw_log_id (gd_uses db))"
    by (auto simp: prior_use_def find_None_iff)
  show thesis by (rule that [of ?u ?f, OF db']) (use free in auto)
qed

lemma changes_spend:
  assumes "spend_grant E a r db = Inr db'" "r \<in> set (gd_leases db)" "lr_status r = ''ACTIVE''" "0 < lr_remaining_uses r"
  shows "changes L db db'"
  using assms(1)
proof (rule spend_grant_Inr)
  fix f u
  assume *: "db' = (set_lease (lr_lease_id r) f db)\<lparr>gd_uses := gd_uses db @ [u]\<rparr>"
    "uw_lease_id u = lr_lease_id r" "uw_execution_id u = a" "uw_log_id u \<notin> set (map uw_log_id (gd_uses db))"
    "prior_use db (lr_lease_id r) a = None" "\<And>y. lr_lease_id (f y) = lr_lease_id y" "\<And>y. lr_max_uses (f y) = lr_max_uses y"
    "\<And>y. lr_remaining_uses (f y) = lr_remaining_uses r - 1"
    "\<And>y. lr_status (f y) = (if lr_remaining_uses r = 1 then ''EXHAUSTED'' else ''ACTIVE'')"
  have "change L db ((set_lease (lr_lease_id r) f db)\<lparr>gd_uses := gd_uses db @ [u]\<rparr>)"
    by (rule change.spend [OF assms(2) refl assms(3,4) *(5-9)]) (use *(2-4) in auto)
  with *(1) show ?thesis by (simp add: changes_one)
qed

text \<open>What \<open>admit_operation\<close> leaves committed when it succeeds, and when it does not\<close>

lemma admit_Inr:
  assumes "admit_operation L E G node check a db = (Inr q, db1)"
  obtains g db' db2 ev y where "get_operation_request L a db = Inr q"
    "evaluate_operation_in L E G q False db = Inr ((GV_ALLOW, g), db')" "check" "\<forall>u \<in> set (gd_uses db). uw_execution_id u \<noteq> a"
    "(case g of None \<Rightarrow> Inr db' | Some r \<Rightarrow> spend_grant E a r db') = Inr db2" "append_operation_audit L E ev y db2 = Inr db1"
proof -
  from assms obtain g db' db2 ev y where a: "get_operation_request L a db = Inr q"
    "evaluate_operation_in L E G q False db = Inr ((GV_ALLOW, g), db')" "check" "\<forall>u \<in> set (gd_uses db'). uw_execution_id u \<noteq> a"
    "(case g of None \<Rightarrow> Inr db' | Some r \<Rightarrow> spend_grant E a r db') = Inr db2" "append_operation_audit L E ev y db2 = Inr db1"
    by (auto simp: admit_operation_def in_transaction_def bindE_eq_Inr split: sum.splits if_splits)
  show thesis by (rule that [OF a(1-3) _ a(5,6)]) (use a(4) evaluate_in_same(2) [OF a(2)] in simp)
qed

lemma admit_Inl:
  assumes "admit_operation L E G node check a db = (Inl e, db1)"
  shows "changes L db db1"
  using assms
  by (auto simp: admit_operation_def in_transaction_def bindE_eq_Inr split: sum.splits if_splits
      intro: changes_after_audit dest: evaluate_in_same)

lemma changes_admit [changes_intros]: "changes L db (snd (admit_operation L E G node check a db))"
proof (cases "fst (admit_operation L E G node check a db)")
  case (Inl e)
  then show ?thesis using admit_Inl [of L E G node check a db e] by (metis prod.collapse)
next
  case (Inr q)
  then have "admit_operation L E G node check a db = (Inr q, snd (admit_operation L E G node check a db))"
    by (metis prod.collapse)
  then obtain g db' db2 ev y where e: "evaluate_operation_in L E G q False db = Inr ((GV_ALLOW, g), db')"
    and spent: "(case g of None \<Rightarrow> Inr db' | Some r \<Rightarrow> spend_grant E a r db') = Inr db2"
    and audit: "append_operation_audit L E ev y db2 = Inr (snd (admit_operation L E G node check a db))"
    by (rule admit_Inr)
  have "changes L db' db2"
  proof (cases g)
    case (Some r)
    note m = matching_grantD [OF evaluate_in_grant [OF e [unfolded Some]]]
    from spent Some have "spend_grant E a r db' = Inr db2" by simp
    then show ?thesis by (rule changes_spend) (use m in auto)
  qed (use spent in simp)
  with evaluate_in_same(5) [OF e] have "changes L db db2" by (rule changes_trans)
  with audit show ?thesis by (rule changes_after_audit)
qed

lemma changes_revalidate [changes_intros]: "changes L db (snd (revalidate L E G check q db))"
  unfolding revalidate_def
  by (rule changes_in_transaction)
    (auto simp: bindE_eq_Inr split: if_splits intro: changes_after_audit evaluate_in_same(5))

section \<open>What a success tells\<close>

lemma as_human_Inr:
  assumes "as_human L E U G a c act db = (Inr x, db')"
  shows "\<exists>q. get_operation_request L a db = Inr q \<and> human_valid L E U G c q \<and> act q db = Inr (x, db')"
  using assms
  by (auto simp: as_human_def require_human_def in_transaction_def bindE_eq_Inr split: sum.splits if_splits prod.splits)

text \<open>What the checks before the policy provider have made sure of\<close>

lemma op_refused_None:
  assumes "op_refused L E G q db = None"
  shows "evaluate_constitution L E (op_proposal L E q (jtext (op_capability_inputs G (gq_capability_id q)) ''side_effect_class'')) (op_context E q) = []"
    "op_capability_inputs G (gq_capability_id q) \<noteq> []"
    "json_sort (JObj (op_capability_inputs G (gq_capability_id q))) = json_sort (JObj (gq_capability_inputs q))"
    "op_permitted L E G q (op_required G (gq_capability_id q))" "op_required G (gq_capability_id q) = [] \<or> og_permissions G \<noteq> None"
    "jtext (op_capability_inputs G (gq_capability_id q)) ''risk'' \<in> {''LOW'', ''READ_ONLY'', ''MEDIUM'', ''HIGH''}"
    "jtext (op_capability_inputs G (gq_capability_id q)) ''side_effect_class'' \<in> {''none'', ''read_only'', ''local_write'', ''external_write''}"
    "\<not> revoked db (gq_resource_id q)" "\<not> revoked db (authorization_id L q)"
    "request_of db (approval_id_of (authorization_id L q)) = Some r \<Longrightarrow>
       ge_now E < qw_expires_at r \<and> qw_status r \<notin> {''DENIED'', ''EXPIRED'', ''CANCELLED''}"
  using assms unfolding op_refused_def Let_def
  by (simp_all add: not_le split: if_split_asm option.split_asm)

lemma op_refused_not_allowed: "op_refused L E G q db \<noteq> Some GV_ALLOW"
  unfolding op_refused_def Let_def by (simp split: option.split)

lemma decision_with_simps [simp]:
  "ad_allowed (gate_deny E n p c code msg rule) = False" "ad_action_mode (gate_deny E n p c code msg rule) = ''DENY''"
  "ad_allowed (gate_escalate E p c risk why) = False" "ad_allowed (gate_ask_approval E p c risk) = False"
  "ad_allowed (gate_execute E p c risk lease why) = True" "ad_action_mode (gate_execute E p c risk lease why) = ''EXECUTE''"
  "ad_lease_id (gate_execute E p c risk lease why) = lease" "ad_risk_envelope (gate_execute E p c risk lease why) = Some risk"
  by (simp_all add: gate_deny_def gate_escalate_def gate_ask_approval_def gate_execute_def decision_with_def)

section \<open>All operations\<close>

text \<open>
  The operations that change the tables, with their arguments; a call of \<open>prevent_self_approval\<close>
  and the like carries its keyword arguments. Only the broker has a memory of its own.
\<close>

datatype gov_op =
    Create_request action_proposal authz_context string int
  | Manager_approve string string "approval_scope option" string
  | Manager_deny string string string
  | Lease_issue action_proposal approval_response string int int
  | Lease_consume string string
  | Lease_revoke string string string
  | Create_grant string string approval_scope "string list" "string list" "delegation_constraint list" int int bool
  | Validate_delegation string action_proposal
  | Delegation_revoke string string string
  | Gate_evaluate "permission_engine option" action_proposal authz_context
  | Request_approval string string action_proposal authz_context "approval_evidence option" string int
  | Broker_deny string string string
  | Broker_approve string string string string bool string
  | Expire_old
  | Set_policy approval_policy
  | Register_operation gov_request
  | Evaluate_operation op_gate string
  | Issue_grant human_env op_gate string authz_context string int int
  | Request_operation string
  | Respond_operation human_env op_gate string authz_context bool
  | Respond_legacy human_env op_gate string string authz_context string
  | Revoke_authority human_env op_gate string authz_context string bool
  | Interrupt_operation human_env op_gate string authz_context
  | Record_evidence string string jobj
  | Admit_operation op_gate bool bool string
  | Revalidate op_gate bool gov_request

type_synonym gov_state = "broker \<times> gov_db"

fun gov_step :: "gov_lib \<Rightarrow> gov_env \<Rightarrow> gov_op \<Rightarrow> gov_state \<Rightarrow> gov_state" where
  "gov_step L E (Create_request p c risk hours) (b, db) = (b, snd (create_request E p c risk hours db))"
| "gov_step L E (Manager_approve i who scope why) (b, db) = (b, snd (manager_approve E i who scope why db))"
| "gov_step L E (Manager_deny i who why) (b, db) = (b, snd (manager_deny E i who why db))"
| "gov_step L E (Lease_issue p r subject n hours) (b, db) = (b, snd (lease_issue E p r subject n hours db))"
| "gov_step L E (Lease_consume l x) (b, db) = (b, snd (lease_consume E l x db))"
| "gov_step L E (Lease_revoke l who why) (b, db) = (b, snd (lease_revoke E l who why db))"
| "gov_step L E (Create_grant issuer subject scope yes no cs n hours sub) (b, db) =
     (b, snd (create_grant E issuer subject scope yes no cs n hours sub db))"
| "gov_step L E (Validate_delegation g p) (b, db) = (b, snd (validate_for_proposal L E g p db))"
| "gov_step L E (Delegation_revoke g who why) (b, db) = (b, snd (delegation_revoke E g who why db))"
| "gov_step L E (Gate_evaluate engine p c) (b, db) = (b, snd (gate_evaluate L E engine p c db))"
| "gov_step L E (Request_approval run task p c ev who ttl) (b, db) = snd (request_approval E run task p c ev who ttl b db)"
| "gov_step L E (Broker_deny i who why) (b, db) = snd (broker_deny E i who why None b db)"
| "gov_step L E (Broker_approve i who scope why prevent requester) (b, db) =
     snd (broker_approve E i who scope why prevent requester None b db)"
| "gov_step L E Expire_old (b, db) = snd (expire_old E b db)"
| "gov_step L E (Set_policy p) (b, db) = set_policy E p b db"
| "gov_step L E (Register_operation q) (b, db) = (b, snd (register_operation L q db))"
| "gov_step L E (Evaluate_operation G a) (b, db) = (b, snd (evaluate_operation L E G a db))"
| "gov_step L E (Issue_grant U G a c kind n seconds) (b, db) = (b, snd (issue_operation_grant L E U G a c kind n seconds db))"
| "gov_step L E (Request_operation a) (b, db) = (b, snd (request_operation_approval L E a db))"
| "gov_step L E (Respond_operation U G i c approve) (b, db) = (b, snd (respond_operation_approval L E U G i c approve db))"
| "gov_step L E (Respond_legacy U G i action c why) (b, db) = snd (respond_legacy L E U G i action c why b db)"
| "gov_step L E (Revoke_authority U G a c g resource) (b, db) = (b, snd (revoke_operation_authority L E U G a c g resource db))"
| "gov_step L E (Interrupt_operation U G a c) (b, db) = (b, snd (interrupt_operation L E U G a c db))"
| "gov_step L E (Record_evidence a ev x) (b, db) = (b, snd (record_operation_evidence L E a ev x db))"
| "gov_step L E (Admit_operation G node check a) (b, db) = (b, snd (admit_operation L E G node check a db))"
| "gov_step L E (Revalidate G check q) (b, db) = (b, snd (revalidate L E G check q db))"

text \<open>
  Identifiers are random; three operations store a row under a new one without looking whether it
  is taken.
\<close>

fun new_id :: "gov_env \<Rightarrow> gov_op \<Rightarrow> gov_db \<Rightarrow> bool" where
  "new_id E (Create_request p c risk hours) db \<longleftrightarrow> ge_id E ''apr'' 0 \<notin> qw_id ` set (gd_requests db)"
| "new_id E (Request_approval run task p c ev who ttl) db \<longleftrightarrow> ge_id E ''apr'' 0 \<notin> qw_id ` set (gd_requests db)"
| "new_id E (Lease_issue p r subject n hours) db \<longleftrightarrow> ge_id E ''al'' 0 \<notin> lr_lease_id ` set (gd_leases db)"
| "new_id E _ db \<longleftrightarrow> True"

fun gov_run :: "gov_lib \<Rightarrow> (gov_env \<times> gov_op) list \<Rightarrow> gov_state \<Rightarrow> gov_state" where
  "gov_run L [] s = s"
| "gov_run L ((E, op) # ops) s = gov_run L ops (gov_step L E op s)"

fun new_ids :: "gov_lib \<Rightarrow> (gov_env \<times> gov_op) list \<Rightarrow> gov_state \<Rightarrow> bool" where
  "new_ids L [] s \<longleftrightarrow> True"
| "new_ids L ((E, op) # ops) s \<longleftrightarrow> new_id E op (snd s) \<and> new_ids L ops (gov_step L E op s)"

definition no_broker :: broker where
  "no_broker = \<lparr>bk_pending = [], bk_policies = [], bk_events = []\<rparr>"

lemma step_changes:
  assumes "new_id E op (snd s)" "gov_ok (snd s)"
  shows "changes L (snd s) (snd (gov_step L E op s))"
proof -
  obtain b db where s: "s = (b, db)" by fastforce
  show ?thesis
    using assms unfolding s
    by (cases op) (auto simp: manager_approve_def manager_deny_def lease_consume_def
      intro: changes_intros changes_create_request changes_request_approval changes_lease_issue changes_respond_operation)
qed

lemma run_changes: "new_ids L ops s \<Longrightarrow> gov_ok (snd s) \<Longrightarrow> changes L (snd s) (snd (gov_run L ops s))"
proof (induction L ops s rule: gov_run.induct)
  case (2 L E op ops s)
  have "changes L (snd s) (snd (gov_step L E op s))" using 2 by (intro step_changes) auto
  with 2 changes_ok show ?case by (auto intro: changes_trans)
qed simp

lemma gov_empty_ok [simp]: "gov_ok gov_empty" "answered_once gov_empty" "books_balance gov_empty" "chain_from L [] (gd_audit gov_empty)"
  by (simp_all add: gov_empty_def other_keys_def gov_ok_def keys_ok_def answered_once_def books_balance_def)

lemma run_ok: "new_ids L ops s \<Longrightarrow> gov_ok (snd s) \<Longrightarrow> gov_ok (snd (gov_run L ops s))"
  using run_changes changes_ok by blast

text \<open>A state that operations have led to from empty tables\<close>

definition governed_state :: "gov_lib \<Rightarrow> gov_state \<Rightarrow> bool" where
  "governed_state L s \<longleftrightarrow> (\<exists>ops. new_ids L ops (no_broker, gov_empty) \<and> s = gov_run L ops (no_broker, gov_empty))"

lemma governed_state_ok: "governed_state L s \<Longrightarrow> gov_ok (snd s)"
  using run_ok [of L _ "(no_broker, gov_empty)"] by (auto simp: governed_state_def)

context governed
begin

lemma run_keeps: "new_ids L ops s \<Longrightarrow> gov_ok (snd s) \<Longrightarrow> kept (snd s) \<Longrightarrow> kept (snd (gov_run L ops s))"
  by (rule changes_keep [OF run_changes])

lemma state_keeps: "governed_state L s \<Longrightarrow> kept gov_empty \<Longrightarrow> kept (snd s)"
  using run_keeps [of _ "(no_broker, gov_empty)"] by (auto simp: governed_state_def)

end

end
