(* ===== verification/Governance_Demo.thy ===== *)
theory Governance_Demo
  imports Governance_Steps
begin

text \<open>
  A concrete environment, in which the witnesses of the governance properties are evaluated: a
  lease that is issued and used, and an operation that is registered, granted and admitted.
\<close>

section \<open>A lease\<close>

definition demo_lib :: gov_lib where
  "demo_lib = \<lparr>gl_sha256 = (\<lambda>s. ''h'' @ s), gl_float = (\<lambda>q. ''0.0''), gl_str = (\<lambda>v. []), gl_known = [], gl_resolve = (\<lambda>s. None)\<rparr>"

definition demo_env :: gov_env where
  "demo_env = \<lparr>ge_clock = 0, ge_vars = (\<lambda>s. None), ge_real = id, ge_capability = (\<lambda>s. None), ge_loads = (\<lambda>s. None),
     ge_id = (\<lambda>p n. p @ replicate n CHR ''+''), ge_up = (\<lambda>s. True), ge_policy_file = Malformed\<rparr>"

definition demo_proposal :: action_proposal where
  "demo_proposal = op_proposal demo_lib demo_env \<lparr>gq_operation_id = ''w'', gq_work_id = ''w'', gq_capability_id = ''c'', gq_resource_id = ''r'',
     gq_subject_id = ''a'', gq_agent_session_id = [], gq_workflow_run_id = [], gq_plan_id = [], gq_node_id = [], gq_input_artifacts = [],
     gq_expected_effect = [], gq_capability_inputs = [], gq_secret_handles = []\<rparr> ''read_only''"

definition demo_response :: approval_response where
  "demo_response = \<lparr>ar_response_id = ''aprsp'', ar_request_id = ''apr'', ar_proposal_hash = ''h'', ar_decision = ''APPROVED'', ar_scope = None,
     ar_approver_id = ''o'', ar_approver_method = ''cli'', ar_reason = [], ar_responded_at = [], ar_schema_version = SCHEMA_VERSION\<rparr>"

definition demo_ops :: "(gov_env \<times> gov_op) list" where
  "demo_ops = [(demo_env, Lease_issue demo_proposal demo_response ''a'' 2 1), (demo_env, Lease_consume ''al'' ''x'')]"

definition demo_state :: gov_state where
  "demo_state = gov_run demo_lib demo_ops (no_broker, gov_empty)"

lemma pad_numeral: "pad (numeral k) n = pad (pred_numeral k) (n div 10) @ [digit_char (n mod 10)]"
  unfolding numeral_eq_Suc [of k] by (rule pad.simps)

lemma civil_0: "civil 0 = (1, 1, 1)"
  by (simp add: civil_def split_year.simps [of "Suc 0" 0] year_days_def leap_def month_lengths_def)

lemma demo_digits: "digit_char 0 = CHR ''0''" "digit_char (Suc 0) = CHR ''1''"
  by code_simp+

lemma demo_now: "ge_now demo_env = ''0001-01-01T00:00:00Z''"
  by (simp add: ge_now_def utc_text_def demo_env_def iso_text_def civil_0 pad_numeral demo_digits)

lemma demo_later: "ge_later demo_env 3600 = ''0001-01-01T01:00:00Z''"
  by (simp add: ge_later_def utc_text_def demo_env_def iso_text_def civil_0 pad_numeral demo_digits)

lemma demo_ids [simp]: "ge_id demo_env p n = p @ replicate n CHR ''+''" "ge_up demo_env c"
  by (simp_all add: demo_env_def)

lemma demo_new_ids: "new_ids demo_lib demo_ops (no_broker, gov_empty)"
  by (simp add: demo_ops_def gov_empty_def)

lemma demo_governed: "governed_state demo_lib (no_broker, snd demo_state)"
proof -
  have "demo_state = (no_broker, snd demo_state)" by (simp add: demo_state_def demo_ops_def)
  then show ?thesis unfolding governed_state_def demo_state_def using demo_new_ids by metis
qed

lemmas demo_eval = demo_state_def demo_ops_def gov_empty_def lease_issue_def save_lease_def carried_out_def lease_consume_def
  consume_lease_def prior_use_def lease_of_def demo_now demo_later take_use_def set_lease_def Let_def

lemma demo_lease:
  "map (\<lambda>r. (lr_lease_id r, lr_status r, lr_max_uses r)) (gd_leases (snd demo_state)) = [(''al'', ''ACTIVE'', 2)]"
  "map (\<lambda>u. (uw_lease_id u, uw_execution_id u)) (gd_uses (snd demo_state)) = [(''al'', ''x'')]"
  by (simp_all add: demo_eval)

section \<open>An operation\<close>

definition op_lib :: gov_lib where
  "op_lib = demo_lib\<lparr>gl_sha256 := (\<lambda>s. ''h'')\<rparr>"

definition op_demo_gate :: op_gate where
  "op_demo_gate = \<lparr>og_contracts = [(''c'', (default_contract [])\<lparr>cc_capability_id := ''c'', cc_risk_level := ''low'',
     cc_side_effect_class := ''read_only'', cc_idempotency := IC_IDEMPOTENT\<rparr>)], og_permissions = None, og_policy = None,
     og_provider = None, og_provider_type = []\<rparr>"

definition op_demo_human :: human_env where
  "op_demo_human = \<lparr>hm_owner = ''o'', hm_is_local = (\<lambda>c. True), hm_session = (\<lambda>c. False), hm_permission = (\<lambda>c a r. False)\<rparr>"

definition op_demo_context :: authz_context where
  "op_demo_context = \<lparr>cx_context_id = ''ctx'', cx_subject_type = ''user'', cx_subject_id = ''o'', cx_subject_claims = [],
      cx_authn_method = ''cli_os_user'', cx_authn_confidence = 1, cx_session_id = [], cx_session_started = [], cx_session_device = [],
      cx_session_locality = ''local'', cx_request_id = ''req'', cx_requested_at = [],
      cx_schema_version = SCHEMA_VERSION, cx_runtime_version = []\<rparr>"

definition op_demo_request :: gov_request where
  "op_demo_request = \<lparr>gq_operation_id = ''w'', gq_work_id = ''w'', gq_capability_id = ''c'', gq_resource_id = ''r'',
     gq_subject_id = ''a'', gq_agent_session_id = [], gq_workflow_run_id = [], gq_plan_id = [], gq_node_id = [], gq_input_artifacts = [],
     gq_expected_effect = [], gq_capability_inputs = [(''idempotency'', JStr ''idempotent''), (''observation_method'', JStr []),
       (''required_permissions'', JList []), (''risk'', JStr ''LOW''), (''side_effect_class'', JStr ''read_only''),
       (''verification_method'', JStr ''none'')], gq_secret_handles = []\<rparr>"

definition op_demo_row :: operation_row where
  "op_demo_row = \<lparr>ow_authorization_id = ''gov_h'', ow_operation_id = ''w'',
     ow_request = (case json_sort (JObj (gov_request_to_dict op_demo_request)) of JObj kvs \<Rightarrow> kvs | _ \<Rightarrow> [])\<rparr>"

lemma op_demo_keys:
  "list_all ordinary_key (map fst (gov_request_to_dict op_demo_request))"
  "list_all ordinary_key (map fst (gq_capability_inputs op_demo_request))"
  by code_simp+

lemma op_demo_texts: "list_all plain [[], ''w'', ''c'', ''r'', ''a'', ''idempotent'', ''LOW'', ''read_only'', ''none'']"
  by code_simp

lemma op_demo_unredacted:
  "redact_sensitive_data (gl_known op_lib) (JObj (gov_request_to_dict op_demo_request)) = JObj (gov_request_to_dict op_demo_request)"
proof -
  have known: "gl_known op_lib = []" by (simp add: op_lib_def demo_lib_def)
  have "redact_sensitive_data [] (JObj (gq_capability_inputs op_demo_request)) = JObj (gq_capability_inputs op_demo_request)"
    using op_demo_texts by (subst redact_plain_dict [OF _ op_demo_keys(2)]) (simp_all add: op_demo_request_def redact_text_plain)
  then show ?thesis
    unfolding known using op_demo_texts
    by (subst redact_plain_dict [OF _ op_demo_keys(1)])
      (simp_all add: gov_request_to_dict_def op_demo_request_def redact_text_plain jstrs_def)
qed

lemma op_demo_upper: "py_upper ''low'' = ''LOW''"
  by code_simp

lemma op_demo_id: "authorization_id op_lib q = ''gov_h''"
  by (simp add: authorization_id_def op_lib_def)

lemma op_demo_inputs: "json_sort (JObj (gq_capability_inputs op_demo_request)) = JObj [(''idempotency'', JStr ''idempotent''),
   (''observation_method'', JStr []), (''required_permissions'', JList []), (''risk'', JStr ''LOW''),
   (''side_effect_class'', JStr ''read_only''), (''verification_method'', JStr ''none'')]"
  by (simp add: op_demo_request_def)

lemma op_demo_stored: "gov_request_from_dict (ow_request op_demo_row) = Inr op_demo_request"
  by (simp add: gov_request_from_dict_def op_demo_row_def gov_request_to_dict_def op_demo_request_def argument_def item_text_def
    get_text_def dict_get_or_def get_texts_def get_values_def get_or_def jstrs_def)

lemma op_demo_get: "gd_operations db = [op_demo_row] \<Longrightarrow> get_operation_request op_lib ''gov_h'' db = Inr op_demo_request"
  by (simp add: get_operation_request_def op_demo_stored op_demo_id) (simp add: op_demo_row_def)

lemma op_demo_register: "register_operation op_lib op_demo_request gov_empty = (Inr ''gov_h'', gov_empty\<lparr>gd_operations := [op_demo_row]\<rparr>)"
  by (simp add: register_operation_def op_demo_unredacted op_demo_id gov_empty_def op_demo_row_def del: redact_sensitive_data.simps)
    (simp add: op_demo_request_def)

lemma op_demo_valid: "human_valid op_lib demo_env op_demo_human op_demo_gate op_demo_context op_demo_request"
  by (simp add: human_valid_def op_demo_context_def op_demo_human_def op_demo_request_def op_demo_gate_def)

definition op_granted :: gov_state where
  "op_granted = gov_run op_lib [(demo_env, Register_operation op_demo_request),
     (demo_env, Issue_grant op_demo_human op_demo_gate ''gov_h'' op_demo_context ''WORK'' 2 3600)] (no_broker, gov_empty)"

definition op_interrupted :: gov_db where
  "op_interrupted = snd (interrupt_operation op_lib demo_env op_demo_human op_demo_gate ''gov_h'' op_demo_context (snd op_granted))"

definition op_admitted :: gov_db where
  "op_admitted = snd (admit_operation op_lib demo_env op_demo_gate False True ''gov_h'' (snd op_granted))"

lemma op_granted_governed: "governed_state op_lib (no_broker, snd op_granted)"
proof -
  have "op_granted = (no_broker, snd op_granted)" by (simp add: op_granted_def)
  then show ?thesis unfolding governed_state_def op_granted_def by (metis new_ids.simps new_id.simps)
qed

definition op_demo_grant :: capability_grant where
  "op_demo_grant = grant_for op_lib demo_env op_demo_request op_demo_context [] ''WORK''
     (scope_default\<lparr>sk_proposal_hash := ''gov_h'', sk_capability_id := ''c''\<rparr>) 2 ''0001-01-01T01:00:00Z''"

lemma op_demo_revoked: "gd_revocations db = [] \<Longrightarrow> \<not> revoked db t"
  by (simp add: revoked_def)

definition op_demo_lease :: lease_row where
  "op_demo_lease = \<lparr>lr_lease_id = ''al'', lr_proposal_hash = ''gov_h'', lr_approval_id = [], lr_subject_id = ''a'',
     lr_max_uses = 2, lr_remaining_uses = 2, lr_issued_at = ge_now demo_env, lr_expires_at = ''0001-01-01T01:00:00Z'',
     lr_status = ''ACTIVE'', lr_json = capability_grant_to_dict op_demo_grant\<rparr>"

definition op_registered :: gov_db where
  "op_registered = gov_empty\<lparr>gd_operations := [op_demo_row]\<rparr>"

lemma op_demo_insert:
  "insert_grant op_demo_grant op_registered =
     Inr (gov_empty\<lparr>gd_operations := [op_demo_row], gd_leases := [op_demo_lease]\<rparr>)"
  by (simp add: insert_grant_def insert_lease_def gov_empty_def op_registered_def)
    (simp add: op_demo_grant_def grant_for_def op_demo_id op_demo_request_def op_demo_lease_def)

text \<open>In the concrete environment the n-th audit row has the n-th identifier.\<close>

definition aud_ids :: "gov_db \<Rightarrow> bool" where
  "aud_ids db \<longleftrightarrow> map aw_id (gd_audit db) = map (\<lambda>n. ''aud'' @ replicate n CHR ''+'') [0..<length (gd_audit db)]"

lemma demo_audit:
  assumes "aud_ids db"
  obtains r where "append_operation_audit L demo_env ev y db = Inr (audit_append L r db)" "aud_ids (audit_append L r db)"
proof -
  have "''aud'' @ replicate (length (gd_audit db)) CHR ''+'' \<notin> set (map aw_id (gd_audit db))"
    unfolding assms [unfolded aud_ids_def] by auto
  then have "\<not> (\<exists>r \<in> set (gd_audit db). aw_id r = ''aud'' @ replicate (length (gd_audit db)) CHR ''+'')"
    unfolding set_map image_iff by metis
  then obtain b where b: "append_operation_audit L demo_env ev y db = Inr b"
    by (auto simp: append_operation_audit_def Let_def)
  then show thesis
  proof (rule operation_audit_Inr)
    fix r assume "b = audit_append L r db" "aw_id r = ge_id demo_env ''aud'' (length (gd_audit db))"
    then show thesis using assms b
      by (intro that [of r]) (simp_all add: aud_ids_def audit_ids, simp add: audit_append_def)
  qed
qed

lemma op_demo_issue:
  "\<exists>db. issue_operation_grant op_lib demo_env op_demo_human op_demo_gate ''gov_h'' op_demo_context ''WORK'' 2 3600 op_registered =
     (Inr op_demo_grant, db) \<and> aud_ids db \<and> gd_operations db = [op_demo_row] \<and> gd_uses db = [] \<and> gd_requests db = [] \<and>
     gd_revocations db = [] \<and> gd_leases db = [op_demo_lease]"
proof -
  have get: "get_operation_request op_lib ''gov_h'' op_registered = Inr op_demo_request"
    by (rule op_demo_get) (simp add: op_registered_def)
  have c: "gq_capability_id op_demo_request = ''c''" by (simp add: op_demo_request_def)
  have r: "\<not> revoked op_registered t" for t by (simp add: revoked_def gov_empty_def op_registered_def)
  have "aud_ids (gov_empty\<lparr>gd_operations := [op_demo_row], gd_leases := [op_demo_lease]\<rparr>)"
    by (simp add: aud_ids_def gov_empty_def)
  then obtain r where audit: "append_operation_audit op_lib demo_env ''grant.issued'' (op_evidence op_lib op_demo_request
      ([(''grant_id'', JStr ''al''), (''scope'', JStr ''WORK'')] @ human_evidence op_demo_context))
      (gov_empty\<lparr>gd_operations := [op_demo_row], gd_leases := [op_demo_lease]\<rparr>) =
      Inr (audit_append op_lib r (gov_empty\<lparr>gd_operations := [op_demo_row], gd_leases := [op_demo_lease]\<rparr>))"
    and "aud_ids (audit_append op_lib r (gov_empty\<lparr>gd_operations := [op_demo_row], gd_leases := [op_demo_lease]\<rparr>))"
    by (rule demo_audit)
  then show ?thesis
    using op_demo_insert
    by (simp add: issue_operation_grant_def as_human_def require_human_def in_transaction_def get op_demo_valid r
      GRANT_SCOPES_def Let_def demo_later c op_demo_grant_def) (simp add: gov_empty_def op_registered_def)
qed

lemma op_granted_rows:
  "gd_operations (snd op_granted) = [op_demo_row]" "gd_uses (snd op_granted) = []" "gd_requests (snd op_granted) = []"
  "gd_revocations (snd op_granted) = []" "gd_leases (snd op_granted) = [op_demo_lease]" "aud_ids (snd op_granted)"
  using op_demo_issue by (auto simp: op_granted_def op_demo_register op_registered_def [symmetric])

lemma op_demo_constitution:
  "evaluate_constitution op_lib demo_env (op_proposal op_lib demo_env op_demo_request ''read_only'') (op_context demo_env op_demo_request) = []"
  by (simp add: evaluate_constitution_def when_violated_def op_proposal_def proposal_post_init_def Let_def op_demo_request_def
    op_context_def outside_workspace_def startswith_def demo_env_def)

lemma op_demo_current: "op_capability_inputs op_demo_gate ''c'' = [(''risk'', JStr ''LOW''), (''side_effect_class'', JStr ''read_only''),
   (''idempotency'', JStr ''idempotent''), (''verification_method'', JStr ''none''), (''observation_method'', JStr []),
   (''required_permissions'', JList [])]"
  by (simp add: op_capability_inputs_def op_demo_gate_def contract_list_all_def default_contract_def op_demo_upper jstrs_def)

lemma op_demo_refused: "op_refused op_lib demo_env op_demo_gate op_demo_request (snd op_granted) = None"
proof -
  have c: "gq_capability_id op_demo_request = ''c''" by (simp add: op_demo_request_def)
  show ?thesis
    using op_demo_constitution op_demo_inputs [symmetric]
    by (simp add: op_refused_def Let_def c op_demo_current jtext_def op_demo_id request_of_def op_granted_rows revoked_def op_permitted_def)
      (simp add: op_required_def op_demo_gate_def contract_list_all_def default_contract_def)
qed

lemma op_demo_matching: "matching_grant op_lib demo_env db op_demo_request False = Some op_demo_lease"
  if "gd_leases db = [op_demo_lease]" "gd_revocations db = []" for db
  using that
  by (simp add: matching_grant_def op_demo_lease_def grant_alive_def scope_fits_def revoked_def demo_now says_def)
    (simp add: op_demo_grant_def grant_for_def capability_grant_to_dict_def authz_lease_to_dict_def dict_get_or_def op_demo_request_def authz_lease.truncate_def)

lemma op_demo_evaluated:
  "evaluate_operation_in op_lib demo_env op_demo_gate op_demo_request False (snd op_granted) =
     Inr ((GV_ALLOW, Some op_demo_lease), snd op_granted)"
proof -
  have g: "matching_grant op_lib demo_env (snd op_granted) op_demo_request False = Some op_demo_lease"
    by (rule op_demo_matching) (simp_all add: op_granted_rows)
  have c: "gq_capability_id op_demo_request = ''c''" by (simp add: op_demo_request_def)
  have p: "og_provider op_demo_gate = None" "og_policy op_demo_gate = None" by (simp_all add: op_demo_gate_def)
  show ?thesis
    by (simp add: evaluate_operation_in_def op_verdict_def op_demo_refused Let_def g c p op_demo_current jtext_def provider_verdict_def)
qed

lemma op_demo_admit: "admit_operation op_lib demo_env op_demo_gate False True ''gov_h'' (snd op_granted) = (Inr op_demo_request, op_admitted)"
  and op_admitted_uses: "gd_uses op_admitted \<noteq> gd_uses (snd op_granted)"
proof -
  have get: "get_operation_request op_lib ''gov_h'' (snd op_granted) = Inr op_demo_request"
    by (rule op_demo_get) (rule op_granted_rows)
  have s: "gq_secret_handles op_demo_request = []" by (simp add: op_demo_request_def)
  obtain db where spent: "spend_grant demo_env ''gov_h'' op_demo_lease (snd op_granted) = Inr db" "gd_uses db \<noteq> []" "aud_ids db"
    using op_granted_rows(6) by (simp add: spend_grant_def Let_def op_granted_rows aud_ids_def)
  obtain r where "append_operation_audit op_lib demo_env ''execution.admitted'' (op_evidence op_lib op_demo_request
      [(''grant_id'', JStr (grant_id_of (Some op_demo_lease)))]) db = Inr (audit_append op_lib r db)"
    using demo_audit [OF spent(3)] by metis
  then have run: "admit_operation op_lib demo_env op_demo_gate False True ''gov_h'' (snd op_granted) = (Inr op_demo_request, audit_append op_lib r db)"
    by (simp add: admit_operation_def in_transaction_def get s op_demo_evaluated op_granted_rows spent)
  show "admit_operation op_lib demo_env op_demo_gate False True ''gov_h'' (snd op_granted) = (Inr op_demo_request, op_admitted)"
    by (simp add: op_admitted_def run)
  show "gd_uses op_admitted \<noteq> gd_uses (snd op_granted)"
    using spent(2) by (simp add: op_admitted_def run op_granted_rows)
qed

lemma op_demo_interrupt: "\<exists>x. interrupt_operation op_lib demo_env op_demo_human op_demo_gate ''gov_h'' op_demo_context (snd op_granted) = (Inr x, op_interrupted)"
proof -
  have get: "get_operation_request op_lib ''gov_h'' (snd op_granted) = Inr op_demo_request"
    by (rule op_demo_get) (rule op_granted_rows)
  obtain db where added: "add_revocation demo_env ''operation'' ''gov_h'' op_demo_context (snd op_granted) = Inr db" "aud_ids db"
    using op_granted_rows(6) by (simp add: add_revocation_def Let_def op_granted_rows aud_ids_def)
  obtain r where "append_operation_audit op_lib demo_env ''operation.interrupted'' (op_evidence op_lib op_demo_request
      (human_evidence op_demo_context @ [(''effect_stopped'', JBool False)])) db = Inr (audit_append op_lib r db)"
    using demo_audit [OF added(2)] by metis
  with added show ?thesis
    by (simp add: op_interrupted_def interrupt_operation_def as_human_def require_human_def in_transaction_def get op_demo_valid revoked_def
      op_granted_rows)
qed

section \<open>The gate\<close>

definition gate_proposal :: action_proposal where
  "gate_proposal = op_proposal op_lib demo_env op_demo_request ''read_only''"

definition gate_context :: authz_context where
  "gate_context = (op_context demo_env op_demo_request)\<lparr>cx_authn_confidence := 1\<rparr>"

definition gate_db :: gov_db where
  "gate_db = gov_empty\<lparr>gd_leases := [\<lparr>lr_lease_id = ''al'', lr_proposal_hash = ''h'', lr_approval_id = [], lr_subject_id = ''a'',
     lr_max_uses = 1, lr_remaining_uses = 1, lr_issued_at = [], lr_expires_at = [], lr_status = ''ACTIVE'',
     lr_json = [(''lease_id'', JStr ''al'')]\<rparr>]\<rparr>"

lemma gate_no_refusal: "refusal op_lib demo_env None gate_proposal gate_context = None"
proof -
  have "evaluate_constitution op_lib demo_env gate_proposal gate_context = []"
    by (simp add: gate_proposal_def gate_context_def evaluate_constitution_def when_violated_def op_proposal_def proposal_post_init_def Let_def
      op_demo_request_def op_context_def outside_workspace_def startswith_def demo_env_def)
  moreover have "pp_proposal_hash gate_proposal = ''h''" "compute_hash op_lib gate_proposal = ''h''"
    by (simp_all add: gate_proposal_def op_proposal_def proposal_post_init_def compute_hash_def op_lib_def)
  moreover have "pp_capability_id gate_proposal = ''c''" "pp_expires_at gate_proposal = []" "pp_affected_resources gate_proposal = [''r'']"
    by (simp_all add: gate_proposal_def op_proposal_def proposal_post_init_def op_demo_request_def)
  moreover have "cx_subject_id gate_context = ''a''" "cx_authn_confidence gate_context = 1"
    by (simp_all add: gate_context_def op_context_def op_demo_request_def)
  moreover have "lookup_capability demo_env ''c'' = [(''name'', JStr ''c''), (''risk_level'', JStr ''high''), (''requires_approval'', JBool True), (''unregistered'', JBool True)]"
    by (simp add: lookup_capability_def demo_env_def)
  ultimately show ?thesis by (simp add: refusal_def dict_get_or_def denied_permission_def startswith_def Let_def)
qed

lemma gate_lease: "\<exists>db. match_lease demo_env gate_proposal gate_context gate_db = (Inr ''al'', db) \<and> gd_decisions db = [] \<and> gd_audit db = [] \<and> gd_proposals db = []"
proof -
  have "pp_proposal_hash gate_proposal = ''h''"
    by (simp add: gate_proposal_def op_proposal_def proposal_post_init_def compute_hash_def op_lib_def)
  moreover have "cx_subject_id gate_context = ''a''" "cx_request_id gate_context = ''req''"
    by (simp_all add: gate_context_def op_context_def op_demo_request_def)
  ultimately show ?thesis
    by (simp add: match_lease_def get_active_lease_for_proposal_def active_lease_row_def gate_db_def gov_empty_def lease_view_def get_text_def
      dict_get_or_def item_text_def get_int_def consume_lease_def prior_use_def lease_of_def take_use_def set_lease_def Let_def)
qed

lemma bundle_keys: "list_all ordinary_key [''bundle_id'', ''decision_id'', ''proposal_hash'', ''event_type'', ''evidence'', ''recorded_at'',
    ''previous_audit_hash'', ''schema_version'']"
  by code_simp

lemma gate_audit: "gd_audit db = [] \<Longrightarrow> \<exists>b. insert_audit op_lib (evidence_bundle_to_dict op_lib x) db = Inr b"
proof -
  assume empty: "gd_audit db = []"
  have known: "gl_known op_lib = []" by (simp add: op_lib_def demo_lib_def)
  have "evidence_bundle_to_dict op_lib x = map (\<lambda>(k, v). (k, redact_sensitive_data [] v))
      [(''bundle_id'', JStr (eb_bundle_id x)), (''decision_id'', JStr (eb_decision_id x)), (''proposal_hash'', JStr (eb_proposal_hash x)),
         (''event_type'', JStr (eb_event_type x)), (''evidence'', JObj (eb_evidence x)), (''recorded_at'', JStr (eb_recorded_at x)),
         (''previous_audit_hash'', JStr (eb_previous_audit_hash x)), (''schema_version'', JStr (eb_schema_version x))]"
    unfolding evidence_bundle_to_dict_def known
    by (subst redact_plain_dict) (use bundle_keys in simp_all)
  then show ?thesis
    using empty by (simp add: insert_audit_def item_text_def get_text_def dict_get_or_def)
qed

lemma proposal_row_of_proposal:
  "proposal_row_of (action_proposal_to_dict L p) = Inr \<lparr>pw_id = pp_proposal_id p, pw_hash = pp_proposal_hash p, pw_json = action_proposal_to_dict L p\<rparr>"
  by (simp add: proposal_row_of_def action_proposal_to_dict_def item_text_def)

lemma decision_row_of_decision:
  "decision_row_of (authz_decision_to_dict d) = Inr \<lparr>dw_id = ad_decision_id d, dw_json = authz_decision_to_dict d\<rparr>"
  by (simp add: decision_row_of_def authz_decision_to_dict_def item_text_def)

lemma gate_saved:
  assumes "gd_audit db = []"
  shows "\<exists>a. save_authorization op_lib demo_env (Some (action_proposal_to_dict op_lib p)) (authz_decision_to_dict d)
      (evidence_bundle_to_dict op_lib x) db = ([], a)"
proof -
  obtain db1 where 1: "insert_proposal (action_proposal_to_dict op_lib p) db = Inr db1" "gd_audit db1 = []"
    using assms by (simp add: insert_proposal_def proposal_row_of_proposal)
  obtain db2 where 2: "insert_decision (authz_decision_to_dict d) db1 = Inr db2" "gd_audit db2 = []"
    using 1 by (simp add: insert_decision_def decision_row_of_decision)
  obtain a where 3: "insert_audit op_lib (evidence_bundle_to_dict op_lib x) db2 = Inr a" using gate_audit [OF 2(2)] by blast
  show ?thesis by (simp add: save_authorization_def 1 2 3 at_stage_def)
qed

lemma gate_demo:
  "\<exists>d db'. gate_evaluate op_lib demo_env None gate_proposal gate_context gate_db = (Inr d, db') \<and> ad_allowed d \<and> ad_lease_id d = ''al''"
proof -
  obtain db where m: "match_lease demo_env gate_proposal gate_context gate_db = (Inr ''al'', db)" and empty: "gd_audit db = []"
    using gate_lease by blast
  let ?risk = "assess_risk demo_env gate_proposal gate_context (Some (lookup_capability demo_env (pp_capability_id gate_proposal)))"
  let ?d = "gate_execute demo_env gate_proposal gate_context ?risk ''al'' ''Active lease covers this proposal''"
  obtain a where "save_authorization op_lib demo_env (Some (action_proposal_to_dict op_lib gate_proposal)) (authz_decision_to_dict ?d)
      (evidence_bundle_to_dict op_lib (audit_bundle demo_env ?d gate_proposal gate_context)) db = ([], a)"
    using gate_saved [OF empty] by blast
  then have "finalize_decision op_lib demo_env gate_proposal gate_context True ?d db = (Inr ?d, a)" by (simp add: finalize_decision_def)
  then have "gate_evaluate op_lib demo_env None gate_proposal gate_context gate_db = (Inr ?d, a)"
    by (simp add: gate_evaluate_def gate_no_refusal m Let_def decision_for_def resolve_action_mode_def)
  then show ?thesis by auto
qed

end
