(* ===== verification/Governance_Safety.thy ===== *)
theory Governance_Safety
  imports Governance_Demo
begin

text \<open>
  What holds of the governance layer over all sequences of its operations: the tables are well
  formed, a request has at most one answer, a lease is not used more often than was granted and not
  after it was revoked, the audit chain verifies, a revoked operation is never admitted and a paid
  one not twice.
\<close>

section \<open>Well-formed tables\<close>

text \<open>
  C20: After any sequence of operations of the managers, the broker and the gates, every primary and
  every unique key of the tables they write is free of duplicates: operations by authorization and
  by operation, proposals by id and by hash, decisions, requests, answers, leases, uses by log id and
  by lease and execution, delegations, revocations, audit rows and policies. Every answer belongs to
  a stored request and every use to a stored lease. Of the random identifiers only those under which
  a request or a lease is stored with \<open>INSERT OR REPLACE\<close> are assumed to be new (\<open>new_ids\<close>).
\<close>

theorem governance_tables_wellformed:
  assumes "new_ids L ops (no_broker, gov_empty)"
  shows "let db = snd (gov_run L ops (no_broker, gov_empty)) in
    distinct (map ow_authorization_id (gd_operations db)) \<and> distinct (map ow_operation_id (gd_operations db)) \<and>
    distinct (map pw_id (gd_proposals db)) \<and> distinct (map pw_hash (gd_proposals db)) \<and>
    distinct (map dw_id (gd_decisions db)) \<and> distinct (map qw_id (gd_requests db)) \<and> distinct (map sw_id (gd_responses db)) \<and>
    distinct (map lr_lease_id (gd_leases db)) \<and> distinct (map uw_log_id (gd_uses db)) \<and>
    distinct (map (\<lambda>u. (uw_lease_id u, uw_execution_id u)) (gd_uses db)) \<and>
    distinct (map gw_id (gd_delegations db)) \<and> distinct (map vw_id (gd_revocations db)) \<and>
    distinct (map aw_id (gd_audit db)) \<and> distinct (map yw_policy_id (gd_policies db)) \<and>
    (\<forall>s \<in> set (gd_responses db). sw_request_id s \<in> qw_id ` set (gd_requests db)) \<and>
    (\<forall>u \<in> set (gd_uses db). uw_lease_id u \<in> lr_lease_id ` set (gd_leases db))"
proof -
  have ok: "gov_ok (snd (gov_run L ops (no_broker, gov_empty)))" by (rule run_ok [OF assms]) simp
  then show ?thesis
    using gov_okD [OF ok] by (simp add: Let_def gov_ok_def keys_ok_def other_keys_def use_key_def [abs_def])
qed

theorem governance_tables_wellformed_witness:
  "let db = snd demo_state in distinct (map uw_log_id (gd_uses db)) \<and>
    (\<forall>u \<in> set (gd_uses db). uw_lease_id u \<in> lr_lease_id ` set (gd_leases db)) \<and> gd_uses db \<noteq> []"
proof -
  have "gd_uses (snd demo_state) \<noteq> []" using demo_lease(2) by auto
  then show ?thesis
    using governance_tables_wellformed [OF demo_new_ids] unfolding demo_state_def Let_def by blast
qed

section \<open>Leases\<close>

text \<open>
  C1: However leases are issued, consumed, matched by the gate, spent on operations or revoked, the
  uses recorded for a lease and its remaining uses together never exceed what was granted, and the
  uses belong to different executions.
\<close>

theorem lease_uses_bounded:
  assumes "governed_state L (b, db)" "r \<in> set (gd_leases db)"
  shows "int (length (uses_of db (lr_lease_id r))) \<le> max 0 (lr_max_uses r) \<and>
    int (length (uses_of db (lr_lease_id r))) + lr_remaining_uses r \<le> lr_max_uses r \<and>
    distinct (map uw_execution_id (uses_of db (lr_lease_id r)))"
proof -
  have ok: "gov_ok db" using governed_state_ok [OF assms(1)] by simp
  have "books_balance db"
    using books.state_keeps [OF assms(1)] by simp
  then have b: "int (length (uses_of db (lr_lease_id r))) + lr_remaining_uses r \<le> lr_max_uses r \<and>
      (uses_of db (lr_lease_id r) \<noteq> [] \<longrightarrow> 0 \<le> lr_remaining_uses r)"
    using assms(2) by (simp add: books_balance_def)
  then have "int (length (uses_of db (lr_lease_id r))) \<le> max 0 (lr_max_uses r)"
    by (cases "uses_of db (lr_lease_id r)") auto
  moreover
  have "inj_on use_key (set (gd_uses db))" "distinct (gd_uses db)"
    using ok by (simp_all add: gov_ok_def keys_ok_def distinct_map)
  then have "distinct (map uw_execution_id (uses_of db (lr_lease_id r)))"
    by (auto simp: distinct_map uses_of_def inj_on_def use_key_def)
  ultimately show ?thesis using b by simp
qed

theorem lease_uses_bounded_witness:
  "\<exists>r \<in> set (gd_leases (snd demo_state)). length (uses_of (snd demo_state) (lr_lease_id r)) = 1 \<and> 1 \<le> lr_max_uses r"
proof -
  obtain r where r: "r \<in> set (gd_leases (snd demo_state))" "lr_lease_id r = ''al''" "lr_max_uses r = 2"
    using demo_lease(1) by auto
  have u: "length (uses_of (snd demo_state) ''al'') = 1" by (simp add: demo_eval uses_of_def)
  from lease_uses_bounded [OF demo_governed r(1)] r u show ?thesis by (intro bexI [of _ r]) auto
qed

text \<open>
  A lease that was revoked is closed for good: whatever operations follow, none records a
  further use of it, and consuming it answers yes only to an execution that had used it before.
\<close>

lemma revoked_lease_is_final:
  assumes "governed_state L (b, db)" "lease_revoke E l who why db = (Inr v, db1)" "ge_up E ''update_lease_status''"
    and "new_ids L ops (b, db1)"
  shows "let db2 = snd (gov_run L ops (b, db1)) in
    uses_of db2 l = uses_of db1 l \<and>
    (\<forall>E' x. fst (fst (lease_consume E' l x db2)) \<longrightarrow> (\<exists>u \<in> set (gd_uses db1). uw_lease_id u = l \<and> uw_execution_id u = x))"
proof -
  have ok: "gov_ok db" using governed_state_ok [OF assms(1)] by simp
  obtain d where d: "lease_of db l = Some d"
    using assms(2) by (auto simp: lease_revoke_def get_lease_def split: option.splits if_splits)
  have db1: "gd_leases db1 = map (\<lambda>r. if lr_lease_id r = l then r\<lparr>lr_status := ''REVOKED''\<rparr> else r) (gd_leases db)"
    using assms(2,3) unfolding lease_revoke_def Let_def
    by (auto simp: update_lease_status_def carried_out_def save_revocation_def bindE_def split: option.splits sum.splits if_splits)
  have "closed l db1"
    using find_Some_in [OF d [unfolded lease_of_def]] unfolding closed_def db1 by force
  moreover have "gov_ok db1"
    using changes_ok [OF changes_lease_revoke [of L db E l who why] ok] assms(2) by simp
  ultimately have fin: "closed l (snd (gov_run L ops (b, db1))) \<and> uses_of (snd (gov_run L ops (b, db1))) l = uses_of db1 l"
    "gov_ok (snd (gov_run L ops (b, db1)))"
    using closing.run_keeps [where l = l and us = "uses_of db1 l", OF assms(4)] run_ok [OF assms(4)] by simp_all
  define db2 where "db2 = snd (gov_run L ops (b, db1))"
  have "\<exists>u \<in> set (gd_uses db1). uw_lease_id u = l \<and> uw_execution_id u = x" if "fst (fst (lease_consume E' l x db2))" for E' x
  proof (cases "prior_use db2 l x")
    case None
    have "lr_status r \<noteq> ''ACTIVE''" if "lease_of db2 l = Some r" for r
      using closed_unique [OF fin(2) [folded db2_def], of l r] fin(1) find_Some_in [OF that [unfolded lease_of_def]]
      by (simp add: db2_def)
    with that None show ?thesis by (auto simp: lease_consume_def consume_lease_def split: option.splits if_splits)
  next
    case (Some u)
    then have "u \<in> set (uses_of db2 l)" "uw_execution_id u = x" by (auto simp: prior_use_def uses_of_def dest!: find_Some_in)
    with fin(1) show ?thesis by (auto simp: db2_def uses_of_def)
  qed
  with fin(1) show ?thesis by (simp add: Let_def db2_def)
qed

definition demo_revoked :: gov_db where
  "demo_revoked = snd (lease_revoke demo_env ''al'' ''o'' [] (snd demo_state))"

lemma demo_revoke:
  "lease_revoke demo_env ''al'' ''o'' [] (snd demo_state) = (Inr (revocation_of demo_env ''lease'' ''al'' ''o'' []), demo_revoked)"
proof -
  have "get_lease demo_env ''al'' (snd demo_state) \<noteq> None" by (simp add: get_lease_def demo_eval)
  then show ?thesis by (auto simp: lease_revoke_def demo_revoked_def Let_def split: option.splits)
qed

lemma revoked_lease_is_final_witness:
  "uses_of (snd (gov_run demo_lib [(demo_env, Lease_consume ''al'' ''y'')] (no_broker, demo_revoked))) ''al'' = uses_of demo_revoked ''al''"
proof -
  have "new_ids demo_lib [(demo_env, Lease_consume ''al'' ''y'')] (no_broker, demo_revoked)" by simp
  from revoked_lease_is_final [OF demo_governed demo_revoke _ this] show ?thesis by (simp add: Let_def)
qed

section \<open>Approvals\<close>

text \<open>
  C4: In every state that operations lead to, a stored request for approval has at most one answer,
  and none as long as it is pending.
\<close>

theorem one_answer_per_request:
  assumes "governed_state L (b, db)" "q \<in> set (gd_requests db)"
  shows "length (filter (\<lambda>s. sw_request_id s = qw_id q) (gd_responses db)) \<le> (if qw_status q = ''PENDING'' then 0 else 1)"
proof -
  have "answered_once db" using answers.state_keeps [OF assms(1)] by simp
  from bspec [OF this [unfolded answered_once_def] assms(2)] show ?thesis by (simp add: answers_of_def)
qed

definition demo_request :: gov_state where
  "demo_request = gov_run demo_lib [(demo_env, Create_request demo_proposal (op_context demo_env
     \<lparr>gq_operation_id = ''w'', gq_work_id = ''w'', gq_capability_id = ''c'', gq_resource_id = ''r'',
     gq_subject_id = ''a'', gq_agent_session_id = [], gq_workflow_run_id = [], gq_plan_id = [], gq_node_id = [], gq_input_artifacts = [],
     gq_expected_effect = [], gq_capability_inputs = [], gq_secret_handles = []\<rparr>) ''low'' 1), (demo_env, Manager_deny ''apr'' ''o'' []),
     (demo_env, Manager_approve ''apr'' ''o'' None [])] (no_broker, gov_empty)"

lemma demo_request_governed: "governed_state demo_lib demo_request"
  unfolding governed_state_def demo_request_def by (rule exI, rule conjI [OF _ refl]) (simp add: gov_empty_def)

lemma demo_request_rows:
  "map (\<lambda>q. (qw_id q, qw_status q)) (gd_requests (snd demo_request)) = [(''apr'', ''DENIED'')]"
  "map sw_request_id (gd_responses (snd demo_request)) = [''apr'']"
  by (simp_all add: demo_request_def gov_empty_def create_request_def save_approval_request_def carried_out_def Let_def
    manager_approve_def manager_deny_def manager_respond_def pending_request_def get_approval_request_def request_of_def
    resolve_approval_def insert_response_def set_request_status_def
    approval_request_to_dict_def dict_get_or_def item_text_def request_row_of_def get_text_def)

theorem one_answer_per_request_witness:
  "\<exists>q \<in> set (gd_requests (snd demo_request)). length (filter (\<lambda>s. sw_request_id s = qw_id q) (gd_responses (snd demo_request))) \<le> 1 \<and>
     qw_status q = ''DENIED''"
proof -
  obtain q where q: "q \<in> set (gd_requests (snd demo_request))" "qw_status q = ''DENIED''" using demo_request_rows(1) by auto
  have "governed_state demo_lib (fst demo_request, snd demo_request)" using demo_request_governed by simp
  from one_answer_per_request [OF this q(1)] q show ?thesis by (intro bexI [of _ q]) auto
qed

section \<open>The audit chain\<close>

text \<open>
  C14: Whatever the managers, the broker and the gates do, the audit chain verifies, and the rows
  that were in it stay there, in their order and unchanged.
\<close>

theorem audit_chain_verifies:
  assumes "governed_state L (b, db)" "new_ids L ops (b, db)"
  shows "let db' = snd (gov_run L ops (b, db)) in
    verify_audit_chain L E db' = ge_up E ''verify_audit_chain'' \<and> prefix (gd_audit db) (gd_audit db')"
proof -
  have ok: "gov_ok db" using governed_state_ok [OF assms(1)] by simp
  have "chain_from L [] (gd_audit db)" using chain.state_keeps [OF assms(1)] by simp
  then have "chain_from L [] (gd_audit (snd (gov_run L ops (b, db))))" using chain.run_keeps [OF assms(2)] ok by simp
  moreover have "grows db (snd (gov_run L ops (b, db)))" using growth.run_keeps [OF assms(2)] ok by simp
  ultimately show ?thesis by (simp add: verify_audit_chain_def grows_def Let_def)
qed

theorem audit_chain_verifies_witness:
  "verify_audit_chain demo_lib demo_env (snd (gov_run demo_lib [(demo_env, Record_evidence [] [] [])] (no_broker, snd demo_state)))"
proof -
  have "new_ids demo_lib [(demo_env, Record_evidence [] [] [])] (no_broker, snd demo_state)" by simp
  from audit_chain_verifies [OF demo_governed this, of demo_env] show ?thesis by (simp only: Let_def demo_ids)
qed

text \<open>The columns of a row, which its digest covers\<close>

definition audit_columns :: "gov_lib \<Rightarrow> audit_row \<Rightarrow> string list" where
  "audit_columns L r = [aw_id r, aw_event_type r, aw_decision_id r, aw_proposal_hash r,
     json_text (gl_float L) True '', '' '': '' (aw_evidence r), aw_recorded_at r, aw_previous_hash r]"

definition audit_row_text :: "gov_lib \<Rightarrow> audit_row \<Rightarrow> string" where
  "audit_row_text L r = ''{'' @ py_join '', '' (map (\<lambda>(k, v). json_string False k @ '': '' @ json_string False v)
     [(''audit_id'', aw_id r), (''decision_id'', aw_decision_id r), (''event_type'', aw_event_type r),
      (''evidence_json'', json_text (gl_float L) True '', '' '': '' (aw_evidence r)), (''previous_audit_hash'', aw_previous_hash r),
      (''proposal_hash'', aw_proposal_hash r), (''recorded_at'', aw_recorded_at r)]) @ ''}''"

lemma audit_row_hash_text: "audit_row_hash L r = gl_sha256 L (audit_row_text L r)"
  by (simp add: audit_row_hash_def audit_row_text_def)

lemma audit_row_text_columns: "audit_row_text L r = audit_row_text L q \<Longrightarrow> audit_columns L r = audit_columns L q"
  by (simp add: audit_row_text_def json_string_inj audit_columns_def)

lemma chain_from_split:
  "chain_from L h (rs @ [r]) \<Longrightarrow> chain_from L h rs \<and> aw_previous_hash r = (if rs = [] then h else audit_row_hash L (last rs))"
  by (simp add: chain_from_append)

text \<open>
  C15: The digest of the last row fixes the whole log: two logs that verify and end in rows of the
  same digest agree in every column of every row, if SHA-256 has no collision among the texts of
  their rows and is never empty. So every change of an earlier row, and every row left out or added,
  shows at the end.
\<close>

theorem audit_log_fixed_by_last_digest:
  assumes "chain_from L [] rs" "chain_from L [] rs'"
    and "rs \<noteq> []" "rs' \<noteq> []" "audit_row_hash L (last rs) = audit_row_hash L (last rs')"
    and no_collision: "inj_on (gl_sha256 L) (audit_row_text L ` (set rs \<union> set rs'))" and never_empty: "\<forall>s. gl_sha256 L s \<noteq> []"
  shows "map (audit_columns L) rs = map (audit_columns L) rs'"
  using assms(1-6)
proof (induction rs arbitrary: rs' rule: rev_induct)
  case (snoc r rs)
  obtain q qs where rs': "rs' = qs @ [q]" using snoc.prems(4) by (metis rev_exhaust)
  have "audit_row_text L r = audit_row_text L q"
    using snoc.prems(5) inj_onD [OF snoc.prems(6), of "audit_row_text L r" "audit_row_text L q"] by (simp add: rs' audit_row_hash_text)
  then have q: "audit_columns L r = audit_columns L q" by (rule audit_row_text_columns)
  then have "aw_previous_hash r = aw_previous_hash q" by (simp add: audit_columns_def)
  then have c: "chain_from L [] rs" "chain_from L [] qs"
      "(if rs = [] then [] else audit_row_hash L (last rs)) = (if qs = [] then [] else audit_row_hash L (last qs))"
    using chain_from_split [OF snoc.prems(1)] chain_from_split [OF snoc.prems(2) [unfolded rs']] by auto
  have ne: "audit_row_hash L x \<noteq> []" for x using never_empty by (simp add: audit_row_hash_def)
  have inj: "inj_on (gl_sha256 L) (audit_row_text L ` (set rs \<union> set qs))" using snoc.prems(6) by (rule inj_on_subset) (auto simp: rs')
  show ?case
  proof (cases "rs = []")
    case True
    with c(3) ne have "qs = []" by metis
    with True q rs' show ?thesis by simp
  next
    case False
    with c(3) ne have "qs \<noteq> []" by metis
    with False c inj have "map (audit_columns L) rs = map (audit_columns L) qs" by (intro snoc.IH) auto
    with q rs' show ?thesis by simp
  qed
qed simp

definition demo_log :: "audit_row list" where
  "demo_log = gd_audit (audit_append demo_lib \<lparr>aw_id = ''1'', aw_event_type = ''e'', aw_decision_id = [], aw_proposal_hash = [],
     aw_evidence = JNull, aw_recorded_at = [], aw_previous_hash = []\<rparr> gov_empty)"

theorem audit_log_fixed_by_last_digest_witness:
  "map (audit_columns demo_lib) demo_log = map (audit_columns demo_lib) (map (\<lambda>r. r\<lparr>aw_evidence := JNull\<rparr>) demo_log)"
proof (rule audit_log_fixed_by_last_digest)
  show "inj_on (gl_sha256 demo_lib) (audit_row_text demo_lib ` (set demo_log \<union> set (map (\<lambda>r. r\<lparr>aw_evidence := JNull\<rparr>) demo_log)))"
    by (simp add: demo_lib_def inj_on_def)
qed (simp_all add: demo_log_def audit_append_def gov_empty_def last_audit_hash_def demo_lib_def)

section \<open>Operations\<close>

lemma grows_run:
  assumes "governed_state L (b, db)" "changes L db db1" "new_ids L ops (b, db1)"
  shows "grows db1 (snd (gov_run L ops (b, db1)))"
proof -
  have "gov_ok db1" using changes_ok [OF assms(2)] governed_state_ok [OF assms(1)] by simp
  then show ?thesis using growth.run_keeps [OF assms(3), of db1] by simp
qed

lemma prefix_revoked: "prefix (gd_revocations a) (gd_revocations b) \<Longrightarrow> revoked a t \<Longrightarrow> revoked b t"
  by (auto simp: revoked_def prefix_def)

lemma revoked_not_allowed:
  assumes "revoked db (gq_resource_id q) \<or> revoked db (authorization_id L q)"
    and "evaluate_operation_in L E G q admitted db = Inr ((v, g), db')"
  shows "v \<noteq> GV_ALLOW"
proof (cases "op_refused L E G q db")
  case None
  with assms(1) op_refused_None(8,9) show ?thesis by blast
next
  case (Some w)
  with assms(2) op_refused_not_allowed [of L E G q db] show ?thesis by (auto simp: evaluate_operation_in_def)
qed

lemma admit_revoked:
  assumes "get_operation_request L a db = Inr q" "revoked db (gq_resource_id q) \<or> revoked db (authorization_id L q)"
  shows "\<exists>e. fst (admit_operation L E G node check a db) = Inl e"
proof (cases "admit_operation L E G node check a db")
  case (Pair r db1)
  show ?thesis
  proof (cases r)
    case (Inr q')
    with Pair have "admit_operation L E G node check a db = (Inr q', db1)" by simp
    then obtain g db' where "get_operation_request L a db = Inr q'" "evaluate_operation_in L E G q' False db = Inr ((GV_ALLOW, g), db')"
      by (rule admit_Inr)
    with assms revoked_not_allowed [of db q' L E G False] show ?thesis by simp
  qed (use Pair in simp)
qed

lemma revalidate_revoked:
  assumes "revoked db (authorization_id L q)"
  shows "\<exists>e. fst (revalidate L E G check q db) = Inl e"
proof (cases "evaluate_operation_in L E G q True db")
  case (Inr x)
  obtain v g db' where x: "x = ((v, g), db')" by (metis surj_pair)
  have "v \<noteq> GV_ALLOW" using revoked_not_allowed [of db q L E G True v g db'] assms Inr x by simp
  then show ?thesis by (auto simp: revalidate_def in_transaction_def Inr x bindE_def split: sum.split)
qed (simp add: revalidate_def in_transaction_def)

lemma interrupt_revokes:
  assumes "interrupt_operation L E U G a c db = (Inr x, db')"
  shows "revoked db' a"
proof -
  obtain db1 ev y where audit: "append_operation_audit L E ev y db1 = Inr db'"
    and added: "(if revoked db a then Inr db else add_revocation E ''operation'' a c db) = Inr db1"
    using as_human_Inr [OF assms [unfolded interrupt_operation_def]] by (auto simp: bindE_eq_Inr)
  have "revoked db1 a" using added by (auto simp: Let_def add_revocation_def revoked_def split: if_splits)
  then show ?thesis using operation_audit_frame(3) [OF audit] by (simp add: revoked_def)
qed

text \<open>
  C2: Once an operation is interrupted, whatever happens afterwards it is not admitted, and an
  effect that was about to start does not pass its last check.
\<close>

theorem interrupted_operation_never_admitted:
  assumes "governed_state L (b, db)" "interrupt_operation L E U G a c db = (Inr x, db1)" "new_ids L ops (b, db1)"
  shows "let db2 = snd (gov_run L ops (b, db1)) in
    (\<forall>E' G' node check. \<exists>e. fst (admit_operation L E' G' node check a db2) = Inl e) \<and>
    (\<forall>E' G' check q. authorization_id L q = a \<longrightarrow> (\<exists>e. fst (revalidate L E' G' check q db2) = Inl e))"
proof -
  define db2 where "db2 = snd (gov_run L ops (b, db1))"
  have "changes L db db1" using changes_interrupt [of L db E U G a c] assms(2) by simp
  from grows_run [OF assms(1) this assms(3)] interrupt_revokes [OF assms(2)]
  have r: "revoked db2 a" by (auto simp: grows_def db2_def intro: prefix_revoked)
  have "\<exists>e. fst (admit_operation L E' G' node check a db2) = Inl e" for E' G' node check
  proof (cases "get_operation_request L a db2")
    case (Inr q)
    then show ?thesis using r get_operation_request_id [OF Inr] by (intro admit_revoked) auto
  qed (simp add: admit_operation_def in_transaction_def)
  moreover have "\<exists>e. fst (revalidate L E' G' check q db2) = Inl e" if "authorization_id L q = a" for E' G' check q
    using r that by (intro revalidate_revoked) simp
  ultimately show ?thesis by (simp add: Let_def db2_def)
qed

theorem interrupted_operation_never_admitted_witness:
  "\<exists>e. fst (admit_operation op_lib demo_env op_demo_gate False True ''gov_h'' op_interrupted) = Inl e"
proof -
  obtain x where x: "interrupt_operation op_lib demo_env op_demo_human op_demo_gate ''gov_h'' op_demo_context (snd op_granted) = (Inr x, op_interrupted)"
    using op_demo_interrupt by blast
  have "new_ids op_lib [] (no_broker, op_interrupted)" by simp
  from interrupted_operation_never_admitted [OF op_granted_governed x this] show ?thesis by (simp add: Let_def)
qed

text \<open>
  C16: An operation whose admission was paid for by a grant is admitted once: no later admission of
  it succeeds, whichever operations come between.
\<close>

theorem paid_operation_admitted_once:
  assumes "governed_state L (b, db)" "admit_operation L E G node check a db = (Inr q, db1)" "gd_uses db1 \<noteq> gd_uses db"
    and "new_ids L ops (b, db1)"
  shows "\<exists>e. fst (admit_operation L E' G' node' check' a (snd (gov_run L ops (b, db1)))) = Inl e"
proof -
  define db2 where "db2 = snd (gov_run L ops (b, db1))"
  obtain g db' db1' ev y where e: "evaluate_operation_in L E G q False db = Inr ((GV_ALLOW, g), db')"
    and d: "(case g of None \<Rightarrow> Inr db' | Some r \<Rightarrow> spend_grant E a r db') = Inr db1'" "append_operation_audit L E ev y db1' = Inr db1"
    using assms(2) by (rule admit_Inr)
  have "gd_uses db1' \<noteq> gd_uses db'" using assms(3) evaluate_in_same(2) [OF e] operation_audit_frame(1) [OF d(2)] by simp
  with d(1) have "\<exists>u \<in> set (gd_uses db1'). uw_execution_id u = a"
    by (cases g) (auto simp: spend_grant_def Let_def split: if_split_asm)
  then have "\<exists>u \<in> set (gd_uses db1). uw_execution_id u = a" using operation_audit_frame(1) [OF d(2)] by simp
  moreover have "changes L db db1" using changes_admit [of L db E G node check a] assms(2) by simp
  from grows_run [OF assms(1) this assms(4)] have "prefix (gd_uses db1) (gd_uses db2)" by (simp add: grows_def db2_def)
  ultimately have used: "\<exists>u \<in> set (gd_uses db2). uw_execution_id u = a" by (auto simp: prefix_def)
  show ?thesis
  proof (cases "admit_operation L E' G' node' check' a db2")
    case (Pair r db3)
    show ?thesis
    proof (cases r)
      case (Inr q')
      with Pair have "admit_operation L E' G' node' check' a db2 = (Inr q', db3)" by simp
      then have "\<forall>u \<in> set (gd_uses db2). uw_execution_id u \<noteq> a" by (rule admit_Inr)
      with used show ?thesis by blast
    qed (use Pair db2_def in simp)
  qed
qed

theorem paid_operation_admitted_once_witness:
  "\<exists>e. fst (admit_operation op_lib demo_env op_demo_gate False True ''gov_h'' op_admitted) = Inl e"
proof -
  have "new_ids op_lib [] (no_broker, op_admitted)" by simp
  from paid_operation_admitted_once [OF op_granted_governed op_demo_admit op_admitted_uses this] show ?thesis by simp
qed

end
