(* ===== verification/Governance_Decisions.thy ===== *)
theory Governance_Decisions
  imports Governance_Demo
begin

text \<open>
  What single decisions of the governance layer promise: when the permission engine allows, how the
  risk class comes about, when the authorization gate lets a proposal execute and what is on record
  then, when the broker approves, who may grant authority, and when an operation is admitted.
\<close>

section \<open>Permissions and risk\<close>

text \<open>
  The permission engine allows a request exactly when its rules can be read and are valid, some
  rule that matches the request allows it, and no rule that matches it denies it: a denial wins
  whatever the order of the rules, and without a matching rule the answer is no.
\<close>

lemma permission_denial_wins:
  "pd_allowed (pe_check known now file e q) \<longleftrightarrow>
     (\<exists>rules digest. owner_rules known now file e = Inr (rules, digest) \<and>
        (\<exists>r \<in> set rules. rule_matches r q \<and> effect_is ''allow'' r) \<and>
        \<not> (\<exists>r \<in> set rules. rule_matches r q \<and> effect_is ''deny'' r))"
proof (cases "owner_rules known now file e")
  case (Inr x)
  obtain rules digest where x: "x = (rules, digest)" by fastforce
  let ?m = "filter (\<lambda>r. rule_matches r q) rules"
  have none: "find P ?m = None \<longleftrightarrow> \<not> (\<exists>r \<in> set rules. rule_matches r q \<and> P r)" for P
    by (auto simp: find_None_iff)
  have "pd_allowed (decide rules q) \<longleftrightarrow> find (effect_is ''allow'') ?m \<noteq> None \<and> find (effect_is ''deny'') ?m = None"
    by (simp add: decide_def Let_def split: option.split)
  then show ?thesis
    unfolding pe_check_def Inr x none by auto
qed (simp add: pe_check_def)

lemma foldl_max: "foldl max (x :: rat) xs = Max (set (x # xs))"
proof (induction xs arbitrary: x)
  case (Cons y ys)
  have "Max (insert (max x y) (set ys)) = Max (insert x (insert y (set ys)))"
    by (cases "ys = []") (simp_all add: Max_insert max.assoc)
  with Cons [of "max x y"] show ?case by simp
qed simp

lemma first_max_in: "first_max x xs \<in> set (x # xs)"
  unfolding first_max_def by (induction xs arbitrary: x) fastforce+

lemma first_max_max: "snd (first_max x xs) = Max (snd ` set (x # xs))"
  unfolding first_max_def
proof (induction xs arbitrary: x)
  case (Cons y ys)
  let ?z = "if snd x < snd y then y else x"
  have z: "snd ?z = max (snd x) (snd y)" by (simp add: max_def)
  have "foldl (\<lambda>a b. if snd a < snd b then b else a) x (y # ys) = foldl (\<lambda>a b. if snd a < snd b then b else a) ?z ys" by simp
  then have "snd (foldl (\<lambda>a b. if snd a < snd b then b else a) x (y # ys)) = Max (insert (snd ?z) (snd ` set ys))"
    using Cons [of ?z] by (simp only: list.set image_insert)
  also have "\<dots> = Max (snd ` set (x # y # ys))"
    unfolding z by (cases "ys = []") (simp_all add: Max_insert max.assoc)
  finally show ?case .
qed simp

lemma known_dims_set: "set (known_dims dims) = {(n, v). (n, Some v) \<in> set dims}"
  by (induction dims) (auto simp: known_dims_def map_filter_simps split: option.split)

lemma known_dims_length: "length (known_dims dims) + length (unknown_dims dims) = length dims"
  by (induction dims) (auto simp: known_dims_def unknown_dims_def map_filter_simps split: option.split)

text \<open>
  A risk envelope covers fifteen dimensions, each known or listed as unknown. Its class is
  decided by the largest known value, which is the value of the dimension it names, and by the
  number of unknown dimensions; an unknown dimension never lowers it.
\<close>

lemma risk_class_is_worst_dimension:
  "let dims = risk_dims E p c m; r = assess_risk E p c m;
       worst = Max {v. \<exists>n. (n, Some v) \<in> set dims}; unknown = length (re_unknown_dimensions r) in
    set (re_unknown_dimensions r) = {n. (n, None) \<in> set dims} \<and> unknown < 15 \<and>
    (re_max_dimension r, Some worst) \<in> set dims \<and> re_max_dimension_value r = worst \<and>
    re_aggregate_risk_class r =
      (if worst \<ge> 9 / 10 \<or> unknown \<ge> 3 then ''critical''
       else if worst \<ge> 7 / 10 \<or> unknown = 2 then ''high''
       else if worst \<ge> 4 / 10 \<or> unknown = 1 then ''medium'' else ''low'')"
proof -
  define dims and r where "dims = risk_dims E p c m" and "r = assess_risk E p c m"
  define known where "known = known_dims dims"
  have set: "set known = {(n, v). (n, Some v) \<in> set dims}" by (simp add: known_def known_dims_set)
  obtain v where "financial_risk p = Some v" by (cases "financial_risk p") (auto simp: financial_risk_def Let_def split: if_splits)
  then have "(''financial_risk'', Some v) \<in> set dims" by (simp add: dims_def risk_dims_def)
  then have "known \<noteq> []" using set by force
  then obtain x xs where k: "known = x # xs" by (cases known) auto
  have vals: "snd ` set known = {v. \<exists>n. (n, Some v) \<in> set dims}" unfolding set by force
  define worst where "worst = Max {v. \<exists>n. (n, Some v) \<in> set dims}"
  have best: "first_max x xs \<in> set known" "snd (first_max x xs) = worst"
    using first_max_in [of x xs] first_max_max [of x xs] by (simp_all only: k vals [symmetric] worst_def)
  have unknown: "re_unknown_dimensions r = unknown_dims dims"
    by (simp add: r_def assess_risk_def Let_def dims_def case_prod_beta)
  have "set (unknown_dims dims) = {n. (n, None) \<in> set dims}" by (force simp: unknown_dims_def)
  moreover have "length (unknown_dims dims) < 15"
  proof -
    have "length dims = 15" by (simp add: dims_def risk_dims_def)
    moreover have "0 < length known" using k by simp
    ultimately show ?thesis using known_dims_length [of dims] unfolding known_def by linarith
  qed
  moreover have "re_max_dimension r = fst (first_max x xs) \<and> re_max_dimension_value r = snd (first_max x xs)"
    using k by (simp add: r_def assess_risk_def Let_def dims_def known_def case_prod_beta)
  moreover have "(fst (first_max x xs), Some worst) \<in> set dims" using best set by (cases "first_max x xs") auto
  moreover have "foldl max (snd x) (map snd xs) = worst"
    using foldl_max [of "snd x" "map snd xs"] vals by (simp add: k worst_def)
  then have "re_aggregate_risk_class r =
      (if worst \<ge> 9 / 10 \<or> length (unknown_dims dims) \<ge> 3 then ''critical''
       else if worst \<ge> 7 / 10 \<or> length (unknown_dims dims) \<ge> 2 then ''high''
       else if worst \<ge> 4 / 10 \<or> length (unknown_dims dims) \<ge> 1 then ''medium'' else ''low'')"
    using k by (simp add: r_def assess_risk_def Let_def dims_def known_def risk_aggregate_def case_prod_beta)
  ultimately show ?thesis
    using best by (auto simp: Let_def dims_def [symmetric] r_def [symmetric] unknown worst_def [symmetric])
qed

section \<open>The authorization gate\<close>



text \<open>Matching a lease touches the leases and their uses only, storing a decision everything but these.\<close>

lemma consume_lease_frame:
  assumes "consume_lease E l x db = (y, db1)"
  shows "db1\<lparr>gd_leases := gd_leases db, gd_uses := gd_uses db\<rparr> = db" "prefix (gd_uses db) (gd_uses db1)"
  using assms by (auto simp: consume_lease_def take_use_def set_lease_def Let_def split: option.splits if_splits)

lemma match_lease_frame:
  assumes "match_lease E p c db = (y, db1)"
  shows "db1\<lparr>gd_leases := gd_leases db, gd_uses := gd_uses db\<rparr> = db \<and> prefix (gd_uses db) (gd_uses db1)"
  using assms
  by (auto simp: match_lease_def Let_def update_lease_status_def carried_out_def set_lease_def dest: consume_lease_frame
      split: option.splits sum.splits if_splits prod.splits)





lemma lease_of_uses [simp]: "lease_of (db\<lparr>gd_uses := us\<rparr>) l = lease_of db l"
  by (simp add: lease_of_def)



lemma at_stage_Inl: "at_stage E st r = Inl code \<Longrightarrow> code \<noteq> []"
  by (auto simp: at_stage_def split: sum.splits if_splits)

lemma save_authorization_saved:
  assumes "save_authorization L E proposal decision audit db = ([], a)"
  obtains db1 db2 where "gd_audit db1 = gd_audit db" "insert_decision decision db1 = Inr db2" "insert_audit L audit db2 = Inr a"
    "ge_up E ''DECISION'' \<and> ge_up E ''AUDIT'' \<and> ge_up E ''AUTHORIZATION''"
proof -
  define r where "r = bindE (case proposal of None \<Rightarrow> Inr db | Some d \<Rightarrow> at_stage E ''PROPOSAL'' (insert_proposal d db)) (\<lambda>db1.
           bindE (at_stage E ''DECISION'' (insert_decision decision db1)) (\<lambda>db2.
           bindE (at_stage E ''AUDIT'' (insert_audit L audit db2)) (\<lambda>db3.
             at_stage E ''AUTHORIZATION'' (Inr db3))))"
  have "r = Inr a"
  proof (cases r)
    case (Inl code)
    then have "code \<noteq> []"
      unfolding r_def by (auto simp: bindE_eq_Inl dest: at_stage_Inl split: option.splits)
    with Inl assms show ?thesis by (simp add: save_authorization_def r_def)
  next
    case (Inr x)
    with assms show ?thesis by (simp add: save_authorization_def r_def)
  qed
  then obtain db1 db2 where db: "(case proposal of None \<Rightarrow> Inr db | Some d \<Rightarrow> at_stage E ''PROPOSAL'' (insert_proposal d db)) = Inr db1"
      "insert_decision decision db1 = Inr db2" "insert_audit L audit db2 = Inr a"
      "ge_up E ''DECISION'' \<and> ge_up E ''AUDIT'' \<and> ge_up E ''AUTHORIZATION''"
    unfolding r_def by (auto simp: bindE_eq_Inr at_stage_Inr)
  have "gd_audit db1 = gd_audit db"
    using db(1) by (auto simp: at_stage_Inr insert_proposal_def bindE_eq_Inr split: option.splits if_splits)
  then show thesis using db(2-4) by (rule that)
qed





text \<open>
  C21: If the store cannot write the decision, its audit row or their transaction, the gate fails
  closed: it raises or denies, whatever it had decided, and neither decisions nor audit rows nor
  proposals nor anything else is stored, but for the leases: a use that was taken from the matching
  lease before the decision was to be stored stays taken and on record, although nothing is executed.
\<close>

theorem gate_fails_closed:
  assumes "gate_evaluate L E engine p c db = (r, db')"
    and "\<not> (ge_up E ''DECISION'' \<and> ge_up E ''AUDIT'' \<and> ge_up E ''AUTHORIZATION'')"
  shows "(case r of Inl e \<Rightarrow> True | Inr d \<Rightarrow> ad_action_mode d = ''DENY'' \<and> \<not> ad_allowed d) \<and>
    db'\<lparr>gd_leases := gd_leases db, gd_uses := gd_uses db\<rparr> = db \<and> prefix (gd_uses db) (gd_uses db')"
proof -
  have fin: "(case x of Inl e \<Rightarrow> True | Inr d \<Rightarrow> ad_action_mode d = ''DENY'' \<and> \<not> ad_allowed d) \<and> b = a"
    if f: "finalize_decision L E p c persist d a = (x, b)" for persist d a x b
  proof -
    obtain failure b' where s: "save_authorization L E (if persist then Some (action_proposal_to_dict L p) else None)
        (authz_decision_to_dict d) (evidence_bundle_to_dict L (audit_bundle E d p c)) a = (failure, b')" by fastforce
    have "failure \<noteq> []" using save_authorization_saved [of L E _ _ _ a b'] s assms(2) by blast
    moreover have "b' = a" using s \<open>failure \<noteq> []\<close> by (auto simp: save_authorization_def split: sum.splits)
    ultimately show ?thesis
      using f s by (auto simp: finalize_decision_def store_unavailable_def bindE_def split: sum.splits)
  qed
  show ?thesis
  proof (cases "refusal L E engine p c")
    case (Some x)
    then obtain code msg rule where "refusal L E engine p c = Some (code, msg, rule)" by (cases x) auto
    then have "finalize_decision L E p c (code \<noteq> ''PROPOSAL_INVALID'') (gate_deny E 0 p c code msg rule) db = (r, db')"
      using assms(1) by (simp add: gate_evaluate_def)
    from fin [OF this] show ?thesis by simp
  next
    case None
    obtain y db1 where m: "match_lease E p c db = (y, db1)" by fastforce
    note match_lease_frame [OF m]
    moreover have "r = Inl e \<and> db' = db1" if "y = Inl e" for e
      using assms(1) None m that by (simp add: gate_evaluate_def Let_def)
    moreover have "(case r of Inl e \<Rightarrow> True | Inr d \<Rightarrow> ad_action_mode d = ''DENY'' \<and> \<not> ad_allowed d) \<and> db' = db1" if "y = Inr l" for l
      by (rule fin) (use assms(1) None m that in \<open>simp add: gate_evaluate_def Let_def\<close>)
    ultimately show ?thesis by (cases y) auto
  qed
qed

theorem gate_fails_closed_witness:
  "gd_audit (snd (gate_evaluate op_lib (demo_env\<lparr>ge_up := (\<lambda>s. s \<noteq> ''AUDIT'')\<rparr>) None gate_proposal gate_context gate_db)) = gd_audit gate_db"
proof -
  let ?db = "snd (gate_evaluate op_lib (demo_env\<lparr>ge_up := (\<lambda>s. s \<noteq> ''AUDIT'')\<rparr>) None gate_proposal gate_context gate_db)"
  have "?db\<lparr>gd_leases := gd_leases gate_db, gd_uses := gd_uses gate_db\<rparr> = gate_db"
    using gate_fails_closed [OF prod.collapse [symmetric], of "demo_env\<lparr>ge_up := (\<lambda>s. s \<noteq> ''AUDIT'')\<rparr>"] by simp
  from arg_cong [OF this, of gd_audit] show ?thesis by simp
qed

section \<open>The broker\<close>

definition checked :: "admission \<Rightarrow> gov_db \<Rightarrow> pyexn + gov_db" where
  "checked check db = (case check of None \<Rightarrow> Inr db | Some f \<Rightarrow> f db)"

lemma resolve_done:
  assumes "resolve_approval E i old new d (Some x) check db = (True, db')"
  obtains s r db0 where "checked check db = Inr db0" "length (filter (\<lambda>r. qw_id r = i \<and> qw_status r = old) (gd_requests db0)) = 1"
    "response_row_of d = Inr s" "lease_row_of x = Inr r"
    "gd_requests db' = map (\<lambda>r. if qw_id r = i \<and> qw_status r = old then r\<lparr>qw_status := new\<rparr> else r) (gd_requests db0)"
    "gd_responses db' = gd_responses db0 @ [s]" "gd_leases db' = gd_leases db0 @ [r]"
proof -
  let ?P = "\<lambda>r. qw_id r = i \<and> qw_status r = old"
  obtain db0 a where c: "checked check db = Inr db0" and one: "length (filter ?P (gd_requests db0)) = 1"
    and a: "insert_response d (set_request_status ?P new db0) = Inr a" and b: "insert_lease x a = Inr db'"
    using assms unfolding resolve_approval_def carried_out_def Let_def checked_def [symmetric]
    by (simp split: sum.splits if_split_asm) (auto simp: bindE_eq_Inr split: if_split_asm)
  from a obtain s where s: "response_row_of d = Inr s" "a = (set_request_status ?P new db0)\<lparr>gd_responses := gd_responses db0 @ [s]\<rparr>"
    unfolding insert_response_def by (auto simp: bindE_eq_Inr split: if_split_asm)
  from b obtain r where r: "lease_row_of x = Inr r" "db' = a\<lparr>gd_leases := gd_leases a @ [r]\<rparr>"
    unfolding insert_lease_def by (auto simp: bindE_eq_Inr split: if_split_asm)
  show thesis by (rule that [OF c one s(1) r(1)]) (simp_all add: s r)
qed

lemma broker_approve_resolves:
  assumes "broker_approve E i approver scope reason prevent requester check b db = (Inr r, b', db')" "ar_decision r = ''APPROVED''"
  obtains q l where "broker_request E ''Operation approval requires authenticated Approve Once'' i b db = Inr q"
    "\<not> overdue E q" "prevent \<and> approver \<noteq> [] \<longrightarrow> approver \<noteq> (if aq_requested_by q = [] then requester else aq_requested_by q)"
    "resolve_approval E i ''PENDING'' ''APPROVED'' (approval_response_to_dict r) (Some (authz_lease_to_dict l)) check db = (True, db')"
    "ar_request_id r = i" "al_subject_id l = aq_requested_by q" "al_proposal_hash l = aq_proposal_hash q" "al_remaining_uses l = 1"
    "al_max_uses l = 1" "al_expires_at l = aq_expires_at q" "al_approval_id l = ar_response_id r"
proof -
  obtain q where q: "broker_request E ''Operation approval requires authenticated Approve Once'' i b db = Inr q"
    using assms(1) by (cases "broker_request E ''Operation approval requires authenticated Approve Once'' i b db") (auto simp: broker_approve_def)
  let ?expired = "aq_expires_at q \<noteq> [] \<and> aq_expires_at q \<le> ge_now E"
  let ?self = "approver = (if aq_requested_by q = [] then requester else aq_requested_by q)"
  have denied: "ar_decision r' = ''DENIED''" if "broker_deny E i who why check b db = (Inr r', x)" for who why check r' x
    using that by (auto simp: broker_deny_def Let_def case_prod_beta split: sum.splits if_splits)
  have live: "\<not> ?expired"
    using assms(1) by (auto simp: broker_approve_def q Let_def case_prod_beta split: if_splits)
  have choice: "\<not> (prevent \<and> approver \<noteq> [] \<and> ?self)"
  proof
    assume self: "prevent \<and> approver \<noteq> [] \<and> ?self"
    have "broker_deny E i approver ''Self-approval is not permitted'' None b db = (Inr r, b', db')"
      using assms(1) unfolding broker_approve_def q sum.case if_not_P [OF live] if_P [OF self] .
    from denied [OF this] assms(2) show False by simp
  qed
  let ?s = "scope_default\<lparr>sk_proposal_hash := aq_proposal_hash q, sk_max_uses := (if scope = ''once'' then 1 else 0),
                 sk_valid_until := aq_expires_at q\<rparr>"
  let ?r = "broker_response E i q ''APPROVED'' (Some ?s) approver reason"
  let ?l = "\<lparr>al_lease_id = ge_id E ''al'' 0, al_proposal_hash = aq_proposal_hash q, al_approval_id = ar_response_id ?r,
                 al_subject_id = aq_requested_by q, al_scope = Some ?s, al_max_uses = 1, al_remaining_uses = 1,
                 al_issued_at = ge_now E, al_expires_at = aq_expires_at q, al_status = ''ACTIVE'',
                 al_schema_version = SCHEMA_VERSION\<rparr>"
  let ?x = "resolve_approval E i ''PENDING'' ''APPROVED'' (approval_response_to_dict ?r) (Some (authz_lease_to_dict ?l)) check db"
  have "(if \<not> fst ?x then (Inl (no_longer_pending i), b, snd ?x)
      else (Inr ?r, broker_emit ''approval.granted'' [(''request_id'', JStr i), (''approver_id'', JStr approver), (''scope'', JStr scope),
        (''reason'', JStr reason)] (forget i b), snd ?x)) = (Inr r, b', db')"
    using assms(1) unfolding broker_approve_def q sum.case if_not_P [OF live] if_not_P [OF choice] Let_def case_prod_beta .
  then have resolved: "r = ?r" "?x = (True, db')" by (cases "fst ?x"; cases ?x; simp)+
  have other: "prevent \<and> approver \<noteq> [] \<longrightarrow> \<not> ?self" using choice by blast
  show thesis
    by (rule that [of q ?l, OF q _ other]) (use live resolved in \<open>simp_all add: overdue_def\<close>)
qed

text \<open>
  C19: When the broker answers that a request is approved, the request was pending in the store after
  the admission check of the caller (if there is one) had passed in the same transaction, and not
  expired; where the caller asked to prevent self-approval and named the approver, the approver is
  somebody else than the requester. The broker then has closed the request, stored the one answer, and
  granted exactly one lease: for the requester, for one use, and no longer than the request was to live.
\<close>

theorem broker_approves_only:
  assumes "broker_approve E i approver scope reason prevent requester check b db = (Inr r, b', db')"
    and "ar_decision r = ''APPROVED''"
  shows "\<exists>q l db0. broker_request E ''Operation approval requires authenticated Approve Once'' i b db = Inr q \<and>
    aq_status q = ''PENDING'' \<and> \<not> overdue E q \<and>
    (prevent \<and> approver \<noteq> [] \<longrightarrow> approver \<noteq> (if aq_requested_by q = [] then requester else aq_requested_by q)) \<and>
    (case check of None \<Rightarrow> db0 = db | Some f \<Rightarrow> f db = Inr db0) \<and>
    length (filter (\<lambda>x. qw_id x = i \<and> qw_status x = ''PENDING'') (gd_requests db0)) = 1 \<and>
    (\<forall>x \<in> set (gd_requests db'). qw_id x = i \<longrightarrow> qw_status x \<noteq> ''PENDING'') \<and>
    map sw_request_id (gd_responses db') = map sw_request_id (gd_responses db0) @ [i] \<and>
    gd_leases db' = gd_leases db0 @ [l] \<and> lr_subject_id l = aq_requested_by q \<and> lr_proposal_hash l = aq_proposal_hash q \<and>
    lr_remaining_uses l = 1 \<and> lr_max_uses l = 1 \<and> lr_expires_at l = aq_expires_at q \<and> lr_approval_id l = ar_response_id r"
proof -
  obtain q m where q: "broker_request E ''Operation approval requires authenticated Approve Once'' i b db = Inr q"
    and live: "\<not> overdue E q" and other: "prevent \<and> approver \<noteq> [] \<longrightarrow> approver \<noteq> (if aq_requested_by q = [] then requester else aq_requested_by q)"
    and done': "resolve_approval E i ''PENDING'' ''APPROVED'' (approval_response_to_dict r) (Some (authz_lease_to_dict m)) check db = (True, db')"
    and m: "ar_request_id r = i" "al_subject_id m = aq_requested_by q" "al_proposal_hash m = aq_proposal_hash q" "al_remaining_uses m = 1"
      "al_max_uses m = 1" "al_expires_at m = aq_expires_at q" "al_approval_id m = ar_response_id r"
    using assms by (rule broker_approve_resolves)
  have pending: "aq_status q = ''PENDING''" using q by (auto simp: broker_request_def bindE_eq_Inr split: if_splits)
  from done' show ?thesis
  proof (rule resolve_done)
    fix s l db0
    assume check: "checked check db = Inr db0"
      and one: "length (filter (\<lambda>r. qw_id r = i \<and> qw_status r = ''PENDING'') (gd_requests db0)) = 1"
      and s: "response_row_of (approval_response_to_dict r) = Inr s" and l: "lease_row_of (authz_lease_to_dict m) = Inr l"
      and requests: "gd_requests db' = map (\<lambda>r. if qw_id r = i \<and> qw_status r = ''PENDING'' then r\<lparr>qw_status := ''APPROVED''\<rparr> else r) (gd_requests db0)"
      and responses: "gd_responses db' = gd_responses db0 @ [s]" and leases: "gd_leases db' = gd_leases db0 @ [l]"
    have closed: "\<forall>x \<in> set (gd_requests db'). qw_id x = i \<longrightarrow> qw_status x \<noteq> ''PENDING''"
      unfolding requests by auto
    have row: "sw_request_id s = i" "lr_subject_id l = aq_requested_by q" "lr_proposal_hash l = aq_proposal_hash q"
      "lr_remaining_uses l = 1" "lr_max_uses l = 1" "lr_expires_at l = aq_expires_at q" "lr_approval_id l = ar_response_id r"
      using s l m by auto
    have "case check of None \<Rightarrow> db0 = db | Some f \<Rightarrow> f db = Inr db0"
      using check by (auto simp: checked_def split: option.split)
    then show ?thesis
      using q pending live other one closed responses leases row
      by (intro exI [of _ q] exI [of _ l] exI [of _ db0] conjI) simp_all
  qed
qed

definition broker_demo :: broker where
  "broker_demo = \<lparr>bk_pending = [(''apr'', \<lparr>aq_request_id = ''apr'', aq_proposal_hash = ''h'', aq_summary = [], aq_risk_summary = [],
     aq_scope_summary = [], aq_status = ''PENDING'', aq_requested_by = ''a'', aq_requested_at = [], aq_expires_at = [],
     aq_priority = ''normal'', aq_schema_version = SCHEMA_VERSION\<rparr>)], bk_policies = [], bk_events = []\<rparr>"

definition broker_demo_db :: gov_db where
  "broker_demo_db = gov_empty\<lparr>gd_requests := [\<lparr>qw_id = ''apr'', qw_hash = ''h'', qw_status = ''PENDING'', qw_requested_by = ''a'',
     qw_requested_at = [], qw_expires_at = [], qw_json = []\<rparr>]\<rparr>"

lemma broker_demo_approves:
  "\<exists>r b db. broker_approve demo_env ''apr'' ''o'' ''once'' [] True [] None broker_demo broker_demo_db = (Inr r, b, db) \<and> ar_decision r = ''APPROVED''"
  by (simp add: broker_approve_def broker_request_def broker_demo_def broker_demo_db_def gov_empty_def get_approval_request_def request_of_def
    dict_get_or_def resolve_approval_def carried_out_def set_request_status_def insert_response_def insert_lease_def Let_def)

theorem broker_approves_only_witness:
  "\<exists>r b db l. broker_approve demo_env ''apr'' ''o'' ''once'' [] True [] None broker_demo broker_demo_db = (Inr r, b, db) \<and>
     gd_leases db = [l] \<and> lr_subject_id l = ''a'' \<and> lr_max_uses l = 1"
proof -
  obtain r b db where d: "broker_approve demo_env ''apr'' ''o'' ''once'' [] True [] None broker_demo broker_demo_db = (Inr r, b, db)"
    "ar_decision r = ''APPROVED''" using broker_demo_approves by blast
  obtain q l where ql: "broker_request demo_env ''Operation approval requires authenticated Approve Once'' ''apr'' broker_demo broker_demo_db = Inr q"
    "gd_leases db = gd_leases broker_demo_db @ [l]" "lr_subject_id l = aq_requested_by q" "lr_max_uses l = 1"
    using broker_approves_only [OF d] by auto
  have "aq_requested_by q = ''a''"
    using ql(1) by (auto simp: broker_request_def broker_demo_def bindE_eq_Inr split: if_splits)
  moreover have "gd_leases broker_demo_db = []" by (simp add: broker_demo_db_def gov_empty_def)
  ultimately show ?thesis using d(1) ql by (intro exI conjI) simp_all
qed

section \<open>Operations\<close>

text \<open>
  C18: Only an authenticated human other than the requesting agent issues a grant for an operation:
  with a confidence of at least 0.8, from a session that may approve for the resource or as the local
  owner. The grant is for the agent and bounded: one to a thousand uses, one if it is for once, for
  at most a day, and never for a revoked resource or operation.
\<close>

theorem grant_needs_human:
  assumes "issue_operation_grant L E U G a c kind n seconds db = (Inr g, db')"
  shows "\<exists>q row. get_operation_request L a db = Inr q \<and> cx_subject_type c = ''user'' \<and> cx_subject_id c \<noteq> gq_subject_id q \<and>
    8 / 10 \<le> cx_authn_confidence c \<and>
    (hm_session U c \<and> hm_permission U c ''governance.approve'' (gq_resource_id q) \<or> hm_is_local U c \<and> cx_subject_id c = hm_owner U) \<and>
    0 < n \<and> n \<le> 1000 \<and> 0 < seconds \<and> seconds \<le> 86400 \<and> (kind = ''ONCE'' \<longrightarrow> n = 1) \<and>
    \<not> revoked db (gq_resource_id q) \<and> \<not> revoked db a \<and>
    gd_leases db' = gd_leases db @ [row] \<and> lr_subject_id row = gq_subject_id q \<and> lr_max_uses row = n \<and> lr_remaining_uses row = n \<and>
    lr_expires_at row = ge_later E seconds"
proof -
  obtain q where q: "get_operation_request L a db = Inr q" and human: "human_valid L E U G c q"
    and act: "(if kind \<notin> set GRANT_SCOPES then Inl (ValueError (''not a valid GrantScope: '' @ kind))
     else if \<not> (0 < seconds \<and> seconds \<le> 86400) \<or> \<not> (0 < n \<and> n \<le> 1000)
     then Inl (ValueError ''Grant duration and uses must be explicitly bounded'')
     else if kind = ''ONCE'' \<and> n \<noteq> 1 then Inl (ValueError ''ONCE grants have exactly one use'')
     else if revoked db (gq_resource_id q) \<or> revoked db (authorization_id L q) then Inl (PermissionError ''Resource remains revoked'')
     else
       let g = grant_for L E q c [] kind
             (scope_default\<lparr>sk_proposal_hash := a, sk_capability_id := gq_capability_id q\<rparr>) n (ge_later E seconds)
       in bindE (insert_grant g db) (\<lambda>db. bindE (append_operation_audit L E ''grant.issued'' (op_evidence L q
            ([(''grant_id'', JStr (al_lease_id g)), (''scope'', JStr kind)] @ human_evidence c)) db) (\<lambda>db. Inr (g, db)))) = Inr (g, db')"
    using as_human_Inr [OF assms [unfolded issue_operation_grant_def]] by blast
  obtain b where bounds: "0 < seconds \<and> seconds \<le> 86400" "0 < n \<and> n \<le> 1000" "kind = ''ONCE'' \<longrightarrow> n = 1"
    and live: "\<not> revoked db (gq_resource_id q)" "\<not> revoked db (authorization_id L q)"
    and b: "insert_grant (grant_for L E q c [] kind (scope_default\<lparr>sk_proposal_hash := a, sk_capability_id := gq_capability_id q\<rparr>) n
        (ge_later E seconds)) db = Inr b" and db': "gd_leases db' = gd_leases b"
    using act unfolding Let_def by (simp split: if_split_asm) (auto simp: bindE_eq_Inr operation_audit_frame)
  obtain row where "gd_leases b = gd_leases db @ [row]" "lr_subject_id row = gq_subject_id q" "lr_max_uses row = n"
    "lr_remaining_uses row = n" "lr_expires_at row = ge_later E seconds"
    using b unfolding insert_grant_def insert_lease_def by (auto split: if_split_asm)
  with q human bounds live db' get_operation_request_id [OF q] show ?thesis
    by (intro exI [of _ q] exI [of _ row]) (auto simp: human_valid_def)
qed

theorem grant_needs_human_witness:
  "\<exists>q. get_operation_request op_lib ''gov_h'' op_registered = Inr q \<and> cx_subject_id op_demo_context \<noteq> gq_subject_id q"
  using op_demo_issue grant_needs_human by blast





section \<open>Delegations\<close>

text \<open>
  Revoking a delegation has no effect on its validation: the status is written to a column, but
  \<open>get_delegation\<close> gives back the document as it was saved, so whatever the delegation allowed
  before, it allows after.
\<close>

lemma revoked_delegation_still_validates:
  assumes "delegation_revoke E g who why db = (Inr v, db1)"
  shows "fst (validate_for_proposal L E' g p db1) = fst (validate_for_proposal L E' g p db)"
proof -
  have find: "find (\<lambda>r. gw_id r = g) (map (\<lambda>r. if gw_id r = g then r\<lparr>gw_status := st\<rparr> else r) ds) =
      map_option (\<lambda>r. r\<lparr>gw_status := st\<rparr>) (find (\<lambda>r. gw_id r = g) ds)" for st ds
    by (induction ds) auto
  have "gd_delegations db1 \<in> {gd_delegations db, map (\<lambda>r. if gw_id r = g then r\<lparr>gw_status := ''REVOKED''\<rparr> else r) (gd_delegations db)}"
    using assms unfolding delegation_revoke_def Let_def
    by (auto simp: update_delegation_status_def save_revocation_def carried_out_def bindE_def split: option.splits sum.splits if_splits)
  then have "get_delegation E' g db1 = get_delegation E' g db"
    by (auto simp: get_delegation_def find option.map_comp comp_def)
  then show ?thesis by (simp add: validate_for_proposal_def split: option.split sum.split)
qed

definition delegated_db :: gov_db where
  "delegated_db = gov_empty\<lparr>gd_delegations := [\<lparr>gw_id = ''dg'', gw_subject_id = ''a'', gw_issued_at = [], gw_status = ''ACTIVE'',
     gw_json = [(''status'', JStr ''ACTIVE''), (''used_count'', JInt 0), (''max_uses'', JInt 1), (''expires_at'', JStr ''9''),
       (''permitted_capabilities'', JList [JStr ''*''])]\<rparr>]\<rparr>"

lemma revoked_delegation_still_validates_witness:
  "fst (validate_for_proposal op_lib demo_env ''dg'' gate_proposal (snd (delegation_revoke demo_env ''dg'' ''o'' [] delegated_db))) = Inr True"
proof -
  have get: "get_delegation demo_env ''dg'' delegated_db = Some [(''status'', JStr ''ACTIVE''), (''used_count'', JInt 0), (''max_uses'', JInt 1),
      (''expires_at'', JStr ''9''), (''permitted_capabilities'', JList [JStr ''*''])]"
    by (simp add: get_delegation_def delegated_db_def)
  then obtain v db1 where r: "delegation_revoke demo_env ''dg'' ''o'' [] delegated_db = (Inr v, db1)"
    by (simp add: delegation_revoke_def Let_def)
  have "fst (validate_for_proposal op_lib demo_env ''dg'' gate_proposal delegated_db) = Inr True"
    by (simp add: validate_for_proposal_def get item_text_def get_int_def get_text_def dict_get_or_def demo_now grant_covers_def get_texts_def
      get_values_def get_or_def get_nested_def)
  with revoked_delegation_still_validates [OF r] r show ?thesis by simp
qed

end
