(* ===== verification/Context_Pages.thy ===== *)
theory Context_Pages
  imports Py_Json
begin

text \<open>
  Pages of agent context (\<open>nous_runtime/context/page_types.py\<close>): page types, storage tiers, the
  common fields and what each subclass adds to them. A page is an object that the pager and several
  address spaces hold at the same time, so pages live in a store and are named by their address.
  SHA-256 and the clock are arguments.
\<close>

section \<open>Page types\<close>

datatype page_type =
    PT_TOKEN | PT_SEMANTIC | PT_RETRIEVAL | PT_TOOL_RESULT | PT_ARTIFACT | PT_SUMMARY | PT_EVIDENCE
  | PT_KV | PT_CHECKPOINT

fun page_type_value :: "page_type \<Rightarrow> string" where
  "page_type_value PT_TOKEN = ''token''"
| "page_type_value PT_SEMANTIC = ''semantic''"
| "page_type_value PT_RETRIEVAL = ''retrieval''"
| "page_type_value PT_TOOL_RESULT = ''tool_result''"
| "page_type_value PT_ARTIFACT = ''artifact''"
| "page_type_value PT_SUMMARY = ''summary''"
| "page_type_value PT_EVIDENCE = ''evidence''"
| "page_type_value PT_KV = ''kv''"
| "page_type_value PT_CHECKPOINT = ''checkpoint''"

datatype storage_tier = ST_RAM | ST_NVME | ST_REMOTE

fun storage_tier_value :: "storage_tier \<Rightarrow> string" where
  "storage_tier_value ST_RAM = ''ram''"
| "storage_tier_value ST_NVME = ''nvme''"
| "storage_tier_value ST_REMOTE = ''remote''"

datatype consistency_level = CL_STRONG | CL_EVENTUAL | CL_STALE_READ_OK

fun consistency_level_value :: "consistency_level \<Rightarrow> string" where
  "consistency_level_value CL_STRONG = ''strong''"
| "consistency_level_value CL_EVENTUAL = ''eventual''"
| "consistency_level_value CL_STALE_READ_OK = ''stale''"

section \<open>Pages\<close>

text \<open>What the subclasses add, one record each. Bytes are a list of numbers.\<close>

record token_page =
  tk_tokens :: "int list"
  tk_model_id :: string
  tk_token_count :: int
  tk_position_start :: int

record semantic_page =
  se_embedding :: "rat list option"
  se_text_summary :: string
  se_entities :: "string list"
  se_confidence :: rat

record retrieval_page =
  rt_query :: string
  rt_results :: "jobj list"
  rt_source :: string
  rt_total_hits :: int

record tool_result_page =
  tr_tool_name :: string
  tr_input_params :: jobj
  tr_output :: json
  tr_exit_code :: int
  tr_duration_ms :: rat
  tr_effect_receipt :: "string option"

record artifact_page =
  at_artifact_type :: string
  at_content :: "nat list"
  at_mime_type :: string
  at_source_task_id :: "string option"
  at_verified :: bool

record summary_page =
  su_summary_text :: string
  su_original_page_ids :: "string list"
  su_compression_ratio :: rat
  su_method :: string

record evidence_page =
  ev_action_hash :: string
  ev_approval_id :: "string option"
  ev_effector_id :: "string option"
  ev_receipt :: "string option"
  ev_proof_data :: jobj
  ev_verified :: bool

record kv_page =
  kv_data :: jobj
  kv_schema_version :: int

record checkpoint_page =
  ck_process_id :: string
  ck_process_state :: string
  ck_program_counter :: int
  ck_capability_set :: "string list"
  ck_budget_remaining :: "(string, rat) dict"

datatype page_body =
    Plain | Token token_page | Semantic semantic_page | Retrieval retrieval_page
  | Tool_result tool_result_page | Artifact artifact_page | Summary summary_page
  | Evidence evidence_page | Key_value kv_page | Page_checkpoint checkpoint_page

record context_page =
  cp_page_id :: string
  cp_page_type :: page_type
  cp_content_hash :: string
  cp_created_at :: rat
  cp_last_accessed :: rat
  cp_access_count :: int
  cp_storage_tier :: storage_tier
  cp_size_bytes :: int
  cp_permissions :: string
  cp_owner_process_id :: "string option"
  cp_version :: int
  cp_metadata :: jobj
  cp_body :: page_body

text \<open>\<open>PAGE_TYPE_MAP\<close>: the type each subclass gives itself\<close>

fun body_type :: "page_body \<Rightarrow> page_type option" where
  "body_type Plain = None"
| "body_type (Token _) = Some PT_TOKEN"
| "body_type (Semantic _) = Some PT_SEMANTIC"
| "body_type (Retrieval _) = Some PT_RETRIEVAL"
| "body_type (Tool_result _) = Some PT_TOOL_RESULT"
| "body_type (Artifact _) = Some PT_ARTIFACT"
| "body_type (Summary _) = Some PT_SUMMARY"
| "body_type (Evidence _) = Some PT_EVIDENCE"
| "body_type (Key_value _) = Some PT_KV"
| "body_type (Page_checkpoint _) = Some PT_CHECKPOINT"

definition page_hash :: "(nat list \<Rightarrow> string) \<Rightarrow> nat list \<Rightarrow> string" where
  "page_hash sha256 content = take 16 (sha256 content)"

text \<open>\<open>__post_init__\<close> of the subclasses\<close>

definition page_post_init :: "(nat list \<Rightarrow> string) \<Rightarrow> context_page \<Rightarrow> context_page" where
  "page_post_init sha256 p =
     (let p = (case body_type (cp_body p) of None \<Rightarrow> p | Some t \<Rightarrow> p\<lparr>cp_page_type := t\<rparr>) in
      case cp_body p of
        Token t \<Rightarrow> p\<lparr>cp_body := Token (t\<lparr>tk_token_count := int (length (tk_tokens t))\<rparr>)\<rparr>
      | Artifact a \<Rightarrow>
          let p = (if cp_content_hash p = [] \<and> at_content a \<noteq> []
                   then p\<lparr>cp_content_hash := page_hash sha256 (at_content a)\<rparr> else p)
          in p\<lparr>cp_size_bytes := int (length (at_content a))\<rparr>
      | _ \<Rightarrow> p)"

definition page_touch :: "rat \<Rightarrow> context_page \<Rightarrow> context_page" where
  "page_touch now p = p\<lparr>cp_last_accessed := now, cp_access_count := cp_access_count p + 1\<rparr>"

definition page_is_stale :: "rat \<Rightarrow> rat \<Rightarrow> context_page \<Rightarrow> bool" where
  "page_is_stale now max_age p \<longleftrightarrow> now - cp_last_accessed p > max_age"

definition page_to_dict :: "context_page \<Rightarrow> jobj" where
  "page_to_dict p =
     [(''page_id'', JStr (cp_page_id p)), (''page_type'', JStr (page_type_value (cp_page_type p))),
      (''content_hash'', JStr (cp_content_hash p)), (''storage_tier'', JStr (storage_tier_value (cp_storage_tier p))),
      (''size_bytes'', JInt (cp_size_bytes p)), (''version'', JInt (cp_version p))]"

text \<open>\<open>KVPage.get\<close> and \<open>KVPage.set\<close>\<close>

definition kv_get :: "kv_page \<Rightarrow> string \<Rightarrow> json \<Rightarrow> json" where
  "kv_get k key dflt = dict_get_or (kv_data k) key dflt"

definition kv_set :: "string \<Rightarrow> json \<Rightarrow> context_page \<Rightarrow> context_page" where
  "kv_set key v p =
     (case cp_body p of
        Key_value k \<Rightarrow> p\<lparr>cp_body := Key_value (k\<lparr>kv_data := dict_set key v (kv_data k)\<rparr>), cp_version := cp_version p + 1\<rparr>
      | _ \<Rightarrow> p)"

section \<open>The store of pages\<close>

type_synonym pages = "context_page list"

definition page_update :: "nat \<Rightarrow> (context_page \<Rightarrow> context_page) \<Rightarrow> pages \<Rightarrow> pages" where
  "page_update a f ps = (if a < length ps then ps[a := f (ps ! a)] else ps)"

definition page_size :: "pages \<Rightarrow> nat \<Rightarrow> int" where
  "page_size ps a = (if a < length ps then cp_size_bytes (ps ! a) else 0)"

lemma length_page_update [simp]: "length (page_update a f ps) = length ps"
  by (simp add: page_update_def)

lemma page_update_nth: "a < length ps \<Longrightarrow> page_update a f ps ! b = (if b = a then f (ps ! a) else ps ! b)"
  by (simp add: page_update_def nth_list_update)

lemma page_update_other [simp]: "b \<noteq> a \<Longrightarrow> page_update a f ps ! b = ps ! b"
  by (simp add: page_update_def)

lemma page_size_touch [simp]: "page_size (page_update a (page_touch now) ps) b = page_size ps b"
  by (simp add: page_size_def page_update_def page_touch_def nth_list_update)

lemma page_size_tier [simp]: "page_size (page_update a (\<lambda>p. p\<lparr>cp_storage_tier := t\<rparr>) ps) b = page_size ps b"
  by (simp add: page_size_def page_update_def nth_list_update)

lemma page_size_promoted [simp]:
  "page_size (page_update a (\<lambda>p. page_touch now (p\<lparr>cp_storage_tier := t\<rparr>)) ps) b = page_size ps b"
  by (simp add: page_size_def page_update_def page_touch_def nth_list_update)

lemma kv_get_set: "cp_body p = Key_value k \<Longrightarrow> cp_body (kv_set key v p) = Key_value k' \<Longrightarrow>
  kv_get k' key' d = (if key' = key then v else kv_get k key' d) \<and> cp_version (kv_set key v p) = cp_version p + 1"
  by (auto simp: kv_set_def kv_get_def dict_get_or_def)

end
