(* ===== verification/Context_Pager.thy ===== *)
theory Context_Pager
  imports Context_Pages
begin

text \<open>
  The pager (\<open>nous_runtime/context/pager.py\<close>) over the store of pages: page faults, eviction, the
  two tiers and their counters; and the address spaces over it (\<open>nous_runtime/context/vm.py\<close>). The
  clock is an argument: \<open>clk n\<close> is the \<open>n\<close>-th reading of an operation. A recomputer is a function of
  the store of pages; \<open>None\<close> says that it raised. Logging and locks are left out.
\<close>

section \<open>State\<close>

datatype fault_resolution =
    FR_RESIDENT | FR_PROMOTED | FR_LOADED_REMOTE | FR_RECOMPUTED | FR_SEMANTIC_FALLBACK | FR_APPROXIMATE
  | FR_UNRESOLVABLE

fun fault_resolution_value :: "fault_resolution \<Rightarrow> string" where
  "fault_resolution_value FR_RESIDENT = ''resident''"
| "fault_resolution_value FR_PROMOTED = ''promoted''"
| "fault_resolution_value FR_LOADED_REMOTE = ''loaded_remote''"
| "fault_resolution_value FR_RECOMPUTED = ''recomputed''"
| "fault_resolution_value FR_SEMANTIC_FALLBACK = ''semantic_fallback''"
| "fault_resolution_value FR_APPROXIMATE = ''approximate''"
| "fault_resolution_value FR_UNRESOLVABLE = ''unresolvable''"

record page_fault_result =
  pf_page_id :: string
  pf_resolution :: fault_resolution
  pf_page :: "nat option"
  pf_latency_ms :: rat
  pf_error :: "string option"

record pager_stats =
  ps_faults_total :: int
  ps_faults_resident :: int
  ps_faults_promoted :: int
  ps_faults_remote :: int
  ps_faults_recomputed :: int
  ps_faults_fallback :: int
  ps_faults_unresolvable :: int
  ps_evictions_total :: int
  ps_ram_pages :: int
  ps_nvme_pages :: int
  ps_ram_bytes :: int
  ps_nvme_bytes :: int

definition no_stats :: pager_stats where
  "no_stats = \<lparr>ps_faults_total = 0, ps_faults_resident = 0, ps_faults_promoted = 0, ps_faults_remote = 0,
     ps_faults_recomputed = 0, ps_faults_fallback = 0, ps_faults_unresolvable = 0, ps_evictions_total = 0,
     ps_ram_pages = 0, ps_nvme_pages = 0, ps_ram_bytes = 0, ps_nvme_bytes = 0\<rparr>"

type_synonym recomputer = "pages \<Rightarrow> (nat option \<times> pages) option"

record pager =
  pg_ram_limit_bytes :: int
  pg_nvme_limit_bytes :: int
  pg_ram :: "(string, nat) dict"
  pg_ram_bytes :: int
  pg_nvme :: "(string, nat) dict"
  pg_nvme_bytes :: int
  pg_recomputers :: "(string, recomputer) dict"
  pg_fallbacks :: "(page_type, recomputer) dict"
  pg_stats :: pager_stats

type_synonym paging = "pages \<times> pager"

definition new_pager :: "int \<Rightarrow> int \<Rightarrow> pager" where
  "new_pager ram_limit_mb nvme_limit_mb =
     \<lparr>pg_ram_limit_bytes = ram_limit_mb * 1024 * 1024, pg_nvme_limit_bytes = nvme_limit_mb * 1024 * 1024,
      pg_ram = [], pg_ram_bytes = 0, pg_nvme = [], pg_nvme_bytes = 0, pg_recomputers = [], pg_fallbacks = [],
      pg_stats = no_stats\<rparr>"

definition EVICTION_WATERMARK :: rat where
  "EVICTION_WATERMARK = 85 / 100"

text \<open>The two pairs of counters move together.\<close>

definition count_ram :: "int \<Rightarrow> int \<Rightarrow> pager \<Rightarrow> pager" where
  "count_ram n bytes pg = pg\<lparr>pg_ram_bytes := pg_ram_bytes pg + bytes, pg_stats := (pg_stats pg)
     \<lparr>ps_ram_pages := ps_ram_pages (pg_stats pg) + n, ps_ram_bytes := ps_ram_bytes (pg_stats pg) + bytes\<rparr>\<rparr>"

definition count_nvme :: "int \<Rightarrow> int \<Rightarrow> pager \<Rightarrow> pager" where
  "count_nvme n bytes pg = pg\<lparr>pg_nvme_bytes := pg_nvme_bytes pg + bytes, pg_stats := (pg_stats pg)
     \<lparr>ps_nvme_pages := ps_nvme_pages (pg_stats pg) + n, ps_nvme_bytes := ps_nvme_bytes (pg_stats pg) + bytes\<rparr>\<rparr>"

section \<open>Eviction\<close>

text \<open>\<open>_evict_from_nvme\<close>: the loop over the pages in the order of their last access\<close>

fun discard :: "pages \<Rightarrow> int \<Rightarrow> int \<Rightarrow> (string \<times> nat) list \<Rightarrow> pager \<Rightarrow> pager" where
  "discard ps needed freed [] pg = pg"
| "discard ps needed freed ((i, a) # rest) pg =
     (if freed \<ge> needed then pg
      else discard ps needed (freed + page_size ps a) rest
        (count_nvme (-1) (- page_size ps a) (pg\<lparr>pg_nvme := dict_del i (pg_nvme pg)\<rparr>)))"

definition evict_from_nvme :: "int \<Rightarrow> pages \<Rightarrow> pager \<Rightarrow> pager" where
  "evict_from_nvme needed ps pg = discard ps needed 0 (sort_key (\<lambda>(i, a). cp_last_accessed (ps ! a)) (pg_nvme pg)) pg"

definition evict_page :: "string \<Rightarrow> paging \<Rightarrow> bool \<times> paging" where
  "evict_page i = (\<lambda>(ps, pg).
     case dict_get (pg_ram pg) i of
       None \<Rightarrow> (False, (ps, pg))
     | Some a \<Rightarrow>
         let sz = page_size ps a;
             pg = count_ram (-1) (- sz) (pg\<lparr>pg_ram := dict_del i (pg_ram pg)\<rparr>);
             (ps, pg) = (if pg_nvme_bytes pg + sz \<le> pg_nvme_limit_bytes pg
               then (page_update a (\<lambda>p. p\<lparr>cp_storage_tier := ST_NVME\<rparr>) ps,
                     count_nvme 1 sz (pg\<lparr>pg_nvme := dict_set i a (pg_nvme pg)\<rparr>))
               else (ps, evict_from_nvme sz ps pg))
         in (True, (ps, pg\<lparr>pg_stats := (pg_stats pg)\<lparr>ps_evictions_total := ps_evictions_total (pg_stats pg) + 1\<rparr>\<rparr>)))"

section \<open>Promotion\<close>

definition over :: "int \<Rightarrow> pager \<Rightarrow> bool" where
  "over sz pg \<longleftrightarrow> of_int (pg_ram_bytes pg + sz) > of_int (pg_ram_limit_bytes pg) * EVICTION_WATERMARK"

lemma discard_ram [simp]: "pg_ram (discard ps n f xs pg) = pg_ram pg" "pg_ram_limit_bytes (discard ps n f xs pg) = pg_ram_limit_bytes pg"
  "pg_nvme_limit_bytes (discard ps n f xs pg) = pg_nvme_limit_bytes pg" "pg_ram_bytes (discard ps n f xs pg) = pg_ram_bytes pg"
  "pg_recomputers (discard ps n f xs pg) = pg_recomputers pg"
  by (induction ps n f xs pg rule: discard.induct) (simp_all add: count_nvme_def)

lemma evict_page_ram: "pg_ram (snd (snd (evict_page i (ps, pg)))) = dict_del i (pg_ram pg)"
proof (cases "dict_get (pg_ram pg) i")
  case None
  then have "\<forall>p \<in> set (pg_ram pg). fst p \<noteq> i" by (force simp: dict_get_None_iff)
  then show ?thesis
    using None by (auto simp: evict_page_def dict_del_def AList.delete_eq intro!: filter_True [symmetric])
qed (simp add: evict_page_def Let_def count_ram_def count_nvme_def evict_from_nvme_def)

lemma length_dict_del_le: "length (dict_del k d) \<le> length d"
  by (simp add: dict_del_def AList.delete_eq)

text \<open>
  The loop that makes room takes the oldest page out of the cache first and then asks for its
  eviction, which finds no such page any more.
\<close>

function make_room :: "int \<Rightarrow> paging \<Rightarrow> paging" where
  "make_room sz (ps, pg) =
     (if over sz pg
      then (case pg_ram pg of
              [] \<Rightarrow> (ps, pg)
            | (oldest, a) # rest \<Rightarrow> make_room sz (snd (evict_page oldest (ps, pg\<lparr>pg_ram := rest\<rparr>))))
      else (ps, pg))"
  by pat_completeness auto
termination
  by (relation "measure (\<lambda>(_, _, pg). length (pg_ram pg))")
    (auto simp: evict_page_ram split_def less_Suc_eq_le length_dict_del_le)

declare make_room.simps [simp del]

definition promote :: "rat \<Rightarrow> nat \<Rightarrow> paging \<Rightarrow> paging" where
  "promote now a w =
     (let (ps, pg) = make_room (page_size (fst w) a) w;
          ps = page_update a (\<lambda>p. page_touch now (p\<lparr>cp_storage_tier := ST_RAM\<rparr>)) ps
      in (ps, count_ram 1 (page_size ps a) (pg\<lparr>pg_ram := dict_set (cp_page_id (ps ! a)) a (pg_ram pg)\<rparr>)))"

definition add_page :: "rat \<Rightarrow> nat \<Rightarrow> paging \<Rightarrow> paging" where
  "add_page now a w = promote now a w"

section \<open>Page faults\<close>

definition bump :: "(pager_stats \<Rightarrow> pager_stats) \<Rightarrow> paging \<Rightarrow> paging" where
  "bump f = (\<lambda>(ps, pg). (ps, pg\<lparr>pg_stats := f (pg_stats pg)\<rparr>))"

definition covers :: "pages \<Rightarrow> string \<Rightarrow> string \<times> nat \<Rightarrow> bool" where
  "covers ps i = (\<lambda>(_, a). case cp_body (ps ! a) of Summary s \<Rightarrow> i \<in> set (su_original_page_ids s) | _ \<Rightarrow> False)"

text \<open>Steps 4 and 5, when no recomputer has produced the page\<close>

definition fall_back :: "(nat \<Rightarrow> rat) \<Rightarrow> string \<Rightarrow> paging \<Rightarrow> page_fault_result \<times> paging" where
  "fall_back clk i = (\<lambda>(ps, pg).
     case find (covers ps i) (pg_ram pg) of
       Some (_, a) \<Rightarrow>
         (\<lparr>pf_page_id = i, pf_resolution = FR_SEMANTIC_FALLBACK, pf_page = Some a, pf_latency_ms = (clk 2 - clk 0) * 1000, pf_error = None\<rparr>,
          bump (\<lambda>s. s\<lparr>ps_faults_fallback := ps_faults_fallback s + 1\<rparr>) (page_update a (page_touch (clk 1)) ps, pg))
     | None \<Rightarrow>
         (\<lparr>pf_page_id = i, pf_resolution = FR_UNRESOLVABLE, pf_page = None, pf_latency_ms = (clk 1 - clk 0) * 1000,
           pf_error = Some (''Page '' @ i @ '' not found in any tier and cannot be recomputed'')\<rparr>,
          bump (\<lambda>s. s\<lparr>ps_faults_unresolvable := ps_faults_unresolvable s + 1\<rparr>) (ps, pg)))"

definition handle_fault :: "(nat \<Rightarrow> rat) \<Rightarrow> string \<Rightarrow> string \<Rightarrow> paging \<Rightarrow> page_fault_result \<times> paging" where
  "handle_fault clk i requestor w =
     (let (ps, pg) = bump (\<lambda>s. s\<lparr>ps_faults_total := ps_faults_total s + 1\<rparr>) w in
      case dict_get (pg_ram pg) i of
        Some a \<Rightarrow>
          (\<lparr>pf_page_id = i, pf_resolution = FR_RESIDENT, pf_page = Some a, pf_latency_ms = (clk 2 - clk 0) * 1000, pf_error = None\<rparr>,
           bump (\<lambda>s. s\<lparr>ps_faults_resident := ps_faults_resident s + 1\<rparr>)
             (page_update a (page_touch (clk 1)) ps, pg\<lparr>pg_ram := dict_del i (pg_ram pg) @ [(i, a)]\<rparr>))
      | None \<Rightarrow>
          (case dict_get (pg_nvme pg) i of
             Some a \<Rightarrow>
               (\<lparr>pf_page_id = i, pf_resolution = FR_PROMOTED, pf_page = Some a, pf_latency_ms = (clk 2 - clk 0) * 1000, pf_error = None\<rparr>,
                bump (\<lambda>s. s\<lparr>ps_faults_promoted := ps_faults_promoted s + 1\<rparr>)
                  (promote (clk 1) a (ps, count_nvme (-1) (- page_size ps a) (pg\<lparr>pg_nvme := dict_del i (pg_nvme pg)\<rparr>))))
           | None \<Rightarrow>
               (case dict_get (pg_recomputers pg) i of
                  None \<Rightarrow> fall_back clk i (ps, pg)
                | Some f \<Rightarrow>
                    (case f ps of
                       None \<Rightarrow> fall_back clk i (ps, pg)
                     | Some (None, ps) \<Rightarrow> fall_back clk i (ps, pg)
                     | Some (Some a, ps) \<Rightarrow>
                         (\<lparr>pf_page_id = i, pf_resolution = FR_RECOMPUTED, pf_page = Some a, pf_latency_ms = (clk 2 - clk 0) * 1000,
                           pf_error = None\<rparr>,
                          bump (\<lambda>s. s\<lparr>ps_faults_recomputed := ps_faults_recomputed s + 1\<rparr>) (promote (clk 1) a (ps, pg)))))))"

text \<open>\<open>prefetch_pages\<close>; the clock is one for each fault\<close>

fun prefetch_pages :: "(nat \<Rightarrow> nat \<Rightarrow> rat) \<Rightarrow> string list \<Rightarrow> paging \<Rightarrow> int \<times> paging" where
  "prefetch_pages clks [] w = (0, w)"
| "prefetch_pages clks (i # ids) w =
     (let (r, w) = handle_fault (clks 0) i [] w; (n, w) = prefetch_pages (\<lambda>k. clks (Suc k)) ids w
      in (if pf_resolution r \<noteq> FR_UNRESOLVABLE then n + 1 else n, w))"

definition register_recomputer :: "string \<Rightarrow> recomputer \<Rightarrow> pager \<Rightarrow> pager" where
  "register_recomputer i f pg = pg\<lparr>pg_recomputers := dict_set i f (pg_recomputers pg)\<rparr>"

definition register_fallback :: "page_type \<Rightarrow> recomputer \<Rightarrow> pager \<Rightarrow> pager" where
  "register_fallback t f pg = pg\<lparr>pg_fallbacks := dict_set t f (pg_fallbacks pg)\<rparr>"

definition memory_pressure :: "pager \<Rightarrow> rat" where
  "memory_pressure pg = (if pg_ram_limit_bytes pg \<noteq> 0 then of_int (pg_ram_bytes pg) / of_int (pg_ram_limit_bytes pg) else 0)"

definition should_evict :: "pager \<Rightarrow> bool" where
  "should_evict pg \<longleftrightarrow> memory_pressure pg > EVICTION_WATERMARK"

end
