(* ===== verification/Context_Vm.thy ===== *)
theory Context_Vm
  imports Context_Pager
begin

text \<open>
  Address spaces (\<open>nous_runtime/context/vm.py\<close>). A space maps page ids to pages; all spaces of a
  manager share one pager. A page is the object of its address: what a space writes into it (owner,
  permissions) every holder sees.
\<close>

section \<open>An address space\<close>

record address_space =
  as_process_id :: string
  as_pages :: "(string, nat) dict"

definition allocate_page :: "rat \<Rightarrow> nat \<Rightarrow> address_space \<Rightarrow> paging \<Rightarrow> string \<times> address_space \<times> paging" where
  "allocate_page now a sp w =
     (let (ps, pg) = w;
          ps = page_update a (\<lambda>p. p\<lparr>cp_owner_process_id := Some (as_process_id sp)\<rparr>) ps;
          (ps, pg) = add_page now a (ps, pg);
          i = cp_page_id (ps ! a)
      in (i, sp\<lparr>as_pages := dict_set i a (as_pages sp)\<rparr>, (ps, pg)))"

definition access_page :: "(nat \<Rightarrow> rat) \<Rightarrow> string \<Rightarrow> address_space \<Rightarrow> paging \<Rightarrow> nat option \<times> address_space \<times> paging" where
  "access_page clk i sp w =
     (let (r, w) = handle_fault clk i (as_process_id sp) w in
      case pf_page r of
        Some a \<Rightarrow> (Some a, sp\<lparr>as_pages := dict_set i a (as_pages sp)\<rparr>, w)
      | None \<Rightarrow> (None, sp, w))"

definition space_prefetch :: "(nat \<Rightarrow> nat \<Rightarrow> rat) \<Rightarrow> string list \<Rightarrow> paging \<Rightarrow> int \<times> paging" where
  "space_prefetch = prefetch_pages"

definition space_evict_page :: "string \<Rightarrow> address_space \<Rightarrow> paging \<Rightarrow> bool \<times> address_space \<times> paging" where
  "space_evict_page i sp w =
     (let (b, w) = evict_page i w in (b, sp\<lparr>as_pages := dict_del i (as_pages sp)\<rparr>, w))"

text \<open>\<open>share_page\<close> with another space; the clock of the fault and that of the allocation\<close>

definition share_page ::
  "(nat \<Rightarrow> rat) \<Rightarrow> rat \<Rightarrow> string \<Rightarrow> string \<Rightarrow> address_space \<Rightarrow> address_space \<Rightarrow> paging \<Rightarrow>
   bool \<times> address_space \<times> address_space \<times> paging" where
  "share_page clk now i permission sp target w =
     (case access_page clk i sp w of
        (None, sp, w) \<Rightarrow> (False, sp, target, w)
      | (Some a, sp, (ps, pg)) \<Rightarrow>
          let ps = page_update a (\<lambda>p. p\<lparr>cp_permissions := permission\<rparr>) ps;
              (_, target, w) = allocate_page now a target (ps, pg)
          in (True, sp, target, w))"

text \<open>
  \<open>create_page\<close>: a new object, initialised by the constructor of its class. \<open>PAGE_TYPE_MAP\<close> has every
  type, so the class of a page of type \<open>t\<close> is the one whose \<open>body_type\<close> is \<open>t\<close>.
\<close>

definition create_page ::
  "(nat list \<Rightarrow> string) \<Rightarrow> rat \<Rightarrow> context_page \<Rightarrow> address_space \<Rightarrow> paging \<Rightarrow> nat \<times> address_space \<times> paging" where
  "create_page sha256 now p sp w =
     (let (ps, pg) = w; a = length ps;
          (_, sp, w) = allocate_page now a sp (ps @ [page_post_init sha256 p], pg)
      in (a, sp, w))"

definition page_count :: "address_space \<Rightarrow> int" where
  "page_count sp = int (length (as_pages sp))"

definition ram_usage_bytes :: "pager \<Rightarrow> int" where
  "ram_usage_bytes pg = ps_ram_bytes (pg_stats pg)"

section \<open>The manager\<close>

record vm_manager =
  vm_global_ram_limit :: int
  vm_spaces :: "(string, address_space) dict"
  vm_paging :: paging

definition new_vm :: "int \<Rightarrow> pages \<Rightarrow> vm_manager" where
  "new_vm global_ram_limit_mb ps =
     \<lparr>vm_global_ram_limit = global_ram_limit_mb * 1024 * 1024, vm_spaces = [],
      vm_paging = (ps, new_pager global_ram_limit_mb 4096)\<rparr>"

definition create_space :: "string \<Rightarrow> vm_manager \<Rightarrow> (pyexn + address_space) \<times> vm_manager" where
  "create_space process m =
     (if dict_get (vm_spaces m) process \<noteq> None
      then (Inl (ValueError (''Address space already exists for process '' @ process)), m)
      else let sp = \<lparr>as_process_id = process, as_pages = []\<rparr>
        in (Inr sp, m\<lparr>vm_spaces := dict_set process sp (vm_spaces m)\<rparr>))"

definition get_space :: "string \<Rightarrow> vm_manager \<Rightarrow> address_space option" where
  "get_space process m = dict_get (vm_spaces m) process"

fun evict_all :: "string list \<Rightarrow> address_space \<Rightarrow> paging \<Rightarrow> address_space \<times> paging" where
  "evict_all [] sp w = (sp, w)"
| "evict_all (i # ids) sp w = (let (_, sp, w) = space_evict_page i sp w in evict_all ids sp w)"

definition destroy_space :: "string \<Rightarrow> vm_manager \<Rightarrow> vm_manager" where
  "destroy_space process m =
     (case dict_get (vm_spaces m) process of
        None \<Rightarrow> m
      | Some sp \<Rightarrow> m\<lparr>vm_spaces := dict_del process (vm_spaces m),
                     vm_paging := snd (evict_all (map fst (as_pages sp)) sp (vm_paging m))\<rparr>)"

text \<open>An operation of a space under a manager\<close>

definition in_space ::
  "string \<Rightarrow> (address_space \<Rightarrow> paging \<Rightarrow> 'a \<times> address_space \<times> paging) \<Rightarrow> vm_manager \<Rightarrow> 'a option \<times> vm_manager" where
  "in_space process f m =
     (case dict_get (vm_spaces m) process of
        None \<Rightarrow> (None, m)
      | Some sp \<Rightarrow> let (x, sp, w) = f sp (vm_paging m)
          in (Some x, m\<lparr>vm_spaces := dict_set process sp (vm_spaces m), vm_paging := w\<rparr>))"

text \<open>
  \<open>share_between\<close>: the loop over the page ids. When source and target are one process they are one
  object, so the second update goes on top of the first.
\<close>

definition share_step :: "(nat \<Rightarrow> rat) \<Rightarrow> rat \<Rightarrow> string \<Rightarrow> string \<Rightarrow> string \<Rightarrow> string \<Rightarrow> vm_manager \<Rightarrow> bool \<times> vm_manager" where
  "share_step clk now permission source target i m =
     (case in_space source (access_page clk i) m of
        (Some (Some a), m) \<Rightarrow>
          let (ps, pg) = vm_paging m;
              ps = page_update a (\<lambda>p. p\<lparr>cp_permissions := permission\<rparr>) ps;
              (_, m) = in_space target (allocate_page now a) (m\<lparr>vm_paging := (ps, pg)\<rparr>)
          in (True, m)
      | (_, m) \<Rightarrow> (False, m))"

fun share_pages :: "(nat \<Rightarrow> nat \<Rightarrow> rat) \<Rightarrow> string \<Rightarrow> string \<Rightarrow> string \<Rightarrow> string list \<Rightarrow> vm_manager \<Rightarrow> int \<times> vm_manager" where
  "share_pages clks permission source target [] m = (0, m)"
| "share_pages clks permission source target (i # ids) m =
     (let (b, m) = share_step (clks 0) (clks 0 3) permission source target i m;
          (n, m) = share_pages (\<lambda>k. clks (Suc k)) permission source target ids m
      in (if b then n + 1 else n, m))"

definition share_between ::
  "(nat \<Rightarrow> nat \<Rightarrow> rat) \<Rightarrow> string \<Rightarrow> string \<Rightarrow> string list \<Rightarrow> string \<Rightarrow> vm_manager \<Rightarrow> int \<times> vm_manager" where
  "share_between clks source target ids permission m =
     (if dict_get (vm_spaces m) source = None \<or> dict_get (vm_spaces m) target = None then (0, m)
      else share_pages clks permission source target ids m)"

definition total_ram_usage :: "vm_manager \<Rightarrow> int" where
  "total_ram_usage m = ram_usage_bytes (snd (vm_paging m))"

definition global_memory_pressure :: "vm_manager \<Rightarrow> rat" where
  "global_memory_pressure m = memory_pressure (snd (vm_paging m))"

definition active_spaces :: "vm_manager \<Rightarrow> int" where
  "active_spaces m = int (length (vm_spaces m))"

section \<open>Isolation\<close>

text \<open>Whose space an access comes from makes no difference to the page it finds.\<close>

lemma handle_fault_requestor: "handle_fault clk i p w = handle_fault clk i q w"
  by (simp add: handle_fault_def)

lemma access_page_any: "fst (access_page clk i sp w) = pf_page (fst (handle_fault clk i [] w))"
  by (simp add: access_page_def handle_fault_requestor [of clk i "as_process_id sp" w "[]"] split: prod.split option.split)

lemma in_space_access: "fst (in_space q (access_page clk i) m) =
  map_option (\<lambda>_. pf_page (fst (handle_fault clk i [] (vm_paging m)))) (dict_get (vm_spaces m) q)"
  by (simp add: in_space_def access_page_any [symmetric] split: option.split prod.split) (metis fst_conv access_page_any)

end
