(* ===== verification/Context_Safety.thy ===== *)
theory Context_Safety
  imports Context_Vm
begin

text \<open>
  What the pager does under memory pressure, what an evicted page comes back as, and what sharing a
  page does to its owner and to the books.
\<close>

section \<open>Making room\<close>

lemma evict_absent: "dict_get (pg_ram pg) i = None \<Longrightarrow> evict_page i (ps, pg) = (False, (ps, pg))"
  by (simp add: evict_page_def)

lemma make_room_fits: "\<not> over n pg \<Longrightarrow> make_room n (ps, pg) = (ps, pg)"
  by (simp add: make_room.simps)

lemma over_ram [simp]: "over n (pg\<lparr>pg_ram := r\<rparr>) = over n pg"
  by (simp add: over_def)

lemma make_room_empties: "wf_dict (pg_ram pg) \<Longrightarrow> over n pg \<Longrightarrow> make_room n (ps, pg) = (ps, pg\<lparr>pg_ram := []\<rparr>)"
proof (induction "pg_ram pg" arbitrary: pg)
  case Nil
  then show ?case by (simp add: make_room.simps [of n ps pg] flip: Nil(1))
next
  case (Cons p rest)
  obtain oldest a where p: "p = (oldest, a)" by fastforce
  let ?pg = "pg\<lparr>pg_ram := rest\<rparr>"
  have wf: "wf_dict (p # rest)" using Cons(3) Cons(2) by simp
  then have "dict_get (pg_ram ?pg) oldest = None" by (auto simp: dict_get_None_iff p)
  then have "evict_page oldest (ps, ?pg) = (False, (ps, ?pg))" by (rule evict_absent)
  moreover have "make_room n (ps, ?pg) = (ps, ?pg\<lparr>pg_ram := []\<rparr>)" using Cons(1) [of ?pg] wf Cons(4) by simp
  ultimately show ?case using Cons(2,4) by (simp add: make_room.simps [of n ps pg] p flip: Cons(2))
qed

lemma over_mono: "over n pg \<Longrightarrow> pg_ram_bytes pg + n \<le> pg_ram_bytes pg' + n' \<Longrightarrow>
  pg_ram_limit_bytes pg' = pg_ram_limit_bytes pg \<Longrightarrow> over n' pg'"
  unfolding over_def by (metis of_int_le_iff less_le_trans)

lemma page_id_touch [simp]: "cp_page_id (page_update a (\<lambda>p. page_touch now (p\<lparr>cp_storage_tier := t\<rparr>)) ps ! b) = cp_page_id (ps ! b)"
  by (simp add: page_update_def page_touch_def nth_list_update)

lemma promote_fits:
  assumes "\<not> over (page_size ps a) pg"
  shows "promote now a (ps, pg) =
    (page_update a (\<lambda>p. page_touch now (p\<lparr>cp_storage_tier := ST_RAM\<rparr>)) ps,
     count_ram 1 (page_size ps a) (pg\<lparr>pg_ram := dict_set (cp_page_id (ps ! a)) a (pg_ram pg)\<rparr>))"
  by (simp add: promote_def make_room_fits [OF assms] Let_def)

lemma promote_over:
  assumes "wf_dict (pg_ram pg)" "over (page_size ps a) pg"
  shows "promote now a (ps, pg) =
    (page_update a (\<lambda>p. page_touch now (p\<lparr>cp_storage_tier := ST_RAM\<rparr>)) ps,
     count_ram 1 (page_size ps a) (pg\<lparr>pg_ram := [(cp_page_id (ps ! a), a)]\<rparr>))"
  by (simp add: promote_def make_room_empties [OF assms] Let_def dict_set_def)

section \<open>Pressure\<close>

text \<open>Pages added one after the other, each with its own reading of the clock\<close>

definition add_pages :: "(rat \<times> nat) list \<Rightarrow> paging \<Rightarrow> paging" where
  "add_pages = fold (\<lambda>(now, a). add_page now a)"

text \<open>
  C26: The first page that would take the cache over its watermark drops every other page from
  memory, and none of them moves to the second tier: they are lost. The count of bytes is not lowered,
  so as long as pages are only added, every further page does the same, and the cache holds one
  page at a time.
\<close>

theorem overflow_loses_every_page:
  assumes "wf_dict (pg_ram pg)" "over (page_size ps (snd (hd xs))) pg" "xs \<noteq> []" "\<forall>a. 0 \<le> page_size ps a"
  shows "let (ps', pg') = add_pages xs (ps, pg) in
    pg_ram pg' = [(cp_page_id (ps ! snd (last xs)), snd (last xs))] \<and> pg_nvme pg' = pg_nvme pg \<and>
    pg_ram_bytes pg' = pg_ram_bytes pg + (\<Sum>(_, a) \<leftarrow> xs. page_size ps a)"
  using assms
proof (induction xs arbitrary: ps pg)
  case (Cons x xs)
  obtain now a where x: "x = (now, a)" by fastforce
  define ps1 where "ps1 = page_update a (\<lambda>p. page_touch now (p\<lparr>cp_storage_tier := ST_RAM\<rparr>)) ps"
  define pg1 where "pg1 = count_ram 1 (page_size ps a) (pg\<lparr>pg_ram := [(cp_page_id (ps ! a), a)]\<rparr>)"
  have step: "add_page now a (ps, pg) = (ps1, pg1)"
    using Cons.prems(1,2) by (simp add: add_page_def promote_over x ps1_def pg1_def)
  have pg1: "pg_ram pg1 = [(cp_page_id (ps ! a), a)]" "pg_nvme pg1 = pg_nvme pg"
      "pg_ram_bytes pg1 = pg_ram_bytes pg + page_size ps a" "pg_ram_limit_bytes pg1 = pg_ram_limit_bytes pg"
    by (simp_all add: pg1_def count_ram_def)
  have ps1: "page_size ps1 = page_size ps" "\<And>b. cp_page_id (ps1 ! b) = cp_page_id (ps ! b)"
    by (auto simp: ps1_def)
  show ?case
  proof (cases "xs = []")
    case True
    then show ?thesis by (simp add: add_pages_def step x pg1)
  next
    case False
    have "over (page_size ps1 (snd (hd xs))) pg1"
      using Cons.prems(2,4) by (intro over_mono [OF _ _ pg1(4)]) (auto simp: x ps1 pg1)
    from Cons.IH [OF _ this False] Cons.prems(4) show ?thesis
      using False by (simp add: add_pages_def step x pg1 ps1 Let_def case_prod_beta)
  qed
qed simp

definition demo_page :: "string \<Rightarrow> int \<Rightarrow> context_page" where
  "demo_page i n = \<lparr>cp_page_id = i, cp_page_type = PT_KV, cp_content_hash = [], cp_created_at = 0, cp_last_accessed = 0,
     cp_access_count = 0, cp_storage_tier = ST_RAM, cp_size_bytes = n, cp_permissions = ''rw'', cp_owner_process_id = None,
     cp_version = 1, cp_metadata = [], cp_body = Plain\<rparr>"

definition demo_pages :: pages where
  "demo_pages = [demo_page ''a'' 500000, demo_page ''b'' 300000, demo_page ''c'' 200000, demo_page ''d'' 1]"

definition demo_pager :: pager where
  "demo_pager = snd (add_pages [(1, 0), (2, 1)] (demo_pages, new_pager 1 1))"

lemma demo_pager_eval:
  "pg_ram demo_pager = [(''a'', 0), (''b'', 1)]" "pg_ram_bytes demo_pager = 800000" "pg_nvme demo_pager = []"
  "pg_ram_limit_bytes demo_pager = 1048576" "pg_nvme_limit_bytes demo_pager = 1048576" "pg_nvme_bytes demo_pager = 0"
  by (simp_all add: demo_pager_def add_pages_def add_page_def promote_def Let_def make_room.simps over_def page_size_def
    demo_pages_def demo_page_def new_pager_def EVICTION_WATERMARK_def page_update_def page_touch_def count_ram_def dict_set_def)

theorem overflow_loses_every_page_witness:
  "pg_ram (snd (add_pages [(3, 2), (4, 3)] (demo_pages, demo_pager))) = [(''d'', 3)] \<and>
   pg_ram_bytes (snd (add_pages [(3, 2), (4, 3)] (demo_pages, demo_pager))) = 1000001"
proof -
  have s: "\<forall>a. 0 \<le> page_size demo_pages a"
    by (auto simp: page_size_def demo_pages_def demo_page_def nth_Cons' split: if_splits)
  have "over (page_size demo_pages (snd (hd [(3 :: rat, 2), (4, 3)]))) demo_pager"
    by (simp add: over_def demo_pager_eval page_size_def demo_pages_def demo_page_def EVICTION_WATERMARK_def)
  from overflow_loses_every_page [OF _ this _ s] show ?thesis
    by (simp add: demo_pager_eval Let_def case_prod_beta page_size_def demo_pages_def demo_page_def)
qed

section \<open>Eviction and its way back\<close>

text \<open>
  A resident page that is evicted while both tiers have room is promoted again by the next fault
  on it: the same object, in memory, touched once, most recently used, with every count of bytes and
  the second tier as before.
\<close>

lemma evicted_page_comes_back:
  assumes "dict_get (pg_ram pg) i = Some a" "a < length ps" "cp_page_id (ps ! a) = i" "wf_dict (pg_ram pg)"
    and "dict_get (pg_nvme pg) i = None" "pg_nvme_bytes pg + page_size ps a \<le> pg_nvme_limit_bytes pg" "\<not> over 0 pg"
  shows "let (gone, w) = evict_page i (ps, pg); (r, ps', pg') = handle_fault clk i process w in
    gone \<and> pf_resolution r = FR_PROMOTED \<and> pf_page r = Some a \<and>
    ps' = page_update a (\<lambda>p. page_touch (clk 1) (p\<lparr>cp_storage_tier := ST_RAM\<rparr>)) ps \<and>
    pg_ram pg' = dict_del i (pg_ram pg) @ [(i, a)] \<and> pg_nvme pg' = pg_nvme pg \<and>
    pg_ram_bytes pg' = pg_ram_bytes pg \<and> pg_nvme_bytes pg' = pg_nvme_bytes pg"
proof -
  define n where "n = page_size ps a"
  define ps1 where "ps1 = page_update a (\<lambda>p. p\<lparr>cp_storage_tier := ST_NVME\<rparr>) ps"
  obtain pg1 where e: "evict_page i (ps, pg) = (True, (ps1, pg1))"
    and pg1: "pg_ram pg1 = dict_del i (pg_ram pg)" "pg_nvme pg1 = dict_set i a (pg_nvme pg)" "pg_ram_bytes pg1 = pg_ram_bytes pg - n"
      "pg_nvme_bytes pg1 = pg_nvme_bytes pg + n" "pg_ram_limit_bytes pg1 = pg_ram_limit_bytes pg"
    using assms(1,6) by (simp add: evict_page_def Let_def count_ram_def count_nvme_def ps1_def n_def)
  define pg2 where "pg2 = count_nvme (-1) (- page_size ps1 a) (pg1\<lparr>pg_stats := (pg_stats pg1)\<lparr>ps_faults_total := ps_faults_total (pg_stats pg1) + 1\<rparr>,
    pg_nvme := dict_del i (pg_nvme pg1)\<rparr>)"
  have n1: "page_size ps1 a = n" by (simp add: ps1_def n_def)
  have fits: "\<not> over (page_size ps1 a) pg2"
    using assms(7) by (simp add: over_def pg2_def count_nvme_def pg1 n1)
  have id: "cp_page_id (ps1 ! a) = i" using assms(2,3) by (simp add: ps1_def page_update_def)
  have again: "page_update a (\<lambda>p. page_touch (clk 1) (p\<lparr>cp_storage_tier := ST_RAM\<rparr>)) ps1 =
      page_update a (\<lambda>p. page_touch (clk 1) (p\<lparr>cp_storage_tier := ST_RAM\<rparr>)) ps"
    using assms(2) by (simp add: ps1_def page_update_def page_touch_def)
  have del: "dict_del i (dict_set i a (pg_nvme pg)) = pg_nvme pg"
    using assms(5) by (simp add: dict_set_new) (force simp: dict_del_def AList.delete_eq dict_get_None_iff intro!: filter_True)
  have p: "promote (clk (Suc 0)) a (ps1, pg2) = (page_update a (\<lambda>p. page_touch (clk 1) (p\<lparr>cp_storage_tier := ST_RAM\<rparr>)) ps,
      count_ram 1 n (pg2\<lparr>pg_ram := dict_set i a (pg_ram pg2)\<rparr>))"
    using fits by (simp add: promote_fits id again [simplified] n1)
  have "handle_fault clk i process (ps1, pg1) = (\<lparr>pf_page_id = i, pf_resolution = FR_PROMOTED, pf_page = Some a,
      pf_latency_ms = (clk 2 - clk 0) * 1000, pf_error = None\<rparr>,
      bump (\<lambda>s. s\<lparr>ps_faults_promoted := ps_faults_promoted s + 1\<rparr>) (promote (clk (Suc 0)) a (ps1, pg2)))"
    by (simp add: handle_fault_def bump_def pg1 pg2_def)
  then show ?thesis
    by (simp add: e p bump_def) (simp add: pg2_def count_ram_def count_nvme_def pg1 n1 del dict_set_new)
qed

lemma evicted_page_comes_back_witness:
  "pf_page (fst (handle_fault (\<lambda>n. 5) ''a'' ''p'' (snd (evict_page ''a'' (demo_pages, demo_pager))))) = Some 0"
proof -
  have "dict_get (pg_ram demo_pager) ''a'' = Some 0" "\<not> over 0 demo_pager"
    by (simp_all add: demo_pager_eval over_def EVICTION_WATERMARK_def)
  from evicted_page_comes_back [OF this(1) _ _ _ _ _ this(2), of demo_pages "\<lambda>n. 5" "''p''"] show ?thesis
    by (simp add: demo_pager_eval page_size_def Let_def case_prod_beta demo_pages_def demo_page_def)
qed

section \<open>Sharing\<close>

text \<open>
  Sharing a resident page hands the page itself over: the target becomes its owner and its
  permissions change for the source too, nobody is asked whether it may, and the bytes of the page are
  counted a second time although the cache holds the same pages as before.
\<close>

lemma shared_page_changes_owner:
  assumes "dict_get (vm_spaces m) s = Some src" "dict_get (vm_spaces m) t = Some tgt" "s \<noteq> t" "as_process_id tgt = t"
    and "vm_paging m = (ps, pg)" "dict_get (pg_ram pg) i = Some a" "a < length ps" "cp_page_id (ps ! a) = i" "wf_dict (pg_ram pg)"
    and "\<not> over (page_size ps a) pg"
  shows "let (n, m') = share_between clks s t [i] permission m; (ps', pg') = vm_paging m' in
    n = 1 \<and> cp_owner_process_id (ps' ! a) = Some t \<and> cp_permissions (ps' ! a) = permission \<and>
    fst (in_space s (access_page clk' i) m') = Some (Some a) \<and> fst (in_space t (access_page clk' i) m') = Some (Some a) \<and>
    set (pg_ram pg') = set (pg_ram pg) \<and> pg_ram_bytes pg' = pg_ram_bytes pg + page_size ps a"
proof -
  define now where "now = clks 0 3"
  define ps1 where "ps1 = page_update a (page_touch (clks 0 1)) ps"
  define ps2 where "ps2 = page_update a (\<lambda>p. p\<lparr>cp_owner_process_id := Some t\<rparr>) (page_update a (\<lambda>p. p\<lparr>cp_permissions := permission\<rparr>) ps1)"
  define ps3 where "ps3 = page_update a (\<lambda>p. page_touch now (p\<lparr>cp_storage_tier := ST_RAM\<rparr>)) ps2"
  define ram where "ram = dict_del i (pg_ram pg) @ [(i, a)]"
  obtain pg1 where h: "handle_fault (clks 0) i s (ps, pg) = (\<lparr>pf_page_id = i, pf_resolution = FR_RESIDENT, pf_page = Some a,
      pf_latency_ms = (clks 0 2 - clks 0 0) * 1000, pf_error = None\<rparr>, (ps1, pg1))"
    and pg1: "pg_ram pg1 = ram" "pg_ram_bytes pg1 = pg_ram_bytes pg" "pg_ram_limit_bytes pg1 = pg_ram_limit_bytes pg"
    using assms(6) by (simp add: handle_fault_def bump_def Let_def ps1_def ram_def)
  define src' tgt' where "src' = src\<lparr>as_pages := dict_set i a (as_pages src)\<rparr>" and "tgt' = tgt\<lparr>as_pages := dict_set i a (as_pages tgt)\<rparr>"
  define pg2 where "pg2 = count_ram 1 (page_size ps a) (pg1\<lparr>pg_ram := dict_set i a ram\<rparr>)"
  have access: "in_space s (access_page (clks 0) i) m =
      (Some (Some a), m\<lparr>vm_spaces := dict_set s src' (vm_spaces m), vm_paging := (ps1, pg1)\<rparr>)"
    using assms(1,5) h handle_fault_requestor [of "clks 0" i "as_process_id src" "(ps, pg)" s]
    by (simp add: in_space_def access_page_def src'_def)
  have sizes: "page_size ps2 a = page_size ps a" "cp_page_id (ps2 ! a) = i"
    using assms(7,8) by (simp_all add: ps2_def ps1_def page_size_def page_update_def page_touch_def)
  have promoted: "promote now a (ps2, pg1) = (ps3, pg2)"
    using assms(10) sizes by (subst promote_fits) (simp_all add: over_def pg1 ps3_def pg2_def)
  have id3: "cp_page_id (ps3 ! a) = i" using sizes(2) by (simp add: ps3_def)
  have share: "share_between clks s t [i] permission m =
      (1, m\<lparr>vm_spaces := dict_set t tgt' (dict_set s src' (vm_spaces m)), vm_paging := (ps3, pg2)\<rparr>)"
    using assms(1,2,3) promoted id3
    by (simp add: share_between_def share_step_def access in_space_def [of t] allocate_page_def add_page_def
        now_def [symmetric] assms(4) ps2_def [symmetric] tgt'_def Let_def)
  have ram2: "pg_ram pg2 = dict_set i a ram" "pg_ram_bytes pg2 = pg_ram_bytes pg + page_size ps a"
    by (simp_all add: pg2_def count_ram_def pg1)
  have wf: "wf_dict ram" using assms(9) by (auto simp: ram_def dict_del_def AList.delete_eq distinct_map_filter)
  have "set ram = set (pg_ram pg)"
    using assms(6,9) by (auto simp: ram_def set_dict_del dict_get_in dest: in_dict_get)
  moreover have "(i, a) \<in> set ram" by (simp add: ram_def)
  ultimately have same: "set (dict_set i a ram) = set (pg_ram pg)" using wf assms(6,9) by (auto simp: set_dict_set dest: in_dict_get)
  have "dict_get (pg_ram pg2) i = Some a" by (simp add: ram2)
  then have found: "pf_page (fst (handle_fault clk' i q (ps3, pg2))) = Some a" for q
    by (simp add: handle_fault_def bump_def Let_def)
  have reach: "fst (in_space q (access_page clk' i) (m\<lparr>vm_spaces := dict_set t tgt' (dict_set s src' (vm_spaces m)), vm_paging := (ps3, pg2)\<rparr>)) = Some (Some a)"
    if "q \<in> {s, t}" for q
    using that found assms(3) by (auto simp: in_space_access)
  have "cp_owner_process_id (ps3 ! a) = Some t \<and> cp_permissions (ps3 ! a) = permission"
    using assms(7) by (simp add: ps3_def ps2_def ps1_def page_update_def page_touch_def)
  then show ?thesis using reach same ram2 by (simp add: share Let_def)
qed

definition demo_vm :: vm_manager where
  "demo_vm = \<lparr>vm_global_ram_limit = 1048576, vm_spaces = [(''p'', \<lparr>as_process_id = ''p'', as_pages = [(''b'', 1)]\<rparr>),
     (''q'', \<lparr>as_process_id = ''q'', as_pages = []\<rparr>)], vm_paging = (demo_pages, demo_pager\<lparr>pg_ram_bytes := 300000\<rparr>)\<rparr>"

lemma shared_page_changes_owner_witness:
  "pg_ram_bytes (snd (vm_paging (snd (share_between (\<lambda>_ _. 5) ''p'' ''q'' [''b''] ''shared-read'' demo_vm)))) = 600000"
proof -
  let ?pg = "demo_pager\<lparr>pg_ram_bytes := 300000\<rparr>"
  have s: "page_size demo_pages (Suc 0) = 300000" by (simp add: page_size_def demo_pages_def demo_page_def)
  have "dict_get (vm_spaces demo_vm) ''p'' = Some \<lparr>as_process_id = ''p'', as_pages = [(''b'', 1)]\<rparr>"
    "dict_get (vm_spaces demo_vm) ''q'' = Some \<lparr>as_process_id = ''q'', as_pages = []\<rparr>" "vm_paging demo_vm = (demo_pages, ?pg)"
    by (simp_all add: demo_vm_def)
  moreover have "dict_get (pg_ram ?pg) ''b'' = Some 1" "\<not> over (page_size demo_pages 1) ?pg" "wf_dict (pg_ram ?pg)"
    by (simp_all add: demo_pager_eval over_def s EVICTION_WATERMARK_def)
  moreover have "1 < length demo_pages" "cp_page_id (demo_pages ! 1) = ''b''" by (simp_all add: demo_pages_def demo_page_def)
  ultimately show ?thesis
    using shared_page_changes_owner [of demo_vm "''p''" _ "''q''" _ demo_pages ?pg "''b''" 1 "\<lambda>_ _. 5" "''shared-read''"] s
    by (simp add: Let_def case_prod_beta)
qed

end
