(* ===== verification/Event_Bus.thy ===== *)
theory Event_Bus
  imports Core_Redaction
begin

text \<open>
  The event bus (\<open>nous_runtime/events/bus.py\<close>) and its envelopes (\<open>nous_runtime/core/events.py\<close>).
  Callbacks are names, and what a callback does is a function on the world of the callers and the
  bus; it says whether the callback returned or raised. The table of events is the list of its rows
  in the order of their \<open>rowid\<close>; \<open>json.dumps\<close> and \<open>json.loads\<close> of a payload cancel out. Whether the
  database can be opened, written and read is an argument of the operations that need it. The
  interval of the background thread is not modelled: its turns are operations like the others.
\<close>

section \<open>Envelopes\<close>

record event_envelope =
  ev_event_id :: string
  ev_event_type :: string
  ev_source :: string
  ev_timestamp :: string
  ev_payload :: jobj
  ev_metadata :: jobj

definition envelope_to_dict :: "event_envelope \<Rightarrow> jobj" where
  "envelope_to_dict e =
     [(''event_id'', JStr (ev_event_id e)), (''event_type'', JStr (ev_event_type e)), (''source'', JStr (ev_source e)),
      (''timestamp'', JStr (ev_timestamp e)), (''payload'', JObj (ev_payload e)), (''metadata'', JObj (ev_metadata e))]"

text \<open>\<open>str(data.get(k) or data.get(alias) or d)\<close>\<close>

definition rd_alias :: "jobj \<Rightarrow> string \<Rightarrow> string \<Rightarrow> string \<Rightarrow> pyexn + string" where
  "rd_alias d k alias dflt = py_str (get_or d k (get_or d alias (JStr dflt)))"

definition envelope_from_dict :: "string \<Rightarrow> string \<Rightarrow> jobj \<Rightarrow> pyexn + event_envelope" where
  "envelope_from_dict new_id now d =
     bindE (rd_alias d ''event_id'' ''id'' (''evt_'' @ new_id)) (\<lambda>event_id.
     bindE (rd_alias d ''event_type'' ''type'' []) (\<lambda>event_type.
     bindE (rd_alias d ''source'' ''actor'' ''runtime'') (\<lambda>source.
     bindE (rd_str d ''timestamp'' now) (\<lambda>timestamp.
     bindE (rd_dict d ''payload'') (\<lambda>payload.
     bindE (rd_dict d ''metadata'') (\<lambda>metadata.
       Inr \<lparr>ev_event_id = event_id, ev_event_type = event_type, ev_source = source, ev_timestamp = timestamp,
         ev_payload = payload, ev_metadata = metadata\<rparr>))))))"

section \<open>The bus\<close>

record bus_metrics =
  bm_events_published :: int
  bm_events_dropped :: int
  bm_events_persisted :: int
  bm_listener_calls :: int
  bm_listener_failures :: int
  bm_last_publish_timestamp :: string

record 'cb event_bus =
  eb_workspace :: string
  eb_max_buffer :: int
  eb_max_listeners :: int
  eb_buffer :: "event_envelope list"
  eb_subscriptions :: "(string, 'cb list) dict"
  eb_metrics :: bus_metrics
  eb_open :: bool
  eb_rows :: "event_envelope list"
  eb_pending :: "event_envelope list"

record bus_io =
  io_opens :: bool
  io_writes :: bool
  io_reads :: bool

definition new_bus :: "string \<Rightarrow> int \<Rightarrow> int \<Rightarrow> event_envelope list \<Rightarrow> 'cb event_bus" where
  "new_bus workspace max_buffer max_listeners rows =
     \<lparr>eb_workspace = workspace, eb_max_buffer = max 100 max_buffer, eb_max_listeners = max 1 max_listeners, eb_buffer = [],
      eb_subscriptions = [],
      eb_metrics = \<lparr>bm_events_published = 0, bm_events_dropped = 0, bm_events_persisted = 0, bm_listener_calls = 0,
        bm_listener_failures = 0, bm_last_publish_timestamp = []\<rparr>,
      eb_open = False, eb_rows = rows, eb_pending = []\<rparr>"

section \<open>Persistence\<close>

definition ensure_db :: "bus_io \<Rightarrow> 'cb event_bus \<Rightarrow> 'cb event_bus" where
  "ensure_db io bus = (if eb_open bus then bus else bus\<lparr>eb_open := io_opens io\<rparr>)"

text \<open>\<open>INSERT OR IGNORE\<close>\<close>

definition insert_event :: "event_envelope \<Rightarrow> event_envelope list \<Rightarrow> event_envelope list" where
  "insert_event e rows = (if \<exists>r \<in> set rows. ev_event_id r = ev_event_id e then rows else rows @ [e])"

definition flush_pending :: "bus_io \<Rightarrow> 'cb event_bus \<Rightarrow> bool \<times> 'cb event_bus" where
  "flush_pending io bus =
     (if eb_pending bus = [] then (True, bus)
      else let bus = ensure_db io bus; batch = eb_pending bus in
        if \<not> eb_open bus then (False, bus)
        else if io_writes io then
          (True, bus\<lparr>eb_pending := [], eb_rows := fold insert_event batch (eb_rows bus),
            eb_metrics := (eb_metrics bus)\<lparr>bm_events_persisted := bm_events_persisted (eb_metrics bus) + int (length batch)\<rparr>\<rparr>)
        else (False, bus\<lparr>eb_pending := slice_last (eb_max_buffer bus) batch\<rparr>))"

text \<open>The rows whose time stamp is before the cut-off, compared as texts; it fails silently.\<close>

definition prune_old_events :: "bus_io \<Rightarrow> string \<Rightarrow> 'cb event_bus \<Rightarrow> 'cb event_bus" where
  "prune_old_events io cutoff bus =
     (if eb_open bus \<and> io_writes io then bus\<lparr>eb_rows := filter (\<lambda>r. \<not> ev_timestamp r < cutoff) (eb_rows bus)\<rparr> else bus)"

definition bus_shutdown :: "bus_io \<Rightarrow> 'cb event_bus \<Rightarrow> 'cb event_bus" where
  "bus_shutdown io bus = (snd (flush_pending io bus))\<lparr>eb_open := False\<rparr>"

section \<open>Patterns\<close>

definition pattern_matches :: "string \<Rightarrow> string \<Rightarrow> bool" where
  "pattern_matches pattern event_type \<longleftrightarrow>
     pattern = ''*'' \<or> pattern = event_type \<or>
     (endswith pattern ''.*'' \<and>
      (let p = take (length pattern - 2) pattern in event_type = p \<or> startswith event_type (p @ ''.'')))"

definition ascii_fold :: "char \<Rightarrow> char" where
  "ascii_fold c = (if (65 :: nat) \<le> of_char c \<and> of_char c \<le> (90 :: nat) then char_of (of_char c + (32 :: nat)) else c)"

text \<open>SQLite's \<open>LIKE\<close>: letters of ASCII in either case; with an escape character or without.\<close>

fun sql_like :: "char option \<Rightarrow> string \<Rightarrow> string \<Rightarrow> bool" where
  "sql_like esc [] s \<longleftrightarrow> s = []"
| "sql_like esc (p # ps) s \<longleftrightarrow>
     (if esc = Some p then
        (case ps of
           [] \<Rightarrow> False
         | q # qs \<Rightarrow> (case s of [] \<Rightarrow> False | c # cs \<Rightarrow> ascii_fold q = ascii_fold c \<and> sql_like esc qs cs))
      else if p = CHR ''%'' then list_ex (sql_like esc ps) (suffixes s)
      else (case s of [] \<Rightarrow> False | c # cs \<Rightarrow> (p = CHR ''_'' \<or> ascii_fold p = ascii_fold c) \<and> sql_like esc ps cs))"

definition like_escape :: "string \<Rightarrow> string" where
  "like_escape s = py_replace ''_'' [CHR 0x5C, CHR ''_'']
     (py_replace ''%'' [CHR 0x5C, CHR ''%''] (py_replace [CHR 0x5C] [CHR 0x5C, CHR 0x5C] s))"

section \<open>Publishing\<close>

definition redact_obj :: "string list \<Rightarrow> jobj \<Rightarrow> jobj" where
  "redact_obj known d = (case redact_sensitive_data known (JObj d) of JObj r \<Rightarrow> r | _ \<Rightarrow> [])"

definition new_envelope :: "string list \<Rightarrow> string \<Rightarrow> string \<Rightarrow> string \<Rightarrow> jobj \<Rightarrow> string \<Rightarrow> jobj \<Rightarrow> string \<Rightarrow> event_envelope" where
  "new_envelope known new_id now event_type payload source metadata event_id =
     \<lparr>ev_event_id = (if event_id = [] then ''evt_'' @ new_id else event_id), ev_event_type = event_type, ev_source = source,
      ev_timestamp = now, ev_payload = redact_obj known payload, ev_metadata = redact_obj known metadata\<rparr>"

text \<open>\<open>deque(maxlen = n)\<close>, and the queue for the table\<close>

definition note_event :: "event_envelope \<Rightarrow> 'cb event_bus \<Rightarrow> 'cb event_bus" where
  "note_event e bus =
     bus\<lparr>eb_buffer := append_trim (eb_max_buffer bus) e (eb_buffer bus), eb_pending := eb_pending bus @ [e],
       eb_metrics := (eb_metrics bus)\<lparr>bm_events_published := bm_events_published (eb_metrics bus) + 1,
         bm_last_publish_timestamp := ev_timestamp e\<rparr>\<rparr>"

definition recipients :: "'cb event_bus \<Rightarrow> string \<Rightarrow> 'cb list" where
  "recipients bus event_type = concat (map (\<lambda>(pattern, listeners). if pattern_matches pattern event_type then listeners else [])
     (eb_subscriptions bus))"

type_synonym ('w, 'cb) callbacks = "'cb \<Rightarrow> event_envelope \<Rightarrow> 'w \<times> 'cb event_bus \<Rightarrow> bool \<times> 'w \<times> 'cb event_bus"

definition call_listener :: "('w, 'cb) callbacks \<Rightarrow> event_envelope \<Rightarrow> 'cb \<Rightarrow> 'w \<times> 'cb event_bus \<Rightarrow> 'w \<times> 'cb event_bus" where
  "call_listener run e cb wb =
     (let (returned, w, bus) = run cb e wb; m = eb_metrics bus
      in (w, bus\<lparr>eb_metrics := (if returned then m\<lparr>bm_listener_calls := bm_listener_calls m + 1\<rparr>
                               else m\<lparr>bm_listener_failures := bm_listener_failures m + 1\<rparr>)\<rparr>))"

text \<open>The listeners are those at the time of the event; a listener may publish in its turn.\<close>

definition notify_subscribers :: "('w, 'cb) callbacks \<Rightarrow> event_envelope \<Rightarrow> 'w \<times> 'cb event_bus \<Rightarrow> 'w \<times> 'cb event_bus" where
  "notify_subscribers run e wb = fold (call_listener run e) (recipients (snd wb) (ev_event_type e)) wb"

definition publish :: "('w, 'cb) callbacks \<Rightarrow> event_envelope \<Rightarrow> 'w \<times> 'cb event_bus \<Rightarrow> 'w \<times> 'cb event_bus" where
  "publish run e = (\<lambda>(w, bus). notify_subscribers run e (w, note_event e bus))"

definition publish_batch :: "('w, 'cb) callbacks \<Rightarrow> event_envelope list \<Rightarrow> 'w \<times> 'cb event_bus \<Rightarrow> 'w \<times> 'cb event_bus" where
  "publish_batch run = fold (publish run)"

section \<open>Subscriptions\<close>

text \<open>At the limit the subscription is dropped with no more than a warning in the log.\<close>

definition subscribe :: "string \<Rightarrow> 'cb \<Rightarrow> 'cb event_bus \<Rightarrow> 'cb event_bus" where
  "subscribe pattern cb bus =
     (let listeners = dict_get_or (eb_subscriptions bus) pattern [];
          listeners = (if cb \<in> set listeners \<or> int (length listeners) \<ge> eb_max_listeners bus then listeners else listeners @ [cb])
      in bus\<lparr>eb_subscriptions := dict_set pattern listeners (eb_subscriptions bus)\<rparr>)"

definition unsubscribe :: "string \<Rightarrow> 'cb \<Rightarrow> 'cb event_bus \<Rightarrow> 'cb event_bus" where
  "unsubscribe pattern cb bus =
     (case dict_get (eb_subscriptions bus) pattern of
        None \<Rightarrow> bus
      | Some listeners \<Rightarrow> bus\<lparr>eb_subscriptions := dict_set pattern (filter (\<lambda>x. x \<noteq> cb) listeners) (eb_subscriptions bus)\<rparr>)"

section \<open>Queries\<close>

definition query_buffer :: "string \<Rightarrow> string \<Rightarrow> string \<Rightarrow> int \<Rightarrow> 'cb event_bus \<Rightarrow> jobj list" where
  "query_buffer event_type domain source limit bus =
     map envelope_to_dict (take (nat (max 1 limit)) (filter (\<lambda>e.
       (event_type = [] \<or> event_type = ''*'' \<or> event_type = ev_event_type e \<or>
        (endswith event_type ''.*'' \<and> startswith (ev_event_type e) (take (length event_type - 2) event_type))) \<and>
       (domain = [] \<or> startswith (ev_event_type e) (domain @ ''.'')) \<and> (source = [] \<or> ev_source e = source))
       (rev (eb_buffer bus))))"

definition type_condition :: "string \<Rightarrow> event_envelope \<Rightarrow> bool" where
  "type_condition event_type r \<longleftrightarrow>
     (if event_type = [] then True
      else if endswith event_type ''.*'' then sql_like None (take (length event_type - 2) event_type @ ''.%'') (ev_event_type r)
      else if event_type = ''*'' then True
      else ev_event_type r = event_type)"

definition domain_condition :: "string \<Rightarrow> event_envelope \<Rightarrow> bool" where
  "domain_condition domain r \<longleftrightarrow> domain = [] \<or> sql_like None (domain @ ''.%'') (ev_event_type r)"

definition bus_query ::
  "bus_io \<Rightarrow> string \<Rightarrow> string \<Rightarrow> string \<Rightarrow> string \<Rightarrow> int \<Rightarrow> int \<Rightarrow> 'cb event_bus \<Rightarrow> jobj list \<times> 'cb event_bus" where
  "bus_query io event_type domain source since limit offset bus =
     (let bus = ensure_db io bus in
      (if \<not> eb_open bus \<or> \<not> io_reads io then query_buffer event_type domain source limit bus
       else map envelope_to_dict (take (nat (max 1 (min limit 1000))) (drop (nat (max 0 offset)) (rev (filter (\<lambda>r.
         type_condition event_type r \<and> domain_condition domain r \<and> (source = [] \<or> ev_source r = source) \<and>
         (since = [] \<or> ev_timestamp r > since)) (eb_rows bus))))), bus))"

definition query_recent :: "bus_io \<Rightarrow> string \<Rightarrow> int \<Rightarrow> 'cb event_bus \<Rightarrow> jobj list \<times> 'cb event_bus" where
  "query_recent io domain limit bus = bus_query io [] domain [] [] limit 0 bus"

definition bus_count :: "bus_io \<Rightarrow> string \<Rightarrow> string \<Rightarrow> 'cb event_bus \<Rightarrow> int \<times> 'cb event_bus" where
  "bus_count io event_type domain bus =
     (let bus = ensure_db io bus in
      (if \<not> eb_open bus \<or> \<not> io_reads io then int (length (eb_buffer bus))
       else int (length (filter (\<lambda>r. (event_type = [] \<or> ev_event_type r = event_type) \<and> domain_condition domain r)
         (eb_rows bus))), bus))"

section \<open>Streaming\<close>

definition after_cursor :: "string \<Rightarrow> event_envelope list \<Rightarrow> event_envelope list" where
  "after_cursor i rows = tl (dropWhile (\<lambda>r. ev_event_id r \<noteq> i) rows)"

definition in_domain :: "string \<Rightarrow> event_envelope \<Rightarrow> bool" where
  "in_domain domain r \<longleftrightarrow> domain = [] \<or> sql_like (Some (CHR 0x5C)) (like_escape domain @ ''.%'') (ev_event_type r)"

definition page_size_of :: "int \<Rightarrow> nat" where
  "page_size_of limit = nat (max 1 (min limit 500))"

definition stream_rows ::
  "bus_io \<Rightarrow> string \<Rightarrow> string \<Rightarrow> int \<Rightarrow> 'cb event_bus \<Rightarrow> (pyexn + event_envelope list) \<times> 'cb event_bus" where
  "stream_rows io domain since limit bus =
     (let (flushed, bus) = flush_pending io (ensure_db io bus) in
      (if \<not> flushed \<or> \<not> eb_open bus then Inl (RuntimeError ''Event history unavailable'')
       else if \<not> io_reads io then Inl OutsideModel
       else if since = [] then
         let rows = filter (in_domain domain) (eb_rows bus) in Inr (drop (length rows - page_size_of limit) rows)
       else if since \<notin> ev_event_id ` set (eb_rows bus)
       then Inl (ValueError ''Event cursor unavailable; reload current state'')
       else Inr (take (page_size_of limit) (filter (in_domain domain) (after_cursor since (eb_rows bus)))), bus))"

definition stream_events ::
  "bus_io \<Rightarrow> string \<Rightarrow> string \<Rightarrow> int \<Rightarrow> 'cb event_bus \<Rightarrow> (pyexn + jobj list) \<times> 'cb event_bus" where
  "stream_events io domain since limit bus =
     (let (page, bus) = stream_rows io domain since limit bus in (map_sum id (map envelope_to_dict) page, bus))"

section \<open>Metrics and the global bus\<close>

definition get_metrics :: "'cb event_bus \<Rightarrow> jobj" where
  "get_metrics bus =
     (let m = eb_metrics bus in
      [(''events_published'', JInt (bm_events_published m)), (''events_dropped'', JInt (bm_events_dropped m)),
       (''events_persisted'', JInt (bm_events_persisted m)), (''listener_calls'', JInt (bm_listener_calls m)),
       (''listener_failures'', JInt (bm_listener_failures m)), (''buffer_size'', JInt (int (length (eb_buffer bus)))),
       (''subscription_count'', JInt (sum_list (map (\<lambda>(_, ls). int (length ls)) (eb_subscriptions bus)))),
       (''active_patterns'', JList (map (JStr \<circ> fst) (eb_subscriptions bus))),
       (''last_publish'', JStr (bm_last_publish_timestamp m))])"

text \<open>
  \<open>get_event_bus\<close>: \<open>resolve\<close> makes a path absolute, \<open>env\<close> is \<open>NOUS_WORKSPACE_ROOT\<close> and \<open>rows\<close> the table
  that a new bus finds in a workspace.
\<close>

definition get_event_bus ::
  "(string \<Rightarrow> string) \<Rightarrow> string \<Rightarrow> string \<Rightarrow> (string \<Rightarrow> event_envelope list) \<Rightarrow> string \<Rightarrow> 'cb event_bus option \<Rightarrow>
   pyexn + 'cb event_bus" where
  "get_event_bus resolve env cwd rows workspace_root existing =
     (let requested = (if workspace_root \<noteq> [] then workspace_root else env);
          owner = (if requested = [] then None else Some (resolve requested)) in
      case existing of
        Some bus \<Rightarrow>
          if owner \<noteq> None \<and> owner \<noteq> Some (eb_workspace bus)
          then Inl (RuntimeError ''Event bus workspace changed; restart its owning Runtime'')
          else Inr bus
      | None \<Rightarrow> let w = resolve (case owner of Some p \<Rightarrow> p | None \<Rightarrow> cwd) in Inr (new_bus w 10000 32 (rows w)))"

definition reset_event_bus :: "bus_io \<Rightarrow> 'cb event_bus option \<Rightarrow> 'cb event_bus option \<times> 'cb event_bus option" where
  "reset_event_bus io existing = (None, map_option (bus_shutdown io) existing)"

end
