(* ===== verification/Event_Bus_Safety.thy ===== *)
theory Event_Bus_Safety
  imports Event_Bus
begin

text \<open>
  What holds of the bus over any sequence of its operations: the table of events grows by appending,
  what is published is stored once and in order, and the pages of a stream follow each other without
  a gap. In these sequences listeners return or raise and do nothing else.
\<close>

section \<open>Sequences of operations\<close>

text \<open>\<open>Worker\<close> is a turn of the thread that \<open>_start_persist_worker\<close> starts: it flushes, then prunes.\<close>

datatype 'cb bus_op =
    Publish event_envelope
  | Flush bus_io
  | Query bus_io string
  | Subscribe string 'cb
  | Unsubscribe string 'cb
  | Shutdown bus_io
  | Worker bus_io bus_io string

definition quiet_listeners :: "('cb \<Rightarrow> event_envelope \<Rightarrow> bool) \<Rightarrow> (unit, 'cb) callbacks" where
  "quiet_listeners returns cb e = (\<lambda>(w, bus). (returns cb e, w, bus))"

fun run_bus_op :: "('cb \<Rightarrow> event_envelope \<Rightarrow> bool) \<Rightarrow> 'cb bus_op \<Rightarrow> 'cb event_bus \<Rightarrow> 'cb event_bus" where
  "run_bus_op returns (Publish e) bus = snd (publish (quiet_listeners returns) e ((), bus))"
| "run_bus_op returns (Flush io) bus = snd (flush_pending io bus)"
| "run_bus_op returns (Query io event_type) bus = snd (bus_query io event_type [] [] [] 100 0 bus)"
| "run_bus_op returns (Subscribe pattern cb) bus = subscribe pattern cb bus"
| "run_bus_op returns (Unsubscribe pattern cb) bus = unsubscribe pattern cb bus"
| "run_bus_op returns (Shutdown io) bus = bus_shutdown io bus"
| "run_bus_op returns (Worker io io' cutoff) bus = prune_old_events io' cutoff (snd (flush_pending io bus))"

definition run_bus :: "('cb \<Rightarrow> event_envelope \<Rightarrow> bool) \<Rightarrow> 'cb bus_op list \<Rightarrow> 'cb event_bus \<Rightarrow> 'cb event_bus" where
  "run_bus returns = fold (run_bus_op returns)"

lemma run_bus_simps [simp]:
  "run_bus returns [] bus = bus" "run_bus returns (o1 # ops) bus = run_bus returns ops (run_bus_op returns o1 bus)"
  by (simp_all add: run_bus_def)

definition published :: "'cb bus_op list \<Rightarrow> event_envelope list" where
  "published ops = concat (map (\<lambda>x. case x of Publish e \<Rightarrow> [e] | _ \<Rightarrow> []) ops)"

lemma published_simps [simp]:
  "published [] = []" "published (Publish e # ops) = e # published ops" "published (Flush io # ops) = published ops"
  "published (Query io t # ops) = published ops" "published (Subscribe p cb # ops) = published ops"
  "published (Unsubscribe p cb # ops) = published ops" "published (Shutdown io # ops) = published ops"
  "published (Worker io io' c # ops) = published ops"
  by (simp_all add: published_def)

text \<open>The ages before which the worker has deleted rows\<close>

definition cutoffs :: "'cb bus_op list \<Rightarrow> string list" where
  "cutoffs ops = concat (map (\<lambda>x. case x of Worker io io' c \<Rightarrow> [c] | _ \<Rightarrow> []) ops)"

lemma sequences_Cons:
  "published (x # ops) = published [x] @ published ops" "cutoffs (x # ops) = cutoffs [x] @ cutoffs ops"
  by (simp_all add: published_def cutoffs_def)

section \<open>What a publication changes\<close>

lemma fold_calls:
  "snd (fold (call_listener (quiet_listeners returns) e) cbs wb) =
    (snd wb)\<lparr>eb_metrics := (eb_metrics (snd wb))
       \<lparr>bm_listener_calls := bm_listener_calls (eb_metrics (snd wb)) + int (length (filter (\<lambda>cb. returns cb e) cbs)),
        bm_listener_failures := bm_listener_failures (eb_metrics (snd wb)) + int (length (filter (\<lambda>cb. \<not> returns cb e) cbs))\<rparr>\<rparr>"
  by (induction cbs arbitrary: wb) (auto simp: call_listener_def quiet_listeners_def split_def Let_def)

lemma publish_quiet [simp]:
  "eb_rows (snd (publish (quiet_listeners returns) e ((), bus))) = eb_rows bus"
  "eb_pending (snd (publish (quiet_listeners returns) e ((), bus))) = eb_pending bus @ [e]"
  "eb_max_buffer (snd (publish (quiet_listeners returns) e ((), bus))) = eb_max_buffer bus"
  "eb_subscriptions (snd (publish (quiet_listeners returns) e ((), bus))) = eb_subscriptions bus"
  "bm_events_dropped (eb_metrics (snd (publish (quiet_listeners returns) e ((), bus)))) = bm_events_dropped (eb_metrics bus)"
  by (simp_all add: publish_def notify_subscribers_def fold_calls note_event_def)

lemma publish_calls:
  "bm_listener_calls (eb_metrics (snd (publish (quiet_listeners returns) e ((), bus)))) =
     bm_listener_calls (eb_metrics bus) + int (length (filter (\<lambda>cb. returns cb e) (recipients bus (ev_event_type e))))"
  by (simp add: publish_def notify_subscribers_def fold_calls note_event_def recipients_def)

section \<open>The table grows\<close>

lemma insert_event_if: "insert_event e rows = (if ev_event_id e \<in> ev_event_id ` set rows then rows else rows @ [e])"
proof -
  have "(\<exists>r \<in> set rows. ev_event_id r = ev_event_id e) = (ev_event_id e \<in> ev_event_id ` set rows)" by (metis imageE image_eqI)
  then show ?thesis by (simp only: insert_event_def)
qed

lemma insert_events_grow: "\<exists>xs. fold insert_event es rows = rows @ xs"
proof (induction es arbitrary: rows)
  case (Cons e es)
  from Cons.IH [of "insert_event e rows"] show ?case by (simp add: insert_event_if split: if_splits) metis
qed simp

lemma insert_events_distinct:
  "distinct (map ev_event_id rows) \<Longrightarrow> distinct (map ev_event_id (fold insert_event es rows))"
proof (induction es arbitrary: rows)
  case (Cons e es)
  have "distinct (map ev_event_id (insert_event e rows))" using Cons.prems by (simp add: insert_event_if)
  then show ?case by (simp add: Cons.IH)
qed simp

lemma flush_rows:
  obtains xs where "eb_rows (snd (flush_pending io bus)) = eb_rows bus @ xs"
proof -
  obtain xs where "fold insert_event (eb_pending bus) (eb_rows bus) = eb_rows bus @ xs" using insert_events_grow by blast
  then show ?thesis by (intro that [of "if eb_rows (snd (flush_pending io bus)) = eb_rows bus then [] else xs"])
    (auto simp: flush_pending_def ensure_db_def Let_def)
qed

lemma ensure_db_simps [simp]:
  "eb_rows (ensure_db io bus) = eb_rows bus" "eb_pending (ensure_db io bus) = eb_pending bus"
  "eb_max_buffer (ensure_db io bus) = eb_max_buffer bus" "eb_metrics (ensure_db io bus) = eb_metrics bus"
  "eb_buffer (ensure_db io bus) = eb_buffer bus" "eb_subscriptions (ensure_db io bus) = eb_subscriptions bus"
  by (simp_all add: ensure_db_def)

text \<open>
  The rows have distinct identifiers, and no event has an empty one. A reader of the stream is sure of
  its pages only while nothing is pruned: the turns of the worker are left out of \<open>op_ok\<close>.
\<close>

definition stored_ok :: "'cb event_bus \<Rightarrow> bool" where
  "stored_ok bus \<longleftrightarrow> distinct (map ev_event_id (eb_rows bus)) \<and> (\<forall>e \<in> set (eb_rows bus @ eb_pending bus). ev_event_id e \<noteq> [])"

fun op_ok :: "'cb bus_op \<Rightarrow> bool" where
  "op_ok (Publish e) = (ev_event_id e \<noteq> [])"
| "op_ok (Worker io io' c) = False"
| "op_ok _ = True"

lemma set_insert_events: "set (fold insert_event es rows) \<subseteq> set rows \<union> set es"
proof (induction es arbitrary: rows)
  case (Cons e es)
  from Cons.IH [of "insert_event e rows"] show ?case by (auto simp: insert_event_if split: if_splits)
qed simp

lemma set_slice_last: "set (slice_last m xs) \<subseteq> set xs"
  by (auto simp: slice_last_def dest: in_set_dropD)

lemma flush_stored_ok:
  assumes "stored_ok bus" shows "stored_ok (snd (flush_pending io bus))"
  using assms set_insert_events [of "eb_pending bus" "eb_rows bus"] set_slice_last [of "eb_max_buffer bus" "eb_pending bus"]
  unfolding stored_ok_def flush_pending_def Let_def by (auto simp: insert_events_distinct)

lemma ensure_stored_ok [simp]: "stored_ok (ensure_db io bus) = stored_ok bus"
  by (simp add: stored_ok_def)

lemma query_bus [simp]: "snd (bus_query io t d s f l n bus) = ensure_db io bus"
  by (simp add: bus_query_def Let_def)

lemma run_op_grows: "op_ok x \<Longrightarrow> \<exists>xs. eb_rows (run_bus_op returns x bus) = eb_rows bus @ xs"
proof (cases x)
  case (Unsubscribe p cb)
  then show ?thesis by (auto simp: unsubscribe_def split: option.split)
next
  case (Flush io)
  then show ?thesis by (auto intro: flush_rows [of io bus])
next
  case (Shutdown io)
  then show ?thesis by (auto simp: bus_shutdown_def intro: flush_rows [of io bus])
qed (auto simp: subscribe_def Let_def)

lemma run_op_stored_ok: "stored_ok bus \<Longrightarrow> op_ok x \<Longrightarrow> stored_ok (run_bus_op returns x bus)"
proof (cases x)
  case (Flush io)
  then show "stored_ok bus \<Longrightarrow> ?thesis" by (simp add: flush_stored_ok)
next
  case (Shutdown io)
  then show "stored_ok bus \<Longrightarrow> ?thesis" using flush_stored_ok [of bus io] by (simp add: bus_shutdown_def stored_ok_def)
qed (auto simp: stored_ok_def subscribe_def unsubscribe_def Let_def split: option.split)

lemma run_bus_grows:
  "stored_ok bus \<Longrightarrow> list_all op_ok ops \<Longrightarrow>
   stored_ok (run_bus returns ops bus) \<and> (\<exists>xs. eb_rows (run_bus returns ops bus) = eb_rows bus @ xs)"
proof (induction ops arbitrary: bus)
  case (Cons x ops)
  then show ?case using run_op_grows [of x returns bus] run_op_stored_ok [of bus x returns] by fastforce
qed simp

section \<open>Pages\<close>

text \<open>
  A reader of the stream: before each page the operations of everybody else, then the page after the
  cursor, which is the last event it has read. The result is \<open>None\<close> when a page cannot be read.
\<close>

fun read_pages ::
  "('cb \<Rightarrow> event_envelope \<Rightarrow> bool) \<Rightarrow> string \<Rightarrow> ('cb bus_op list \<times> bus_io \<times> int) list \<Rightarrow> string \<Rightarrow> 'cb event_bus \<Rightarrow>
   (event_envelope list list \<times> 'cb event_bus) option" where
  "read_pages returns domain [] cursor bus = Some ([], bus)"
| "read_pages returns domain ((ops, io, limit) # turns) cursor bus =
     (case stream_rows io domain cursor limit (run_bus returns ops bus) of
        (Inl e, bus) \<Rightarrow> None
      | (Inr page, bus) \<Rightarrow>
          map_option (\<lambda>(pages, bus). (page # pages, bus))
            (read_pages returns domain turns (if page = [] then cursor else ev_event_id (last page)) bus))"

lemma after_cursor_split:
  assumes "distinct (map ev_event_id (pre @ r # post))"
  shows "after_cursor (ev_event_id r) (pre @ r # post) = post"
proof -
  have "dropWhile (\<lambda>x. ev_event_id x \<noteq> ev_event_id r) (pre @ r # post) = r # post"
    using assms by (induction pre) auto
  then show ?thesis by (simp add: after_cursor_def)
qed

lemma after_cursor_append:
  "c \<in> ev_event_id ` set rows \<Longrightarrow> after_cursor c (rows @ xs) = after_cursor c rows @ xs"
  by (induction rows) (auto simp: after_cursor_def)

lemma filter_last:
  assumes "distinct ys" "page = take n (filter P ys)" "page \<noteq> []"
  obtains us vs where "ys = us @ last page # vs" "filter P vs = drop n (filter P ys)"
proof -
  have page: "filter P ys = page @ drop n (filter P ys)" using assms(2) by simp
  have "last page \<in> set (filter P ys)" by (subst page) (simp add: assms(3))
  then obtain us vs where ys: "ys = us @ last page # vs" "P (last page)" by (auto simp: in_set_conv_decomp)
  then have f: "filter P ys = filter P us @ last page # filter P vs" by (metis filter.simps(2) filter_append)
  have "filter P ys = butlast page @ last page # drop n (filter P ys)"
    by (subst page) (simp add: assms(3))
  with f have eq: "filter P us @ last page # filter P vs = butlast page @ last page # drop n (filter P ys)" by argo
  have "last page \<notin> set (filter P us)" "last page \<notin> set (filter P vs)" using assms(1) ys by auto
  from append_Cons_eq_iff [OF this] eq have "filter P vs = drop n (filter P ys)" by blast
  with ys(1) show ?thesis using that [of us vs] by simp
qed

lemma stream_rowsD:
  assumes "stream_rows io domain c limit bus = (Inr page, bus')" "c \<noteq> []" "stored_ok bus"
  shows "stored_ok bus'" "\<exists>xs. eb_rows bus' = eb_rows bus @ xs" "c \<in> ev_event_id ` set (eb_rows bus')"
    "page = take (page_size_of limit) (filter (in_domain domain) (after_cursor c (eb_rows bus')))"
proof -
  have bus': "bus' = snd (flush_pending io (ensure_db io bus))"
    using assms(1) by (auto simp: stream_rows_def split_def Let_def split: if_splits)
  show "stored_ok bus'" unfolding bus' by (rule flush_stored_ok) (simp add: assms(3))
  show "\<exists>xs. eb_rows bus' = eb_rows bus @ xs" using flush_rows [of io "ensure_db io bus"] unfolding bus' by auto
  show "c \<in> ev_event_id ` set (eb_rows bus')"
    "page = take (page_size_of limit) (filter (in_domain domain) (after_cursor c (eb_rows bus')))"
    using assms(1,2) by (auto simp: stream_rows_def split_def Let_def split: if_splits)
qed

text \<open>What the next page starts from: the rows behind the last event of the page.\<close>

lemma next_cursor:
  assumes "stored_ok bus" "c \<in> ev_event_id ` set (eb_rows bus)"
    and "page = take n (filter P (after_cursor c (eb_rows bus)))" "page \<noteq> []"
  shows "ev_event_id (last page) \<in> ev_event_id ` set (eb_rows bus)"
    "filter P (after_cursor (ev_event_id (last page)) (eb_rows bus)) = drop n (filter P (after_cursor c (eb_rows bus)))"
proof -
  have d: "distinct (map ev_event_id (eb_rows bus))" using assms(1) by (simp add: stored_ok_def)
  obtain pre r post where rows: "eb_rows bus = pre @ r # post" "ev_event_id r = c"
    using assms(2) by (force simp: in_set_conv_decomp)
  have post: "after_cursor c (eb_rows bus) = post" using after_cursor_split [of pre r post] d rows by simp
  have "distinct post" using d rows(1) by (simp add: distinct_map)
  then obtain us vs where us: "post = us @ last page # vs" "filter P vs = drop n (filter P post)"
    using filter_last [of post page n P] assms(3,4) post by metis
  then have "after_cursor (ev_event_id (last page)) (eb_rows bus) = vs"
    using after_cursor_split [of "pre @ r # us" "last page" vs] d rows(1) by simp
  with us rows(1) post show "ev_event_id (last page) \<in> ev_event_id ` set (eb_rows bus)"
    "filter P (after_cursor (ev_event_id (last page)) (eb_rows bus)) = drop n (filter P (after_cursor c (eb_rows bus)))"
    by simp_all
qed

lemma read_pages_length: "read_pages returns domain turns c bus = Some (pages, bus') \<Longrightarrow> length pages = length turns"
  by (induction returns domain turns c bus arbitrary: pages rule: read_pages.induct) (auto split: prod.splits sum.splits)

lemma read_pages_prefix:
  assumes "read_pages returns domain turns c bus = Some (pages, bus')" "stored_ok bus" "c \<in> ev_event_id ` set (eb_rows bus)"
    and "list_all (\<lambda>(ops, _). list_all op_ok ops) turns"
  shows "(\<exists>xs. eb_rows bus' = eb_rows bus @ xs) \<and> stored_ok bus' \<and>
    (\<exists>rest. filter (in_domain domain) (after_cursor c (eb_rows bus')) = concat pages @ rest \<and>
       (turns \<noteq> [] \<and> length (last pages) < page_size_of (snd (snd (last turns))) \<longrightarrow> rest = []))"
  using assms
proof (induction returns domain turns c bus arbitrary: pages rule: read_pages.induct)
  case (1 returns domain c bus)
  then show ?case by simp
next
  case (2 returns domain ops io limit turns c bus)
  let ?mid = "run_bus returns ops bus"
  from "2.prems" obtain page bus1 where s: "stream_rows io domain c limit ?mid = (Inr page, bus1)"
    by (auto split: prod.splits sum.splits)
  let ?c' = "if page = [] then c else ev_event_id (last page)"
  from "2.prems" s obtain pages1 where r: "read_pages returns domain turns ?c' bus1 = Some (pages1, bus')" "pages = page # pages1"
    by (auto split: prod.splits)
  have c: "c \<noteq> []" using "2.prems"(2,3) by (auto simp: stored_ok_def)
  have mid: "stored_ok ?mid" "\<exists>xs. eb_rows ?mid = eb_rows bus @ xs"
    using run_bus_grows [of bus ops returns] "2.prems"(2,4) by simp_all
  note d = stream_rowsD [OF s c mid(1)]
  have c': "?c' \<in> ev_event_id ` set (eb_rows bus1)" using next_cursor(1) [OF d(1,3,4)] d(3) by auto
  have "list_all (\<lambda>(ops, _). list_all op_ok ops) turns" using "2.prems"(4) by simp
  from "2.IH" [OF s [symmetric] refl r(1) d(1) c' this] obtain xs rest where
    ih: "eb_rows bus' = eb_rows bus1 @ xs" "stored_ok bus'" "filter (in_domain domain) (after_cursor ?c' (eb_rows bus')) = concat pages1 @ rest"
      "turns \<noteq> [] \<and> length (last pages1) < page_size_of (snd (snd (last turns))) \<longrightarrow> rest = []"
    by blast
  have f: "filter (in_domain domain) (after_cursor c (eb_rows bus')) = page @ filter (in_domain domain) (after_cursor ?c' (eb_rows bus'))"
  proof (cases "page = []")
    case False
    then show ?thesis
      using next_cursor [OF d(1,3,4)] d(3) by (simp add: ih(1) after_cursor_append d(4) [symmetric])
        (metis append_take_drop_id d(4))
  qed simp
  have "rest = []" if "turns = []" "length page < page_size_of limit"
  proof -
    have "pages1 = []" "bus' = bus1" using r(1) that(1) by simp_all
    moreover have "filter (in_domain domain) (after_cursor c (eb_rows bus1)) = page"
      using d(4) that(2) by (metis append_Nil2 drop_eq_Nil2 append_take_drop_id length_take min_def nless_le take_all_iff)
    ultimately show ?thesis using f ih(3) by simp
  qed
  moreover have "length pages1 = length turns" using r(1) by (rule read_pages_length)
  ultimately have "length (last (page # pages1)) < page_size_of (snd (snd (last ((ops, io, limit) # turns)))) \<Longrightarrow> rest = []"
    using ih(4) by (cases turns; cases pages1) auto
  moreover have "\<exists>xs. eb_rows bus' = eb_rows bus @ xs" using ih(1) d(2) mid(2) by auto
  moreover have "filter (in_domain domain) (after_cursor c (eb_rows bus')) = concat (page # pages1) @ rest" by (simp add: f ih(3))
  ultimately show ?case using ih(2) unfolding r(2) by blast
qed

section \<open>The order of the table\<close>

lemma subseq_slice_last: "subseq (slice_last m xs) xs"
  by (auto simp: slice_last_def intro: suffix_imp_subseq suffix_drop)

lemma subseq_ids: "subseq xs ys \<Longrightarrow> distinct (map ev_event_id ys) \<Longrightarrow> distinct (map ev_event_id xs)"
  by (metis subseq_map subseq_conv_nths distinct_nthsI)

lemma subseq_insert_events: "subseq (fold insert_event es rows) (rows @ es)"
proof (induction es arbitrary: rows)
  case (Cons e es)
  have "subseq (insert_event e rows @ es) ((rows @ [e]) @ es)"
    by (intro list_emb_append_mono) (auto simp: insert_event_if)
  with Cons.IH [of "insert_event e rows"] show ?case by (auto intro: subseq_order.trans)
qed simp

lemma insert_events_ids: "ev_event_id ` set (fold insert_event es rows) = ev_event_id ` set (rows @ es)"
proof (induction es arbitrary: rows)
  case (Cons e es)
  have "ev_event_id ` set (insert_event e rows) = insert (ev_event_id e) (ev_event_id ` set rows)" by (auto simp: insert_event_if)
  with Cons.IH [of "insert_event e rows"] show ?case by (simp add: image_Un)
qed simp

lemma subseq_set_subset: "subseq xs ys \<Longrightarrow> set xs \<subseteq> set ys"
  by (metis set_nths_subset subseq_conv_nths)

text \<open>
  \<open>steps_to rows es cuts bus\<close>: the bus has come from the rows \<open>rows\<close> and the events \<open>es\<close>, which wait
  or are published one after the other; \<open>cuts\<close> are the ages before which rows were deleted.
\<close>

definition steps_to :: "event_envelope list \<Rightarrow> event_envelope list \<Rightarrow> string list \<Rightarrow> 'cb event_bus \<Rightarrow> bool" where
  "steps_to rows es cuts bus \<longleftrightarrow>
     subseq (eb_rows bus @ eb_pending bus) (rows @ es) \<and>
     (distinct (map ev_event_id rows) \<longrightarrow> distinct (map ev_event_id (eb_rows bus))) \<and>
     (int (length es) \<le> eb_max_buffer bus \<longrightarrow>
        length (eb_pending bus) \<le> length es \<and>
        (cuts = [] \<longrightarrow> fold insert_event (eb_pending bus) (eb_rows bus) = fold insert_event es rows) \<and>
        (\<forall>e \<in> set (rows @ es). (\<exists>r \<in> set (eb_rows bus @ eb_pending bus). ev_event_id r = ev_event_id e) \<or>
           (\<exists>y \<in> set (rows @ es). ev_event_id y = ev_event_id e \<and> (\<exists>c \<in> set cuts. ev_timestamp y < c))))"

lemma steps_to_refl: "steps_to (eb_rows bus) (eb_pending bus @ []) [] bus"
  by (auto simp: steps_to_def)

lemma steps_to_flush: "steps_to (eb_rows bus) (eb_pending bus) [] (snd (flush_pending io bus))"
proof -
  let ?all = "fold insert_event (eb_pending bus) (eb_rows bus)"
  have cover: "\<exists>r \<in> set ?all. ev_event_id r = ev_event_id e" if "e \<in> set (eb_rows bus @ eb_pending bus)" for e
  proof -
    have "ev_event_id e \<in> ev_event_id ` set ?all" unfolding insert_events_ids using that by (rule imageI)
    then show ?thesis by force
  qed
  show ?thesis
    unfolding steps_to_def flush_pending_def Let_def
    using subseq_insert_events [of "eb_pending bus" "eb_rows bus"] cover
    by (auto simp: insert_events_distinct list_emb_append_mono subseq_slice_last) (auto simp: slice_last_def)
qed

lemma steps_to_prune:
  assumes "steps_to rows es [] bus"
  shows "steps_to rows es [c] (prune_old_events io c bus)"
proof (cases "eb_open bus \<and> io_writes io")
  case True
  let ?kept = "filter (\<lambda>r. \<not> ev_timestamp r < c) (eb_rows bus)"
  have s: "subseq (eb_rows bus @ eb_pending bus) (rows @ es)" using assms by (simp add: steps_to_def)
  have "subseq (?kept @ eb_pending bus) (eb_rows bus @ eb_pending bus)" by (intro list_emb_append_mono) auto
  then have "subseq (?kept @ eb_pending bus) (rows @ es)" using s by (rule subseq_order.trans)
  moreover have "(\<exists>r \<in> set (?kept @ eb_pending bus). ev_event_id r = ev_event_id e) \<or>
      (\<exists>y \<in> set (rows @ es). ev_event_id y = ev_event_id e \<and> ev_timestamp y < c)"
    if fits: "int (length es) \<le> eb_max_buffer bus" and e: "e \<in> set (rows @ es)" for e
  proof -
    obtain r where r: "r \<in> set (eb_rows bus @ eb_pending bus)" "ev_event_id r = ev_event_id e"
      using assms fits e unfolding steps_to_def by auto
    have "r \<in> set (rows @ es)" using s r(1) by (meson subseq_set_subset subsetD)
    with r show ?thesis by (cases "ev_timestamp r < c") auto
  qed
  ultimately show ?thesis using assms True
    by (auto simp: steps_to_def prune_old_events_def distinct_map_filter)
next
  case False
  then show ?thesis using assms by (auto simp: steps_to_def prune_old_events_def)
qed

lemma bus_frame:
  "eb_max_buffer (run_bus_op returns x bus) = eb_max_buffer bus"
  "bm_events_dropped (eb_metrics (run_bus_op returns x bus)) = bm_events_dropped (eb_metrics bus)"
  by (cases x; auto simp: flush_pending_def prune_old_events_def subscribe_def unsubscribe_def bus_shutdown_def Let_def split: option.split)+

lemma steps_to_same:
  "steps_to rows es cuts bus \<Longrightarrow> eb_rows bus' = eb_rows bus \<Longrightarrow> eb_pending bus' = eb_pending bus \<Longrightarrow>
     eb_max_buffer bus' = eb_max_buffer bus \<Longrightarrow> steps_to rows es cuts bus'"
  by (simp add: steps_to_def)

text \<open>One operation on the rows and what waits for them\<close>

lemma run_op_order: "steps_to (eb_rows bus) (eb_pending bus @ published [x]) (cutoffs [x]) (run_bus_op returns x bus)"
proof (cases x)
  case (Publish e)
  then show ?thesis by (auto simp: steps_to_def cutoffs_def)
next
  case (Flush io)
  then show ?thesis using steps_to_flush [of bus io] by (simp add: cutoffs_def)
next
  case (Shutdown io)
  then show ?thesis using steps_to_flush [of bus io] by (auto simp: cutoffs_def bus_shutdown_def intro: steps_to_same)
next
  case (Worker io io' c)
  then show ?thesis using steps_to_prune [OF steps_to_flush] by (simp add: cutoffs_def)
qed (auto simp: cutoffs_def subscribe_def unsubscribe_def Let_def intro!: steps_to_same [OF steps_to_refl [simplified]] split: option.split)

lemma steps_to_trans:
  assumes one: "steps_to rows es1 cuts1 mid" and two: "steps_to (eb_rows mid) (eb_pending mid @ es2) cuts2 bus"
    and buffer: "eb_max_buffer mid = eb_max_buffer bus"
  shows "steps_to rows (es1 @ es2) (cuts1 @ cuts2) bus"
proof -
  let ?all = "rows @ es1 @ es2"
  have s1: "subseq (eb_rows mid @ eb_pending mid) (rows @ es1)" using one by (simp add: steps_to_def)
  have mid: "subseq (eb_rows mid @ eb_pending mid @ es2) ?all"
    using list_emb_append_mono [OF s1 subseq_order.refl [of es2]] by simp
  have order: "subseq (eb_rows bus @ eb_pending bus) ?all"
    using two mid unfolding steps_to_def by (auto intro: subseq_order.trans)
  have fits: "length (eb_pending bus) \<le> length (es1 @ es2) \<and>
      (cuts1 @ cuts2 = [] \<longrightarrow> fold insert_event (eb_pending bus) (eb_rows bus) = fold insert_event (es1 @ es2) rows) \<and>
      (\<forall>e \<in> set ?all. (\<exists>r \<in> set (eb_rows bus @ eb_pending bus). ev_event_id r = ev_event_id e) \<or>
         (\<exists>y \<in> set ?all. ev_event_id y = ev_event_id e \<and> (\<exists>c \<in> set (cuts1 @ cuts2). ev_timestamp y < c)))"
    if room: "int (length (es1 @ es2)) \<le> eb_max_buffer bus"
  proof -
    have o1: "length (eb_pending mid) \<le> length es1" "cuts1 = [] \<longrightarrow> fold insert_event (eb_pending mid) (eb_rows mid) = fold insert_event es1 rows"
      "\<And>e. e \<in> set (rows @ es1) \<Longrightarrow> (\<exists>r \<in> set (eb_rows mid @ eb_pending mid). ev_event_id r = ev_event_id e) \<or>
        (\<exists>y \<in> set (rows @ es1). ev_event_id y = ev_event_id e \<and> (\<exists>c \<in> set cuts1. ev_timestamp y < c))"
      using one room unfolding steps_to_def buffer by auto
    have room2: "int (length (eb_pending mid @ es2)) \<le> eb_max_buffer bus" using room o1(1) by simp
    have o2: "length (eb_pending bus) \<le> length (eb_pending mid @ es2)"
      "cuts2 = [] \<longrightarrow> fold insert_event (eb_pending bus) (eb_rows bus) = fold insert_event (eb_pending mid @ es2) (eb_rows mid)"
      "\<And>e. e \<in> set (eb_rows mid @ eb_pending mid @ es2) \<Longrightarrow> (\<exists>r \<in> set (eb_rows bus @ eb_pending bus). ev_event_id r = ev_event_id e) \<or>
        (\<exists>y \<in> set (eb_rows mid @ eb_pending mid @ es2). ev_event_id y = ev_event_id e \<and> (\<exists>c \<in> set cuts2. ev_timestamp y < c))"
      using two room2 unfolding steps_to_def by auto
    have sub: "set (eb_rows mid @ eb_pending mid @ es2) \<subseteq> set ?all" using mid by (rule subseq_set_subset)
    have later: "(\<exists>r \<in> set (eb_rows bus @ eb_pending bus). ev_event_id r = ev_event_id e) \<or>
         (\<exists>y \<in> set ?all. ev_event_id y = ev_event_id e \<and> (\<exists>c \<in> set (cuts1 @ cuts2). ev_timestamp y < c))"
      if "x \<in> set (eb_rows mid @ eb_pending mid @ es2)" "ev_event_id x = ev_event_id e" for x e
      using o2(3) [OF that(1)]
    proof
      assume "\<exists>y \<in> set (eb_rows mid @ eb_pending mid @ es2). ev_event_id y = ev_event_id x \<and> (\<exists>c \<in> set cuts2. ev_timestamp y < c)"
      then obtain y c where y: "y \<in> set (eb_rows mid @ eb_pending mid @ es2)" "ev_event_id y = ev_event_id x" "c \<in> set cuts2" "ev_timestamp y < c"
        by blast
      have "y \<in> set ?all" using sub y(1) by (rule subsetD)
      moreover have "c \<in> set (cuts1 @ cuts2)" using y(3) by simp
      ultimately show ?thesis using y(2,4) that(2) by metis
    qed (simp add: that(2))
    have "(\<exists>r \<in> set (eb_rows bus @ eb_pending bus). ev_event_id r = ev_event_id e) \<or>
         (\<exists>y \<in> set ?all. ev_event_id y = ev_event_id e \<and> (\<exists>c \<in> set (cuts1 @ cuts2). ev_timestamp y < c))"
      if "e \<in> set ?all" for e
    proof (cases "e \<in> set es2")
      case True
      then show ?thesis by (intro later [of e]) auto
    next
      case False
      with that have "e \<in> set (rows @ es1)" by auto
      from o1(3) [OF this] show ?thesis
      proof
        assume "\<exists>r \<in> set (eb_rows mid @ eb_pending mid). ev_event_id r = ev_event_id e"
        then show ?thesis using later by auto
      qed auto
    qed
    with o1(1,2) o2(1,2) show ?thesis by auto
  qed
  have "distinct (map ev_event_id rows) \<longrightarrow> distinct (map ev_event_id (eb_rows bus))"
    using one two unfolding steps_to_def by blast
  with order fits show ?thesis unfolding steps_to_def by simp
qed

lemma run_bus_order:
  "steps_to (eb_rows bus) (eb_pending bus @ published ops) (cutoffs ops) (run_bus returns ops bus) \<and>
   eb_max_buffer (run_bus returns ops bus) = eb_max_buffer bus \<and>
   bm_events_dropped (eb_metrics (run_bus returns ops bus)) = bm_events_dropped (eb_metrics bus)"
proof (induction ops arbitrary: bus)
  case Nil
  then show ?case using steps_to_refl [of bus] by (simp add: cutoffs_def)
next
  case (Cons x ops)
  let ?mid = "run_bus_op returns x bus"
  have "steps_to (eb_rows bus) ((eb_pending bus @ published [x]) @ published ops) (cutoffs [x] @ cutoffs ops) (run_bus returns ops ?mid)"
    by (rule steps_to_trans [OF run_op_order]) (use Cons [of ?mid] in simp_all)
  with Cons [of ?mid] show ?case by (simp add: sequences_Cons [of x ops] bus_frame)
qed

section \<open>The filter of the stream\<close>

lemma py_replace_char: "py_replace [c] r s = concat (map (\<lambda>x. if x = c then r else [x]) s)"
proof (induction s)
  case (Cons x s)
  then show ?case by (subst py_replace.simps) (simp add: startswith_def)
qed simp

fun escaped :: "char \<Rightarrow> string" where
  "escaped c = (if c \<in> {CHR 0x5C, CHR ''%'', CHR ''_''} then [CHR 0x5C, c] else [c])"

lemma like_escape_map: "like_escape s = concat (map escaped s)"
proof (induction s)
  case (Cons c s)
  then show ?case unfolding like_escape_def py_replace_char by auto
qed (simp add: like_escape_def)

lemma sql_like_escaped_char:
  "sql_like (Some (CHR 0x5C)) (escaped c @ ps) s =
     (case s of [] \<Rightarrow> False | x # xs \<Rightarrow> ascii_fold c = ascii_fold x \<and> sql_like (Some (CHR 0x5C)) ps xs)"
  by (cases s; cases "c = CHR 0x5C"; cases "c = CHR ''%''"; cases "c = CHR ''_''") simp_all

lemma sql_like_escaped:
  "sql_like (Some (CHR 0x5C)) (concat (map escaped d) @ ps) s \<longleftrightarrow>
     length d \<le> length s \<and> map ascii_fold (take (length d) s) = map ascii_fold d \<and>
     sql_like (Some (CHR 0x5C)) ps (drop (length d) s)"
proof (induction d arbitrary: s)
  case (Cons c d)
  show ?case by (cases s) (auto simp: sql_like_escaped_char Cons.IH simp del: sql_like.simps escaped.simps)
qed simp

lemma sql_like_dot: "sql_like (Some (CHR 0x5C)) ''.%'' s \<longleftrightarrow> (\<exists>xs. s = CHR ''.'' # xs)"
proof (cases s)
  case (Cons x xs)
  have "ascii_fold (CHR ''.'') = ascii_fold x \<longleftrightarrow> x = CHR ''.''"
  proof (cases "(65 :: nat) \<le> of_char x \<and> of_char x \<le> (90 :: nat)")
    case True
    then have "of_char (ascii_fold x) = (of_char x + 32 :: nat)" by (simp add: ascii_fold_def)
    moreover have "of_char (ascii_fold (CHR ''.'')) = (46 :: nat)" by (simp add: ascii_fold_def)
    ultimately show ?thesis using True by auto
  next
    case False
    then have "ascii_fold x = x" by (simp only: ascii_fold_def if_False)
    then show ?thesis by (auto simp: ascii_fold_def)
  qed
  moreover have "list_ex (sql_like (Some (CHR 0x5C)) []) (suffixes xs)" by (induction xs) (auto simp: list_ex_iff)
  ultimately show ?thesis by (auto simp: Cons list_ex_iff)
qed simp

text \<open>With the escape, the domain is what the events of the domain begin with, in either case of letters.\<close>

lemma in_domain_prefix:
  "in_domain d e \<longleftrightarrow> d = [] \<or>
     (\<exists>xs ys. ev_event_type e = xs @ CHR ''.'' # ys \<and> map ascii_fold xs = map ascii_fold d)"
proof (cases "d = []")
  case False
  then have "in_domain d e \<longleftrightarrow> length d \<le> length (ev_event_type e) \<and>
      map ascii_fold (take (length d) (ev_event_type e)) = map ascii_fold d \<and> (\<exists>xs. drop (length d) (ev_event_type e) = CHR ''.'' # xs)"
    by (simp only: in_domain_def like_escape_map sql_like_escaped sql_like_dot simp_thms)
  also have "\<dots> \<longleftrightarrow> (\<exists>xs ys. ev_event_type e = xs @ CHR ''.'' # ys \<and> map ascii_fold xs = map ascii_fold d)"
  proof
    assume "\<exists>xs ys. ev_event_type e = xs @ CHR ''.'' # ys \<and> map ascii_fold xs = map ascii_fold d"
    then obtain xs ys where "ev_event_type e = xs @ CHR ''.'' # ys" "map ascii_fold xs = map ascii_fold d" by blast
    moreover from this(2) have "length xs = length d" by (rule map_eq_imp_length_eq)
    ultimately show "length d \<le> length (ev_event_type e) \<and>
      map ascii_fold (take (length d) (ev_event_type e)) = map ascii_fold d \<and> (\<exists>xs. drop (length d) (ev_event_type e) = CHR ''.'' # xs)"
      by auto
  qed (metis append_take_drop_id)
  finally show ?thesis using False by simp
qed (simp add: in_domain_def)

lemma card_filter_one: "distinct (map f xs) \<Longrightarrow> y \<in> f ` set xs \<Longrightarrow> length (filter (\<lambda>x. f x = y) xs) = 1"
proof (induction xs)
  case (Cons x xs)
  show ?case
  proof (cases "f x = y")
    case True
    with Cons.prems have "filter (\<lambda>x. f x = y) xs = []" unfolding filter_empty_conv by (metis distinct.simps(2) imageI list.set_map list.simps(9))
    with True show ?thesis by simp
  next
    case False
    with Cons show ?thesis by auto
  qed
qed simp

section \<open>The properties\<close>

text \<open>
  C31: Pages continue each other. A reader that always passes on the last event it has read gets, over
  any operations of others in between except the pruning by the worker and any limits, exactly the events of the domain behind its
  first cursor, in the order of the table, each once and without a gap; a last page shorter than its
  limit means that there are no more.
\<close>

theorem stream_pages_are_complete:
  assumes "read_pages returns domain turns c bus = Some (pages, bus')" "turns \<noteq> []"
    and "stored_ok bus" "c \<in> ev_event_id ` set (eb_rows bus)" "list_all (\<lambda>(ops, _). list_all op_ok ops) turns"
  shows "\<exists>rest. filter (in_domain domain) (after_cursor c (eb_rows bus')) = concat pages @ rest \<and>
      distinct (map ev_event_id (concat pages)) \<and>
      (length (last pages) < page_size_of (snd (snd (last turns))) \<longrightarrow> rest = [])"
proof -
  from read_pages_prefix [OF assms(1,3,4,5)] assms(2) obtain rest where
    r: "filter (in_domain domain) (after_cursor c (eb_rows bus')) = concat pages @ rest" "stored_ok bus'"
      "length (last pages) < page_size_of (snd (snd (last turns))) \<longrightarrow> rest = []"
    by blast
  have "subseq (concat pages) (eb_rows bus')"
  proof -
    have "subseq (concat pages) (after_cursor c (eb_rows bus'))"
      using subseq_filter_left [of "in_domain domain" "after_cursor c (eb_rows bus')"] unfolding r(1) by (metis prefixI prefix_imp_subseq subseq_order.trans)
    moreover have "suffix (after_cursor c (eb_rows bus')) (eb_rows bus')"
      unfolding after_cursor_def by (meson suffix_dropWhile suffix_order.trans suffix_tl)
    ultimately show ?thesis by (meson subseq_order.trans suffix_imp_subseq)
  qed
  then have "distinct (map ev_event_id (concat pages))" using r(2) subseq_ids unfolding stored_ok_def by blast
  with r show ?thesis by blast
qed

text \<open>
  C32: Events are stored once and in order. Whatever the listeners do, however often the database
  fails, whenever the worker prunes and the bus is shut down, and also when identifiers are published
  again: no two rows have the same identifier, and the rows of the table and after them what still
  waits are a subsequence of the old rows, what waited, and what was published. If all that waited and
  was published fits into the buffer, nothing is lost: for every event a row or a waiting event with its
  identifier is there, unless an event with this identifier was older than what a turn of the worker
  deletes; and without such turns the rows, once what waits is stored too, are the old ones and then
  the first event of each new identifier. What is lost beyond the buffer is counted nowhere.
\<close>

theorem events_stored_in_order:
  assumes "distinct (map ev_event_id (eb_rows bus))"
  shows "let bus' = run_bus returns ops bus; kept = eb_rows bus' @ eb_pending bus'; new = eb_pending bus @ published ops in
    distinct (map ev_event_id (eb_rows bus')) \<and> subseq kept (eb_rows bus @ new) \<and>
    (int (length new) \<le> eb_max_buffer bus \<longrightarrow>
      (\<forall>e \<in> set (eb_rows bus @ new). (\<exists>r \<in> set kept. ev_event_id r = ev_event_id e) \<or>
         (\<exists>y \<in> set (eb_rows bus @ new). ev_event_id y = ev_event_id e \<and> (\<exists>c \<in> set (cutoffs ops). ev_timestamp y < c))) \<and>
      (cutoffs ops = [] \<longrightarrow> fold insert_event (eb_pending bus') (eb_rows bus') = fold insert_event new (eb_rows bus))) \<and>
    bm_events_dropped (eb_metrics bus') = bm_events_dropped (eb_metrics bus)"
proof -
  define bus' where "bus' = run_bus returns ops bus"
  have s: "steps_to (eb_rows bus) (eb_pending bus @ published ops) (cutoffs ops) bus'" "eb_max_buffer bus' = eb_max_buffer bus"
    "bm_events_dropped (eb_metrics bus') = bm_events_dropped (eb_metrics bus)"
    using run_bus_order [of bus ops returns] by (simp_all add: bus'_def)
  show ?thesis
    using s(1) [unfolded steps_to_def s(2)] s(3) assms unfolding Let_def bus'_def [symmetric] by blast
qed

definition demo_event :: "string \<Rightarrow> string \<Rightarrow> event_envelope" where
  "demo_event i t = \<lparr>ev_event_id = i, ev_event_type = t, ev_source = ''s'', ev_timestamp = ''t'', ev_payload = [], ev_metadata = []\<rparr>"

definition demo_bus :: "string event_bus" where
  "demo_bus = new_bus ''w'' 100 32 [demo_event ''a'' ''x.1'']"

definition all_io :: bus_io where
  "all_io = \<lparr>io_opens = True, io_writes = True, io_reads = True\<rparr>"

theorem events_stored_in_order_witness:
  "(let bus' = run_bus (\<lambda>_ _. True) [Publish (demo_event ''b'' ''x.2''), Flush all_io, Publish (demo_event ''b'' ''x.3'')] demo_bus in
    map ev_event_type (fold insert_event (eb_pending bus') (eb_rows bus'))) = [''x.1'', ''x.2'']"
proof -
  let ?ops = "[Publish (demo_event ''b'' ''x.2''), Flush all_io, Publish (demo_event ''b'' ''x.3'')]"
  define bus' where "bus' = run_bus (\<lambda>_ _. True) ?ops demo_bus"
  have e: "eb_pending demo_bus = []" "eb_rows demo_bus = [demo_event ''a'' ''x.1'']" "eb_max_buffer demo_bus = 100"
    by (simp_all add: demo_bus_def new_bus_def)
  have "distinct (map ev_event_id (eb_rows demo_bus))" by (simp add: e)
  from events_stored_in_order [OF this, of "\<lambda>_ _. True" ?ops]
  have "fold insert_event (eb_pending bus') (eb_rows bus') =
      fold insert_event [demo_event ''b'' ''x.2'', demo_event ''b'' ''x.3''] [demo_event ''a'' ''x.1'']"
    unfolding Let_def bus'_def [symmetric] by (simp add: e cutoffs_def)
  also have "\<dots> = [demo_event ''a'' ''x.1'', demo_event ''b'' ''x.2'']"
    by (simp add: insert_event_if) (simp add: demo_event_def)
  finally show ?thesis unfolding Let_def bus'_def [symmetric] by (simp add: demo_event_def)
qed

text \<open>
  Repeated events are not recognised before the table. An event that is published twice under one
  identifier reaches every listener twice; only the table keeps one row of it, while both count as
  persisted.
\<close>

lemma repeated_event_delivered_twice:
  assumes "stored_ok bus" "io_opens io" "io_writes io"
  shows "let bus' = run_bus returns [Publish e, Publish e, Flush io] bus in
    bm_listener_calls (eb_metrics bus') =
      bm_listener_calls (eb_metrics bus) + 2 * int (length (filter (\<lambda>cb. returns cb e) (recipients bus (ev_event_type e)))) \<and>
    length (filter (\<lambda>r. ev_event_id r = ev_event_id e) (eb_rows bus')) = 1 \<and>
    bm_events_persisted (eb_metrics bus') = bm_events_persisted (eb_metrics bus) + int (length (eb_pending bus)) + 2"
proof -
  let ?twice = "run_bus returns [Publish e, Publish e] bus"
  let ?bus = "snd (flush_pending io ?twice)"
  have f: "eb_rows ?bus = fold insert_event (eb_pending bus @ [e, e]) (eb_rows bus)"
    "bm_listener_calls (eb_metrics ?bus) = bm_listener_calls (eb_metrics ?twice)"
    "bm_events_persisted (eb_metrics ?bus) = bm_events_persisted (eb_metrics ?twice) + int (length (eb_pending bus)) + 2"
    using assms(2,3) by (simp_all add: flush_pending_def Let_def ensure_db_def)
  have m: "bm_listener_calls (eb_metrics ?twice) =
      bm_listener_calls (eb_metrics bus) + 2 * int (length (filter (\<lambda>cb. returns cb e) (recipients bus (ev_event_type e))))"
    "bm_events_persisted (eb_metrics ?twice) = bm_events_persisted (eb_metrics bus)"
    by (simp_all add: publish_calls recipients_def) (simp add: publish_def notify_subscribers_def fold_calls note_event_def)
  let ?rows = "fold insert_event (eb_pending bus @ [e, e]) (eb_rows bus)"
  have "distinct (map ev_event_id ?rows)"
    using assms(1) unfolding stored_ok_def by (intro insert_events_distinct) simp
  moreover have "ev_event_id e \<in> ev_event_id ` set ?rows" by (simp add: insert_event_if)
  ultimately have "length (filter (\<lambda>r. ev_event_id r = ev_event_id e) ?rows) = 1"
    by (rule card_filter_one)
  moreover have "run_bus returns [Publish e, Publish e, Flush io] bus = ?bus" by simp
  ultimately show ?thesis unfolding Let_def f m by (simp only: f m simp_thms)
qed

lemma repeated_event_delivered_twice_witness:
  "bm_listener_calls (eb_metrics (run_bus (\<lambda>_ _. True) [Publish (demo_event ''b'' ''x.2''), Publish (demo_event ''b'' ''x.2''), Flush all_io]
     (subscribe ''x.*'' ''cb'' demo_bus))) = 2"
proof -
  let ?bus = "subscribe ''x.*'' ''cb'' demo_bus"
  have s: "eb_subscriptions ?bus = [(''x.*'', [''cb''])]" "eb_rows ?bus = [demo_event ''a'' ''x.1'']" "eb_pending ?bus = []"
      "bm_listener_calls (eb_metrics ?bus) = 0"
    by (simp_all add: subscribe_def demo_bus_def new_bus_def dict_get_or_def dict_set_def Let_def)
  have "recipients ?bus ''x.2'' = [''cb'']"
    by (simp add: recipients_def s pattern_matches_def endswith_def startswith_def Let_def)
  moreover have "ev_event_type (demo_event ''b'' ''x.2'') = ''x.2''" by (simp add: demo_event_def)
  moreover have "stored_ok ?bus" by (simp add: stored_ok_def s demo_event_def)
  ultimately show ?thesis
    using repeated_event_delivered_twice [of ?bus all_io "\<lambda>_ _. True" "demo_event ''b'' ''x.2''"]
    by (simp add: s all_io_def Let_def del: run_bus_simps)
qed

theorem stream_pages_are_complete_witness:
  "\<exists>pages bus'. read_pages (\<lambda>_ _. True) ''x'' [([Publish (demo_event ''b'' ''x.2'')], all_io, 5)] ''a'' demo_bus = Some (pages, bus') \<and>
     map (map ev_event_id) pages = [[''b'']] \<and>
     (\<exists>rest. filter (in_domain ''x'') (after_cursor ''a'' (eb_rows bus')) = concat pages @ rest)"
proof -
  let ?turns = "[([Publish (demo_event ''b'' ''x.2'')], all_io, 5)]"
  have "map_option (map (map ev_event_id) \<circ> fst) (read_pages (\<lambda>_ _. True) ''x'' ?turns ''a'' demo_bus) = Some [[''b'']]" by code_simp
  then obtain pages bus' where r: "read_pages (\<lambda>_ _. True) ''x'' ?turns ''a'' demo_bus = Some (pages, bus')"
      "map (map ev_event_id) pages = [[''b'']]"
    by (auto simp: comp_def)
  have "stored_ok demo_bus" "''a'' \<in> ev_event_id ` set (eb_rows demo_bus)" "list_all (\<lambda>(ops, _). list_all op_ok ops) ?turns"
    by (simp_all add: stored_ok_def demo_bus_def new_bus_def demo_event_def)
  then have "\<exists>rest. filter (in_domain ''x'') (after_cursor ''a'' (eb_rows bus')) = concat pages @ rest"
    using stream_pages_are_complete [OF r(1)] by blast
  with r show ?thesis by (intro exI [of _ pages] exI [of _ bus'] conjI)
qed

end
