(* ===== verification/Agent_Plan.thy ===== *)
theory Agent_Plan
  imports Workflow_Compiler
begin

text \<open>
  Task plans of the intelligence layer (\<open>nous_runtime/intelligence/planning/\<close>): the models, the two
  deterministic planners, and the bridge that compiles a plan into a workflow definition, which the
  compiler of workflows then validates. The analysis of a task is the record the planners read
  (\<open>intelligence/task/models.py\<close>). \<open>CapabilityError\<close> is \<open>RuntimeError\<close> here.
\<close>

section \<open>Models\<close>

record task_analysis =
  ta_task_id :: string
  ta_task_type :: string
  ta_complexity :: string
  ta_required_capabilities :: "string list"
  ta_constraints :: jobj
  ta_needs_tools :: bool
  ta_needs_plan :: bool
  ta_needs_web :: bool
  ta_needs_workspace :: bool
  ta_needs_environment :: bool
  ta_candidate_skills :: "string list"
  ta_missing_context :: "string list"
  ta_risk_class :: string
  ta_metadata :: jobj

record plan_step =
  pn_step_id :: string
  pn_name :: string
  pn_capability :: string
  pn_metadata :: jobj

definition plan_step_to_dict :: "plan_step \<Rightarrow> jobj" where
  "plan_step_to_dict s =
     [(''step_id'', JStr (pn_step_id s)), (''name'', JStr (pn_name s)), (''capability'', JStr (pn_capability s)),
      (''metadata'', JObj (pn_metadata s))]"

record task_plan =
  tp_task_id :: string
  tp_steps :: "plan_step list"
  tp_dependencies :: "(string, string list) dict"
  tp_metadata :: jobj
  tp_plan_id :: string

definition tplan_post_init :: "task_plan \<Rightarrow> pyexn + task_plan" where
  "tplan_post_init p =
     (let known = set (map pn_step_id (tp_steps p)) in
      if \<exists>(i, requirements) \<in> set (tp_dependencies p). i \<notin> known \<or> (\<exists>r \<in> set requirements. r \<notin> known)
      then Inl (RuntimeError ''plan dependencies must reference existing steps'') else Inr p)"

definition task_plan_to_dict :: "task_plan \<Rightarrow> jobj" where
  "task_plan_to_dict p =
     [(''plan_id'', JStr (tp_plan_id p)), (''task_id'', JStr (tp_task_id p)),
      (''steps'', JList (map (JObj \<circ> plan_step_to_dict) (tp_steps p))),
      (''dependencies'', JObj (map (\<lambda>(k, v). (k, jstrs v)) (tp_dependencies p))),
      (''metadata'', JObj (tp_metadata p))]"

section \<open>The planners\<close>

definition execute_id :: "nat \<Rightarrow> string" where
  "execute_id n = ''execute_'' @ show_nat n"

definition work_step :: "nat \<Rightarrow> string \<Rightarrow> jobj \<Rightarrow> plan_step" where
  "work_step n capability metadata =
     \<lparr>pn_step_id = execute_id n, pn_name = ''Execute '' @ capability @ '' work'', pn_capability = capability, pn_metadata = metadata\<rparr>"

definition analyze_step :: plan_step where
  "analyze_step = \<lparr>pn_step_id = ''analyze'', pn_name = ''Confirm task requirements'', pn_capability = ''reasoning'', pn_metadata = []\<rparr>"

definition verify_step :: "string \<Rightarrow> plan_step" where
  "verify_step name = \<lparr>pn_step_id = ''verify'', pn_name = name, pn_capability = ''evaluation'', pn_metadata = []\<rparr>"

text \<open>\<open>TaskPlanner.generate\<close>: a chain\<close>

fun chain_steps :: "string \<Rightarrow> nat \<Rightarrow> string list \<Rightarrow> plan_step list \<times> (string, string list) dict \<times> string" where
  "chain_steps previous n [] = ([], [], previous)"
| "chain_steps previous n (c # cs) =
     (let (steps, deps, last_id) = chain_steps (execute_id n) (Suc n) cs
      in (work_step n c [] # steps, (execute_id n, [previous]) # deps, last_id))"

definition chain_plan :: "string \<Rightarrow> task_analysis \<Rightarrow> pyexn + task_plan" where
  "chain_plan plan_id a =
     (let (steps, deps, last_id) = chain_steps ''analyze'' 1 (ta_required_capabilities a) in
      tplan_post_init
        \<lparr>tp_task_id = ta_task_id a, tp_steps = analyze_step # steps @ [verify_step ''Verify execution result''],
         tp_dependencies = deps @ [(''verify'', [last_id])],
         tp_metadata = [(''task_type'', JStr (ta_task_type a)), (''complexity'', JStr (ta_complexity a))],
         tp_plan_id = plan_id\<rparr>)"

text \<open>\<open>ParallelTaskPlanner.generate\<close>: analysis, the work in parallel, verification\<close>

definition parallel_plan :: "string \<Rightarrow> task_analysis \<Rightarrow> pyexn + task_plan" where
  "parallel_plan plan_id a =
     (let cs = (if ta_required_capabilities a = [] then [''reasoning''] else ta_required_capabilities a);
          work = map (\<lambda>(n, c). work_step n c [(''retries'', JInt 1), (''timeout_seconds'', JInt 60)]) (zip [1..<Suc (length cs)] cs)
      in tplan_post_init
        \<lparr>tp_task_id = ta_task_id a, tp_steps = analyze_step # work @ [verify_step ''Verify, score, and accept execution result''],
         tp_dependencies = map (\<lambda>s. (pn_step_id s, [''analyze''])) work @ [(''verify'', map pn_step_id work)],
         tp_metadata = [(''task_type'', JStr (ta_task_type a)), (''complexity'', JStr (ta_complexity a)),
           (''execution_mode'', JStr ''parallel_dag'')],
         tp_plan_id = plan_id\<rparr>)"

section \<open>The bridge to workflows\<close>

definition plan_step_type :: "string \<Rightarrow> step_type" where
  "plan_step_type capability =
     (if capability = ''governance.approval'' then ST_APPROVAL
      else if capability = ''workflow.wait'' then ST_WAIT
      else if capability = ''workflow.transform'' then ST_TRANSFORM
      else ST_CAPABILITY)"

definition bridge_step :: "task_plan \<Rightarrow> plan_step \<Rightarrow> pyexn + workflow_step" where
  "bridge_step p s =
     bindE (rd_int (pn_metadata s) ''retries'' 0) (\<lambda>retries.
     bindE (rd_float (pn_metadata s) ''timeout_seconds'' 60) (\<lambda>timeout.
       Inr \<lparr>ws_step_id = pn_step_id s, ws_step_type = plan_step_type (pn_capability s), ws_action = pn_capability s,
         ws_depends_on = dict_get_or (tp_dependencies p) (pn_step_id s) [], ws_condition = [],
         ws_retries = max 0 (min 10 retries), ws_timeout_seconds = max (1 / 1000) timeout,
         ws_approval_required = rd_bool (pn_metadata s) ''approval_required'' False, ws_compensation = [],
         ws_params = fold (\<lambda>(k, v). dict_set k v) (pn_metadata s) [(''name'', JStr (pn_name s))],
         ws_data_bindings = JNull\<rparr>))"

definition bridge_compile :: "task_plan \<Rightarrow> pyexn + workflow_definition" where
  "bridge_compile p =
     bindE (mapE (bridge_step p) (tp_steps p)) (\<lambda>steps.
       Inr \<lparr>wd_workflow_id = ''task-plan-'' @ tp_plan_id p, wd_version = ''1'', wd_trigger = TR_MANUAL, wd_steps = steps,
         wd_inputs_schema = [], wd_outputs_schema = [],
         wd_audit_metadata = fold (\<lambda>(k, v). dict_set k v) (tp_metadata p)
           [(''task_id'', JStr (tp_task_id p)), (''plan_id'', JStr (tp_plan_id p))]\<rparr>)"

section \<open>What the bridge keeps\<close>

lemma bridge_stepD:
  assumes "bridge_step p s = Inr w"
  shows "ws_step_id w = pn_step_id s" "ws_action w = pn_capability s" "ws_depends_on w = dict_get_or (tp_dependencies p) (pn_step_id s) []"
    "0 \<le> ws_retries w" "ws_retries w \<le> 10" "0 < ws_timeout_seconds w" "ws_data_bindings w = JNull"
    "ws_step_type w = plan_step_type (pn_capability s)"
  using assms by (auto simp: bridge_step_def bindE_eq_Inr)

lemma bridge_compileD:
  assumes "bridge_compile p = Inr d"
  shows "list_all2 (\<lambda>s w. bridge_step p s = Inr w) (tp_steps p) (wd_steps d)" "map ws_step_id (wd_steps d) = map pn_step_id (tp_steps p)"
    "wd_workflow_id d \<noteq> []" "wd_version d = ''1''" "wd_inputs_schema d = []" "wd_outputs_schema d = []"
proof -
  show all: "list_all2 (\<lambda>s w. bridge_step p s = Inr w) (tp_steps p) (wd_steps d)"
    using assms by (auto simp: bridge_compile_def bindE_eq_Inr mapE_Inr_iff)
  then show "map ws_step_id (wd_steps d) = map pn_step_id (tp_steps p)"
    by (induction rule: list_all2_induct) (simp_all add: bridge_stepD)
qed (use assms in \<open>auto simp: bridge_compile_def bindE_eq_Inr\<close>)

definition plan_edges :: "task_plan \<Rightarrow> (string \<times> string) set" where
  "plan_edges p = {(i, r). i \<in> set (map pn_step_id (tp_steps p)) \<and> r \<in> set (dict_get_or (tp_dependencies p) i [])}"

text \<open>The compiled plan is a valid workflow exactly if the plan is a graph of named work.\<close>

lemma bridge_valid:
  assumes c: "bridge_compile p = Inr d" and init: "tplan_post_init p = Inr p"
  shows "validate L d = Inr () \<longleftrightarrow>
    distinct (map pn_step_id (tp_steps p)) \<and> [] \<notin> set (map pn_step_id (tp_steps p)) \<and>
    [] \<notin> set (map pn_capability (tp_steps p)) \<and> acyclic (plan_edges p)"
proof -
  note D = bridge_compileD [OF c]
  define ids where "ids = set (map pn_step_id (tp_steps p))"
  define needs where "needs i = dict_get_or (tp_dependencies p) i []" for i
  have deps: "set (needs i) \<subseteq> ids" for i
  proof -
    have "\<forall>(k, rs) \<in> set (tp_dependencies p). set rs \<subseteq> ids"
      using init unfolding tplan_post_init_def Let_def ids_def by (auto split: if_split_asm)
    then show ?thesis
      by (cases "dict_get (tp_dependencies p) i") (auto simp: needs_def dict_get_or_def dest!: dict_get_in)
  qed
  have rows: "map (\<lambda>w. (ws_step_id w, ws_depends_on w, step_valid L ids w)) (wd_steps d) =
      map (\<lambda>s. (pn_step_id s, needs (pn_step_id s), pn_capability s \<noteq> [] \<and> pn_step_id s \<notin> set (needs (pn_step_id s)))) (tp_steps p)"
    using D(1)
  proof (induction rule: list_all2_induct)
    case (Cons s ss w ws)
    have "step_valid L ids w \<longleftrightarrow> pn_capability s \<noteq> [] \<and> pn_step_id s \<notin> set (needs (pn_step_id s))"
      using bridge_stepD [OF Cons(1)] deps [of "pn_step_id s"]
      by (auto simp: step_valid_def validate_step_bindings_def plan_step_type_def needs_def)
    then show ?case using Cons.IH bridge_stepD(1,3) [OF Cons(1)] by (simp add: needs_def)
  qed simp
  have "depends (wd_steps d) = {(a, b). \<exists>(i, ds, ok) \<in> set (map (\<lambda>w. (ws_step_id w, ws_depends_on w, step_valid L ids w)) (wd_steps d)). a = i \<and> b \<in> set ds}"
    by (auto simp: depends_def)
  also have "\<dots> = plan_edges p" unfolding rows by (auto simp: plan_edges_def needs_def)
  finally have edges: "depends (wd_steps d) = plan_edges p" .
  have "(\<forall>w \<in> set (wd_steps d). step_valid L ids w) \<longleftrightarrow>
      (\<forall>(i, ds, ok) \<in> set (map (\<lambda>w. (ws_step_id w, ws_depends_on w, step_valid L ids w)) (wd_steps d)). ok)"
    by auto
  also have "\<dots> \<longleftrightarrow> [] \<notin> set (map pn_capability (tp_steps p)) \<and> (\<forall>i \<in> ids. i \<notin> set (needs i))"
    unfolding rows by (auto simp: ids_def image_iff)
  finally have valid: "(\<forall>w \<in> set (wd_steps d). step_valid L ids w) \<longleftrightarrow>
      [] \<notin> set (map pn_capability (tp_steps p)) \<and> (\<forall>i \<in> ids. i \<notin> set (needs i))" .
  have "acyclic (plan_edges p) \<Longrightarrow> \<forall>i \<in> ids. i \<notin> set (needs i)"
    unfolding plan_edges_def acyclic_def ids_def needs_def by (auto dest!: r_into_trancl')
  then show ?thesis
    using valid D(3-6)
    by (auto simp: validate_iff edges D(2) ids_def [symmetric] schema_validator_def simp del: set_map)
qed

section \<open>The planners make workflows\<close>

lemma execute_id_simps [simp]:
  "execute_id m = execute_id n \<longleftrightarrow> m = n" "execute_id n \<noteq> ''analyze''" "execute_id n \<noteq> ''verify''" "execute_id n \<noteq> []"
  "''analyze'' \<noteq> execute_id n" "''verify'' \<noteq> execute_id n" "[] \<noteq> execute_id n"
  by (auto simp: execute_id_def dest: show_nat_inj)

lemma chain_steps_eq:
  "chain_steps previous n cs =
    (map (\<lambda>(k, c). work_step k c []) (zip [n..<n + length cs] cs),
     map (\<lambda>k. (execute_id k, [if k = n then previous else execute_id (k - 1)])) [n..<n + length cs],
     if cs = [] then previous else execute_id (n + length cs - 1))"
proof (induction cs arbitrary: previous n)
  case (Cons c cs)
  have "[n..<n + length (c # cs)] = n # [Suc n..<Suc n + length cs]"
    using upt_conv_Cons [of n "n + length (c # cs)"] by simp
  then show ?case by (simp add: Cons [of "execute_id n" "Suc n"]) 
qed simp

lemma planner_acyclic:
  assumes "\<And>i rs r. (i, rs) \<in> set (tp_dependencies p) \<Longrightarrow> r \<in> set rs \<Longrightarrow>
    (\<exists>n. i = execute_id n \<and> (r = ''analyze'' \<or> (\<exists>m < n. r = execute_id m))) \<or>
    (i = ''verify'' \<and> (r = ''analyze'' \<or> (\<exists>m < N. r = execute_id m)))"
  shows "acyclic (plan_edges p)"
proof -
  define rank where "rank i = (if i = ''analyze'' then 0 else if i = ''verify'' then Suc N else Suc (inv execute_id i))" for i
  have r: "rank (execute_id n) = Suc n" for n by (simp add: rank_def inj_on_def)
  have v: "rank ''verify'' = Suc N" "rank ''analyze'' = 0" by (simp_all add: rank_def)
  have "rank b < rank a" if e: "(a, b) \<in> plan_edges p" for a b
  proof -
    obtain rs where rs: "(a, rs) \<in> set (tp_dependencies p)" "b \<in> set rs"
      using e by (cases "dict_get (tp_dependencies p) a") (auto simp: plan_edges_def dict_get_or_def dest!: dict_get_in)
    from assms [OF this] show ?thesis using r v by auto
  qed
  then have "plan_edges p \<subseteq> (measure rank)\<inverse>" by auto
  then show ?thesis by (metis acyclic_converse acyclic_subset wf_acyclic wf_measure)
qed

lemma mapE_total: "\<forall>x \<in> set xs. \<exists>y. f x = Inr y \<Longrightarrow> \<exists>ys. mapE f xs = Inr ys"
  by (induction xs) fastforce+

definition planned :: "nat \<Rightarrow> string list \<Rightarrow> task_plan \<Rightarrow> bool" where
  "planned n cs p \<longleftrightarrow>
     map pn_step_id (tp_steps p) = ''analyze'' # map execute_id [1..<Suc n] @ [''verify''] \<and>
     map pn_capability (tp_steps p) = ''reasoning'' # cs @ [''evaluation''] \<and>
     (\<forall>s \<in> set (tp_steps p). pn_metadata s \<in> {[], [(''retries'', JInt 1), (''timeout_seconds'', JInt 60)]}) \<and>
     (\<forall>(i, rs) \<in> set (tp_dependencies p). \<forall>r \<in> set rs.
        (\<exists>k \<in> {1..n}. i = execute_id k \<and> (r = ''analyze'' \<or> (\<exists>m \<in> {1..<k}. r = execute_id m))) \<or>
        (i = ''verify'' \<and> (r = ''analyze'' \<or> (\<exists>m \<in> {1..n}. r = execute_id m)))) \<and>
     (\<forall>(i, rs) \<in> set (tp_dependencies p). rs \<noteq> [])"

lemma planned_workflow:
  assumes "planned n cs p"
  shows "tplan_post_init p = Inr p" "\<exists>d. bridge_compile p = Inr d \<and> (validate L d = Inr () \<longleftrightarrow> [] \<notin> set cs)"
proof -
  define known where "known = set (map pn_step_id (tp_steps p))"
  have P: "map pn_step_id (tp_steps p) = ''analyze'' # map execute_id [1..<Suc n] @ [''verify'']"
      "map pn_capability (tp_steps p) = ''reasoning'' # cs @ [''evaluation'']"
      "\<forall>s \<in> set (tp_steps p). pn_metadata s \<in> {[], [(''retries'', JInt 1), (''timeout_seconds'', JInt 60)]}"
      "\<forall>(i, rs) \<in> set (tp_dependencies p). rs \<noteq> []"
    using assms unfolding planned_def by blast+
  have known: "known = {''analyze'', ''verify''} \<union> execute_id ` {1..n}"
    unfolding known_def P(1) by (auto simp del: upt_Suc)
  have dep: "(\<exists>k \<in> {1..n}. i = execute_id k \<and> (r = ''analyze'' \<or> (\<exists>m \<in> {1..<k}. r = execute_id m))) \<or>
        (i = ''verify'' \<and> (r = ''analyze'' \<or> (\<exists>m \<in> {1..n}. r = execute_id m)))"
    if "(i, rs) \<in> set (tp_dependencies p)" "r \<in> set rs" for i rs r
    using assms that unfolding planned_def by blast
  have "i \<in> known \<and> (\<forall>r \<in> set rs. r \<in> known)" if e: "(i, rs) \<in> set (tp_dependencies p)" for i rs
  proof -
    have r: "i \<in> known \<and> r \<in> known" if "r \<in> set rs" for r
      using dep [OF e that] unfolding known by auto
    have "rs \<noteq> []" using P(4) e by blast
    with r show ?thesis by (cases rs) auto
  qed
  then show init: "tplan_post_init p = Inr p" by (auto simp: tplan_post_init_def Let_def known_def)
  have "\<forall>s \<in> set (tp_steps p). \<exists>w. bridge_step p s = Inr w"
    using P(3) by (auto simp: bridge_step_def rd_int_def rd_float_def get_or_def bindE_def)
  then obtain ws where "mapE (bridge_step p) (tp_steps p) = Inr ws" using mapE_total by blast
  then obtain d where d: "bridge_compile p = Inr d" by (auto simp: bridge_compile_def)
  have "acyclic (plan_edges p)"
  proof (rule planner_acyclic [of p "Suc n"])
    fix i rs r assume "(i, rs) \<in> set (tp_dependencies p)" "r \<in> set rs"
    from dep [OF this] show "(\<exists>n. i = execute_id n \<and> (r = ''analyze'' \<or> (\<exists>m < n. r = execute_id m))) \<or>
        (i = ''verify'' \<and> (r = ''analyze'' \<or> (\<exists>m < Suc n. r = execute_id m)))"
      by (elim disjE conjE bexE) (auto simp: less_Suc_eq_le)
  qed
  moreover have "distinct (map pn_step_id (tp_steps p)) \<and> [] \<notin> set (map pn_step_id (tp_steps p))"
    unfolding P(1) by (auto simp: distinct_map inj_on_def simp del: upt_Suc)
  moreover have "[] \<notin> set (map pn_capability (tp_steps p)) \<longleftrightarrow> [] \<notin> set cs" unfolding P(2) by simp
  ultimately show "\<exists>d. bridge_compile p = Inr d \<and> (validate L d = Inr () \<longleftrightarrow> [] \<notin> set cs)"
    using d bridge_valid [OF d init] by blast
qed

abbreviation work_of :: "jobj \<Rightarrow> string list \<Rightarrow> plan_step list" where
  "work_of md cs \<equiv> map (\<lambda>(k, c). work_step k c md) (zip [1..<Suc (length cs)] cs)"

lemma work_ids: "map pn_step_id (work_of md cs) = map execute_id [1..<Suc (length cs)]"
  by (rule nth_equalityI) (simp_all add: work_step_def split_def del: upt_Suc)

lemma work_capabilities: "map pn_capability (work_of md cs) = cs"
  by (rule nth_equalityI) (simp_all add: work_step_def split_def del: upt_Suc)

lemma work_metadata: "s \<in> set (work_of md cs) \<Longrightarrow> pn_metadata s = md"
  by (auto simp: work_step_def)

text \<open>
  C27: What the two planners plan is always a plan, the bridge always compiles it, and the workflow it
  compiles to is accepted by the compiler of workflows for every analysis whose required capabilities
  have a name, and refused otherwise.
\<close>

theorem planned_work_is_a_workflow:
  "(\<exists>p d. chain_plan i a = Inr p \<and> bridge_compile p = Inr d \<and>
      (validate L d = Inr () \<longleftrightarrow> [] \<notin> set (ta_required_capabilities a))) \<and>
   (\<exists>p d. parallel_plan i a = Inr p \<and> bridge_compile p = Inr d \<and>
      (validate L d = Inr () \<longleftrightarrow> [] \<notin> set (ta_required_capabilities a)))"
proof (intro conjI)
  let ?cs = "ta_required_capabilities a"
  show "\<exists>p d. chain_plan i a = Inr p \<and> bridge_compile p = Inr d \<and> (validate L d = Inr () \<longleftrightarrow> [] \<notin> set ?cs)"
  proof -
    define w where "w = work_of [] ?cs"
    have w: "map pn_step_id w = map execute_id [1..<Suc (length ?cs)]" "map pn_capability w = ?cs" "\<forall>s \<in> set w. pn_metadata s = []"
      by (simp_all only: w_def work_ids work_capabilities) (blast dest: work_metadata)
    define p where "p = \<lparr>tp_task_id = ta_task_id a, tp_steps = analyze_step # w @ [verify_step ''Verify execution result''],
      tp_dependencies = map (\<lambda>k. (execute_id k, [if k = 1 then ''analyze'' else execute_id (k - 1)])) [1..<1 + length ?cs] @
        [(''verify'', [if ?cs = [] then ''analyze'' else execute_id (1 + length ?cs - 1)])],
      tp_metadata = [(''task_type'', JStr (ta_task_type a)), (''complexity'', JStr (ta_complexity a))], tp_plan_id = i\<rparr>"
    have "planned (length ?cs) ?cs p"
      unfolding planned_def p_def by (auto simp: w analyze_step_def verify_step_def Suc_le_eq simp del: upt_Suc)
    moreover have "chain_plan i a = tplan_post_init p"
      by (simp add: chain_plan_def chain_steps_eq p_def w_def Let_def del: upt_Suc)
    ultimately show ?thesis using planned_workflow by metis
  qed
  show "\<exists>p d. parallel_plan i a = Inr p \<and> bridge_compile p = Inr d \<and> (validate L d = Inr () \<longleftrightarrow> [] \<notin> set ?cs)"
  proof -
    define cs where "cs = (if ?cs = [] then [''reasoning''] else ?cs)"
    define w where "w = work_of [(''retries'', JInt 1), (''timeout_seconds'', JInt 60)] cs"
    define p where "p = \<lparr>tp_task_id = ta_task_id a, tp_steps = analyze_step # w @ [verify_step ''Verify, score, and accept execution result''],
      tp_dependencies = map (\<lambda>s. (pn_step_id s, [''analyze''])) w @ [(''verify'', map pn_step_id w)],
      tp_metadata = [(''task_type'', JStr (ta_task_type a)), (''complexity'', JStr (ta_complexity a)),
        (''execution_mode'', JStr ''parallel_dag'')], tp_plan_id = i\<rparr>"
    have ne: "cs \<noteq> []" by (simp add: cs_def)
    have ids: "map pn_step_id w = map execute_id [1..<Suc (length cs)]" and caps: "map pn_capability w = cs"
      and md: "\<forall>s \<in> set w. pn_metadata s = [(''retries'', JInt 1), (''timeout_seconds'', JInt 60)]"
      by (simp_all only: w_def work_ids work_capabilities) (blast dest: work_metadata)
    have deps: "map (\<lambda>s. (pn_step_id s, [''analyze''])) w = map (\<lambda>k. (execute_id k, [''analyze''])) [1..<Suc (length cs)]"
      using arg_cong [OF ids, of "map (\<lambda>i. (i, [''analyze'']))"] by (simp add: comp_def del: upt_Suc)
    have "planned (length cs) cs p"
      unfolding planned_def p_def task_plan.select_convs deps ids
      by (auto simp: ids caps md ne analyze_step_def verify_step_def Suc_le_eq simp del: upt_Suc)
    moreover have "parallel_plan i a = tplan_post_init p" by (simp add: parallel_plan_def p_def Let_def cs_def w_def)
    moreover have "[] \<notin> set cs \<longleftrightarrow> [] \<notin> set ?cs" by (simp add: cs_def)
    ultimately show ?thesis using planned_workflow by metis
  qed
qed

end
