(* ===== verification/Agent_Session.thy ===== *)
theory Agent_Session
  imports Workflow_Models
begin

text \<open>
  Agent sessions (\<open>nous_runtime/agent/session.py\<close>): the lifecycle table, the session and its
  dictionary in both directions, and the store. The table of the store is a list of rows; saving
  replaces the row of the session, and what is stored has passed through redaction. New identifiers
  and time stamps are arguments.
\<close>

section \<open>Lifecycle\<close>

datatype session_state =
    SS_CREATED | SS_ACTIVE | SS_WAITING | SS_PLANNING | SS_SUBMITTING_WORK | SS_OBSERVING | SS_REPLANNING
  | SS_COMPLETED | SS_FAILED | SS_CANCELLED

fun session_state_value :: "session_state \<Rightarrow> string" where
  "session_state_value SS_CREATED = ''CREATED''"
| "session_state_value SS_ACTIVE = ''ACTIVE''"
| "session_state_value SS_WAITING = ''WAITING''"
| "session_state_value SS_PLANNING = ''PLANNING''"
| "session_state_value SS_SUBMITTING_WORK = ''SUBMITTING_WORK''"
| "session_state_value SS_OBSERVING = ''OBSERVING''"
| "session_state_value SS_REPLANNING = ''REPLANNING''"
| "session_state_value SS_COMPLETED = ''COMPLETED''"
| "session_state_value SS_FAILED = ''FAILED''"
| "session_state_value SS_CANCELLED = ''CANCELLED''"

definition all_session_states :: "session_state list" where
  "all_session_states =
     [SS_CREATED, SS_ACTIVE, SS_WAITING, SS_PLANNING, SS_SUBMITTING_WORK, SS_OBSERVING, SS_REPLANNING,
      SS_COMPLETED, SS_FAILED, SS_CANCELLED]"

definition session_state_of :: "string \<Rightarrow> pyexn + session_state" where
  "session_state_of = enum_of session_state_value all_session_states ''AgentSessionState''"

lemma session_state_of_value [enum_simps, simp]: "session_state_of (session_state_value s) = Inr s"
  by (cases s) (simp_all add: session_state_of_def enum_of_def all_session_states_def)

lemma session_state_value_inject [simp]: "session_state_value a = session_state_value b \<longleftrightarrow> a = b"
  by (cases a; cases b) simp_all

definition TERMINAL_STATES :: "session_state list" where
  "TERMINAL_STATES = [SS_COMPLETED, SS_FAILED, SS_CANCELLED]"

fun session_successors :: "session_state \<Rightarrow> session_state list" where
  "session_successors SS_CREATED = [SS_ACTIVE, SS_FAILED, SS_CANCELLED]"
| "session_successors SS_ACTIVE = [SS_WAITING, SS_PLANNING, SS_OBSERVING, SS_COMPLETED, SS_FAILED, SS_CANCELLED]"
| "session_successors SS_WAITING =
     [SS_ACTIVE, SS_OBSERVING, SS_PLANNING, SS_REPLANNING, SS_SUBMITTING_WORK, SS_FAILED, SS_CANCELLED]"
| "session_successors SS_PLANNING = [SS_SUBMITTING_WORK, SS_WAITING, SS_FAILED, SS_CANCELLED]"
| "session_successors SS_SUBMITTING_WORK = [SS_OBSERVING, SS_WAITING, SS_FAILED, SS_CANCELLED]"
| "session_successors SS_OBSERVING = [SS_REPLANNING, SS_WAITING, SS_COMPLETED, SS_FAILED, SS_CANCELLED]"
| "session_successors SS_REPLANNING = [SS_SUBMITTING_WORK, SS_WAITING, SS_FAILED, SS_CANCELLED]"
| "session_successors SS_COMPLETED = []"
| "session_successors SS_FAILED = []"
| "session_successors SS_CANCELLED = []"

section \<open>Sessions\<close>

record agent_session =
  sn_session_id :: string
  sn_agent_id :: string
  sn_model :: string
  sn_objective :: string
  sn_state :: session_state
  sn_context :: jobj
  sn_active_work :: "string list"
  sn_pending_approvals :: "string list"
  sn_event_subscriptions :: "string list"
  sn_budget :: jobj
  sn_policy_scope :: jobj
  sn_plan_history :: "jobj list"
  sn_workflow_id :: string
  sn_workflow_run_id :: string
  sn_observations :: "jobj list"
  sn_result :: jobj
  sn_error :: string
  sn_created_at :: string
  sn_updated_at :: string

definition session_terminal :: "agent_session \<Rightarrow> bool" where
  "session_terminal s \<longleftrightarrow> sn_state s \<in> set TERMINAL_STATES"

lemma terminal_iff: "session_terminal s \<longleftrightarrow> session_successors (sn_state s) = []"
  by (cases "sn_state s") (simp_all add: session_terminal_def TERMINAL_STATES_def)

text \<open>\<open>dict.fromkeys\<close>: the first of equal elements stays.\<close>

definition first_of_equal :: "'a list \<Rightarrow> 'a list" where
  "first_of_equal xs = fold (\<lambda>x acc. if x \<in> set acc then acc else acc @ [x]) xs []"

definition session_create ::
  "string \<Rightarrow> string \<Rightarrow> string \<Rightarrow> string \<Rightarrow> string \<Rightarrow> jobj \<Rightarrow> string list \<Rightarrow> jobj \<Rightarrow> jobj \<Rightarrow> pyexn + agent_session" where
  "session_create new_id now agent_id model objective context subscriptions budget policy =
     (if py_strip agent_id = [] then Inl (ValueError ''agent_id is required'')
      else if py_strip objective = [] then Inl (ValueError ''objective is required'')
      else let subs = first_of_equal (map py_strip subscriptions) in
        if [] \<in> set subs then Inl (ValueError ''event subscription patterns cannot be empty'')
        else if 32 < length subs then Inl (ValueError ''at most 32 event subscriptions are allowed'')
        else Inr \<lparr>sn_session_id = ''agent_session_'' @ new_id, sn_agent_id = py_strip agent_id, sn_model = py_strip model,
          sn_objective = py_strip objective, sn_state = SS_CREATED, sn_context = context, sn_active_work = [],
          sn_pending_approvals = [], sn_event_subscriptions = subs, sn_budget = budget, sn_policy_scope = policy,
          sn_plan_history = [], sn_workflow_id = [], sn_workflow_run_id = [], sn_observations = [], sn_result = [],
          sn_error = [], sn_created_at = now, sn_updated_at = now\<rparr>)"

definition session_to_dict :: "agent_session \<Rightarrow> jobj" where
  "session_to_dict s =
     [(''session_id'', JStr (sn_session_id s)), (''agent_id'', JStr (sn_agent_id s)), (''model'', JStr (sn_model s)),
      (''objective'', JStr (sn_objective s)), (''state'', JStr (session_state_value (sn_state s))),
      (''context'', JObj (sn_context s)), (''active_work'', jstrs (sn_active_work s)),
      (''pending_approvals'', jstrs (sn_pending_approvals s)), (''event_subscriptions'', jstrs (sn_event_subscriptions s)),
      (''budget'', JObj (sn_budget s)), (''policy_scope'', JObj (sn_policy_scope s)),
      (''plan_history'', JList (map JObj (sn_plan_history s))), (''workflow_id'', JStr (sn_workflow_id s)),
      (''workflow_run_id'', JStr (sn_workflow_run_id s)), (''observations'', JList (map JObj (sn_observations s))),
      (''result'', JObj (sn_result s)), (''error'', JStr (sn_error s)), (''created_at'', JStr (sn_created_at s)),
      (''updated_at'', JStr (sn_updated_at s))]"

definition rd_texts :: "jobj \<Rightarrow> string \<Rightarrow> pyexn + string list" where
  "rd_texts d k = bindE (rd_list d k) (mapE py_str)"

definition rd_dicts :: "jobj \<Rightarrow> string \<Rightarrow> pyexn + jobj list" where
  "rd_dicts d k = bindE (rd_list d k) (mapE py_dict)"

definition session_from_dict :: "string \<Rightarrow> jobj \<Rightarrow> pyexn + agent_session" where
  "session_from_dict now d =
     bindE (rd_str d ''session_id'' []) (\<lambda>session_id.
     bindE (rd_str d ''agent_id'' []) (\<lambda>agent_id.
     bindE (rd_str d ''model'' []) (\<lambda>model.
     bindE (rd_str d ''objective'' []) (\<lambda>objective.
     bindE (bindE (rd_str d ''state'' ''CREATED'') session_state_of) (\<lambda>state.
     bindE (rd_dict d ''context'') (\<lambda>context.
     bindE (rd_texts d ''active_work'') (\<lambda>active_work.
     bindE (rd_texts d ''pending_approvals'') (\<lambda>pending_approvals.
     bindE (rd_texts d ''event_subscriptions'') (\<lambda>event_subscriptions.
     bindE (rd_dict d ''budget'') (\<lambda>budget.
     bindE (rd_dict d ''policy_scope'') (\<lambda>policy_scope.
     bindE (rd_dicts d ''plan_history'') (\<lambda>plan_history.
     bindE (rd_str d ''workflow_id'' []) (\<lambda>workflow_id.
     bindE (rd_str d ''workflow_run_id'' []) (\<lambda>workflow_run_id.
     bindE (rd_dicts d ''observations'') (\<lambda>observations.
     bindE (rd_dict d ''result'') (\<lambda>result.
     bindE (rd_str d ''error'' []) (\<lambda>error.
     bindE (rd_str d ''created_at'' now) (\<lambda>created_at.
     bindE (rd_str d ''updated_at'' now) (\<lambda>updated_at.
       Inr \<lparr>sn_session_id = session_id, sn_agent_id = agent_id, sn_model = model, sn_objective = objective,
         sn_state = state, sn_context = context, sn_active_work = active_work, sn_pending_approvals = pending_approvals,
         sn_event_subscriptions = event_subscriptions, sn_budget = budget, sn_policy_scope = policy_scope,
         sn_plan_history = plan_history, sn_workflow_id = workflow_id, sn_workflow_run_id = workflow_run_id,
         sn_observations = observations, sn_result = result, sn_error = error, sn_created_at = created_at,
         sn_updated_at = updated_at\<rparr>)))))))))))))))))))"

definition transition_session :: "string \<Rightarrow> session_state \<Rightarrow> string option \<Rightarrow> agent_session \<Rightarrow> pyexn + agent_session" where
  "transition_session now target error s =
     (if sn_state s = target then Inr s
      else if target \<notin> set (session_successors (sn_state s))
      then Inl (ValueError (''invalid Agent session transition: '' @ session_state_value (sn_state s) @ '' -> '' @
        session_state_value target))
      else Inr (s\<lparr>sn_state := target, sn_error := (case error of None \<Rightarrow> sn_error s | Some e \<Rightarrow> e), sn_updated_at := now\<rparr>))"

section \<open>The store\<close>

record session_row =
  sx_session_id :: string
  sx_state :: string
  sx_updated_at :: string
  sx_json :: json

type_synonym session_db = "session_row list"

definition session_row_of :: "string list \<Rightarrow> agent_session \<Rightarrow> session_row" where
  "session_row_of known s =
     \<lparr>sx_session_id = sn_session_id s, sx_state = session_state_value (sn_state s), sx_updated_at = sn_updated_at s,
      sx_json = json_sort (redact_sensitive_data known (JObj (session_to_dict s)))\<rparr>"

text \<open>\<open>INSERT OR REPLACE\<close>: the old row goes, the new one is the last.\<close>

definition session_save :: "string list \<Rightarrow> agent_session \<Rightarrow> session_db \<Rightarrow> session_db" where
  "session_save known s db = filter (\<lambda>r. sx_session_id r \<noteq> sn_session_id s) db @ [session_row_of known s]"

definition session_of_row :: "string \<Rightarrow> session_row \<Rightarrow> pyexn + agent_session" where
  "session_of_row now r = bindE (as_obj (sx_json r)) (session_from_dict now)"

definition session_get :: "string \<Rightarrow> string \<Rightarrow> session_db \<Rightarrow> pyexn + agent_session option" where
  "session_get now i db =
     (case find (\<lambda>r. sx_session_id r = i) db of
        None \<Rightarrow> Inr None
      | Some r \<Rightarrow> bindE (session_of_row now r) (Inr \<circ> Some))"

definition IMMUTABLE_FIELDS :: "string list" where
  "IMMUTABLE_FIELDS =
     [''agent_id'', ''model'', ''objective'', ''context'', ''event_subscriptions'', ''budget'', ''policy_scope'', ''workflow_run_id'']"

definition session_create_once :: "string list \<Rightarrow> string \<Rightarrow> agent_session \<Rightarrow> session_db \<Rightarrow> (pyexn + agent_session \<times> bool) \<times> session_db" where
  "session_create_once known now s db =
     (case redact_sensitive_data known (JObj (session_to_dict s)) of
        JObj expected \<Rightarrow>
          (case find (\<lambda>r. sx_session_id r = sn_session_id s) db of
             Some r \<Rightarrow>
               (bindE (as_obj (sx_json r)) (\<lambda>original.
                  if \<exists>k \<in> set IMMUTABLE_FIELDS. map_option json_sort (dict_get original k) \<noteq> map_option json_sort (dict_get expected k)
                  then Inl (ValueError ''Original AgentSession binding changed'')
                  else bindE (session_from_dict now original) (\<lambda>s. Inr (s, False))), db)
           | None \<Rightarrow>
               (bindE (session_from_dict now expected) (\<lambda>s. Inr (s, True)), db @ [session_row_of known s]))
      | _ \<Rightarrow> (Inl OutsideModel, db))"

text \<open>\<open>ORDER BY updated_at DESC\<close>, equal stamps in the order of the rows\<close>

definition session_list :: "string \<Rightarrow> bool \<Rightarrow> session_db \<Rightarrow> pyexn + agent_session list" where
  "session_list now include_terminal db =
     mapE (session_of_row now) (rev (sort_key sx_updated_at (rev
       (filter (\<lambda>r. include_terminal \<or> sx_state r \<notin> set (map session_state_value TERMINAL_STATES)) db))))"

section \<open>Transitions\<close>

lemma transition_session_Inr:
  assumes "transition_session now target error s = Inr s'"
  shows "sn_state s' = target" "sn_session_id s' = sn_session_id s" "sn_state s = target \<or> target \<in> set (session_successors (sn_state s))"
    "session_terminal s \<Longrightarrow> s' = s \<and> sn_state s = target"
  using assms by (auto simp: transition_session_def terminal_iff split: if_splits)

lemma transition_terminal:
  "session_terminal s \<Longrightarrow> sn_state s \<noteq> target \<Longrightarrow> transition_session now target error s = Inl (ValueError (''invalid Agent session transition: '' @
     session_state_value (sn_state s) @ '' -> '' @ session_state_value target))"
  by (simp add: transition_session_def terminal_iff)

section \<open>What is read back\<close>

text \<open>
  A saved session is read back as it was, except for what redaction has replaced. The fields that
  decide what the coordinator does come back unchanged whenever redaction leaves their texts alone.
\<close>

definition SESSION_KEYS :: "string list" where
  "SESSION_KEYS =
     [''session_id'', ''agent_id'', ''model'', ''objective'', ''state'', ''context'', ''active_work'', ''pending_approvals'',
      ''event_subscriptions'', ''budget'', ''policy_scope'', ''plan_history'', ''workflow_id'', ''workflow_run_id'',
      ''observations'', ''result'', ''error'', ''created_at'', ''updated_at'']"

text \<open>No registered secret is part of the name of a field or of a state.\<close>

definition session_quiet :: "string list \<Rightarrow> bool" where
  "session_quiet known \<longleftrightarrow> list_all (\<lambda>k. redact_sensitive_text known k = k) (SESSION_KEYS @ map session_state_value all_session_states)"

text \<open>One of these texts has a character of which a secret may be built; no pattern is built of its characters alone.\<close>

lemma secrets_need:
  assumes "\<And>c. py_isspace c \<Longrightarrow> P c" "P (CHR 0x22)" "P (CHR 0x27)" "P (CHR ''-'')" "P (CHR ''.'')" "P (CHR ''='')" "P (CHR ''A'')"
  shows "r \<in> set SECRET_VALUE_PATTERNS \<Longrightarrow> rx_needs P r"
  using assms by (auto simp: SECRET_VALUE_PATTERNS_def quoted_secret_pattern_def Let_def rx_needs_seq rx_plus_def rx_lit_def)

lemma submitting_no_secret: "\<not> matches_secret ''SUBMITTING_WORK''"
proof
  let ?need = "\<lambda>c. py_isspace c \<or> c = CHR 0x22 \<or> c = CHR 0x27 \<or> c \<in> set ''-.=A''"
  assume "matches_secret ''SUBMITTING_WORK''"
  then obtain r where r: "r \<in> set SECRET_VALUE_PATTERNS" "rx_search r ''SUBMITTING_WORK''"
    unfolding matches_secret_def by blast
  from r(1) have "rx_needs ?need r" by (rule secrets_need [rotated -1]) simp_all
  with r(2) have "\<exists>c \<in> set ''SUBMITTING_WORK''. ?need c" unfolding rx_search_def by (rule rx_search_from_needs)
  then show False by (simp add: py_isspace_def)
qed

lemma session_quiet_none [simp]: "session_quiet []"
proof -
  have "list_all (\<lambda>k. plain k \<or> k = ''SUBMITTING_WORK'') (SESSION_KEYS @ map session_state_value all_session_states)"
    by (simp add: SESSION_KEYS_def all_session_states_def plain_def plain_char_def py_isspace_def)
  then show ?thesis unfolding session_quiet_def
    by (rule list.pred_mono_strong) (auto simp: redact_text_none plain_no_secret submitting_no_secret)
qed

lemma session_keys: "map fst (session_to_dict s) = SESSION_KEYS" "wf_dict (session_to_dict s)"
  by (simp_all add: session_to_dict_def SESSION_KEYS_def)

lemma keys_unmarked: "k \<in> set SESSION_KEYS \<Longrightarrow> \<not> marked (py_casefold k) \<and> py_casefold k \<noteq> ''counter_measurements''"
proof -
  have "list_all (\<lambda>k. \<not> marked (py_casefold k) \<and> py_casefold k \<noteq> ''counter_measurements'') SESSION_KEYS" by code_simp
  then show "k \<in> set SESSION_KEYS \<Longrightarrow> \<not> marked (py_casefold k) \<and> py_casefold k \<noteq> ''counter_measurements''"
    by (simp add: list_all_iff)
qed

lemma redacted_session:
  assumes "session_quiet known"
  shows "redact_sensitive_data known (JObj (session_to_dict s)) = JObj (map (\<lambda>(k, v). (k, redact_sensitive_data known v)) (session_to_dict s))"
proof (rule redact_fields_known [OF session_keys(2)])
  fix k assume "k \<in> set (map fst (session_to_dict s))"
  then have "k \<in> set SESSION_KEYS" by (simp only: session_keys(1))
  then show "redact_sensitive_text known k = k \<and> \<not> marked (py_casefold k) \<and> py_casefold k \<noteq> ''counter_measurements''"
    using assms keys_unmarked [of k] by (simp add: session_quiet_def list_all_iff)
qed

lemma saved_field:
  assumes "session_quiet known"
  shows "\<exists>d. sx_json (session_row_of known s) = JObj d \<and>
    (\<forall>k. dict_get d k = map_option (json_sort \<circ> redact_sensitive_data known) (dict_get (session_to_dict s) k))"
proof -
  let ?r = "map (\<lambda>(k, v). (k, redact_sensitive_data known v)) (session_to_dict s)"
  let ?d = "sort_key fst (map (\<lambda>(k, v). (k, json_sort v)) ?r)"
  have "wf_dict (map (\<lambda>(k, v). (k, json_sort v)) ?r)" by (simp only: wf_dict_map session_keys(2))
  then have "dict_get ?d k = map_option (json_sort \<circ> redact_sensitive_data known) (dict_get (session_to_dict s) k)" for k
    by (simp only: dict_get_sort_key dict_get_map option.map_comp)
  moreover have "sx_json (session_row_of known s) = JObj ?d"
    by (simp only: session_row_of_def session_row.select_convs redacted_session [OF assms] json_sort.simps)
  ultimately show ?thesis by blast
qed

lemma state_text_quiet: "session_quiet known \<Longrightarrow> redact_sensitive_text known (session_state_value st) = session_state_value st"
  by (cases st) (simp_all add: session_quiet_def all_session_states_def)

lemma session_state_value_not_Nil [simp]: "session_state_value st \<noteq> []"
  by (cases st) simp_all

lemma saved_state:
  assumes "session_quiet known" "session_of_row now (session_row_of known s) = Inr s'"
  shows "sn_state s' = sn_state s"
    and "redact_sensitive_text known (sn_session_id s) = sn_session_id s \<Longrightarrow> sn_session_id s' = sn_session_id s"
proof -
  obtain d where d: "sx_json (session_row_of known s) = JObj d"
      "\<And>k. dict_get d k = map_option (json_sort \<circ> redact_sensitive_data known) (dict_get (session_to_dict s) k)"
    using saved_field [OF assms(1)] by blast
  have st: "rd_str d ''state'' ''CREATED'' = Inr (session_state_value (sn_state s))"
  proof -
    have "dict_get d ''state'' = Some (JStr (session_state_value (sn_state s)))"
      by (simp add: d session_to_dict_def state_text_quiet [OF assms(1)])
    from rd_str_JStr [OF this] show ?thesis by simp
  qed
  show "sn_state s' = sn_state s"
    using assms(2) by (auto simp: session_of_row_def d(1) session_from_dict_def bindE_eq_Inr st)
  assume id: "redact_sensitive_text known (sn_session_id s) = sn_session_id s"
  have "rd_str d ''session_id'' [] = Inr (sn_session_id s)"
  proof -
    have "dict_get d ''session_id'' = Some (JStr (sn_session_id s))" by (simp add: d session_to_dict_def id)
    from rd_str_JStr [OF this] show ?thesis by simp
  qed
  then show "sn_session_id s' = sn_session_id s"
    using assms(2) by (auto simp: session_of_row_def d(1) session_from_dict_def bindE_eq_Inr)
qed

lemma get_saved:
  "session_get now i (session_save known s db) =
    (if i = sn_session_id s then bindE (session_of_row now (session_row_of known s)) (Inr \<circ> Some) else session_get now i db)"
proof -
  have "find (\<lambda>r. sx_session_id r = i) (filter (\<lambda>r. sx_session_id r \<noteq> j) db) = (if i = j then None else find (\<lambda>r. sx_session_id r = i) db)" for j
    by (induction db) auto
  moreover have "find P (xs @ [x]) = (case find P xs of None \<Rightarrow> if P x then Some x else None | Some y \<Rightarrow> Some y)" for P xs and x :: session_row
    by (induction xs) auto
  ultimately show ?thesis by (auto simp: session_get_def session_save_def session_row_of_def split: option.split)
qed

end
