(* ===== verification/Agent_Coordination.thy ===== *)
theory Agent_Coordination
  imports Agent_Session Agent_Plan Workflow_Runtime Event_Bus
begin

text \<open>
  The coordination of agent sessions (\<open>nous_runtime/agent/coordination.py\<close>): plans are compiled to
  workflows, run by the workflow runtime, and what becomes of the run decides the state of the
  session. An operation is a function on the table of sessions, the world of the workflow runtime and
  the event bus, whose listeners are named by the session they record for. Before every access to the
  table the sessions that other threads save there (\<open>ce_others\<close>) are saved. The events of the workflow
  runtime are published after its operation has ended; no session records them, since their metadata
  name the session they belong to.
\<close>

section \<open>The coordinator\<close>

record coord_env =
  ce_lib :: wf_lib
  ce_now :: "nat \<Rightarrow> string"
  ce_id :: "nat \<Rightarrow> string"
  ce_others :: "nat \<Rightarrow> agent_session list"
  ce_run_events :: "world \<Rightarrow> string \<Rightarrow> jobj list"

record coord_world =
  cw_sessions :: session_db
  cw_work :: world
  cw_tick :: nat
  cw_subscribed :: "(string \<times> string) list"

type_synonym coord_state = "coord_world \<times> string event_bus"
type_synonym 'a ct = "coord_state \<Rightarrow> (rt_exn + 'a) \<times> coord_state"

definition cret :: "'a \<Rightarrow> 'a ct" where
  "cret x = (\<lambda>w. (Inr x, w))"

definition craise :: "pyexn \<Rightarrow> 'a ct" where
  "craise e = (\<lambda>w. (Inl (Failed (PyExn e)), w))"

definition cbind :: "'a ct \<Rightarrow> ('a \<Rightarrow> 'b ct) \<Rightarrow> 'b ct" where
  "cbind m f = (\<lambda>w. case m w of (Inl e, w) \<Rightarrow> (Inl e, w) | (Inr x, w) \<Rightarrow> f x w)"

definition clift :: "pyexn + 'a \<Rightarrow> 'a ct" where
  "clift m = (case m of Inl e \<Rightarrow> craise e | Inr x \<Rightarrow> cret x)"

definition known_secrets :: "coord_env \<Rightarrow> string list" where
  "known_secrets E = wl_known (ce_lib E)"

text \<open>The clock and the supply of identifiers move on with every access.\<close>

definition c_tick :: "coord_env \<Rightarrow> coord_state \<Rightarrow> coord_state" where
  "c_tick E = (\<lambda>(cw, bus).
     (cw\<lparr>cw_sessions := fold (session_save (known_secrets E)) (ce_others E (cw_tick cw)) (cw_sessions cw), cw_tick := Suc (cw_tick cw)\<rparr>, bus))"

definition c_now :: "coord_env \<Rightarrow> string ct" where
  "c_now E = (\<lambda>(cw, bus). (Inr (ce_now E (cw_tick cw)), (cw, bus)))"

definition c_id :: "coord_env \<Rightarrow> string ct" where
  "c_id E = (\<lambda>(cw, bus). (Inr (ce_id E (cw_tick cw)), (cw\<lparr>cw_tick := Suc (cw_tick cw)\<rparr>, bus)))"

definition c_get :: "coord_env \<Rightarrow> string \<Rightarrow> agent_session option ct" where
  "c_get E i = (\<lambda>w. let w = c_tick E w in clift (session_get (ce_now E (cw_tick (fst w))) i (cw_sessions (fst w))) w)"

definition c_save :: "coord_env \<Rightarrow> agent_session \<Rightarrow> unit ct" where
  "c_save E s = (\<lambda>w. let (cw, bus) = c_tick E w in
     (Inr (), (cw\<lparr>cw_sessions := session_save (known_secrets E) s (cw_sessions cw)\<rparr>, bus)))"

definition c_transition :: "coord_env \<Rightarrow> session_state \<Rightarrow> string option \<Rightarrow> agent_session \<Rightarrow> agent_session ct" where
  "c_transition E target error s = cbind (c_now E) (\<lambda>now. clift (transition_session now target error s))"

definition c_require :: "coord_env \<Rightarrow> string \<Rightarrow> agent_session ct" where
  "c_require E i = cbind (c_get E i) (\<lambda>s. case s of None \<Rightarrow> craise (KeyError i) | Some s \<Rightarrow> cret s)"

section \<open>Events\<close>

definition OBSERVATION_LIMIT :: nat where
  "OBSERVATION_LIMIT = 256"

text \<open>\<open>str(a or b or "")\<close>\<close>

definition rd_first :: "jobj \<Rightarrow> jobj \<Rightarrow> string \<Rightarrow> pyexn + string" where
  "rd_first a b k = py_str (get_or a k (get_or b k (JStr [])))"

definition record_observation :: "coord_env \<Rightarrow> event_envelope \<Rightarrow> agent_session \<Rightarrow> unit ct" where
  "record_observation E e s =
     cbind (clift (rd_first (ev_metadata e) (ev_payload e) ''device_id'')) (\<lambda>device.
     cbind (clift (rd_str (sn_context s) ''device_id'' [])) (\<lambda>target_device.
       if device \<noteq> [] \<and> target_device \<noteq> [] \<and> device \<noteq> target_device then cret ()
       else cbind (clift (mapE (\<lambda>item. rd_str item ''event_id'' []) (sn_observations s))) (\<lambda>seen.
         if ev_event_id e \<in> set seen then cret ()
         else
           cbind (if sn_state s = SS_WAITING then c_transition E SS_OBSERVING None s else cret s) (\<lambda>target.
           cbind (c_now E) (\<lambda>now.
             c_save E (target\<lparr>sn_observations := slice_last (int OBSERVATION_LIMIT)
               (sn_observations target @ [(''kind'', JStr ''runtime_event'') # envelope_to_dict e]), sn_updated_at := now\<rparr>))))))"

definition record_runtime_event :: "coord_env \<Rightarrow> string \<Rightarrow> event_envelope \<Rightarrow> unit ct" where
  "record_runtime_event E i e =
     cbind (clift (rd_str (ev_metadata e) ''agent_session_id'' [])) (\<lambda>event_session.
       if event_session \<noteq> [] \<and> event_session \<noteq> i then cret ()
       else if event_session = i \<and> ev_source e = ''workflow.runtime'' then cret ()
       else cbind (c_get E i) (\<lambda>s.
         case s of
           None \<Rightarrow> cret ()
         | Some s \<Rightarrow> if session_terminal s then cret () else record_observation E e s))"

text \<open>What a listener does, as the bus sees it: the exception is caught there.\<close>

definition listener :: "coord_env \<Rightarrow> (coord_world, string) callbacks" where
  "listener E i e = (\<lambda>w. case record_runtime_event E i e w of (Inl _, w) \<Rightarrow> (False, w) | (Inr _, w) \<Rightarrow> (True, w))"

definition c_publish :: "coord_env \<Rightarrow> string \<Rightarrow> string \<Rightarrow> jobj \<Rightarrow> jobj \<Rightarrow> unit ct" where
  "c_publish E event_type source payload metadata =
     cbind (c_id E) (\<lambda>new_id. cbind (c_now E) (\<lambda>now. \<lambda>w.
       (Inr (), publish (listener E) (new_envelope (known_secrets E) new_id now event_type payload source metadata []) w)))"

definition publish_session :: "coord_env \<Rightarrow> string \<Rightarrow> agent_session \<Rightarrow> jobj \<Rightarrow> unit ct" where
  "publish_session E event_type s payload =
     c_publish E event_type ''agent.coordination''
       (fold (\<lambda>(k, v). dict_set k v) payload [(''session_id'', JStr (sn_session_id s))])
       [(''agent_session_id'', JStr (sn_session_id s))]"

text \<open>\<open>_subscribe\<close>: a pattern is given to the bus at most once for a session, whether or not the bus takes it.\<close>

definition subscribe_pattern :: "string \<Rightarrow> string \<Rightarrow> coord_state \<Rightarrow> coord_state" where
  "subscribe_pattern i pattern = (\<lambda>(cw, bus).
     if (i, pattern) \<in> set (cw_subscribed cw) then (cw, bus)
     else (cw\<lparr>cw_subscribed := cw_subscribed cw @ [(i, pattern)]\<rparr>, subscribe pattern i bus))"

definition subscribe_session :: "agent_session \<Rightarrow> unit ct" where
  "subscribe_session s = (\<lambda>w. (Inr (), fold (subscribe_pattern (sn_session_id s)) (sn_event_subscriptions s) w))"

definition restore_subscriptions :: "coord_env \<Rightarrow> unit ct" where
  "restore_subscriptions E = (\<lambda>w.
     let (cw, bus) = c_tick E w in
     case session_list (ce_now E (cw_tick cw)) False (cw_sessions cw) of
       Inl e \<Rightarrow> (Inl (Failed (PyExn e)), (cw, bus))
     | Inr sessions \<Rightarrow> (Inr (), fold (\<lambda>s. fold (subscribe_pattern (sn_session_id s)) (sn_event_subscriptions s)) sessions (cw, bus)))"

definition coord_close :: "coord_state \<Rightarrow> coord_state" where
  "coord_close = (\<lambda>(cw, bus). (cw\<lparr>cw_subscribed := []\<rparr>, fold (\<lambda>(i, pattern). unsubscribe pattern i) (cw_subscribed cw) bus))"

section \<open>Ends and waits\<close>

definition create_session ::
  "coord_env \<Rightarrow> string \<Rightarrow> string \<Rightarrow> string \<Rightarrow> jobj \<Rightarrow> string list \<Rightarrow> jobj \<Rightarrow> jobj \<Rightarrow> agent_session ct" where
  "create_session E agent_id model objective context subscriptions budget policy =
     cbind (c_id E) (\<lambda>new_id. cbind (c_now E) (\<lambda>now.
     cbind (clift (session_create new_id now agent_id model (redact_sensitive_text (known_secrets E) objective)
       (redact_obj (known_secrets E) context) subscriptions budget policy)) (\<lambda>s.
     cbind (c_transition E SS_ACTIVE None s) (\<lambda>s.
     cbind (c_save E s) (\<lambda>_.
     cbind (subscribe_session s) (\<lambda>_.
     cbind (publish_session E ''agent.session.created'' s []) (\<lambda>_. cret s)))))))"

definition end_session :: "coord_env \<Rightarrow> session_state \<Rightarrow> string \<Rightarrow> string \<Rightarrow> string \<Rightarrow> agent_session ct" where
  "end_session E target event_type i reason =
     cbind (c_require E i) (\<lambda>s.
     cbind (c_transition E target (Some reason) s) (\<lambda>s.
     cbind (c_save E s) (\<lambda>_.
     cbind (publish_session E event_type s [(''reason'', JStr reason)]) (\<lambda>_. cret s))))"

definition wait_session :: "coord_env \<Rightarrow> string \<Rightarrow> string \<Rightarrow> agent_session ct" where
  "wait_session E = end_session E SS_WAITING ''agent.session.waiting''"

definition fail_session :: "coord_env \<Rightarrow> string \<Rightarrow> string \<Rightarrow> agent_session ct" where
  "fail_session E = end_session E SS_FAILED ''agent.session.failed''"

definition cancel_session :: "coord_env \<Rightarrow> string \<Rightarrow> string \<Rightarrow> agent_session ct" where
  "cancel_session E = end_session E SS_CANCELLED ''agent.session.cancelled''"

definition complete_session :: "coord_env \<Rightarrow> string \<Rightarrow> jobj \<Rightarrow> agent_session ct" where
  "complete_session E i result =
     cbind (c_require E i) (\<lambda>s.
     cbind (c_transition E SS_COMPLETED (Some []) s) (\<lambda>s.
     cbind (c_now E) (\<lambda>now.
     let s = s\<lparr>sn_result := (if result = [] then sn_result s else result), sn_updated_at := now\<rparr> in
     cbind (c_save E s) (\<lambda>_.
     cbind (publish_session E ''agent.session.completed'' s []) (\<lambda>_. cret s)))))"

section \<open>Observing a run\<close>

text \<open>An operation of the workflow runtime, and then its events on the bus\<close>

definition c_work :: "coord_env \<Rightarrow> string \<Rightarrow> 'a rt \<Rightarrow> 'a ct" where
  "c_work E i m = (\<lambda>(cw, bus).
     let (r, work) = m (cw_work cw);
         new = drop (length (w_events (cw_work cw))) (w_events work);
         w = fold (\<lambda>(event_type, payload) w. snd (c_publish E event_type ''workflow.runtime'' payload [(''agent_session_id'', JStr i)] w))
               new (cw\<lparr>cw_work := work\<rparr>, bus)
     in (r, w))"

definition outputs_of :: "workflow_run \<Rightarrow> jobj list" where
  "outputs_of run = List.map_filter (\<lambda>(_, v). case v of JObj d \<Rightarrow> Some d | _ \<Rightarrow> None) (wr_outputs run)"

definition reality_effect :: "jobj \<Rightarrow> pyexn + jobj" where
  "reality_effect output =
     bindE (rd_item output ''work_id'') (\<lambda>work_id.
     bindE (rd_dict output ''receipt'') (\<lambda>receipt.
     bindE (rd_list output ''observations'') (\<lambda>observations.
     bindE (rd_dict output ''effect_verification'') (\<lambda>verification.
       Inr [(''kind'', JStr ''reality_effect''), (''work_id'', work_id), (''receipt'', JObj receipt),
         (''observations'', JList observations), (''effect_verification'', JObj verification)]))))"

definition reality_evidence :: "workflow_run \<Rightarrow> pyexn + jobj list" where
  "reality_evidence run = mapE reality_effect (filter (\<lambda>d. py_truthy (dict_get_or d ''effect_verification'' JNull)) (outputs_of run))"

definition work_ids_of :: "workflow_run \<Rightarrow> pyexn + string list" where
  "work_ids_of run =
     bindE (mapE (\<lambda>d. py_str (dict_get_or d ''work_id'' JNull)) (filter (\<lambda>d. py_truthy (dict_get_or d ''work_id'' JNull)) (outputs_of run)))
       (Inr \<circ> first_of_equal)"

text \<open>The newest distinct observations, newest first; dictionaries are equal in any order of keys.\<close>

fun newest_distinct :: "nat \<Rightarrow> jobj list \<Rightarrow> jobj list \<Rightarrow> jobj list" where
  "newest_distinct limit acc [] = acc"
| "newest_distinct limit acc (x # xs) =
     (if json_sort (JObj x) \<in> (json_sort \<circ> JObj) ` set acc then newest_distinct limit acc xs
      else if length acc + 1 = limit then acc @ [x]
      else newest_distinct limit (acc @ [x]) xs)"

definition observation_window :: "jobj list \<Rightarrow> jobj list" where
  "observation_window xs = rev (newest_distinct OBSERVATION_LIMIT [] (rev xs))"

definition pending_steps :: "workflow_run \<Rightarrow> pyexn + string list" where
  "pending_steps run =
     mapE (\<lambda>(step_id, _). bindE (as_obj (dict_get_or (wr_outputs run) step_id (JObj []))) (\<lambda>output.
         rd_str output ''approval_request_id'' step_id))
       (filter (\<lambda>(_, v). v = JStr ''waiting_approval'') (wr_step_states run))"

text \<open>The state of the run decides that of the session.\<close>

definition settle_session :: "coord_env \<Rightarrow> workflow_run \<Rightarrow> agent_session \<Rightarrow> agent_session ct" where
  "settle_session E run s =
     (case wr_state run of
        WS_COMPLETED \<Rightarrow>
          cbind (c_transition E SS_COMPLETED None s) (\<lambda>s. cbind (c_now E) (\<lambda>now.
            cret (s\<lparr>sn_result := [(''workflow_outputs'', JObj (wr_outputs run))], sn_pending_approvals := [], sn_error := [],
              sn_updated_at := now\<rparr>)))
      | WS_WAITING_APPROVAL \<Rightarrow>
          cbind (clift (pending_steps run)) (\<lambda>pending.
            c_transition E SS_WAITING (Some (wr_error run)) (s\<lparr>sn_pending_approvals := pending\<rparr>))
      | WS_FAILED \<Rightarrow> cbind (c_now E) (\<lambda>now. cret (s\<lparr>sn_error := wr_error run, sn_updated_at := now\<rparr>))
      | WS_COMPENSATION_FAILED \<Rightarrow> cbind (c_now E) (\<lambda>now. cret (s\<lparr>sn_error := wr_error run, sn_updated_at := now\<rparr>))
      | WS_CANCELLED \<Rightarrow> c_transition E SS_CANCELLED (Some (wr_error run)) s
      | WS_UNKNOWN \<Rightarrow> c_transition E SS_WAITING (Some (wr_error run)) s
      | _ \<Rightarrow> c_transition E SS_WAITING None s)"

definition observe_workflow :: "coord_env \<Rightarrow> string \<Rightarrow> workflow_run \<Rightarrow> agent_session ct" where
  "observe_workflow E i run =
     cbind (c_require E i) (\<lambda>s.
     cbind (if sn_state s = SS_SUBMITTING_WORK then c_transition E SS_OBSERVING None s else cret s) (\<lambda>s.
     cbind (clift (reality_evidence run)) (\<lambda>evidence.
     cbind (clift (work_ids_of run)) (\<lambda>work_ids.
     cbind (c_now E) (\<lambda>now. \<lambda>w.
       let events = map (\<lambda>e. fold (\<lambda>(k, v). dict_set k v) e [(''kind'', JStr ''workflow_event'')]) (ce_run_events E (cw_work (fst w)) (wr_run_id run));
           s = s\<lparr>sn_workflow_run_id := wr_run_id run, sn_active_work := work_ids,
             sn_observations := observation_window (sn_observations s @ events @ evidence), sn_updated_at := now\<rparr>
       in cbind (settle_session E run s) (\<lambda>s.
          cbind (c_save E s) (\<lambda>_.
          cbind (publish_session E ''agent.session.workflow.observed'' s
            [(''workflow_run_id'', JStr (wr_run_id run)), (''workflow_state'', JStr (workflow_state_value (wr_state run)))])
            (\<lambda>_. cret s))) w)))))"

section \<open>Plans\<close>

definition reality_step_leaks :: "string list \<Rightarrow> plan_step \<Rightarrow> bool" where
  "reality_step_leaks known s \<longleftrightarrow>
     pn_capability s \<in> {''reality.operation'', ''reality.observe''} \<and>
     json_sort (JObj (redact_obj known (pn_metadata s))) \<noteq> json_sort (JObj (pn_metadata s))"

definition run_inputs :: "agent_session \<Rightarrow> task_plan \<Rightarrow> workflow_definition \<Rightarrow> jobj \<Rightarrow> jobj" where
  "run_inputs s plan d inputs =
     fold (\<lambda>(k, v). dict_set k v)
       [(''_agent_session_id'', JStr (sn_session_id s)), (''_agent_id'', JStr (sn_agent_id s)), (''_plan_id'', JStr (tp_plan_id plan)),
        (''_workflow_id'', JStr (wd_workflow_id d))] inputs"

definition submit_plan :: "coord_env \<Rightarrow> host \<Rightarrow> string \<Rightarrow> task_plan \<Rightarrow> jobj \<Rightarrow> bool \<Rightarrow> agent_session ct" where
  "submit_plan E H i plan inputs replan =
     cbind (c_require E i) (\<lambda>s.
     if session_terminal s then craise (ValueError ''cannot submit a plan to a terminal Agent session'')
     else if list_ex (reality_step_leaks (known_secrets E)) (tp_steps plan)
     then craise (ValueError ''Credential material cannot enter a Reality Plan'')
     else
       cbind (c_transition E (if replan then SS_REPLANNING else SS_PLANNING) (Some []) s) (\<lambda>s.
       cbind (c_now E) (\<lambda>now.
       cbind (clift (bridge_compile plan)) (\<lambda>d.
       cbind (c_work E i (wr_register H (ce_lib E) d)) (\<lambda>_.
       cbind (c_transition E SS_SUBMITTING_WORK None
         (s\<lparr>sn_plan_history := sn_plan_history s @ [task_plan_to_dict plan], sn_workflow_id := wd_workflow_id d,
           sn_pending_approvals := [], sn_result := [], sn_updated_at := now\<rparr>)) (\<lambda>s.
       cbind (c_save E s) (\<lambda>_.
       cbind (publish_session E ''agent.session.plan.submitted'' s
         [(''plan_id'', JStr (tp_plan_id plan)), (''workflow_id'', JStr (wd_workflow_id d))]) (\<lambda>_.
       cbind (c_id E) (\<lambda>new_id.
       cbind (c_work E i (wr_start H (ce_lib E) new_id (wd_workflow_id d) (wd_version d) (run_inputs s plan d inputs)
         (sn_session_id s @ '':'' @ tp_plan_id plan))) (\<lambda>run.
         observe_workflow E (sn_session_id s) run))))))))))"

definition resume_plan :: "coord_env \<Rightarrow> host \<Rightarrow> string \<Rightarrow> string list \<Rightarrow> agent_session ct" where
  "resume_plan E H i approved =
     cbind (c_require E i) (\<lambda>s.
     if sn_workflow_run_id s = [] then craise (ValueError ''Agent session has no Workflow run to resume'')
     else if session_terminal s then craise (ValueError ''cannot resume a terminal Agent session'')
     else
       cbind (if sn_state s = SS_OBSERVING then c_transition E SS_REPLANNING None s else cret s) (\<lambda>s.
       cbind (c_transition E SS_SUBMITTING_WORK None s) (\<lambda>s.
       cbind (c_save E s) (\<lambda>_.
       cbind (c_work E i (wr_resume H (ce_lib E) (sn_workflow_run_id s) approved)) (\<lambda>run.
       cbind (observe_workflow E (sn_session_id s) run) (\<lambda>s.
         if sn_state s = SS_OBSERVING \<and> sn_error s \<noteq> [] then wait_session E i (sn_error s) else cret s))))))"

section \<open>A cycle of coordination\<close>

text \<open>A planner sees the session and may raise; a replanner may also give up.\<close>

type_synonym planner = "agent_session \<Rightarrow> wf_exn + task_plan"
type_synonym replanner = "agent_session \<Rightarrow> wf_exn + task_plan option"

definition c_plan :: "(agent_session \<Rightarrow> wf_exn + 'a) \<Rightarrow> agent_session \<Rightarrow> 'a ct" where
  "c_plan planner s = (\<lambda>w. case planner s of Inl e \<Rightarrow> (Inl (Failed e), w) | Inr p \<Rightarrow> (Inr p, w))"

text \<open>The loop over the revisions; \<open>left\<close> is how many are left.\<close>

fun replan_loop :: "coord_env \<Rightarrow> host \<Rightarrow> string \<Rightarrow> jobj \<Rightarrow> replanner option \<Rightarrow> nat \<Rightarrow> agent_session \<Rightarrow> agent_session ct" where
  "replan_loop E H i inputs replanner 0 s = cret s"
| "replan_loop E H i inputs replanner (Suc left) s =
     (if sn_state s = SS_OBSERVING \<and> sn_error s \<noteq> [] then
        (case replanner of
           None \<Rightarrow> cret s
         | Some p \<Rightarrow>
             cbind (c_transition E SS_REPLANNING (Some (sn_error s)) s) (\<lambda>s.
             cbind (c_save E s) (\<lambda>_.
             cbind (c_plan p s) (\<lambda>replacement.
               case replacement of
                 None \<Rightarrow> cret s
               | Some plan \<Rightarrow>
                   cbind (submit_plan E H i plan inputs True) (\<lambda>s. replan_loop E H i inputs replanner left s)))))
      else cret s)"

definition coordinate_body ::
  "coord_env \<Rightarrow> host \<Rightarrow> string \<Rightarrow> planner \<Rightarrow> jobj \<Rightarrow> replanner option \<Rightarrow> nat \<Rightarrow> agent_session \<Rightarrow> agent_session ct" where
  "coordinate_body E H i planner inputs replanner max_replans s =
     cbind (c_transition E SS_PLANNING None s) (\<lambda>s.
     cbind (c_save E s) (\<lambda>_.
     cbind (c_plan planner s) (\<lambda>plan.
     cbind (submit_plan E H i plan inputs False) (\<lambda>s.
     cbind (replan_loop E H i inputs replanner max_replans s) (\<lambda>s.
       if sn_state s = SS_OBSERVING \<and> sn_error s \<noteq> [] then wait_session E i (sn_error s) else cret s)))))"

definition coordinate ::
  "coord_env \<Rightarrow> host \<Rightarrow> string \<Rightarrow> planner \<Rightarrow> jobj \<Rightarrow> replanner option \<Rightarrow> int \<Rightarrow> agent_session ct" where
  "coordinate E H i planner inputs replanner max_replans =
     (if \<not> (0 \<le> max_replans \<and> max_replans \<le> 8) then craise (ValueError ''max_replans must be between 0 and 8'')
      else
        cbind (c_require E i) (\<lambda>s.
        if session_terminal s then craise (ValueError ''cannot coordinate a terminal Agent session'')
        else (\<lambda>w.
          case coordinate_body E H i planner inputs replanner (nat max_replans) s w of
            (Inl (Failed e), w) \<Rightarrow>
              cbind (c_require E i) (\<lambda>current.
                if session_terminal current then (\<lambda>w. (Inl (Failed e), w))
                else cbind (fail_session E i (wf_exn_text e)) (\<lambda>_. \<lambda>w. (Inl (Failed e), w))) w
          | r \<Rightarrow> r)))"

end
