(* ===== verification/Agent_Coordination_Safety.thy ===== *)
theory Agent_Coordination_Safety
  imports Agent_Coordination
begin

text \<open>
  What holds over any operations of the coordinator: a session that has ended keeps its state, and
  only a failed run is planned again. And what does not hold: a cancellation that is stored between
  the read and the write of an operation is lost, since no revision is compared.
\<close>

section \<open>The table of sessions\<close>

definition state_at :: "session_db \<Rightarrow> string \<Rightarrow> string option" where
  "state_at db i = map_option sx_state (find (\<lambda>r. sx_session_id r = i) db)"

definition keeps_id :: "string list \<Rightarrow> string \<Rightarrow> bool" where
  "keeps_id K i \<longleftrightarrow> redact_sensitive_text K i = i"

text \<open>Every row is what the store writes for a session whose identifier redaction leaves alone.\<close>

definition sessions_stored :: "string list \<Rightarrow> session_db \<Rightarrow> bool" where
  "sessions_stored K db \<longleftrightarrow> (\<forall>r \<in> set db. \<exists>s. r = session_row_of K s \<and> keeps_id K (sn_session_id s))"

lemma find_filter_other: "find (\<lambda>r. sx_session_id r = i) (filter (\<lambda>r. sx_session_id r \<noteq> j) db) =
    (if i = j then None else find (\<lambda>r. sx_session_id r = i) db)"
  by (induction db) auto

lemma find_snoc: "find P (xs @ [x]) = (case find P xs of None \<Rightarrow> if P x then Some x else None | Some y \<Rightarrow> Some y)"
  by (induction xs) auto

lemma state_at_save:
  "state_at (session_save K s db) i = (if i = sn_session_id s then Some (session_state_value (sn_state s)) else state_at db i)"
  by (auto simp: state_at_def session_save_def find_filter_other find_snoc session_row_of_def split: option.split)

lemma stored_save: "sessions_stored K db \<Longrightarrow> keeps_id K (sn_session_id s) \<Longrightarrow> sessions_stored K (session_save K s db)"
  by (auto simp: sessions_stored_def session_save_def)

lemma get_stored:
  assumes "session_quiet K" "sessions_stored K db" "session_get now i db = Inr (Some s)"
  shows "sn_session_id s = i" "keeps_id K i" "state_at db i = Some (session_state_value (sn_state s))"
proof -
  obtain r where r: "find (\<lambda>r. sx_session_id r = i) db = Some r" "session_of_row now r = Inr s"
    using assms(3) by (auto simp: session_get_def bindE_eq_Inr split: option.splits)
  then have "r \<in> set db" "sx_session_id r = i" by (auto simp: find_Some_iff)
  then obtain s0 where s0: "r = session_row_of K s0" "keeps_id K (sn_session_id s0)" "sn_session_id s0 = i"
    using assms(2) by (auto simp: sessions_stored_def session_row_of_def)
  from saved_state [OF assms(1), of now s0 s] r(2) s0 have "sn_state s = sn_state s0" "sn_session_id s = sn_session_id s0"
    by (simp_all add: keeps_id_def)
  then show "sn_session_id s = i" "keeps_id K i" "state_at db i = Some (session_state_value (sn_state s))"
    using s0 r(1) by (simp_all add: state_at_def) (simp add: session_row_of_def)
qed

section \<open>Operations that keep a session ended\<close>

text \<open>
  The session \<open>i\<close> has ended in state \<open>st\<close>. An operation is \<open>calm\<close> when, from any table where that is so
  and for whatever it returns, it is still so, and what it returns has the property given.
\<close>

definition ended :: "string list \<Rightarrow> string \<Rightarrow> session_state \<Rightarrow> coord_state \<Rightarrow> bool" where
  "ended K i st w \<longleftrightarrow> sessions_stored K (cw_sessions (fst w)) \<and> state_at (cw_sessions (fst w)) i = Some (session_state_value st)"

definition agrees :: "string list \<Rightarrow> string \<Rightarrow> session_state \<Rightarrow> agent_session \<Rightarrow> bool" where
  "agrees K i st s \<longleftrightarrow> keeps_id K (sn_session_id s) \<and> (sn_session_id s = i \<longrightarrow> sn_state s = st)"

definition calm :: "string list \<Rightarrow> string \<Rightarrow> session_state \<Rightarrow> ('a \<Rightarrow> bool) \<Rightarrow> 'a ct \<Rightarrow> bool" where
  "calm K i st Q m \<longleftrightarrow> (\<forall>w. ended K i st w \<longrightarrow> ended K i st (snd (m w)) \<and> (\<forall>x. fst (m w) = Inr x \<longrightarrow> Q x))"

lemma calm_bind [intro]:
  assumes "calm K i st Q m" "\<And>x. Q x \<Longrightarrow> calm K i st R (f x)"
  shows "calm K i st R (cbind m f)"
  unfolding calm_def
proof (intro allI impI)
  fix w assume w: "ended K i st w"
  obtain r w' where m: "m w = (r, w')" by (rule prod.exhaust)
  with assms(1) w have w': "ended K i st w'" "\<And>x. r = Inr x \<Longrightarrow> Q x" unfolding calm_def by (metis fst_conv snd_conv)+
  show "ended K i st (snd (cbind m f w)) \<and> (\<forall>x. fst (cbind m f w) = Inr x \<longrightarrow> R x)"
  proof (cases r)
    case (Inl e)
    then show ?thesis using w' by (simp add: cbind_def m)
  next
    case (Inr x)
    then have "calm K i st R (f x)" using assms(2) w'(2) by simp
    with w'(1) have "ended K i st (snd (f x w')) \<and> (\<forall>y. fst (f x w') = Inr y \<longrightarrow> R y)"
      unfolding calm_def by blast
    then show ?thesis unfolding cbind_def m Inr prod.case sum.case .
  qed
qed

lemma calm_ret: "Q x \<Longrightarrow> calm K i st Q (cret x)"
  by (simp add: calm_def cret_def)

lemma calm_raise: "calm K i st Q (craise e)"
  by (simp add: calm_def craise_def)

lemma calm_lift: "(\<And>x. m = Inr x \<Longrightarrow> Q x) \<Longrightarrow> calm K i st Q (clift m)"
  by (cases m) (simp_all add: clift_def calm_ret calm_raise)

lemma calm_now: "calm K i st (\<lambda>_. True) (c_now E)"
  by (auto simp: calm_def c_now_def split: prod.splits)

lemma calm_id: "calm K i st (\<lambda>x. x \<in> range (ce_id E)) (c_id E)"
  by (auto simp: calm_def c_id_def ended_def split: prod.splits)

lemma calm_mono: "calm K i st Q m \<Longrightarrow> (\<And>x. Q x \<Longrightarrow> R x) \<Longrightarrow> calm K i st R m"
  by (simp add: calm_def)

lemma calm_if: "(b \<Longrightarrow> calm K i st Q m) \<Longrightarrow> (\<not> b \<Longrightarrow> calm K i st Q n) \<Longrightarrow> calm K i st Q (if b then m else n)"
  by simp

lemma calm_option:
  "(x = None \<Longrightarrow> calm K i st Q m) \<Longrightarrow> (\<And>y. x = Some y \<Longrightarrow> calm K i st Q (f y)) \<Longrightarrow> calm K i st Q (case x of None \<Rightarrow> m | Some y \<Rightarrow> f y)"
  by (cases x) simp_all

lemma calm_Let: "calm K i st Q (f x) \<Longrightarrow> calm K i st Q (let y = x in f y)"
  by (simp add: Let_def)

text \<open>
  What the environment may do: the others do not reopen the session either, and the identifiers of new
  sessions are new.
\<close>

definition undisturbed :: "coord_env \<Rightarrow> string \<Rightarrow> session_state \<Rightarrow> bool" where
  "undisturbed E i st \<longleftrightarrow>
     session_quiet (known_secrets E) \<and> st \<in> set TERMINAL_STATES \<and>
     (\<forall>n. list_all (agrees (known_secrets E) i st) (ce_others E n)) \<and>
     (\<forall>n. keeps_id (known_secrets E) (''agent_session_'' @ ce_id E n) \<and> ''agent_session_'' @ ce_id E n \<noteq> i)"

lemma ended_save:
  assumes "ended K i st (cw, bus)" "agrees K i st s"
  shows "ended K i st (cw\<lparr>cw_sessions := session_save K s (cw_sessions cw)\<rparr>, bus')"
  using assms by (auto simp: ended_def agrees_def stored_save state_at_save)

lemma ended_saves:
  assumes "ended K i st (cw, bus)" "list_all (agrees K i st) ss"
  shows "ended K i st (cw\<lparr>cw_sessions := fold (session_save K) ss (cw_sessions cw)\<rparr>, bus')"
  using assms
proof (induction ss arbitrary: cw)
  case (Cons s ss)
  from ended_save [OF Cons.prems(1), of s] Cons.prems(2) Cons.IH [of "cw\<lparr>cw_sessions := session_save K s (cw_sessions cw)\<rparr>"]
  show ?case by (simp add: ended_def)
qed (simp add: ended_def)

lemma ended_tick: "undisturbed E i st \<Longrightarrow> ended (known_secrets E) i st w \<Longrightarrow> ended (known_secrets E) i st (c_tick E w)"
  using ended_saves [of "known_secrets E" i st "fst w" "snd w" "ce_others E (cw_tick (fst w))"]
  by (cases w) (simp add: c_tick_def ended_def undisturbed_def)

lemma get_agrees:
  assumes "undisturbed E i st" "ended (known_secrets E) i st w" "session_get now j (cw_sessions (fst w)) = Inr (Some s)"
  shows "agrees (known_secrets E) i st s"
proof -
  have "session_quiet (known_secrets E)" "sessions_stored (known_secrets E) (cw_sessions (fst w))"
    using assms(1,2) by (simp_all add: undisturbed_def ended_def)
  note g = get_stored [OF this assms(3)]
  then show ?thesis using assms(2) by (auto simp: agrees_def ended_def)
qed

lemma calm_get:
  assumes "undisturbed E i st"
  shows "calm (known_secrets E) i st (\<lambda>s. \<forall>x. s = Some x \<longrightarrow> agrees (known_secrets E) i st x) (c_get E j)"
  unfolding calm_def
proof (intro allI impI)
  fix w assume "ended (known_secrets E) i st w"
  then have w: "ended (known_secrets E) i st (c_tick E w)" by (rule ended_tick [OF assms])
  let ?r = "session_get (ce_now E (cw_tick (fst (c_tick E w)))) j (cw_sessions (fst (c_tick E w)))"
  have "c_get E j w = (case ?r of Inl e \<Rightarrow> Inl (Failed (PyExn e)) | Inr x \<Rightarrow> Inr x, c_tick E w)"
    by (simp add: c_get_def clift_def craise_def cret_def Let_def split: sum.split)
  then show "ended (known_secrets E) i st (snd (c_get E j w)) \<and>
      (\<forall>x. fst (c_get E j w) = Inr x \<longrightarrow> (\<forall>y. x = Some y \<longrightarrow> agrees (known_secrets E) i st y))"
    using w get_agrees [OF assms w] by (auto split: sum.splits)
qed

lemma calm_save:
  assumes "undisturbed E i st" "agrees (known_secrets E) i st s"
  shows "calm (known_secrets E) i st (\<lambda>_. True) (c_save E s)"
  unfolding calm_def
proof (intro allI impI)
  fix w assume "ended (known_secrets E) i st w"
  then have "ended (known_secrets E) i st (fst (c_tick E w), snd (c_tick E w))" by (simp add: ended_tick [OF assms(1)])
  from ended_save [OF this assms(2)]
  show "ended (known_secrets E) i st (snd (c_save E s w)) \<and> (\<forall>x. fst (c_save E s w) = Inr x \<longrightarrow> True)"
    by (simp add: c_save_def split_def Let_def)
qed

lemma calm_require: "undisturbed E i st \<Longrightarrow> calm (known_secrets E) i st (agrees (known_secrets E) i st) (c_require E j)"
  unfolding c_require_def by (rule calm_bind [OF calm_get]) (auto intro: calm_option calm_raise calm_ret)

lemma transition_agrees:
  assumes "undisturbed E i st" "agrees K i st s" "transition_session now target error s = Inr s'"
  shows "agrees K i st s'"
  using transition_session_Inr [OF assms(3)] assms(1,2) by (auto simp: agrees_def undisturbed_def session_terminal_def)

lemma calm_transition:
  assumes "undisturbed E i st" "agrees (known_secrets E) i st s"
  shows "calm (known_secrets E) i st (agrees (known_secrets E) i st) (c_transition E target error s)"
  unfolding c_transition_def by (rule calm_bind [OF calm_now], rule calm_lift, rule transition_agrees [OF assms])

lemma calm_lifted: "calm K i st (\<lambda>_. True) (clift m)"
  by (rule calm_lift) simp

lemmas calm_intros = calm_bind calm_if calm_option calm_Let calm_now calm_id calm_lifted calm_raise calm_ret

lemma calm_record_observation:
  assumes u: "undisturbed E i st" and a: "agrees (known_secrets E) i st s"
  shows "calm (known_secrets E) i st (\<lambda>_. True) (record_observation E e s)"
  unfolding record_observation_def
  by ((rule calm_intros calm_save [OF u] calm_transition [OF u] | use a in \<open>simp add: agrees_def\<close>)+)

lemma calm_record_runtime_event:
  assumes u: "undisturbed E i st"
  shows "calm (known_secrets E) i st (\<lambda>_. True) (record_runtime_event E j e)"
  unfolding record_runtime_event_def
  by (rule calm_intros calm_get [OF u] calm_record_observation [OF u] TrueI | simp)+

section \<open>Publishing\<close>

lemma ended_bus: "ended K i st (cw, bus) \<Longrightarrow> ended K i st (cw, bus')"
  by (simp add: ended_def)

lemma ended_fold: "(\<And>x w. ended K i st w \<Longrightarrow> ended K i st (f x w)) \<Longrightarrow> ended K i st w \<Longrightarrow> ended K i st (fold f xs w)"
  by (induction xs arbitrary: w) auto

lemma ended_listener:
  assumes u: "undisturbed E i st" and w: "ended (known_secrets E) i st w"
  shows "ended (known_secrets E) i st (call_listener (listener E) e cb w)"
proof -
  have "ended (known_secrets E) i st (snd (record_runtime_event E cb e w))" using calm_record_runtime_event [OF u] w by (simp only: calm_def)
  then have "ended (known_secrets E) i st (snd (listener E cb e w))" unfolding listener_def
    by (cases "record_runtime_event E cb e w"; cases "fst (record_runtime_event E cb e w)") simp_all
  then show ?thesis by (cases "listener E cb e w") (simp add: call_listener_def Let_def ended_def)
qed

lemma ended_publish:
  assumes "undisturbed E i st" "ended (known_secrets E) i st w"
  shows "ended (known_secrets E) i st (publish (listener E) e w)"
proof -
  have "ended (known_secrets E) i st (fst w, note_event e (snd w))" using assms(2) by (simp add: ended_def)
  then show ?thesis unfolding publish_def notify_subscribers_def split_def
    by (intro ended_fold ended_listener [OF assms(1)]) simp_all
qed

lemma calm_c_publish: "undisturbed E i st \<Longrightarrow> calm (known_secrets E) i st (\<lambda>_. True) (c_publish E t src payload metadata)"
  unfolding c_publish_def by (rule calm_intros)+ (simp add: calm_def ended_publish)

lemma calm_publish_session: "undisturbed E i st \<Longrightarrow> calm (known_secrets E) i st (\<lambda>_. True) (publish_session E t s payload)"
  unfolding publish_session_def by (rule calm_c_publish)

lemma ended_subscribe: "ended K i st w \<Longrightarrow> ended K i st (subscribe_pattern j pattern w)"
  by (cases w) (simp add: subscribe_pattern_def ended_def)

lemma calm_subscribe_session: "calm K i st (\<lambda>_. True) (subscribe_session s)"
  by (simp add: calm_def subscribe_session_def ended_fold ended_subscribe)

lemma calm_work:
  assumes "undisturbed E i st"
  shows "calm (known_secrets E) i st (\<lambda>_. True) (c_work E j m)"
proof -
  have "ended (known_secrets E) i st (snd (c_publish E t src payload metadata w))" if "ended (known_secrets E) i st w" for t src payload metadata w
    using calm_c_publish [OF assms] that by (simp only: calm_def)
  then show ?thesis
    unfolding calm_def c_work_def split_def Let_def snd_conv by (intro allI impI conjI TrueI ended_fold) (simp_all add: ended_def)
qed

section \<open>The operations of the coordinator\<close>

lemmas calm_steps = calm_intros calm_save calm_transition calm_require calm_publish_session calm_subscribe_session calm_work

lemma calm_end_session: "undisturbed E i st \<Longrightarrow> calm (known_secrets E) i st (agrees (known_secrets E) i st) (end_session E target t j reason)"
  unfolding end_session_def by (rule calm_steps | assumption)+

lemma calm_complete_session: "undisturbed E i st \<Longrightarrow> calm (known_secrets E) i st (agrees (known_secrets E) i st) (complete_session E j result)"
  unfolding complete_session_def by (rule calm_steps | assumption | simp add: agrees_def)+

lemma calm_create_session:
  assumes u: "undisturbed E i st"
  shows "calm (known_secrets E) i st (agrees (known_secrets E) i st) (create_session E a m obj c subs b p)"
proof -
  have new: "agrees (known_secrets E) i st s"
    if "x \<in> range (ce_id E)" "session_create x now a m o' c' subs b p = Inr s" for x now s o' c'
    using that u by (auto simp: session_create_def agrees_def undisturbed_def Let_def split: if_splits)
  show ?thesis unfolding create_session_def
    by (rule calm_bind [OF calm_id], rule calm_bind [OF calm_now], rule calm_bind [OF calm_lift], erule new, assumption)
      (rule calm_steps u | assumption)+
qed

lemma calm_settle_session:
  assumes u: "undisturbed E i st" and a: "agrees (known_secrets E) i st s"
  shows "calm (known_secrets E) i st (agrees (known_secrets E) i st) (settle_session E run s)"
  unfolding settle_session_def
  by (cases "wr_state run"; simp only: workflow_state.case) (rule calm_steps u | assumption | use a in \<open>simp add: agrees_def\<close>)+

lemma calm_observe_workflow:
  assumes u: "undisturbed E i st"
  shows "calm (known_secrets E) i st (agrees (known_secrets E) i st) (observe_workflow E j run)"
proof -
  have inner: "calm (known_secrets E) i st (agrees (known_secrets E) i st) (\<lambda>w.
      let events = g w; s = upd events s
      in cbind (settle_session E run s) (\<lambda>s. cbind (c_save E s) (\<lambda>_. cbind (publish_session E t s payload) (\<lambda>_. cret s))) w)"
    if "\<And>x. agrees (known_secrets E) i st (upd x s)" for g upd s t payload
  proof -
    have "calm (known_secrets E) i st (agrees (known_secrets E) i st)
        (cbind (settle_session E run (upd x s)) (\<lambda>s. cbind (c_save E s) (\<lambda>_. cbind (publish_session E t s payload) (\<lambda>_. cret s))))" for x
      by (rule calm_steps calm_settle_session u that | assumption)+
    then show ?thesis unfolding calm_def Let_def by blast
  qed
  show ?thesis unfolding observe_workflow_def
    by (rule calm_bind [OF calm_require [OF u]], rule calm_bind, (rule calm_steps u | assumption)+) (rule inner, simp add: agrees_def)
qed

lemma calm_submit_plan:
  assumes u: "undisturbed E i st"
  shows "calm (known_secrets E) i st (agrees (known_secrets E) i st) (submit_plan E H j plan inputs replan)"
  unfolding submit_plan_def
  by (rule calm_steps calm_observe_workflow u | assumption | simp add: agrees_def)+

lemma calm_wait_session: "undisturbed E i st \<Longrightarrow> calm (known_secrets E) i st (agrees (known_secrets E) i st) (wait_session E j reason)"
  unfolding wait_session_def by (rule calm_end_session)

lemma calm_resume_plan:
  assumes u: "undisturbed E i st"
  shows "calm (known_secrets E) i st (agrees (known_secrets E) i st) (resume_plan E H j approved)"
  unfolding resume_plan_def
  by (rule calm_steps calm_observe_workflow calm_wait_session u | assumption | simp add: agrees_def)+

lemma calm_c_plan: "calm K i st (\<lambda>_. True) (c_plan p s)"
  by (simp add: calm_def c_plan_def split: sum.split)

lemma calm_replan_loop:
  assumes u: "undisturbed E i st"
  shows "agrees (known_secrets E) i st s \<Longrightarrow> calm (known_secrets E) i st (agrees (known_secrets E) i st) (replan_loop E H j inputs r n s)"
proof (induction n arbitrary: s)
  case (Suc n)
  show ?case
    by (simp only: replan_loop.simps) (rule calm_steps calm_submit_plan calm_c_plan Suc.IH Suc.prems u | assumption)+
qed (simp add: calm_ret)

lemma calm_coordinate_body:
  assumes u: "undisturbed E i st" and a: "agrees (known_secrets E) i st s"
  shows "calm (known_secrets E) i st (agrees (known_secrets E) i st) (coordinate_body E H j planner inputs replanner n s)"
  unfolding coordinate_body_def
  by (rule calm_steps calm_submit_plan calm_c_plan calm_replan_loop calm_wait_session u a | assumption)+

lemma calm_coordinate:
  assumes u: "undisturbed E i st"
  shows "calm (known_secrets E) i st (agrees (known_secrets E) i st) (coordinate E H j planner inputs replanner n)"
proof -
  have again: "calm (known_secrets E) i st (agrees (known_secrets E) i st) (\<lambda>w. (Inl (Failed e), w))" for e
    by (simp add: calm_def)
  have failed: "calm (known_secrets E) i st (agrees (known_secrets E) i st) (cbind (c_require E j) (\<lambda>current.
      if session_terminal current then (\<lambda>w. (Inl (Failed e), w)) else cbind (fail_session E j (wf_exn_text e)) (\<lambda>_. \<lambda>w. (Inl (Failed e), w))))" for e
    unfolding fail_session_def
    by (rule calm_bind calm_if calm_require [OF u] calm_end_session [OF u] again)+
  have caught: "calm (known_secrets E) i st (agrees (known_secrets E) i st) (\<lambda>w. case m w of
      (Inl (Failed e), w) \<Rightarrow> f e w | r \<Rightarrow> r)"
    if "calm (known_secrets E) i st (agrees (known_secrets E) i st) m" "\<And>e. calm (known_secrets E) i st (agrees (known_secrets E) i st) (f e)" for m f
    unfolding calm_def
  proof (intro allI impI)
    fix w assume w: "ended (known_secrets E) i st w"
    obtain r w' where m: "m w = (r, w')" by (rule prod.exhaust)
    from that(1) w have r: "ended (known_secrets E) i st w'" "\<And>x. r = Inr x \<Longrightarrow> agrees (known_secrets E) i st x"
      unfolding calm_def by (metis m fst_conv snd_conv)+
    let ?k = "case m w of (Inl (Failed e), w) \<Rightarrow> f e w | r \<Rightarrow> r"
    show "ended (known_secrets E) i st (snd ?k) \<and> (\<forall>x. fst ?k = Inr x \<longrightarrow> agrees (known_secrets E) i st x)"
    proof (cases "\<exists>e. r = Inl (Failed e)")
      case True
      then obtain e where "?k = f e w'" by (auto simp: m)
      moreover from that(2) [of e] r(1) have "ended (known_secrets E) i st (snd (f e w')) \<and> (\<forall>x. fst (f e w') = Inr x \<longrightarrow> agrees (known_secrets E) i st x)"
        unfolding calm_def by blast
      ultimately show ?thesis by (rule ssubst)
    next
      case False
      then have "?k = (r, w')" by (auto simp: m split: sum.split rt_exn.split)
      with r show ?thesis by simp
    qed
  qed
  show ?thesis unfolding coordinate_def
    by (rule calm_steps caught calm_coordinate_body failed u | assumption)+
qed

section \<open>Sequences of operations\<close>

datatype coord_op =
    Create string string string jobj "string list" jobj jobj
  | Coordinate host string planner jobj "replanner option" int
  | Submit_Plan host string task_plan jobj bool
  | Resume_Plan host string "string list"
  | Wait string string
  | Complete string jobj
  | Fail string string
  | Cancel string string
  | Event event_envelope
  | Restore
  | Close

text \<open>The state after an operation, whether it returned or raised\<close>

fun run_coord_op :: "coord_env \<Rightarrow> coord_op \<Rightarrow> coord_state \<Rightarrow> coord_state" where
  "run_coord_op E (Create a m objective c subs b p) w = snd (create_session E a m objective c subs b p w)"
| "run_coord_op E (Coordinate H i planner inputs replanner n) w = snd (coordinate E H i planner inputs replanner n w)"
| "run_coord_op E (Submit_Plan H i plan inputs replan) w = snd (submit_plan E H i plan inputs replan w)"
| "run_coord_op E (Resume_Plan H i approved) w = snd (resume_plan E H i approved w)"
| "run_coord_op E (Wait i reason) w = snd (wait_session E i reason w)"
| "run_coord_op E (Complete i result) w = snd (complete_session E i result w)"
| "run_coord_op E (Fail i reason) w = snd (fail_session E i reason w)"
| "run_coord_op E (Cancel i reason) w = snd (cancel_session E i reason w)"
| "run_coord_op E (Event e) w = publish (listener E) e w"
| "run_coord_op E Restore w = snd (restore_subscriptions E w)"
| "run_coord_op E Close w = coord_close w"

lemma ended_op:
  assumes u: "undisturbed E i st" and w: "ended (known_secrets E) i st w"
  shows "ended (known_secrets E) i st (run_coord_op E x w)"
proof (cases x)
  case Restore
  have t: "ended (known_secrets E) i st (c_tick E w)" using u w by (rule ended_tick)
  let ?w = "c_tick E w"
  show ?thesis
  proof (cases "session_list (ce_now E (cw_tick (fst ?w))) False (cw_sessions (fst ?w))")
    case (Inl e)
    with t show ?thesis by (simp add: Restore restore_subscriptions_def split_def Let_def)
  next
    case (Inr ss)
    have "ended (known_secrets E) i st (fold (\<lambda>s. fold (subscribe_pattern (sn_session_id s)) (sn_event_subscriptions s)) ss ?w)"
      by (intro ended_fold ended_subscribe t)
    then show ?thesis by (simp add: Inr Restore restore_subscriptions_def split_def Let_def)
  qed
next
  case Close
  show ?thesis using w by (cases w) (simp add: Close coord_close_def ended_def)
next
  case (Event e)
  then show ?thesis by (simp add: ended_publish [OF u w])
qed (use calm_create_session [OF u] calm_coordinate [OF u] calm_submit_plan [OF u] calm_resume_plan [OF u] calm_wait_session [OF u]
      calm_complete_session [OF u] calm_end_session [OF u] w in \<open>simp_all only: run_coord_op.simps fail_session_def cancel_session_def calm_def\<close>)

lemma ended_ops: "undisturbed E i st \<Longrightarrow> ended (known_secrets E) i st w \<Longrightarrow> ended (known_secrets E) i st (fold (run_coord_op E) ops w)"
  by (rule ended_fold [OF ended_op])

text \<open>
  C28: Left to one coordinator, a session that has ended stays ended. Once a session is completed,
  failed or cancelled, and provided that whatever other threads and processes write to its row keeps
  its state (\<open>undisturbed\<close>), no sequence of operations of the coordinator, on this session or others,
  with whatever plans, handlers and events, gives it another state.
\<close>

theorem terminal_session_is_final:
  assumes "undisturbed E i st" "sessions_stored (known_secrets E) (cw_sessions (fst w))"
    and "state_at (cw_sessions (fst w)) i = Some (session_state_value st)"
  shows "state_at (cw_sessions (fst (fold (run_coord_op E) ops w))) i = Some (session_state_value st)"
  using ended_ops [OF assms(1), of w ops] assms(2,3) by (simp add: ended_def)

section \<open>What the outcome of a run means\<close>

definition yields :: "('a \<Rightarrow> bool) \<Rightarrow> 'a ct \<Rightarrow> bool" where
  "yields Q m \<longleftrightarrow> (\<forall>w x. fst (m w) = Inr x \<longrightarrow> Q x)"

lemma yields_bind:
  assumes "yields P m" "\<And>x. P x \<Longrightarrow> yields Q (f x)"
  shows "yields Q (cbind m f)"
  unfolding yields_def
proof (intro allI impI)
  fix w y assume y: "fst (cbind m f w) = Inr y"
  obtain r w' where m: "m w = (r, w')" by (rule prod.exhaust)
  with y obtain x where x: "r = Inr x" "fst (f x w') = Inr y" by (cases r) (simp_all add: cbind_def)
  with assms(1) m have "P x" unfolding yields_def by (metis fst_conv)
  with assms(2) x(2) show "Q y" unfolding yields_def by blast
qed

lemma yields_mono: "yields P m \<Longrightarrow> (\<And>x. P x \<Longrightarrow> Q x) \<Longrightarrow> yields Q m"
  by (simp add: yields_def)

lemma yields_any: "yields (\<lambda>_. True) m"
  by (simp add: yields_def)

lemma yields_ret: "Q x \<Longrightarrow> yields Q (cret x)"
  by (simp add: yields_def cret_def)

lemma yields_transition: "yields (\<lambda>s'. sn_state s' = target) (c_transition E target error s)"
  by (auto simp: yields_def c_transition_def cbind_def c_now_def clift_def craise_def cret_def
      dest: transition_session_Inr(1) split: sum.splits prod.splits)

text \<open>The state of a session after a run of which it is told\<close>

definition told :: "workflow_run \<Rightarrow> agent_session \<Rightarrow> bool" where
  "told run s \<longleftrightarrow>
     (case wr_state run of
        WS_COMPLETED \<Rightarrow> sn_state s = SS_COMPLETED \<and> sn_error s = [] \<and>
          sn_result s = [(''workflow_outputs'', JObj (wr_outputs run))] \<and> sn_pending_approvals s = []
      | WS_CANCELLED \<Rightarrow> sn_state s = SS_CANCELLED
      | WS_FAILED \<Rightarrow> sn_error s = wr_error run
      | WS_COMPENSATION_FAILED \<Rightarrow> sn_error s = wr_error run
      | _ \<Rightarrow> sn_state s = SS_WAITING)"

lemma yields_settle: "yields (told run) (settle_session E run s)"
proof (cases "wr_state run")
  case WS_COMPLETED
  then show ?thesis unfolding settle_session_def
    by (simp only: workflow_state.case) (rule yields_bind [OF yields_transition], rule yields_bind [OF yields_any], rule yields_ret, simp add: told_def)
next
  case WS_WAITING_APPROVAL
  then show ?thesis unfolding settle_session_def told_def
    by (simp only: workflow_state.case) (rule yields_bind [OF yields_any], rule yields_transition)
next
  case WS_FAILED
  then show ?thesis unfolding settle_session_def
    by (simp only: workflow_state.case) (rule yields_bind [OF yields_any], rule yields_ret, simp add: told_def)
next
  case WS_COMPENSATION_FAILED
  then show ?thesis unfolding settle_session_def
    by (simp only: workflow_state.case) (rule yields_bind [OF yields_any], rule yields_ret, simp add: told_def)
qed (auto simp: settle_session_def told_def intro: yields_mono [OF yields_transition])

lemma yields_observe: "yields (told run) (observe_workflow E i run)"
proof -
  have "yields (told run) (\<lambda>w. let events = g w; s = upd events s
      in cbind (settle_session E run s) (\<lambda>s. cbind (c_save E s) (\<lambda>_. cbind (publish_session E t s payload) (\<lambda>_. cret s))) w)" for g upd s t payload
  proof -
    have "yields (told run) (cbind (settle_session E run (upd x s)) (\<lambda>s. cbind (c_save E s) (\<lambda>_. cbind (publish_session E t s payload) (\<lambda>_. cret s))))" for x
      by (rule yields_bind [OF yields_settle], rule yields_bind [OF yields_any], rule yields_bind [OF yields_any], erule yields_ret)
    then show ?thesis unfolding yields_def Let_def by blast
  qed
  then show ?thesis unfolding observe_workflow_def by (intro yields_bind [OF yields_any])
qed

text \<open>
  C29: What a session becomes is decided by the run it observes, and only a failed run is planned
  again. After a completed run the session is completed with the outputs of the run and no error, after
  a cancelled one it is cancelled, after a failed one (or one whose compensation failed) it has the
  error of the run, and after any other, also one whose effects are unknown, it waits. Unless the run
  failed, the loop of revisions then returns the session as it is and the replanner is not asked,
  whatever revisions are left.
\<close>

theorem only_failed_runs_are_replanned:
  assumes "observe_workflow E i run w = (Inr s, w')"
  shows "(case wr_state run of
      WS_COMPLETED \<Rightarrow> sn_state s = SS_COMPLETED \<and> sn_error s = [] \<and> sn_result s = [(''workflow_outputs'', JObj (wr_outputs run))]
    | WS_CANCELLED \<Rightarrow> sn_state s = SS_CANCELLED
    | WS_FAILED \<Rightarrow> sn_error s = wr_error run
    | WS_COMPENSATION_FAILED \<Rightarrow> sn_error s = wr_error run
    | _ \<Rightarrow> sn_state s = SS_WAITING) \<and>
    (wr_state run \<notin> {WS_FAILED, WS_COMPENSATION_FAILED} \<longrightarrow> (\<forall>E H j inputs r n. replan_loop E H j inputs r n s = cret s))"
proof -
  have told: "told run s" using yields_observe [of run E i] assms unfolding yields_def by (metis fst_conv)
  have "replan_loop E H j inputs r n s = cret s" if "sn_state s \<noteq> SS_OBSERVING" for E H j inputs r n
    using that by (cases n) simp_all
  with told show ?thesis by (cases "wr_state run") (simp_all add: told_def)
qed

section \<open>What is lost\<close>

text \<open>
  C30: A cancellation can be lost. When another thread cancels the session after \<open>wait_session\<close> has
  read it and before it writes, and nobody subscribes to the bus, \<open>wait_session\<close> succeeds and the
  stored session is waiting and not cancelled any more: the store compares no revision.
\<close>

theorem cancellation_between_read_and_write_lost:
  assumes "eb_subscriptions bus = []" "ce_others E (cw_tick cw) = []" "ce_others E (Suc (cw_tick cw)) = [c]"
    and "sn_session_id c = i" "sn_state c = SS_CANCELLED"
    and "session_get (ce_now E (Suc (cw_tick cw))) i (cw_sessions cw) = Inr (Some s)" "sn_session_id s = i"
    and "SS_WAITING \<in> set (session_successors (sn_state s))"
  shows "state_at (session_save (known_secrets E) c (cw_sessions cw)) i = Some ''CANCELLED'' \<and>
    (let (r, w) = wait_session E i reason (cw, bus) in
      map_sum id sn_state r = Inr SS_WAITING \<and> state_at (cw_sessions (fst w)) i = Some ''WAITING'')"
proof -
  have ne: "sn_state s \<noteq> SS_WAITING" using assms(8) by (cases "sn_state s") simp_all
  show ?thesis
    using assms ne
    by (simp add: wait_session_def end_session_def cbind_def c_require_def c_get_def c_tick_def clift_def cret_def c_transition_def c_now_def
        transition_session_def c_save_def publish_session_def c_publish_def c_id_def publish_def notify_subscribers_def recipients_def
        note_event_def state_at_save Let_def)
qed

section \<open>Examples\<close>

definition coord_demo_session :: "session_state \<Rightarrow> agent_session" where
  "coord_demo_session st =
     \<lparr>sn_session_id = ''a'', sn_agent_id = ''b'', sn_model = [], sn_objective = ''c'', sn_state = st, sn_context = [], sn_active_work = [],
      sn_pending_approvals = [], sn_event_subscriptions = [], sn_budget = [], sn_policy_scope = [], sn_plan_history = [],
      sn_workflow_id = [], sn_workflow_run_id = [], sn_observations = [], sn_result = [], sn_error = [], sn_created_at = ''t'',
      sn_updated_at = ''t''\<rparr>"

definition coord_demo_row :: "session_state \<Rightarrow> session_row" where
  "coord_demo_row st =
     \<lparr>sx_session_id = ''a'', sx_state = session_state_value st, sx_updated_at = ''t'', sx_json = JObj (session_to_dict (coord_demo_session st))\<rparr>"

definition coord_demo_env :: "agent_session list \<Rightarrow> coord_env" where
  "coord_demo_env others =
     \<lparr>ce_lib = sample_lib, ce_now = (\<lambda>_. ''n''), ce_id = (\<lambda>_. ''z''), ce_others = (\<lambda>n. if n = 1 then others else []),
      ce_run_events = (\<lambda>_ _. [])\<rparr>"

definition coord_demo :: "session_row \<Rightarrow> coord_state" where
  "coord_demo row = (\<lparr>cw_sessions = [row], cw_work = \<lparr>w_db = empty_db, w_tick = 0, w_calls = [], w_events = []\<rparr>, cw_tick = 0,
     cw_subscribed = []\<rparr>, new_bus ''w'' 100 32 [])"

lemma coord_demo_known [simp]: "known_secrets (coord_demo_env others) = []"
  by (simp add: known_secrets_def coord_demo_env_def sample_lib_def)

lemma coord_demo_get: "session_get now ''a'' [coord_demo_row st] = Inr (Some (coord_demo_session st))"
  by (cases st)
    (simp_all add: session_get_def coord_demo_row_def session_of_row_def session_from_dict_def session_to_dict_def coord_demo_session_def
      reader_simps rd_texts_def rd_dicts_def jstrs_def session_state_of_def enum_of_def all_session_states_def rd_str_def rd_dict_def rd_list_def
      get_or_def)

theorem terminal_session_is_final_witness:
  "state_at (cw_sessions (fst (fold (run_coord_op (coord_demo_env [])) [Complete ''a'' [], Wait ''a'' [], Cancel ''a'' []]
     (coord_demo (session_row_of [] (coord_demo_session SS_CANCELLED)))))) ''a'' = Some ''CANCELLED''"
proof -
  have plain_ids: "keeps_id [] ''a''" "keeps_id [] (''agent_session_'' @ ''z'')"
    by (simp_all add: keeps_id_def redact_text_plain plain_def plain_char_def py_isspace_def)
  have "undisturbed (coord_demo_env []) ''a'' SS_CANCELLED"
    using plain_ids(2) by (simp add: undisturbed_def TERMINAL_STATES_def) (simp add: coord_demo_env_def)
  moreover have "sessions_stored [] [session_row_of [] (coord_demo_session SS_CANCELLED)]"
    using plain_ids(1) by (auto simp: sessions_stored_def coord_demo_session_def intro!: exI [of _ "coord_demo_session SS_CANCELLED"])
  moreover have "state_at [session_row_of [] (coord_demo_session SS_CANCELLED)] ''a'' = Some ''CANCELLED''"
    by (simp add: state_at_def session_row_of_def coord_demo_session_def del: redact_sensitive_data.simps)
  ultimately show ?thesis
    using terminal_session_is_final [of "coord_demo_env []" "''a''" SS_CANCELLED "coord_demo (session_row_of [] (coord_demo_session SS_CANCELLED))"
        "[Complete ''a'' [], Wait ''a'' [], Cancel ''a'' []]"]
    by (simp add: coord_demo_def del: redact_sensitive_data.simps fold_simps)
qed

theorem cancellation_between_read_and_write_lost_witness:
  "state_at (cw_sessions (fst (snd (wait_session (coord_demo_env [coord_demo_session SS_CANCELLED]) ''a'' [] (coord_demo (coord_demo_row SS_ACTIVE)))))) ''a''
     = Some ''WAITING''"
proof -
  let ?E = "coord_demo_env [coord_demo_session SS_CANCELLED]"
  obtain cw bus where w: "coord_demo (coord_demo_row SS_ACTIVE) = (cw, bus)" "cw_sessions cw = [coord_demo_row SS_ACTIVE]" "cw_tick cw = 0"
      "eb_subscriptions bus = []"
    by (simp add: coord_demo_def new_bus_def)
  have E: "ce_others ?E 0 = []" "ce_others ?E (Suc 0) = [coord_demo_session SS_CANCELLED]" by (simp_all add: coord_demo_env_def)
  have "let (r, w') = wait_session ?E ''a'' [] (cw, bus) in
      map_sum id sn_state r = Inr SS_WAITING \<and> state_at (cw_sessions (fst w')) ''a'' = Some ''WAITING''"
    by (rule cancellation_between_read_and_write_lost [THEN conjunct2, of bus ?E cw "coord_demo_session SS_CANCELLED" "''a''" "coord_demo_session SS_ACTIVE"])
      (simp_all add: w E coord_demo_get, simp_all add: coord_demo_session_def)
  then show ?thesis by (simp add: w(1) split: prod.splits)
qed

definition coord_demo_run :: workflow_run where
  "coord_demo_run = (new_run ''r'' ''w'' ''1'' [] [])\<lparr>wr_state := WS_UNKNOWN, wr_error := ''e''\<rparr>"

theorem only_failed_runs_are_replanned_witness:
  "\<exists>s w'. observe_workflow (coord_demo_env []) ''a'' coord_demo_run (coord_demo (coord_demo_row SS_SUBMITTING_WORK)) = (Inr s, w') \<and>
     sn_state s = SS_WAITING"
proof -
  let ?o = "observe_workflow (coord_demo_env []) ''a'' coord_demo_run (coord_demo (coord_demo_row SS_SUBMITTING_WORK))"
  have tick: "c_tick (coord_demo_env []) (cw, bus) = (cw\<lparr>cw_tick := Suc (cw_tick cw)\<rparr>, bus)" for cw bus
    by (simp add: c_tick_def coord_demo_env_def)
  have "\<exists>s. fst ?o = Inr s"
    by (simp add: observe_workflow_def cbind_def c_require_def c_get_def tick clift_def cret_def c_transition_def c_now_def coord_demo_get
        transition_session_def settle_session_def coord_demo_run_def new_run_def c_save_def publish_session_def c_publish_def c_id_def
        reality_evidence_def work_ids_of_def outputs_of_def List.map_filter_def first_of_equal_def Let_def split_def coord_demo_session_def coord_demo_def
        del: redact_sensitive_data.simps)
  then obtain s w' where o: "?o = (Inr s, w')" by (metis prod.collapse)
  moreover have "wr_state coord_demo_run = WS_UNKNOWN" by (simp add: coord_demo_run_def)
  ultimately have "sn_state s = SS_WAITING" using only_failed_runs_are_replanned [OF o] by simp
  with o show ?thesis by blast
qed

end
