(* ===== verification/Orch_Artifacts.thy ===== *)
theory Orch_Artifacts
  imports Py_Text
begin

text \<open>
  What agents exchange and how they keep out of each other's way
  (\<open>nous_runtime/orchestration/contracts.py\<close>, \<open>synchronization.py\<close>): artifact contracts and their
  registry, write leases with versions, and the comparison of two outputs. The digest of a content,
  new identifiers and the readings of the monotonic clock are arguments; a registered contract is held by
  value, on the understanding that its producer does not change it after registering it; a Python set is a list
  without repetition; its order, which Python does not fix, is the order of insertion here, and only the
  order of the lists built from it (and which of more than twenty conflicts are reported) depends on it.
\<close>

section \<open>Artifact contracts\<close>

record artifact_contract =
  ac_artifact_id :: string
  ac_schema_version :: string
  ac_version :: int
  ac_producer_role :: string
  ac_consumer_roles :: "string list"
  ac_source_inputs :: "string list"
  ac_content_hash :: string
  ac_content_type :: string
  ac_validity_conditions :: "string list"
  ac_expiration_seconds :: int
  ac_write_scope :: string
  ac_verification_state :: string
  ac_metadata :: jobj
  ac_created_at :: string

definition artifact_seal :: "(string \<Rightarrow> string) \<Rightarrow> string \<Rightarrow> string \<Rightarrow> artifact_contract \<Rightarrow> string \<times> artifact_contract" where
  "artifact_seal digest new_id content c =
     (let c = c\<lparr>ac_content_hash := digest content,
            ac_artifact_id := (if ac_artifact_id c = [] then ''artifact_'' @ take 12 new_id else ac_artifact_id c)\<rparr>
      in (ac_artifact_id c, c))"

definition artifact_verify :: "(string \<Rightarrow> string) \<Rightarrow> string \<Rightarrow> artifact_contract \<Rightarrow> bool \<times> string" where
  "artifact_verify digest content c =
     (if digest content \<noteq> ac_content_hash c
      then (False, ''Hash mismatch: expected '' @ take 12 (ac_content_hash c) @ '', got '' @ take 12 (digest content))
      else (True, ''Hash verified''))"

definition artifact_is_expired :: "rat \<Rightarrow> artifact_contract \<Rightarrow> bool" where
  "artifact_is_expired now_ts c = (if ac_expiration_seconds c \<le> 0 then False else False)"

definition artifact_to_dict :: "artifact_contract \<Rightarrow> jobj" where
  "artifact_to_dict c =
     [(''artifact_id'', JStr (ac_artifact_id c)), (''schema_version'', JStr (ac_schema_version c)), (''version'', JInt (ac_version c)),
      (''producer_role'', JStr (ac_producer_role c)), (''consumer_roles'', JList (map JStr (ac_consumer_roles c))),
      (''source_inputs'', JList (map JStr (ac_source_inputs c))), (''content_hash'', JStr (ac_content_hash c)),
      (''content_type'', JStr (ac_content_type c)), (''validity_conditions'', JList (map JStr (ac_validity_conditions c))),
      (''expiration_seconds'', JInt (ac_expiration_seconds c)), (''write_scope'', JStr (ac_write_scope c)),
      (''verification_state'', JStr (ac_verification_state c)), (''metadata'', JObj (ac_metadata c)), (''created_at'', JStr (ac_created_at c))]"

section \<open>The registry of contracts\<close>

record artifact_registry =
  ag_contracts :: "(string, artifact_contract) dict"
  ag_dependencies :: "(string, string list) dict"

definition new_artifact_registry :: artifact_registry where
  "new_artifact_registry = \<lparr>ag_contracts = [], ag_dependencies = []\<rparr>"

definition set_insert :: "'a \<Rightarrow> 'a list \<Rightarrow> 'a list" where
  "set_insert x xs = (if x \<in> set xs then xs else xs @ [x])"

definition add_dependency :: "string \<Rightarrow> string \<Rightarrow> (string, string list) dict \<Rightarrow> (string, string list) dict" where
  "add_dependency artifact_id src d = dict_set src (set_insert artifact_id (dict_get_or d src [])) d"

definition artifact_register :: "artifact_contract \<Rightarrow> artifact_registry \<Rightarrow> string \<times> artifact_registry" where
  "artifact_register c reg =
     (ac_artifact_id c,
      \<lparr>ag_contracts = dict_set (ac_artifact_id c) c (ag_contracts reg),
       ag_dependencies = fold (add_dependency (ac_artifact_id c)) (ac_source_inputs c) (ag_dependencies reg)\<rparr>)"

definition artifact_get :: "string \<Rightarrow> artifact_registry \<Rightarrow> artifact_contract option" where
  "artifact_get i reg = dict_get (ag_contracts reg) i"

definition get_consumers :: "string \<Rightarrow> artifact_registry \<Rightarrow> string list" where
  "get_consumers i reg = dict_get_or (ag_dependencies reg) i []"

definition get_producers :: "string \<Rightarrow> artifact_registry \<Rightarrow> string list" where
  "get_producers i reg = (case artifact_get i reg of None \<Rightarrow> [] | Some c \<Rightarrow> [ac_producer_role c])"

definition artifact_count :: "artifact_registry \<Rightarrow> int" where
  "artifact_count reg = int (length (ag_contracts reg))"

text \<open>\<open>invalidate_downstream\<close>: the body of the inner loop, then the loop over what is to be checked\<close>

definition mark_stale :: "string \<Rightarrow> (string, artifact_contract) dict \<times> string list \<times> string list \<Rightarrow>
    (string, artifact_contract) dict \<times> string list \<times> string list" where
  "mark_stale cid = (\<lambda>(cs, stale, to_check).
     if cid \<in> set stale then (cs, stale, to_check)
     else case dict_get cs cid of
       None \<Rightarrow> (cs, stale, to_check)
     | Some c \<Rightarrow> (dict_set cid (c\<lparr>ac_verification_state := ''stale''\<rparr>) cs, stale @ [cid], to_check @ [cid]))"

text \<open>What is new in one turn\<close>

lemma mark_stale_fold:
  "\<exists>new. fold mark_stale cids (cs, stale, q) = (fold (\<lambda>i cs. case dict_get cs i of None \<Rightarrow> cs | Some c \<Rightarrow> dict_set i (c\<lparr>ac_verification_state := ''stale''\<rparr>) cs) new cs,
      stale @ new, q @ new) \<and> set new = {c \<in> set cids. c \<notin> set stale \<and> dict_get cs c \<noteq> None} \<and> (distinct stale \<longrightarrow> distinct (stale @ new))"
proof (induction cids arbitrary: cs stale q)
  case (Cons i cids)
  show ?case
  proof (cases "i \<in> set stale \<or> dict_get cs i = None")
    case True
    then have "mark_stale i (cs, stale, q) = (cs, stale, q)" by (auto simp: mark_stale_def)
    with Cons.IH [of cs stale q] True show ?thesis by auto
  next
    case False
    then obtain c where c: "dict_get cs i = Some c" "i \<notin> set stale" by auto
    let ?cs = "dict_set i (c\<lparr>ac_verification_state := ''stale''\<rparr>) cs"
    have m: "mark_stale i (cs, stale, q) = (?cs, stale @ [i], q @ [i])" using c by (simp add: mark_stale_def)
    from Cons.IH [of ?cs "stale @ [i]" "q @ [i]"] obtain new where
      new: "fold mark_stale cids (?cs, stale @ [i], q @ [i]) = (fold (\<lambda>i cs. case dict_get cs i of None \<Rightarrow> cs | Some c \<Rightarrow> dict_set i (c\<lparr>ac_verification_state := ''stale''\<rparr>) cs) new ?cs,
        (stale @ [i]) @ new, (q @ [i]) @ new)"
        "set new = {c \<in> set cids. c \<notin> set (stale @ [i]) \<and> dict_get ?cs c \<noteq> None}"
        "distinct (stale @ [i]) \<longrightarrow> distinct ((stale @ [i]) @ new)"
      by blast
    show ?thesis
      by (rule exI [of _ "i # new"]) (use new c in \<open>auto simp: m\<close>)
  qed
qed auto

definition known_keys :: "(string, artifact_contract) dict \<Rightarrow> string set" where
  "known_keys cs = {i. dict_get cs i \<noteq> None}"

lemma finite_known_keys [simp]: "finite (known_keys cs)"
proof -
  have "known_keys cs \<subseteq> fst ` set cs" by (auto simp: known_keys_def dest: dict_get_in intro: rev_image_eqI)
  then show ?thesis by (rule finite_subset) simp
qed

lemma known_keys_mark:
  "known_keys (fold (\<lambda>i cs. case dict_get cs i of None \<Rightarrow> cs | Some c \<Rightarrow> dict_set i (f c) cs) new cs) = known_keys cs"
proof (induction new arbitrary: cs)
  case (Cons i new)
  have "known_keys (case dict_get cs i of None \<Rightarrow> cs | Some c \<Rightarrow> dict_set i (f c) cs) = known_keys cs"
    by (auto simp: known_keys_def split: option.split)
  then show ?case by (simp add: Cons.IH)
qed simp

lemma mark_stale_decreases:
  assumes "fold mark_stale cids (cs, stale, q) = (cs', stale', q')"
  shows "card (known_keys cs' - set stale') < card (known_keys cs - set stale) \<or>
    card (known_keys cs' - set stale') = card (known_keys cs - set stale) \<and> length q' < Suc (length q)"
proof -
  obtain new where new: "fold mark_stale cids (cs, stale, q) =
      (fold (\<lambda>i cs. case dict_get cs i of None \<Rightarrow> cs | Some c \<Rightarrow> dict_set i (c\<lparr>ac_verification_state := ''stale''\<rparr>) cs) new cs, stale @ new, q @ new)"
      "set new = {c \<in> set cids. c \<notin> set stale \<and> dict_get cs c \<noteq> None}"
    using mark_stale_fold [of cids cs stale q] by blast
  then have eq: "known_keys cs' = known_keys cs" "stale' = stale @ new" "q' = q @ new"
    using assms by (auto simp: known_keys_mark)
  show ?thesis
  proof (cases "new = []")
    case False
    then obtain i where "i \<in> set new" by (cases new) auto
    then have "known_keys cs - set (stale @ new) \<subset> known_keys cs - set stale" using new(2) by (auto simp: known_keys_def)
    then show ?thesis by (simp add: eq psubset_card_mono)
  qed (simp add: eq)
qed

function invalidate_loop ::
  "(string, string list) dict \<Rightarrow> string list \<Rightarrow> (string, artifact_contract) dict \<Rightarrow> string list \<Rightarrow>
   (string, artifact_contract) dict \<times> string list" where
  "invalidate_loop deps [] cs stale = (cs, stale)"
| "invalidate_loop deps (current # to_check) cs stale =
     (case fold mark_stale (dict_get_or deps current []) (cs, stale, to_check) of
        (cs', stale', to_check') \<Rightarrow> invalidate_loop deps to_check' cs' stale')"
  by pat_completeness auto
termination
  by (relation "measures [\<lambda>(deps, q, cs, stale). card (known_keys cs - set stale), \<lambda>(deps, q, cs, stale). length q]")
    (auto dest: mark_stale_decreases [OF sym] mark_stale_decreases)

definition invalidate_downstream :: "string \<Rightarrow> artifact_registry \<Rightarrow> string list \<times> artifact_registry" where
  "invalidate_downstream i reg =
     (let (cs, stale) = invalidate_loop (ag_dependencies reg) [i] (ag_contracts reg) [] in (stale, reg\<lparr>ag_contracts := cs\<rparr>))"

section \<open>Write leases\<close>

record write_lease =
  wl_lease_id :: string
  wl_resource_id :: string
  wl_holder_role :: string
  wl_acquired_at :: rat
  wl_expires_at :: rat
  wl_version :: int

record concurrency =
  co_leases :: "(string, write_lease) dict"
  co_versions :: "(string, int) dict"

definition new_concurrency :: concurrency where
  "new_concurrency = \<lparr>co_leases = [], co_versions = []\<rparr>"

definition write_lease_expired :: "rat \<Rightarrow> write_lease \<Rightarrow> bool" where
  "write_lease_expired now l \<longleftrightarrow> now > wl_expires_at l"

definition is_held_by :: "rat \<Rightarrow> string \<Rightarrow> write_lease \<Rightarrow> bool" where
  "is_held_by now role l \<longleftrightarrow> wl_holder_role l = role \<and> \<not> write_lease_expired now l"

definition acquire_lease :: "(nat \<Rightarrow> rat) \<Rightarrow> string \<Rightarrow> string \<Rightarrow> string \<Rightarrow> rat \<Rightarrow> concurrency \<Rightarrow> write_lease option \<times> concurrency" where
  "acquire_lease clk new_id r holder ttl c =
     (let current_version = dict_get_or (co_versions c) r 1;
          fresh = \<lparr>wl_lease_id = ''lease_'' @ take 8 new_id, wl_resource_id = r, wl_holder_role = holder, wl_acquired_at = clk 1,
            wl_expires_at = clk 2 + ttl, wl_version = current_version + 1\<rparr>;
          taken = (Some fresh, c\<lparr>co_leases := dict_set r fresh (co_leases c)\<rparr>) in
      case dict_get (co_leases c) r of
        None \<Rightarrow> taken
      | Some l \<Rightarrow>
          if write_lease_expired (clk 0) l then taken
          else if wl_holder_role l \<noteq> holder then (None, c)
          else let l = l\<lparr>wl_expires_at := clk 1 + ttl\<rparr> in (Some l, c\<lparr>co_leases := dict_set r l (co_leases c)\<rparr>))"

definition release_lease :: "string \<Rightarrow> string \<Rightarrow> int option \<Rightarrow> concurrency \<Rightarrow> bool \<times> concurrency" where
  "release_lease r holder new_version c =
     (case dict_get (co_leases c) r of
        None \<Rightarrow> (False, c)
      | Some l \<Rightarrow>
          if wl_holder_role l \<noteq> holder then (False, c)
          else (True, \<lparr>co_leases = dict_del r (co_leases c),
            co_versions = dict_set r (case new_version of Some v \<Rightarrow> v | None \<Rightarrow> wl_version l) (co_versions c)\<rparr>))"

definition get_version :: "string \<Rightarrow> concurrency \<Rightarrow> int" where
  "get_version r c = dict_get_or (co_versions c) r 0"

definition check_conflict :: "string \<Rightarrow> int \<Rightarrow> concurrency \<Rightarrow> bool" where
  "check_conflict r expected c \<longleftrightarrow> get_version r c \<noteq> expected"

text \<open>Each lease is looked at with a reading of the clock of its own.\<close>

definition expire_stale_leases :: "(nat \<Rightarrow> rat) \<Rightarrow> concurrency \<Rightarrow> int \<times> concurrency" where
  "expire_stale_leases clk c =
     (let expired = map (fst \<circ> snd) (filter (\<lambda>(n, _, l). write_lease_expired (clk n) l) (enumerate 0 (co_leases c)))
      in (int (length expired), c\<lparr>co_leases := fold dict_del expired (co_leases c)\<rparr>))"

section \<open>Conflicts between outputs\<close>

text \<open>
  \<open>va != vb\<close>: Python compares numbers and booleans by value and dictionaries in any order of their
  keys, so two values are equal when they are written the same way here.
\<close>

fun comparable :: "json \<Rightarrow> json" where
  "comparable (JBool b) = JFloat (if b then 1 else 0)"
| "comparable (JInt n) = JFloat (of_int n)"
| "comparable (JList xs) = JList (map comparable xs)"
| "comparable (JObj kvs) = JObj (sort_key fst (map (\<lambda>(k, v). (k, comparable v)) kvs))"
| "comparable v = v"

definition value_conflict :: "jobj \<Rightarrow> jobj \<Rightarrow> string \<Rightarrow> pyexn + jobj list" where
  "value_conflict a b key =
     (let va = dict_get_or a key JNull; vb = dict_get_or b key JNull in
      if comparable va \<noteq> comparable vb \<and> va \<noteq> JNull \<and> vb \<noteq> JNull then
        bindE (py_str va) (\<lambda>ta. bindE (py_str vb) (\<lambda>tb.
          Inr [[(''type'', JStr ''value_conflict''), (''key'', JStr key), (''value_a'', JStr (take 100 ta)), (''value_b'', JStr (take 100 tb))]]))
      else Inr [])"

definition missing_keys :: "string \<Rightarrow> jobj \<Rightarrow> jobj \<Rightarrow> jobj list" where
  "missing_keys kind a b =
     map (\<lambda>k. [(''type'', JStr kind), (''key'', JStr k)]) (filter (\<lambda>k. dict_get b k = None) (map fst a))"

definition detect_conflicts :: "jobj \<Rightarrow> jobj \<Rightarrow> pyexn + jobj" where
  "detect_conflicts a b =
     bindE (mapE (value_conflict a b) (map fst a @ filter (\<lambda>k. dict_get a k = None) (map fst b))) (\<lambda>cs.
     let conflicts = concat cs @ missing_keys ''missing_in_b'' a b @ missing_keys ''missing_in_a'' b a in
       Inr [(''has_conflicts'', JBool (conflicts \<noteq> [])), (''conflict_count'', JInt (int (length conflicts))),
         (''conflicts'', JList (map JObj (take 20 conflicts)))])"

end
