(* ===== verification/Orch_Artifacts_Safety.thy ===== *)
theory Orch_Artifacts_Safety
  imports Orch_Artifacts
begin

text \<open>
  What the registry of artifacts and the write leases guarantee: invalidation reaches exactly what is
  derived from an artifact, a lease keeps all others away until it expires, and versions only grow.
\<close>

section \<open>Invalidation\<close>

text \<open>\<open>c\<close> is registered and was derived from \<open>x\<close>.\<close>

definition derived :: "artifact_registry \<Rightarrow> (string \<times> string) set" where
  "derived reg = {(x, c). c \<in> set (dict_get_or (ag_dependencies reg) x []) \<and> dict_get (ag_contracts reg) c \<noteq> None}"

definition marked_stale :: "string list \<Rightarrow> (string, artifact_contract) dict \<Rightarrow> (string, artifact_contract) dict \<Rightarrow> bool" where
  "marked_stale stale cs cs' \<longleftrightarrow>
     (\<forall>i. dict_get cs' i = map_option (\<lambda>c. if i \<in> set stale then c\<lparr>ac_verification_state := ''stale''\<rparr> else c) (dict_get cs i))"

lemma marked_stale_fold:
  "marked_stale stale cs0 cs \<Longrightarrow> marked_stale (stale @ new) cs0
    (fold (\<lambda>i cs. case dict_get cs i of None \<Rightarrow> cs | Some c \<Rightarrow> dict_set i (c\<lparr>ac_verification_state := ''stale''\<rparr>) cs) new cs)"
proof (induction new arbitrary: cs stale)
  case (Cons i new)
  have "marked_stale (stale @ [i]) cs0 (case dict_get cs i of None \<Rightarrow> cs | Some c \<Rightarrow> dict_set i (c\<lparr>ac_verification_state := ''stale''\<rparr>) cs)"
    unfolding marked_stale_def
  proof
    fix j
    have p: "dict_get cs k = map_option (\<lambda>c. if k \<in> set stale then c\<lparr>ac_verification_state := ''stale''\<rparr> else c) (dict_get cs0 k)" for k
      using Cons.prems unfolding marked_stale_def by blast
    show "dict_get (case dict_get cs i of None \<Rightarrow> cs | Some c \<Rightarrow> dict_set i (c\<lparr>ac_verification_state := ''stale''\<rparr>) cs) j =
        map_option (\<lambda>c. if j \<in> set (stale @ [i]) then c\<lparr>ac_verification_state := ''stale''\<rparr> else c) (dict_get cs0 j)"
      by (cases "dict_get cs0 i"; cases "dict_get cs0 j"; cases "j = i") (simp_all add: p)
  qed
  from Cons.IH [OF this] show ?case by simp
qed simp

text \<open>
  The invariant of the loop: what is stale is reachable, and whatever has been taken from the queue has
  all that is derived from it among the stale.
\<close>

lemma invalidate_loop_closure:
  assumes "invalidate_loop deps q cs stale = (cs', stale')"
    and "deps = ag_dependencies reg" "marked_stale stale (ag_contracts reg) cs" "distinct stale"
    and "set stale \<subseteq> (derived reg)\<^sup>+ `` {i}" "set q \<subseteq> insert i (set stale)"
    and "\<forall>x \<in> insert i (set stale) - set q. derived reg `` {x} \<subseteq> set stale"
  shows "distinct stale' \<and> set stale' = (derived reg)\<^sup>+ `` {i} \<and> marked_stale stale' (ag_contracts reg) cs'"
  using assms
proof (induction deps q cs stale rule: invalidate_loop.induct)
  case (1 deps cs stale)
  have closed: "(x, y) \<in> derived reg \<Longrightarrow> x \<in> insert i (set stale) \<Longrightarrow> y \<in> set stale" for x y
    using "1.prems"(7) by auto
  have "y \<in> set stale" if "(i, y) \<in> (derived reg)\<^sup>+" for y
    using that by (induction rule: trancl_induct) (auto dest: closed)
  then show ?case using "1.prems" by auto
next
  case (2 deps cur q cs stale)
  let ?cids = "dict_get_or deps cur []"
  obtain new where new: "fold mark_stale ?cids (cs, stale, q) =
      (fold (\<lambda>i cs. case dict_get cs i of None \<Rightarrow> cs | Some c \<Rightarrow> dict_set i (c\<lparr>ac_verification_state := ''stale''\<rparr>) cs) new cs, stale @ new, q @ new)"
      "set new = {c \<in> set ?cids. c \<notin> set stale \<and> dict_get cs c \<noteq> None}" "distinct stale \<longrightarrow> distinct (stale @ new)"
    using mark_stale_fold [of ?cids cs stale q] by blast
  let ?cs = "fold (\<lambda>i cs. case dict_get cs i of None \<Rightarrow> cs | Some c \<Rightarrow> dict_set i (c\<lparr>ac_verification_state := ''stale''\<rparr>) cs) new cs"
  have keys: "dict_get cs c = None \<longleftrightarrow> dict_get (ag_contracts reg) c = None" for c
    using "2.prems"(3) by (simp add: marked_stale_def)
  have succ: "derived reg `` {cur} = {c \<in> set ?cids. dict_get cs c \<noteq> None}"
    by (auto simp: derived_def keys "2.prems"(2))
  have cur: "cur = i \<or> cur \<in> (derived reg)\<^sup>+ `` {i}" using "2.prems"(5,6) by auto
  have new_reach: "set new \<subseteq> (derived reg)\<^sup>+ `` {i}"
  proof
    fix c assume "c \<in> set new"
    then have "(cur, c) \<in> derived reg" using succ new(2) by auto
    with cur show "c \<in> (derived reg)\<^sup>+ `` {i}" by (auto intro: trancl_into_trancl)
  qed
  have loop: "invalidate_loop deps (q @ new) ?cs (stale @ new) = (cs', stale')"
    using "2.prems"(1) by (simp add: new(1))
  have rest: "\<forall>x \<in> insert i (set (stale @ new)) - set (q @ new). derived reg `` {x} \<subseteq> set (stale @ new)"
  proof
    fix x assume x: "x \<in> insert i (set (stale @ new)) - set (q @ new)"
    show "derived reg `` {x} \<subseteq> set (stale @ new)"
    proof (cases "x = cur")
      case True
      then show ?thesis using succ new(2) by auto
    next
      case False
      with x have "x \<in> insert i (set stale) - set (cur # q)" by auto
      with "2.prems"(7) show ?thesis by auto
    qed
  qed
  show ?case
  proof (rule "2.IH" [OF new(1) [symmetric] refl loop "2.prems"(2) marked_stale_fold [OF "2.prems"(3)] _ _ _ rest])
    show "distinct (stale @ new)" using new(3) "2.prems"(4) by simp
    show "set (stale @ new) \<subseteq> (derived reg)\<^sup>+ `` {i}" using "2.prems"(5) new_reach by simp
    show "set (q @ new) \<subseteq> insert i (set (stale @ new))" using "2.prems"(6) by auto
  qed
qed

text \<open>
  C33: Invalidation is exact. Marking what is downstream of an artifact ends, also when artifacts are
  derived from each other in a circle; it returns, each once, exactly the registered artifacts that are
  derived from it in any number of steps through registered ones, and makes these stale and changes
  nothing else.
\<close>

theorem invalidation_is_transitive:
  "let (stale, reg') = invalidate_downstream i reg in
    distinct stale \<and> set stale = (derived reg)\<^sup>+ `` {i} \<and> ag_dependencies reg' = ag_dependencies reg \<and>
    (\<forall>j. artifact_get j reg' =
      map_option (\<lambda>c. if (i, j) \<in> (derived reg)\<^sup>+ then c\<lparr>ac_verification_state := ''stale''\<rparr> else c) (artifact_get j reg))"
proof -
  obtain cs stale where l: "invalidate_loop (ag_dependencies reg) [i] (ag_contracts reg) [] = (cs, stale)" by fastforce
  have "distinct stale \<and> set stale = (derived reg)\<^sup>+ `` {i} \<and> marked_stale stale (ag_contracts reg) cs"
    by (rule invalidate_loop_closure [OF l refl]) (simp_all add: marked_stale_def map_option.id [unfolded id_def])
  then show ?thesis
    by (simp add: invalidate_downstream_def l artifact_get_def marked_stale_def Image_singleton_iff del: invalidate_loop.simps)
qed

section \<open>Leases\<close>

datatype lease_op =
    Acquire "nat \<Rightarrow> rat" string string string rat
  | Release string string "int option"
  | Expire "nat \<Rightarrow> rat"

fun run_lease_op :: "lease_op \<Rightarrow> concurrency \<Rightarrow> concurrency" where
  "run_lease_op (Acquire clk new_id r h ttl) c = snd (acquire_lease clk new_id r h ttl c)"
| "run_lease_op (Release r h v) c = snd (release_lease r h v c)"
| "run_lease_op (Expire clk) c = snd (expire_stale_leases clk c)"

text \<open>An operation of somebody else, and before the time \<open>t\<close>\<close>

fun others_before :: "string \<Rightarrow> string \<Rightarrow> rat \<Rightarrow> lease_op \<Rightarrow> bool" where
  "others_before r h t (Acquire clk new_id r' h' ttl) \<longleftrightarrow> (r' = r \<longrightarrow> h' \<noteq> h) \<and> (\<forall>n. clk n \<le> t)"
| "others_before r h t (Release r' h' v) \<longleftrightarrow> (r' = r \<longrightarrow> h' \<noteq> h)"
| "others_before r h t (Expire clk) \<longleftrightarrow> (\<forall>n. clk n \<le> t)"

lemma dict_get_fold_del: "dict_get (fold dict_del ks d) k = (if k \<in> set ks then None else dict_get d k)"
  by (induction ks arbitrary: d) auto

lemma expire_keeps:
  assumes "wf_dict (co_leases c)" "dict_get (co_leases c) r = Some l" "\<forall>n. clk n \<le> wl_expires_at l"
  shows "dict_get (co_leases (snd (expire_stale_leases clk c))) r = Some l"
proof -
  have "r \<notin> (fst \<circ> snd) ` {(n, k, l) \<in> set (enumerate 0 (co_leases c)). write_lease_expired (clk n) l}"
  proof
    assume "r \<in> (fst \<circ> snd) ` {(n, k, l) \<in> set (enumerate 0 (co_leases c)). write_lease_expired (clk n) l}"
    then obtain n l' where n: "(n, r, l') \<in> set (enumerate 0 (co_leases c))" "write_lease_expired (clk n) l'" by auto
    then have "(r, l') \<in> set (co_leases c)" using in_set_enumerate_eq [of "(n, r, l')" 0 "co_leases c"] nth_mem [of n "co_leases c"] by simp
    with assms(1,2) have "l' = l" using in_dict_get by fastforce
    with n(2) assms(3) show False unfolding write_lease_expired_def by (metis not_less)
  qed
  then show ?thesis using assms(2) by (simp add: expire_stale_leases_def Let_def dict_get_fold_del) (auto split: if_splits)
qed

lemma op_keeps_lease:
  assumes "wf_dict (co_leases c)" "dict_get (co_leases c) r = Some l" "others_before r (wl_holder_role l) (wl_expires_at l) x"
  shows "wf_dict (co_leases (run_lease_op x c)) \<and> dict_get (co_leases (run_lease_op x c)) r = Some l"
proof (cases x)
  case (Acquire clk new_id r' h ttl)
  with assms(3) have h: "r' = r \<Longrightarrow> h \<noteq> wl_holder_role l" "\<And>n. clk n \<le> wl_expires_at l" by auto
  show ?thesis
  proof (cases "r' = r")
    case True
    then have "\<not> write_lease_expired (clk 0) l" using h(2) [of 0] by (simp add: write_lease_expired_def)
    with True h(1) assms show ?thesis by (auto simp: Acquire acquire_lease_def Let_def)
  next
    case False
    with assms show ?thesis by (auto simp: Acquire acquire_lease_def Let_def split: option.split)
  qed
next
  case (Release r' h v)
  with assms show ?thesis by (auto simp: release_lease_def split: option.split)
next
  case (Expire clk)
  have "wf_dict (fold dict_del ks d)" if "wf_dict d" for ks and d :: "(string, write_lease) dict"
    using that by (induction ks arbitrary: d) auto
  then have "wf_dict (co_leases (snd (expire_stale_leases clk c)))" using assms(1) by (simp add: expire_stale_leases_def Let_def)
  with expire_keeps [OF assms(1,2)] assms(3) Expire show ?thesis by simp
qed

lemma ops_keep_lease:
  "wf_dict (co_leases c) \<Longrightarrow> dict_get (co_leases c) r = Some l \<Longrightarrow> list_all (others_before r (wl_holder_role l) (wl_expires_at l)) ops \<Longrightarrow>
   dict_get (co_leases (fold run_lease_op ops c)) r = Some l"
  by (induction ops arbitrary: c) (use op_keeps_lease in fastforce)+

text \<open>
  C34: A write lease keeps the others away. Until it expires, no operations of others, releases of
  theirs and cleaning up included, take the lease of a resource from its holder, and whoever else asks for the
  resource gets nothing and changes nothing.
\<close>

theorem write_lease_exclusive:
  assumes "wf_dict (co_leases c)" "dict_get (co_leases c) r = Some l"
    and "list_all (others_before r (wl_holder_role l) (wl_expires_at l)) ops"
    and "h \<noteq> wl_holder_role l" "clk 0 \<le> wl_expires_at l"
  shows "let c' = fold run_lease_op ops c in
    dict_get (co_leases c') r = Some l \<and> acquire_lease clk new_id r h ttl c' = (None, c')"
  using ops_keep_lease [OF assms(1-3)] assms(4,5) by (simp add: acquire_lease_def write_lease_expired_def Let_def)

theorem write_lease_exclusive_witness:
  "acquire_lease (\<lambda>_. 2) ''i'' ''r'' ''b'' 10 (fold run_lease_op [Release ''r'' ''b'' None] (snd (acquire_lease (\<lambda>_. 1) ''j'' ''r'' ''a'' 10 new_concurrency))) =
    (None, fold run_lease_op [Release ''r'' ''b'' None] (snd (acquire_lease (\<lambda>_. 1) ''j'' ''r'' ''a'' 10 new_concurrency)))"
proof -
  let ?c = "snd (acquire_lease (\<lambda>_. 1) ''j'' ''r'' ''a'' 10 new_concurrency)"
  let ?l = "\<lparr>wl_lease_id = ''lease_j'', wl_resource_id = ''r'', wl_holder_role = ''a'', wl_acquired_at = 1, wl_expires_at = 11, wl_version = 2\<rparr>"
  have "wf_dict (co_leases ?c)" "dict_get (co_leases ?c) ''r'' = Some ?l"
    by (simp_all add: acquire_lease_def new_concurrency_def Let_def dict_get_or_def)
  from write_lease_exclusive [OF this, of "[Release ''r'' ''b'' None]" "''b''" "\<lambda>_. 2" "''i''" 10]
  show ?thesis by (simp add: Let_def)
qed

section \<open>Versions\<close>

definition versions_ok :: "concurrency \<Rightarrow> bool" where
  "versions_ok c \<longleftrightarrow> (\<forall>r l. dict_get (co_leases c) r = Some l \<longrightarrow> wl_version l = dict_get_or (co_versions c) r 1 + 1)"

fun implicit_version :: "lease_op \<Rightarrow> bool" where
  "implicit_version (Release r h v) \<longleftrightarrow> v = None"
| "implicit_version _ \<longleftrightarrow> True"

lemma versions_ok_op:
  assumes "versions_ok c" "implicit_version x"
  shows "versions_ok (run_lease_op x c) \<and>
    (\<forall>r. dict_get_or (co_versions (run_lease_op x c)) r 1 \<in> {dict_get_or (co_versions c) r 1, dict_get_or (co_versions c) r 1 + 1})"
proof (cases x)
  case (Acquire clk new_id r' h ttl)
  with assms(1) show ?thesis by (auto simp: acquire_lease_def versions_ok_def Let_def split: option.split)
next
  case (Release r' h v)
  with assms show ?thesis by (auto simp: release_lease_def versions_ok_def dict_get_or_def split: option.split)
next
  case (Expire clk)
  with assms(1) show ?thesis by (auto simp: expire_stale_leases_def versions_ok_def Let_def dict_get_fold_del)
qed

text \<open>
  Versions grow by one. As long as nobody names a version himself, every lease is for the version
  after the current one, whatever expires and is taken over in between, and a successful release makes
  exactly this version the current one; no operation lowers a version.
\<close>

lemma versions_grow_by_one:
  assumes "list_all implicit_version ops"
  shows "let c = fold run_lease_op ops new_concurrency; (released, c') = release_lease r h None c in
    (\<forall>r l. dict_get (co_leases c) r = Some l \<longrightarrow> wl_version l = dict_get_or (co_versions c) r 1 + 1) \<and>
    (released \<longrightarrow> dict_get (co_versions c') r = Some (dict_get_or (co_versions c) r 1 + 1)) \<and>
    (\<forall>x r. implicit_version x \<longrightarrow> dict_get_or (co_versions c) r 1 \<le> dict_get_or (co_versions (run_lease_op x c)) r 1)"
proof -
  have "versions_ok c \<Longrightarrow> list_all implicit_version ops \<Longrightarrow> versions_ok (fold run_lease_op ops c)" for c
    by (induction ops arbitrary: c) (use versions_ok_op in auto)
  moreover have "versions_ok new_concurrency" by (simp add: versions_ok_def new_concurrency_def)
  ultimately have v: "versions_ok (fold run_lease_op ops new_concurrency)" using assms by blast
  have "dict_get_or (co_versions (fold run_lease_op ops new_concurrency)) r 1 \<le>
      dict_get_or (co_versions (run_lease_op x (fold run_lease_op ops new_concurrency))) r 1" if "implicit_version x" for x r
    using versions_ok_op [OF v that] by (auto dest: spec [of _ r])
  with v show ?thesis by (auto simp: Let_def versions_ok_def release_lease_def split: option.splits)
qed

lemma versions_grow_by_one_witness:
  "get_version ''r'' (snd (release_lease ''r'' ''a'' None (fold run_lease_op [Acquire (\<lambda>_. 1) ''j'' ''r'' ''a'' 10] new_concurrency))) = 2"
proof -
  have "list_all implicit_version [Acquire (\<lambda>_. 1) ''j'' ''r'' ''a'' 10]" by simp
  from versions_grow_by_one [OF this, of "''r''" "''a''"]
  show ?thesis by (simp add: Let_def acquire_lease_def release_lease_def new_concurrency_def get_version_def dict_get_or_def)
qed

end
