(* ===== verification/Orch_Graph.thy ===== *)
theory Orch_Graph
  imports Py_Text
begin

text \<open>
  The compiler of task graphs (\<open>nous_runtime/orchestration/graph.py\<close>): nodes with dependencies, extra
  edges, the topological order, the nodes at the end of the longest chains, the validation of a graph
  and the graphs compiled for each kind of task. A Python set is listed in sorted order, as the code
  lists it. A field the code stores without a coercion is a JSON value.
\<close>

section \<open>Nodes and graphs\<close>

record task_node =
  tn_node_id :: string
  tn_objective :: string
  tn_inputs :: "string list"
  tn_outputs :: "string list"
  tn_dependencies :: "string list"
  tn_required_capabilities :: json
  tn_resource_requirements :: jobj
  tn_write_scope :: string
  tn_acceptance_conditions :: "string list"
  tn_verification :: "string list"
  tn_failure_policy :: string
  tn_timeout_seconds :: int
  tn_retry_policy :: string
  tn_checkpoint_policy :: string
  tn_optional :: bool
  tn_speculative :: bool

definition new_task_node :: task_node where
  "new_task_node = \<lparr>tn_node_id = [], tn_objective = [], tn_inputs = [], tn_outputs = [], tn_dependencies = [],
     tn_required_capabilities = JList [], tn_resource_requirements = [], tn_write_scope = ''workspace'',
     tn_acceptance_conditions = [], tn_verification = [], tn_failure_policy = ''fail'', tn_timeout_seconds = 300,
     tn_retry_policy = ''none'', tn_checkpoint_policy = ''after_completion'', tn_optional = False, tn_speculative = False\<rparr>"

record dag =
  dag_graph_id :: json
  dag_nodes :: "(string, task_node) dict"
  dag_edges :: "(string \<times> string \<times> string) list"
  dag_metadata :: jobj

definition node_ids :: "dag \<Rightarrow> string list" where
  "node_ids g = map fst (dag_nodes g)"

definition dependencies_of :: "dag \<Rightarrow> string \<Rightarrow> string list" where
  "dependencies_of g n =
     sort (remdups (map fst (filter (\<lambda>(f, t, _). t = n) (dag_edges g)) @
       (case dict_get (dag_nodes g) n of None \<Rightarrow> [] | Some node \<Rightarrow> tn_dependencies node)))"

definition dependents_of :: "dag \<Rightarrow> string \<Rightarrow> string list" where
  "dependents_of g n =
     sort (remdups (map (fst \<circ> snd) (filter (\<lambda>(f, t, _). f = n) (dag_edges g)) @
       map fst (filter (\<lambda>(_, candidate). n \<in> set (tn_dependencies candidate)) (dag_nodes g))))"

section \<open>The topological order\<close>

text \<open>The inner loop: an edge to what is no node ends it with a \<open>KeyError\<close>.\<close>

fun lower_degrees :: "string list \<Rightarrow> (string, int) dict \<Rightarrow> string list \<Rightarrow> pyexn + (string, int) dict \<times> string list" where
  "lower_degrees [] in_degree queue = Inr (in_degree, queue)"
| "lower_degrees (dep # deps) in_degree queue =
     (case dict_get in_degree dep of
        None \<Rightarrow> Inl (KeyError dep)
      | Some k \<Rightarrow> lower_degrees deps (dict_set dep (k - 1) in_degree) (if k - 1 = 0 then queue @ [dep] else queue))"

definition positive_degrees :: "(string, int) dict \<Rightarrow> nat" where
  "positive_degrees d = length (filter (\<lambda>(_, k). 0 < k) d)"

lemma positive_degrees_dec:
  "dict_get d c = Some k \<Longrightarrow>
     positive_degrees (dict_set c (k - 1) d) + (if k - 1 = 0 then 1 else 0) \<le> positive_degrees d"
  unfolding positive_degrees_def dict_get_def dict_set_def
  by (induction d) (auto split: if_splits)

lemma lower_degrees_measure:
  "lower_degrees deps d q = Inr (d', q') \<Longrightarrow> positive_degrees d' + length q' \<le> positive_degrees d + length q"
proof (induction deps arbitrary: d q)
  case (Cons dep deps)
  then obtain k where k: "dict_get d dep = Some k" by (auto split: option.splits)
  with Cons.prems have "lower_degrees deps (dict_set dep (k - 1) d) (if k - 1 = 0 then q @ [dep] else q) = Inr (d', q')"
    by simp
  from Cons.IH [OF this] positive_degrees_dec [OF k] show ?case by (auto split: if_splits)
qed simp

function topo_loop :: "dag \<Rightarrow> (string, int) dict \<Rightarrow> string list \<Rightarrow> string list \<Rightarrow> pyexn + string list" where
  "topo_loop g in_degree [] result = Inr result"
| "topo_loop g in_degree (nid # queue) result =
     (case lower_degrees (dependents_of g nid) in_degree queue of
        Inl e \<Rightarrow> Inl e
      | Inr (in_degree', queue') \<Rightarrow> topo_loop g in_degree' queue' (result @ [nid]))"
  by pat_completeness auto
termination
  by (relation "measure (\<lambda>(g, d, q, r). positive_degrees d + length q)") (auto dest: lower_degrees_measure)

definition topological_order :: "dag \<Rightarrow> pyexn + string list option" where
  "topological_order g =
     (let in_degree = map (\<lambda>n. (n, int (length (dependencies_of g n)))) (node_ids g);
          queue = map fst (filter (\<lambda>(_, d). d = 0) in_degree)
      in bindE (topo_loop g in_degree queue []) (\<lambda>result.
        Inr (if length result = length (dag_nodes g) then Some result else None)))"

section \<open>The longest chains\<close>

definition raise_distance :: "string \<Rightarrow> string \<Rightarrow> (string, int) dict \<Rightarrow> (string, int) dict" where
  "raise_distance nid dep ds = dict_set nid (max (dict_get_or ds nid 1) (dict_get_or ds dep 0 + 1)) ds"

definition chain_lengths :: "dag \<Rightarrow> string list \<Rightarrow> (string, int) dict" where
  "chain_lengths g topo =
     fold (\<lambda>nid. fold (raise_distance nid) (dependencies_of g nid)) topo (map (\<lambda>n. (n, 1)) topo)"

definition critical_path :: "dag \<Rightarrow> pyexn + string list" where
  "critical_path g =
     bindE (topological_order g) (\<lambda>topo. case topo of
       None \<Rightarrow> Inr []
     | Some topo \<Rightarrow>
         let ds = chain_lengths g topo;
             max_d = (if ds = [] then 0 else Max (set (map snd ds)))
         in Inr (map fst (filter (\<lambda>(_, d). d = max_d) ds)))"

section \<open>Validation\<close>

definition unknown_dependency :: "dag \<Rightarrow> (string \<times> string) option" where
  "unknown_dependency g =
     List.find (\<lambda>(_, dep). dep \<notin> set (node_ids g)) (concat (map (\<lambda>(n, node). map (Pair n) (tn_dependencies node)) (dag_nodes g)))"

definition validate_dag :: "dag \<Rightarrow> pyexn + bool \<times> string" where
  "validate_dag g =
     bindE (topological_order g) (\<lambda>topo. case topo of
       None \<Rightarrow> Inr (False, ''Cycle detected in task graph'')
     | Some _ \<Rightarrow> (case unknown_dependency g of
         Some (n, dep) \<Rightarrow> Inr (False, ''Node '' @ n @ '' references unknown dependency '' @ dep)
       | None \<Rightarrow> Inr (True, ''Graph valid'')))"

section \<open>The compiler\<close>

definition with_nodes :: "json \<Rightarrow> task_node list \<Rightarrow> dag" where
  "with_nodes gid ns =
     \<lparr>dag_graph_id = gid, dag_nodes = map (\<lambda>n. (tn_node_id n, n)) ns,
      dag_edges = concat (map (\<lambda>n. map (\<lambda>f. (f, tn_node_id n, ''dependency'')) (tn_dependencies n)) ns), dag_metadata = []\<rparr>"

definition step_node :: "string \<Rightarrow> string \<Rightarrow> string list \<Rightarrow> string \<Rightarrow> int \<Rightarrow> task_node" where
  "step_node nid objective deps cap secs = new_task_node\<lparr>tn_node_id := nid, tn_objective := objective, tn_dependencies := deps,
     tn_required_capabilities := jstrs [cap], tn_timeout_seconds := secs\<rparr>"

definition compile_code_task :: "jobj \<Rightarrow> string \<Rightarrow> dag" where
  "compile_code_task task complexity =
     with_nodes (dict_get_or task ''task_id'' (JStr ''code_000''))
       ([step_node ''analyze'' ''Analyze code and requirements'' [] ''code_analysis'' 120,
         step_node ''implement'' ''Implement changes'' [''analyze''] ''code_generation'' 300,
         step_node ''test'' ''Run tests'' [''implement''] ''test_execution'' 180] @
        (if complexity \<in> {''high'', ''critical''}
         then [step_node ''review'' ''Review changes'' [''test''] ''code_review'' 120] else []))"

definition compile_test_task :: "jobj \<Rightarrow> dag" where
  "compile_test_task task =
     with_nodes (dict_get_or task ''task_id'' (JStr ''test_000''))
       [step_node ''understand'' ''Understand code under test'' [] ''code_analysis'' 120,
        step_node ''generate'' ''Generate test cases'' [''understand''] ''test_generation'' 300,
        step_node ''validate'' ''Run and validate tests'' [''generate''] ''test_execution'' 180]"

definition compile_research_task :: "jobj \<Rightarrow> dag" where
  "compile_research_task task =
     with_nodes (dict_get_or task ''task_id'' (JStr ''research_000''))
       [step_node ''plan'' ''Plan research questions'' [] ''planning'' 60,
        (step_node ''search_a'' ''Search sources (strategy A)'' [''plan''] ''web_search'' 120)\<lparr>tn_speculative := True\<rparr>,
        (step_node ''search_b'' ''Search sources (strategy B)'' [''plan''] ''web_search'' 120)\<lparr>tn_speculative := True, tn_optional := True\<rparr>,
        step_node ''synthesize'' ''Synthesize findings'' [''search_a'', ''search_b''] ''synthesis'' 180,
        step_node ''verify'' ''Verify claims against sources'' [''synthesize''] ''fact_checking'' 120]"

definition compile_distributed_task :: "jobj \<Rightarrow> dag" where
  "compile_distributed_task task =
     with_nodes (dict_get_or task ''task_id'' (JStr ''dist_000''))
       [step_node ''split'' ''Split work across nodes'' [] ''planning'' 60,
        step_node ''worker_a'' ''Process shard A'' [''split''] ''computation'' 300,
        step_node ''worker_b'' ''Process shard B'' [''split''] ''computation'' 300,
        step_node ''merge'' ''Merge results'' [''worker_a'', ''worker_b''] ''data_processing'' 60]"

text \<open>The only graph whose node depends on the task; its edges are the empty list of the constructor.\<close>

definition compile_simple_task :: "jobj \<Rightarrow> pyexn + dag" where
  "compile_simple_task task =
     bindE (py_str (dict_get_or task ''description'' (JStr ''Execute task''))) (\<lambda>objective.
     bindE (py_int (dict_get_or task ''timeout_seconds'' (JInt 300))) (\<lambda>secs.
       Inr \<lparr>dag_graph_id = dict_get_or task ''task_id'' (JStr ''simple_000''),
         dag_nodes = [(''execute'', new_task_node\<lparr>tn_node_id := ''execute'', tn_objective := objective,
           tn_required_capabilities := dict_get_or task ''capabilities'' (JList []), tn_timeout_seconds := secs\<rparr>)],
         dag_edges = [], dag_metadata = []\<rparr>))"

definition compile_task :: "jobj \<Rightarrow> pyexn + dag" where
  "compile_task task =
     bindE (py_str (dict_get_or task ''task_type'' (JStr ''general''))) (\<lambda>task_type.
     bindE (py_str (dict_get_or task ''complexity'' (JStr ''medium''))) (\<lambda>complexity.
     bindE (if task_type \<in> {''code_audit'', ''bug_fix'', ''code_refactor''} then Inr (compile_code_task task complexity)
       else if task_type = ''test_generation'' then Inr (compile_test_task task)
       else if task_type \<in> {''research'', ''web_research'', ''data_analysis''} then Inr (compile_research_task task)
       else if task_type \<in> {''multi_node'', ''distributed''} then Inr (compile_distributed_task task)
       else compile_simple_task task) (\<lambda>g.
     Inr (g\<lparr>dag_metadata := [(''task_type'', JStr task_type), (''complexity'', JStr complexity)]\<rparr>))))"

end
