(* ===== verification/Orch_Graph_Safety.thy ===== *)
theory Orch_Graph_Safety
  imports Orch_Graph
begin

text \<open>
  The task graphs of the orchestrator: the topological order exists exactly when the graph has no cycle
  and no missing dependency, what it then is, what the critical path really contains, and that every
  compiled graph is valid.
\<close>

section \<open>Dependencies and dependents\<close>

definition needs :: "dag \<Rightarrow> (string \<times> string) set" where
  "needs g = {(d, n). n \<in> set (node_ids g) \<and> d \<in> set (dependencies_of g n)}"

text \<open>The dictionary of nodes has each key once, and the edges lead to nodes.\<close>

definition edges_known :: "dag \<Rightarrow> bool" where
  "edges_known g \<longleftrightarrow> wf_dict (dag_nodes g) \<and> (\<forall>e \<in> set (dag_edges g). fst (snd e) \<in> set (node_ids g))"

lemma distinct_dependencies [simp]: "distinct (dependencies_of g n)"
  by (simp add: dependencies_of_def)

lemma distinct_dependents [simp]: "distinct (dependents_of g n)"
  by (simp add: dependents_of_def)

lemma in_node_ids: "n \<in> set (node_ids g) \<longleftrightarrow> (\<exists>node. dict_get (dag_nodes g) n = Some node)"
  using dict_get_None_iff [of "dag_nodes g" n] by (auto simp: node_ids_def)

lemma in_dependencies: "d \<in> set (dependencies_of g n) \<longleftrightarrow>
    (\<exists>k. (d, n, k) \<in> set (dag_edges g)) \<or> (\<exists>node. dict_get (dag_nodes g) n = Some node \<and> d \<in> set (tn_dependencies node))"
  by (force simp: dependencies_of_def split: option.split)

lemma in_dependents:
  assumes "edges_known g"
  shows "t \<in> set (dependents_of g n) \<longleftrightarrow> (n, t) \<in> needs g"
proof -
  have wf: "wf_dict (dag_nodes g)" using assms by (simp add: edges_known_def)
  have "(\<exists>node. (t, node) \<in> set (dag_nodes g) \<and> n \<in> set (tn_dependencies node)) \<longleftrightarrow>
      (\<exists>node. dict_get (dag_nodes g) t = Some node \<and> n \<in> set (tn_dependencies node))"
    using wf by (auto dest: dict_get_in in_dict_get)
  moreover have "t \<in> set (dependents_of g n) \<longleftrightarrow>
      (\<exists>k. (n, t, k) \<in> set (dag_edges g)) \<or> (\<exists>node. (t, node) \<in> set (dag_nodes g) \<and> n \<in> set (tn_dependencies node))"
    by (force simp: dependents_of_def)
  ultimately show ?thesis
    using assms by (auto simp: needs_def in_dependencies edges_known_def in_node_ids)
qed

section \<open>The loop\<close>

lemma lower_degrees_effect:
  assumes "distinct deps" "\<forall>d \<in> set deps. dict_get deg d \<noteq> None"
  shows "\<exists>deg'. lower_degrees deps deg q = Inr (deg', q @ filter (\<lambda>d. dict_get deg d = Some 1) deps) \<and>
    (\<forall>x. dict_get deg' x = map_option (\<lambda>k. if x \<in> set deps then k - 1 else k) (dict_get deg x))"
  using assms
proof (induction deps arbitrary: deg q)
  case Nil
  then show ?case by (auto simp: option.map_ident)
next
  case (Cons d deps)
  then obtain k where k: "dict_get deg d = Some k" by auto
  have same: "filter (\<lambda>x. dict_get (dict_set d (k - 1) deg) x = Some 1) deps = filter (\<lambda>x. dict_get deg x = Some 1) deps"
    using Cons.prems(1) by (intro filter_cong) auto
  have "distinct deps" "\<forall>x \<in> set deps. dict_get (dict_set d (k - 1) deg) x \<noteq> None" using Cons.prems by auto
  from Cons.IH [OF this, of "if k - 1 = 0 then q @ [d] else q"] obtain deg' where "lower_degrees deps (dict_set d (k - 1) deg) (if k - 1 = 0 then q @ [d] else q) =
      Inr (deg', (if k - 1 = 0 then q @ [d] else q) @ filter (\<lambda>x. dict_get deg x = Some 1) deps)"
      "\<forall>x. dict_get deg' x = map_option (\<lambda>k. if x \<in> set deps then k - 1 else k) (dict_get (dict_set d (k - 1) deg) x)"
    unfolding same by blast
  with k Cons.prems(1) show ?case by (intro exI [of _ deg']) auto
qed

text \<open>Each node of a list has its dependencies before it.\<close>

definition sorted_for :: "dag \<Rightarrow> string list \<Rightarrow> bool" where
  "sorted_for g xs \<longleftrightarrow> (\<forall>ys n zs. xs = ys @ n # zs \<longrightarrow> set (dependencies_of g n) \<subseteq> set ys)"

lemma sorted_for_Nil [simp]: "sorted_for g []"
  by (simp add: sorted_for_def)

lemma sorted_for_snoc [simp]: "sorted_for g (xs @ [n]) \<longleftrightarrow> sorted_for g xs \<and> set (dependencies_of g n) \<subseteq> set xs"
proof (intro iffI conjI)
  assume s: "sorted_for g (xs @ [n])"
  show "sorted_for g xs"
    unfolding sorted_for_def
  proof (intro allI impI)
    fix ys m zs assume "xs = ys @ m # zs"
    then have "xs @ [n] = ys @ m # (zs @ [n])" by simp
    with s show "set (dependencies_of g m) \<subseteq> set ys" unfolding sorted_for_def by blast
  qed
  show "set (dependencies_of g n) \<subseteq> set xs" using s unfolding sorted_for_def by blast
next
  assume s: "sorted_for g xs \<and> set (dependencies_of g n) \<subseteq> set xs"
  show "sorted_for g (xs @ [n])"
    unfolding sorted_for_def
  proof (intro allI impI)
    fix ys m zs assume eq: "xs @ [n] = ys @ m # zs"
    show "set (dependencies_of g m) \<subseteq> set ys"
    proof (cases zs rule: rev_cases)
      case Nil
      with eq s show ?thesis by simp
    next
      case (snoc zs' z)
      with eq have "xs = ys @ m # zs'" by simp
      with s show ?thesis unfolding sorted_for_def by blast
    qed
  qed
qed

definition topo_inv :: "dag \<Rightarrow> (string, int) dict \<Rightarrow> string list \<Rightarrow> string list \<Rightarrow> bool" where
  "topo_inv g deg q r \<longleftrightarrow>
     distinct (r @ q) \<and> set (r @ q) \<subseteq> set (node_ids g) \<and> sorted_for g r \<and>
     (\<forall>t \<in> set (node_ids g). dict_get deg t = Some (int (card (set (dependencies_of g t) - set r)))) \<and>
     (\<forall>t \<in> set (node_ids g). t \<in> set (r @ q) \<longleftrightarrow> set (dependencies_of g t) \<subseteq> set r)"

lemma card_open_step:
  "n \<notin> set r \<Longrightarrow> int (card (set ds - set (r @ [n]))) = int (card (set ds - set r)) - (if n \<in> set ds then 1 else 0)"
proof -
  assume "n \<notin> set r"
  have eq: "set ds - set (r @ [n]) = (set ds - set r) - {n}" by auto
  show ?thesis
  proof (cases "n \<in> set ds")
    case True
    with \<open>n \<notin> set r\<close> have "n \<in> set ds - set r" by simp
    then have "card (set ds - set r - {n}) = card (set ds - set r) - 1" "0 < card (set ds - set r)"
      by (auto simp: card_gt_0_iff)
    then show ?thesis unfolding eq using True by simp
  next
    case False
    then have "set ds - set r - {n} = set ds - set r" by auto
    then show ?thesis unfolding eq using False by simp
  qed
qed

lemma topo_inv_step:
  assumes inv: "topo_inv g deg (n # q) r" and known: "edges_known g"
  shows "\<exists>deg' q'. lower_degrees (dependents_of g n) deg q = Inr (deg', q') \<and> topo_inv g deg' q' (r @ [n])"
proof -
  have i: "distinct (r @ n # q)" "set (r @ n # q) \<subseteq> set (node_ids g)" "sorted_for g r"
    using inv by (auto simp: topo_inv_def)
  have deg: "dict_get deg t = Some (int (card (set (dependencies_of g t) - set r)))" if "t \<in> set (node_ids g)" for t
    using inv that unfolding topo_inv_def by blast
  have seen: "t \<in> set (r @ n # q) \<longleftrightarrow> set (dependencies_of g t) \<subseteq> set r" if "t \<in> set (node_ids g)" for t
    using inv that unfolding topo_inv_def by blast
  have n: "n \<notin> set r" "n \<in> set (node_ids g)" using i by auto
  have kids: "t \<in> set (dependents_of g n) \<longleftrightarrow> t \<in> set (node_ids g) \<and> n \<in> set (dependencies_of g t)" for t
    by (simp add: in_dependents [OF known] needs_def)
  let ?new = "filter (\<lambda>d. dict_get deg d = Some 1) (dependents_of g n)"
  obtain deg' where low: "lower_degrees (dependents_of g n) deg q = Inr (deg', q @ ?new)"
    and deg': "\<And>x. dict_get deg' x = map_option (\<lambda>k. if x \<in> set (dependents_of g n) then k - 1 else k) (dict_get deg x)"
    using lower_degrees_effect [of "dependents_of g n" deg q] deg kids by auto
  have d': "dict_get deg' t = Some (int (card (set (dependencies_of g t) - set (r @ [n]))))" if "t \<in> set (node_ids g)" for t
    unfolding card_open_step [OF n(1)] using that by (simp add: deg' deg kids)
  have new: "t \<in> set ?new \<longleftrightarrow> n \<in> set (dependencies_of g t) \<and> set (dependencies_of g t) \<subseteq> set (r @ [n])"
    if t: "t \<in> set (node_ids g)" for t
  proof -
    have "t \<in> set ?new \<longleftrightarrow> n \<in> set (dependencies_of g t) \<and> int (card (set (dependencies_of g t) - set (r @ [n]))) = 0"
      unfolding card_open_step [OF n(1)] using t by (auto simp: deg kids)
    then show ?thesis by auto
  qed
  have fresh: "set ?new \<inter> set (r @ n # q) = {}"
  proof -
    have "t \<notin> set (r @ n # q)" if "t \<in> set ?new" for t
    proof -
      have t: "t \<in> set (node_ids g)" using that kids by auto
      with that have "n \<in> set (dependencies_of g t)" using new by blast
      with n(1) show ?thesis using seen [OF t] by blast
    qed
    then show ?thesis by blast
  qed
  have seen': "t \<in> set ((r @ [n]) @ q @ ?new) \<longleftrightarrow> set (dependencies_of g t) \<subseteq> set (r @ [n])" if t: "t \<in> set (node_ids g)" for t
  proof -
    have "t \<in> set ((r @ [n]) @ q @ ?new) \<longleftrightarrow> t \<in> set (r @ n # q) \<or> t \<in> set ?new" by auto
    then show ?thesis unfolding seen [OF t] new [OF t] by auto
  qed
  have "topo_inv g deg' (q @ ?new) (r @ [n])"
    unfolding topo_inv_def
  proof (intro conjI ballI)
    show "distinct ((r @ [n]) @ q @ ?new)" using i(1) fresh by (auto simp: distinct_filter)
    show "set ((r @ [n]) @ q @ ?new) \<subseteq> set (node_ids g)" using i(2) kids by auto
    have "set (dependencies_of g n) \<subseteq> set r" using seen [OF n(2)] by simp
    then show "sorted_for g (r @ [n])" using i(3) by simp
  qed (rule d' seen', assumption)+
  with low show ?thesis by blast
qed

lemma topo_loop_inv:
  "topo_inv g deg q r \<Longrightarrow> edges_known g \<Longrightarrow> \<exists>deg' r'. topo_loop g deg q r = Inr r' \<and> topo_inv g deg' [] r'"
proof (induction g deg q r rule: topo_loop.induct)
  case (2 g deg n q r)
  from topo_inv_step [OF "2.prems"] obtain deg' q' where
    "lower_degrees (dependents_of g n) deg q = Inr (deg', q')" "topo_inv g deg' q' (r @ [n])" by blast
  with "2.IH" [of "(deg', q')" deg' q'] "2.prems"(2) show ?case by simp
qed auto

lemma topo_start:
  assumes "edges_known g"
  shows "let deg = map (\<lambda>n. (n, int (length (dependencies_of g n)))) (node_ids g) in
    topo_inv g deg (map fst (filter (\<lambda>(_, d). d = 0) deg)) []"
proof -
  let ?deg = "map (\<lambda>n. (n, int (length (dependencies_of g n)))) (node_ids g)"
  have q: "map fst (filter (\<lambda>(_, d). d = 0) ?deg) = filter (\<lambda>n. dependencies_of g n = []) (node_ids g)"
    by (simp add: filter_map comp_def)
  have nodes: "distinct (node_ids g)" using assms by (simp add: edges_known_def node_ids_def)
  have "dict_get ?deg t = Some (int (card (set (dependencies_of g t))))" if "t \<in> set (node_ids g)" for t
  proof -
    have "wf_dict ?deg" using nodes by (simp add: comp_def)
    moreover have "(t, int (length (dependencies_of g t))) \<in> set ?deg" using that by auto
    ultimately show ?thesis by (simp add: in_dict_get distinct_card)
  qed
  then show ?thesis unfolding Let_def q topo_inv_def using nodes by simp
qed

lemma topo_result:
  assumes "edges_known g"
  shows "\<exists>r. topological_order g = Inr (if length r = length (dag_nodes g) then Some r else None) \<and>
    distinct r \<and> sorted_for g r \<and> set r = {t \<in> set (node_ids g). set (dependencies_of g t) \<subseteq> set r}"
proof -
  from topo_loop_inv [OF topo_start [OF assms, unfolded Let_def] assms] obtain deg' r where
    r: "topo_loop g (map (\<lambda>n. (n, int (length (dependencies_of g n)))) (node_ids g))
        (map fst (filter (\<lambda>(_, d). d = 0) (map (\<lambda>n. (n, int (length (dependencies_of g n)))) (node_ids g)))) [] = Inr r"
      "topo_inv g deg' [] r" by blast
  from r(2) have "set r = {t \<in> set (node_ids g). set (dependencies_of g t) \<subseteq> set r}"
    unfolding topo_inv_def by auto
  with r show ?thesis by (auto simp: topological_order_def topo_inv_def)
qed

section \<open>Valid graphs\<close>

text \<open>Nothing a node needs is missing, and nothing needs itself.\<close>

definition sound_dag :: "dag \<Rightarrow> bool" where
  "sound_dag g \<longleftrightarrow> fst ` needs g \<subseteq> set (node_ids g) \<and> acyclic (needs g)"

definition place_in :: "string list \<Rightarrow> string \<Rightarrow> nat" where
  "place_in r x = length (takeWhile (\<lambda>y. y \<noteq> x) r)"

lemma place_before:
  assumes "d \<in> set ys" "n \<notin> set ys"
  shows "place_in (ys @ n # zs) d < place_in (ys @ n # zs) n"
proof -
  have "place_in (ys @ n # zs) d = length (takeWhile (\<lambda>y. y \<noteq> d) ys)"
    using assms(1) by (simp add: place_in_def takeWhile_append1)
  moreover have "length (takeWhile (\<lambda>y. y \<noteq> d) ys) < length ys"
    using assms(1) by (induction ys) auto
  moreover have "takeWhile (\<lambda>y. y \<noteq> n) (ys @ n # zs) = ys"
    using assms(2) by (subst takeWhile_append2) auto
  ultimately show ?thesis by (simp add: place_in_def)
qed

lemma sorted_for_before:
  assumes "sorted_for g r" "distinct r" "set r = set (node_ids g)" "(d, n) \<in> needs g"
  shows "d \<in> set r \<and> place_in r d < place_in r n"
proof -
  have "n \<in> set r" using assms(3,4) by (auto simp: needs_def)
  then obtain ys zs where r: "r = ys @ n # zs" by (meson split_list)
  with assms(1,4) have "d \<in> set ys" by (auto simp: needs_def sorted_for_def)
  with r assms(2) place_before [of d ys n zs] show ?thesis by auto
qed

lemma sorted_for_sound:
  assumes "sorted_for g r" "distinct r" "set r = set (node_ids g)"
  shows "sound_dag g"
  unfolding sound_dag_def
proof
  show "fst ` needs g \<subseteq> set (node_ids g)" using sorted_for_before [OF assms] assms(3) by fastforce
  have "needs g \<subseteq> measure (place_in r)" using sorted_for_before [OF assms] by auto
  then show "acyclic (needs g)" by (intro wf_acyclic wf_subset [OF wf_measure])
qed

lemma sound_dag_order:
  assumes "sound_dag g" "set r = {t \<in> set (node_ids g). set (dependencies_of g t) \<subseteq> set r}"
  shows "set r = set (node_ids g)"
proof (rule ccontr)
  let ?left = "set (node_ids g) - set r"
  assume "set r \<noteq> set (node_ids g)"
  with assms(2) have "?left \<noteq> {}" by blast
  then obtain t0 where t0: "t0 \<in> ?left" by blast
  have "needs g \<subseteq> set (node_ids g) \<times> set (node_ids g)" using assms(1) by (force simp: sound_dag_def needs_def)
  then have "finite (needs g)" by (rule finite_subset) simp
  with assms(1) have "wf (needs g)" by (intro finite_acyclic_wf) (auto simp: sound_dag_def)
  from wfE_min [OF this t0] obtain t where t: "t \<in> ?left" "\<And>d. (d, t) \<in> needs g \<Longrightarrow> d \<notin> ?left" by blast
  have "set (dependencies_of g t) \<subseteq> set r"
  proof
    fix d assume "d \<in> set (dependencies_of g t)"
    with t(1) have "(d, t) \<in> needs g" by (simp add: needs_def)
    moreover from this have "d \<in> set (node_ids g)" using assms(1) by (force simp: sound_dag_def)
    ultimately show "d \<in> set r" using t(2) by blast
  qed
  with t(1) assms(2) show False by blast
qed

lemma length_nodes:
  assumes "edges_known g" "distinct r" "set r \<subseteq> set (node_ids g)"
  shows "length r = length (dag_nodes g) \<longleftrightarrow> set r = set (node_ids g)"
proof -
  have d: "distinct (node_ids g)" "length (node_ids g) = length (dag_nodes g)"
    using assms(1) by (simp_all add: edges_known_def node_ids_def)
  have "length r = length (dag_nodes g) \<longleftrightarrow> card (set r) = card (set (node_ids g))"
    using assms(2) d by (simp add: distinct_card)
  also have "\<dots> \<longleftrightarrow> set r = set (node_ids g)" using assms(3) card_subset_eq [of "set (node_ids g)" "set r"] by auto
  finally show ?thesis .
qed

lemma topological_order_iff:
  assumes "edges_known g"
  shows "\<exists>r. topological_order g = Inr (if sound_dag g then Some r else None) \<and>
    (sound_dag g \<longrightarrow> distinct r \<and> sorted_for g r \<and> set r = set (node_ids g))"
proof -
  from topo_result [OF assms] obtain r where
    r: "topological_order g = Inr (if length r = length (dag_nodes g) then Some r else None)" "distinct r" "sorted_for g r"
      "set r = {t \<in> set (node_ids g). set (dependencies_of g t) \<subseteq> set r}" by blast
  have sub: "set r \<subseteq> set (node_ids g)" using r(4) by blast
  have "length r = length (dag_nodes g) \<longleftrightarrow> sound_dag g"
    unfolding length_nodes [OF assms r(2) sub]
    using sorted_for_sound [OF r(3,2)] sound_dag_order [OF _ r(4)] by blast
  with r(1-3) sound_dag_order [OF _ r(4)] show ?thesis by (intro exI [of _ r]) simp
qed

lemma unknown_dependency_None:
  assumes "edges_known g" "sound_dag g"
  shows "unknown_dependency g = None"
proof -
  have "d \<in> set (node_ids g)" if "(n, node) \<in> set (dag_nodes g)" "d \<in> set (tn_dependencies node)" for n node d
  proof -
    have "dict_get (dag_nodes g) n = Some node" using that(1) assms(1) by (simp add: edges_known_def in_dict_get)
    with that(2) have "(d, n) \<in> needs g" by (auto simp: needs_def in_dependencies in_node_ids)
    then show ?thesis using assms(2) by (force simp: sound_dag_def)
  qed
  then show ?thesis by (force simp: unknown_dependency_def find_None_iff)
qed

text \<open>
  C35: A graph whose edges lead to nodes is valid exactly when every dependency is a node and no node
  needs itself, directly or through others; the one verdict on all other graphs is that there is a
  cycle, also when only a dependency is missing.
\<close>

theorem validate_dag_exact:
  assumes "edges_known g"
  shows "validate_dag g = Inr (if fst ` needs g \<subseteq> set (node_ids g) \<and> acyclic (needs g)
    then (True, ''Graph valid'') else (False, ''Cycle detected in task graph''))"
proof -
  from topological_order_iff [OF assms] obtain r where
    "topological_order g = Inr (if sound_dag g then Some r else None)" by blast
  then show ?thesis using unknown_dependency_None [OF assms] by (simp add: validate_dag_def flip: sound_dag_def)
qed

definition dangling_dag :: dag where
  "dangling_dag = with_nodes (JStr ''g'') [step_node ''a'' ''A'' [''lost''] ''c'' 60]"

theorem validate_dag_exact_witness:
  "validate_dag dangling_dag = Inr (False, ''Cycle detected in task graph'')"
proof -
  have "edges_known dangling_dag"
    by (simp add: edges_known_def dangling_dag_def with_nodes_def step_node_def new_task_node_def node_ids_def)
  moreover have "(''lost'', ''a'') \<in> needs dangling_dag" "''lost'' \<notin> set (node_ids dangling_dag)"
    by (simp_all add: needs_def in_dependencies node_ids_def dangling_dag_def with_nodes_def step_node_def new_task_node_def)
  ultimately show ?thesis by (subst validate_dag_exact) force+
qed

section \<open>The longest chains\<close>

text \<open>\<open>n\<close> ends a chain of \<open>k\<close> nodes each of which needs the one before.\<close>

inductive chain_ends :: "dag \<Rightarrow> string \<Rightarrow> int \<Rightarrow> bool" for g where
  one: "n \<in> set (node_ids g) \<Longrightarrow> chain_ends g n 1"
| longer: "chain_ends g d k \<Longrightarrow> (d, n) \<in> needs g \<Longrightarrow> chain_ends g n (k + 1)"

lemma raise_distances:
  assumes "n \<notin> set deps" "dict_get ds n = Some v"
  shows "\<exists>w. dict_get (fold (raise_distance n) deps ds) n = Some w \<and> v \<le> w \<and> (\<forall>d \<in> set deps. dict_get_or ds d 0 + 1 \<le> w) \<and>
      (w = v \<or> (\<exists>d \<in> set deps. w = dict_get_or ds d 0 + 1)) \<and>
      (\<forall>x. x \<noteq> n \<longrightarrow> dict_get (fold (raise_distance n) deps ds) x = dict_get ds x) \<and>
      map fst (fold (raise_distance n) deps ds) = map fst ds"
  using assms
proof (induction deps arbitrary: ds v)
  case (Cons d deps)
  let ?v = "max v (dict_get_or ds d 0 + 1)"
  have step: "raise_distance n d ds = dict_set n ?v ds"
    using Cons.prems by (simp add: raise_distance_def dict_get_or_def)
  have other: "dict_get_or (dict_set n ?v ds) x 0 = dict_get_or ds x 0" if "x \<in> set deps" for x
    using Cons.prems(1) that by (auto simp: dict_get_or_def)
  have keys: "map fst (dict_set n ?v ds) = map fst ds" using Cons.prems(2) by (simp add: keys_dict_set)
  have "n \<notin> set deps" "dict_get (dict_set n ?v ds) n = Some ?v" using Cons.prems(1) by auto
  from Cons.IH [OF this] obtain w where w: "dict_get (fold (raise_distance n) deps (dict_set n ?v ds)) n = Some w" "?v \<le> w"
      "\<forall>x \<in> set deps. dict_get_or (dict_set n ?v ds) x 0 + 1 \<le> w"
      "w = ?v \<or> (\<exists>x \<in> set deps. w = dict_get_or (dict_set n ?v ds) x 0 + 1)"
      "\<forall>x. x \<noteq> n \<longrightarrow> dict_get (fold (raise_distance n) deps (dict_set n ?v ds)) x = dict_get (dict_set n ?v ds) x"
      "map fst (fold (raise_distance n) deps (dict_set n ?v ds)) = map fst (dict_set n ?v ds)" by blast
  have alt: "w = v \<or> (\<exists>x \<in> set (d # deps). w = dict_get_or ds x 0 + 1)"
    using w(4)
  proof
    assume "w = ?v"
    then show ?thesis by (auto simp: max_def split: if_splits)
  next
    assume "\<exists>x \<in> set deps. w = dict_get_or (dict_set n ?v ds) x 0 + 1"
    then show ?thesis using other by auto
  qed
  show ?case
    by (rule exI [of _ w]) (use w alt other keys in \<open>simp add: step\<close>)
qed simp

text \<open>The distances of a finished prefix \<open>ys\<close> follow from those of the dependencies; all others are 1.\<close>

definition settled :: "dag \<Rightarrow> string list \<Rightarrow> string list \<Rightarrow> (string, int) dict \<Rightarrow> bool" where
  "settled g topo ys ds \<longleftrightarrow> map fst ds = topo \<and> (\<forall>x \<in> set topo - set ys. dict_get ds x = Some 1) \<and>
     (\<forall>x \<in> set ys. \<exists>w \<ge> 1. dict_get ds x = Some w \<and> (\<forall>d \<in> set (dependencies_of g x). dict_get_or ds d 0 + 1 \<le> w) \<and>
       (w = 1 \<or> (\<exists>d \<in> set (dependencies_of g x). w = dict_get_or ds d 0 + 1)))"

lemma settled_step:
  assumes st: "settled g topo ys ds" and sf: "sorted_for g (ys @ [n])" and ds: "distinct (ys @ [n])" "set (ys @ [n]) \<subseteq> set topo"
  shows "settled g topo (ys @ [n]) (fold (raise_distance n) (dependencies_of g n) ds)"
proof -
  let ?ds = "fold (raise_distance n) (dependencies_of g n) ds"
  have deps: "set (dependencies_of g n) \<subseteq> set ys" "n \<notin> set (dependencies_of g n)" using sf ds(1) by auto
  have sub: "set (dependencies_of g x) \<subseteq> set ys" if x: "x \<in> set ys" for x
  proof -
    from x obtain us vs where "ys = us @ x # vs" by (meson split_list)
    with sf show ?thesis unfolding sorted_for_snoc by (auto simp: sorted_for_def)
  qed
  have n1: "dict_get ds n = Some 1" using st ds by (auto simp: settled_def)
  from raise_distances [OF deps(2) n1] obtain w where w: "dict_get ?ds n = Some w" "1 \<le> w"
      "\<forall>d \<in> set (dependencies_of g n). dict_get_or ds d 0 + 1 \<le> w" "w = 1 \<or> (\<exists>d \<in> set (dependencies_of g n). w = dict_get_or ds d 0 + 1)"
      "\<And>x. x \<noteq> n \<Longrightarrow> dict_get ?ds x = dict_get ds x" "map fst ?ds = map fst ds" by blast
  have keep: "dict_get_or ?ds x 0 = dict_get_or ds x 0" if "x \<in> set ys" for x
  proof -
    have "x \<noteq> n" using that ds(1) by auto
    from w(5) [OF this] show ?thesis by (simp add: dict_get_or_def)
  qed
  show ?thesis
    unfolding settled_def
  proof (intro conjI ballI)
    show "map fst ?ds = topo" using w(6) st by (simp add: settled_def)
  next
    fix x assume "x \<in> set topo - set (ys @ [n])"
    then show "dict_get ?ds x = Some 1" using w(5) [of x] st by (auto simp: settled_def)
  next
    fix x assume x: "x \<in> set (ys @ [n])"
    show "\<exists>v \<ge> 1. dict_get ?ds x = Some v \<and> (\<forall>d \<in> set (dependencies_of g x). dict_get_or ?ds d 0 + 1 \<le> v) \<and>
       (v = 1 \<or> (\<exists>d \<in> set (dependencies_of g x). v = dict_get_or ?ds d 0 + 1))"
    proof (cases "x = n")
      case True
      have "\<forall>d \<in> set (dependencies_of g n). dict_get_or ?ds d 0 = dict_get_or ds d 0" using deps(1) keep by blast
      then show ?thesis using True w(1-4) by (intro exI [of _ w]) simp
    next
      case False
      then have x: "x \<in> set ys" using x by simp
      have same: "\<forall>d \<in> set (dependencies_of g x). dict_get_or ?ds d 0 = dict_get_or ds d 0" using sub [OF x] keep by blast
      from st x obtain v where "1 \<le> v" "dict_get ds x = Some v" "\<forall>d \<in> set (dependencies_of g x). dict_get_or ds d 0 + 1 \<le> v"
          "v = 1 \<or> (\<exists>d \<in> set (dependencies_of g x). v = dict_get_or ds d 0 + 1)"
        unfolding settled_def by blast
      then show ?thesis using same w(5) [OF False] by (intro exI [of _ v]) simp
    qed
  qed
qed

lemma chain_lengths_settled:
  assumes "sorted_for g topo" "distinct topo"
  shows "settled g topo topo (chain_lengths g topo)"
proof -
  let ?f = "\<lambda>nid. fold (raise_distance nid) (dependencies_of g nid)"
  have "settled g topo (take i topo) (fold ?f (take i topo) (map (\<lambda>n. (n, 1)) topo))" if "i \<le> length topo" for i
    using that
  proof (induction i)
    case 0
    have "wf_dict (map (\<lambda>n. (n, 1 :: int)) topo)" using assms(2) by (simp add: comp_def)
    then have "dict_get (map (\<lambda>n. (n, 1 :: int)) topo) x = Some 1" if "x \<in> set topo" for x
      using that by (intro in_dict_get) auto
    then show ?case by (simp add: settled_def comp_def)
  next
    case (Suc i)
    then have t: "take (Suc i) topo = take i topo @ [topo ! i]" by (simp add: take_Suc_conv_app_nth)
    have "topo = take (Suc i) topo @ drop (Suc i) topo" by simp
    then have pre: "sorted_for g (take (Suc i) topo)"
      using assms(1) unfolding sorted_for_def by (metis append.assoc append_Cons)
    have "distinct (take i topo @ [topo ! i])" "set (take i topo @ [topo ! i]) \<subseteq> set topo"
      using assms(2) unfolding t [symmetric] by (auto dest: in_set_takeD)
    from settled_step [OF _ pre [unfolded t] this] Suc show ?case by (simp add: t)
  qed
  from this [of "length topo"] show ?thesis by (simp add: chain_lengths_def)
qed

lemma settled_bound:
  assumes "settled g topo topo ds" "set topo = set (node_ids g)" "chain_ends g n k"
  shows "n \<in> set topo \<and> k \<le> dict_get_or ds n 0"
  using assms(3)
proof induction
  case (one n)
  with assms(1,2) show ?case by (force simp: settled_def dict_get_or_def)
next
  case (longer d k n)
  then have n: "n \<in> set topo" "d \<in> set (dependencies_of g n)" using assms(2) by (auto simp: needs_def)
  with assms(1) obtain w where w: "dict_get ds n = Some w" "dict_get_or ds d 0 + 1 \<le> w" unfolding settled_def by blast
  then have "dict_get_or ds n 0 = w" by (simp add: dict_get_or_def)
  with w longer.IH n show ?case by simp
qed

lemma settled_reached:
  assumes "settled g topo topo ds" "set topo = set (node_ids g)" "fst ` needs g \<subseteq> set topo" "n \<in> set topo"
  shows "chain_ends g n (dict_get_or ds n 0)"
  using assms(4)
proof (induction "nat (dict_get_or ds n 0)" arbitrary: n rule: less_induct)
  case less
  then obtain w where w: "1 \<le> w" "dict_get ds n = Some w"
      "w = 1 \<or> (\<exists>d \<in> set (dependencies_of g n). w = dict_get_or ds d 0 + 1)"
    using assms(1) unfolding settled_def by blast
  have wn: "dict_get_or ds n 0 = w" using w(2) by (simp add: dict_get_or_def)
  from w(3) show ?case
  proof
    assume "w = 1"
    with wn less.prems assms(2) show ?thesis by (auto intro: chain_ends.one)
  next
    assume "\<exists>d \<in> set (dependencies_of g n). w = dict_get_or ds d 0 + 1"
    then obtain d where d: "d \<in> set (dependencies_of g n)" "w = dict_get_or ds d 0 + 1" by blast
    have dn: "(d, n) \<in> needs g" using d(1) less.prems assms(2) by (simp add: needs_def)
    then have "d \<in> set topo" using assms(3) by force
    moreover from this obtain v where "1 \<le> v" "dict_get ds d = Some v" using assms(1) unfolding settled_def by blast
    then have "nat (dict_get_or ds d 0) < nat (dict_get_or ds n 0)" using d(2) wn by (simp add: dict_get_or_def)
    ultimately have "chain_ends g d (dict_get_or ds d 0)" using less.hyps by blast
    from chain_ends.longer [OF this dn] show ?thesis by (simp add: wn d(2))
  qed
qed

lemma settled_entries:
  assumes "settled g r r ds" "distinct r"
  shows "(n, d) \<in> set ds \<longleftrightarrow> n \<in> set r \<and> d = dict_get_or ds n 0"
proof -
  have r: "map fst ds = r" using assms(1) by (simp add: settled_def)
  then have "(n, d) \<in> set ds \<longleftrightarrow> dict_get ds n = Some d" using assms(2) by (auto dest: dict_get_in in_dict_get)
  moreover have "n \<in> set r \<longleftrightarrow> dict_get ds n \<noteq> None" unfolding dict_get_None_iff r [symmetric] by simp
  ultimately show ?thesis by (auto simp: dict_get_or_def)
qed

definition farthest :: "(string, int) dict \<Rightarrow> int" where
  "farthest ds = (if ds = [] then 0 else Max (set (map snd ds)))"

lemma farthest_ge: "(n, d) \<in> set ds \<Longrightarrow> d \<le> farthest ds"
proof -
  assume d: "(n, d) \<in> set ds"
  then have "d \<in> set (map snd ds)" by force
  then have "d \<le> Max (set (map snd ds))" by (intro Max_ge) auto
  then show "d \<le> farthest ds" using d by (auto simp: farthest_def)
qed

lemma farthest_in: "ds \<noteq> [] \<Longrightarrow> \<exists>n. (n, farthest ds) \<in> set ds"
proof -
  assume ds: "ds \<noteq> []"
  then have "Max (set (map snd ds)) \<in> set (map snd ds)" by (intro Max_in) auto
  then obtain n where "(n, Max (set (map snd ds))) \<in> set ds" by auto
  then show ?thesis using ds by (auto simp: farthest_def)
qed

text \<open>The nodes with the largest distance are those at which a longest chain ends.\<close>

lemma farthest_ends:
  assumes st: "settled g r r ds" "distinct r" and nodes: "set r = set (node_ids g)" "fst ` needs g \<subseteq> set r"
  shows "(n, farthest ds) \<in> set ds \<longleftrightarrow> (\<exists>k. chain_ends g n k \<and> (\<forall>m j. chain_ends g m j \<longrightarrow> j \<le> k))"
proof
  note entry = settled_entries [OF st] and bound = settled_bound [OF st(1) nodes(1)]
  {
    assume n: "(n, farthest ds) \<in> set ds"
    then have "chain_ends g n (farthest ds)" using entry settled_reached [OF st(1) nodes, of n] by auto
    moreover have "j \<le> farthest ds" if "chain_ends g m j" for m j
      using bound [OF that] farthest_ge [of m "dict_get_or ds m 0" ds] entry by auto
    ultimately show "\<exists>k. chain_ends g n k \<and> (\<forall>m j. chain_ends g m j \<longrightarrow> j \<le> k)" by blast
  next
    assume "\<exists>k. chain_ends g n k \<and> (\<forall>m j. chain_ends g m j \<longrightarrow> j \<le> k)"
    then obtain k where k: "chain_ends g n k" "\<And>m j. chain_ends g m j \<Longrightarrow> j \<le> k" by blast
    from bound [OF k(1)] have n: "(n, dict_get_or ds n 0) \<in> set ds" "k \<le> dict_get_or ds n 0" using entry by auto
    then have "ds \<noteq> []" by auto
    from farthest_in [OF this] obtain m where "(m, farthest ds) \<in> set ds" by blast
    then have "farthest ds \<le> k" using k(2) settled_reached [OF st(1) nodes, of m] entry by auto
    with n(2) farthest_ge [OF n(1)] have "dict_get_or ds n 0 = farthest ds" by simp
    with n(1) show "(n, farthest ds) \<in> set ds" by simp
  }
qed

text \<open>
  C36: On a valid graph the critical path is the list of the nodes at which a longest chain of
  dependencies ends, and no node of it needs another one of it: of a longest chain it holds the end alone.
\<close>

theorem critical_path_is_ends:
  assumes "edges_known g" "validate_dag g = Inr (True, ''Graph valid'')"
  shows "\<exists>ends. critical_path g = Inr ends \<and>
      set ends = {n. \<exists>k. chain_ends g n k \<and> (\<forall>m j. chain_ends g m j \<longrightarrow> j \<le> k)} \<and>
      (\<forall>n \<in> set ends. \<forall>m \<in> set ends. (n, m) \<notin> needs g)"
proof -
  from topological_order_iff [OF assms(1)] obtain r where
    r: "topological_order g = Inr (if sound_dag g then Some r else None)"
      "sound_dag g \<longrightarrow> distinct r \<and> sorted_for g r \<and> set r = set (node_ids g)" by blast
  have ok: "sound_dag g" using assms(2) r(1) by (auto simp: validate_dag_def split: if_splits)
  let ?ds = "chain_lengths g r"
  define ends where "ends = map fst (filter (\<lambda>(_, d). d = farthest ?ds) ?ds)"
  have path: "critical_path g = Inr ends"
    using r(1) ok by (simp add: critical_path_def Let_def ends_def farthest_def)
  have "distinct r" "set r = set (node_ids g)" "fst ` needs g \<subseteq> set r" "settled g r r ?ds"
    using r(2) ok chain_lengths_settled [of g r] by (auto simp: sound_dag_def)
  note longest = farthest_ends [OF this(4,1-3)]
  have set: "set ends = {n. \<exists>k. chain_ends g n k \<and> (\<forall>m j. chain_ends g m j \<longrightarrow> j \<le> k)}"
    unfolding longest [symmetric] ends_def by force
  have "(n, m) \<notin> needs g" if n: "n \<in> set ends" and m: "m \<in> set ends" for n m
  proof
    assume e: "(n, m) \<in> needs g"
    from n set obtain k where k: "chain_ends g n k" "\<And>m j. chain_ends g m j \<Longrightarrow> j \<le> k" by blast
    from k(2) [OF chain_ends.longer [OF k(1) e]] show False by simp
  qed
  with path set show ?thesis by blast
qed

theorem critical_path_is_ends_witness:
  "\<exists>ends. critical_path (compile_code_task [] ''low'') = Inr ends \<and>
    (\<forall>n \<in> set ends. \<forall>m \<in> set ends. (n, m) \<notin> needs (compile_code_task [] ''low''))"
proof -
  have "edges_known (compile_code_task [] ''low'')"
    by (simp add: edges_known_def compile_code_task_def with_nodes_def step_node_def new_task_node_def node_ids_def)
  moreover have "validate_dag (compile_code_task [] ''low'') = Inr (True, ''Graph valid'')" by code_simp
  ultimately show ?thesis using critical_path_is_ends by blast
qed

section \<open>Compiled graphs\<close>

lemmas dag_eval = with_nodes_def step_node_def new_task_node_def validate_dag_def topological_order_def node_ids_def
  dependencies_of_def dependents_of_def unknown_dependency_def dict_set_def edges_known_def

lemma compile_code_valid:
  "edges_known (compile_code_task task c) \<and> validate_dag (compile_code_task task c) = Inr (True, ''Graph valid'')"
  by (cases "c \<in> {''high'', ''critical''}") (simp_all add: compile_code_task_def dag_eval)

lemma compile_test_valid:
  "edges_known (compile_test_task task) \<and> validate_dag (compile_test_task task) = Inr (True, ''Graph valid'')"
  by (simp add: compile_test_task_def dag_eval)

lemma compile_research_valid:
  "edges_known (compile_research_task task) \<and> validate_dag (compile_research_task task) = Inr (True, ''Graph valid'')"
  by (simp add: compile_research_task_def dag_eval)

lemma compile_distributed_valid:
  "edges_known (compile_distributed_task task) \<and> validate_dag (compile_distributed_task task) = Inr (True, ''Graph valid'')"
  by (simp add: compile_distributed_task_def dag_eval)

lemma compile_simple_valid:
  "compile_simple_task task = Inr g \<Longrightarrow> edges_known g \<and> validate_dag g = Inr (True, ''Graph valid'')"
  by (auto simp: compile_simple_task_def bindE_eq_Inr dag_eval)

lemma dag_metadata_irrelevant:
  "edges_known (g\<lparr>dag_metadata := m\<rparr>) = edges_known g" "validate_dag (g\<lparr>dag_metadata := m\<rparr>) = validate_dag g"
proof -
  have deps: "dependencies_of (g\<lparr>dag_metadata := m\<rparr>) = dependencies_of g" "dependents_of (g\<lparr>dag_metadata := m\<rparr>) = dependents_of g" for g
    by (simp_all add: dependencies_of_def dependents_of_def fun_eq_iff)
  have "topo_loop (g\<lparr>dag_metadata := m\<rparr>) d q r = topo_loop g d q r" for d q r
    by (induction g d q r rule: topo_loop.induct) (simp_all add: deps split: sum.split)
  then have "topological_order (g\<lparr>dag_metadata := m\<rparr>) = topological_order g"
    by (simp add: topological_order_def node_ids_def deps)
  moreover have "unknown_dependency (g\<lparr>dag_metadata := m\<rparr>) = unknown_dependency g"
    by (simp add: unknown_dependency_def node_ids_def)
  ultimately show "validate_dag (g\<lparr>dag_metadata := m\<rparr>) = validate_dag g" unfolding validate_dag_def by simp
  show "edges_known (g\<lparr>dag_metadata := m\<rparr>) = edges_known g" by (simp add: edges_known_def node_ids_def)
qed

text \<open>
  Whatever the task, a graph the compiler returns passes the validation: it has no cycle and no
  missing dependency, and its edges lead to its nodes.
\<close>

lemma compiled_graph_valid:
  assumes "compile_task task = Inr g"
  shows "edges_known g \<and> validate_dag g = Inr (True, ''Graph valid'')"
proof -
  from assms obtain ty c g' m where
    g': "(if ty \<in> {''code_audit'', ''bug_fix'', ''code_refactor''} then Inr (compile_code_task task c)
       else if ty = ''test_generation'' then Inr (compile_test_task task)
       else if ty \<in> {''research'', ''web_research'', ''data_analysis''} then Inr (compile_research_task task)
       else if ty \<in> {''multi_node'', ''distributed''} then Inr (compile_distributed_task task)
       else compile_simple_task task) = Inr g'" and g: "g = g'\<lparr>dag_metadata := m\<rparr>"
    by (auto simp: compile_task_def bindE_eq_Inr)
  have "edges_known g' \<and> validate_dag g' = Inr (True, ''Graph valid'')"
    using g' compile_code_valid [of task c] compile_test_valid [of task] compile_research_valid [of task]
      compile_distributed_valid [of task] compile_simple_valid [of task g']
    by (simp only: split: if_splits) (simp_all only: sum.inject)
  then show ?thesis by (simp add: g dag_metadata_irrelevant)
qed

lemma compiled_graph_valid_witness:
  "\<exists>g. compile_task [(''task_type'', JStr ''bug_fix''), (''complexity'', JStr ''high'')] = Inr g \<and>
     node_ids g = [''analyze'', ''implement'', ''test'', ''review''] \<and> validate_dag g = Inr (True, ''Graph valid'')"
proof -
  obtain g where g: "compile_task [(''task_type'', JStr ''bug_fix''), (''complexity'', JStr ''high'')] = Inr g"
      "node_ids g = [''analyze'', ''implement'', ''test'', ''review'']"
    by (simp add: compile_task_def dict_get_or_def compile_code_task_def with_nodes_def step_node_def new_task_node_def node_ids_def)
  from compiled_graph_valid [OF g(1)] g show ?thesis by blast
qed

end
