(* ===== verification/Orch_Roles.thy ===== *)
theory Orch_Roles
  imports Orch_Graph
begin

text \<open>
  Who works on a task (\<open>nous_runtime/orchestration/roles.py\<close>, \<open>assignment.py\<close>): the templates of roles,
  the roles generated for a task, the score of a role on a model and a node, and the assignment of the
  best pair with its alternatives. Scores are exact rationals. The text that explains an assignment has a
  character beyond the modelled code points and is an argument.
\<close>

section \<open>Roles\<close>

record agent_role =
  ar_role_id :: string
  ar_name :: string
  ar_description :: string
  ar_required_capabilities :: "string list"
  ar_allowed_tools :: "string list"
  ar_allowed_files :: "string list"
  ar_context_scope :: string
  ar_output_contract :: string
  ar_authority_level :: string
  ar_escalation_rules :: "string list"
  ar_can_delegate :: bool
  ar_requires_approval :: bool

text \<open>A template; what it does not mention is \<open>None\<close>.\<close>

record role_template =
  rt_required_capabilities :: "string list"
  rt_allowed_tools :: "string list"
  rt_authority_level :: string
  rt_context_scope :: "string option"
  rt_write_scope :: "string option"
  rt_requires_approval :: "bool option"

definition plain_template :: "string list \<Rightarrow> string list \<Rightarrow> string \<Rightarrow> role_template" where
  "plain_template caps tools level = \<lparr>rt_required_capabilities = caps, rt_allowed_tools = tools, rt_authority_level = level,
     rt_context_scope = None, rt_write_scope = None, rt_requires_approval = None\<rparr>"

definition code_worker_template :: role_template where
  "code_worker_template = (plain_template [''code_generation'', ''code_editing''] [''file.read'', ''file.write'', ''code.execute'', ''test.run'']
     ''worker'')\<lparr>rt_write_scope := Some ''workspace''\<rparr>"

definition ROLE_TEMPLATES :: "(string, role_template) dict" where
  "ROLE_TEMPLATES = [
     (''architect'', (plain_template [''system_design'', ''architecture_planning''] [''diagram_generator'', ''doc_writer'', ''code_analyzer'']
        ''manager'')\<lparr>rt_context_scope := Some ''project''\<rparr>),
     (''researcher'', plain_template [''web_search'', ''synthesis'', ''source_evaluation''] [''web_search'', ''paper_reader'', ''note_taker''] ''worker''),
     (''literature_scout'', plain_template [''web_search'', ''paper_discovery'', ''citation_tracking'']
        [''web_search'', ''arxiv_search'', ''citation_graph''] ''worker''),
     (''data_engineer'', (plain_template [''data_processing'', ''etl'', ''schema_design''] [''sql_runner'', ''data_transformer'', ''schema_validator'']
        ''worker'')\<lparr>rt_write_scope := Some ''data_directory''\<rparr>),
     (''code_worker'', code_worker_template),
     (''test_engineer'', plain_template [''test_generation'', ''test_execution''] [''test.run'', ''coverage.check'', ''mutation.test''] ''worker''),
     (''security_reviewer'', (plain_template [''security_audit'', ''vulnerability_detection''] [''code_analyzer'', ''dependency_scanner'', ''secret_scanner'']
        ''reviewer'')\<lparr>rt_requires_approval := Some True\<rparr>),
     (''evidence_verifier'', plain_template [''fact_checking'', ''source_verification'']
        [''web_search'', ''source_comparator'', ''claim_extractor''] ''reviewer''),
     (''adversarial_reviewer'', plain_template [''critical_analysis'', ''counterexample_generation'']
        [''code_analyzer'', ''logic_checker'', ''edge_case_generator''] ''reviewer''),
     (''integrator'', plain_template [''merge'', ''conflict_resolution'', ''synthesis''] [''merge_tool'', ''diff_viewer'', ''report_generator''] ''manager''),
     (''arbiter'', plain_template [''conflict_resolution'', ''decision_making'', ''evidence_evaluation'']
        [''comparator'', ''evidence_viewer'', ''decision_logger''] ''arbiter''),
     (''release_manager'', (plain_template [''release_validation'', ''checklist_verification'']
        [''release_checker'', ''changelog_generator'', ''version_bumper''] ''manager'')\<lparr>rt_requires_approval := Some True\<rparr>)]"

text \<open>\<open>str.title\<close> on ASCII, which the names of the templates are: a letter after no letter becomes a capital.\<close>

definition ascii_letter :: "char \<Rightarrow> bool" where
  "ascii_letter c \<longleftrightarrow> (let n = of_char c :: nat in (65 \<le> n \<and> n \<le> 90) \<or> (97 \<le> n \<and> n \<le> 122))"

fun title_from :: "bool \<Rightarrow> string \<Rightarrow> string" where
  "title_from inside [] = []"
| "title_from inside (c # s) =
     (let n = of_char c :: nat in
      (if inside then py_lower_char c else if 97 \<le> n \<and> n \<le> 122 then char_of (n - 32) else c) # title_from (ascii_letter c) s)"

definition make_role :: "string \<Rightarrow> string \<Rightarrow> agent_role" where
  "make_role template_name role_name =
     (let tmpl = dict_get_or ROLE_TEMPLATES template_name code_worker_template in
      \<lparr>ar_role_id = ''role_'' @ role_name, ar_name = role_name,
        ar_description = title_from False (py_replace ''_'' '' '' template_name) @ '' agent'',
        ar_required_capabilities = rt_required_capabilities tmpl, ar_allowed_tools = rt_allowed_tools tmpl, ar_allowed_files = [],
        ar_context_scope = (case rt_context_scope tmpl of None \<Rightarrow> ''task'' | Some s \<Rightarrow> s), ar_output_contract = [],
        ar_authority_level = rt_authority_level tmpl, ar_escalation_rules = [], ar_can_delegate = False,
        ar_requires_approval = (case rt_requires_approval tmpl of None \<Rightarrow> False | Some b \<Rightarrow> b)\<rparr>)"

definition demanding :: "string \<Rightarrow> bool" where
  "demanding complexity \<longleftrightarrow> complexity \<in> {''high'', ''critical''}"

definition code_roles :: "string \<Rightarrow> agent_role list" where
  "code_roles complexity = [make_role ''code_worker'' ''worker''] @
     (if demanding complexity then [make_role ''architect'' ''architect'', make_role ''test_engineer'' ''tester''] else [])"

definition test_roles :: "agent_role list" where
  "test_roles = [make_role ''test_engineer'' ''tester'']"

definition research_roles :: "string \<Rightarrow> agent_role list" where
  "research_roles complexity =
     (if demanding complexity
      then [make_role ''literature_scout'' ''scout'', make_role ''researcher'' ''researcher'',
        make_role ''evidence_verifier'' ''verifier'', make_role ''integrator'' ''integrator'']
      else [make_role ''researcher'' ''researcher''])"

definition data_roles :: "agent_role list" where
  "data_roles = [make_role ''data_engineer'' ''engineer'']"

definition distributed_roles :: "agent_role list" where
  "distributed_roles = [make_role ''architect'' ''coordinator'', make_role ''code_worker'' ''worker_a'',
     make_role ''code_worker'' ''worker_b'', make_role ''integrator'' ''integrator'']"

definition default_roles :: "agent_role list" where
  "default_roles = [make_role ''code_worker'' ''worker'']"

definition add_reviewers :: "string \<Rightarrow> agent_role list \<Rightarrow> agent_role list" where
  "add_reviewers risk roles =
     (if demanding risk then
        let roles = roles @ [make_role ''security_reviewer'' (''security_reviewer_'' @ show_nat (length roles))] in
        if risk = ''critical'' then roles @ [make_role ''arbiter'' (''arbiter_'' @ show_nat (length roles))] else roles
      else roles)"

definition generate_roles :: "jobj \<Rightarrow> pyexn + agent_role list" where
  "generate_roles task =
     bindE (py_str (dict_get_or task ''task_type'' (JStr ''general''))) (\<lambda>task_type.
     bindE (py_str (dict_get_or task ''complexity'' (JStr ''medium''))) (\<lambda>complexity.
     bindE (py_str (dict_get_or task ''risk_class'' (JStr ''low''))) (\<lambda>risk.
       Inr (add_reviewers risk
         (if task_type \<in> {''code_audit'', ''bug_fix'', ''code_refactor''} then code_roles complexity
          else if task_type = ''test_generation'' then test_roles
          else if task_type \<in> {''research'', ''web_research''} then research_roles complexity
          else if task_type = ''data_analysis'' then data_roles
          else if task_type \<in> {''multi_node'', ''distributed''} then distributed_roles
          else default_roles)))))"

section \<open>The score of an assignment\<close>

record assignment =
  as_role_id :: string
  as_model_id :: string
  as_node_id :: string
  as_score :: rat
  as_reasoning :: string
  as_alternatives :: "jobj list"

definition capability_score :: "string list \<Rightarrow> string list \<Rightarrow> rat" where
  "capability_score role_caps model_caps =
     (if role_caps = [] then 8 / 10
      else of_nat (card (set role_caps \<inter> set model_caps)) / of_nat (card (set role_caps)))"

definition weighted_sum :: "(rat \<times> rat) list \<Rightarrow> rat" where
  "weighted_sum sws = sum_list (map (\<lambda>(s, w). s * w) sws)"

definition score_fit :: "agent_role \<Rightarrow> jobj \<Rightarrow> jobj \<Rightarrow> jobj \<Rightarrow> pyexn + rat" where
  "score_fit role model node task =
     bindE (py_str (dict_get_or model ''capabilities'' (JStr []))) (\<lambda>caps.
     let capability = capability_score (ar_required_capabilities role) (py_split (CHR '','') caps);
         availability = (if dict_get model ''status'' = Some (JStr ''healthy'') then 1 else 3 / 10) in
     bindE (rd_int task ''min_memory_mb'' 512) (\<lambda>req_mem.
     bindE (rd_int node ''free_memory_mb'' 0) (\<lambda>avail_mem.
     let resources = min 1 (of_int avail_mem / of_int (max req_mem 1)) in
     bindE (rd_float model ''cost_per_1k_tokens'' (1 / 100)) (\<lambda>cost.
     bindE (rd_float task ''budget_usd'' 1) (\<lambda>budget.
     bindE (rd_float model ''avg_latency_ms'' 1000) (\<lambda>lat.
     bindE (rd_float task ''deadline_seconds'' 300) (\<lambda>deadline.
     bindE (py_str (dict_get_or task ''privacy_class'' (JStr ''internal''))) (\<lambda>required_privacy.
     bindE (py_str (dict_get_or model ''privacy_class'' (JStr ''internal''))) (\<lambda>model_privacy.
     bindE (rd_float model ''success_rate'' (8 / 10)) (\<lambda>history.
       Inr (weighted_sum [(capability, 30 / 100), (availability, 15 / 100), (resources, 15 / 100),
         (max 0 (1 - cost / max budget (1 / 1000)), 10 / 100), (max 0 (1 - lat / max (deadline * 1000) 1), 10 / 100),
         (if model_privacy = required_privacy \<or> required_privacy = ''public'' then 1 else 3 / 10, 10 / 100), (history, 10 / 100)])))))))))))"

section \<open>The best pair\<close>

text \<open>The score of a pair, lowered for a model and for a node that an earlier assignment uses.\<close>

definition penalized :: "assignment list \<Rightarrow> string \<Rightarrow> string \<Rightarrow> rat \<Rightarrow> rat" where
  "penalized previous model_id node_id s =
     (let s = (if model_id \<in> set (map as_model_id previous) then s * (85 / 100) else s)
      in if node_id \<in> set (map as_node_id previous) then s * (80 / 100) else s)"

definition weigh_pair :: "agent_role \<Rightarrow> jobj \<Rightarrow> assignment list \<Rightarrow> jobj \<times> jobj \<Rightarrow> pyexn + string \<times> string \<times> rat" where
  "weigh_pair role task previous = (\<lambda>(model, node).
     bindE (py_str (dict_get_or model ''model_id'' (JStr []))) (\<lambda>model_id.
     bindE (py_str (dict_get_or node ''node_id'' (JStr []))) (\<lambda>node_id.
     bindE (score_fit role model node task) (\<lambda>s. Inr (model_id, node_id, penalized previous model_id node_id s)))))"

definition all_pairs :: "jobj list \<Rightarrow> jobj list \<Rightarrow> (jobj \<times> jobj) list" where
  "all_pairs models nodes = concat (map (\<lambda>m. map (Pair m) nodes) models)"

fun best_of :: "(jobj \<times> jobj \<Rightarrow> pyexn + string \<times> string \<times> rat) \<Rightarrow> (jobj \<times> jobj \<Rightarrow> rat \<Rightarrow> string) \<Rightarrow>
    (jobj \<times> jobj) list \<Rightarrow> assignment \<Rightarrow> pyexn + assignment" where
  "best_of weigh explain [] best = Inr best"
| "best_of weigh explain (p # ps) best =
     bindE (weigh p) (\<lambda>(model_id, node_id, s).
       best_of weigh explain ps
         (if s > as_score best
          then \<lparr>as_role_id = as_role_id best, as_model_id = model_id, as_node_id = node_id, as_score = s,
            as_reasoning = explain p s, as_alternatives = []\<rparr>
          else best))"

definition alternative :: "agent_role \<Rightarrow> jobj \<Rightarrow> jobj \<times> jobj \<Rightarrow> pyexn + jobj \<times> rat" where
  "alternative role task = (\<lambda>(model, node).
     bindE (score_fit role model node task) (\<lambda>s.
       Inr ([(''model_id'', dict_get_or model ''model_id'' (JStr [])), (''node_id'', dict_get_or node ''node_id'' (JStr [])),
         (''score'', JFloat s)], s)))"

definition best_fit :: "(agent_role \<Rightarrow> jobj \<times> jobj \<Rightarrow> rat \<Rightarrow> string) \<Rightarrow> agent_role \<Rightarrow> jobj list \<Rightarrow> jobj list \<Rightarrow> jobj \<Rightarrow>
    assignment list \<Rightarrow> pyexn + assignment" where
  "best_fit explain role models nodes task previous =
     bindE (best_of (weigh_pair role task previous) (explain role) (all_pairs models nodes)
       \<lparr>as_role_id = ar_role_id role, as_model_id = [], as_node_id = [], as_score = - 1, as_reasoning = [], as_alternatives = []\<rparr>) (\<lambda>best.
     bindE (mapE (alternative role task) (all_pairs models nodes)) (\<lambda>alt_scores.
       Inr (best\<lparr>as_alternatives := map fst (take 2 (drop 1 (sort_key (\<lambda>x. - snd x) alt_scores)))\<rparr>)))"

fun assign_roles :: "(agent_role \<Rightarrow> jobj \<times> jobj \<Rightarrow> rat \<Rightarrow> string) \<Rightarrow> jobj list \<Rightarrow> jobj list \<Rightarrow> jobj \<Rightarrow> agent_role list \<Rightarrow>
    assignment list \<Rightarrow> pyexn + assignment list" where
  "assign_roles explain models nodes task [] assignments = Inr assignments"
| "assign_roles explain models nodes task (role # roles) assignments =
     bindE (best_fit explain role models nodes task assignments) (\<lambda>best.
       assign_roles explain models nodes task roles (assignments @ [best]))"

text \<open>\<open>AssignmentEngine.assign\<close>\<close>

definition assign_all :: "(agent_role \<Rightarrow> jobj \<times> jobj \<Rightarrow> rat \<Rightarrow> string) \<Rightarrow> agent_role list \<Rightarrow> jobj list \<Rightarrow> jobj list \<Rightarrow> jobj \<Rightarrow>
    pyexn + assignment list" where
  "assign_all explain roles models nodes task = assign_roles explain models nodes task roles []"

end
