(* ===== verification/Orch_Roles_Safety.thy ===== *)
theory Orch_Roles_Safety
  imports Orch_Roles Orch_Graph_Safety
begin

text \<open>
  What the generated roles guarantee and what they do not: risky tasks are reviewed, but the roles do not
  cover what the compiled graph asks for; and what the chosen assignment is the best of.
\<close>

section \<open>Roles\<close>

lemma in_reviewers: "r \<in> set roles \<Longrightarrow> r \<in> set (add_reviewers risk roles)"
  by (simp add: add_reviewers_def Let_def)

lemma role_name [simp]: "ar_role_id (make_role t n) = ''role_'' @ n"
  by (simp add: make_role_def Let_def)

text \<open>The lists of roles that are generated before reviewers are added.\<close>

lemmas base_roles = code_roles_def test_roles_def research_roles_def data_roles_def distributed_roles_def default_roles_def

definition plain_names :: "string set" where
  "plain_names = {''worker'', ''architect'', ''tester'', ''researcher'', ''scout'', ''verifier'', ''integrator'', ''engineer'',
     ''coordinator'', ''worker_a'', ''worker_b''}"

definition plain_roles :: "agent_role list \<Rightarrow> bool" where
  "plain_roles roles \<longleftrightarrow> distinct (map ar_role_id roles) \<and> ar_role_id ` set roles \<subseteq> (@) ''role_'' ` plain_names"

lemma base_roles_plain:
  "plain_roles (code_roles c)" "plain_roles test_roles" "plain_roles (research_roles c)" "plain_roles data_roles"
  "plain_roles distributed_roles" "plain_roles default_roles"
  by (cases "demanding c"; simp add: plain_roles_def base_roles plain_names_def)+

lemma reviewers_distinct:
  assumes "plain_roles roles"
  shows "distinct (map ar_role_id (add_reviewers risk roles))"
proof -
  have "''role_security_reviewer_'' @ n \<notin> ar_role_id ` set roles" "''role_arbiter_'' @ n \<notin> ar_role_id ` set roles" for n
    using assms by (auto simp: plain_roles_def plain_names_def)
  then show ?thesis using assms by (simp add: add_reviewers_def Let_def plain_roles_def image_image)
qed

lemma reviewers_added:
  "demanding risk \<Longrightarrow> \<exists>r \<in> set (add_reviewers risk roles). ar_authority_level r = ''reviewer'' \<and> ar_requires_approval r"
  "risk = ''critical'' \<Longrightarrow> \<exists>r \<in> set (add_reviewers risk roles). ar_authority_level r = ''arbiter''"
  by (simp_all add: add_reviewers_def Let_def demanding_def make_role_def ROLE_TEMPLATES_def dict_get_or_def plain_template_def)

lemma generate_roles_cases:
  assumes "generate_roles task = Inr roles" "py_str (dict_get_or task ''risk_class'' (JStr ''low'')) = Inr risk"
  shows "\<exists>base. roles = add_reviewers risk base \<and> plain_roles base"
proof -
  from assms obtain ty c where r: "roles = add_reviewers risk
         (if ty \<in> {''code_audit'', ''bug_fix'', ''code_refactor''} then code_roles c
          else if ty = ''test_generation'' then test_roles
          else if ty \<in> {''research'', ''web_research''} then research_roles c
          else if ty = ''data_analysis'' then data_roles
          else if ty \<in> {''multi_node'', ''distributed''} then distributed_roles
          else default_roles)"
    unfolding generate_roles_def by (simp only: bindE_eq_Inr) auto
  show ?thesis by (rule exI, rule conjI, rule r) (simp add: base_roles_plain)
qed

text \<open>
  No two roles of a task have one identifier; a task of high or critical risk has a reviewer whose
  work needs approval, and one of critical risk has an arbiter as well.
\<close>

lemma risky_tasks_are_reviewed:
  assumes "generate_roles task = Inr roles" "py_str (dict_get_or task ''risk_class'' (JStr ''low'')) = Inr risk"
  shows "distinct (map ar_role_id roles) \<and>
    (risk \<in> {''high'', ''critical''} \<longrightarrow> (\<exists>r \<in> set roles. ar_authority_level r = ''reviewer'' \<and> ar_requires_approval r)) \<and>
    (risk = ''critical'' \<longrightarrow> (\<exists>r \<in> set roles. ar_authority_level r = ''arbiter''))"
proof -
  from generate_roles_cases [OF assms] obtain base where "roles = add_reviewers risk base" "plain_roles base" by blast
  then show ?thesis using reviewers_distinct reviewers_added unfolding demanding_def by blast
qed

lemma risky_tasks_are_reviewed_witness:
  "\<exists>roles. generate_roles [(''risk_class'', JStr ''critical'')] = Inr roles \<and> (\<exists>r \<in> set roles. ar_authority_level r = ''arbiter'')"
proof -
  obtain roles where r: "generate_roles [(''risk_class'', JStr ''critical'')] = Inr roles"
    by (simp add: generate_roles_def dict_get_or_def)
  have "py_str (dict_get_or [(''risk_class'', JStr ''critical'')] ''risk_class'' (JStr ''low'')) = Inr ''critical''"
    by (simp add: dict_get_or_def)
  from risky_tasks_are_reviewed [OF r this] r show ?thesis by blast
qed

text \<open>What no role of a task of a kind knows\<close>

lemma reviewer_capabilities:
  assumes "r \<in> set (add_reviewers risk base)"
  shows "r \<in> set base \<or> set (ar_required_capabilities r) \<subseteq>
    {''security_audit'', ''vulnerability_detection'', ''conflict_resolution'', ''decision_making'', ''evidence_evaluation''}"
  using assms by (auto simp: add_reviewers_def Let_def make_role_def ROLE_TEMPLATES_def dict_get_or_def plain_template_def split: if_splits)

definition lacks :: "agent_role list \<Rightarrow> string \<Rightarrow> bool" where
  "lacks roles cap \<longleftrightarrow> (\<forall>r \<in> set roles. cap \<notin> set (ar_required_capabilities r))"

lemma lacks_reviewers:
  "lacks base cap \<Longrightarrow> cap \<in> {''code_analysis'', ''planning''} \<Longrightarrow> lacks (add_reviewers risk base) cap"
  using reviewer_capabilities [of _ risk base] by (fastforce simp: lacks_def)

lemma base_lacks:
  "lacks (code_roles c) ''code_analysis''" "lacks test_roles ''code_analysis''" "lacks (research_roles c) ''planning''"
  "lacks data_roles ''planning''" "lacks distributed_roles ''planning''"
  by (cases "demanding c"; simp add: lacks_def base_roles make_role_def ROLE_TEMPLATES_def dict_get_or_def plain_template_def code_worker_template_def)+

definition asks_for :: "dag \<Rightarrow> string \<Rightarrow> bool" where
  "asks_for g cap \<longleftrightarrow> (\<exists>node \<in> set (map snd (dag_nodes g)). tn_required_capabilities node = jstrs [cap])"

lemma compiled_asks:
  "asks_for (compile_code_task task c) ''code_analysis''" "asks_for (compile_test_task task) ''code_analysis''"
  "asks_for (compile_research_task task) ''planning''" "asks_for (compile_distributed_task task) ''planning''"
  by (simp_all add: asks_for_def compile_code_task_def compile_test_task_def compile_research_task_def compile_distributed_task_def
      with_nodes_def step_node_def)

text \<open>
  The roles generated for a task and the graph compiled for it do not fit: for every kind of task
  with more than one node, some node needs a capability that none of the generated roles has.
\<close>

lemma roles_do_not_cover_graph:
  assumes "compile_task task = Inr g" "generate_roles task = Inr roles" "dict_get task ''task_type'' = Some (JStr ty)"
    and "ty \<in> {''code_audit'', ''bug_fix'', ''code_refactor'', ''test_generation'', ''research'', ''web_research'',
      ''data_analysis'', ''multi_node'', ''distributed''}"
  shows "\<exists>cap. \<exists>node \<in> set (map snd (dag_nodes g)). tn_required_capabilities node = jstrs [cap] \<and>
    (\<forall>r \<in> set roles. cap \<notin> set (ar_required_capabilities r))"
proof -
  have ty: "dict_get_or task ''task_type'' d = JStr ty" for d using assms(3) by (simp add: dict_get_or_def)
  from assms(1) obtain c g' where
    g': "(if ty \<in> {''code_audit'', ''bug_fix'', ''code_refactor''} then Inr (compile_code_task task c)
       else if ty = ''test_generation'' then Inr (compile_test_task task)
       else if ty \<in> {''research'', ''web_research'', ''data_analysis''} then Inr (compile_research_task task)
       else if ty \<in> {''multi_node'', ''distributed''} then Inr (compile_distributed_task task)
       else compile_simple_task task) = Inr g'" and g: "dag_nodes g = dag_nodes g'"
    unfolding compile_task_def ty by (simp only: bindE_eq_Inr py_str.simps) force
  from assms(2) obtain c' risk where r: "roles = add_reviewers risk
         (if ty \<in> {''code_audit'', ''bug_fix'', ''code_refactor''} then code_roles c'
          else if ty = ''test_generation'' then test_roles
          else if ty \<in> {''research'', ''web_research''} then research_roles c'
          else if ty = ''data_analysis'' then data_roles
          else if ty \<in> {''multi_node'', ''distributed''} then distributed_roles
          else default_roles)"
    unfolding generate_roles_def ty by (simp only: bindE_eq_Inr py_str.simps) auto
  let ?cap = "if ty \<in> {''code_audit'', ''bug_fix'', ''code_refactor'', ''test_generation''} then ''code_analysis'' else ''planning''"
  have "asks_for g' ?cap"
    using assms(4) g' by (elim insertE emptyE) (auto simp: compiled_asks)
  moreover have "lacks roles ?cap"
    using assms(4) unfolding r by (elim insertE emptyE) (auto intro!: lacks_reviewers base_lacks)
  ultimately show ?thesis unfolding asks_for_def lacks_def g by blast
qed

lemma roles_do_not_cover_graph_witness:
  "\<exists>g roles cap. compile_task [(''task_type'', JStr ''research'')] = Inr g \<and> generate_roles [(''task_type'', JStr ''research'')] = Inr roles \<and>
    (\<exists>node \<in> set (map snd (dag_nodes g)). tn_required_capabilities node = jstrs [cap] \<and>
      (\<forall>r \<in> set roles. cap \<notin> set (ar_required_capabilities r)))"
proof -
  obtain g where g: "compile_task [(''task_type'', JStr ''research'')] = Inr g"
    by (simp add: compile_task_def dict_get_or_def)
  obtain roles where r: "generate_roles [(''task_type'', JStr ''research'')] = Inr roles"
    by (simp add: generate_roles_def dict_get_or_def)
  from roles_do_not_cover_graph [OF g r, of "''research''"] g r show ?thesis by auto
qed

section \<open>Assignments\<close>

lemma best_of_spec:
  "best_of weigh explain ps b0 = Inr b \<Longrightarrow>
    (\<forall>p \<in> set ps. \<exists>m n s. weigh p = Inr (m, n, s) \<and> s \<le> as_score b) \<and> as_score b0 \<le> as_score b \<and> as_role_id b = as_role_id b0 \<and>
    (b = b0 \<or> (\<exists>p \<in> set ps. weigh p = Inr (as_model_id b, as_node_id b, as_score b)))"
proof (induction ps arbitrary: b0)
  case (Cons p ps)
  from Cons.prems obtain m n s where w: "weigh p = Inr (m, n, s)" by (auto simp: bindE_eq_Inr)
  let ?b = "if s > as_score b0 then \<lparr>as_role_id = as_role_id b0, as_model_id = m, as_node_id = n, as_score = s,
      as_reasoning = explain p s, as_alternatives = []\<rparr> else b0"
  from Cons.prems w have "best_of weigh explain ps ?b = Inr b" by simp
  note ih = Cons.IH [OF this]
  have b: "as_score b0 \<le> as_score ?b" "s \<le> as_score ?b" "as_role_id ?b = as_role_id b0" by auto
  have "b = b0 \<or> (\<exists>q \<in> set (p # ps). weigh q = Inr (as_model_id b, as_node_id b, as_score b))"
  proof (cases "b = ?b")
    case True
    then show ?thesis using w by (cases "s > as_score b0") auto
  qed (use ih in auto)
  moreover have "\<exists>m n s. weigh p = Inr (m, n, s) \<and> s \<le> as_score b" using w b(2) ih by auto
  ultimately show ?case using ih b(1,3) by auto
qed simp

text \<open>
  C37: An assignment is the best one: no pair of a model and a node scores higher, after the penalties
  for what earlier roles use, and it is one of the pairs, unless no pair scores above the starting
  value, when it names neither a model nor a node.
\<close>

theorem assignment_is_best:
  assumes "best_fit explain role models nodes task previous = Inr a"
  shows "as_role_id a = ar_role_id role \<and>
    (\<forall>m \<in> set models. \<forall>n \<in> set nodes. \<exists>i j s. weigh_pair role task previous (m, n) = Inr (i, j, s) \<and> s \<le> as_score a) \<and>
    (as_score a = - 1 \<and> as_model_id a = [] \<and> as_node_id a = [] \<or>
     (\<exists>m \<in> set models. \<exists>n \<in> set nodes. weigh_pair role task previous (m, n) = Inr (as_model_id a, as_node_id a, as_score a)))"
proof -
  let ?b0 = "\<lparr>as_role_id = ar_role_id role, as_model_id = [], as_node_id = [], as_score = - 1, as_reasoning = [], as_alternatives = []\<rparr>"
  from assms obtain b alts where
    b: "best_of (weigh_pair role task previous) (explain role) (all_pairs models nodes) ?b0 = Inr b" "a = b\<lparr>as_alternatives := alts\<rparr>"
    by (auto simp: best_fit_def bindE_eq_Inr)
  have pairs: "(m, n) \<in> set (all_pairs models nodes) \<longleftrightarrow> m \<in> set models \<and> n \<in> set nodes" for m n
    by (auto simp: all_pairs_def)
  from best_of_spec [OF b(1)] have
    le: "\<And>m n. m \<in> set models \<Longrightarrow> n \<in> set nodes \<Longrightarrow> \<exists>i j s. weigh_pair role task previous (m, n) = Inr (i, j, s) \<and> s \<le> as_score b"
    and role: "as_role_id b = ar_role_id role"
    and one: "b = ?b0 \<or> (\<exists>p \<in> set (all_pairs models nodes). weigh_pair role task previous p = Inr (as_model_id b, as_node_id b, as_score b))"
    using pairs by auto
  from one have "as_score b = - 1 \<and> as_model_id b = [] \<and> as_node_id b = [] \<or>
     (\<exists>m \<in> set models. \<exists>n \<in> set nodes. weigh_pair role task previous (m, n) = Inr (as_model_id b, as_node_id b, as_score b))"
  proof
    assume "\<exists>p \<in> set (all_pairs models nodes). weigh_pair role task previous p = Inr (as_model_id b, as_node_id b, as_score b)"
    then obtain m n where "(m, n) \<in> set (all_pairs models nodes)"
        "weigh_pair role task previous (m, n) = Inr (as_model_id b, as_node_id b, as_score b)" by auto
    then show ?thesis using pairs by blast
  qed simp
  with le role show ?thesis unfolding b(2) by simp
qed

text \<open>Two models alike, of which an earlier role uses the first\<close>

definition a_model :: "string \<Rightarrow> jobj" where
  "a_model i = [(''model_id'', JStr i), (''status'', JStr ''healthy''), (''capabilities'', JStr ''code_generation'')]"

definition a_node :: jobj where
  "a_node = [(''node_id'', JStr ''n''), (''free_memory_mb'', JInt 1024)]"

definition first_assignment :: assignment where
  "first_assignment = \<lparr>as_role_id = ''role_a'', as_model_id = ''m1'', as_node_id = ''n'', as_score = 1, as_reasoning = [], as_alternatives = []\<rparr>"

lemma a_score: "score_fit (make_role ''code_worker'' r) (a_model i) a_node [] = Inr (1243 / 1500)"
  by (simp add: score_fit_def a_model_def a_node_def make_role_def ROLE_TEMPLATES_def code_worker_template_def plain_template_def
      dict_get_or_def rd_int_def rd_float_def get_or_def capability_score_def weighted_sum_def)

lemma a_weight: "weigh_pair (make_role ''code_worker'' r) [] previous (a_model i, a_node) =
    Inr (i, ''n'', penalized previous i ''n'' (1243 / 1500))"
  by (simp add: weigh_pair_def a_score) (simp add: a_model_def a_node_def dict_get_or_def)

lemma second_assignment:
  "\<exists>a. best_fit (\<lambda>_ _ _. []) (make_role ''code_worker'' ''b'') [a_model ''m1'', a_model ''m2''] [a_node] [] [first_assignment] = Inr a \<and>
    as_model_id a = ''m2'' \<and> map (\<lambda>d. dict_get d ''model_id'') (as_alternatives a) = [Some (JStr ''m2'')]"
  by (simp add: best_fit_def all_pairs_def a_weight penalized_def first_assignment_def alternative_def a_score)
    (simp add: a_model_def dict_get_or_def)

theorem assignment_is_best_witness:
  "\<exists>a. best_fit (\<lambda>_ _ _. []) (make_role ''code_worker'' ''b'') [a_model ''m1'', a_model ''m2''] [a_node] [] [first_assignment] = Inr a \<and>
    as_model_id a = ''m2'' \<and> as_role_id a = ''role_b''"
proof -
  from second_assignment obtain a where
    a: "best_fit (\<lambda>_ _ _. []) (make_role ''code_worker'' ''b'') [a_model ''m1'', a_model ''m2''] [a_node] [] [first_assignment] = Inr a"
      "as_model_id a = ''m2''" by blast
  from assignment_is_best [OF a(1)] a show ?thesis by auto
qed

text \<open>The alternatives do not depend on what earlier roles use, although the choice does.\<close>

lemma alternatives_ignore_choice:
  assumes "best_fit explain role models nodes task previous = Inr a" "best_fit explain role models nodes task previous' = Inr a'"
  shows "as_alternatives a = as_alternatives a'"
  using assms by (auto simp: best_fit_def bindE_eq_Inr)

end
