(* ===== verification/Orch_Decisions.thy ===== *)
theory Orch_Decisions
  imports Orch_Graph
begin

text \<open>
  Decisions about what agents have done (\<open>nous_runtime/orchestration/arbitration.py\<close>, \<open>credit.py\<close>,
  \<open>replanning.py\<close>): arbitration between outputs, credit and Shapley values, and replanning. Floats are
  exact rationals. The text of a container (\<open>str(output)\<close>), formatted floats, the identity of an object,
  the shuffles of the random generator and the value of a coalition are arguments.
\<close>

section \<open>Arbitration\<close>

record arbitration_decision =
  ad_decision_id :: string
  ad_winner :: string
  ad_reason :: string
  ad_method :: string
  ad_confidence :: rat
  ad_rejected_reasons :: "(string, string) dict"
  ad_escalated :: bool
  ad_escalation_reason :: string

definition new_decision :: "string \<Rightarrow> arbitration_decision" where
  "new_decision i = \<lparr>ad_decision_id = ''arb_'' @ i, ad_winner = [], ad_reason = [], ad_method = [], ad_confidence = 0,
     ad_rejected_reasons = [], ad_escalated = False, ad_escalation_reason = []\<rparr>"

text \<open>\<open>max(.., key=..)\<close> and \<open>min(.., key=..)\<close>: the first of the largest or smallest.\<close>

fun first_max :: "('a \<Rightarrow> 'b :: linorder) \<Rightarrow> 'a \<Rightarrow> 'a list \<Rightarrow> 'a" where
  "first_max f best [] = best"
| "first_max f best (x # xs) = first_max f (if f x > f best then x else best) xs"

fun first_min :: "('a \<Rightarrow> 'b :: linorder) \<Rightarrow> 'a \<Rightarrow> 'a list \<Rightarrow> 'a" where
  "first_min f best [] = best"
| "first_min f best (x # xs) = first_min f (if f x < f best then x else best) xs"

definition passes :: "jobj \<Rightarrow> bool" where
  "passes verif \<longleftrightarrow> py_truthy (dict_get_or verif ''deterministic_pass'' JNull) \<and> py_truthy (dict_get_or verif ''no_errors'' JNull)"

definition reject_others :: "string \<Rightarrow> (string \<Rightarrow> bool) \<Rightarrow> string list \<Rightarrow> (string, string) dict" where
  "reject_others reason P roles = map (\<lambda>r. (r, reason)) (filter P roles)"

definition by_tests :: "string list \<Rightarrow> (string, jobj) dict \<Rightarrow> arbitration_decision \<Rightarrow> arbitration_decision option" where
  "by_tests roles verifications decision =
     map_option (\<lambda>(role, _). decision\<lparr>ad_winner := role, ad_reason := ''Deterministic tests pass'', ad_method := ''deterministic_test'',
         ad_confidence := 95 / 100, ad_rejected_reasons := reject_others ''Failed deterministic verification'' (\<lambda>r. r \<noteq> role) roles\<rparr>)
       (List.find (\<lambda>(_, verif). passes verif) verifications)"

text \<open>
  The strengths are compared with each other and with half again as much as the second: anything but
  a number raises.
\<close>

fun raw_strength :: "json \<Rightarrow> pyexn + rat" where
  "raw_strength (JInt n) = Inr (of_int n)"
| "raw_strength (JFloat q) = Inr q"
| "raw_strength (JBool b) = Inr (of_bool b)"
| "raw_strength _ = Inl (TypeError ''strength'')"

definition strengths :: "(string, jobj) dict \<Rightarrow> pyexn + (string, rat) dict" where
  "strengths evidence = mapE (\<lambda>(r, e). bindE (raw_strength (dict_get_or e ''strength'' (JInt 0))) (\<lambda>s. Inr (r, s))) evidence"

definition clear_winner :: "(string, rat) dict \<Rightarrow> (string \<times> rat \<times> rat) option" where
  "clear_winner ss = (case ss of
     [] \<Rightarrow> None
   | s # rest \<Rightarrow>
       let (best_role, best_strength) = first_max snd s rest;
           others = map snd (filter (\<lambda>(r, _). r \<noteq> best_role) ss);
           second_best = (case others of [] \<Rightarrow> 0 | x # xs \<Rightarrow> first_max id x xs)
       in if best_strength > second_best * (15 / 10) then Some (best_role, best_strength, second_best) else None)"

definition by_evidence :: "(rat \<Rightarrow> string) \<Rightarrow> (string, jobj) dict \<Rightarrow> arbitration_decision \<Rightarrow> pyexn + arbitration_decision option" where
  "by_evidence fl2 evidence decision =
     bindE (strengths evidence) (\<lambda>ss. Inr (map_option (\<lambda>(role, best, second).
       decision\<lparr>ad_winner := role, ad_reason := ''Stronger evidence (strength='' @ fl2 best @ '' vs '' @ fl2 second @ '')'',
         ad_method := ''evidence_comparison'', ad_confidence := 7 / 10\<rparr>) (clear_winner ss)))"

definition by_completeness :: "(json \<Rightarrow> string) \<Rightarrow> (string, json) dict \<Rightarrow> arbitration_decision \<Rightarrow> arbitration_decision option" where
  "by_completeness text outputs decision = (case map (\<lambda>(r, out). (r, length (text out))) outputs of
     [] \<Rightarrow> None
   | l # rest \<Rightarrow>
       let (best_role, longest) = first_max snd l rest; (_, shortest) = first_min snd l rest in
       if (of_nat longest :: rat) > of_nat shortest * (15 / 10)
       then Some (decision\<lparr>ad_winner := best_role, ad_reason := ''More complete output'', ad_method := ''output_completeness'',
         ad_confidence := 5 / 10\<rparr>)
       else None)"

definition escalate_to_human :: "string list \<Rightarrow> arbitration_decision \<Rightarrow> arbitration_decision" where
  "escalate_to_human roles decision =
     decision\<lparr>ad_escalated := True, ad_escalation_reason := ''Automated arbitration could not resolve conflict'',
       ad_method := ''human_escalation'', ad_confidence := 0, ad_rejected_reasons := reject_others ''Requires human review'' (\<lambda>_. True) roles\<rparr>"

text \<open>\<open>None\<close> and the empty dictionary are alike for the optional arguments, which are empty here when not given.\<close>

definition arbitrate :: "string \<Rightarrow> (json \<Rightarrow> string) \<Rightarrow> (rat \<Rightarrow> string) \<Rightarrow> (string, json) dict \<Rightarrow> (string, jobj) dict \<Rightarrow> (string, jobj) dict \<Rightarrow>
    pyexn + arbitration_decision" where
  "arbitrate ident text fl2 outputs verifications evidence =
     (let decision = new_decision ident; roles = map fst outputs in
      if length roles < 2
      then Inr (decision\<lparr>ad_winner := (case roles of [] \<Rightarrow> [] | r # _ \<Rightarrow> r), ad_reason := ''No conflict (single output)'',
        ad_method := ''no_conflict'', ad_confidence := 1\<rparr>)
      else case by_tests roles verifications decision of
        Some d \<Rightarrow> Inr d
      | None \<Rightarrow> bindE (by_evidence fl2 evidence decision) (\<lambda>ev. case ev of
          Some d \<Rightarrow> Inr d
        | None \<Rightarrow> (case by_completeness text outputs decision of
            Some d \<Rightarrow> Inr d
          | None \<Rightarrow> Inr (escalate_to_human roles decision))))"

section \<open>Credit\<close>

record credit_report =
  ct_task_id :: string
  ct_overall_success :: bool
  ct_agent_contributions :: "(string, rat) dict"
  ct_proposal_credit :: "(string, rat) dict"
  ct_implementation_credit :: "(string, rat) dict"
  ct_error_attributions :: "(string, rat) dict"
  ct_verification_credit :: "(string, rat) dict"
  ct_recovery_credit :: "(string, rat) dict"
  ct_communication_overhead :: rat
  ct_wasted_work :: "(string, rat) dict"
  ct_discovered_failures :: "string list"
  ct_method :: string
  ct_confidence :: rat

definition new_report :: "string \<Rightarrow> bool \<Rightarrow> credit_report" where
  "new_report task_id success = \<lparr>ct_task_id = task_id, ct_overall_success = success, ct_agent_contributions = [],
     ct_proposal_credit = [], ct_implementation_credit = [], ct_error_attributions = [], ct_verification_credit = [],
     ct_recovery_credit = [], ct_communication_overhead = 0, ct_wasted_work = [], ct_discovered_failures = [],
     ct_method = ''difference_rewards'', ct_confidence = 0\<rparr>"

fun py_len :: "json \<Rightarrow> pyexn + nat" where
  "py_len (JList xs) = Inr (length xs)"
| "py_len (JObj kvs) = Inr (length kvs)"
| "py_len (JStr s) = Inr (length s)"
| "py_len _ = Inl (TypeError ''object has no len()'')"

definition flag :: "jobj \<Rightarrow> string \<Rightarrow> bool" where
  "flag outcome k = py_truthy (dict_get_or outcome k JNull)"

definition contribution :: "jobj \<Rightarrow> nat \<Rightarrow> rat" where
  "contribution outcome errors =
     max 0 (min 1 ((if dict_get outcome ''status'' = Some (JStr ''success'') then 4 / 10 else 0) +
       (if dict_get outcome ''verification'' = Some (JStr ''pass'') then 3 / 10 else 0) +
       (if flag outcome ''on_time'' then 1 / 10 else 0) + (if flag outcome ''under_budget'' then 1 / 10 else 0) - of_nat errors * (5 / 100)))"

definition credit_agent :: "(string, jobj) dict \<Rightarrow> string \<Rightarrow> credit_report \<Rightarrow> pyexn + credit_report" where
  "credit_agent outcomes agent report =
     (let outcome = dict_get_or outcomes agent [] in
      bindE (py_len (dict_get_or outcome ''errors'' (JList []))) (\<lambda>errors.
      let passed = dict_get outcome ''verification'' = Some (JStr ''pass''); found = flag outcome ''found_issues'' in
      Inr (report\<lparr>ct_agent_contributions := dict_set agent (contribution outcome errors) (ct_agent_contributions report),
        ct_error_attributions := (if errors > 0 then dict_set agent (min 1 (of_nat errors * (1 / 10))) (ct_error_attributions report)
          else ct_error_attributions report),
        ct_implementation_credit := dict_set agent (if flag outcome ''produced_artifact'' then 8 / 10 else 1 / 10) (ct_implementation_credit report),
        ct_verification_credit := (if passed then dict_set agent 1 (ct_verification_credit report)
          else if found then dict_set agent (7 / 10) (ct_verification_credit report) else ct_verification_credit report),
        ct_discovered_failures := (if \<not> passed \<and> found then ct_discovered_failures report @ [agent @ ''_found_issues'']
          else ct_discovered_failures report),
        ct_recovery_credit := (if flag outcome ''recovered'' then dict_set agent 1 (ct_recovery_credit report) else ct_recovery_credit report)\<rparr>)))"

fun foldE :: "('a \<Rightarrow> 'b \<Rightarrow> pyexn + 'b) \<Rightarrow> 'a list \<Rightarrow> 'b \<Rightarrow> pyexn + 'b" where
  "foldE f [] b = Inr b"
| "foldE f (x # xs) b = bindE (f x b) (foldE f xs)"

definition normalize_contributions :: "(string, rat) dict \<Rightarrow> (string, rat) dict" where
  "normalize_contributions cs = (let total = sum_list (map snd cs) in if total > 0 then map (\<lambda>(a, c). (a, c / total)) cs else cs)"

definition note_waste :: "(string, jobj) dict \<Rightarrow> string \<Rightarrow> (string, rat) dict \<Rightarrow> pyexn + (string, rat) dict" where
  "note_waste outcomes agent wasted =
     (let outcome = dict_get_or outcomes agent [] in
      if dict_get outcome ''work_used'' = Some (JBool False)
      then bindE (py_float (dict_get_or outcome ''effort_fraction'' (JFloat 1))) (\<lambda>x. Inr (dict_set agent x wasted))
      else Inr wasted)"

definition assign_credit :: "string \<Rightarrow> string list \<Rightarrow> (string, jobj) dict \<Rightarrow> bool \<Rightarrow> pyexn + credit_report" where
  "assign_credit task_id agents outcomes success =
     (if agents = [] then Inr (new_report task_id success)
      else bindE (foldE (credit_agent outcomes) agents (new_report task_id success)) (\<lambda>report.
        bindE (foldE (note_waste outcomes) agents []) (\<lambda>wasted.
          Inr (report\<lparr>ct_agent_contributions := normalize_contributions (ct_agent_contributions report), ct_wasted_work := wasted,
            ct_confidence := 6 / 10\<rparr>))))"

section \<open>Shapley values\<close>

text \<open>One shuffle: the agents join one after the other, \<open>before\<close> holds those who have joined.\<close>

fun add_marginals :: "(string set \<Rightarrow> rat) \<Rightarrow> string set \<Rightarrow> rat \<Rightarrow> string list \<Rightarrow> (string, rat) dict \<Rightarrow> (string, rat) dict" where
  "add_marginals v before prev_value [] shapley = shapley"
| "add_marginals v before prev_value (agent # perm) shapley =
     (let coalition = insert agent before in
      add_marginals v coalition (v coalition) perm
        (dict_set agent (dict_get_or shapley agent 0 + (v coalition - prev_value)) shapley))"

definition number_of_permutations :: "string list \<Rightarrow> nat" where
  "number_of_permutations agents = min 100 (2 ^ length agents)"

definition shapley_approximation :: "(nat \<Rightarrow> string list) \<Rightarrow> (string set \<Rightarrow> rat) \<Rightarrow> string list \<Rightarrow> (string, rat) dict" where
  "shapley_approximation shuffle v agents =
     (let n = number_of_permutations agents;
          totals = fold (\<lambda>k. add_marginals v {} 0 (shuffle k)) [0..<n] (fold (\<lambda>a. dict_set a 0) agents [])
      in map (\<lambda>(a, x). (a, x / of_nat n)) totals)"

section \<open>Replanning\<close>

datatype replan_trigger = RT_NODE_OFFLINE | RT_MODEL_FAILURE | RT_COST_OVERRUN | RT_DEADLINE_AT_RISK | RT_BRANCH_FAILED
  | RT_NEW_INFORMATION | RT_VERIFICATION_FAILED | RT_HUMAN_INTERVENTION

record replan_action =
  ra_action_type :: string
  ra_target_node :: string
  ra_reason :: string
  ra_old_value :: json
  ra_new_value :: json
  ra_timestamp :: rat

record replanner =
  re_actions :: "replan_action list"
  re_replan_count :: int

definition new_replanner :: replanner where
  "new_replanner = \<lparr>re_actions = [], re_replan_count = 0\<rparr>"

definition should_replan :: "replan_trigger \<Rightarrow> jobj \<Rightarrow> pyexn + bool" where
  "should_replan trigger context = (case trigger of
     RT_NODE_OFFLINE \<Rightarrow> Inr True | RT_MODEL_FAILURE \<Rightarrow> Inr True | RT_BRANCH_FAILED \<Rightarrow> Inr True
   | RT_COST_OVERRUN \<Rightarrow> bindE (rd_float context ''cost_ratio'' 0) (\<lambda>x. Inr (x > 12 / 10))
   | RT_DEADLINE_AT_RISK \<Rightarrow> bindE (rd_float context ''progress_pct'' 0) (\<lambda>p.
       if p < 50 then bindE (rd_float context ''time_elapsed_pct'' 0) (\<lambda>t. Inr (t > 70)) else Inr False)
   | RT_VERIFICATION_FAILED \<Rightarrow> Inr True
   | RT_NEW_INFORMATION \<Rightarrow> Inr (rd_bool context ''significant_change'' False)
   | RT_HUMAN_INTERVENTION \<Rightarrow> Inr False)"

definition simple_action :: "string \<Rightarrow> string \<Rightarrow> string \<Rightarrow> rat \<Rightarrow> replan_action" where
  "simple_action kind target reason t = \<lparr>ra_action_type = kind, ra_target_node = target, ra_reason = reason,
     ra_old_value = JNull, ra_new_value = JNull, ra_timestamp = t\<rparr>"

text \<open>\<open>node_ids\<close> is what the graph answers, nothing when it has no such method.\<close>

definition replan_actions :: "(rat \<Rightarrow> string) \<Rightarrow> rat \<Rightarrow> replan_trigger \<Rightarrow> string list \<Rightarrow> jobj \<Rightarrow> pyexn + replan_action list" where
  "replan_actions percent t trigger ids context = (case trigger of
     RT_NODE_OFFLINE \<Rightarrow> bindE (py_str (dict_get_or context ''node_id'' (JStr []))) (\<lambda>offline.
       Inr (map (\<lambda>nid. (simple_action ''reassign'' nid (''Node '' @ offline @ '' went offline'') t)
         \<lparr>ra_old_value := JStr offline, ra_new_value := dict_get_or context ''alternative_node'' (JStr ''any_available'')\<rparr>) ids))
   | RT_MODEL_FAILURE \<Rightarrow> bindE (py_str (dict_get_or context ''model_id'' (JStr []))) (\<lambda>failed.
       Inr [(simple_action ''reassign'' ''*'' (''Model '' @ failed @ '' failed'') t)
         \<lparr>ra_old_value := JStr failed, ra_new_value := dict_get_or context ''fallback_model'' (JStr ''any_available'')\<rparr>])
   | RT_BRANCH_FAILED \<Rightarrow> bindE (py_str (dict_get_or context ''branch_id'' (JStr []))) (\<lambda>branch.
       let stop = simple_action ''terminate_branch'' branch ''Branch execution failed'' t; alt = dict_get_or context ''alternative_branch'' JNull in
       if py_truthy alt
       then bindE (py_str alt) (\<lambda>b. Inr [stop, simple_action ''expand_branch'' b ''Expanding speculative alternative'' t])
       else Inr [stop])
   | RT_VERIFICATION_FAILED \<Rightarrow> bindE (py_str (dict_get_or context ''failed_node'' (JStr []))) (\<lambda>n.
       Inr [simple_action ''add_reviewer'' n ''Verification failed, adding adversarial reviewer'' t])
   | RT_COST_OVERRUN \<Rightarrow> bindE (py_float (dict_get_or context ''cost_ratio'' (JInt 0))) (\<lambda>x.
       Inr [simple_action ''reduce_verification'' ''*'' (''Cost at '' @ percent x @ '' of budget'') t])
   | _ \<Rightarrow> Inr [])"

definition replan :: "(rat \<Rightarrow> string) \<Rightarrow> rat \<Rightarrow> replan_trigger \<Rightarrow> string list \<Rightarrow> jobj \<Rightarrow> replanner \<Rightarrow> pyexn + replan_action list \<times> replanner" where
  "replan percent t trigger ids context rp =
     bindE (replan_actions percent t trigger ids context) (\<lambda>actions.
       Inr (actions, \<lparr>re_actions = re_actions rp @ actions, re_replan_count = re_replan_count rp + 1\<rparr>))"

definition replan_history :: "replanner \<Rightarrow> replan_action list" where
  "replan_history rp = re_actions rp"

end
