(* ===== verification/Orch_Decisions_Safety.thy ===== *)
theory Orch_Decisions_Safety
  imports Orch_Decisions "HOL-Library.Multiset"
begin

text \<open>
  What an arbitration rests on, what credit adds up to, and which triggers of a replanning lead to actions.
\<close>

section \<open>Arbitration\<close>













text \<open>Everyone but the first is rejected for failing, also who passed, and the first need not have an output.\<close>

lemma passing_roles_rejected:
  "\<exists>d. arbitrate [] (\<lambda>_. []) (\<lambda>_. []) [(''a'', JNull), (''b'', JNull)]
      [(''c'', [(''deterministic_pass'', JBool True), (''no_errors'', JBool True)]),
       (''a'', [(''deterministic_pass'', JBool True), (''no_errors'', JBool True)])] [] = Inr d \<and>
    ad_winner d = ''c'' \<and> dict_get (ad_rejected_reasons d) ''a'' = Some ''Failed deterministic verification''"
  by (simp add: arbitrate_def by_tests_def passes_def dict_get_or_def reject_others_def)

section \<open>Credit\<close>

lemma contribution_range: "0 \<le> contribution outcome errors \<and> contribution outcome errors \<le> 1"
  by (simp add: contribution_def)

definition unit_values :: "(string, rat) dict \<Rightarrow> bool" where
  "unit_values d \<longleftrightarrow> (\<forall>x \<in> set (map snd d). 0 \<le> x \<and> x \<le> 1)"

lemma unit_values_set: "unit_values d \<Longrightarrow> 0 \<le> x \<Longrightarrow> x \<le> 1 \<Longrightarrow> unit_values (dict_set k x d)"
  unfolding unit_values_def dict_set_def by (induction d) auto

lemma foldE_invariant:
  assumes "foldE f xs b = Inr b'" "P b" "\<And>x b b'. f x b = Inr b' \<Longrightarrow> P b \<Longrightarrow> P b'"
  shows "P b'"
  using assms(1,2) by (induction xs arbitrary: b) (auto simp: bindE_eq_Inr intro: assms(3))

lemma credit_agent_units:
  "credit_agent outcomes a r = Inr r' \<Longrightarrow> unit_values (ct_agent_contributions r) \<Longrightarrow> unit_values (ct_agent_contributions r')"
  by (auto simp: credit_agent_def Let_def bindE_eq_Inr intro!: unit_values_set simp: contribution_range)

lemma credit_agent_keys:
  "credit_agent outcomes a r = Inr r' \<Longrightarrow> fst ` set (ct_agent_contributions r') = insert a (fst ` set (ct_agent_contributions r))"
proof -
  assume "credit_agent outcomes a r = Inr r'"
  then obtain x where "ct_agent_contributions r' = dict_set a x (ct_agent_contributions r)"
    by (auto simp: credit_agent_def Let_def bindE_eq_Inr)
  then show ?thesis by (simp add: dict_set_def dom_update)
qed

lemma foldE_credit_keys:
  "foldE (credit_agent outcomes) agents r = Inr r' \<Longrightarrow>
    fst ` set (ct_agent_contributions r') = set agents \<union> fst ` set (ct_agent_contributions r)"
proof (induction agents arbitrary: r)
  case (Cons a agents)
  then obtain r1 where "credit_agent outcomes a r = Inr r1" "foldE (credit_agent outcomes) agents r1 = Inr r'"
    by (auto simp: bindE_eq_Inr)
  with Cons.IH [of r1] credit_agent_keys [of outcomes a r r1] show ?case by auto
qed simp

lemma sum_units: "unit_values d \<Longrightarrow> (\<forall>x \<in> set (map snd d). x \<le> sum_list (map snd d)) \<and> 0 \<le> sum_list (map snd d)"
proof (induction d)
  case (Cons p d)
  then have ih: "\<forall>x \<in> set (map snd d). x \<le> sum_list (map snd d)" "0 \<le> sum_list (map snd d)" and p: "0 \<le> snd p"
    by (auto simp: unit_values_def)
  show ?case
  proof
    show "\<forall>x \<in> set (map snd (p # d)). x \<le> sum_list (map snd (p # d))"
    proof
      fix x assume "x \<in> set (map snd (p # d))"
      then consider "x = snd p" | "x \<in> set (map snd d)" by auto
      then show "x \<le> sum_list (map snd (p # d))"
      proof cases
        case 2
        with ih(1) have "x \<le> sum_list (map snd d)" by blast
        with p show ?thesis by simp
      qed (use ih(2) in simp)
    qed
    show "0 \<le> sum_list (map snd (p # d))" using p ih(2) by simp
  qed
qed simp

lemma sum_scaled: "sum_list (map snd (map (\<lambda>(a, c). (a, c / t)) d)) = sum_list (map snd d) / (t :: rat)"
  by (induction d) (auto simp: add_divide_distrib)

lemma normalize_units:
  assumes "unit_values d"
  shows "unit_values (normalize_contributions d) \<and> (sum_list (map snd (normalize_contributions d)) = 1 \<or> (\<forall>x \<in> set (map snd (normalize_contributions d)). x = 0))"
proof (cases "0 < sum_list (map snd d)")
  case True
  let ?t = "sum_list (map snd d)"
  have n: "normalize_contributions d = map (\<lambda>(a, c). (a, c / ?t)) d" using True by (simp add: normalize_contributions_def Let_def)
  have "0 \<le> c / ?t \<and> c / ?t \<le> 1" if "(a, c) \<in> set d" for a c
  proof -
    have c: "c \<in> set (map snd d)" using that by force
    then have "c \<le> ?t" "0 \<le> c" using sum_units [OF assms] assms unfolding unit_values_def by blast+
    then show ?thesis using True by simp
  qed
  then have "unit_values (normalize_contributions d)" unfolding unit_values_def n by fastforce
  moreover have "sum_list (map snd (normalize_contributions d)) = 1" unfolding n sum_scaled using True by simp
  ultimately show ?thesis by blast
next
  case False
  then have "sum_list (map snd d) = 0" using sum_units [OF assms] by auto
  then have "x = 0" if "x \<in> set (map snd d)" for x
    using sum_units [OF assms] assms that unfolding unit_values_def by force
  then show ?thesis using False assms by (simp add: normalize_contributions_def Let_def)
qed

text \<open>
  C39: The contributions of the agents are shares: each lies between 0 and 1, exactly the agents have one,
  and together they are 1, unless nobody has contributed anything, when all are 0.
\<close>

theorem contributions_are_shares:
  assumes "assign_credit task_id agents outcomes success = Inr report"
  shows "fst ` set (ct_agent_contributions report) = set agents \<and> unit_values (ct_agent_contributions report) \<and>
    (sum_list (map snd (ct_agent_contributions report)) = 1 \<or> (\<forall>x \<in> set (map snd (ct_agent_contributions report)). x = 0))"
proof (cases "agents = []")
  case True
  then show ?thesis using assms by (auto simp: assign_credit_def new_report_def unit_values_def)
next
  case False
  with assms obtain r where r: "foldE (credit_agent outcomes) agents (new_report task_id success) = Inr r"
    "ct_agent_contributions report = normalize_contributions (ct_agent_contributions r)"
    by (auto simp: assign_credit_def bindE_eq_Inr)
  have "unit_values (ct_agent_contributions r)"
    by (rule foldE_invariant [OF r(1)]) (auto simp: new_report_def unit_values_def [of "[]"] intro: credit_agent_units)
  note shares = normalize_units [OF this]
  have "fst ` set (ct_agent_contributions r) = set agents" using foldE_credit_keys [OF r(1)] by (simp add: new_report_def)
  moreover have "fst ` set (normalize_contributions d) = fst ` set d" for d :: "(string, rat) dict"
    by (auto simp: normalize_contributions_def Let_def image_image case_prod_beta)
  ultimately show ?thesis using shares r(2) by simp
qed

text \<open>What the module says never happens: the last agent gets all the credit.\<close>

lemma last_agent_takes_all:
  "\<exists>r. assign_credit [] [''planner'', ''coder''] [(''planner'', [(''work_used'', JBool True)]), (''coder'', [(''status'', JStr ''success'')])] True = Inr r \<and>
    ct_agent_contributions r = [(''planner'', 0), (''coder'', 1)]"
  by (simp add: assign_credit_def credit_agent_def note_waste_def dict_get_or_def new_report_def contribution_def flag_def
      normalize_contributions_def Let_def dict_set_def)

theorem contributions_are_shares_witness:
  "\<exists>r. assign_credit [] [''planner'', ''coder''] [(''planner'', [(''work_used'', JBool True)]), (''coder'', [(''status'', JStr ''success'')])] True = Inr r \<and>
    fst ` set (ct_agent_contributions r) = {''planner'', ''coder''} \<and> unit_values (ct_agent_contributions r)"
  using last_agent_takes_all contributions_are_shares by fastforce

section \<open>Shapley values\<close>

lemma sum_dict_set:
  "sum_list (map snd (dict_set a (dict_get_or d a 0 + x) d)) = sum_list (map snd d) + (x :: rat)"
  unfolding dict_set_def dict_get_or_def dict_get_def by (induction d) (auto split: option.split)

lemma sum_add_marginals:
  "perm \<noteq> [] \<Longrightarrow> sum_list (map snd (add_marginals v S p perm d)) = sum_list (map snd d) + (v (S \<union> set perm) - p)"
proof (induction perm arbitrary: S p d)
  case (Cons a perm)
  let ?d = "dict_set a (dict_get_or d a 0 + (v (insert a S) - p)) d"
  show ?case
  proof (cases "perm = []")
    case False
    then show ?thesis using Cons.IH [of "insert a S" "v (insert a S)" ?d] by (simp add: Let_def sum_dict_set)
  qed (simp add: Let_def sum_dict_set)
qed simp

lemma null_marginals:
  assumes "\<And>S. v (insert a S) = v S"
  shows "p = v S \<Longrightarrow> dict_get_or (add_marginals v S p perm d) a 0 = dict_get_or d a (0 :: rat)"
proof (induction perm arbitrary: S p d)
  case (Cons b perm)
  let ?d = "dict_set b (dict_get_or d b 0 + (v (insert b S) - p)) d"
  have "dict_get_or ?d a 0 = dict_get_or d a 0" using assms Cons.prems by (auto simp: dict_get_or_def)
  then show ?case using Cons.IH [of "v (insert b S)" "insert b S" ?d] by (simp add: Let_def)
qed simp

lemma sum_rounds:
  assumes "\<forall>k \<in> set ks. shuffle k \<noteq> [] \<and> set (shuffle k) = A"
  shows "sum_list (map snd (fold (\<lambda>k. add_marginals v {} 0 (shuffle k)) ks d)) = sum_list (map snd d) + of_nat (length ks) * (v A :: rat)"
  using assms by (induction ks arbitrary: d) (auto simp: sum_add_marginals algebra_simps)

lemma sum_all_zero: "\<forall>x \<in> set (map snd d). x = 0 \<Longrightarrow> sum_list (map snd d) = (0 :: rat)"
  by (induction d) auto

lemma sum_zeros: "sum_list (map snd (fold (\<lambda>a. dict_set a 0) agents d)) = (sum_list (map snd d) :: rat)" if "\<forall>x \<in> set (map snd d). x = 0"
  using that
proof (induction agents arbitrary: d)
  case (Cons a agents)
  have keep: "\<forall>x \<in> set (map snd (dict_set a 0 d)). x = 0" using Cons.prems unfolding dict_set_def by (induction d) auto
  show ?case using Cons.IH [OF keep] sum_all_zero [OF keep] sum_all_zero [OF Cons.prems] by simp
qed simp

text \<open>
  C40: If there are agents, then however they are shuffled, their approximated Shapley values add up to
  the value of all of them together; and if the empty coalition has the value 0, from which the code
  starts, an agent that adds nothing to any coalition gets nothing.
\<close>

theorem shapley_values_are_efficient:
  assumes "agents \<noteq> []" "\<And>k. mset (shuffle k) = mset agents"
  shows "sum_list (map snd (shapley_approximation shuffle v agents)) = v (set agents) \<and>
    (\<forall>a. v {} = 0 \<and> (\<forall>S. v (insert a S) = v S) \<longrightarrow> dict_get_or (shapley_approximation shuffle v agents) a 0 = 0)"
proof
  let ?n = "number_of_permutations agents"
  let ?zero = "fold (\<lambda>a. dict_set a 0) agents [] :: (string, rat) dict"
  let ?totals = "fold (\<lambda>k. add_marginals v {} 0 (shuffle k)) [0..<?n] ?zero"
  have shape: "shapley_approximation shuffle v agents = map (\<lambda>(a, x). (a, x / of_nat ?n)) ?totals"
    by (simp add: shapley_approximation_def Let_def)
  have n: "0 < ?n" by (simp add: number_of_permutations_def)
  have "\<forall>k \<in> set [0..<?n]. shuffle k \<noteq> [] \<and> set (shuffle k) = set agents"
    using assms mset_eq_setD mset_zero_iff by metis
  from sum_rounds [OF this, of v ?zero] have "sum_list (map snd ?totals) = of_nat ?n * v (set agents)" by (simp add: sum_zeros)
  then show "sum_list (map snd (shapley_approximation shuffle v agents)) = v (set agents)"
    unfolding shape sum_scaled using n by simp
  show "\<forall>a. v {} = 0 \<and> (\<forall>S. v (insert a S) = v S) \<longrightarrow> dict_get_or (shapley_approximation shuffle v agents) a 0 = 0"
  proof (intro allI impI)
    fix a assume null: "v {} = 0 \<and> (\<forall>S. v (insert a S) = v S)"
    have zero: "dict_get_or (fold (\<lambda>a. dict_set a 0) as d) a 0 = (0 :: rat)" if "dict_get_or d a 0 = 0" for as and d :: "(string, rat) dict"
      using that by (induction as arbitrary: d) (auto simp: dict_get_or_def)
    have "dict_get_or (fold (\<lambda>k. add_marginals v {} 0 (shuffle k)) ks d) a 0 = dict_get_or d a 0" for ks d
      using null by (induction ks arbitrary: d) (auto simp: null_marginals)
    then have t: "dict_get_or ?totals a 0 = 0" by (simp add: zero dict_get_or_def [of "[]"])
    show "dict_get_or (shapley_approximation shuffle v agents) a 0 = 0"
      using t unfolding shape dict_get_or_def dict_get_map by (auto split: option.splits)
  qed
qed

theorem shapley_values_are_efficient_witness:
  "sum_list (map snd (shapley_approximation (\<lambda>k. if even k then [''a'', ''b''] else [''b'', ''a'']) (\<lambda>S. of_nat (card S)) [''a'', ''b''])) = 2"
proof -
  have "mset (if even k then [''a'', ''b''] else [''b'', ''a'']) = mset [''a'', ''b'']" for k :: nat by (simp add: add_mset_commute)
  from shapley_values_are_efficient [OF _ this, where v = "\<lambda>S. of_nat (card S)"] show ?thesis by simp
qed

section \<open>Replanning\<close>

text \<open>
  A trigger that replanning has no answer to is counted and leaves no action, although for two of them
  \<open>should_replan\<close> may have said that it is needed.
\<close>

lemma replan_without_action:
  assumes "trigger \<in> {RT_DEADLINE_AT_RISK, RT_NEW_INFORMATION, RT_HUMAN_INTERVENTION}"
  shows "replan percent t trigger ids context rp = Inr ([], rp\<lparr>re_replan_count := re_replan_count rp + 1\<rparr>)"
  using assms by (auto simp: replan_def replan_actions_def)

lemma deadline_replans_to_nothing:
  "should_replan RT_DEADLINE_AT_RISK [(''progress_pct'', JInt 10), (''time_elapsed_pct'', JInt 90)] = Inr True"
  by (simp add: should_replan_def rd_float_def get_or_def)

text \<open>The history is the actions of all replannings, in their order.\<close>

lemma replan_history_grows:
  "replan percent t trigger ids context rp = Inr (actions, rp') \<Longrightarrow>
    replan_history rp' = replan_history rp @ actions \<and> re_replan_count rp' = re_replan_count rp + 1"
  by (auto simp: replan_def bindE_eq_Inr replan_history_def)

end
