(* ===== verification/Spec2Isabelle.thy ===== *)
theory Spec2Isabelle
  imports Prelude Py_Json Py_Text Py_Datetime Kernel_Object Kernel_State_Machine Kernel_Task Kernel_Registry
    Agent_Process Planner_Plan Planner_Graph Planner_Schedule Planner_Dispatch Planner_Progress
    Reliability_Models Reliability_Circuit Reliability_Retry Reliability_Fallback
    Core_Redaction Capability_Contract Workflow_Models Workflow_Compiler
    Workflow_Store Workflow_Store_Proofs Workflow_Store_Safety
    Workflow_Runtime Workflow_Runtime_Proofs Workflow_Runtime_Safety
    Governance_Contracts Governance_Policy Governance_Store Governance_Gate Governance_Broker
    Governance_Operation Governance_Proofs Governance_Steps Governance_Demo Governance_Safety
    Governance_Decisions
    Context_Pages Context_Pager Context_Vm Context_Safety Event_Bus Event_Bus_Safety
    Agent_Plan Agent_Session Agent_Coordination Agent_Coordination_Safety
    Orch_Artifacts Orch_Artifacts_Safety Orch_Graph Orch_Graph_Safety Orch_Roles Orch_Roles_Safety
    Orch_Decisions Orch_Decisions_Safety
begin

text \<open>
  A verification library for the core of the Apeir runtime (\<open>src/nous_runtime\<close>).

  \<^bold>\<open>The program.\<close> Apeir runs tasks for language-model agents. A kernel keeps objects with audited
  state machines; agents are processes with capabilities and budgets; a planner turns a plan into
  a graph of tasks, schedules it in waves and dispatches each task to a capability; a reliability
  layer stands between the runtime and unreliable models (circuit breakers, retries, fallbacks);
  the workflow engine runs durable, resumable graphs of steps with approvals, compensation and
  bindings of data between steps, on a transactional store; the governance layer decides what a
  capability may do and who approves it, with leases, grants and a chained audit log.

  \<^bold>\<open>Foundations.\<close> \<open>Prelude\<close>: dictionaries in insertion order, errors, lists, and the lemmas shared
  by everything. \<open>Py_Json\<close>, \<open>Py_Text\<close>, \<open>Py_Datetime\<close>: what the program uses of Python: JSON values and
  the readers of their fields, string operations, regular expressions as the places where a match
  can end, \<open>json.dumps\<close>, and ISO 8601 time stamps.

  \<^bold>\<open>Kernel.\<close> \<open>Kernel_Object\<close> (\<open>kernel/object_model.py\<close>, \<open>kernel/error_codes.py\<close>), \<open>Kernel_State_Machine\<close>
  (\<open>kernel/state_machine.py\<close>), \<open>Kernel_Task\<close> (\<open>kernel/task.py\<close>), \<open>Kernel_Registry\<close> (\<open>kernel/registry_base.py\<close>).
  A state machine is a record of its current state and its history; the lemmas show that only
  listed transitions happen, that the history is a chain, that a task completes only through
  verification, and that the indexes of the registry agree with its objects.

  \<^bold>\<open>Agents.\<close> \<open>Agent_Process\<close> (\<open>agent/process_model.py\<close>): lifecycle, capability sets, budgets, children,
  signals. Over anything a family of processes does, none has a capability that the one it stems from
  lacked at the beginning (but a child may keep what its parent loses), and a budget is never overdrawn.

  \<^bold>\<open>Planner.\<close> \<open>Planner_Plan\<close> (\<open>planner/plan.py\<close>), \<open>Planner_Graph\<close> (\<open>planner/graph.py\<close>), \<open>Planner_Schedule\<close>
  (\<open>planner/scheduler.py\<close>), \<open>Planner_Dispatch\<close> (\<open>planner/dispatcher.py\<close>, \<open>planner/observation.py\<close>),
  \<open>Planner_Progress\<close> (\<open>planner/progress.py\<close>). \<open>graph_build\<close> accepts exactly the acyclic plans without
  dangling dependencies; its levels are a topological order; the scheduler covers the plan; the
  dispatcher returns when every task can become ready and not otherwise.

  \<^bold>\<open>Reliability.\<close> \<open>Reliability_Models\<close>, \<open>Reliability_Circuit\<close>, \<open>Reliability_Retry\<close>, \<open>Reliability_Fallback\<close>
  (\<open>intelligence/reliability/*.py\<close>): the window and the state machine of the breaker, the classifier
  of failures, the retry loop with its bounds, and the safety of fallbacks.

  \<^bold>\<open>Workflows.\<close> \<open>Core_Redaction\<close> (\<open>core/redaction.py\<close>) hides credentials in all that is stored.
  \<open>Capability_Contract\<close> (\<open>capability/contract.py\<close>) gives the policy of a handler. \<open>Workflow_Models\<close>,
  \<open>Workflow_Compiler\<close>, \<open>Workflow_Store\<close>, \<open>Workflow_Runtime\<close> follow the files of \<open>workflow/\<close>: the
  compiler validates a definition and builds the graph of \<open>Planner_Graph\<close> from it; the store has
  one function per transaction; the runtime is a function on a world of database, calls and
  events, which calls the compiler, the store and the handlers. \<open>Workflow_Store_Proofs\<close> and
  \<open>Workflow_Store_Safety\<close> hold the invariant \<open>db_ok\<close> of the tables, the abstract versioned registers
  that every transaction refines (\<open>reg_step\<close>), and what holds over every sequence of transactions:
  cancellation is final, updates are not lost, one run per idempotency key.
  \<open>Workflow_Runtime_Proofs\<close> is a small logic on the calls an operation makes (\<open>traces\<close>, \<open>silent\<close>);
  \<open>Workflow_Runtime_Safety\<close> uses it: a step that a crash interrupted is not replayed, retries are
  bounded across restarts, a cancelled run calls nothing, calls follow the dependencies,
  compensation runs in reverse. A process dies inside the call of a handler; one that dies after the
  handler has returned and before the next transaction leaves the same store.

  \<^bold>\<open>Governance.\<close> \<open>Governance_Contracts\<close> (\<open>governance/contracts.py\<close>) has the contracts, their
  dictionaries and the digest of a proposal; \<open>Governance_Policy\<close> (\<open>permission.py\<close>, \<open>constitution.py\<close>,
  \<open>risk_engine.py\<close>, \<open>runtime_mode.py\<close>) what decides without state; \<open>Governance_Store\<close> (\<open>store.py\<close>) the
  tables and one function per transaction; \<open>Governance_Gate\<close> (\<open>approval.py\<close>, \<open>lease.py\<close>,
  \<open>delegation.py\<close>, \<open>gate.py\<close>), \<open>Governance_Broker\<close> (\<open>broker.py\<close>) and \<open>Governance_Operation\<close>
  (\<open>operation_contracts.py\<close>, \<open>operation_gate.py\<close>, the legacy answer of \<open>broker.py\<close>) are the clients
  of the store. \<open>Governance_Proofs\<close> describes what a transaction may do to the tables by the relation
  \<open>change\<close> and states in the locale \<open>governed\<close> what an invariant needs to be kept by it; the
  interpretations are the answers to requests, the books of the leases, the audit chain, growth and
  closed leases. \<open>Governance_Steps\<close> shows that each operation is a sequence of changes and runs
  any sequence of the 26 operations of \<open>gov_op\<close>. \<open>Governance_Safety\<close> has what holds over such
  sequences, \<open>Governance_Decisions\<close> what a single decision of the gates and the broker rests on,
  \<open>Governance_Demo\<close> the concrete environment of the witnesses. The program draws identifiers at random.
  An INSERT under one that is taken raises, and its transaction is rolled back (\<open>in_transaction\<close>) or the
  method answers no; only for the three operations that store a request or a lease with INSERT OR
  REPLACE the hypothesis \<open>new_ids\<close> says that the identifier is new.

  \<^bold>\<open>Context.\<close> \<open>Context_Pages\<close> (\<open>context/page_types.py\<close>), \<open>Context_Pager\<close> (\<open>context/pager.py\<close>),
  \<open>Context_Vm\<close> (\<open>context/vm.py\<close>): pages of context in a cache over a second tier, and the address spaces
  of processes that share a pager. A page is a reference into a list of objects, since the tiers, the
  spaces and the caller hold the same object and \<open>touch\<close> is seen by all of them. \<open>Context_Safety\<close> has
  what the pager does under pressure, what an evicted page comes back as and what sharing does.

  \<^bold>\<open>Events.\<close> \<open>Event_Bus\<close> (\<open>events/bus.py\<close>, \<open>core/events.py\<close>): publication, subscriptions by pattern, the
  queue and the table of events, queries and streaming. A listener is a name, and what it does a
  function on the world of the callers and the bus. \<open>Event_Bus_Safety\<close>: the table grows by appending, in
  the order of publication and without repeated identifiers, only a turn of the worker also deletes
  what is too old; and the pages of a stream follow each other.

  \<^bold>\<open>Plans and sessions of agents.\<close> \<open>Agent_Plan\<close> (\<open>intelligence/planning/*.py\<close>): the plans of the two
  planners and the bridge that compiles them to the workflows of \<open>Workflow_Models\<close>; what is planned is
  accepted by the compiler of \<open>Workflow_Compiler\<close>. \<open>Agent_Session\<close> (\<open>agent/session.py\<close>): the lifecycle of
  a session, its dictionary, and the store, in which it passes through redaction. \<open>Agent_Coordination\<close>
  (\<open>agent/coordination.py\<close>) composes plans, sessions, the workflow runtime and the event bus: a plan is
  compiled, run, and what became of the run decides the state of the session, whose own events come
  back to it through the bus. \<open>Agent_Coordination_Safety\<close> shows with a small logic of operations (\<open>calm\<close>,
  \<open>yields\<close>) that a session which has ended keeps its state and that only failed runs are planned
  again, and that a cancellation between the read and the write of an operation is lost.

  \<^bold>\<open>Orchestration.\<close> \<open>Orch_Artifacts\<close> (\<open>orchestration/contracts.py\<close>, \<open>orchestration/synchronization.py\<close>):
  contracts of artifacts and their registry, write leases, conflicts between outputs.
  \<open>Orch_Artifacts_Safety\<close>: invalidation marks exactly what is derived from an artifact, a valid lease
  keeps all other roles away, versions only grow. \<open>Orch_Graph\<close> (\<open>orchestration/graph.py\<close>): the compiler of
  task graphs. \<open>Orch_Graph_Safety\<close> carries the invariant \<open>topo_inv\<close> through the loop of the topological order:
  the order exists for exactly the sound graphs, the distances computed over it are the lengths of the
  longest chains, and every compiled graph is sound. \<open>Orch_Roles\<close> (\<open>orchestration/roles.py\<close>,
  \<open>orchestration/assignment.py\<close>): the roles generated for a task and the choice of a model and a node for
  each. \<open>Orch_Roles_Safety\<close>: risky tasks are reviewed, an assignment is the best pair after penalties, and
  where roles do not fit the compiled graph. \<open>Orch_Decisions\<close> (\<open>orchestration/arbitration.py\<close>,
  \<open>orchestration/credit.py\<close>, \<open>orchestration/replanning.py\<close>): who wins between outputs, what each agent
  is credited with, Shapley values over the given shuffles, replanning. \<open>Orch_Decisions_Safety\<close>: what each
  verdict rests on, that contributions are shares and that Shapley values add up.

  \<^bold>\<open>Loops.\<close> Loops over data are structural recursion. Loops that may not end
  (\<open>schedule_loop\<close>, \<open>dispatch_loop\<close>) are partial functions with \<open>None\<close> for no result, and what is
  claimed of them is that they return \<open>Some\<close> (or that they never do). \<open>attempts_loop\<close> ends by the
  number of attempts left, the walk over a schema by the size of what is pending. The search for
  cycles has a depth of one more than the number of steps: a path without repetition is not
  longer, so the depth is never used up (\<open>workflow_validation\<close> says so, since its
  reference has no such outcome).

  \<^bold>\<open>Parameters.\<close> Clocks, random identifiers, SHA-256, the text of a float, the package
  \<open>jsonschema\<close>, the shuffles and the value function of the Shapley values, the capability resolver of the dispatcher, the handlers of workflows and of signals
  are arguments. So are, for the governance layer, the capability registry, the files and environment
  it reads, whether SQLite carries a call out, human sessions and the external policy provider
  (\<open>gov_lib\<close>, \<open>gov_env\<close>, \<open>human_env\<close>, \<open>op_gate\<close>), and for the coordination of sessions the planners and
  the event stream of a run. Other threads and processes that use the workflow store are an argument too: a list
  of transactions before every transaction of the runtime.

  \<^bold>\<open>Not modelled.\<close> File locks and SQLite itself (a transaction is atomic and is rolled
  back when it raises); threads inside a wave, except for their transactions; the event stream of a run, log and
  file output; Python's limit on recursion; handlers that change their arguments; values that are
  not JSON. Of \<open>src/nous_runtime\<close>, the packages listed in the manifest as not modelled: network and
  node runtime, model providers, command line, web interface and the HTTP API are mostly input and
  output; of governance the secret backends, human sessions and front ends
  are left out, of agents the runtimes and front ends, of \<open>context\<close> the assembly of prompts. Connectivity
  and \<open>workflow/automation.py\<close> carry logic of their own that is not modelled.
\<close>

end
